(* ===== verification/Prelude.thy ===== *)
theory Prelude
  imports Complex_Main "HOL-Library.Word" "HOL-Library.List_Lexorder" "HOL-Library.Char_ord"
    "HOL-Library.Product_Lexorder" "HOL-Library.AList" "HOL-Library.Multiset"
begin

text \<open>
  Shared vocabulary of the development: Go's machine integers, association lists for the Go
  maps that the code iterates over, stable insertion sort for \<open>slices.SortStableFunc\<close>, and the
  two interfaces that several components rely on: a keyed ledger (a Go map whose values are
  summed) and a capped doubling sequence (the three backoff schedules of the controller).
\<close>

section \<open>Machine integers\<close>

text \<open>Go's \<open>uint64\<close> is a 64-bit word (wrapping \<open>+\<close>, unsigned order); a Go \<open>int64\<close> or
  \<open>int\<close> is an integer, with \<open>wrap64\<close> applied wherever the code computes without a bound.\<close>

type_synonym u64 = "64 word"

definition max_i64 :: int where "max_i64 = 9223372036854775807"
definition min_i64 :: int where "min_i64 = -9223372036854775808"
definition max_u64 :: u64 where "max_u64 = 18446744073709551615"

definition wrap64 :: "int \<Rightarrow> int" where
  "wrap64 x = (x + 9223372036854775808) mod 18446744073709551616 - 9223372036854775808"

definition in_i64 :: "int \<Rightarrow> bool" where
  "in_i64 x \<longleftrightarrow> min_i64 \<le> x \<and> x \<le> max_i64"

text \<open>Go's integer division truncates towards zero.\<close>

definition go_div :: "int \<Rightarrow> int \<Rightarrow> int" where
  "go_div a b = sgn a * sgn b * (\<bar>a\<bar> div \<bar>b\<bar>)"

definition go_mod :: "int \<Rightarrow> int \<Rightarrow> int" where
  "go_mod a b = a - b * go_div a b"

named_theorems i64_simps "facts that evaluate the 64-bit bounds"

lemmas [i64_simps] = max_i64_def min_i64_def in_i64_def

lemma wrap64_id [simp]: "in_i64 x \<Longrightarrow> wrap64 x = x"
  by (simp add: wrap64_def i64_simps)

lemma wrap64_in: "in_i64 (wrap64 x)"
proof -
  have "0 \<le> (x + 9223372036854775808) mod 18446744073709551616"
    and "(x + 9223372036854775808) mod 18446744073709551616 < 18446744073709551616"
    by simp_all
  then show ?thesis by (simp add: wrap64_def i64_simps)
qed

lemma go_div_nonneg: "0 \<le> a \<Longrightarrow> 0 < b \<Longrightarrow> go_div a b = a div b"
  by (cases "a = 0") (simp_all add: go_div_def)

lemma go_mod_nonneg: "0 \<le> a \<Longrightarrow> 0 < b \<Longrightarrow> go_mod a b = a mod b"
  by (simp add: go_mod_def go_div_nonneg minus_mult_div_eq_mod)

lemma unat_add_no_wrap:
  "unat a + unat b < 18446744073709551616 \<Longrightarrow> unat ((a :: u64) + b) = unat a + unat b"
  by (simp add: unat_word_ariths)

section \<open>First error of a list of checks\<close>

text \<open>A validation that returns at its first failing check is the first \<open>Some\<close> of its checks.\<close>

definition check :: "bool \<Rightarrow> 'e \<Rightarrow> 'e option" where
  "check bad e = (if bad then Some e else None)"

fun first_some :: "'e option list \<Rightarrow> 'e option" where
  "first_some [] = None"
| "first_some (Some e # cs) = Some e"
| "first_some (None # cs) = first_some cs"

lemma check_None [simp]: "check b e = None \<longleftrightarrow> \<not> b"
  by (simp add: check_def)

lemma first_some_None [simp]: "first_some cs = None \<longleftrightarrow> (\<forall>c \<in> set cs. c = None)"
  by (induction cs rule: first_some.induct) auto

section \<open>Association lists for Go maps\<close>

text \<open>A Go map that the code iterates over is an association list with distinct keys; lookups,
  stores and deletes are those of the library.\<close>

type_synonym ('k, 'v) amap = "('k \<times> 'v) list"

abbreviation amap_ok :: "('k, 'v) amap \<Rightarrow> bool" where
  "amap_ok m \<equiv> distinct (map fst m)"

abbreviation amap_get :: "('k, 'v) amap \<Rightarrow> 'k \<Rightarrow> 'v option" where
  "amap_get \<equiv> map_of"

abbreviation amap_put :: "'k \<Rightarrow> 'v \<Rightarrow> ('k, 'v) amap \<Rightarrow> ('k, 'v) amap" where
  "amap_put \<equiv> AList.update"

abbreviation amap_del :: "'k \<Rightarrow> ('k, 'v) amap \<Rightarrow> ('k, 'v) amap" where
  "amap_del \<equiv> AList.delete"

lemma amap_put_fresh: "map_of m k = None \<Longrightarrow> AList.update k v m = m @ [(k, v)]"
  by (induction m) (auto split: if_splits)

lemma amap_del_absent: "map_of m k = None \<Longrightarrow> AList.delete k m = m"
  by (simp add: AList.delete_eq map_of_eq_None_iff) (force simp: filter_id_conv)

lemma amap_del_split:
  assumes "map_of m k = Some v" and "distinct (map fst m)"
  shows "mset m = add_mset (k, v) (mset (AList.delete k m))"
  using assms
proof (induction m)
  case Nil
  then show ?case by simp
next
  case (Cons p m)
  show ?case
  proof (cases "fst p = k")
    case True
    with Cons.prems have "p = (k, v)" by (cases p) simp
    moreover from True Cons.prems(2) have "map_of m k = None"
      by (simp add: map_of_eq_None_iff)
    ultimately show ?thesis using True by (simp add: amap_del_absent)
  next
    case False
    with Cons show ?thesis by (cases p) auto
  qed
qed

section \<open>A keyed ledger\<close>

text \<open>
  The interface of a map whose values are summed: what the controller's in-flight table and
  its per-node byte tally promise to the admission checks.
\<close>

locale keyed_ledger =
  fixes get :: "'m \<Rightarrow> 'k \<Rightarrow> 'v option"
    and put :: "'k \<Rightarrow> 'v \<Rightarrow> 'm \<Rightarrow> 'm"
    and del :: "'k \<Rightarrow> 'm \<Rightarrow> 'm"
    and entries :: "'m \<Rightarrow> ('k \<times> 'v) multiset"
    and ok :: "'m \<Rightarrow> bool"
  assumes get_put: "ok m \<Longrightarrow> get (put k v m) = (get m)(k \<mapsto> v)"
    and get_del: "ok m \<Longrightarrow> get (del k m) = (get m)(k := None)"
    and ok_put: "ok m \<Longrightarrow> ok (put k v m)"
    and ok_del: "ok m \<Longrightarrow> ok (del k m)"
    and entries_put_fresh: "ok m \<Longrightarrow> get m k = None \<Longrightarrow> entries (put k v m) = add_mset (k, v) (entries m)"
    and entries_del: "ok m \<Longrightarrow> get m k = Some v \<Longrightarrow> entries m = add_mset (k, v) (entries (del k m))"
begin

lemma total_put_fresh:
  fixes w :: "'k \<times> 'v \<Rightarrow> 'n :: comm_monoid_add"
  assumes "ok m" and "get m k = None"
  shows "(\<Sum>e\<in>#entries (put k v m). w e) = w (k, v) + (\<Sum>e\<in>#entries m. w e)"
  using assms by (simp add: entries_put_fresh)

lemma total_del:
  fixes w :: "'k \<times> 'v \<Rightarrow> 'n :: comm_monoid_add"
  assumes "ok m" and "get m k = Some v"
  shows "(\<Sum>e\<in>#entries m. w e) = w (k, v) + (\<Sum>e\<in>#entries (del k m). w e)"
  using arg_cong [OF entries_del [OF assms], of "\<lambda>M. \<Sum>e\<in>#M. w e"] by simp

lemma count_put_fresh:
  assumes "ok m" and "get m k = None"
  shows "size (filter_mset P (entries (put k v m))) =
         (if P (k, v) then 1 else 0) + size (filter_mset P (entries m))"
  using assms by (simp add: entries_put_fresh)

lemma count_del_le:
  assumes "ok m" and "get m k = Some v"
  shows "size (filter_mset P (entries (del k m))) \<le> size (filter_mset P (entries m))"
  using arg_cong [OF entries_del [OF assms], of "\<lambda>M. size (filter_mset P M)"]
  by (simp split: if_splits)

lemma get_del_other: "ok m \<Longrightarrow> j \<noteq> k \<Longrightarrow> get (del k m) j = get m j"
  by (simp add: get_del)

lemma get_put_same: "ok m \<Longrightarrow> get (put k v m) k = Some v"
  by (simp add: get_put)

end

interpretation alist_ledger: keyed_ledger map_of AList.update AList.delete mset
  "\<lambda>m. distinct (map fst m)"
  by unfold_locales
    (simp_all add: update_conv' delete_conv' distinct_update distinct_delete amap_put_fresh
      amap_del_split)

section \<open>Capped doubling\<close>

text \<open>
  A delay that doubles until half of the cap is reached, and is the cap from then on. The
  partition stall backoff, the adaptive resplit window and the reconcile backoff all follow it.
\<close>

locale capped_doubling =
  fixes delay :: "nat \<Rightarrow> int" and cap :: int
  assumes start_pos: "0 < delay 0"
    and start_cap: "delay 0 \<le> cap"
    and grow: "delay (Suc n) = (if delay n \<ge> cap div 2 then cap else 2 * delay n)"
begin

lemma delay_bounds: "0 < delay n \<and> delay n \<le> cap"
proof (induction n)
  case 0
  show ?case using start_pos start_cap by simp
next
  case (Suc n)
  then show ?case using start_pos start_cap by (auto simp: grow)
qed

lemma delay_step: "delay n \<le> delay (Suc n)"
  using delay_bounds [of n] by (auto simp: grow)

lemma delay_mono: "m \<le> n \<Longrightarrow> delay m \<le> delay n"
  by (rule lift_Suc_mono_le [of delay]) (rule delay_step)

lemma delay_start_le: "delay 0 \<le> delay n"
  by (rule delay_mono) simp

lemma delay_capped: "delay n = cap \<Longrightarrow> n \<le> m \<Longrightarrow> delay m = cap"
  using delay_mono [of n m] delay_bounds [of m] by simp

lemma delay_exact_or_capped: "delay n = delay 0 * 2 ^ n \<or> delay n = cap"
proof (induction n)
  case 0
  show ?case by simp
next
  case (Suc n)
  have half: "cap \<ge> cap div 2" using delay_bounds [of n] by arith
  from Suc show ?case using half by (auto simp: grow)
qed

lemma delay_reaches_cap: "\<exists>n. delay n = cap"
proof (rule ccontr)
  assume "\<not> ?thesis"
  then have never: "\<And>n. delay n \<noteq> cap" by simp
  then have eq: "\<And>n. delay n = delay 0 * 2 ^ n" using delay_exact_or_capped by blast
  have "int (nat cap) < int (2 ^ nat cap)" by (simp only: of_nat_less_iff less_exp)
  then have "cap < 1 * 2 ^ nat cap" using start_pos start_cap by simp
  also have "1 * 2 ^ nat cap \<le> delay 0 * 2 ^ nat cap"
    using start_pos by (intro mult_right_mono) simp_all
  finally have "cap < delay 0 * 2 ^ nat cap" .
  with eq [of "nat cap"] delay_bounds [of "nat cap"] show False by simp
qed

end

section \<open>Stable sorting\<close>

text \<open>
  \<open>slices.SortStableFunc\<close> is insertion sort by a key: the model of any stable sort, since the
  stable sorted permutation is unique.
\<close>

fun insert_by :: "('a \<Rightarrow> 'k :: linorder) \<Rightarrow> 'a \<Rightarrow> 'a list \<Rightarrow> 'a list" where
  "insert_by f x [] = [x]"
| "insert_by f x (y # ys) = (if f x \<le> f y then x # y # ys else y # insert_by f x ys)"

definition sort_by :: "('a \<Rightarrow> 'k :: linorder) \<Rightarrow> 'a list \<Rightarrow> 'a list" where
  "sort_by f xs = foldr (insert_by f) xs []"

lemma mset_insert_by [simp]: "mset (insert_by f x xs) = add_mset x (mset xs)"
  by (induction xs) auto

lemma set_insert_by [simp]: "set (insert_by f x xs) = insert x (set xs)"
  by (induction xs) auto

lemma sorted_insert_by: "sorted (map f xs) \<Longrightarrow> sorted (map f (insert_by f x xs))"
  by (induction xs) auto

lemma mset_sort_by [simp]: "mset (sort_by f xs) = mset xs"
  by (induction xs) (simp_all add: sort_by_def)

lemma set_sort_by [simp]: "set (sort_by f xs) = set xs"
  by (metis mset_sort_by set_mset_mset)

lemma length_sort_by [simp]: "length (sort_by f xs) = length xs"
  by (metis mset_sort_by size_mset)

lemma sorted_sort_by: "sorted (map f (sort_by f xs))"
  by (induction xs) (simp_all add: sort_by_def sorted_insert_by)

lemma filter_insert_by_eq:
  "sorted (map f xs) \<Longrightarrow>
   filter (\<lambda>y. f y = k) (insert_by f x xs) =
   (if f x = k then x # filter (\<lambda>y. f y = k) xs else filter (\<lambda>y. f y = k) xs)"
proof (induction xs)
  case Nil
  then show ?case by simp
next
  case (Cons y ys)
  then show ?case by (auto simp: filter_empty_conv)
qed

lemma sort_by_stable: "filter (\<lambda>y. f y = k) (sort_by f xs) = filter (\<lambda>y. f y = k) xs"
proof (induction xs)
  case Nil
  then show ?case by (simp add: sort_by_def)
next
  case (Cons x xs)
  have "sort_by f (x # xs) = insert_by f x (sort_by f xs)" by (simp add: sort_by_def)
  with Cons show ?case by (simp add: filter_insert_by_eq sorted_sort_by)
qed

end
