(* ===== verification/GoText.thy ===== *)
theory GoText
  imports Prelude
begin

text \<open>
  Go strings as byte lists, with the operations of \<open>strings\<close>, \<open>strconv\<close>, \<open>unicode/utf8\<close> and
  \<open>hash/fnv\<close> that the program calls, and the program's texts: an error or a message is kept as
  the format string with its arguments, as the source writes it, instead of the rendered bytes.
\<close>

section \<open>Texts and errors\<close>

text \<open>
  \<open>Fmt f as\<close> is \<open>errors.New f\<close> (no arguments), \<open>fmt.Errorf f as\<close> or \<open>fmt.Sprintf f as\<close>;
  \<open>AWrap\<close> is the operand of a \<open>%w\<close> verb, \<open>AText\<close> an embedded text. \<open>ChException\<close> is the
  driver's \<open>*clickhouse.Exception\<close> (its \<open>Code\<close> and \<open>Message\<close>), \<open>ExtErr\<close> any other error from
  outside the program. An error and its \<open>Error()\<close> text are the same value here.
\<close>

datatype gotext =
    Fmt string "goarg list"
  | ChException int string
  | ExtErr string
  | ErrCanceled
  | ErrDeadline
  | ErrNoRows
and goarg =
    AStr string
  | AInt int
  | ATime int
  | ADur int
  | AText gotext
  | AWrap gotext

definition no_text :: gotext where "no_text = Fmt '''' []"

abbreviation lit :: "string \<Rightarrow> gotext" where "lit s \<equiv> Fmt s []"

text \<open>\<open>errors.Is\<close>: the error itself or anything it wraps.\<close>

fun errors_is :: "gotext \<Rightarrow> gotext \<Rightarrow> bool"
  and arg_is :: "goarg \<Rightarrow> gotext \<Rightarrow> bool"
  and args_is :: "goarg list \<Rightarrow> gotext \<Rightarrow> bool" where
  "errors_is (Fmt f as) t = (Fmt f as = t \<or> args_is as t)"
| "errors_is e t = (e = t)"
| "arg_is (AWrap e) t = errors_is e t"
| "arg_is a t = False"
| "args_is [] t = False"
| "args_is (a # as) t = (arg_is a t \<or> args_is as t)"

text \<open>\<open>errors.As\<close> for the driver's exception type: the first one in the chain.\<close>

fun as_exception :: "gotext \<Rightarrow> (int \<times> string) option"
  and arg_exception :: "goarg \<Rightarrow> (int \<times> string) option"
  and args_exception :: "goarg list \<Rightarrow> (int \<times> string) option" where
  "as_exception (Fmt f as) = args_exception as"
| "as_exception (ChException c m) = Some (c, m)"
| "as_exception e = None"
| "arg_exception (AWrap e) = as_exception e"
| "arg_exception a = None"
| "args_exception [] = None"
| "args_exception (a # as) =
     (case arg_exception a of Some x \<Rightarrow> Some x | None \<Rightarrow> args_exception as)"

lemma errors_is_refl [simp]: "errors_is e e"
  by (cases e) simp_all

section \<open>Bytes and runes\<close>

abbreviation byte :: "char \<Rightarrow> nat" where "byte \<equiv> of_char"

definition is_digit :: "char \<Rightarrow> bool" where
  "is_digit c \<longleftrightarrow> 48 \<le> byte c \<and> byte c \<le> 57"

definition digit_val :: "char \<Rightarrow> int" where
  "digit_val c = int (byte c) - 48"

definition cont_byte :: "char \<Rightarrow> bool" where
  "cont_byte c \<longleftrightarrow> 128 \<le> byte c \<and> byte c \<le> 191"

text \<open>\<open>utf8.DecodeRuneInString\<close>: the rune and its width; an invalid sequence is U+FFFD of width 1.\<close>

definition decode_rune :: "string \<Rightarrow> nat \<times> nat" where
  "decode_rune s =
     (case s of
        [] \<Rightarrow> (65533, 0)
      | a # r \<Rightarrow>
          (let b0 = byte a in
           if b0 < 128 then (b0, 1)
           else case r of
             [] \<Rightarrow> (65533, 1)
           | b # r2 \<Rightarrow>
               (if 194 \<le> b0 \<and> b0 \<le> 223 then
                  (if cont_byte b then ((b0 - 192) * 64 + (byte b - 128), 2) else (65533, 1))
                else case r2 of
                  [] \<Rightarrow> (65533, 1)
                | c # r3 \<Rightarrow>
                    (if 224 \<le> b0 \<and> b0 \<le> 239 then
                       (if cont_byte b \<and> cont_byte c \<and> (b0 = 224 \<longrightarrow> 160 \<le> byte b)
                           \<and> (b0 = 237 \<longrightarrow> byte b \<le> 159)
                        then ((b0 - 224) * 4096 + (byte b - 128) * 64 + (byte c - 128), 3)
                        else (65533, 1))
                     else case r3 of
                       [] \<Rightarrow> (65533, 1)
                     | d # _ \<Rightarrow>
                         (if 240 \<le> b0 \<and> b0 \<le> 244 \<and> cont_byte b \<and> cont_byte c \<and> cont_byte d
                             \<and> (b0 = 240 \<longrightarrow> 144 \<le> byte b) \<and> (b0 = 244 \<longrightarrow> byte b \<le> 143)
                          then ((b0 - 240) * 262144 + (byte b - 128) * 4096
                                + (byte c - 128) * 64 + (byte d - 128), 4)
                          else (65533, 1))))))"

text \<open>\<open>utf8.AppendRune\<close>.\<close>

definition encode_rune :: "nat \<Rightarrow> string" where
  "encode_rune n =
     (if n < 128 then [char_of n]
      else if n < 2048 then [char_of (192 + n div 64), char_of (128 + n mod 64)]
      else if n < 65536 then
        (if 55296 \<le> n \<and> n \<le> 57343 then [char_of (239::nat), char_of (191::nat), char_of (189::nat)]
         else [char_of (224 + n div 4096), char_of (128 + n div 64 mod 64), char_of (128 + n mod 64)])
      else if n \<le> 1114111 then
        [char_of (240 + n div 262144), char_of (128 + n div 4096 mod 64),
         char_of (128 + n div 64 mod 64), char_of (128 + n mod 64)]
      else [char_of (239::nat), char_of (191::nat), char_of (189::nat)])"

text \<open>The runes of a string, as \<open>for _, ch := range s\<close> yields them; fuel is the byte length.\<close>

fun runes_fuel :: "nat \<Rightarrow> string \<Rightarrow> nat list" where
  "runes_fuel 0 s = []"
| "runes_fuel (Suc n) s =
     (if s = [] then [] else
      (let (r, w) = decode_rune s in r # runes_fuel n (drop w s)))"

definition runes :: "string \<Rightarrow> nat list" where
  "runes s = runes_fuel (length s) s"

text \<open>
  The Unicode tables of the standard library are data: what \<open>unicode.IsLetter\<close>,
  \<open>unicode.IsDigit\<close> and \<open>unicode.ToLower\<close> say of a rune from 128 on is a parameter.
\<close>

record unicode =
  u_letter :: "nat \<Rightarrow> bool"
  u_digit :: "nat \<Rightarrow> bool"
  u_lower :: "nat \<Rightarrow> nat"

definition rune_is_letter :: "unicode \<Rightarrow> nat \<Rightarrow> bool" where
  "rune_is_letter U r = (if r < 128 then (65 \<le> r \<and> r \<le> 90) \<or> (97 \<le> r \<and> r \<le> 122) else u_letter U r)"

definition rune_is_digit :: "unicode \<Rightarrow> nat \<Rightarrow> bool" where
  "rune_is_digit U r = (if r < 128 then 48 \<le> r \<and> r \<le> 57 else u_digit U r)"

definition rune_lower :: "unicode \<Rightarrow> nat \<Rightarrow> nat" where
  "rune_lower U r = (if r < 128 then (if 65 \<le> r \<and> r \<le> 90 then r + 32 else r) else u_lower U r)"

definition ascii_lower :: "char \<Rightarrow> char" where
  "ascii_lower c = (if 65 \<le> byte c \<and> byte c \<le> 90 then char_of (byte c + 32) else c)"

text \<open>\<open>strings.ToLower\<close>: byte-wise on an ASCII string, rune-wise otherwise.\<close>

definition go_lower :: "unicode \<Rightarrow> string \<Rightarrow> string" where
  "go_lower U s =
     (if list_all (\<lambda>c. byte c < 128) s then map ascii_lower s
      else concat (map (\<lambda>r. encode_rune (rune_lower U r)) (runes s)))"

section \<open>The \<open>strings\<close> package\<close>

definition has_prefix :: "string \<Rightarrow> string \<Rightarrow> bool" where
  "has_prefix s p \<longleftrightarrow> take (length p) s = p"

definition has_suffix :: "string \<Rightarrow> string \<Rightarrow> bool" where
  "has_suffix s p \<longleftrightarrow> length p \<le> length s \<and> drop (length s - length p) s = p"

text \<open>\<open>strings.Index\<close>; \<open>None\<close> is -1.\<close>

fun str_index :: "string \<Rightarrow> string \<Rightarrow> nat option" where
  "str_index [] p = (if p = [] then Some 0 else None)"
| "str_index (c # s) p =
     (if has_prefix (c # s) p then Some 0 else map_option Suc (str_index s p))"

definition str_contains :: "string \<Rightarrow> string \<Rightarrow> bool" where
  "str_contains s p \<longleftrightarrow> str_index s p \<noteq> None"

text \<open>
  The UTF-8 encodings of the runes for which \<open>unicode.IsSpace\<close> holds. Trimming strips them from
  either end, which is what \<open>strings.TrimSpace\<close> and \<open>strings.TrimLeftFunc\<close> compute.
\<close>

definition space_seqs :: "string list" where
  "space_seqs =
     map (\<lambda>n. [char_of (n::nat)]) [9, 10, 11, 12, 13, 32]
     @ map encode_rune [133, 160, 5760, 8192, 8193, 8194, 8195, 8196, 8197, 8198, 8199, 8200,
                        8201, 8202, 8232, 8233, 8239, 8287, 12288]"

definition ascii_space :: "char \<Rightarrow> bool" where
  "ascii_space c \<longleftrightarrow> byte c = 32 \<or> (9 \<le> byte c \<and> byte c \<le> 13)"

definition lead_space :: "string \<Rightarrow> nat" where
  "lead_space s =
     (case s of [] \<Rightarrow> 0
      | c # _ \<Rightarrow>
          if byte c < 128 then (if ascii_space c then 1 else 0)
          else case filter (has_prefix s) space_seqs of [] \<Rightarrow> 0 | q # _ \<Rightarrow> length q)"

definition trail_space :: "string \<Rightarrow> nat" where
  "trail_space s =
     (if s = [] then 0
      else if byte (last s) < 128 then (if ascii_space (last s) then 1 else 0)
      else case filter (has_suffix s) space_seqs of [] \<Rightarrow> 0 | q # _ \<Rightarrow> length q)"

function trim_left :: "string \<Rightarrow> string" where
  "trim_left s = (if s = [] \<or> lead_space s = 0 then s else trim_left (drop (lead_space s) s))"
  by pat_completeness auto
termination
  by (relation "measure length") auto

function trim_right :: "string \<Rightarrow> string" where
  "trim_right s =
     (if s = [] \<or> trail_space s = 0 then s else trim_right (take (length s - trail_space s) s))"
  by pat_completeness auto
termination
  by (relation "measure length") auto

declare trim_left.simps [simp del] trim_right.simps [simp del]

definition trim_space :: "string \<Rightarrow> string" where
  "trim_space s = trim_right (trim_left s)"

text \<open>\<open>strings.Split\<close> at a one-byte separator: always at least one piece.\<close>

fun split_on :: "char \<Rightarrow> string \<Rightarrow> string list" where
  "split_on c [] = [[]]"
| "split_on c (d # s) =
     (if d = c then [] # split_on c s
      else case split_on c s of [] \<Rightarrow> [[d]] | p # ps \<Rightarrow> (d # p) # ps)"

text \<open>\<open>strings.ReplaceAll\<close> and \<open>strings.NewReplacer\<close> with one-byte patterns.\<close>

definition replace_byte :: "char \<Rightarrow> string \<Rightarrow> string \<Rightarrow> string" where
  "replace_byte c r s = concat (map (\<lambda>d. if d = c then r else [d]) s)"

fun join :: "string \<Rightarrow> string list \<Rightarrow> string" where
  "join sep [] = []"
| "join sep [x] = x"
| "join sep (x # y # ys) = x @ sep @ join sep (y # ys)"

section \<open>The \<open>strconv\<close> package\<close>

fun show_nat_aux :: "nat \<Rightarrow> nat \<Rightarrow> string" where
  "show_nat_aux 0 n = []"
| "show_nat_aux (Suc k) n =
     (if n < 10 then [char_of (48 + n)]
      else show_nat_aux k (n div 10) @ [char_of (48 + n mod 10)])"

definition show_nat :: "nat \<Rightarrow> string" where
  "show_nat n = show_nat_aux (Suc n) n"

definition show_u64 :: "u64 \<Rightarrow> string" where
  "show_u64 w = show_nat (unat w)"

definition show_int :: "int \<Rightarrow> string" where
  "show_int i = (if i < 0 then CHR ''-'' # show_nat (nat (- i)) else show_nat (nat i))"

definition digits_val :: "string \<Rightarrow> int" where
  "digits_val s = foldl (\<lambda>acc c. 10 * acc + digit_val c) 0 s"

definition num_error :: "string \<Rightarrow> string \<Rightarrow> string \<Rightarrow> gotext" where
  "num_error fn s what = Fmt ''strconv.%s: parsing %q: %s'' [AStr fn, AStr s, AStr what]"

text \<open>\<open>strconv.ParseInt(s, 10, 64)\<close> and \<open>strconv.Atoi\<close> (which differ only in the error's text).\<close>

definition parse_int :: "string \<Rightarrow> string \<Rightarrow> gotext + int" where
  "parse_int fn s =
     (let neg = (case s of c # _ \<Rightarrow> c = CHR ''-'' | [] \<Rightarrow> False);
          body = (case s of [] \<Rightarrow> []
                  | c # r \<Rightarrow> if c = CHR ''-'' \<or> c = CHR ''+'' then r else s)
      in if body = [] \<or> \<not> list_all is_digit body then Inl (num_error fn s ''invalid syntax'')
         else let v = (if neg then - digits_val body else digits_val body) in
              if in_i64 v then Inr v else Inl (num_error fn s ''value out of range''))"

definition parse_uint :: "string \<Rightarrow> gotext + u64" where
  "parse_uint s =
     (if s = [] \<or> \<not> list_all is_digit s then Inl (num_error ''ParseUint'' s ''invalid syntax'')
      else if digits_val s < 18446744073709551616 then Inr (word_of_int (digits_val s))
      else Inl (num_error ''ParseUint'' s ''value out of range''))"

section \<open>FNV-1a\<close>

definition fnv64a :: "string \<Rightarrow> u64" where
  "fnv64a s =
     foldl (\<lambda>h c. (xor h (word_of_nat (byte c))) * 1099511628211) 14695981039346656037 s"

section \<open>Lemmas\<close>

lemma has_prefix_append [simp]: "has_prefix (p @ s) p"
  by (simp add: has_prefix_def)

lemma has_prefix_iff: "has_prefix s p \<longleftrightarrow> (\<exists>r. s = p @ r)"
  by (metis append_take_drop_id append_eq_conv_conj has_prefix_def)

lemma has_suffix_append [simp]: "has_suffix (s @ p) p"
  by (simp add: has_suffix_def)

lemma str_index_append_None:
  "str_index (c # s) p = None \<Longrightarrow> str_index s p = None"
  by (auto split: if_splits)

lemma trim_left_id: "s = [] \<or> lead_space s = 0 \<Longrightarrow> trim_left s = s"
  by (subst trim_left.simps) auto

lemma trim_right_id: "s = [] \<or> trail_space s = 0 \<Longrightarrow> trim_right s = s"
  by (subst trim_right.simps) auto

lemma trim_space_id:
  "s = [] \<or> (lead_space s = 0 \<and> trail_space s = 0) \<Longrightarrow> trim_space s = s"
  by (auto simp: trim_space_def trim_left_id trim_right_id)

lemma split_on_nonempty [simp]: "split_on c s \<noteq> []"
  by (induction s) (auto split: list.splits)

lemma join_split_on [simp]: "join [c] (split_on c s) = s"
proof (induction s)
  case Nil
  then show ?case by simp
next
  case (Cons d s)
  obtain p ps where sp: "split_on c s = p # ps" by (cases "split_on c s") simp_all
  with Cons show ?case by (cases ps) auto
qed

lemma show_nat_aux_digits: "list_all is_digit (show_nat_aux k n)"
  by (induction k arbitrary: n) (auto simp: is_digit_def)

lemma digits_val_append: "digits_val (s @ [c]) = 10 * digits_val s + digit_val c"
  by (simp add: digits_val_def)

lemma digits_val_show_nat_aux: "n < k \<Longrightarrow> digits_val (show_nat_aux k n) = int n"
proof (induction k arbitrary: n)
  case 0
  then show ?case by simp
next
  case (Suc k)
  show ?case
  proof (cases "n < 10")
    case True
    then show ?thesis by (simp add: digits_val_def digit_val_def)
  next
    case False
    with Suc.prems have "n div 10 < k" by simp
    moreover have "10 * int (n div 10) + int (n mod 10) = int n"
      by (metis mult_div_mod_eq of_nat_add of_nat_mult of_nat_numeral)
    ultimately show ?thesis using False Suc.IH [of "n div 10"]
      by (simp add: digits_val_append digit_val_def)
  qed
qed

lemma show_nat_digits: "list_all is_digit (show_nat n)"
  by (simp add: show_nat_def show_nat_aux_digits del: show_nat_aux.simps)

lemma show_nat_nonempty: "show_nat n \<noteq> []"
  by (simp add: show_nat_def)

lemma digits_val_show_nat: "digits_val (show_nat n) = int n"
  by (simp add: show_nat_def digits_val_show_nat_aux del: show_nat_aux.simps)

lemma show_nat_inject [simp]: "show_nat m = show_nat n \<longleftrightarrow> m = n"
  by (metis digits_val_show_nat of_nat_eq_iff)

text \<open>Parsing what was printed gives the value back.\<close>

lemma parse_int_show_nat:
  assumes "in_i64 (int n)"
  shows "parse_int fn (show_nat n) = Inr (int n)"
proof -
  obtain c r where cr: "show_nat n = c # r"
    using show_nat_nonempty by (cases "show_nat n") auto
  with show_nat_digits [of n] have "is_digit c" by simp
  then have "c \<noteq> CHR ''-''" and "c \<noteq> CHR ''+''" by (auto simp: is_digit_def)
  with cr assms show_nat_digits [of n] digits_val_show_nat [of n]
  show ?thesis by (simp add: parse_int_def)
qed

lemma parse_uint_show_u64: "parse_uint (show_u64 w) = Inr w"
  using unsigned_less [of w, where ?'a = int]
  by (simp add: parse_uint_def show_u64_def show_nat_nonempty show_nat_digits digits_val_show_nat)

lemma parse_int_in: "parse_int fn s = Inr v \<Longrightarrow> in_i64 v"
  by (auto simp: parse_int_def Let_def split: if_splits)

end
