(* ===== verification/GoTime.thy ===== *)
theory GoTime
  imports GoText
begin

text \<open>
  Go's \<open>time\<close> package as far as the program uses it. A \<open>time.Time\<close> is an instant in
  nanoseconds since the Unix epoch (monotonic readings are left out), a \<open>time.Duration\<close> a
  number of nanoseconds within \<open>int64\<close>. A \<open>*time.Location\<close> is its transition lookup: for a Unix
  second, the offset in force and the bounds of the interval it is in force for. The zone
  database behind \<open>time.LoadLocation\<close> is data outside the program and a parameter.
\<close>

type_synonym gtime = int
type_synonym gdur = int
type_synonym zone = "int \<Rightarrow> int \<times> int \<times> int"

definition millisecond :: gdur where "millisecond = 1000000"
definition second :: gdur where "second = 1000000000"
definition minute :: gdur where "minute = 60000000000"
definition hour :: gdur where "hour = 3600000000000"
definition day_dur :: gdur where "day_dur = 86400000000000"

named_theorems dur_simps "the lengths of Go's duration units"

lemmas [dur_simps] = millisecond_def second_def minute_def hour_def day_dur_def

text \<open>The zero \<open>time.Time\<close> is 1 January of year 1, UTC.\<close>

definition zero_time :: gtime where "zero_time = -62135596800000000000"

definition is_zero :: "gtime \<Rightarrow> bool" where "is_zero t \<longleftrightarrow> t = zero_time"

text \<open>\<open>t.Sub(u)\<close> saturates at the bounds of a \<open>Duration\<close>; \<open>t.Add(d)\<close> does not wrap.\<close>

definition time_sub :: "gtime \<Rightarrow> gtime \<Rightarrow> gdur" where
  "time_sub t u = max min_i64 (min max_i64 (t - u))"

definition time_add :: "gtime \<Rightarrow> gdur \<Rightarrow> gtime" where
  "time_add t d = t + d"

definition time_unix :: "gtime \<Rightarrow> int" where
  "time_unix t = t div 1000000000"

section \<open>The civil calendar\<close>

definition leap_year :: "int \<Rightarrow> bool" where
  "leap_year y \<longleftrightarrow> 4 dvd y \<and> (\<not> 100 dvd y \<or> 400 dvd y)"

definition month_len :: "int \<Rightarrow> int \<Rightarrow> int" where
  "month_len y m =
     (if m = 2 then (if leap_year y then 29 else 28)
      else if m = 4 \<or> m = 6 \<or> m = 9 \<or> m = 11 then 30 else 31)"

definition valid_date :: "int \<Rightarrow> int \<Rightarrow> int \<Rightarrow> bool" where
  "valid_date y m d \<longleftrightarrow> 1 \<le> m \<and> m \<le> 12 \<and> 1 \<le> d \<and> d \<le> month_len y m"

text \<open>
  Days since 1 January 1970 of a civil date in the proleptic Gregorian calendar. Months outside
  1 to 12 carry into the year and days run on linearly, as \<open>time.Date\<close> normalises them. Years
  are counted from March, so that the leap day is the last of its year.
\<close>

definition march_days :: "int \<Rightarrow> int" where
  "march_days n = 365 * n + n div 4 - n div 100"

definition month_offset :: "int \<Rightarrow> int" where
  "month_offset mp = (153 * mp + 2) div 5"

definition days_civil :: "int \<Rightarrow> int \<Rightarrow> int \<Rightarrow> int" where
  "days_civil y m d =
     (let y' = y + (m - 1) div 12;
          m' = (m - 1) mod 12 + 1;
          yy = (if m' \<le> 2 then y' - 1 else y');
          mp = (if m' \<le> 2 then m' + 9 else m' - 3)
      in yy div 400 * 146097 + march_days (yy mod 400) + month_offset mp + (d - 1) - 719468)"

definition year_of_era :: "int \<Rightarrow> int" where
  "year_of_era e = (e - e div 1460 + e div 36524 - e div 146096) div 365"

definition civil_of_days :: "int \<Rightarrow> int \<times> int \<times> int" where
  "civil_of_days z =
     (let e = (z + 719468) mod 146097;
          yoe = year_of_era e;
          doy = e - march_days yoe;
          mp = (5 * doy + 2) div 153;
          m = (if mp < 10 then mp + 3 else mp - 9)
      in (yoe + (z + 719468) div 146097 * 400 + (if m \<le> 2 then 1 else 0), m,
          doy - month_offset mp + 1))"

section \<open>Locations, \<open>Date\<close> and \<open>AddDate\<close>\<close>

definition utc :: zone where
  "utc = (\<lambda>_. (0, min_i64, max_i64))"

text \<open>
  \<open>time.Date\<close>: the wall-clock seconds, moved to UTC by the offset found for them, or, when the
  moved instant is outside that offset's interval, by the offset found for the moved instant.
\<close>

definition local_to_unix :: "zone \<Rightarrow> int \<Rightarrow> int" where
  "local_to_unix loc s =
     (case loc s of (off, start, end') \<Rightarrow>
        if off \<noteq> 0 then
          (let u = s - off in
           if u < start \<or> end' \<le> u then (case loc u of (off', _, _) \<Rightarrow> s - off') else u)
        else s)"

definition go_date :: "int \<Rightarrow> int \<Rightarrow> int \<Rightarrow> int \<Rightarrow> int \<Rightarrow> int \<Rightarrow> int \<Rightarrow> zone \<Rightarrow> gtime" where
  "go_date y mo d h mi s ns loc =
     local_to_unix loc (days_civil y mo d * 86400 + h * 3600 + mi * 60 + s) * 1000000000 + ns"

definition local_seconds :: "zone \<Rightarrow> gtime \<Rightarrow> int" where
  "local_seconds loc t = (case loc (time_unix t) of (off, _, _) \<Rightarrow> time_unix t + off)"

text \<open>\<open>t.AddDate(years, months, days)\<close> for a time \<open>t\<close> in the location.\<close>

definition add_date :: "gtime \<Rightarrow> int \<Rightarrow> int \<Rightarrow> int \<Rightarrow> zone \<Rightarrow> gtime" where
  "add_date t ys ms ds loc =
     (let s = local_seconds loc t in
      case civil_of_days (s div 86400) of (y, m, d) \<Rightarrow>
        go_date (y + ys) (m + ms) (d + ds) (s mod 86400 div 3600) (s mod 3600 div 60) (s mod 60)
          (t mod 1000000000) loc)"

section \<open>The environment\<close>

text \<open>
  What the program takes from outside: the zone database (\<open>time.LoadLocation\<close>), the Unicode
  tables, \<open>hex(sha256(buf)[:12])\<close>, and the reading of the wall clock that \<open>time.Now()\<close> gives
  within the call (every read inside one call is the same instant).
\<close>

record go_env =
  env_zone :: "string \<Rightarrow> gotext + zone"
  env_unicode :: unicode
  env_sha :: "string \<Rightarrow> string"
  env_clock :: gtime

section \<open>Parsing dates\<close>

text \<open>
  \<open>time.ParseInLocation\<close> for the two layouts the program uses, with its quirks: one or two
  digits for the hour, a run of spaces where the layout has one, an optional fraction after the
  seconds. \<open>None\<close> is any parse error.
\<close>

definition two_digits :: "string \<Rightarrow> (int \<times> string) option" where
  "two_digits s =
     (case s of a # b # r \<Rightarrow>
        if is_digit a \<and> is_digit b then Some (10 * digit_val a + digit_val b, r) else None
      | _ \<Rightarrow> None)"

definition one_or_two_digits :: "string \<Rightarrow> (int \<times> string) option" where
  "one_or_two_digits s =
     (case s of
        [] \<Rightarrow> None
      | a # r \<Rightarrow>
          if \<not> is_digit a then None
          else case r of [] \<Rightarrow> Some (digit_val a, r)
             | b # r2 \<Rightarrow> if is_digit b then Some (10 * digit_val a + digit_val b, r2)
                         else Some (digit_val a, r))"

definition four_digits :: "string \<Rightarrow> (int \<times> string) option" where
  "four_digits s =
     (if 4 \<le> length s \<and> list_all is_digit (take 4 s)
      then Some (digits_val (take 4 s), drop 4 s) else None)"

definition skip_byte :: "char \<Rightarrow> string \<Rightarrow> string option" where
  "skip_byte c s = (case s of d # r \<Rightarrow> if d = c then Some r else None | [] \<Rightarrow> None)"

definition skip_spaces :: "string \<Rightarrow> string option" where
  "skip_spaces s =
     (case s of [] \<Rightarrow> Some []
      | c # _ \<Rightarrow> if c = CHR '' '' then Some (dropWhile (\<lambda>d. d = CHR '' '') s) else None)"

definition parse_fraction :: "string \<Rightarrow> int \<times> string" where
  "parse_fraction s =
     (case s of a # b # r \<Rightarrow>
        if (a = CHR ''.'' \<or> a = CHR '','') \<and> is_digit b then
          (let ds = takeWhile is_digit (b # r); k = take 9 ds in
           (digits_val k * 10 ^ (9 - length k), drop (length ds) (b # r)))
        else (0, s)
      | _ \<Rightarrow> (0, s))"

text \<open>The date part, \<open>2006-01-02\<close>.\<close>

definition scan_date :: "string \<Rightarrow> ((int \<times> int \<times> int) \<times> string) option" where
  "scan_date s =
     Option.bind (four_digits s) (\<lambda>(y, s1).
     Option.bind (skip_byte (CHR ''-'') s1) (\<lambda>s2.
     Option.bind (two_digits s2) (\<lambda>(m, s3).
     if m < 1 \<or> 12 < m then None else
     Option.bind (skip_byte (CHR ''-'') s3) (\<lambda>s4.
     Option.bind (two_digits s4) (\<lambda>(d, s5). Some ((y, m, d), s5))))))"

text \<open>The parsed wall-clock fields: year, month, day, hour, minute, second, nanosecond.\<close>

type_synonym civil = "int \<times> int \<times> int \<times> int \<times> int \<times> int \<times> int"

definition parse_datetime :: "string \<Rightarrow> civil option" where
  "parse_datetime s =
     Option.bind (scan_date s) (\<lambda>((y, m, d), s1).
     Option.bind (skip_spaces s1) (\<lambda>s2.
     Option.bind (one_or_two_digits s2) (\<lambda>(h, s3).
     if 24 \<le> h then None else
     Option.bind (skip_byte (CHR '':'') s3) (\<lambda>s4.
     Option.bind (two_digits s4) (\<lambda>(mi, s5).
     if 60 \<le> mi then None else
     Option.bind (skip_byte (CHR '':'') s5) (\<lambda>s6.
     Option.bind (two_digits s6) (\<lambda>(sec, s7).
     if 60 \<le> sec then None else
     (case parse_fraction s7 of (ns, s8) \<Rightarrow>
       if s8 \<noteq> [] \<or> \<not> valid_date y m d then None
       else Some (y, m, d, h, mi, sec, ns)))))))))"

definition parse_date_only :: "string \<Rightarrow> civil option" where
  "parse_date_only s =
     Option.bind (scan_date s) (\<lambda>((y, m, d), s1).
     if s1 \<noteq> [] \<or> \<not> valid_date y m d then None else Some (y, m, d, 0, 0, 0, 0))"

section \<open>Lemmas\<close>

lemma time_sub_exact: "in_i64 (t - u) \<Longrightarrow> time_sub t u = t - u"
  by (simp add: time_sub_def i64_simps)

lemma time_sub_less_iff: "min_i64 < d \<Longrightarrow> d \<le> max_i64 \<Longrightarrow> time_sub t u < d \<longleftrightarrow> t - u < d"
  by (auto simp: time_sub_def i64_simps)

lemma time_sub_mono: "t \<le> t' \<Longrightarrow> time_sub t u \<le> time_sub t' u"
  by (auto simp: time_sub_def)

lemma time_sub_anti: "u' \<le> u \<Longrightarrow> time_sub t u \<le> time_sub t u'"
  by (auto simp: time_sub_def)

lemma local_to_unix_utc [simp]: "local_to_unix utc s = s"
  by (simp add: local_to_unix_def utc_def)

lemma local_seconds_utc [simp]: "local_seconds utc t = time_unix t"
  by (simp add: local_seconds_def utc_def)

text \<open>The year formula, checked at the two ends of each of the 400 years of an era.\<close>

definition march_len :: "int \<Rightarrow> int" where
  "march_len n = (if n = 399 then 366 else march_days (n + 1) - march_days n)"

definition era_years_ok :: "int list \<Rightarrow> bool" where
  "era_years_ok ns =
     list_all (\<lambda>n. year_of_era (march_days n) = n \<and>
       year_of_era (march_days n + march_len n - 1) = n \<and> march_days n + march_len n \<le> 146097) ns"

lemma era_years_ok: "era_years_ok [0..399]"
  by code_simp

lemma era_bounds_mono: "a \<le> b \<Longrightarrow> b \<le> 146095 \<Longrightarrow> 0 \<le> a \<Longrightarrow> year_of_era a \<le> year_of_era b"
proof -
  assume ab: "a \<le> b" "b \<le> 146095" "0 \<le> a"
  have "1 * (b - a) \<le> 1460 * (b - a)" using ab by (intro mult_right_mono) simp_all
  then have "b \<le> a + (b - a) * 1460" by simp
  then have "b div 1460 \<le> (a + (b - a) * 1460) div 1460" by (rule zdiv_mono1) simp
  also have "\<dots> = (b - a) + a div 1460" by (rule div_mult_self1) simp
  finally have "a - a div 1460 \<le> b - b div 1460" by linarith
  moreover have "a div 36524 \<le> b div 36524" using ab(1) by (rule zdiv_mono1) simp
  moreover have "a div 146096 = 0" by (rule div_pos_pos_trivial) (use ab in linarith)+
  moreover have "b div 146096 = 0" by (rule div_pos_pos_trivial) (use ab in linarith)+
  ultimately have "a - a div 1460 + a div 36524 - a div 146096
      \<le> b - b div 1460 + b div 36524 - b div 146096" by linarith
  then show ?thesis unfolding year_of_era_def by (rule zdiv_mono1) simp
qed

lemma year_of_era_correct:
  assumes "0 \<le> n" "n < 400" "0 \<le> k" "k < march_len n"
  shows "year_of_era (march_days n + k) = n"
proof -
  have "n \<in> set [0..399]" using assms by simp
  with era_years_ok have ends: "year_of_era (march_days n) = n"
      "year_of_era (march_days n + march_len n - 1) = n"
      and top: "march_days n + march_len n \<le> 146097"
    unfolding era_years_ok_def list_all_iff by blast+
  have pos: "0 \<le> march_days n" using assms by (simp add: march_days_def)
  show ?thesis
  proof (cases "march_days n + k = march_days n + march_len n - 1")
    case True
    with ends show ?thesis by (simp only:)
  next
    case False
    with assms top have le: "march_days n + k \<le> 146095" by simp
    have "n \<le> year_of_era (march_days n + k)"
      using era_bounds_mono [of "march_days n" "march_days n + k"] ends le pos assms by simp
    moreover have "year_of_era (march_days n + k) \<le> n"
    proof (cases "march_days n + march_len n - 1 \<le> 146095")
      case True
      with era_bounds_mono [of "march_days n + k" "march_days n + march_len n - 1"] ends pos assms
      show ?thesis by simp
    next
      case False
      with top have "march_days n + march_len n = 146097" by simp
      have "year_of_era 146095 = 399" by code_simp
      have "year_of_era 146096 = 399" by code_simp
      with \<open>march_days n + march_len n = 146097\<close> ends have "n = 399" by simp
      with \<open>year_of_era 146095 = 399\<close> era_bounds_mono [of "march_days n + k" 146095] le pos assms
      show ?thesis by simp
    qed
    ultimately show ?thesis by simp
  qed
qed

text \<open>The month formula, checked at every day of a March-based year.\<close>

definition mlen :: "int \<Rightarrow> int" where
  "mlen mp = (if mp = 11 then 29 else if mp = 1 \<or> mp = 3 \<or> mp = 6 \<or> mp = 8 then 30 else 31)"

lemma month_formula_table:
  "list_all (\<lambda>mp. list_all (\<lambda>d. d \<le> mlen mp \<longrightarrow>
     (5 * (month_offset mp + (d - 1)) + 2) div 153 = mp) [1..31]) [0..11]"
  by code_simp

lemma month_formula:
  assumes "0 \<le> mp" "mp \<le> 11" "1 \<le> d" "d \<le> mlen mp"
  shows "(5 * (month_offset mp + (d - 1)) + 2) div 153 = mp"
proof -
  have "d \<le> 31" using assms by (auto simp: mlen_def split: if_splits)
  with assms month_formula_table show ?thesis by (auto simp: list_all_iff)
qed

lemma march_len_table:
  "list_all (\<lambda>n. march_len n = (if leap_year (n + 1) then 366 else 365)) [0..399]"
  by code_simp

lemma leap_year_shift: "leap_year ((y - 1) mod 400 + 1) = leap_year y"
proof -
  define q r where "q = (y - 1) div 400" and "r = (y - 1) mod 400"
  have "400 * q + r = y - 1" unfolding q_def r_def by (rule mult_div_mod_eq)
  then have y: "y = 400 * q + (r + 1)" by simp
  have "c dvd y \<longleftrightarrow> c dvd r + 1" if "c dvd 400" for c :: int
    unfolding y by (rule dvd_add_right_iff) (use that in simp)
  then have "leap_year y = leap_year (r + 1)" by (simp add: leap_year_def)
  then show ?thesis by (simp add: r_def)
qed

lemma march_len_leap: "march_len ((y - 1) mod 400) = (if leap_year y then 366 else 365)"
proof -
  have "(y - 1) mod 400 \<in> set [0..399]" by simp
  with march_len_table leap_year_shift [of y] show ?thesis
    unfolding list_all_iff by metis
qed

lemma march_len_ge: "0 \<le> n \<Longrightarrow> n < 400 \<Longrightarrow> 365 \<le> march_len n"
  using march_len_leap [of "n + 1"] by (simp split: if_splits)

definition march_first :: "int \<Rightarrow> int" where
  "march_first yy = yy div 400 * 146097 + march_days (yy mod 400)"

lemma march_first_Suc: "march_first (yy + 1) = march_first yy + march_len (yy mod 400)"
proof (cases "yy mod 400 = 399")
  case True
  have eq: "yy + 1 = 400 * (yy div 400 + 1) + 0"
    using mult_div_mod_eq [of 400 yy] True by simp
  have "(yy + 1) div 400 = yy div 400 + 1" and "(yy + 1) mod 400 = 0"
    using int_div_pos_eq [OF eq] int_mod_pos_eq [OF eq] by simp_all
  with True show ?thesis by (simp add: march_first_def march_len_def march_days_def)
next
  case False
  have eq: "yy + 1 = 400 * (yy div 400) + (yy mod 400 + 1)"
    using mult_div_mod_eq [of 400 yy] by linarith
  have "yy mod 400 < 400" by simp
  with False have r: "0 \<le> yy mod 400 + 1" "yy mod 400 + 1 < 400" by simp_all
  have "(yy + 1) div 400 = yy div 400" and "(yy + 1) mod 400 = yy mod 400 + 1"
    using int_div_pos_eq [OF eq r] int_mod_pos_eq [OF eq r] by simp_all
  with False show ?thesis by (simp add: march_first_def march_len_def)
qed

lemma days_civil_early: "1 \<le> m \<Longrightarrow> m \<le> 2 \<Longrightarrow>
   days_civil y m d = march_first (y - 1) + month_offset (m + 9) + (d - 1) - 719468"
  by (auto simp: days_civil_def march_first_def Let_def)

lemma days_civil_late: "3 \<le> m \<Longrightarrow> m \<le> 12 \<Longrightarrow>
   days_civil y m d = march_first y + month_offset (m - 3) + (d - 1) - 719468"
  by (auto simp: days_civil_def march_first_def Let_def div_pos_pos_trivial mod_pos_pos_trivial)

lemma days_civil_carry: "days_civil y 13 d = days_civil (y + 1) 1 d"
  by (simp add: days_civil_def)

lemma month_cases:
  fixes m :: int
  assumes "1 \<le> m" "m \<le> 12"
  shows "m = 1 \<or> m = 2 \<or> m = 3 \<or> m = 4 \<or> m = 5 \<or> m = 6 \<or> m = 7 \<or> m = 8 \<or> m = 9
    \<or> m = 10 \<or> m = 11 \<or> m = 12"
  using assms by presburger

lemma next_month:
  assumes "1 \<le> m" "m \<le> 12"
  shows "days_civil y (m + 1) 1 = days_civil y m 1 + month_len y m"
  using month_cases [OF assms] march_first_Suc [of "y - 1"] march_len_leap [of y]
  by (elim disjE)
    (simp_all add: days_civil_early days_civil_late days_civil_carry month_offset_def month_len_def)

lemma civil_roundtrip:
  assumes "valid_date y m d"
  shows "civil_of_days (days_civil y m d) = (y, m, d)"
proof -
  define yy where "yy = (if m \<le> 2 then y - 1 else y)"
  define mp where "mp = (if m \<le> 2 then m + 9 else m - 3)"
  define k where "k = month_offset mp + (d - 1)"
  have m: "1 \<le> m" "m \<le> 12" and d: "1 \<le> d" "d \<le> month_len y m"
    using assms by (simp_all add: valid_date_def)
  have mp: "0 \<le> mp" "mp \<le> 11" using m by (auto simp: mp_def)
  have dm: "d \<le> mlen mp"
    using d(2) month_cases [OF m] by (elim disjE) (auto simp: month_len_def mlen_def mp_def split: if_splits)
  have z: "days_civil y m d + 719468 = yy div 400 * 146097 + (march_days (yy mod 400) + k)"
    using m by (cases "m \<le> 2")
      (simp_all add: days_civil_early days_civil_late march_first_def yy_def mp_def k_def)
  have k0: "0 \<le> k" using mp d(1) by (simp add: k_def month_offset_def)
  have k1: "k < march_len (yy mod 400)"
  proof (cases "m = 2")
    case True
    with d show ?thesis using march_len_leap [of y]
      by (auto simp: k_def mp_def yy_def month_offset_def month_len_def split: if_splits)
  next
    case False
    have "k < 365" using False month_cases [OF m] d
      by (elim disjE) (auto simp: k_def mp_def month_offset_def month_len_def)
    then show ?thesis using march_len_ge [of "yy mod 400"] by simp
  qed
  have yoe: "year_of_era (march_days (yy mod 400) + k) = yy mod 400"
    using k0 k1 by (intro year_of_era_correct) simp_all
  have "yy mod 400 \<in> set [0..399]" by simp
  with era_years_ok have top: "march_days (yy mod 400) + march_len (yy mod 400) \<le> 146097"
    unfolding era_years_ok_def list_all_iff by blast
  have "0 \<le> march_days (yy mod 400)" by (simp add: march_days_def)
  with k0 k1 top have e: "0 \<le> march_days (yy mod 400) + k" "march_days (yy mod 400) + k < 146097"
    by simp_all
  have md: "(days_civil y m d + 719468) mod 146097 = march_days (yy mod 400) + k"
    and dv: "(days_civil y m d + 719468) div 146097 = yy div 400"
    unfolding z using e by (simp_all add: mod_pos_pos_trivial div_pos_pos_trivial)
  have mpk: "(5 * k + 2) div 153 = mp"
    unfolding k_def using mp d dm by (intro month_formula) simp_all
  show ?thesis
    unfolding civil_of_days_def Let_def md dv yoe
    using mp m mpk by (auto simp: mp_def yy_def k_def)
qed

end
