(* ===== verification/PartitionLiteral.thy ===== *)
theory PartitionLiteral
  imports GoTime
begin

text \<open>
  The scanners of \<open>internal/tiering/layout.go\<close>: quoted strings, tuple literals such as
  \<open>('mainnet',202401)\<close>, top-level splitting of a partition key expression, and identifiers.
  The Go scanners range over runes, but every delimiter is ASCII and no byte of a multi-byte
  rune is below 128, so scanning bytes sees the same delimiters at the same indices.
\<close>

abbreviation quote_ch :: char where "quote_ch \<equiv> CHR 0x27"
abbreviation bslash :: char where "bslash \<equiv> CHR 0x5C"

section \<open>Quoted strings\<close>

definition unescape :: "char \<Rightarrow> char" where
  "unescape c =
     (if c = CHR ''n'' then CHR 0x0A else if c = CHR ''t'' then CHR 0x09
      else if c = CHR ''r'' then CHR 0x0D else c)"

fun quoted_scan :: "string \<Rightarrow> bool \<Rightarrow> string \<Rightarrow> (string \<times> string) option" where
  "quoted_scan [] escaped b = None"
| "quoted_scan (c # s) escaped b =
     (if escaped then quoted_scan s False (b @ [unescape c])
      else if c = bslash then quoted_scan s True b
      else if c = quote_ch then Some (b, s)
      else quoted_scan s False (b @ [c]))"

definition readQuotedTupleString :: "string \<Rightarrow> gotext + string \<times> string" where
  "readQuotedTupleString raw =
     (case quoted_scan (drop 1 raw) False [] of
        Some r \<Rightarrow> Inr r
      | None \<Rightarrow> Inl (Fmt ''tuple string %q is unterminated'' [AStr raw]))"

section \<open>Commas at depth zero\<close>

fun comma_scan :: "string \<Rightarrow> int \<Rightarrow> bool \<Rightarrow> bool \<Rightarrow> nat option" where
  "comma_scan [] depth inQuote escaped = None"
| "comma_scan (c # s) depth inQuote escaped =
     (if inQuote then
        (if escaped then map_option Suc (comma_scan s depth True False)
         else if c = bslash then map_option Suc (comma_scan s depth True True)
         else if c = quote_ch then map_option Suc (comma_scan s depth False False)
         else map_option Suc (comma_scan s depth True False))
      else if c = quote_ch then map_option Suc (comma_scan s depth True escaped)
      else if c = CHR ''('' then map_option Suc (comma_scan s (depth + 1) False escaped)
      else if c = CHR '')'' then map_option Suc (comma_scan s (depth - 1) False escaped)
      else if c = CHR '','' \<and> depth = 0 then Some 0
      else map_option Suc (comma_scan s depth False escaped))"

definition topLevelComma :: "string \<Rightarrow> nat option" where
  "topLevelComma raw = comma_scan raw 0 False False"

fun split_scan ::
  "string \<Rightarrow> string \<Rightarrow> string \<Rightarrow> int \<Rightarrow> bool \<Rightarrow> bool \<Rightarrow> string list \<Rightarrow> gotext + string list" where
  "split_scan raw [] cur depth inQuote escaped out =
     (if inQuote \<or> depth \<noteq> 0
      then Inl (Fmt ''expression %q has unbalanced quotes or parentheses'' [AStr raw])
      else (let out' = out @ [trim_space cur] in
            if [] \<in> set out'
            then Inl (Fmt ''expression %q contains an empty tuple element'' [AStr raw])
            else Inr out'))"
| "split_scan raw (c # s) cur depth inQuote escaped out =
     (if inQuote then
        (if escaped then split_scan raw s (cur @ [c]) depth True False out
         else if c = bslash then split_scan raw s (cur @ [c]) depth True True out
         else if c = quote_ch then split_scan raw s (cur @ [c]) depth False False out
         else split_scan raw s (cur @ [c]) depth True False out)
      else if c = quote_ch then split_scan raw s (cur @ [c]) depth True escaped out
      else if c = CHR ''('' then split_scan raw s (cur @ [c]) (depth + 1) False escaped out
      else if c = CHR '')'' then
        (if depth - 1 < 0 then Inl (Fmt ''expression %q has unbalanced parentheses'' [AStr raw])
         else split_scan raw s (cur @ [c]) (depth - 1) False escaped out)
      else if c = CHR '','' \<and> depth = 0 then
        split_scan raw s [] depth False escaped (out @ [trim_space cur])
      else split_scan raw s (cur @ [c]) depth False escaped out)"

definition splitTopLevel :: "string \<Rightarrow> gotext + string list" where
  "splitTopLevel raw = split_scan raw raw [] 0 False False []"

section \<open>Tuple literals\<close>

text \<open>One element of the tuple body and what follows it.\<close>

definition tuple_element :: "string \<Rightarrow> gotext + string \<times> string" where
  "tuple_element body =
     (if has_prefix body [quote_ch] then readQuotedTupleString body
      else case topLevelComma body of
        None \<Rightarrow>
          (let value = trim_space body in
           if value = [] then Inl (lit ''tuple partition literal contains an empty unquoted element'')
           else Inr (value, []))
      | Some i \<Rightarrow>
          (let value = trim_space (take i body) in
           if trim_space (drop (i + 1) body) = []
           then Inl (lit ''tuple partition literal has a trailing comma'')
           else if value = []
           then Inl (lit ''tuple partition literal contains an empty unquoted element'')
           else Inr (value, drop i body)))"

lemma quoted_scan_shorter: "quoted_scan s e b = Some (v, r) \<Longrightarrow> length r < length s"
  by (induction s e b rule: quoted_scan.induct) (auto split: if_splits)

lemma trim_left_length: "length (trim_left s) \<le> length s"
  by (induction s rule: trim_left.induct) (subst trim_left.simps, force)

lemma tuple_element_shorter: "tuple_element b = Inr (v, r) \<Longrightarrow> length r \<le> length b"
  by (auto simp: tuple_element_def readQuotedTupleString_def Let_def
      dest!: quoted_scan_shorter split: if_splits option.splits)

function tuple_loop :: "string \<Rightarrow> string list \<Rightarrow> gotext + string list" where
  "tuple_loop body elements =
     (if body = [] then Inr elements
      else case tuple_element (trim_left body) of
        Inl e \<Rightarrow> Inl e
      | Inr (value, rest) \<Rightarrow>
          (let rest' = trim_left rest; elements' = elements @ [value] in
           if rest' = [] then Inr elements'
           else if \<not> has_prefix rest' '','' then
             Inl (Fmt ''tuple partition literal has unexpected tail %q'' [AStr rest'])
           else tuple_loop (drop 1 rest') elements'))"
  by pat_completeness auto
termination
proof (relation "measure (\<lambda>(body, _). length body)", goal_cases)
  case 1
  show ?case by simp
next
  case (2 body elements q v r r' es)
  have "length r \<le> length (trim_left body)" using 2 tuple_element_shorter [of "trim_left body" v r] by auto
  moreover have "length r' \<le> length r" using 2 trim_left_length by simp
  moreover have "length (trim_left body) \<le> length body" by (rule trim_left_length)
  moreover have "length (drop 1 r') < length r'" using 2 by (cases r') simp_all
  ultimately have "length (drop 1 r') < length body" by linarith
  then show ?case by simp
qed

declare tuple_loop.simps [simp del]

definition parseTupleLiteral :: "string \<Rightarrow> gotext + string list" where
  "parseTupleLiteral raw =
     (if \<not> has_prefix raw ''('' \<or> \<not> has_suffix raw '')''
      then Inl (Fmt (''tuple partition literal %q must start with '(' and end with ')''
                  @ [quote_ch]) [AStr raw])
      else (let body = trim_space (take (length raw - 2) (drop 1 raw)) in
            if body = [] then Inl (lit ''tuple partition literal must not be empty'')
            else tuple_loop body []))"

definition ValidatePartitionLiteralSyntax :: "string \<Rightarrow> gotext option" where
  "ValidatePartitionLiteralSyntax raw =
     (if trim_space raw = [] then Some (lit ''partition literal is empty'')
      else if has_prefix (trim_space raw) ''('' then
        (case parseTupleLiteral (trim_space raw) of Inl e \<Rightarrow> Some e | Inr _ \<Rightarrow> None)
      else None)"

definition parsePartitionElements :: "string \<Rightarrow> gotext + string list" where
  "parsePartitionElements raw =
     (let trimmed = trim_space raw in
      if has_prefix trimmed ''('' then parseTupleLiteral trimmed else Inr [raw])"

definition partitionKeyElements :: "string \<Rightarrow> gotext + string list" where
  "partitionKeyElements expr =
     (if has_prefix expr ''('' \<and> has_suffix expr '')''
      then splitTopLevel (take (length expr - 2) (drop 1 expr)) else Inr [expr])"

section \<open>Identifiers and time zone arguments\<close>

definition ident_start :: "unicode \<Rightarrow> nat \<Rightarrow> bool" where
  "ident_start U r \<longleftrightarrow> r = 95 \<or> rune_is_letter U r"

definition ident_part :: "unicode \<Rightarrow> nat \<Rightarrow> bool" where
  "ident_part U r \<longleftrightarrow> r = 95 \<or> rune_is_letter U r \<or> rune_is_digit U r"

definition isBareIdentifier :: "unicode \<Rightarrow> string \<Rightarrow> bool" where
  "isBareIdentifier U raw =
     (case runes raw of [] \<Rightarrow> False | r # rs \<Rightarrow> ident_start U r \<and> list_all (ident_part U) rs)"

definition parseTimezoneArgument :: "string \<Rightarrow> string" where
  "parseTimezoneArgument raw =
     (case readQuotedTupleString (trim_space raw) of
        Inl e \<Rightarrow> []
      | Inr (value, tail) \<Rightarrow> if trim_space tail \<noteq> [] then [] else value)"

section \<open>Printing and parsing a tuple literal\<close>

text \<open>
  A tuple literal as ClickHouse prints it: string elements quoted and escaped, numeric elements
  bare. Not code of the program; it is the specification the scanner is measured against.
\<close>

datatype tuple_elem = Quoted string | Bare string

definition escape :: "char \<Rightarrow> string" where
  "escape c =
     (if c = bslash then [bslash, bslash] else if c = quote_ch then [bslash, quote_ch]
      else if c = CHR 0x0A then [bslash, CHR ''n''] else if c = CHR 0x09 then [bslash, CHR ''t'']
      else if c = CHR 0x0D then [bslash, CHR ''r''] else [c])"

fun render_elem :: "tuple_elem \<Rightarrow> string" where
  "render_elem (Quoted s) = quote_ch # concat (map escape s) @ [quote_ch]"
| "render_elem (Bare s) = s"

fun elem_value :: "tuple_elem \<Rightarrow> string" where
  "elem_value (Quoted s) = s"
| "elem_value (Bare s) = s"

fun elem_ok :: "tuple_elem \<Rightarrow> bool" where
  "elem_ok (Quoted s) = True"
| "elem_ok (Bare s) = (s \<noteq> [] \<and> list_all (\<lambda>c. is_digit c \<or> c = CHR ''-'') s)"

definition render_body :: "tuple_elem list \<Rightarrow> string" where
  "render_body es = join '','' (map render_elem es)"

definition render_tuple :: "tuple_elem list \<Rightarrow> string" where
  "render_tuple es = ''('' @ render_body es @ '')''"

lemma quoted_scan_escape:
  "quoted_scan (concat (map escape s) @ quote_ch # r) False b = Some (b @ s, r)"
  by (induction s arbitrary: b) (auto simp: escape_def unescape_def)

definition solid :: "char \<Rightarrow> bool" where
  "solid c \<longleftrightarrow> byte c < 128 \<and> \<not> ascii_space c"

lemma space_seqs_not_solid: "list_all (\<lambda>q. q \<noteq> [] \<and> list_all (\<lambda>c. \<not> solid c) q) space_seqs"
  by (simp add: space_seqs_def encode_rune_def solid_def ascii_space_def)

lemma trim_left_solid: "solid c \<Longrightarrow> trim_left (c # s) = c # s"
  by (rule trim_left_id) (simp add: lead_space_def solid_def)

lemma trim_right_solid: "solid c \<Longrightarrow> trim_right (s @ [c]) = s @ [c]"
  by (rule trim_right_id) (simp add: trail_space_def solid_def)

lemma trail_space_solid: "solid c \<Longrightarrow> trail_space (c # s) \<le> length s"
proof (cases "s = []")
  case True
  then show "solid c \<Longrightarrow> ?thesis" by (simp add: trail_space_def solid_def)
next
  case False
  assume c: "solid c"
  show ?thesis
  proof (cases "filter (has_suffix (c # s)) space_seqs")
    case Nil
    then show ?thesis using False by (cases s) (auto simp: trail_space_def)
  next
    case (Cons q qs)
    then have q: "q \<in> set space_seqs" "has_suffix (c # s) q"
      using filter_set [of "has_suffix (c # s)" space_seqs] by auto
    have "length q \<noteq> length (c # s)"
    proof
      assume "length q = length (c # s)"
      with q(2) have "q = c # s" by (auto simp: has_suffix_def)
      with q(1) space_seqs_not_solid c show False by (auto simp: list_all_iff)
    qed
    with q(2) have "length q \<le> length s" by (auto simp: has_suffix_def)
    with Cons False show ?thesis by (auto simp: trail_space_def Suc_le_eq)
  qed
qed

lemma trim_right_keeps_head: "solid c \<Longrightarrow> trim_right (c # s) \<noteq> []"
proof (induction "length s" arbitrary: s rule: less_induct)
  case less
  show ?case
  proof (cases "trail_space (c # s) = 0")
    case True
    then show ?thesis by (simp add: trim_right_id)
  next
    case False
    define k where "k = length s - trail_space (c # s)"
    have le: "trail_space (c # s) \<le> length s" using less.prems by (rule trail_space_solid)
    have "trim_right (c # s) = trim_right (c # take k s)"
      using False le by (subst trim_right.simps) (simp add: k_def Suc_diff_le)
    moreover have "length (take k s) < length s" using False le by (simp add: k_def)
    ultimately show ?thesis using less by simp
  qed
qed

lemma trim_space_keeps_head: "solid c \<Longrightarrow> trim_space (c # s) \<noteq> []"
  by (simp add: trim_space_def trim_left_solid trim_right_keeps_head)

lemma trim_space_solid_ends:
  assumes "s \<noteq> []" "solid (hd s)" "solid (last s)"
  shows "trim_space s = s"
proof -
  from assms have "trim_left s = s" by (cases s) (simp_all add: trim_left_solid)
  moreover have "trim_right s = s"
    using assms trim_right_solid [of "last s" "butlast s"] by simp
  ultimately show ?thesis by (simp add: trim_space_def)
qed

lemma digit_solid: "is_digit c \<or> c = CHR ''-'' \<Longrightarrow> solid c"
  by (auto simp: is_digit_def solid_def ascii_space_def)

lemma quote_solid [simp]: "solid quote_ch" and comma_solid [simp]: "solid CHR '',''"
  by (simp_all add: solid_def ascii_space_def)

lemma render_elem_ends:
  "elem_ok e \<Longrightarrow> render_elem e \<noteq> [] \<and> solid (hd (render_elem e)) \<and> solid (last (render_elem e))"
  by (cases e) (auto simp: list_all_iff intro!: digit_solid)

lemma render_body_Cons: "es \<noteq> [] \<Longrightarrow> render_body (e # es) = render_elem e @ CHR '','' # render_body es"
  by (cases es) (simp_all add: render_body_def)

lemma render_body_single: "render_body [e] = render_elem e"
  by (simp add: render_body_def)

lemma render_body_ends:
  "es \<noteq> [] \<Longrightarrow> list_all elem_ok es \<Longrightarrow>
   render_body es \<noteq> [] \<and> solid (hd (render_body es)) \<and> solid (last (render_body es))"
proof (induction es)
  case Nil
  then show ?case by simp
next
  case (Cons e es)
  then show ?case using render_elem_ends [of e]
    by (cases "es = []") (auto simp: render_body_single render_body_Cons)
qed

lemma comma_scan_bare:
  "list_all (\<lambda>c. is_digit c \<or> c = CHR ''-'') s \<Longrightarrow>
   comma_scan (s @ r) 0 False False = map_option ((+) (length s)) (comma_scan r 0 False False)"
proof (induction s)
  case Nil
  then show ?case by (simp add: option.map_ident)
next
  case (Cons c s)
  then have "c \<noteq> quote_ch" "c \<noteq> CHR ''(''" "c \<noteq> CHR '')''" "c \<noteq> CHR '',''"
    by (auto simp: is_digit_def)
  with Cons show ?case by (simp add: option.map_comp comp_def)
qed

lemma tuple_element_render:
  assumes "elem_ok e" "r = [] \<or> (\<exists>t. r = CHR '','' # t \<and> trim_space t \<noteq> [])"
  shows "tuple_element (render_elem e @ r) = Inr (elem_value e, r)"
proof (cases e)
  case (Quoted s)
  then show ?thesis
    by (simp add: tuple_element_def readQuotedTupleString_def has_prefix_def quoted_scan_escape)
next
  case (Bare s)
  with assms(1) have s: "s \<noteq> []" "list_all (\<lambda>c. is_digit c \<or> c = CHR ''-'') s" by simp_all
  then have nq: "hd s \<noteq> quote_ch" and ends: "solid (hd s)" "solid (last s)"
    by (cases s; auto simp: is_digit_def list_all_iff intro!: digit_solid)+
  have ts: "trim_space s = s" using s(1) ends by (rule trim_space_solid_ends)
  have np: "\<not> has_prefix (s @ r) [quote_ch]" using nq s(1) by (cases s) (auto simp: has_prefix_def)
  show ?thesis
    using assms(2) Bare s ts np
    by (auto simp: tuple_element_def topLevelComma_def comma_scan_bare)
qed

lemma tuple_loop_render:
  "es \<noteq> [] \<Longrightarrow> list_all elem_ok es \<Longrightarrow>
   tuple_loop (render_body es) acc = Inr (acc @ map elem_value es)"
proof (induction es arbitrary: acc)
  case Nil
  then show ?case by simp
next
  case (Cons e es)
  from Cons.prems have e: "elem_ok e" by simp
  obtain c s where cs: "render_elem e = c # s" "solid c"
    using render_elem_ends [OF e] by (cases "render_elem e") auto
  show ?case
  proof (cases "es = []")
    case True
    then show ?thesis using cs tuple_element_render [OF e, of "[]"]
      by (subst tuple_loop.simps) (simp add: render_body_single trim_left_solid trim_left_id)
  next
    case False
    define t where "t = render_body es"
    have t: "trim_space t \<noteq> []"
      using render_body_ends [OF False] Cons.prems trim_space_keeps_head
      by (cases t) (auto simp: t_def)
    have el: "tuple_element (render_elem e @ CHR '','' # t) = Inr (elem_value e, CHR '','' # t)"
      using e t by (intro tuple_element_render) auto
    have IH: "tuple_loop t (acc @ [elem_value e]) = Inr (acc @ elem_value e # map elem_value es)"
      using Cons.IH [OF False] Cons.prems by (simp add: t_def)
    show ?thesis using cs el IH
      by (subst tuple_loop.simps)
        (simp add: render_body_Cons [OF False] trim_left_solid has_prefix_def flip: t_def)
  qed
qed

lemma tuple_render_parsed:
  assumes "es \<noteq> []" "list_all elem_ok es"
  shows "parseTupleLiteral (render_tuple es) = Inr (map elem_value es)"
proof -
  have "trim_space (render_body es) = render_body es"
    using render_body_ends [OF assms] trim_space_solid_ends by blast
  moreover have "has_suffix (render_tuple es) '')''"
    unfolding render_tuple_def using has_suffix_append [of "''('' @ render_body es" "'')''"] by simp
  ultimately show ?thesis
    using render_body_ends [OF assms] tuple_loop_render [OF assms, of "[]"]
    by (simp add: parseTupleLiteral_def render_tuple_def has_prefix_def)
qed



end
