(* ===== verification/TierConfig.thy ===== *)
theory TierConfig
  imports PartitionLiteral
begin

text \<open>
  The tiering configuration (\<open>internal/tiering/config.go\<close>): its types, defaults, validation and
  the two scalar parsers. Enumerations that the program compares as strings stay strings, since
  an unset or unknown value is a case the code handles.
\<close>

section \<open>IEEE doubles\<close>

text \<open>
  A \<open>float64\<close> is a rational, an infinity or NaN. Conversions and divisions round to 53 bits,
  ties to even; the values in play are far from the subnormal and overflow ranges.
\<close>

datatype f64 = NaN | NegInf | PosInf | Fin rat

definition round_even :: "rat \<Rightarrow> int" where
  "round_even q =
     (let f = \<lfloor>q\<rfloor>; d = q - of_int f in
      if d < 1 / 2 then f else if 1 / 2 < d then f + 1 else if even f then f else f + 1)"

fun scale_exp :: "nat \<Rightarrow> rat \<Rightarrow> rat \<Rightarrow> rat" where
  "scale_exp 0 q u = u"
| "scale_exp (Suc n) q u =
     (if q < u * 4503599627370496 then scale_exp n q (u / 2)
      else if u * 9007199254740992 \<le> q then scale_exp n q (u * 2)
      else u)"

text \<open>The unit in the last place of a positive rational, searched from 1; 140 steps cover every
  quotient of two 64-bit integers.\<close>

definition ulp :: "rat \<Rightarrow> rat" where
  "ulp q = scale_exp 140 q 1"

definition f64_round :: "rat \<Rightarrow> rat" where
  "f64_round q =
     (if q = 0 then 0
      else if 0 < q then of_int (round_even (q / ulp q)) * ulp q
      else - (of_int (round_even (- q / ulp (- q))) * ulp (- q)))"

definition f64_of_int :: "int \<Rightarrow> f64" where
  "f64_of_int i = Fin (f64_round (of_int i))"

text \<open>The quotient of two finite doubles, the divisor not 0.\<close>

definition f64_div :: "f64 \<Rightarrow> f64 \<Rightarrow> f64" where
  "f64_div x y = (case (x, y) of (Fin a, Fin b) \<Rightarrow> Fin (f64_round (a / b)) | _ \<Rightarrow> NaN)"

fun f64_less :: "f64 \<Rightarrow> f64 \<Rightarrow> bool" where
  "f64_less NaN _ = False"
| "f64_less _ NaN = False"
| "f64_less (Fin a) (Fin b) = (a < b)"
| "f64_less NegInf y = (y \<noteq> NegInf)"
| "f64_less (Fin a) y = (y = PosInf)"
| "f64_less PosInf y = False"

fun f64_le :: "f64 \<Rightarrow> f64 \<Rightarrow> bool" where
  "f64_le NaN _ = False"
| "f64_le _ NaN = False"
| "f64_le x y = (f64_less x y \<or> x = y)"

section \<open>Types\<close>

definition ModeOff :: string where "ModeOff = ''off''"
definition ModePlan :: string where "ModePlan = ''plan''"
definition ModeEnforce :: string where "ModeEnforce = ''enforce''"
definition AgeBasisPartitionTime :: string where "AgeBasisPartitionTime = ''partitionTime''"
definition AgeBasisFrontier :: string where "AgeBasisFrontier = ''frontier''"
definition ResplitStrategyAuto :: string where "ResplitStrategyAuto = ''auto''"
definition ResplitStrategyRemerge :: string where "ResplitStrategyRemerge = ''remerge''"
definition ResplitStrategyAppend :: string where "ResplitStrategyAppend = ''append''"
definition ResplitStrategyHold :: string where "ResplitStrategyHold = ''hold''"
definition SealedSignalAuto :: string where "SealedSignalAuto = ''auto''"
definition SealedSignalPartLog :: string where "SealedSignalPartLog = ''partLog''"
definition SealedSignalModificationTime :: string where
  "SealedSignalModificationTime = ''modificationTime''"
definition OptimizeOnHot :: string where "OptimizeOnHot = ''hot''"
definition OptimizeOnCold :: string where "OptimizeOnCold = ''cold''"

named_theorems enum_simps "the string values of the configuration's enumerations"

lemmas [enum_simps] = ModeOff_def ModePlan_def ModeEnforce_def AgeBasisPartitionTime_def
  AgeBasisFrontier_def ResplitStrategyAuto_def ResplitStrategyRemerge_def
  ResplitStrategyAppend_def ResplitStrategyHold_def SealedSignalAuto_def
  SealedSignalPartLog_def SealedSignalModificationTime_def OptimizeOnHot_def OptimizeOnCold_def

record DiffBreakerOverride =
  ovr_MaxPartitions :: int
  ovr_MaxTableFraction :: f64
  ovr_Expires :: gtime

record DiffBreakerConfig =
  brk_MaxPartitions :: int
  brk_MaxTableFraction :: f64
  brk_Override :: "DiffBreakerOverride option"

record SafetyConfig =
  MaxMovesPerCycle :: int
  MaxBytesInFlight :: u64
  MaxBytesPerDay :: u64
  PauseAfterActions :: int
  DiffBreaker :: DiffBreakerConfig

record AgeSettings =
  age_Basis :: string
  age_OlderThan :: gdur
  age_Field :: string
  age_KeepLast :: u64

record ResplitSettings =
  rs_Strategy :: string
  rs_QuietFor :: gdur
  rs_FragmentAbovePartCount :: u64

record TierSettings =
  ts_Mode :: string
  ts_TargetDisk :: string
  ts_HotVolume :: string
  ts_QuietFor :: gdur
  ts_SealedSignal :: string
  ts_TierFrozenAfter :: gdur
  ts_OptimizeToParts :: u64
  ts_SkipOptimize :: bool
  ts_OptimizeOn :: string
  ts_OptimizeSkipAboveBytes :: u64
  ts_OptimizeStallAfter :: gdur
  ts_Resplit :: ResplitSettings
  ts_Age :: AgeSettings
  ts_ExcludePartitions :: "string list"

record TierConfig =
  tc_Mode :: string
  tc_Interval :: gdur
  tc_MaxConcurrentPartitions :: int
  tc_MaxConcurrentObservations :: int
  tc_Safety :: SafetyConfig
  tc_Defaults :: TierSettings

record EffectiveWatch =
  w_Database :: string
  w_Table :: string
  w_Settings :: "TierSettings option"

section \<open>Defaults\<close>

definition zero_age :: AgeSettings where
  "zero_age = \<lparr>age_Basis = '''', age_OlderThan = 0, age_Field = '''', age_KeepLast = 0\<rparr>"

definition DefaultTierSettings :: TierSettings where
  "DefaultTierSettings =
     \<lparr>ts_Mode = '''', ts_TargetDisk = ''s3_cache'', ts_HotVolume = '''',
      ts_QuietFor = 24 * hour, ts_SealedSignal = SealedSignalAuto,
      ts_TierFrozenAfter = 30 * 24 * hour, ts_OptimizeToParts = 1, ts_SkipOptimize = False,
      ts_OptimizeOn = OptimizeOnHot, ts_OptimizeSkipAboveBytes = push_bit 30 300,
      ts_OptimizeStallAfter = 30 * minute,
      ts_Resplit = \<lparr>rs_Strategy = ResplitStrategyRemerge, rs_QuietFor = 7 * 24 * hour,
                    rs_FragmentAbovePartCount = 6\<rparr>,
      ts_Age = zero_age, ts_ExcludePartitions = []\<rparr>"

definition DefaultTierConfig :: TierConfig where
  "DefaultTierConfig =
     \<lparr>tc_Mode = ModePlan, tc_Interval = 5 * minute, tc_MaxConcurrentPartitions = 1,
      tc_MaxConcurrentObservations = 4,
      tc_Safety = \<lparr>MaxMovesPerCycle = 4, MaxBytesInFlight = push_bit 30 500,
        MaxBytesPerDay = push_bit 40 2, PauseAfterActions = 0,
        DiffBreaker = \<lparr>brk_MaxPartitions = 50, brk_MaxTableFraction = Fin (1 / 2),
                       brk_Override = None\<rparr>\<rparr>,
      tc_Defaults = DefaultTierSettings\<rparr>"

text \<open>\<open>(*TierSettings).ResolveDefaults\<close>: every unset field takes its default.\<close>

definition resolve_resplit :: "ResplitSettings \<Rightarrow> ResplitSettings" where
  "resolve_resplit r =
     (let d = ts_Resplit DefaultTierSettings in
      r\<lparr>rs_Strategy := (if rs_Strategy r = '''' then rs_Strategy d else rs_Strategy r),
        rs_QuietFor := (if rs_QuietFor r = 0 then rs_QuietFor d else rs_QuietFor r),
        rs_FragmentAbovePartCount :=
          (if rs_FragmentAbovePartCount r = 0 then rs_FragmentAbovePartCount d
           else rs_FragmentAbovePartCount r)\<rparr>)"

definition ResolveDefaults_tier :: "TierSettings \<Rightarrow> TierSettings" where
  "ResolveDefaults_tier s =
     (let d = DefaultTierSettings in
      s\<lparr>ts_TargetDisk := (if ts_TargetDisk s = '''' then ts_TargetDisk d else ts_TargetDisk s),
        ts_QuietFor := (if ts_QuietFor s = 0 then ts_QuietFor d else ts_QuietFor s),
        ts_SealedSignal :=
          (if ts_SealedSignal s = '''' then ts_SealedSignal d else ts_SealedSignal s),
        ts_TierFrozenAfter :=
          (if ts_TierFrozenAfter s = 0 then ts_TierFrozenAfter d else ts_TierFrozenAfter s),
        ts_OptimizeToParts :=
          (if ts_OptimizeToParts s = 0 then ts_OptimizeToParts d else ts_OptimizeToParts s),
        ts_OptimizeOn := (if ts_OptimizeOn s = '''' then ts_OptimizeOn d else ts_OptimizeOn s),
        ts_OptimizeSkipAboveBytes :=
          (if ts_OptimizeSkipAboveBytes s = 0 then ts_OptimizeSkipAboveBytes d
           else ts_OptimizeSkipAboveBytes s),
        ts_OptimizeStallAfter :=
          (if ts_OptimizeStallAfter s = 0 then ts_OptimizeStallAfter d
           else ts_OptimizeStallAfter s),
        ts_Resplit := resolve_resplit (ts_Resplit s)\<rparr>)"

definition resolve_breaker :: "DiffBreakerConfig \<Rightarrow> DiffBreakerConfig" where
  "resolve_breaker b =
     (let d = DiffBreaker (tc_Safety DefaultTierConfig) in
      b\<lparr>brk_MaxPartitions :=
          (if brk_MaxPartitions b = 0 then brk_MaxPartitions d else brk_MaxPartitions b),
        brk_MaxTableFraction :=
          (if brk_MaxTableFraction b = Fin 0 then brk_MaxTableFraction d
           else brk_MaxTableFraction b)\<rparr>)"

definition resolve_safety :: "SafetyConfig \<Rightarrow> SafetyConfig" where
  "resolve_safety s =
     (let d = tc_Safety DefaultTierConfig in
      s\<lparr>MaxMovesPerCycle :=
          (if MaxMovesPerCycle s = 0 then MaxMovesPerCycle d else MaxMovesPerCycle s),
        MaxBytesInFlight :=
          (if MaxBytesInFlight s = 0 then MaxBytesInFlight d else MaxBytesInFlight s),
        MaxBytesPerDay := (if MaxBytesPerDay s = 0 then MaxBytesPerDay d else MaxBytesPerDay s),
        DiffBreaker := resolve_breaker (DiffBreaker s)\<rparr>)"

text \<open>\<open>(*Config).ResolveDefaults\<close>.\<close>

definition ResolveDefaults :: "TierConfig \<Rightarrow> TierConfig" where
  "ResolveDefaults c =
     (let d = DefaultTierConfig in
      c\<lparr>tc_Mode := (if tc_Mode c = '''' then tc_Mode d else tc_Mode c),
        tc_Interval := (if tc_Interval c = 0 then tc_Interval d else tc_Interval c),
        tc_MaxConcurrentPartitions :=
          (if tc_MaxConcurrentPartitions c = 0 then tc_MaxConcurrentPartitions d
           else tc_MaxConcurrentPartitions c),
        tc_MaxConcurrentObservations :=
          (if tc_MaxConcurrentObservations c = 0 then tc_MaxConcurrentObservations d
           else tc_MaxConcurrentObservations c),
        tc_Safety := resolve_safety (tc_Safety c),
        tc_Defaults := ResolveDefaults_tier (tc_Defaults c)\<rparr>)"

section \<open>Validation\<close>

text \<open>Each \<open>Validate\<close> returns at its first failing check; \<open>None\<close> is a nil error.\<close>

definition validate_enum :: "string list \<Rightarrow> string \<Rightarrow> string \<Rightarrow> string \<Rightarrow> gotext option" where
  "validate_enum allowed fmt v path = check (v \<notin> set allowed) (Fmt fmt [AStr path])"

definition Validate_Mode :: "string \<Rightarrow> string \<Rightarrow> gotext option" where
  "Validate_Mode m path =
     validate_enum [ModeOff, ModePlan, ModeEnforce] ''%s must be one of off, plan, or enforce'' m path"

definition Validate_AgeBasis :: "string \<Rightarrow> string \<Rightarrow> gotext option" where
  "Validate_AgeBasis b path =
     validate_enum [AgeBasisPartitionTime, AgeBasisFrontier]
       ''%s must be one of partitionTime or frontier'' b path"

definition Validate_ResplitStrategy :: "string \<Rightarrow> string \<Rightarrow> gotext option" where
  "Validate_ResplitStrategy s path =
     validate_enum [ResplitStrategyAuto, ResplitStrategyRemerge, ResplitStrategyAppend,
         ResplitStrategyHold]
       ''%s must be one of auto, remerge, append, or hold'' s path"

definition Validate_SealedSignal :: "string \<Rightarrow> string \<Rightarrow> gotext option" where
  "Validate_SealedSignal s path =
     validate_enum [SealedSignalAuto, SealedSignalPartLog, SealedSignalModificationTime]
       ''%s must be one of auto, partLog, or modificationTime'' s path"

definition Validate_OptimizeSide :: "string \<Rightarrow> string \<Rightarrow> gotext option" where
  "Validate_OptimizeSide s path =
     validate_enum [OptimizeOnHot, OptimizeOnCold] ''%s must be one of hot or cold'' s path"

definition Validate_Resplit :: "ResplitSettings \<Rightarrow> string \<Rightarrow> gdur \<Rightarrow> gotext option" where
  "Validate_Resplit s path quietFor =
     first_some
       [Validate_ResplitStrategy (rs_Strategy s) (path @ ''.strategy''),
        check (rs_QuietFor s < quietFor)
          (Fmt ''%s.quietFor must be greater than or equal to quietFor'' [AStr path]),
        check (rs_FragmentAbovePartCount s = 0)
          (Fmt ''%s.fragmentAbovePartCount must be positive'' [AStr path])]"

definition Validate_Age :: "AgeSettings \<Rightarrow> string \<Rightarrow> bool \<Rightarrow> gotext option" where
  "Validate_Age a path required =
     (if age_Basis a = '''' then check required (Fmt ''%s.basis is required'' [AStr path])
      else first_some
       [Validate_AgeBasis (age_Basis a) (path @ ''.basis''),
        check (age_Basis a = AgeBasisPartitionTime \<and> age_OlderThan a \<le> 0)
          (Fmt ''%s.olderThan must be positive for partitionTime'' [AStr path]),
        check (age_Basis a = AgeBasisFrontier \<and> age_Field a = '''')
          (Fmt ''%s.field is required for frontier'' [AStr path]),
        check (age_Basis a = AgeBasisFrontier \<and> age_KeepLast a = 0)
          (Fmt ''%s.keepLast must be positive for frontier'' [AStr path])])"

text \<open>The exclusion list, checked from index \<open>i\<close> on.\<close>

fun validate_exclusions :: "string \<Rightarrow> nat \<Rightarrow> string list \<Rightarrow> gotext option" where
  "validate_exclusions path i [] = None"
| "validate_exclusions path i (p # ps) =
     (if trim_space p = []
      then Some (Fmt ''%s.excludePartitions[%d] must not be empty'' [AStr path, AInt (int i)])
      else case ValidatePartitionLiteralSyntax p of
        Some e \<Rightarrow> Some (Fmt ''%s.excludePartitions[%d]: %w'' [AStr path, AInt (int i), AWrap e])
      | None \<Rightarrow> validate_exclusions path (Suc i) ps)"

definition Validate_Tier :: "TierSettings \<Rightarrow> string \<Rightarrow> bool \<Rightarrow> gotext option" where
  "Validate_Tier s path requireAge =
     first_some
       [if ts_Mode s \<noteq> '''' then Validate_Mode (ts_Mode s) (path @ ''.mode'') else None,
        check (ts_TargetDisk s = '''') (Fmt ''%s.targetDisk is required'' [AStr path]),
        check (ts_QuietFor s \<le> 0) (Fmt ''%s.quietFor must be positive'' [AStr path]),
        Validate_SealedSignal (ts_SealedSignal s) (path @ ''.sealedSignal''),
        check (ts_TierFrozenAfter s < ts_QuietFor s)
          (Fmt ''%s.tierFrozenAfter must be greater than or equal to %s.quietFor''
             [AStr path, AStr path]),
        check (ts_OptimizeToParts s = 0)
          (Fmt ''%s.optimizeToParts must be at least 1; use skipOptimize: true to disable optimize''
             [AStr path]),
        Validate_OptimizeSide (ts_OptimizeOn s) (path @ ''.optimizeOn''),
        check (ts_OptimizeOn s = OptimizeOnCold \<and> ts_SkipOptimize s)
          (Fmt ''%s.optimizeOn: cold is meaningless with skipOptimize: true'' [AStr path]),
        check (ts_OptimizeStallAfter s \<le> 0)
          (Fmt ''%s.optimizeStallAfter must be positive'' [AStr path]),
        Validate_Resplit (ts_Resplit s) (path @ ''.resplit'') (ts_QuietFor s),
        Validate_Age (ts_Age s) (path @ ''.age'') requireAge,
        validate_exclusions path 0 (ts_ExcludePartitions s)]"

definition Validate_Override :: "DiffBreakerOverride \<Rightarrow> gtime \<Rightarrow> gotext option" where
  "Validate_Override ov now =
     first_some
       [check (ovr_MaxPartitions ov \<le> 0)
          (lit ''tiering.safety.diffBreaker.override.maxPartitions must be positive''),
        check (f64_le (ovr_MaxTableFraction ov) (Fin 0) \<or> f64_less (Fin 1) (ovr_MaxTableFraction ov))
          (lit ''tiering.safety.diffBreaker.override.maxTableFraction must be in (0, 1]''),
        check (\<not> now < ovr_Expires ov)
          (lit ''tiering.safety.diffBreaker.override.expires must be in the future'')]"

definition Validate_Config :: "TierConfig \<Rightarrow> gtime \<Rightarrow> gotext option" where
  "Validate_Config c now =
     (let s = tc_Safety c; b = DiffBreaker s in
      first_some
       [Validate_Mode (tc_Mode c) ''tiering.mode'',
        check (tc_Interval c \<le> 0) (lit ''tiering.interval must be positive''),
        check (tc_MaxConcurrentPartitions c \<le> 0)
          (lit ''tiering.maxConcurrentPartitions must be positive''),
        check (tc_MaxConcurrentObservations c \<le> 0)
          (lit ''tiering.maxConcurrentObservations must be positive''),
        check (MaxMovesPerCycle s \<le> 0) (lit ''tiering.safety.maxMovesPerCycle must be positive''),
        check (MaxBytesInFlight s = 0) (lit ''tiering.safety.maxBytesInFlight must be positive''),
        check (MaxBytesPerDay s = 0) (lit ''tiering.safety.maxBytesPerDay must be positive''),
        check (brk_MaxPartitions b \<le> 0)
          (lit ''tiering.safety.diffBreaker.maxPartitions must be positive''),
        check (f64_le (brk_MaxTableFraction b) (Fin 0) \<or> f64_less (Fin 1) (brk_MaxTableFraction b))
          (lit ''tiering.safety.diffBreaker.maxTableFraction must be in (0, 1]''),
        (case brk_Override b of None \<Rightarrow> None | Some ov \<Rightarrow> Validate_Override ov now),
        check (ts_ExcludePartitions (tc_Defaults c) \<noteq> [])
          (lit ''tiering.defaults.excludePartitions is not meaningful; configure exclusions on watches[].tier''),
        Validate_Tier (tc_Defaults c) ''tiering.defaults'' False])"

section \<open>Durations and byte sizes\<close>

definition duration_units :: "(string \<times> gdur) list" where
  "duration_units =
     [(''ms'', millisecond), (''s'', second), (''m'', minute), (''h'', hour),
      (''d'', 24 * hour), (''w'', 7 * 24 * hour), (''y'', 365 * 24 * hour)]"

text \<open>The token regexp \<open>^([0-9]+)(ms|s|m|h|d|w|y)\<close>: digits, the first alternative that
  matches, and the rest.\<close>

definition duration_token :: "string \<Rightarrow> (string \<times> gdur \<times> string) option" where
  "duration_token s =
     (let ds = takeWhile is_digit s; r = dropWhile is_digit s in
      if ds = [] then None
      else case filter (\<lambda>(u, _). has_prefix r u) duration_units of
        [] \<Rightarrow> None
      | (u, d) # _ \<Rightarrow> Some (ds, d, drop (length u) r))"

definition duration_error :: "string \<Rightarrow> gotext" where
  "duration_error raw = Fmt ''duration %q must use ms, s, m, h, d, w, or y'' [AStr raw]"

lemma duration_token_shorter: "duration_token s = Some (ds, d, r) \<Longrightarrow> length r < length s"
proof -
  assume "duration_token s = Some (ds, d, r)"
  then have "takeWhile is_digit s \<noteq> []" "length r \<le> length (dropWhile is_digit s)"
    by (auto simp: duration_token_def Let_def split: if_splits list.splits prod.splits)
  moreover have "length (takeWhile is_digit s) + length (dropWhile is_digit s) = length s"
    by (metis length_append takeWhile_dropWhile_id)
  ultimately show ?thesis by (cases "takeWhile is_digit s") simp_all
qed

function duration_loop :: "string \<Rightarrow> string \<Rightarrow> gdur \<Rightarrow> gotext + gdur" where
  "duration_loop raw remaining acc =
     (if remaining = [] then Inr acc
      else case duration_token remaining of
        None \<Rightarrow> Inl (duration_error raw)
      | Some (ds, unit, rest) \<Rightarrow>
          (case parse_int ''ParseInt'' ds of
             Inl e \<Rightarrow> Inl (Fmt ''duration %q is invalid'' [AStr raw])
           | Inr v \<Rightarrow>
               if v < 0 then Inl (Fmt ''duration %q is invalid'' [AStr raw])
               else duration_loop raw rest (wrap64 (acc + wrap64 (v * unit)))))"
  by pat_completeness auto
termination
  by (relation "measure (\<lambda>(_, r, _). length r)") (auto dest: duration_token_shorter)

declare duration_loop.simps [simp del]

definition ParseDuration :: "string \<Rightarrow> gotext + gdur" where
  "ParseDuration raw =
     (let remaining = trim_space raw in
      if remaining = [] then Inl (duration_error raw) else duration_loop raw remaining 0)"

definition bytes_shift :: "string \<Rightarrow> nat option" where
  "bytes_shift u =
     (if u = ''KiB'' then Some 10 else if u = ''MiB'' then Some 20 else if u = ''GiB'' then Some 30
      else if u = ''TiB'' then Some 40 else if u = ''PiB'' then Some 50 else None)"

definition ParseBytes :: "string \<Rightarrow> gotext + u64" where
  "ParseBytes raw =
     (let s = trim_space raw; ds = takeWhile is_digit s in
      case (if ds = [] then None else bytes_shift (dropWhile is_digit s)) of
        None \<Rightarrow> Inl (Fmt ''bytes %q must use a base-2 suffix KiB, MiB, GiB, TiB, or PiB'' [AStr raw])
      | Some shift \<Rightarrow>
          (case parse_uint ds of
             Inl e \<Rightarrow> Inl (Fmt ''bytes %q is invalid'' [AStr raw])
           | Inr value \<Rightarrow> Inr (push_bit shift value)))"

section \<open>YAML scalars\<close>

text \<open>
  The \<open>UnmarshalYAML\<close> methods, given the node's tag, value and line: the new value of the field,
  or the error. A null duration or size leaves the field as it was.
\<close>

definition line_path :: "int \<Rightarrow> string" where
  "line_path line = ''line '' @ show_int line"

definition unmarshal_enum ::
  "(string \<Rightarrow> string \<Rightarrow> gotext option) \<Rightarrow> string \<Rightarrow> int \<Rightarrow> gotext + string" where
  "unmarshal_enum validate value line =
     (case validate value (line_path line) of Some e \<Rightarrow> Inl e | None \<Rightarrow> Inr value)"

definition unmarshal_Mode :: "string \<Rightarrow> int \<Rightarrow> gotext + string" where
  "unmarshal_Mode = unmarshal_enum Validate_Mode"

definition unmarshal_AgeBasis :: "string \<Rightarrow> int \<Rightarrow> gotext + string" where
  "unmarshal_AgeBasis = unmarshal_enum Validate_AgeBasis"

definition unmarshal_ResplitStrategy :: "string \<Rightarrow> int \<Rightarrow> gotext + string" where
  "unmarshal_ResplitStrategy = unmarshal_enum Validate_ResplitStrategy"

definition unmarshal_SealedSignal :: "string \<Rightarrow> int \<Rightarrow> gotext + string" where
  "unmarshal_SealedSignal = unmarshal_enum Validate_SealedSignal"

definition unmarshal_OptimizeSide :: "string \<Rightarrow> int \<Rightarrow> gotext + string" where
  "unmarshal_OptimizeSide = unmarshal_enum Validate_OptimizeSide"

definition unmarshal_Duration :: "gdur \<Rightarrow> string \<Rightarrow> string \<Rightarrow> int \<Rightarrow> gotext + gdur" where
  "unmarshal_Duration old tag value line =
     (if tag = ''!!null'' then Inr old
      else case ParseDuration value of
        Inl e \<Rightarrow> Inl (Fmt ''line %d: %w'' [AInt line, AWrap e])
      | Inr d \<Rightarrow> Inr d)"

definition unmarshal_Bytes :: "u64 \<Rightarrow> string \<Rightarrow> string \<Rightarrow> int \<Rightarrow> gotext + u64" where
  "unmarshal_Bytes old tag value line =
     (if tag = ''!!null'' then Inr old
      else case ParseBytes value of
        Inl e \<Rightarrow> Inl (Fmt ''line %d: %w'' [AInt line, AWrap e])
      | Inr b \<Rightarrow> Inr b)"

section \<open>Tracing endpoint\<close>

fun last_index :: "char \<Rightarrow> string \<Rightarrow> nat option" where
  "last_index c [] = None"
| "last_index c (d # s) =
     (case last_index c s of Some i \<Rightarrow> Some (Suc i) | None \<Rightarrow> if d = c then Some 0 else None)"

text \<open>\<open>net.SplitHostPort\<close>; \<open>None\<close> is any of its errors.\<close>

definition split_host_port :: "string \<Rightarrow> (string \<times> string) option" where
  "split_host_port hp =
     (case last_index (CHR '':'') hp of
        None \<Rightarrow> None
      | Some i \<Rightarrow>
          if has_prefix hp ''['' then
            (case str_index hp '']'' of
               None \<Rightarrow> None
             | Some e \<Rightarrow>
                 if e + 1 \<noteq> i then None
                 else if CHR ''['' \<in> set (drop 1 hp) \<or> CHR '']'' \<in> set (drop (e + 1) hp) then None
                 else Some (take (e - 1) (drop 1 hp), drop (i + 1) hp))
          else if CHR '':'' \<in> set (take i hp) \<or> CHR ''['' \<in> set hp \<or> CHR '']'' \<in> set hp then None
          else Some (take i hp, drop (i + 1) hp))"

definition ValidateTracing :: "string \<Rightarrow> f64 \<Rightarrow> gotext option" where
  "ValidateTracing endpoint sampleRatio =
     (if f64_less sampleRatio (Fin 0) \<or> f64_less (Fin 1) sampleRatio
      then Some (lit ''tracing.sampleRatio must be in [0, 1]'')
      else if endpoint = '''' then None
      else case split_host_port endpoint of
        None \<Rightarrow> Some (lit ''tracing.endpoint must be host:port when set'')
      | Some (host, port) \<Rightarrow>
          check (host = '''' \<or> port = '''') (lit ''tracing.endpoint must be host:port when set''))"

text \<open>\<open>TierSettings.Clone\<close> copies the exclusion slice; values here are immutable, so the copy is
  the value itself.\<close>

definition Clone :: "TierSettings \<Rightarrow> TierSettings" where
  "Clone s = s\<lparr>ts_ExcludePartitions := map id (ts_ExcludePartitions s)\<rparr>"

section \<open>Properties of defaults and validation\<close>

definition zero_settings :: TierSettings where
  "zero_settings =
     \<lparr>ts_Mode = '''', ts_TargetDisk = '''', ts_HotVolume = '''', ts_QuietFor = 0,
      ts_SealedSignal = '''', ts_TierFrozenAfter = 0, ts_OptimizeToParts = 0,
      ts_SkipOptimize = False, ts_OptimizeOn = '''', ts_OptimizeSkipAboveBytes = 0,
      ts_OptimizeStallAfter = 0,
      ts_Resplit = \<lparr>rs_Strategy = '''', rs_QuietFor = 0, rs_FragmentAbovePartCount = 0\<rparr>,
      ts_Age = zero_age, ts_ExcludePartitions = []\<rparr>"

definition zero_config :: TierConfig where
  "zero_config =
     \<lparr>tc_Mode = '''', tc_Interval = 0, tc_MaxConcurrentPartitions = 0,
      tc_MaxConcurrentObservations = 0,
      tc_Safety = \<lparr>MaxMovesPerCycle = 0, MaxBytesInFlight = 0, MaxBytesPerDay = 0,
        PauseAfterActions = 0,
        DiffBreaker = \<lparr>brk_MaxPartitions = 0, brk_MaxTableFraction = Fin 0, brk_Override = None\<rparr>\<rparr>,
      tc_Defaults = zero_settings\<rparr>"

lemma u64_defaults [simp]:
  "push_bit 30 (300 :: u64) = 322122547200" "push_bit 30 (500 :: u64) = 536870912000"
  "push_bit 40 (2 :: u64) = 2199023255552"
  by (simp_all add: push_bit_eq_mult)

lemmas default_defs = DefaultTierConfig_def DefaultTierSettings_def zero_config_def
  zero_settings_def ResolveDefaults_def ResolveDefaults_tier_def resolve_resplit_def
  resolve_safety_def resolve_breaker_def

lemma resolve_zero: "ResolveDefaults zero_config = DefaultTierConfig"
  by (simp add: default_defs Let_def enum_simps dur_simps)

lemma resolve_resplit_idem: "resolve_resplit (resolve_resplit r) = resolve_resplit r"
  by (simp add: resolve_resplit_def DefaultTierSettings_def Let_def enum_simps dur_simps)

lemma ResolveDefaults_tier_idem:
  "ResolveDefaults_tier (ResolveDefaults_tier s) = ResolveDefaults_tier s"
  by (simp add: ResolveDefaults_tier_def resolve_resplit_idem DefaultTierSettings_def Let_def
      enum_simps dur_simps)

lemma resolve_safety_idem: "resolve_safety (resolve_safety s) = resolve_safety s"
  by (simp add: resolve_safety_def resolve_breaker_def DefaultTierConfig_def Let_def)

lemma resolve_idem: "ResolveDefaults (ResolveDefaults c) = ResolveDefaults c"
  by (simp add: ResolveDefaults_def Let_def ResolveDefaults_tier_idem resolve_safety_idem
      DefaultTierConfig_def enum_simps dur_simps)

text \<open>What validation establishes of a table's settings.\<close>

definition age_wf :: "AgeSettings \<Rightarrow> bool \<Rightarrow> bool" where
  "age_wf a required \<longleftrightarrow>
     (if age_Basis a = '''' then \<not> required
      else age_Basis a = AgeBasisPartitionTime \<and> 0 < age_OlderThan a
         \<or> age_Basis a = AgeBasisFrontier \<and> age_Field a \<noteq> '''' \<and> age_KeepLast a \<noteq> 0)"

definition tier_wf :: "TierSettings \<Rightarrow> bool \<Rightarrow> bool" where
  "tier_wf s required \<longleftrightarrow>
     (ts_Mode s \<noteq> '''' \<longrightarrow> ts_Mode s \<in> {ModeOff, ModePlan, ModeEnforce}) \<and>
     ts_TargetDisk s \<noteq> '''' \<and> 0 < ts_QuietFor s \<and>
     ts_SealedSignal s \<in> {SealedSignalAuto, SealedSignalPartLog, SealedSignalModificationTime} \<and>
     ts_QuietFor s \<le> ts_TierFrozenAfter s \<and> ts_OptimizeToParts s \<noteq> 0 \<and>
     ts_OptimizeOn s \<in> {OptimizeOnHot, OptimizeOnCold} \<and>
     (ts_OptimizeOn s = OptimizeOnCold \<longrightarrow> \<not> ts_SkipOptimize s) \<and> 0 < ts_OptimizeStallAfter s \<and>
     rs_Strategy (ts_Resplit s) \<in> {ResplitStrategyAuto, ResplitStrategyRemerge,
        ResplitStrategyAppend, ResplitStrategyHold} \<and>
     ts_QuietFor s \<le> rs_QuietFor (ts_Resplit s) \<and>
     rs_FragmentAbovePartCount (ts_Resplit s) \<noteq> 0 \<and> age_wf (ts_Age s) required \<and>
     list_all (\<lambda>p. trim_space p \<noteq> [] \<and> ValidatePartitionLiteralSyntax p = None)
       (ts_ExcludePartitions s)"

lemma validate_enum_None: "validate_enum allowed f v path = None \<longleftrightarrow> v \<in> set allowed"
  by (simp add: validate_enum_def)

lemma validate_exclusions_None:
  "validate_exclusions path i ps = None \<longleftrightarrow>
   list_all (\<lambda>p. trim_space p \<noteq> [] \<and> ValidatePartitionLiteralSyntax p = None) ps"
  by (induction path i ps rule: validate_exclusions.induct) (auto split: option.splits)

lemma Validate_Age_None: "Validate_Age a path required = None \<longleftrightarrow> age_wf a required"
  by (auto simp: Validate_Age_def Validate_AgeBasis_def validate_enum_def age_wf_def enum_simps)

lemma validate_tier_None: "Validate_Tier s path required = None \<longleftrightarrow> tier_wf s required"
  by (simp add: Validate_Tier_def Validate_Mode_def Validate_SealedSignal_def Validate_Resplit_def
      Validate_OptimizeSide_def Validate_ResplitStrategy_def validate_enum_None Validate_Age_None
      validate_exclusions_None tier_wf_def not_less not_le)

lemma default_settings_wf: "tier_wf DefaultTierSettings False"
  by (simp add: tier_wf_def DefaultTierSettings_def dur_simps age_wf_def zero_age_def enum_simps)

lemma default_config_valid: "Validate_Config DefaultTierConfig now = None"
proof -
  have "Validate_Tier DefaultTierSettings p False = None" for p
    using default_settings_wf by (simp add: validate_tier_None)
  then show ?thesis
    by (simp add: Validate_Config_def DefaultTierConfig_def Validate_Mode_def validate_enum_def
        dur_simps)
      (simp add: DefaultTierSettings_def)
qed

section \<open>Properties of the duration parser\<close>

definition render_durations :: "(nat \<times> string) list \<Rightarrow> string" where
  "render_durations toks = concat (map (\<lambda>(n, u). show_nat n @ u) toks)"

definition unit_len :: "string \<Rightarrow> gdur" where
  "unit_len u = (case map_of duration_units u of Some d \<Rightarrow> d | None \<Rightarrow> 0)"

definition durations_sum :: "(nat \<times> string) list \<Rightarrow> int" where
  "durations_sum toks = (\<Sum>(n, u) \<leftarrow> toks. int n * unit_len u)"

definition toks_ok :: "(nat \<times> string) list \<Rightarrow> bool" where
  "toks_ok toks \<longleftrightarrow> list_all (\<lambda>(n, u). in_i64 (int n) \<and> u \<in> fst ` set duration_units) toks"

lemma takeWhile_show_nat:
  "r = [] \<or> \<not> is_digit (hd r) \<Longrightarrow> takeWhile is_digit (show_nat n @ r) = show_nat n"
  "r = [] \<or> \<not> is_digit (hd r) \<Longrightarrow> dropWhile is_digit (show_nat n @ r) = r"
  using show_nat_digits [of n]
  by (cases r; simp add: list_all_iff takeWhile_append2 dropWhile_append2)+

lemma unit_cases:
  "u \<in> fst ` set duration_units \<Longrightarrow>
   u = ''ms'' \<or> u = ''s'' \<or> u = ''m'' \<or> u = ''h'' \<or> u = ''d'' \<or> u = ''w'' \<or> u = ''y''"
  by (auto simp: duration_units_def)

lemma duration_token_render:
  assumes u: "u \<in> fst ` set duration_units" and r: "r = [] \<or> is_digit (hd r)"
  shows "duration_token (show_nat n @ u @ r) = Some (show_nat n, unit_len u, r)"
proof -
  have tail: "u @ r = [] \<or> \<not> is_digit (hd (u @ r))"
    using unit_cases [OF u] by (elim disjE) (simp_all add: is_digit_def)
  have "filter (\<lambda>(v, _). has_prefix (u @ r) v) duration_units
      = (u, unit_len u) # filter (\<lambda>(v, _). has_prefix (u @ r) v \<and> u = ''ms'' \<and> v = ''m'') duration_units"
    using unit_cases [OF u] r
    by (elim disjE; cases r) (auto simp: duration_units_def has_prefix_def unit_len_def is_digit_def)
  then show ?thesis
    by (simp add: duration_token_def takeWhile_show_nat [OF tail] show_nat_nonempty)
qed

lemma wrap64_add_wrap: "wrap64 (a + wrap64 b) = wrap64 (a + b)"
  unfolding wrap64_def by (simp add: mod_simps algebra_simps)

lemma wrap64_wrap_add: "wrap64 (wrap64 a + b) = wrap64 (a + b)"
  using wrap64_add_wrap [of b a] by (simp add: add.commute)

lemma hd_show_nat: "is_digit (hd (show_nat n))"
  using show_nat_nonempty [of n] show_nat_digits [of n] by (cases "show_nat n") simp_all

lemma render_durations_head:
  "toks \<noteq> [] \<Longrightarrow> render_durations toks \<noteq> [] \<and> is_digit (hd (render_durations toks))"
  by (cases toks) (auto simp: render_durations_def hd_append show_nat_nonempty hd_show_nat)

lemma duration_loop_render:
  "toks_ok toks \<Longrightarrow>
   duration_loop raw (render_durations toks) (wrap64 acc) = Inr (wrap64 (acc + durations_sum toks))"
proof (induction toks arbitrary: acc)
  case Nil
  then show ?case
    by (subst duration_loop.simps) (simp add: render_durations_def durations_sum_def)
next
  case (Cons t toks)
  obtain n u where t: "t = (n, u)" by (cases t)
  with Cons.prems have u: "u \<in> fst ` set duration_units" and n: "in_i64 (int n)" and ok: "toks_ok toks"
    by (auto simp: toks_ok_def)
  have rd: "render_durations (t # toks) = show_nat n @ u @ render_durations toks"
    by (simp add: render_durations_def t)
  have tok: "duration_token (show_nat n @ u @ render_durations toks)
      = Some (show_nat n, unit_len u, render_durations toks)"
    by (rule duration_token_render [OF u])
      (cases "toks = []", simp add: render_durations_def, simp add: render_durations_head)
  have "wrap64 (wrap64 acc + wrap64 (int n * unit_len u)) = wrap64 (acc + int n * unit_len u)"
    by (simp add: wrap64_add_wrap wrap64_wrap_add)
  with Cons.IH [OF ok, of "acc + int n * unit_len u"] n tok show ?case
    unfolding rd
    by (subst duration_loop.simps)
      (simp add: show_nat_nonempty parse_int_show_nat durations_sum_def t add.assoc)
qed

lemma letter_solid: "u \<in> fst ` set duration_units \<Longrightarrow> u \<noteq> [] \<and> solid (last u)"
  by (auto simp: duration_units_def solid_def ascii_space_def)

text \<open>The parser computes the sum of the tokens modulo \<open>2^64\<close>, as a signed value.\<close>

lemma duration_render_sum:
  assumes "toks \<noteq> []" "toks_ok toks"
  shows "ParseDuration (render_durations toks) = Inr (wrap64 (durations_sum toks))"
proof -
  let ?s = "render_durations toks"
  obtain n u where l: "last toks = (n, u)" by (cases "last toks")
  with assms have "u \<in> fst ` set duration_units"
    by (metis (no_types, lifting) last_in_set list_all_iff toks_ok_def case_prodD)
  moreover have "?s = render_durations (butlast toks) @ show_nat n @ u"
    using append_butlast_last_id [OF assms(1)] l
    by (metis (no_types, lifting) append_Nil2 case_prod_conv concat.simps concat_append
        list.map map_append render_durations_def)
  ultimately have "solid (last ?s)" using letter_solid [of u] by simp
  moreover have h: "?s \<noteq> []" "is_digit (hd ?s)" using render_durations_head [OF assms(1)] by auto
  ultimately have "trim_space ?s = ?s"
    using digit_solid by (intro trim_space_solid_ends) auto
  with h(1) show ?thesis
    using duration_loop_render [OF assms(2), of ?s 0] by (simp add: ParseDuration_def Let_def i64_simps)
qed

lemma show_nat_aux_fuel: "n < k \<Longrightarrow> n < j \<Longrightarrow> show_nat_aux k n = show_nat_aux j n"
proof (induction k arbitrary: n j)
  case (Suc k)
  then obtain i where j: "j = Suc i" by (cases j) auto
  show ?case
  proof (cases "n < 10")
    case False
    then have "n div 10 < k" "n div 10 < i" using Suc.prems j by linarith+
    from Suc.IH [OF this] False show ?thesis by (simp add: j)
  qed (simp add: j)
qed simp

lemma show_nat_unfold:
  "show_nat n = (if n < 10 then [char_of (48 + n)] else show_nat (n div 10) @ [char_of (48 + n mod 10)])"
proof (cases "n < 10")
  case False
  then have "n div 10 < n" by linarith
  with False show ?thesis
    using show_nat_aux_fuel [of "n div 10" n "Suc (n div 10)"] by (simp add: show_nat_def)
qed (simp add: show_nat_def)

text \<open>The defaults are consistent: resolving an empty configuration gives a configuration that
  passes validation, and resolving any configuration a second time changes nothing.\<close>

theorem defaults_valid_and_stable:
  "Validate_Config (ResolveDefaults zero_config) now = None \<and>
   ResolveDefaults (ResolveDefaults c) = ResolveDefaults c"
  by (simp add: resolve_zero resolve_idem default_config_valid)

text \<open>Validation of a table's settings accepts exactly the well-formed ones: known mode, signal,
  side and strategy, positive windows with the quiet window at most the resplit window and the
  dead-group horizon, a cold-side merge only where merging is on, a complete age rule, and
  exclusions that parse.\<close>

theorem tier_validation_exact: "Validate_Tier s path required = None \<longleftrightarrow> tier_wf s required"
  by (rule validate_tier_None)

text \<open>The duration parser sums its tokens modulo \<open>2^64\<close>: on a rendered list of counts and
  units it returns the signed 64-bit value of the sum, so it is exact whenever the sum fits.\<close>

theorem duration_sum:
  assumes "toks \<noteq> []" "toks_ok toks"
  shows "ParseDuration (render_durations toks) = Inr (wrap64 (durations_sum toks))"
  using assms by (rule duration_render_sum)

theorem duration_sum_witness: "ParseDuration ''1d12h'' = Inr (36 * hour)"
proof -
  have "render_durations [(1, ''d''), (12, ''h'')] = ''1d12h''"
    by (simp add: render_durations_def show_nat_unfold char_of_def bit_Suc_0_iff)
  moreover have "toks_ok [(1, ''d''), (12, ''h'')]"
    by (simp add: toks_ok_def i64_simps duration_units_def)
  moreover have "wrap64 (durations_sum [(1, ''d''), (12, ''h'')]) = 36 * hour"
    by (simp add: durations_sum_def unit_len_def duration_units_def wrap64_def dur_simps)
  ultimately show ?thesis using duration_sum [of "[(1, ''d''), (12, ''h'')]"] by simp
qed

text \<open>The sum does overflow on accepted input: a window of 213504 days is read as about 25
  minutes, and one of 106752 days as a negative duration.\<close>

theorem duration_overflow:
  "ParseDuration ''213504d'' = Inr 1526290448384 \<and> (\<exists>d. ParseDuration ''106752d'' = Inr d \<and> d < 0)"
proof -
  have r: "render_durations [(213504, ''d'')] = ''213504d''" "render_durations [(106752, ''d'')] = ''106752d''"
    by (simp_all add: render_durations_def show_nat_unfold char_of_def bit_Suc_0_iff)
  have ok: "toks_ok [(213504, ''d'')]" "toks_ok [(106752, ''d'')]"
    by (simp_all add: toks_ok_def i64_simps duration_units_def)
  have v: "wrap64 (durations_sum [(213504, ''d'')]) = 1526290448384"
    "wrap64 (durations_sum [(106752, ''d'')]) < 0"
    by (simp_all add: durations_sum_def unit_len_def duration_units_def wrap64_def dur_simps)
  show ?thesis
    using duration_render_sum [of "[(213504, ''d'')]"] duration_render_sum [of "[(106752, ''d'')]"] r ok v
    by simp
qed

end
