(* ===== verification/Sql.thy ===== *)
theory Sql
  imports TierConfig
begin

text \<open>
  SQL text (\<open>internal/tiering/sql.go\<close>, the statement builders of \<open>act.go\<close>) and its reader: the
  scanner of single-quoted literals and the classifier of ALTER MOVE statements in
  \<open>observe.go\<close>, with which the guard against foreign movers recognises the program's own work.
\<close>

abbreviation backquote :: char where "backquote \<equiv> CHR 0x60"

section \<open>Quoting\<close>

definition QuoteIdent :: "string \<Rightarrow> string" where
  "QuoteIdent ident = [backquote] @ replace_byte backquote [backquote, backquote] ident @ [backquote]"

definition QuoteQualified :: "string \<Rightarrow> string \<Rightarrow> string" where
  "QuoteQualified database table = QuoteIdent database @ ''.'' @ QuoteIdent table"

definition QuoteString :: "string \<Rightarrow> string" where
  "QuoteString value =
     (let escaped = replace_byte bslash [bslash, bslash] value;
          escaped' = replace_byte quote_ch [quote_ch, quote_ch] escaped
      in [quote_ch] @ escaped' @ [quote_ch])"

section \<open>Reading a literal back\<close>

fun sql_scan :: "string \<Rightarrow> string \<Rightarrow> string option" where
  "sql_scan [] b = None"
| "sql_scan [c] b =
     (if c = quote_ch then Some b
      else None)"
| "sql_scan (c # d # s) b =
     (if c = quote_ch then
        (if d = quote_ch then sql_scan s (b @ [quote_ch]) else Some b)
      else if c = bslash then sql_scan s (b @ [d])
      else sql_scan (d # s) (b @ [c]))"

definition readSQLString :: "string \<Rightarrow> gotext + string" where
  "readSQLString raw =
     (case sql_scan (drop 1 raw) [] of
        Some v \<Rightarrow> Inr v
      | None \<Rightarrow> Inl (Fmt ''SQL string %q is unterminated'' [AStr raw]))"

text \<open>\<open>extractMovePartitionID\<close>: the index found in the lower-cased text is used on the original.\<close>

definition extractMovePartitionID :: "unicode \<Rightarrow> string \<Rightarrow> string option" where
  "extractMovePartitionID U query =
     (case str_index (go_lower U query) ''partition id'' of
        None \<Rightarrow> None
      | Some idx \<Rightarrow>
          (let tail = trim_space (drop (idx + length ''partition id'') query) in
           if \<not> has_prefix tail [quote_ch] then None
           else case readSQLString tail of Inl e \<Rightarrow> None | Inr v \<Rightarrow> Some v))"

section \<open>Statements and their tags\<close>

definition move_query :: "string \<Rightarrow> string \<Rightarrow> string \<Rightarrow> string \<Rightarrow> string" where
  "move_query database table partitionID targetClause =
     ''ALTER TABLE '' @ QuoteQualified database table @ '' MOVE PARTITION ID '' @
     QuoteString partitionID @ '' '' @ targetClause @
     '' SETTINGS alter_move_to_space_execute_async = 1''"

definition optimize_query :: "string \<Rightarrow> string \<Rightarrow> string \<Rightarrow> string" where
  "optimize_query database table partitionID =
     ''OPTIMIZE TABLE '' @ QuoteQualified database table @ '' PARTITION ID '' @
     QuoteString partitionID @
     '' FINAL SETTINGS alter_sync = 0, optimize_throw_if_noop = 1, optimize_skip_merged_partitions = 1''"

definition underscore_bytes :: "string \<Rightarrow> string \<Rightarrow> string" where
  "underscore_bytes bad s = map (\<lambda>c. if c \<in> set bad then CHR ''_'' else c) s"

definition sanitizeQueryID :: "string \<Rightarrow> string" where
  "sanitizeQueryID value =
     (let cleaned = underscore_bytes ('' /.:'' @ [quote_ch]) value in
      if cleaned = '''' then ''unknown'' else cleaned)"

text \<open>\<open>statementContext\<close>: the query id and the log comment a statement is sent with. The extra
  settings (the optimize leg's \<open>max_execution_time\<close>) ride along.\<close>

record statement_tag =
  st_query_id :: string
  st_log_comment :: string
  st_settings :: "(string \<times> int) list"

definition statementContext ::
  "string \<Rightarrow> string \<Rightarrow> string \<Rightarrow> (string \<times> int) list \<Rightarrow> statement_tag" where
  "statementContext instanceID attemptID step settings =
     \<lparr>st_query_id = ''movoor-'' @ sanitizeQueryID (attemptID @ ''-'' @ step),
      st_log_comment = ''movoor:'' @ instanceID, st_settings = settings\<rparr>"

section \<open>Classifying statements\<close>

datatype moveStatementClass = moveStatementOurs | moveStatementDuplicate | moveStatementForeign

definition classifyMoveStatement :: "string \<Rightarrow> string \<Rightarrow> string \<Rightarrow> moveStatementClass" where
  "classifyMoveStatement queryID logComment instanceID =
     (let comment = trim_space logComment;
          queryIsMovoor = has_prefix queryID ''movoor-'';
          commentIsMovoor = has_prefix comment ''movoor:''
      in if \<not> queryIsMovoor \<and> \<not> commentIsMovoor then moveStatementForeign
         else if comment = ''movoor:'' @ instanceID \<or> str_contains queryID instanceID
         then moveStatementOurs
         else moveStatementDuplicate)"

record ForeignMoveObservation =
  fm_DuplicateInstance :: bool
  fm_ForeignActivity :: bool
  fm_Message :: gotext

definition no_foreign_move :: ForeignMoveObservation where
  "no_foreign_move = \<lparr>fm_DuplicateInstance = False, fm_ForeignActivity = False, fm_Message = no_text\<rparr>"

text \<open>The rows are (query id, log comment, query).\<close>

fun classifyMoveStatementRows :: "(string \<times> string \<times> string) list \<Rightarrow> string \<Rightarrow> ForeignMoveObservation" where
  "classifyMoveStatementRows [] instanceID = no_foreign_move"
| "classifyMoveStatementRows ((queryID, logComment, query) # rows) instanceID =
     (case classifyMoveStatement queryID logComment instanceID of
        moveStatementOurs \<Rightarrow> classifyMoveStatementRows rows instanceID
      | moveStatementDuplicate \<Rightarrow>
          \<lparr>fm_DuplicateInstance = True, fm_ForeignActivity = False,
           fm_Message = lit ''another movoor instance issued ALTER MOVE on this node''\<rparr>
      | moveStatementForeign \<Rightarrow>
          \<lparr>fm_DuplicateInstance = False, fm_ForeignActivity = True,
           fm_Message = lit ''foreign ALTER MOVE activity observed on this node''\<rparr>)"

section \<open>Disk predicates\<close>

record DiskPart =
  dp_Disk :: string
  dp_Parts :: u64

definition hasDisk :: "DiskPart list \<Rightarrow> string \<Rightarrow> bool" where
  "hasDisk disks target \<longleftrightarrow> list_ex (\<lambda>d. dp_Disk d = target \<and> 0 < dp_Parts d) disks"

definition allOnDisk :: "DiskPart list \<Rightarrow> string \<Rightarrow> bool" where
  "allOnDisk disks target \<longleftrightarrow>
     disks \<noteq> [] \<and> \<not> list_ex (\<lambda>d. 0 < dp_Parts d \<and> dp_Disk d \<noteq> target) disks \<and>
     hasDisk disks target"

section \<open>Lemmas\<close>

lemma replace_byte_Nil [simp]: "replace_byte c r [] = []"
  by (simp add: replace_byte_def)

lemma replace_byte_Cons [simp]:
  "replace_byte c r (d # s) = (if d = c then r else [d]) @ replace_byte c r s"
  by (simp add: replace_byte_def)

lemma replace_byte_append [simp]:
  "replace_byte c r (s @ t) = replace_byte c r s @ replace_byte c r t"
  by (simp add: replace_byte_def)

definition quote_body :: "string \<Rightarrow> string" where
  "quote_body v = replace_byte quote_ch [quote_ch, quote_ch] (replace_byte bslash [bslash, bslash] v)"

lemma QuoteString_body: "QuoteString v = quote_ch # quote_body v @ [quote_ch]"
  by (simp add: QuoteString_def quote_body_def Let_def)

lemma quote_body_Cons:
  "quote_body (c # v) =
     (if c = bslash then [bslash, bslash] else if c = quote_ch then [quote_ch, quote_ch] else [c])
     @ quote_body v"
  by (simp add: quote_body_def)

lemma sql_scan_quote_body:
  "r = [] \<or> hd r \<noteq> quote_ch \<Longrightarrow> sql_scan (quote_body v @ quote_ch # r) b = Some (b @ v)"
proof (induction v arbitrary: b)
  case Nil
  then show ?case by (cases r) (simp_all add: quote_body_def)
next
  case (Cons c v)
  obtain d s where ds: "quote_body v @ quote_ch # r = d # s"
    by (cases "quote_body v @ quote_ch # r") auto
  from Cons show ?case by (auto simp: quote_body_Cons ds)
qed

lemma readSQLString_quoted:
  "r = [] \<or> hd r \<noteq> quote_ch \<Longrightarrow> readSQLString (QuoteString v @ r) = Inr v"
  by (simp add: readSQLString_def QuoteString_body sql_scan_quote_body)

text \<open>Every statement the instance sends is recognised as its own by its log comment.\<close>

lemma own_tag_ours:
  assumes "trim_space (''movoor:'' @ inst) = ''movoor:'' @ inst"
  shows "classifyMoveStatement (st_query_id (statementContext inst a s st))
           (st_log_comment (statementContext inst a s st)) inst = moveStatementOurs"
  using assms by (simp add: classifyMoveStatement_def statementContext_def has_prefix_def)

lemma allOnDisk_hasDisk: "allOnDisk ds t \<Longrightarrow> hasDisk ds t"
  by (simp add: allOnDisk_def)

text \<open>A string quoted for SQL reads back as itself, whatever its bytes, also when other text that
  does not start with a quote follows.\<close>

theorem quote_string_roundtrip:
  assumes "r = [] \<or> hd r \<noteq> quote_ch"
  shows "readSQLString (QuoteString v @ r) = Inr v"
  using assms by (rule readSQLString_quoted)

theorem quote_string_roundtrip_witness:
  "readSQLString (QuoteString [quote_ch, bslash, CHR ''a''] @ '' x'') = Inr [quote_ch, bslash, CHR ''a'']"
  by (rule quote_string_roundtrip) simp

section \<open>The guard recognises the statements this program writes\<close>

lemma runes_ascii_Cons: "byte c < 128 \<Longrightarrow> runes (c # s) = byte c # runes s"
  by (simp add: runes_def decode_rune_def)

lemma rune_lower_ascii:
  "byte c < 128 \<Longrightarrow> encode_rune (rune_lower U (byte c)) = [ascii_lower c]"
  by (auto simp: rune_lower_def encode_rune_def ascii_lower_def)

lemma go_lower_ascii_Cons: "byte c < 128 \<Longrightarrow> go_lower U (c # s) = ascii_lower c # go_lower U s"
  by (simp add: go_lower_def runes_ascii_Cons rune_lower_ascii)

lemma go_lower_ascii_append:
  "list_all (\<lambda>c. byte c < 128) p \<Longrightarrow> go_lower U (p @ s) = map ascii_lower p @ go_lower U s"
  by (induction p) (simp_all add: go_lower_ascii_Cons)

text \<open>A byte that the pattern lacks cuts the search in two.\<close>

lemma has_prefix_barrier:
  "c \<notin> set p \<Longrightarrow> p \<noteq> [] \<Longrightarrow> has_prefix (x @ c # y) p \<longleftrightarrow> has_prefix x p"
proof (induction x arbitrary: p)
  case Nil
  then show ?case by (cases p) (auto simp: has_prefix_def)
next
  case (Cons a x)
  then obtain b q where p: "p = b # q" by (cases p) auto
  show ?case
  proof (cases "q = []")
    case True
    then show ?thesis by (simp add: p has_prefix_def)
  next
    case False
    with Cons p show ?thesis by (auto simp: has_prefix_def)
  qed
qed

lemma str_index_barrier:
  assumes "c \<notin> set p" "p \<noteq> []"
  shows "str_index (x @ c # y) p =
    (case str_index x p of Some i \<Rightarrow> Some i | None \<Rightarrow> map_option (\<lambda>i. i + length x + 1) (str_index y p))"
proof (induction x)
  case Nil
  have "\<not> has_prefix (c # y) p" using assms by (cases p) (auto simp: has_prefix_def)
  then show ?case using assms by simp
next
  case (Cons a x)
  have "has_prefix (a # x @ c # y) p \<longleftrightarrow> has_prefix (a # x) p"
    using has_prefix_barrier [OF assms, of "a # x" y] by simp
  with Cons show ?case by (cases "str_index y p") (auto split: option.splits)
qed

definition ascii_name :: "string \<Rightarrow> bool" where
  "ascii_name s \<longleftrightarrow> list_all (\<lambda>c. byte c < 128) s"

text \<open>The inside of a quoted name pair: between the first and the last backquote.\<close>

definition qualified_body :: "string \<Rightarrow> string \<Rightarrow> string" where
  "qualified_body d t =
     replace_byte backquote [backquote, backquote] d @ [backquote] @ ''.'' @ [backquote] @
     replace_byte backquote [backquote, backquote] t"

lemma qualified_split: "QuoteQualified d t = backquote # qualified_body d t @ [backquote]"
  by (simp add: QuoteQualified_def QuoteIdent_def qualified_body_def)

lemma qualified_ascii:
  "ascii_name d \<Longrightarrow> ascii_name t \<Longrightarrow> list_all (\<lambda>c. byte c < 128) (qualified_body d t)"
  by (auto simp: ascii_name_def qualified_body_def replace_byte_def list_all_iff)

definition partition_id_in :: "string \<Rightarrow> bool" where
  "partition_id_in s \<longleftrightarrow> str_contains (map ascii_lower s) ''partition id''"

lemma lower_backquote: "ascii_lower backquote = backquote"
  by (simp add: ascii_lower_def)

lemma qualified_no_pattern:
  assumes "\<not> partition_id_in (QuoteQualified d t)"
  shows "str_index (map ascii_lower (qualified_body d t)) ''partition id'' = None"
proof -
  let ?p = "''partition id''" and ?q = "map ascii_lower (qualified_body d t)"
  have "str_index (backquote # ?q @ [backquote]) ?p = None"
    using assms by (simp add: partition_id_in_def str_contains_def qualified_split lower_backquote del: str_index.simps)
  then have "str_index (?q @ [backquote]) ?p = None"
    using str_index_append_None by blast
  moreover have "str_index (?q @ backquote # []) ?p =
      (case str_index ?q ?p of Some i \<Rightarrow> Some i
       | None \<Rightarrow> map_option (\<lambda>i. i + length ?q + 1) (str_index [] ?p))"
    by (rule str_index_barrier) simp_all
  ultimately show ?thesis by (cases "str_index ?q ?p") simp_all
qed

lemma move_query_index:
  assumes "ascii_name d" "ascii_name t" "\<not> partition_id_in (QuoteQualified d t)"
  shows "str_index (go_lower U (move_query d t pid clause)) ''partition id'' =
    Some (length (''ALTER TABLE '' @ QuoteQualified d t @ '' MOVE ''))"
proof -
  let ?p = "''partition id''" and ?q = "map ascii_lower (qualified_body d t)"
  define rest where "rest = '' '' @ QuoteString pid @ '' '' @ clause @ '' SETTINGS alter_move_to_space_execute_async = 1''"
  have split: "move_query d t pid clause =
      (''ALTER TABLE '' @ backquote # qualified_body d t @ backquote # '' MOVE PARTITION ID'') @ rest"
    by (simp add: move_query_def qualified_split rest_def)
  have "go_lower U (move_query d t pid clause) =
      ''alter table '' @ backquote # ?q @ backquote # '' move partition id'' @ go_lower U rest"
    unfolding split
    by (subst go_lower_ascii_append) (simp_all add: qualified_ascii assms(1,2) ascii_lower_def char_of_def bit_Suc_0_iff)
  moreover have "str_index (''alter table '' @ backquote # ?q @ backquote # '' move partition id'' @ go_lower U rest) ?p =
      Some (length ''alter table '' + length ?q + 8)"
  proof -
    have a: "str_index ''alter table '' ?p = None" by (simp add: has_prefix_def)
    have m: "str_index ('' move partition id'' @ go_lower U rest) ?p = Some 6" by (simp add: has_prefix_def)
    have 1: "str_index (?q @ backquote # ('' move partition id'' @ go_lower U rest)) ?p = Some (6 + length ?q + 1)"
      by (subst str_index_barrier) (simp_all add: qualified_no_pattern [OF assms(3)] m del: str_index.simps append.simps)
    show ?thesis
      by (subst str_index_barrier) (simp_all only: a 1 option.case option.map list.simps refl, simp_all)
  qed
  ultimately show ?thesis by (simp add: qualified_split)
qed

text \<open>The guard reads back the partition of the program's own moves: for ASCII names that do not
  themselves spell \<open>partition id\<close>, the reader of MOVE statements returns exactly the partition id
  the statement was built with, whatever bytes the id has and whatever the target clause says.\<close>

theorem own_move_partition:
  assumes "ascii_name d" "ascii_name t" "\<not> partition_id_in (QuoteQualified d t)"
  shows "extractMovePartitionID U (move_query d t pid clause) = Some pid"
proof -
  define s where "s = QuoteString pid @ '' '' @ clause @ '' SETTINGS alter_move_to_space_execute_async = 1''"
  let ?n = "length (''ALTER TABLE '' @ QuoteQualified d t @ '' MOVE '')"
  have "move_query d t pid clause =
      (''ALTER TABLE '' @ QuoteQualified d t @ '' MOVE '' @ ''PARTITION ID'') @ CHR '' '' # s"
    by (simp add: move_query_def s_def)
  then have d: "drop (?n + length ''partition id'') (move_query d t pid clause) = CHR '' '' # s"
    by simp
  have h: "s \<noteq> []" "hd s = quote_ch" "last s = CHR ''1''" by (simp_all add: s_def QuoteString_body)
  have "solid quote_ch" "solid (CHR ''1'')" by (simp_all add: solid_def ascii_space_def)
  then have "trim_space s = s" using h by (intro trim_space_solid_ends) simp_all
  moreover have "trim_left (CHR '' '' # s) = trim_left s"
    by (subst trim_left.simps) (simp add: lead_space_def ascii_space_def)
  ultimately have t: "trim_space (CHR '' '' # s) = s" by (simp add: trim_space_def)
  have "has_prefix s [quote_ch]" by (simp add: s_def QuoteString_body has_prefix_def)
  moreover have "readSQLString s = Inr pid"
    unfolding s_def by (rule readSQLString_quoted) simp
  ultimately show ?thesis
    unfolding extractMovePartitionID_def move_query_index [OF assms] option.case Let_def d t by simp
qed

theorem own_move_partition_witness:
  "\<forall>U. extractMovePartitionID U (move_query ''db'' ''t'' [quote_ch, CHR ''x''] ''TO DISK'') =
     Some [quote_ch, CHR ''x'']"
  by (intro allI own_move_partition)
    (simp_all add: ascii_name_def partition_id_in_def QuoteQualified_def QuoteIdent_def
      replace_byte_def str_contains_def has_prefix_def ascii_lower_def char_of_def bit_Suc_0_iff)

text \<open>C40: Every statement the instance sends is recognised as its own by the log comment, provided
  trimming leaves the instance's comment as it is; and a statement is held to be another
  instance's only when it carries the program's mark and neither this instance's comment nor its
  id within the query id.\<close>

theorem own_statement_recognised:
  assumes "trim_space (''movoor:'' @ inst) = ''movoor:'' @ inst"
  shows "classifyMoveStatement (st_query_id (statementContext inst a s st))
      (st_log_comment (statementContext inst a s st)) inst = moveStatementOurs \<and>
    (classifyMoveStatement q c inst = moveStatementDuplicate \<longleftrightarrow>
       (has_prefix q ''movoor-'' \<or> has_prefix (trim_space c) ''movoor:'') \<and>
       trim_space c \<noteq> ''movoor:'' @ inst \<and> \<not> str_contains q inst)"
  using own_tag_ours [OF assms] by (auto simp: classifyMoveStatement_def Let_def)

theorem own_statement_recognised_witness:
  "classifyMoveStatement (st_query_id (statementContext ''m1'' ''a'' ''move'' []))
     (st_log_comment (statementContext ''m1'' ''a'' ''move'' [])) ''m1'' = moveStatementOurs"
proof -
  have "trim_space (''movoor:'' @ ''m1'') = ''movoor:'' @ ''m1''"
    by (rule trim_space_solid_ends) (simp_all add: solid_def ascii_space_def)
  from own_statement_recognised [OF this] show ?thesis by blast
qed

end
