(* ===== verification/Layout.thy ===== *)
theory Layout
  imports TierConfig
begin

text \<open>
  Partition layouts (\<open>internal/tiering/layout.go\<close>): classifying the elements of a table's
  partition key, and reading a partition's value against the layout.
\<close>

record TableLayout =
  lay_Database :: string
  lay_Table :: string
  lay_PartitionKey :: string
  lay_Basis :: string
  lay_GroupColumns :: "string list"
  lay_AgeExpression :: string
  lay_AgeField :: string
  lay_FrontierDivisor :: int
  lay_TimeFunction :: string
  lay_TimeZone :: string
  lay_Generation :: string

definition zero_layout :: TableLayout where
  "zero_layout =
     \<lparr>lay_Database = '''', lay_Table = '''', lay_PartitionKey = '''', lay_Basis = '''',
      lay_GroupColumns = [], lay_AgeExpression = '''', lay_AgeField = '''',
      lay_FrontierDivisor = 0, lay_TimeFunction = '''', lay_TimeZone = '''',
      lay_Generation = ''''\<rparr>"

record PartitionValue =
  pv_Raw :: string
  pv_Elements :: "string list"
  pv_GroupKey :: string
  pv_AgeString :: string
  pv_AgeInteger :: int

section \<open>Elements of a partition key\<close>

record layoutElementKind =
  lk_bareColumn :: bool
  lk_frontier :: bool
  lk_field :: string
  lk_divisor :: int
  lk_timeFunction :: string
  lk_timeZone :: string

definition no_kind :: layoutElementKind where
  "no_kind = \<lparr>lk_bareColumn = False, lk_frontier = False, lk_field = '''', lk_divisor = 0,
              lk_timeFunction = '''', lk_timeZone = ''''\<rparr>"

definition time_functions :: "string list" where
  "time_functions =
     [''toYYYYMM'', ''toYYYYMMDD'', ''toDate'', ''toStartOfMonth'', ''toStartOfWeek'', ''toStartOfDay'']"

text \<open>The argument text of \<open>fn(...)\<close>, when the element has that form.\<close>

definition call_args :: "string \<Rightarrow> string \<Rightarrow> string option" where
  "call_args fn element =
     (let prefix = fn @ ''('' in
      if has_prefix element prefix \<and> has_suffix element '')''
      then Some (take (length element - 1 - length prefix) (drop (length prefix) element)) else None)"

fun time_element :: "unicode \<Rightarrow> string \<Rightarrow> string list \<Rightarrow> layoutElementKind" where
  "time_element U element [] = no_kind"
| "time_element U element (fn # fns) =
     (case call_args fn element of
        None \<Rightarrow> time_element U element fns
      | Some body \<Rightarrow>
          (case splitTopLevel body of
             Inl e \<Rightarrow> no_kind
           | Inr args \<Rightarrow>
               (if args = [] \<or> \<not> isBareIdentifier U (args ! 0) then no_kind
                else let timeZone = (if 2 \<le> length args then parseTimezoneArgument (args ! 1) else '''') in
                  if 2 \<le> length args \<and> timeZone = '''' then no_kind
                  else no_kind\<lparr>lk_timeFunction := fn, lk_field := trim_space (args ! 0),
                               lk_timeZone := timeZone\<rparr>)))"

definition classifyTimeLayoutElement :: "unicode \<Rightarrow> string \<Rightarrow> layoutElementKind" where
  "classifyTimeLayoutElement U element = time_element U element time_functions"

definition frontier_element :: "unicode \<Rightarrow> string \<Rightarrow> layoutElementKind option" where
  "frontier_element U element =
     (case call_args ''intDiv'' element of
        None \<Rightarrow> None
      | Some body \<Rightarrow>
          (case splitTopLevel body of
             Inl e \<Rightarrow> None
           | Inr args \<Rightarrow>
               if length args = 2 \<and> isBareIdentifier U (args ! 0) then
                 (case parse_int ''ParseInt'' (trim_space (args ! 1)) of
                    Inl e \<Rightarrow> None
                  | Inr divisor \<Rightarrow>
                      if 0 < divisor
                      then Some (no_kind\<lparr>lk_frontier := True, lk_field := trim_space (args ! 0),
                                         lk_divisor := divisor\<rparr>)
                      else None)
               else None))"

definition classifyLayoutElement :: "unicode \<Rightarrow> string \<Rightarrow> layoutElementKind" where
  "classifyLayoutElement U raw =
     (let element = trim_space raw in
      if isBareIdentifier U element then no_kind\<lparr>lk_bareColumn := True, lk_field := element\<rparr>
      else case frontier_element U element of
        Some kind \<Rightarrow> kind
      | None \<Rightarrow>
          (let kind = classifyTimeLayoutElement U element in
           if lk_timeFunction kind \<noteq> '''' then kind else no_kind))"

section \<open>ParseLayout\<close>

text \<open>One iteration of the element loop: the layout so far and the number of age elements.\<close>

definition layout_step ::
  "unicode \<Rightarrow> TierSettings \<Rightarrow> string \<Rightarrow> string \<Rightarrow> TableLayout \<times> nat \<Rightarrow> gotext + TableLayout \<times> nat" where
  "layout_step U settings bareDateColumn element st =
     (case st of (layout, ageElements) \<Rightarrow>
      let kind = classifyLayoutElement U element; age = ts_Age settings in
      if age_Basis age = AgeBasisFrontier \<and> lk_frontier kind then
        (if lk_field kind \<noteq> age_Field age
         then Inl (Fmt ''frontier field mismatch: partition key uses %q, config uses %q''
                     [AStr (lk_field kind), AStr (age_Field age)])
         else Inr (layout\<lparr>lay_AgeExpression := element, lay_AgeField := lk_field kind,
                          lay_FrontierDivisor := lk_divisor kind\<rparr>, Suc ageElements))
      else if age_Basis age = AgeBasisPartitionTime \<and> lk_timeFunction kind \<noteq> '''' then
        Inr (layout\<lparr>lay_AgeExpression := element, lay_AgeField := lk_field kind,
                     lay_TimeFunction := lk_timeFunction kind, lay_TimeZone := lk_timeZone kind\<rparr>,
             Suc ageElements)
      else if lk_bareColumn kind \<and> lk_field kind = bareDateColumn then
        Inr (layout\<lparr>lay_AgeExpression := element, lay_AgeField := lk_field kind,
                     lay_TimeFunction := ''toDate''\<rparr>, Suc ageElements)
      else if lk_bareColumn kind then
        Inr (layout\<lparr>lay_GroupColumns := lay_GroupColumns layout @ [element]\<rparr>, ageElements)
      else Inl (Fmt ''partition key element %q is not a supported bare group column or age expression''
                  [AStr element]))"

fun layout_loop ::
  "unicode \<Rightarrow> TierSettings \<Rightarrow> string \<Rightarrow> string list \<Rightarrow> TableLayout \<times> nat \<Rightarrow> gotext + TableLayout \<times> nat" where
  "layout_loop U settings bare [] st = Inr st"
| "layout_loop U settings bare (e # es) st =
     (case layout_step U settings bare e st of
        Inl err \<Rightarrow> Inl err
      | Inr st' \<Rightarrow> layout_loop U settings bare es st')"

text \<open>\<open>strings.EqualFold(expr, "tuple()")\<close>: none of its letters has a non-ASCII fold.\<close>

definition is_tuple_call :: "string \<Rightarrow> bool" where
  "is_tuple_call expr \<longleftrightarrow> map ascii_lower expr = ''tuple()''"

definition bare_date_column :: "TierSettings \<Rightarrow> string list \<Rightarrow> string" where
  "bare_date_column settings elements =
     (if age_Basis (ts_Age settings) = AgeBasisPartitionTime then
        (if age_Field (ts_Age settings) \<noteq> '''' then age_Field (ts_Age settings)
         else if length elements = 1 then trim_space (elements ! 0) else '''')
      else '''')"

definition ParseLayout ::
  "unicode \<Rightarrow> string \<Rightarrow> string \<Rightarrow> string \<Rightarrow> TierSettings \<Rightarrow> gotext + TableLayout" where
  "ParseLayout U database table partitionKey settings =
     (let expr = trim_space partitionKey; basis = age_Basis (ts_Age settings) in
      if expr = '''' \<or> is_tuple_call expr
      then Inl (lit ''empty or tuple() partition key is not tierable'')
      else case partitionKeyElements expr of
        Inl e \<Rightarrow> Inl e
      | Inr elements \<Rightarrow>
          (let layout = zero_layout\<lparr>lay_Database := database, lay_Table := table,
                lay_PartitionKey := expr, lay_Basis := basis,
                lay_Generation := expr @ ''|'' @ basis\<rparr>
           in case layout_loop U settings (bare_date_column settings elements) elements (layout, 0) of
                Inl e \<Rightarrow> Inl e
              | Inr (layout', ageElements) \<Rightarrow>
                  if ageElements \<noteq> 1
                  then Inl (Fmt ''partition key must contain exactly one %s age expression, found %d''
                              [AStr basis, AInt (int ageElements)])
                  else Inr layout'))"

section \<open>ParsePartition\<close>

definition ParsePartition :: "TableLayout \<Rightarrow> string \<Rightarrow> gotext + PartitionValue" where
  "ParsePartition l raw =
     (case parsePartitionElements raw of
        Inl e \<Rightarrow> Inl e
      | Inr elements \<Rightarrow>
          (let expected = length (lay_GroupColumns l) + 1 in
           if length elements \<noteq> expected
           then Inl (Fmt ''partition literal has %d elements, layout expects %d''
                       [AInt (int (length elements)), AInt (int expected)])
           else
             let ageString = last elements;
                 groupKey = (if 1 < length elements then join [CHR 0x00] (butlast elements) else '''')
             in if lay_Basis l = AgeBasisFrontier then
                  (case parse_int ''ParseInt'' ageString of
                     Inl e \<Rightarrow> Inl (Fmt ''frontier age value %q is not an integer: %w''
                                     [AStr ageString, AWrap e])
                   | Inr age \<Rightarrow>
                       Inr \<lparr>pv_Raw = raw, pv_Elements = elements, pv_GroupKey = groupKey,
                            pv_AgeString = ageString, pv_AgeInteger = age\<rparr>)
                else Inr \<lparr>pv_Raw = raw, pv_Elements = elements, pv_GroupKey = groupKey,
                          pv_AgeString = ageString, pv_AgeInteger = 0\<rparr>))"

section \<open>Lemmas\<close>

lemma call_args_bound: "call_args fn e = Some b \<Longrightarrow> length b < length e"
  by (auto simp: call_args_def Let_def has_suffix_def split: if_splits)

lemma isBareIdentifier_nonempty: "isBareIdentifier U s \<Longrightarrow> s \<noteq> []"
  by (auto simp: isBareIdentifier_def runes_def)

lemma time_element_kind:
  "\<not> lk_frontier (time_element U e fns) \<and> \<not> lk_bareColumn (time_element U e fns) \<and>
   (lk_timeFunction (time_element U e fns) \<noteq> '''' \<longrightarrow>
    lk_timeFunction (time_element U e fns) \<in> set fns)"
  by (induction U e fns rule: time_element.induct)
    (auto simp: no_kind_def Let_def split: option.splits sum.splits)

lemma frontier_element_kind:
  "frontier_element U e = Some k \<Longrightarrow>
   lk_frontier k \<and> 0 < lk_divisor k \<and> \<not> lk_bareColumn k \<and> lk_timeFunction k = ''''"
  by (auto simp: frontier_element_def no_kind_def split: option.splits sum.splits if_splits)

lemma classify_kind:
  "(lk_frontier (classifyLayoutElement U e) \<longrightarrow> 0 < lk_divisor (classifyLayoutElement U e)) \<and>
   (lk_bareColumn (classifyLayoutElement U e) \<longrightarrow>
      lk_field (classifyLayoutElement U e) = trim_space e \<and> isBareIdentifier U (trim_space e)) \<and>
   (lk_timeFunction (classifyLayoutElement U e) \<noteq> '''' \<longrightarrow>
      lk_timeFunction (classifyLayoutElement U e) \<in> set time_functions)"
  using time_element_kind [of U "trim_space e" time_functions]
  by (auto simp: classifyLayoutElement_def classifyTimeLayoutElement_def Let_def no_kind_def
      dest: frontier_element_kind split: option.splits)

text \<open>What the element loop maintains: every element is a group column or an age element, the
  group columns are bare identifiers, and an age element has filled the fields of its basis.\<close>

definition layout_ok :: "unicode \<Rightarrow> TierSettings \<Rightarrow> nat \<Rightarrow> TableLayout \<times> nat \<Rightarrow> bool" where
  "layout_ok U s k st \<longleftrightarrow>
     length (lay_GroupColumns (fst st)) + snd st = k \<and>
     lay_Basis (fst st) = age_Basis (ts_Age s) \<and>
     list_all (\<lambda>g. isBareIdentifier U (trim_space g)) (lay_GroupColumns (fst st)) \<and>
     (0 < snd st \<longrightarrow>
       (age_Basis (ts_Age s) = AgeBasisFrontier \<longrightarrow>
          0 < lay_FrontierDivisor (fst st) \<and> lay_AgeField (fst st) = age_Field (ts_Age s)) \<and>
       (age_Basis (ts_Age s) = AgeBasisPartitionTime \<longrightarrow>
          lay_TimeFunction (fst st) \<in> set time_functions))"

lemma layout_step_cases:
  assumes "layout_step U s bare e (l, n) = Inr (l', n')"
  obtains (frontier) "age_Basis (ts_Age s) = AgeBasisFrontier" "n' = Suc n"
      "lay_GroupColumns l' = lay_GroupColumns l" "lay_Basis l' = lay_Basis l"
      "0 < lay_FrontierDivisor l'" "lay_AgeField l' = age_Field (ts_Age s)"
    | (time) "age_Basis (ts_Age s) = AgeBasisPartitionTime" "n' = Suc n"
      "lay_GroupColumns l' = lay_GroupColumns l" "lay_Basis l' = lay_Basis l"
      "lay_TimeFunction l' \<in> set time_functions"
    | (bare) "bare \<noteq> ''''" "n' = Suc n"
      "lay_GroupColumns l' = lay_GroupColumns l" "lay_Basis l' = lay_Basis l"
      "lay_TimeFunction l' = ''toDate''"
    | (group) "n' = n" "l' = l\<lparr>lay_GroupColumns := lay_GroupColumns l @ [e]\<rparr>"
      "isBareIdentifier U (trim_space e)"
proof -
  note k = classify_kind [of U e] and st = assms [unfolded layout_step_def Let_def prod.case]
  show thesis
  proof (cases "age_Basis (ts_Age s) = AgeBasisFrontier \<and> lk_frontier (classifyLayoutElement U e)")
    case True
    then show thesis using st k frontier by (auto split: if_splits)
  next
    case F: False
    show thesis
    proof (cases "age_Basis (ts_Age s) = AgeBasisPartitionTime \<and>
                  lk_timeFunction (classifyLayoutElement U e) \<noteq> ''''")
      case True
      then show thesis using st F k time by auto
    next
      case T: False
      note st' = st [unfolded if_not_P [OF F] if_not_P [OF T]]
      show thesis
      proof (cases "lk_bareColumn (classifyLayoutElement U e)")
        case True
        then show thesis using st' k bare group isBareIdentifier_nonempty [of U "trim_space e"]
          by (cases "lk_field (classifyLayoutElement U e) = bare") auto
      next
        case False
        then show thesis using st' by simp
      qed
    qed
  qed
qed

lemma layout_step_ok:
  assumes ok: "layout_ok U s k st" and st: "layout_step U s bare e st = Inr st'"
    and bare: "bare = '''' \<or> age_Basis (ts_Age s) = AgeBasisPartitionTime"
  shows "layout_ok U s (Suc k) st'"
proof -
  obtain l n l' n' where p: "st = (l, n)" "st' = (l', n')" by fastforce
  have ne: "AgeBasisFrontier \<noteq> AgeBasisPartitionTime" by (simp add: enum_simps)
  have d: "''toDate'' \<in> set time_functions" by (simp add: time_functions_def)
  from st [unfolded p] show ?thesis
  proof (cases rule: layout_step_cases)
    case frontier
    then show ?thesis using ok ne by (simp add: p layout_ok_def)
  next
    case time
    then show ?thesis using ok ne by (auto simp: p layout_ok_def)
  next
    case bare
    then show ?thesis using ok ne d assms(3) by (auto simp: p layout_ok_def)
  next
    case group
    then show ?thesis using ok by (simp add: p layout_ok_def)
  qed
qed

lemma layout_loop_ok:
  "layout_ok U s k st \<Longrightarrow> layout_loop U s bare es st = Inr st' \<Longrightarrow>
   bare = '''' \<or> age_Basis (ts_Age s) = AgeBasisPartitionTime \<Longrightarrow>
   layout_ok U s (k + length es) st'"
proof (induction U s bare es st arbitrary: k rule: layout_loop.induct)
  case (1 U s bare st)
  then show ?case by simp
next
  case (2 U s bare e es st)
  from "2.prems"(2) obtain st1 where st1: "layout_step U s bare e st = Inr st1"
      "layout_loop U s bare es st1 = Inr st'" by (auto split: sum.splits)
  have "layout_ok U s (Suc k) st1" using "2.prems" st1(1) layout_step_ok by blast
  from "2.IH" [OF st1(1) this st1(2) "2.prems"(3)] show ?case by simp
qed

lemma parse_layout_ok:
  assumes "ParseLayout U db t key s = Inr l"
  shows "\<exists>es. partitionKeyElements (trim_space key) = Inr es \<and> layout_ok U s (length es) (l, 1)"
proof -
  define bare where "bare = bare_date_column s"
  from assms obtain es l0 where es: "partitionKeyElements (trim_space key) = Inr es"
    and lp: "layout_loop U s (bare es) es (l0, 0) = Inr (l, 1)"
    and l0: "lay_GroupColumns l0 = []" "lay_Basis l0 = age_Basis (ts_Age s)"
    by (auto simp: ParseLayout_def Let_def zero_layout_def bare_def split: if_splits sum.splits)
  have "layout_ok U s 0 (l0, 0)" using l0 by (simp add: layout_ok_def)
  moreover have "bare es = '''' \<or> age_Basis (ts_Age s) = AgeBasisPartitionTime"
    by (simp add: bare_def bare_date_column_def)
  ultimately show ?thesis using es layout_loop_ok [OF _ lp] by fastforce
qed

lemma parse_partition_age:
  "ParsePartition l raw = Inr pv \<Longrightarrow>
   parsePartitionElements raw = Inr (pv_Elements pv) \<and>
   length (pv_Elements pv) = length (lay_GroupColumns l) + 1 \<and> pv_AgeString pv = last (pv_Elements pv) \<and>
   in_i64 (pv_AgeInteger pv)"
  by (auto simp: ParsePartition_def Let_def i64_simps dest: parse_int_in split: sum.splits if_splits)

definition sample_unicode :: unicode where
  "sample_unicode = \<lparr>u_letter = \<lambda>_. False, u_digit = \<lambda>_. False, u_lower = \<lambda>c. c\<rparr>"

definition sample_settings :: TierSettings where
  "sample_settings = ResolveDefaults_tier
     (zero_settings\<lparr>ts_Mode := ModeEnforce, ts_Age :=
        \<lparr>age_Basis = AgeBasisPartitionTime, age_OlderThan = 30 * day_dur, age_Field = ''t'', age_KeepLast = 0\<rparr>\<rparr>)"

text \<open>A layout that parses is usable: its elements are exactly one age element and the group
  columns, every group column is a bare identifier, a frontier layout has a positive divisor and
  the configured field, and a partition-time layout has one of the supported functions.\<close>

theorem parsed_layout_sound:
  assumes "ParseLayout U db t key s = Inr l"
  shows "\<exists>es. partitionKeyElements (trim_space key) = Inr es \<and>
     length es = length (lay_GroupColumns l) + 1 \<and> lay_Basis l = age_Basis (ts_Age s) \<and>
     list_all (\<lambda>g. isBareIdentifier U (trim_space g)) (lay_GroupColumns l) \<and>
     (lay_Basis l = AgeBasisFrontier \<longrightarrow>
        0 < lay_FrontierDivisor l \<and> lay_AgeField l = age_Field (ts_Age s)) \<and>
     (lay_Basis l = AgeBasisPartitionTime \<longrightarrow> lay_TimeFunction l \<in> set time_functions)"
  using parse_layout_ok [OF assms] by (auto simp: layout_ok_def)

lemma sample_layout_parse:
  "ParseLayout sample_unicode ''db'' ''t'' ''toYYYYMM(t)'' sample_settings =
   Inr (zero_layout\<lparr>lay_Database := ''db'', lay_Table := ''t'', lay_PartitionKey := ''toYYYYMM(t)'',
     lay_Basis := AgeBasisPartitionTime, lay_Generation := ''toYYYYMM(t)|partitionTime'',
     lay_AgeExpression := ''toYYYYMM(t)'', lay_AgeField := ''t'', lay_TimeFunction := ''toYYYYMM''\<rparr>)"
  by code_simp

theorem parsed_layout_sound_witness:
  "\<exists>es. partitionKeyElements (trim_space ''toYYYYMM(t)'') = Inr es \<and> length es = 1"
  using parsed_layout_sound [OF sample_layout_parse] by (auto simp: zero_layout_def)

text \<open>Partition values are read against the layout they belong to: a value that parses has one
  element per group column and the age element last, and the integer age, read for a frontier
  layout only, is a 64-bit number printed by the value itself.\<close>

theorem parsed_partition_shape:
  assumes "ParsePartition l raw = Inr v"
  shows "parsePartitionElements raw = Inr (pv_Elements v) \<and>
    length (pv_Elements v) = length (lay_GroupColumns l) + 1 \<and>
    pv_AgeString v = last (pv_Elements v) \<and> in_i64 (pv_AgeInteger v) \<and>
    (if lay_Basis l = AgeBasisFrontier
     then parse_int ''ParseInt'' (pv_AgeString v) = Inr (pv_AgeInteger v) else pv_AgeInteger v = 0)"
proof -
  have "if lay_Basis l = AgeBasisFrontier
      then parse_int ''ParseInt'' (pv_AgeString v) = Inr (pv_AgeInteger v) else pv_AgeInteger v = 0"
    using assms by (auto simp: ParsePartition_def Let_def split: sum.splits if_splits)
  with parse_partition_age [OF assms] show ?thesis by blast
qed

theorem parsed_partition_shape_witness:
  "pv_AgeInteger \<lparr>pv_Raw = ''202401'', pv_Elements = [''202401''], pv_GroupKey = '''',
     pv_AgeString = ''202401'', pv_AgeInteger = 202401\<rparr> = 202401 \<and>
   parse_int ''ParseInt'' ''202401'' = Inr 202401"
proof -
  have "ParsePartition (zero_layout\<lparr>lay_Basis := AgeBasisFrontier\<rparr>) ''202401'' =
      Inr \<lparr>pv_Raw = ''202401'', pv_Elements = [''202401''], pv_GroupKey = '''',
        pv_AgeString = ''202401'', pv_AgeInteger = 202401\<rparr>"
    by code_simp
  from parsed_partition_shape [OF this] show ?thesis by simp
qed

end
