(* ===== verification/Observation.thy ===== *)
theory Observation
  imports Sql Layout
begin

text \<open>
  What one observation of a table collects (\<open>internal/tiering/observe.go\<close>, the conditions of
  \<open>decide.go\<close>): the data records, the folds that turn the rows of the system tables into
  them, and \<open>ObserveTable\<close> and \<open>RefreshPartition\<close>. The server is a record of query results:
  every query the code sends is a function of the arguments it binds, and its rows arrive in
  order, possibly cut short by an error.
\<close>

section \<open>Data\<close>

record Node =
  nd_ID :: string
  nd_Shard :: string
  nd_Replica :: string
  nd_Addr :: string

datatype ConditionSeverity = SeverityInfo | SeverityWarning | SeverityCritical

record Condition =
  cond_Severity :: ConditionSeverity
  cond_Code :: string
  cond_Message :: gotext
  cond_ObservedAt :: gtime
  cond_NodeID :: string
  cond_Database :: string
  cond_Table :: string
  cond_Partition :: string
  cond_PartitionID :: string

definition NewCondition ::
  "go_env \<Rightarrow> ConditionSeverity \<Rightarrow> string \<Rightarrow> gotext \<Rightarrow> string \<Rightarrow> string \<Rightarrow> string \<Rightarrow> string \<Rightarrow> string \<Rightarrow> Condition" where
  "NewCondition env severity code message nodeID database table pname partitionID =
     \<lparr>cond_Severity = severity, cond_Code = code, cond_Message = message,
      cond_ObservedAt = env_clock env, cond_NodeID = nodeID, cond_Database = database,
      cond_Table = table, cond_Partition = pname, cond_PartitionID = partitionID\<rparr>"

record PartHash =
  ph_Name :: string
  ph_Hash :: string
  ph_Disk :: string

record PartitionObservation =
  part_Partition :: string
  part_PartitionID :: string
  part_GroupKey :: string
  part_AgeString :: string
  part_AgeInteger :: int
  part_ActiveParts :: u64
  part_Rows :: u64
  part_BytesOnDisk :: u64
  part_MaxModificationTime :: gtime
  part_Disks :: "DiskPart list"
  part_LatestNewPart :: "gtime option"
  part_LatestPartLogEvent :: "gtime option"
  part_Hashes :: "PartHash list"
  part_MergeInFlight :: bool

definition zero_partition :: PartitionObservation where
  "zero_partition =
     \<lparr>part_Partition = '''', part_PartitionID = '''', part_GroupKey = '''', part_AgeString = '''',
      part_AgeInteger = 0, part_ActiveParts = 0, part_Rows = 0, part_BytesOnDisk = 0,
      part_MaxModificationTime = zero_time, part_Disks = [], part_LatestNewPart = None,
      part_LatestPartLogEvent = None, part_Hashes = [], part_MergeInFlight = False\<rparr>"

record ReplicaObservation =
  rep_Readonly :: bool
  rep_SessionExpired :: bool
  rep_QueueSize :: u64
  rep_AbsoluteDelaySeconds :: u64
  rep_MergeQueue :: "string list"

record MutationObservation =
  mut_MutationID :: string
  mut_Command :: string
  mut_IsDone :: bool
  mut_PartsToDo :: u64
  mut_PartsToDoNames :: "string list"
  mut_LatestFailedPart :: string
  mut_LatestFailReason :: string

record StorageVolume =
  vol_Policy :: string
  vol_Volume :: string
  vol_Priority :: u64
  vol_Disks :: "string list"
  vol_MoveFactor :: f64

record TableObservation =
  obs_Node :: Node
  obs_Database :: string
  obs_Table :: string
  obs_UUID :: string
  obs_Engine :: string
  obs_IsReplicated :: bool
  obs_StoragePolicy :: string
  obs_PartitionKey :: string
  obs_Layout :: TableLayout
  obs_Settings :: TierSettings
  obs_EffectiveMode :: string
  obs_TargetDiskFound :: bool
  obs_HotVolume :: string
  obs_Version :: string
  obs_ObservedAt :: gtime
  obs_PartLogMinTime :: "gtime option"
  obs_Replica :: "ReplicaObservation option"
  obs_Mutations :: "MutationObservation list"
  obs_Partitions :: "PartitionObservation list"
  obs_InFlightPartNames :: "string list"
  obs_Heads :: "string \<rightharpoonup> int"
  obs_ResplitQuiet :: "string \<rightharpoonup> gdur"
  obs_Conditions :: "Condition list"

section \<open>The server\<close>

text \<open>A row set: the rows read, and how the reading ended: at the end of the rows, at a row
  that \<open>Scan\<close> refused, or at an error of the iteration (\<open>rows.Err()\<close>).\<close>

datatype row_end = EndOfRows | ScanFailed gotext | IterFailed gotext

type_synonym 'r rowset = "gotext + 'r list \<times> row_end"

definition all_rows :: "'r rowset \<Rightarrow> gotext + 'r list" where
  "all_rows q =
     (case q of
        Inl e \<Rightarrow> Inl e
      | Inr (rows, EndOfRows) \<Rightarrow> Inr rows
      | Inr (rows, ScanFailed e) \<Rightarrow> Inl e
      | Inr (rows, IterFailed e) \<Rightarrow> Inl e)"

text \<open>For the callers that use the map built so far although the iteration ended in an error:
  nothing when the query or a scan failed.\<close>

definition rows_kept :: "'r rowset \<Rightarrow> 'r list \<times> gotext option" where
  "rows_kept q =
     (case q of
        Inl e \<Rightarrow> ([], Some e)
      | Inr (rows, EndOfRows) \<Rightarrow> (rows, None)
      | Inr (rows, ScanFailed e) \<Rightarrow> ([], Some e)
      | Inr (rows, IterFailed e) \<Rightarrow> (rows, Some e))"

record table_row =
  tr_uuid :: string
  tr_engine :: string
  tr_storage_policy :: string
  tr_partition_key :: string
  tr_is_replicated :: "8 word"
  tr_version :: string
  tr_now :: gtime

record part_row =
  pr_partition :: string
  pr_partition_id :: string
  pr_name :: string
  pr_hash :: string
  pr_disk :: string
  pr_rows :: u64
  pr_bytes :: u64
  pr_modified :: gtime

text \<open>
  One field per query of the observer; the arguments are the bound parameters. \<open>q_heads\<close> takes
  the whole text, since the code builds it. \<open>q_probe\<close> takes the text and the part name.
\<close>

record server =
  q_tables :: "string \<Rightarrow> string \<Rightarrow> gotext + table_row"
  q_column_type :: "string \<Rightarrow> string \<Rightarrow> string \<Rightarrow> gotext + string"
  q_policies :: "string \<Rightarrow> (string \<times> string \<times> u64 \<times> string \<times> f64) rowset"
  q_heads :: "string \<Rightarrow> (string \<times> int) rowset"
  q_replicas :: "string \<Rightarrow> string \<Rightarrow> gotext + bool \<times> bool \<times> u64 \<times> u64"
  q_merge_queue :: "string \<Rightarrow> string \<Rightarrow> string rowset"
  q_mutations :: "string \<Rightarrow> string \<Rightarrow> (string \<times> string \<times> bool \<times> u64 \<times> string \<times> string \<times> string) rowset"
  q_part_log :: "string \<Rightarrow> string \<Rightarrow> int \<Rightarrow> (string \<times> gtime option \<times> gtime option \<times> gtime option) rowset"
  q_merges :: "string \<Rightarrow> string \<Rightarrow> string rowset"
  q_parts :: "string \<Rightarrow> string \<Rightarrow> part_row rowset"
  q_now :: "gotext + gtime"
  q_moved_bytes :: "(string \<times> string) list \<Rightarrow> gotext + u64"
  q_flush_logs :: "gotext option"
  q_processes :: "string \<Rightarrow> (string \<times> string \<times> string) rowset"
  q_moves :: "string \<Rightarrow> string \<Rightarrow> (string \<times> string) rowset"
  q_query_log :: "gtime \<Rightarrow> string \<Rightarrow> (string \<times> string \<times> string) rowset"
  q_query_texts :: "gtime \<Rightarrow> string \<Rightarrow> string rowset"
  q_move_events :: "string \<Rightarrow> string \<Rightarrow> gtime \<Rightarrow> (string \<times> string) rowset"
  q_identity :: "string \<Rightarrow> string \<Rightarrow> gotext + string \<times> string"
  q_new_parts :: "string \<Rightarrow> string \<Rightarrow> string \<Rightarrow> gtime \<Rightarrow> gotext + u64"
  q_disks :: "(string \<times> u64) rowset"
  q_cold_merges :: "string \<Rightarrow> string \<Rightarrow> string \<Rightarrow> gtime \<Rightarrow> gotext + u64"
  q_probe_column :: "string \<Rightarrow> string \<Rightarrow> gotext + string"
  q_probe :: "string \<Rightarrow> string \<Rightarrow> gotext + string"

section \<open>Metadata and version\<close>

definition starts_table :: "Node \<Rightarrow> EffectiveWatch \<Rightarrow> TierSettings \<Rightarrow> gtime \<Rightarrow> TableObservation" where
  "starts_table node watch settings now =
     \<lparr>obs_Node = node, obs_Database = w_Database watch, obs_Table = w_Table watch, obs_UUID = '''',
      obs_Engine = '''', obs_IsReplicated = False, obs_StoragePolicy = '''', obs_PartitionKey = '''',
      obs_Layout = zero_layout, obs_Settings = Clone settings,
      obs_EffectiveMode = (if ts_Mode settings = '''' then ModePlan else ts_Mode settings),
      obs_TargetDiskFound = False, obs_HotVolume = '''', obs_Version = '''', obs_ObservedAt = now,
      obs_PartLogMinTime = None, obs_Replica = None, obs_Mutations = [], obs_Partitions = [],
      obs_InFlightPartNames = [], obs_Heads = Map.empty, obs_ResplitQuiet = Map.empty,
      obs_Conditions = []\<rparr>"

definition collectTableMetadata :: "server \<Rightarrow> TableObservation \<Rightarrow> gotext + TableObservation" where
  "collectTableMetadata S obs =
     (case q_tables S (obs_Database obs) (obs_Table obs) of
        Inl e \<Rightarrow> Inl (Fmt ''read system.tables for %s.%s: %w''
                       [AStr (obs_Database obs), AStr (obs_Table obs), AWrap e])
      | Inr r \<Rightarrow> Inr (obs\<lparr>obs_UUID := tr_uuid r, obs_Engine := tr_engine r,
                     obs_StoragePolicy := tr_storage_policy r, obs_PartitionKey := tr_partition_key r,
                     obs_Version := tr_version r, obs_ObservedAt := tr_now r,
                     obs_IsReplicated := (tr_is_replicated r = 1)\<rparr>))"

text \<open>A condition of the table, appended.\<close>

definition add_condition ::
  "go_env \<Rightarrow> ConditionSeverity \<Rightarrow> string \<Rightarrow> gotext \<Rightarrow> TableObservation \<Rightarrow> TableObservation" where
  "add_condition env severity code message obs =
     obs\<lparr>obs_Conditions := obs_Conditions obs @
       [NewCondition env severity code message (nd_ID (obs_Node obs)) (obs_Database obs)
         (obs_Table obs) '''' '''']\<rparr>"

definition clickHouseMajorMinor :: "string \<Rightarrow> (int \<times> int) option" where
  "clickHouseMajorMinor version =
     (let parts = split_on (CHR ''.'') version in
      if length parts < 2 then None
      else case (parse_int ''Atoi'' (parts ! 0), parse_int ''Atoi'' (parts ! 1)) of
        (Inr major, Inr minor) \<Rightarrow> Some (major, minor)
      | _ \<Rightarrow> None)"

definition applyVersionGate :: "go_env \<Rightarrow> TableObservation \<Rightarrow> TableObservation" where
  "applyVersionGate env obs =
     (case clickHouseMajorMinor (obs_Version obs) of
        None \<Rightarrow> add_condition env SeverityWarning ''clickhouse_version_unknown''
          (lit ''ClickHouse version could not be parsed; enforce remains allowed but this version is outside the validated corpus'') obs
      | Some (major, minor) \<Rightarrow>
          if major \<noteq> 26 then
            add_condition env SeverityWarning ''clickhouse_major_unvalidated''
              (lit ''ClickHouse major version is outside the validated 26.2.x executor corpus; enforce is downgraded to plan'')
              (obs\<lparr>obs_EffectiveMode := (if obs_EffectiveMode obs = ModeEnforce then ModePlan
                                        else obs_EffectiveMode obs)\<rparr>)
          else if minor \<noteq> 2 then
            add_condition env SeverityWarning ''clickhouse_minor_unvalidated''
              (lit ''ClickHouse minor version differs from the validated 26.2.x executor corpus'') obs
          else obs)"

definition validateTieringEngine :: "string \<Rightarrow> gotext option" where
  "validateTieringEngine engine =
     check (\<not> str_contains engine ''MergeTree'')
       (Fmt ''engine %q is not a supported local MergeTree-family engine'' [AStr engine])"

section \<open>The time zone of the partition column\<close>

definition parseColumnTimezone :: "string \<Rightarrow> string" where
  "parseColumnTimezone columnType =
     (case str_index columnType [quote_ch] of
        None \<Rightarrow> ''''
      | Some start \<Rightarrow>
          (case readQuotedTupleString (drop start columnType) of
             Inl e \<Rightarrow> ''''
           | Inr (value, tail) \<Rightarrow> if str_contains (trim_space tail) '')'' then value else ''''))"

definition applyColumnTimezone :: "go_env \<Rightarrow> server \<Rightarrow> TableLayout \<Rightarrow> gotext + TableLayout" where
  "applyColumnTimezone env S layout =
     (if lay_Basis layout \<noteq> AgeBasisPartitionTime \<or> lay_TimeZone layout \<noteq> '''' \<or> lay_AgeField layout = ''''
      then Inr layout
      else
        let names = [AStr (lay_Database layout), AStr (lay_Table layout), AStr (lay_AgeField layout)] in
        case q_column_type S (lay_Database layout) (lay_Table layout) (lay_AgeField layout) of
          Inl e \<Rightarrow> Inl (Fmt ''read timezone for partition column %s.%s.%s: %w'' (names @ [AWrap e]))
        | Inr columnType \<Rightarrow>
            (let tz = parseColumnTimezone columnType; layout' = layout\<lparr>lay_TimeZone := tz\<rparr> in
             if tz = '''' then Inr layout'
             else case env_zone env tz of
               Inl e \<Rightarrow> Inl (Fmt ''partition column %s.%s.%s uses unsupported timezone %q: %w''
                              (names @ [AStr tz, AWrap e]))
             | Inr z \<Rightarrow> Inr layout'))"

section \<open>Storage policy\<close>

definition csv_list :: "string \<Rightarrow> string list" where
  "csv_list s = (if s = '''' then [] else split_on (CHR '','') s)"

fun index_where :: "('a \<Rightarrow> bool) \<Rightarrow> 'a list \<Rightarrow> nat option" where
  "index_where P [] = None"
| "index_where P (x # xs) = (if P x then Some 0 else map_option Suc (index_where P xs))"

text \<open>The hot volume: the configured one, or the volume before the one with the target disk.\<close>

definition pick_hot_volume ::
  "go_env \<Rightarrow> StorageVolume list \<Rightarrow> nat option \<Rightarrow> TableObservation \<Rightarrow> TableObservation" where
  "pick_hot_volume env volumes target obs =
     (let hot = ts_HotVolume (obs_Settings obs) in
      if hot \<noteq> '''' then
        (let obs' = obs\<lparr>obs_HotVolume := hot\<rparr> in
         if list_ex (\<lambda>v. vol_Volume v = hot) volumes then obs'
         else add_condition env SeverityCritical ''hot_volume_missing''
                (Fmt ''configured hotVolume %q is not present in storage policy %q''
                   [AStr hot, AStr (obs_StoragePolicy obs)]) obs')
      else case target of
        Some (Suc i) \<Rightarrow> obs\<lparr>obs_HotVolume := vol_Volume (volumes ! i)\<rparr>
      | _ \<Rightarrow> obs)"

definition warn_move_factor :: "go_env \<Rightarrow> StorageVolume \<Rightarrow> TableObservation \<Rightarrow> TableObservation" where
  "warn_move_factor env volume obs =
     (if vol_Volume volume = obs_HotVolume obs \<and> f64_less (Fin 0) (vol_MoveFactor volume)
      then add_condition env SeverityWarning ''hot_volume_move_factor''
             (lit ''hot volume move_factor is greater than zero'') obs
      else obs)"

definition collectStoragePolicy :: "go_env \<Rightarrow> server \<Rightarrow> TableObservation \<Rightarrow> gotext + TableObservation" where
  "collectStoragePolicy env S obs =
     (case all_rows (q_policies S (obs_StoragePolicy obs)) of
        Inl e \<Rightarrow> Inl e
      | Inr rows \<Rightarrow>
          (let volumes = map (\<lambda>(p, v, prio, disks, mf).
                 \<lparr>vol_Policy = p, vol_Volume = v, vol_Priority = prio, vol_Disks = csv_list disks,
                  vol_MoveFactor = mf\<rparr>) rows;
               target = index_where (\<lambda>v. ts_TargetDisk (obs_Settings obs) \<in> set (vol_Disks v)) volumes
           in if volumes = []
              then Inl (Fmt ''storage policy %q was not observed'' [AStr (obs_StoragePolicy obs)])
              else
                let obs1 = (if target \<noteq> None then obs\<lparr>obs_TargetDiskFound := True\<rparr>
                      else if obs_TargetDiskFound obs then obs
                      else add_condition env SeverityCritical ''target_disk_missing''
                             (lit ''target disk is not present in the table storage policy'') obs);
                    obs2 = pick_hot_volume env volumes target obs1
                in Inr (fold (warn_move_factor env) volumes obs2)))"

section \<open>Frontier heads, replica, mutations\<close>

definition heads_query :: "TableLayout \<Rightarrow> string" where
  "heads_query layout =
     (let quoted = map (\<lambda>g. ''toString('' @ QuoteIdent g @ '')'') (lay_GroupColumns layout);
          joined = join ('', '' @ [quote_ch, bslash] @ ''x00'' @ [quote_ch] @ '', '') quoted;
          groupExpr = (if quoted = [] then [quote_ch, quote_ch]
                       else if 1 < length quoted then ''concat('' @ joined @ '')'' else joined)
      in ''SELECT '' @ groupExpr @ '' AS group_key, max('' @ QuoteIdent (lay_AgeField layout) @
         '') AS head FROM '' @ QuoteQualified (lay_Database layout) (lay_Table layout) @
         '' GROUP BY group_key'')"

definition collectFrontierHeads :: "server \<Rightarrow> TableLayout \<Rightarrow> gotext + (string \<rightharpoonup> int)" where
  "collectFrontierHeads S layout =
     (case all_rows (q_heads S (heads_query layout)) of
        Inl e \<Rightarrow> Inl e
      | Inr rows \<Rightarrow> Inr (fold (\<lambda>(g, h) m. m(g \<mapsto> h)) rows Map.empty))"

text \<open>The replication queue is best effort: what was read before an error is kept.\<close>

definition collectReplica ::
  "server \<Rightarrow> string \<Rightarrow> string \<Rightarrow> bool \<Rightarrow> gotext + ReplicaObservation option" where
  "collectReplica S database table replicated =
     (if \<not> replicated then Inr None
      else case q_replicas S database table of
        Inl e \<Rightarrow> Inl e
      | Inr (ro, expired, queue, delay) \<Rightarrow>
          (let queued = (case q_merge_queue S database table of
                 Inl e \<Rightarrow> [] | Inr (rows, fin) \<Rightarrow> concat (map csv_list rows))
           in Inr (Some \<lparr>rep_Readonly = ro, rep_SessionExpired = expired, rep_QueueSize = queue,
                         rep_AbsoluteDelaySeconds = delay, rep_MergeQueue = queued\<rparr>)))"

definition collectMutations :: "server \<Rightarrow> string \<Rightarrow> string \<Rightarrow> gotext + MutationObservation list" where
  "collectMutations S database table =
     (case all_rows (q_mutations S database table) of
        Inl e \<Rightarrow> Inl e
      | Inr rows \<Rightarrow> Inr (map (\<lambda>(mid, command, done, todo, names, part, reason).
          \<lparr>mut_MutationID = mid, mut_Command = command, mut_IsDone = done, mut_PartsToDo = todo,
           mut_PartsToDoNames = csv_list names, mut_LatestFailedPart = part,
           mut_LatestFailReason = reason\<rparr>) rows))"

section \<open>Evidence from the part log\<close>

record partLogEvidence =
  ple_LatestNewPart :: "gtime option"
  ple_LatestAny :: "gtime option"

definition maxResplitQuiet :: gdur where "maxResplitQuiet = 90 * 24 * hour"

definition partLogLookbackDays :: "TierSettings \<Rightarrow> int" where
  "partLogLookbackDays s =
     (let lookback = wrap64 (max (max (ts_QuietFor s) (rs_QuietFor (ts_Resplit s)))
                               (max (ts_TierFrozenAfter s) maxResplitQuiet) + 48 * hour)
      in go_div lookback (24 * hour) + 1)"

definition after_epoch :: "gtime option \<Rightarrow> gtime option" where
  "after_epoch t = (case t of Some x \<Rightarrow> if 0 < time_unix x then Some x else None | None \<Rightarrow> None)"

definition min_event :: "gtime option \<Rightarrow> gtime option \<Rightarrow> gtime option" where
  "min_event t acc =
     (case t of None \<Rightarrow> acc
      | Some x \<Rightarrow> (case acc of None \<Rightarrow> Some x | Some y \<Rightarrow> if x < y then Some x else Some y))"

text \<open>The evidence per partition, the oldest event, and the error of the iteration.\<close>

definition collectPartLogEvidence ::
  "server \<Rightarrow> string \<Rightarrow> string \<Rightarrow> int \<Rightarrow> (string \<rightharpoonup> partLogEvidence) \<times> gtime option \<times> gotext option" where
  "collectPartLogEvidence S database table lookbackDays =
     (case rows_kept (q_part_log S database table lookbackDays) of (rows, err) \<Rightarrow>
        (fold (\<lambda>(pid, new, any, mn) m.
           m(pid \<mapsto> \<lparr>ple_LatestNewPart = after_epoch new, ple_LatestAny = after_epoch any\<rparr>))
           rows Map.empty,
         fold (\<lambda>(pid, new, any, mn). min_event mn) rows None, err))"

definition collectRunningMerges :: "server \<Rightarrow> string \<Rightarrow> string \<Rightarrow> string set \<times> gotext option" where
  "collectRunningMerges S database table =
     (case rows_kept (q_merges S database table) of (rows, err) \<Rightarrow> (set rows, err))"

section \<open>The partition rollup\<close>

fun addDiskPart :: "DiskPart list \<Rightarrow> string \<Rightarrow> DiskPart list" where
  "addDiskPart [] disk = [\<lparr>dp_Disk = disk, dp_Parts = 1\<rparr>]"
| "addDiskPart (d # ds) disk =
     (if dp_Disk d = disk then d\<lparr>dp_Parts := dp_Parts d + 1\<rparr> # ds else d # addDiskPart ds disk)"

definition new_partition :: "TableLayout \<Rightarrow> part_row \<Rightarrow> PartitionObservation" where
  "new_partition layout r =
     (let item = zero_partition\<lparr>part_Partition := pr_partition r, part_PartitionID := pr_partition_id r\<rparr> in
      case ParsePartition layout (pr_partition r) of
        Inl e \<Rightarrow> item
      | Inr v \<Rightarrow> item\<lparr>part_GroupKey := pv_GroupKey v, part_AgeString := pv_AgeString v,
                      part_AgeInteger := pv_AgeInteger v\<rparr>)"

definition count_part :: "part_row \<Rightarrow> PartitionObservation \<Rightarrow> PartitionObservation" where
  "count_part r item =
     item\<lparr>part_ActiveParts := part_ActiveParts item + 1,
          part_Rows := part_Rows item + pr_rows r,
          part_BytesOnDisk := part_BytesOnDisk item + pr_bytes r,
          part_MaxModificationTime :=
            (if part_MaxModificationTime item < pr_modified r then pr_modified r
             else part_MaxModificationTime item),
          part_Disks := addDiskPart (part_Disks item) (pr_disk r),
          part_Hashes := part_Hashes item @
            [\<lparr>ph_Name = pr_name r, ph_Hash = pr_hash r, ph_Disk = pr_disk r\<rparr>]\<rparr>"

text \<open>One row: \<open>byID\<close> and \<open>order\<close> together are an association list in order of first sight.\<close>

definition rollup_step ::
  "TableLayout \<Rightarrow> part_row \<Rightarrow> (string, PartitionObservation) amap \<Rightarrow> (string, PartitionObservation) amap" where
  "rollup_step layout r byID =
     (let item = (case amap_get byID (pr_partition_id r) of
                    None \<Rightarrow> new_partition layout r | Some p \<Rightarrow> p)
      in amap_put (pr_partition_id r) (count_part r item) byID)"

definition sort_disks :: "PartitionObservation \<Rightarrow> PartitionObservation" where
  "sort_disks p = p\<lparr>part_Disks := sort_by dp_Disk (part_Disks p)\<rparr>"

definition rollup :: "TableLayout \<Rightarrow> part_row list \<Rightarrow> PartitionObservation list" where
  "rollup layout rows = map (sort_disks \<circ> snd) (fold (rollup_step layout) rows [])"

definition collectPartitionRollup :: "server \<Rightarrow> TableObservation \<Rightarrow> gotext + PartitionObservation list" where
  "collectPartitionRollup S table =
     (case all_rows (q_parts S (obs_Database table) (obs_Table table)) of
        Inl e \<Rightarrow> Inl e
      | Inr rows \<Rightarrow> Inr (rollup (obs_Layout table) rows))"

definition RefreshPartition ::
  "server \<Rightarrow> TableObservation \<Rightarrow> string \<Rightarrow> gotext + PartitionObservation" where
  "RefreshPartition S table partitionID =
     (case collectPartitionRollup S table of
        Inl e \<Rightarrow> Inl e
      | Inr parts \<Rightarrow>
          (case find (\<lambda>p. part_PartitionID p = partitionID) parts of
             Some p \<Rightarrow> Inr p | None \<Rightarrow> Inl ErrNoRows))"

section \<open>ObserveTable\<close>

text \<open>The collectors after the layout: each failure is a warning, except that of the rollup.\<close>

definition observe_policy :: "go_env \<Rightarrow> server \<Rightarrow> TableObservation \<Rightarrow> TableObservation" where
  "observe_policy env S obs =
     (case collectStoragePolicy env S obs of
        Inl e \<Rightarrow> add_condition env SeverityWarning ''storage_policy_unreadable'' e obs
      | Inr obs' \<Rightarrow> obs')"

definition observe_heads :: "go_env \<Rightarrow> server \<Rightarrow> TableObservation \<Rightarrow> TableObservation" where
  "observe_heads env S obs =
     (if age_Basis (ts_Age (obs_Settings obs)) \<noteq> AgeBasisFrontier then obs
      else case collectFrontierHeads S (obs_Layout obs) of
        Inl e \<Rightarrow> add_condition env SeverityWarning ''frontier_head_query_failed'' e obs
      | Inr heads \<Rightarrow> obs\<lparr>obs_Heads := heads\<rparr>)"

definition observe_replica :: "go_env \<Rightarrow> server \<Rightarrow> TableObservation \<Rightarrow> TableObservation" where
  "observe_replica env S obs =
     (case collectReplica S (obs_Database obs) (obs_Table obs) (obs_IsReplicated obs) of
        Inl e \<Rightarrow> add_condition env SeverityWarning ''replica_health_unreadable'' e obs
      | Inr r \<Rightarrow> obs\<lparr>obs_Replica := r\<rparr>)"

definition observe_mutations :: "go_env \<Rightarrow> server \<Rightarrow> TableObservation \<Rightarrow> TableObservation" where
  "observe_mutations env S obs =
     (case collectMutations S (obs_Database obs) (obs_Table obs) of
        Inl e \<Rightarrow> add_condition env SeverityWarning ''mutations_unreadable'' e obs
      | Inr ms \<Rightarrow> obs\<lparr>obs_Mutations := ms\<rparr>)"

definition attach_evidence ::
  "(string \<rightharpoonup> partLogEvidence) \<Rightarrow> string set \<Rightarrow> PartitionObservation \<Rightarrow> PartitionObservation" where
  "attach_evidence events merging p =
     (let p' = (case events (part_PartitionID p) of
                  None \<Rightarrow> p
                | Some e \<Rightarrow> p\<lparr>part_LatestNewPart := ple_LatestNewPart e,
                              part_LatestPartLogEvent := ple_LatestAny e\<rparr>)
      in if part_PartitionID p \<in> merging then p'\<lparr>part_MergeInFlight := True\<rparr> else p')"

definition observe_parts :: "go_env \<Rightarrow> server \<Rightarrow> TableObservation \<Rightarrow> gotext + TableObservation" where
  "observe_parts env S obs =
     (case collectPartLogEvidence S (obs_Database obs) (obs_Table obs)
             (partLogLookbackDays (obs_Settings obs)) of (events, minEvent, err) \<Rightarrow>
      let obs1 = (case err of
            Some e \<Rightarrow> add_condition env SeverityWarning ''part_log_unreadable'' e obs
          | None \<Rightarrow> obs\<lparr>obs_PartLogMinTime := minEvent\<rparr>)
      in case collectRunningMerges S (obs_Database obs1) (obs_Table obs1) of (merging, merr) \<Rightarrow>
      let obs2 = (case merr of
            Some e \<Rightarrow> add_condition env SeverityWarning ''merges_unreadable'' e obs1 | None \<Rightarrow> obs1)
      in case collectPartitionRollup S obs2 of
           Inl e \<Rightarrow> Inl e
         | Inr ps \<Rightarrow> Inr (obs2\<lparr>obs_Partitions := map (attach_evidence events merging) ps\<rparr>))"

definition observe_layout :: "go_env \<Rightarrow> server \<Rightarrow> TableObservation \<Rightarrow> gotext + TableLayout" where
  "observe_layout env S obs =
     (case ParseLayout (env_unicode env) (obs_Database obs) (obs_Table obs) (obs_PartitionKey obs)
             (obs_Settings obs) of
        Inl e \<Rightarrow> Inl e
      | Inr layout \<Rightarrow> applyColumnTimezone env S layout)"

definition ObserveTable ::
  "go_env \<Rightarrow> server \<Rightarrow> Node \<Rightarrow> EffectiveWatch \<Rightarrow> gotext + TableObservation" where
  "ObserveTable env S node watch =
     (case w_Settings watch of
        None \<Rightarrow> Inl (lit ''watch has no tier settings'')
      | Some settings \<Rightarrow>
          (case collectTableMetadata S (starts_table node watch settings (env_clock env)) of
             Inl e \<Rightarrow> Inl e
           | Inr obs0 \<Rightarrow>
               (let obs = applyVersionGate env obs0 in
                case validateTieringEngine (obs_Engine obs) of
                  Some e \<Rightarrow> Inr (add_condition env SeverityCritical ''unsupported_engine'' e obs)
                | None \<Rightarrow>
                    (case observe_layout env S obs of
                       Inl e \<Rightarrow> Inr (add_condition env SeverityCritical ''misconfigured'' e obs)
                     | Inr layout \<Rightarrow>
                         observe_parts env S (observe_mutations env S (observe_replica env S
                           (observe_heads env S (observe_policy env S
                             (obs\<lparr>obs_Layout := layout\<rparr>)))))))))"

section \<open>The rollup is a group-by\<close>

definition first_seen :: "'a list \<Rightarrow> 'a list" where
  "first_seen xs = rev (remdups (rev xs))"

definition rows_of :: "string \<Rightarrow> part_row list \<Rightarrow> part_row list" where
  "rows_of pid rows = filter (\<lambda>r. pr_partition_id r = pid) rows"

definition disk_summary :: "part_row list \<Rightarrow> DiskPart list" where
  "disk_summary rs =
     map (\<lambda>d. \<lparr>dp_Disk = d, dp_Parts = of_nat (length (filter (\<lambda>r. pr_disk r = d) rs))\<rparr>)
       (sorted_list_of_set (pr_disk ` set rs))"

definition partition_summary :: "TableLayout \<Rightarrow> part_row list \<Rightarrow> string \<Rightarrow> PartitionObservation" where
  "partition_summary layout rows pid =
     (let rs = rows_of pid rows in
      (new_partition layout (hd rs))
        \<lparr>part_ActiveParts := of_nat (length rs),
         part_Rows := sum_list (map pr_rows rs),
         part_BytesOnDisk := sum_list (map pr_bytes rs),
         part_MaxModificationTime := fold (\<lambda>r. max (pr_modified r)) rs zero_time,
         part_Disks := disk_summary rs,
         part_Hashes := map (\<lambda>r. \<lparr>ph_Name = pr_name r, ph_Hash = pr_hash r, ph_Disk = pr_disk r\<rparr>) rs\<rparr>)"

lemma first_seen_snoc:
  "first_seen (xs @ [x]) = (if x \<in> set xs then first_seen xs else first_seen xs @ [x])"
  by (simp add: first_seen_def)

lemma first_seen_distinct [simp]: "distinct (first_seen xs)"
  by (simp add: first_seen_def)

lemma first_seen_set [simp]: "set (first_seen xs) = set xs"
  by (simp add: first_seen_def)

lemma update_keyed_map:
  "distinct ks \<Longrightarrow> k \<in> set ks \<Longrightarrow>
   AList.update k v (map (\<lambda>i. (i, f i)) ks) = map (\<lambda>i. (i, (f(k := v)) i)) ks"
  by (induction ks) auto

lemma rows_of_snoc:
  "rows_of pid (rows @ [r]) = (if pr_partition_id r = pid then rows_of pid rows @ [r] else rows_of pid rows)"
  by (simp add: rows_of_def)

lemma rows_of_Nil_iff: "rows_of pid rows = [] \<longleftrightarrow> pid \<notin> pr_partition_id ` set rows"
  by (auto simp: rows_of_def filter_empty_conv)

definition rolled :: "TableLayout \<Rightarrow> part_row list \<Rightarrow> string \<Rightarrow> PartitionObservation" where
  "rolled layout rows pid =
     fold count_part (rows_of pid rows) (new_partition layout (hd (rows_of pid rows)))"

lemma rolled_snoc_other: "pr_partition_id r \<noteq> pid \<Longrightarrow> rolled layout (rows @ [r]) pid = rolled layout rows pid"
  by (simp add: rolled_def rows_of_snoc)

lemma rolled_snoc_same:
  "pr_partition_id r \<in> pr_partition_id ` set rows \<Longrightarrow>
   rolled layout (rows @ [r]) (pr_partition_id r) = count_part r (rolled layout rows (pr_partition_id r))"
  using rows_of_Nil_iff [of "pr_partition_id r" rows] by (simp add: rolled_def rows_of_snoc)

lemma rolled_snoc_new:
  "pr_partition_id r \<notin> pr_partition_id ` set rows \<Longrightarrow>
   rolled layout (rows @ [r]) (pr_partition_id r) = count_part r (new_partition layout r)"
  using rows_of_Nil_iff [of "pr_partition_id r" rows] by (simp add: rolled_def rows_of_snoc)

lemma rollup_fold:
  "fold (rollup_step layout) rows [] =
   map (\<lambda>pid. (pid, rolled layout rows pid)) (first_seen (map pr_partition_id rows))"
proof (induction rows rule: rev_induct)
  case Nil
  then show ?case by (simp add: first_seen_def)
next
  case (snoc r rows)
  let ?ids = "first_seen (map pr_partition_id rows)" and ?k = "pr_partition_id r"
  have get: "map_of (map (\<lambda>pid. (pid, rolled layout rows pid)) ?ids) ?k =
      (if ?k \<in> set ?ids then Some (rolled layout rows ?k) else None)"
    by (simp add: map_of_map_restrict restrict_map_def)
  have step: "fold (rollup_step layout) (rows @ [r]) [] =
      rollup_step layout r (map (\<lambda>pid. (pid, rolled layout rows pid)) ?ids)"
    by (simp add: snoc)
  have "rollup_step layout r (map (\<lambda>pid. (pid, rolled layout rows pid)) ?ids) =
      map (\<lambda>pid. (pid, rolled layout (rows @ [r]) pid)) (first_seen (map pr_partition_id (rows @ [r])))"
  proof (cases "?k \<in> set ?ids")
    case True
    then have "(\<lambda>pid. (pid, ((rolled layout rows)(?k := count_part r (rolled layout rows ?k))) pid)) =
        (\<lambda>pid. (pid, rolled layout (rows @ [r]) pid))"
      by (auto simp: fun_eq_iff rolled_snoc_other rolled_snoc_same)
    with True show ?thesis
      by (simp add: rollup_step_def Let_def get update_keyed_map first_seen_snoc del: fun_upd_apply)
  next
    case False
    have "rolled layout (rows @ [r]) pid = rolled layout rows pid" if "pid \<in> set ?ids" for pid
      by (rule rolled_snoc_other) (use False that in metis)
    then have "map (\<lambda>pid. (pid, rolled layout (rows @ [r]) pid)) ?ids =
        map (\<lambda>pid. (pid, rolled layout rows pid)) ?ids"
      by (intro map_cong) simp_all
    with False show ?thesis
      by (simp add: rollup_step_def Let_def get amap_put_fresh first_seen_snoc rolled_snoc_new)
  qed
  then show ?case by (simp only: step)
qed

lemma fold_addDiskPart_names:
  "set (map dp_Disk (fold (\<lambda>r ds. addDiskPart ds (pr_disk r)) rs ds)) =
   set (map dp_Disk ds) \<union> pr_disk ` set rs"
proof (induction rs arbitrary: ds)
  case (Cons r rs)
  have "set (map dp_Disk (addDiskPart ds d)) = insert d (set (map dp_Disk ds))" for d
    by (induction ds) auto
  with Cons show ?case by auto
qed simp

lemma addDiskPart_distinct:
  "distinct (map dp_Disk ds) \<Longrightarrow> distinct (map dp_Disk (addDiskPart ds d))"
proof (induction ds)
  case (Cons a ds)
  have "set (map dp_Disk (addDiskPart ds d)) = insert d (set (map dp_Disk ds))"
    by (induction ds) auto
  with Cons show ?case by (auto simp: image_iff)
qed simp

lemma fold_addDiskPart_distinct:
  "distinct (map dp_Disk ds) \<Longrightarrow>
   distinct (map dp_Disk (fold (\<lambda>r ds. addDiskPart ds (pr_disk r)) rs ds))"
  by (induction rs arbitrary: ds) (simp_all add: addDiskPart_distinct)

text \<open>The parts counted on a disk, zero when it has no entry.\<close>

definition parts_on :: "DiskPart list \<Rightarrow> string \<Rightarrow> u64" where
  "parts_on ds d = (case find (\<lambda>x. dp_Disk x = d) ds of Some x \<Rightarrow> dp_Parts x | None \<Rightarrow> 0)"

lemma parts_on_addDiskPart:
  "parts_on (addDiskPart ds d) e = parts_on ds e + (if e = d then 1 else 0)"
  by (induction ds) (auto simp: parts_on_def)

lemma parts_on_fold:
  "parts_on (fold (\<lambda>r ds. addDiskPart ds (pr_disk r)) rs ds) e =
   parts_on ds e + of_nat (length (filter (\<lambda>r. pr_disk r = e) rs))"
  by (induction rs arbitrary: ds) (auto simp: parts_on_addDiskPart)

lemma parts_on_mem:
  "distinct (map dp_Disk ds) \<Longrightarrow> x \<in> set ds \<Longrightarrow> dp_Parts x = parts_on ds (dp_Disk x)"
  by (induction ds) (auto simp: parts_on_def)

lemma sorted_disks_unique:
  assumes "distinct (map dp_Disk ds)" and "\<And>d. parts_on ds d = c d"
  shows "sort_by dp_Disk ds = map (\<lambda>d. \<lparr>dp_Disk = d, dp_Parts = c d\<rparr>) (sorted_list_of_set (dp_Disk ` set ds))"
proof -
  let ?s = "sort_by dp_Disk ds"
  have "distinct (map dp_Disk ?s)"
    using assms(1) by (metis distinct_map length_map length_sort_by set_map set_sort_by card_distinct distinct_card)
  then have names: "map dp_Disk ?s = sorted_list_of_set (dp_Disk ` set ds)"
    by (intro sorted_distinct_set_unique) (simp_all add: sorted_sort_by)
  have "x = \<lparr>dp_Disk = dp_Disk x, dp_Parts = c (dp_Disk x)\<rparr>" if "x \<in> set ?s" for x
    using that parts_on_mem [OF assms(1), of x] assms(2) by simp
  then have "map id ?s = map (\<lambda>x. \<lparr>dp_Disk = dp_Disk x, dp_Parts = c (dp_Disk x)\<rparr>) ?s"
    by (intro map_cong) auto
  then have "?s = map (\<lambda>d. \<lparr>dp_Disk = d, dp_Parts = c d\<rparr>) (map dp_Disk ?s)"
    by (simp add: comp_def)
  then show ?thesis by (simp add: names)
qed

lemma fold_count_part:
  "fold count_part rs p =
   p\<lparr>part_ActiveParts := part_ActiveParts p + of_nat (length rs),
     part_Rows := part_Rows p + sum_list (map pr_rows rs),
     part_BytesOnDisk := part_BytesOnDisk p + sum_list (map pr_bytes rs),
     part_MaxModificationTime := fold (\<lambda>r. max (pr_modified r)) rs (part_MaxModificationTime p),
     part_Disks := fold (\<lambda>r ds. addDiskPart ds (pr_disk r)) rs (part_Disks p),
     part_Hashes := part_Hashes p @
       map (\<lambda>r. \<lparr>ph_Name = pr_name r, ph_Hash = pr_hash r, ph_Disk = pr_disk r\<rparr>) rs\<rparr>"
proof (induction rs arbitrary: p)
  case (Cons r rs)
  have "fold count_part (r # rs) p = fold count_part rs (count_part r p)" by simp
  note unroll = this
  show ?case unfolding unroll Cons.IH by (simp add: count_part_def add.assoc max_def [of "pr_modified r" "part_MaxModificationTime p"])
qed simp

lemma new_partition_zero:
  "part_ActiveParts (new_partition l r) = 0" "part_Rows (new_partition l r) = 0"
  "part_BytesOnDisk (new_partition l r) = 0" "part_MaxModificationTime (new_partition l r) = zero_time"
  "part_Disks (new_partition l r) = []" "part_Hashes (new_partition l r) = []"
  "part_PartitionID (new_partition l r) = pr_partition_id r"
  by (simp_all add: new_partition_def zero_partition_def Let_def split: sum.splits)

lemma sort_disks_rolled: "sort_disks (rolled layout rows pid) = partition_summary layout rows pid"
proof -
  let ?ds = "fold (\<lambda>r ds. addDiskPart ds (pr_disk r)) (rows_of pid rows) []"
  have "dp_Disk ` set ?ds = pr_disk ` set (rows_of pid rows)"
    using fold_addDiskPart_names [of "rows_of pid rows" "[]"] by simp
  then have "sort_by dp_Disk ?ds = disk_summary (rows_of pid rows)"
    unfolding disk_summary_def
    by (subst sorted_disks_unique [where c =
          "\<lambda>d. of_nat (length (filter (\<lambda>r. pr_disk r = d) (rows_of pid rows)))"])
      (simp_all add: fold_addDiskPart_distinct parts_on_fold, simp add: parts_on_def)
  then show ?thesis
    by (simp add: sort_disks_def rolled_def fold_count_part new_partition_zero partition_summary_def Let_def)
qed

text \<open>C26: The partition rollup of the part rows is a group-by: one observation per partition id, in
  the order in which the ids first appear, and each observation is the summary of that id's rows
  (their number, the sums of rows and bytes, the newest modification, the parts per disk by name,
  the hashes in order).\<close>

theorem rollup_group_by:
  "rollup layout rows =
   map (partition_summary layout rows) (first_seen (map pr_partition_id rows))"
  by (simp add: rollup_def rollup_fold sort_disks_rolled)

section \<open>Properties of an observation\<close>

lemma add_condition_fields [simp]:
  "obs_EffectiveMode (add_condition env s c m obs) = obs_EffectiveMode obs"
  "obs_Version (add_condition env s c m obs) = obs_Version obs"
  "obs_Settings (add_condition env s c m obs) = obs_Settings obs"
  by (simp_all add: add_condition_def)

definition keeps_gate :: "(TableObservation \<Rightarrow> TableObservation) \<Rightarrow> bool" where
  "keeps_gate f \<longleftrightarrow> (\<forall>obs. obs_EffectiveMode (f obs) = obs_EffectiveMode obs \<and>
     obs_Version (f obs) = obs_Version obs \<and> obs_Settings (f obs) = obs_Settings obs)"

lemma keeps_gate_fold: "(\<And>x. keeps_gate (f x)) \<Longrightarrow> keeps_gate (fold f xs)"
  by (induction xs) (simp_all add: keeps_gate_def)

lemma policy_keeps_gate: "keeps_gate (observe_policy env S)"
proof -
  have w: "keeps_gate (fold (warn_move_factor env) vs)" for vs
    by (rule keeps_gate_fold) (simp add: keeps_gate_def warn_move_factor_def)
  have h: "keeps_gate (pick_hot_volume env vs t)" for vs t
    by (auto simp: keeps_gate_def pick_hot_volume_def Let_def split: option.splits nat.splits)
  show ?thesis
    using w h
    by (auto simp: keeps_gate_def observe_policy_def collectStoragePolicy_def Let_def split: sum.splits)
qed

lemma collectors_keep_gate:
  "keeps_gate (observe_heads env S)" "keeps_gate (observe_replica env S)"
  "keeps_gate (observe_mutations env S)"
  by (auto simp: keeps_gate_def observe_heads_def observe_replica_def observe_mutations_def
      split: sum.splits)

lemma parts_keep_gate:
  "observe_parts env S obs = Inr obs' \<Longrightarrow>
   obs_EffectiveMode obs' = obs_EffectiveMode obs \<and> obs_Version obs' = obs_Version obs \<and>
   obs_Settings obs' = obs_Settings obs"
  by (auto simp: observe_parts_def Let_def split: prod.splits option.splits sum.splits)

lemma version_gate_enforce:
  "obs_EffectiveMode (applyVersionGate env obs) = ModeEnforce \<Longrightarrow>
   obs_EffectiveMode obs = ModeEnforce \<and>
   (clickHouseMajorMinor (obs_Version obs) = None \<or>
    (\<exists>minor. clickHouseMajorMinor (obs_Version obs) = Some (26, minor)))"
  by (auto simp: applyVersionGate_def split: option.splits if_splits) (simp add: enum_simps)+

lemma version_gate_fields:
  "obs_Version (applyVersionGate env obs) = obs_Version obs"
  "obs_Settings (applyVersionGate env obs) = obs_Settings obs"
  by (simp_all add: applyVersionGate_def split: option.splits)

lemma observe_table_gate:
  assumes "ObserveTable env S node watch = Inr obs"
  obtains settings obs0 where "w_Settings watch = Some settings"
    "collectTableMetadata S (starts_table node watch settings (env_clock env)) = Inr obs0"
    "obs_EffectiveMode obs = obs_EffectiveMode (applyVersionGate env obs0)"
    "obs_Version obs = obs_Version obs0" "obs_Settings obs = obs_Settings obs0"
proof -
  obtain settings where s: "w_Settings watch = Some settings"
    using assms by (auto simp: ObserveTable_def split: option.splits)
  obtain obs0 where o0: "collectTableMetadata S (starts_table node watch settings (env_clock env)) = Inr obs0"
    using assms s by (auto simp: ObserveTable_def split: sum.splits)
  have ctd: "ObserveTable env S node watch =
      (let obs = applyVersionGate env obs0 in
       case validateTieringEngine (obs_Engine obs) of
         Some e \<Rightarrow> Inr (add_condition env SeverityCritical ''unsupported_engine'' e obs)
       | None \<Rightarrow>
           (case observe_layout env S obs of
              Inl e \<Rightarrow> Inr (add_condition env SeverityCritical ''misconfigured'' e obs)
            | Inr layout \<Rightarrow>
                observe_parts env S (observe_mutations env S (observe_replica env S
                  (observe_heads env S (observe_policy env S (obs\<lparr>obs_Layout := layout\<rparr>)))))))"
    using s o0 by (simp add: ObserveTable_def)
  note k = policy_keeps_gate collectors_keep_gate
  have "obs_EffectiveMode obs = obs_EffectiveMode (applyVersionGate env obs0) \<and>
      obs_Version obs = obs_Version obs0 \<and> obs_Settings obs = obs_Settings obs0"
    using assms [unfolded ctd] k
    by (auto simp: Let_def version_gate_fields keeps_gate_def dest!: parts_keep_gate
        split: option.splits sum.splits)
  then show thesis using that s o0 by blast
qed

text \<open>Enforcement is never in force on a server whose major version is known and is not the
  validated one: a table is observed in enforce mode only when its watch asks for enforce, the
  server's version was read, and that version has major 26 or does not parse.\<close>

theorem observe_enforce_gated:
  assumes "ObserveTable env S node watch = Inr obs" and "obs_EffectiveMode obs = ModeEnforce"
  shows "\<exists>settings row. w_Settings watch = Some settings \<and> ts_Mode settings = ModeEnforce \<and>
     q_tables S (w_Database watch) (w_Table watch) = Inr row \<and> obs_Version obs = tr_version row \<and>
     (clickHouseMajorMinor (tr_version row) = None \<or>
      (\<exists>minor. clickHouseMajorMinor (tr_version row) = Some (26, minor)))"
proof -
  obtain settings obs0 where s: "w_Settings watch = Some settings"
    and m: "collectTableMetadata S (starts_table node watch settings (env_clock env)) = Inr obs0"
    and e: "obs_EffectiveMode obs = obs_EffectiveMode (applyVersionGate env obs0)"
    and v: "obs_Version obs = obs_Version obs0"
    using observe_table_gate [OF assms(1)] by metis
  obtain row where r: "q_tables S (w_Database watch) (w_Table watch) = Inr row"
    and o0: "obs_Version obs0 = tr_version row"
      "obs_EffectiveMode obs0 = (if ts_Mode settings = '''' then ModePlan else ts_Mode settings)"
    using m by (auto simp: collectTableMetadata_def starts_table_def split: sum.splits)
  have g: "obs_EffectiveMode obs0 = ModeEnforce \<and> (clickHouseMajorMinor (obs_Version obs0) = None \<or>
      (\<exists>minor. clickHouseMajorMinor (obs_Version obs0) = Some (26, minor)))"
    using version_gate_enforce assms(2) e by metis
  have "ts_Mode settings = ModeEnforce"
    using g o0(2) by (auto simp: enum_simps split: if_splits)
  with s r v o0 g show ?thesis by simp
qed

definition failing_server :: server where
  "failing_server =
     (let e = ExtErr ''no answer'' in
      \<lparr>q_tables = \<lambda>_ _. Inl e, q_column_type = \<lambda>_ _ _. Inl e, q_policies = \<lambda>_. Inl e,
       q_heads = \<lambda>_. Inl e, q_replicas = \<lambda>_ _. Inl e, q_merge_queue = \<lambda>_ _. Inl e,
       q_mutations = \<lambda>_ _. Inl e, q_part_log = \<lambda>_ _ _. Inl e, q_merges = \<lambda>_ _. Inl e,
       q_parts = \<lambda>_ _. Inl e, q_now = Inl e, q_moved_bytes = \<lambda>_. Inl e, q_flush_logs = Some e,
       q_processes = \<lambda>_. Inl e, q_moves = \<lambda>_ _. Inl e, q_query_log = \<lambda>_ _. Inl e,
       q_query_texts = \<lambda>_ _. Inl e, q_move_events = \<lambda>_ _ _. Inl e, q_identity = \<lambda>_ _. Inl e,
       q_new_parts = \<lambda>_ _ _ _. Inl e, q_disks = Inl e, q_cold_merges = \<lambda>_ _ _ _. Inl e,
       q_probe_column = \<lambda>_ _. Inl e, q_probe = \<lambda>_ _. Inl e\<rparr>)"

definition sample_env :: go_env where
  "sample_env = \<lparr>env_zone = \<lambda>_. Inl (ExtErr ''unknown zone''), env_unicode = sample_unicode,
     env_sha = \<lambda>s. s, env_clock = 1700000000000000000\<rparr>"

definition sample_node :: Node where
  "sample_node = \<lparr>nd_ID = ''n1'', nd_Shard = ''s1'', nd_Replica = ''r1'', nd_Addr = ''h:9000''\<rparr>"

definition sample_watch :: EffectiveWatch where
  "sample_watch = \<lparr>w_Database = ''db'', w_Table = ''t'', w_Settings = Some sample_settings\<rparr>"

definition sample_row :: table_row where
  "sample_row = \<lparr>tr_uuid = ''u1'', tr_engine = ''MergeTree'', tr_storage_policy = ''hot_cold'',
     tr_partition_key = '''', tr_is_replicated = 0, tr_version = ''26.2.1'', tr_now = 1700000000000000000\<rparr>"

definition sample_server :: server where
  "sample_server = failing_server\<lparr>q_tables := \<lambda>_ _. Inr sample_row\<rparr>"

lemma sample_tables: "q_tables sample_server d t = Inr sample_row"
  by (simp add: sample_server_def)

lemma sample_engine: "validateTieringEngine ''MergeTree'' = None"
  by (simp add: validateTieringEngine_def check_def str_contains_def has_prefix_def)

lemma sample_mode: "ts_Mode sample_settings = ModeEnforce"
  by (simp add: sample_settings_def ResolveDefaults_tier_def Let_def)

lemma sample_major_minor: "clickHouseMajorMinor ''26.2.1'' = Some (26, 2)"
  by (simp add: clickHouseMajorMinor_def Let_def parse_int_def is_digit_def digits_val_def
      digit_val_def i64_simps)

theorem observe_enforce_gated_witness:
  "\<exists>settings. w_Settings sample_watch = Some settings \<and> ts_Mode settings = ModeEnforce"
proof -
  have "ParseLayout U d t '''' s = Inl (lit ''empty or tuple() partition key is not tierable'')" for U d t s
    by (simp add: ParseLayout_def Let_def trim_space_def trim_left.simps trim_right.simps)
  then have "observe_layout sample_env sample_server obs =
      Inl (lit ''empty or tuple() partition key is not tierable'')" if "obs_PartitionKey obs = ''''" for obs
    using that by (simp add: observe_layout_def)
  then obtain obs where o: "ObserveTable sample_env sample_server sample_node sample_watch = Inr obs"
    "obs_EffectiveMode obs = ModeEnforce"
    by (simp add: ObserveTable_def sample_watch_def collectTableMetadata_def sample_tables
        sample_row_def starts_table_def applyVersionGate_def sample_major_minor Let_def
        sample_engine sample_mode ModeEnforce_def)
  from observe_enforce_gated [OF this] show ?thesis by blast
qed

text \<open>The windows of the gates fit in the part log that is read.\<close>

lemma partLogLookbackDays_eq:
  assumes "0 \<le> w" and "w \<le> 106747 * day_dur"
    "w = max (max (ts_QuietFor s) (rs_QuietFor (ts_Resplit s))) (max (ts_TierFrozenAfter s) maxResplitQuiet)"
  shows "partLogLookbackDays s = (w + 2 * day_dur) div day_dur + 1"
proof -
  have "in_i64 (w + 172800000000000)" using assms(1,2) by (simp add: i64_simps dur_simps)
  then show ?thesis
    using assms by (simp add: partLogLookbackDays_def Let_def dur_simps go_div_nonneg)
qed

text \<open>The part log is read back far enough for every gate: with windows of at most 106747 days
  the lookback, in whole days, exceeds the quiet window, the resplit window, the dead-group
  horizon and the ceiling of the adaptive resplit window by more than two days.\<close>

theorem lookback_covers_gates:
  assumes "0 \<le> d" "d \<le> 106747 * day_dur" "ts_QuietFor s \<le> 106747 * day_dur"
    "rs_QuietFor (ts_Resplit s) \<le> 106747 * day_dur" "ts_TierFrozenAfter s \<le> 106747 * day_dur"
    and "d \<in> {ts_QuietFor s, rs_QuietFor (ts_Resplit s), ts_TierFrozenAfter s, maxResplitQuiet}"
  shows "d + 2 * day_dur < partLogLookbackDays s * day_dur"
proof -
  define w where "w = max (max (ts_QuietFor s) (rs_QuietFor (ts_Resplit s)))
    (max (ts_TierFrozenAfter s) maxResplitQuiet)"
  have mr: "maxResplitQuiet = 7776000000000000" by (simp add: maxResplitQuiet_def dur_simps)
  have w: "d \<le> w" "0 \<le> w" "w \<le> 106747 * day_dur"
    using assms by (auto simp: w_def mr dur_simps)
  have eq: "partLogLookbackDays s = (w + 2 * day_dur) div day_dur + 1"
    by (rule partLogLookbackDays_eq [OF w(2,3) w_def])
  have pos: "0 < day_dur" by (simp add: dur_simps)
  have "(w + 2 * day_dur) mod day_dur < day_dur" using pos by simp
  then have "w + 2 * day_dur < ((w + 2 * day_dur) div day_dur + 1) * day_dur"
    using mult_div_mod_eq [of day_dur "w + 2 * day_dur"] by (simp add: algebra_simps)
  with w(1) show ?thesis by (simp add: eq)
qed

theorem lookback_covers_gates_witness:
  "maxResplitQuiet + 2 * day_dur < partLogLookbackDays DefaultTierSettings * day_dur"
  by (rule lookback_covers_gates)
    (simp_all add: maxResplitQuiet_def dur_simps DefaultTierSettings_def)

end
