(* ===== verification/Decide.thy ===== *)
theory Decide
  imports Observation
begin

text \<open>
  The classifier (\<open>internal/tiering/decide.go\<close>): from one observation of a table to a verdict per
  partition. A verdict is one leg, never a plan; the gates that can hold a partition are
  functions of their own, as in the code.
\<close>

section \<open>Data\<close>

datatype Status =
  StatusHot | StatusReady | StatusTiered | StatusSplit | StatusStalled | StatusMisconfigured

datatype Decision =
    DecisionUnset
  | DecisionNone | DecisionKeep | DecisionHold | DecisionConsolidate | DecisionOptimize
  | DecisionTier | DecisionAppend

text \<open>\<open>DecisionUnset\<close> is the empty string of a zero \<open>Verdict\<close>.\<close>

definition status_text :: "Status \<Rightarrow> string" where
  "status_text s =
     (case s of StatusHot \<Rightarrow> ''hot'' | StatusReady \<Rightarrow> ''ready'' | StatusTiered \<Rightarrow> ''tiered''
      | StatusSplit \<Rightarrow> ''split'' | StatusStalled \<Rightarrow> ''stalled'' | StatusMisconfigured \<Rightarrow> ''misconfigured'')"

definition decision_text :: "Decision \<Rightarrow> string" where
  "decision_text d =
     (case d of DecisionUnset \<Rightarrow> '''' | DecisionNone \<Rightarrow> ''none'' | DecisionKeep \<Rightarrow> ''keep''
      | DecisionHold \<Rightarrow> ''hold'' | DecisionConsolidate \<Rightarrow> ''consolidate''
      | DecisionOptimize \<Rightarrow> ''optimize'' | DecisionTier \<Rightarrow> ''tier'' | DecisionAppend \<Rightarrow> ''append'')"

definition replicaQueueSizeThreshold :: u64 where "replicaQueueSizeThreshold = 20"
definition replicaAbsoluteDelayMaxSecs :: u64 where "replicaAbsoluteDelayMaxSecs = 300"

definition dur_text :: "gdur \<Rightarrow> gotext" where "dur_text d = Fmt ''%s'' [ADur d]"

record HoldDetail =
  hd_Gate :: string
  hd_Window :: gotext
  hd_LastInsert :: "gtime option"
  hd_LastChange :: "gtime option"
  hd_ReleasesAt :: "gtime option"
  hd_RetryAt :: "gtime option"
  hd_Failures :: int

definition gate_detail :: "string \<Rightarrow> HoldDetail" where
  "gate_detail gate =
     \<lparr>hd_Gate = gate, hd_Window = no_text, hd_LastInsert = None, hd_LastChange = None,
      hd_ReleasesAt = None, hd_RetryAt = None, hd_Failures = 0\<rparr>"

record PolicySnapshot =
  pol_Mode :: string
  pol_AgeBasis :: string
  pol_OlderThan :: gotext
  pol_Field :: string
  pol_KeepLast :: u64
  pol_QuietFor :: gotext
  pol_TierFrozenAfter :: gotext
  pol_TargetDisk :: string
  pol_HotVolume :: string
  pol_OptimizeToParts :: u64
  pol_SkipOptimize :: bool
  pol_OptimizeOn :: string
  pol_OptimizeSkipAboveBytes :: string
  pol_ResplitStrategy :: string
  pol_ResplitQuietFor :: gotext
  pol_FragmentAbovePartCount :: u64

record Verdict =
  v_NodeID :: string
  v_Shard :: string
  v_Replica :: string
  v_Database :: string
  v_Table :: string
  v_Partition :: string
  v_PartitionID :: string
  v_Status :: Status
  v_Decision :: Decision
  v_Reason :: gotext
  v_Rows :: u64
  v_BytesOnDisk :: u64
  v_ActiveParts :: u64
  v_Disks :: "DiskPart list"
  v_TargetDisk :: string
  v_HotVolume :: string
  v_Policy :: PolicySnapshot
  v_Conditions :: "Condition list"
  v_Hold :: "HoldDetail option"
  v_Token :: string
  v_ReconciledAt :: gtime
  v_TableUUID :: string
  v_LayoutGeneration :: string
  v_EffectiveMode :: string

section \<open>Verdicts\<close>

definition snapshotPolicy :: "TierSettings \<Rightarrow> string \<Rightarrow> string \<Rightarrow> PolicySnapshot" where
  "snapshotPolicy s mode hotVolume =
     \<lparr>pol_Mode = mode, pol_AgeBasis = age_Basis (ts_Age s),
      pol_OlderThan = dur_text (age_OlderThan (ts_Age s)), pol_Field = age_Field (ts_Age s),
      pol_KeepLast = age_KeepLast (ts_Age s), pol_QuietFor = dur_text (ts_QuietFor s),
      pol_TierFrozenAfter = dur_text (ts_TierFrozenAfter s), pol_TargetDisk = ts_TargetDisk s,
      pol_HotVolume = hotVolume, pol_OptimizeToParts = ts_OptimizeToParts s,
      pol_SkipOptimize = ts_SkipOptimize s, pol_OptimizeOn = ts_OptimizeOn s,
      pol_OptimizeSkipAboveBytes = show_u64 (ts_OptimizeSkipAboveBytes s),
      pol_ResplitStrategy = rs_Strategy (ts_Resplit s),
      pol_ResplitQuietFor = dur_text (rs_QuietFor (ts_Resplit s)),
      pol_FragmentAbovePartCount = rs_FragmentAbovePartCount (ts_Resplit s)\<rparr>"

definition token_text :: "Verdict \<Rightarrow> string" where
  "token_text v =
     join ''/'' [v_NodeID v, v_Database v, v_Table v, v_PartitionID v, status_text (v_Status v),
       decision_text (v_Decision v), show_u64 (v_ActiveParts v), show_u64 (v_BytesOnDisk v),
       v_LayoutGeneration v]"

definition verdictToken :: "go_env \<Rightarrow> Verdict \<Rightarrow> string" where
  "verdictToken env v = env_sha env (token_text v)"

definition baseVerdict ::
  "go_env \<Rightarrow> TableObservation \<Rightarrow> PartitionObservation \<Rightarrow> Status \<Rightarrow> Decision \<Rightarrow> gotext \<Rightarrow> Condition list \<Rightarrow> Verdict" where
  "baseVerdict env obs p status decision reason conditions =
     (let v = \<lparr>v_NodeID = nd_ID (obs_Node obs), v_Shard = nd_Shard (obs_Node obs),
            v_Replica = nd_Replica (obs_Node obs), v_Database = obs_Database obs,
            v_Table = obs_Table obs, v_Partition = part_Partition p,
            v_PartitionID = part_PartitionID p, v_Status = status, v_Decision = decision,
            v_Reason = reason, v_Rows = part_Rows p, v_BytesOnDisk = part_BytesOnDisk p,
            v_ActiveParts = part_ActiveParts p, v_Disks = part_Disks p,
            v_TargetDisk = ts_TargetDisk (obs_Settings obs), v_HotVolume = obs_HotVolume obs,
            v_Policy = snapshotPolicy (obs_Settings obs) (obs_EffectiveMode obs) (obs_HotVolume obs),
            v_Conditions = conditions, v_Hold = None, v_Token = '''',
            v_ReconciledAt = obs_ObservedAt obs, v_TableUUID = obs_UUID obs,
            v_LayoutGeneration = lay_Generation (obs_Layout obs),
            v_EffectiveMode = obs_EffectiveMode obs\<rparr>
      in v\<lparr>v_Token := verdictToken env v\<rparr>)"

section \<open>Periods of a partition\<close>

definition parseYYYYMM :: "string \<Rightarrow> gotext + int" where
  "parseYYYYMM raw =
     (let err = Fmt ''partition month %q is not YYYYMM'' [AStr raw] in
      case parse_int ''Atoi'' raw of
        Inl e \<Rightarrow> Inl err
      | Inr v \<Rightarrow> if v < 100001 \<or> 999912 < v \<or> v mod 100 < 1 \<or> 12 < v mod 100 then Inl err else Inr v)"

definition parseYYYYMMDD :: "string \<Rightarrow> gotext + int" where
  "parseYYYYMMDD raw =
     (let err = Fmt ''partition day %q is not YYYYMMDD'' [AStr raw] in
      case parse_int ''Atoi'' raw of
        Inl e \<Rightarrow> Inl err
      | Inr v \<Rightarrow>
          (let day = go_mod v 100; month = go_mod (go_div v 100) 100 in
           if v < 10000101 \<or> month < 1 \<or> 12 < month \<or> day < 1 \<or> 31 < day then Inl err else Inr v))"

definition parseDateish :: "string \<Rightarrow> gotext + civil" where
  "parseDateish raw =
     (case parse_datetime raw of
        Some c \<Rightarrow> Inr c
      | None \<Rightarrow>
          (case parse_date_only raw of
             Some c \<Rightarrow> Inr c
           | None \<Rightarrow> Inl (Fmt ''partition date %q is not a supported date rendering'' [AStr raw])))"

definition partitionPeriodEnd :: "string \<Rightarrow> gtime \<Rightarrow> zone \<Rightarrow> gtime" where
  "partitionPeriodEnd function start loc =
     (if function = ''toStartOfMonth'' then add_date start 0 1 0 loc
      else if function = ''toStartOfWeek'' then add_date start 0 0 7 loc
      else add_date start 0 0 1 loc)"

definition partitionPeriodEndForValue :: "TableLayout \<Rightarrow> string \<Rightarrow> zone \<Rightarrow> gotext + gtime" where
  "partitionPeriodEndForValue layout value loc =
     (let fn = lay_TimeFunction layout in
      if fn = ''toYYYYMM'' then
        (case parseYYYYMM value of
           Inl e \<Rightarrow> Inl e
         | Inr month \<Rightarrow> Inr (add_date (go_date (month div 100) (month mod 100) 1 0 0 0 0 loc) 0 1 0 loc))
      else if fn = ''toYYYYMMDD'' then
        (case parseYYYYMMDD value of
           Inl e \<Rightarrow> Inl e
         | Inr day \<Rightarrow>
             Inr (add_date (go_date (day div 10000) (day div 100 mod 100) (day mod 100) 0 0 0 0 loc) 0 0 1 loc))
      else if fn \<in> {''toDate'', ''toStartOfMonth'', ''toStartOfWeek'', ''toStartOfDay''} then
        (case parseDateish value of
           Inl e \<Rightarrow> Inl e
         | Inr (y, mo, d, h, mi, s, ns) \<Rightarrow>
             Inr (partitionPeriodEnd fn (go_date y mo d h mi s ns loc) loc))
      else Inl (lit ''time function is not supported''))"

definition partitionLocation :: "go_env \<Rightarrow> string \<Rightarrow> gotext + zone" where
  "partitionLocation env name =
     (if name = '''' then Inr utc
      else case env_zone env name of
        Inl e \<Rightarrow> Inl (Fmt ''partition timezone %q is not available: %w'' [AStr name, AWrap e])
      | Inr loc \<Rightarrow> Inr loc)"

definition partitionTimeEligible :: "go_env \<Rightarrow> TableLayout \<Rightarrow> string \<Rightarrow> gdur \<Rightarrow> gtime \<Rightarrow> bool \<times> gotext" where
  "partitionTimeEligible env layout value olderThan now =
     (case partitionLocation env (lay_TimeZone layout) of
        Inl e \<Rightarrow> (False, e)
      | Inr loc \<Rightarrow>
          (let cutoff = time_add now (wrap64 (- olderThan)) in
           case partitionPeriodEndForValue layout value loc of
             Inl e \<Rightarrow> (False, e)
           | Inr end' \<Rightarrow>
               if \<not> cutoff < end' then (True, lit ''partition period ended before olderThan cutoff'')
               else (False, lit ''partition period overlaps olderThan window'')))"

section \<open>Gates\<close>

text \<open>A gate's answer: may the partition pass, the reason when not, its conditions.\<close>

type_synonym gate = "bool \<times> gotext \<times> Condition list"

definition gate_open :: gate where "gate_open = (True, no_text, [])"

definition part_condition ::
  "go_env \<Rightarrow> TableObservation \<Rightarrow> PartitionObservation \<Rightarrow> ConditionSeverity \<Rightarrow> string \<Rightarrow> gotext \<Rightarrow> Condition" where
  "part_condition env obs p severity code message =
     NewCondition env severity code message (nd_ID (obs_Node obs)) (obs_Database obs) (obs_Table obs)
       (part_Partition p) (part_PartitionID p)"

definition conditionPresent :: "Condition list \<Rightarrow> string \<Rightarrow> bool" where
  "conditionPresent conditions code \<longleftrightarrow> list_ex (\<lambda>c. cond_Code c = code) conditions"

definition replicaMergeQueued :: "PartitionObservation \<Rightarrow> string list \<Rightarrow> bool" where
  "replicaMergeQueued p mergeQueue \<longleftrightarrow> list_ex (\<lambda>h. ph_Name h \<in> set mergeQueue) (part_Hashes p)"

definition replicaGate :: "go_env \<Rightarrow> TableObservation \<Rightarrow> PartitionObservation \<Rightarrow> gate" where
  "replicaGate env obs p =
     (case obs_Replica obs of
        None \<Rightarrow> gate_open
      | Some r \<Rightarrow>
          (let refuse = (\<lambda>code msg. (False, lit msg, [part_condition env obs p SeverityWarning code (lit msg)]))
           in if rep_Readonly r then refuse ''replica_readonly'' ''replica is readonly''
              else if rep_SessionExpired r then
                refuse ''replica_session_expired'' ''replica session is expired''
              else if replicaQueueSizeThreshold < rep_QueueSize r then
                refuse ''replica_queue_large'' ''replica queue is above the safety threshold''
              else if replicaAbsoluteDelayMaxSecs < rep_AbsoluteDelaySeconds r then
                refuse ''replica_delay_large'' ''replica absolute delay is above the safety threshold''
              else if replicaMergeQueued p (rep_MergeQueue r) then
                refuse ''replica_merge_queued'' ''replica already has a queued merge for this partition''
              else gate_open))"

fun mutation_scan ::
  "go_env \<Rightarrow> TableObservation \<Rightarrow> PartitionObservation \<Rightarrow> MutationObservation list \<Rightarrow> gate" where
  "mutation_scan env obs p [] = gate_open"
| "mutation_scan env obs p (m # ms) =
     (if mut_PartsToDo m = 0 then mutation_scan env obs p ms
      else
        let msg = (if mut_LatestFailReason m \<noteq> '''' then lit (mut_LatestFailReason m)
                   else lit ''unfinished mutation blocks partition'')
        in (False, lit ''unfinished mutation blocks partition'',
            [part_condition env obs p SeverityWarning ''mutation_in_progress'' msg]))"

definition mutationGate :: "go_env \<Rightarrow> TableObservation \<Rightarrow> PartitionObservation \<Rightarrow> gate" where
  "mutationGate env obs p = mutation_scan env obs p (obs_Mutations obs)"

definition insertEvidenceCovers :: "TableObservation \<Rightarrow> gdur \<Rightarrow> gtime \<Rightarrow> bool" where
  "insertEvidenceCovers obs window now =
     (if ts_SealedSignal (obs_Settings obs) = SealedSignalModificationTime then False
      else if conditionPresent (obs_Conditions obs) ''part_log_unreadable'' then False
      else case obs_PartLogMinTime obs of None \<Rightarrow> False | Some t \<Rightarrow> window \<le> time_sub now t)"

text \<open>Recent evidence of one partition within a window, insert evidence and physical changes.\<close>

definition recent_insert :: "PartitionObservation \<Rightarrow> gdur \<Rightarrow> gtime \<Rightarrow> bool" where
  "recent_insert p window now =
     (case part_LatestNewPart p of None \<Rightarrow> False | Some t \<Rightarrow> time_sub now t < window)"

definition recent_change :: "PartitionObservation \<Rightarrow> gdur \<Rightarrow> gtime \<Rightarrow> bool" where
  "recent_change p window now \<longleftrightarrow>
     \<not> is_zero (part_MaxModificationTime p) \<and> time_sub now (part_MaxModificationTime p) < window"

definition groupFrozen :: "TableObservation \<Rightarrow> string \<Rightarrow> gtime \<Rightarrow> bool" where
  "groupFrozen obs groupKey now =
     (let window = ts_TierFrozenAfter (obs_Settings obs);
          insertOnly = insertEvidenceCovers obs window now
      in list_all (\<lambda>p. part_GroupKey p = groupKey \<longrightarrow>
           \<not> recent_insert p window now \<and> (insertOnly \<or> \<not> recent_change p window now))
         (obs_Partitions obs))"

text \<open>A sibling of the same group with recent inserts and a later period.\<close>

definition successor_candidate ::
  "TableObservation \<Rightarrow> PartitionObservation \<Rightarrow> gtime \<Rightarrow> zone \<Rightarrow> gtime \<Rightarrow> PartitionObservation \<Rightarrow> bool" where
  "successor_candidate obs p now loc currentEnd c =
     (if part_PartitionID c = part_PartitionID p \<or> part_GroupKey c \<noteq> part_GroupKey p then False
      else case part_LatestNewPart c of
        None \<Rightarrow> False
      | Some t \<Rightarrow>
          (if ts_TierFrozenAfter (obs_Settings obs) < time_sub now t then False
           else case partitionPeriodEndForValue (obs_Layout obs) (part_AgeString c) loc of
             Inl e \<Rightarrow> False
           | Inr end' \<Rightarrow> currentEnd < end'))"

definition partitionTimeSuccessorGate ::
  "go_env \<Rightarrow> TableObservation \<Rightarrow> PartitionObservation \<Rightarrow> gtime \<Rightarrow> gate" where
  "partitionTimeSuccessorGate env obs p now =
     (let unreadable = (\<lambda>e. (False, e,
            [part_condition env obs p SeverityWarning ''partition_time_unreadable'' e])) in
      if age_Basis (ts_Age (obs_Settings obs)) \<noteq> AgeBasisPartitionTime then gate_open
      else if groupFrozen obs (part_GroupKey p) now then gate_open
      else case partitionLocation env (lay_TimeZone (obs_Layout obs)) of
        Inl e \<Rightarrow> unreadable e
      | Inr loc \<Rightarrow>
          (case partitionPeriodEndForValue (obs_Layout obs) (part_AgeString p) loc of
             Inl e \<Rightarrow> unreadable e
           | Inr currentEnd \<Rightarrow>
               if list_ex (successor_candidate obs p now loc currentEnd) (obs_Partitions obs)
               then gate_open
               else (False, lit ''waiting for newer partition insert evidence'',
                     [part_condition env obs p SeverityInfo ''successor_activity_missing''
                        (lit ''no newer partition for this group has recent insert evidence'')])))"

text \<open>The newest evidence of the group, with the zero time as the start of the maximum.\<close>

definition newest_evidence :: "bool \<Rightarrow> string \<Rightarrow> PartitionObservation \<Rightarrow> gtime \<Rightarrow> gtime" where
  "newest_evidence insertOnly groupKey c latest =
     (if part_GroupKey c \<noteq> groupKey then latest
      else
        let l1 = (case part_LatestNewPart c of Some t \<Rightarrow> if latest < t then t else latest | None \<Rightarrow> latest)
        in if \<not> insertOnly \<and> l1 < part_MaxModificationTime c then part_MaxModificationTime c else l1)"

definition successorHoldDetail :: "TableObservation \<Rightarrow> PartitionObservation \<Rightarrow> gtime \<Rightarrow> HoldDetail" where
  "successorHoldDetail obs p now =
     (let window = ts_TierFrozenAfter (obs_Settings obs);
          insertOnly = insertEvidenceCovers obs window now;
          latest = fold (newest_evidence insertOnly (part_GroupKey p)) (obs_Partitions obs) zero_time
      in (gate_detail ''successor-activity'')
           \<lparr>hd_Window := dur_text window, hd_LastInsert := part_LatestNewPart p,
            hd_ReleasesAt := (if is_zero latest then None else Some (time_add latest window))\<rparr>)"

section \<open>The seal\<close>

record sealCheck =
  sc_ok :: bool
  sc_reason :: gotext
  sc_detail :: "HoldDetail option"
  sc_conditions :: "Condition list"

definition seal_held :: "gotext \<Rightarrow> HoldDetail \<Rightarrow> Condition list \<Rightarrow> sealCheck" where
  "seal_held reason detail conditions =
     \<lparr>sc_ok = False, sc_reason = reason, sc_detail = Some detail, sc_conditions = conditions\<rparr>"

definition seal_open :: "gotext \<Rightarrow> Condition list \<Rightarrow> sealCheck" where
  "seal_open reason conditions =
     \<lparr>sc_ok = True, sc_reason = reason, sc_detail = None, sc_conditions = conditions\<rparr>"

text \<open>After the quiet clocks: the successor gate, then the answer of the path taken.\<close>

definition successor_seal ::
  "go_env \<Rightarrow> TableObservation \<Rightarrow> PartitionObservation \<Rightarrow> gtime \<Rightarrow> sealCheck \<Rightarrow> sealCheck" where
  "successor_seal env obs p now passed =
     (case partitionTimeSuccessorGate env obs p now of (ok, reason, conditions) \<Rightarrow>
        if \<not> ok then seal_held reason (successorHoldDetail obs p now) conditions else passed)"

definition sealed :: "go_env \<Rightarrow> TableObservation \<Rightarrow> PartitionObservation \<Rightarrow> gdur \<Rightarrow> gtime \<Rightarrow> sealCheck" where
  "sealed env obs p quietFor now =
     (let signal = ts_SealedSignal (obs_Settings obs); window = dur_text quietFor in
      case replicaGate env obs p of (rok, rreason, rconds) \<Rightarrow>
      if \<not> rok then seal_held rreason (gate_detail ''replica-health'') rconds
      else case mutationGate env obs p of (mok, mreason, mconds) \<Rightarrow>
      if \<not> mok then seal_held mreason (gate_detail ''mutation'') mconds
      else if part_MergeInFlight p then
        seal_held (lit ''a merge is currently running for this partition'') (gate_detail ''merge-in-flight'') []
      else if signal = SealedSignalPartLog \<and> conditionPresent (obs_Conditions obs) ''part_log_unreadable'' then
        seal_held (lit ''part_log evidence is unavailable'') (gate_detail ''part-log-required'')
          [part_condition env obs p SeverityWarning ''part_log_unreadable''
             (lit ''part_log evidence is required by sealedSignal=partLog'')]
      else if signal \<noteq> SealedSignalModificationTime \<and> recent_insert p quietFor now then
        seal_held (lit ''recent NewPart insert evidence'')
          ((gate_detail ''insert-quiet'')
             \<lparr>hd_Window := window, hd_LastInsert := part_LatestNewPart p,
              hd_ReleasesAt := map_option (\<lambda>t. time_add t quietFor) (part_LatestNewPart p)\<rparr>) []
      else if insertEvidenceCovers obs quietFor now then
        successor_seal env obs p now (seal_open (lit ''insert evidence quiet window has elapsed'') [])
      else if recent_change p quietFor now then
        seal_held (lit ''recent physical change, cause unattributable'')
          ((gate_detail ''physical-quiet'')
             \<lparr>hd_Window := window, hd_LastChange := Some (part_MaxModificationTime p),
              hd_ReleasesAt := Some (time_add (part_MaxModificationTime p) quietFor)\<rparr>) []
      else successor_seal env obs p now
        (if signal \<noteq> SealedSignalModificationTime then
           seal_open (lit ''sealed by modification-time fallback'')
             [part_condition env obs p SeverityInfo ''part_log_coverage_shortfall''
                (lit ''part_log coverage is shorter than the gate window; using modification-time fallback'')]
         else seal_open (lit ''quiet window has elapsed'') []))"

section \<open>Age\<close>

definition frontierEligible :: "TableObservation \<Rightarrow> PartitionObservation \<Rightarrow> gtime \<Rightarrow> bool \<times> gotext" where
  "frontierEligible obs p now =
     (case obs_Heads obs (part_GroupKey p) of
        None \<Rightarrow> (False, lit ''frontier head is unavailable for this group'')
      | Some head \<Rightarrow>
          (let keep = age_KeepLast (ts_Age (obs_Settings obs));
               divisor = lay_FrontierDivisor (obs_Layout obs)
           in if max_i64 < uint keep
              then (False, lit ''frontier keepLast exceeds supported int64 range'')
              else if divisor \<le> 0 \<or> part_AgeInteger p < 0 \<or> go_div max_i64 divisor \<le> part_AgeInteger p
              then (False, lit ''frontier bucket arithmetic would overflow; refusing to evaluate'')
              else
                let end' = wrap64 (wrap64 (part_AgeInteger p + 1) * divisor) in
                if end' \<le> wrap64 (head - uint keep)
                then (True, lit ''bucket is below the frontier keepLast window'')
                else if groupFrozen obs (part_GroupKey p) now
                then (True, lit ''group is frozen past tierFrozenAfter'')
                else (False, lit ''bucket is within the frontier keepLast window'')))"

definition ageEligible :: "go_env \<Rightarrow> TableObservation \<Rightarrow> PartitionObservation \<Rightarrow> gtime \<Rightarrow> bool \<times> gotext" where
  "ageEligible env obs p now =
     (let age = ts_Age (obs_Settings obs) in
      if age_Basis age = AgeBasisFrontier then frontierEligible obs p now
      else if age_Basis age = AgeBasisPartitionTime then
        (case partitionTimeEligible env (obs_Layout obs) (part_AgeString p) (age_OlderThan age) now of
           (eligible, reason) \<Rightarrow>
             if eligible then (True, reason)
             else if groupFrozen obs (part_GroupKey p) now
             then (True, lit ''group is frozen past tierFrozenAfter'')
             else (False, reason))
      else (False, lit ''age basis is not configured''))"

definition keepHoldDetail :: "go_env \<Rightarrow> TableObservation \<Rightarrow> PartitionObservation \<Rightarrow> HoldDetail" where
  "keepHoldDetail env obs p =
     (let age = ts_Age (obs_Settings obs) in
      if age_Basis age \<noteq> AgeBasisPartitionTime then gate_detail ''age''
      else case partitionLocation env (lay_TimeZone (obs_Layout obs)) of
        Inl e \<Rightarrow> gate_detail ''age''
      | Inr loc \<Rightarrow>
          (case partitionPeriodEndForValue (obs_Layout obs) (part_AgeString p) loc of
             Inl e \<Rightarrow> gate_detail ''age''
           | Inr end' \<Rightarrow> (gate_detail ''age'')
               \<lparr>hd_Window := dur_text (age_OlderThan age),
                hd_ReleasesAt := Some (time_add end' (age_OlderThan age))\<rparr>))"

section \<open>Decisions\<close>

definition isExcluded :: "string list \<Rightarrow> string \<Rightarrow> string \<Rightarrow> bool" where
  "isExcluded exclusions partitionID pname \<longleftrightarrow> partitionID \<in> set exclusions \<or> pname \<in> set exclusions"

definition shouldOptimize :: "TierSettings \<Rightarrow> PartitionObservation \<Rightarrow> bool" where
  "shouldOptimize s p \<longleftrightarrow>
     \<not> ts_SkipOptimize s \<and> ts_OptimizeToParts s < part_ActiveParts p \<and>
     part_BytesOnDisk p \<le> ts_OptimizeSkipAboveBytes s"

definition observedStatus :: "string \<Rightarrow> PartitionObservation \<Rightarrow> Status" where
  "observedStatus targetDisk p =
     (if allOnDisk (part_Disks p) targetDisk then StatusTiered
      else if hasDisk (part_Disks p) targetDisk then StatusSplit else StatusHot)"

definition decideTiered :: "go_env \<Rightarrow> TableObservation \<Rightarrow> PartitionObservation \<Rightarrow> gtime \<Rightarrow> Verdict" where
  "decideTiered env obs p now =
     (let s = obs_Settings obs in
      if ts_OptimizeOn s \<noteq> OptimizeOnCold \<or> \<not> shouldOptimize s p
      then baseVerdict env obs p StatusTiered DecisionNone (lit ''all active parts are already on the target disk'') []
      else let seal = sealed env obs p (ts_QuietFor s) now in
        if \<not> sc_ok seal then
          (baseVerdict env obs p StatusTiered DecisionHold
             (Fmt ''fragmented cold partition is waiting to merge: %s'' [AText (sc_reason seal)])
             (sc_conditions seal))\<lparr>v_Hold := sc_detail seal\<rparr>
        else baseVerdict env obs p StatusTiered DecisionOptimize
               (lit ''merge fragmented parts in place on the cold side'') [])"

definition split_quiet :: "TableObservation \<Rightarrow> PartitionObservation \<Rightarrow> gdur" where
  "split_quiet obs p =
     (let quietFor = rs_QuietFor (ts_Resplit (obs_Settings obs)) in
      case obs_ResplitQuiet obs (part_PartitionID p) of
        Some override \<Rightarrow> if quietFor < override then override else quietFor
      | None \<Rightarrow> quietFor)"

definition decideSplit :: "go_env \<Rightarrow> TableObservation \<Rightarrow> PartitionObservation \<Rightarrow> gtime \<Rightarrow> Verdict" where
  "decideSplit env obs p now =
     (let s = obs_Settings obs; r = ts_Resplit s; seal = sealed env obs p (split_quiet obs p) now;
          fragmented = rs_FragmentAbovePartCount r < part_ActiveParts p;
          verdict = baseVerdict env obs p StatusSplit
      in if \<not> sc_ok seal then
           (verdict DecisionHold
              (Fmt ''split partition is waiting for resplit quiet window: %s'' [AText (sc_reason seal)])
              (sc_conditions seal))\<lparr>v_Hold := sc_detail seal\<rparr>
         else if rs_Strategy r = ResplitStrategyHold then
           verdict DecisionHold (lit ''resplit strategy is hold'') []
         else if rs_Strategy r = ResplitStrategyAppend then
           verdict DecisionAppend (lit ''append hot strays to target disk'')
             (if fragmented then
                [part_condition env obs p SeverityWarning ''fragmentation_ceiling_exceeded''
                   (lit ''append strategy is leaving a fragmented cold partition'')] else [])
         else if rs_Strategy r \<in> {ResplitStrategyRemerge, ResplitStrategyAuto} then
           (if \<not> (rs_Strategy r = ResplitStrategyRemerge \<or> fragmented) then
              verdict DecisionAppend (lit ''split partition is under fragmentation ceiling'') []
            else if \<not> shouldOptimize s p then
              verdict DecisionAppend (lit ''consolidation skipped: optimize is not applicable to this partition'')
                [part_condition env obs p SeverityWarning ''consolidation_skipped''
                   (lit ''consolidation wants a remerge but the optimize leg is not applicable; appending hot strays instead'')]
            else if ts_OptimizeOn s = OptimizeOnCold then
              verdict DecisionConsolidate
                (lit ''move hot strays to the target disk, then merge in place on the cold side'') []
            else verdict DecisionConsolidate
                (lit ''pull cold parts back to the hot volume for a controlled remerge'') [])
         else verdict DecisionHold (lit ''unknown resplit strategy'') [])"

definition decideHot :: "go_env \<Rightarrow> TableObservation \<Rightarrow> PartitionObservation \<Rightarrow> gtime \<Rightarrow> Verdict" where
  "decideHot env obs p now =
     (let s = obs_Settings obs in
      case ageEligible env obs p now of (eligible, ageReason) \<Rightarrow>
      if \<not> eligible then
        (baseVerdict env obs p StatusHot DecisionKeep ageReason [])\<lparr>v_Hold := Some (keepHoldDetail env obs p)\<rparr>
      else let seal = sealed env obs p (ts_QuietFor s) now in
        if \<not> sc_ok seal then
          (baseVerdict env obs p StatusHot DecisionHold (sc_reason seal) (sc_conditions seal))
            \<lparr>v_Hold := sc_detail seal\<rparr>
        else if ts_OptimizeOn s = OptimizeOnHot \<and> shouldOptimize s p then
          baseVerdict env obs p StatusReady DecisionOptimize
            (lit ''partition is cold and sealed; merge hot parts before tiering'') []
        else baseVerdict env obs p StatusReady DecisionTier
            (lit ''partition is cold, sealed, and ready to move to the target disk'') [])"

definition DecidePartition :: "go_env \<Rightarrow> TableObservation \<Rightarrow> PartitionObservation \<Rightarrow> gtime \<Rightarrow> Verdict" where
  "DecidePartition env obs p now =
     (let s = obs_Settings obs; status = observedStatus (ts_TargetDisk s) p in
      if isExcluded (ts_ExcludePartitions s) (part_PartitionID p) (part_Partition p)
      then baseVerdict env obs p status DecisionNone (lit ''excluded by config'') []
      else if status = StatusTiered then decideTiered env obs p now
      else if status = StatusSplit then decideSplit env obs p now
      else decideHot env obs p now)"

definition criticalConditions :: "Condition list \<Rightarrow> Condition list" where
  "criticalConditions conditions = filter (\<lambda>c. cond_Severity c = SeverityCritical) conditions"

definition DecideTable :: "go_env \<Rightarrow> TableObservation \<Rightarrow> gtime \<Rightarrow> Verdict list" where
  "DecideTable env obs now =
     (let critical = criticalConditions (obs_Conditions obs);
          misconfigured = (\<lambda>p. baseVerdict env obs p StatusMisconfigured DecisionHold
            (lit ''table is misconfigured'') critical)
      in if critical \<noteq> [] then
           (if obs_Partitions obs = [] then [misconfigured zero_partition]
            else map misconfigured (obs_Partitions obs))
         else map (\<lambda>p. DecidePartition env obs p now) (obs_Partitions obs))"

section \<open>What a verdict lets through\<close>

named_theorems verdict_simps "fields of the base verdict"

lemma baseVerdict_fields [verdict_simps]:
  "v_Status (baseVerdict env obs p st d r cs) = st"
  "v_Decision (baseVerdict env obs p st d r cs) = d"
  "v_PartitionID (baseVerdict env obs p st d r cs) = part_PartitionID p"
  "v_Partition (baseVerdict env obs p st d r cs) = part_Partition p"
  "v_Hold (baseVerdict env obs p st d r cs) = None"
  "v_EffectiveMode (baseVerdict env obs p st d r cs) = obs_EffectiveMode obs"
  "v_BytesOnDisk (baseVerdict env obs p st d r cs) = part_BytesOnDisk p"
  "v_ActiveParts (baseVerdict env obs p st d r cs) = part_ActiveParts p"
  "v_Disks (baseVerdict env obs p st d r cs) = part_Disks p"
  "v_Conditions (baseVerdict env obs p st d r cs) = cs"
  by (simp_all add: baseVerdict_def Let_def)

text \<open>What the health gates let through, in terms of the observation.\<close>

definition replica_healthy :: "TableObservation \<Rightarrow> PartitionObservation \<Rightarrow> bool" where
  "replica_healthy obs p \<longleftrightarrow>
     (case obs_Replica obs of
        None \<Rightarrow> True
      | Some r \<Rightarrow> \<not> rep_Readonly r \<and> \<not> rep_SessionExpired r \<and> rep_QueueSize r \<le> 20 \<and>
          rep_AbsoluteDelaySeconds r \<le> 300 \<and>
          (\<forall>h \<in> set (part_Hashes p). ph_Name h \<notin> set (rep_MergeQueue r)))"

lemma replicaGate_open_iff: "fst (replicaGate env obs p) \<longleftrightarrow> replica_healthy obs p"
  by (auto simp: replicaGate_def replica_healthy_def gate_open_def Let_def replicaMergeQueued_def
      list_ex_iff replicaQueueSizeThreshold_def replicaAbsoluteDelayMaxSecs_def
      split: option.splits)

lemma mutationGate_open_iff:
  "fst (mutationGate env obs p) \<longleftrightarrow> (\<forall>m \<in> set (obs_Mutations obs). mut_PartsToDo m = 0)"
proof -
  have "fst (mutation_scan env obs p ms) \<longleftrightarrow> (\<forall>m \<in> set ms. mut_PartsToDo m = 0)" for ms
    by (induction ms) (auto simp: gate_open_def Let_def)
  then show ?thesis by (simp add: mutationGate_def)
qed

text \<open>The quiet evidence a seal rests on: no insert within the window where inserts are
  the signal, and no physical change within it where the inserts cannot be trusted to cover it.\<close>

definition quiet :: "TableObservation \<Rightarrow> PartitionObservation \<Rightarrow> gdur \<Rightarrow> gtime \<Rightarrow> bool" where
  "quiet obs p window now \<longleftrightarrow>
     (ts_SealedSignal (obs_Settings obs) \<noteq> SealedSignalModificationTime \<longrightarrow> \<not> recent_insert p window now) \<and>
     (\<not> insertEvidenceCovers obs window now \<longrightarrow> \<not> recent_change p window now)"

definition seal_evidence ::
  "go_env \<Rightarrow> TableObservation \<Rightarrow> PartitionObservation \<Rightarrow> gdur \<Rightarrow> gtime \<Rightarrow> bool" where
  "seal_evidence env obs p window now \<longleftrightarrow>
     replica_healthy obs p \<and> (\<forall>m \<in> set (obs_Mutations obs). mut_PartsToDo m = 0) \<and>
     \<not> part_MergeInFlight p \<and>
     \<not> (ts_SealedSignal (obs_Settings obs) = SealedSignalPartLog \<and>
        conditionPresent (obs_Conditions obs) ''part_log_unreadable'') \<and>
     quiet obs p window now \<and> fst (partitionTimeSuccessorGate env obs p now)"

lemma sealed_ok_iff: "sc_ok (sealed env obs p window now) \<longleftrightarrow> seal_evidence env obs p window now"
proof (cases "fst (replicaGate env obs p) \<and> fst (mutationGate env obs p)")
  case False
  then show ?thesis
    using replicaGate_open_iff [of env obs p] mutationGate_open_iff [of env obs p]
    by (auto simp: sealed_def seal_held_def seal_evidence_def Let_def split: prod.splits)
next
  case True
  have s: "sc_ok (successor_seal env obs p now (seal_open r cs)) \<longleftrightarrow>
      fst (partitionTimeSuccessorGate env obs p now)" for r cs
    by (auto simp: successor_seal_def seal_open_def seal_held_def split: prod.splits)
  have h: "\<not> sc_ok (seal_held r d cs)" for r d cs by (simp add: seal_held_def)
  obtain r1 c1 r2 c2 where g: "replicaGate env obs p = (True, r1, c1)" "mutationGate env obs p = (True, r2, c2)"
    using True by (metis fst_conv prod.collapse)
  have covers: "ts_SealedSignal (obs_Settings obs) = SealedSignalModificationTime \<Longrightarrow>
      \<not> insertEvidenceCovers obs window now" by (simp add: insertEvidenceCovers_def)
  have "sc_ok (sealed env obs p window now) \<longleftrightarrow>
      \<not> part_MergeInFlight p \<and>
      \<not> (ts_SealedSignal (obs_Settings obs) = SealedSignalPartLog \<and>
         conditionPresent (obs_Conditions obs) ''part_log_unreadable'') \<and>
      quiet obs p window now \<and> fst (partitionTimeSuccessorGate env obs p now)"
    using covers by (simp add: sealed_def g Let_def s h quiet_def)
  then show ?thesis
    using True replicaGate_open_iff [of env obs p] mutationGate_open_iff [of env obs p]
    by (simp add: seal_evidence_def)
qed

section \<open>Exactly when each leg is chosen\<close>

definition actionable :: "Decision \<Rightarrow> bool" where
  "actionable d \<longleftrightarrow> d \<in> {DecisionTier, DecisionOptimize, DecisionConsolidate, DecisionAppend}"

definition is_split :: "TableObservation \<Rightarrow> PartitionObservation \<Rightarrow> bool" where
  "is_split obs p \<longleftrightarrow>
     hasDisk (part_Disks p) (ts_TargetDisk (obs_Settings obs)) \<and>
     \<not> allOnDisk (part_Disks p) (ts_TargetDisk (obs_Settings obs))"

text \<open>A split partition is brought together when the strategy asks for a remerge.\<close>

definition wants_remerge :: "TableObservation \<Rightarrow> PartitionObservation \<Rightarrow> bool" where
  "wants_remerge obs p \<longleftrightarrow>
     (let r = ts_Resplit (obs_Settings obs) in
      rs_Strategy r = ResplitStrategyRemerge \<or>
      rs_Strategy r = ResplitStrategyAuto \<and> rs_FragmentAbovePartCount r < part_ActiveParts p)"

definition leg_conditions ::
  "go_env \<Rightarrow> TableObservation \<Rightarrow> PartitionObservation \<Rightarrow> gtime \<Rightarrow> Decision \<Rightarrow> bool" where
  "leg_conditions env obs p now d \<longleftrightarrow>
     (let s = obs_Settings obs; target = ts_TargetDisk s;
          on_hot = \<not> hasDisk (part_Disks p) target;
          seal = seal_evidence env obs p (ts_QuietFor s) now;
          resplit_seal = seal_evidence env obs p (split_quiet obs p) now;
          old = fst (ageEligible env obs p now)
      in \<not> isExcluded (ts_ExcludePartitions s) (part_PartitionID p) (part_Partition p) \<and>
         (case d of
            DecisionTier \<Rightarrow> on_hot \<and> old \<and> seal \<and> \<not> (ts_OptimizeOn s = OptimizeOnHot \<and> shouldOptimize s p)
          | DecisionOptimize \<Rightarrow> shouldOptimize s p \<and> seal \<and>
              (ts_OptimizeOn s = OptimizeOnHot \<and> on_hot \<and> old \<or>
               ts_OptimizeOn s = OptimizeOnCold \<and> allOnDisk (part_Disks p) target)
          | DecisionConsolidate \<Rightarrow> is_split obs p \<and> resplit_seal \<and> wants_remerge obs p \<and> shouldOptimize s p
          | DecisionAppend \<Rightarrow> is_split obs p \<and> resplit_seal \<and>
              (rs_Strategy (ts_Resplit s) = ResplitStrategyAppend \<or>
               rs_Strategy (ts_Resplit s) = ResplitStrategyAuto \<and> \<not> wants_remerge obs p \<or>
               wants_remerge obs p \<and> \<not> shouldOptimize s p)
          | _ \<Rightarrow> False))"

lemma observedStatus_cases:
  "observedStatus t p = StatusTiered \<longleftrightarrow> allOnDisk (part_Disks p) t"
  "observedStatus t p = StatusSplit \<longleftrightarrow> hasDisk (part_Disks p) t \<and> \<not> allOnDisk (part_Disks p) t"
  "observedStatus t p = StatusHot \<longleftrightarrow> \<not> hasDisk (part_Disks p) t"
  by (auto simp: observedStatus_def allOnDisk_hasDisk)

lemma observedStatus_range: "observedStatus t p \<in> {StatusTiered, StatusSplit, StatusHot}"
  by (simp add: observedStatus_def)

lemma strategies_distinct:
  "ResplitStrategyHold \<noteq> ResplitStrategyAppend" "ResplitStrategyHold \<noteq> ResplitStrategyRemerge"
  "ResplitStrategyHold \<noteq> ResplitStrategyAuto" "ResplitStrategyAppend \<noteq> ResplitStrategyRemerge"
  "ResplitStrategyAppend \<noteq> ResplitStrategyAuto" "ResplitStrategyRemerge \<noteq> ResplitStrategyAuto"
  "OptimizeOnHot \<noteq> OptimizeOnCold"
  by (simp_all add: enum_simps)

lemma decide_tiered_decision:
  "v_Decision (decideTiered env obs p now) =
     (if ts_OptimizeOn (obs_Settings obs) \<noteq> OptimizeOnCold \<or> \<not> shouldOptimize (obs_Settings obs) p
      then DecisionNone
      else if seal_evidence env obs p (ts_QuietFor (obs_Settings obs)) now then DecisionOptimize
      else DecisionHold)"
  by (simp add: decideTiered_def Let_def verdict_simps sealed_ok_iff)

lemma decide_split_decision:
  "v_Decision (decideSplit env obs p now) =
     (let s = obs_Settings obs; r = ts_Resplit s in
      if \<not> seal_evidence env obs p (split_quiet obs p) now then DecisionHold
      else if rs_Strategy r = ResplitStrategyAppend then DecisionAppend
      else if rs_Strategy r \<in> {ResplitStrategyRemerge, ResplitStrategyAuto} then
        (if wants_remerge obs p \<and> shouldOptimize s p then DecisionConsolidate else DecisionAppend)
      else DecisionHold)"
  by (simp add: decideSplit_def Let_def verdict_simps sealed_ok_iff wants_remerge_def strategies_distinct strategies_distinct [symmetric])

lemma decide_hot_decision:
  "v_Decision (decideHot env obs p now) =
     (let s = obs_Settings obs in
      if \<not> fst (ageEligible env obs p now) then DecisionKeep
      else if \<not> seal_evidence env obs p (ts_QuietFor s) now then DecisionHold
      else if ts_OptimizeOn s = OptimizeOnHot \<and> shouldOptimize s p then DecisionOptimize
      else DecisionTier)"
  by (cases "ageEligible env obs p now") (auto simp: decideHot_def Let_def verdict_simps sealed_ok_iff)

text \<open>C6: Each actionable decision is taken in exactly these circumstances: the partition is not
  excluded, its parts are placed as the leg needs them (wholly on the hot side, wholly on the
  target disk, or split), it is old enough where it leaves the hot side, and the seal holds: the
  replica is healthy, no mutation is unfinished, no merge runs, and the quiet evidence and the
  successor gate of the window in force are met.\<close>

theorem decide_partition_iff:
  assumes "actionable d"
  shows "v_Decision (DecidePartition env obs p now) = d \<longleftrightarrow> leg_conditions env obs p now d"
proof (cases "isExcluded (ts_ExcludePartitions (obs_Settings obs)) (part_PartitionID p) (part_Partition p)")
  case True
  then show ?thesis
    using assms by (auto simp: actionable_def leg_conditions_def DecidePartition_def Let_def verdict_simps)
next
  case False
  let ?t = "ts_TargetDisk (obs_Settings obs)"
  consider (tiered) "observedStatus ?t p = StatusTiered" | (split) "observedStatus ?t p = StatusSplit"
    | (hot) "observedStatus ?t p = StatusHot"
    using observedStatus_range [of ?t p] by blast
  then show ?thesis
  proof cases
    case tiered
    then have "allOnDisk (part_Disks p) ?t" "hasDisk (part_Disks p) ?t"
      by (simp_all add: observedStatus_cases allOnDisk_hasDisk)
    with tiered False assms show ?thesis
      by (auto simp: actionable_def leg_conditions_def DecidePartition_def Let_def
          decide_tiered_decision is_split_def)
  next
    case split
    then have "\<not> allOnDisk (part_Disks p) ?t" "hasDisk (part_Disks p) ?t"
      by (simp_all add: observedStatus_cases)
    with split False assms show ?thesis
      by (auto simp: actionable_def leg_conditions_def DecidePartition_def Let_def
          decide_split_decision is_split_def wants_remerge_def strategies_distinct strategies_distinct [symmetric])
  next
    case hot
    then have "\<not> allOnDisk (part_Disks p) ?t" "\<not> hasDisk (part_Disks p) ?t"
      by (auto simp: observedStatus_cases allOnDisk_hasDisk)
    with hot False assms show ?thesis
      by (auto simp: actionable_def leg_conditions_def DecidePartition_def Let_def
          decide_hot_decision is_split_def)
  qed
qed

theorem decide_partition_iff_witness:
  "v_Decision (DecidePartition sample_env (starts_table sample_node sample_watch sample_settings 0)
     zero_partition 0) = DecisionTier \<longleftrightarrow>
   leg_conditions sample_env (starts_table sample_node sample_watch sample_settings 0)
     zero_partition 0 DecisionTier"
  by (rule decide_partition_iff) (simp add: actionable_def)


section \<open>Age\<close>

lemma div_mult_bound: "0 < d \<Longrightarrow> 0 \<le> a \<Longrightarrow> a < m div d \<Longrightarrow> (a + 1) * d \<le> (m :: int)"
proof -
  assume d: "0 < d" "0 \<le> a" "a < m div d"
  then have "(a + 1) * d \<le> m div d * d" by (intro mult_right_mono) simp_all
  also have "\<dots> \<le> m" using d(1) by (metis minus_mod_eq_div_mult pos_mod_sign diff_le_eq le_add_same_cancel1)
  finally show ?thesis .
qed


definition sample_table :: TableObservation where
  "sample_table = (starts_table sample_node sample_watch sample_settings 0)
     \<lparr>obs_Layout := zero_layout\<lparr>lay_Basis := AgeBasisPartitionTime, lay_TimeFunction := ''toYYYYMM''\<rparr>\<rparr>"

definition sample_frontier :: TableObservation where
  "sample_frontier = sample_table
     \<lparr>obs_Heads := Map.empty('''' \<mapsto> 10000), obs_Layout := zero_layout\<lparr>lay_FrontierDivisor := 1000\<rparr>\<rparr>"


text \<open>Eligibility and the clocks behind it only grow with time.\<close>

lemma insertEvidenceCovers_mono:
  "now \<le> now' \<Longrightarrow> insertEvidenceCovers obs w now \<Longrightarrow> insertEvidenceCovers obs w now'"
  by (auto simp: insertEvidenceCovers_def split: option.splits if_splits
      intro: order_trans [OF _ time_sub_mono])

lemma recent_insert_anti: "now \<le> now' \<Longrightarrow> recent_insert p w now' \<Longrightarrow> recent_insert p w now"
  by (auto simp: recent_insert_def split: option.splits intro: le_less_trans [OF time_sub_mono])

lemma recent_change_anti: "now \<le> now' \<Longrightarrow> recent_change p w now' \<Longrightarrow> recent_change p w now"
  by (auto simp: recent_change_def intro: le_less_trans [OF time_sub_mono])

lemma groupFrozen_mono: "now \<le> now' \<Longrightarrow> groupFrozen obs g now \<Longrightarrow> groupFrozen obs g now'"
  unfolding groupFrozen_def Let_def list_all_iff
  using recent_insert_anti recent_change_anti insertEvidenceCovers_mono by blast

lemma partitionTimeEligible_mono:
  "now \<le> now' \<Longrightarrow> fst (partitionTimeEligible env l v older now) \<Longrightarrow>
   fst (partitionTimeEligible env l v older now')"
  by (auto simp: partitionTimeEligible_def Let_def time_add_def split: sum.splits if_splits)

text \<open>Age eligibility is monotone: on one observation, a partition that is old enough at some
  instant is old enough at every later one, for both age bases.\<close>

theorem age_eligible_mono:
  assumes "now \<le> now'" and "fst (ageEligible env obs p now)"
  shows "fst (ageEligible env obs p now')"
proof -
  note g = groupFrozen_mono [OF assms(1), of obs "part_GroupKey p"]
  note t = partitionTimeEligible_mono [OF assms(1)]
  have f: "fst (frontierEligible obs p now) \<Longrightarrow> fst (frontierEligible obs p now')"
    using g by (auto simp: frontierEligible_def Let_def split: option.splits if_splits)
  show ?thesis
    using assms(2) f g t [of env "obs_Layout obs" "part_AgeString p" "age_OlderThan (ts_Age (obs_Settings obs))"]
    by (auto simp: ageEligible_def Let_def split: prod.splits if_splits)
qed

lemma sample_table_age:
  "ts_Age (obs_Settings sample_table) =
     \<lparr>age_Basis = AgeBasisPartitionTime, age_OlderThan = 30 * day_dur, age_Field = ''t'', age_KeepLast = 0\<rparr>"
  by (simp add: sample_table_def starts_table_def sample_settings_def ResolveDefaults_tier_def Let_def Clone_def)

lemma sample_table_simps [simp]:
  "lay_TimeFunction (obs_Layout sample_table) = ''toYYYYMM''"
  "lay_TimeZone (obs_Layout sample_table) = ''''" "obs_Partitions sample_table = []"
  by (simp_all add: sample_table_def starts_table_def zero_layout_def)

theorem age_eligible_mono_witness:
  "fst (ageEligible sample_env sample_table zero_partition 5)"
proof -
  have "groupFrozen sample_table '''' 3" by (simp add: groupFrozen_def)
  then have "fst (ageEligible sample_env sample_table zero_partition 3)"
    by (simp add: ageEligible_def sample_table_age zero_partition_def enum_simps split: prod.splits)
  then show ?thesis by (rule age_eligible_mono [rotated]) simp
qed

text \<open>C24: The release time a keep verdict announces is exact: when the held partition's detail
  carries one, the age test by period passes at an instant just when the instant has reached it.\<close>

theorem keep_release_exact:
  assumes "hd_ReleasesAt (keepHoldDetail env obs p) = Some r"
    and "in_i64 (- age_OlderThan (ts_Age (obs_Settings obs)))"
  shows "fst (partitionTimeEligible env (obs_Layout obs) (part_AgeString p)
      (age_OlderThan (ts_Age (obs_Settings obs))) now) \<longleftrightarrow> r \<le> now"
  using assms
  by (auto simp: keepHoldDetail_def gate_detail_def partitionTimeEligible_def Let_def time_add_def
      split: sum.splits if_splits)

definition sample_month :: PartitionObservation where
  "sample_month = zero_partition\<lparr>part_PartitionID := ''202310'', part_AgeString := ''202310''\<rparr>"

lemma sample_month_parse: "parseYYYYMM ''202310'' = Inr 202310"
  by (simp add: parseYYYYMM_def Let_def parse_int_def is_digit_def digits_val_def digit_val_def i64_simps)

theorem keep_release_exact_witness:
  "\<exists>r. hd_ReleasesAt (keepHoldDetail sample_env sample_table sample_month) = Some r \<and>
     (fst (partitionTimeEligible sample_env (obs_Layout sample_table) ''202310'' (30 * day_dur) 0)
      \<longleftrightarrow> r \<le> 0)"
proof -
  obtain r where r: "hd_ReleasesAt (keepHoldDetail sample_env sample_table sample_month) = Some r"
    by (simp add: keepHoldDetail_def sample_table_age partitionLocation_def
        partitionPeriodEndForValue_def Let_def sample_month_def sample_month_parse)
  have "in_i64 (- age_OlderThan (ts_Age (obs_Settings sample_table)))"
    by (simp add: sample_table_age dur_simps i64_simps)
  from keep_release_exact [OF r this, of 0] r show ?thesis
    by (simp add: sample_table_age sample_month_def)
qed

text \<open>The release time of an insert-quiet hold is exact as well: from the instant announced on,
  and not before it, the insert evidence that held the partition is out of the window.\<close>

theorem insert_quiet_release:
  assumes "sc_detail (sealed env obs p quietFor now) = Some d" and "hd_Gate d = ''insert-quiet''"
    and "0 < quietFor" "quietFor \<le> max_i64"
  shows "\<exists>r. hd_ReleasesAt d = Some r \<and> now < r \<and> (\<forall>t. recent_insert p quietFor t \<longleftrightarrow> t < r)"
proof -
  have "recent_insert p quietFor now \<and> hd_ReleasesAt d = map_option (\<lambda>t. time_add t quietFor) (part_LatestNewPart p)"
    using assms(1,2)
    by (auto simp: sealed_def Let_def seal_held_def seal_open_def successor_seal_def gate_detail_def
        successorHoldDetail_def split: prod.splits if_splits)
  moreover from this obtain t where "part_LatestNewPart p = Some t"
    by (auto simp: recent_insert_def split: option.splits)
  moreover have "recent_insert p quietFor u \<longleftrightarrow> u < t + quietFor" for u
    using assms(3,4) calculation(2) by (simp add: recent_insert_def time_sub_less_iff min_i64_def) linarith
  ultimately show ?thesis by (auto simp: time_add_def)
qed

theorem insert_quiet_release_witness:
  "\<exists>d r. sc_detail (sealed sample_env sample_table (zero_partition\<lparr>part_LatestNewPart := Some 100\<rparr>) hour 200)
       = Some d \<and> hd_ReleasesAt d = Some r \<and> 200 < r"
proof -
  let ?p = "zero_partition\<lparr>part_LatestNewPart := Some 100\<rparr>"
  obtain d where d: "sc_detail (sealed sample_env sample_table ?p hour 200) = Some d"
      "hd_Gate d = ''insert-quiet''"
    by (simp add: sealed_def Let_def replicaGate_def mutationGate_def gate_open_def sample_table_def
        starts_table_def sample_settings_def ResolveDefaults_tier_def Clone_def zero_settings_def
        DefaultTierSettings_def SealedSignalAuto_def SealedSignalPartLog_def
        SealedSignalModificationTime_def recent_insert_def time_sub_def i64_simps dur_simps
        zero_partition_def seal_held_def gate_detail_def)
  have "0 < hour" "hour \<le> max_i64" by (simp_all add: dur_simps max_i64_def)
  from insert_quiet_release [OF d this] d(1) show ?thesis by blast
qed

text \<open>A monthly partition in UTC ends at the first instant of the following month: for every
  valid year and month, it is old enough just when the end of its month plus the age limit has
  passed, leap years and December included.\<close>

theorem month_eligible:
  assumes "parseYYYYMM value = Inr (y * 100 + m)" "1 \<le> m" "m \<le> 12"
    and "lay_TimeFunction layout = ''toYYYYMM''" "lay_TimeZone layout = ''''"
    and "in_i64 (- older)"
  shows "fst (partitionTimeEligible env layout value older now) \<longleftrightarrow>
    (days_civil y m 1 + month_len y m) * day_dur + older \<le> now"
proof -
  have ym: "(y * 100 + m) div 100 = y" "(y * 100 + m) mod 100 = m" using assms(2,3) by simp_all
  have v: "valid_date y m 1"
    using assms(2,3) by (simp add: valid_date_def month_len_def)
  have m100: "m mod 100 = m" using assms(2,3) by simp
  have ls: "time_unix (86400000000000 * k) = 86400 * k" for k
  proof -
    have "86400000000000 * k = 86400 * k * 1000000000" by simp
    then show ?thesis unfolding time_unix_def by (metis nonzero_mult_div_cancel_right zero_neq_numeral)
  qed
  have "partitionPeriodEndForValue layout value utc =
      Inr (days_civil y (m + 1) 1 * 86400 * 1000000000)"
    using assms(1,4) by (simp add: partitionPeriodEndForValue_def Let_def ym go_date_def add_date_def ls m100 civil_roundtrip [OF v])
  then show ?thesis
    using assms(5,6)
    by (simp add: partitionTimeEligible_def partitionLocation_def Let_def time_add_def
        next_month [OF assms(2,3), unfolded add.commute [of m]] dur_simps algebra_simps not_less)
qed

theorem month_eligible_witness:
  "fst (partitionTimeEligible sample_env (obs_Layout sample_table) ''202310'' (30 * day_dur)
     (days_civil 2023 11 30 * day_dur + day_dur))"
proof -
  have "parseYYYYMM ''202310'' = Inr (2023 * 100 + 10)" by (simp add: sample_month_parse)
  from month_eligible [OF this] show ?thesis
    by (simp add: dur_simps i64_simps days_civil_late month_len_def month_offset_def)
qed

section \<open>Tokens\<close>

definition slash_free :: "string \<Rightarrow> bool" where
  "slash_free s \<longleftrightarrow> CHR ''/'' \<notin> set s"

lemma slash_split:
  "slash_free a \<Longrightarrow> slash_free b \<Longrightarrow> a @ CHR ''/'' # r = b @ CHR ''/'' # t \<longleftrightarrow> a = b \<and> r = t"
proof (induction a arbitrary: b)
  case Nil
  then show ?case by (cases b) (auto simp: slash_free_def)
next
  case (Cons x a)
  then show ?case by (cases b) (auto simp: slash_free_def)
qed

lemma show_u64_slash_free: "slash_free (show_u64 w)"
proof -
  have "\<not> is_digit (CHR ''/'')" by (simp add: is_digit_def)
  then show ?thesis
    using show_nat_digits [of "unat w"] by (auto simp: slash_free_def show_u64_def list_all_iff)
qed

lemma show_u64_inj: "show_u64 v = show_u64 w \<longleftrightarrow> v = w"
  by (metis parse_uint_show_u64 sum.inject(2))

lemma status_text_slash_free: "slash_free (status_text s)"
  by (cases s) (simp_all add: status_text_def slash_free_def)

lemma decision_text_slash_free: "slash_free (decision_text d)"
  by (cases d) (simp_all add: decision_text_def slash_free_def)

lemma status_text_inj: "status_text s = status_text t \<longleftrightarrow> s = t"
  by (cases s; cases t) (simp_all add: status_text_def)

lemma decision_text_inj: "decision_text d = decision_text e \<longleftrightarrow> d = e"
  by (cases d; cases e) (simp_all add: decision_text_def)

definition names_slash_free :: "Verdict \<Rightarrow> bool" where
  "names_slash_free v \<longleftrightarrow>
     list_all slash_free [v_NodeID v, v_Database v, v_Table v, v_PartitionID v]"


definition sample_verdict :: Verdict where
  "sample_verdict = baseVerdict sample_env sample_table sample_month StatusReady DecisionTier no_text []"


end
