(* ===== verification/PlanStore.thy ===== *)
theory PlanStore
  imports Decide
begin

text \<open>
  The plan store (\<open>internal/tiering/plan.go\<close>): the published plan per node and table, the bounded
  history of actions, the status with its pause state, and the token check; and the order in
  which actionable verdicts are dispatched (\<open>selection.go\<close>). Every method is one critical section
  of the store's mutex, so it is one function on the store's state.
\<close>

section \<open>Table keys\<close>

datatype table_key = TableKey (tk_NodeID: string) (tk_Database: string) (tk_Table: string)

definition key_triple :: "table_key \<Rightarrow> string \<times> string \<times> string" where
  "key_triple k = (tk_NodeID k, tk_Database k, tk_Table k)"

lemma key_triple_inj: "key_triple a = key_triple b \<longleftrightarrow> a = b"
  by (cases a; cases b) (simp add: key_triple_def)

instantiation table_key :: linorder
begin

definition less_eq_table_key :: "table_key \<Rightarrow> table_key \<Rightarrow> bool" where
  "less_eq_table_key a b \<longleftrightarrow> key_triple a \<le> key_triple b"

definition less_table_key :: "table_key \<Rightarrow> table_key \<Rightarrow> bool" where
  "less_table_key a b \<longleftrightarrow> key_triple a < key_triple b"

instance
  by standard (auto simp: less_eq_table_key_def less_table_key_def less_le key_triple_inj)

end

section \<open>The store\<close>

datatype PauseState = PauseRunning | PauseStopping | PauseStopped

datatype PauseReason =
    PauseReasonNone | PauseReasonOperator | PauseReasonForeignMover
  | PauseReasonDuplicateInstance | PauseReasonTrainingWheels

record TablePlan =
  tp_NodeID :: string
  tp_Database :: string
  tp_Table :: string
  tp_ReconciledAt :: gtime
  tp_TickDuration :: gdur
  tp_Generation :: string
  tp_LastError :: gotext
  tp_Verdicts :: "Verdict list"
  tp_Conditions :: "Condition list"

definition zero_plan :: TablePlan where
  "zero_plan = \<lparr>tp_NodeID = '''', tp_Database = '''', tp_Table = '''', tp_ReconciledAt = zero_time,
     tp_TickDuration = 0, tp_Generation = '''', tp_LastError = no_text, tp_Verdicts = [],
     tp_Conditions = []\<rparr>"

record StatusSnapshot =
  sn_Mode :: string
  sn_PauseState :: PauseState
  sn_PauseReason :: PauseReason
  sn_MaxConcurrentPartitions :: int
  sn_MaxMovesPerCycle :: int
  sn_MaxBytesInFlight :: u64
  sn_BytesInFlight :: u64
  sn_MaxBytesPerDay :: u64
  sn_BytesMovedToday :: u64
  sn_UpdatedAt :: gtime

record HistoryEntry =
  he_Time :: gtime
  he_NodeID :: string
  he_Database :: string
  he_Table :: string
  he_Partition :: string
  he_PartitionID :: string
  he_Action :: Decision
  he_Outcome :: string
  he_Duration :: gdur
  he_Bytes :: u64
  he_Error :: gotext
  he_AttemptID :: string
  he_Direction :: string

record Store =
  st_tables :: "(table_key, TablePlan) amap"
  st_history :: "HistoryEntry list"
  st_capacity :: int
  st_status :: StatusSnapshot

definition NewStore :: "gtime \<Rightarrow> int \<Rightarrow> Store" where
  "NewStore now historyCapacity =
     \<lparr>st_tables = [], st_history = [],
      st_capacity = (if historyCapacity \<le> 0 then 1000 else historyCapacity),
      st_status = \<lparr>sn_Mode = '''', sn_PauseState = PauseRunning, sn_PauseReason = PauseReasonNone,
        sn_MaxConcurrentPartitions = 0, sn_MaxMovesPerCycle = 0, sn_MaxBytesInFlight = 0,
        sn_BytesInFlight = 0, sn_MaxBytesPerDay = 0, sn_BytesMovedToday = 0, sn_UpdatedAt = now\<rparr>\<rparr>"

definition plan_key :: "TablePlan \<Rightarrow> table_key" where
  "plan_key plan = TableKey (tp_NodeID plan) (tp_Database plan) (tp_Table plan)"

definition Publish :: "TablePlan \<Rightarrow> Store \<Rightarrow> Store" where
  "Publish plan s = s\<lparr>st_tables := amap_put (plan_key plan) plan (st_tables s)\<rparr>"

definition PublishError ::
  "gtime \<Rightarrow> string \<Rightarrow> string \<Rightarrow> string \<Rightarrow> string \<Rightarrow> gotext \<Rightarrow> gdur \<Rightarrow> Store \<Rightarrow> Store" where
  "PublishError now nodeID database table generation err duration s =
     (let key = TableKey nodeID database table;
          previous = (case amap_get (st_tables s) key of Some p \<Rightarrow> p | None \<Rightarrow> zero_plan)
      in s\<lparr>st_tables := amap_put key
           (previous\<lparr>tp_NodeID := nodeID, tp_Database := database, tp_Table := table,
              tp_Generation := generation, tp_LastError := err, tp_TickDuration := duration,
              tp_ReconciledAt := now\<rparr>) (st_tables s)\<rparr>)"

definition Snapshot :: "Store \<Rightarrow> TablePlan list" where
  "Snapshot s = sort_by plan_key (map snd (st_tables s))"

definition FindVerdict :: "Store \<Rightarrow> string \<Rightarrow> string \<Rightarrow> string \<Rightarrow> string \<Rightarrow> Verdict option" where
  "FindVerdict s nodeID database table partitionID =
     (case amap_get (st_tables s) (TableKey nodeID database table) of
        None \<Rightarrow> None
      | Some plan \<Rightarrow> find (\<lambda>v. v_PartitionID v = partitionID) (tp_Verdicts plan))"

definition AppendHistory :: "HistoryEntry \<Rightarrow> Store \<Rightarrow> Store" where
  "AppendHistory entry s =
     (let h = st_history s @ [entry] in
      s\<lparr>st_history := (if st_capacity s < int (length h) then drop (length h - nat (st_capacity s)) h else h)\<rparr>)"

text \<open>\<open>slices.SortFunc\<close> leaves the order of equal times open; the stable order is the one
  taken here.\<close>

definition History :: "Store \<Rightarrow> HistoryEntry list" where
  "History s = sort_by (\<lambda>e. - he_Time e) (st_history s)"

definition SetStatus :: "gtime \<Rightarrow> StatusSnapshot \<Rightarrow> Store \<Rightarrow> Store" where
  "SetStatus now status s = s\<lparr>st_status := status\<lparr>sn_UpdatedAt := now\<rparr>\<rparr>"

abbreviation store_Status :: "Store \<Rightarrow> StatusSnapshot" where
  "store_Status \<equiv> st_status"

definition Pause :: "gtime \<Rightarrow> PauseReason \<Rightarrow> Store \<Rightarrow> Store" where
  "Pause now reason s =
     s\<lparr>st_status := (st_status s)\<lparr>sn_PauseState := PauseStopped, sn_PauseReason := reason,
                                 sn_UpdatedAt := now\<rparr>\<rparr>"

definition Resume :: "gtime \<Rightarrow> Store \<Rightarrow> Store" where
  "Resume now s =
     s\<lparr>st_status := (st_status s)\<lparr>sn_PauseState := PauseRunning, sn_PauseReason := PauseReasonNone,
                                 sn_UpdatedAt := now\<rparr>\<rparr>"

section \<open>Tokens and errors of the control surface\<close>

definition ErrStateTokenRequired :: gotext where "ErrStateTokenRequired = lit ''state token is required''"
definition ErrStateTokenMismatch :: gotext where
  "ErrStateTokenMismatch = lit ''state token does not match the current plan''"
definition ErrNodeNotConfigured :: gotext where "ErrNodeNotConfigured = lit ''node is not configured''"
definition ErrWatchNotConfigured :: gotext where
  "ErrWatchNotConfigured = lit ''tiering watch is not configured''"
definition ErrPartitionNotFound :: gotext where
  "ErrPartitionNotFound = lit ''partition was not found in the current plan''"
definition ErrNotActionable :: gotext where "ErrNotActionable = lit ''partition decision is not actionable''"
definition ErrTieringPaused :: gotext where "ErrTieringPaused = lit ''tiering is paused''"
definition ErrLegInFlight :: gotext where
  "ErrLegInFlight = lit ''a tiering leg is already in flight for this partition''"
definition ErrActionFailed :: gotext where "ErrActionFailed = lit ''tiering action failed''"

definition CheckToken :: "Verdict \<Rightarrow> string \<Rightarrow> gotext option" where
  "CheckToken verdict token =
     (if token = '''' then Some ErrStateTokenRequired
      else if v_Token verdict \<noteq> token then Some ErrStateTokenMismatch else None)"

section \<open>Which verdicts are dispatched, and in which order\<close>

definition agePartitionRank :: "go_env \<Rightarrow> TableLayout \<Rightarrow> PartitionObservation \<Rightarrow> int" where
  "agePartitionRank env layout p =
     (if lay_Basis layout = AgeBasisFrontier then part_AgeInteger p
      else case partitionLocation env (lay_TimeZone layout) of
        Inl e \<Rightarrow> 0
      | Inr loc \<Rightarrow>
          (case partitionPeriodEndForValue layout (part_AgeString p) loc of
             Inl e \<Rightarrow> 0
           | Inr end' \<Rightarrow> time_unix end'))"

definition rank_table :: "go_env \<Rightarrow> TableObservation \<Rightarrow> string \<rightharpoonup> int" where
  "rank_table env table =
     fold (\<lambda>p m. m(part_PartitionID p \<mapsto> agePartitionRank env (obs_Layout table) p))
       (obs_Partitions table) Map.empty"

definition rank_of :: "go_env \<Rightarrow> TableObservation \<Rightarrow> string \<Rightarrow> int" where
  "rank_of env table pid = (case rank_table env table pid of Some r \<Rightarrow> r | None \<Rightarrow> 0)"

definition orderOldestFirst :: "go_env \<Rightarrow> TableObservation \<Rightarrow> Verdict list \<Rightarrow> Verdict list" where
  "orderOldestFirst env table verdicts =
     sort_by (\<lambda>v. (rank_of env table (v_PartitionID v), v_PartitionID v)) verdicts"

definition IsActionableDecision :: "Decision \<Rightarrow> bool" where
  "IsActionableDecision decision \<longleftrightarrow>
     decision = DecisionConsolidate \<or> decision = DecisionOptimize \<or> decision = DecisionTier \<or>
     decision = DecisionAppend"

definition actionableVerdicts :: "Verdict list \<Rightarrow> Verdict list" where
  "actionableVerdicts verdicts = filter (\<lambda>v. IsActionableDecision (v_Decision v)) verdicts"

section \<open>Reachable stores\<close>

inductive store_step :: "Store \<Rightarrow> Store \<Rightarrow> bool" where
  publish: "store_step s (Publish plan s)"
| publish_error: "store_step s (PublishError now n d t g e dur s)"
| append: "store_step s (AppendHistory entry s)"
| set_status: "store_step s (SetStatus now status s)"
| pause: "store_step s (Pause now reason s)"
| resume: "store_step s (Resume now s)"

inductive store_reachable :: "Store \<Rightarrow> bool" where
  start: "store_reachable (NewStore now capacity)"
| step: "store_reachable s \<Longrightarrow> store_step s s' \<Longrightarrow> store_reachable s'"

inductive_cases store_step_elim: "store_step s s'"

definition store_ok :: "Store \<Rightarrow> bool" where
  "store_ok s \<longleftrightarrow> amap_ok (st_tables s) \<and> list_all (\<lambda>(k, p). plan_key p = k) (st_tables s) \<and>
     0 < st_capacity s \<and> int (length (st_history s)) \<le> st_capacity s"

lemma NewStore_ok: "store_ok (NewStore now capacity)"
  by (simp add: store_ok_def NewStore_def)

lemma put_plan_keys:
  "list_all (\<lambda>(k, p). plan_key p = k) m \<Longrightarrow> plan_key plan = key \<Longrightarrow>
   list_all (\<lambda>(k, p). plan_key p = k) (amap_put key plan m)"
  by (induction m) auto

lemma error_plan_key:
  "plan_key (p\<lparr>tp_NodeID := n, tp_Database := d, tp_Table := t, tp_Generation := g,
     tp_LastError := e, tp_TickDuration := dur, tp_ReconciledAt := now\<rparr>) = TableKey n d t"
  by (simp add: plan_key_def)

lemma store_step_ok:
  assumes "store_step s s'" and "store_ok s"
  shows "store_ok s'"
  using assms(1)
proof (cases rule: store_step.cases)
  case (publish plan)
  then show ?thesis using assms(2) by (simp add: store_ok_def Publish_def put_plan_keys distinct_update)
next
  case (publish_error now n d t g e dur)
  then show ?thesis
    using assms(2) by (simp add: store_ok_def PublishError_def Let_def put_plan_keys distinct_update error_plan_key)
next
  case (append entry)
  then show ?thesis using assms(2) by (auto simp: store_ok_def AppendHistory_def Let_def)
qed (use assms(2) in \<open>simp_all add: store_ok_def SetStatus_def Pause_def Resume_def\<close>)

lemma append_history_tail:
  "st_capacity s = int cap \<Longrightarrow>
   st_history (AppendHistory e s) = drop (length (st_history s @ [e]) - cap) (st_history s @ [e]) \<and>
   st_capacity (AppendHistory e s) = st_capacity s"
  by (simp add: AppendHistory_def Let_def)

lemma reachable_store_ok: "store_reachable s \<Longrightarrow> store_ok s"
  by (induction rule: store_reachable.induct) (simp_all add: NewStore_ok store_step_ok)

lemma sorted_distinct_keys:
  "store_ok s \<Longrightarrow> map plan_key (map snd (st_tables s)) = map fst (st_tables s)"
  by (auto simp: store_ok_def list_all_iff)

lemma snapshot_sorted:
  assumes "store_ok s"
  shows "sorted_wrt (<) (map plan_key (Snapshot s))"
proof -
  have keys: "mset (map plan_key (Snapshot s)) = mset (map fst (st_tables s))"
    by (metis Snapshot_def mset_map mset_sort_by sorted_distinct_keys [OF assms])
  have "distinct (map plan_key (Snapshot s))"
    using assms keys by (metis mset_eq_imp_distinct_iff store_ok_def)
  moreover have "sorted (map plan_key (Snapshot s))"
    unfolding Snapshot_def by (rule sorted_sort_by)
  ultimately show ?thesis by (simp add: strict_sorted_iff)
qed

text \<open>In every reachable store the snapshot lists each table's latest plan exactly once, in
  strictly increasing order of node, database and table, and the history never exceeds its
  capacity.\<close>

theorem reachable_snapshot_sorted:
  assumes "store_reachable s"
  shows "sorted_wrt (<) (map plan_key (Snapshot s)) \<and>
    mset (Snapshot s) = mset (map snd (st_tables s)) \<and>
    int (length (st_history s)) \<le> st_capacity s"
proof -
  have ok: "store_ok s" by (rule reachable_store_ok [OF assms])
  then show ?thesis
    using snapshot_sorted [OF ok] by (simp add: Snapshot_def store_ok_def)
qed

definition sample_store :: Store where
  "sample_store = Publish (zero_plan\<lparr>tp_NodeID := ''b''\<rparr>) (Publish (zero_plan\<lparr>tp_NodeID := ''c''\<rparr>) (NewStore 0 1))"

theorem reachable_snapshot_sorted_witness:
  "sorted_wrt (<) (map plan_key (Snapshot sample_store)) \<and> length (st_tables sample_store) = 2"
proof -
  have "store_reachable sample_store"
    unfolding sample_store_def
    by (rule store_reachable.step [OF store_reachable.step [OF store_reachable.start store_step.publish]
          store_step.publish])
  moreover have "length (st_tables sample_store) = 2"
    by (simp add: sample_store_def Publish_def NewStore_def plan_key_def zero_plan_def)
  ultimately show ?thesis using reachable_snapshot_sorted by blast
qed

text \<open>A published plan is what the control surface finds: after a publish, looking a partition up
  under the plan's own key searches the published verdicts, and every other table's answer is
  unchanged; publishing an error keeps the verdicts of the last good plan.\<close>

theorem publish_then_find:
  "FindVerdict (Publish plan s) n d t pid =
     (if TableKey n d t = plan_key plan then find (\<lambda>v. v_PartitionID v = pid) (tp_Verdicts plan)
      else FindVerdict s n d t pid) \<and>
   FindVerdict (PublishError now n' d' t' g e dur s) n d t pid = FindVerdict s n d t pid"
  by (auto simp: FindVerdict_def Publish_def PublishError_def Let_def update_conv' zero_plan_def
      split: option.splits)

text \<open>The history keeps exactly the most recent actions: after any sequence of appends it holds
  the last \<open>capacity\<close> of them in order, and the history served is a permutation of it, newest first.\<close>

theorem history_most_recent:
  "st_history (fold AppendHistory es (NewStore now c)) =
     drop (length es - nat (if c \<le> 0 then 1000 else c)) es \<and>
   mset (History (fold AppendHistory es (NewStore now c))) =
     mset (drop (length es - nat (if c \<le> 0 then 1000 else c)) es) \<and>
   sorted (map (\<lambda>e. - he_Time e) (History (fold AppendHistory es (NewStore now c))))"
proof -
  define cap where "cap = nat (if c \<le> 0 then 1000 else c)"
  have cap: "0 < cap" by (simp add: cap_def)
  have "st_history (fold AppendHistory es (NewStore now c)) = drop (length es - cap) es \<and>
      st_capacity (fold AppendHistory es (NewStore now c)) = int cap"
  proof (induction es rule: rev_induct)
    case Nil
    then show ?case by (simp add: NewStore_def cap_def)
  next
    case (snoc e es)
    have "drop (length (drop (length es - cap) es @ [e]) - cap) (drop (length es - cap) es @ [e]) =
        drop (length (es @ [e]) - cap) (es @ [e])"
      using cap by (cases "length es < cap") (auto simp: Suc_diff_le)
    then show ?case using snoc append_history_tail [of "fold AppendHistory es (NewStore now c)" cap e] by simp
  qed
  then show ?thesis by (simp add: History_def sorted_sort_by flip: cap_def)
qed

lemma actionable_iff: "IsActionableDecision d \<longleftrightarrow> actionable d"
  by (auto simp: IsActionableDecision_def actionable_def)

text \<open>Dispatch order is oldest first: the ordering is a permutation of the actionable verdicts,
  sorted by the age rank of their partition and then by partition id, and verdicts that agree on
  both keep their order.\<close>

theorem oldest_first_order:
  "mset (orderOldestFirst env table vs) = mset vs \<and>
   sorted (map (\<lambda>v. (rank_of env table (v_PartitionID v), v_PartitionID v)) (orderOldestFirst env table vs)) \<and>
   filter (\<lambda>v. (rank_of env table (v_PartitionID v), v_PartitionID v) = k) (orderOldestFirst env table vs) =
     filter (\<lambda>v. (rank_of env table (v_PartitionID v), v_PartitionID v) = k) vs"
  unfolding orderOldestFirst_def by (simp add: sorted_sort_by sort_by_stable)

end
