(* ===== verification/Guards.thy ===== *)
theory Guards
  imports PlanStore
begin

text \<open>
  The live checks of \<open>internal/tiering/observe.go\<close>: what the executor asks the server again before
  and during a leg (identity, mutations, fresh inserts, free space), the cold read probe, the
  seed of the daily budget, and the layered search for moves this program did not make.
\<close>

section \<open>Parameters of time\<close>

text \<open>The instant that \<open>dateTime64MicrosParam\<close> denotes: the value cut to microseconds.\<close>

definition dateTime64MicrosParam :: "gtime \<Rightarrow> gtime" where
  "dateTime64MicrosParam value = value div 1000 * 1000"

definition CaptureBootTime :: "server \<Rightarrow> gotext + gtime" where
  "CaptureBootTime S =
     (case q_now S of
        Inl e \<Rightarrow> Inl (Fmt ''capture ClickHouse boot reference: %w'' [AWrap e]) | Inr t \<Rightarrow> Inr t)"

definition SeedMovedBytesToday :: "server \<Rightarrow> EffectiveWatch list \<Rightarrow> gotext + u64" where
  "SeedMovedBytesToday S watches =
     (let pairs = map (\<lambda>w. (w_Database w, w_Table w)) (filter (\<lambda>w. w_Settings w \<noteq> None) watches) in
      if pairs = [] then Inr 0
      else case q_moved_bytes S pairs of
        Inl e \<Rightarrow> Inl (Fmt ''seed moved bytes: %w'' [AWrap e]) | Inr n \<Rightarrow> Inr n)"

section \<open>Foreign moves\<close>

definition flushCoalesceWindow :: gdur where "flushCoalesceWindow = 500 * millisecond"

text \<open>The flush of the log tables, at most once per node and window; the state is the time of the
  last flush per node.\<close>

definition flushGuardLogs ::
  "go_env \<Rightarrow> server \<Rightarrow> string \<Rightarrow> (string \<rightharpoonup> gtime) \<Rightarrow> gotext option \<times> (string \<rightharpoonup> gtime)" where
  "flushGuardLogs env S nodeID lastFlush =
     (let recent = (case lastFlush nodeID of
            Some prev \<Rightarrow> time_sub (env_clock env) prev < flushCoalesceWindow | None \<Rightarrow> False)
      in if recent then (None, lastFlush)
         else case q_flush_logs S of
           Some e \<Rightarrow> (Some (Fmt ''flush query logs before foreign-mover guard: %w'' [AWrap e]), lastFlush)
         | None \<Rightarrow> (None, lastFlush(nodeID \<mapsto> env_clock env)))"

text \<open>An early answer found in the rows wins over the error that ended them.\<close>

definition settle_rows :: "ForeignMoveObservation \<Rightarrow> row_end \<Rightarrow> gotext + ForeignMoveObservation" where
  "settle_rows found fin =
     (if fm_DuplicateInstance found \<or> fm_ForeignActivity found then Inr found
      else case fin of EndOfRows \<Rightarrow> Inr found | ScanFailed e \<Rightarrow> Inl e | IterFailed e \<Rightarrow> Inl e)"

definition collectLiveMoveStatements ::
  "server \<Rightarrow> TableObservation \<Rightarrow> string \<Rightarrow> gotext + ForeignMoveObservation" where
  "collectLiveMoveStatements S table instanceID =
     (case q_processes S (obs_Table table) of
        Inl e \<Rightarrow> Inl (Fmt ''read system.processes for foreign moves: %w'' [AWrap e])
      | Inr (rows, fin) \<Rightarrow> settle_rows (classifyMoveStatementRows rows instanceID) fin)"

definition collectRecentMoveStatements ::
  "server \<Rightarrow> TableObservation \<Rightarrow> string \<Rightarrow> gtime \<Rightarrow> gotext + ForeignMoveObservation" where
  "collectRecentMoveStatements S table instanceID bootTime =
     (case q_query_log S (dateTime64MicrosParam bootTime) (obs_Table table) of
        Inl e \<Rightarrow> Inl (Fmt ''read system.query_log for foreign moves: %w'' [AWrap e])
      | Inr (rows, fin) \<Rightarrow> settle_rows (classifyMoveStatementRows rows instanceID) fin)"

definition foreign_activity :: "gotext \<Rightarrow> ForeignMoveObservation" where
  "foreign_activity msg = \<lparr>fm_DuplicateInstance = False, fm_ForeignActivity = True, fm_Message = msg\<rparr>"

fun active_move_scan :: "string list \<Rightarrow> (string \<times> string) list \<Rightarrow> ForeignMoveObservation" where
  "active_move_scan allowed [] = no_foreign_move"
| "active_move_scan allowed ((partName, targetDisk) # rows) =
     (if partName \<in> set allowed then active_move_scan allowed rows
      else foreign_activity (Fmt ''anonymous active move of part %s to disk %s''
                               [AStr partName, AStr targetDisk]))"

definition collectActiveMoveEvents :: "server \<Rightarrow> TableObservation \<Rightarrow> gotext + ForeignMoveObservation" where
  "collectActiveMoveEvents S table =
     (case q_moves S (obs_Database table) (obs_Table table) of
        Inl e \<Rightarrow> Inl (Fmt ''read system.moves for active move events: %w'' [AWrap e])
      | Inr (rows, fin) \<Rightarrow> settle_rows (active_move_scan (obs_InFlightPartNames table) rows) fin)"

definition collectRecentMoveStatementPartitions ::
  "go_env \<Rightarrow> server \<Rightarrow> TableObservation \<Rightarrow> gtime \<Rightarrow> gotext + string set" where
  "collectRecentMoveStatementPartitions env S table bootTime =
     (case q_query_texts S (dateTime64MicrosParam bootTime) (obs_Table table) of
        Inl e \<Rightarrow> Inl (Fmt ''read system.query_log for move statement partitions: %w'' [AWrap e])
      | Inr (rows, fin) \<Rightarrow>
          (case all_rows (Inr (rows, fin)) of
             Inl e \<Rightarrow> Inl e
           | Inr qs \<Rightarrow> Inr (set (List.map_filter (extractMovePartitionID (env_unicode env)) qs))))"

fun move_event_scan :: "string set \<Rightarrow> (string \<times> string) list \<Rightarrow> ForeignMoveObservation" where
  "move_event_scan explained [] = no_foreign_move"
| "move_event_scan explained ((partitionID, partName) # rows) =
     (if partitionID \<in> explained then move_event_scan explained rows
      else foreign_activity (Fmt ''anonymous MovePart event for partition %s part %s''
                               [AStr partitionID, AStr partName]))"

definition collectAnonymousMovePartEventsSince ::
  "go_env \<Rightarrow> server \<Rightarrow> TableObservation \<Rightarrow> gtime \<Rightarrow> gtime \<Rightarrow> gotext + ForeignMoveObservation" where
  "collectAnonymousMovePartEventsSince env S table statementSince eventSince =
     (case collectRecentMoveStatementPartitions env S table statementSince of
        Inl e \<Rightarrow> Inl e
      | Inr explained \<Rightarrow>
          (case q_move_events S (obs_Database table) (obs_Table table) (dateTime64MicrosParam eventSince) of
             Inl e \<Rightarrow> Inl (Fmt ''read system.part_log for anonymous move events: %w'' [AWrap e])
           | Inr (rows, fin) \<Rightarrow> settle_rows (move_event_scan explained rows) fin))"

text \<open>The four layers in order: live statements, statements of the log, moves under way, and part
  events that no statement explains. The first that finds something, or fails, answers.\<close>

definition foreign_layers ::
  "go_env \<Rightarrow> server \<Rightarrow> TableObservation \<Rightarrow> string \<Rightarrow> gtime \<Rightarrow> gtime \<Rightarrow> gotext + ForeignMoveObservation" where
  "foreign_layers env S table instanceID bootTime since =
     (case collectLiveMoveStatements S table instanceID of
        Inl e \<Rightarrow> Inl e
      | Inr live \<Rightarrow>
          if fm_DuplicateInstance live \<or> fm_ForeignActivity live then Inr live
          else case collectRecentMoveStatements S table instanceID since of
            Inl e \<Rightarrow> Inl e
          | Inr recent \<Rightarrow>
              if fm_DuplicateInstance recent \<or> fm_ForeignActivity recent then Inr recent
              else case collectActiveMoveEvents S table of
                Inl e \<Rightarrow> Inl e
              | Inr active \<Rightarrow>
                  if fm_ForeignActivity active then Inr active
                  else collectAnonymousMovePartEventsSince env S table bootTime since)"

definition ObserveForeignMovesSince ::
  "go_env \<Rightarrow> server \<Rightarrow> TableObservation \<Rightarrow> string \<Rightarrow> gtime \<Rightarrow> gtime \<Rightarrow> (string \<rightharpoonup> gtime) \<Rightarrow>
   (gotext + ForeignMoveObservation) \<times> (string \<rightharpoonup> gtime)" where
  "ObserveForeignMovesSince env S table instanceID bootTime since lastFlush =
     (case flushGuardLogs env S (nd_ID (obs_Node table)) lastFlush of
        (Some e, lastFlush') \<Rightarrow> (Inl e, lastFlush')
      | (None, lastFlush') \<Rightarrow> (foreign_layers env S table instanceID bootTime since, lastFlush'))"

section \<open>Checks before and during a leg\<close>

definition CheckTableIdentity :: "server \<Rightarrow> TableObservation \<Rightarrow> gotext option" where
  "CheckTableIdentity S table =
     (let names = [AStr (obs_Database table), AStr (obs_Table table)];
          generation = lay_Generation (obs_Layout table)
      in if obs_UUID table = '''' \<and> generation = '''' then None
         else case q_identity S (obs_Database table) (obs_Table table) of
           Inl e \<Rightarrow> Some (Fmt ''check table identity for %s.%s: %w'' (names @ [AWrap e]))
         | Inr (uuid, partitionKey) \<Rightarrow>
             if obs_UUID table \<noteq> '''' \<and> uuid \<noteq> obs_UUID table then
               Some (Fmt ''table identity changed for %s.%s: uuid was %s, now %s''
                       (names @ [AStr (obs_UUID table), AStr uuid]))
             else
               let current = trim_space partitionKey @ ''|'' @ age_Basis (ts_Age (obs_Settings table)) in
               if generation \<noteq> '''' \<and> current \<noteq> generation then
                 Some (Fmt ''table layout changed for %s.%s: generation was %q, now %q''
                         (names @ [AStr generation, AStr current]))
               else None)"

definition CheckMutationsClear :: "server \<Rightarrow> TableObservation \<Rightarrow> gotext option" where
  "CheckMutationsClear S table =
     (let names = [AStr (obs_Database table), AStr (obs_Table table)] in
      case collectMutations S (obs_Database table) (obs_Table table) of
        Inl e \<Rightarrow> Some (Fmt ''re-check mutations for %s.%s: %w'' (names @ [AWrap e]))
      | Inr ms \<Rightarrow>
          (case filter (\<lambda>m. mut_PartsToDo m \<noteq> 0) ms of
             [] \<Rightarrow> None
           | m # _ \<Rightarrow>
               (let message = (if mut_LatestFailReason m \<noteq> ''''
                      then mut_MutationID m @ '': '' @ mut_LatestFailReason m else mut_MutationID m)
                in Some (Fmt ''unfinished mutation blocks move for %s.%s: %s'' (names @ [AStr message])))))"

definition CountInsertsSince :: "server \<Rightarrow> TableObservation \<Rightarrow> string \<Rightarrow> gtime \<Rightarrow> gotext + u64" where
  "CountInsertsSince S table partitionID since =
     (case q_new_parts S (obs_Database table) (obs_Table table) partitionID (dateTime64MicrosParam since) of
        Inl e \<Rightarrow> Inl (Fmt ''count fresh inserts for %s.%s partition %s: %w''
                       [AStr (obs_Database table), AStr (obs_Table table), AStr partitionID, AWrap e])
      | Inr n \<Rightarrow> Inr n)"

definition saturatingDouble :: "u64 \<Rightarrow> u64" where
  "saturatingDouble value = (if max_u64 div 2 < value then max_u64 else value * 2)"

definition collectDiskFreeSpace :: "server \<Rightarrow> gotext + (string \<rightharpoonup> u64)" where
  "collectDiskFreeSpace S =
     (case all_rows (q_disks S) of
        Inl e \<Rightarrow> Inl e
      | Inr rows \<Rightarrow> Inr (fold (\<lambda>(name, free) m. m(name \<mapsto> free)) rows Map.empty))"

definition free_on :: "(string \<rightharpoonup> u64) \<Rightarrow> DiskPart list \<Rightarrow> u64" where
  "free_on free disks =
     (\<Sum>d \<leftarrow> disks. case free (dp_Disk d) of Some f \<Rightarrow> f | None \<Rightarrow> 0)"

definition CheckOptimizeFreeSpace :: "server \<Rightarrow> TableObservation \<Rightarrow> Verdict \<Rightarrow> gotext option" where
  "CheckOptimizeFreeSpace S table verdict =
     (let names = [AStr (obs_Database table), AStr (obs_Table table)] in
      case collectDiskFreeSpace S of
        Inl e \<Rightarrow> Some (Fmt ''check free space before optimize for %s.%s: %w'' (names @ [AWrap e]))
      | Inr free \<Rightarrow>
          (let available = free_on free (v_Disks verdict);
               required = saturatingDouble (v_BytesOnDisk verdict)
           in if available < required
              then Some (Fmt ''not enough free space before optimize for %s.%s partition %s: need %d bytes, have %d''
                     (names @ [AStr (v_PartitionID verdict), AInt (uint required), AInt (uint available)]))
              else None))"

definition CountColdSideMerges :: "server \<Rightarrow> TableObservation \<Rightarrow> gtime \<Rightarrow> gotext + u64" where
  "CountColdSideMerges S table since =
     q_cold_merges S (obs_Database table) (obs_Table table) (ts_TargetDisk (obs_Settings table)) since"

definition probe_query :: "TableObservation \<Rightarrow> string \<Rightarrow> string" where
  "probe_query table column =
     ''SELECT toString('' @ QuoteIdent column @ '') FROM '' @
     QuoteQualified (obs_Database table) (obs_Table table) @
     '' WHERE _part = ? LIMIT 1 SETTINGS enable_filesystem_cache = 0''"

text \<open>Parts that vanished since the observation (no rows) are skipped; the first part read, or the
  first failure, ends the probe.\<close>

fun probe_parts :: "server \<Rightarrow> string \<Rightarrow> string list \<Rightarrow> gotext option" where
  "probe_parts S query [] = None"
| "probe_parts S query (name # names) =
     (case q_probe S query name of
        Inr v \<Rightarrow> None
      | Inl e \<Rightarrow>
          if errors_is e ErrNoRows then probe_parts S query names
          else Some (Fmt ''cold read probe failed for part %s: %w'' [AStr name, AWrap e]))"

definition ProbeColdPartition :: "server \<Rightarrow> TableObservation \<Rightarrow> PartitionObservation \<Rightarrow> gotext option" where
  "ProbeColdPartition S table p =
     (let names = map ph_Name
            (filter (\<lambda>h. ph_Disk h = ts_TargetDisk (obs_Settings table)) (part_Hashes p)) in
      if names = [] then None
      else case q_probe_column S (obs_Database table) (obs_Table table) of
        Inl e \<Rightarrow> Some (Fmt ''select column for cold read probe: %w'' [AWrap e])
      | Inr column \<Rightarrow> probe_parts S (probe_query table column) names)"

section \<open>Lemmas\<close>

lemma saturatingDouble_nat:
  "unat (saturatingDouble v) = min (2 * unat v) (unat max_u64)"
proof -
  have "unat v < 18446744073709551616" using unsigned_less [of v, where ?'a = nat] by simp
  then show ?thesis
    by (auto simp: saturatingDouble_def max_u64_def word_less_nat_alt unat_word_ariths min_def)
qed

lemma classify_rows_clean:
  "\<not> fm_DuplicateInstance (classifyMoveStatementRows rows i) \<Longrightarrow>
   \<not> fm_ForeignActivity (classifyMoveStatementRows rows i) \<Longrightarrow>
   list_all (\<lambda>(q, c, t). classifyMoveStatement q c i = moveStatementOurs) rows"
  by (induction rows i rule: classifyMoveStatementRows.induct) (auto split: moveStatementClass.splits)

lemma active_scan_clean:
  "\<not> fm_ForeignActivity (active_move_scan allowed rows) \<Longrightarrow> list_all (\<lambda>(p, d). p \<in> set allowed) rows"
  by (induction allowed rows rule: active_move_scan.induct)
    (auto simp: foreign_activity_def split: if_splits)

lemma event_scan_clean:
  "\<not> fm_ForeignActivity (move_event_scan explained rows) \<Longrightarrow> list_all (\<lambda>(pid, p). pid \<in> explained) rows"
  by (induction explained rows rule: move_event_scan.induct)
    (auto simp: foreign_activity_def split: if_splits)

lemma scan_no_duplicate [simp]:
  "\<not> fm_DuplicateInstance (active_move_scan allowed rows)"
  "\<not> fm_DuplicateInstance (move_event_scan explained rows)"
proof -
  show "\<not> fm_DuplicateInstance (active_move_scan allowed rows)"
    by (induction allowed rows rule: active_move_scan.induct)
      (simp_all add: foreign_activity_def no_foreign_move_def)
  show "\<not> fm_DuplicateInstance (move_event_scan explained rows)"
    by (induction explained rows rule: move_event_scan.induct)
      (simp_all add: foreign_activity_def no_foreign_move_def)
qed

definition is_clean :: "ForeignMoveObservation \<Rightarrow> bool" where
  "is_clean o' \<longleftrightarrow> \<not> fm_DuplicateInstance o' \<and> \<not> fm_ForeignActivity o'"

lemma settle_rows_clean:
  "settle_rows found fin = Inr o' \<Longrightarrow> o' = found \<and> (is_clean o' \<longrightarrow> fin = EndOfRows)"
  by (auto simp: settle_rows_def is_clean_def split: if_splits row_end.splits)

text \<open>C32: A clean answer of the guard means what it says: when it reports neither a duplicate instance
  nor foreign activity, every one of its four sources was read to its end, every move statement
  seen was this instance's, every move under way is of a part in flight here, and every recent
  part event belongs to a partition that some logged move statement names.\<close>

theorem clean_guard_means_clean:
  assumes "foreign_layers env S table inst boot since = Inr obs" and "is_clean obs"
  shows "\<exists>live recent moves texts events.
    q_processes S (obs_Table table) = Inr (live, EndOfRows) \<and>
    list_all (\<lambda>(q, c, t). classifyMoveStatement q c inst = moveStatementOurs) live \<and>
    q_query_log S (dateTime64MicrosParam since) (obs_Table table) = Inr (recent, EndOfRows) \<and>
    list_all (\<lambda>(q, c, t). classifyMoveStatement q c inst = moveStatementOurs) recent \<and>
    q_moves S (obs_Database table) (obs_Table table) = Inr (moves, EndOfRows) \<and>
    list_all (\<lambda>(p, d). p \<in> set (obs_InFlightPartNames table)) moves \<and>
    q_query_texts S (dateTime64MicrosParam boot) (obs_Table table) = Inr (texts, EndOfRows) \<and>
    q_move_events S (obs_Database table) (obs_Table table) (dateTime64MicrosParam since) =
      Inr (events, EndOfRows) \<and>
    list_all (\<lambda>(pid, p). \<exists>q \<in> set texts. extractMovePartitionID (env_unicode env) q = Some pid) events"
proof -
  obtain live where live: "collectLiveMoveStatements S table inst = Inr live" "is_clean live"
    using assms by (auto simp: foreign_layers_def is_clean_def split: sum.splits if_splits)
  obtain recent where recent: "collectRecentMoveStatements S table inst since = Inr recent" "is_clean recent"
    using assms live by (auto simp: foreign_layers_def is_clean_def split: sum.splits if_splits)
  obtain act where act: "collectActiveMoveEvents S table = Inr act" "\<not> fm_ForeignActivity act"
    and anon: "collectAnonymousMovePartEventsSince env S table boot since = Inr obs"
    using assms live recent by (auto simp: foreign_layers_def is_clean_def split: sum.splits if_splits)
  have 1: "\<exists>rows. q_processes S (obs_Table table) = Inr (rows, EndOfRows) \<and>
      list_all (\<lambda>(q, c, t). classifyMoveStatement q c inst = moveStatementOurs) rows"
    using live by (auto simp: collectLiveMoveStatements_def is_clean_def split: sum.splits
        dest!: settle_rows_clean intro: classify_rows_clean)
  have 2: "\<exists>rows. q_query_log S (dateTime64MicrosParam since) (obs_Table table) = Inr (rows, EndOfRows) \<and>
      list_all (\<lambda>(q, c, t). classifyMoveStatement q c inst = moveStatementOurs) rows"
    using recent by (auto simp: collectRecentMoveStatements_def is_clean_def split: sum.splits
        dest!: settle_rows_clean intro: classify_rows_clean)
  have 3: "\<exists>rows. q_moves S (obs_Database table) (obs_Table table) = Inr (rows, EndOfRows) \<and>
      list_all (\<lambda>(p, d). p \<in> set (obs_InFlightPartNames table)) rows"
    using act by (auto simp: collectActiveMoveEvents_def is_clean_def split: sum.splits
        dest!: settle_rows_clean intro: active_scan_clean)
  obtain explained where ex: "collectRecentMoveStatementPartitions env S table boot = Inr explained"
    using anon by (auto simp: collectAnonymousMovePartEventsSince_def split: sum.splits)
  obtain texts where texts: "q_query_texts S (dateTime64MicrosParam boot) (obs_Table table) = Inr (texts, EndOfRows)"
    "explained = set (List.map_filter (extractMovePartitionID (env_unicode env)) texts)"
    using ex by (auto simp: collectRecentMoveStatementPartitions_def all_rows_def split: sum.splits row_end.splits)
  have 4: "\<exists>rows. q_move_events S (obs_Database table) (obs_Table table) (dateTime64MicrosParam since) =
      Inr (rows, EndOfRows) \<and> list_all (\<lambda>(pid, p). pid \<in> explained) rows"
    using anon ex assms(2) by (auto simp: collectAnonymousMovePartEventsSince_def is_clean_def
        split: sum.splits dest!: settle_rows_clean intro: event_scan_clean)
  have 5: "pid \<in> explained \<longleftrightarrow> (\<exists>q \<in> set texts. extractMovePartitionID (env_unicode env) q = Some pid)" for pid
    by (force simp: texts(2) map_filter_def)
  from 1 2 3 texts(1) 4 show ?thesis unfolding 5 by blast
qed

definition quiet_server :: server where
  "quiet_server = failing_server
     \<lparr>q_processes := \<lambda>_. Inr ([(''movoor-1'', ''movoor:m1'', '''')], EndOfRows),
      q_query_log := \<lambda>_ _. Inr ([], EndOfRows), q_moves := \<lambda>_ _. Inr ([], EndOfRows),
      q_query_texts := \<lambda>_ _. Inr ([], EndOfRows), q_move_events := \<lambda>_ _ _. Inr ([], EndOfRows)\<rparr>"

lemma sample_own_statement:
  "classifyMoveStatement ''movoor-1'' ''movoor:m1'' ''m1'' = moveStatementOurs"
proof -
  have "trim_space ''movoor:m1'' = ''movoor:m1''"
    by (rule trim_space_solid_ends) (simp_all add: solid_def ascii_space_def)
  then show ?thesis by (simp add: classifyMoveStatement_def has_prefix_def)
qed

theorem clean_guard_means_clean_witness:
  "\<exists>live. q_processes quiet_server ''t'' = Inr (live, EndOfRows) \<and>
     list_all (\<lambda>(q, c, t). classifyMoveStatement q c ''m1'' = moveStatementOurs) live"
proof -
  have "foreign_layers sample_env quiet_server (sample_table\<lparr>obs_Table := ''t''\<rparr>) ''m1'' 0 0 =
      Inr no_foreign_move"
    by (simp add: foreign_layers_def quiet_server_def collectLiveMoveStatements_def settle_rows_def
        sample_own_statement no_foreign_move_def collectRecentMoveStatements_def
        collectActiveMoveEvents_def collectAnonymousMovePartEventsSince_def all_rows_def
        collectRecentMoveStatementPartitions_def)
  from clean_guard_means_clean [OF this] show ?thesis
    by (simp add: is_clean_def no_foreign_move_def) blast
qed

text \<open>The free space as an exact sum, when it does not overflow.\<close>

lemma free_on_nat:
  "sum_list (map (\<lambda>d. case free (dp_Disk d) of Some f \<Rightarrow> unat f | None \<Rightarrow> 0) disks) < 18446744073709551616 \<Longrightarrow>
   unat (free_on free disks) = sum_list (map (\<lambda>d. case free (dp_Disk d) of Some f \<Rightarrow> unat f | None \<Rightarrow> 0) disks)"
proof (induction disks)
  case (Cons d ds)
  have "unat (free_on free ds) = sum_list (map (\<lambda>d. case free (dp_Disk d) of Some f \<Rightarrow> unat f | None \<Rightarrow> 0) ds)"
    using Cons by (auto split: option.splits)
  then show ?case
    using Cons.prems by (simp add: free_on_def unat_add_no_wrap split: option.splits)
qed (simp add: free_on_def)

text \<open>The space check before a merge demands twice the partition's bytes, saturating at the
  largest 64-bit number: when the free space of the partition's disks adds up without overflow,
  the check passes exactly when it reaches that demand.\<close>

theorem free_space_exact:
  assumes "collectDiskFreeSpace S = Inr free"
    and "sum_list (map (\<lambda>d. case free (dp_Disk d) of Some f \<Rightarrow> unat f | None \<Rightarrow> 0) (v_Disks v)) <
      18446744073709551616"
  shows "CheckOptimizeFreeSpace S table v = None \<longleftrightarrow>
    min (2 * unat (v_BytesOnDisk v)) (unat max_u64) \<le>
      sum_list (map (\<lambda>d. case free (dp_Disk d) of Some f \<Rightarrow> unat f | None \<Rightarrow> 0) (v_Disks v))"
  using assms
  by (auto simp: CheckOptimizeFreeSpace_def Let_def word_less_nat_alt not_less saturatingDouble_nat free_on_nat
      min_le_iff_disj)

theorem free_space_exact_witness:
  "CheckOptimizeFreeSpace (failing_server\<lparr>q_disks := Inr ([(''d'', 10)], EndOfRows)\<rparr>) sample_table
     (sample_verdict\<lparr>v_Disks := [\<lparr>dp_Disk = ''d'', dp_Parts = 2\<rparr>], v_BytesOnDisk := 5\<rparr>) = None"
  by (subst free_space_exact [where free = "[''d'' \<mapsto> 10]"])
    (simp_all add: collectDiskFreeSpace_def all_rows_def failing_server_def Let_def fun_eq_iff)

text \<open>The sum of the free space does wrap: with one disk reporting the largest number and another
  one byte, the check refuses a merge of one byte.\<close>

theorem free_space_sum_wraps:
  "CheckOptimizeFreeSpace
     (failing_server\<lparr>q_disks := Inr ([(''remote'', max_u64), (''local'', 1)], EndOfRows)\<rparr>) sample_table
     (sample_verdict\<lparr>v_Disks := [\<lparr>dp_Disk = ''local'', dp_Parts = 1\<rparr>, \<lparr>dp_Disk = ''remote'', dp_Parts = 1\<rparr>],
        v_BytesOnDisk := 1\<rparr>) \<noteq> None"
  by (simp add: CheckOptimizeFreeSpace_def collectDiskFreeSpace_def all_rows_def failing_server_def
      Let_def free_on_def saturatingDouble_def max_u64_def)

lemma mutations_clear_iff:
  "CheckMutationsClear S table = None \<longleftrightarrow>
     (\<exists>ms. collectMutations S (obs_Database table) (obs_Table table) = Inr ms \<and>
       list_all (\<lambda>m. mut_PartsToDo m = 0) ms)"
proof (cases "collectMutations S (obs_Database table) (obs_Table table)")
  case (Inr ms)
  have "filter (\<lambda>m. mut_PartsToDo m \<noteq> 0) ms = [] \<longleftrightarrow> list_all (\<lambda>m. mut_PartsToDo m = 0) ms"
    by (induction ms) auto
  with Inr show ?thesis
    by (cases "filter (\<lambda>m. mut_PartsToDo m \<noteq> 0) ms") (simp_all add: CheckMutationsClear_def Let_def)
qed (simp add: CheckMutationsClear_def Let_def)

lemma identity_iff:
  "CheckTableIdentity S table = None \<longleftrightarrow>
     obs_UUID table = '''' \<and> lay_Generation (obs_Layout table) = '''' \<or>
     (\<exists>uuid key. q_identity S (obs_Database table) (obs_Table table) = Inr (uuid, key) \<and>
       (obs_UUID table \<noteq> '''' \<longrightarrow> uuid = obs_UUID table) \<and>
       (lay_Generation (obs_Layout table) \<noteq> '''' \<longrightarrow>
         trim_space key @ ''|'' @ age_Basis (ts_Age (obs_Settings table)) = lay_Generation (obs_Layout table)))"
  by (cases "q_identity S (obs_Database table) (obs_Table table)")
    (auto simp: CheckTableIdentity_def Let_def split: if_splits)

text \<open>The pre-flight checks pass exactly when the server still shows the observed table: the uuid
  and the partition key with its basis are unchanged wherever they were observed, and no mutation
  has parts left to do.\<close>

theorem preflight_exact:
  "(CheckTableIdentity S table = None \<longleftrightarrow>
     obs_UUID table = '''' \<and> lay_Generation (obs_Layout table) = '''' \<or>
     (\<exists>uuid key. q_identity S (obs_Database table) (obs_Table table) = Inr (uuid, key) \<and>
       obs_UUID table \<in> {'''', uuid} \<and>
       lay_Generation (obs_Layout table) \<in>
         {'''', trim_space key @ ''|'' @ age_Basis (ts_Age (obs_Settings table))})) \<and>
   (CheckMutationsClear S table = None \<longleftrightarrow>
     (\<exists>ms. collectMutations S (obs_Database table) (obs_Table table) = Inr ms \<and>
       list_all (\<lambda>m. mut_PartsToDo m = 0) ms))"
  unfolding identity_iff mutations_clear_iff by auto

end
