(* ===== verification/Executor.thy ===== *)
theory Executor
  imports Guards
begin

text \<open>
  The executor (\<open>internal/tiering/act.go\<close>): one convergence leg per actionable verdict, its checks,
  its one statement, and the polling loop that verifies what the server did. The server answers
  each query at a moment of its own, so a run is a sequence of moments: every query, statement and
  wait takes the next one. A polling loop may wait for ever; fuel bounds its polls, and running out
  is \<open>None\<close>.
\<close>

section \<open>The run\<close>

datatype select_event = SelTick | SelDeadline | SelDone gotext

text \<open>
  What a run meets: the server at each moment, the answer to a statement sent at a moment, what the
  \<open>select\<close> at a moment received (a tick, the deadline, or the end of the context), and the order in
  which \<open>range\<close> visits a Go map at a moment.
\<close>

record world =
  w_server :: "nat \<Rightarrow> server"
  w_exec :: "nat \<Rightarrow> string \<Rightarrow> gotext option"
  w_select :: "nat \<Rightarrow> select_event"
  w_order :: "nat \<Rightarrow> (string \<times> PartHash) list \<Rightarrow> (string \<times> PartHash) list"

text \<open>Where a run is: its moment, the statements sent so far, and the counted retries.\<close>

record run =
  r_step :: nat
  r_sent :: "(nat \<times> statement_tag \<times> string) list"
  r_retries :: nat

definition start_run :: run where
  "start_run = \<lparr>r_step = 0, r_sent = [], r_retries = 0\<rparr>"

definition tick :: "run \<Rightarrow> run" where
  "tick r = r\<lparr>r_step := Suc (r_step r)\<rparr>"

definition ask :: "world \<Rightarrow> (server \<Rightarrow> 'a) \<Rightarrow> run \<Rightarrow> 'a \<times> run" where
  "ask W f r = (f (w_server W (r_step r)), tick r)"

definition send_statement :: "world \<Rightarrow> statement_tag \<Rightarrow> string \<Rightarrow> run \<Rightarrow> gotext option \<times> run" where
  "send_statement W tag query r =
     (w_exec W (r_step r) query, (tick r)\<lparr>r_sent := r_sent r @ [(r_step r, tag, query)]\<rparr>)"

record executor =
  ex_InstanceID :: string
  ex_PollInterval :: gdur
  ex_unicode :: unicode

definition NewExecutor :: "unicode \<Rightarrow> string \<Rightarrow> executor" where
  "NewExecutor U instanceID = \<lparr>ex_InstanceID = instanceID, ex_PollInterval = 2 * second, ex_unicode = U\<rparr>"

definition pollInterval :: "executor \<Rightarrow> gdur" where
  "pollInterval e = (if 0 < ex_PollInterval e then ex_PollInterval e else 2 * second)"

section \<open>Errors\<close>

definition errVerifyNotOnTarget :: gotext where
  "errVerifyNotOnTarget = lit ''partition still has parts away from the move destination''"
definition errVerifyBaselineDrift :: gotext where
  "errVerifyBaselineDrift = lit ''partition part set changed during move''"
definition errVerifyHashMismatch :: gotext where
  "errVerifyHashMismatch = lit ''partition part hash changed during move''"
definition errVerifyNoParts :: gotext where
  "errVerifyNoParts = lit ''partition has no active parts to verify''"
definition errVerifyUnsealed :: gotext where
  "errVerifyUnsealed = lit ''partition received fresh inserts during the attempt''"

definition isNoopOptimize :: "unicode \<Rightarrow> gotext \<Rightarrow> bool" where
  "isNoopOptimize U err =
     (case as_exception err of
        Some (code, message) \<Rightarrow> code = 388 \<and> str_contains (go_lower U message) ''already''
      | None \<Rightarrow> False)"

definition isAlreadyMoved :: "unicode \<Rightarrow> gotext \<Rightarrow> bool" where
  "isAlreadyMoved U err =
     (case as_exception err of
        Some (code, message) \<Rightarrow>
          (let m = go_lower U message in
           code = 479 \<and> (str_contains m ''already on disk'' \<or> str_contains m ''already on volume''))
      | None \<Rightarrow> False)"

definition classifyClickHouseError :: "unicode \<Rightarrow> string \<Rightarrow> gotext \<Rightarrow> gotext" where
  "classifyClickHouseError U action err =
     (let wrap = (\<lambda>f. Fmt f [AStr action, AWrap err]) in
      case as_exception err of
        None \<Rightarrow> wrap ''%s failed: %w''
      | Some (code, message) \<Rightarrow>
          if code = 479 \<and> str_contains (go_lower U message) ''no such disk''
            then wrap ''%s misconfigured target disk: %w''
          else if code = 548 then wrap ''%s misconfigured target volume: %w''
          else if code = 384 then wrap ''%s deferred because part is locked: %w''
          else if code = 243 then wrap ''%s failed because there is not enough space: %w''
          else if code = 236 then wrap ''%s blocked because moves are disabled: %w''
          else if code = 84 then wrap ''%s failed because destination directory already exists: %w''
          else if code = 439 then wrap ''%s deferred because ClickHouse cannot schedule the task: %w''
          else if code = 159 then wrap ''%s failed because max_execution_time killed the statement: %w''
          else Fmt ''%s failed with ClickHouse code %d: %w'' [AStr action, AInt code, AWrap err])"

section \<open>Verification of the parts\<close>

definition by_name :: "PartHash list \<Rightarrow> (string, PartHash) amap" where
  "by_name parts = fold (\<lambda>p. amap_put (ph_Name p) p) parts []"

text \<open>The scan of the baseline, in the order given: a changed hash or a part off the target ends it;
  a missing part is remembered as drift.\<close>

fun verify_scan ::
  "(string, PartHash) amap \<Rightarrow> (string \<Rightarrow> bool) \<Rightarrow> (string \<times> PartHash) list \<Rightarrow> bool \<Rightarrow> gotext + bool" where
  "verify_scan current onTarget [] drift = Inr drift"
| "verify_scan current onTarget ((name, base) # bases) drift =
     (case amap_get current name of
        None \<Rightarrow> verify_scan current onTarget bases True
      | Some now \<Rightarrow>
          if ph_Hash now \<noteq> ph_Hash base then
            Inl (Fmt ''%w: part %s hash was %s, now %s''
              [AWrap errVerifyHashMismatch, AStr name, AStr (ph_Hash base), AStr (ph_Hash now)])
          else if \<not> onTarget (ph_Disk now) then Inl errVerifyNotOnTarget
          else verify_scan current onTarget bases drift)"

definition verifyPartHashes ::
  "((string \<times> PartHash) list \<Rightarrow> (string \<times> PartHash) list) \<Rightarrow> PartHash list \<Rightarrow> PartHash list \<Rightarrow>
   (string \<Rightarrow> bool) \<Rightarrow> gotext option" where
  "verifyPartHashes order baseline current onTarget =
     (if baseline = [] \<or> current = [] then Some errVerifyNoParts
      else
        let base = by_name baseline; cur = by_name current in
        case verify_scan cur onTarget (order base) False of
          Inl e \<Rightarrow> Some e
        | Inr drift \<Rightarrow>
            if drift \<or> list_ex (\<lambda>(name, p). amap_get base name = None) cur
            then Some errVerifyBaselineDrift else None)"

section \<open>Polling\<close>

text \<open>
  The loop shared by the two waits: ask the server, judge the answer, and wait for the next tick.
  A judgement is the result to return, or the error to return if the deadline comes first.
\<close>

fun poll ::
  "nat \<Rightarrow> world \<Rightarrow> (server \<Rightarrow> 'o) \<Rightarrow> (nat \<Rightarrow> 'o \<Rightarrow> gotext option + gotext) \<Rightarrow> run \<Rightarrow>
   (gotext option \<times> run) option" where
  "poll 0 W query judge r = None"
| "poll (Suc fuel) W query judge r =
     (case ask W query r of (answer, r1) \<Rightarrow>
        (case judge (r_step r) answer of
           Inl result \<Rightarrow> Some (result, r1)
         | Inr stalled \<Rightarrow>
             (case w_select W (r_step r1) of
                SelDone e \<Rightarrow> Some (Some e, tick r1)
              | SelDeadline \<Rightarrow> Some (Some stalled, tick r1)
              | SelTick \<Rightarrow> poll fuel W query judge (tick r1))))"

definition judge_count :: "u64 \<Rightarrow> nat \<Rightarrow> gotext + PartitionObservation \<Rightarrow> gotext option + gotext" where
  "judge_count target n answer =
     (let stalled = Inr (lit ''optimize stalled before reaching target part count'') in
      case answer of
        Inl e \<Rightarrow> stalled
      | Inr p \<Rightarrow> if part_ActiveParts p \<le> target then Inl None else stalled)"

definition waitForPartCount ::
  "nat \<Rightarrow> world \<Rightarrow> TableObservation \<Rightarrow> string \<Rightarrow> u64 \<Rightarrow> run \<Rightarrow> (gotext option \<times> run) option" where
  "waitForPartCount fuel W table partitionID target =
     poll fuel W (\<lambda>S. RefreshPartition S table partitionID) (judge_count target)"

text \<open>Drift and a changed hash end the wait; a partition that vanished is waited for.\<close>

definition judge_disk ::
  "world \<Rightarrow> (string \<Rightarrow> bool) \<Rightarrow> PartHash list \<Rightarrow> nat \<Rightarrow> gotext + PartitionObservation \<Rightarrow>
   gotext option + gotext" where
  "judge_disk W onTarget baseline n answer =
     (case answer of
        Inr p \<Rightarrow>
          (case verifyPartHashes (w_order W n) baseline (part_Hashes p) onTarget of
             None \<Rightarrow> Inl None
           | Some e \<Rightarrow>
               if errors_is e errVerifyBaselineDrift \<or> errors_is e errVerifyHashMismatch
               then Inl (Some e) else Inr e)
      | Inl e \<Rightarrow> if errors_is e ErrNoRows then Inr errVerifyNoParts else Inl (Some e))"

definition waitForVerifiedDisk ::
  "nat \<Rightarrow> world \<Rightarrow> TableObservation \<Rightarrow> string \<Rightarrow> (string \<Rightarrow> bool) \<Rightarrow> PartHash list \<Rightarrow> run \<Rightarrow>
   (gotext option \<times> run) option" where
  "waitForVerifiedDisk fuel W table partitionID onTarget baseline =
     poll fuel W (\<lambda>S. RefreshPartition S table partitionID) (judge_disk W onTarget baseline)"

section \<open>The checks of an attempt\<close>

definition ex_checkTableIdentity :: "world \<Rightarrow> TableObservation \<Rightarrow> run \<Rightarrow> gotext option \<times> run" where
  "ex_checkTableIdentity W table = ask W (\<lambda>S. CheckTableIdentity S table)"

definition ex_checkMutationsClear :: "world \<Rightarrow> TableObservation \<Rightarrow> run \<Rightarrow> gotext option \<times> run" where
  "ex_checkMutationsClear W table = ask W (\<lambda>S. CheckMutationsClear S table)"

definition ex_checkOptimizeFreeSpace ::
  "world \<Rightarrow> TableObservation \<Rightarrow> Verdict \<Rightarrow> run \<Rightarrow> gotext option \<times> run" where
  "ex_checkOptimizeFreeSpace W table v = ask W (\<lambda>S. CheckOptimizeFreeSpace S table v)"

definition fresh_inserts :: "server \<Rightarrow> TableObservation \<Rightarrow> string \<Rightarrow> gotext option" where
  "fresh_inserts S table partitionID =
     (case CountInsertsSince S table partitionID (obs_ObservedAt table) of
        Inl e \<Rightarrow> Some e
      | Inr n \<Rightarrow> if 0 < n then Some errVerifyUnsealed else None)"

definition guardFreshInserts :: "world \<Rightarrow> TableObservation \<Rightarrow> string \<Rightarrow> run \<Rightarrow> gotext option \<times> run" where
  "guardFreshInserts W table partitionID r =
     (if is_zero (obs_ObservedAt table) then (None, r)
      else ask W (\<lambda>S. fresh_inserts S table partitionID) r)"

definition baseline_of :: "server \<Rightarrow> TableObservation \<Rightarrow> string \<Rightarrow> gotext + PartHash list" where
  "baseline_of S table partitionID =
     (case RefreshPartition S table partitionID of
        Inl e \<Rightarrow> Inl (Fmt ''capture move baseline: %w'' [AWrap e])
      | Inr p \<Rightarrow> if part_Hashes p = [] then Inl errVerifyNoParts else Inr (part_Hashes p))"

definition captureMoveBaseline ::
  "world \<Rightarrow> TableObservation \<Rightarrow> string \<Rightarrow> run \<Rightarrow> (gotext + PartHash list) \<times> run" where
  "captureMoveBaseline W table partitionID = ask W (\<lambda>S. baseline_of S table partitionID)"

section \<open>The legs\<close>

definition optimize_settings :: "TableObservation \<Rightarrow> (string \<times> int) list" where
  "optimize_settings table = (if obs_IsReplicated table then [] else [(''max_execution_time'', 0)])"

definition optimize_leg ::
  "nat \<Rightarrow> world \<Rightarrow> executor \<Rightarrow> TableObservation \<Rightarrow> Verdict \<Rightarrow> string \<Rightarrow> run \<Rightarrow> (gotext option \<times> run) option" where
  "optimize_leg fuel W e table v attemptID r =
     (case ex_checkTableIdentity W table r of
        (Some err, r1) \<Rightarrow> Some (Some err, r1)
      | (None, r1) \<Rightarrow>
     (case guardFreshInserts W table (v_PartitionID v) r1 of
        (Some err, r2) \<Rightarrow> Some (Some err, r2)
      | (None, r2) \<Rightarrow>
     (case ex_checkOptimizeFreeSpace W table v r2 of
        (Some err, r3) \<Rightarrow> Some (Some err, r3)
      | (None, r3) \<Rightarrow>
     (case send_statement W
             (statementContext (ex_InstanceID e) attemptID ''optimize'' (optimize_settings table))
             (optimize_query (v_Database v) (v_Table v) (v_PartitionID v)) r3 of
        (result, r4) \<Rightarrow>
          (case result of
             Some err \<Rightarrow>
               if isNoopOptimize (ex_unicode e) err
               then waitForPartCount fuel W table (v_PartitionID v) (ts_OptimizeToParts (obs_Settings table)) r4
               else Some (Some (classifyClickHouseError (ex_unicode e) ''optimize'' err), r4)
           | None \<Rightarrow>
               waitForPartCount fuel W table (v_PartitionID v) (ts_OptimizeToParts (obs_Settings table)) r4)))))"

definition moveAttempt ::
  "nat \<Rightarrow> world \<Rightarrow> executor \<Rightarrow> TableObservation \<Rightarrow> Verdict \<Rightarrow> string \<Rightarrow> string \<Rightarrow> (string \<Rightarrow> bool) \<Rightarrow> nat \<Rightarrow>
   run \<Rightarrow> (gotext option \<times> run) option" where
  "moveAttempt fuel W e table v attemptID targetClause onTarget attempt r =
     (case ex_checkTableIdentity W table r of
        (Some err, r1) \<Rightarrow> Some (Some err, r1)
      | (None, r1) \<Rightarrow>
     (case guardFreshInserts W table (v_PartitionID v) r1 of
        (Some err, r2) \<Rightarrow> Some (Some err, r2)
      | (None, r2) \<Rightarrow>
     (case captureMoveBaseline W table (v_PartitionID v) r2 of
        (Inl err, r3) \<Rightarrow> Some (Some err, r3)
      | (Inr baseline, r3) \<Rightarrow>
     (case ex_checkMutationsClear W table r3 of
        (Some err, r4) \<Rightarrow> Some (Some err, r4)
      | (None, r4) \<Rightarrow>
     (case send_statement W
             (statementContext (ex_InstanceID e) attemptID (''move-'' @ show_nat (attempt + 1)) [])
             (move_query (v_Database v) (v_Table v) (v_PartitionID v) targetClause) r4 of
        (result, r5) \<Rightarrow>
          (case result of
             Some err \<Rightarrow>
               if isAlreadyMoved (ex_unicode e) err
               then waitForVerifiedDisk fuel W table (v_PartitionID v) onTarget baseline r5
               else Some (Some (classifyClickHouseError (ex_unicode e) ''move'' err), r5)
           | None \<Rightarrow> waitForVerifiedDisk fuel W table (v_PartitionID v) onTarget baseline r5))))))"

text \<open>Three attempts; parts off the target and drift are retried (and counted), anything else ends
  the leg.\<close>

fun move_attempts ::
  "nat \<Rightarrow> world \<Rightarrow> executor \<Rightarrow> TableObservation \<Rightarrow> Verdict \<Rightarrow> string \<Rightarrow> string \<Rightarrow> (string \<Rightarrow> bool) \<Rightarrow> nat list \<Rightarrow>
   run \<Rightarrow> (gotext option \<times> run) option" where
  "move_attempts fuel W e table v attemptID targetClause onTarget [] r =
     Some (Some (lit ''move did not converge after retries''), r)"
| "move_attempts fuel W e table v attemptID targetClause onTarget (attempt # attempts) r =
     (case moveAttempt fuel W e table v attemptID targetClause onTarget attempt r of
        None \<Rightarrow> None
      | Some (None, r1) \<Rightarrow> Some (None, r1)
      | Some (Some err, r1) \<Rightarrow>
          if errors_is err errVerifyNotOnTarget \<or> errors_is err errVerifyBaselineDrift
          then move_attempts fuel W e table v attemptID targetClause onTarget attempts
                 (r1\<lparr>r_retries := Suc (r_retries r1)\<rparr>)
          else Some (Some err, r1))"

definition moveLoop ::
  "nat \<Rightarrow> world \<Rightarrow> executor \<Rightarrow> TableObservation \<Rightarrow> Verdict \<Rightarrow> string \<Rightarrow> string \<Rightarrow> (string \<Rightarrow> bool) \<Rightarrow>
   run \<Rightarrow> (gotext option \<times> run) option" where
  "moveLoop fuel W e table v attemptID targetClause onTarget =
     move_attempts fuel W e table v attemptID targetClause onTarget [0, 1, 2]"

definition moveToCold ::
  "nat \<Rightarrow> world \<Rightarrow> executor \<Rightarrow> TableObservation \<Rightarrow> Verdict \<Rightarrow> string \<Rightarrow> run \<Rightarrow> (gotext option \<times> run) option" where
  "moveToCold fuel W e table v attemptID =
     moveLoop fuel W e table v attemptID (''TO DISK '' @ QuoteString (ts_TargetDisk (obs_Settings table)))
       (\<lambda>disk. disk = ts_TargetDisk (obs_Settings table))"

definition moveToHot ::
  "nat \<Rightarrow> world \<Rightarrow> executor \<Rightarrow> TableObservation \<Rightarrow> Verdict \<Rightarrow> string \<Rightarrow> run \<Rightarrow> (gotext option \<times> run) option" where
  "moveToHot fuel W e table v attemptID =
     moveLoop fuel W e table v attemptID (''TO VOLUME '' @ QuoteString (obs_HotVolume table))
       (\<lambda>disk. disk \<noteq> ts_TargetDisk (obs_Settings table))"

definition legDirection :: "TierSettings \<Rightarrow> Decision \<Rightarrow> string" where
  "legDirection settings decision =
     (case decision of
        DecisionTier \<Rightarrow> ''up'' | DecisionAppend \<Rightarrow> ''up''
      | DecisionConsolidate \<Rightarrow> if ts_OptimizeOn settings = OptimizeOnCold then ''up'' else ''down''
      | _ \<Rightarrow> '''')"

definition apply_leg ::
  "nat \<Rightarrow> world \<Rightarrow> executor \<Rightarrow> TableObservation \<Rightarrow> Verdict \<Rightarrow> string \<Rightarrow> run \<Rightarrow> (gotext option \<times> run) option" where
  "apply_leg fuel W e table v attemptID r =
     (case v_Decision v of
        DecisionConsolidate \<Rightarrow>
          if ts_OptimizeOn (obs_Settings table) = OptimizeOnCold then moveToCold fuel W e table v attemptID r
          else if obs_HotVolume table = '''' then
            Some (Some (lit ''hot volume is not known to consolidate toward''), r)
          else moveToHot fuel W e table v attemptID r
      | DecisionOptimize \<Rightarrow> optimize_leg fuel W e table v attemptID r
      | DecisionTier \<Rightarrow> moveToCold fuel W e table v attemptID r
      | DecisionAppend \<Rightarrow> moveToCold fuel W e table v attemptID r
      | _ \<Rightarrow> Some (Some (Fmt ''decision %q is not actionable'' [AStr (decision_text (v_Decision v))]), r))"

section \<open>The history entry\<close>

definition padded :: "nat \<Rightarrow> int \<Rightarrow> string" where
  "padded width n = (let s = show_int n in replicate (width - length s) (CHR ''0'') @ s)"

text \<open>\<open>now.UTC().Format("20060102T150405.000000000")\<close>.\<close>

definition attempt_stamp :: "gtime \<Rightarrow> string" where
  "attempt_stamp now =
     (let sec = time_unix now mod 86400 in
      case civil_of_days (time_unix now div 86400) of (y, m, d) \<Rightarrow>
        padded 4 y @ padded 2 m @ padded 2 d @ ''T'' @
        padded 2 (sec div 3600) @ padded 2 (sec div 60 mod 60) @ padded 2 (sec mod 60) @ ''.'' @
        padded 9 (now mod 1000000000))"

definition ex_attemptID :: "executor \<Rightarrow> gtime \<Rightarrow> Verdict \<Rightarrow> string" where
  "ex_attemptID e now v =
     underscore_bytes '' /.''
       (join ''-'' [ex_InstanceID e, v_NodeID v, v_Database v, v_Table v, v_PartitionID v, attempt_stamp now])"

definition leg_entry :: "executor \<Rightarrow> gtime \<Rightarrow> TableObservation \<Rightarrow> Verdict \<Rightarrow> HistoryEntry" where
  "leg_entry e now table v =
     \<lparr>he_Time = now, he_NodeID = v_NodeID v, he_Database = v_Database v, he_Table = v_Table v,
      he_Partition = v_Partition v, he_PartitionID = v_PartitionID v, he_Action = v_Decision v,
      he_Outcome = '''', he_Duration = 0, he_Bytes = v_BytesOnDisk v, he_Error = no_text,
      he_AttemptID = ex_attemptID e now v, he_Direction = legDirection (obs_Settings table) (v_Decision v)\<rparr>"

text \<open>\<open>Apply\<close>: the entry, the store with the entry in its history, and the run.\<close>

definition ex_Apply ::
  "nat \<Rightarrow> world \<Rightarrow> executor \<Rightarrow> gtime \<Rightarrow> gdur \<Rightarrow> TableObservation \<Rightarrow> Verdict \<Rightarrow> Store \<Rightarrow> run \<Rightarrow>
   (HistoryEntry \<times> Store \<times> run) option" where
  "ex_Apply fuel W e now took table v store r =
     (let entry = leg_entry e now table v in
      case apply_leg fuel W e table v (he_AttemptID entry) r of
        None \<Rightarrow> None
      | Some (err, r') \<Rightarrow>
          (let entry' = (case err of
                 Some x \<Rightarrow> entry\<lparr>he_Duration := took, he_Outcome := ''error'', he_Error := x\<rparr>
               | None \<Rightarrow> entry\<lparr>he_Duration := took, he_Outcome := ''success''\<rparr>)
           in Some (entry', AppendHistory entry' store, r')))"

section \<open>What verification means\<close>

lemma by_name_fold: "map_of (fold (\<lambda>p. amap_put (ph_Name p) p) ps m) = fold (\<lambda>p f. f(ph_Name p \<mapsto> p)) ps (map_of m)"
  by (induction ps arbitrary: m) (simp_all add: update_conv')

lemma fold_upd_get:
  "distinct (map ph_Name ps) \<Longrightarrow>
   fold (\<lambda>p f. f(ph_Name p \<mapsto> p)) ps m n = Some p \<longleftrightarrow>
   p \<in> set ps \<and> ph_Name p = n \<or> n \<notin> ph_Name ` set ps \<and> m n = Some p"
  by (induction ps arbitrary: m) (auto simp: image_iff)

lemma by_name_get: "distinct (map ph_Name ps) \<Longrightarrow> amap_get (by_name ps) n = Some p \<longleftrightarrow> p \<in> set ps \<and> ph_Name p = n"
  by (simp add: by_name_def by_name_fold fold_upd_get)

lemma by_name_ok: "amap_ok (by_name ps)"
proof -
  have "amap_ok m \<Longrightarrow> amap_ok (fold (\<lambda>p. amap_put (ph_Name p) p) ps m)" for m :: "(string, PartHash) amap"
    by (induction ps arbitrary: m) (simp_all add: distinct_update)
  then show ?thesis by (simp add: by_name_def)
qed

lemma by_name_set: "distinct (map ph_Name ps) \<Longrightarrow> set (by_name ps) = (\<lambda>p. (ph_Name p, p)) ` set ps"
proof (rule set_eqI, clarify)
  fix n p assume d: "distinct (map ph_Name ps)"
  have "(n, p) \<in> set (by_name ps) \<longleftrightarrow> p \<in> set ps \<and> ph_Name p = n"
    using by_name_get [OF d] by (metis by_name_ok map_of_eq_Some_iff)
  then show "(n, p) \<in> set (by_name ps) \<longleftrightarrow> (n, p) \<in> (\<lambda>p. (ph_Name p, p)) ` set ps" by auto
qed

lemma by_name_none:
  "distinct (map ph_Name ps) \<Longrightarrow> amap_get (by_name ps) n = None \<longleftrightarrow> n \<notin> ph_Name ` set ps"
  by (simp add: map_of_eq_None_iff by_name_set image_image)

lemma verify_scan_ok:
  "verify_scan cur onTarget bases drift = Inr d \<longleftrightarrow>
   (\<forall>(n, b) \<in> set bases. \<forall>p. amap_get cur n = Some p \<longrightarrow> ph_Hash p = ph_Hash b \<and> onTarget (ph_Disk p)) \<and>
   d = (drift \<or> (\<exists>(n, b) \<in> set bases. amap_get cur n = None))"
  by (induction bases arbitrary: drift) (auto split: option.split prod.split)

definition same_parts :: "PartHash list \<Rightarrow> PartHash list \<Rightarrow> bool" where
  "same_parts xs ys \<longleftrightarrow> (\<lambda>p. (ph_Name p, ph_Hash p)) ` set xs = (\<lambda>p. (ph_Name p, ph_Hash p)) ` set ys"

lemma verify_none_iff:
  assumes "set (order (by_name baseline)) = set (by_name baseline)"
    and "distinct (map ph_Name baseline)" "distinct (map ph_Name current)"
  shows "verifyPartHashes order baseline current onTarget = None \<longleftrightarrow>
    baseline \<noteq> [] \<and> same_parts baseline current \<and> list_all (\<lambda>p. onTarget (ph_Disk p)) current"
proof (cases "baseline = [] \<or> current = []")
  case True
  then show ?thesis by (auto simp: verifyPartHashes_def same_parts_def)
next
  case False
  note set = by_name_set [OF assms(2)] by_name_set [OF assms(3)]
    and none = by_name_none [OF assms(2)] by_name_none [OF assms(3)] and get = by_name_get [OF assms(3)]
  have "verifyPartHashes order baseline current onTarget = None \<longleftrightarrow>
      verify_scan (by_name current) onTarget (order (by_name baseline)) False = Inr False \<and>
      \<not> list_ex (\<lambda>(name, p). amap_get (by_name baseline) name = None) (by_name current)"
    using False by (auto simp: verifyPartHashes_def Let_def split: sum.split)
  also have "\<dots> \<longleftrightarrow> (\<forall>b \<in> set baseline. \<forall>p. p \<in> set current \<and> ph_Name p = ph_Name b \<longrightarrow>
        ph_Hash p = ph_Hash b \<and> onTarget (ph_Disk p)) \<and>
      (\<forall>b \<in> set baseline. ph_Name b \<in> ph_Name ` set current) \<and> (\<forall>p \<in> set current. ph_Name p \<in> ph_Name ` set baseline)"
    by (simp add: verify_scan_ok assms(1) set none get list_ex_iff)
  also have "\<dots> \<longleftrightarrow> same_parts baseline current \<and> (\<forall>p \<in> set current. onTarget (ph_Disk p))"
  proof (intro iffI conjI ballI; (elim conjE)?)
    assume m: "\<forall>b \<in> set baseline. \<forall>p. p \<in> set current \<and> ph_Name p = ph_Name b \<longrightarrow>
        ph_Hash p = ph_Hash b \<and> onTarget (ph_Disk p)"
      and b: "\<forall>b \<in> set baseline. ph_Name b \<in> ph_Name ` set current"
      and c: "\<forall>p \<in> set current. ph_Name p \<in> ph_Name ` set baseline"
    show "same_parts baseline current"
      unfolding same_parts_def
    proof (intro subset_antisym image_subsetI)
      fix x assume x: "x \<in> set baseline"
      with b obtain p where p: "p \<in> set current" "ph_Name p = ph_Name x" by (metis imageE)
      with m x have "ph_Hash p = ph_Hash x" by blast
      with p show "(ph_Name x, ph_Hash x) \<in> (\<lambda>p. (ph_Name p, ph_Hash p)) ` set current" by (intro image_eqI [of _ _ p]) simp_all
    next
      fix p assume p: "p \<in> set current"
      with c obtain x where x: "x \<in> set baseline" "ph_Name p = ph_Name x" by (metis imageE)
      with m p have "ph_Hash p = ph_Hash x" by blast
      with x show "(ph_Name p, ph_Hash p) \<in> (\<lambda>p. (ph_Name p, ph_Hash p)) ` set baseline" by (intro image_eqI [of _ _ x]) simp_all
    qed
    show "onTarget (ph_Disk p)" if "p \<in> set current" for p using m c that by (metis imageE)
  next
    assume s: "same_parts baseline current" and t: "\<forall>p \<in> set current. onTarget (ph_Disk p)"
    show "\<forall>p. p \<in> set current \<and> ph_Name p = ph_Name b \<longrightarrow> ph_Hash p = ph_Hash b \<and> onTarget (ph_Disk p)"
      if "b \<in> set baseline" for b
    proof (intro allI impI conjI; elim conjE)
      fix p assume p: "p \<in> set current" "ph_Name p = ph_Name b"
      have "(ph_Name b, ph_Hash b) \<in> (\<lambda>p. (ph_Name p, ph_Hash p)) ` set current"
        using s that unfolding same_parts_def by blast
      then obtain q where q: "q \<in> set current" "ph_Name q = ph_Name b" "ph_Hash q = ph_Hash b" by auto
      with p assms(3) have "q = p" by (metis distinct_map inj_onD)
      with q show "ph_Hash p = ph_Hash b" by simp
      show "onTarget (ph_Disk p)" using t p by blast
    qed
    have names: "ph_Name ` set baseline = ph_Name ` set current"
      using arg_cong [OF s [unfolded same_parts_def], of "image fst"] by (simp add: image_image)
    show "ph_Name b \<in> ph_Name ` set current" if "b \<in> set baseline" for b
      using that by (simp flip: names)
    show "ph_Name p \<in> ph_Name ` set baseline" if "p \<in> set current" for p
      using that by (simp add: names)
  qed
  finally show ?thesis using False by (simp add: list_all_iff)
qed

text \<open>C37: Verification accepts exactly the right outcome of a move: with distinct part names and any
  order of visiting the map, it passes when and only when there are parts, they are the baseline's
  parts under the same names with the same hashes, and each of them is on the target.\<close>

theorem verification_exact:
  assumes "set (order (by_name baseline)) = set (by_name baseline)"
    and "distinct (map ph_Name baseline)" "distinct (map ph_Name current)"
  shows "verifyPartHashes order baseline current onTarget = None \<longleftrightarrow>
    baseline \<noteq> [] \<and> same_parts baseline current \<and> list_all (\<lambda>p. onTarget (ph_Disk p)) current"
  using assms by (rule verify_none_iff)

theorem verification_exact_witness:
  "verifyPartHashes rev [\<lparr>ph_Name = ''p1'', ph_Hash = ''h'', ph_Disk = ''hot''\<rparr>]
     [\<lparr>ph_Name = ''p1'', ph_Hash = ''h'', ph_Disk = ''cold''\<rparr>] (\<lambda>d. d = ''cold'') = None"
  by (subst verification_exact) (simp_all add: same_parts_def)

section \<open>Polling\<close>

text \<open>The contract of a judgement: it returns success exactly on the good answers.\<close>

locale sound_judge =
  fixes judge :: "nat \<Rightarrow> 'o \<Rightarrow> gotext option + gotext" and good :: "nat \<Rightarrow> 'o \<Rightarrow> bool"
  assumes judge_good: "judge n a = Inl None \<longleftrightarrow> good n a"
begin

lemma poll_success:
  "poll fuel W query judge r = Some (None, r') \<Longrightarrow>
   \<exists>n. r_step r \<le> n \<and> r_step r' = Suc n \<and> good n (query (w_server W n))"
proof (induction fuel arbitrary: r)
  case (Suc fuel)
  show ?case
  proof (cases "judge (r_step r) (query (w_server W (r_step r)))")
    case (Inl result)
    with Suc.prems have "result = None" "r' = tick r" by (simp_all add: ask_def tick_def)
    then show ?thesis using Inl judge_good by (auto simp: tick_def)
  next
    case (Inr stalled)
    with Suc.prems have "poll fuel W query judge (tick (tick r)) = Some (None, r')"
      by (auto simp: ask_def tick_def split: select_event.splits)
    from Suc.IH [OF this] show ?thesis by (auto simp: tick_def)
  qed
qed simp

end

lemma poll_run:
  "poll fuel W query judge r = Some (res, r') \<Longrightarrow>
   r_sent r' = r_sent r \<and> r_retries r' = r_retries r \<and> r_step r \<le> r_step r'"
proof (induction fuel arbitrary: r)
  case (Suc fuel)
  then show ?case
    by (auto simp: ask_def tick_def split: sum.splits select_event.splits) fastforce+
qed simp

lemma poll_more:
  "poll fuel W query judge r = Some x \<Longrightarrow> fuel \<le> fuel' \<Longrightarrow> poll fuel' W query judge r = Some x"
proof (induction fuel arbitrary: r fuel')
  case (Suc fuel)
  then obtain k where k: "fuel' = Suc k" "fuel \<le> k" by (cases fuel') auto
  show ?case using Suc.prems(1) Suc.IH [of _ k] by (auto simp: k ask_def split: sum.splits select_event.splits)
qed simp

text \<open>\<open>waits_end N\<close>: wherever a loop starts to wait, one of its first \<open>N\<close> waits receives the deadline or
  the end of the context (the loop waits at every second moment).\<close>

definition waits_end :: "nat \<Rightarrow> world \<Rightarrow> bool" where
  "waits_end N W \<longleftrightarrow> (\<forall>s. \<exists>j<N. w_select W (s + 2 * j) \<noteq> SelTick)"

lemma poll_ends:
  "j < fuel \<Longrightarrow> w_select W (Suc (r_step r) + 2 * j) \<noteq> SelTick \<Longrightarrow> \<exists>x. poll fuel W query judge r = Some x"
proof (induction fuel arbitrary: r j)
  case (Suc fuel)
  show ?case
  proof (cases j)
    case 0
    with Suc.prems(2) show ?thesis by (auto simp: ask_def tick_def split: sum.split select_event.split)
  next
    case (Suc k)
    with Suc.prems have "\<exists>x. poll fuel W query judge (tick (tick r)) = Some x"
      by (intro Suc.IH [of k]) (simp_all add: tick_def)
    then show ?thesis by (auto simp: ask_def split: sum.split select_event.split)
  qed
qed simp

lemma poll_total:
  assumes "waits_end N W"
  shows "\<exists>x. \<forall>fuel\<ge>N. poll fuel W query judge r = Some x"
proof -
  obtain j where "j < N" "w_select W (Suc (r_step r) + 2 * j) \<noteq> SelTick"
    using assms unfolding waits_end_def by blast
  then obtain x where "poll N W query judge r = Some x" using poll_ends by blast
  then show ?thesis using poll_more by blast
qed

interpretation count_judge: sound_judge "judge_count target"
    "\<lambda>n a. \<exists>p. a = Inr p \<and> part_ActiveParts p \<le> target" for target
  by unfold_locales (auto simp: judge_count_def Let_def split: sum.split)

interpretation disk_judge: sound_judge "judge_disk W onTarget baseline"
    "\<lambda>n a. \<exists>p. a = Inr p \<and> verifyPartHashes (w_order W n) baseline (part_Hashes p) onTarget = None"
    for W onTarget baseline
  by unfold_locales (auto simp: judge_disk_def split: sum.split option.split)

section \<open>Every leg ends\<close>

text \<open>The checks as facts of the server at a moment; each takes one moment and sends nothing.\<close>

text \<open>A statement sent at moment \<open>n\<close> of a run that began at \<open>lo\<close>, with the checks before it.\<close>

definition optimize_guarded :: "world \<Rightarrow> executor \<Rightarrow> TableObservation \<Rightarrow> Verdict \<Rightarrow> string \<Rightarrow> nat \<Rightarrow>
    nat \<times> statement_tag \<times> string \<Rightarrow> bool" where
  "optimize_guarded W e table v a lo s \<longleftrightarrow> (\<exists>i k n. lo \<le> i \<and> i \<le> k \<and> k < n \<and>
     s = (n, statementContext (ex_InstanceID e) a ''optimize'' (optimize_settings table),
          optimize_query (v_Database v) (v_Table v) (v_PartitionID v)) \<and>
     CheckTableIdentity (w_server W i) table = None \<and>
     (is_zero (obs_ObservedAt table) \<or> fresh_inserts (w_server W (Suc i)) table (v_PartitionID v) = None) \<and>
     CheckOptimizeFreeSpace (w_server W k) table v = None)"

definition move_guarded :: "world \<Rightarrow> executor \<Rightarrow> TableObservation \<Rightarrow> Verdict \<Rightarrow> string \<Rightarrow> string \<Rightarrow> nat \<Rightarrow>
    PartHash list \<Rightarrow> nat \<times> statement_tag \<times> string \<Rightarrow> bool" where
  "move_guarded W e table v a clause lo baseline s \<longleftrightarrow> (\<exists>i k n step. lo \<le> i \<and> i < k \<and> Suc k < n \<and>
     s = (n, statementContext (ex_InstanceID e) a step [],
          move_query (v_Database v) (v_Table v) (v_PartitionID v) clause) \<and>
     CheckTableIdentity (w_server W i) table = None \<and>
     (is_zero (obs_ObservedAt table) \<or> fresh_inserts (w_server W (Suc i)) table (v_PartitionID v) = None) \<and>
     baseline_of (w_server W k) table (v_PartitionID v) = Inr baseline \<and>
     CheckMutationsClear (w_server W (Suc k)) table = None)"

lemma ask_eq: "ask W f r = (x, r') \<longleftrightarrow> x = f (w_server W (r_step r)) \<and> r' = tick r"
  by (auto simp: ask_def)

lemma fresh_eq:
  "guardFreshInserts W table pid r = (x, r') \<longleftrightarrow>
   (if is_zero (obs_ObservedAt table) then x = None \<and> r' = r
    else x = fresh_inserts (w_server W (r_step r)) table pid \<and> r' = tick r)"
  by (auto simp: guardFreshInserts_def ask_eq)

lemmas check_defs = ex_checkTableIdentity_def ex_checkMutationsClear_def ex_checkOptimizeFreeSpace_def
  captureMoveBaseline_def

lemma tick_fields [simp]:
  "r_step (tick r) = Suc (r_step r)" "r_sent (tick r) = r_sent r" "r_retries (tick r) = r_retries r"
  by (simp_all add: tick_def)

lemma optimize_shape:
  obtains (refused) err r' where "\<And>fuel. optimize_leg fuel W e table v a r = Some (Some err, r')"
      "r_sent r' = r_sent r" "r_step r \<le> r_step r'"
  | (failed) err r' s where "\<And>fuel. optimize_leg fuel W e table v a r = Some (Some err, r')"
      "r_sent r' = r_sent r @ [s]" "optimize_guarded W e table v a (r_step r) s" "r_step r \<le> r_step r'"
  | (polled) r' s where "\<And>fuel. optimize_leg fuel W e table v a r =
        waitForPartCount fuel W table (v_PartitionID v) (ts_OptimizeToParts (obs_Settings table)) r'"
      "r_sent r' = r_sent r @ [s]" "optimize_guarded W e table v a (r_step r) s" "r_step r \<le> r_step r'"
      "fst s < r_step r'"
proof -
  obtain x1 r1 where i: "ex_checkTableIdentity W table r = (x1, r1)" by fastforce
  obtain x2 r2 where f: "guardFreshInserts W table (v_PartitionID v) r1 = (x2, r2)" by fastforce
  obtain x3 r3 where o': "ex_checkOptimizeFreeSpace W table v r2 = (x3, r3)" by fastforce
  define s where "s = (r_step r3, statementContext (ex_InstanceID e) a ''optimize'' (optimize_settings table),
      optimize_query (v_Database v) (v_Table v) (v_PartitionID v))"
  define r4 where "r4 = (tick r3)\<lparr>r_sent := r_sent r3 @ [s]\<rparr>"
  have m: "r1 = tick r" "r_sent r2 = r_sent r" "r_step r1 \<le> r_step r2" "r_step r2 \<le> Suc (r_step r1)" "r3 = tick r2"
    using i f o' by (auto simp: check_defs ask_eq fresh_eq split: if_splits)
  show thesis
  proof (cases "x1 = None \<and> x2 = None \<and> x3 = None")
    case False
    then have "\<exists>err r'. (\<forall>fuel. optimize_leg fuel W e table v a r = Some (Some err, r')) \<and> r' \<in> {r1, r2, r3}"
      by (cases x1; cases x2; cases x3) (auto simp: optimize_leg_def i f o')
    then show ?thesis using refused m by auto
  next
    case True
    have g: "optimize_guarded W e table v a (r_step r) s"
      unfolding optimize_guarded_def s_def
      using i f o' True m
      by (intro exI [of _ "r_step r"] exI [of _ "r_step r2"] exI [of _ "r_step r3"])
        (auto simp: check_defs ask_eq fresh_eq split: if_splits)
    have r4: "r_sent r4 = r_sent r @ [s]" "r_step r \<le> r_step r4" "fst s < r_step r4"
      using m by (simp_all add: r4_def s_def)
    define answer where "answer = w_exec W (r_step r3) (optimize_query (v_Database v) (v_Table v) (v_PartitionID v))"
    have "(\<exists>err. \<forall>fuel. optimize_leg fuel W e table v a r = Some (Some err, r4)) \<or>
        (\<forall>fuel. optimize_leg fuel W e table v a r = waitForPartCount fuel W table (v_PartitionID v) (ts_OptimizeToParts (obs_Settings table)) r4)"
    proof (cases answer)
      case None
      then show ?thesis
        using True by (simp add: optimize_leg_def i f o' send_statement_def answer_def r4_def s_def)
    next
      case (Some err)
      then show ?thesis
        using True by (cases "isNoopOptimize (ex_unicode e) err")
          (simp_all add: optimize_leg_def i f o' send_statement_def answer_def r4_def s_def)
    qed
    then show ?thesis using r4 g failed polled by metis
  qed
qed

lemma attempt_shape:
  obtains (refused) err r' where "\<And>fuel. moveAttempt fuel W e table v a clause onTarget k r = Some (Some err, r')"
      "r_sent r' = r_sent r" "r_step r \<le> r_step r'"
  | (failed) err r' s b where "\<And>fuel. moveAttempt fuel W e table v a clause onTarget k r = Some (Some err, r')"
      "r_sent r' = r_sent r @ [s]" "move_guarded W e table v a clause (r_step r) b s" "r_step r \<le> r_step r'"
  | (polled) r' s b where "\<And>fuel. moveAttempt fuel W e table v a clause onTarget k r =
        waitForVerifiedDisk fuel W table (v_PartitionID v) onTarget b r'"
      "r_sent r' = r_sent r @ [s]" "move_guarded W e table v a clause (r_step r) b s" "r_step r \<le> r_step r'"
      "fst s < r_step r'"
proof -
  obtain x1 r1 where i: "ex_checkTableIdentity W table r = (x1, r1)" by fastforce
  obtain x2 r2 where f: "guardFreshInserts W table (v_PartitionID v) r1 = (x2, r2)" by fastforce
  obtain x3 r3 where b: "captureMoveBaseline W table (v_PartitionID v) r2 = (x3, r3)" by fastforce
  obtain x4 r4 where c: "ex_checkMutationsClear W table r3 = (x4, r4)" by fastforce
  define s where "s = (r_step r4, statementContext (ex_InstanceID e) a (''move-'' @ show_nat (k + 1)) [],
      move_query (v_Database v) (v_Table v) (v_PartitionID v) clause)"
  define r5 where "r5 = (tick r4)\<lparr>r_sent := r_sent r4 @ [s]\<rparr>"
  have m: "r1 = tick r" "r_sent r2 = r_sent r" "r_step r1 \<le> r_step r2" "r3 = tick r2" "r4 = tick r3"
    using i f b c by (auto simp: check_defs ask_eq fresh_eq split: if_splits)
  show thesis
  proof (cases "\<exists>base. x1 = None \<and> x2 = None \<and> x3 = Inr base \<and> x4 = None")
    case False
    then have "\<exists>err r'. (\<forall>fuel. moveAttempt fuel W e table v a clause onTarget k r = Some (Some err, r')) \<and>
        r' \<in> {r1, r2, r3, r4}"
      by (cases x1; cases x2; cases x3; cases x4) (auto simp: moveAttempt_def i f b c)
    then show ?thesis using refused m by auto
  next
    case True
    then obtain base where ok: "x1 = None" "x2 = None" "x3 = Inr base" "x4 = None" by blast
    have g: "move_guarded W e table v a clause (r_step r) base s"
      unfolding move_guarded_def s_def
      using i f b c ok m
      by (intro exI [of _ "r_step r"] exI [of _ "r_step r2"] exI [of _ "r_step r4"]
          exI [of _ "''move-'' @ show_nat (k + 1)"])
        (auto simp: check_defs ask_eq fresh_eq split: if_splits)
    have r5: "r_sent r5 = r_sent r @ [s]" "r_step r \<le> r_step r5" "fst s < r_step r5"
      using m by (simp_all add: r5_def s_def)
    define answer where "answer = w_exec W (r_step r4) (move_query (v_Database v) (v_Table v) (v_PartitionID v) clause)"
    have "(\<exists>err. \<forall>fuel. moveAttempt fuel W e table v a clause onTarget k r = Some (Some err, r5)) \<or>
        (\<forall>fuel. moveAttempt fuel W e table v a clause onTarget k r = waitForVerifiedDisk fuel W table (v_PartitionID v) onTarget base r5)"
    proof (cases answer)
      case None
      then show ?thesis
        using ok by (simp add: moveAttempt_def i f b c send_statement_def answer_def r5_def s_def)
    next
      case (Some err)
      then show ?thesis
        using ok by (cases "isAlreadyMoved (ex_unicode e) err")
          (simp_all add: moveAttempt_def i f b c send_statement_def answer_def r5_def s_def)
    qed
    then show ?thesis using r5 g failed polled by metis
  qed
qed

lemma optimize_total:
  assumes "waits_end N W"
  shows "\<exists>x. \<forall>fuel\<ge>N. optimize_leg fuel W e table v a r = Some x"
  using poll_total [OF assms]
  by (cases rule: optimize_shape [of W e table v a r]) (auto simp: waitForPartCount_def)

lemma attempt_total:
  assumes "waits_end N W"
  shows "\<exists>x. \<forall>fuel\<ge>N. moveAttempt fuel W e table v a clause onTarget k r = Some x"
  using poll_total [OF assms]
  by (cases rule: attempt_shape [of W e table v a clause onTarget k r]) (auto simp: waitForVerifiedDisk_def)


lemma attempts_total:
  assumes "waits_end N W"
  shows "\<exists>x. \<forall>fuel\<ge>N. move_attempts fuel W e table v a clause onTarget ks r = Some x"
proof (induction ks arbitrary: r)
  case (Cons k ks)
  obtain res r1 where m: "\<forall>fuel\<ge>N. moveAttempt fuel W e table v a clause onTarget k r = Some (res, r1)"
    using attempt_total [OF assms, of e table v a clause onTarget k r] by auto
  obtain y where y: "\<forall>fuel\<ge>N. move_attempts fuel W e table v a clause onTarget ks
      (r1\<lparr>r_retries := Suc (r_retries r1)\<rparr>) = Some y" using Cons.IH by blast
  with m show ?case
  proof (cases res)
    case (Some err)
    show ?thesis
      by (cases "errors_is err errVerifyNotOnTarget \<or> errors_is err errVerifyBaselineDrift")
        (use m y Some in auto)
  qed auto
qed simp

text \<open>C16: Every leg ends: when each wait receives its deadline or the end of its context within its first
  \<open>N\<close> rounds, any fuel from \<open>N\<close> on gives one and the same result, so \<open>Apply\<close> returns an entry, of
  outcome success or error, and the entry is the newest of the history.\<close>

theorem leg_terminates:
  assumes "waits_end N W"
  shows "\<exists>entry store' r'. (\<forall>fuel\<ge>N. ex_Apply fuel W e now took table v store r = Some (entry, store', r')) \<and>
    he_Outcome entry \<in> {''success'', ''error''} \<and> store' = AppendHistory entry store"
proof -
  have "\<exists>x. \<forall>fuel\<ge>N. apply_leg fuel W e table v a r = Some x" for a
    using optimize_total [OF assms] attempts_total [OF assms]
    by (cases "v_Decision v"; cases "ts_OptimizeOn (obs_Settings table) = OptimizeOnCold"; cases "obs_HotVolume table")
      (simp_all add: apply_leg_def moveToCold_def moveToHot_def moveLoop_def del: move_attempts.simps split_paired_Ex)
  then obtain err r' where "\<forall>fuel\<ge>N. apply_leg fuel W e table v (he_AttemptID (leg_entry e now table v)) r = Some (err, r')"
    by (metis surj_pair)
  then show ?thesis by (cases err) (auto simp: ex_Apply_def Let_def)
qed

definition stuck_world :: "server \<Rightarrow> world" where
  "stuck_world S = \<lparr>w_server = \<lambda>_. S, w_exec = \<lambda>_ _. None, w_select = \<lambda>_. SelDeadline, w_order = \<lambda>_. id\<rparr>"

lemma stuck_ends: "waits_end 1 (stuck_world S)"
  by (simp add: waits_end_def stuck_world_def)

theorem leg_terminates_witness:
  "\<exists>entry store' r'. ex_Apply 1 (stuck_world failing_server) (NewExecutor sample_unicode ''m1'') 0 0 sample_table
      sample_verdict (NewStore 0 10) start_run = Some (entry, store', r') \<and> he_Outcome entry \<in> {''success'', ''error''}"
  using leg_terminates [OF stuck_ends, of failing_server "NewExecutor sample_unicode ''m1''" 0 0 sample_table
      sample_verdict "NewStore 0 10" start_run] by blast

section \<open>What a leg sends\<close>

text \<open>The statements a run adds, each with the checks that preceded it.\<close>

definition leg_clause :: "TableObservation \<Rightarrow> Verdict \<Rightarrow> string" where
  "leg_clause table v =
     (if v_Decision v = DecisionConsolidate \<and> ts_OptimizeOn (obs_Settings table) \<noteq> OptimizeOnCold
      then ''TO VOLUME '' @ QuoteString (obs_HotVolume table)
      else ''TO DISK '' @ QuoteString (ts_TargetDisk (obs_Settings table)))"

definition leg_target :: "TableObservation \<Rightarrow> Verdict \<Rightarrow> string \<Rightarrow> bool" where
  "leg_target table v disk =
     (if v_Decision v = DecisionConsolidate \<and> ts_OptimizeOn (obs_Settings table) \<noteq> OptimizeOnCold
      then disk \<noteq> ts_TargetDisk (obs_Settings table) else disk = ts_TargetDisk (obs_Settings table))"

definition moves_parts :: "Verdict \<Rightarrow> bool" where
  "moves_parts v \<longleftrightarrow> v_Decision v \<in> {DecisionTier, DecisionAppend, DecisionConsolidate}"

lemma apply_leg_cases:
  "apply_leg fuel W e table v a r =
    (if v_Decision v = DecisionOptimize then optimize_leg fuel W e table v a r
     else if v_Decision v = DecisionConsolidate \<and> ts_OptimizeOn (obs_Settings table) \<noteq> OptimizeOnCold \<and>
       obs_HotVolume table = '''' then Some (Some (lit ''hot volume is not known to consolidate toward''), r)
     else if moves_parts v then moveLoop fuel W e table v a (leg_clause table v) (leg_target table v) r
     else Some (Some (Fmt ''decision %q is not actionable'' [AStr (decision_text (v_Decision v))]), r))"
  by (cases "v_Decision v")
    (auto simp: apply_leg_def moves_parts_def leg_clause_def leg_target_def fun_eq_iff moveToCold_def moveToHot_def
      simp del: move_attempts.simps intro!: arg_cong2 [where f = "\<lambda>c t. moveLoop fuel W e table v a c t r"])

lemma attempt_sends:
  assumes "moveAttempt fuel W e table v a clause onTarget k r = Some (res, r')"
  shows "r_step r \<le> r_step r' \<and> (\<exists>new. r_sent r' = r_sent r @ new \<and> length new \<le> 1 \<and>
    list_all (\<lambda>s. \<exists>b. move_guarded W e table v a clause (r_step r) b s) new)"
proof (cases rule: attempt_shape [of W e table v a clause onTarget k r])
  case (refused err r1)
  then show ?thesis using assms by simp
next
  case (failed err r1 s b)
  then show ?thesis using assms by (intro conjI exI [of _ "[s]"]) auto
next
  case (polled r1 s b)
  have "waitForVerifiedDisk fuel W table (v_PartitionID v) onTarget b r1 = Some (res, r')"
    using assms polled(1) by simp
  from poll_run [OF this [unfolded waitForVerifiedDisk_def]] show ?thesis using polled by (intro conjI exI [of _ "[s]"]) auto
qed

lemma move_guarded_earlier:
  "lo \<le> lo' \<Longrightarrow> move_guarded W e table v a clause lo' b s \<Longrightarrow> move_guarded W e table v a clause lo b s"
  unfolding move_guarded_def
proof (elim exE)
  fix i k n step
  assume "lo \<le> lo'" and *: "lo' \<le> i \<and> i < k \<and> Suc k < n \<and>
     s = (n, statementContext (ex_InstanceID e) a step [],
          move_query (v_Database v) (v_Table v) (v_PartitionID v) clause) \<and>
     CheckTableIdentity (w_server W i) table = None \<and>
     (is_zero (obs_ObservedAt table) \<or> fresh_inserts (w_server W (Suc i)) table (v_PartitionID v) = None) \<and>
     baseline_of (w_server W k) table (v_PartitionID v) = Inr b \<and>
     CheckMutationsClear (w_server W (Suc k)) table = None"
  then have "lo \<le> i" by simp
  with * show "\<exists>i k n step. lo \<le> i \<and> i < k \<and> Suc k < n \<and>
     s = (n, statementContext (ex_InstanceID e) a step [],
          move_query (v_Database v) (v_Table v) (v_PartitionID v) clause) \<and>
     CheckTableIdentity (w_server W i) table = None \<and>
     (is_zero (obs_ObservedAt table) \<or> fresh_inserts (w_server W (Suc i)) table (v_PartitionID v) = None) \<and>
     baseline_of (w_server W k) table (v_PartitionID v) = Inr b \<and>
     CheckMutationsClear (w_server W (Suc k)) table = None"
    by (intro exI [of _ i] exI [of _ k] exI [of _ n] exI [of _ step]) simp
qed

lemma attempts_sends:
  assumes "move_attempts fuel W e table v a clause onTarget ks r = Some (res, r')"
  shows "\<exists>new. r_sent r' = r_sent r @ new \<and> length new \<le> length ks \<and>
    list_all (\<lambda>s. \<exists>b. move_guarded W e table v a clause (r_step r) b s) new"
  using assms
proof (induction ks arbitrary: r)
  case Nil
  then show ?case by simp
next
  case (Cons k ks)
  obtain res1 r1 where m: "moveAttempt fuel W e table v a clause onTarget k r = Some (res1, r1)"
    using Cons.prems by (auto split: option.splits)
  obtain new where new: "r_sent r1 = r_sent r @ new" "length new \<le> 1" "r_step r \<le> r_step r1"
    "list_all (\<lambda>s. \<exists>b. move_guarded W e table v a clause (r_step r) b s) new"
    using attempt_sends [OF m] by blast
  define r2 where "r2 = r1\<lparr>r_retries := Suc (r_retries r1)\<rparr>"
  have r2: "r_sent r2 = r_sent r1" "r_step r2 = r_step r1" by (simp_all add: r2_def)
  have "(res, r') = (res1, r1) \<or> move_attempts fuel W e table v a clause onTarget ks r2 = Some (res, r')"
    using Cons.prems m by (auto simp: r2_def split: option.splits if_splits)
  then show ?case
  proof
    assume "(res, r') = (res1, r1)"
    then show ?thesis using new by (intro exI [of _ new]) auto
  next
    assume "move_attempts fuel W e table v a clause onTarget ks r2 = Some (res, r')"
    from Cons.IH [OF this] obtain more where more: "r_sent r' = r_sent r2 @ more" "length more \<le> length ks"
      "list_all (\<lambda>s. \<exists>b. move_guarded W e table v a clause (r_step r2) b s) more" by blast
    have "list_all (\<lambda>s. \<exists>b. move_guarded W e table v a clause (r_step r) b s) more"
      using more(3) move_guarded_earlier [OF new(3)] unfolding r2 list_all_iff by blast
    with new more(1,2) show ?thesis by (intro exI [of _ "new @ more"]) (auto simp: r2)
  qed
qed

lemma optimize_sends:
  assumes "optimize_leg fuel W e table v a r = Some (res, r')"
  shows "\<exists>new. r_sent r' = r_sent r @ new \<and> length new \<le> 1 \<and>
    list_all (optimize_guarded W e table v a (r_step r)) new"
proof (cases rule: optimize_shape [of W e table v a r])
  case (refused err r1)
  then show ?thesis using assms by simp
next
  case (failed err r1 s)
  then show ?thesis using assms by (intro exI [of _ "[s]"]) auto
next
  case (polled r1 s)
  have "waitForPartCount fuel W table (v_PartitionID v) (ts_OptimizeToParts (obs_Settings table)) r1 = Some (res, r')"
    using assms polled(1) by simp
  from poll_run [OF this [unfolded waitForPartCount_def]] show ?thesis using polled by (intro exI [of _ "[s]"]) auto
qed

text \<open>C2: A leg sends nothing unguarded: whatever the server answers, a run of \<open>Apply\<close> sends at most one
  OPTIMIZE, or at most three MOVEs, of the verdict's own partition and toward the leg's own
  destination, under the instance's tag; and before each statement, within the same run, the table's
  identity was confirmed, no fresh insert was seen, and the free space (for OPTIMIZE) or the baseline
  and then the mutations (for MOVE) were checked. A verdict that is not actionable sends nothing.\<close>

theorem statements_guarded:
  assumes "ex_Apply fuel W e now took table v store r = Some (entry, store', r')"
  shows "\<exists>new. r_sent r' = r_sent r @ new \<and>
    (if v_Decision v = DecisionOptimize
     then length new \<le> 1 \<and> list_all (optimize_guarded W e table v (he_AttemptID entry) (r_step r)) new
     else if moves_parts v
     then length new \<le> 3 \<and>
       list_all (\<lambda>s. \<exists>b. move_guarded W e table v (he_AttemptID entry) (leg_clause table v) (r_step r) b s) new
     else new = [])"
proof -
  define a where "a = he_AttemptID (leg_entry e now table v)"
  obtain err where leg: "apply_leg fuel W e table v a r = Some (err, r')"
    and a: "he_AttemptID entry = a"
    using assms by (auto simp: ex_Apply_def a_def Let_def split: option.splits)
  consider (opt) "v_Decision v = DecisionOptimize"
    | (move) "v_Decision v \<noteq> DecisionOptimize" "moves_parts v"
        "move_attempts fuel W e table v a (leg_clause table v) (leg_target table v) [0, 1, 2] r = Some (err, r')"
    | (idle) "v_Decision v \<noteq> DecisionOptimize" "r' = r"
    using leg by (auto simp: apply_leg_cases moveLoop_def simp del: move_attempts.simps split: if_splits)
  then show ?thesis
  proof cases
    case opt
    with leg have "optimize_leg fuel W e table v a r = Some (err, r')" by (simp add: apply_leg_cases)
    with opt optimize_sends show ?thesis by (simp add: a)
  next
    case move
    show ?thesis using attempts_sends [OF move(3)] move(1,2) by (simp add: a numeral_3_eq_3)
  next
    case idle
    then show ?thesis by (intro exI [of _ "[]"]) simp
  qed
qed

section \<open>What success means\<close>

lemma attempt_success:
  assumes "moveAttempt fuel W e table v a clause onTarget k r = Some (None, r')"
  shows "\<exists>b s n p. move_guarded W e table v a clause (r_step r) b s \<and> s \<in> set (r_sent r') \<and> fst s < n \<and> n < r_step r' \<and>
    RefreshPartition (w_server W n) table (v_PartitionID v) = Inr p \<and>
    verifyPartHashes (w_order W n) b (part_Hashes p) onTarget = None"
proof (cases rule: attempt_shape [of W e table v a clause onTarget k r])
  case (polled r1 s b)
  have p: "waitForVerifiedDisk fuel W table (v_PartitionID v) onTarget b r1 = Some (None, r')"
    using assms polled(1) by simp
  from disk_judge.poll_success [OF p [unfolded waitForVerifiedDisk_def]]
  obtain n p where "r_step r1 \<le> n" "r_step r' = Suc n"
    "RefreshPartition (w_server W n) table (v_PartitionID v) = Inr p"
    "verifyPartHashes (w_order W n) b (part_Hashes p) onTarget = None" by blast
  moreover have "s \<in> set (r_sent r')"
    using poll_run [OF p [unfolded waitForVerifiedDisk_def]] polled(2) by simp
  ultimately show ?thesis
    using polled(3,5) by (intro exI [of _ b] exI [of _ s] exI [of _ n] exI [of _ p]) auto
qed (use assms in simp_all)

lemma attempts_success:
  assumes "move_attempts fuel W e table v a clause onTarget ks r = Some (None, r')"
  shows "\<exists>b s n p. move_guarded W e table v a clause (r_step r) b s \<and> s \<in> set (r_sent r') \<and> fst s < n \<and> n < r_step r' \<and>
    RefreshPartition (w_server W n) table (v_PartitionID v) = Inr p \<and>
    verifyPartHashes (w_order W n) b (part_Hashes p) onTarget = None"
  using assms
proof (induction ks arbitrary: r)
  case (Cons k ks)
  obtain res1 r1 where m: "moveAttempt fuel W e table v a clause onTarget k r = Some (res1, r1)"
    using Cons.prems by (auto split: option.splits)
  show ?case
  proof (cases res1)
    case None
    with m Cons.prems have "moveAttempt fuel W e table v a clause onTarget k r = Some (None, r')" by simp
    then show ?thesis by (rule attempt_success)
  next
    case (Some err)
    with m Cons.prems have rest: "move_attempts fuel W e table v a clause onTarget ks
        (r1\<lparr>r_retries := Suc (r_retries r1)\<rparr>) = Some (None, r')"
      by (auto split: if_splits)
    have "r_step r \<le> r_step (r1\<lparr>r_retries := Suc (r_retries r1)\<rparr>)" using attempt_sends [OF m] by simp
    with Cons.IH [OF rest] show ?thesis by (meson move_guarded_earlier)
  qed
qed simp

lemma optimize_success:
  assumes "optimize_leg fuel W e table v a r = Some (None, r')"
  shows "\<exists>s n p. optimize_guarded W e table v a (r_step r) s \<and> s \<in> set (r_sent r') \<and> fst s < n \<and> n < r_step r' \<and>
    RefreshPartition (w_server W n) table (v_PartitionID v) = Inr p \<and>
    part_ActiveParts p \<le> ts_OptimizeToParts (obs_Settings table)"
proof (cases rule: optimize_shape [of W e table v a r])
  case (polled r1 s)
  have p: "waitForPartCount fuel W table (v_PartitionID v) (ts_OptimizeToParts (obs_Settings table)) r1 = Some (None, r')"
    using assms polled(1) by simp
  from count_judge.poll_success [OF p [unfolded waitForPartCount_def]]
  obtain n p where "r_step r1 \<le> n" "r_step r' = Suc n"
    "RefreshPartition (w_server W n) table (v_PartitionID v) = Inr p"
    "part_ActiveParts p \<le> ts_OptimizeToParts (obs_Settings table)" by blast
  moreover have "s \<in> set (r_sent r')"
    using poll_run [OF p [unfolded waitForPartCount_def]] polled(2) by simp
  ultimately show ?thesis
    using polled(3,5) by (intro exI [of _ s] exI [of _ n] exI [of _ p]) auto
qed (use assms in simp_all)

text \<open>The parts that two looks of a run at the partition saw: the same parts, all at the destination.\<close>

definition moved_intact :: "world \<Rightarrow> TableObservation \<Rightarrow> Verdict \<Rightarrow> nat \<Rightarrow> nat \<Rightarrow> bool" where
  "moved_intact W table v k n \<longleftrightarrow> (\<exists>q p.
     RefreshPartition (w_server W k) table (v_PartitionID v) = Inr q \<and>
     RefreshPartition (w_server W n) table (v_PartitionID v) = Inr p \<and>
     part_Hashes q \<noteq> [] \<and> same_parts (part_Hashes q) (part_Hashes p) \<and>
     list_all (\<lambda>h. leg_target table v (ph_Disk h)) (part_Hashes p))"

definition names_distinct :: "world \<Rightarrow> TableObservation \<Rightarrow> Verdict \<Rightarrow> bool" where
  "names_distinct W table v \<longleftrightarrow> (\<forall>n p. RefreshPartition (w_server W n) table (v_PartitionID v) = Inr p \<longrightarrow>
     distinct (map ph_Name (part_Hashes p)))"

text \<open>C1: Success is observed, never assumed: when \<open>Apply\<close> reports success for a move, the run saw the
  partition at two moments, before its statement and after it, with the same parts under the same
  hashes, and at the later one every part was at the leg's destination; for an optimize the
  partition was seen after the statement with no more parts than asked for. (The server lists a part
  once; a map is visited completely, in any order.)\<close>

theorem success_is_verified:
  assumes "ex_Apply fuel W e now took table v store r = Some (entry, store', r')" "he_Outcome entry = ''success''"
    and "\<And>n xs. set (w_order W n xs) = set xs" "names_distinct W table v"
  shows "(moves_parts v \<and> (\<exists>k m n. k < m \<and> m < n \<and> n < r_step r' \<and> moved_intact W table v k n \<and>
      (\<exists>tag. (m, tag, move_query (v_Database v) (v_Table v) (v_PartitionID v) (leg_clause table v)) \<in> set (r_sent r')))) \<or>
    (v_Decision v = DecisionOptimize \<and> (\<exists>m n p tag. m < n \<and> n < r_step r' \<and>
      (m, tag, optimize_query (v_Database v) (v_Table v) (v_PartitionID v)) \<in> set (r_sent r') \<and>
      RefreshPartition (w_server W n) table (v_PartitionID v) = Inr p \<and>
      part_ActiveParts p \<le> ts_OptimizeToParts (obs_Settings table)))"
proof -
  define a where "a = he_AttemptID (leg_entry e now table v)"
  have leg: "apply_leg fuel W e table v a r = Some (None, r')"
    using assms(1,2) by (auto simp: ex_Apply_def a_def leg_entry_def Let_def split: option.splits)
  consider (opt) "v_Decision v = DecisionOptimize" "optimize_leg fuel W e table v a r = Some (None, r')"
    | (move) "moves_parts v"
        "move_attempts fuel W e table v a (leg_clause table v) (leg_target table v) [0, 1, 2] r = Some (None, r')"
    using leg by (auto simp: apply_leg_cases moveLoop_def simp del: move_attempts.simps split: if_splits)
  then show ?thesis
  proof cases
    case opt
    from optimize_success [OF opt(2)] obtain s n p where s: "optimize_guarded W e table v a (r_step r) s"
      "s \<in> set (r_sent r')" "fst s < n" "n < r_step r'"
      "RefreshPartition (w_server W n) table (v_PartitionID v) = Inr p"
      "part_ActiveParts p \<le> ts_OptimizeToParts (obs_Settings table)" by blast
    from s(1) obtain m tag where "s = (m, tag, optimize_query (v_Database v) (v_Table v) (v_PartitionID v))"
      unfolding optimize_guarded_def by blast
    with s opt(1) show ?thesis by (intro disjI2 conjI exI [of _ m] exI [of _ n] exI [of _ p] exI [of _ tag]) auto
  next
    case move
    from attempts_success [OF move(2)] obtain b s n p where s:
      "move_guarded W e table v a (leg_clause table v) (r_step r) b s" "s \<in> set (r_sent r')" "fst s < n"
      "n < r_step r'" "RefreshPartition (w_server W n) table (v_PartitionID v) = Inr p"
      "verifyPartHashes (w_order W n) b (part_Hashes p) (leg_target table v) = None" by blast
    from s(1) obtain k m tag where k: "Suc k < m"
      "s = (m, tag, move_query (v_Database v) (v_Table v) (v_PartitionID v) (leg_clause table v))"
      "baseline_of (w_server W k) table (v_PartitionID v) = Inr b"
      unfolding move_guarded_def by blast
    from k(3) obtain q where q: "RefreshPartition (w_server W k) table (v_PartitionID v) = Inr q"
      "part_Hashes q = b" "b \<noteq> []"
      by (auto simp: baseline_of_def split: sum.splits if_splits)
    have d: "distinct (map ph_Name b)" "distinct (map ph_Name (part_Hashes p))"
      using assms(4) q s(5) unfolding names_distinct_def by blast+
    have "same_parts b (part_Hashes p) \<and> list_all (\<lambda>h. leg_target table v (ph_Disk h)) (part_Hashes p)"
      using verify_none_iff [where order = "w_order W n", OF assms(3) d] s(6) by blast
    then have "moved_intact W table v k n" unfolding moved_intact_def using q s(5) by blast
    then show ?thesis using move(1) k(1,2) s(2-4)
      by (intro disjI1 conjI exI [of _ k] exI [of _ m] exI [of _ n] exI [of _ tag]) auto
  qed
qed

definition parts_on_disk :: "string \<Rightarrow> server" where
  "parts_on_disk disk = failing_server
     \<lparr>q_new_parts := \<lambda>_ _ _ _. Inr 0, q_mutations := \<lambda>_ _. Inr ([], EndOfRows),
      q_parts := \<lambda>_ _. Inr ([\<lparr>pr_partition = ''202310'', pr_partition_id = ''202310'', pr_name = ''p1'', pr_hash = ''h'',
         pr_disk = disk, pr_rows = 1, pr_bytes = 5, pr_modified = 0\<rparr>], EndOfRows)\<rparr>"

definition move_world :: world where
  "move_world = \<lparr>w_server = \<lambda>n. parts_on_disk (if n < 5 then ''hot'' else ts_TargetDisk (obs_Settings sample_table)),
     w_exec = \<lambda>_ _. None, w_select = \<lambda>_. SelTick, w_order = \<lambda>_. id\<rparr>"

lemma sample_refresh:
  "\<exists>p. RefreshPartition (parts_on_disk d) table ''202310'' = Inr p \<and>
     part_Hashes p = [\<lparr>ph_Name = ''p1'', ph_Hash = ''h'', ph_Disk = d\<rparr>]"
  by (simp add: RefreshPartition_def collectPartitionRollup_def parts_on_disk_def all_rows_def rollup_def
      rollup_step_def sort_disks_def count_part_def new_partition_def zero_partition_def Let_def split: sum.split)

lemma sample_verdict_fields:
  "v_PartitionID sample_verdict = ''202310''" "v_Decision sample_verdict = DecisionTier"
  by (simp_all add: sample_verdict_def baseVerdict_def sample_month_def Let_def)

lemma sample_checks:
  "CheckTableIdentity S sample_table = None" "fresh_inserts (parts_on_disk d) sample_table pid = None"
  "CheckMutationsClear (parts_on_disk d) sample_table = None" "\<not> is_zero (obs_ObservedAt sample_table)"
  "baseline_of (parts_on_disk d) sample_table ''202310'' = Inr [\<lparr>ph_Name = ''p1'', ph_Hash = ''h'', ph_Disk = d\<rparr>]"
  using sample_refresh [of d sample_table]
  by (auto simp: CheckTableIdentity_def Let_def sample_table_def starts_table_def zero_layout_def fresh_inserts_def
      CountInsertsSince_def parts_on_disk_def CheckMutationsClear_def collectMutations_def all_rows_def
      is_zero_def zero_time_def baseline_of_def)

lemma move_world_succeeds:
  "\<exists>entry store' r'. ex_Apply 1 move_world (NewExecutor sample_unicode ''m1'') 0 0 sample_table sample_verdict
     (NewStore 0 10) start_run = Some (entry, store', r') \<and> he_Outcome entry = ''success''"
proof -
  obtain p where p: "RefreshPartition (parts_on_disk (ts_TargetDisk (obs_Settings sample_table))) sample_table ''202310'' = Inr p"
    "part_Hashes p = [\<lparr>ph_Name = ''p1'', ph_Hash = ''h'', ph_Disk = ts_TargetDisk (obs_Settings sample_table)\<rparr>]"
    using sample_refresh by blast
  have v: "verifyPartHashes id [\<lparr>ph_Name = ''p1'', ph_Hash = ''h'', ph_Disk = ''hot''\<rparr>] (part_Hashes p)
      (leg_target sample_table sample_verdict) = None"
    by (simp add: p verifyPartHashes_def by_name_def leg_target_def sample_verdict_fields)
  have "\<exists>r'. moveAttempt 1 move_world e sample_table sample_verdict a c (leg_target sample_table sample_verdict) 0 start_run =
      Some (None, r')" for e a c
    using v by (simp add: moveAttempt_def check_defs ask_def fresh_eq guardFreshInserts_def sample_checks
        sample_verdict_fields move_world_def start_run_def send_statement_def waitForVerifiedDisk_def judge_disk_def
        tick_def p)
  then obtain r' where "moveAttempt 1 move_world (NewExecutor sample_unicode ''m1'') sample_table sample_verdict
      (he_AttemptID (leg_entry (NewExecutor sample_unicode ''m1'') 0 sample_table sample_verdict))
      (leg_clause sample_table sample_verdict) (leg_target sample_table sample_verdict) 0 start_run = Some (None, r')"
    by blast
  then show ?thesis
    by (simp add: ex_Apply_def apply_leg_cases sample_verdict_fields moves_parts_def moveLoop_def Let_def)
qed

lemma move_world_names: "names_distinct move_world sample_table sample_verdict"
proof -
  have "distinct (map ph_Name (part_Hashes p))"
    if "RefreshPartition (parts_on_disk d) sample_table ''202310'' = Inr p" for d p
    using that sample_refresh [of d sample_table] by auto
  then show ?thesis by (auto simp: names_distinct_def move_world_def sample_verdict_fields)
qed

theorem success_is_verified_witness:
  "\<exists>(r' :: run) k m n. k < m \<and> m < n \<and> n < r_step r' \<and> moved_intact move_world sample_table sample_verdict k n"
proof -
  obtain entry store' r' where a: "ex_Apply 1 move_world (NewExecutor sample_unicode ''m1'') 0 0 sample_table
      sample_verdict (NewStore 0 10) start_run = Some (entry, store', r')" "he_Outcome entry = ''success''"
    using move_world_succeeds by blast
  have "set (w_order move_world n xs) = set xs" for n xs by (simp add: move_world_def)
  from success_is_verified [OF a this move_world_names]
  have "\<exists>k m n. k < m \<and> m < n \<and> n < r_step r' \<and> moved_intact move_world sample_table sample_verdict k n"
    by (auto simp: sample_verdict_fields)
  then show ?thesis by (rule exI)
qed

theorem statements_guarded_witness:
  "\<exists>(entry :: HistoryEntry) (r' :: run) new. r_sent r' = new \<and> length new \<le> 3 \<and>
     list_all (\<lambda>s. \<exists>b. move_guarded move_world (NewExecutor sample_unicode ''m1'') sample_table sample_verdict
       (he_AttemptID entry) (leg_clause sample_table sample_verdict) 0 b s) new"
proof -
  obtain entry store' r' where a: "ex_Apply 1 move_world (NewExecutor sample_unicode ''m1'') 0 0 sample_table
      sample_verdict (NewStore 0 10) start_run = Some (entry, store', r')" "he_Outcome entry = ''success''"
    using move_world_succeeds by blast
  from statements_guarded [OF a(1)] show ?thesis
    by (intro exI [of _ entry] exI [of _ r']) (auto simp: sample_verdict_fields moves_parts_def start_run_def)
qed

end
