(* ===== verification/PlanStoreSpec.thy ===== *)
theory PlanStoreSpec
  imports PlanStore
begin

text \<open>
  What the plan store (\<open>internal/tiering/plan.go\<close>) promises, as an abstract specification, and the
  proof that its methods implement it: a map from tables to their latest plans, the complete log of
  the actions, and the status. The store keeps a list of entries and only the end of the log.
\<close>

section \<open>Simulation\<close>

text \<open>The frame: a step function that follows a specification, over any sequence of operations.\<close>

locale simulation =
  fixes step :: "'op \<Rightarrow> 's \<Rightarrow> 's"
    and spec :: "'op \<Rightarrow> 'a \<Rightarrow> 'a"
    and rel :: "'s \<Rightarrow> 'a \<Rightarrow> bool"
  assumes step_follows: "rel s a \<Longrightarrow> rel (step x s) (spec x a)"
begin

lemma run_follows: "rel s a \<Longrightarrow> rel (fold step xs s) (fold spec xs a)"
  by (induction xs arbitrary: s a) (simp_all add: step_follows)

end

section \<open>Operations and their specification\<close>

datatype store_op =
    OpPublish TablePlan
  | OpError gtime string string string string gotext gdur
  | OpAppend HistoryEntry
  | OpSetStatus gtime StatusSnapshot
  | OpPause gtime PauseReason
  | OpResume gtime

fun run_op :: "store_op \<Rightarrow> Store \<Rightarrow> Store" where
  "run_op (OpPublish plan) s = Publish plan s"
| "run_op (OpError now n d t g e dur) s = PublishError now n d t g e dur s"
| "run_op (OpAppend entry) s = AppendHistory entry s"
| "run_op (OpSetStatus now status) s = SetStatus now status s"
| "run_op (OpPause now reason) s = Pause now reason s"
| "run_op (OpResume now) s = Resume now s"

record plan_book =
  pb_plans :: "table_key \<rightharpoonup> TablePlan"
  pb_log :: "HistoryEntry list"
  pb_status :: StatusSnapshot

definition latest_plan :: "plan_book \<Rightarrow> table_key \<Rightarrow> TablePlan" where
  "latest_plan b k = (case pb_plans b k of Some p \<Rightarrow> p | None \<Rightarrow> zero_plan)"

fun spec_op :: "store_op \<Rightarrow> plan_book \<Rightarrow> plan_book" where
  "spec_op (OpPublish plan) b = b\<lparr>pb_plans := (pb_plans b)(plan_key plan \<mapsto> plan)\<rparr>"
| "spec_op (OpError now n d t g e dur) b =
     b\<lparr>pb_plans := (pb_plans b)(TableKey n d t \<mapsto> (latest_plan b (TableKey n d t))
         \<lparr>tp_NodeID := n, tp_Database := d, tp_Table := t, tp_Generation := g, tp_LastError := e,
          tp_TickDuration := dur, tp_ReconciledAt := now\<rparr>)\<rparr>"
| "spec_op (OpAppend entry) b = b\<lparr>pb_log := pb_log b @ [entry]\<rparr>"
| "spec_op (OpSetStatus now status) b = b\<lparr>pb_status := status\<lparr>sn_UpdatedAt := now\<rparr>\<rparr>"
| "spec_op (OpPause now reason) b =
     b\<lparr>pb_status := (pb_status b)\<lparr>sn_PauseState := PauseStopped, sn_PauseReason := reason, sn_UpdatedAt := now\<rparr>\<rparr>"
| "spec_op (OpResume now) b =
     b\<lparr>pb_status := (pb_status b)\<lparr>sn_PauseState := PauseRunning, sn_PauseReason := PauseReasonNone,
        sn_UpdatedAt := now\<rparr>\<rparr>"

definition empty_book :: "gtime \<Rightarrow> plan_book" where
  "empty_book now = \<lparr>pb_plans = Map.empty, pb_log = [], pb_status = st_status (NewStore now 0)\<rparr>"

definition last_entries :: "nat \<Rightarrow> 'a list \<Rightarrow> 'a list" where
  "last_entries n xs = drop (length xs - n) xs"

definition store_rel :: "nat \<Rightarrow> Store \<Rightarrow> plan_book \<Rightarrow> bool" where
  "store_rel cap s b \<longleftrightarrow> store_ok s \<and> st_capacity s = int cap \<and> 0 < cap \<and> map_of (st_tables s) = pb_plans b \<and>
     st_history s = last_entries cap (pb_log b) \<and> st_status s = pb_status b"

section \<open>The store implements it\<close>

lemma last_entries_snoc: "0 < n \<Longrightarrow> last_entries n (last_entries n xs @ [x]) = last_entries n (xs @ [x])"
proof (cases "n \<le> length xs")
  case True
  assume "0 < n"
  with True have "Suc (length xs) - (length xs - n + n) + (length xs - n) = Suc (length xs) - n" by simp
  then show ?thesis by (simp add: last_entries_def)
qed (simp add: last_entries_def)

lemma append_keeps_last:
  "st_capacity s = int cap \<Longrightarrow> st_history (AppendHistory e s) = last_entries cap (st_history s @ [e])"
  by (simp add: append_history_tail last_entries_def)

lemma run_op_ok: "store_ok s \<Longrightarrow> store_ok (run_op x s)"
  by (cases x) (auto intro: store_step_ok store_step.intros)

lemma run_op_capacity: "st_capacity (run_op x s) = st_capacity s"
  by (cases x) (simp_all add: Publish_def PublishError_def AppendHistory_def SetStatus_def Pause_def Resume_def Let_def)

interpretation store_refinement: simulation run_op spec_op "store_rel cap"
proof
  fix s b x assume r: "store_rel cap s b"
  then have "store_ok (run_op x s)" "st_capacity (run_op x s) = int cap"
    by (simp_all add: store_rel_def run_op_ok run_op_capacity)
  moreover have "map_of (st_tables (run_op x s)) = pb_plans (spec_op x b)"
    using r by (cases x) (simp_all add: store_rel_def Publish_def PublishError_def AppendHistory_def SetStatus_def
        Pause_def Resume_def Let_def update_conv' latest_plan_def)
  moreover have "st_history (run_op x s) = last_entries cap (pb_log (spec_op x b))"
    using r append_keeps_last [of s cap]
    by (cases x) (simp_all add: store_rel_def Publish_def PublishError_def SetStatus_def Pause_def Resume_def Let_def
        last_entries_snoc)
  moreover have "st_status (run_op x s) = pb_status (spec_op x b)"
    using r by (cases x) (simp_all add: store_rel_def Publish_def PublishError_def AppendHistory_def SetStatus_def
        Pause_def Resume_def Let_def)
  ultimately show "store_rel cap (run_op x s) (spec_op x b)" using r by (simp add: store_rel_def)
qed

lemma new_store_rel:
  "store_rel (nat (if c \<le> 0 then 1000 else c)) (NewStore now c) (empty_book now)"
  by (simp add: store_rel_def NewStore_ok) (simp add: NewStore_def empty_book_def last_entries_def)

lemma snapshot_ran: "store_ok s \<Longrightarrow> set (Snapshot s) = ran (map_of (st_tables s))"
  by (simp add: Snapshot_def store_ok_def ran_distinct)

lemma store_answers:
  assumes "store_rel cap s b"
  shows "set (Snapshot s) = ran (pb_plans b) \<and> sorted_wrt (<) (map plan_key (Snapshot s)) \<and>
    FindVerdict s n d t pid =
      (case pb_plans b (TableKey n d t) of None \<Rightarrow> None
       | Some p \<Rightarrow> find (\<lambda>v. v_PartitionID v = pid) (tp_Verdicts p)) \<and>
    mset (History s) = mset (last_entries cap (pb_log b)) \<and>
    sorted (map (\<lambda>e. - he_Time e) (History s)) \<and> store_Status s = pb_status b"
proof -
  have ok: "store_ok s" using assms by (simp add: store_rel_def)
  show ?thesis
    using assms snapshot_sorted [OF ok]
    by (simp add: snapshot_ran [OF ok] store_rel_def FindVerdict_def History_def sorted_sort_by)
qed

text \<open>C11: Refinement: after any sequence of publishes, failed observations, actions, status changes,
  pauses and resumes, everything the store answers is what the specification says: the snapshot is
  the latest plan of every table, each once and in key order; a verdict is looked up in the latest
  plan of its table; the history is the most recent actions of the whole log, as many as the capacity,
  newest first; the status is the one the operations built.\<close>

theorem store_refines_book:
  "let s = fold run_op ops (NewStore now c); b = fold spec_op ops (empty_book now) in
   set (Snapshot s) = ran (pb_plans b) \<and> sorted_wrt (<) (map plan_key (Snapshot s)) \<and>
   FindVerdict s n d t pid =
     (case pb_plans b (TableKey n d t) of None \<Rightarrow> None
      | Some p \<Rightarrow> find (\<lambda>v. v_PartitionID v = pid) (tp_Verdicts p)) \<and>
   mset (History s) = mset (last_entries (nat (if c \<le> 0 then 1000 else c)) (pb_log b)) \<and>
   sorted (map (\<lambda>e. - he_Time e) (History s)) \<and> store_Status s = pb_status b"
  unfolding Let_def by (rule store_answers [OF store_refinement.run_follows [OF new_store_rel]])

end
