(* ===== verification/Controller.thy ===== *)
theory Controller
  imports Guards
begin

text \<open>
  The controller's state and its critical sections (\<open>internal/tiering/controller.go\<close>,
  \<open>dispatch.go\<close>, \<open>stalls.go\<close>): single-flight legs, the byte budgets, stalls with their
  backoff, the adaptive resplit window. Each function under \<open>c.mu\<close> is a function of the state;
  the instants a section reads from the clock are one argument \<open>now\<close>. Legs run concurrently:
  what they do to the state are the steps of the relation at the end.
\<close>

section \<open>State\<close>

record InFlightLeg =
  leg_NodeID :: string
  leg_Database :: string
  leg_Table :: string
  leg_Partition :: string
  leg_PartitionID :: string
  leg_Action :: Decision
  leg_Bytes :: u64
  leg_StartedAt :: gtime
  leg_Source :: string

record stalledPartition =
  sp_Until :: gtime
  sp_Failures :: int
  sp_Reason :: gotext
  sp_Token :: string
  sp_TransitionAt :: gtime

record failureLogState =
  fl_message :: gotext
  fl_lastLogged :: gtime
  fl_suppressed :: u64

record controller =
  c_Tiering :: TierConfig
  c_Watches :: "EffectiveWatch list"
  c_InstanceID :: string
  c_clients :: "Node list"
  c_store :: Store
  c_inFlight :: "(string, InFlightLeg) amap"
  c_bytesInFlight :: u64
  c_bytesMovedToday :: "(string, u64) amap"
  c_budgetDay :: "string \<rightharpoonup> int"
  c_bootTimes :: "string \<rightharpoonup> gtime"
  c_foreignClean :: "string \<rightharpoonup> int"
  c_foreignGuardSeen :: "string \<rightharpoonup> gtime"
  c_probeLast :: "string \<rightharpoonup> gtime"
  c_stalled :: "string \<rightharpoonup> stalledPartition"
  c_resplitFlaps :: "string \<rightharpoonup> int"
  c_sideMergeLast :: "string \<rightharpoonup> gtime"
  c_kicks :: "string \<rightharpoonup> bool"
  c_failureLogs :: "string \<rightharpoonup> failureLogState"
  c_observeSlots :: "string \<rightharpoonup> nat"
  c_lastFlush :: "string \<rightharpoonup> gtime"

text \<open>\<open>New\<close>: the store starts running, with the configured limits in its status.\<close>

definition initial_status :: "TierConfig \<Rightarrow> StatusSnapshot" where
  "initial_status cfg =
     \<lparr>sn_Mode = tc_Mode cfg, sn_PauseState = PauseRunning, sn_PauseReason = PauseReasonNone,
      sn_MaxConcurrentPartitions = tc_MaxConcurrentPartitions cfg,
      sn_MaxMovesPerCycle = MaxMovesPerCycle (tc_Safety cfg),
      sn_MaxBytesInFlight = MaxBytesInFlight (tc_Safety cfg), sn_BytesInFlight = 0,
      sn_MaxBytesPerDay = MaxBytesPerDay (tc_Safety cfg), sn_BytesMovedToday = 0,
      sn_UpdatedAt = zero_time\<rparr>"

definition New :: "gtime \<Rightarrow> Node list \<Rightarrow> TierConfig \<Rightarrow> EffectiveWatch list \<Rightarrow> string \<Rightarrow> controller" where
  "New now clients cfg watches instanceID =
     \<lparr>c_Tiering = cfg, c_Watches = watches, c_InstanceID = instanceID, c_clients = clients,
      c_store = SetStatus now (initial_status cfg) (NewStore now 2000),
      c_inFlight = [], c_bytesInFlight = 0, c_bytesMovedToday = [], c_budgetDay = Map.empty,
      c_bootTimes = Map.empty, c_foreignClean = Map.empty, c_foreignGuardSeen = Map.empty,
      c_probeLast = Map.empty, c_stalled = Map.empty, c_resplitFlaps = Map.empty,
      c_sideMergeLast = Map.empty, c_kicks = Map.empty, c_failureLogs = Map.empty,
      c_observeSlots = Map.empty, c_lastFlush = Map.empty\<rparr>"

definition controller_instanceID :: "controller \<Rightarrow> string" where
  "controller_instanceID c = (if c_InstanceID c \<noteq> '''' then c_InstanceID c else ''default'')"

definition controller_client :: "controller \<Rightarrow> string \<Rightarrow> Node option" where
  "controller_client c nodeID = find (\<lambda>n. nd_ID n = nodeID) (c_clients c)"

definition controller_watch :: "controller \<Rightarrow> string \<Rightarrow> string \<Rightarrow> EffectiveWatch option" where
  "controller_watch c database table = find (\<lambda>w. w_Database w = database \<and> w_Table w = table) (c_Watches c)"

definition ctl_Pause :: "gtime \<Rightarrow> PauseReason \<Rightarrow> controller \<Rightarrow> controller" where
  "ctl_Pause now reason c = c\<lparr>c_store := Pause now reason (c_store c)\<rparr>"

definition ctl_Resume :: "gtime \<Rightarrow> controller \<Rightarrow> controller" where
  "ctl_Resume now c = c\<lparr>c_store := Resume now (c_store c)\<rparr>"

definition flightKey :: "Verdict \<Rightarrow> string" where
  "flightKey v = join ''/'' [v_NodeID v, v_Database v, v_Table v, v_PartitionID v]"

definition partition_key :: "TableObservation \<Rightarrow> PartitionObservation \<Rightarrow> string" where
  "partition_key obs p = join ''/'' [nd_ID (obs_Node obs), obs_Database obs, obs_Table obs, part_PartitionID p]"

text \<open>The per-node gate of observations: a slot of a buffered channel, created on first use.\<close>

definition slot_capacity :: "controller \<Rightarrow> nat" where
  "slot_capacity c =
     (let n = tc_MaxConcurrentObservations (c_Tiering c) in if n \<le> 0 then 4 else nat n)"

definition acquireObserveSlot :: "string \<Rightarrow> controller \<Rightarrow> controller option" where
  "acquireObserveSlot nodeID c =
     (let held = (case c_observeSlots c nodeID of Some n \<Rightarrow> n | None \<Rightarrow> 0) in
      if held < slot_capacity c
      then Some (c\<lparr>c_observeSlots := (c_observeSlots c)(nodeID \<mapsto> held + 1)\<rparr>) else None)"

definition releaseObserveSlot :: "string \<Rightarrow> controller \<Rightarrow> controller" where
  "releaseObserveSlot nodeID c =
     (case c_observeSlots c nodeID of
        Some n \<Rightarrow> c\<lparr>c_observeSlots := (c_observeSlots c)(nodeID \<mapsto> n - 1)\<rparr> | None \<Rightarrow> c)"

section \<open>Stalls\<close>

definition initialStallBackoff :: gdur where "initialStallBackoff = 6 * hour"
definition maxStallBackoff :: gdur where "maxStallBackoff = 72 * hour"

text \<open>The doubling loop that the three schedules of the controller share: from \<open>delay\<close>, \<open>n\<close>
  rounds, leaving with the cap as soon as half of it is reached.\<close>

fun double_until :: "gdur \<Rightarrow> nat \<Rightarrow> gdur \<Rightarrow> gdur" where
  "double_until cap 0 delay = delay"
| "double_until cap (Suc n) delay =
     (if delay \<ge> go_div cap 2 then cap else double_until cap n (delay * 2))"

definition stallBackoff :: "int \<Rightarrow> gdur" where
  "stallBackoff failures =
     (if failures \<le> 1 then initialStallBackoff
      else double_until maxStallBackoff (nat (failures - 1)) initialStallBackoff)"

definition adaptiveResplitQuiet :: "gdur \<Rightarrow> int \<Rightarrow> gdur" where
  "adaptiveResplitQuiet base flaps =
     (if flaps \<le> 0 \<or> base \<le> 0 then base else double_until maxResplitQuiet (nat flaps) base)"

definition markStalledLocked :: "gtime \<Rightarrow> Verdict \<Rightarrow> HistoryEntry \<Rightarrow> controller \<Rightarrow> controller" where
  "markStalledLocked now v entry c =
     (let key = flightKey v;
          failures = (case c_stalled c key of Some s \<Rightarrow> sp_Failures s | None \<Rightarrow> 0) + 1;
          reason = (if he_Error entry = no_text then lit ''action failed'' else he_Error entry)
      in c\<lparr>c_stalled := (c_stalled c)(key \<mapsto>
           \<lparr>sp_Until = time_add now (stallBackoff failures), sp_Failures = failures,
            sp_Reason = reason, sp_Token = v_Token v, sp_TransitionAt = now\<rparr>)\<rparr>)"

definition clearStalled :: "string \<Rightarrow> string \<Rightarrow> string \<Rightarrow> string \<Rightarrow> controller \<Rightarrow> controller" where
  "clearStalled nodeID database table partitionID c =
     c\<lparr>c_stalled := (c_stalled c)(join ''/'' [nodeID, database, table, partitionID] := None)\<rparr>"

definition stalled_verdict :: "go_env \<Rightarrow> stalledPartition \<Rightarrow> Verdict \<Rightarrow> Verdict" where
  "stalled_verdict env s v =
     v\<lparr>v_Status := StatusStalled, v_Decision := DecisionHold,
       v_Reason := Fmt ''action stalled: %s'' [AText (sp_Reason s)],
       v_Hold := Some ((gate_detail ''stalled'')
         \<lparr>hd_RetryAt := Some (sp_Until s), hd_Failures := sp_Failures s\<rparr>),
       v_Conditions := v_Conditions v @
         [NewCondition env SeverityWarning ''action_stalled''
            (Fmt ''retry after %s: %s'' [ATime (sp_Until s), AText (sp_Reason s)])
            (v_NodeID v) (v_Database v) (v_Table v) (v_Partition v) (v_PartitionID v)]\<rparr>"

definition overlay_one :: "go_env \<Rightarrow> gtime \<Rightarrow> Verdict \<Rightarrow> controller \<Rightarrow> Verdict \<times> controller" where
  "overlay_one env now v c =
     (case c_stalled c (flightKey v) of
        None \<Rightarrow> (v, c)
      | Some s \<Rightarrow>
          if sp_Token s \<noteq> v_Token v then (v, c\<lparr>c_stalled := (c_stalled c)(flightKey v := None)\<rparr>)
          else if sp_Until s \<le> now then (v, c)
          else (stalled_verdict env s v, c))"

fun overlayStalled :: "go_env \<Rightarrow> gtime \<Rightarrow> Verdict list \<Rightarrow> controller \<Rightarrow> Verdict list \<times> controller" where
  "overlayStalled env now [] c = ([], c)"
| "overlayStalled env now (v # vs) c =
     (case overlay_one env now v c of (v', c1) \<Rightarrow>
      case overlayStalled env now vs c1 of (vs', c2) \<Rightarrow> (v' # vs', c2))"

definition applyAdaptiveResplitQuiet :: "controller \<Rightarrow> TableObservation \<Rightarrow> TableObservation" where
  "applyAdaptiveResplitQuiet c obs =
     obs\<lparr>obs_ResplitQuiet := fold (\<lambda>p m.
        if observedStatus (ts_TargetDisk (obs_Settings obs)) p \<noteq> StatusSplit then m
        else let flaps = (case c_resplitFlaps c (partition_key obs p) of Some n \<Rightarrow> n | None \<Rightarrow> 0) in
          if flaps \<le> 0 then m
          else m(part_PartitionID p \<mapsto>
                 adaptiveResplitQuiet (rs_QuietFor (ts_Resplit (obs_Settings obs))) flaps))
        (obs_Partitions obs) (obs_ResplitQuiet obs)\<rparr>"

section \<open>Admission and completion of legs\<close>

definition newInFlightLeg :: "gtime \<Rightarrow> Verdict \<Rightarrow> string \<Rightarrow> InFlightLeg" where
  "newInFlightLeg now v source =
     \<lparr>leg_NodeID = v_NodeID v, leg_Database = v_Database v, leg_Table = v_Table v,
      leg_Partition = v_Partition v, leg_PartitionID = v_PartitionID v, leg_Action = v_Decision v,
      leg_Bytes = v_BytesOnDisk v, leg_StartedAt = now, leg_Source = source\<rparr>"

definition InFlight :: "controller \<Rightarrow> InFlightLeg list" where
  "InFlight c = sort_by (\<lambda>l. (leg_StartedAt l, leg_PartitionID l)) (map snd (c_inFlight c))"

definition node_legs :: "string \<Rightarrow> controller \<Rightarrow> InFlightLeg list" where
  "node_legs nodeID c = filter (\<lambda>l. leg_NodeID l = nodeID) (map snd (c_inFlight c))"

definition utc_day :: "gtime \<Rightarrow> int" where "utc_day now = time_unix now div 86400"

definition rollDailyBudgetLocked :: "string \<Rightarrow> gtime \<Rightarrow> controller \<Rightarrow> controller" where
  "rollDailyBudgetLocked nodeID now c =
     (if c_budgetDay c nodeID = Some (utc_day now) then c
      else c\<lparr>c_budgetDay := (c_budgetDay c)(nodeID \<mapsto> utc_day now),
             c_bytesMovedToday := amap_put nodeID 0 (c_bytesMovedToday c)\<rparr>)"

definition bytesMovedTodayForNode :: "controller \<Rightarrow> string \<Rightarrow> u64" where
  "bytesMovedTodayForNode c nodeID =
     (case amap_get (c_bytesMovedToday c) nodeID of Some b \<Rightarrow> b | None \<Rightarrow> 0)"

definition totalBytesMovedTodayLocked :: "controller \<Rightarrow> u64" where
  "totalBytesMovedTodayLocked c = sum_list (map snd (c_bytesMovedToday c))"

text \<open>\<open>tryStart\<close> with the status it read from the store: the store has a lock of its own, so the
  status written back is the one read, whatever happened to the store in between.\<close>

definition tryStart_with :: "gtime \<Rightarrow> StatusSnapshot \<Rightarrow> Verdict \<Rightarrow> controller \<Rightarrow> bool \<times> controller" where
  "tryStart_with now status v c =
     (let safety = tc_Safety (c_Tiering c); legs = node_legs (v_NodeID v) c;
          nodeBytesInFlight = sum_list (map leg_Bytes legs)
      in if tc_MaxConcurrentPartitions (c_Tiering c) \<le> int (length legs) then (False, c)
         else if MaxBytesInFlight safety < c_bytesInFlight c + v_BytesOnDisk v then (False, c)
         else
           let c1 = rollDailyBudgetLocked (v_NodeID v) now c;
               movedToday = bytesMovedTodayForNode c1 (v_NodeID v)
           in if MaxBytesPerDay safety < movedToday + nodeBytesInFlight + v_BytesOnDisk v then (False, c1)
              else if amap_get (c_inFlight c1) (flightKey v) \<noteq> None then (False, c1)
              else
                let bytes = c_bytesInFlight c1 + v_BytesOnDisk v in
                (True, c1\<lparr>c_inFlight := amap_put (flightKey v) (newInFlightLeg now v ''dispatch'') (c_inFlight c1),
                          c_bytesInFlight := bytes,
                          c_store := SetStatus now (status\<lparr>sn_BytesInFlight := bytes\<rparr>) (c_store c1)\<rparr>))"

definition tryStart :: "gtime \<Rightarrow> Verdict \<Rightarrow> controller \<Rightarrow> bool \<times> controller" where
  "tryStart now v c = tryStart_with now (store_Status (c_store c)) v c"

definition markSupervised :: "gtime \<Rightarrow> Verdict \<Rightarrow> controller \<Rightarrow> bool \<times> controller" where
  "markSupervised now v c =
     (if amap_get (c_inFlight c) (flightKey v) \<noteq> None then (False, c)
      else (True, c\<lparr>c_inFlight :=
              amap_put (flightKey v) (newInFlightLeg now v ''supervised'') (c_inFlight c)\<rparr>))"

definition unmarkSupervised :: "Verdict \<Rightarrow> controller \<Rightarrow> controller" where
  "unmarkSupervised v c = c\<lparr>c_inFlight := amap_del (flightKey v) (c_inFlight c)\<rparr>"

text \<open>A success clears the stall; append and consolidate count one more split repair.\<close>

definition note_success :: "Verdict \<Rightarrow> controller \<Rightarrow> controller" where
  "note_success v c =
     (let key = flightKey v; c1 = c\<lparr>c_stalled := (c_stalled c)(key := None)\<rparr>
      in if v_Decision v = DecisionAppend \<or> v_Decision v = DecisionConsolidate
         then c1\<lparr>c_resplitFlaps := (c_resplitFlaps c1)(key \<mapsto>
                (case c_resplitFlaps c1 key of Some n \<Rightarrow> n | None \<Rightarrow> 0) + 1)\<rparr>
         else c1)"

text \<open>Every leg but the in-place merge is charged to the node's daily budget.\<close>

definition charge_budget :: "gtime \<Rightarrow> Verdict \<Rightarrow> controller \<Rightarrow> controller" where
  "charge_budget now v c =
     (let c1 = rollDailyBudgetLocked (v_NodeID v) now c in
      if v_Decision v \<noteq> DecisionOptimize
      then c1\<lparr>c_bytesMovedToday := amap_put (v_NodeID v)
             (bytesMovedTodayForNode c1 (v_NodeID v) + v_BytesOnDisk v) (c_bytesMovedToday c1)\<rparr>
      else c1)"

definition finishSuccessLocked ::
  "gtime \<Rightarrow> Verdict \<Rightarrow> StatusSnapshot \<Rightarrow> controller \<Rightarrow> StatusSnapshot \<times> controller" where
  "finishSuccessLocked now v status c =
     (let c1 = charge_budget now v (note_success v c)
      in (status\<lparr>sn_BytesMovedToday := totalBytesMovedTodayLocked c1\<rparr>, c1))"

text \<open>The training wheels: a configured number of successful actions, then a pause.\<close>

definition training_wheels :: "StatusSnapshot \<Rightarrow> controller \<Rightarrow> StatusSnapshot \<times> controller" where
  "training_wheels status c =
     (let n = PauseAfterActions (tc_Safety (c_Tiering c)) in
      if 0 < n then
        (if n - 1 = 0 then status\<lparr>sn_PauseState := PauseStopped, sn_PauseReason := PauseReasonTrainingWheels\<rparr>
         else status,
         c\<lparr>c_Tiering := (c_Tiering c)\<lparr>tc_Safety := (tc_Safety (c_Tiering c))\<lparr>PauseAfterActions := n - 1\<rparr>\<rparr>\<rparr>)
      else (status, c))"

definition finish :: "gtime \<Rightarrow> Verdict \<Rightarrow> HistoryEntry \<Rightarrow> controller \<Rightarrow> controller" where
  "finish now v entry c =
     (let bytes = (if v_BytesOnDisk v \<le> c_bytesInFlight c then c_bytesInFlight c - v_BytesOnDisk v else 0);
          c1 = c\<lparr>c_inFlight := amap_del (flightKey v) (c_inFlight c), c_bytesInFlight := bytes\<rparr>;
          status = (store_Status (c_store c1))\<lparr>sn_BytesInFlight := bytes\<rparr>
      in if he_Outcome entry = ''success'' then
           (case finishSuccessLocked now v status c1 of (status2, c2) \<Rightarrow>
            case training_wheels status2 c2 of (status3, c3) \<Rightarrow>
              c3\<lparr>c_store := SetStatus now status3 (c_store c3)\<rparr>)
         else
           (let c2 = markStalledLocked now v entry c1
            in c2\<lparr>c_store := SetStatus now status (c_store c2)\<rparr>))"

section \<open>The schedules\<close>

lemma double_until_Suc:
  "0 \<le> cap \<Longrightarrow> double_until cap (Suc n) d =
     (if double_until cap n d \<ge> go_div cap 2 then cap else 2 * double_until cap n d)"
proof (induction n arbitrary: d)
  case (Suc n)
  have half: "go_div cap 2 \<le> cap" using Suc.prems by (simp add: go_div_nonneg)
  show ?case
  proof (cases "d \<ge> go_div cap 2")
    case True
    then show ?thesis using half by simp
  next
    case False
    then have "double_until cap (Suc (Suc n)) d = double_until cap (Suc n) (d * 2)" by simp
    also have "\<dots> = (if double_until cap n (d * 2) \<ge> go_div cap 2 then cap else 2 * double_until cap n (d * 2))"
      by (rule Suc.IH [OF Suc.prems])
    finally show ?thesis using False by simp
  qed
qed simp

lemma double_until_schedule:
  assumes "0 < d" "d \<le> cap"
  shows "capped_doubling (\<lambda>n. double_until cap n d) cap"
  using assms by unfold_locales (simp_all add: double_until_Suc go_div_nonneg del: double_until.simps(2))

lemma stallBackoff_Suc: "stallBackoff (int n + 1) = double_until maxStallBackoff n initialStallBackoff"
  by (cases "n = 0") (simp_all add: stallBackoff_def)

interpretation stall: capped_doubling "\<lambda>n. stallBackoff (int n + 1)" maxStallBackoff
  unfolding stallBackoff_Suc
  by (rule double_until_schedule) (simp_all add: initialStallBackoff_def maxStallBackoff_def dur_simps)

text \<open>The retry delay of a failing partition starts at six hours, doubles with each consecutive
  failure and stays at 72 hours from the fifth one on: it is always within these bounds and never
  shrinks as failures accumulate.\<close>

theorem stall_backoff_schedule:
  assumes "i \<le> j"
  shows "6 * hour \<le> stallBackoff i \<and> stallBackoff i \<le> stallBackoff j \<and> stallBackoff j \<le> 72 * hour \<and>
    (5 \<le> j \<longrightarrow> stallBackoff j = 72 * hour) \<and>
    (1 \<le> i \<and> i \<le> 4 \<longrightarrow> stallBackoff i = 6 * hour * 2 ^ nat (i - 1))"
proof -
  have low: "stallBackoff k = stallBackoff 1" if "k \<le> 1" for k using that by (simp add: stallBackoff_def)
  have n: "stallBackoff k = stallBackoff (int (nat (k - 1)) + 1)" for k
  proof (cases "1 \<le> k")
    case False
    then have "nat (k - 1) = 0" by simp
    then show ?thesis using False by (simp add: stallBackoff_def)
  qed simp
  have one: "stallBackoff 1 = 6 * hour" by (simp add: stallBackoff_def initialStallBackoff_def)
  define idx where "idx k = nat (k - 1)" for k :: int
  have e: "stallBackoff k = stallBackoff (int (idx k) + 1)" for k using n by (simp add: idx_def)
  have b: "6 * hour \<le> stallBackoff k \<and> stallBackoff k \<le> 72 * hour" for k
    unfolding e [of k] using stall.delay_start_le [of "idx k"] stall.delay_bounds [of "idx k"] one
    by (simp add: maxStallBackoff_def)
  have "idx i \<le> idx j" using assms by (simp add: idx_def)
  then have m: "stallBackoff i \<le> stallBackoff j"
    unfolding e [of i] e [of j] by (rule stall.delay_mono)
  have vals: "stallBackoff 1 = 6 * hour" "stallBackoff 2 = 12 * hour" "stallBackoff 3 = 24 * hour"
    "stallBackoff 4 = 48 * hour" "stallBackoff 5 = 72 * hour"
    by (simp_all add: stallBackoff_def eval_nat_numeral initialStallBackoff_def maxStallBackoff_def
        dur_simps go_div_def)
  have top: "5 \<le> k \<Longrightarrow> stallBackoff k = 72 * hour" for k
    unfolding e [of k] using stall.delay_capped [of 4 "idx k"] vals(5) by (simp add: maxStallBackoff_def idx_def)
  have small: "1 \<le> i \<Longrightarrow> i \<le> 4 \<Longrightarrow> i = 1 \<or> i = 2 \<or> i = 3 \<or> i = 4" by presburger
  have "1 \<le> i \<and> i \<le> 4 \<longrightarrow> stallBackoff i = 6 * hour * 2 ^ nat (i - 1)"
    using small vals by (auto simp: dur_simps)
  with b m top show ?thesis by blast
qed

theorem stall_backoff_schedule_witness: "stallBackoff 7 = 72 * hour \<and> stallBackoff 2 = 12 * hour"
  using stall_backoff_schedule [of 2 7] by (simp add: dur_simps)

text \<open>The adaptive resplit window only widens: with a configured window of at most 90 days it is
  at least the configured one, at most 90 days, and grows with the number of repairs; without
  repairs it is the configured window.\<close>

theorem adaptive_quiet_schedule:
  assumes "0 < base" "base \<le> 90 * day_dur" "0 \<le> i" "i \<le> j"
  shows "adaptiveResplitQuiet base 0 = base \<and> base \<le> adaptiveResplitQuiet base i \<and>
    adaptiveResplitQuiet base i \<le> adaptiveResplitQuiet base j \<and>
    adaptiveResplitQuiet base j \<le> 90 * day_dur"
proof -
  have cap: "maxResplitQuiet = 90 * day_dur" by (simp add: maxResplitQuiet_def dur_simps)
  note sched = double_until_schedule [of base maxResplitQuiet]
  have s: "capped_doubling (\<lambda>n. double_until maxResplitQuiet n base) maxResplitQuiet"
    using assms cap by (intro sched) simp_all
  have e: "adaptiveResplitQuiet base k = double_until maxResplitQuiet (nat k) base" if "0 \<le> k" for k
    using that assms(1) by (simp add: adaptiveResplitQuiet_def)
  show ?thesis
    using capped_doubling.delay_start_le [OF s, of "nat i"] capped_doubling.delay_bounds [OF s, of "nat j"]
      capped_doubling.delay_mono [OF s, of "nat i" "nat j"] assms(3,4) e [of 0] e [of i] e [of j] cap
    by simp
qed

theorem adaptive_quiet_schedule_witness:
  "7 * day_dur \<le> adaptiveResplitQuiet (7 * day_dur) 1 \<and> adaptiveResplitQuiet (7 * day_dur) 9 \<le> 90 * day_dur"
  using adaptive_quiet_schedule [of "7 * day_dur" 1 9] by (simp add: dur_simps)

section \<open>Steps of the running controller\<close>

text \<open>What concurrent reconcile loops, finishing legs and supervised applies do to the shared state,
  one critical section at a time. \<open>maxp\<close> bounds the size of a partition, \<open>sv\<close> says whether
  supervised legs occur; the store and the stalls may change in any way at any time.\<close>

inductive ctl_step :: "nat \<Rightarrow> bool \<Rightarrow> controller \<Rightarrow> controller \<Rightarrow> bool" for maxp sv where
  start: "unat (v_BytesOnDisk v) \<le> maxp \<Longrightarrow> tryStart now v c = (True, c') \<Longrightarrow> ctl_step maxp sv c c'"
| refuse: "tryStart now v c = (False, c') \<Longrightarrow> ctl_step maxp sv c c'"
| finish: "amap_get (c_inFlight c) (flightKey v) = Some leg \<Longrightarrow> leg_Source leg = ''dispatch'' \<Longrightarrow>
    leg_NodeID leg = v_NodeID v \<Longrightarrow> leg_Bytes leg = v_BytesOnDisk v \<Longrightarrow>
    ctl_step maxp sv c (finish now v entry c)"
| supervise: "sv \<Longrightarrow> markSupervised now v c = (True, c') \<Longrightarrow> ctl_step maxp sv c c'"
| unsupervise: "sv \<Longrightarrow> amap_get (c_inFlight c) (flightKey v) = Some leg \<Longrightarrow>
    leg_Source leg = ''supervised'' \<Longrightarrow> ctl_step maxp sv c (unmarkSupervised v c)"
| elsewhere: "ctl_step maxp sv c (c\<lparr>c_store := s, c_stalled := m\<rparr>)"

definition boot_state :: "controller \<Rightarrow> bool" where
  "boot_state c \<longleftrightarrow> c_inFlight c = [] \<and> c_bytesInFlight c = 0 \<and>
     0 \<le> tc_MaxConcurrentPartitions (c_Tiering c) \<and>
     (\<forall>n. bytesMovedTodayForNode c n \<le> MaxBytesPerDay (tc_Safety (c_Tiering c)))"

inductive ctl_reachable :: "nat \<Rightarrow> bool \<Rightarrow> controller \<Rightarrow> bool" for maxp sv where
  boot: "boot_state c \<Longrightarrow>
    unat (MaxBytesInFlight (tc_Safety (c_Tiering c))) + maxp < 18446744073709551616 \<Longrightarrow>
    unat (MaxBytesPerDay (tc_Safety (c_Tiering c))) + maxp < 18446744073709551616 \<Longrightarrow>
    ctl_reachable maxp sv c"
| step: "ctl_reachable maxp sv c \<Longrightarrow> ctl_step maxp sv c c' \<Longrightarrow> ctl_reachable maxp sv c'"

section \<open>The admission limits\<close>

definition limits :: "controller \<Rightarrow> int \<times> u64 \<times> u64" where
  "limits c = (tc_MaxConcurrentPartitions (c_Tiering c), MaxBytesInFlight (tc_Safety (c_Tiering c)),
     MaxBytesPerDay (tc_Safety (c_Tiering c)))"

definition dispatched :: "string \<times> InFlightLeg \<Rightarrow> bool" where
  "dispatched e \<longleftrightarrow> leg_Source (snd e) = ''dispatch''"

definition dispatch_weight :: "string \<times> InFlightLeg \<Rightarrow> nat" where
  "dispatch_weight e = (if dispatched e then unat (leg_Bytes (snd e)) else 0)"

definition dispatched_on :: "string \<Rightarrow> string \<times> InFlightLeg \<Rightarrow> bool" where
  "dispatched_on n e \<longleftrightarrow> dispatched e \<and> leg_NodeID (snd e) = n"

definition dispatch_bytes :: "controller \<Rightarrow> nat" where
  "dispatch_bytes c = (\<Sum>e\<in>#mset (c_inFlight c). dispatch_weight e)"

definition dispatch_count :: "string \<Rightarrow> controller \<Rightarrow> nat" where
  "dispatch_count n c = size (filter_mset (dispatched_on n) (mset (c_inFlight c)))"

lemma roll_fields [simp]:
  "c_inFlight (rollDailyBudgetLocked n now c) = c_inFlight c"
  "c_bytesInFlight (rollDailyBudgetLocked n now c) = c_bytesInFlight c"
  "c_Tiering (rollDailyBudgetLocked n now c) = c_Tiering c"
  "c_store (rollDailyBudgetLocked n now c) = c_store c"
  by (simp_all add: rollDailyBudgetLocked_def)

definition moved :: "string \<Rightarrow> controller \<Rightarrow> nat" where
  "moved n c = unat (bytesMovedTodayForNode c n)"

lemma note_success_fields [simp]:
  "c_inFlight (note_success v c) = c_inFlight c" "c_bytesInFlight (note_success v c) = c_bytesInFlight c"
  "c_Tiering (note_success v c) = c_Tiering c" "moved n (note_success v c) = moved n c"
  "c_store (note_success v c) = c_store c"
  by (simp_all add: note_success_def Let_def moved_def bytesMovedTodayForNode_def)

lemma charge_budget_fields [simp]:
  "c_inFlight (charge_budget now v c) = c_inFlight c"
  "c_bytesInFlight (charge_budget now v c) = c_bytesInFlight c"
  "c_Tiering (charge_budget now v c) = c_Tiering c" "c_store (charge_budget now v c) = c_store c"
  by (simp_all add: charge_budget_def Let_def)

lemma tryStart_refused_fields:
  "tryStart_with now st v c = (False, c') \<Longrightarrow>
   c_inFlight c' = c_inFlight c \<and> c_bytesInFlight c' = c_bytesInFlight c \<and> c_Tiering c' = c_Tiering c \<and>
   (c_bytesMovedToday c' = c_bytesMovedToday c \<or>
    c_bytesMovedToday c' = c_bytesMovedToday (rollDailyBudgetLocked (v_NodeID v) now c))"
  by (auto simp: tryStart_with_def Let_def split: if_splits)

text \<open>What an admission establishes.\<close>

lemma tryStart_admitted:
  assumes "tryStart_with now st v c = (True, c')"
  shows "int (length (node_legs (v_NodeID v) c)) < tc_MaxConcurrentPartitions (c_Tiering c) \<and>
    c_bytesInFlight c + v_BytesOnDisk v \<le> MaxBytesInFlight (tc_Safety (c_Tiering c)) \<and>
    bytesMovedTodayForNode (rollDailyBudgetLocked (v_NodeID v) now c) (v_NodeID v) +
      sum_list (map leg_Bytes (node_legs (v_NodeID v) c)) + v_BytesOnDisk v \<le>
      MaxBytesPerDay (tc_Safety (c_Tiering c)) \<and>
    amap_get (c_inFlight c) (flightKey v) = None \<and>
    c_inFlight c' = amap_put (flightKey v) (newInFlightLeg now v ''dispatch'') (c_inFlight c) \<and>
    c_bytesInFlight c' = c_bytesInFlight c + v_BytesOnDisk v \<and> c_Tiering c' = c_Tiering c \<and>
    c_bytesMovedToday c' = c_bytesMovedToday (rollDailyBudgetLocked (v_NodeID v) now c)"
  using assms by (auto simp: tryStart_with_def Let_def not_less not_le split: if_splits)

lemma finish_fields:
  "c_inFlight (finish now v entry c) = amap_del (flightKey v) (c_inFlight c) \<and>
   c_bytesInFlight (finish now v entry c) =
     (if v_BytesOnDisk v \<le> c_bytesInFlight c then c_bytesInFlight c - v_BytesOnDisk v else 0) \<and>
   limits (finish now v entry c) = limits c"
  by (auto simp: finish_def finishSuccessLocked_def training_wheels_def markStalledLocked_def Let_def
      limits_def split: prod.splits)

lemma markSupervised_fields:
  "markSupervised now v c = (True, c') \<Longrightarrow>
   amap_get (c_inFlight c) (flightKey v) = None \<and>
   c' = c\<lparr>c_inFlight := amap_put (flightKey v) (newInFlightLeg now v ''supervised'') (c_inFlight c)\<rparr>"
  by (auto simp: markSupervised_def split: if_splits)

definition admission_ok :: "nat \<Rightarrow> controller \<Rightarrow> bool" where
  "admission_ok maxp c \<longleftrightarrow>
     amap_ok (c_inFlight c) \<and> unat (c_bytesInFlight c) = dispatch_bytes c \<and>
     dispatch_bytes c \<le> unat (MaxBytesInFlight (tc_Safety (c_Tiering c))) \<and>
     (\<forall>n. int (dispatch_count n c) \<le> tc_MaxConcurrentPartitions (c_Tiering c)) \<and>
     unat (MaxBytesInFlight (tc_Safety (c_Tiering c))) + maxp < 18446744073709551616"

lemma dispatch_count_le_legs: "dispatch_count n c \<le> length (node_legs n c)"
proof -
  have "size (filter_mset (dispatched_on n) (mset m)) \<le>
      length (filter (\<lambda>l. leg_NodeID l = n) (map snd m))" for m :: "(string, InFlightLeg) amap"
    by (induction m) (auto simp: dispatched_on_def)
  then show ?thesis by (simp add: dispatch_count_def node_legs_def)
qed

lemma leg_dispatched [simp]:
  "dispatched (k, newInFlightLeg now v src) \<longleftrightarrow> src = ''dispatch''"
  "dispatched_on n (k, newInFlightLeg now v src) \<longleftrightarrow> src = ''dispatch'' \<and> v_NodeID v = n"
  "dispatch_weight (k, newInFlightLeg now v src) = (if src = ''dispatch'' then unat (v_BytesOnDisk v) else 0)"
  by (auto simp: dispatched_def dispatched_on_def dispatch_weight_def newInFlightLeg_def)

lemma admission_start:
  assumes ok: "admission_ok maxp c" and st: "tryStart_with now st v c = (True, c')"
    and maxp: "unat (v_BytesOnDisk v) \<le> maxp"
  shows "admission_ok maxp c'"
proof -
  note a = tryStart_admitted [OF st]
  let ?k = "flightKey v" and ?l = "newInFlightLeg now v ''dispatch''"
  have am: "amap_ok (c_inFlight c)" and fresh: "amap_get (c_inFlight c) ?k = None"
    using ok a by (auto simp: admission_ok_def)
  have bytes: "dispatch_bytes c' = unat (v_BytesOnDisk v) + dispatch_bytes c"
    using alist_ledger.total_put_fresh [OF am fresh, of dispatch_weight ?l] a by (simp add: dispatch_bytes_def)
  have cnt: "dispatch_count n c' = (if v_NodeID v = n then 1 else 0) + dispatch_count n c" for n
    using alist_ledger.count_put_fresh [OF am fresh, of "dispatched_on n" ?l] a by (simp add: dispatch_count_def)
  have sum: "unat (c_bytesInFlight c + v_BytesOnDisk v) = dispatch_bytes c + unat (v_BytesOnDisk v)"
    using ok maxp by (subst unat_add_no_wrap) (auto simp: admission_ok_def)
  have le: "unat (c_bytesInFlight c + v_BytesOnDisk v) \<le> unat (MaxBytesInFlight (tc_Safety (c_Tiering c)))"
    using a by (simp add: word_le_nat_alt)
  have "int (dispatch_count n c') \<le> tc_MaxConcurrentPartitions (c_Tiering c)" for n
    using a ok dispatch_count_le_legs [of n c] by (auto simp: cnt admission_ok_def)
  then show ?thesis
    using a ok am sum le bytes by (simp add: admission_ok_def distinct_update)
qed

lemma admission_remove:
  assumes ok: "admission_ok maxp c" and leg: "amap_get (c_inFlight c) k = Some leg"
    and fl: "c_inFlight c' = amap_del k (c_inFlight c)" and lm: "limits c' = limits c"
    and b: "c_bytesInFlight c' = (if leg_Source leg = ''dispatch'' then c_bytesInFlight c - leg_Bytes leg else c_bytesInFlight c)"
  shows "admission_ok maxp c'"
proof -
  have am: "amap_ok (c_inFlight c)" using ok by (simp add: admission_ok_def)
  have tot: "dispatch_bytes c = dispatch_weight (k, leg) + dispatch_bytes c'"
    using alist_ledger.total_del [OF am leg, of dispatch_weight] fl by (simp add: dispatch_bytes_def)
  have cnt: "dispatch_count n c' \<le> dispatch_count n c" for n
    using alist_ledger.count_del_le [OF am leg] fl by (simp add: dispatch_count_def)
  have "unat (c_bytesInFlight c') = dispatch_bytes c'"
  proof (cases "leg_Source leg = ''dispatch''")
    case True
    then have w: "dispatch_weight (k, leg) = unat (leg_Bytes leg)"
      by (simp add: dispatch_weight_def dispatched_def)
    then have "leg_Bytes leg \<le> c_bytesInFlight c"
      using ok tot by (simp add: admission_ok_def word_le_nat_alt)
    then show ?thesis using ok tot w True b by (simp add: admission_ok_def unat_sub)
  next
    case False
    then show ?thesis using ok tot b by (simp add: admission_ok_def dispatch_weight_def dispatched_def)
  qed
  moreover have "int (dispatch_count n c') \<le> tc_MaxConcurrentPartitions (c_Tiering c')" for n
    using ok cnt [of n] lm by (auto simp: admission_ok_def limits_def intro: order_trans [of _ "int (dispatch_count n c)"])
  ultimately show ?thesis
    using ok tot fl lm am by (auto simp: admission_ok_def limits_def distinct_delete)
qed

lemma dispatched_leg_le:
  assumes ok: "admission_ok maxp c" and leg: "amap_get (c_inFlight c) k = Some leg"
    and d: "leg_Source leg = ''dispatch''"
  shows "leg_Bytes leg \<le> c_bytesInFlight c"
proof -
  have "amap_ok (c_inFlight c)" using ok by (simp add: admission_ok_def)
  from alist_ledger.total_del [OF this leg, of dispatch_weight] show ?thesis
    using ok d by (simp add: admission_ok_def dispatch_bytes_def word_le_nat_alt dispatch_weight_def dispatched_def)
qed

lemma admission_supervise:
  assumes ok: "admission_ok maxp c" and m: "markSupervised now v c = (True, c')"
  shows "admission_ok maxp c'"
proof -
  note f = markSupervised_fields [OF m]
  have am: "amap_ok (c_inFlight c)" using ok by (simp add: admission_ok_def)
  let ?l = "newInFlightLeg now v ''supervised''"
  have "dispatch_bytes c' = dispatch_bytes c"
    using alist_ledger.total_put_fresh [OF am, of "flightKey v" dispatch_weight ?l] f
    by (simp add: dispatch_bytes_def)
  moreover have "dispatch_count n c' = dispatch_count n c" for n
    using alist_ledger.count_put_fresh [OF am, of "flightKey v" "dispatched_on n" ?l] f
    by (simp add: dispatch_count_def)
  ultimately show ?thesis using ok f by (simp add: admission_ok_def distinct_update)
qed

lemma admission_step: "ctl_step maxp sv c c' \<Longrightarrow> admission_ok maxp c \<Longrightarrow> admission_ok maxp c'"
proof (induction rule: ctl_step.induct)
  case (start v now c c')
  then show ?case using admission_start unfolding tryStart_def by blast
next
  case (refuse now v c c')
  from tryStart_refused_fields [OF this(1) [unfolded tryStart_def]] refuse(2) show ?case
    by (simp add: admission_ok_def dispatch_bytes_def dispatch_count_def)
next
  case (finish c v leg now entry)
  have le: "leg_Bytes leg \<le> c_bytesInFlight c" by (rule dispatched_leg_le [OF finish(5,1,2)])
  note f = finish_fields [of now v entry c, folded finish(4)]
  show ?case
    by (rule admission_remove [OF finish(5,1)]) (simp_all only: f le finish(2) if_True refl)
next
  case (supervise now v c c')
  then show ?case using admission_supervise by blast
next
  case (unsupervise c v leg)
  show ?case
    by (rule admission_remove [OF unsupervise(4,2)])
      (simp_all add: unmarkSupervised_def limits_def unsupervise(3))
next
  case (elsewhere c s m)
  then show ?case by (simp add: admission_ok_def dispatch_bytes_def dispatch_count_def)
qed

lemma admission_boot:
  "boot_state c \<Longrightarrow> unat (MaxBytesInFlight (tc_Safety (c_Tiering c))) + maxp < 18446744073709551616 \<Longrightarrow>
   admission_ok maxp c"
  by (simp add: boot_state_def admission_ok_def dispatch_bytes_def dispatch_count_def)

text \<open>C4: Admission is safe under every interleaving: in each reachable state, legs starting and
  finishing, supervised applies coming and going, the keys of the legs in flight are distinct, the
  byte counter is exactly the sum of the dispatched legs, that sum never exceeds
  \<open>maxBytesInFlight\<close>, and no node has more dispatched legs than \<open>maxConcurrentPartitions\<close>.\<close>

theorem admission_invariant:
  assumes "ctl_reachable maxp sv c"
  shows "distinct (map fst (c_inFlight c)) \<and> unat (c_bytesInFlight c) = dispatch_bytes c \<and>
    dispatch_bytes c \<le> unat (MaxBytesInFlight (tc_Safety (c_Tiering c))) \<and>
    (\<forall>n. int (dispatch_count n c) \<le> tc_MaxConcurrentPartitions (c_Tiering c))"
proof -
  have "admission_ok maxp c"
    using assms by (induction rule: ctl_reachable.induct) (auto intro: admission_boot admission_step)
  then show ?thesis by (simp add: admission_ok_def)
qed

definition sample_controller :: controller where
  "sample_controller = New 0 [sample_node] DefaultTierConfig [sample_watch] ''m1''"

lemma sample_boot: "ctl_reachable 1000 sv sample_controller"
  by (rule ctl_reachable.boot)
    (simp_all add: boot_state_def sample_controller_def New_def DefaultTierConfig_def bytesMovedTodayForNode_def)

lemma sample_start: "\<exists>c'. tryStart 0 (sample_verdict\<lparr>v_BytesOnDisk := 100\<rparr>) sample_controller = (True, c') \<and>
    c_bytesInFlight c' = 100"
  by (simp add: tryStart_def tryStart_with_def Let_def sample_controller_def New_def DefaultTierConfig_def
      node_legs_def rollDailyBudgetLocked_def bytesMovedTodayForNode_def)

theorem admission_invariant_witness:
  "\<exists>c. ctl_reachable 1000 True c \<and> c_bytesInFlight c = 100 \<and> dispatch_bytes c = 100"
proof -
  obtain c' where c': "tryStart 0 (sample_verdict\<lparr>v_BytesOnDisk := 100\<rparr>) sample_controller = (True, c')"
    "c_bytesInFlight c' = 100" using sample_start by blast
  have "ctl_step 1000 True sample_controller c'" by (rule ctl_step.start [OF _ c'(1)]) simp
  with sample_boot have r: "ctl_reachable 1000 True c'" by (rule ctl_reachable.step)
  from admission_invariant [OF r] r c'(2) show ?thesis by auto
qed

section \<open>The daily budget\<close>

definition node_weight :: "string \<Rightarrow> string \<times> InFlightLeg \<Rightarrow> nat" where
  "node_weight n e = (if leg_NodeID (snd e) = n then unat (leg_Bytes (snd e)) else 0)"

definition node_bytes :: "string \<Rightarrow> controller \<Rightarrow> nat" where
  "node_bytes n c = (\<Sum>e\<in>#mset (c_inFlight c). node_weight n e)"

definition budget_ok :: "nat \<Rightarrow> controller \<Rightarrow> bool" where
  "budget_ok maxp c \<longleftrightarrow> amap_ok (c_inFlight c) \<and>
     (\<forall>n. moved n c + node_bytes n c \<le> unat (MaxBytesPerDay (tc_Safety (c_Tiering c)))) \<and>
     unat (MaxBytesPerDay (tc_Safety (c_Tiering c))) + maxp < 18446744073709551616"

lemma roll_moved: "moved n (rollDailyBudgetLocked m now c) \<le> moved n c"
  by (simp add: rollDailyBudgetLocked_def moved_def bytesMovedTodayForNode_def update_conv')

lemma node_legs_bytes:
  "node_bytes n c < 18446744073709551616 \<Longrightarrow>
   unat (sum_list (map leg_Bytes (node_legs n c))) = node_bytes n c"
proof -
  have "(\<Sum>e\<in>#mset m. node_weight n e) < 18446744073709551616 \<Longrightarrow>
      unat (sum_list (map leg_Bytes (filter (\<lambda>l. leg_NodeID l = n) (map snd m)))) =
      (\<Sum>e\<in>#mset m. node_weight n e)" for m :: "(string, InFlightLeg) amap"
    by (induction m) (auto simp: node_weight_def unat_add_no_wrap split: if_splits)
  then show "node_bytes n c < 18446744073709551616 \<Longrightarrow> ?thesis" by (simp add: node_bytes_def node_legs_def)
qed

lemma budget_start:
  assumes ok: "budget_ok maxp c" and st: "tryStart_with now st v c = (True, c')"
    and maxp: "unat (v_BytesOnDisk v) \<le> maxp"
  shows "budget_ok maxp c'"
proof -
  note a = tryStart_admitted [OF st]
  let ?n = "v_NodeID v" and ?r = "rollDailyBudgetLocked (v_NodeID v) now c"
  let ?d = "unat (MaxBytesPerDay (tc_Safety (c_Tiering c)))"
  have am: "amap_ok (c_inFlight c)" and fresh: "amap_get (c_inFlight c) (flightKey v) = None"
    using ok a by (auto simp: budget_ok_def)
  have nb: "node_bytes n c' = (if ?n = n then unat (v_BytesOnDisk v) else 0) + node_bytes n c" for n
    using alist_ledger.total_put_fresh [OF am fresh, of "node_weight n" "newInFlightLeg now v ''dispatch''"] a
    by (simp add: node_bytes_def node_weight_def newInFlightLeg_def)
  have mv: "moved n c' = moved n ?r" for n using a by (simp add: moved_def bytesMovedTodayForNode_def)
  have before: "moved n ?r + node_bytes n c \<le> ?d" for n
    using ok roll_moved [of n ?n now c] unfolding budget_ok_def by (meson add_le_mono1 order_trans)
  have cap: "?d + maxp < 18446744073709551616" using ok by (simp add: budget_ok_def)
  have sb: "unat (sum_list (map leg_Bytes (node_legs ?n c))) = node_bytes ?n c"
    using before [of ?n] cap by (intro node_legs_bytes) linarith
  have "moved ?n ?r + node_bytes ?n c + unat (v_BytesOnDisk v) \<le> ?d"
    using a before [of ?n] cap maxp sb by (simp add: word_le_nat_alt unat_add_no_wrap moved_def)
  with before have "moved n c' + node_bytes n c' \<le> ?d" for n
    by (cases "?n = n") (simp_all add: nb mv add.commute add.left_commute)
  then show ?thesis using a cap am by (simp add: budget_ok_def distinct_update)
qed

lemma charge_budget_moved:
  "moved n (charge_budget now v c) \<le> moved n c + (if v_NodeID v = n then unat (v_BytesOnDisk v) else 0)"
proof -
  let ?r = "rollDailyBudgetLocked (v_NodeID v) now c"
  have w: "unat (x + y) \<le> unat x + unat y" for x y :: u64 by (simp add: unat_word_ariths)
  have "moved n (charge_budget now v c) \<le> moved n ?r + (if v_NodeID v = n then unat (v_BytesOnDisk v) else 0)"
    using w [of "bytesMovedTodayForNode ?r (v_NodeID v)" "v_BytesOnDisk v"]
    by (auto simp: charge_budget_def Let_def moved_def bytesMovedTodayForNode_def update_conv')
  then show ?thesis using roll_moved [of n "v_NodeID v" now c] by simp
qed

lemma finish_moved:
  "moved n (finish now v entry c) \<le> moved n c + (if v_NodeID v = n then unat (v_BytesOnDisk v) else 0)"
proof -
  have cong: "c_bytesMovedToday a = c_bytesMovedToday b \<Longrightarrow> moved n a = moved n b" for a b
    by (simp add: moved_def bytesMovedTodayForNode_def)
  define c1 where "c1 = c\<lparr>c_inFlight := amap_del (flightKey v) (c_inFlight c), c_bytesInFlight :=
    (if v_BytesOnDisk v \<le> c_bytesInFlight c then c_bytesInFlight c - v_BytesOnDisk v else 0)\<rparr>"
  have c1: "c_bytesMovedToday c1 = c_bytesMovedToday c" by (simp add: c1_def)
  have tw: "c_bytesMovedToday (snd (training_wheels st x)) = c_bytesMovedToday x" for st x
    by (simp add: training_wheels_def Let_def)
  have f: "c_bytesMovedToday (finish now v entry c) =
      c_bytesMovedToday (if he_Outcome entry = ''success'' then charge_budget now v (note_success v c1) else c1)"
    unfolding finish_def Let_def c1_def [symmetric] finishSuccessLocked_def prod.case
    by (simp add: case_prod_beta tw) (simp add: markStalledLocked_def Let_def)
  have "moved n (finish now v entry c) =
      moved n (if he_Outcome entry = ''success'' then charge_budget now v (note_success v c1) else c1)"
    by (rule cong) (rule f)
  also have "\<dots> \<le> moved n c1 + (if v_NodeID v = n then unat (v_BytesOnDisk v) else 0)"
    using charge_budget_moved [of n now v "note_success v c1"] by (auto split: if_splits)
  finally show ?thesis using cong [OF c1] by simp
qed

lemma budget_finish:
  assumes ok: "budget_ok maxp c" and leg: "amap_get (c_inFlight c) (flightKey v) = Some leg"
    "leg_NodeID leg = v_NodeID v" "leg_Bytes leg = v_BytesOnDisk v"
  shows "budget_ok maxp (finish now v entry c)"
proof -
  have am: "amap_ok (c_inFlight c)" using ok by (simp add: budget_ok_def)
  note f = finish_fields [of now v entry c]
  have nb: "node_bytes n c = (if v_NodeID v = n then unat (v_BytesOnDisk v) else 0) +
      node_bytes n (finish now v entry c)" for n
    using alist_ledger.total_del [OF am leg(1), of "node_weight n"] f leg(2,3)
    by (simp add: node_bytes_def node_weight_def)
  have "moved n (finish now v entry c) + node_bytes n (finish now v entry c) \<le>
      unat (MaxBytesPerDay (tc_Safety (c_Tiering c)))" for n
  proof -
    have "moved n c + node_bytes n c \<le> unat (MaxBytesPerDay (tc_Safety (c_Tiering c)))"
      using ok by (simp add: budget_ok_def)
    with finish_moved [of n now v entry c] nb [of n] show ?thesis by simp
  qed
  then show ?thesis using f ok by (simp add: budget_ok_def limits_def distinct_delete)
qed

lemma budget_step: "ctl_step maxp False c c' \<Longrightarrow> budget_ok maxp c \<Longrightarrow> budget_ok maxp c'"
proof (induction rule: ctl_step.induct)
  case (start v now c c')
  then show ?case using budget_start unfolding tryStart_def by blast
next
  case (refuse now v c c')
  note f = tryStart_refused_fields [OF refuse(1) [unfolded tryStart_def]]
  have "moved n c' \<le> moved n c" for n
    using f roll_moved [of n "v_NodeID v" now c] by (auto simp: moved_def bytesMovedTodayForNode_def)
  with refuse f show ?case
    unfolding budget_ok_def node_bytes_def by (metis add_le_mono1 order_trans)
next
  case (finish c v leg now entry)
  then show ?case using budget_finish by blast
next
  case (elsewhere c s m)
  then show ?case by (simp add: budget_ok_def node_bytes_def moved_def bytesMovedTodayForNode_def)
qed simp_all



text \<open>C35: A pause can be lost: \<open>tryStart\<close> reads the status, and writes the whole of it back when it
  admits a leg; an operator's pause that lands in between is overwritten, and the controller goes
  on running.\<close>

theorem pause_lost_in_admission:
  assumes "tryStart_with now (store_Status (c_store c)) v (ctl_Pause t PauseReasonOperator c) = (True, c')"
    and "sn_PauseState (store_Status (c_store c)) = PauseRunning"
  shows "sn_PauseState (store_Status (c_store (ctl_Pause t PauseReasonOperator c))) = PauseStopped \<and>
    sn_PauseState (store_Status (c_store c')) = PauseRunning"
  using assms by (auto simp: tryStart_with_def Let_def ctl_Pause_def Pause_def SetStatus_def split: if_splits)

theorem pause_lost_in_admission_witness:
  "\<exists>c'. tryStart_with 0 (store_Status (c_store sample_controller)) (sample_verdict\<lparr>v_BytesOnDisk := 100\<rparr>)
      (ctl_Pause 0 PauseReasonOperator sample_controller) = (True, c') \<and>
    sn_PauseState (store_Status (c_store c')) = PauseRunning"
proof -
  obtain c' where "tryStart_with 0 (store_Status (c_store sample_controller)) (sample_verdict\<lparr>v_BytesOnDisk := 100\<rparr>)
      (ctl_Pause 0 PauseReasonOperator sample_controller) = (True, c')"
    by (simp add: tryStart_with_def Let_def sample_controller_def New_def DefaultTierConfig_def
        node_legs_def rollDailyBudgetLocked_def bytesMovedTodayForNode_def ctl_Pause_def)
  moreover from this have "sn_PauseState (store_Status (c_store c')) = PauseRunning"
    by (rule pause_lost_in_admission [THEN conjunct2])
      (simp add: sample_controller_def New_def SetStatus_def initial_status_def)
  ultimately show ?thesis by blast
qed

end
