(* ===== verification/Safety.thy ===== *)
theory Safety
  imports Controller
begin

text \<open>
  The rails around dispatch (\<open>internal/tiering/safety.go\<close>, the failure log of \<open>reconcile.go\<close>,
  \<open>cancel.go\<close>): seeding a node, the guard against foreign movers with its pauses and resumes, the
  cold read probe, the count of cold-side merges, and the diff breaker. Log lines and metrics are
  not part of the state; where a metric is the point of a function, it is its result.
\<close>

section \<open>Keys, cancellation, repeated failures\<close>

definition tableLogKey :: "string \<Rightarrow> string \<Rightarrow> string \<Rightarrow> string" where
  "tableLogKey nodeID database table = join ''/'' [nodeID, database, table]"

text \<open>\<open>canceled\<close> is whether the context itself was cancelled.\<close>

definition isContextCanceled :: "bool \<Rightarrow> gotext \<Rightarrow> bool" where
  "isContextCanceled canceled err \<longleftrightarrow> errors_is err ErrCanceled \<or> canceled"

definition repeatedFailureLogEvery :: gdur where "repeatedFailureLogEvery = 5 * minute"

text \<open>Whether to log, how many repeats were suppressed, and the new state.\<close>

definition updateFailureLog :: "string \<Rightarrow> gotext \<Rightarrow> gtime \<Rightarrow> controller \<Rightarrow> (bool \<times> u64) \<times> controller" where
  "updateFailureLog key message now c =
     (let fresh = ((True, 0), c\<lparr>c_failureLogs := (c_failureLogs c)(key \<mapsto>
            \<lparr>fl_message = message, fl_lastLogged = now, fl_suppressed = 0\<rparr>)\<rparr>)
      in case c_failureLogs c key of
        None \<Rightarrow> fresh
      | Some state \<Rightarrow>
          if fl_message state \<noteq> message then fresh
          else if repeatedFailureLogEvery \<le> time_sub now (fl_lastLogged state) then
            ((True, fl_suppressed state),
             c\<lparr>c_failureLogs := (c_failureLogs c)(key \<mapsto> state\<lparr>fl_lastLogged := now, fl_suppressed := 0\<rparr>)\<rparr>)
          else
            ((False, 0),
             c\<lparr>c_failureLogs := (c_failureLogs c)(key \<mapsto> state\<lparr>fl_suppressed := fl_suppressed state + 1\<rparr>)\<rparr>))"

definition warnRepeatedFailure :: "string \<Rightarrow> gotext \<Rightarrow> gtime \<Rightarrow> controller \<Rightarrow> controller" where
  "warnRepeatedFailure key message now c = snd (updateFailureLog key message now c)"

definition clearRepeatedFailure :: "string \<Rightarrow> controller \<Rightarrow> controller" where
  "clearRepeatedFailure key c = c\<lparr>c_failureLogs := (c_failureLogs c)(key := None)\<rparr>"

section \<open>Seeding a node\<close>

definition seed_budget :: "gtime \<Rightarrow> string \<Rightarrow> u64 \<Rightarrow> controller \<Rightarrow> controller" where
  "seed_budget now nodeID bytes c =
     (let c1 = c\<lparr>c_bytesMovedToday := amap_put nodeID bytes (c_bytesMovedToday c),
                c_budgetDay := (c_budgetDay c)(nodeID \<mapsto> utc_day now)\<rparr>;
          status = (store_Status (c_store c1))\<lparr>sn_BytesMovedToday := totalBytesMovedTodayLocked c1\<rparr>
      in c1\<lparr>c_store := SetStatus now status (c_store c1)\<rparr>)"

definition seedNode :: "go_env \<Rightarrow> server \<Rightarrow> Node \<Rightarrow> controller \<Rightarrow> controller" where
  "seedNode env S node c =
     (let now = env_clock env;
          c1 = c\<lparr>c_bootTimes := (c_bootTimes c)(nd_ID node \<mapsto> now)\<rparr>;
          c2 = (case CaptureBootTime S of
                  Inl e \<Rightarrow> c1
                | Inr boot \<Rightarrow> c1\<lparr>c_bootTimes := (c_bootTimes c1)(nd_ID node \<mapsto> boot)\<rparr>)
      in case SeedMovedBytesToday S (c_Watches c2) of
           Inl e \<Rightarrow> c2
         | Inr bytes \<Rightarrow> seed_budget now (nd_ID node) bytes c2)"

section \<open>The guard against foreign movers\<close>

definition inFlightPartNames :: "controller \<Rightarrow> TableObservation \<Rightarrow> string list" where
  "inFlightPartNames c table =
     concat (map (\<lambda>p. if amap_get (c_inFlight c) (partition_key table p) = None then []
                      else map ph_Name (part_Hashes p)) (obs_Partitions table))"

definition markForeignGuardScanned :: "string \<Rightarrow> gtime \<Rightarrow> controller \<Rightarrow> controller" where
  "markForeignGuardScanned key scanStartedAt c =
     (let seen = (case c_foreignGuardSeen c key of Some t \<Rightarrow> t | None \<Rightarrow> zero_time) in
      if seen < scanStartedAt
      then c\<lparr>c_foreignGuardSeen := (c_foreignGuardSeen c)(key \<mapsto> scanStartedAt)\<rparr> else c)"

text \<open>The boot reference and the start of the scan.\<close>

definition guard_window :: "gtime \<Rightarrow> string \<Rightarrow> string \<Rightarrow> controller \<Rightarrow> gtime \<times> gtime" where
  "guard_window now nodeID key c =
     (let boot0 = (case c_bootTimes c nodeID of Some t \<Rightarrow> t | None \<Rightarrow> zero_time);
          since0 = (case c_foreignGuardSeen c key of Some t \<Rightarrow> t | None \<Rightarrow> zero_time);
          boot = (if is_zero boot0 then now else boot0);
          since = (if is_zero since0 \<or> since0 < boot then boot else since0)
      in (boot, since))"

text \<open>After a clean scan: two clean ticks of one table lift a pause for foreign moves.\<close>

definition guard_clean :: "gtime \<Rightarrow> string \<Rightarrow> controller \<Rightarrow> controller" where
  "guard_clean now key c =
     (if sn_PauseReason (store_Status (c_store c)) = PauseReasonForeignMover then
        (let ticks = (case c_foreignClean c key of Some n \<Rightarrow> n | None \<Rightarrow> 0) + 1;
             c1 = c\<lparr>c_foreignClean := (c_foreignClean c)(key \<mapsto> ticks)\<rparr>
         in if 2 \<le> ticks then ctl_Resume now c1 else c1)
      else c\<lparr>c_foreignClean := (c_foreignClean c)(key \<mapsto> 0)\<rparr>)"

definition guardForeignMovers ::
  "go_env \<Rightarrow> server \<Rightarrow> bool \<Rightarrow> Node \<Rightarrow> TableObservation \<Rightarrow> controller \<Rightarrow> bool \<times> controller" where
  "guardForeignMovers env S canceled node table c =
     (let now = env_clock env;
          table' = table\<lparr>obs_InFlightPartNames := inFlightPartNames c table\<rparr>;
          key = tableLogKey (nd_ID node) (obs_Database table) (obs_Table table);
          logKey = ''foreign_guard:'' @ key
      in case guard_window now (nd_ID node) key c of (bootTime, since) \<Rightarrow>
         case ObserveForeignMovesSince env S table' (controller_instanceID c) bootTime since (c_lastFlush c) of
           (Inl err, lastFlush) \<Rightarrow>
             (let c1 = c\<lparr>c_lastFlush := lastFlush\<rparr> in
              if isContextCanceled canceled err then (False, c1)
              else (False, ctl_Pause now PauseReasonForeignMover c1))
         | (Inr found, lastFlush) \<Rightarrow>
             (let c1 = markForeignGuardScanned key now (c\<lparr>c_lastFlush := lastFlush\<rparr>) in
              if fm_DuplicateInstance found then
                (False, warnRepeatedFailure logKey (Fmt ''duplicate:%s'' [AText (fm_Message found)]) now
                   (ctl_Pause now PauseReasonDuplicateInstance c1))
              else if fm_ForeignActivity found then
                (False, warnRepeatedFailure logKey (Fmt ''foreign:%s'' [AText (fm_Message found)]) now
                   (ctl_Pause now PauseReasonForeignMover c1))
              else (True, guard_clean now key (clearRepeatedFailure logKey c1))))"

section \<open>The cold read probe\<close>

text \<open>\<open>now.UTC().Format("2006-01-02")\<close> for the years that have four digits.\<close>

definition two_digit :: "int \<Rightarrow> string" where
  "two_digit n = (if n < 10 then ''0'' else '''') @ show_int n"

definition day_text :: "gtime \<Rightarrow> string" where
  "day_text now =
     (case civil_of_days (utc_day now) of (y, m, d) \<Rightarrow>
        show_int y @ ''-'' @ two_digit m @ ''-'' @ two_digit d)"

definition probeCandidateIndex :: "string \<Rightarrow> gtime \<Rightarrow> nat \<Rightarrow> nat" where
  "probeCandidateIndex key now candidates =
     (if candidates \<le> 1 then 0
      else unat (fnv64a (key @ ''/'' @ day_text now) mod of_nat candidates))"

definition maybeProbeColdPartition ::
  "go_env \<Rightarrow> server \<Rightarrow> Node \<Rightarrow> TableObservation \<Rightarrow> controller \<Rightarrow> Condition list \<times> controller" where
  "maybeProbeColdPartition env S node table c =
     (let now = env_clock env;
          key = tableLogKey (nd_ID node) (obs_Database table) (obs_Table table);
          prev = (case c_probeLast c key of Some t \<Rightarrow> t | None \<Rightarrow> zero_time)
      in if \<not> is_zero prev \<and> time_sub now prev < 24 * hour then ([], c)
         else
           let c1 = c\<lparr>c_probeLast := (c_probeLast c)(key \<mapsto> now)\<rparr>;
               candidates = filter (\<lambda>p. hasDisk (part_Disks p) (ts_TargetDisk (obs_Settings table)))
                 (obs_Partitions table)
           in if candidates = [] then ([], c1)
              else
                let p = candidates ! probeCandidateIndex key now (length candidates) in
                case ProbeColdPartition S table p of
                  None \<Rightarrow> ([], c1)
                | Some e \<Rightarrow>
                    ([NewCondition env SeverityWarning ''cold_read_probe_failed'' e (nd_ID node)
                        (obs_Database table) (obs_Table table) (part_Partition p) (part_PartitionID p)], c1))"

section \<open>Cold-side merges and the breaker\<close>

text \<open>The count that is recorded as a metric, if one is.\<close>

definition recordColdSideMerges ::
  "go_env \<Rightarrow> server \<Rightarrow> bool \<Rightarrow> Node \<Rightarrow> TableObservation \<Rightarrow> controller \<Rightarrow> u64 option \<times> controller" where
  "recordColdSideMerges env S canceled node table c =
     (if ts_OptimizeOn (obs_Settings table) = OptimizeOnCold then (None, c)
      else if conditionPresent (obs_Conditions table) ''part_log_unreadable'' then (None, c)
      else
        let key = tableLogKey (nd_ID node) (obs_Database table) (obs_Table table);
            since = (case c_sideMergeLast c key of Some t \<Rightarrow> t | None \<Rightarrow> zero_time);
            mark = (\<lambda>x. x\<lparr>c_sideMergeLast := (c_sideMergeLast x)(key \<mapsto> obs_ObservedAt table)\<rparr>)
        in if is_zero since then (None, mark c)
           else case CountColdSideMerges S table since of
             Inl err \<Rightarrow>
               (if isContextCanceled canceled err then (None, c)
                else (None, warnRepeatedFailure (''side_merge:'' @ key) err (env_clock env) c))
           | Inr merges \<Rightarrow> (Some merges, mark (clearRepeatedFailure (''side_merge:'' @ key) c)))"

definition breaker_limits :: "gtime \<Rightarrow> DiffBreakerConfig \<Rightarrow> int \<times> f64" where
  "breaker_limits now limit =
     (case brk_Override limit of
        Some o' \<Rightarrow> if now < ovr_Expires o' then (ovr_MaxPartitions o', ovr_MaxTableFraction o')
                  else (brk_MaxPartitions limit, brk_MaxTableFraction limit)
      | None \<Rightarrow> (brk_MaxPartitions limit, brk_MaxTableFraction limit))"

definition breakerTripped :: "gtime \<Rightarrow> controller \<Rightarrow> int \<Rightarrow> int \<Rightarrow> bool" where
  "breakerTripped now c actionable' all =
     (case breaker_limits now (DiffBreaker (tc_Safety (c_Tiering c))) of (maxPartitions, maxFraction) \<Rightarrow>
        if maxPartitions < actionable' then True
        else 0 < all \<and> f64_less maxFraction (f64_div (f64_of_int actionable') (f64_of_int all)))"

section \<open>Lemmas\<close>

text \<open>The probe always picks an existing candidate.\<close>

theorem probe_index_in_range:
  assumes "0 < n" "n < 18446744073709551616"
  shows "probeCandidateIndex key now n < n"
proof (cases "n \<le> 1")
  case False
  have u: "unat (of_nat n :: u64) = n" using assms(2) by (simp add: unat_of_nat)
  with False show ?thesis
    by (simp add: probeCandidateIndex_def unat_mod)
qed (use assms in \<open>simp add: probeCandidateIndex_def\<close>)

theorem probe_index_in_range_witness: "probeCandidateIndex ''n/d/t'' 0 3 < 3"
  by (rule probe_index_in_range) simp_all

text \<open>The guard lets dispatch go on only after a clean scan, and after anything else it refuses:
  a duplicate instance, foreign activity or a failed scan leaves the controller paused, unless the
  scan failed because the controller is being stopped.\<close>

theorem guard_refusal_pauses:
  assumes "guardForeignMovers env S canceled node table c = (False, c')"
  shows "sn_PauseState (store_Status (c_store c')) = PauseStopped \<and>
      sn_PauseReason (store_Status (c_store c')) \<in> {PauseReasonForeignMover, PauseReasonDuplicateInstance} \<or>
    (\<exists>err lf. ObserveForeignMovesSince env S (table\<lparr>obs_InFlightPartNames := inFlightPartNames c table\<rparr>)
        (controller_instanceID c)
        (fst (guard_window (env_clock env) (nd_ID node) (tableLogKey (nd_ID node) (obs_Database table) (obs_Table table)) c))
        (snd (guard_window (env_clock env) (nd_ID node) (tableLogKey (nd_ID node) (obs_Database table) (obs_Table table)) c))
        (c_lastFlush c) = (Inl err, lf) \<and>
      isContextCanceled canceled err)"
  using assms
  by (auto simp: guardForeignMovers_def Let_def ctl_Pause_def Pause_def warnRepeatedFailure_def
      updateFailureLog_def split: prod.splits sum.splits if_splits option.splits)

end
