(* ===== verification/Reconcile.thy ===== *)
theory Reconcile
  imports Safety "HOL-Library.Sublist"
begin

text \<open>
  One reconcile loop per node and table (\<open>internal/tiering/reconcile.go\<close>, \<open>dispatch\<close> of
  \<open>dispatch.go\<close>, \<open>observeTable\<close> of \<open>controller.go\<close>): the tick (observe, decide, overlay, probe,
  publish, dispatch), the delay until the next one with its backoff and jitter, the kick that
  makes it early, and the phase offset between replicas. Dispatch gives the verdicts whose legs it
  started; what the legs do meanwhile are the steps of \<open>Controller\<close>.
\<close>

section \<open>Delays\<close>

definition minObserveFailureBackoff :: gdur where "minObserveFailureBackoff = second"
definition maxObserveFailureBackoff :: gdur where "maxObserveFailureBackoff = minute"
definition backoffJitterPermille :: int where "backoffJitterPermille = 200"
definition DefaultInterval :: gdur where "DefaultInterval = 5 * minute"

record reconcileBackoff =
  bo_key :: string
  bo_normal :: gdur
  bo_initial :: gdur
  bo_maxDelay :: gdur
  bo_failures :: int

definition newReconcileBackoff :: "string \<Rightarrow> gdur \<Rightarrow> reconcileBackoff" where
  "newReconcileBackoff key interval0 =
     (let interval = (if interval0 \<le> 0 then DefaultInterval else interval0)
      in \<lparr>bo_key = key, bo_normal = interval, bo_initial = max interval minObserveFailureBackoff,
          bo_maxDelay = max maxObserveFailureBackoff interval, bo_failures = 0\<rparr>)"

definition jitter_offset :: "string \<Rightarrow> int \<Rightarrow> int" where
  "jitter_offset key failures =
     uint (fnv64a (key @ [CHR 0x00] @ show_int failures) mod 401) - backoffJitterPermille"

text \<open>The product is an \<open>int64\<close> and wraps.\<close>

definition jitterBackoff :: "gdur \<Rightarrow> string \<Rightarrow> int \<Rightarrow> gdur" where
  "jitterBackoff delay key failures =
     (if delay \<le> 0 then delay
      else go_div (wrap64 (delay * (1000 + jitter_offset key failures))) 1000)"

text \<open>The delay before the jitter: the initial one, doubled for each failure after the first.\<close>

definition backoff_base :: "reconcileBackoff \<Rightarrow> int \<Rightarrow> gdur" where
  "backoff_base b failures = double_until (bo_maxDelay b) (nat (failures - 1)) (bo_initial b)"

definition backoff_next :: "bool \<Rightarrow> reconcileBackoff \<Rightarrow> gdur \<times> reconcileBackoff" where
  "backoff_next success b =
     (if success then (bo_normal b, b\<lparr>bo_failures := 0\<rparr>)
      else
        let b1 = b\<lparr>bo_failures := bo_failures b + 1\<rparr>;
            delay = jitterBackoff (backoff_base b1 (bo_failures b1)) (bo_key b1) (bo_failures b1)
        in (if bo_maxDelay b1 < delay then bo_maxDelay b1 else delay, b1))"

definition replicaPhaseOffset :: "Node \<Rightarrow> gdur \<Rightarrow> gdur" where
  "replicaPhaseOffset node interval =
     (if interval \<le> 0 then 0
      else uint (fnv64a (nd_Shard node @ ''/'' @ nd_Replica node @ ''/'' @ nd_ID node) mod
                 word_of_int interval))"

definition usesEnforceMode :: "controller \<Rightarrow> EffectiveWatch \<Rightarrow> bool" where
  "usesEnforceMode c watch =
     (case w_Settings watch of
        Some s \<Rightarrow> if ts_Mode s \<noteq> '''' then ts_Mode s = ModeEnforce
                  else tc_Mode (c_Tiering c) = ModeEnforce
      | None \<Rightarrow> tc_Mode (c_Tiering c) = ModeEnforce)"

section \<open>Kicks\<close>

text \<open>A kick is a channel with a buffer of one: registered, and holding a signal or not.\<close>

definition registerKick :: "string \<Rightarrow> string \<Rightarrow> string \<Rightarrow> controller \<Rightarrow> controller" where
  "registerKick nodeID database table c =
     (let key = tableLogKey nodeID database table in
      if c_kicks c key \<noteq> None then c else c\<lparr>c_kicks := (c_kicks c)(key \<mapsto> False)\<rparr>)"

definition kickReconcile :: "string \<Rightarrow> string \<Rightarrow> string \<Rightarrow> controller \<Rightarrow> controller" where
  "kickReconcile nodeID database table c =
     (let key = tableLogKey nodeID database table in
      if c_kicks c key = None then c else c\<lparr>c_kicks := (c_kicks c)(key \<mapsto> True)\<rparr>)"

text \<open>What the wait ended with. A kick is received only when the channel holds one.\<close>

datatype wake = WakeDone | WakeTimer | WakeKick

definition wake_possible :: "wake \<Rightarrow> string \<Rightarrow> controller \<Rightarrow> bool" where
  "wake_possible wake key c \<longleftrightarrow> wake \<noteq> WakeKick \<or> c_kicks c key = Some True"

definition waitForNextReconcile :: "wake \<Rightarrow> string \<Rightarrow> controller \<Rightarrow> bool \<times> controller" where
  "waitForNextReconcile wake key c =
     (case wake of
        WakeDone \<Rightarrow> (False, c)
      | WakeTimer \<Rightarrow> (True, c)
      | WakeKick \<Rightarrow> (True, c\<lparr>c_kicks := (c_kicks c)(key \<mapsto> False)\<rparr>))"

section \<open>Observing and publishing\<close>

text \<open>
  The observation waits for a slot of its node's gate. A call that waits and is granted one is the
  same call made when the slot is free, so a full gate here is the call whose context ended first;
  \<open>ctx_err\<close> is that context's error. The slot is released when the observation returns.
\<close>

definition observeTable ::
  "go_env \<Rightarrow> server \<Rightarrow> gotext \<Rightarrow> Node \<Rightarrow> EffectiveWatch \<Rightarrow> controller \<Rightarrow> (gotext + TableObservation) \<times> controller" where
  "observeTable env S ctx_err node watch c =
     (case acquireObserveSlot (nd_ID node) c of
        None \<Rightarrow> (Inl ctx_err, c)
      | Some c1 \<Rightarrow> (ObserveTable env S node watch, releaseObserveSlot (nd_ID node) c1))"

definition decisionTime :: "go_env \<Rightarrow> TableObservation \<Rightarrow> gtime" where
  "decisionTime env obs = (if is_zero (obs_ObservedAt obs) then env_clock env else obs_ObservedAt obs)"

definition plan_of ::
  "Node \<Rightarrow> EffectiveWatch \<Rightarrow> TableObservation \<Rightarrow> Verdict list \<Rightarrow> gdur \<Rightarrow> TablePlan" where
  "plan_of node watch obs verdicts took =
     \<lparr>tp_NodeID = nd_ID node, tp_Database = w_Database watch, tp_Table = w_Table watch,
      tp_ReconciledAt = obs_ObservedAt obs, tp_TickDuration = took,
      tp_Generation = lay_Generation (obs_Layout obs), tp_LastError = no_text,
      tp_Verdicts = verdicts, tp_Conditions = obs_Conditions obs\<rparr>"

definition ctl_Publish :: "TablePlan \<Rightarrow> controller \<Rightarrow> controller" where
  "ctl_Publish plan c = c\<lparr>c_store := Publish plan (c_store c)\<rparr>"

definition ctl_PublishError ::
  "gtime \<Rightarrow> Node \<Rightarrow> EffectiveWatch \<Rightarrow> gotext \<Rightarrow> gdur \<Rightarrow> controller \<Rightarrow> controller" where
  "ctl_PublishError now node watch err took c =
     c\<lparr>c_store := PublishError now (nd_ID node) (w_Database watch) (w_Table watch) '''' err took (c_store c)\<rparr>"

text \<open>Classify and overlay: the verdicts of an observation under the controller's stalls.\<close>

definition classify ::
  "go_env \<Rightarrow> TableObservation \<Rightarrow> controller \<Rightarrow> TableObservation \<times> Verdict list \<times> controller" where
  "classify env obs0 c =
     (let obs = applyAdaptiveResplitQuiet c obs0 in
      case overlayStalled env (env_clock env) (DecideTable env obs (decisionTime env obs)) c of
        (verdicts, c1) \<Rightarrow> (obs, verdicts, c1))"

definition republishTable ::
  "go_env \<Rightarrow> server \<Rightarrow> gotext \<Rightarrow> gdur \<Rightarrow> Node \<Rightarrow> EffectiveWatch \<Rightarrow> controller \<Rightarrow> controller" where
  "republishTable env S ctx_err took node watch c =
     (case observeTable env S ctx_err node watch c of
        (Inl err, c1) \<Rightarrow> ctl_PublishError (env_clock env) node watch err took c1
      | (Inr obs0, c1) \<Rightarrow>
          (case classify env obs0 c1 of
             (obs, verdicts, c2) \<Rightarrow> ctl_Publish (plan_of node watch obs verdicts took) c2))"

section \<open>Dispatch\<close>

text \<open>The loop over the actionable verdicts: each admitted leg counts as a move, and the loop stops at
  the configured number of them. The legs it started are the result.\<close>

fun start_legs :: "int \<Rightarrow> int \<Rightarrow> gtime \<Rightarrow> Verdict list \<Rightarrow> controller \<Rightarrow> Verdict list \<times> controller" where
  "start_legs maxMoves moves now [] c = ([], c)"
| "start_legs maxMoves moves now (v # vs) c =
     (if maxMoves \<le> moves then ([], c)
      else case tryStart now v c of
        (False, c1) \<Rightarrow> start_legs maxMoves moves now vs c1
      | (True, c1) \<Rightarrow>
          (case start_legs maxMoves (moves + 1) now vs c1 of (started, c2) \<Rightarrow> (v # started, c2)))"

definition dispatch ::
  "go_env \<Rightarrow> server \<Rightarrow> bool \<Rightarrow> Node \<Rightarrow> TableObservation \<Rightarrow> Verdict list \<Rightarrow> controller \<Rightarrow> Verdict list \<times> controller" where
  "dispatch env S canceled node table verdicts c =
     (if obs_EffectiveMode table \<noteq> ModeEnforce then ([], c)
      else case guardForeignMovers env S canceled node table c of
        (False, c1) \<Rightarrow> ([], c1)
      | (True, c1) \<Rightarrow>
          if sn_PauseState (store_Status (c_store c1)) \<noteq> PauseRunning then ([], c1)
          else
            let legs = actionableVerdicts verdicts in
            if legs = [] then ([], c1)
            else
              let ordered = orderOldestFirst env table legs in
              if breakerTripped (env_clock env) c1 (int (length ordered)) (int (length verdicts)) then ([], c1)
              else start_legs (MaxMovesPerCycle (tc_Safety (c_Tiering c1))) 0 (env_clock env) ordered c1)"

text \<open>The end of a dispatched leg: the bookkeeping, then a kick when it converged.\<close>

definition leg_done :: "gtime \<Rightarrow> Verdict \<Rightarrow> HistoryEntry \<Rightarrow> controller \<Rightarrow> controller" where
  "leg_done now v entry c =
     (let c1 = finish now v entry c in
      if he_Outcome entry = ''success'' then kickReconcile (v_NodeID v) (v_Database v) (v_Table v) c1 else c1)"

section \<open>The tick and the loop\<close>

definition observe_failed ::
  "gtime \<Rightarrow> Node \<Rightarrow> EffectiveWatch \<Rightarrow> gotext \<Rightarrow> gdur \<Rightarrow> controller \<Rightarrow> controller" where
  "observe_failed now node watch err took c =
     warnRepeatedFailure (''observe:'' @ tableLogKey (nd_ID node) (w_Database watch) (w_Table watch)) err now
       (ctl_PublishError now node watch err took c)"

text \<open>The part of a tick that follows a successful observation, up to the published plan.\<close>

definition publish_tick ::
  "go_env \<Rightarrow> server \<Rightarrow> bool \<Rightarrow> gdur \<Rightarrow> Node \<Rightarrow> EffectiveWatch \<Rightarrow> TableObservation \<Rightarrow> controller \<Rightarrow>
   TableObservation \<times> Verdict list \<times> controller" where
  "publish_tick env S canceled took node watch obs0 c =
     (let c1 = clearRepeatedFailure
            (''observe:'' @ tableLogKey (nd_ID node) (w_Database watch) (w_Table watch)) c
      in case classify env obs0 c1 of (obs, verdicts, c2) \<Rightarrow>
         case maybeProbeColdPartition env S node obs c2 of (probeConditions, c3) \<Rightarrow>
           (let obs' = obs\<lparr>obs_Conditions := obs_Conditions obs @ probeConditions\<rparr>;
                c4 = snd (recordColdSideMerges env S canceled node obs' c3)
            in (obs', verdicts, ctl_Publish (plan_of node watch obs' verdicts took) c4)))"

definition reconcileOnce ::
  "go_env \<Rightarrow> server \<Rightarrow> bool \<Rightarrow> gotext \<Rightarrow> gdur \<Rightarrow> Node \<Rightarrow> EffectiveWatch \<Rightarrow> controller \<Rightarrow>
   bool \<times> Verdict list \<times> controller" where
  "reconcileOnce env S canceled ctx_err took node watch c =
     (case observeTable env S ctx_err node watch c of
        (Inl err, c1) \<Rightarrow>
          if isContextCanceled canceled err then (True, [], c1)
          else (False, [], observe_failed (env_clock env) node watch err took c1)
      | (Inr obs0, c1) \<Rightarrow>
          (case publish_tick env S canceled took node watch obs0 c1 of
             (obs, verdicts, c2) \<Rightarrow>
               (case dispatch env S canceled node obs verdicts c2 of
                  (started, c3) \<Rightarrow> (True, started, c3))))"

text \<open>
  One turn of the loop as its surroundings present it: what the other goroutines did to the
  controller since the last turn, the world the tick meets, and how the wait after it ends.
\<close>

record turn =
  tn_before :: "controller \<Rightarrow> controller"
  tn_env :: go_env
  tn_server :: server
  tn_canceled :: bool
  tn_ctx_err :: gotext
  tn_took :: gdur
  tn_meanwhile :: "controller \<Rightarrow> controller"
  tn_wake :: wake

text \<open>The loop over the turns: the delays it asked for, the legs it started, the last state.\<close>

fun reconcile_turns ::
  "Node \<Rightarrow> EffectiveWatch \<Rightarrow> turn list \<Rightarrow> reconcileBackoff \<Rightarrow> controller \<Rightarrow>
   gdur list \<times> Verdict list list \<times> controller" where
  "reconcile_turns node watch [] b c = ([], [], c)"
| "reconcile_turns node watch (t # ts) b c =
     (case reconcileOnce (tn_env t) (tn_server t) (tn_canceled t) (tn_ctx_err t) (tn_took t) node watch
             (tn_before t c) of
        (success, started, c1) \<Rightarrow>
          (case backoff_next success b of (delay, b1) \<Rightarrow>
           case waitForNextReconcile (tn_wake t) (tableLogKey (nd_ID node) (w_Database watch) (w_Table watch))
                  (tn_meanwhile t c1) of
             (False, c2) \<Rightarrow> ([delay], [started], c2)
           | (True, c2) \<Rightarrow>
               (case reconcile_turns node watch ts b1 c2 of
                  (delays, legs, c3) \<Rightarrow> (delay # delays, started # legs, c3))))"

text \<open>The loop of one table: in enforce mode a plan is published first and the phase offset is
  waited out (\<open>phase_done\<close>: the context lived that long).\<close>

definition reconcileLoop ::
  "go_env \<Rightarrow> server \<Rightarrow> gotext \<Rightarrow> gdur \<Rightarrow> bool \<Rightarrow> Node \<Rightarrow> EffectiveWatch \<Rightarrow> turn list \<Rightarrow> controller \<Rightarrow>
   gdur list \<times> Verdict list list \<times> controller" where
  "reconcileLoop env S ctx_err took phase_done node watch turns c =
     (let interval0 = tc_Interval (c_Tiering c);
          interval = (if interval0 \<le> 0 then DefaultInterval else interval0);
          run = (\<lambda>x. reconcile_turns node watch turns
             (newReconcileBackoff (tableLogKey (nd_ID node) (w_Database watch) (w_Table watch)) interval)
             (registerKick (nd_ID node) (w_Database watch) (w_Table watch) x))
      in if usesEnforceMode c watch \<and> 0 < replicaPhaseOffset node interval then
           (let c1 = republishTable env S ctx_err took node watch c in
            if phase_done then run c1 else ([], [], c1))
         else run c)"

section \<open>The delays are bounded\<close>

lemma jitter_offset_bounds: "- 200 \<le> jitter_offset key n \<and> jitter_offset key n \<le> 200"
proof -
  define h where "h = fnv64a (key @ [CHR 0x00] @ show_int n) mod 401"
  have "uint h = uint (fnv64a (key @ [CHR 0x00] @ show_int n)) mod 401"
    by (simp add: h_def uint_mod)
  then have "0 \<le> uint h \<and> uint h \<le> 400" by simp
  then show ?thesis by (simp add: jitter_offset_def backoffJitterPermille_def h_def)
qed

lemma jitter_bounds:
  assumes "0 < d" "1200 * d \<le> max_i64"
  shows "800 * d \<le> 1000 * jitterBackoff d key n + 999 \<and> 1000 * jitterBackoff d key n \<le> 1200 * d \<and>
    0 \<le> jitterBackoff d key n"
proof -
  define m where "m = 1000 + jitter_offset key n"
  have m: "800 \<le> m" "m \<le> 1200" using jitter_offset_bounds [of key n] by (simp_all add: m_def)
  have lo: "800 * d \<le> d * m" and hi: "d * m \<le> 1200 * d"
    using assms(1) m mult_left_mono [of 800 m d] mult_left_mono [of m 1200 d] by (simp_all add: mult.commute)
  have "in_i64 (d * m)" using lo hi assms unfolding i64_simps by linarith
  then have "wrap64 (d * m) = d * m" by (rule wrap64_id)
  then have "jitterBackoff d key n = d * m div 1000"
    using assms(1) lo by (simp add: jitterBackoff_def go_div_nonneg flip: m_def)
  moreover have "d * m - 999 \<le> 1000 * (d * m div 1000)" "1000 * (d * m div 1000) \<le> d * m" by arith+
  ultimately show ?thesis using lo hi assms(1) by (intro conjI) linarith+
qed

lemma loop_schedule:
  "capped_doubling (\<lambda>n. backoff_base (newReconcileBackoff key interval) (int n + 1))
     (bo_maxDelay (newReconcileBackoff key interval))"
proof -
  define b where "b = newReconcileBackoff key interval"
  have "0 < bo_initial b \<and> bo_initial b \<le> bo_maxDelay b"
    by (auto simp: b_def newReconcileBackoff_def Let_def minObserveFailureBackoff_def
        maxObserveFailureBackoff_def DefaultInterval_def dur_simps)
  then have "capped_doubling (\<lambda>n. double_until (bo_maxDelay b) n (bo_initial b)) (bo_maxDelay b)"
    by (intro double_until_schedule) simp_all
  then show ?thesis by (simp add: backoff_base_def b_def)
qed

interpretation loop: capped_doubling
  "\<lambda>n. backoff_base (newReconcileBackoff key interval) (int n + 1)"
  "bo_maxDelay (newReconcileBackoff key interval)" for key interval
  by (rule loop_schedule)

definition failed_times :: "string \<Rightarrow> gdur \<Rightarrow> nat \<Rightarrow> reconcileBackoff" where
  "failed_times key interval n = (newReconcileBackoff key interval)\<lparr>bo_failures := int n\<rparr>"

lemma failed_times_fields:
  "0 < interval \<Longrightarrow> bo_normal (failed_times key interval n) = interval"
  "0 < interval \<Longrightarrow> bo_maxDelay (failed_times key interval n) = max minute interval"
  "bo_key (failed_times key interval n) = key"
  "bo_failures (failed_times key interval n) = int n"
  "backoff_base (failed_times key interval n) k = backoff_base (newReconcileBackoff key interval) k"
  by (simp_all add: failed_times_def newReconcileBackoff_def Let_def maxObserveFailureBackoff_def backoff_base_def)

lemma next_step:
  assumes "0 < interval"
  shows "backoff_next success (failed_times key interval n) =
    (if success then (interval, failed_times key interval 0)
     else (min (max minute interval)
             (jitterBackoff (backoff_base (newReconcileBackoff key interval) (int n + 1)) key (int n + 1)),
           failed_times key interval (n + 1)))"
proof -
  define b where "b = newReconcileBackoff key interval"
  have f: "bo_normal b = interval" "bo_maxDelay b = max minute interval" "bo_key b = key" "bo_failures b = 0"
    using assms by (simp_all add: b_def newReconcileBackoff_def Let_def maxObserveFailureBackoff_def)
  then have "b\<lparr>bo_failures := 0\<rparr> = b" by (cases b) simp
  then show ?thesis
    by (simp add: backoff_next_def failed_times_def b_def [symmetric] f backoff_base_def Let_def
        min.commute [of "max minute interval"] min_def flip: not_less
        del: less_max_iff_disj max_less_iff_conj max.bounded_iff le_max_iff_disj)
qed

lemma next_bounds:
  assumes "0 < interval" "1200 * max minute interval \<le> max_i64"
  shows "0 < fst (backoff_next success (failed_times key interval n)) \<and>
    fst (backoff_next success (failed_times key interval n)) \<le> max minute interval \<and>
    (\<exists>m. snd (backoff_next success (failed_times key interval n)) = failed_times key interval m)"
proof -
  define base where "base = backoff_base (newReconcileBackoff key interval) (int n + 1)"
  have cap: "bo_maxDelay (newReconcileBackoff key interval) = max minute interval"
    using assms(1) by (simp add: newReconcileBackoff_def maxObserveFailureBackoff_def)
  have start: "second \<le> backoff_base (newReconcileBackoff key interval) (int 0 + 1)"
    by (simp add: backoff_base_def newReconcileBackoff_def minObserveFailureBackoff_def Let_def)
  have "second \<le> base" "base \<le> max minute interval"
    using start loop.delay_start_le [of key interval n] loop.delay_bounds [of key interval n] cap
    by (simp_all add: base_def)
  then have "0 < jitterBackoff base key (int n + 1)"
    using jitter_bounds [of base key "int n + 1"] assms(2) by (simp add: dur_simps)
  then show ?thesis
    using assms(1) by (cases success) (auto simp: next_step base_def dur_simps)
qed

text \<open>The loop of a table never spins and never sleeps past its bound: with an interval short
  enough for the jitter's product, every delay it waits, whatever the ticks meet and however often
  they fail in a row, is positive and at most the larger of a minute and the interval.\<close>

theorem loop_delays_bounded:
  assumes "0 < interval" "1200 * max minute interval \<le> max_i64"
  shows "list_all (\<lambda>d. 0 < d \<and> d \<le> max minute interval)
    (fst (reconcile_turns node watch turns (newReconcileBackoff key interval) c))"
proof -
  have "list_all (\<lambda>d. 0 < d \<and> d \<le> max minute interval)
      (fst (reconcile_turns node watch turns (failed_times key interval n) c))" for n
  proof (induction turns arbitrary: n c)
    case (Cons t ts)
    obtain success started c1 where r: "reconcileOnce (tn_env t) (tn_server t) (tn_canceled t)
        (tn_ctx_err t) (tn_took t) node watch (tn_before t c) = (success, started, c1)"
      by (metis prod_cases3)
    obtain d m where b: "backoff_next success (failed_times key interval n) = (d, failed_times key interval m)"
      and d: "0 < d" "d \<le> max minute interval"
      using next_bounds [OF assms, of success key n] by (metis prod.collapse)
    show ?case
      using Cons.IH d by (auto simp: r b split: prod.splits bool.splits) (metis fst_conv)
  qed simp
  from this [of 0] show ?thesis
    by (simp add: failed_times_def newReconcileBackoff_def Let_def)
qed

text \<open>The bound on the interval is needed: an interval of a hundred days overflows the product, and
  the second failure in a row asks for a negative delay, which is no delay at all.\<close>

theorem long_interval_spins:
  "fst (backoff_next False (snd (backoff_next False (newReconcileBackoff ''n/d/t'' (100 * day_dur))))) < 0"
  by code_simp

definition sample_turn :: "wake \<Rightarrow> turn" where
  "sample_turn w = \<lparr>tn_before = id, tn_env = sample_env, tn_server = failing_server, tn_canceled = False,
     tn_ctx_err = ErrCanceled, tn_took = 0, tn_meanwhile = id, tn_wake = w\<rparr>"

theorem loop_delays_bounded_witness:
  "list_all (\<lambda>d. 0 < d \<and> d \<le> max minute minute)
     (fst (reconcile_turns sample_node sample_watch [sample_turn WakeTimer, sample_turn WakeDone]
       (newReconcileBackoff ''n/d/t'' minute) sample_controller))"
  by (rule loop_delays_bounded) (simp_all add: dur_simps i64_simps)

section \<open>Dispatch\<close>

lemma tryStart_tiering: "c_Tiering (snd (tryStart now v c)) = c_Tiering c"
  by (simp add: tryStart_def tryStart_with_def rollDailyBudgetLocked_def Let_def)

lemma tryStart_flight:
  "c_inFlight (snd (tryStart now v c)) =
    (if fst (tryStart now v c)
     then amap_put (flightKey v) (newInFlightLeg now v ''dispatch'') (c_inFlight c) else c_inFlight c)"
  by (simp add: tryStart_def tryStart_with_def rollDailyBudgetLocked_def Let_def)

lemma tryStart_free: "fst (tryStart now v c) \<Longrightarrow> amap_get (c_inFlight c) (flightKey v) = None"
  by (auto simp: tryStart_def tryStart_with_def rollDailyBudgetLocked_def Let_def split: if_splits)

lemma start_legs_subseq: "subseq (fst (start_legs maxMoves moves now vs c)) vs"
  by (induction maxMoves moves now vs c rule: start_legs.induct) (auto split: prod.splits bool.splits)

lemma start_legs_bound:
  "int (length (fst (start_legs maxMoves moves now vs c))) \<le> max 0 (maxMoves - moves)"
proof (induction vs arbitrary: moves c)
  case (Cons v vs)
  obtain ok c1 where t: "tryStart now v c = (ok, c1)" by (cases "tryStart now v c")
  show ?case
    using Cons.IH [of moves c1] Cons.IH [of "moves + 1" c1]
    by (cases ok) (auto simp: t split: prod.splits)
qed simp

lemma start_legs_flight:
  "c_inFlight (snd (start_legs maxMoves moves now vs c)) =
   fold (\<lambda>v. amap_put (flightKey v) (newInFlightLeg now v ''dispatch''))
     (fst (start_legs maxMoves moves now vs c)) (c_inFlight c)"
proof (induction vs arbitrary: moves c)
  case (Cons v vs)
  obtain ok c1 where t: "tryStart now v c = (ok, c1)" by (cases "tryStart now v c")
  show ?case
    using Cons.IH [of moves c1] Cons.IH [of "moves + 1" c1] tryStart_flight [of now v c]
    by (cases ok) (auto simp: t split: prod.splits)
qed simp

lemma start_legs_keys:
  "distinct (map flightKey (fst (start_legs maxMoves moves now vs c))) \<and>
   (\<forall>v \<in> set (fst (start_legs maxMoves moves now vs c)). amap_get (c_inFlight c) (flightKey v) = None)"
proof (induction vs arbitrary: moves c)
  case (Cons v vs)
  obtain ok c1 where t: "tryStart now v c = (ok, c1)" by (cases "tryStart now v c")
  show ?case
  proof (cases ok)
    case True
    have f: "c_inFlight c1 = amap_put (flightKey v) (newInFlightLeg now v ''dispatch'') (c_inFlight c)"
      and free: "amap_get (c_inFlight c) (flightKey v) = None"
      using tryStart_flight [of now v c] tryStart_free [of now v c] True by (simp_all add: t)
    define rest where "rest = fst (start_legs maxMoves (moves + 1) now vs c1)"
    have r: "distinct (map flightKey rest)"
      "\<forall>w \<in> set rest. amap_get (c_inFlight c1) (flightKey w) = None"
      using Cons.IH [of "moves + 1" c1] by (simp_all add: rest_def)
    have "\<forall>w \<in> set rest. flightKey w \<noteq> flightKey v \<and> amap_get (c_inFlight c) (flightKey w) = None"
      using r(2) unfolding f by (auto simp: update_conv' split: if_splits)
    then have ok_list: "distinct (map flightKey (v # rest)) \<and>
        (\<forall>w \<in> set (v # rest). amap_get (c_inFlight c) (flightKey w) = None)"
      using r(1) free by (auto simp: image_iff)
    have "fst (start_legs maxMoves moves now (v # vs) c) = (if maxMoves \<le> moves then [] else v # rest)"
      using True by (simp add: t rest_def split: prod.split)
    then show ?thesis using ok_list by (cases "maxMoves \<le> moves") simp_all
  next
    case False
    then have "c_inFlight c1 = c_inFlight c" using tryStart_flight [of now v c] by (simp add: t)
    then show ?thesis using Cons.IH [of moves c1] False by (cases "maxMoves \<le> moves") (simp_all add: t)
  qed
qed simp

lemma dispatch_start:
  assumes "dispatch env S canceled node table verdicts c = (v # vs, c')"
  obtains c1 where "obs_EffectiveMode table = ModeEnforce"
    "guardForeignMovers env S canceled node table c = (True, c1)"
    "sn_PauseState (store_Status (c_store c1)) = PauseRunning"
    "\<not> breakerTripped (env_clock env) c1 (int (length (actionableVerdicts verdicts))) (int (length verdicts))"
    "start_legs (MaxMovesPerCycle (tc_Safety (c_Tiering c1))) 0 (env_clock env)
       (orderOldestFirst env table (actionableVerdicts verdicts)) c1 = (v # vs, c')"
  using assms
  by (auto simp: dispatch_def Let_def orderOldestFirst_def split: if_splits prod.splits bool.splits)

lemma rails_tiering [simp]:
  "c_Tiering (ctl_Pause now r c) = c_Tiering c" "c_Tiering (ctl_Resume now c) = c_Tiering c"
  "c_Tiering (warnRepeatedFailure key m now c) = c_Tiering c"
  "c_Tiering (clearRepeatedFailure key c) = c_Tiering c"
  "c_Tiering (markForeignGuardScanned key now c) = c_Tiering c"
  by (simp_all add: ctl_Pause_def ctl_Resume_def warnRepeatedFailure_def updateFailureLog_def Let_def
      clearRepeatedFailure_def markForeignGuardScanned_def split: option.split)

lemma guard_clean_tiering [simp]: "c_Tiering (guard_clean now key c) = c_Tiering c"
  by (simp add: guard_clean_def Let_def)

lemma guard_tiering: "c_Tiering (snd (guardForeignMovers env S canceled node table c)) = c_Tiering c"
  unfolding guardForeignMovers_def Let_def
  by (split prod.split, intro allI impI, split prod.split, intro allI impI, split sum.split) auto

text \<open>C3: Dispatch starts legs only behind every rail: the table is in enforce mode, the guard against
  foreign movers came back clean, tiering is not paused, and the breaker did not trip. The legs it
  starts are actionable verdicts of this plan, oldest first, no more of them than a cycle may move,
  on distinct partitions none of which had a leg in flight, and each is registered in flight.\<close>

theorem dispatch_safe:
  assumes "dispatch env S canceled node table verdicts c = (started, c')" "started \<noteq> []"
  shows "obs_EffectiveMode table = ModeEnforce \<and>
    (\<exists>c1. guardForeignMovers env S canceled node table c = (True, c1) \<and>
      sn_PauseState (store_Status (c_store c1)) = PauseRunning \<and>
      \<not> breakerTripped (env_clock env) c1 (int (length (actionableVerdicts verdicts))) (int (length verdicts)) \<and>
      (\<forall>v \<in> set started. amap_get (c_inFlight c1) (flightKey v) = None) \<and>
      c_inFlight c' = fold (\<lambda>v. amap_put (flightKey v) (newInFlightLeg (env_clock env) v ''dispatch''))
        started (c_inFlight c1)) \<and>
    subseq started (orderOldestFirst env table (actionableVerdicts verdicts)) \<and>
    int (length started) \<le> MaxMovesPerCycle (tc_Safety (c_Tiering c)) \<and>
    distinct (map flightKey started)"
proof -
  obtain v vs where s: "started = v # vs" using assms(2) by (cases started) auto
  obtain c1 where c1: "obs_EffectiveMode table = ModeEnforce"
    "guardForeignMovers env S canceled node table c = (True, c1)"
    "sn_PauseState (store_Status (c_store c1)) = PauseRunning"
    "\<not> breakerTripped (env_clock env) c1 (int (length (actionableVerdicts verdicts))) (int (length verdicts))"
    and legs: "start_legs (MaxMovesPerCycle (tc_Safety (c_Tiering c1))) 0 (env_clock env)
       (orderOldestFirst env table (actionableVerdicts verdicts)) c1 = (started, c')"
    using assms(1) unfolding s by (rule dispatch_start)
  have t: "c_Tiering c1 = c_Tiering c"
    using guard_tiering [of env S canceled node table c] by (simp add: c1(2))
  have "subseq started (orderOldestFirst env table (actionableVerdicts verdicts))"
    and "int (length started) \<le> max 0 (MaxMovesPerCycle (tc_Safety (c_Tiering c)))"
    using start_legs_subseq [of "MaxMovesPerCycle (tc_Safety (c_Tiering c1))" 0 "env_clock env"
        "orderOldestFirst env table (actionableVerdicts verdicts)" c1, unfolded legs fst_conv]
      start_legs_bound [of "MaxMovesPerCycle (tc_Safety (c_Tiering c1))" 0 "env_clock env"
        "orderOldestFirst env table (actionableVerdicts verdicts)" c1, unfolded legs fst_conv]
    by (simp_all add: t)
  moreover from this(2) have "int (length started) \<le> MaxMovesPerCycle (tc_Safety (c_Tiering c))"
    by (simp add: s split: if_splits)
  moreover note
    start_legs_flight [of "MaxMovesPerCycle (tc_Safety (c_Tiering c1))" 0 "env_clock env"
        "orderOldestFirst env table (actionableVerdicts verdicts)" c1, unfolded legs fst_conv snd_conv]
    start_legs_keys [of "MaxMovesPerCycle (tc_Safety (c_Tiering c1))" 0 "env_clock env"
        "orderOldestFirst env table (actionableVerdicts verdicts)" c1, unfolded legs fst_conv]
  ultimately show ?thesis using c1 by (intro conjI exI [of _ c1]) simp_all
qed

definition live_table :: TableObservation where
  "live_table = sample_table\<lparr>obs_Table := ''t'', obs_EffectiveMode := ModeEnforce, obs_Partitions := []\<rparr>"

definition live_verdict :: Verdict where
  "live_verdict = sample_verdict\<lparr>v_Decision := DecisionTier, v_BytesOnDisk := 5\<rparr>"

definition live_server :: server where
  "live_server = quiet_server\<lparr>q_flush_logs := None\<rparr>"

lemma live_flush: "q_flush_logs live_server = None"
  by (simp add: live_server_def)

lemma live_guard:
  "foreign_layers sample_env live_server live_table ''m1'' t u = Inr no_foreign_move"
  by (simp add: foreign_layers_def quiet_server_def collectLiveMoveStatements_def settle_rows_def live_table_def
      sample_own_statement no_foreign_move_def collectRecentMoveStatements_def live_server_def
      collectActiveMoveEvents_def collectAnonymousMovePartEventsSince_def all_rows_def
      collectRecentMoveStatementPartitions_def)

lemma rails_store [simp]:
  "c_store (clearRepeatedFailure key c) = c_store c" "c_store (markForeignGuardScanned key now c) = c_store c"
  by (simp_all add: clearRepeatedFailure_def markForeignGuardScanned_def Let_def)

lemma clean_scan_passes:
  assumes "ObserveForeignMovesSince env S (table\<lparr>obs_InFlightPartNames := inFlightPartNames c table\<rparr>)
      (controller_instanceID c)
      (fst (guard_window (env_clock env) (nd_ID node) (tableLogKey (nd_ID node) (obs_Database table) (obs_Table table)) c))
      (snd (guard_window (env_clock env) (nd_ID node) (tableLogKey (nd_ID node) (obs_Database table) (obs_Table table)) c))
      (c_lastFlush c) = (Inr no_foreign_move, lastFlush)"
    and "sn_PauseReason (store_Status (c_store c)) \<noteq> PauseReasonForeignMover"
  shows "\<exists>seen clean logs. guardForeignMovers env S canceled node table c =
    (True, c\<lparr>c_lastFlush := lastFlush, c_foreignGuardSeen := seen, c_failureLogs := logs, c_foreignClean := clean\<rparr>)"
proof -
  define key where "key = tableLogKey (nd_ID node) (obs_Database table) (obs_Table table)"
  obtain boot since where w: "guard_window (env_clock env) (nd_ID node) key c = (boot, since)" by fastforce
  have "guardForeignMovers env S canceled node table c = (True, guard_clean (env_clock env) key
      (clearRepeatedFailure (''foreign_guard:'' @ key)
        (markForeignGuardScanned key (env_clock env) (c\<lparr>c_lastFlush := lastFlush\<rparr>))))"
    using assms(1) w unfolding guardForeignMovers_def Let_def key_def [symmetric] by (simp add: no_foreign_move_def)
  moreover define x where "x = c\<lparr>c_lastFlush := lastFlush\<rparr>"
  moreover obtain seen where seen: "markForeignGuardScanned key (env_clock env) x = x\<lparr>c_foreignGuardSeen := seen\<rparr>"
    by (rule that [of "c_foreignGuardSeen (markForeignGuardScanned key (env_clock env) x)"])
      (simp add: markForeignGuardScanned_def Let_def)
  moreover obtain logs where logs: "clearRepeatedFailure k (x\<lparr>c_foreignGuardSeen := seen\<rparr>) =
      x\<lparr>c_foreignGuardSeen := seen, c_failureLogs := logs k\<rparr>" for k
    by (simp add: clearRepeatedFailure_def)
  moreover obtain clean where "guard_clean (env_clock env) key (x\<lparr>c_foreignGuardSeen := seen, c_failureLogs := l\<rparr>) =
      x\<lparr>c_foreignGuardSeen := seen, c_failureLogs := l, c_foreignClean := clean\<rparr>" for l
    using assms(2) by (simp add: guard_clean_def x_def)
  ultimately show ?thesis by auto
qed

lemma live_passes:
  "\<exists>lastFlush seen clean logs.
     guardForeignMovers sample_env live_server False sample_node live_table sample_controller =
     (True, sample_controller\<lparr>c_lastFlush := lastFlush, c_foreignGuardSeen := seen, c_failureLogs := logs,
        c_foreignClean := clean\<rparr>)"
proof -
  have names: "live_table\<lparr>obs_InFlightPartNames := inFlightPartNames sample_controller live_table\<rparr> = live_table"
    by (simp add: live_table_def inFlightPartNames_def sample_table_def starts_table_def)
  have "\<exists>m. ObserveForeignMovesSince sample_env live_server live_table ''m1'' t u (c_lastFlush sample_controller) =
      (Inr no_foreign_move, m)" for t u
    by (simp add: ObserveForeignMovesSince_def flushGuardLogs_def live_guard sample_controller_def New_def live_flush)
  moreover have "controller_instanceID sample_controller = ''m1''"
    and reason: "sn_PauseReason (store_Status (c_store sample_controller)) \<noteq> PauseReasonForeignMover"
    by (simp_all add: controller_instanceID_def sample_controller_def New_def SetStatus_def initial_status_def)
  ultimately obtain m where "ObserveForeignMovesSince sample_env live_server
      (live_table\<lparr>obs_InFlightPartNames := inFlightPartNames sample_controller live_table\<rparr>)
      (controller_instanceID sample_controller)
      (fst (guard_window (env_clock sample_env) (nd_ID sample_node) (tableLogKey (nd_ID sample_node) (obs_Database live_table) (obs_Table live_table)) sample_controller))
      (snd (guard_window (env_clock sample_env) (nd_ID sample_node) (tableLogKey (nd_ID sample_node) (obs_Database live_table) (obs_Table live_table)) sample_controller))
      (c_lastFlush sample_controller) = (Inr no_foreign_move, m)"
    unfolding names by metis
  from clean_scan_passes [OF this reason, of False] show ?thesis by blast
qed

lemma live_breaker: "c_Tiering c = DefaultTierConfig \<Longrightarrow> \<not> breakerTripped t c 1 2"
proof -
  have "\<not> f64_less (Fin (1 / 2)) (f64_div (f64_of_int 1) (f64_of_int 2))" by code_simp
  then show "c_Tiering c = DefaultTierConfig \<Longrightarrow> ?thesis"
    by (simp add: breakerTripped_def breaker_limits_def DefaultTierConfig_def)
qed

lemma live_start:
  "\<exists>c'. tryStart t live_verdict (sample_controller\<lparr>c_lastFlush := lastFlush, c_foreignGuardSeen := seen,
      c_failureLogs := logs, c_foreignClean := clean\<rparr>) = (True, c')"
  by (simp add: tryStart_def tryStart_with_def Let_def sample_controller_def New_def DefaultTierConfig_def
      node_legs_def rollDailyBudgetLocked_def bytesMovedTodayForNode_def live_verdict_def)

theorem dispatch_safe_witness:
  "\<exists>c'. dispatch sample_env live_server False sample_node live_table
      [live_verdict, live_verdict\<lparr>v_Decision := DecisionHold\<rparr>] sample_controller = ([live_verdict], c') \<and>
    map fst (c_inFlight c') = [flightKey live_verdict]"
proof -
  obtain c1 lastFlush seen clean logs where g: "guardForeignMovers sample_env live_server False sample_node live_table
      sample_controller = (True, c1)"
    and c1: "c1 = sample_controller\<lparr>c_lastFlush := lastFlush, c_foreignGuardSeen := seen, c_failureLogs := logs,
      c_foreignClean := clean\<rparr>" using live_passes by blast
  have f: "c_Tiering c1 = DefaultTierConfig" "sn_PauseState (store_Status (c_store c1)) = PauseRunning"
    "c_inFlight c1 = []" "obs_EffectiveMode live_table = ModeEnforce"
    by (simp_all add: c1 sample_controller_def New_def SetStatus_def initial_status_def live_table_def)
  have a: "actionableVerdicts [live_verdict, live_verdict\<lparr>v_Decision := DecisionHold\<rparr>] = [live_verdict]"
    by (simp add: actionableVerdicts_def IsActionableDecision_def live_verdict_def)
  have o': "orderOldestFirst sample_env live_table [live_verdict] = [live_verdict]"
    by (simp add: orderOldestFirst_def sort_by_def)
  obtain c' where "tryStart (env_clock sample_env) live_verdict c1 = (True, c')"
    using live_start unfolding c1 by blast
  then have d: "dispatch sample_env live_server False sample_node live_table
      [live_verdict, live_verdict\<lparr>v_Decision := DecisionHold\<rparr>] sample_controller = ([live_verdict], c')"
    using live_breaker [OF f(1)] by (simp add: dispatch_def g f a o' DefaultTierConfig_def)
  obtain c2 where g2: "guardForeignMovers sample_env live_server False sample_node live_table sample_controller = (True, c2)"
    and c2: "c_inFlight c' = fold (\<lambda>v. amap_put (flightKey v) (newInFlightLeg (env_clock sample_env) v ''dispatch''))
      [live_verdict] (c_inFlight c2)"
    using conjunct1 [OF conjunct2 [OF dispatch_safe [OF d list.distinct(2)]]] by (elim exE conjE) (rule that)
  have "(True, c2) = (True, c1)" by (rule trans [OF sym [OF g2] g])
  then have "map fst (c_inFlight c') = [flightKey live_verdict]" using c2 f(3) by simp
  with d show ?thesis by (intro exI [of _ c'] conjI)
qed

section \<open>The tick\<close>

text \<open>What a legless part of a tick leaves alone.\<close>

lemma warn_frame [simp]:
  "c_inFlight (warnRepeatedFailure k m t c) = c_inFlight c"
  "c_stalled (warnRepeatedFailure k m t c) = c_stalled c"
  "c_store (warnRepeatedFailure k m t c) = c_store c"
  by (simp_all add: warnRepeatedFailure_def updateFailureLog_def Let_def split: option.split)

lemma clear_frame [simp]:
  "c_inFlight (clearRepeatedFailure k c) = c_inFlight c"
  "c_stalled (clearRepeatedFailure k c) = c_stalled c"
  by (simp_all add: clearRepeatedFailure_def)

lemma pause_frame [simp]:
  "c_stalled (ctl_Pause t r c) = c_stalled c" "c_stalled (ctl_Resume t c) = c_stalled c"
  "st_tables (c_store (ctl_Pause t r c)) = st_tables (c_store c)"
  "st_tables (c_store (ctl_Resume t c)) = st_tables (c_store c)"
  by (simp_all add: ctl_Pause_def ctl_Resume_def Pause_def Resume_def)

lemma mark_frame [simp]: "c_stalled (markForeignGuardScanned k t c) = c_stalled c"
  by (simp add: markForeignGuardScanned_def Let_def)

lemma guard_clean_frame [simp]:
  "c_stalled (guard_clean t k c) = c_stalled c"
  "st_tables (c_store (guard_clean t k c)) = st_tables (c_store c)"
  by (simp_all add: guard_clean_def Let_def)

lemma guard_frame:
  "c_stalled (snd (guardForeignMovers env S canceled node table c)) = c_stalled c \<and>
   st_tables (c_store (snd (guardForeignMovers env S canceled node table c))) = st_tables (c_store c)"
  unfolding guardForeignMovers_def Let_def
  by (split prod.split, intro allI impI, split prod.split, intro allI impI, split sum.split) auto

lemma tryStart_frame:
  "c_stalled (snd (tryStart now v c)) = c_stalled c \<and>
   st_tables (c_store (snd (tryStart now v c))) = st_tables (c_store c)"
  by (simp add: tryStart_def tryStart_with_def rollDailyBudgetLocked_def Let_def SetStatus_def)

lemma start_legs_frame:
  "c_stalled (snd (start_legs maxMoves moves now vs c)) = c_stalled c \<and>
   st_tables (c_store (snd (start_legs maxMoves moves now vs c))) = st_tables (c_store c)"
proof (induction vs arbitrary: moves c)
  case (Cons v vs)
  obtain ok c1 where t: "tryStart now v c = (ok, c1)" by (cases "tryStart now v c")
  show ?case
    using Cons.IH [of moves c1] Cons.IH [of "moves + 1" c1] tryStart_frame [of now v c]
    by (cases ok) (auto simp: t split: prod.splits)
qed simp

lemma dispatch_frame:
  "c_stalled (snd (dispatch env S canceled node table verdicts c)) = c_stalled c \<and>
   st_tables (c_store (snd (dispatch env S canceled node table verdicts c))) = st_tables (c_store c)"
proof -
  obtain ok c1 where g: "guardForeignMovers env S canceled node table c = (ok, c1)"
    by (cases "guardForeignMovers env S canceled node table c")
  show ?thesis
    using guard_frame [of env S canceled node table c]
      start_legs_frame [of "MaxMovesPerCycle (tc_Safety (c_Tiering c1))" 0 "env_clock env"
        "orderOldestFirst env table (actionableVerdicts verdicts)" c1]
    by (cases ok) (simp_all add: dispatch_def g Let_def)
qed

lemma dispatch_subset:
  "set (fst (dispatch env S canceled node table verdicts c)) \<subseteq> set (actionableVerdicts verdicts)"
proof -
  have "set xs \<subseteq> set ys" if "subseq xs ys" for xs ys :: "Verdict list"
    using that by (metis subseq_order.order_trans subseq_singleton_left subsetI)
  then have "set (fst (start_legs m k t (orderOldestFirst env table vs) c1)) \<subseteq> set vs" for m k t vs c1
    using start_legs_subseq [of m k t "orderOldestFirst env table vs" c1]
    by (metis orderOldestFirst_def set_sort_by)
  then show ?thesis by (auto simp: dispatch_def Let_def split: prod.splits bool.splits)
qed

lemma probe_frame:
  "c_stalled (snd (maybeProbeColdPartition env S node table c)) = c_stalled c \<and>
   c_stalled (snd (recordColdSideMerges env S canceled node table c)) = c_stalled c"
  by (simp add: maybeProbeColdPartition_def recordColdSideMerges_def Let_def split: option.split sum.split)

text \<open>The overlay leaves an actionable verdict only where no stall is in force afterwards.\<close>

definition in_force :: "gtime \<Rightarrow> controller \<Rightarrow> string \<Rightarrow> bool" where
  "in_force now c key \<longleftrightarrow> (\<exists>s. c_stalled c key = Some s \<and> now < sp_Until s)"

lemma overlay_one_actionable:
  assumes "overlay_one env now v c = (v', c')"
  shows "flightKey v' = flightKey v \<and> (\<forall>k. in_force now c' k \<longrightarrow> in_force now c k) \<and>
    (IsActionableDecision (v_Decision v') \<longrightarrow> \<not> in_force now c' (flightKey v'))"
  using assms
  by (auto simp: overlay_one_def in_force_def stalled_verdict_def flightKey_def IsActionableDecision_def
      split: option.splits if_splits)

lemma overlay_actionable:
  assumes "overlayStalled env now vs c = (vs', c')"
  shows "(\<forall>k. in_force now c' k \<longrightarrow> in_force now c k) \<and>
    (\<forall>v \<in> set vs'. IsActionableDecision (v_Decision v) \<longrightarrow> \<not> in_force now c' (flightKey v))"
  using assms
proof (induction env now vs c arbitrary: vs' c' rule: overlayStalled.induct)
  case (2 env now v vs c)
  obtain v1 c1 where o': "overlay_one env now v c = (v1, c1)" by fastforce
  obtain vs1 c2 where r: "overlayStalled env now vs c1 = (vs1, c2)" by fastforce
  have "vs' = v1 # vs1" "c' = c2" using "2.prems" by (simp_all add: o' r)
  then show ?case using overlay_one_actionable [OF o'] "2.IH" [OF o' [symmetric] r] by auto
qed simp

text \<open>The plan the store holds for a node and table.\<close>

definition plan_in :: "controller \<Rightarrow> Node \<Rightarrow> EffectiveWatch \<Rightarrow> TablePlan option" where
  "plan_in c node watch = amap_get (st_tables (c_store c)) (TableKey (nd_ID node) (w_Database watch) (w_Table watch))"

lemma publish_tick_plan:
  assumes "publish_tick env S canceled took node watch obs0 c = (obs, verdicts, c')"
  shows "(\<exists>plan. plan_in c' node watch = Some plan \<and> tp_Verdicts plan = verdicts \<and> tp_LastError plan = no_text) \<and>
    (\<forall>v \<in> set verdicts. IsActionableDecision (v_Decision v) \<longrightarrow> \<not> in_force (env_clock env) c' (flightKey v))"
proof -
  obtain c1 o1 v1 c2 where c1: "c1 = clearRepeatedFailure
      (''observe:'' @ tableLogKey (nd_ID node) (w_Database watch) (w_Table watch)) c"
    and cl: "classify env obs0 c1 = (o1, v1, c2)" by (metis prod_cases3)
  obtain pc c3 where p: "maybeProbeColdPartition env S node o1 c2 = (pc, c3)" by fastforce
  define c4 where "c4 = snd (recordColdSideMerges env S canceled node (o1\<lparr>obs_Conditions := obs_Conditions o1 @ pc\<rparr>) c3)"
  have st: "c_stalled c4 = c_stalled c2" using probe_frame by (metis c4_def p snd_conv)
  have "overlayStalled env (env_clock env) (DecideTable env (applyAdaptiveResplitQuiet c1 obs0)
      (decisionTime env (applyAdaptiveResplitQuiet c1 obs0))) c1 = (v1, c2)"
    using cl by (auto simp: classify_def Let_def split: prod.splits)
  note act = overlay_actionable [OF this]
  have r: "verdicts = v1" "c' = ctl_Publish (plan_of node watch obs v1 took) c4"
    using assms unfolding publish_tick_def Let_def c1 [symmetric] cl by (auto simp: p c4_def)
  have "in_force t c' k = in_force t c2 k" for t k
    by (simp add: r in_force_def ctl_Publish_def st)
  then show ?thesis
    using act by (simp add: r plan_in_def ctl_Publish_def Publish_def plan_key_def plan_of_def update_conv')
qed


text \<open>C36: A failed observation costs no information: the tick reports a failure, starts nothing,
  and the store still answers every verdict lookup as before; only the plan's error changes.\<close>

theorem failed_tick_keeps_verdicts:
  assumes "reconcileOnce env S canceled ctx_err took node watch c = (False, started, c')"
  shows "started = [] \<and> c_inFlight c' = c_inFlight c \<and>
    FindVerdict (c_store c') n d t pid = FindVerdict (c_store c) n d t pid \<and>
    (\<exists>err plan. plan_in c' node watch = Some plan \<and> tp_LastError plan = err \<and> \<not> isContextCanceled canceled err)"
proof -
  obtain r c1 where o': "observeTable env S ctx_err node watch c = (r, c1)" by fastforce
  then obtain err where r: "r = Inl err" "\<not> isContextCanceled canceled err" "started = []"
    "c' = observe_failed (env_clock env) node watch err took c1"
    using assms by (auto simp: reconcileOnce_def split: sum.splits prod.splits if_splits)
  have "c_store c1 = c_store c \<and> c_inFlight c1 = c_inFlight c"
    using o' by (auto simp: observeTable_def acquireObserveSlot_def releaseObserveSlot_def Let_def
        split: option.splits if_splits)
  then show ?thesis
    by (simp add: r observe_failed_def ctl_PublishError_def PublishError_def FindVerdict_def plan_in_def
        Let_def update_conv' zero_plan_def split: option.split)
qed

theorem failed_tick_keeps_verdicts_witness:
  "fst (snd (reconcileOnce sample_env failing_server False ErrCanceled 0 sample_node sample_watch sample_controller)) = []"
proof -
  have q: "q_tables failing_server d t = Inl (ExtErr ''no answer'')" for d t
    by (simp add: failing_server_def Let_def)
  have "\<exists>c'. reconcileOnce sample_env failing_server False ErrCanceled 0 sample_node sample_watch sample_controller =
      (False, [], c')"
    by (simp add: reconcileOnce_def observeTable_def acquireObserveSlot_def sample_controller_def New_def
        slot_capacity_def DefaultTierConfig_def ObserveTable_def sample_watch_def collectTableMetadata_def
        isContextCanceled_def q)
  then obtain c' where "reconcileOnce sample_env failing_server False ErrCanceled 0 sample_node sample_watch
      sample_controller = (False, [], c')" by blast
  from failed_tick_keeps_verdicts [OF this] this show ?thesis by simp
qed

section \<open>Kicks\<close>

text \<open>Any number of kicks before the wait are one early turn: the first leaves a signal, the others
  find it there, and the wait that takes it leaves none.\<close>

lemma kicks_coalesce:
  assumes "c_kicks c (tableLogKey n d t) \<noteq> None"
  shows "(kickReconcile n d t ^^ Suc k) c = kickReconcile n d t c \<and>
    wake_possible WakeKick (tableLogKey n d t) (kickReconcile n d t c) \<and>
    \<not> wake_possible WakeKick (tableLogKey n d t)
      (snd (waitForNextReconcile WakeKick (tableLogKey n d t) (kickReconcile n d t c)))"
proof -
  have "kickReconcile n d t (kickReconcile n d t c) = kickReconcile n d t c"
    using assms by (cases c) (auto simp: kickReconcile_def Let_def)
  then have "(kickReconcile n d t ^^ Suc k) c = kickReconcile n d t c" by (induction k) simp_all
  then show ?thesis using assms by (simp add: kickReconcile_def Let_def wake_possible_def waitForNextReconcile_def)
qed

end
