(* ===== verification/Supervised.thy ===== *)
theory Supervised
  imports Reconcile
begin

text \<open>
  The human-triggered path (\<open>internal/tiering/supervised.go\<close>, the control part of \<open>plan.go\<close>):
  retry and apply of one partition under a state token. Admission runs on the request; what the
  leg's goroutine does when it ends is \<open>supervised_done\<close>.
\<close>

section \<open>Admission\<close>

definition reason_text :: "PauseReason \<Rightarrow> string" where
  "reason_text reason =
     (case reason of PauseReasonNone \<Rightarrow> '''' | PauseReasonOperator \<Rightarrow> ''operator''
      | PauseReasonForeignMover \<Rightarrow> ''foreign-mover'' | PauseReasonDuplicateInstance \<Rightarrow> ''duplicate-instance''
      | PauseReasonTrainingWheels \<Rightarrow> ''training-wheels'')"

definition ensureNotPaused :: "controller \<Rightarrow> gotext option" where
  "ensureNotPaused c =
     (let status = store_Status (c_store c) in
      if sn_PauseState status \<noteq> PauseRunning then
        (let reason = (if sn_PauseReason status = PauseReasonNone then PauseReasonOperator
                       else sn_PauseReason status)
         in Some (Fmt ''%w (%s)'' [AWrap ErrTieringPaused, AStr (reason_text reason)]))
      else None)"

definition startedEntry :: "gtime \<Rightarrow> Verdict \<Rightarrow> HistoryEntry" where
  "startedEntry now v =
     \<lparr>he_Time = now, he_NodeID = v_NodeID v, he_Database = v_Database v, he_Table = v_Table v,
      he_Partition = v_Partition v, he_PartitionID = v_PartitionID v, he_Action = v_Decision v,
      he_Outcome = ''started'', he_Duration = 0, he_Bytes = v_BytesOnDisk v, he_Error = no_text,
      he_AttemptID = '''', he_Direction = ''''\<rparr>"

text \<open>The fresh verdict of the partition decides: its token first, then its decision, then the slot.\<close>

definition admit_fresh ::
  "gtime \<Rightarrow> string \<Rightarrow> string \<Rightarrow> Verdict list \<Rightarrow> controller \<Rightarrow> (gotext + Verdict) \<times> controller" where
  "admit_fresh now partitionID stateToken fresh c =
     (case find (\<lambda>v. v_PartitionID v = partitionID) fresh of
        None \<Rightarrow> (Inl (Fmt ''%w: %s was not observed'' [AWrap ErrPartitionNotFound, AStr partitionID]), c)
      | Some v \<Rightarrow>
          (case CheckToken v stateToken of
             Some e \<Rightarrow> (Inl e, c)
           | None \<Rightarrow>
               if \<not> IsActionableDecision (v_Decision v) then
                 (Inl (Fmt ''%w: decision %q'' [AWrap ErrNotActionable, AStr (decision_text (v_Decision v))]), c)
               else case markSupervised now v c of
                 (False, c1) \<Rightarrow>
                   (Inl (Fmt ''%w: partition %s'' [AWrap ErrLegInFlight, AStr (v_PartitionID v)]), c1)
               | (True, c1) \<Rightarrow> (Inr v, c1)))"

text \<open>\<open>Apply\<close>: an error, or the acknowledgement with the observation and the verdict whose leg was
  started on them.\<close>

definition ctl_Apply ::
  "go_env \<Rightarrow> server \<Rightarrow> gotext \<Rightarrow> string \<Rightarrow> string \<Rightarrow> string \<Rightarrow> string \<Rightarrow> string \<Rightarrow> controller \<Rightarrow>
   (gotext + HistoryEntry \<times> TableObservation \<times> Verdict) \<times> controller" where
  "ctl_Apply env S ctx_err nodeID database table partitionID stateToken c =
     (case ensureNotPaused c of
        Some e \<Rightarrow> (Inl e, c)
      | None \<Rightarrow>
     (case controller_client c nodeID of
        None \<Rightarrow> (Inl (Fmt ''%w: %q'' [AWrap ErrNodeNotConfigured, AStr nodeID]), c)
      | Some node \<Rightarrow>
     (let noWatch = Fmt ''%w: %s.%s'' [AWrap ErrWatchNotConfigured, AStr database, AStr table] in
      case controller_watch c database table of
        None \<Rightarrow> (Inl noWatch, c)
      | Some watch \<Rightarrow>
          if w_Settings watch = None then (Inl noWatch, c)
          else case FindVerdict (c_store c) nodeID database table partitionID of
            None \<Rightarrow> (Inl (Fmt ''%w: %s'' [AWrap ErrPartitionNotFound, AStr partitionID]), c)
          | Some planned \<Rightarrow>
              (case CheckToken planned stateToken of
                 Some e \<Rightarrow> (Inl e, c)
               | None \<Rightarrow>
                   (case observeTable env S ctx_err node watch c of
                      (Inl e, c1) \<Rightarrow> (Inl e, c1)
                    | (Inr obs, c1) \<Rightarrow>
                        (case admit_fresh (env_clock env) partitionID stateToken
                                (DecideTable env obs (decisionTime env obs)) c1 of
                           (Inl e, c2) \<Rightarrow> (Inl e, c2)
                         | (Inr v, c2) \<Rightarrow> (Inr (startedEntry (env_clock env) v, obs, v), c2)))))))"

definition ctl_Retry ::
  "go_env \<Rightarrow> server \<Rightarrow> gotext \<Rightarrow> string \<Rightarrow> string \<Rightarrow> string \<Rightarrow> string \<Rightarrow> string \<Rightarrow> controller \<Rightarrow>
   (gotext + HistoryEntry \<times> TableObservation \<times> Verdict) \<times> controller" where
  "ctl_Retry env S ctx_err nodeID database table partitionID stateToken c =
     (case ensureNotPaused c of
        Some e \<Rightarrow> (Inl e, c)
      | None \<Rightarrow>
          (case FindVerdict (c_store c) nodeID database table partitionID of
             None \<Rightarrow> (Inl (Fmt ''%w: %s'' [AWrap ErrPartitionNotFound, AStr partitionID]), c)
           | Some planned \<Rightarrow>
               (case CheckToken planned stateToken of
                  Some e \<Rightarrow> (Inl e, c)
                | None \<Rightarrow> ctl_Apply env S ctx_err nodeID database table partitionID stateToken c)))"

section \<open>The end of a supervised leg\<close>

definition supervised_done ::
  "go_env \<Rightarrow> server \<Rightarrow> gotext \<Rightarrow> gdur \<Rightarrow> Node \<Rightarrow> EffectiveWatch \<Rightarrow> Verdict \<Rightarrow> string \<Rightarrow> HistoryEntry \<Rightarrow>
   controller \<Rightarrow> controller" where
  "supervised_done env S ctx_err took node watch v partitionID result c =
     (let c1 = unmarkSupervised v c;
          c2 = (if he_Outcome result \<noteq> ''success'' then markStalledLocked (env_clock env) v result c1
                else clearStalled (nd_ID node) (w_Database watch) (w_Table watch) partitionID c1)
      in republishTable env S ctx_err took node watch c2)"

section \<open>Lemmas\<close>

lemma observeTable_keeps:
  "c_inFlight (snd (observeTable env S e node watch c)) = c_inFlight c \<and>
   c_store (snd (observeTable env S e node watch c)) = c_store c \<and>
   c_stalled (snd (observeTable env S e node watch c)) = c_stalled c \<and>
   c_bytesInFlight (snd (observeTable env S e node watch c)) = c_bytesInFlight c"
  by (auto simp: observeTable_def acquireObserveSlot_def releaseObserveSlot_def Let_def
      split: option.splits if_splits)

lemma admit_fresh_cases:
  "(\<exists>e. admit_fresh now pid tok fresh c = (Inl e, c)) \<or>
   (\<exists>v. admit_fresh now pid tok fresh c =
      (Inr v, c\<lparr>c_inFlight := amap_put (flightKey v) (newInFlightLeg now v ''supervised'') (c_inFlight c)\<rparr>) \<and>
      find (\<lambda>w. v_PartitionID w = pid) fresh = Some v \<and> v_Token v = tok \<and> tok \<noteq> '''' \<and>
      IsActionableDecision (v_Decision v) \<and> amap_get (c_inFlight c) (flightKey v) = None)"
  by (auto simp: admit_fresh_def CheckToken_def markSupervised_def split: option.split)

lemma apply_cases [consumes 1, case_names refused started]:
  assumes "ctl_Apply env S e n d t pid tok c = (r, c')"
  obtains (refused) err where "r = Inl err" "c_inFlight c' = c_inFlight c" "c_store c' = c_store c"
      "c_stalled c' = c_stalled c"
  | (started) node watch obs v c1 planned where "r = Inr (startedEntry (env_clock env) v, obs, v)"
      "controller_client c n = Some node" "controller_watch c d t = Some watch"
      "sn_PauseState (store_Status (c_store c)) = PauseRunning"
      "FindVerdict (c_store c) n d t pid = Some planned" "v_Token planned = tok"
      "observeTable env S e node watch c = (Inr obs, c1)"
      "find (\<lambda>w. v_PartitionID w = pid) (DecideTable env obs (decisionTime env obs)) = Some v"
      "v_Token v = tok" "tok \<noteq> ''''" "IsActionableDecision (v_Decision v)"
      "amap_get (c_inFlight c) (flightKey v) = None"
      "c' = c1\<lparr>c_inFlight := amap_put (flightKey v) (newInFlightLeg (env_clock env) v ''supervised'') (c_inFlight c)\<rparr>"
proof (cases "ensureNotPaused c")
  case (Some e')
  with assms show ?thesis by (intro refused [of e']) (auto simp: ctl_Apply_def)
next
  case ok: None
  then have running: "sn_PauseState (store_Status (c_store c)) = PauseRunning"
    by (simp add: ensureNotPaused_def Let_def split: if_splits)
  show ?thesis
  proof (cases "\<exists>node watch settings planned. controller_client c n = Some node \<and>
      controller_watch c d t = Some watch \<and> w_Settings watch = Some settings \<and>
      FindVerdict (c_store c) n d t pid = Some planned \<and> CheckToken planned tok = None")
    case False
    with assms ok have "\<exists>err. r = Inl err \<and> c' = c"
      by (auto simp: ctl_Apply_def Let_def split: option.splits if_splits)
    then show ?thesis using refused by blast
  next
    case True
    then obtain node watch settings planned where s: "controller_client c n = Some node"
      "controller_watch c d t = Some watch" "w_Settings watch = Some settings"
      "FindVerdict (c_store c) n d t pid = Some planned" "CheckToken planned tok = None" by blast
    have tok: "v_Token planned = tok" using s(5) by (simp add: CheckToken_def split: if_splits)
    obtain o1 c1 where o': "observeTable env S e node watch c = (o1, c1)" by fastforce
    note keep = observeTable_keeps [of env S e node watch c, unfolded o' snd_conv]
    show ?thesis
    proof (cases o1)
      case (Inl err)
      with assms ok s o' have "r = Inl err \<and> c' = c1" by (simp add: ctl_Apply_def Let_def)
      with keep show ?thesis by (intro refused) auto
    next
      case (Inr obs)
      have eq: "(r, c') = (case admit_fresh (env_clock env) pid tok (DecideTable env obs (decisionTime env obs)) c1 of
          (Inl e, c2) \<Rightarrow> (Inl e, c2) | (Inr v, c2) \<Rightarrow> (Inr (startedEntry (env_clock env) v, obs, v), c2))"
        using assms ok s o' Inr by (simp add: ctl_Apply_def Let_def)
      show ?thesis
        using admit_fresh_cases [of "env_clock env" pid tok "DecideTable env obs (decisionTime env obs)" c1]
      proof (elim disjE exE conjE)
        fix err assume "admit_fresh (env_clock env) pid tok (DecideTable env obs (decisionTime env obs)) c1 = (Inl err, c1)"
        with eq keep show ?thesis by (intro refused) auto
      next
        fix v assume v: "admit_fresh (env_clock env) pid tok (DecideTable env obs (decisionTime env obs)) c1 =
            (Inr v, c1\<lparr>c_inFlight := amap_put (flightKey v) (newInFlightLeg (env_clock env) v ''supervised'') (c_inFlight c1)\<rparr>)"
          "find (\<lambda>w. v_PartitionID w = pid) (DecideTable env obs (decisionTime env obs)) = Some v"
          "v_Token v = tok" "tok \<noteq> ''''" "IsActionableDecision (v_Decision v)"
          "amap_get (c_inFlight c1) (flightKey v) = None"
        show ?thesis
          by (rule started [OF _ s(1,2) running s(4) tok _ v(2-5)])
            (use eq v(1,6) keep o' Inr in simp_all)
      qed
    qed
  qed
qed

text \<open>C5: A supervised apply is a compare-and-swap: it starts a leg only while tiering runs, only when
  the operator's token is both the published verdict's and that of the verdict derived afresh from
  the server, which is actionable, and only when no leg of the partition is in flight; the leg is
  then registered, and from there on neither dispatch nor another apply can start one for the same
  partition. A refused apply changes neither the store, the stalls nor what is in flight.\<close>

theorem supervised_compare_and_swap:
  assumes "ctl_Apply env S e n d t pid tok c = (r, c')"
  shows "(\<exists>err. r = Inl err) \<and> c_inFlight c' = c_inFlight c \<and> c_store c' = c_store c \<and> c_stalled c' = c_stalled c \<or>
    (\<exists>obs v planned. r = Inr (startedEntry (env_clock env) v, obs, v) \<and>
      sn_PauseState (store_Status (c_store c)) = PauseRunning \<and>
      FindVerdict (c_store c) n d t pid = Some planned \<and> v_Token planned = tok \<and>
      v \<in> set (DecideTable env obs (decisionTime env obs)) \<and> v_PartitionID v = pid \<and> v_Token v = tok \<and>
      IsActionableDecision (v_Decision v) \<and> amap_get (c_inFlight c) (flightKey v) = None \<and>
      (\<forall>now w. flightKey w = flightKey v \<longrightarrow> \<not> fst (tryStart now w c') \<and> \<not> fst (markSupervised now w c')))"
  using assms
proof (cases rule: apply_cases)
  case (started node watch obs v c1 planned)
  have flight: "amap_get (c_inFlight c') (flightKey v) \<noteq> None"
    by (simp add: started(13) update_conv')
  then have "\<not> fst (tryStart now w c') \<and> \<not> fst (markSupervised now w c')" if "flightKey w = flightKey v" for now w
    using tryStart_free [of now w c'] that by (auto simp: markSupervised_def)
  moreover have "v \<in> set (DecideTable env obs (decisionTime env obs))" "v_PartitionID v = pid"
    using started(8) by (auto simp: find_Some_iff)
  ultimately show ?thesis using started by blast
qed simp

theorem supervised_compare_and_swap_witness:
  "\<exists>err c'. ctl_Apply sample_env failing_server ErrCanceled ''n1'' ''db'' ''t'' ''202310'' ''token'' sample_controller =
     (Inl err, c') \<and> c_store c' = c_store sample_controller"
proof -
  have "controller_client sample_controller ''n1'' = Some sample_node"
    and "controller_watch sample_controller ''db'' ''t'' = Some sample_watch"
    and "ensureNotPaused sample_controller = None"
    and "FindVerdict (c_store sample_controller) ''n1'' ''db'' ''t'' ''202310'' = None"
    by (simp_all add: sample_controller_def New_def controller_client_def controller_watch_def sample_node_def
        sample_watch_def ensureNotPaused_def SetStatus_def initial_status_def FindVerdict_def NewStore_def)
  then obtain err c' where r: "ctl_Apply sample_env failing_server ErrCanceled ''n1'' ''db'' ''t'' ''202310'' ''token''
      sample_controller = (Inl err, c')"
    by (simp add: ctl_Apply_def Let_def sample_watch_def)
  from supervised_compare_and_swap [OF this] r show ?thesis by auto
qed

end
