(* ===== verification/Convergence.thy ===== *)
theory Convergence
  imports Supervised
begin

text \<open>
  Progress of the reconcile loop (\<open>dispatch.go\<close>, \<open>stalls.go\<close>): a leg that fails gives back what its
  admission took, and its partition comes back to dispatch when the stall is over.
\<close>

lemma rolled_moved:
  "bytesMovedTodayForNode (rollDailyBudgetLocked n t c) n =
     (if c_budgetDay c n = Some (utc_day t) then bytesMovedTodayForNode c n else 0)"
  by (simp add: rollDailyBudgetLocked_def bytesMovedTodayForNode_def update_conv')

lemma finish_failed:
  assumes "he_Outcome entry \<noteq> ''success''"
  shows "c_inFlight (finish t v entry c) = amap_del (flightKey v) (c_inFlight c)"
    and "c_bytesInFlight (finish t v entry c) =
      (if v_BytesOnDisk v \<le> c_bytesInFlight c then c_bytesInFlight c - v_BytesOnDisk v else 0)"
    and "c_Tiering (finish t v entry c) = c_Tiering c" and "c_budgetDay (finish t v entry c) = c_budgetDay c"
    and "c_bytesMovedToday (finish t v entry c) = c_bytesMovedToday c"
    and "\<exists>s. c_stalled (finish t v entry c) (flightKey v) = Some s \<and> sp_Token s = v_Token v \<and>
      sp_Failures s = (case c_stalled c (flightKey v) of Some p \<Rightarrow> sp_Failures p | None \<Rightarrow> 0) + 1 \<and>
      sp_Until s = t + stallBackoff (sp_Failures s)"
  using assms by (simp_all add: finish_def Let_def markStalledLocked_def time_add_def)

text \<open>The admission, read off as a condition.\<close>

lemma tryStart_iff:
  "fst (tryStart now v c) \<longleftrightarrow>
     int (length (node_legs (v_NodeID v) c)) < tc_MaxConcurrentPartitions (c_Tiering c) \<and>
     c_bytesInFlight c + v_BytesOnDisk v \<le> MaxBytesInFlight (tc_Safety (c_Tiering c)) \<and>
     bytesMovedTodayForNode (rollDailyBudgetLocked (v_NodeID v) now c) (v_NodeID v) +
       sum_list (map leg_Bytes (node_legs (v_NodeID v) c)) + v_BytesOnDisk v \<le> MaxBytesPerDay (tc_Safety (c_Tiering c)) \<and>
     amap_get (c_inFlight c) (flightKey v) = None"
  by (simp add: tryStart_def tryStart_with_def Let_def not_less not_le)

lemma node_legs_same: "c_inFlight c = c_inFlight c' \<Longrightarrow> node_legs n c = node_legs n c'"
  by (simp add: node_legs_def)

lemma no_wrap_mono:
  fixes a b m k :: u64
  assumes "a + b \<le> m" and "unat a + unat b < 18446744073709551616"
  shows "b \<le> m"
proof -
  have "unat (a + b) = unat a + unat b" using assms(2) by (simp add: unat_word_ariths)
  then show ?thesis using assms(1) by (simp add: word_le_nat_alt)
qed

text \<open>C19: Progress after a failure: when an admitted leg ends without success, what is in flight is what it
  was before the admission, the partition is free again and the same verdict passes the admission at
  any later time, on the same day or another (as long as the day's sum does not wrap around). The stall
  lasts between 6 and 72 hours: before its end the tick shows the verdict as stalled, from then on it
  offers the verdict unchanged.\<close>

theorem failed_leg_comes_back:
  assumes "tryStart now v c = (True, c1)" and "c2 = finish ended v entry c1"
    and "he_Outcome entry \<noteq> ''success''"
    and "unat (c_bytesInFlight c) + unat (v_BytesOnDisk v) < 18446744073709551616"
    and "unat (bytesMovedTodayForNode c (v_NodeID v)) +
      unat (sum_list (map leg_Bytes (node_legs (v_NodeID v) c)) + v_BytesOnDisk v) < 18446744073709551616"
  shows "c_inFlight c2 = c_inFlight c \<and> c_bytesInFlight c2 = c_bytesInFlight c \<and> fst (tryStart t v c2) \<and>
    (\<exists>until. ended + 6 * hour \<le> until \<and> until \<le> ended + 72 * hour \<and>
      (t < until \<longrightarrow> v_Status (fst (overlay_one env t v c2)) = StatusStalled) \<and>
      (until \<le> t \<longrightarrow> overlay_one env t v c2 = (v, c2)))"
proof -
  note adm = tryStart_admitted [OF assms(1) [unfolded tryStart_def]]
  have free: "amap_get (c_inFlight c) (flightKey v) = None" using adm by simp
  have c1: "c_inFlight c1 = c_inFlight c @ [(flightKey v, newInFlightLeg now v ''dispatch'')]"
    "c_bytesInFlight c1 = c_bytesInFlight c + v_BytesOnDisk v" "c_Tiering c1 = c_Tiering c"
    "c_budgetDay c1 = c_budgetDay (rollDailyBudgetLocked (v_NodeID v) now c)"
    "c_bytesMovedToday c1 = c_bytesMovedToday (rollDailyBudgetLocked (v_NodeID v) now c)"
    using assms(1) free by (auto simp: tryStart_def tryStart_with_def Let_def amap_put_fresh split: if_splits)
  have sum: "unat (c_bytesInFlight c + v_BytesOnDisk v) = unat (c_bytesInFlight c) + unat (v_BytesOnDisk v)"
    using assms(4) by (simp add: unat_word_ariths)
  then have le: "v_BytesOnDisk v \<le> c_bytesInFlight c1" by (simp add: c1 word_le_nat_alt)
  note fin = finish_failed [OF assms(3), of ended v c1, folded assms(2)]
  have flight: "c_inFlight c2 = c_inFlight c"
    using free by (simp add: fin c1 AList.delete_eq map_of_eq_None_iff) (force simp: filter_id_conv)
  have bytes: "c_bytesInFlight c2 = c_bytesInFlight c" using le by (simp add: fin c1)
  have legs: "node_legs (v_NodeID v) c2 = node_legs (v_NodeID v) c" by (rule node_legs_same [OF flight])
  have moved: "bytesMovedTodayForNode (rollDailyBudgetLocked (v_NodeID v) t c2) (v_NodeID v) +
      sum_list (map leg_Bytes (node_legs (v_NodeID v) c)) + v_BytesOnDisk v \<le> MaxBytesPerDay (tc_Safety (c_Tiering c))"
  proof -
    let ?n = "v_NodeID v" and ?need = "sum_list (map leg_Bytes (node_legs (v_NodeID v) c)) + v_BytesOnDisk v"
    define m where "m = bytesMovedTodayForNode (rollDailyBudgetLocked ?n now c) ?n"
    have m: "m + ?need \<le> MaxBytesPerDay (tc_Safety (c_Tiering c))" using adm by (simp add: m_def add.assoc)
    have "unat m + unat ?need < 18446744073709551616" using assms(5) by (simp add: m_def rolled_moved)
    from no_wrap_mono [OF m this] have need: "?need \<le> MaxBytesPerDay (tc_Safety (c_Tiering c))" .
    have "bytesMovedTodayForNode c2 ?n = m" by (simp add: bytesMovedTodayForNode_def fin c1 m_def)
    then have "bytesMovedTodayForNode (rollDailyBudgetLocked ?n t c2) ?n \<in> {m, 0}" by (simp add: rolled_moved)
    then show ?thesis using m need by (auto simp: add.assoc)
  qed
  have start: "fst (tryStart t v c2)"
    using adm moved by (simp add: tryStart_iff legs bytes flight fin c1)
  obtain s where s: "c_stalled c2 (flightKey v) = Some s" "sp_Token s = v_Token v"
    "sp_Until s = ended + stallBackoff (sp_Failures s)" using fin(6) by blast
  have "ended + 6 * hour \<le> sp_Until s \<and> sp_Until s \<le> ended + 72 * hour"
    using stall_backoff_schedule [of "sp_Failures s" "sp_Failures s"] s(3) by simp
  then show ?thesis using flight bytes start s
    by (intro conjI exI [of _ "sp_Until s"]) (simp_all add: overlay_one_def stalled_verdict_def)
qed

theorem failed_leg_comes_back_witness:
  "\<exists>c1. tryStart 0 live_verdict sample_controller = (True, c1) \<and>
     fst (tryStart (100 * hour) live_verdict (finish 7 live_verdict (startedEntry 0 live_verdict) c1)) \<and>
     fst (overlay_one sample_env (100 * hour) live_verdict (finish 7 live_verdict (startedEntry 0 live_verdict) c1)) = live_verdict"
proof -
  obtain c1 where c1: "tryStart 0 live_verdict sample_controller = (True, c1)"
    by (auto simp: tryStart_def tryStart_with_def Let_def sample_controller_def New_def DefaultTierConfig_def
      node_legs_def rollDailyBudgetLocked_def bytesMovedTodayForNode_def live_verdict_def)
  have fail: "he_Outcome (startedEntry 0 live_verdict) \<noteq> ''success''" by (simp add: startedEntry_def)
  have small: "unat (c_bytesInFlight sample_controller) + unat (v_BytesOnDisk live_verdict) < 18446744073709551616"
    "unat (bytesMovedTodayForNode sample_controller (v_NodeID live_verdict)) +
     unat (sum_list (map leg_Bytes (node_legs (v_NodeID live_verdict) sample_controller)) + v_BytesOnDisk live_verdict)
       < 18446744073709551616"
    by (simp_all add: sample_controller_def New_def bytesMovedTodayForNode_def node_legs_def live_verdict_def)
  obtain until where "until \<le> 7 + 72 * hour"
    "until \<le> 100 * hour \<longrightarrow> overlay_one sample_env (100 * hour) live_verdict
       (finish 7 live_verdict (startedEntry 0 live_verdict) c1) =
       (live_verdict, finish 7 live_verdict (startedEntry 0 live_verdict) c1)"
    "fst (tryStart (100 * hour) live_verdict (finish 7 live_verdict (startedEntry 0 live_verdict) c1))"
    using failed_leg_comes_back [OF c1 refl fail small, where t = "100 * hour" and ended = 7 and env = sample_env] by blast
  with c1 show ?thesis by (simp add: dur_simps)
qed

end
