(* ===== verification/Startup.thy ===== *)
theory Startup
  imports Convergence
begin

text \<open>
  Starting the controller (\<open>controller.go\<close>): each node is seeded with its boot reference and the bytes
  it moved today, then its reconcile loops are launched, one per watch with tier settings. The loops of
  one node run while the next is seeded; what they do to the state are the steps of \<open>Controller\<close>, so a
  start is the state after the seedings with the sequence of what was launched.
\<close>

datatype launch = Seeded string | Loop string EffectiveWatch

definition launches :: "controller \<Rightarrow> Node \<Rightarrow> launch list" where
  "launches c node =
     Seeded (nd_ID node) # map (Loop (nd_ID node)) (filter (\<lambda>w. w_Settings w \<noteq> None) (c_Watches c))"

text \<open>\<open>S\<close> gives the answers of each node; one without a database handle does not occur.\<close>

definition ctl_Start ::
  "go_env \<Rightarrow> (string \<Rightarrow> server) \<Rightarrow> controller \<Rightarrow> gotext option \<times> launch list \<times> controller" where
  "ctl_Start env S c =
     (if tc_Mode (c_Tiering c) = ModeOff then (None, [], c)
      else if c_clients c = [] then
        (Some (lit ''tiering controller requires at least one ClickHouse client''), [], c)
      else (None, concat (map (launches c) (c_clients c)),
            fold (\<lambda>node. seedNode env (S (nd_ID node)) node) (c_clients c) c))"

section \<open>What a start leaves behind\<close>

lemma seed_keeps [simp]:
  "c_Watches (seedNode env S node c) = c_Watches c" "c_Tiering (seedNode env S node c) = c_Tiering c"
  "c_clients (seedNode env S node c) = c_clients c" "c_inFlight (seedNode env S node c) = c_inFlight c"
  by (simp_all add: seedNode_def seed_budget_def Let_def split: sum.split)

lemma seed_boot:
  "c_bootTimes (seedNode env S node c) = (c_bootTimes c)(nd_ID node \<mapsto>
     (case CaptureBootTime S of Inl e \<Rightarrow> env_clock env | Inr boot \<Rightarrow> boot))"
  by (simp add: seedNode_def seed_budget_def Let_def split: sum.split)

lemma seed_moved:
  "amap_get (c_bytesMovedToday (seedNode env S node c)) =
     (case SeedMovedBytesToday S (c_Watches c) of Inl e \<Rightarrow> amap_get (c_bytesMovedToday c)
      | Inr bytes \<Rightarrow> (amap_get (c_bytesMovedToday c))(nd_ID node \<mapsto> bytes))"
  by (auto simp: seedNode_def seed_budget_def Let_def update_conv' split: sum.split)

definition boot_of :: "go_env \<Rightarrow> server \<Rightarrow> gtime" where
  "boot_of env S = (case CaptureBootTime S of Inl e \<Rightarrow> env_clock env | Inr boot \<Rightarrow> boot)"

text \<open>The nodes have names of their own (a loaded configuration guarantees it), so a later seeding leaves
  an earlier node alone.\<close>

lemma seeded_nodes:
  "distinct (map nd_ID nodes) \<Longrightarrow>
   c_bootTimes (fold (\<lambda>node. seedNode env (S (nd_ID node)) node) nodes c) n =
     (if n \<in> nd_ID ` set nodes then Some (boot_of env (S n)) else c_bootTimes c n) \<and>
   amap_get (c_bytesMovedToday (fold (\<lambda>node. seedNode env (S (nd_ID node)) node) nodes c)) n =
     (if n \<in> nd_ID ` set nodes
      then (case SeedMovedBytesToday (S n) (c_Watches c) of Inl e \<Rightarrow> amap_get (c_bytesMovedToday c) n | Inr b \<Rightarrow> Some b)
      else amap_get (c_bytesMovedToday c) n)"
  by (induction nodes arbitrary: c) (auto simp: seed_boot seed_moved boot_of_def split: sum.split)

text \<open>A start that is not refused: every loop belongs to a configured node and a watch with settings,
  each such pair has one, and a node is seeded before its loops; and every node is left with a boot
  reference and, where its own log answered, with the bytes it says were moved today.\<close>

theorem start_seeds_then_loops:
  assumes "ctl_Start env S c = (None, ls, c1)" and "tc_Mode (c_Tiering c) \<noteq> ModeOff"
    and "distinct (map nd_ID (c_clients c))"
  shows "set ls = Seeded ` nd_ID ` set (c_clients c) \<union>
      {Loop n w | n w. n \<in> nd_ID ` set (c_clients c) \<and> w \<in> set (c_Watches c) \<and> w_Settings w \<noteq> None} \<and>
    (\<forall>n \<in> nd_ID ` set (c_clients c). c_bootTimes c1 n = Some (boot_of env (S n)) \<and>
      (\<forall>b. SeedMovedBytesToday (S n) (c_Watches c) = Inr b \<longrightarrow> amap_get (c_bytesMovedToday c1) n = Some b)) \<and>
    (\<forall>pre n w post. ls = pre @ Loop n w # post \<longrightarrow> Seeded n \<in> set pre)"
proof -
  have ls: "ls = concat (map (launches c) (c_clients c))"
    and c1: "c1 = fold (\<lambda>node. seedNode env (S (nd_ID node)) node) (c_clients c) c"
    using assms(1,2) by (auto simp: ctl_Start_def split: if_splits)
  have order: "concat (map (launches c) nodes) = pre @ Loop n w # post \<Longrightarrow> Seeded n \<in> set pre" for nodes pre n w post
  proof (induction nodes arbitrary: pre)
    case (Cons node nodes)
    let ?own = "map (Loop (nd_ID node)) (filter (\<lambda>w. w_Settings w \<noteq> None) (c_Watches c))"
    from Cons.prems obtain tl where pre: "pre = Seeded (nd_ID node) # tl"
      and rest: "?own @ concat (map (launches c) nodes) = tl @ Loop n w # post"
      by (cases pre) (auto simp: launches_def [of c node])
    from rest have "(\<exists>us. ?own = tl @ us \<and> us @ concat (map (launches c) nodes) = Loop n w # post) \<or>
        (\<exists>us. tl = ?own @ us \<and> concat (map (launches c) nodes) = us @ Loop n w # post)"
      unfolding append_eq_append_conv2 by blast
    then consider us where "?own = tl @ us" "us @ concat (map (launches c) nodes) = Loop n w # post" "us \<noteq> []"
      | us where "tl = ?own @ us" "concat (map (launches c) nodes) = us @ Loop n w # post"
      by (metis append_Nil append_Nil2)
    then show ?case
    proof cases
      case 1
      then have "Loop n w \<in> set ?own" by (cases us) auto
      then show ?thesis by (auto simp: pre)
    next
      case 2
      with Cons.IH show ?thesis by (auto simp: pre)
    qed
  qed simp
  show ?thesis
    using seeded_nodes [OF assms(3), of env S c] order [of "c_clients c"]
    by (auto simp: ls c1 launches_def)
qed

end
