(* ===== verification/ChClient.thy ===== *)
theory ChClient
  imports Observation
begin

text \<open>
  The ClickHouse client pool (\<open>internal/chclient/pool.go\<close>): one lazily connected handle per configured
  node, the timeouts it is opened with, and the masking of passwords in DSNs and in the errors that
  quote them. The driver's DSN parser and the closing of a handle are parameters; a handle is the
  options it was opened with.
\<close>

section \<open>Masking\<close>

text \<open>\<open>strings.ReplaceAll\<close>: the occurrences of a non-empty text from the left, without overlap; the
  empty text occurs before every UTF-8 sequence and at the end.\<close>

function replace_nonempty :: "string \<Rightarrow> string \<Rightarrow> string \<Rightarrow> string" where
  "replace_nonempty old new s =
     (if old = [] \<or> s = [] then s
      else if has_prefix s old then new @ replace_nonempty old new (drop (length old) s)
      else hd s # replace_nonempty old new (tl s))"
  by pat_completeness auto
termination
  by (relation "measure (\<lambda>(old, new, s). length s)") auto

declare replace_nonempty.simps [simp del]

fun interleave_runes :: "nat \<Rightarrow> string \<Rightarrow> string \<Rightarrow> string" where
  "interleave_runes 0 new s = new"
| "interleave_runes (Suc n) new s =
     (if s = [] then new
      else (let w = snd (decode_rune s) in new @ take w s @ interleave_runes n new (drop w s)))"

definition replace_all :: "string \<Rightarrow> string \<Rightarrow> string \<Rightarrow> string" where
  "replace_all s old new = (if old = [] then interleave_runes (length s) new s else replace_nonempty old new s)"

definition RedactDSN :: "string \<Rightarrow> string" where
  "RedactDSN raw =
     (let (prefix, rest) = (case str_index raw ''://'' of
            Some schemeEnd \<Rightarrow> (take (schemeEnd + 3) raw, drop (schemeEnd + 3) raw) | None \<Rightarrow> ('''', raw))
      in case str_index rest ''@'' of
           None \<Rightarrow> raw
         | Some at' \<Rightarrow>
             (case str_index (take at' rest) '':'' of
                None \<Rightarrow> raw
              | Some colon \<Rightarrow> prefix @ take (colon + 1) rest @ ''xxxxx'' @ drop at' rest))"

text \<open>The error is its text; the result is a new error with the masked text.\<close>

definition RedactDSNError :: "string option \<Rightarrow> string \<Rightarrow> gotext option" where
  "RedactDSNError err raw = map_option (\<lambda>text. lit (replace_all text raw (RedactDSN raw))) err"

section \<open>Configuration and handles\<close>

record NodeConfig =
  nc_Name :: string
  nc_ShardName :: string
  nc_ReplicaName :: string
  nc_DSN :: string

record PoolConfig =
  pc_DialTimeout :: gdur
  pc_QueryTimeout :: gdur
  pc_Nodes :: "NodeConfig list"

text \<open>Of \<open>clickhouse.Options\<close>, what the program reads or sets.\<close>

datatype ch_setting = SettingInt int | SettingOther string

record ch_options =
  cho_Addr :: "string list"
  cho_DialTimeout :: gdur
  cho_MaxOpenConns :: int
  cho_MaxIdleConns :: int
  cho_ConnMaxLifetime :: gdur
  cho_Settings :: "(string, ch_setting) amap"

record db_handle =
  dbh_Options :: ch_options
  dbh_MaxIdleConns :: int
  dbh_MaxOpenConns :: int
  dbh_ConnMaxLifetime :: gdur
  dbh_Attributes :: "(string \<times> string) list"

record pool_client =
  plc_Node :: Node
  plc_DB :: db_handle

record ch_driver =
  drv_ParseDSN :: "string \<Rightarrow> string + ch_options"
  drv_Close :: "db_handle \<Rightarrow> gotext option"

definition defaultMaxOpenConns :: int where "defaultMaxOpenConns = 4"
definition defaultMaxIdleConns :: int where "defaultMaxIdleConns = 2"

text \<open>\<open>math.Ceil(d.Seconds())\<close>: the seconds and the rest are added in double precision.\<close>

definition seconds_f64 :: "gdur \<Rightarrow> rat" where
  "seconds_f64 d =
     f64_round (f64_round (of_int (go_div d second)) + f64_round (of_int (go_mod d second) / 1000000000))"

definition applyQueryTimeout :: "gdur \<Rightarrow> ch_options \<Rightarrow> ch_options" where
  "applyQueryTimeout queryTimeout opts =
     (if queryTimeout \<le> 0 then opts
      else case amap_get (cho_Settings opts) ''max_execution_time'' of
        Some v \<Rightarrow> opts
      | None \<Rightarrow> opts\<lparr>cho_Settings :=
          amap_put ''max_execution_time'' (SettingInt \<lceil>seconds_f64 queryTimeout\<rceil>) (cho_Settings opts)\<rparr>)"

definition openNode :: "ch_driver \<Rightarrow> NodeConfig \<Rightarrow> gdur \<Rightarrow> gdur \<Rightarrow> gotext + db_handle \<times> string" where
  "openNode D node dialTimeout queryTimeout =
     (if nc_Name node = '''' then Inl (lit ''name is required'')
      else if nc_ShardName node = '''' then Inl (lit ''shard is required'')
      else if nc_ReplicaName node = '''' then Inl (lit ''replica is required'')
      else case drv_ParseDSN D (nc_DSN node) of
        Inl text \<Rightarrow> Inl (Fmt ''parse dsn: %w'' (case RedactDSNError (Some text) (nc_DSN node) of
          Some e \<Rightarrow> [AWrap e] | None \<Rightarrow> []))
      | Inr opts0 \<Rightarrow>
          if length (cho_Addr opts0) \<noteq> 1 then
            Inl (Fmt ''dsn must contain exactly one address, got %d'' [AInt (int (length (cho_Addr opts0)))])
          else
            let opts1 = opts0\<lparr>cho_DialTimeout := (if 0 < dialTimeout then dialTimeout else cho_DialTimeout opts0)\<rparr>;
                opts2 = applyQueryTimeout queryTimeout opts1;
                opts3 = opts2\<lparr>cho_MaxOpenConns :=
                  (if cho_MaxOpenConns opts2 = 0 then defaultMaxOpenConns else cho_MaxOpenConns opts2)\<rparr>;
                opts = opts3\<lparr>cho_MaxIdleConns :=
                  (if cho_MaxIdleConns opts3 = 0 then defaultMaxIdleConns else cho_MaxIdleConns opts3)\<rparr>;
                addr = hd (cho_Addr opts)
            in Inr (\<lparr>dbh_Options = opts, dbh_MaxIdleConns = cho_MaxIdleConns opts,
                      dbh_MaxOpenConns = cho_MaxOpenConns opts,
                      dbh_ConnMaxLifetime = (if cho_ConnMaxLifetime opts \<le> 0 then hour else cho_ConnMaxLifetime opts),
                      dbh_Attributes = [(''db.system.name'', ''clickhouse''), (''server.address'', addr),
                        (''movoor.node'', nc_Name node)]\<rparr>, addr))"

text \<open>\<open>errors.Join\<close>: the errors that are not nil, one per line.\<close>

definition errors_join :: "gotext option list \<Rightarrow> gotext option" where
  "errors_join errs =
     (case List.map_filter id errs of
        [] \<Rightarrow> None
      | es \<Rightarrow> Some (Fmt (join [CHR 0x0A] (map (\<lambda>_. ''%w'') es)) (map AWrap es)))"

definition closeClients :: "ch_driver \<Rightarrow> pool_client list \<Rightarrow> gotext option" where
  "closeClients D clients = fold (\<lambda>c err. errors_join [err, drv_Close D (plc_DB c)]) clients None"

text \<open>The loop over the nodes: what is open when one fails is closed.\<close>

fun open_nodes ::
  "ch_driver \<Rightarrow> gdur \<Rightarrow> gdur \<Rightarrow> nat \<Rightarrow> NodeConfig list \<Rightarrow> pool_client list \<Rightarrow> gotext + pool_client list" where
  "open_nodes D dialTimeout queryTimeout i [] clients = Inr clients"
| "open_nodes D dialTimeout queryTimeout i (node # nodes) clients =
     (case openNode D node dialTimeout queryTimeout of
        Inl err \<Rightarrow>
          (case errors_join [Some err, closeClients D clients] of
             Some e \<Rightarrow> Inl (Fmt ''node %d %q: %w'' [AInt (int i), AStr (nc_Name node), AWrap e])
           | None \<Rightarrow> Inr clients)
      | Inr (db, addr) \<Rightarrow>
          open_nodes D dialTimeout queryTimeout (i + 1) nodes
            (clients @ [\<lparr>plc_Node = \<lparr>nd_ID = nc_Name node, nd_Shard = nc_ShardName node,
                                     nd_Replica = nc_ReplicaName node, nd_Addr = addr\<rparr>, plc_DB = db\<rparr>]))"

definition NewPool :: "ch_driver \<Rightarrow> PoolConfig \<Rightarrow> gotext + pool_client list" where
  "NewPool D cfg =
     (if pc_Nodes cfg = [] then Inl (lit ''at least one clickhouse node is required'')
      else open_nodes D (pc_DialTimeout cfg) (pc_QueryTimeout cfg) 0 (pc_Nodes cfg) [])"

text \<open>The pool, absent when the program runs without nodes, and what it answers then.\<close>

definition pool_Clients :: "pool_client list option \<Rightarrow> pool_client list" where
  "pool_Clients p = (case p of None \<Rightarrow> [] | Some clients \<Rightarrow> clients)"

definition pool_Close :: "ch_driver \<Rightarrow> pool_client list option \<Rightarrow> gotext option" where
  "pool_Close D p = (case p of None \<Rightarrow> None | Some clients \<Rightarrow> closeClients D clients)"

text \<open>The name of a statement's span: its first word in lower case.\<close>

fun take_solid :: "string \<Rightarrow> string" where
  "take_solid [] = []"
| "take_solid (c # s) = (if lead_space (c # s) \<noteq> 0 then [] else c # take_solid s)"

definition querySpanName :: "unicode \<Rightarrow> string \<Rightarrow> string \<Rightarrow> string" where
  "querySpanName U method query =
     (let rest = trim_left query in
      if rest = [] then method else ''clickhouse.'' @ go_lower U (take_solid rest))"

section \<open>What masking hides\<close>

lemma index_char_None: "str_index s [c] = None \<longleftrightarrow> c \<notin> set s"
  by (induction s) (auto simp: has_prefix_def)

lemma index_char: "c \<notin> set s \<Longrightarrow> str_index (s @ c # t) [c] = Some (length s)"
  by (induction s) (auto simp: has_prefix_def)

lemma index_scheme: "CHR '':'' \<notin> set s \<Longrightarrow> str_index (s @ ''://'' @ t) ''://'' = Some (length s)"
  by (induction s) (auto simp: has_prefix_def)

text \<open>A DSN with credentials.\<close>

definition credential_dsn :: "string \<Rightarrow> string \<Rightarrow> string \<Rightarrow> string \<Rightarrow> string" where
  "credential_dsn scheme user password host = scheme @ ''://'' @ user @ '':'' @ password @ ''@'' @ host"

text \<open>What the masking of a DSN hides: of a password, exactly the part before its first \<open>@\<close>. A
  password without one is replaced as a whole, so that the masked text does not depend on it; of a
  password that contains one, the rest is shown.\<close>

theorem redact_exact:
  assumes "CHR '':'' \<notin> set scheme" and "CHR '':'' \<notin> set user" and "CHR ''@'' \<notin> set user"
    and "CHR ''@'' \<notin> set hidden" and "shown = '''' \<or> hd shown = CHR ''@''"
  shows "RedactDSN (credential_dsn scheme user (hidden @ shown) host) =
    scheme @ ''://'' @ user @ '':xxxxx'' @ shown @ ''@'' @ host"
proof -
  let ?dsn = "credential_dsn scheme user (hidden @ shown) host"
  define tail where "tail = shown @ ''@'' @ host"
  have tail: "\<exists>t. tail = CHR ''@'' # t" using assms(5) by (cases shown) (simp_all add: tail_def)
  then obtain t where t: "tail = CHR ''@'' # t" by blast
  have scheme: "str_index ?dsn ''://'' = Some (length scheme)"
    unfolding credential_dsn_def by (rule index_scheme [OF assms(1)])
  have cut: "take (length scheme + 3) ?dsn = scheme @ ''://''"
    "drop (length scheme + 3) ?dsn = (user @ CHR '':'' # hidden) @ tail"
    by (simp_all add: credential_dsn_def tail_def)
  have at': "str_index ((user @ CHR '':'' # hidden) @ tail) ''@'' = Some (length (user @ CHR '':'' # hidden))"
    unfolding t using assms(3,4) by (intro index_char) simp
  have colon: "str_index (user @ CHR '':'' # hidden) '':'' = Some (length user)"
    by (rule index_char [OF assms(2)])
  have "RedactDSN ?dsn = (scheme @ ''://'') @ take (length user + 1) ((user @ CHR '':'' # hidden) @ tail) @ ''xxxxx'' @
      drop (length (user @ CHR '':'' # hidden)) ((user @ CHR '':'' # hidden) @ tail)"
    unfolding RedactDSN_def scheme using cut at' colon by simp
  then show ?thesis by (simp add: tail_def)
qed

theorem redact_exact_witness:
  "RedactDSN ''clickhouse://default:pa@ss@h:9000'' = ''clickhouse://default:xxxxx@ss@h:9000''"
  using redact_exact [of "''clickhouse''" "''default''" "''pa''" "''@ss''" "''h:9000''"]
  by (simp add: credential_dsn_def)

section \<open>What a pool holds\<close>

definition handle_ok :: "gdur \<Rightarrow> db_handle \<Rightarrow> bool" where
  "handle_ok queryTimeout h \<longleftrightarrow>
     length (cho_Addr (dbh_Options h)) = 1 \<and> dbh_MaxOpenConns h \<noteq> 0 \<and> dbh_MaxIdleConns h \<noteq> 0 \<and>
     0 < dbh_ConnMaxLifetime h \<and>
     (0 < queryTimeout \<longrightarrow> amap_get (cho_Settings (dbh_Options h)) ''max_execution_time'' \<noteq> None)"

definition client_of :: "gdur \<Rightarrow> NodeConfig \<Rightarrow> pool_client \<Rightarrow> bool" where
  "client_of queryTimeout n c \<longleftrightarrow>
     nc_Name n \<noteq> '''' \<and> nd_ID (plc_Node c) = nc_Name n \<and> nd_Shard (plc_Node c) = nc_ShardName n \<and>
     nd_Replica (plc_Node c) = nc_ReplicaName n \<and> cho_Addr (dbh_Options (plc_DB c)) = [nd_Addr (plc_Node c)] \<and>
     handle_ok queryTimeout (plc_DB c)"

lemma timeout_fields [simp]:
  "cho_Addr (applyQueryTimeout q x) = cho_Addr x" "cho_MaxOpenConns (applyQueryTimeout q x) = cho_MaxOpenConns x"
  "cho_MaxIdleConns (applyQueryTimeout q x) = cho_MaxIdleConns x"
  "cho_ConnMaxLifetime (applyQueryTimeout q x) = cho_ConnMaxLifetime x"
  by (simp_all add: applyQueryTimeout_def split: option.split)

lemma timeout_set:
  "0 < q \<Longrightarrow> amap_get (cho_Settings (applyQueryTimeout q x)) ''max_execution_time'' \<noteq> None"
  by (simp add: applyQueryTimeout_def update_conv' split: option.split)

lemma openNode_ok:
  assumes "openNode D n dial q = Inr (db, addr)"
  shows "nc_Name n \<noteq> ''''" "cho_Addr (dbh_Options db) = [addr]" "handle_ok q db"
proof -
  show "nc_Name n \<noteq> ''''" using assms by (simp add: openNode_def split: if_splits)
  obtain o0 where o0: "drv_ParseDSN D (nc_DSN n) = Inr o0" "length (cho_Addr o0) = 1"
    using assms by (simp add: openNode_def split: if_splits sum.splits)
  then obtain a where a: "cho_Addr o0 = [a]" by (auto simp: length_Suc_conv)
  from assms o0 a show "cho_Addr (dbh_Options db) = [addr]"
    by (auto simp: openNode_def Let_def split: if_split_asm)
  from assms o0 a timeout_set [of q] show "handle_ok q db"
    by (auto simp: openNode_def Let_def handle_ok_def dur_simps defaultMaxOpenConns_def defaultMaxIdleConns_def
        split: if_split_asm)
qed

lemma open_nodes_ok:
  "open_nodes D dial q i nodes clients = Inr all \<Longrightarrow>
   \<exists>opened. all = clients @ opened \<and> list_all2 (client_of q) nodes opened"
proof (induction nodes arbitrary: i clients)
  case (Cons n nodes)
  show ?case
  proof (cases "openNode D n dial q")
    case (Inl err)
    obtain e where "errors_join [Some err, closeClients D clients] = Some e"
      by (cases "closeClients D clients") (simp_all add: errors_join_def List.map_filter_simps)
    then show ?thesis using Cons.prems Inl by simp
  next
    case (Inr r)
    obtain db addr where r: "r = (db, addr)" by fastforce
    from Cons.prems Inr r have "open_nodes D dial q (i + 1) nodes
        (clients @ [\<lparr>plc_Node = \<lparr>nd_ID = nc_Name n, nd_Shard = nc_ShardName n,
           nd_Replica = nc_ReplicaName n, nd_Addr = addr\<rparr>, plc_DB = db\<rparr>]) = Inr all" by simp
    from Cons.IH [OF this] obtain opened where "all = clients @
        [\<lparr>plc_Node = \<lparr>nd_ID = nc_Name n, nd_Shard = nc_ShardName n,
           nd_Replica = nc_ReplicaName n, nd_Addr = addr\<rparr>, plc_DB = db\<rparr>] @ opened"
      "list_all2 (client_of q) nodes opened" by auto
    moreover have "client_of q n \<lparr>plc_Node = \<lparr>nd_ID = nc_Name n, nd_Shard = nc_ShardName n,
        nd_Replica = nc_ReplicaName n, nd_Addr = addr\<rparr>, plc_DB = db\<rparr>"
      using openNode_ok [OF Inr [unfolded r]] by (simp add: client_of_def)
    ultimately show ?thesis by auto
  qed
qed simp

lemma new_pool_clients:
  assumes "NewPool D cfg = Inr clients"
  shows "clients \<noteq> [] \<and> list_all2 (client_of (pc_QueryTimeout cfg)) (pc_Nodes cfg) clients"
proof -
  have ne: "pc_Nodes cfg \<noteq> []" and "open_nodes D (pc_DialTimeout cfg) (pc_QueryTimeout cfg) 0 (pc_Nodes cfg) [] = Inr clients"
    using assms by (auto simp: NewPool_def split: if_splits)
  from open_nodes_ok [OF this(2)] ne show ?thesis by auto
qed

text \<open>A pool has one client per configured node, in the order of the configuration and under its
  name, shard and replica; each client has exactly one address, at least one connection, a bounded
  connection lifetime and, when a query timeout is configured, a limit the server enforces.\<close>

theorem pool_follows_config:
  assumes "NewPool D cfg = Inr clients"
  shows "clients \<noteq> [] \<and> list_all2 (client_of (pc_QueryTimeout cfg)) (pc_Nodes cfg) clients"
  by (rule new_pool_clients [OF assms])

definition plain_driver :: ch_driver where
  "plain_driver =
     \<lparr>drv_ParseDSN = \<lambda>dsn. if dsn = '''' then Inl ''empty'' else
        Inr \<lparr>cho_Addr = [dsn], cho_DialTimeout = 0, cho_MaxOpenConns = 0, cho_MaxIdleConns = 0,
             cho_ConnMaxLifetime = 0, cho_Settings = []\<rparr>,
      drv_Close = \<lambda>h. None\<rparr>"

definition one_node :: PoolConfig where
  "one_node = \<lparr>pc_DialTimeout = 0, pc_QueryTimeout = 30 * second,
     pc_Nodes = [\<lparr>nc_Name = ''n1'', nc_ShardName = ''s1'', nc_ReplicaName = ''r1'', nc_DSN = ''h:9000''\<rparr>]\<rparr>"

theorem pool_follows_config_witness:
  "\<exists>c. NewPool plain_driver one_node = Inr [c] \<and> nd_ID (plc_Node c) = ''n1'' \<and> handle_ok (30 * second) (plc_DB c)"
proof -
  obtain c where c: "NewPool plain_driver one_node = Inr [c]"
    by (simp add: NewPool_def one_node_def openNode_def plain_driver_def Let_def)
  from pool_follows_config [OF this] show ?thesis using c by (auto simp: one_node_def client_of_def)
qed

end
