(* ===== verification/AppConfig.thy ===== *)
theory AppConfig
  imports ChClient
begin

text \<open>
  The application's configuration (\<open>config.go\<close>): loading, defaults, the per-watch tier blocks, the
  expansion of environment variables in DSNs, and validation. Reading the file, the YAML decoder and
  \<open>url.Parse\<close> are parameters.
\<close>

section \<open>Environment variables in DSNs\<close>

text \<open>\<open>os.ExpandEnv\<close>, which finds the names after a dollar sign as a shell would; an unset variable
  expands to nothing.\<close>

definition shell_special :: "char \<Rightarrow> bool" where
  "shell_special c \<longleftrightarrow> c \<in> set ''*#$@!?-0123456789''"

definition shell_alnum :: "char \<Rightarrow> bool" where
  "shell_alnum c \<longleftrightarrow> c = CHR ''_'' \<or> is_digit c \<or> (97 \<le> byte c \<and> byte c \<le> 122) \<or> (65 \<le> byte c \<and> byte c \<le> 90)"

text \<open>The name and how many bytes it takes; a bad form has no name.\<close>

definition getShellName :: "string \<Rightarrow> string \<times> nat" where
  "getShellName s =
     (case s of
        [] \<Rightarrow> ([], 0)
      | c # rest \<Rightarrow>
          if c = CHR ''{'' then
            (if 2 < length s \<and> shell_special (s ! 1) \<and> s ! 2 = CHR ''}'' then ([s ! 1], 3)
             else case str_index rest ''}'' of
               None \<Rightarrow> ([], 1)
             | Some i \<Rightarrow> if i = 0 then ([], 2) else (take i rest, i + 2))
          else if shell_special c then ([c], 1)
          else (takeWhile shell_alnum s, length (takeWhile shell_alnum s)))"

function ExpandEnv :: "(string \<Rightarrow> string) \<Rightarrow> string \<Rightarrow> string" where
  "ExpandEnv getenv s =
     (case s of
        [] \<Rightarrow> []
      | c # rest \<Rightarrow>
          if c = CHR ''$'' \<and> rest \<noteq> [] then
            (case getShellName rest of (name, w) \<Rightarrow>
               (if name = [] \<and> 0 < w then [] else if name = [] then [c] else getenv name) @
               ExpandEnv getenv (drop w rest))
          else c # ExpandEnv getenv rest)"
  by pat_completeness auto
termination
  by (relation "measure (\<lambda>(g, s). length s)") auto

declare ExpandEnv.simps [simp del]

section \<open>The configuration\<close>

record TracingConfig =
  trc_Endpoint :: string
  trc_SampleRatio :: "f64 option"

record ClickHouseConfig =
  chc_QueryTimeout :: gdur
  chc_DialTimeout :: gdur
  chc_Nodes :: "NodeConfig list"

text \<open>A watch's tier block is a YAML node, absent when the node is zero; the type of nodes is the
  decoder's.\<close>

record 'y WatchConfig =
  wc_Database :: string
  wc_Table :: string
  wc_Tier :: "'y option"
  wc_TierSettings :: "TierSettings option"

record FrontendConfig =
  fe_Enabled :: "bool option"
  fe_Addr :: string

record 'y AppConfig =
  ap_Logging :: string
  ap_MetricsAddr :: string
  ap_HealthCheckAddr :: string
  ap_Tracing :: TracingConfig
  ap_ClickHouse :: ClickHouseConfig
  ap_Tiering :: TierConfig
  ap_Watches :: "'y WatchConfig list"
  ap_Frontend :: FrontendConfig

text \<open>What lies outside: the file, the decoder of a document over the defaults, the re-marshalling of
  a tier block and its strict decoding over the defaults, the environment, \<open>url.Parse\<close> (scheme and
  host), the clock.\<close>

record 'y config_env =
  cfe_ReadFile :: "string \<Rightarrow> gotext + string"
  cfe_Decode :: "string \<Rightarrow> 'y AppConfig \<Rightarrow> gotext + 'y AppConfig"
  cfe_Marshal :: "'y \<Rightarrow> gotext + string"
  cfe_DecodeTier :: "string \<Rightarrow> TierSettings \<Rightarrow> gotext + TierSettings"
  cfe_Getenv :: "string \<Rightarrow> string"
  cfe_ParseURL :: "string \<Rightarrow> string + string \<times> string"
  cfe_Unicode :: unicode
  cfe_Now :: gtime

definition defaultLogging :: string where "defaultLogging = ''info''"
definition defaultMetricsAddr :: string where "defaultMetricsAddr = '':9090''"
definition defaultHealthCheckAddr :: string where "defaultHealthCheckAddr = '':8081''"
definition defaultFrontendAddr :: string where "defaultFrontendAddr = '':8080''"
definition defaultQueryTimeout :: gdur where "defaultQueryTimeout = 30 * second"
definition defaultDialTimeout :: gdur where "defaultDialTimeout = 5 * second"

definition ResolveDefaults_app :: "'y AppConfig \<Rightarrow> 'y AppConfig" where
  "ResolveDefaults_app c =
     c\<lparr>ap_Logging := (if ap_Logging c = '''' then defaultLogging else ap_Logging c),
       ap_MetricsAddr := (if ap_MetricsAddr c = '''' then defaultMetricsAddr else ap_MetricsAddr c),
       ap_HealthCheckAddr := (if ap_HealthCheckAddr c = '''' then defaultHealthCheckAddr else ap_HealthCheckAddr c),
       ap_Tracing := (ap_Tracing c)\<lparr>trc_SampleRatio :=
         (case trc_SampleRatio (ap_Tracing c) of None \<Rightarrow> Some (Fin 1) | Some r \<Rightarrow> Some r)\<rparr>,
       ap_ClickHouse := (ap_ClickHouse c)
         \<lparr>chc_QueryTimeout := (if chc_QueryTimeout (ap_ClickHouse c) = 0 then defaultQueryTimeout
            else chc_QueryTimeout (ap_ClickHouse c)),
          chc_DialTimeout := (if chc_DialTimeout (ap_ClickHouse c) = 0 then defaultDialTimeout
            else chc_DialTimeout (ap_ClickHouse c))\<rparr>,
       ap_Frontend := (ap_Frontend c)\<lparr>fe_Addr :=
         (if fe_Addr (ap_Frontend c) = '''' then defaultFrontendAddr else fe_Addr (ap_Frontend c))\<rparr>,
       ap_Tiering := ResolveDefaults (ap_Tiering c)\<rparr>"

definition DefaultConfig_app :: "'y AppConfig" where
  "DefaultConfig_app = ResolveDefaults_app
     \<lparr>ap_Logging = '''', ap_MetricsAddr = '''', ap_HealthCheckAddr = '''',
      ap_Tracing = \<lparr>trc_Endpoint = '''', trc_SampleRatio = None\<rparr>,
      ap_ClickHouse = \<lparr>chc_QueryTimeout = 0, chc_DialTimeout = 0, chc_Nodes = []\<rparr>,
      ap_Tiering = zero_config, ap_Watches = [], ap_Frontend = \<lparr>fe_Enabled = None, fe_Addr = ''''\<rparr>\<rparr>"

section \<open>Tier blocks\<close>

definition resolve_watch ::
  "'y config_env \<Rightarrow> TierConfig \<Rightarrow> nat \<Rightarrow> 'y WatchConfig \<Rightarrow> gotext + 'y WatchConfig" where
  "resolve_watch E tiering i watch =
     (let names = [AInt (int i), AStr (wc_Database watch), AStr (wc_Table watch)] in
      case wc_Tier watch of
        None \<Rightarrow> Inr (watch\<lparr>wc_TierSettings := None\<rparr>)
      | Some block \<Rightarrow>
          (case cfe_Marshal E block of
             Inl e \<Rightarrow> Inl (Fmt ''watches[%d] (%s.%s): marshal tier block: %w'' (names @ [AWrap e]))
           | Inr raw \<Rightarrow>
               (case cfe_DecodeTier E raw (Clone (tc_Defaults tiering)) of
                  Inl e \<Rightarrow> Inl (Fmt ''watches[%d] (%s.%s): %w'' (names @ [AWrap e]))
                | Inr decoded \<Rightarrow>
                    (let resolved = ResolveDefaults_tier decoded;
                         effective = (if ts_Mode resolved = '''' then resolved\<lparr>ts_Mode := tc_Mode tiering\<rparr>
                                      else resolved)
                     in case Validate_Tier effective (''watches['' @ show_nat i @ ''].tier'') True of
                          Some e \<Rightarrow> Inl e
                        | None \<Rightarrow> Inr (watch\<lparr>wc_TierSettings := Some effective\<rparr>)))))"

fun resolve_watches ::
  "'y config_env \<Rightarrow> TierConfig \<Rightarrow> nat \<Rightarrow> 'y WatchConfig list \<Rightarrow> gotext + 'y WatchConfig list" where
  "resolve_watches E tiering i [] = Inr []"
| "resolve_watches E tiering i (w # ws) =
     (case resolve_watch E tiering i w of
        Inl e \<Rightarrow> Inl e
      | Inr w' \<Rightarrow> (case resolve_watches E tiering (i + 1) ws of Inl e \<Rightarrow> Inl e | Inr ws' \<Rightarrow> Inr (w' # ws')))"

definition ResolveTiering :: "'y config_env \<Rightarrow> 'y AppConfig \<Rightarrow> gotext + 'y AppConfig" where
  "ResolveTiering E c =
     (let expanded = (ap_ClickHouse c)\<lparr>chc_Nodes :=
            map (\<lambda>n. n\<lparr>nc_DSN := ExpandEnv (cfe_Getenv E) (nc_DSN n)\<rparr>) (chc_Nodes (ap_ClickHouse c))\<rparr>
      in case resolve_watches E (ap_Tiering c) 0 (ap_Watches c) of
           Inl e \<Rightarrow> Inl e
         | Inr watches \<Rightarrow> Inr (c\<lparr>ap_ClickHouse := expanded, ap_Watches := watches\<rparr>))"

definition TieringWatches :: "'y AppConfig \<Rightarrow> EffectiveWatch list" where
  "TieringWatches c =
     map (\<lambda>w. \<lparr>w_Database = wc_Database w, w_Table = wc_Table w, w_Settings = wc_TierSettings w\<rparr>) (ap_Watches c)"

definition IsEnabled :: "FrontendConfig \<Rightarrow> bool" where
  "IsEnabled f = (case fe_Enabled f of None \<Rightarrow> True | Some b \<Rightarrow> b)"

section \<open>Validation\<close>

definition validateLogging :: "unicode \<Rightarrow> string \<Rightarrow> gotext option" where
  "validateLogging U level =
     check (go_lower U level \<notin> {''debug'', ''info'', ''warn'', ''warning'', ''error''})
       (lit ''logging must be one of debug, info, warn, or error'')"

definition validateClickHouseNodeDSN :: "'y config_env \<Rightarrow> string \<Rightarrow> gotext option" where
  "validateClickHouseNodeDSN E raw =
     (if raw = '''' then Some (lit ''is required'')
      else case cfe_ParseURL E raw of
        Inl text \<Rightarrow> Some (Fmt ''parse: %w'' (case RedactDSNError (Some text) raw of Some e \<Rightarrow> [AWrap e] | None \<Rightarrow> []))
      | Inr (scheme, host) \<Rightarrow>
          first_some
            [check (scheme \<noteq> ''clickhouse'') (lit ''must use clickhouse:// native protocol DSN''),
             check (host = '''') (lit ''host is required''),
             check (str_contains host '','') (lit ''must identify exactly one ClickHouse host, not a failover list'')])"

definition validate_node :: "'y config_env \<Rightarrow> nat \<Rightarrow> string list \<Rightarrow> NodeConfig \<Rightarrow> gotext option" where
  "validate_node E i seen node =
     first_some
       [check (nc_Name node = '''') (Fmt ''clickhouse.nodes[%d].name is required'' [AInt (int i)]),
        check (nc_Name node \<in> set seen)
          (Fmt ''clickhouse.nodes[%d].name %q is duplicated'' [AInt (int i), AStr (nc_Name node)]),
        check (nc_ShardName node = '''') (Fmt ''clickhouse.nodes[%d].shard is required'' [AInt (int i)]),
        check (nc_ReplicaName node = '''') (Fmt ''clickhouse.nodes[%d].replica is required'' [AInt (int i)]),
        map_option (\<lambda>e. Fmt ''clickhouse.nodes[%d].dsn: %w'' [AInt (int i), AWrap e])
          (validateClickHouseNodeDSN E (nc_DSN node))]"

fun validate_nodes :: "'y config_env \<Rightarrow> nat \<Rightarrow> string list \<Rightarrow> NodeConfig list \<Rightarrow> gotext option" where
  "validate_nodes E i seen [] = None"
| "validate_nodes E i seen (n # ns) =
     (case validate_node E i seen n of
        Some e \<Rightarrow> Some e | None \<Rightarrow> validate_nodes E (i + 1) (nc_Name n # seen) ns)"

definition watch_key :: "'y WatchConfig \<Rightarrow> string" where
  "watch_key w = wc_Database w @ ''.'' @ wc_Table w"

definition validate_watch :: "nat \<Rightarrow> string list \<Rightarrow> 'y WatchConfig \<Rightarrow> gotext option" where
  "validate_watch i seen w =
     first_some
       [check (wc_Database w = '''') (Fmt ''watches[%d].database is required'' [AInt (int i)]),
        check (wc_Table w = '''') (Fmt ''watches[%d].table is required'' [AInt (int i)]),
        check (watch_key w \<in> set seen) (Fmt ''watches[%d] %q is duplicated'' [AInt (int i), AStr (watch_key w)])]"

fun validate_watches :: "nat \<Rightarrow> string list \<Rightarrow> 'y WatchConfig list \<Rightarrow> gotext option" where
  "validate_watches i seen [] = None"
| "validate_watches i seen (w # ws) =
     (case validate_watch i seen w of
        Some e \<Rightarrow> Some e | None \<Rightarrow> validate_watches (i + 1) (watch_key w # seen) ws)"

definition Validate_app :: "'y config_env \<Rightarrow> 'y AppConfig \<Rightarrow> gotext option" where
  "Validate_app E c =
     first_some
       [validateLogging (cfe_Unicode E) (ap_Logging c),
        ValidateTracing (trc_Endpoint (ap_Tracing c))
          (case trc_SampleRatio (ap_Tracing c) of None \<Rightarrow> Fin 1 | Some r \<Rightarrow> r),
        Validate_Config (ResolveDefaults (ap_Tiering c)) (cfe_Now E),
        check (chc_Nodes (ap_ClickHouse c) = []) (lit ''clickhouse.nodes must contain at least one node''),
        validate_nodes E 0 [] (chc_Nodes (ap_ClickHouse c)),
        check (ap_Watches c = []) (lit ''watches must contain at least one table''),
        validate_watches 0 [] (ap_Watches c),
        check (IsEnabled (ap_Frontend c) \<and> fe_Addr (ap_Frontend c) = '''')
          (lit ''frontend.addr is required when frontend.enabled is true'')]"

definition LoadConfig :: "'y config_env \<Rightarrow> string \<Rightarrow> gotext + 'y AppConfig" where
  "LoadConfig E path =
     (case cfe_ReadFile E path of
        Inl e \<Rightarrow> Inl (Fmt ''read config: %w'' [AWrap e])
      | Inr data \<Rightarrow>
          if trim_space data = [] then Inl (Fmt ''config file %s is empty'' [AStr path])
          else case cfe_Decode E data DefaultConfig_app of
            Inl e \<Rightarrow> Inl (Fmt ''parse config: %w'' [AWrap e])
          | Inr decoded \<Rightarrow>
              (case ResolveTiering E (ResolveDefaults_app decoded) of
                 Inl e \<Rightarrow> Inl (Fmt ''resolve tiering config: %w'' [AWrap e])
               | Inr c \<Rightarrow>
                   (case Validate_app E c of
                      Some e \<Rightarrow> Inl (Fmt ''validate config: %w'' [AWrap e]) | None \<Rightarrow> Inr c)))"

section \<open>What a loaded configuration satisfies\<close>

definition dsn_wf :: "'y config_env \<Rightarrow> string \<Rightarrow> bool" where
  "dsn_wf E raw \<longleftrightarrow> raw \<noteq> '''' \<and>
     (\<exists>host. cfe_ParseURL E raw = Inr (''clickhouse'', host) \<and> host \<noteq> '''' \<and> \<not> str_contains host '','')"

definition node_wf :: "'y config_env \<Rightarrow> NodeConfig \<Rightarrow> bool" where
  "node_wf E n \<longleftrightarrow> nc_Name n \<noteq> '''' \<and> nc_ShardName n \<noteq> '''' \<and> nc_ReplicaName n \<noteq> '''' \<and> dsn_wf E (nc_DSN n)"

definition watch_wf :: "'y WatchConfig \<Rightarrow> bool" where
  "watch_wf w \<longleftrightarrow> wc_Database w \<noteq> '''' \<and> wc_Table w \<noteq> ''''"

definition config_wf :: "'y config_env \<Rightarrow> 'y AppConfig \<Rightarrow> bool" where
  "config_wf E c \<longleftrightarrow>
     go_lower (cfe_Unicode E) (ap_Logging c) \<in> {''debug'', ''info'', ''warn'', ''warning'', ''error''} \<and>
     ValidateTracing (trc_Endpoint (ap_Tracing c))
       (case trc_SampleRatio (ap_Tracing c) of None \<Rightarrow> Fin 1 | Some r \<Rightarrow> r) = None \<and>
     Validate_Config (ResolveDefaults (ap_Tiering c)) (cfe_Now E) = None \<and>
     chc_Nodes (ap_ClickHouse c) \<noteq> [] \<and> distinct (map nc_Name (chc_Nodes (ap_ClickHouse c))) \<and>
     list_all (node_wf E) (chc_Nodes (ap_ClickHouse c)) \<and>
     ap_Watches c \<noteq> [] \<and> distinct (map watch_key (ap_Watches c)) \<and> list_all watch_wf (ap_Watches c) \<and>
     (IsEnabled (ap_Frontend c) \<longrightarrow> fe_Addr (ap_Frontend c) \<noteq> '''')"

lemma validate_dsn_None: "validateClickHouseNodeDSN E raw = None \<longleftrightarrow> dsn_wf E raw"
  by (auto simp: validateClickHouseNodeDSN_def dsn_wf_def check_def split: sum.splits prod.splits)

lemma validate_node_None: "validate_node E i seen n = None \<longleftrightarrow> node_wf E n \<and> nc_Name n \<notin> set seen"
  by (auto simp: validate_node_def node_wf_def check_def validate_dsn_None)

lemma chain_None: "(case x of Some e \<Rightarrow> Some e | None \<Rightarrow> y) = None \<longleftrightarrow> x = None \<and> y = None"
  by (cases x) simp_all

lemma validate_nodes_None:
  "validate_nodes E i seen ns = None \<longleftrightarrow>
     list_all (node_wf E) ns \<and> distinct (map nc_Name ns) \<and> set (map nc_Name ns) \<inter> set seen = {}"
  by (induction ns arbitrary: i seen) (auto simp: validate_node_None chain_None)

lemma validate_watches_None:
  "validate_watches i seen ws = None \<longleftrightarrow>
     list_all watch_wf ws \<and> distinct (map watch_key ws) \<and> set (map watch_key ws) \<inter> set seen = {}"
  by (induction ws arbitrary: i seen) (auto simp: validate_watch_def watch_wf_def check_def chain_None)

lemma validate_app_None: "Validate_app E c = None \<longleftrightarrow> config_wf E c"
  by (auto simp: Validate_app_def config_wf_def check_def validateLogging_def validate_nodes_None validate_watches_None)

definition tier_block_ok :: "'y WatchConfig \<Rightarrow> bool" where
  "tier_block_ok w \<longleftrightarrow> (wc_TierSettings w = None \<longleftrightarrow> wc_Tier w = None) \<and>
     (case wc_TierSettings w of None \<Rightarrow> True
      | Some s \<Rightarrow> tier_wf s True \<and> ts_Mode s \<in> {ModeOff, ModePlan, ModeEnforce})"

lemma resolve_watch_ok:
  assumes "resolve_watch E tiering i w = Inr w'" and "tc_Mode tiering \<noteq> ''''"
  shows "tier_block_ok w'"
proof (cases "wc_Tier w")
  case None
  then show ?thesis using assms by (auto simp: resolve_watch_def tier_block_ok_def)
next
  case (Some block)
  then obtain raw decoded where "cfe_Marshal E block = Inr raw"
    and "cfe_DecodeTier E raw (Clone (tc_Defaults tiering)) = Inr decoded"
    using assms(1) by (auto simp: resolve_watch_def Let_def split: sum.splits)
  moreover define s where "s = (let r = ResolveDefaults_tier decoded in
    if ts_Mode r = '''' then r\<lparr>ts_Mode := tc_Mode tiering\<rparr> else r)"
  ultimately have w': "w' = w\<lparr>wc_TierSettings := Some s\<rparr>" and
    valid: "Validate_Tier s (''watches['' @ show_nat i @ ''].tier'') True = None"
    using assms(1) Some by (auto simp: resolve_watch_def Let_def split: option.splits)
  have "ts_Mode s \<noteq> ''''" using assms(2) by (simp add: s_def Let_def)
  moreover have wf: "tier_wf s True" using valid by (simp add: validate_tier_None)
  ultimately have "ts_Mode s \<in> {ModeOff, ModePlan, ModeEnforce}" by (simp add: tier_wf_def)
  then show ?thesis using w' wf Some by (simp add: tier_block_ok_def)
qed

lemma resolve_watches_ok:
  "resolve_watches E tiering i ws = Inr ws' \<Longrightarrow> tc_Mode tiering \<noteq> '''' \<Longrightarrow> list_all tier_block_ok ws'"
  by (induction ws arbitrary: i ws') (auto split: sum.splits intro: resolve_watch_ok)

lemma loaded_ok:
  assumes "LoadConfig E path = Inr c"
  shows "config_wf E c \<and> list_all tier_block_ok (ap_Watches c)"
proof -
  obtain data decoded where decoded: "cfe_Decode E data DefaultConfig_app = Inr decoded"
    and resolved: "ResolveTiering E (ResolveDefaults_app decoded) = Inr c" and "Validate_app E c = None"
    using assms by (auto simp: LoadConfig_def split: sum.splits if_splits option.splits)
  obtain watches where watches: "resolve_watches E (ap_Tiering (ResolveDefaults_app decoded)) 0
      (ap_Watches (ResolveDefaults_app decoded)) = Inr watches" and c: "ap_Watches c = watches"
    using resolved by (auto simp: ResolveTiering_def Let_def split: sum.splits)
  have "tc_Mode (ap_Tiering (ResolveDefaults_app decoded)) \<noteq> ''''"
    by (simp add: ResolveDefaults_app_def ResolveDefaults_def Let_def DefaultTierConfig_def ModePlan_def)
  from resolve_watches_ok [OF watches this] \<open>Validate_app E c = None\<close> show ?thesis
    by (simp add: c validate_app_None)
qed

text \<open>C28: What loading guarantees: a configuration that loads passes its own validation; every node has
  a name of its own, a shard, a replica and a \<open>clickhouse://\<close> DSN with a single host; every watch names
  a table and no two have the same key; and a watch has tier settings exactly when it has a tier block,
  well-formed and with one of the three modes.\<close>

theorem loaded_config_wf:
  assumes "LoadConfig E path = Inr c"
  shows "config_wf E c \<and> list_all tier_block_ok (ap_Watches c)"
  by (rule loaded_ok [OF assms])

definition small_config :: "unit AppConfig \<Rightarrow> unit AppConfig" where
  "small_config base = base\<lparr>
     ap_ClickHouse := (ap_ClickHouse base)\<lparr>chc_Nodes :=
       [\<lparr>nc_Name = ''n1'', nc_ShardName = ''s1'', nc_ReplicaName = ''r1'', nc_DSN = ''clickhouse://u:$PW@h:9000''\<rparr>]\<rparr>,
     ap_Watches := [\<lparr>wc_Database = ''db'', wc_Table = ''t'', wc_Tier = Some (), wc_TierSettings = None\<rparr>]\<rparr>"

definition small_env :: "unit config_env" where
  "small_env =
     \<lparr>cfe_ReadFile = \<lambda>p. Inr ''x'', cfe_Decode = \<lambda>d base. Inr (small_config base), cfe_Marshal = \<lambda>u. Inr '''',
      cfe_DecodeTier = \<lambda>raw base. Inr (base\<lparr>ts_Age := \<lparr>age_Basis = AgeBasisPartitionTime, age_OlderThan = 90 * day_dur,
        age_Field = '''', age_KeepLast = 0\<rparr>\<rparr>),
      cfe_Getenv = \<lambda>v. if v = ''PW'' then ''secret'' else '''', cfe_ParseURL = \<lambda>raw. Inr (''clickhouse'', ''h:9000''),
      cfe_Unicode = sample_unicode, cfe_Now = 0\<rparr>"

lemma small_dsn: "ExpandEnv (cfe_Getenv small_env) ''clickhouse://u:$PW@h:9000'' = ''clickhouse://u:secret@h:9000''"
  by (simp add: small_env_def ExpandEnv.simps getShellName_def shell_special_def shell_alnum_def is_digit_def)

definition aged_settings :: TierSettings where
  "aged_settings = DefaultTierSettings\<lparr>ts_Mode := ModePlan, ts_Age := \<lparr>age_Basis = AgeBasisPartitionTime,
     age_OlderThan = 90 * day_dur, age_Field = '''', age_KeepLast = 0\<rparr>\<rparr>"

lemma aged_settings_wf: "tier_wf aged_settings True"
  using default_settings_wf by (simp add: tier_wf_def aged_settings_def age_wf_def dur_simps AgeBasisPartitionTime_def)

lemma default_app_tiering: "ap_Tiering DefaultConfig_app = DefaultTierConfig"
  by (simp add: DefaultConfig_app_def ResolveDefaults_app_def resolve_zero)

lemma default_tiering_stable: "ResolveDefaults DefaultTierConfig = DefaultTierConfig"
  using resolve_idem [of zero_config] by (simp add: resolve_zero)

lemma small_loads:
  obtains c where "LoadConfig small_env ''c.yaml'' = Inr c" and "chc_Nodes (ap_ClickHouse c) =
    [\<lparr>nc_Name = ''n1'', nc_ShardName = ''s1'', nc_ReplicaName = ''r1'', nc_DSN = ''clickhouse://u:secret@h:9000''\<rparr>]"
proof -
  let ?base = "ResolveDefaults_app (small_config DefaultConfig_app)"
  define watch :: "unit WatchConfig" where
    "watch = \<lparr>wc_Database = ''db'', wc_Table = ''t'', wc_Tier = Some (), wc_TierSettings = None\<rparr>"
  have tiering: "ap_Tiering ?base = DefaultTierConfig"
    by (simp add: ResolveDefaults_app_def small_config_def default_app_tiering default_tiering_stable)
  have watches: "ap_Watches ?base = [watch]"
    by (simp add: ResolveDefaults_app_def small_config_def watch_def)
  have "ResolveDefaults_tier (DefaultTierSettings\<lparr>ts_Age := \<lparr>age_Basis = AgeBasisPartitionTime,
      age_OlderThan = 90 * day_dur, age_Field = '''', age_KeepLast = 0\<rparr>\<rparr>)\<lparr>ts_Mode := ModePlan\<rparr> = aged_settings"
    by (simp add: aged_settings_def ResolveDefaults_tier_def DefaultTierSettings_def resolve_resplit_def Let_def dur_simps)
  moreover have "ts_Mode (ResolveDefaults_tier (DefaultTierSettings\<lparr>ts_Age := a\<rparr>)) = ''''" for a
    by (simp add: ResolveDefaults_tier_def DefaultTierSettings_def Let_def)
  moreover have "tc_Mode DefaultTierConfig = ModePlan" "tc_Defaults DefaultTierConfig = DefaultTierSettings"
    by (simp_all add: DefaultTierConfig_def)
  moreover have "Validate_Tier aged_settings p True = None" for p
    using aged_settings_wf by (simp add: validate_tier_None)
  ultimately have "resolve_watch small_env DefaultTierConfig 0 watch =
      Inr (watch\<lparr>wc_TierSettings := Some aged_settings\<rparr>)"
    by (simp add: resolve_watch_def watch_def small_env_def Clone_def Let_def)
  then have resolved: "resolve_watches small_env (ap_Tiering ?base) 0 (ap_Watches ?base) =
      Inr [watch\<lparr>wc_TierSettings := Some aged_settings\<rparr>]" by (simp add: tiering watches)
  define c where "c = ?base\<lparr>ap_ClickHouse := (ap_ClickHouse ?base)\<lparr>chc_Nodes :=
      [\<lparr>nc_Name = ''n1'', nc_ShardName = ''s1'', nc_ReplicaName = ''r1'', nc_DSN = ''clickhouse://u:secret@h:9000''\<rparr>]\<rparr>,
    ap_Watches := [watch\<lparr>wc_TierSettings := Some aged_settings\<rparr>]\<rparr>"
  have "ResolveTiering small_env ?base = Inr c"
    unfolding ResolveTiering_def Let_def resolved sum.case c_def
    by (simp add: ResolveDefaults_app_def small_config_def small_dsn)
  moreover have lower: "go_lower sample_unicode ''info'' = ''info''" by code_simp
  have "config_wf small_env c"
    by (simp add: config_wf_def c_def tiering default_tiering_stable default_config_valid node_wf_def dsn_wf_def watch_wf_def
        watch_def IsEnabled_def)
      (simp add: ResolveDefaults_app_def small_config_def DefaultConfig_app_def defaultLogging_def lower small_env_def
        ValidateTracing_def check_def str_contains_def has_prefix_def defaultFrontendAddr_def)
  moreover have "cfe_ReadFile small_env p = Inr ''x''" "cfe_Decode small_env d x = Inr (small_config x)" for p d x
    by (simp_all add: small_env_def)
  moreover have "trim_space ''x'' \<noteq> []" by code_simp
  ultimately have load: "LoadConfig small_env ''c.yaml'' = Inr c"
    by (simp add: LoadConfig_def validate_app_None [THEN iffD2])
  show thesis by (rule that [OF load]) (simp add: c_def)
qed

theorem loaded_config_wf_witness:
  "\<exists>c. LoadConfig small_env ''c.yaml'' = Inr c \<and> config_wf small_env c \<and>
     map nc_DSN (chc_Nodes (ap_ClickHouse c)) = [''clickhouse://u:secret@h:9000'']"
proof -
  obtain c where c: "LoadConfig small_env ''c.yaml'' = Inr c" and nodes: "chc_Nodes (ap_ClickHouse c) =
      [\<lparr>nc_Name = ''n1'', nc_ShardName = ''s1'', nc_ReplicaName = ''r1'', nc_DSN = ''clickhouse://u:secret@h:9000''\<rparr>]"
    by (rule small_loads)
  from loaded_config_wf [OF c] c nodes show ?thesis by auto
qed

end
