(* ===== verification/ClusterData.thy ===== *)
theory ClusterData
  imports Observation
begin

text \<open>
  The data of the cluster-state collector (\<open>internal/clusterstate/collector.go\<close>, \<open>tables.go\<close>):
  one record per struct, the result envelope, and the helpers that turn nullable columns into
  optional fields. A Go pointer field is an option; a nil slice and an empty one are both \<open>[]\<close>.
\<close>

section \<open>The envelope\<close>

record Watch =
  cw_Database :: string
  cw_Table :: string

record Warning =
  wa_Kind :: string
  wa_Code :: string
  wa_Message :: gotext
  wa_NodeID :: string

record 'a Result =
  res_CollectedAt :: gtime
  res_CollectionDuration :: gdur
  res_NodesExpected :: int
  res_NodesResponded :: int
  res_NodesFailed :: int
  res_Warnings :: "Warning list"
  res_Items :: "'a list"

definition Partial :: "'a Result \<Rightarrow> bool" where
  "Partial r \<longleftrightarrow> 0 < res_NodesFailed r \<or> 0 < length (res_Warnings r)"

definition warningKindReachability :: string where "warningKindReachability = ''reachability''"
definition warningKindCapability :: string where "warningKindCapability = ''capability''"
definition warningKindQueryError :: string where "warningKindQueryError = ''query_error''"

section \<open>The rows\<close>

record NodeStatus =
  ns_Node :: Node
  ns_Reachable :: bool
  ns_ObservedAt :: gtime
  ns_Version :: string
  ns_Timezone :: string
  ns_UptimeSeconds :: u64
  ns_LastError :: gotext

record Disk =
  dk_Node :: Node
  dk_Name :: string
  dk_Path :: string
  dk_CachePath :: string
  dk_Type :: string
  dk_ObjectStorageType :: string
  dk_IsRemote :: bool
  dk_IsBroken :: bool
  dk_CapacityKnown :: bool
  dk_FreeSpaceBytes :: "u64 option"
  dk_TotalSpaceBytes :: "u64 option"
  dk_UnreservedSpaceBytes :: "u64 option"
  dk_UsedByActiveParts :: u64

record ReplicaState =
  rs_Readonly :: bool
  rs_SessionExpired :: bool
  rs_QueueSize :: u64
  rs_AbsoluteDelaySeconds :: u64
  rs_TotalReplicas :: u64
  rs_ActiveReplicas :: u64

record TableState =
  tst_Node :: Node
  tst_Database :: string
  tst_Table :: string
  tst_UUID :: string
  tst_Engine :: string
  tst_StoragePolicy :: string
  tst_PartitionKey :: string
  tst_SortingKey :: string
  tst_PrimaryKey :: string
  tst_SamplingKey :: string
  tst_IsReplicated :: bool
  tst_ActivePartitions :: int
  tst_ActiveParts :: u64
  tst_Rows :: u64
  tst_BytesOnDisk :: u64
  tst_MinPartition :: "string option"
  tst_MaxPartition :: "string option"
  tst_LastModificationTime :: "gtime option"
  tst_Replica :: "ReplicaState option"

text \<open>The values of a condition's evidence map.\<close>

datatype evidence = EvText string | EvTexts "string list" | EvCount u64

record StateCondition =
  sc_ConditionID :: string
  sc_Severity :: string
  sc_Code :: string
  sc_Message :: gotext
  sc_ObservedAt :: gtime
  sc_Database :: "string option"
  sc_Table :: "string option"
  sc_Partition :: "string option"
  sc_PartitionID :: "string option"
  sc_NodeID :: "string option"
  sc_Evidence :: "(string \<times> evidence) list"
  sc_Links :: "(string \<times> string) list"

record Column =
  clm_Name :: string
  clm_Position :: u64
  clm_Type :: string
  clm_Kind :: string
  clm_DefaultKind :: "string option"
  clm_DefaultExpression :: "string option"
  clm_CodecExpression :: "string option"
  clm_TTLExpression :: "string option"
  clm_Comment :: string
  clm_IsInPartitionKey :: bool
  clm_IsInSortingKey :: bool
  clm_IsInPrimaryKey :: bool
  clm_IsInSamplingKey :: bool

record NodeColumns =
  nc_Node :: Node
  nc_Database :: string
  nc_Table :: string
  nc_Columns :: "Column list"
  nc_Conditions :: "StateCondition list"

record Part =
  pt_Node :: Node
  pt_Database :: string
  pt_Table :: string
  pt_Partition :: string
  pt_PartitionID :: string
  pt_Name :: string
  pt_UUID :: string
  pt_Active :: bool
  pt_Disk :: string
  pt_Path :: string
  pt_PartType :: string
  pt_Rows :: u64
  pt_Marks :: u64
  pt_BytesOnDisk :: u64
  pt_DataCompressedBytes :: u64
  pt_DataUncompressedBytes :: u64
  pt_MarksBytes :: u64
  pt_PrimaryKeyBytesInMemory :: u64
  pt_PrimaryKeyBytesInMemoryAllocated :: u64
  pt_SecondaryIndicesCompressedBytes :: u64
  pt_SecondaryIndicesUncompressedBytes :: u64
  pt_SecondaryIndicesMarksBytes :: u64
  pt_ModificationTime :: gtime
  pt_RemoveTime :: "gtime option"
  pt_Refcount :: u64
  pt_MinBlockNumber :: int
  pt_MaxBlockNumber :: int
  pt_Level :: u64
  pt_DataVersion :: u64
  pt_DeleteTTLInfoMin :: "gtime option"
  pt_DeleteTTLInfoMax :: "gtime option"
  pt_DefaultCompressionCodec :: string
  pt_Conditions :: "StateCondition list"

record DetachedPart =
  dp_Node :: Node
  dp_Database :: string
  dp_Table :: string
  dp_PartitionID :: "string option"
  dp_Name :: string
  dp_Disk :: string
  dp_Reason :: "string option"
  dp_Path :: string
  dp_BytesOnDisk :: u64
  dp_Rows :: u64
  dp_MinBlockNumber :: "int option"
  dp_MaxBlockNumber :: "int option"
  dp_Level :: "u64 option"
  dp_ModificationTime :: gtime
  dp_Conditions :: "StateCondition list"

record MutationBlockNumber =
  mbn_PartitionID :: string
  mbn_Number :: u64

record Mutation =
  mu_Node :: Node
  mu_Database :: string
  mu_Table :: string
  mu_MutationID :: string
  mu_Command :: string
  mu_CreateTime :: gtime
  mu_IsDone :: bool
  mu_IsKilled :: bool
  mu_PartsToDo :: u64
  mu_PartsToDoNames :: "string list"
  mu_BlockNumbers :: "MutationBlockNumber list"
  mu_LatestFailedPart :: "string option"
  mu_LatestFailTime :: "gtime option"
  mu_LatestFailReason :: "string option"
  mu_Conditions :: "StateCondition list"

record ReplicationQueueItem =
  rq_Node :: Node
  rq_Database :: string
  rq_Table :: string
  rq_ReplicaName :: string
  rq_Position :: u64
  rq_NodeName :: string
  rq_Type :: string
  rq_CreateTime :: gtime
  rq_RequiredQuorum :: u64
  rq_SourceReplica :: "string option"
  rq_NewPartName :: "string option"
  rq_PartsToMerge :: "string list"
  rq_IsDetach :: bool
  rq_IsCurrentlyExecuting :: bool
  rq_NumTries :: u64
  rq_LastAttemptTime :: "gtime option"
  rq_LastPostponeTime :: "gtime option"
  rq_NumPostponed :: u64
  rq_PostponeReason :: "string option"
  rq_LastException :: "string option"
  rq_Conditions :: "StateCondition list"

record PartEvent =
  pe_Node :: Node
  pe_Database :: string
  pe_Table :: string
  pe_Partition :: string
  pe_PartitionID :: string
  pe_PartName :: string
  pe_EventType :: string
  pe_EventTime :: gtime
  pe_DurationMs :: u64
  pe_Rows :: u64
  pe_BytesCompressed :: u64
  pe_BytesUncompressed :: u64
  pe_ReadRows :: u64
  pe_ReadBytes :: u64
  pe_MergedFrom :: "string list"
  pe_SourceDisk :: "string option"
  pe_TargetDisk :: "string option"
  pe_Error :: int
  pe_Exception :: "string option"
  pe_EventTimeMicrostamp :: string

record Operation =
  op_OperationID :: string
  op_Kind :: string
  op_NodeID :: string
  op_Database :: string
  op_Table :: string
  op_Partition :: "string option"
  op_PartitionID :: "string option"
  op_AttemptID :: string
  op_State :: string
  op_ElapsedSeconds :: "f64 option"
  op_Progress :: "f64 option"
  op_SourceDisk :: "string option"
  op_TargetDisk :: "string option"
  op_BytesTotal :: "u64 option"
  op_BytesProcessed :: "u64 option"
  op_LatestMessage :: "string option"
  op_StartedAt :: "gtime option"

section \<open>Nullable columns\<close>

text \<open>\<open>sql.NullString\<close>, \<open>sql.NullTime\<close> and \<open>sql.NullInt64\<close> are options: \<open>Valid\<close> is \<open>Some\<close>.\<close>

definition nonEmptyStringPtr :: "string \<Rightarrow> string option" where
  "nonEmptyStringPtr value = (if value = '''' then None else Some value)"

definition nullableStringPtr :: "string option \<Rightarrow> string option" where
  "nullableStringPtr value =
     (case value of None \<Rightarrow> None | Some s \<Rightarrow> if s = '''' then None else Some s)"

definition nonZeroTimePtr :: "gtime \<Rightarrow> gtime option" where
  "nonZeroTimePtr value = (if is_zero value \<or> time_unix value = 0 then None else Some value)"

definition nullableTimePtr :: "gtime option \<Rightarrow> gtime option" where
  "nullableTimePtr value = (case value of None \<Rightarrow> None | Some t \<Rightarrow> nonZeroTimePtr t)"

definition nullableInt64Ptr :: "int option \<Rightarrow> int option" where
  "nullableInt64Ptr value = value"

definition nullableUint64Ptr :: "int option \<Rightarrow> u64 option" where
  "nullableUint64Ptr value =
     (case value of None \<Rightarrow> None | Some n \<Rightarrow> if n < 0 then None else Some (word_of_int n))"

definition uint64FromInt64 :: "int \<Rightarrow> u64" where
  "uint64FromInt64 value = (if value < 0 then 0 else word_of_int value)"

definition derefString :: "string option \<Rightarrow> string" where
  "derefString value = (case value of None \<Rightarrow> '''' | Some s \<Rightarrow> s)"

fun firstNonNilString :: "string option list \<Rightarrow> string option" where
  "firstNonNilString [] = None"
| "firstNonNilString (Some s # values) = Some s"
| "firstNonNilString (None # values) = firstNonNilString values"

definition opaqueID :: "string list \<Rightarrow> string" where
  "opaqueID parts = join ''|'' parts"

definition mutationBlockNumbers :: "string list \<Rightarrow> int list \<Rightarrow> MutationBlockNumber list" where
  "mutationBlockNumbers partitionIDs numbers =
     map (\<lambda>(p, n). \<lparr>mbn_PartitionID = p, mbn_Number = uint64FromInt64 n\<rparr>) (zip partitionIDs numbers)"

text \<open>\<open>strings.ToUpper\<close>; what it does to a rune from 128 on is a parameter.\<close>

definition ascii_upper :: "char \<Rightarrow> char" where
  "ascii_upper c = (if 97 \<le> byte c \<and> byte c \<le> 122 then char_of (byte c - 32) else c)"

definition go_upper :: "(nat \<Rightarrow> nat) \<Rightarrow> string \<Rightarrow> string" where
  "go_upper upper s =
     (if list_all (\<lambda>c. byte c < 128) s then map ascii_upper s
      else concat (map (\<lambda>r. encode_rune
             (if r < 128 then (if 97 \<le> r \<and> r \<le> 122 then r - 32 else r) else upper r)) (runes s)))"

definition columnKind :: "(nat \<Rightarrow> nat) \<Rightarrow> string \<Rightarrow> string" where
  "columnKind upper defaultKind =
     (let k = go_upper upper defaultKind in
      if k = ''MATERIALIZED'' then ''materialized'' else if k = ''ALIAS'' then ''alias'' else ''regular'')"

end
