(* ===== verification/ClusterState.thy ===== *)
theory ClusterState
  imports ClusterData
begin

text \<open>
  The request-time collector (\<open>internal/clusterstate/collector.go\<close>, \<open>tables.go\<close>): the fan-out over
  the nodes, one collection per system table with its rows, warnings and envelope. A node's database is a
  record of query results, as for the observer; the order in which the goroutines of a fan-out
  deliver, and the order in which Go iterates over a map, is a parameter.
\<close>

section \<open>The environment of a collection\<close>

text \<open>
  What the code asks of an error it did not make: whether a \<open>net.Error\<close> is in its chain, and its
  text. \<open>df_upper\<close> is \<open>unicode.ToUpper\<close> from rune 128 on.
\<close>

record driver_facts =
  df_net :: "gotext \<Rightarrow> bool"
  df_text :: "gotext \<Rightarrow> string"
  df_unicode :: unicode
  df_upper :: "nat \<Rightarrow> nat"

text \<open>
  \<open>ce_order what n\<close> is the order in which the \<open>n\<close> results of the fan-out (or the \<open>n\<close> entries of the
  map) named \<open>what\<close> are seen; the clock of a collection and the time it took are given.
\<close>

record collect_env =
  ce_facts :: driver_facts
  ce_clock :: gtime
  ce_took :: gdur
  ce_order :: "string list \<Rightarrow> nat \<Rightarrow> nat list"

definition gathered :: "collect_env \<Rightarrow> string list \<Rightarrow> 'a list \<Rightarrow> 'a list" where
  "gathered E what xs = map (\<lambda>i. xs ! i) (ce_order E what (length xs))"

definition fair_order :: "collect_env \<Rightarrow> bool" where
  "fair_order E \<longleftrightarrow> (\<forall>what n. mset (ce_order E what n) = mset [0..<n])"

text \<open>
  The queries of the collector. A batched query takes the predicate text and its bound
  arguments; a row is what \<open>Scan\<close> fills: the fields it writes directly, and the raw columns.
\<close>

record state_db =
  d_one :: "gotext + string \<times> string \<times> u64"
  d_disk_usage :: "string \<Rightarrow> string list \<Rightarrow> (string \<times> u64) rowset"
  d_disks :: "(Disk \<times> u64 \<times> u64 \<times> u64 \<times> 8 word \<times> 8 word) rowset"
  d_engines :: "string \<Rightarrow> string list \<Rightarrow> (string \<times> string \<times> string) rowset"
  d_identities :: "string \<Rightarrow> string list \<Rightarrow> (TableState \<times> 8 word) rowset"
  d_aggregates :: "string \<Rightarrow> string list \<Rightarrow>
    (string \<times> string \<times> int \<times> u64 \<times> u64 \<times> u64 \<times> string option \<times> string option \<times> gtime option) rowset"
  d_replicas :: "string \<Rightarrow> string list \<Rightarrow>
    (string \<times> string \<times> 8 word \<times> 8 word \<times> 32 word \<times> u64 \<times> 32 word \<times> 32 word) rowset"
  d_columns :: "string \<Rightarrow> string \<Rightarrow>
    (Column \<times> string \<times> string \<times> string \<times> 8 word \<times> 8 word \<times> 8 word \<times> 8 word) rowset"
  d_parts :: "bool \<Rightarrow> string \<Rightarrow> string \<Rightarrow> (Part \<times> 8 word \<times> gtime \<times> 32 word \<times> 32 word \<times> gtime \<times> gtime) rowset"
  d_detached :: "string \<Rightarrow> string \<Rightarrow>
    (DetachedPart \<times> string option \<times> string option \<times> int option \<times> int option \<times> int option) rowset"
  d_mutations :: "string \<Rightarrow> string list \<Rightarrow>
    (Mutation \<times> 8 word \<times> 8 word \<times> int \<times> string list \<times> int list \<times> string \<times> gtime \<times> string) rowset"
  d_queue :: "string \<Rightarrow> string list \<Rightarrow>
    (ReplicationQueueItem \<times> (32 word \<times> 32 word \<times> string \<times> string \<times> 8 word \<times> 8 word) \<times>
     32 word \<times> gtime \<times> gtime \<times> 32 word \<times> string \<times> string) rowset"
  d_part_log :: "string \<Rightarrow> string list \<Rightarrow> gtime \<Rightarrow> gtime option \<Rightarrow> (PartEvent \<times> string \<times> 16 word \<times> string) rowset"
  d_moves :: "(string \<times> string \<times> string option \<times> string option \<times> f64 \<times> string \<times> string \<times> u64 \<times> u64) rowset"
  d_merges :: "(string \<times> string \<times> string \<times> string \<times> f64 \<times> f64 \<times> string \<times> 8 word \<times> u64 \<times> u64) rowset"

record state_client =
  cl_Node :: Node
  cl_DB :: state_db

record Collector =
  co_clients :: "state_client list"
  co_watches :: "Watch list"

section \<open>Errors and warnings\<close>

abbreviation (input) io_EOF :: gotext where "io_EOF \<equiv> ExtErr ''EOF''"
abbreviation (input) io_ErrUnexpectedEOF :: gotext where "io_ErrUnexpectedEOF \<equiv> ExtErr ''unexpected EOF''"
abbreviation (input) ECONNREFUSED :: gotext where "ECONNREFUSED \<equiv> ExtErr ''connection refused''"
abbreviation (input) ECONNRESET :: gotext where "ECONNRESET \<equiv> ExtErr ''connection reset by peer''"
abbreviation (input) EPIPE :: gotext where "EPIPE \<equiv> ExtErr ''broken pipe''"

definition isReachabilityError :: "driver_facts \<Rightarrow> gotext \<Rightarrow> bool" where
  "isReachabilityError D err =
     (if errors_is err ErrDeadline \<or> errors_is err ErrCanceled then False
      else if as_exception err \<noteq> None then False
      else if errors_is err io_EOF \<or> errors_is err io_ErrUnexpectedEOF then True
      else if df_net D err then True
      else if errors_is err ECONNREFUSED \<or> errors_is err ECONNRESET \<or> errors_is err EPIPE then True
      else let message = go_lower (df_unicode D) (df_text D err) in
        list_ex (str_contains message)
          [''connection refused'', ''no such host'', ''connection reset'', ''broken pipe''])"

definition isUnknownTableError :: "gotext \<Rightarrow> bool" where
  "isUnknownTableError err = (case as_exception err of Some (code, m) \<Rightarrow> code = 60 | None \<Rightarrow> False)"

definition queryWarning :: "driver_facts \<Rightarrow> string \<Rightarrow> string \<Rightarrow> gotext \<Rightarrow> Warning" where
  "queryWarning D nodeID code err =
     (if isReachabilityError D err
      then \<lparr>wa_Kind = warningKindReachability, wa_Code = ''node_unreachable'', wa_Message = err, wa_NodeID = nodeID\<rparr>
      else \<lparr>wa_Kind = warningKindQueryError, wa_Code = code, wa_Message = err, wa_NodeID = nodeID\<rparr>)"

definition warningKey :: "driver_facts \<Rightarrow> Warning \<Rightarrow> string" where
  "warningKey D w =
     wa_Kind w @ [CHR 0x00] @ wa_Code w @ [CHR 0x00] @ wa_NodeID w @ [CHR 0x00] @ df_text D (wa_Message w)"

text \<open>\<open>appendWarnings\<close>: the seen keys start with those of \<open>existing\<close>.\<close>

fun append_unseen :: "driver_facts \<Rightarrow> string list \<Rightarrow> Warning list \<Rightarrow> Warning list" where
  "append_unseen D seen [] = []"
| "append_unseen D seen (w # ws) =
     (if warningKey D w \<in> set seen then append_unseen D seen ws
      else w # append_unseen D (warningKey D w # seen) ws)"

definition appendWarnings :: "driver_facts \<Rightarrow> Warning list \<Rightarrow> Warning list \<Rightarrow> Warning list" where
  "appendWarnings D existing added = existing @ append_unseen D (map (warningKey D) existing) added"

definition respondedNodes :: "int \<Rightarrow> Warning list \<Rightarrow> int" where
  "respondedNodes nodesExpected warnings =
     nodesExpected - int (length (remdups (map wa_NodeID
       (filter (\<lambda>w. wa_Kind w = warningKindReachability \<and> wa_NodeID w \<noteq> '''') warnings))))"

section \<open>The fan-out\<close>

definition collect_result :: "collect_env \<Rightarrow> int \<Rightarrow> int \<Rightarrow> Warning list \<Rightarrow> 'a list \<Rightarrow> 'a Result" where
  "collect_result E nodesExpected nodesResponded warnings items =
     \<lparr>res_CollectedAt = ce_clock E, res_CollectionDuration = ce_took E,
      res_NodesExpected = nodesExpected, res_NodesResponded = nodesResponded,
      res_NodesFailed = nodesExpected - nodesResponded, res_Warnings = warnings, res_Items = items\<rparr>"

definition collectPerNode ::
  "collect_env \<Rightarrow> Collector \<Rightarrow> string list \<Rightarrow> (state_client \<Rightarrow> 'a list \<times> Warning option) \<Rightarrow> 'a Result" where
  "collectPerNode E c what fn =
     (let results = gathered E what (map fn (co_clients c));
          items = concat (map fst results);
          warnings = List.map_filter snd results;
          n = int (length (co_clients c))
      in collect_result E n (n - int (length warnings)) warnings items)"

text \<open>The usual shape of \<open>fn\<close>: the items, or the warning of the query's error.\<close>

definition or_warning ::
  "driver_facts \<Rightarrow> state_client \<Rightarrow> string \<Rightarrow> gotext + 'a list \<Rightarrow> 'a list \<times> Warning option" where
  "or_warning D cl code r =
     (case r of
        Inl err \<Rightarrow> ([], Some (queryWarning D (nd_ID (cl_Node cl)) code err))
      | Inr items \<Rightarrow> (items, None))"

definition watchPredicate :: "Collector \<Rightarrow> string \<Rightarrow> string \<times> string list" where
  "watchPredicate c tableColumn =
     (''(database, '' @ tableColumn @ '') IN ('' @ join '', '' (map (\<lambda>w. ''(?, ?)'') (co_watches c)) @ '')'',
      concat (map (\<lambda>w. [cw_Database w, cw_Table w]) (co_watches c)))"

definition isWatched :: "Collector \<Rightarrow> string \<Rightarrow> string \<Rightarrow> bool" where
  "isWatched c database table = list_ex (\<lambda>w. cw_Database w = database \<and> cw_Table w = table) (co_watches c)"

section \<open>Nodes and disks\<close>

definition collectNode :: "collect_env \<Rightarrow> state_client \<Rightarrow> NodeStatus \<times> Warning option" where
  "collectNode E cl =
     (let item = \<lparr>ns_Node = cl_Node cl, ns_Reachable = False, ns_ObservedAt = ce_clock E,
            ns_Version = '''', ns_Timezone = '''', ns_UptimeSeconds = 0, ns_LastError = no_text\<rparr>
      in case d_one (cl_DB cl) of
        Inl err \<Rightarrow> (item\<lparr>ns_LastError := err\<rparr>,
          Some \<lparr>wa_Kind = warningKindReachability, wa_Code = ''node_unreachable'', wa_Message = err,
                wa_NodeID = nd_ID (cl_Node cl)\<rparr>)
      | Inr (version, timezone, uptime) \<Rightarrow>
          (item\<lparr>ns_Version := version, ns_Timezone := timezone, ns_UptimeSeconds := uptime,
                ns_Reachable := True\<rparr>, None))"

definition CollectNodes :: "collect_env \<Rightarrow> Collector \<Rightarrow> NodeStatus Result" where
  "CollectNodes E c =
     (let results = gathered E [''nodes''] (map (collectNode E) (co_clients c));
          items = map fst results; warnings = List.map_filter snd results
      in collect_result E (int (length (co_clients c))) (int (length items) - int (length warnings)) warnings items)"

definition setDiskCapacity :: "u64 \<Rightarrow> u64 \<Rightarrow> u64 \<Rightarrow> Disk \<Rightarrow> Disk" where
  "setDiskCapacity freeSpace totalSpace unreservedSpace disk =
     (if freeSpace = max_u64 \<or> totalSpace = max_u64 \<or> unreservedSpace = max_u64
      then disk\<lparr>dk_CapacityKnown := False\<rparr>
      else disk\<lparr>dk_CapacityKnown := True, dk_FreeSpaceBytes := Some freeSpace,
             dk_TotalSpaceBytes := Some totalSpace, dk_UnreservedSpaceBytes := Some unreservedSpace\<rparr>)"

definition add_usage :: "(string, u64) amap \<Rightarrow> string \<times> u64 \<Rightarrow> (string, u64) amap" where
  "add_usage m r = (case r of (disk, used) \<Rightarrow>
     amap_put disk ((case amap_get m disk of Some u \<Rightarrow> u | None \<Rightarrow> 0) + used) m)"

definition collectWatchedPartBytesByDisk :: "Collector \<Rightarrow> state_client \<Rightarrow> gotext + (string, u64) amap" where
  "collectWatchedPartBytesByDisk c cl =
     (if co_watches c = [] then Inr []
      else case watchPredicate c ''table'' of (predicate, args) \<Rightarrow>
        (case all_rows (d_disk_usage (cl_DB cl) predicate args) of
           Inl e \<Rightarrow> Inl e
         | Inr rows \<Rightarrow> Inr (foldl add_usage [] rows)))"

definition disk_of_row ::
  "state_client \<Rightarrow> (string, u64) amap \<Rightarrow> Disk \<times> u64 \<times> u64 \<times> u64 \<times> 8 word \<times> 8 word \<Rightarrow> Disk" where
  "disk_of_row cl usedByDisk row =
     (case row of (disk, freeSpace, totalSpace, unreservedSpace, isRemote, isBroken) \<Rightarrow>
        setDiskCapacity freeSpace totalSpace unreservedSpace
          (disk\<lparr>dk_Node := cl_Node cl, dk_IsRemote := (isRemote \<noteq> 0), dk_IsBroken := (isBroken \<noteq> 0),
                dk_CapacityKnown := False, dk_FreeSpaceBytes := None, dk_TotalSpaceBytes := None,
                dk_UnreservedSpaceBytes := None,
                dk_UsedByActiveParts :=
                  (case amap_get usedByDisk (dk_Name disk) of Some u \<Rightarrow> u | None \<Rightarrow> 0)\<rparr>))"

definition collectDisks :: "collect_env \<Rightarrow> Collector \<Rightarrow> state_client \<Rightarrow> Disk list \<times> Warning option" where
  "collectDisks E c cl =
     (let D = ce_facts E; node = nd_ID (cl_Node cl) in
      case collectWatchedPartBytesByDisk c cl of
        Inl err \<Rightarrow> ([], Some (queryWarning D node ''system_parts_disk_usage_query_failed'' err))
      | Inr usedByDisk \<Rightarrow>
          (case d_disks (cl_DB cl) of
             Inl err \<Rightarrow> ([], Some (queryWarning D node ''system_disks_query_failed'' err))
           | Inr (rows, ScanFailed err) \<Rightarrow>
               ([], Some \<lparr>wa_Kind = warningKindQueryError, wa_Code = ''system_disks_scan_failed'',
                          wa_Message = err, wa_NodeID = node\<rparr>)
           | Inr (rows, IterFailed err) \<Rightarrow> ([], Some (queryWarning D node ''system_disks_rows_failed'' err))
           | Inr (rows, EndOfRows) \<Rightarrow> (map (disk_of_row cl usedByDisk) rows, None)))"

definition CollectDisks :: "collect_env \<Rightarrow> Collector \<Rightarrow> Disk Result" where
  "CollectDisks E c = collectPerNode E c [''disks''] (collectDisks E c)"

section \<open>Tables\<close>

type_synonym table_states = "(Watch, TableState) amap"

definition watch_of :: "string \<Rightarrow> string \<Rightarrow> Watch" where
  "watch_of database table = \<lparr>cw_Database = database, cw_Table = table\<rparr>"

definition identity_of_row :: "state_client \<Rightarrow> TableState \<times> 8 word \<Rightarrow> TableState" where
  "identity_of_row cl row =
     (case row of (item, isReplicated) \<Rightarrow>
        item\<lparr>tst_Node := cl_Node cl, tst_IsReplicated := (isReplicated \<noteq> 0), tst_ActivePartitions := 0,
             tst_ActiveParts := 0, tst_Rows := 0, tst_BytesOnDisk := 0, tst_MinPartition := None,
             tst_MaxPartition := None, tst_LastModificationTime := None, tst_Replica := None\<rparr>)"

definition put_identity :: "state_client \<Rightarrow> TableState \<times> 8 word \<Rightarrow> table_states \<Rightarrow> table_states" where
  "put_identity cl row states =
     (let item = identity_of_row cl row
      in amap_put (watch_of (tst_Database item) (tst_Table item)) item states)"

definition collectTableIdentities :: "Collector \<Rightarrow> state_client \<Rightarrow> gotext + table_states" where
  "collectTableIdentities c cl =
     (case watchPredicate c ''name'' of (predicate, args) \<Rightarrow>
      case all_rows (d_identities (cl_DB cl) predicate args) of
        Inl e \<Rightarrow> Inl e
      | Inr rows \<Rightarrow> Inr (fold (put_identity cl) rows []))"

text \<open>A row for a table that is not in the map is skipped.\<close>

definition upd_state :: "Watch \<Rightarrow> (TableState \<Rightarrow> TableState) \<Rightarrow> table_states \<Rightarrow> table_states" where
  "upd_state w f states =
     (case amap_get states w of None \<Rightarrow> states | Some state \<Rightarrow> amap_put w (f state) states)"

definition put_aggregate ::
  "string \<times> string \<times> int \<times> u64 \<times> u64 \<times> u64 \<times> string option \<times> string option \<times> gtime option \<Rightarrow>
   table_states \<Rightarrow> table_states" where
  "put_aggregate row =
     (case row of (database, table, partitions, parts, nrows, bytes, minp, maxp, modified) \<Rightarrow>
        upd_state (watch_of database table)
          (\<lambda>state. state\<lparr>tst_ActivePartitions := partitions, tst_ActiveParts := parts, tst_Rows := nrows,
             tst_BytesOnDisk := bytes, tst_MinPartition := nullableStringPtr minp,
             tst_MaxPartition := nullableStringPtr maxp,
             tst_LastModificationTime := nullableTimePtr modified\<rparr>))"

definition collectTablePartAggregates ::
  "Collector \<Rightarrow> state_client \<Rightarrow> table_states \<Rightarrow> gotext + table_states" where
  "collectTablePartAggregates c cl states =
     (case watchPredicate c ''table'' of (predicate, args) \<Rightarrow>
      case all_rows (d_aggregates (cl_DB cl) predicate args) of
        Inl e \<Rightarrow> Inl e
      | Inr rows \<Rightarrow> Inr (fold put_aggregate rows states))"

definition put_replica ::
  "string \<times> string \<times> 8 word \<times> 8 word \<times> 32 word \<times> u64 \<times> 32 word \<times> 32 word \<Rightarrow> table_states \<Rightarrow> table_states" where
  "put_replica row =
     (case row of (database, table, readonly, sessionExpired, queueSize, absoluteDelay, totalReplicas, activeReplicas) \<Rightarrow>
        upd_state (watch_of database table)
          (\<lambda>state. state\<lparr>tst_Replica := Some
             \<lparr>rs_Readonly = (readonly \<noteq> 0), rs_SessionExpired = (sessionExpired \<noteq> 0),
              rs_QueueSize = ucast queueSize, rs_AbsoluteDelaySeconds = absoluteDelay,
              rs_TotalReplicas = ucast totalReplicas, rs_ActiveReplicas = ucast activeReplicas\<rparr>\<rparr>))"

definition collectReplicaStates ::
  "Collector \<Rightarrow> state_client \<Rightarrow> table_states \<Rightarrow> gotext + table_states" where
  "collectReplicaStates c cl states =
     (case watchPredicate c ''table'' of (predicate, args) \<Rightarrow>
      case all_rows (d_replicas (cl_DB cl) predicate args) of
        Inl e \<Rightarrow> Inl e
      | Inr rows \<Rightarrow> Inr (fold put_replica rows states))"

definition collectTableStates :: "Collector \<Rightarrow> state_client \<Rightarrow> gotext + TableState list" where
  "collectTableStates c cl =
     (if co_watches c = [] then Inr []
      else case collectTableIdentities c cl of
        Inl e \<Rightarrow> Inl e
      | Inr states \<Rightarrow>
          if states = [] then Inr []
          else case collectTablePartAggregates c cl states of
            Inl e \<Rightarrow> Inl e
          | Inr states1 \<Rightarrow>
              (case collectReplicaStates c cl states1 of
                 Inl e \<Rightarrow> Inl e
               | Inr states2 \<Rightarrow> Inr (List.map_filter (amap_get states2) (co_watches c))))"

definition CollectTables :: "collect_env \<Rightarrow> Collector \<Rightarrow> TableState Result" where
  "CollectTables E c = collectPerNode E c [''tables'']
     (\<lambda>cl. or_warning (ce_facts E) cl ''system_tables_query_failed'' (collectTableStates c cl))"

section \<open>Columns\<close>

definition column_of_row ::
  "(nat \<Rightarrow> nat) \<Rightarrow> Column \<times> string \<times> string \<times> string \<times> 8 word \<times> 8 word \<times> 8 word \<times> 8 word \<Rightarrow> Column" where
  "column_of_row upper row =
     (case row of (column, defaultKind, defaultExpr, codecExpr, partitionKey, sortingKey, primaryKey, samplingKey) \<Rightarrow>
        column\<lparr>clm_Kind := columnKind upper defaultKind, clm_DefaultKind := nonEmptyStringPtr defaultKind,
          clm_DefaultExpression := nonEmptyStringPtr defaultExpr,
          clm_CodecExpression := nonEmptyStringPtr codecExpr, clm_TTLExpression := None,
          clm_IsInPartitionKey := (partitionKey \<noteq> 0), clm_IsInSortingKey := (sortingKey \<noteq> 0),
          clm_IsInPrimaryKey := (primaryKey \<noteq> 0), clm_IsInSamplingKey := (samplingKey \<noteq> 0)\<rparr>)"

definition collectTableColumns ::
  "collect_env \<Rightarrow> state_client \<Rightarrow> Watch \<Rightarrow> gotext + NodeColumns" where
  "collectTableColumns E cl w =
     (case all_rows (d_columns (cl_DB cl) (cw_Database w) (cw_Table w)) of
        Inl e \<Rightarrow> Inl e
      | Inr rows \<Rightarrow> Inr \<lparr>nc_Node = cl_Node cl, nc_Database = cw_Database w, nc_Table = cw_Table w,
                      nc_Columns = map (column_of_row (df_upper (ce_facts E))) rows, nc_Conditions = []\<rparr>)"

definition columns_of_node ::
  "collect_env \<Rightarrow> Watch \<Rightarrow> state_client \<Rightarrow> NodeColumns list \<times> Warning option" where
  "columns_of_node E w cl =
     or_warning (ce_facts E) cl ''system_columns_query_failed''
       (case collectTableColumns E cl w of
          Inl e \<Rightarrow> Inl e
        | Inr item \<Rightarrow> Inr (if nc_Columns item = [] then [] else [item]))"

definition CollectTableColumns :: "collect_env \<Rightarrow> Collector \<Rightarrow> Watch \<Rightarrow> NodeColumns Result" where
  "CollectTableColumns E c w = collectPerNode E c [''columns''] (columns_of_node E w)"

section \<open>Parts and detached parts\<close>

definition part_of_row ::
  "state_client \<Rightarrow> Part \<times> 8 word \<times> gtime \<times> 32 word \<times> 32 word \<times> gtime \<times> gtime \<Rightarrow> Part" where
  "part_of_row cl row =
     (case row of (part, active, removeTime, refcount, level, ttlMin, ttlMax) \<Rightarrow>
        part\<lparr>pt_Node := cl_Node cl, pt_Active := (active \<noteq> 0), pt_RemoveTime := nonZeroTimePtr removeTime,
             pt_Refcount := ucast refcount, pt_Level := ucast level,
             pt_DeleteTTLInfoMin := nonZeroTimePtr ttlMin, pt_DeleteTTLInfoMax := nonZeroTimePtr ttlMax,
             pt_Conditions := []\<rparr>)"

definition collectParts :: "state_client \<Rightarrow> Watch \<Rightarrow> bool \<Rightarrow> gotext + Part list" where
  "collectParts cl w activeOnly =
     (case all_rows (d_parts (cl_DB cl) activeOnly (cw_Database w) (cw_Table w)) of
        Inl e \<Rightarrow> Inl e
      | Inr rows \<Rightarrow> Inr (map (part_of_row cl) rows))"

text \<open>The fan-outs of one watch can run beside those of another, so their order names the watch.\<close>

definition collectPartsResult :: "collect_env \<Rightarrow> Collector \<Rightarrow> Watch \<Rightarrow> bool \<Rightarrow> Part Result" where
  "collectPartsResult E c w activeOnly =
     collectPerNode E c [''parts'', cw_Database w, cw_Table w]
       (\<lambda>cl. or_warning (ce_facts E) cl ''system_parts_query_failed'' (collectParts cl w activeOnly))"

definition CollectParts :: "collect_env \<Rightarrow> Collector \<Rightarrow> Watch \<Rightarrow> Part Result" where
  "CollectParts E c w = collectPartsResult E c w False"

definition CollectActiveParts :: "collect_env \<Rightarrow> Collector \<Rightarrow> Watch \<Rightarrow> Part Result" where
  "CollectActiveParts E c w = collectPartsResult E c w True"

definition detached_of_row ::
  "state_client \<Rightarrow> DetachedPart \<times> string option \<times> string option \<times> int option \<times> int option \<times> int option \<Rightarrow>
   DetachedPart" where
  "detached_of_row cl row =
     (case row of (part, partitionID, reason, minBlock, maxBlock, level) \<Rightarrow>
        part\<lparr>dp_Node := cl_Node cl, dp_PartitionID := nullableStringPtr partitionID,
             dp_Reason := nullableStringPtr reason, dp_Rows := 0, dp_MinBlockNumber := nullableInt64Ptr minBlock,
             dp_MaxBlockNumber := nullableInt64Ptr maxBlock, dp_Level := nullableUint64Ptr level,
             dp_Conditions := []\<rparr>)"

definition collectDetachedParts :: "state_client \<Rightarrow> Watch \<Rightarrow> gotext + DetachedPart list" where
  "collectDetachedParts cl w =
     (case all_rows (d_detached (cl_DB cl) (cw_Database w) (cw_Table w)) of
        Inl e \<Rightarrow> Inl e
      | Inr rows \<Rightarrow> Inr (map (detached_of_row cl) rows))"

definition CollectDetachedParts :: "collect_env \<Rightarrow> Collector \<Rightarrow> Watch \<Rightarrow> DetachedPart Result" where
  "CollectDetachedParts E c w = collectPerNode E c [''detached'', cw_Database w, cw_Table w]
     (\<lambda>cl. or_warning (ce_facts E) cl ''system_detached_parts_query_failed'' (collectDetachedParts cl w))"

section \<open>Mutations and the replication queue\<close>

definition mutationFailureCondition :: "collect_env \<Rightarrow> Mutation \<Rightarrow> StateCondition" where
  "mutationFailureCondition E m =
     \<lparr>sc_ConditionID = opaqueID [''mutation_failed'', nd_ID (mu_Node m), mu_Database m, mu_Table m, mu_MutationID m],
      sc_Severity = ''warning'', sc_Code = ''mutation_failed'',
      sc_Message = lit (case mu_LatestFailReason m of Some s \<Rightarrow> s | None \<Rightarrow> ''mutation has a latest failure''),
      sc_ObservedAt = ce_clock E, sc_Database = Some (mu_Database m), sc_Table = Some (mu_Table m),
      sc_Partition = None, sc_PartitionID = None, sc_NodeID = Some (nd_ID (mu_Node m)),
      sc_Evidence = [(''mutationId'', EvText (mu_MutationID m))], sc_Links = []\<rparr>"

definition replicationQueueExceptionCondition :: "collect_env \<Rightarrow> ReplicationQueueItem \<Rightarrow> StateCondition" where
  "replicationQueueExceptionCondition E q =
     \<lparr>sc_ConditionID = opaqueID [''replication_queue_exception'', nd_ID (rq_Node q), rq_Database q, rq_Table q, rq_NodeName q],
      sc_Severity = ''warning'', sc_Code = ''replication_queue_exception'',
      sc_Message = lit (case rq_LastException q of Some s \<Rightarrow> s | None \<Rightarrow> ''replication queue item has a latest exception''),
      sc_ObservedAt = ce_clock E, sc_Database = Some (rq_Database q), sc_Table = Some (rq_Table q),
      sc_Partition = None, sc_PartitionID = None, sc_NodeID = Some (nd_ID (rq_Node q)),
      sc_Evidence = [(''type'', EvText (rq_Type q)), (''position'', EvCount (rq_Position q))], sc_Links = []\<rparr>"

definition mutation_of_row ::
  "collect_env \<Rightarrow> state_client \<Rightarrow>
   Mutation \<times> 8 word \<times> 8 word \<times> int \<times> string list \<times> int list \<times> string \<times> gtime \<times> string \<Rightarrow> Mutation" where
  "mutation_of_row E cl row =
     (case row of (m, isDone, isKilled, partsToDo, partitionIDs, blockNumbers, failedPart, failTime, failReason) \<Rightarrow>
        (let m' = m\<lparr>mu_Node := cl_Node cl, mu_IsDone := (isDone \<noteq> 0), mu_IsKilled := (isKilled \<noteq> 0),
              mu_PartsToDo := uint64FromInt64 partsToDo,
              mu_BlockNumbers := mutationBlockNumbers partitionIDs blockNumbers,
              mu_LatestFailedPart := nonEmptyStringPtr failedPart,
              mu_LatestFailTime := nonZeroTimePtr failTime,
              mu_LatestFailReason := nonEmptyStringPtr failReason, mu_Conditions := []\<rparr>
         in if mu_LatestFailReason m' \<noteq> None
            then m'\<lparr>mu_Conditions := [mutationFailureCondition E m']\<rparr> else m'))"

definition collectMutations :: "collect_env \<Rightarrow> Collector \<Rightarrow> state_client \<Rightarrow> gotext + Mutation list" where
  "collectMutations E c cl =
     (if co_watches c = [] then Inr []
      else case watchPredicate c ''table'' of (predicate, args) \<Rightarrow>
        (case all_rows (d_mutations (cl_DB cl) predicate args) of
           Inl e \<Rightarrow> Inl e
         | Inr rows \<Rightarrow> Inr (map (mutation_of_row E cl) rows)))"

definition CollectMutations :: "collect_env \<Rightarrow> Collector \<Rightarrow> Mutation Result" where
  "CollectMutations E c = collectPerNode E c [''mutations'']
     (\<lambda>cl. or_warning (ce_facts E) cl ''system_mutations_query_failed'' (collectMutations E c cl))"

definition queue_item_of_row ::
  "collect_env \<Rightarrow> state_client \<Rightarrow>
   ReplicationQueueItem \<times> (32 word \<times> 32 word \<times> string \<times> string \<times> 8 word \<times> 8 word) \<times>
     32 word \<times> gtime \<times> gtime \<times> 32 word \<times> string \<times> string \<Rightarrow> ReplicationQueueItem" where
  "queue_item_of_row E cl row =
     (case row of (q, (position, quorum, source, newPart, isDetach, executing), tries, attempt, postpone,
         postponed, reason, exception) \<Rightarrow>
        (let q' = q\<lparr>rq_Node := cl_Node cl, rq_Position := ucast position, rq_RequiredQuorum := ucast quorum,
              rq_SourceReplica := nonEmptyStringPtr source, rq_NewPartName := nonEmptyStringPtr newPart,
              rq_IsDetach := (isDetach \<noteq> 0), rq_IsCurrentlyExecuting := (executing \<noteq> 0),
              rq_NumTries := ucast tries, rq_LastAttemptTime := nonZeroTimePtr attempt,
              rq_LastPostponeTime := nonZeroTimePtr postpone, rq_NumPostponed := ucast postponed,
              rq_PostponeReason := nonEmptyStringPtr reason,
              rq_LastException := nonEmptyStringPtr exception, rq_Conditions := []\<rparr>
         in if rq_LastException q' \<noteq> None
            then q'\<lparr>rq_Conditions := [replicationQueueExceptionCondition E q']\<rparr> else q'))"

definition collectReplicationQueue ::
  "collect_env \<Rightarrow> Collector \<Rightarrow> state_client \<Rightarrow> gotext + ReplicationQueueItem list" where
  "collectReplicationQueue E c cl =
     (if co_watches c = [] then Inr []
      else case watchPredicate c ''table'' of (predicate, args) \<Rightarrow>
        (case all_rows (d_queue (cl_DB cl) predicate args) of
           Inl e \<Rightarrow> Inl e
         | Inr rows \<Rightarrow> Inr (map (queue_item_of_row E cl) rows)))"

definition CollectReplicationQueue :: "collect_env \<Rightarrow> Collector \<Rightarrow> ReplicationQueueItem Result" where
  "CollectReplicationQueue E c = collectPerNode E c [''queue'']
     (\<lambda>cl. or_warning (ce_facts E) cl ''system_replication_queue_query_failed'' (collectReplicationQueue E c cl))"

section \<open>Part events\<close>

definition defaultPartEventLookback :: gdur where "defaultPartEventLookback = 7 * 24 * hour"

definition event_of_row :: "state_client \<Rightarrow> PartEvent \<times> string \<times> 16 word \<times> string \<Rightarrow> PartEvent" where
  "event_of_row cl row =
     (case row of (event, diskName, errorCode, exception) \<Rightarrow>
        event\<lparr>pe_Node := cl_Node cl, pe_SourceDisk := None, pe_TargetDisk := nonEmptyStringPtr diskName,
              pe_Error := uint errorCode, pe_Exception := nonEmptyStringPtr exception\<rparr>)"

text \<open>The query itself can fail because the table does not exist, which is a capability warning.\<close>

definition collectPartEvents ::
  "Collector \<Rightarrow> gtime \<Rightarrow> gtime option \<Rightarrow> state_client \<Rightarrow> PartEvent list \<times> Warning option \<times> gotext option" where
  "collectPartEvents c from' to' cl =
     (if co_watches c = [] then ([], None, None)
      else case watchPredicate c ''table'' of (predicate, args) \<Rightarrow>
        (case d_part_log (cl_DB cl) predicate args from' to' of
           Inl err \<Rightarrow>
             if isUnknownTableError err
             then ([], Some \<lparr>wa_Kind = warningKindCapability, wa_Code = ''part_log_unavailable'',
                            wa_Message = err, wa_NodeID = nd_ID (cl_Node cl)\<rparr>, None)
             else ([], None, Some err)
         | Inr (rows, ScanFailed err) \<Rightarrow> ([], None, Some err)
         | Inr (rows, IterFailed err) \<Rightarrow> ([], None, Some err)
         | Inr (rows, EndOfRows) \<Rightarrow> (map (event_of_row cl) rows, None, None)))"

definition events_of_node ::
  "collect_env \<Rightarrow> Collector \<Rightarrow> gtime \<Rightarrow> gtime option \<Rightarrow> state_client \<Rightarrow> PartEvent list \<times> Warning option" where
  "events_of_node E c lower to' cl =
     (case collectPartEvents c lower to' cl of
        (items, Some w, err) \<Rightarrow> ([], Some w)
      | (items, None, Some err) \<Rightarrow>
          ([], Some (queryWarning (ce_facts E) (nd_ID (cl_Node cl)) ''system_part_log_query_failed'' err))
      | (items, None, None) \<Rightarrow> (items, None))"

definition CollectPartEvents ::
  "collect_env \<Rightarrow> Collector \<Rightarrow> gtime option \<Rightarrow> gtime option \<Rightarrow> PartEvent Result" where
  "CollectPartEvents E c from' to' =
     (let lower = (case from' of Some t \<Rightarrow> t | None \<Rightarrow> time_add (ce_clock E) (- defaultPartEventLookback))
      in collectPerNode E c [''part_events''] (events_of_node E c lower to'))"

section \<open>Operations\<close>

definition move_operation ::
  "state_client \<Rightarrow> string \<times> string \<times> string option \<times> string option \<times> f64 \<times> string \<times> string \<times> u64 \<times> u64 \<Rightarrow> Operation" where
  "move_operation cl row =
     (case row of (database, table, pname, partitionID, elapsed, targetDisk, partName, partSize, threadID) \<Rightarrow>
        (let attemptID = partName @ '':'' @ show_u64 threadID
         in \<lparr>op_OperationID = opaqueID [''move'', nd_ID (cl_Node cl), database, table, attemptID],
             op_Kind = ''move'', op_NodeID = nd_ID (cl_Node cl), op_Database = database, op_Table = table,
             op_Partition = nullableStringPtr pname, op_PartitionID = nullableStringPtr partitionID,
             op_AttemptID = attemptID, op_State = ''running'', op_ElapsedSeconds = Some elapsed,
             op_Progress = None, op_SourceDisk = None, op_TargetDisk = nonEmptyStringPtr targetDisk,
             op_BytesTotal = Some partSize, op_BytesProcessed = None, op_LatestMessage = None,
             op_StartedAt = None\<rparr>))"

definition collectMoveOperations :: "Collector \<Rightarrow> state_client \<Rightarrow> gotext + Operation list" where
  "collectMoveOperations c cl =
     (case all_rows (d_moves (cl_DB cl)) of
        Inl e \<Rightarrow> Inl e
      | Inr rows \<Rightarrow> Inr (map (move_operation cl) (filter (\<lambda>(database, table, r). isWatched c database table) rows)))"

definition merge_operation ::
  "state_client \<Rightarrow> string \<times> string \<times> string \<times> string \<times> f64 \<times> f64 \<times> string \<times> 8 word \<times> u64 \<times> u64 \<Rightarrow> Operation" where
  "merge_operation cl row =
     (case row of (database, table, pname, partitionID, elapsed, progress, resultPart, isMutation, totalBytes, processed) \<Rightarrow>
        (let kind = (if isMutation \<noteq> 0 then ''mutation'' else ''merge'')
         in \<lparr>op_OperationID = opaqueID [kind, nd_ID (cl_Node cl), database, table, resultPart],
             op_Kind = kind, op_NodeID = nd_ID (cl_Node cl), op_Database = database, op_Table = table,
             op_Partition = Some pname, op_PartitionID = Some partitionID, op_AttemptID = resultPart,
             op_State = ''running'', op_ElapsedSeconds = Some elapsed, op_Progress = Some progress,
             op_SourceDisk = None, op_TargetDisk = None, op_BytesTotal = Some totalBytes,
             op_BytesProcessed = Some processed, op_LatestMessage = None, op_StartedAt = None\<rparr>))"

definition collectMergeOperations :: "Collector \<Rightarrow> state_client \<Rightarrow> gotext + Operation list" where
  "collectMergeOperations c cl =
     (case all_rows (d_merges (cl_DB cl)) of
        Inl e \<Rightarrow> Inl e
      | Inr rows \<Rightarrow> Inr (map (merge_operation cl) (filter (\<lambda>(database, table, r). isWatched c database table) rows)))"

definition operationFromMutation :: "Mutation \<Rightarrow> Operation" where
  "operationFromMutation m =
     \<lparr>op_OperationID = opaqueID [''mutation'', nd_ID (mu_Node m), mu_Database m, mu_Table m, mu_MutationID m],
      op_Kind = ''mutation'', op_NodeID = nd_ID (mu_Node m), op_Database = mu_Database m, op_Table = mu_Table m,
      op_Partition = None, op_PartitionID = None, op_AttemptID = mu_MutationID m, op_State = ''running'',
      op_ElapsedSeconds = None, op_Progress = None, op_SourceDisk = None, op_TargetDisk = None,
      op_BytesTotal = None, op_BytesProcessed = None, op_LatestMessage = mu_LatestFailReason m,
      op_StartedAt = Some (mu_CreateTime m)\<rparr>"

definition queue_kind :: "ReplicationQueueItem \<Rightarrow> string" where
  "queue_kind q =
     (if rq_IsCurrentlyExecuting q \<and> (rq_Type q = ''GET_PART'' \<or> rq_Type q = ''ATTACH_PART'')
      then ''fetch'' else ''replication_queue'')"

definition operationFromReplicationQueue :: "ReplicationQueueItem \<Rightarrow> Operation" where
  "operationFromReplicationQueue q =
     (let kind = queue_kind q;
          attemptID = show_u64 (rq_Position q) @ '':'' @ rq_Type q @ '':'' @ derefString (rq_NewPartName q)
      in \<lparr>op_OperationID = opaqueID [kind, nd_ID (rq_Node q), rq_Database q, rq_Table q, attemptID],
          op_Kind = kind, op_NodeID = nd_ID (rq_Node q), op_Database = rq_Database q, op_Table = rq_Table q,
          op_Partition = None, op_PartitionID = None, op_AttemptID = attemptID,
          op_State = (if rq_IsCurrentlyExecuting q then ''running'' else ''queued''),
          op_ElapsedSeconds = None, op_Progress = None, op_SourceDisk = None, op_TargetDisk = None,
          op_BytesTotal = None, op_BytesProcessed = None,
          op_LatestMessage = firstNonNilString [rq_LastException q, rq_PostponeReason q],
          op_StartedAt = Some (rq_CreateTime q)\<rparr>)"

text \<open>The four sources of one node in turn; the first that fails is the node's warning.\<close>

definition operations_of_node ::
  "collect_env \<Rightarrow> Collector \<Rightarrow> state_client \<Rightarrow> Operation list \<times> Warning option" where
  "operations_of_node E c cl =
     (let fail = (\<lambda>code err. ([], Some (queryWarning (ce_facts E) (nd_ID (cl_Node cl)) code err))) in
      case collectMoveOperations c cl of
        Inl err \<Rightarrow> fail ''system_moves_query_failed'' err
      | Inr moves \<Rightarrow>
     (case collectMergeOperations c cl of
        Inl err \<Rightarrow> fail ''system_merges_query_failed'' err
      | Inr merges \<Rightarrow>
     (case collectMutations E c cl of
        Inl err \<Rightarrow> fail ''system_mutations_query_failed'' err
      | Inr mutations \<Rightarrow>
     (case collectReplicationQueue E c cl of
        Inl err \<Rightarrow> fail ''system_replication_queue_query_failed'' err
      | Inr queueItems \<Rightarrow>
          (moves @ merges @ map operationFromMutation (filter (\<lambda>m. \<not> mu_IsDone m) mutations) @
           map operationFromReplicationQueue queueItems, None)))))"

definition CollectOperations :: "collect_env \<Rightarrow> Collector \<Rightarrow> Operation Result" where
  "CollectOperations E c = collectPerNode E c [''operations''] (operations_of_node E c)"

end
