(* ===== verification/ClusterConditions.thy ===== *)
theory ClusterConditions
  imports ClusterState
begin

text \<open>
  The operator conditions derived from collected state (\<open>internal/clusterstate/tables.go\<close>) and the
  startup validation of the watches (\<open>watch_validation.go\<close>): missing tables, partitions split
  across disks, replicas that disagree, detached parts, failed mutations and queue items, and
  the warnings of the collections themselves.
\<close>

section \<open>Tables missing on a node\<close>

definition table_key :: "string \<Rightarrow> string \<Rightarrow> string \<Rightarrow> string" where
  "table_key node database table = node @ ''/'' @ database @ ''/'' @ table"

definition missing_table :: "collect_env \<Rightarrow> string \<Rightarrow> Watch \<Rightarrow> StateCondition" where
  "missing_table E node w =
     \<lparr>sc_ConditionID = opaqueID [''table_missing_on_node'', node, cw_Database w, cw_Table w, ''''],
      sc_Severity = ''critical'', sc_Code = ''table_missing_on_node'',
      sc_Message = lit ''watched table was not observed on configured node'', sc_ObservedAt = ce_clock E,
      sc_Database = Some (cw_Database w), sc_Table = Some (cw_Table w), sc_Partition = None,
      sc_PartitionID = None, sc_NodeID = Some node, sc_Evidence = [], sc_Links = []\<rparr>"

definition tableConditions :: "collect_env \<Rightarrow> Collector \<Rightarrow> TableState list \<Rightarrow> StateCondition list" where
  "tableConditions E c items =
     (let observed = map (\<lambda>t. table_key (nd_ID (tst_Node t)) (tst_Database t) (tst_Table t)) items
      in concat (map (\<lambda>cl. map (missing_table E (nd_ID (cl_Node cl)))
           (filter (\<lambda>w. table_key (nd_ID (cl_Node cl)) (cw_Database w) (cw_Table w) \<notin> set observed)
              (co_watches c))) (co_clients c)))"

section \<open>Partitions across disks and replicas\<close>

record nodeDiskSet =
  nds_shard :: string
  nds_replica :: string
  nds_disks :: "string list"
  nds_parts :: int

type_synonym partitionKey = "string \<times> string \<times> string \<times> string"

definition partition_key :: "Part \<Rightarrow> partitionKey" where
  "partition_key p = (pt_Database p, pt_Table p, pt_Partition p, pt_PartitionID p)"

text \<open>One part into the replicas of its partition: into the entry with its shard and replica, or a
  new one at the end. The set of disks is a list without duplicates.\<close>

fun note_part :: "Part \<Rightarrow> nodeDiskSet list \<Rightarrow> nodeDiskSet list" where
  "note_part p [] =
     [\<lparr>nds_shard = nd_Shard (pt_Node p), nds_replica = nd_Replica (pt_Node p), nds_disks = [pt_Disk p], nds_parts = 1\<rparr>]"
| "note_part p (n # ns) =
     (if nds_shard n = nd_Shard (pt_Node p) \<and> nds_replica n = nd_Replica (pt_Node p)
      then n\<lparr>nds_disks := List.insert (pt_Disk p) (nds_disks n), nds_parts := nds_parts n + 1\<rparr> # ns
      else n # note_part p ns)"

definition add_part ::
  "(partitionKey, nodeDiskSet list) amap \<Rightarrow> Part \<Rightarrow> (partitionKey, nodeDiskSet list) amap" where
  "add_part m p =
     amap_put (partition_key p)
       (note_part p (case amap_get m (partition_key p) of Some ns \<Rightarrow> ns | None \<Rightarrow> [])) m"

definition by_partition :: "Part list \<Rightarrow> (partitionKey, nodeDiskSet list) amap" where
  "by_partition parts = foldl add_part [] (filter pt_Active parts)"

definition sortedKeys :: "string list \<Rightarrow> string list" where
  "sortedKeys xs = sort_by (\<lambda>x. x) (remdups xs)"

definition diskSignature :: "string list \<Rightarrow> string" where
  "diskSignature disks = join '','' (sortedKeys disks)"

definition node_signature :: "nodeDiskSet \<Rightarrow> string" where
  "node_signature n = diskSignature (nds_disks n) @ '':'' @ show_int (nds_parts n)"

text \<open>The scan over the replicas: the shard of the first one whose signature differs from the one
  kept for its shard.\<close>

fun mismatch_scan :: "(string, string) amap \<Rightarrow> nodeDiskSet list \<Rightarrow> string option" where
  "mismatch_scan byShard [] = None"
| "mismatch_scan byShard (n # ns) =
     (case amap_get byShard (nds_shard n) of
        Some existing \<Rightarrow>
          if existing \<noteq> node_signature n then Some (nds_shard n)
          else mismatch_scan (amap_put (nds_shard n) (node_signature n) byShard) ns
      | None \<Rightarrow> mismatch_scan (amap_put (nds_shard n) (node_signature n) byShard) ns)"

definition partition_condition ::
  "collect_env \<Rightarrow> string \<Rightarrow> string \<Rightarrow> string \<Rightarrow> string \<Rightarrow> (string \<times> evidence) list \<Rightarrow> partitionKey \<Rightarrow>
   StateCondition" where
  "partition_condition E severity code message tail evidence key =
     (case key of (database, table, pname, partitionID) \<Rightarrow>
        \<lparr>sc_ConditionID = opaqueID [code, database, table, partitionID, tail],
         sc_Severity = severity, sc_Code = code, sc_Message = lit message, sc_ObservedAt = ce_clock E,
         sc_Database = Some database, sc_Table = Some table, sc_Partition = Some pname,
         sc_PartitionID = Some partitionID, sc_NodeID = None, sc_Evidence = evidence, sc_Links = []\<rparr>)"

definition split_conditions ::
  "collect_env \<Rightarrow> partitionKey \<Rightarrow> nodeDiskSet list \<Rightarrow> StateCondition list" where
  "split_conditions E key ns =
     (let disks = remdups (concat (map nds_disks ns)) in
      if 1 < length disks then
        [partition_condition E ''info'' ''partition_split_across_disks''
           ''partition has active parts on more than one disk'' ''''
           [(''disks'', EvTexts (sortedKeys disks))] key]
      else [])"

definition mismatch_conditions ::
  "collect_env \<Rightarrow> partitionKey \<Rightarrow> nodeDiskSet list \<Rightarrow> StateCondition list" where
  "mismatch_conditions E key ns =
     (case mismatch_scan [] ns of
        None \<Rightarrow> []
      | Some shard \<Rightarrow>
          [partition_condition E ''warning'' ''replica_part_mismatch''
             ''replicas in the same shard report different disk or part state'' shard
             [(''shard'', EvText shard)] key])"

definition partitionConditions :: "collect_env \<Rightarrow> string list \<Rightarrow> Part list \<Rightarrow> StateCondition list" where
  "partitionConditions E what parts =
     concat (map (\<lambda>(key, ns). split_conditions E key ns @ mismatch_conditions E key ns)
       (gathered E what (by_partition parts)))"

definition detachedPartCondition :: "collect_env \<Rightarrow> DetachedPart \<Rightarrow> StateCondition" where
  "detachedPartCondition E p =
     \<lparr>sc_ConditionID = opaqueID [''detached_part_present'', nd_ID (dp_Node p), dp_Database p, dp_Table p, dp_Name p],
      sc_Severity = ''warning'', sc_Code = ''detached_part_present'', sc_Message = lit ''detached part is present'',
      sc_ObservedAt = ce_clock E, sc_Database = Some (dp_Database p), sc_Table = Some (dp_Table p),
      sc_Partition = None, sc_PartitionID = Some (derefString (dp_PartitionID p)),
      sc_NodeID = Some (nd_ID (dp_Node p)),
      sc_Evidence = [(''partName'', EvText (dp_Name p)), (''disk'', EvText (dp_Disk p)),
                     (''reason'', EvText (derefString (dp_Reason p)))], sc_Links = []\<rparr>"

definition collectionWarningCondition :: "collect_env \<Rightarrow> Warning \<Rightarrow> StateCondition" where
  "collectionWarningCondition E w =
     \<lparr>sc_ConditionID = opaqueID [''collection_warning'', wa_Kind w, wa_Code w, wa_NodeID w,
        df_text (ce_facts E) (wa_Message w)],
      sc_Severity = ''warning'', sc_Code = wa_Code w, sc_Message = wa_Message w, sc_ObservedAt = ce_clock E,
      sc_Database = None, sc_Table = None, sc_Partition = None, sc_PartitionID = None,
      sc_NodeID = nonEmptyStringPtr (wa_NodeID w), sc_Evidence = [(''kind'', EvText (wa_Kind w))], sc_Links = []\<rparr>"

section \<open>The collections of conditions\<close>

definition failed_mutation :: "Mutation \<Rightarrow> bool" where
  "failed_mutation m \<longleftrightarrow> derefString (mu_LatestFailReason m) \<noteq> ''''"

definition failed_queue_item :: "ReplicationQueueItem \<Rightarrow> bool" where
  "failed_queue_item q \<longleftrightarrow> derefString (rq_LastException q) \<noteq> ''''"

definition TableConditions :: "collect_env \<Rightarrow> Collector \<Rightarrow> TableState Result \<Rightarrow> StateCondition Result" where
  "TableConditions E c tables =
     (let D = ce_facts E; n = int (length (co_clients c));
          mutations = CollectMutations E c; queue = CollectReplicationQueue E c;
          warnings = appendWarnings D (appendWarnings D (appendWarnings D [] (res_Warnings tables))
            (res_Warnings mutations)) (res_Warnings queue);
          conditions = tableConditions E c (res_Items tables) @
            map (mutationFailureCondition E) (filter failed_mutation (res_Items mutations)) @
            map (replicationQueueExceptionCondition E) (filter failed_queue_item (res_Items queue))
      in collect_result E n (respondedNodes n warnings) warnings conditions)"

definition PartitionConditions ::
  "collect_env \<Rightarrow> Collector \<Rightarrow> Watch \<Rightarrow> Part Result \<Rightarrow> StateCondition Result" where
  "PartitionConditions E c w parts =
     (let D = ce_facts E; n = int (length (co_clients c));
          detached = CollectDetachedParts E c w;
          warnings = appendWarnings D (appendWarnings D [] (res_Warnings parts)) (res_Warnings detached);
          conditions = partitionConditions E [''by_partition'', cw_Database w, cw_Table w] (res_Items parts) @
            map (detachedPartCondition E) (res_Items detached)
      in collect_result E n (respondedNodes n warnings) warnings conditions)"

text \<open>The table stage and one stage per watch, in the order they finish; then a condition per
  warning.\<close>

definition condition_stages :: "collect_env \<Rightarrow> Collector \<Rightarrow> StateCondition Result list" where
  "condition_stages E c =
     TableConditions E c (CollectTables E c) #
     map (\<lambda>w. PartitionConditions E c w (CollectActiveParts E c w)) (co_watches c)"

definition CollectConditions :: "collect_env \<Rightarrow> Collector \<Rightarrow> StateCondition Result" where
  "CollectConditions E c =
     (let D = ce_facts E; n = int (length (co_clients c));
          stages = gathered E [''stages''] (condition_stages E c);
          warnings = fold (\<lambda>r ws. appendWarnings D ws (res_Warnings r)) stages [];
          conditions = concat (map res_Items stages) @ map (collectionWarningCondition E) warnings
      in collect_result E n (respondedNodes n warnings) warnings conditions)"

section \<open>Validation of the watches\<close>

record WatchValidationItem =
  wv_Node :: Node
  wv_Watch :: Watch
  wv_Engine :: string
  wv_Found :: bool

definition isPhysicalMergeTreeEngine :: "string \<Rightarrow> bool" where
  "isPhysicalMergeTreeEngine engine = has_suffix engine ''MergeTree''"

definition collectWatchValidationItems ::
  "Collector \<Rightarrow> state_client \<Rightarrow> gotext + WatchValidationItem list" where
  "collectWatchValidationItems c cl =
     (if co_watches c = [] then Inr []
      else case watchPredicate c ''name'' of (predicate, args) \<Rightarrow>
        (case all_rows (d_engines (cl_DB cl) predicate args) of
           Inl e \<Rightarrow> Inl e
         | Inr rows \<Rightarrow>
             (let engines = fold (\<lambda>(database, table, engine). amap_put (watch_of database table) engine) rows []
              in Inr (map (\<lambda>w. \<lparr>wv_Node = cl_Node cl, wv_Watch = w,
                    wv_Engine = (case amap_get engines w of Some e \<Rightarrow> e | None \<Rightarrow> ''''),
                    wv_Found = (amap_get engines w \<noteq> None)\<rparr>) (co_watches c)))))"

definition validation_message :: "WatchValidationItem \<Rightarrow> gotext option" where
  "validation_message item =
     (let w = wv_Watch item; node = nd_ID (wv_Node item) in
      if \<not> wv_Found item then
        Some (Fmt ''%s.%s: missing on responding node %s'' [AStr (cw_Database w), AStr (cw_Table w), AStr node])
      else if \<not> isPhysicalMergeTreeEngine (wv_Engine item) then
        Some (Fmt ''%s.%s: engine %q on node %s is not a physical MergeTree-family table''
          [AStr (cw_Database w), AStr (cw_Table w), AStr (wv_Engine item), AStr node])
      else None)"

text \<open>\<open>joinUniqueWatchValidationError\<close>: the joined errors are the list of their messages, and
  no error is the empty list. A message is seen by its text.\<close>

definition joinUniqueWatchValidationError :: "driver_facts \<Rightarrow> gotext list \<Rightarrow> gotext \<Rightarrow> gotext list" where
  "joinUniqueWatchValidationError D existing message =
     (if df_text D message \<in> df_text D ` set existing then existing else existing @ [message])"

definition join_item :: "driver_facts \<Rightarrow> gotext list \<Rightarrow> WatchValidationItem \<Rightarrow> gotext list" where
  "join_item D errs item =
     (case validation_message item of
        None \<Rightarrow> errs | Some m \<Rightarrow> joinUniqueWatchValidationError D errs m)"

definition validation_items :: "collect_env \<Rightarrow> Collector \<Rightarrow> WatchValidationItem Result" where
  "validation_items E c = collectPerNode E c [''validation'']
     (\<lambda>cl. or_warning (ce_facts E) cl ''system_tables_watch_validation_failed'' (collectWatchValidationItems c cl))"

text \<open>The summary is the envelope without its items.\<close>

definition ValidateWatchesDetailed ::
  "collect_env \<Rightarrow> Collector \<Rightarrow> WatchValidationItem Result \<times> gotext list" where
  "ValidateWatchesDetailed E c =
     (let r = validation_items E c; summary = r\<lparr>res_Items := []\<rparr> in
      if res_NodesResponded r = 0
      then (summary, [lit ''no ClickHouse node responded during watch validation''])
      else (summary, foldl (join_item (ce_facts E)) [] (res_Items r)))"

section \<open>The order of arrival\<close>

lemma gathered_mset: "fair_order E \<Longrightarrow> mset (gathered E what xs) = mset xs"
proof -
  assume "fair_order E"
  then have "mset (gathered E what xs) = image_mset ((!) xs) (mset [0..<length xs])"
    by (simp add: gathered_def fair_order_def mset_map [symmetric] del: mset_upt mset_map) (simp add: mset_map)
  also have "\<dots> = mset (map ((!) xs) [0..<length xs])" by (simp add: mset_map)
  also have "\<dots> = mset xs" by (simp add: map_nth)
  finally show ?thesis .
qed

lemma gathered_set: "fair_order E \<Longrightarrow> set (gathered E what xs) = set xs"
  by (metis gathered_mset set_mset_mset)

lemma gathered_length: "fair_order E \<Longrightarrow> length (gathered E what xs) = length xs"
  by (metis gathered_mset size_mset)

lemma length_map_filter: "length (List.map_filter f xs) = length (filter (\<lambda>x. f x \<noteq> None) xs)"
  by (simp add: map_filter_def)

lemma set_map_filter_some: "set (List.map_filter f xs) = {y. \<exists>x \<in> set xs. f x = Some y}"
  by (force simp: map_filter_def)

lemma collected:
  assumes "fair_order E"
  shows "res_NodesExpected (collectPerNode E c what fn) = int (length (co_clients c))"
    and "res_NodesResponded (collectPerNode E c what fn) =
           int (length (filter (\<lambda>cl. snd (fn cl) = None) (co_clients c)))"
    and "res_NodesFailed (collectPerNode E c what fn) = int (length (res_Warnings (collectPerNode E c what fn)))"
    and "set (res_Warnings (collectPerNode E c what fn)) = {w. \<exists>cl \<in> set (co_clients c). snd (fn cl) = Some w}"
    and "mset (res_Items (collectPerNode E c what fn)) = (\<Sum>cl\<in>#mset (co_clients c). mset (fst (fn cl)))"
    and "Partial (collectPerNode E c what fn) \<longleftrightarrow> (\<exists>cl \<in> set (co_clients c). snd (fn cl) \<noteq> None)"
proof -
  let ?r = "gathered E what (map fn (co_clients c))"
  have m: "mset ?r = mset (map fn (co_clients c))" by (rule gathered_mset [OF assms])
  have s: "set ?r = fn ` set (co_clients c)" by (simp add: gathered_set [OF assms])
  have w: "length (List.map_filter snd ?r) = length (filter (\<lambda>cl. snd (fn cl) \<noteq> None) (co_clients c))"
  proof -
    have "size (filter_mset (\<lambda>x. snd x \<noteq> None) (mset ?r)) = size (filter_mset (\<lambda>x. snd x \<noteq> None) (mset (map fn (co_clients c))))"
      by (simp only: m)
    then show ?thesis by (simp add: length_map_filter filter_map comp_def del: mset_map flip: mset_filter)
  qed
  have split: "length (filter (\<lambda>cl. snd (fn cl) = None) (co_clients c)) +
      length (filter (\<lambda>cl. snd (fn cl) \<noteq> None) (co_clients c)) = length (co_clients c)"
    by (rule sum_length_filter_compl)
  show "res_NodesExpected (collectPerNode E c what fn) = int (length (co_clients c))"
    by (simp add: collectPerNode_def collect_result_def Let_def)
  show "res_NodesResponded (collectPerNode E c what fn) =
      int (length (filter (\<lambda>cl. snd (fn cl) = None) (co_clients c)))"
    using split by (simp add: collectPerNode_def collect_result_def Let_def w)
  show "res_NodesFailed (collectPerNode E c what fn) = int (length (res_Warnings (collectPerNode E c what fn)))"
    by (simp add: collectPerNode_def collect_result_def Let_def)
  show "set (res_Warnings (collectPerNode E c what fn)) = {w. \<exists>cl \<in> set (co_clients c). snd (fn cl) = Some w}"
    by (auto simp: collectPerNode_def collect_result_def Let_def set_map_filter_some s)
  have "(\<Sum>x\<in>#mset ?r. mset (fst x)) = (\<Sum>x\<in>#mset (map fn (co_clients c)). mset (fst x))"
    by (simp only: m)
  then show "mset (res_Items (collectPerNode E c what fn)) = (\<Sum>cl\<in>#mset (co_clients c). mset (fst (fn cl)))"
    by (simp add: collectPerNode_def collect_result_def Let_def mset_concat comp_def
      sum_mset_sum_list [symmetric] mset_map image_mset.compositionality del: sum_mset_sum_list)
  show "Partial (collectPerNode E c what fn) \<longleftrightarrow> (\<exists>cl \<in> set (co_clients c). snd (fn cl) \<noteq> None)"
    by (auto simp: Partial_def collectPerNode_def collect_result_def Let_def w filter_empty_conv)
qed

text \<open>C21: A collection accounts for every configured node: with any order of arrival, the nodes that
  responded are those whose query gave no warning, there is one warning for each of the others, every
  item comes from a responding node's query, nothing a node returned is lost, and the result is
  partial exactly when some node failed.\<close>

theorem collection_accounts_for_nodes:
  assumes "fair_order E"
  shows "let r = collectPerNode E c what fn; failed = (\<lambda>cl. snd (fn cl) \<noteq> None) in
    res_NodesExpected r = int (length (co_clients c)) \<and>
    res_NodesResponded r = int (length (filter (\<lambda>cl. \<not> failed cl) (co_clients c))) \<and>
    res_NodesFailed r = int (length (res_Warnings r)) \<and>
    set (res_Warnings r) = {w. \<exists>cl \<in> set (co_clients c). snd (fn cl) = Some w} \<and>
    mset (res_Items r) = (\<Sum>cl\<in>#mset (co_clients c). mset (fst (fn cl))) \<and>
    (Partial r \<longleftrightarrow> list_ex failed (co_clients c))"
  using collected [OF assms, of c what fn] by (simp add: Let_def list_ex_iff)

section \<open>The partition conditions, exactly\<close>

lemma insort_is_insert_by: "insert_by f = insort_key f"
proof (intro ext)
  fix x xs
  show "insert_by f x xs = insort_key f x xs" by (induction xs) auto
qed

lemma sort_by_is_sort: "sort_by f xs = sort_key f xs"
  by (simp add: sort_by_def sort_key_def insort_is_insert_by)

lemma sortedKeys_set: "sortedKeys xs = sorted_list_of_set (set xs)"
  by (simp add: sortedKeys_def sort_by_is_sort sorted_list_of_set_sort_remdups [symmetric])

text \<open>What the parts say, without the bookkeeping of the scan: the active parts a replica of a
  shard has of a partition, and the signature those parts give it.\<close>

definition active_of :: "Part list \<Rightarrow> partitionKey \<Rightarrow> Part list" where
  "active_of parts key = filter (\<lambda>p. pt_Active p \<and> partition_key p = key) parts"

definition replica_of :: "Part \<Rightarrow> string \<times> string" where
  "replica_of p = (nd_Shard (pt_Node p), nd_Replica (pt_Node p))"

definition signature_of :: "Part list \<Rightarrow> string" where
  "signature_of ps = join '','' (sorted_list_of_set (pt_Disk ` set ps)) @ '':'' @ show_int (int (length ps))"

definition entry_key :: "nodeDiskSet \<Rightarrow> string \<times> string" where
  "entry_key n = (nds_shard n, nds_replica n)"

text \<open>The entries mirror the parts: one per replica, with its disks and its count.\<close>

definition mirrors :: "nodeDiskSet list \<Rightarrow> Part list \<Rightarrow> bool" where
  "mirrors ns ps \<longleftrightarrow>
     distinct (map entry_key ns) \<and> entry_key ` set ns = replica_of ` set ps \<and>
     (\<forall>n \<in> set ns. let mine = filter (\<lambda>p. replica_of p = entry_key n) ps in
        set (nds_disks n) = pt_Disk ` set mine \<and> nds_parts n = int (length mine))"

lemma note_part_keys:
  "entry_key ` set (note_part p ns) = insert (replica_of p) (entry_key ` set ns)"
  by (induction ns) (auto simp: entry_key_def replica_of_def)

lemma note_part_distinct:
  "distinct (map entry_key ns) \<Longrightarrow> distinct (map entry_key (note_part p ns))"
proof (induction ns)
  case Nil
  then show ?case by simp
next
  case (Cons n ns)
  have k: "entry_key (n\<lparr>nds_disks := d, nds_parts := c\<rparr>) = entry_key n" for d c by (simp add: entry_key_def)
  show ?case
  proof (cases "replica_of p = entry_key n")
    case True
    then show ?thesis using Cons.prems by (auto simp: entry_key_def replica_of_def)
  next
    case False
    then have "note_part p (n # ns) = n # note_part p ns" by (auto simp: entry_key_def replica_of_def)
    moreover have "entry_key n \<notin> entry_key ` set (note_part p ns)"
      using False Cons.prems by (auto simp: note_part_keys)
    ultimately show ?thesis using Cons by simp
  qed
qed

lemma note_part_entry:
  assumes "n \<in> set (note_part p ns)" and "distinct (map entry_key ns)"
  shows "n \<in> set ns \<and> entry_key n \<noteq> replica_of p \<or>
    entry_key n = replica_of p \<and>
    (entry_key n \<notin> entry_key ` set ns \<and> nds_disks n = [pt_Disk p] \<and> nds_parts n = 1 \<or>
     (\<exists>m \<in> set ns. entry_key m = entry_key n \<and> nds_disks n = List.insert (pt_Disk p) (nds_disks m) \<and>
        nds_parts n = nds_parts m + 1))"
  using assms
proof (induction ns)
  case Nil
  then show ?case by (simp add: entry_key_def replica_of_def)
next
  case (Cons m ns)
  show ?case
  proof (cases "replica_of p = entry_key m")
    case True
    let ?m = "m\<lparr>nds_disks := List.insert (pt_Disk p) (nds_disks m), nds_parts := nds_parts m + 1\<rparr>"
    from True have "note_part p (m # ns) = ?m # ns" by (auto simp: entry_key_def replica_of_def)
    with Cons.prems(1) consider "n = ?m" | "n \<in> set ns" by auto
    then show ?thesis
    proof cases
      case 1
      then have "entry_key n = entry_key m" by (simp add: entry_key_def)
      with 1 True show ?thesis by (intro disjI2 conjI) auto
    next
      case 2
      with Cons.prems(2) have "entry_key n \<noteq> entry_key m" by (auto simp: image_iff)
      with 2 True show ?thesis by simp
    qed
  next
    case False
    then have "note_part p (m # ns) = m # note_part p ns" by (auto simp: entry_key_def replica_of_def)
    with Cons.prems(1) consider "n = m" | "n \<in> set (note_part p ns)" by auto
    then show ?thesis
    proof cases
      case 1
      with False show ?thesis by simp
    next
      case 2
      with Cons.IH Cons.prems(2) False show ?thesis by auto
    qed
  qed
qed

lemma mirrors_note: "mirrors ns ps \<Longrightarrow> mirrors (note_part p ns) (ps @ [p])"
  unfolding mirrors_def
proof (intro conjI ballI, goal_cases)
  case 1
  then show ?case by (simp add: note_part_distinct)
next
  case 2
  then show ?case by (auto simp: note_part_keys)
next
  case (3 n)
  let ?mine = "\<lambda>ps. filter (\<lambda>q. replica_of q = entry_key n) ps"
  from 3 have d: "distinct (map entry_key ns)" and keys: "entry_key ` set ns = replica_of ` set ps"
    and old: "\<And>m. m \<in> set ns \<Longrightarrow> set (nds_disks m) = pt_Disk ` set (filter (\<lambda>p. replica_of p = entry_key m) ps) \<and>
      nds_parts m = int (length (filter (\<lambda>p. replica_of p = entry_key m) ps))" by (auto simp: Let_def)
  from note_part_entry [OF 3(2) d] consider
      (other) "n \<in> set ns" "entry_key n \<noteq> replica_of p"
    | (new) "entry_key n = replica_of p" "entry_key n \<notin> entry_key ` set ns" "nds_disks n = [pt_Disk p]" "nds_parts n = 1"
    | (upd) m where "m \<in> set ns" "entry_key n = replica_of p" "entry_key m = entry_key n"
        "nds_disks n = List.insert (pt_Disk p) (nds_disks m)" "nds_parts n = nds_parts m + 1" by blast
  then show ?case
  proof cases
    case other
    with old show ?thesis by (simp add: Let_def)
  next
    case new
    then have "entry_key n \<notin> replica_of ` set ps" using keys by simp
    then have "?mine ps = []" by (simp add: filter_empty_conv) (metis image_eqI)
    with new show ?thesis by (simp add: Let_def)
  next
    case upd
    with old [OF upd(1)] show ?thesis by (simp add: Let_def)
  qed
qed

lemma mirrors_fold: "mirrors ns qs \<Longrightarrow> mirrors (foldl (\<lambda>ns p. note_part p ns) ns ps) (qs @ ps)"
proof (induction ps arbitrary: ns qs)
  case Nil
  then show ?case by simp
next
  case (Cons p ps)
  from Cons.IH [OF mirrors_note [OF Cons.prems]] show ?case by simp
qed

lemma by_partition_fold:
  "amap_get (foldl add_part m ps) key =
   (let mine = filter (\<lambda>p. partition_key p = key) ps in
    if mine = [] then amap_get m key
    else Some (foldl (\<lambda>ns p. note_part p ns) (case amap_get m key of Some ns \<Rightarrow> ns | None \<Rightarrow> []) mine))"
  by (induction ps arbitrary: m) (auto simp: add_part_def update_conv' Let_def split: option.splits)

lemma by_partition_get:
  "amap_get (by_partition parts) key =
   (if active_of parts key = [] then None
    else Some (foldl (\<lambda>ns p. note_part p ns) [] (active_of parts key)))"
  by (simp add: by_partition_def by_partition_fold active_of_def filter_filter conj_commute Let_def)

lemma by_partition_ok: "amap_ok (by_partition parts)"
proof -
  have "amap_ok m \<Longrightarrow> amap_ok (foldl add_part m ps)" for m ps
    by (induction ps arbitrary: m) (simp_all add: add_part_def distinct_update)
  then show ?thesis by (simp add: by_partition_def)
qed

lemma by_partition_mirrors:
  "(key, ns) \<in> set (by_partition parts) \<longleftrightarrow>
   active_of parts key \<noteq> [] \<and> ns = foldl (\<lambda>ns p. note_part p ns) [] (active_of parts key)"
proof -
  have "(key, ns) \<in> set (by_partition parts) \<longleftrightarrow> amap_get (by_partition parts) key = Some ns"
    by (rule map_of_eq_Some_iff [OF by_partition_ok, symmetric])
  then show ?thesis by (auto simp: by_partition_get split: if_splits)
qed

lemma folded_mirrors: "mirrors (foldl (\<lambda>ns p. note_part p ns) [] ps) ps"
  using mirrors_fold [of "[]" "[]" ps] by (simp add: mirrors_def)

lemma mirrored_disks:
  assumes "mirrors ns ps"
  shows "set (concat (map nds_disks ns)) = pt_Disk ` set ps"
proof -
  have "set (nds_disks n) = pt_Disk ` {p \<in> set ps. replica_of p = entry_key n}" if "n \<in> set ns" for n
    using assms that by (simp add: mirrors_def Let_def)
  then have "set (concat (map nds_disks ns)) = (\<Union>n \<in> set ns. pt_Disk ` {p \<in> set ps. replica_of p = entry_key n})"
    by simp
  also have "\<dots> = pt_Disk ` (\<Union>n \<in> set ns. {p \<in> set ps. replica_of p = entry_key n})"
    by (simp only: image_UN)
  also have "(\<Union>n \<in> set ns. {p \<in> set ps. replica_of p = entry_key n}) = set ps"
  proof -
    have "\<exists>n \<in> set ns. replica_of p = entry_key n" if "p \<in> set ps" for p
      using assms that unfolding mirrors_def by (metis image_iff)
    then show ?thesis by blast
  qed
  finally show ?thesis .
qed

lemma two_disks:
  assumes "mirrors ns ps"
  shows "1 < length (remdups (concat (map nds_disks ns))) \<longleftrightarrow> (\<exists>p \<in> set ps. \<exists>q \<in> set ps. pt_Disk p \<noteq> pt_Disk q)"
proof -
  have "length (remdups (concat (map nds_disks ns))) = card (pt_Disk ` set ps)"
    using mirrored_disks [OF assms] by (simp add: length_remdups_card_conv)
  moreover have "card (pt_Disk ` set ps) \<le> Suc 0 \<longleftrightarrow> (\<forall>p \<in> set ps. \<forall>q \<in> set ps. pt_Disk p = pt_Disk q)"
    by (simp add: card_le_Suc0_iff_eq)
  ultimately have "1 < length (remdups (concat (map nds_disks ns))) \<longleftrightarrow>
      \<not> (\<forall>p \<in> set ps. \<forall>q \<in> set ps. pt_Disk p = pt_Disk q)" by linarith
  then show ?thesis by simp
qed

lemma mirrored_signature:
  assumes "mirrors ns ps" and "n \<in> set ns"
  shows "node_signature n = signature_of (filter (\<lambda>p. replica_of p = entry_key n) ps)"
proof -
  have "set (nds_disks n) = pt_Disk ` set (filter (\<lambda>p. replica_of p = entry_key n) ps)"
    and "nds_parts n = int (length (filter (\<lambda>p. replica_of p = entry_key n) ps))"
    using assms unfolding mirrors_def by metis+
  then show ?thesis
    unfolding node_signature_def diskSignature_def sortedKeys_set signature_of_def by simp
qed

definition agree :: "nodeDiskSet list \<Rightarrow> bool" where
  "agree ns \<longleftrightarrow>
     (\<forall>n \<in> set ns. \<forall>k \<in> set ns. nds_shard n = nds_shard k \<longrightarrow> node_signature n = node_signature k)"

definition kept :: "(string \<rightharpoonup> string) \<Rightarrow> nodeDiskSet list \<Rightarrow> bool" where
  "kept f ns \<longleftrightarrow> (\<forall>k \<in> set ns. \<forall>s. f (nds_shard k) = Some s \<longrightarrow> s = node_signature k)"

lemma kept_agree_Cons:
  "kept f (n # ns) \<and> agree (n # ns) \<longleftrightarrow>
   (\<forall>s. f (nds_shard n) = Some s \<longrightarrow> s = node_signature n) \<and>
   kept (f(nds_shard n \<mapsto> node_signature n)) ns \<and> agree ns"
proof (intro iffI conjI; (elim conjE)?)
  assume k: "kept f (n # ns)" and a: "agree (n # ns)"
  show "\<forall>s. f (nds_shard n) = Some s \<longrightarrow> s = node_signature n" using k by (auto simp: kept_def)
  show "agree ns" using a unfolding agree_def by (meson list.set_intros(2))
  show "kept (f(nds_shard n \<mapsto> node_signature n)) ns"
    unfolding kept_def
  proof (intro ballI allI impI)
    fix k s assume "k \<in> set ns" "(f(nds_shard n \<mapsto> node_signature n)) (nds_shard k) = Some s"
    then show "s = node_signature k"
      using k a unfolding kept_def agree_def fun_upd_apply
      by (metis list.set_intros option.inject)
  qed
next
  assume h: "\<forall>s. f (nds_shard n) = Some s \<longrightarrow> s = node_signature n" and a: "agree ns"
    and k: "kept (f(nds_shard n \<mapsto> node_signature n)) ns"
  have same: "node_signature x = node_signature n" if "x \<in> set ns" "nds_shard x = nds_shard n" for x
    using k that unfolding kept_def by (metis fun_upd_same)
  show "kept f (n # ns)" unfolding kept_def
  proof (intro ballI allI impI)
    fix x s assume x: "x \<in> set (n # ns)" "f (nds_shard x) = Some s"
    show "s = node_signature x"
    proof (cases "nds_shard x = nds_shard n")
      case True
      with x h have "s = node_signature n" by simp
      with x True same show ?thesis by auto
    next
      case False
      with x have "x \<in> set ns" "(f(nds_shard n \<mapsto> node_signature n)) (nds_shard x) = Some s" by auto
      with k show ?thesis unfolding kept_def by blast
    qed
  qed
  show "agree (n # ns)" unfolding agree_def
  proof (intro ballI impI)
    fix x y assume xy: "x \<in> set (n # ns)" "y \<in> set (n # ns)" "nds_shard x = nds_shard y"
    then consider "x = n" "y = n" | "x = n" "y \<in> set ns" | "x \<in> set ns" "y = n" | "x \<in> set ns" "y \<in> set ns"
      by auto
    then show "node_signature x = node_signature y"
      using a same xy(3) unfolding agree_def by cases metis+
  qed
qed

lemma mismatch_scan_kept: "mismatch_scan m ns = None \<longleftrightarrow> kept (map_of m) ns \<and> agree ns"
proof (induction ns arbitrary: m)
  case Nil
  then show ?case by (simp add: kept_def agree_def)
next
  case (Cons n ns)
  have "mismatch_scan m (n # ns) = None \<longleftrightarrow>
      (\<forall>s. amap_get m (nds_shard n) = Some s \<longrightarrow> s = node_signature n) \<and>
      mismatch_scan (amap_put (nds_shard n) (node_signature n) m) ns = None"
    by (auto split: option.splits)
  then show ?case unfolding Cons.IH update_conv' kept_agree_Cons .
qed

lemma mismatch_scan_None:
  "mismatch_scan [] ns = None \<longleftrightarrow>
   (\<forall>n \<in> set ns. \<forall>k \<in> set ns. nds_shard n = nds_shard k \<longrightarrow> node_signature n = node_signature k)"
  unfolding mismatch_scan_kept by (simp add: kept_def agree_def)

lemma mismatch_scan_Some:
  "mismatch_scan m ns = Some sh \<Longrightarrow> \<exists>n \<in> set ns. nds_shard n = sh"
  by (induction ns arbitrary: m) (auto split: option.splits if_splits)

lemma mirrored_mismatch:
  assumes "mirrors ns ps"
  shows "mismatch_scan [] ns \<noteq> None \<longleftrightarrow>
    (\<exists>p \<in> set ps. \<exists>q \<in> set ps. nd_Shard (pt_Node p) = nd_Shard (pt_Node q) \<and>
       signature_of (filter (\<lambda>r. replica_of r = replica_of p) ps) \<noteq>
       signature_of (filter (\<lambda>r. replica_of r = replica_of q) ps))" (is "?l \<longleftrightarrow> ?r")
proof
  assume ?l
  then obtain n k where nk: "n \<in> set ns" "k \<in> set ns" "nds_shard n = nds_shard k" "node_signature n \<noteq> node_signature k"
    unfolding mismatch_scan_None by blast
  have "\<exists>p \<in> set ps. entry_key x = replica_of p" if "x \<in> set ns" for x
    using assms that unfolding mirrors_def by (metis image_iff)
  with nk obtain p q where "p \<in> set ps" "entry_key n = replica_of p" "q \<in> set ps" "entry_key k = replica_of q"
    by metis
  with nk show ?r
    by (intro bexI [of _ p] bexI [of _ q])
      (simp_all add: mirrored_signature [OF assms], simp add: entry_key_def replica_of_def)
next
  assume ?r
  then obtain p q where pq: "p \<in> set ps" "q \<in> set ps" "nd_Shard (pt_Node p) = nd_Shard (pt_Node q)"
      "signature_of (filter (\<lambda>r. replica_of r = replica_of p) ps) \<noteq>
       signature_of (filter (\<lambda>r. replica_of r = replica_of q) ps)" by blast
  have "\<exists>x \<in> set ns. entry_key x = replica_of r" if "r \<in> set ps" for r
    using assms that unfolding mirrors_def by (metis image_iff)
  with pq obtain n k where nk: "n \<in> set ns" "entry_key n = replica_of p" "k \<in> set ns" "entry_key k = replica_of q"
    by metis
  then have "node_signature n \<noteq> node_signature k" and "nds_shard n = nds_shard k"
    using pq by (simp_all add: mirrored_signature [OF assms]) (simp add: entry_key_def replica_of_def)
  with nk show ?l unfolding mismatch_scan_None by blast
qed

lemma guard_absorb: "(A \<Longrightarrow> X) \<Longrightarrow> (X \<and> A) = A"
  by blast

text \<open>A condition about a partition.\<close>

definition about_partition :: "partitionKey \<Rightarrow> StateCondition \<Rightarrow> bool" where
  "about_partition key c \<longleftrightarrow>
     (case key of (database, table, pname, partitionID) \<Rightarrow>
        sc_Database c = Some database \<and> sc_Table c = Some table \<and> sc_Partition c = Some pname \<and>
        sc_PartitionID c = Some partitionID)"

lemma partition_condition_about:
  "about_partition key (partition_condition E severity code message tail evidence key') \<longleftrightarrow> key = key'"
  "sc_Code (partition_condition E severity code message tail evidence key') = code"
  by (auto simp: about_partition_def partition_condition_def split: prod.splits)

text \<open>C22: The partition conditions say exactly what the active parts say, for any order of the parts'
  nodes and of Go's map: a partition is reported as split if and only if two of its active parts are
  on different disks, and as mismatched if and only if two replicas of one shard hold different sets of
  disks or different numbers of active parts of it.\<close>

theorem partition_conditions_exact:
  assumes "fair_order E"
  shows "let mine = active_of parts key;
             found = (\<lambda>code. list_ex (\<lambda>c. sc_Code c = code \<and> about_partition key c) (partitionConditions E what parts));
             sig = (\<lambda>p. signature_of (filter (\<lambda>r. replica_of r = replica_of p) mine)) in
    (found ''partition_split_across_disks'' \<longleftrightarrow> (\<exists>p \<in> set mine. \<exists>q \<in> set mine. pt_Disk p \<noteq> pt_Disk q)) \<and>
    (found ''replica_part_mismatch'' \<longleftrightarrow>
       (\<exists>p \<in> set mine. \<exists>q \<in> set mine. nd_Shard (pt_Node p) = nd_Shard (pt_Node q) \<and> sig p \<noteq> sig q))"
proof -
  let ?mine = "active_of parts key" and ?ns = "foldl (\<lambda>ns p. note_part p ns) [] (active_of parts key)"
  have m: "mirrors ?ns ?mine" by (rule folded_mirrors)
  have c: "c \<in> set (partitionConditions E what parts) \<and> about_partition key c \<longleftrightarrow>
      ?mine \<noteq> [] \<and> c \<in> set (split_conditions E key ?ns @ mismatch_conditions E key ?ns)" for c
  proof -
    have "c \<in> set (partitionConditions E what parts) \<longleftrightarrow>
        (\<exists>k. active_of parts k \<noteq> [] \<and> c \<in> set (split_conditions E k (foldl (\<lambda>ns p. note_part p ns) [] (active_of parts k)) @
           mismatch_conditions E k (foldl (\<lambda>ns p. note_part p ns) [] (active_of parts k))))"
      by (force simp: partitionConditions_def gathered_set [OF assms] by_partition_mirrors)
    moreover have "c \<in> set (split_conditions E k ns @ mismatch_conditions E k ns) \<Longrightarrow> about_partition key c \<longleftrightarrow> key = k" for k ns
      by (auto simp: split_conditions_def mismatch_conditions_def partition_condition_about Let_def
          split: if_splits option.splits)
    ultimately show ?thesis by blast
  qed
  have s: "(\<exists>c \<in> set (split_conditions E key ?ns @ mismatch_conditions E key ?ns). sc_Code c = ''partition_split_across_disks'') \<longleftrightarrow>
      1 < length (remdups (concat (map nds_disks ?ns)))"
    by (auto simp: split_conditions_def mismatch_conditions_def partition_condition_about Let_def
        split: if_splits option.splits)
  have r: "(\<exists>c \<in> set (split_conditions E key ?ns @ mismatch_conditions E key ?ns). sc_Code c = ''replica_part_mismatch'') \<longleftrightarrow>
      mismatch_scan [] ?ns \<noteq> None"
    by (cases "mismatch_scan [] ?ns")
      (auto simp: split_conditions_def mismatch_conditions_def partition_condition_about Let_def)
  have ex: "list_ex (\<lambda>c. sc_Code c = code \<and> about_partition key c) (partitionConditions E what parts) \<longleftrightarrow>
      ?mine \<noteq> [] \<and> (\<exists>c \<in> set (split_conditions E key ?ns @ mismatch_conditions E key ?ns). sc_Code c = code)" for code
    unfolding list_ex_iff using c by blast
  show ?thesis
    unfolding Let_def ex s r two_disks [OF m] mirrored_mismatch [OF m]
    by (intro conjI guard_absorb) (erule bexE, force)+
qed

section \<open>The startup validation, exactly\<close>

lemma join_item_Nil: "join_item D errs i = [] \<longleftrightarrow> errs = [] \<and> validation_message i = None"
  by (auto simp: join_item_def joinUniqueWatchValidationError_def split: option.splits)

lemma join_items_Nil: "foldl (join_item D) errs items = [] \<longleftrightarrow> errs = [] \<and> (\<forall>i \<in> set items. validation_message i = None)"
  by (induction items arbitrary: errs) (auto simp: join_item_Nil)

lemma validation_message_None:
  "validation_message i = None \<longleftrightarrow> wv_Found i \<and> has_suffix (wv_Engine i) ''MergeTree''"
  by (simp add: validation_message_def isPhysicalMergeTreeEngine_def Let_def)

text \<open>The engine of a table among the rows of a node: that of its last row.\<close>

definition engine_of :: "(string \<times> string \<times> string) list \<Rightarrow> Watch \<Rightarrow> string option" where
  "engine_of rows w = map_of (rev (map (\<lambda>(database, table, engine). (watch_of database table, engine)) rows)) w"

lemma engines_fold:
  "amap_get (fold (\<lambda>(database, table, engine). amap_put (watch_of database table) engine) rows m) w =
   (case engine_of rows w of Some e \<Rightarrow> Some e | None \<Rightarrow> amap_get m w)"
  by (induction rows arbitrary: m) (auto simp: engine_of_def update_conv' map_add_def split: option.splits)

definition validation_rows :: "Collector \<Rightarrow> state_client \<Rightarrow> gotext + (string \<times> string \<times> string) list" where
  "validation_rows c cl =
     all_rows (d_engines (cl_DB cl) (fst (watchPredicate c ''name'')) (snd (watchPredicate c ''name'')))"

lemma validation_items_of_node:
  "collectWatchValidationItems c cl =
   (if co_watches c = [] then Inr []
    else case validation_rows c cl of
      Inl e \<Rightarrow> Inl e
    | Inr rows \<Rightarrow> Inr (map (\<lambda>w. \<lparr>wv_Node = cl_Node cl, wv_Watch = w,
        wv_Engine = (case engine_of rows w of Some e \<Rightarrow> e | None \<Rightarrow> ''''),
        wv_Found = (engine_of rows w \<noteq> None)\<rparr>) (co_watches c)))"
  unfolding collectWatchValidationItems_def validation_rows_def
  by (simp add: engines_fold Let_def split_beta cong: option.case_cong split: sum.split option.split)

definition watch_ok :: "(string \<times> string \<times> string) list \<Rightarrow> Watch \<Rightarrow> bool" where
  "watch_ok rows w \<longleftrightarrow> (\<exists>e. engine_of rows w = Some e \<and> has_suffix e ''MergeTree'')"

text \<open>Startup validation fails exactly when it should: with at least one watch configured and any
  order of the nodes' answers, it reports no error if and only if some node answered and, on every
  node that answered, every watched table exists with an engine of the MergeTree family. A node that
  did not answer is a warning, not an error.\<close>

theorem watch_validation_exact:
  assumes "fair_order E" and "co_watches c \<noteq> []"
  shows "snd (ValidateWatchesDetailed E c) = [] \<longleftrightarrow>
    (\<exists>cl \<in> set (co_clients c). \<exists>rows. validation_rows c cl = Inr rows) \<and>
    (\<forall>cl \<in> set (co_clients c). \<forall>rows. validation_rows c cl = Inr rows \<longrightarrow> list_all (watch_ok rows) (co_watches c))"
proof -
  let ?fn = "\<lambda>cl. or_warning (ce_facts E) cl ''system_tables_watch_validation_failed'' (collectWatchValidationItems c cl)"
  let ?r = "collectPerNode E c [''validation''] ?fn"
  have ok: "snd (?fn cl) = None \<longleftrightarrow> (\<exists>rows. validation_rows c cl = Inr rows)" for cl
    using assms(2) by (auto simp: or_warning_def validation_items_of_node split: sum.split)
  have responded: "res_NodesResponded ?r \<noteq> 0 \<longleftrightarrow> (\<exists>cl \<in> set (co_clients c). \<exists>rows. validation_rows c cl = Inr rows)"
    unfolding collected(2) [OF assms(1)] by (auto simp: ok filter_empty_conv)
  have items: "set (res_Items ?r) = (\<Union>cl \<in> set (co_clients c). set (fst (?fn cl)))"
    using arg_cong [OF collected(5) [OF assms(1), of c "[''validation'']" ?fn], of set_mset] by simp
  have good: "(\<forall>i \<in> set (fst (?fn cl)). validation_message i = None) \<longleftrightarrow>
      (\<forall>rows. validation_rows c cl = Inr rows \<longrightarrow> list_all (watch_ok rows) (co_watches c))" for cl
    using assms(2)
    by (auto simp: or_warning_def validation_items_of_node validation_message_None list_all_iff watch_ok_def
        split: sum.split)
  have "snd (ValidateWatchesDetailed E c) = [] \<longleftrightarrow>
      res_NodesResponded ?r \<noteq> 0 \<and> (\<forall>i \<in> set (res_Items ?r). validation_message i = None)"
    by (simp add: ValidateWatchesDetailed_def validation_items_def join_items_Nil Let_def)
  then show ?thesis unfolding responded items using good by blast
qed

section \<open>Concrete collections\<close>

definition plain_facts :: driver_facts where
  "plain_facts = \<lparr>df_net = \<lambda>_. False, df_text = \<lambda>_. '''', df_unicode = sample_unicode, df_upper = \<lambda>r. r\<rparr>"

text \<open>The nodes answer in the reverse of their order.\<close>

definition reverse_env :: collect_env where
  "reverse_env = \<lparr>ce_facts = plain_facts, ce_clock = 1700000000000000000, ce_took = 0,
     ce_order = \<lambda>what n. rev [0..<n]\<rparr>"

lemma reverse_fair: "fair_order reverse_env"
  by (simp add: fair_order_def reverse_env_def)

definition quiet_db :: state_db where
  "quiet_db =
     \<lparr>d_one = Inr (''26.2.1'', ''UTC'', 1), d_disk_usage = \<lambda>p a. Inr ([], EndOfRows), d_disks = Inr ([], EndOfRows),
      d_engines = \<lambda>p a. Inr ([(''db'', ''t'', ''MergeTree'')], EndOfRows),
      d_identities = \<lambda>p a. Inr ([], EndOfRows), d_aggregates = \<lambda>p a. Inr ([], EndOfRows),
      d_replicas = \<lambda>p a. Inr ([], EndOfRows), d_columns = \<lambda>d t. Inr ([], EndOfRows),
      d_parts = \<lambda>x d t. Inr ([], EndOfRows), d_detached = \<lambda>d t. Inr ([], EndOfRows),
      d_mutations = \<lambda>p a. Inr ([], EndOfRows), d_queue = \<lambda>p a. Inr ([], EndOfRows),
      d_part_log = \<lambda>p a x y. Inl (ChException 60 ''Table system.part_log does not exist''),
      d_moves = Inr ([], EndOfRows), d_merges = Inr ([], EndOfRows)\<rparr>"

definition dead_db :: state_db where
  "dead_db = quiet_db\<lparr>d_one := Inl ECONNREFUSED, d_engines := \<lambda>p a. Inl ECONNREFUSED,
     d_disks := Inl ECONNREFUSED\<rparr>"

definition node_at :: "string \<Rightarrow> string \<Rightarrow> string \<Rightarrow> Node" where
  "node_at node shard replica = \<lparr>nd_ID = node, nd_Shard = shard, nd_Replica = replica, nd_Addr = ''h:9000''\<rparr>"

definition half_dead :: Collector where
  "half_dead =
     \<lparr>co_clients = [\<lparr>cl_Node = node_at ''n1'' ''s1'' ''r1'', cl_DB = quiet_db\<rparr>,
                     \<lparr>cl_Node = node_at ''n2'' ''s1'' ''r2'', cl_DB = dead_db\<rparr>],
      co_watches = [watch_of ''db'' ''t'']\<rparr>"

definition part_at :: "Node \<Rightarrow> string \<Rightarrow> string \<Rightarrow> Part" where
  "part_at node name disk =
     \<lparr>pt_Node = node, pt_Database = ''db'', pt_Table = ''t'', pt_Partition = ''2024'', pt_PartitionID = ''2024'',
      pt_Name = name, pt_UUID = '''', pt_Active = True, pt_Disk = disk, pt_Path = '''', pt_PartType = ''Wide'',
      pt_Rows = 1, pt_Marks = 1, pt_BytesOnDisk = 1, pt_DataCompressedBytes = 1, pt_DataUncompressedBytes = 1,
      pt_MarksBytes = 1, pt_PrimaryKeyBytesInMemory = 0, pt_PrimaryKeyBytesInMemoryAllocated = 0,
      pt_SecondaryIndicesCompressedBytes = 0, pt_SecondaryIndicesUncompressedBytes = 0,
      pt_SecondaryIndicesMarksBytes = 0, pt_ModificationTime = 1700000000000000000, pt_RemoveTime = None,
      pt_Refcount = 1, pt_MinBlockNumber = 0, pt_MaxBlockNumber = 0, pt_Level = 0, pt_DataVersion = 0,
      pt_DeleteTTLInfoMin = None, pt_DeleteTTLInfoMax = None, pt_DefaultCompressionCodec = ''LZ4'',
      pt_Conditions = []\<rparr>"

definition split_parts :: "Part list" where
  "split_parts = [part_at (node_at ''n1'' ''s1'' ''r1'') ''a'' ''hot'', part_at (node_at ''n2'' ''s1'' ''r2'') ''b'' ''cold'']"

theorem collection_accounts_for_nodes_witness:
  "res_NodesResponded (CollectDisks reverse_env half_dead) = 1 \<and> Partial (CollectDisks reverse_env half_dead)"
  using collection_accounts_for_nodes [OF reverse_fair, of half_dead "[''disks'']" "collectDisks reverse_env half_dead"]
  by (simp add: CollectDisks_def Let_def half_dead_def collectDisks_def collectWatchedPartBytesByDisk_def
      dead_db_def quiet_db_def all_rows_def watchPredicate_def)

lemma split_parts_active: "active_of split_parts (''db'', ''t'', ''2024'', ''2024'') = split_parts"
  by (simp add: active_of_def split_parts_def part_at_def partition_key_def)

lemma split_parts_disks: "\<exists>p \<in> set split_parts. \<exists>q \<in> set split_parts. pt_Disk p \<noteq> pt_Disk q"
proof -
  have "pt_Disk (part_at (node_at ''n1'' ''s1'' ''r1'') ''a'' ''hot'') \<noteq> pt_Disk (part_at (node_at ''n2'' ''s1'' ''r2'') ''b'' ''cold'')"
    by (simp add: part_at_def)
  then show ?thesis unfolding split_parts_def by (meson list.set_intros)
qed

theorem partition_conditions_exact_witness:
  "list_ex (\<lambda>c. sc_Code c = ''partition_split_across_disks'' \<and> about_partition (''db'', ''t'', ''2024'', ''2024'') c)
     (partitionConditions reverse_env [] split_parts)"
  using partition_conditions_exact [OF reverse_fair, of split_parts "(''db'', ''t'', ''2024'', ''2024'')" "[]"]
    split_parts_disks
  unfolding Let_def split_parts_active by (elim conjE) (rule iffD2)

theorem watch_validation_exact_witness:
  "snd (ValidateWatchesDetailed reverse_env half_dead) = []"
proof -
  have ne: "co_watches half_dead \<noteq> []" by (simp add: half_dead_def)
  show ?thesis unfolding watch_validation_exact [OF reverse_fair ne]
    by (simp add: half_dead_def validation_rows_def watchPredicate_def dead_db_def quiet_db_def all_rows_def
        watch_ok_def engine_of_def has_suffix_def)
qed

end
