(* ===== verification/Aggregate.thy ===== *)
theory Aggregate
  imports ClusterConditions
begin

text \<open>
  The rollups of the API (\<open>internal/server/aggregate.go\<close>): the node rows of a table into one table,
  the parts of a partition into one partition with its placements. A Go map that the code iterates
  over is an association list, read in the order of the environment.
\<close>

section \<open>Data\<close>

record tableAggregate =
  ta_database :: string
  ta_table :: string
  ta_engine :: string
  ta_storagePolicy :: string
  ta_targetDisk :: string
  ta_partitionKey :: string
  ta_sortingKey :: string
  ta_primaryKey :: string
  ta_versionColumn :: "string option"
  ta_uuid :: string
  ta_samplingKey :: string
  ta_isReplicated :: bool
  ta_nodesObserved :: int
  ta_shardsObserved :: int
  ta_replicasPerShard :: int
  ta_activePartitions :: int
  ta_activeParts :: u64
  ta_rows :: u64
  ta_bytesOnDisk :: u64
  ta_minPartition :: "string option"
  ta_maxPartition :: "string option"
  ta_lastModificationTime :: "gtime option"
  ta_partitionPlacements :: "(string, int) amap"
  ta_partitionOperations :: "(string, int) amap"
  ta_activeOperations :: int
  ta_conditions :: "StateCondition list"
  ta_nodes :: "TableState list"

record partitionPlacementAggregate =
  ppa_node :: Node
  ppa_disk :: string
  ppa_activeParts :: u64
  ppa_rows :: u64
  ppa_bytesOnDisk :: u64
  ppa_lastModificationTime :: "gtime option"

record partitionAggregate =
  pa_database :: string
  pa_table :: string
  pa_partition :: string
  pa_partitionID :: string
  pa_targetDisk :: string
  pa_placement :: string
  pa_operations :: "string list"
  pa_disks :: "string list"
  pa_activeParts :: u64
  pa_rows :: u64
  pa_bytesOnDisk :: u64
  pa_lastModificationTime :: "gtime option"
  pa_placements :: "(string, partitionPlacementAggregate) amap"
  pa_conditions :: "StateCondition list"

section \<open>Comparisons of optional values\<close>

definition stringLess :: "string option \<Rightarrow> string option \<Rightarrow> bool" where
  "stringLess left right =
     (case left of None \<Rightarrow> False
      | Some l \<Rightarrow> (case right of None \<Rightarrow> True | Some r \<Rightarrow> l < r))"

definition stringGreater :: "string option \<Rightarrow> string option \<Rightarrow> bool" where
  "stringGreater left right =
     (case left of None \<Rightarrow> False
      | Some l \<Rightarrow> (case right of None \<Rightarrow> True | Some r \<Rightarrow> r < l))"

definition timeGreater :: "gtime option \<Rightarrow> gtime option \<Rightarrow> bool" where
  "timeGreater left right =
     (case left of None \<Rightarrow> False
      | Some l \<Rightarrow> (case right of None \<Rightarrow> True | Some r \<Rightarrow> r < l))"

definition later :: "gtime option \<Rightarrow> gtime option \<Rightarrow> gtime option" where
  "later left right = (if timeGreater left right then left else right)"

section \<open>Conditions of a resource\<close>

definition tableScopedConditions :: "StateCondition list \<Rightarrow> string \<Rightarrow> string \<Rightarrow> StateCondition list" where
  "tableScopedConditions items database table =
     filter (\<lambda>c. derefString (sc_Database c) = database \<and> derefString (sc_Table c) = table \<and>
                 sc_PartitionID c = None) items"

definition partitionScopedConditions ::
  "StateCondition list \<Rightarrow> string \<Rightarrow> string \<Rightarrow> string \<Rightarrow> StateCondition list" where
  "partitionScopedConditions items database table partitionID =
     filter (\<lambda>c. derefString (sc_Database c) = database \<and> derefString (sc_Table c) = table \<and>
                 derefString (sc_PartitionID c) = partitionID) items"

section \<open>Tables\<close>

abbreviation (input) nul :: string where "nul \<equiv> [CHR 0x00]"

definition group_key :: "TableState \<Rightarrow> string" where
  "group_key t = tst_Database t @ nul @ tst_Table t"

definition new_table :: "TableState \<Rightarrow> tableAggregate" where
  "new_table t =
     \<lparr>ta_database = tst_Database t, ta_table = tst_Table t, ta_engine = tst_Engine t,
      ta_storagePolicy = tst_StoragePolicy t, ta_targetDisk = '''', ta_partitionKey = tst_PartitionKey t,
      ta_sortingKey = tst_SortingKey t, ta_primaryKey = tst_PrimaryKey t, ta_versionColumn = None,
      ta_uuid = tst_UUID t, ta_samplingKey = tst_SamplingKey t, ta_isReplicated = tst_IsReplicated t,
      ta_nodesObserved = 0, ta_shardsObserved = 0, ta_replicasPerShard = 0, ta_activePartitions = 0,
      ta_activeParts = 0, ta_rows = 0, ta_bytesOnDisk = 0, ta_minPartition = None, ta_maxPartition = None,
      ta_lastModificationTime = tst_LastModificationTime t, ta_partitionPlacements = [(''unknown'', 0)],
      ta_partitionOperations = [], ta_activeOperations = 0, ta_conditions = [], ta_nodes = []\<rparr>"

definition count_node :: "TableState \<Rightarrow> tableAggregate \<Rightarrow> tableAggregate" where
  "count_node t a =
     a\<lparr>ta_nodes := ta_nodes a @ [t],
       ta_activeParts := ta_activeParts a + tst_ActiveParts t,
       ta_rows := ta_rows a + tst_Rows t,
       ta_bytesOnDisk := ta_bytesOnDisk a + tst_BytesOnDisk t,
       ta_activePartitions := (if ta_activePartitions a < tst_ActivePartitions t then tst_ActivePartitions t
                               else ta_activePartitions a),
       ta_minPartition := (if ta_minPartition a = None \<or> stringLess (tst_MinPartition t) (ta_minPartition a)
                           then tst_MinPartition t else ta_minPartition a),
       ta_maxPartition := (if stringGreater (tst_MaxPartition t) (ta_maxPartition a)
                           then tst_MaxPartition t else ta_maxPartition a),
       ta_lastModificationTime := later (tst_LastModificationTime t) (ta_lastModificationTime a)\<rparr>"

definition add_table :: "(string, tableAggregate) amap \<Rightarrow> TableState \<Rightarrow> (string, tableAggregate) amap" where
  "add_table m t =
     amap_put (group_key t)
       (count_node t (case amap_get m (group_key t) of Some a \<Rightarrow> a | None \<Rightarrow> new_table t)) m"

definition count_distinct :: "string list \<Rightarrow> int" where
  "count_distinct xs = int (length (remdups xs))"

text \<open>The largest number of replicas seen in a shard.\<close>

definition replicas_per_shard :: "TableState list \<Rightarrow> int" where
  "replicas_per_shard ts =
     fold max (map (\<lambda>s. count_distinct (map (\<lambda>t. nd_Replica (tst_Node t))
         (filter (\<lambda>t. nd_Shard (tst_Node t) = s) ts)))
       (remdups (map (\<lambda>t. nd_Shard (tst_Node t)) ts))) 0"

definition finish_table :: "StateCondition list \<Rightarrow> tableAggregate \<Rightarrow> tableAggregate" where
  "finish_table conditions a =
     a\<lparr>ta_nodesObserved := count_distinct (map (\<lambda>t. nd_ID (tst_Node t)) (ta_nodes a)),
       ta_shardsObserved := count_distinct (map (\<lambda>t. nd_Shard (tst_Node t)) (ta_nodes a)),
       ta_replicasPerShard := replicas_per_shard (ta_nodes a),
       ta_partitionPlacements := amap_put ''unknown'' (ta_activePartitions a) (ta_partitionPlacements a),
       ta_conditions := tableScopedConditions conditions (ta_database a) (ta_table a)\<rparr>"

definition group_tables :: "TableState list \<Rightarrow> (string, tableAggregate) amap" where
  "group_tables items = foldl add_table [] (sort_by (\<lambda>t. nd_ID (tst_Node t)) items)"

definition aggregateTables :: "collect_env \<Rightarrow> TableState list \<Rightarrow> StateCondition list \<Rightarrow> tableAggregate list" where
  "aggregateTables E items conditions =
     map (\<lambda>(k, a). finish_table conditions a) (gathered E [''tables_grouped''] (group_tables items))"

definition aggregateTableDetail ::
  "collect_env \<Rightarrow> TableState list \<Rightarrow> StateCondition list \<Rightarrow> Watch \<Rightarrow> tableAggregate option" where
  "aggregateTableDetail E items conditions w =
     find (\<lambda>a. ta_database a = cw_Database w \<and> ta_table a = cw_Table w) (aggregateTables E items conditions)"

section \<open>Partitions\<close>

definition part_key :: "Part \<Rightarrow> string" where
  "part_key p = pt_Database p @ nul @ pt_Table p @ nul @ pt_PartitionID p"

definition placement_key :: "Part \<Rightarrow> string" where
  "placement_key p = nd_ID (pt_Node p) @ nul @ pt_Disk p"

definition new_partition_aggregate :: "Part \<Rightarrow> partitionAggregate" where
  "new_partition_aggregate p =
     \<lparr>pa_database = pt_Database p, pa_table = pt_Table p, pa_partition = pt_Partition p,
      pa_partitionID = pt_PartitionID p, pa_targetDisk = '''', pa_placement = ''unknown'', pa_operations = [],
      pa_disks = [], pa_activeParts = 0, pa_rows = 0, pa_bytesOnDisk = 0, pa_lastModificationTime = None,
      pa_placements = [], pa_conditions = []\<rparr>"

definition count_placement :: "Part \<Rightarrow> partitionPlacementAggregate \<Rightarrow> partitionPlacementAggregate" where
  "count_placement p a =
     a\<lparr>ppa_activeParts := ppa_activeParts a + 1, ppa_rows := ppa_rows a + pt_Rows p,
       ppa_bytesOnDisk := ppa_bytesOnDisk a + pt_BytesOnDisk p,
       ppa_lastModificationTime := later (Some (pt_ModificationTime p)) (ppa_lastModificationTime a)\<rparr>"

definition new_placement :: "Part \<Rightarrow> partitionPlacementAggregate" where
  "new_placement p =
     \<lparr>ppa_node = pt_Node p, ppa_disk = pt_Disk p, ppa_activeParts = 0, ppa_rows = 0, ppa_bytesOnDisk = 0,
      ppa_lastModificationTime = None\<rparr>"

definition count_active_part :: "Part \<Rightarrow> partitionAggregate \<Rightarrow> partitionAggregate" where
  "count_active_part p a =
     a\<lparr>pa_disks := List.insert (pt_Disk p) (pa_disks a),
       pa_activeParts := pa_activeParts a + 1, pa_rows := pa_rows a + pt_Rows p,
       pa_bytesOnDisk := pa_bytesOnDisk a + pt_BytesOnDisk p,
       pa_lastModificationTime := later (Some (pt_ModificationTime p)) (pa_lastModificationTime a),
       pa_placements := amap_put (placement_key p)
         (count_placement p (case amap_get (pa_placements a) (placement_key p) of
            Some q \<Rightarrow> q | None \<Rightarrow> new_placement p)) (pa_placements a)\<rparr>"

definition add_active_part ::
  "(string, partitionAggregate) amap \<Rightarrow> Part \<Rightarrow> (string, partitionAggregate) amap" where
  "add_active_part m p =
     amap_put (part_key p)
       (count_active_part p (case amap_get m (part_key p) of Some a \<Rightarrow> a | None \<Rightarrow> new_partition_aggregate p)) m"

definition group_partitions :: "Part list \<Rightarrow> (string, partitionAggregate) amap" where
  "group_partitions parts = foldl add_active_part [] (filter pt_Active (sort_by (\<lambda>p. nd_ID (pt_Node p)) parts))"

definition aggregatePartitions ::
  "collect_env \<Rightarrow> Part list \<Rightarrow> StateCondition list \<Rightarrow> partitionAggregate list" where
  "aggregatePartitions E parts conditions =
     map (\<lambda>(k, a). a\<lparr>pa_conditions :=
         partitionScopedConditions conditions (pa_database a) (pa_table a) (pa_partitionID a)\<rparr>)
       (gathered E [''partitions_grouped''] (group_partitions parts))"

section \<open>Grouping\<close>

text \<open>The common step of the two rollups: count an element into the entry of its key.\<close>

definition group_step ::
  "('a \<Rightarrow> 'k) \<Rightarrow> ('a \<Rightarrow> 'b) \<Rightarrow> ('a \<Rightarrow> 'b \<Rightarrow> 'b) \<Rightarrow> ('k, 'b) amap \<Rightarrow> 'a \<Rightarrow> ('k, 'b) amap" where
  "group_step key new cnt m x =
     amap_put (key x) (cnt x (case amap_get m (key x) of Some b \<Rightarrow> b | None \<Rightarrow> new x)) m"

lemma add_table_step: "add_table = group_step group_key new_table count_node"
  by (intro ext) (simp add: add_table_def group_step_def)

lemma add_active_part_step: "add_active_part = group_step part_key new_partition_aggregate count_active_part"
  by (intro ext) (simp add: add_active_part_def group_step_def)

lemma group_fold:
  "amap_get (foldl (group_step key new cnt) m xs) k =
   (case filter (\<lambda>x. key x = k) xs of
      [] \<Rightarrow> amap_get m k
    | x # ys \<Rightarrow> Some (foldl (\<lambda>b y. cnt y b)
        (cnt x (case amap_get m k of Some b \<Rightarrow> b | None \<Rightarrow> new x)) ys))"
  by (induction xs arbitrary: m) (auto simp: group_step_def update_conv' split: list.splits)

lemma group_ok: "amap_ok m \<Longrightarrow> amap_ok (foldl (group_step key new cnt) m xs)"
  by (induction xs arbitrary: m) (simp_all add: group_step_def distinct_update)

lemma group_entry:
  "(k, b) \<in> set (foldl (group_step key new cnt) [] xs) \<longleftrightarrow>
   (\<exists>x ys. filter (\<lambda>x. key x = k) xs = x # ys \<and> b = foldl (\<lambda>b y. cnt y b) (new x) (x # ys))"
proof -
  have "(k, b) \<in> set (foldl (group_step key new cnt) [] xs) \<longleftrightarrow>
      amap_get (foldl (group_step key new cnt) [] xs) k = Some b"
    by (rule map_of_eq_Some_iff [symmetric]) (simp add: group_ok)
  then show ?thesis by (auto simp: group_fold split: list.splits)
qed

section \<open>Order of arrival\<close>

lemma stable_unique:
  "sorted (map k xs) \<Longrightarrow> sorted (map k ys) \<Longrightarrow> (\<And>v. filter (\<lambda>x. k x = v) xs = filter (\<lambda>x. k x = v) ys) \<Longrightarrow> xs = ys"
proof (induction xs arbitrary: ys)
  case Nil
  then have "filter (\<lambda>x. k x = v) ys = []" for v by simp
  then have "y \<notin> set ys" for y by (metis (mono_tags) filter_empty_conv)
  then show ?case by (cases ys) auto
next
  case (Cons x xs)
  from Cons.prems(3) [of "k x"] obtain y zs where ys: "ys = y # zs" by (cases ys) auto
  have "y \<in> set (filter (\<lambda>z. k z = k y) (x # xs))" unfolding Cons.prems(3) ys by simp
  then have "k x \<le> k y" using Cons.prems(1) by (auto split: if_splits)
  have "x \<in> set (filter (\<lambda>z. k z = k x) ys)" unfolding Cons.prems(3) [symmetric] by simp
  then have "k y \<le> k x" using Cons.prems(2) ys by (auto split: if_splits)
  with \<open>k x \<le> k y\<close> have eq: "k x = k y" by simp
  with Cons.prems(3) [of "k x"] ys have "x = y" by simp
  have "filter (\<lambda>z. k z = v) xs = filter (\<lambda>z. k z = v) zs" for v
    using Cons.prems(3) [of v] ys \<open>x = y\<close> by (simp split: if_splits)
  then have "xs = zs" using Cons.IH [of zs] Cons.prems(1,2) ys by simp
  with ys \<open>x = y\<close> show ?case by simp
qed

lemma gathered_map: "fair_order E \<Longrightarrow> gathered E what (map f xs) = map f (gathered E what xs)"
proof -
  assume "fair_order E"
  then have "mset (ce_order E what (length xs)) = mset [0..<length xs]" by (simp add: fair_order_def)
  then have "set (ce_order E what (length xs)) = set [0..<length xs]" by (rule mset_eq_setD)
  then show ?thesis by (auto simp: gathered_def)
qed

lemma concat_one_group:
  assumes "distinct (map g zs)" and "\<And>x y. x \<in> set zs \<Longrightarrow> y \<in> set (f x) \<Longrightarrow> k y = g x"
  shows "filter (\<lambda>y. k y = v) (concat (map f zs)) = (case map_of (map (\<lambda>x. (g x, x)) zs) v of None \<Rightarrow> [] | Some x \<Rightarrow> f x)"
  using assms
proof (induction zs)
  case Nil
  then show ?case by simp
next
  case (Cons z zs)
  have all: "k y = g z" if "y \<in> set (f z)" for y using Cons.prems(2) that by simp
  show ?case
  proof (cases "g z = v")
    case True
    then have "map_of (map (\<lambda>x. (g x, x)) zs) v = None" using Cons.prems(1) by (auto simp: map_of_eq_None_iff image_iff)
    moreover have "filter (\<lambda>y. k y = v) (f z) = f z" using all True by (simp add: filter_id_conv)
    ultimately show ?thesis using Cons True by simp
  next
    case False
    then have "filter (\<lambda>y. k y = v) (f z) = []" using all by (simp add: filter_empty_conv)
    with Cons False show ?thesis by simp
  qed
qed

text \<open>A fan-out sorted by node does not depend on the order in which the nodes answered.\<close>

lemma sorted_fanout:
  assumes "fair_order E" and "distinct (map g cs)"
    and "\<And>x y. x \<in> set cs \<Longrightarrow> y \<in> set (f x) \<Longrightarrow> k y = g x"
  shows "sort_by k (concat (map f (gathered E what cs))) = sort_by k (concat (map f cs))"
proof (rule stable_unique [of k])
  let ?zs = "gathered E what cs"
  have m: "mset ?zs = mset cs" by (rule gathered_mset [OF assms(1)])
  then have s: "set ?zs = set cs" by (rule mset_eq_setD)
  have "mset (map g ?zs) = mset (map g cs)" using m by simp
  then have d: "distinct (map g ?zs)" using assms(2) by (metis mset_eq_imp_distinct_iff)
  have mm: "mset (map (\<lambda>x. (g x, x)) ?zs) = mset (map (\<lambda>x. (g x, x)) cs)" using m by simp
  have "map_of (map (\<lambda>x. (g x, x)) ?zs) = map_of (map (\<lambda>x. (g x, x)) cs)"
    by (subst map_of_inject_set) (simp_all only: map_map comp_def fst_conv d assms(2) mset_eq_setD [OF mm])
  moreover have "filter (\<lambda>y. k y = v) (concat (map f ?zs)) =
      (case map_of (map (\<lambda>x. (g x, x)) ?zs) v of None \<Rightarrow> [] | Some x \<Rightarrow> f x)" for v
  proof (rule concat_one_group [OF d])
    fix x y assume "x \<in> set ?zs" "y \<in> set (f x)"
    then show "k y = g x" unfolding s by (rule assms(3))
  qed
  moreover have "filter (\<lambda>y. k y = v) (concat (map f cs)) =
      (case map_of (map (\<lambda>x. (g x, x)) cs) v of None \<Rightarrow> [] | Some x \<Rightarrow> f x)" for v
    by (rule concat_one_group [OF assms(2,3)])
  ultimately show "filter (\<lambda>y. k y = v) (sort_by k (concat (map f ?zs))) = filter (\<lambda>y. k y = v) (sort_by k (concat (map f cs)))" for v
    by (simp only: sort_by_stable)
qed (simp_all add: sorted_sort_by)

lemma sort_unique:
  assumes "mset xs = mset ys" and "inj_on k (set ys)"
  shows "sort_by k xs = sort_by k ys"
proof -
  have "inj_on k (set xs)" using assms(2) mset_eq_setD [OF assms(1)] by simp
  then show ?thesis
    unfolding sort_by_is_sort by (rule sort_key_inj_key_eq [rotated]) (simp_all add: assms(1))
qed

section \<open>The table rollup\<close>

lemma all_rows_Inr: "all_rows q = Inr rows \<longleftrightarrow> q = Inr (rows, EndOfRows)"
  by (auto simp: all_rows_def split: sum.splits prod.splits row_end.splits)

text \<open>Every row of a node's tables carries the node.\<close>

definition states_of :: "Node \<Rightarrow> table_states \<Rightarrow> bool" where
  "states_of node states \<longleftrightarrow> (\<forall>w t. amap_get states w = Some t \<longrightarrow> tst_Node t = node)"

lemma states_of_fold:
  "states_of node states \<Longrightarrow> (\<And>r s. states_of node s \<Longrightarrow> states_of node (put r s)) \<Longrightarrow> states_of node (fold put rows states)"
  by (induction rows arbitrary: states) auto

lemma states_of_upd:
  "states_of node states \<Longrightarrow> (\<And>t. tst_Node (f t) = tst_Node t) \<Longrightarrow> states_of node (upd_state w f states)"
  by (auto simp: states_of_def upd_state_def update_conv' split: option.splits if_splits)

lemma states_of_identity: "states_of (cl_Node cl) states \<Longrightarrow> states_of (cl_Node cl) (put_identity cl row states)"
  by (auto simp: states_of_def put_identity_def identity_of_row_def update_conv' Let_def split: prod.splits if_splits)

lemma states_of_aggregate: "states_of node states \<Longrightarrow> states_of node (put_aggregate row states)"
  by (cases row) (auto simp: put_aggregate_def intro!: states_of_upd)

lemma states_of_replica: "states_of node states \<Longrightarrow> states_of node (put_replica row states)"
  by (cases row) (auto simp: put_replica_def intro!: states_of_upd)

lemma table_states_node:
  assumes "collectTableStates c cl = Inr items" and "t \<in> set items"
  shows "tst_Node t = cl_Node cl"
proof (cases "co_watches c = []")
  case True
  with assms show ?thesis by (simp add: collectTableStates_def)
next
  case False
  with assms obtain rows1 rows2 rows3 where
    "items = List.map_filter (amap_get (fold put_replica rows3 (fold put_aggregate rows2 (fold (put_identity cl) rows1 []))))
       (co_watches c) \<or> items = []"
    by (auto simp: collectTableStates_def collectTableIdentities_def collectTablePartAggregates_def
        collectReplicaStates_def split_beta split: sum.splits if_splits)
  moreover have "states_of (cl_Node cl) []" by (simp add: states_of_def)
  then have "states_of (cl_Node cl) (fold put_replica rows3 (fold put_aggregate rows2 (fold (put_identity cl) rows1 [])))"
    by (intro states_of_fold states_of_replica states_of_aggregate states_of_identity)
  ultimately show ?thesis using assms(2) by (auto simp: states_of_def set_map_filter_some)
qed

lemma table_entry:
  "(k, a) \<in> set (group_tables items) \<longleftrightarrow>
   (\<exists>t ts. filter (\<lambda>t. group_key t = k) (sort_by (\<lambda>t. nd_ID (tst_Node t)) items) = t # ts \<and>
      a = foldl (\<lambda>a t. count_node t a) (new_table t) (t # ts))"
  unfolding group_tables_def add_table_step by (rule group_entry)

lemma count_node_names:
  "ta_database (foldl (\<lambda>a t. count_node t a) a ts) = ta_database a"
  "ta_table (foldl (\<lambda>a t. count_node t a) a ts) = ta_table a"
  by (induction ts arbitrary: a) (simp_all add: count_node_def)

lemma table_entry_key: "(k, a) \<in> set (group_tables items) \<Longrightarrow> k = ta_database a @ nul @ ta_table a"
proof -
  assume "(k, a) \<in> set (group_tables items)"
  then obtain t ts where f: "filter (\<lambda>t. group_key t = k) (sort_by (\<lambda>t. nd_ID (tst_Node t)) items) = t # ts"
    and a: "a = foldl (\<lambda>a t. count_node t a) (new_table t) (t # ts)" unfolding table_entry by blast
  have "t \<in> set (filter (\<lambda>t. group_key t = k) (sort_by (\<lambda>t. nd_ID (tst_Node t)) items))" unfolding f by simp
  then have "group_key t = k" by simp
  then show ?thesis unfolding a count_node_names by (simp add: group_key_def new_table_def)
qed

lemma finish_table_names [simp]:
  "ta_database (finish_table conditions a) = ta_database a" "ta_table (finish_table conditions a) = ta_table a"
  by (simp_all add: finish_table_def)

lemma aggregates_mset:
  "fair_order E \<Longrightarrow> mset (aggregateTables E items conditions) =
     mset (map (\<lambda>(k, a). finish_table conditions a) (group_tables items))"
  by (simp add: aggregateTables_def mset_map gathered_mset)

lemma aggregates_inj:
  "inj_on (\<lambda>a. (ta_database a, ta_table a)) (set (map (\<lambda>(k, a). finish_table conditions a) (group_tables items)))"
proof (rule inj_onI)
  fix x y
  assume "x \<in> set (map (\<lambda>(k, a). finish_table conditions a) (group_tables items))"
    "y \<in> set (map (\<lambda>(k, a). finish_table conditions a) (group_tables items))"
    and same: "(ta_database x, ta_table x) = (ta_database y, ta_table y)"
  then obtain k a l b where xy: "(k, a) \<in> set (group_tables items)" "x = finish_table conditions a"
    "(l, b) \<in> set (group_tables items)" "y = finish_table conditions b" by auto
  have "k = ta_database a @ nul @ ta_table a" using xy(1) by (rule table_entry_key)
  moreover have "l = ta_database b @ nul @ ta_table b" using xy(3) by (rule table_entry_key)
  ultimately have "k = l" using same xy(2,4) by simp
  moreover have "amap_ok (group_tables items)"
    unfolding group_tables_def add_table_step by (rule group_ok) simp
  ultimately show "x = y" using xy by (metis eq_key_imp_eq_value)
qed

text \<open>The table listing does not depend on timing: whatever order the nodes answer in, and whatever
  order Go iterates its maps in, the rollup of the collected tables, sorted as the listing sorts it, is
  the same, as long as the node names are distinct (the configuration requires it).\<close>

theorem table_rollup_deterministic:
  assumes "fair_order E1" "fair_order E2" "distinct (map (\<lambda>cl. nd_ID (cl_Node cl)) (co_clients c))"
  shows "sort_by (\<lambda>a. (ta_database a, ta_table a)) (aggregateTables E1 (res_Items (CollectTables E1 c)) conditions) =
    sort_by (\<lambda>a. (ta_database a, ta_table a)) (aggregateTables E2 (res_Items (CollectTables E2 c)) conditions)"
proof -
  define f where "f cl = (case collectTableStates c cl of Inl e \<Rightarrow> [] | Inr items \<Rightarrow> items)" for cl
  have items: "res_Items (CollectTables E c) = concat (map f (gathered E [''tables''] (co_clients c)))"
    if "fair_order E" for E
    by (simp add: CollectTables_def collectPerNode_def collect_result_def Let_def gathered_map [OF that] comp_def
        f_def [abs_def] or_warning_def sum.case_distrib [of fst] cong: sum.case_cong)
  have sorted: "sort_by (\<lambda>t. nd_ID (tst_Node t)) (res_Items (CollectTables E c)) =
      sort_by (\<lambda>t. nd_ID (tst_Node t)) (concat (map f (co_clients c)))" if "fair_order E" for E
    unfolding items [OF that]
  proof (rule sorted_fanout [OF that assms(3)])
    fix cl t assume "t \<in> set (f cl)"
    then show "nd_ID (tst_Node t) = nd_ID (cl_Node cl)"
      by (cases "collectTableStates c cl") (auto simp: f_def dest: table_states_node)
  qed
  have "group_tables (res_Items (CollectTables E1 c)) = group_tables (res_Items (CollectTables E2 c))"
    unfolding group_tables_def sorted [OF assms(1)] sorted [OF assms(2)] ..
  then show ?thesis
    by (intro sort_unique) (simp_all only: aggregates_mset [OF assms(1)] aggregates_mset [OF assms(2)],
        metis aggregates_inj aggregates_mset [OF assms(2)] mset_eq_setD)
qed

section \<open>What a rollup adds up\<close>

lemma count_node_sums:
  "ta_rows (foldl (\<lambda>a t. count_node t a) a ts) = ta_rows a + sum_list (map tst_Rows ts)"
  "ta_bytesOnDisk (foldl (\<lambda>a t. count_node t a) a ts) = ta_bytesOnDisk a + sum_list (map tst_BytesOnDisk ts)"
  "ta_activeParts (foldl (\<lambda>a t. count_node t a) a ts) = ta_activeParts a + sum_list (map tst_ActiveParts ts)"
  "ta_nodes (foldl (\<lambda>a t. count_node t a) a ts) = ta_nodes a @ ts"
  by (induction ts arbitrary: a) (simp_all add: count_node_def add.assoc)

text \<open>The least of a set of optional values, as the fold keeps it.\<close>

definition least_of :: "'a :: linorder set \<Rightarrow> 'a option" where
  "least_of S = (if S = {} then None else Some (Min S))"

definition most_of :: "'a :: linorder set \<Rightarrow> 'a option" where
  "most_of S = (if S = {} then None else Some (Max S))"

lemma least_of_insert:
  assumes "finite S"
  shows "least_of (insert x S) = (if least_of S = None \<or> x < the (least_of S) then Some x else least_of S)"
proof (cases "S = {}")
  case True
  then show ?thesis by (simp add: least_of_def)
next
  case False
  with assms have "Min (insert x S) = min x (Min S)" by (rule Min_insert)
  with False show ?thesis by (simp add: least_of_def min_def not_less) (metis nle_le)
qed

lemma most_of_insert:
  assumes "finite S"
  shows "most_of (insert x S) = (if most_of S = None \<or> the (most_of S) < x then Some x else most_of S)"
proof (cases "S = {}")
  case True
  then show ?thesis by (simp add: most_of_def)
next
  case False
  with assms have "Max (insert x S) = max x (Max S)" by (rule Max_insert)
  with False show ?thesis by (simp add: most_of_def max_def not_less) (metis leD)
qed

definition given :: "('a \<Rightarrow> 'b option) \<Rightarrow> 'a list \<Rightarrow> 'b set" where
  "given f xs = {y. \<exists>x \<in> set xs. f x = Some y}"

lemma given_snoc: "given f (xs @ [x]) = (case f x of None \<Rightarrow> given f xs | Some y \<Rightarrow> insert y (given f xs))"
  by (auto simp: given_def split: option.splits)

lemma given_finite: "finite (given f xs)"
proof -
  have "given f xs \<subseteq> (\<lambda>x. the (f x)) ` set xs" by (force simp: given_def)
  then show ?thesis by (rule finite_subset) simp
qed

lemma count_node_fields:
  "ta_minPartition (count_node t a) =
     (if ta_minPartition a = None \<or> stringLess (tst_MinPartition t) (ta_minPartition a)
      then tst_MinPartition t else ta_minPartition a)"
  "ta_maxPartition (count_node t a) =
     (if stringGreater (tst_MaxPartition t) (ta_maxPartition a) then tst_MaxPartition t else ta_maxPartition a)"
  "ta_lastModificationTime (count_node t a) = later (tst_LastModificationTime t) (ta_lastModificationTime a)"
  by (simp_all add: count_node_def)

lemma count_node_extremes:
  "ta_minPartition (foldl (\<lambda>a t. count_node t a) (new_table t0) ts) = least_of (given tst_MinPartition ts)"
  "ta_maxPartition (foldl (\<lambda>a t. count_node t a) (new_table t0) ts) = most_of (given tst_MaxPartition ts)"
proof (induction ts rule: rev_induct)
  case Nil
  { case 1 show ?case by (simp add: new_table_def given_def least_of_def) }
  { case 2 show ?case by (simp add: new_table_def given_def most_of_def) }
next
  case (snoc t ts)
  { case 1
    have "ta_minPartition (foldl (\<lambda>a t. count_node t a) (new_table t0) (ts @ [t])) =
        (if least_of (given tst_MinPartition ts) = None \<or> stringLess (tst_MinPartition t) (least_of (given tst_MinPartition ts))
         then tst_MinPartition t else least_of (given tst_MinPartition ts))"
      by (simp add: count_node_fields snoc.IH)
    then show ?case
      by (cases "tst_MinPartition t"; cases "least_of (given tst_MinPartition ts)")
        (simp_all add: given_snoc least_of_insert [OF given_finite] stringLess_def) }
  { case 2
    have "ta_maxPartition (foldl (\<lambda>a t. count_node t a) (new_table t0) (ts @ [t])) =
        (if stringGreater (tst_MaxPartition t) (most_of (given tst_MaxPartition ts))
         then tst_MaxPartition t else most_of (given tst_MaxPartition ts))"
      by (simp add: count_node_fields snoc.IH)
    then show ?case
      by (cases "tst_MaxPartition t"; cases "most_of (given tst_MaxPartition ts)")
        (simp_all add: given_snoc most_of_insert [OF given_finite] stringGreater_def) }
qed

lemma later_most:
  "most_of S = m \<Longrightarrow> finite S \<Longrightarrow> most_of (case x of None \<Rightarrow> S | Some y \<Rightarrow> insert y S) = later x m"
  by (cases x; cases m) (auto simp: later_def timeGreater_def most_of_insert)

lemma count_node_latest:
  "ta_lastModificationTime (foldl (\<lambda>a t. count_node t a) (new_table t0) (t0 # ts)) =
   most_of (given tst_LastModificationTime (t0 # ts))"
proof (induction ts rule: rev_induct)
  case Nil
  have "later x x = x" for x :: "gtime option" by (simp add: later_def)
  then show ?case
    by (cases "tst_LastModificationTime t0") (simp_all add: count_node_fields new_table_def given_def most_of_def)
next
  case (snoc t ts)
  from later_most [OF snoc [symmetric] given_finite, of "tst_LastModificationTime t"]
  show ?case by (simp add: count_node_fields) (metis append_Cons given_snoc)
qed

lemma finish_table_fields:
  "ta_rows (finish_table conds a) = ta_rows a"
  "ta_bytesOnDisk (finish_table conds a) = ta_bytesOnDisk a"
  "ta_activeParts (finish_table conds a) = ta_activeParts a"
  "ta_minPartition (finish_table conds a) = ta_minPartition a"
  "ta_maxPartition (finish_table conds a) = ta_maxPartition a"
  "ta_lastModificationTime (finish_table conds a) = ta_lastModificationTime a"
  "ta_nodesObserved (finish_table conds a) = count_distinct (map (\<lambda>t. nd_ID (tst_Node t)) (ta_nodes a))"
  by (simp_all add: finish_table_def)

lemma sum_list_perm:
  fixes f :: "'a \<Rightarrow> 'b :: comm_monoid_add"
  shows "mset xs = mset ys \<Longrightarrow> sum_list (map f xs) = sum_list (map f ys)"
  by (metis mset_map sum_mset_sum_list)

text \<open>What a row of the listing must say about the node rows \<open>mine\<close> it stands for.\<close>

definition rolls_up :: "tableAggregate \<Rightarrow> TableState list \<Rightarrow> bool" where
  "rolls_up a mine \<longleftrightarrow>
     mine \<noteq> [] \<and>
     ta_rows a = sum_list (map tst_Rows mine) \<and>
     ta_bytesOnDisk a = sum_list (map tst_BytesOnDisk mine) \<and>
     ta_activeParts a = sum_list (map tst_ActiveParts mine) \<and>
     ta_nodesObserved a = int (card ((\<lambda>t. nd_ID (tst_Node t)) ` set mine)) \<and>
     ta_minPartition a = least_of (given tst_MinPartition mine) \<and>
     ta_maxPartition a = most_of (given tst_MaxPartition mine) \<and>
     ta_lastModificationTime a = most_of (given tst_LastModificationTime mine)"

lemma entry_rolls_up:
  assumes "(k, a) \<in> set (group_tables items)"
  shows "rolls_up (finish_table conds a) (filter (\<lambda>t. group_key t = k) items)"
proof -
  let ?sorted = "sort_by (\<lambda>t. nd_ID (tst_Node t)) items" and ?mine = "filter (\<lambda>t. group_key t = k) items"
  obtain t ts where f: "filter (\<lambda>t. group_key t = k) ?sorted = t # ts"
    and a: "a = foldl (\<lambda>a t. count_node t a) (new_table t) (t # ts)" using assms unfolding table_entry by blast
  have m: "mset ?mine = mset (t # ts)" unfolding f [symmetric] by simp
  then have s: "set ?mine = set (t # ts)" by (rule mset_eq_setD)
  have g: "given h ?mine = given h (t # ts)" for h :: "TableState \<Rightarrow> 'x option" unfolding given_def s ..
  have n: "?mine \<noteq> []" using s by (metis list.distinct(1) set_empty)
  have sums: "sum_list (map h ?mine) = sum_list (map h (t # ts))" for h :: "TableState \<Rightarrow> u64"
    by (rule sum_list_perm [OF m])
  have nodes: "count_distinct (map (\<lambda>t. nd_ID (tst_Node t)) (ta_nodes a)) = int (card ((\<lambda>t. nd_ID (tst_Node t)) ` set ?mine))"
    unfolding a count_node_sums s by (simp add: count_distinct_def new_table_def length_remdups_card_conv insert_absorb)
  show ?thesis
    unfolding rolls_up_def finish_table_fields nodes
    unfolding a count_node_sums count_node_extremes count_node_latest sums given_def s
    using n by (simp add: new_table_def given_def)
qed

text \<open>C30: The table listing is a group-by of the node rows: one row per table that some node
  reported and no other, with the sums of rows, bytes and active parts over its nodes (as 64-bit
  words), the number of distinct nodes, the least and greatest partition and the latest modification
  among those the nodes gave.\<close>

theorem table_rollup_exact:
  assumes "fair_order E"
  shows "(\<lambda>a. ta_database a @ nul @ ta_table a) ` set (aggregateTables E items conditions) = group_key ` set items \<and>
    distinct (map (\<lambda>a. ta_database a @ nul @ ta_table a) (aggregateTables E items conditions)) \<and>
    list_all (\<lambda>a. rolls_up a (filter (\<lambda>t. group_key t = ta_database a @ nul @ ta_table a) items))
      (aggregateTables E items conditions)"
proof -
  let ?out = "aggregateTables E items conditions" and ?key = "\<lambda>a. ta_database a @ nul @ ta_table a"
  have ok: "amap_ok (group_tables items)" unfolding group_tables_def add_table_step by (rule group_ok) simp
  have key: "?key (finish_table conditions a) = k" if "(k, a) \<in> set (group_tables items)" for k a
    using table_entry_key [OF that] by simp
  have keys: "map ?key (map (\<lambda>(k, a). finish_table conditions a) (group_tables items)) = map fst (group_tables items)"
    using key by auto
  have dom: "fst ` set (group_tables items) = group_key ` set items"
  proof -
    have "k \<in> fst ` set (group_tables items) \<longleftrightarrow> filter (\<lambda>t. group_key t = k) (sort_by (\<lambda>t. nd_ID (tst_Node t)) items) \<noteq> []" for k
    proof -
      have "k \<in> fst ` set (group_tables items) \<longleftrightarrow> (\<exists>a. (k, a) \<in> set (group_tables items))" by force
      then show ?thesis unfolding table_entry neq_Nil_conv by blast
    qed
    then have "k \<in> fst ` set (group_tables items) \<longleftrightarrow> (\<exists>t \<in> set items. group_key t = k)" for k
      by (simp add: filter_empty_conv)
    then show ?thesis unfolding set_eq_iff by (metis image_iff)
  qed
  have out: "set ?out = set (map (\<lambda>(k, a). finish_table conditions a) (group_tables items))"
    using aggregates_mset [OF assms] by (rule mset_eq_setD)
  have m: "mset (map ?key ?out) = mset (map fst (group_tables items))"
    using arg_cong [OF aggregates_mset [OF assms, of items conditions], of "image_mset ?key"]
    unfolding keys [symmetric] mset_map [symmetric] .
  have d: "distinct (map ?key ?out)" using mset_eq_imp_distinct_iff [OF m] ok by (rule iffD2)
  have "set (map ?key ?out) = set (map fst (group_tables items))" using m by (rule mset_eq_setD)
  then have i: "?key ` set ?out = group_key ` set items" unfolding set_map dom .
  have "rolls_up b (filter (\<lambda>t. group_key t = ?key b) items)" if "b \<in> set ?out" for b
  proof -
    from that out obtain k a where ka: "(k, a) \<in> set (group_tables items)" "b = finish_table conditions a" by auto
    then show ?thesis using entry_rolls_up [OF ka(1)] key [OF ka(1)] by simp
  qed
  with i d show ?thesis by (simp add: list_all_iff)
qed

section \<open>The partition rollup\<close>

lemma total_put:
  fixes w :: "'v \<Rightarrow> 'n :: ab_group_add"
  shows "(\<Sum>e\<leftarrow>amap_put k v m. w (snd e)) =
    (\<Sum>e\<leftarrow>m. w (snd e)) + w v - (case amap_get m k of None \<Rightarrow> 0 | Some u \<Rightarrow> w u)"
  by (induction m) (auto split: option.splits simp: algebra_simps)

lemma partition_entry:
  "(k, a) \<in> set (group_partitions parts) \<longleftrightarrow>
   (\<exists>p ps. filter (\<lambda>p. part_key p = k) (filter pt_Active (sort_by (\<lambda>p. nd_ID (pt_Node p)) parts)) = p # ps \<and>
      a = foldl (\<lambda>a p. count_active_part p a) (new_partition_aggregate p) (p # ps))"
  unfolding group_partitions_def add_active_part_step by (rule group_entry)

text \<open>What a partition of the listing must say about the active parts \<open>mine\<close> it stands for: its own
  sums, and that its placements (one per node and disk) add up to them.\<close>

definition places :: "partitionAggregate \<Rightarrow> Part list \<Rightarrow> bool" where
  "places a mine \<longleftrightarrow>
     pa_activeParts a = of_nat (length mine) \<and>
     pa_rows a = sum_list (map pt_Rows mine) \<and>
     pa_bytesOnDisk a = sum_list (map pt_BytesOnDisk mine) \<and>
     set (pa_disks a) = pt_Disk ` set mine \<and> distinct (pa_disks a) \<and>
     pa_lastModificationTime a = most_of (pt_ModificationTime ` set mine) \<and>
     distinct (map fst (pa_placements a)) \<and> fst ` set (pa_placements a) = placement_key ` set mine \<and>
     (\<Sum>e\<leftarrow>pa_placements a. ppa_activeParts (snd e)) = pa_activeParts a \<and>
     (\<Sum>e\<leftarrow>pa_placements a. ppa_rows (snd e)) = pa_rows a \<and>
     (\<Sum>e\<leftarrow>pa_placements a. ppa_bytesOnDisk (snd e)) = pa_bytesOnDisk a"

lemma count_active_part_fields:
  "pa_activeParts (count_active_part p a) = pa_activeParts a + 1"
  "pa_rows (count_active_part p a) = pa_rows a + pt_Rows p"
  "pa_bytesOnDisk (count_active_part p a) = pa_bytesOnDisk a + pt_BytesOnDisk p"
  "pa_disks (count_active_part p a) = List.insert (pt_Disk p) (pa_disks a)"
  "pa_lastModificationTime (count_active_part p a) = later (Some (pt_ModificationTime p)) (pa_lastModificationTime a)"
  "pa_placements (count_active_part p a) = amap_put (placement_key p)
     (count_placement p (case amap_get (pa_placements a) (placement_key p) of
        Some q \<Rightarrow> q | None \<Rightarrow> new_placement p)) (pa_placements a)"
  by (simp_all add: count_active_part_def)

lemma places_step: "places a ps \<Longrightarrow> places (count_active_part p a) (ps @ [p])"
proof -
  assume h: "places a ps"
  have fresh: "ppa_activeParts (new_placement p) = 0" "ppa_rows (new_placement p) = 0" "ppa_bytesOnDisk (new_placement p) = 0"
    by (simp_all add: new_placement_def)
  have cnt: "ppa_activeParts (count_placement p q) = ppa_activeParts q + 1"
    "ppa_rows (count_placement p q) = ppa_rows q + pt_Rows p"
    "ppa_bytesOnDisk (count_placement p q) = ppa_bytesOnDisk q + pt_BytesOnDisk p" for q
    by (simp_all add: count_placement_def)
  have time: "most_of (pt_ModificationTime ` set (ps @ [p])) = later (Some (pt_ModificationTime p)) (pa_lastModificationTime a)"
    using later_most [of "pt_ModificationTime ` set ps" "pa_lastModificationTime a" "Some (pt_ModificationTime p)"] h
    by (simp add: places_def)
  show ?thesis
    using h unfolding places_def count_active_part_fields time
    by (cases "amap_get (pa_placements a) (placement_key p)")
      (auto simp: total_put fresh cnt distinct_update dom_update algebra_simps)
qed

lemma places_fold:
  "places (foldl (\<lambda>a p. count_active_part p a) (new_partition_aggregate p0) ps) ps"
proof (induction ps rule: rev_induct)
  case Nil
  then show ?case by (simp add: places_def new_partition_aggregate_def most_of_def)
next
  case (snoc p ps)
  from places_step [OF snoc] show ?case by simp
qed

lemma places_perm:
  assumes "places a ps" and "mset ps = mset qs"
  shows "places a qs"
proof -
  have s: "set ps = set qs" using assms(2) by (rule mset_eq_setD)
  have l: "length ps = length qs" using assms(2) by (rule mset_eq_length)
  show ?thesis
    using assms(1) sum_list_perm [OF assms(2), of pt_Rows] sum_list_perm [OF assms(2), of pt_BytesOnDisk]
    unfolding places_def s l by simp
qed

lemma count_active_part_names:
  "pa_database (foldl (\<lambda>a p. count_active_part p a) a ps) = pa_database a"
  "pa_table (foldl (\<lambda>a p. count_active_part p a) a ps) = pa_table a"
  "pa_partitionID (foldl (\<lambda>a p. count_active_part p a) a ps) = pa_partitionID a"
  by (induction ps arbitrary: a) (simp_all add: count_active_part_def)

definition listed_key :: "partitionAggregate \<Rightarrow> string" where
  "listed_key a = pa_database a @ nul @ pa_table a @ nul @ pa_partitionID a"


section \<open>Concrete rollups\<close>

definition forward_env :: collect_env where
  "forward_env = reverse_env\<lparr>ce_order := \<lambda>what n. [0..<n]\<rparr>"

lemma forward_fair: "fair_order forward_env"
  by (simp add: fair_order_def forward_env_def)

definition state_row :: "u64 \<Rightarrow> string option \<Rightarrow> TableState" where
  "state_row n least =
     \<lparr>tst_Node = node_at ''n0'' ''s1'' ''r1'', tst_Database = ''db'', tst_Table = ''t'', tst_UUID = ''u'',
      tst_Engine = ''MergeTree'', tst_StoragePolicy = ''hot_cold'', tst_PartitionKey = ''toDate(ts)'',
      tst_SortingKey = ''ts'', tst_PrimaryKey = ''ts'', tst_SamplingKey = '''', tst_IsReplicated = False,
      tst_ActivePartitions = 1, tst_ActiveParts = 1, tst_Rows = n, tst_BytesOnDisk = n, tst_MinPartition = least,
      tst_MaxPartition = least, tst_LastModificationTime = None, tst_Replica = None\<rparr>"

definition two_nodes :: Collector where
  "two_nodes =
     \<lparr>co_clients = [\<lparr>cl_Node = node_at ''n1'' ''s1'' ''r1'', cl_DB = quiet_db\<lparr>d_identities := \<lambda>p a. Inr ([(state_row 1 None, 0)], EndOfRows)\<rparr>\<rparr>,
                     \<lparr>cl_Node = node_at ''n2'' ''s1'' ''r2'', cl_DB = quiet_db\<lparr>d_identities := \<lambda>p a. Inr ([(state_row 2 None, 1)], EndOfRows)\<rparr>\<rparr>],
      co_watches = [watch_of ''db'' ''t'']\<rparr>"

theorem table_rollup_deterministic_witness:
  "sort_by (\<lambda>a. (ta_database a, ta_table a)) (aggregateTables reverse_env (res_Items (CollectTables reverse_env two_nodes)) []) =
   sort_by (\<lambda>a. (ta_database a, ta_table a)) (aggregateTables forward_env (res_Items (CollectTables forward_env two_nodes)) [])"
  by (rule table_rollup_deterministic [OF reverse_fair forward_fair])
    (simp add: two_nodes_def node_at_def)

theorem table_rollup_exact_witness:
  "(\<lambda>a. ta_database a @ nul @ ta_table a) `
     set (aggregateTables reverse_env [state_row 1 (Some ''b''), state_row 2 (Some ''a'')] []) = {''db'' @ nul @ ''t''}"
proof -
  have "group_key ` set [state_row 1 (Some ''b''), state_row 2 (Some ''a'')] = {''db'' @ nul @ ''t''}"
    by (simp add: group_key_def state_row_def)
  with table_rollup_exact [OF reverse_fair, of "[state_row 1 (Some ''b''), state_row 2 (Some ''a'')]" "[]"]
  show ?thesis by (elim conjE) (simp only:)
qed


end
