(* ===== verification/RestMapping.thy ===== *)
theory RestMapping
  imports Aggregate
begin

text \<open>
  The cluster-state half of \<open>internal/server/mapping.go\<close>: from the collected records to the
  response types of the API (\<open>api/rest\<close>, generated). A generated \<open>Opt\<close> or \<open>Nil\<close> type is an
  option; \<open>OptNil\<close> has three values. 64-bit numbers travel as decimal strings. An
  array that is left out when it is nil is an option; the others are lists.
\<close>

section \<open>Scalars\<close>

datatype 'a optnil = OptAbsent | OptNull | OptVal 'a

text \<open>Of \<open>url.URL\<close>, the fields the program sets; \<open>url_Rest\<close> is whatever else \<open>url.Parse\<close> fills.\<close>

record go_url =
  url_Scheme :: string
  url_Opaque :: string
  url_Host :: string
  url_Rest :: string

text \<open>\<open>url.Parse\<close> and \<open>json.Marshal\<close> of an evidence value.\<close>

record api_env =
  ae_parse_url :: "string \<Rightarrow> gotext + go_url"
  ae_json :: "evidence \<Rightarrow> gotext + string"

definition api_u64 :: "u64 \<Rightarrow> string" where "api_u64 = show_u64"
definition api_i64 :: "int \<Rightarrow> string" where "api_i64 = show_int"

definition optU64 :: "u64 \<Rightarrow> string option" where "optU64 n = Some (api_u64 n)"
definition optI64 :: "int \<Rightarrow> string option" where "optI64 n = Some (api_i64 n)"

definition optNilU64Ptr :: "u64 option \<Rightarrow> string optnil" where
  "optNilU64Ptr n = (case n of None \<Rightarrow> OptNull | Some x \<Rightarrow> OptVal (api_u64 x))"

definition optI64Ptr :: "int option \<Rightarrow> string option" where
  "optI64Ptr n = (case n of None \<Rightarrow> None | Some x \<Rightarrow> optI64 x)"

definition optU64Ptr :: "u64 option \<Rightarrow> string option" where
  "optU64Ptr n = (case n of None \<Rightarrow> None | Some x \<Rightarrow> optU64 x)"

definition nilU64Ptr :: "u64 option \<Rightarrow> string option" where
  "nilU64Ptr n = (case n of None \<Rightarrow> None | Some x \<Rightarrow> Some (api_u64 x))"

definition nilStr :: "string \<Rightarrow> string option" where
  "nilStr s = (if s = '''' then None else Some s)"

definition nilStrPtr :: "string option \<Rightarrow> string option" where
  "nilStrPtr s = (case s of None \<Rightarrow> nilStr '''' | Some x \<Rightarrow> nilStr x)"

definition optNilStrPtr :: "string option \<Rightarrow> string optnil" where
  "optNilStrPtr s = (case s of None \<Rightarrow> OptNull | Some x \<Rightarrow> OptVal x)"

definition optNilStr :: "string \<Rightarrow> string optnil" where
  "optNilStr s = (if s = '''' then OptNull else OptVal s)"

definition optNonEmpty :: "string \<Rightarrow> string option" where
  "optNonEmpty s = (if s = '''' then None else Some s)"

text \<open>The same for a text that may be empty.\<close>

definition optNonEmptyText :: "gotext \<Rightarrow> gotext option" where
  "optNonEmptyText s = (if s = no_text then None else Some s)"

definition optNilTimePtr :: "gtime option \<Rightarrow> gtime optnil" where
  "optNilTimePtr t = (case t of None \<Rightarrow> OptNull | Some x \<Rightarrow> OptVal x)"

definition optTimePtr :: "gtime option \<Rightarrow> gtime option" where
  "optTimePtr t = (case t of None \<Rightarrow> None | Some x \<Rightarrow> Some x)"

definition aboutBlank :: go_url where
  "aboutBlank = \<lparr>url_Scheme = ''about'', url_Opaque = ''blank'', url_Host = '''', url_Rest = ''''\<rparr>"

definition millis :: "gdur \<Rightarrow> int" where "millis d = go_div d millisecond"

section \<open>Envelope and evidence\<close>

record CollectionWarning =
  cwn_Kind :: string
  cwn_Code :: string
  cwn_Message :: gotext
  cwn_NodeId :: "string option"

record CollectionMeta =
  cm_CollectedAt :: gtime
  cm_Partial :: bool
  cm_CollectionDurationMs :: int
  cm_NodesExpected :: int
  cm_NodesResponded :: int
  cm_NodesFailed :: int
  cm_Warnings :: "CollectionWarning list"

definition apiCollectionMeta :: "'a Result \<Rightarrow> CollectionMeta" where
  "apiCollectionMeta r =
     \<lparr>cm_CollectedAt = res_CollectedAt r, cm_Partial = Partial r,
      cm_CollectionDurationMs = millis (res_CollectionDuration r), cm_NodesExpected = res_NodesExpected r,
      cm_NodesResponded = res_NodesResponded r, cm_NodesFailed = res_NodesFailed r,
      cm_Warnings = map (\<lambda>w. \<lparr>cwn_Kind = wa_Kind w, cwn_Code = wa_Code w, cwn_Message = wa_Message w,
        cwn_NodeId = optNonEmpty (wa_NodeID w)\<rparr>) (res_Warnings r)\<rparr>"

text \<open>Evidence whose value does not marshal is left out; an empty map is absent, one whose values
  all fail is present and empty.\<close>

definition apiEvidence :: "api_env \<Rightarrow> (string \<times> evidence) list \<Rightarrow> (string \<times> string) list option" where
  "apiEvidence A evidence =
     (if evidence = [] then None
      else Some (List.map_filter (\<lambda>(k, v). case ae_json A v of Inl e \<Rightarrow> None | Inr raw \<Rightarrow> Some (k, raw)) evidence))"

definition apiLinks :: "(string \<times> string) list \<Rightarrow> (string \<times> string) list option" where
  "apiLinks links = (if links = [] then None else Some links)"

record EmbeddedCondition =
  ec_Code :: string
  ec_Severity :: string
  ec_Message :: "gotext option"
  ec_Count :: "int option"
  ec_Evidence :: "(string \<times> string) list option"

definition apiEmbeddedConditions :: "api_env \<Rightarrow> StateCondition list \<Rightarrow> EmbeddedCondition list" where
  "apiEmbeddedConditions A items =
     map (\<lambda>c. \<lparr>ec_Code = sc_Code c, ec_Severity = sc_Severity c, ec_Message = Some (sc_Message c), ec_Count = None,
              ec_Evidence = apiEvidence A (sc_Evidence c)\<rparr>) items"

record RestCondition =
  rc_ConditionId :: string
  rc_Severity :: string
  rc_Code :: string
  rc_Message :: gotext
  rc_Database :: "string optnil"
  rc_Table :: "string optnil"
  rc_Partition :: "string optnil"
  rc_PartitionId :: "string optnil"
  rc_NodeId :: "string optnil"
  rc_ObservedAt :: gtime
  rc_Evidence :: "(string \<times> string) list option"
  rc_Links :: "(string \<times> string) list option"

definition apiCondition :: "api_env \<Rightarrow> StateCondition \<Rightarrow> RestCondition" where
  "apiCondition A c =
     \<lparr>rc_ConditionId = sc_ConditionID c, rc_Severity = sc_Severity c, rc_Code = sc_Code c,
      rc_Message = sc_Message c, rc_Database = optNilStrPtr (sc_Database c), rc_Table = optNilStrPtr (sc_Table c),
      rc_Partition = optNilStrPtr (sc_Partition c), rc_PartitionId = optNilStrPtr (sc_PartitionID c),
      rc_NodeId = optNilStrPtr (sc_NodeID c), rc_ObservedAt = sc_ObservedAt c,
      rc_Evidence = apiEvidence A (sc_Evidence c), rc_Links = apiLinks (sc_Links c)\<rparr>"

section \<open>Nodes and disks\<close>

record ReplicationSummary =
  rsu_QueueSize :: "string option"
  rsu_AbsoluteDelaySeconds :: "string option"
  rsu_FutureParts :: "string option"
  rsu_TotalReplicas :: "string option"
  rsu_ActiveReplicas :: "string option"

record BackgroundPools =
  bpo_MergesAndMutations :: "string option"
  bpo_Moves :: "string option"
  bpo_Fetches :: "string option"

record RestNode =
  rn_NodeId :: string
  rn_Shard :: string
  rn_Replica :: string
  rn_Endpoint :: go_url
  rn_Reachable :: bool
  rn_ObservedAt :: gtime
  rn_Version :: "string option"
  rn_Timezone :: "string option"
  rn_UptimeSeconds :: "string option"
  rn_Readonly :: "bool option"
  rn_SessionExpired :: "bool option"
  rn_Replication :: "ReplicationSummary option"
  rn_BackgroundPools :: "BackgroundPools option"
  rn_LastError :: "gotext option"

text \<open>\<open>strings.LastIndex(addr, "@")\<close>, and what follows it.\<close>

fun after_last_at :: "string \<Rightarrow> string option" where
  "after_last_at [] = None"
| "after_last_at (ch # s) =
     (case after_last_at s of Some t \<Rightarrow> Some t | None \<Rightarrow> if ch = CHR ''@'' then Some s else None)"

definition strip_userinfo :: "string \<Rightarrow> string" where
  "strip_userinfo addr = (case after_last_at addr of Some t \<Rightarrow> t | None \<Rightarrow> addr)"

definition apiNodeEndpoint :: "api_env \<Rightarrow> string \<Rightarrow> go_url" where
  "apiNodeEndpoint A addr =
     (case ae_parse_url A (''clickhouse://'' @ strip_userinfo addr) of
        Inl e \<Rightarrow> \<lparr>url_Scheme = ''clickhouse'', url_Opaque = '''', url_Host = '''', url_Rest = ''''\<rparr>
      | Inr u \<Rightarrow> u)"

definition apiNode :: "api_env \<Rightarrow> NodeStatus \<Rightarrow> RestNode" where
  "apiNode A item =
     \<lparr>rn_NodeId = nd_ID (ns_Node item), rn_Shard = nd_Shard (ns_Node item), rn_Replica = nd_Replica (ns_Node item),
      rn_Endpoint = apiNodeEndpoint A (nd_Addr (ns_Node item)), rn_Reachable = ns_Reachable item,
      rn_ObservedAt = ns_ObservedAt item, rn_Version = optNonEmpty (ns_Version item),
      rn_Timezone = optNonEmpty (ns_Timezone item),
      rn_UptimeSeconds = (if ns_UptimeSeconds item \<noteq> 0 then optU64 (ns_UptimeSeconds item) else None),
      rn_Readonly = None, rn_SessionExpired = None, rn_Replication = None, rn_BackgroundPools = None,
      rn_LastError = optNonEmptyText (ns_LastError item)\<rparr>"

record RestStorageDisk =
  rd_NodeId :: string
  rd_Shard :: string
  rd_Replica :: string
  rd_Disk :: string
  rd_Type :: string
  rd_ObjectStorageType :: string
  rd_IsRemote :: bool
  rd_IsBroken :: bool
  rd_Path :: "string optnil"
  rd_CachePath :: "string optnil"
  rd_CapacityKnown :: bool
  rd_FreeSpaceBytes :: "string option"
  rd_TotalSpaceBytes :: "string option"
  rd_UnreservedSpaceBytes :: "string option"
  rd_UsedByActivePartsBytes :: string

definition apiDisk :: "Disk \<Rightarrow> RestStorageDisk" where
  "apiDisk item =
     \<lparr>rd_NodeId = nd_ID (dk_Node item), rd_Shard = nd_Shard (dk_Node item), rd_Replica = nd_Replica (dk_Node item),
      rd_Disk = dk_Name item, rd_Type = dk_Type item, rd_ObjectStorageType = dk_ObjectStorageType item,
      rd_IsRemote = dk_IsRemote item, rd_IsBroken = dk_IsBroken item, rd_Path = optNilStr (dk_Path item),
      rd_CachePath = optNilStr (dk_CachePath item), rd_CapacityKnown = dk_CapacityKnown item,
      rd_FreeSpaceBytes = nilU64Ptr (dk_FreeSpaceBytes item), rd_TotalSpaceBytes = nilU64Ptr (dk_TotalSpaceBytes item),
      rd_UnreservedSpaceBytes = nilU64Ptr (dk_UnreservedSpaceBytes item),
      rd_UsedByActivePartsBytes = api_u64 (dk_UsedByActiveParts item)\<rparr>"

section \<open>Tables\<close>

text \<open>\<open>url.QueryEscape\<close>.\<close>

definition hex_digit :: "nat \<Rightarrow> char" where
  "hex_digit n = (if n < 10 then char_of (48 + n) else char_of (55 + n))"

definition escape_byte :: "char \<Rightarrow> string" where
  "escape_byte ch =
     (let b = byte ch in
      if 48 \<le> b \<and> b \<le> 57 \<or> 65 \<le> b \<and> b \<le> 90 \<or> 97 \<le> b \<and> b \<le> 122 \<or> ch \<in> set ''-_.~'' then [ch]
      else if ch = CHR '' '' then ''+''
      else [CHR ''%'', hex_digit (b div 16), hex_digit (b mod 16)])"

definition queryEscape :: "string \<Rightarrow> string" where
  "queryEscape s = concat (map escape_byte s)"

definition count_of :: "(string, int) amap \<Rightarrow> string \<Rightarrow> int" where
  "count_of counts k = (case amap_get counts k of Some n \<Rightarrow> n | None \<Rightarrow> 0)"

record PlacementCounts =
  pc_OnTarget :: int
  pc_OffTarget :: int
  pc_Split :: int
  pc_ReplicaDivergent :: int
  pc_MissingReplica :: int
  pc_Unknown :: int

definition apiPlacementCounts :: "(string, int) amap \<Rightarrow> PlacementCounts" where
  "apiPlacementCounts counts =
     \<lparr>pc_OnTarget = count_of counts ''on_target'', pc_OffTarget = count_of counts ''off_target'',
      pc_Split = count_of counts ''split'', pc_ReplicaDivergent = count_of counts ''replica_divergent'',
      pc_MissingReplica = count_of counts ''missing_replica'', pc_Unknown = count_of counts ''unknown''\<rparr>"

record PartitionOperationCounts =
  poc_Moving :: int
  poc_Merging :: int
  poc_Mutating :: int
  poc_Fetching :: int

definition apiOperationCountsFixed :: "(string, int) amap \<Rightarrow> PartitionOperationCounts" where
  "apiOperationCountsFixed counts =
     \<lparr>poc_Moving = count_of counts ''moving'', poc_Merging = count_of counts ''merging'',
      poc_Mutating = count_of counts ''mutating'', poc_Fetching = count_of counts ''fetching''\<rparr>"

record TableListItem =
  tli_Database :: string
  tli_Table :: string
  tli_Engine :: string
  tli_StoragePolicy :: string
  tli_TargetDisk :: string
  tli_PartitionKey :: string
  tli_SortingKey :: string
  tli_PrimaryKey :: string
  tli_VersionColumn :: "string optnil"
  tli_NodesObserved :: int
  tli_ShardsObserved :: int
  tli_ReplicasPerShard :: int
  tli_ActivePartitions :: int
  tli_ActiveParts :: string
  tli_Rows :: string
  tli_BytesOnDisk :: string
  tli_PartitionPlacements :: PlacementCounts
  tli_PartitionOperations :: PartitionOperationCounts
  tli_ActiveOperations :: int
  tli_Conditions :: "EmbeddedCondition list"
  tli_Links :: "(string \<times> string) list"

definition apiTableListItem :: "api_env \<Rightarrow> tableAggregate \<Rightarrow> TableListItem" where
  "apiTableListItem A a =
     \<lparr>tli_Database = ta_database a, tli_Table = ta_table a, tli_Engine = ta_engine a,
      tli_StoragePolicy = ta_storagePolicy a, tli_TargetDisk = ta_targetDisk a, tli_PartitionKey = ta_partitionKey a,
      tli_SortingKey = ta_sortingKey a, tli_PrimaryKey = ta_primaryKey a,
      tli_VersionColumn = optNilStrPtr (ta_versionColumn a), tli_NodesObserved = ta_nodesObserved a,
      tli_ShardsObserved = ta_shardsObserved a, tli_ReplicasPerShard = ta_replicasPerShard a,
      tli_ActivePartitions = ta_activePartitions a, tli_ActiveParts = api_u64 (ta_activeParts a),
      tli_Rows = api_u64 (ta_rows a), tli_BytesOnDisk = api_u64 (ta_bytesOnDisk a),
      tli_PartitionPlacements = apiPlacementCounts (ta_partitionPlacements a),
      tli_PartitionOperations = apiOperationCountsFixed (ta_partitionOperations a),
      tli_ActiveOperations = ta_activeOperations a, tli_Conditions = apiEmbeddedConditions A (ta_conditions a),
      tli_Links = [(''partEvents'', ''/api/v1/part-events?database='' @ queryEscape (ta_database a) @
        ''&table='' @ queryEscape (ta_table a))]\<rparr>"

record RestReplicaState =
  rr_Readonly :: "bool option"
  rr_SessionExpired :: "bool option"
  rr_QueueSize :: "string option"
  rr_AbsoluteDelaySeconds :: "string option"
  rr_TotalReplicas :: "string option"
  rr_ActiveReplicas :: "string option"

record NodeTableState =
  nts_NodeId :: string
  nts_Engine :: string
  nts_ActiveParts :: string
  nts_Rows :: string
  nts_BytesOnDisk :: string
  nts_Replica :: "RestReplicaState option"

definition apiNodeTableState :: "TableState \<Rightarrow> NodeTableState" where
  "apiNodeTableState t =
     \<lparr>nts_NodeId = nd_ID (tst_Node t), nts_Engine = tst_Engine t, nts_ActiveParts = api_u64 (tst_ActiveParts t),
      nts_Rows = api_u64 (tst_Rows t), nts_BytesOnDisk = api_u64 (tst_BytesOnDisk t),
      nts_Replica = map_option (\<lambda>r.
        \<lparr>rr_Readonly = Some (rs_Readonly r), rr_SessionExpired = Some (rs_SessionExpired r), rr_QueueSize = optU64 (rs_QueueSize r),
         rr_AbsoluteDelaySeconds = optU64 (rs_AbsoluteDelaySeconds r), rr_TotalReplicas = optU64 (rs_TotalReplicas r),
         rr_ActiveReplicas = optU64 (rs_ActiveReplicas r)\<rparr>) (tst_Replica t)\<rparr>"

definition apiNodeTableStates :: "TableState list \<Rightarrow> NodeTableState list" where
  "apiNodeTableStates items = sort_by nts_NodeId (map apiNodeTableState items)"

record TableDetail =
  td_Database :: string
  td_Table :: string
  td_Engine :: string
  td_StoragePolicy :: string
  td_TargetDisk :: string
  td_PartitionKey :: string
  td_SortingKey :: string
  td_PrimaryKey :: string
  td_VersionColumn :: "string optnil"
  td_UUID :: string
  td_SamplingKey :: string
  td_IsReplicated :: bool
  td_NodesObserved :: int
  td_ActivePartitions :: int
  td_ActiveParts :: string
  td_Rows :: string
  td_BytesOnDisk :: string
  td_MinPartition :: "string optnil"
  td_MaxPartition :: "string optnil"
  td_LastModificationTime :: "gtime optnil"
  td_PartitionPlacements :: PlacementCounts
  td_PartitionOperations :: PartitionOperationCounts
  td_Nodes :: "NodeTableState list"
  td_Conditions :: "EmbeddedCondition list"

definition apiTableDetail :: "api_env \<Rightarrow> tableAggregate \<Rightarrow> TableDetail" where
  "apiTableDetail A a =
     \<lparr>td_Database = ta_database a, td_Table = ta_table a, td_Engine = ta_engine a,
      td_StoragePolicy = ta_storagePolicy a, td_TargetDisk = ta_targetDisk a, td_PartitionKey = ta_partitionKey a,
      td_SortingKey = ta_sortingKey a, td_PrimaryKey = ta_primaryKey a,
      td_VersionColumn = optNilStrPtr (ta_versionColumn a), td_UUID = ta_uuid a, td_SamplingKey = ta_samplingKey a,
      td_IsReplicated = ta_isReplicated a, td_NodesObserved = ta_nodesObserved a,
      td_ActivePartitions = ta_activePartitions a, td_ActiveParts = api_u64 (ta_activeParts a),
      td_Rows = api_u64 (ta_rows a), td_BytesOnDisk = api_u64 (ta_bytesOnDisk a),
      td_MinPartition = optNilStrPtr (ta_minPartition a), td_MaxPartition = optNilStrPtr (ta_maxPartition a),
      td_LastModificationTime = optNilTimePtr (ta_lastModificationTime a),
      td_PartitionPlacements = apiPlacementCounts (ta_partitionPlacements a),
      td_PartitionOperations = apiOperationCountsFixed (ta_partitionOperations a),
      td_Nodes = apiNodeTableStates (ta_nodes a), td_Conditions = apiEmbeddedConditions A (ta_conditions a)\<rparr>"

record TableColumn =
  tc_Name :: string
  tc_Position :: int
  tc_Type :: string
  tc_Kind :: string
  tc_DefaultKind :: "string option"
  tc_DefaultExpression :: "string option"
  tc_CodecExpression :: "string option"
  tc_TtlExpression :: "string option"
  tc_Comment :: string
  tc_IsInPartitionKey :: bool
  tc_IsInSortingKey :: bool
  tc_IsInPrimaryKey :: bool
  tc_IsInSamplingKey :: bool

definition apiColumn :: "Column \<Rightarrow> TableColumn" where
  "apiColumn c =
     \<lparr>tc_Name = clm_Name c, tc_Position = (if clm_Position c \<le> 2147483647 then uint (clm_Position c) else 0),
      tc_Type = clm_Type c, tc_Kind = clm_Kind c, tc_DefaultKind = nilStrPtr (clm_DefaultKind c),
      tc_DefaultExpression = nilStrPtr (clm_DefaultExpression c), tc_CodecExpression = nilStrPtr (clm_CodecExpression c),
      tc_TtlExpression = nilStrPtr (clm_TTLExpression c), tc_Comment = clm_Comment c,
      tc_IsInPartitionKey = clm_IsInPartitionKey c, tc_IsInSortingKey = clm_IsInSortingKey c,
      tc_IsInPrimaryKey = clm_IsInPrimaryKey c, tc_IsInSamplingKey = clm_IsInSamplingKey c\<rparr>"

record RestNodeColumns =
  rnc_NodeId :: string
  rnc_Shard :: string
  rnc_Replica :: string
  rnc_Columns :: "TableColumn list"
  rnc_Conditions :: "EmbeddedCondition list"

section \<open>Partitions and parts\<close>

record PartitionPlacement =
  pp_NodeId :: string
  pp_Shard :: string
  pp_Replica :: string
  pp_Disk :: string
  pp_ActiveParts :: string
  pp_Rows :: string
  pp_BytesOnDisk :: string
  pp_LastModificationTime :: "gtime optnil"

definition apiPlacement :: "partitionPlacementAggregate \<Rightarrow> PartitionPlacement" where
  "apiPlacement p =
     \<lparr>pp_NodeId = nd_ID (ppa_node p), pp_Shard = nd_Shard (ppa_node p), pp_Replica = nd_Replica (ppa_node p),
      pp_Disk = ppa_disk p, pp_ActiveParts = api_u64 (ppa_activeParts p), pp_Rows = api_u64 (ppa_rows p),
      pp_BytesOnDisk = api_u64 (ppa_bytesOnDisk p),
      pp_LastModificationTime = optNilTimePtr (ppa_lastModificationTime p)\<rparr>"

record RestPartition =
  rp_Database :: string
  rp_Table :: string
  rp_Partition :: string
  rp_PartitionId :: string
  rp_TargetDisk :: string
  rp_Placement :: string
  rp_Operations :: "string list"
  rp_Disks :: "string list"
  rp_ActiveParts :: string
  rp_Rows :: string
  rp_BytesOnDisk :: string
  rp_LastModificationTime :: "gtime optnil"
  rp_Placements :: "PartitionPlacement list"
  rp_Conditions :: "EmbeddedCondition list"

definition apiPartition :: "collect_env \<Rightarrow> api_env \<Rightarrow> partitionAggregate \<Rightarrow> RestPartition" where
  "apiPartition E A a =
     \<lparr>rp_Database = pa_database a, rp_Table = pa_table a, rp_Partition = pa_partition a,
      rp_PartitionId = pa_partitionID a, rp_TargetDisk = pa_targetDisk a, rp_Placement = pa_placement a,
      rp_Operations = pa_operations a, rp_Disks = sortedKeys (pa_disks a),
      rp_ActiveParts = api_u64 (pa_activeParts a), rp_Rows = api_u64 (pa_rows a),
      rp_BytesOnDisk = api_u64 (pa_bytesOnDisk a),
      rp_LastModificationTime = optNilTimePtr (pa_lastModificationTime a),
      rp_Placements = sort_by (\<lambda>p. (pp_NodeId p, pp_Disk p))
        (map (\<lambda>(k, p). apiPlacement p) (gathered E [''placements'', listed_key a] (pa_placements a))),
      rp_Conditions = apiEmbeddedConditions A (pa_conditions a)\<rparr>"

text \<open>The move and recompression TTLs of a part are always empty lists (present, not nil).\<close>

record TablePart =
  tpt_NodeId :: string
  tpt_Shard :: string
  tpt_Replica :: string
  tpt_Database :: string
  tpt_Table :: string
  tpt_Partition :: string
  tpt_PartitionId :: string
  tpt_PartName :: string
  tpt_UUID :: "string option"
  tpt_Active :: bool
  tpt_Disk :: string
  tpt_Path :: string
  tpt_PartType :: string
  tpt_Rows :: string
  tpt_Marks :: "string option"
  tpt_BytesOnDisk :: string
  tpt_DataCompressedBytes :: "string option"
  tpt_DataUncompressedBytes :: "string option"
  tpt_MarksBytes :: "string option"
  tpt_PrimaryKeyBytesInMemory :: "string option"
  tpt_PrimaryKeyBytesInMemoryAllocated :: "string option"
  tpt_SecondaryIndicesCompressedBytes :: "string option"
  tpt_SecondaryIndicesUncompressedBytes :: "string option"
  tpt_SecondaryIndicesMarksBytes :: "string option"
  tpt_ModificationTime :: gtime
  tpt_RemoveTime :: "gtime optnil"
  tpt_Refcount :: "string option"
  tpt_MinBlockNumber :: "string option"
  tpt_MaxBlockNumber :: "string option"
  tpt_Level :: "string option"
  tpt_DataVersion :: "string option"
  tpt_DeleteTtlInfoMin :: "gtime optnil"
  tpt_DeleteTtlInfoMax :: "gtime optnil"
  tpt_MoveTtlInfo :: "(string \<times> string) list list option"
  tpt_RecompressionTtlInfo :: "(string \<times> string) list list option"
  tpt_DefaultCompressionCodec :: "string option"
  tpt_Conditions :: "EmbeddedCondition list"

definition apiPart :: "api_env \<Rightarrow> Part \<Rightarrow> TablePart" where
  "apiPart A p =
     \<lparr>tpt_NodeId = nd_ID (pt_Node p), tpt_Shard = nd_Shard (pt_Node p), tpt_Replica = nd_Replica (pt_Node p),
      tpt_Database = pt_Database p, tpt_Table = pt_Table p, tpt_Partition = pt_Partition p,
      tpt_PartitionId = pt_PartitionID p, tpt_PartName = pt_Name p, tpt_UUID = Some (pt_UUID p),
      tpt_Active = pt_Active p, tpt_Disk = pt_Disk p, tpt_Path = pt_Path p, tpt_PartType = pt_PartType p,
      tpt_Rows = api_u64 (pt_Rows p), tpt_Marks = optU64 (pt_Marks p), tpt_BytesOnDisk = api_u64 (pt_BytesOnDisk p),
      tpt_DataCompressedBytes = optU64 (pt_DataCompressedBytes p),
      tpt_DataUncompressedBytes = optU64 (pt_DataUncompressedBytes p), tpt_MarksBytes = optU64 (pt_MarksBytes p),
      tpt_PrimaryKeyBytesInMemory = optU64 (pt_PrimaryKeyBytesInMemory p),
      tpt_PrimaryKeyBytesInMemoryAllocated = optU64 (pt_PrimaryKeyBytesInMemoryAllocated p),
      tpt_SecondaryIndicesCompressedBytes = optU64 (pt_SecondaryIndicesCompressedBytes p),
      tpt_SecondaryIndicesUncompressedBytes = optU64 (pt_SecondaryIndicesUncompressedBytes p),
      tpt_SecondaryIndicesMarksBytes = optU64 (pt_SecondaryIndicesMarksBytes p),
      tpt_ModificationTime = pt_ModificationTime p, tpt_RemoveTime = optNilTimePtr (pt_RemoveTime p),
      tpt_Refcount = optU64 (pt_Refcount p), tpt_MinBlockNumber = optI64 (pt_MinBlockNumber p),
      tpt_MaxBlockNumber = optI64 (pt_MaxBlockNumber p), tpt_Level = optU64 (pt_Level p),
      tpt_DataVersion = optU64 (pt_DataVersion p), tpt_DeleteTtlInfoMin = optNilTimePtr (pt_DeleteTTLInfoMin p),
      tpt_DeleteTtlInfoMax = optNilTimePtr (pt_DeleteTTLInfoMax p),
      tpt_MoveTtlInfo = Some [], tpt_RecompressionTtlInfo = Some [],
      tpt_DefaultCompressionCodec = Some (pt_DefaultCompressionCodec p),
      tpt_Conditions = apiEmbeddedConditions A (pt_Conditions p)\<rparr>"

record RestDetachedPart =
  rdp_NodeId :: string
  rdp_Shard :: string
  rdp_Replica :: string
  rdp_Database :: string
  rdp_Table :: string
  rdp_PartitionId :: string
  rdp_PartName :: string
  rdp_Disk :: string
  rdp_Reason :: string
  rdp_Path :: string
  rdp_BytesOnDisk :: string
  rdp_Rows :: string
  rdp_MinBlockNumber :: "string option"
  rdp_MaxBlockNumber :: "string option"
  rdp_Level :: "string option"
  rdp_ModificationTime :: "gtime option"
  rdp_Conditions :: "EmbeddedCondition list"

definition apiDetachedPart :: "api_env \<Rightarrow> DetachedPart \<Rightarrow> RestDetachedPart" where
  "apiDetachedPart A p =
     \<lparr>rdp_NodeId = nd_ID (dp_Node p), rdp_Shard = nd_Shard (dp_Node p), rdp_Replica = nd_Replica (dp_Node p),
      rdp_Database = dp_Database p, rdp_Table = dp_Table p, rdp_PartitionId = derefString (dp_PartitionID p),
      rdp_PartName = dp_Name p, rdp_Disk = dp_Disk p, rdp_Reason = derefString (dp_Reason p), rdp_Path = dp_Path p,
      rdp_BytesOnDisk = api_u64 (dp_BytesOnDisk p), rdp_Rows = api_u64 (dp_Rows p),
      rdp_MinBlockNumber = optI64Ptr (dp_MinBlockNumber p), rdp_MaxBlockNumber = optI64Ptr (dp_MaxBlockNumber p),
      rdp_Level = optU64Ptr (dp_Level p), rdp_ModificationTime = Some (dp_ModificationTime p),
      rdp_Conditions = apiEmbeddedConditions A (dp_Conditions p)\<rparr>"

section \<open>Operations\<close>

record RestOperation =
  ro_OperationId :: string
  ro_Kind :: string
  ro_NodeId :: string
  ro_Database :: string
  ro_Table :: string
  ro_Partition :: "string optnil"
  ro_PartitionId :: "string optnil"
  ro_AttemptId :: string
  ro_State :: string
  ro_ElapsedSeconds :: "f64 option"
  ro_Progress :: "f64 option"
  ro_SourceDisk :: "string optnil"
  ro_TargetDisk :: "string optnil"
  ro_BytesTotal :: "string optnil"
  ro_BytesProcessed :: "string optnil"
  ro_LatestMessage :: "string optnil"
  ro_StartedAt :: "gtime optnil"

definition apiOperation :: "Operation \<Rightarrow> RestOperation" where
  "apiOperation o' =
     \<lparr>ro_OperationId = op_OperationID o', ro_Kind = op_Kind o', ro_NodeId = op_NodeID o', ro_Database = op_Database o',
      ro_Table = op_Table o', ro_Partition = optNilStrPtr (op_Partition o'),
      ro_PartitionId = optNilStrPtr (op_PartitionID o'), ro_AttemptId = op_AttemptID o', ro_State = op_State o',
      ro_ElapsedSeconds = op_ElapsedSeconds o', ro_Progress = op_Progress o',
      ro_SourceDisk = optNilStrPtr (op_SourceDisk o'), ro_TargetDisk = optNilStrPtr (op_TargetDisk o'),
      ro_BytesTotal = optNilU64Ptr (op_BytesTotal o'), ro_BytesProcessed = optNilU64Ptr (op_BytesProcessed o'),
      ro_LatestMessage = optNilStrPtr (op_LatestMessage o'), ro_StartedAt = optNilTimePtr (op_StartedAt o')\<rparr>"

record RestMutation =
  rm_NodeId :: string
  rm_Shard :: string
  rm_Replica :: string
  rm_OperationId :: string
  rm_Kind :: string
  rm_Database :: string
  rm_Table :: string
  rm_MutationId :: string
  rm_AttemptId :: string
  rm_Command :: string
  rm_CreateTime :: gtime
  rm_IsDone :: bool
  rm_IsKilled :: bool
  rm_PartsToDo :: string
  rm_PartsToDoNames :: "string list"
  rm_BlockNumbers :: "(string \<times> string) list"
  rm_LatestFailedPart :: "string optnil"
  rm_LatestFailTime :: "gtime optnil"
  rm_LatestFailReason :: "string optnil"
  rm_Conditions :: "EmbeddedCondition list"

definition apiMutation :: "api_env \<Rightarrow> Mutation \<Rightarrow> RestMutation" where
  "apiMutation A m =
     \<lparr>rm_NodeId = nd_ID (mu_Node m), rm_Shard = nd_Shard (mu_Node m), rm_Replica = nd_Replica (mu_Node m),
      rm_OperationId = ''mutation|'' @ nd_ID (mu_Node m) @ ''|'' @ mu_Database m @ ''|'' @ mu_Table m @ ''|'' @ mu_MutationID m,
      rm_Kind = ''mutation'', rm_Database = mu_Database m, rm_Table = mu_Table m, rm_MutationId = mu_MutationID m,
      rm_AttemptId = mu_MutationID m, rm_Command = mu_Command m, rm_CreateTime = mu_CreateTime m,
      rm_IsDone = mu_IsDone m, rm_IsKilled = mu_IsKilled m, rm_PartsToDo = api_u64 (mu_PartsToDo m),
      rm_PartsToDoNames = mu_PartsToDoNames m,
      rm_BlockNumbers = map (\<lambda>b. (mbn_PartitionID b, api_u64 (mbn_Number b))) (mu_BlockNumbers m),
      rm_LatestFailedPart = optNilStrPtr (mu_LatestFailedPart m), rm_LatestFailTime = optNilTimePtr (mu_LatestFailTime m),
      rm_LatestFailReason = optNilStrPtr (mu_LatestFailReason m), rm_Conditions = apiEmbeddedConditions A (mu_Conditions m)\<rparr>"

record RestQueueItem =
  rqi_NodeId :: string
  rqi_Shard :: string
  rqi_Replica :: string
  rqi_OperationId :: string
  rqi_Kind :: string
  rqi_Database :: string
  rqi_Table :: string
  rqi_ReplicaName :: string
  rqi_Position :: string
  rqi_NodeName :: string
  rqi_AttemptId :: string
  rqi_Type :: string
  rqi_CreateTime :: gtime
  rqi_RequiredQuorum :: "string option"
  rqi_SourceReplica :: "string optnil"
  rqi_NewPartName :: "string optnil"
  rqi_PartsToMerge :: "string list option"
  rqi_IsDetach :: "bool option"
  rqi_IsCurrentlyExecuting :: bool
  rqi_NumTries :: string
  rqi_LastAttemptTime :: "gtime optnil"
  rqi_LastPostponeTime :: "gtime optnil"
  rqi_NumPostponed :: "string option"
  rqi_PostponeReason :: "string optnil"
  rqi_LastException :: "string optnil"
  rqi_Conditions :: "EmbeddedCondition list"

definition apiReplicationQueueItem :: "api_env \<Rightarrow> ReplicationQueueItem \<Rightarrow> RestQueueItem" where
  "apiReplicationQueueItem A q =
     (let attemptID = show_u64 (rq_Position q) @ '':'' @ rq_Type q @ '':'' @ derefString (rq_NewPartName q) in
      \<lparr>rqi_NodeId = nd_ID (rq_Node q), rqi_Shard = nd_Shard (rq_Node q), rqi_Replica = nd_Replica (rq_Node q),
       rqi_OperationId = ''replication_queue|'' @ nd_ID (rq_Node q) @ ''|'' @ rq_Database q @ ''|'' @ rq_Table q @ ''|'' @ attemptID,
       rqi_Kind = ''replication_queue'', rqi_Database = rq_Database q, rqi_Table = rq_Table q,
       rqi_ReplicaName = rq_ReplicaName q, rqi_Position = api_u64 (rq_Position q), rqi_NodeName = rq_NodeName q,
       rqi_AttemptId = attemptID, rqi_Type = rq_Type q, rqi_CreateTime = rq_CreateTime q,
       rqi_RequiredQuorum = optU64 (rq_RequiredQuorum q), rqi_SourceReplica = optNilStrPtr (rq_SourceReplica q),
       rqi_NewPartName = optNilStrPtr (rq_NewPartName q), rqi_PartsToMerge = Some (rq_PartsToMerge q),
       rqi_IsDetach = Some (rq_IsDetach q), rqi_IsCurrentlyExecuting = rq_IsCurrentlyExecuting q,
       rqi_NumTries = api_u64 (rq_NumTries q), rqi_LastAttemptTime = optNilTimePtr (rq_LastAttemptTime q),
       rqi_LastPostponeTime = optNilTimePtr (rq_LastPostponeTime q), rqi_NumPostponed = optU64 (rq_NumPostponed q),
       rqi_PostponeReason = optNilStrPtr (rq_PostponeReason q), rqi_LastException = optNilStrPtr (rq_LastException q),
       rqi_Conditions = apiEmbeddedConditions A (rq_Conditions q)\<rparr>)"

record RestPartEvent =
  rpe_NodeId :: string
  rpe_Shard :: string
  rpe_Replica :: string
  rpe_EventId :: string
  rpe_Database :: string
  rpe_Table :: string
  rpe_PartitionId :: string
  rpe_PartName :: string
  rpe_EventType :: string
  rpe_EventTime :: gtime
  rpe_DurationMs :: string
  rpe_Rows :: string
  rpe_BytesCompressed :: string
  rpe_BytesUncompressed :: string
  rpe_ReadRows :: "string option"
  rpe_ReadBytes :: "string option"
  rpe_MergedFrom :: "string list option"
  rpe_SourceDisk :: "string optnil"
  rpe_TargetDisk :: "string optnil"
  rpe_Error :: string
  rpe_Exception :: "string optnil"

definition apiPartEvent :: "PartEvent \<Rightarrow> RestPartEvent" where
  "apiPartEvent e =
     \<lparr>rpe_NodeId = nd_ID (pe_Node e), rpe_Shard = nd_Shard (pe_Node e), rpe_Replica = nd_Replica (pe_Node e),
      rpe_EventId = ''part_event|'' @ nd_ID (pe_Node e) @ ''|'' @ pe_Database e @ ''|'' @ pe_Table e @ ''|'' @
        pe_PartitionID e @ ''|'' @ pe_PartName e @ ''|'' @ pe_EventType e @ ''|'' @ pe_EventTimeMicrostamp e,
      rpe_Database = pe_Database e, rpe_Table = pe_Table e, rpe_PartitionId = pe_PartitionID e,
      rpe_PartName = pe_PartName e, rpe_EventType = pe_EventType e, rpe_EventTime = pe_EventTime e,
      rpe_DurationMs = api_u64 (pe_DurationMs e), rpe_Rows = api_u64 (pe_Rows e),
      rpe_BytesCompressed = api_u64 (pe_BytesCompressed e), rpe_BytesUncompressed = api_u64 (pe_BytesUncompressed e),
      rpe_ReadRows = optU64 (pe_ReadRows e), rpe_ReadBytes = optU64 (pe_ReadBytes e), rpe_MergedFrom = Some (pe_MergedFrom e),
      rpe_SourceDisk = optNilStrPtr (pe_SourceDisk e), rpe_TargetDisk = optNilStrPtr (pe_TargetDisk e),
      rpe_Error = api_i64 (pe_Error e), rpe_Exception = optNilStrPtr (pe_Exception e)\<rparr>"

end
