(* ===== verification/Handlers.thy ===== *)
theory Handlers
  imports RestMapping
begin

text \<open>
  The read handlers of the API (\<open>internal/server/handler.go\<close>): each collects, refuses when no node
  responded, filters by the request's parameters, counts, maps to the response type and sorts. The
  collector is absent when the server runs without one. A response is a body or a problem.
\<close>

section \<open>Problems\<close>

record ProblemError =
  per_Parameter :: "string option"
  per_Detail :: gotext

record problem =
  pb_Type :: go_url
  pb_Title :: string
  pb_Status :: int
  pb_Detail :: gotext
  pb_Instance :: "string option"
  pb_Errors :: "ProblemError list option"
  pb_AdditionalProps :: "(string \<times> string) list"

definition status_title :: "int \<Rightarrow> string" where
  "status_title status =
     (if status = 400 then ''Bad Request'' else if status = 404 then ''Not Found''
      else if status = 409 then ''Conflict'' else if status = 503 then ''Service Unavailable'' else '''')"

definition api_problem :: "int \<Rightarrow> gotext \<Rightarrow> problem" where
  "api_problem status detail =
     \<lparr>pb_Type = aboutBlank, pb_Title = status_title status, pb_Status = status, pb_Detail = detail,
      pb_Instance = None, pb_Errors = None, pb_AdditionalProps = []\<rparr>"

definition noStateProblem :: problem where
  "noStateProblem = api_problem 503 (lit ''cluster state collector is not configured'')"

definition noRespondersProblem :: problem where
  "noRespondersProblem = api_problem 503 (lit ''no configured ClickHouse node responded'')"

definition watchNotFoundProblem :: problem where
  "watchNotFoundProblem = api_problem 404 (lit ''table is not configured as a watch'')"

definition noTieringProblem :: problem where
  "noTieringProblem = api_problem 503 (lit ''tiering controller is not configured'')"

datatype 'a response =
    RespOK 'a
  | RespBadRequest problem
  | RespNotFound problem
  | RespConflict problem
  | RespInternalError problem
  | RespUnavailable problem

definition noResponders :: "'a Result \<Rightarrow> bool" where
  "noResponders r \<longleftrightarrow> 0 < res_NodesExpected r \<and> res_NodesResponded r = 0"

text \<open>The frame of the handlers: a body from a collection that some node responded to.\<close>

definition from_result :: "'a Result \<Rightarrow> ('a Result \<Rightarrow> 'b) \<Rightarrow> 'b response" where
  "from_result r body = (if noResponders r then RespUnavailable noRespondersProblem else RespOK (body r))"

definition with_state :: "Collector option \<Rightarrow> (Collector \<Rightarrow> 'b response) \<Rightarrow> 'b response" where
  "with_state state k = (case state of None \<Rightarrow> RespUnavailable noStateProblem | Some c \<Rightarrow> k c)"

definition find_watch :: "Collector option \<Rightarrow> string \<Rightarrow> string \<Rightarrow> Watch \<times> bool" where
  "find_watch state database table =
     (let w = watch_of database table
      in (w, case state of None \<Rightarrow> False | Some c \<Rightarrow> w \<in> set (co_watches c)))"

definition with_watch ::
  "Collector option \<Rightarrow> string \<Rightarrow> string \<Rightarrow> (Collector \<Rightarrow> Watch \<Rightarrow> 'b response) \<Rightarrow> 'b response" where
  "with_watch state database table k =
     (case find_watch state database table of (w, ok) \<Rightarrow>
        case state of
          None \<Rightarrow> RespUnavailable noStateProblem
        | Some c \<Rightarrow> if ok then k c w else RespNotFound watchNotFoundProblem)"

section \<open>Filters\<close>

definition matchOpt :: "string option \<Rightarrow> string \<Rightarrow> bool" where
  "matchOpt opt value = (case opt of None \<Rightarrow> True | Some f \<Rightarrow> f = '''' \<or> f = value)"

definition matchOptBool :: "bool option \<Rightarrow> bool \<Rightarrow> bool" where
  "matchOptBool opt value = (case opt of None \<Rightarrow> True | Some f \<Rightarrow> f = value)"

text \<open>An enumeration parameter has no empty value.\<close>

definition matchEnum :: "string option \<Rightarrow> string \<Rightarrow> bool" where
  "matchEnum opt value = (case opt of None \<Rightarrow> True | Some f \<Rightarrow> f = value)"

definition matchNode :: "string option \<Rightarrow> string option \<Rightarrow> string option \<Rightarrow> Node \<Rightarrow> bool" where
  "matchNode nodeID shard replica node \<longleftrightarrow>
     matchOpt nodeID (nd_ID node) \<and> matchOpt shard (nd_Shard node) \<and> matchOpt replica (nd_Replica node)"

definition parseOptByteBound :: "string option \<Rightarrow> u64 option \<times> bool" where
  "parseOptByteBound value =
     (case value of
        None \<Rightarrow> (None, True)
      | Some raw \<Rightarrow> (case parse_uint raw of Inl e \<Rightarrow> (None, False) | Inr n \<Rightarrow> (Some n, True)))"

section \<open>Health\<close>

record Health =
  hl_Status :: string

definition GetHealth :: "Health response" where
  "GetHealth = RespOK \<lparr>hl_Status = ''ok''\<rparr>"

section \<open>Nodes, disks, tables\<close>

record 'a listing =
  ls_Collection :: CollectionMeta
  ls_Items :: "'a list"

text \<open>The listings of one table name it.\<close>

record 'a table_listing = "'a listing" +
  ls_Database :: string
  ls_Table :: string

record 'a columns_listing = "'a table_listing" +
  ls_Conditions :: "EmbeddedCondition list"

definition ListNodes ::
  "collect_env \<Rightarrow> api_env \<Rightarrow> Collector option \<Rightarrow> string option \<Rightarrow> RestNode listing response" where
  "ListNodes E A state nodeId =
     with_state state (\<lambda>c. from_result (CollectNodes E c) (\<lambda>r.
       \<lparr>ls_Collection = apiCollectionMeta r,
        ls_Items = sort_by rn_NodeId (map (apiNode A)
          (filter (\<lambda>i. matchOpt nodeId (nd_ID (ns_Node i))) (res_Items r)))\<rparr>))"

record disk_params =
  dq_NodeId :: "string option"
  dq_Disk :: "string option"
  dq_Type :: "string option"
  dq_Broken :: "bool option"

definition ListStorageDisks ::
  "collect_env \<Rightarrow> Collector option \<Rightarrow> disk_params \<Rightarrow> RestStorageDisk listing response" where
  "ListStorageDisks E state q =
     with_state state (\<lambda>c. from_result (CollectDisks E c) (\<lambda>r.
       \<lparr>ls_Collection = apiCollectionMeta r,
        ls_Items = sort_by (\<lambda>d. (rd_NodeId d, rd_Disk d)) (map apiDisk
          (filter (\<lambda>i. matchOpt (dq_NodeId q) (nd_ID (dk_Node i)) \<and> matchOpt (dq_Disk q) (dk_Name i) \<and>
             matchOpt (dq_Type q) (dk_Type i) \<and> matchOptBool (dq_Broken q) (dk_IsBroken i)) (res_Items r)))\<rparr>))"

record table_params =
  tq_Database :: "string option"
  tq_Table :: "string option"
  tq_Engine :: "string option"
  tq_StoragePolicy :: "string option"
  tq_HasPartitions :: "bool option"
  tq_HasConditions :: "bool option"

definition table_matches :: "table_params \<Rightarrow> tableAggregate \<Rightarrow> bool" where
  "table_matches q a \<longleftrightarrow>
     matchOpt (tq_Database q) (ta_database a) \<and> matchOpt (tq_Table q) (ta_table a) \<and>
     matchOpt (tq_Engine q) (ta_engine a) \<and> matchOpt (tq_StoragePolicy q) (ta_storagePolicy a) \<and>
     matchOptBool (tq_HasPartitions q) (0 < ta_activePartitions a) \<and>
     matchOptBool (tq_HasConditions q) (ta_conditions a \<noteq> [])"

definition ListTables ::
  "collect_env \<Rightarrow> api_env \<Rightarrow> Collector option \<Rightarrow> table_params \<Rightarrow> TableListItem listing response" where
  "ListTables E A state q =
     with_state state (\<lambda>c. from_result (CollectTables E c) (\<lambda>r.
       \<lparr>ls_Collection = apiCollectionMeta r,
        ls_Items = sort_by (\<lambda>t. (tli_Database t, tli_Table t)) (map (apiTableListItem A)
          (filter (table_matches q)
            (aggregateTables E (res_Items r) (res_Items (TableConditions E c r)))))\<rparr>))"

definition GetTable ::
  "collect_env \<Rightarrow> api_env \<Rightarrow> Collector option \<Rightarrow> string \<Rightarrow> string \<Rightarrow>
   (CollectionMeta \<times> TableDetail) response" where
  "GetTable E A state database table =
     with_watch state database table (\<lambda>c w.
       let r = CollectTables E c in
       if noResponders r then RespUnavailable noRespondersProblem
       else case aggregateTableDetail E (res_Items r) (res_Items (TableConditions E c r)) w of
         None \<Rightarrow> RespNotFound (api_problem 404 (lit ''watched table was not observed''))
       | Some a \<Rightarrow> RespOK (apiCollectionMeta r, apiTableDetail A a))"

definition ListTableColumns ::
  "collect_env \<Rightarrow> api_env \<Rightarrow> Collector option \<Rightarrow> string \<Rightarrow> string \<Rightarrow> string option \<Rightarrow> string option \<Rightarrow>
   string option \<Rightarrow> RestNodeColumns columns_listing response" where
  "ListTableColumns E A state database table nodeId name kind =
     with_watch state database table (\<lambda>c w. from_result (CollectTableColumns E c w) (\<lambda>r.
       \<lparr>ls_Collection = apiCollectionMeta r,
        ls_Items = sort_by rnc_NodeId (map (\<lambda>i.
          \<lparr>rnc_NodeId = nd_ID (nc_Node i), rnc_Shard = nd_Shard (nc_Node i), rnc_Replica = nd_Replica (nc_Node i),
           rnc_Columns = map apiColumn
             (filter (\<lambda>col. matchOpt name (clm_Name col) \<and> matchOpt kind (clm_Kind col)) (nc_Columns i)),
           rnc_Conditions = apiEmbeddedConditions A (nc_Conditions i)\<rparr>)
          (filter (\<lambda>i. matchOpt nodeId (nd_ID (nc_Node i))) (res_Items r))),
        ls_Database = cw_Database w, ls_Table = cw_Table w, ls_Conditions = []\<rparr>))"

section \<open>Partitions and parts\<close>

record partition_params =
  pq_PartitionId :: "string option"
  pq_Placement :: "string option"
  pq_Disk :: "string option"
  pq_Operation :: "string option"
  pq_NodeId :: "string option"
  pq_Shard :: "string option"
  pq_Replica :: "string option"
  pq_HasConditions :: "bool option"

definition partitionMatches :: "partition_params \<Rightarrow> partitionAggregate \<Rightarrow> bool" where
  "partitionMatches q a \<longleftrightarrow>
     matchOpt (pq_PartitionId q) (pa_partitionID a) \<and> matchEnum (pq_Placement q) (pa_placement a) \<and>
     (case pq_Disk q of None \<Rightarrow> True | Some d \<Rightarrow> d = '''' \<or> d \<in> set (pa_disks a)) \<and>
     (case pq_Operation q of None \<Rightarrow> True | Some x \<Rightarrow> x = '''' \<or> x \<in> set (pa_operations a)) \<and>
     ((pq_NodeId q \<noteq> None \<or> pq_Shard q \<noteq> None \<or> pq_Replica q \<noteq> None) \<longrightarrow>
        list_ex (\<lambda>(k, p). matchNode (pq_NodeId q) (pq_Shard q) (pq_Replica q) (ppa_node p)) (pa_placements a))"

definition ListTablePartitions ::
  "collect_env \<Rightarrow> api_env \<Rightarrow> Collector option \<Rightarrow> string \<Rightarrow> string \<Rightarrow> partition_params \<Rightarrow>
   RestPartition listing response" where
  "ListTablePartitions E A state database table q =
     with_watch state database table (\<lambda>c w. from_result (CollectActiveParts E c w) (\<lambda>r.
       \<lparr>ls_Collection = apiCollectionMeta r,
        ls_Items = sort_by rp_PartitionId (map (apiPartition E A)
          (filter (\<lambda>a. partitionMatches q a \<and> matchOptBool (pq_HasConditions q) (pa_conditions a \<noteq> []))
            (aggregatePartitions E (res_Items r) (res_Items (PartitionConditions E c w r)))))\<rparr>))"

record part_params =
  aq_NodeId :: "string option"
  aq_Shard :: "string option"
  aq_Replica :: "string option"
  aq_PartitionId :: "string option"
  aq_PartName :: "string option"
  aq_Disk :: "string option"
  aq_Active :: "bool option"
  aq_MinBytesOnDisk :: "string option"
  aq_MaxBytesOnDisk :: "string option"

definition part_matches :: "part_params \<Rightarrow> u64 option \<Rightarrow> u64 option \<Rightarrow> Part \<Rightarrow> bool" where
  "part_matches q minBytes maxBytes p \<longleftrightarrow>
     matchNode (aq_NodeId q) (aq_Shard q) (aq_Replica q) (pt_Node p) \<and>
     matchOpt (aq_PartitionId q) (pt_PartitionID p) \<and> matchOpt (aq_PartName q) (pt_Name p) \<and>
     matchOpt (aq_Disk q) (pt_Disk p) \<and> matchOptBool (aq_Active q) (pt_Active p) \<and>
     (case minBytes of None \<Rightarrow> True | Some b \<Rightarrow> \<not> pt_BytesOnDisk p < b) \<and>
     (case maxBytes of None \<Rightarrow> True | Some b \<Rightarrow> \<not> b < pt_BytesOnDisk p)"

definition ListTableParts ::
  "collect_env \<Rightarrow> api_env \<Rightarrow> Collector option \<Rightarrow> string \<Rightarrow> string \<Rightarrow> part_params \<Rightarrow> TablePart table_listing response" where
  "ListTableParts E A state database table q =
     with_watch state database table (\<lambda>c w.
       case parseOptByteBound (aq_MinBytesOnDisk q) of
         (minBytes, False) \<Rightarrow> RespBadRequest (api_problem 400 (lit ''minBytesOnDisk must be an unsigned integer''))
       | (minBytes, True) \<Rightarrow>
           (case parseOptByteBound (aq_MaxBytesOnDisk q) of
              (maxBytes, False) \<Rightarrow> RespBadRequest (api_problem 400 (lit ''maxBytesOnDisk must be an unsigned integer''))
            | (maxBytes, True) \<Rightarrow> from_result (CollectParts E c w) (\<lambda>r.
                \<lparr>ls_Collection = apiCollectionMeta r,
                 ls_Items = sort_by (\<lambda>p. (tpt_NodeId p, tpt_PartName p)) (map (apiPart A)
                   (filter (part_matches q minBytes maxBytes) (res_Items r))),
                 ls_Database = cw_Database w, ls_Table = cw_Table w\<rparr>)))"

section \<open>Counted listings\<close>

text \<open>A count map that grows as the items are read.\<close>

definition bump :: "string \<Rightarrow> (string, int) amap \<Rightarrow> (string, int) amap" where
  "bump k m = amap_put k (count_of m k + 1) m"

definition count_by :: "('a \<Rightarrow> string) \<Rightarrow> 'a list \<Rightarrow> (string, int) amap" where
  "count_by f xs = fold (\<lambda>x. bump (f x)) xs []"

definition count_where :: "('a \<Rightarrow> bool) \<Rightarrow> 'a list \<Rightarrow> int" where
  "count_where P xs = int (length (filter P xs))"

record ('a, 'c) counted =
  ct_Collection :: CollectionMeta
  ct_Items :: "'a list"
  ct_Counts :: 'c

record ('a, 'c) table_counted = "('a, 'c) counted" +
  ct_Database :: string
  ct_Table :: string

record detached_params =
  eq_NodeId :: "string option"
  eq_Shard :: "string option"
  eq_Replica :: "string option"
  eq_PartitionId :: "string option"
  eq_PartName :: "string option"
  eq_Disk :: "string option"
  eq_Reason :: "string option"

record DetachedPartCounts =
  dpc_Total :: int
  dpc_ByReason :: "(string, int) amap"

definition detached_matches :: "detached_params \<Rightarrow> DetachedPart \<Rightarrow> bool" where
  "detached_matches q p \<longleftrightarrow>
     matchNode (eq_NodeId q) (eq_Shard q) (eq_Replica q) (dp_Node p) \<and>
     matchOpt (eq_PartitionId q) (derefString (dp_PartitionID p)) \<and> matchOpt (eq_PartName q) (dp_Name p) \<and>
     matchOpt (eq_Disk q) (dp_Disk p) \<and> matchOpt (eq_Reason q) (derefString (dp_Reason p))"

definition ListDetachedParts ::
  "collect_env \<Rightarrow> api_env \<Rightarrow> Collector option \<Rightarrow> string \<Rightarrow> string \<Rightarrow> detached_params \<Rightarrow>
   (RestDetachedPart, DetachedPartCounts) table_counted response" where
  "ListDetachedParts E A state database table q =
     with_watch state database table (\<lambda>c w. from_result (CollectDetachedParts E c w) (\<lambda>r.
       let found = filter (detached_matches q) (res_Items r);
           items = sort_by (\<lambda>p. (rdp_NodeId p, rdp_PartName p)) (map (apiDetachedPart A) found)
       in \<lparr>ct_Collection = apiCollectionMeta r, ct_Items = items,
           ct_Counts = \<lparr>dpc_Total = int (length items),
             dpc_ByReason = count_by (\<lambda>p. derefString (dp_Reason p)) found\<rparr>,
           ct_Database = cw_Database w, ct_Table = cw_Table w\<rparr>))"

record operation_params =
  oq_Kind :: "string option"
  oq_NodeId :: "string option"
  oq_Database :: "string option"
  oq_Table :: "string option"
  oq_PartitionId :: "string option"

record OperationKindCounts =
  okc_Move :: int
  okc_Merge :: int
  okc_Mutation :: int
  okc_Fetch :: int
  okc_ReplicationQueue :: int

record OperationCounts =
  oc_Total :: int
  oc_ByKind :: OperationKindCounts

definition operation_matches :: "operation_params \<Rightarrow> Operation \<Rightarrow> bool" where
  "operation_matches q x \<longleftrightarrow>
     matchEnum (oq_Kind q) (op_Kind x) \<and> matchOpt (oq_NodeId q) (op_NodeID x) \<and>
     matchOpt (oq_Database q) (op_Database x) \<and> matchOpt (oq_Table q) (op_Table x) \<and>
     matchOpt (oq_PartitionId q) (derefString (op_PartitionID x))"

definition count_kind :: "Operation \<Rightarrow> OperationKindCounts \<Rightarrow> OperationKindCounts" where
  "count_kind x k =
     (let kind = op_Kind x in
      if kind = ''move'' then k\<lparr>okc_Move := okc_Move k + 1\<rparr>
      else if kind = ''merge'' then k\<lparr>okc_Merge := okc_Merge k + 1\<rparr>
      else if kind = ''mutation'' then k\<lparr>okc_Mutation := okc_Mutation k + 1\<rparr>
      else if kind = ''fetch'' then k\<lparr>okc_Fetch := okc_Fetch k + 1\<rparr>
      else if kind = ''replication_queue'' then k\<lparr>okc_ReplicationQueue := okc_ReplicationQueue k + 1\<rparr>
      else k)"

definition no_kinds :: OperationKindCounts where
  "no_kinds = \<lparr>okc_Move = 0, okc_Merge = 0, okc_Mutation = 0, okc_Fetch = 0, okc_ReplicationQueue = 0\<rparr>"

definition ListOperations ::
  "collect_env \<Rightarrow> Collector option \<Rightarrow> operation_params \<Rightarrow> (RestOperation, OperationCounts) counted response" where
  "ListOperations E state q =
     with_state state (\<lambda>c. from_result (CollectOperations E c) (\<lambda>r.
       let found = filter (operation_matches q) (res_Items r);
           items = sort_by (\<lambda>x. (ro_NodeId x, ro_OperationId x)) (map apiOperation found)
       in \<lparr>ct_Collection = apiCollectionMeta r, ct_Items = items,
           ct_Counts = \<lparr>oc_Total = int (length items), oc_ByKind = fold count_kind found no_kinds\<rparr>\<rparr>))"

record mutation_params =
  mq_NodeId :: "string option"
  mq_Database :: "string option"
  mq_Table :: "string option"
  mq_MutationId :: "string option"
  mq_Done :: "bool option"
  mq_Failed :: "bool option"

record MutationCounts =
  mc_Total :: int
  mc_Unfinished :: int
  mc_Failed :: int

definition mutation_matches :: "mutation_params \<Rightarrow> Mutation \<Rightarrow> bool" where
  "mutation_matches q m \<longleftrightarrow>
     matchOpt (mq_NodeId q) (nd_ID (mu_Node m)) \<and> matchOpt (mq_Database q) (mu_Database m) \<and>
     matchOpt (mq_Table q) (mu_Table m) \<and> matchOpt (mq_MutationId q) (mu_MutationID m) \<and>
     matchOptBool (mq_Done q) (mu_IsDone m) \<and> matchOptBool (mq_Failed q) (failed_mutation m)"

definition ListMutations ::
  "collect_env \<Rightarrow> api_env \<Rightarrow> Collector option \<Rightarrow> mutation_params \<Rightarrow> (RestMutation, MutationCounts) counted response" where
  "ListMutations E A state q =
     with_state state (\<lambda>c. from_result (CollectMutations E c) (\<lambda>r.
       let found = filter (mutation_matches q) (res_Items r);
           items = sort_by (\<lambda>m. (rm_NodeId m, rm_MutationId m)) (map (apiMutation A) found)
       in \<lparr>ct_Collection = apiCollectionMeta r, ct_Items = items,
           ct_Counts = \<lparr>mc_Total = int (length items), mc_Unfinished = count_where (\<lambda>m. \<not> mu_IsDone m) found,
             mc_Failed = count_where failed_mutation found\<rparr>\<rparr>))"

record queue_params =
  uq_NodeId :: "string option"
  uq_Database :: "string option"
  uq_Table :: "string option"
  uq_Type :: "string option"
  uq_CurrentlyExecuting :: "bool option"
  uq_HasException :: "bool option"

record ReplicationQueueCounts =
  rqc_Total :: int
  rqc_CurrentlyExecuting :: int
  rqc_WithException :: int
  rqc_ByType :: "(string, int) amap"

definition queue_matches :: "queue_params \<Rightarrow> ReplicationQueueItem \<Rightarrow> bool" where
  "queue_matches q x \<longleftrightarrow>
     matchOpt (uq_NodeId q) (nd_ID (rq_Node x)) \<and> matchOpt (uq_Database q) (rq_Database x) \<and>
     matchOpt (uq_Table q) (rq_Table x) \<and> matchOpt (uq_Type q) (rq_Type x) \<and>
     matchOptBool (uq_CurrentlyExecuting q) (rq_IsCurrentlyExecuting x) \<and>
     matchOptBool (uq_HasException q) (failed_queue_item x)"

definition ListReplicationQueue ::
  "collect_env \<Rightarrow> api_env \<Rightarrow> Collector option \<Rightarrow> queue_params \<Rightarrow>
   (RestQueueItem, ReplicationQueueCounts) counted response" where
  "ListReplicationQueue E A state q =
     with_state state (\<lambda>c. from_result (CollectReplicationQueue E c) (\<lambda>r.
       let found = filter (queue_matches q) (res_Items r);
           items = sort_by (\<lambda>x. (rqi_NodeId x, rqi_OperationId x)) (map (apiReplicationQueueItem A) found)
       in \<lparr>ct_Collection = apiCollectionMeta r, ct_Items = items,
           ct_Counts = \<lparr>rqc_Total = int (length items),
             rqc_CurrentlyExecuting = count_where rq_IsCurrentlyExecuting found,
             rqc_WithException = count_where failed_queue_item found, rqc_ByType = count_by rq_Type found\<rparr>\<rparr>))"

record event_params =
  vq_From :: "gtime option"
  vq_To :: "gtime option"
  vq_NodeId :: "string option"
  vq_Database :: "string option"
  vq_Table :: "string option"
  vq_PartitionId :: "string option"
  vq_PartName :: "string option"
  vq_EventType :: "string option"

record PartEventCounts =
  pec_Total :: int
  pec_ByEventType :: "(string, int) amap"
  pec_WithErrors :: int

definition event_matches :: "event_params \<Rightarrow> PartEvent \<Rightarrow> bool" where
  "event_matches q e \<longleftrightarrow>
     matchNode (vq_NodeId q) None None (pe_Node e) \<and> matchOpt (vq_Database q) (pe_Database e) \<and>
     matchOpt (vq_Table q) (pe_Table e) \<and> matchOpt (vq_PartitionId q) (pe_PartitionID e) \<and>
     matchOpt (vq_PartName q) (pe_PartName e) \<and> matchOpt (vq_EventType q) (pe_EventType e) \<and>
     (case vq_From q of None \<Rightarrow> True | Some t \<Rightarrow> \<not> pe_EventTime e < t) \<and>
     (case vq_To q of None \<Rightarrow> True | Some t \<Rightarrow> \<not> t < pe_EventTime e)"

definition ListPartEvents ::
  "collect_env \<Rightarrow> Collector option \<Rightarrow> event_params \<Rightarrow> (RestPartEvent, PartEventCounts) counted response" where
  "ListPartEvents E state q =
     with_state state (\<lambda>c. from_result (CollectPartEvents E c (vq_From q) (vq_To q)) (\<lambda>r.
       let found = filter (event_matches q) (res_Items r);
           items = sort_by (\<lambda>e. (rpe_EventTime e, rpe_EventId e)) (map apiPartEvent found)
       in \<lparr>ct_Collection = apiCollectionMeta r, ct_Items = items,
           ct_Counts = \<lparr>pec_Total = int (length items), pec_ByEventType = count_by pe_EventType found,
             pec_WithErrors = count_where (\<lambda>e. pe_Error e \<noteq> 0) found\<rparr>\<rparr>))"

record condition_params =
  nq_Severity :: "string option"
  nq_Code :: "string option"
  nq_NodeId :: "string option"
  nq_Database :: "string option"
  nq_Table :: "string option"
  nq_PartitionId :: "string option"

record SeverityCounts =
  svc_Critical :: int
  svc_Warning :: int
  svc_Info :: int

record ConditionCounts =
  cnc_Total :: int
  cnc_BySeverity :: SeverityCounts

definition condition_matches :: "condition_params \<Rightarrow> StateCondition \<Rightarrow> bool" where
  "condition_matches q c \<longleftrightarrow>
     matchEnum (nq_Severity q) (sc_Severity c) \<and> matchOpt (nq_Code q) (sc_Code c) \<and>
     matchOpt (nq_NodeId q) (derefString (sc_NodeID c)) \<and> matchOpt (nq_Database q) (derefString (sc_Database c)) \<and>
     matchOpt (nq_Table q) (derefString (sc_Table c)) \<and>
     matchOpt (nq_PartitionId q) (derefString (sc_PartitionID c))"

definition count_severity :: "StateCondition \<Rightarrow> SeverityCounts \<Rightarrow> SeverityCounts" where
  "count_severity c k =
     (if sc_Severity c = ''critical'' then k\<lparr>svc_Critical := svc_Critical k + 1\<rparr>
      else if sc_Severity c = ''warning'' then k\<lparr>svc_Warning := svc_Warning k + 1\<rparr>
      else if sc_Severity c = ''info'' then k\<lparr>svc_Info := svc_Info k + 1\<rparr> else k)"

definition ListConditions ::
  "collect_env \<Rightarrow> api_env \<Rightarrow> Collector option \<Rightarrow> condition_params \<Rightarrow>
   (RestCondition, ConditionCounts) counted response" where
  "ListConditions E A state q =
     with_state state (\<lambda>c. from_result (CollectConditions E c) (\<lambda>r.
       let found = filter (condition_matches q) (res_Items r);
           items = sort_by (\<lambda>x. (rc_Severity x, rc_ConditionId x)) (map (apiCondition A) found)
       in \<lparr>ct_Collection = apiCollectionMeta r, ct_Items = items,
           ct_Counts = \<lparr>cnc_Total = int (length items),
             cnc_BySeverity = fold count_severity found \<lparr>svc_Critical = 0, svc_Warning = 0, svc_Info = 0\<rparr>\<rparr>\<rparr>))"

section \<open>The counts add up\<close>

definition kind_total :: "OperationKindCounts \<Rightarrow> int" where
  "kind_total k = okc_Move k + okc_Merge k + okc_Mutation k + okc_Fetch k + okc_ReplicationQueue k"

definition severity_total :: "SeverityCounts \<Rightarrow> int" where
  "severity_total k = svc_Critical k + svc_Warning k + svc_Info k"

definition known_kind :: "string \<Rightarrow> bool" where
  "known_kind k \<longleftrightarrow> k \<in> {''move'', ''merge'', ''mutation'', ''fetch'', ''replication_queue''}"

definition known_severity :: "string \<Rightarrow> bool" where
  "known_severity s \<longleftrightarrow> s \<in> {''critical'', ''warning'', ''info''}"

lemma count_kind_total: "known_kind (op_Kind x) \<Longrightarrow> kind_total (count_kind x k) = kind_total k + 1"
  by (auto simp: known_kind_def count_kind_def kind_total_def Let_def)

lemma count_kinds_total:
  "\<forall>x \<in> set xs. known_kind (op_Kind x) \<Longrightarrow> kind_total (fold count_kind xs k) = kind_total k + int (length xs)"
  by (induction xs arbitrary: k) (simp_all add: count_kind_total)

lemma count_severity_total: "known_severity (sc_Severity c) \<Longrightarrow> severity_total (count_severity c k) = severity_total k + 1"
  by (auto simp: known_severity_def count_severity_def severity_total_def)

lemma count_severities_total:
  "\<forall>c \<in> set cs. known_severity (sc_Severity c) \<Longrightarrow>
   severity_total (fold count_severity cs k) = severity_total k + int (length cs)"
  by (induction cs arbitrary: k) (simp_all add: count_severity_total)

lemma collected_items:
  "fair_order E \<Longrightarrow> set (res_Items (collectPerNode E c what fn)) = (\<Union>cl \<in> set (co_clients c). set (fst (fn cl)))"
  using arg_cong [OF collected(5) [of E c what fn], of set_mset] by simp

lemma operations_known: "x \<in> set (fst (operations_of_node E c cl)) \<Longrightarrow> known_kind (op_Kind x)"
  by (auto simp: operations_of_node_def collectMoveOperations_def collectMergeOperations_def move_operation_def
      merge_operation_def operationFromMutation_def operationFromReplicationQueue_def queue_kind_def known_kind_def
      Let_def split: sum.splits if_splits)

lemma operations_states: "x \<in> set (fst (operations_of_node E c cl)) \<Longrightarrow> op_State x \<in> {''running'', ''queued''}"
  by (auto simp: operations_of_node_def collectMoveOperations_def collectMergeOperations_def move_operation_def
      merge_operation_def operationFromMutation_def operationFromReplicationQueue_def
      Let_def split: sum.splits if_splits)

lemma collected_operations:
  "fair_order E \<Longrightarrow> x \<in> set (res_Items (CollectOperations E c)) \<Longrightarrow>
   known_kind (op_Kind x) \<and> op_State x \<in> {''running'', ''queued''}"
  by (auto simp: CollectOperations_def collected_items dest: operations_known operations_states)

lemma listed_operations:
  assumes "ListOperations E state q = RespOK body"
  obtains c where "state = Some c"
    and "\<And>x. x \<in> set (ct_Items body) \<Longrightarrow> \<exists>y \<in> set (res_Items (CollectOperations E c)). x = apiOperation y"
    and "ct_Collection body = apiCollectionMeta (CollectOperations E c)"
proof -
  from assms obtain c where c: "state = Some c"
    and items: "ct_Items body = sort_by (\<lambda>x. (ro_NodeId x, ro_OperationId x))
      (map apiOperation (filter (operation_matches q) (res_Items (CollectOperations E c))))"
    and coll: "ct_Collection body = apiCollectionMeta (CollectOperations E c)"
    by (auto simp: ListOperations_def with_state_def from_result_def Let_def split: option.splits if_splits)
  show thesis by (rule that [OF c _ coll]) (auto simp: items)
qed

text \<open>The operations listing counts what it lists: its total is the number of items, and the five
  counts by kind add up to it, for every filter and any order of the nodes' answers.\<close>

theorem operation_counts_total:
  assumes "fair_order E" and "ListOperations E state q = RespOK body"
  shows "oc_Total (ct_Counts body) = int (length (ct_Items body)) \<and>
    kind_total (oc_ByKind (ct_Counts body)) = oc_Total (ct_Counts body)"
proof -
  from assms(2) obtain c where c: "state = Some c" and
    body: "body = (let r = CollectOperations E c; found = filter (operation_matches q) (res_Items r);
        items = sort_by (\<lambda>x. (ro_NodeId x, ro_OperationId x)) (map apiOperation found)
      in \<lparr>ct_Collection = apiCollectionMeta r, ct_Items = items,
          ct_Counts = \<lparr>oc_Total = int (length items), oc_ByKind = fold count_kind found no_kinds\<rparr>\<rparr>)"
    by (auto simp: ListOperations_def with_state_def from_result_def Let_def split: option.splits if_splits)
  have "\<forall>x \<in> set (filter (operation_matches q) (res_Items (CollectOperations E c))). known_kind (op_Kind x)"
    using collected_operations [OF assms(1)] by auto
  from count_kinds_total [OF this, of no_kinds] show ?thesis
    by (simp add: body Let_def no_kinds_def kind_total_def)
qed

lemma conditions_known: "c \<in> set (partitionConditions E what parts) \<Longrightarrow> fair_order E \<Longrightarrow> known_severity (sc_Severity c)"
  by (auto simp: partitionConditions_def split_conditions_def mismatch_conditions_def partition_condition_def
      known_severity_def gathered_set Let_def split: prod.splits if_splits option.splits)

lemma stages_known:
  assumes "fair_order E" and "r \<in> set (condition_stages E c)" and "x \<in> set (res_Items r)"
  shows "known_severity (sc_Severity x)"
proof -
  have "x \<in> set (res_Items (TableConditions E c t)) \<Longrightarrow> known_severity (sc_Severity x)" for t
    by (auto simp: TableConditions_def collect_result_def tableConditions_def missing_table_def
        mutationFailureCondition_def replicationQueueExceptionCondition_def known_severity_def Let_def)
  moreover have "x \<in> set (res_Items (PartitionConditions E c w ps)) \<Longrightarrow> known_severity (sc_Severity x)" for w ps
    using conditions_known [OF _ assms(1)]
    by (auto simp: PartitionConditions_def collect_result_def detachedPartCondition_def Let_def)
      (simp add: known_severity_def)
  ultimately show ?thesis using assms(2,3) by (auto simp: condition_stages_def)
qed

lemma collected_conditions:
  assumes "fair_order E" and "x \<in> set (res_Items (CollectConditions E c))"
  shows "known_severity (sc_Severity x)"
  using assms(2) stages_known [OF assms(1), of _ c x]
  by (auto simp: CollectConditions_def collect_result_def collectionWarningCondition_def known_severity_def
      gathered_set [OF assms(1)] Let_def)

lemma listed_conditions:
  assumes "ListConditions E A state q = RespOK body"
  obtains c where "state = Some c"
    and "\<And>x. x \<in> set (ct_Items body) \<Longrightarrow> \<exists>y \<in> set (res_Items (CollectConditions E c)). x = apiCondition A y"
proof -
  from assms obtain c where c: "state = Some c"
    and items: "ct_Items body = sort_by (\<lambda>x. (rc_Severity x, rc_ConditionId x))
      (map (apiCondition A) (filter (condition_matches q) (res_Items (CollectConditions E c))))"
    by (auto simp: ListConditions_def with_state_def from_result_def Let_def split: option.splits if_splits)
  show thesis by (rule that [OF c]) (auto simp: items)
qed

text \<open>The conditions listing counts what it lists: its total is the number of items, and the counts
  by severity add up to it, the conditions made of collection warnings included.\<close>

theorem condition_counts_total:
  assumes "fair_order E" and "ListConditions E A state q = RespOK body"
  shows "cnc_Total (ct_Counts body) = int (length (ct_Items body)) \<and>
    severity_total (cnc_BySeverity (ct_Counts body)) = cnc_Total (ct_Counts body)"
proof -
  from assms(2) obtain c where c: "state = Some c" and
    body: "body = (let r = CollectConditions E c; found = filter (condition_matches q) (res_Items r);
        items = sort_by (\<lambda>x. (rc_Severity x, rc_ConditionId x)) (map (apiCondition A) found)
      in \<lparr>ct_Collection = apiCollectionMeta r, ct_Items = items,
          ct_Counts = \<lparr>cnc_Total = int (length items),
            cnc_BySeverity = fold count_severity found \<lparr>svc_Critical = 0, svc_Warning = 0, svc_Info = 0\<rparr>\<rparr>\<rparr>)"
    by (auto simp: ListConditions_def with_state_def from_result_def Let_def split: option.splits if_splits)
  have "\<forall>x \<in> set (filter (condition_matches q) (res_Items (CollectConditions E c))). known_severity (sc_Severity x)"
    using collected_conditions [OF assms(1)] by auto
  from count_severities_total [OF this, of "\<lparr>svc_Critical = 0, svc_Warning = 0, svc_Info = 0\<rparr>"] show ?thesis
    by (simp add: body Let_def severity_total_def)
qed

section \<open>Values of enumerations\<close>

definition known_warning :: "string \<Rightarrow> bool" where
  "known_warning k \<longleftrightarrow> k \<in> {''reachability'', ''capability'', ''partial_data'', ''query_error''}"

lemma node_warnings_known: "snd (operations_of_node E c cl) = Some w \<Longrightarrow> known_warning (wa_Kind w)"
  by (auto simp: operations_of_node_def queryWarning_def warningKindReachability_def warningKindQueryError_def
      known_warning_def Let_def split: sum.splits if_splits)

text \<open>The strings of the listings are values of the API's enumerations, so that no listing fails the
  generated validation: every operation carries a kind and a state, every condition a severity, and
  every collection warning of the operations a kind that the document names.\<close>

theorem served_enumerations:
  assumes "fair_order E"
  shows "(ListOperations E state oq = RespOK ops \<longrightarrow>
      (\<forall>x \<in> set (ct_Items ops). known_kind (ro_Kind x) \<and> ro_State x \<in> {''running'', ''queued''}) \<and>
      (\<forall>w \<in> set (cm_Warnings (ct_Collection ops)). known_warning (cwn_Kind w))) \<and>
    (ListConditions E A state nq = RespOK conds \<longrightarrow> (\<forall>x \<in> set (ct_Items conds). known_severity (rc_Severity x)))"
proof (intro conjI impI)
  assume ok: "ListOperations E state oq = RespOK ops"
  show "\<forall>x \<in> set (ct_Items ops). known_kind (ro_Kind x) \<and> ro_State x \<in> {''running'', ''queued''}"
    by (rule listed_operations [OF ok]) (use collected_operations [OF assms] in \<open>fastforce simp: apiOperation_def\<close>)
  have kinds: "\<And>c w. w \<in> set (res_Warnings (CollectOperations E c)) \<Longrightarrow> known_warning (wa_Kind w)"
    by (auto simp: CollectOperations_def collected(4) [OF assms] dest: node_warnings_known)
  show "\<forall>w \<in> set (cm_Warnings (ct_Collection ops)). known_warning (cwn_Kind w)"
    by (rule listed_operations [OF ok]) (use kinds in \<open>auto simp: apiCollectionMeta_def\<close>)
next
  assume ok: "ListConditions E A state nq = RespOK conds"
  show "\<forall>x \<in> set (ct_Items conds). known_severity (rc_Severity x)"
    by (rule listed_conditions [OF ok]) (use collected_conditions [OF assms] in \<open>fastforce simp: apiCondition_def\<close>)
qed

section \<open>When a node that answered is not a responder\<close>

text \<open>The part-event listing is refused with status 503 and \<open>no configured ClickHouse node
  responded\<close> when every node did respond, with the server's answer that \<open>system.part_log\<close> does not
  exist: the capability warning counts as a node that failed.\<close>

theorem part_log_missing_is_unavailable:
  assumes "fair_order E" and "co_clients c \<noteq> []" and "co_watches c \<noteq> []"
    and "\<And>cl p a x y. cl \<in> set (co_clients c) \<Longrightarrow> \<exists>m. d_part_log (cl_DB cl) p a x y = Inl (ChException 60 m)"
  shows "ListPartEvents E (Some c) q = RespUnavailable noRespondersProblem"
proof -
  have "snd (events_of_node E c lower to' cl) \<noteq> None" if cl: "cl \<in> set (co_clients c)" for cl lower to'
  proof -
    obtain m where "d_part_log (cl_DB cl) (fst (watchPredicate c ''table'')) (snd (watchPredicate c ''table'')) lower to' =
        Inl (ChException 60 m)" using assms(4) [OF cl] by blast
    then show ?thesis using assms(3)
      by (simp add: events_of_node_def collectPartEvents_def isUnknownTableError_def split_beta)
  qed
  then have "filter (\<lambda>cl. snd (events_of_node E c lower to' cl) = None) (co_clients c) = []" for lower to'
    by (simp add: filter_empty_conv)
  then have "noResponders (CollectPartEvents E c (vq_From q) (vq_To q))"
    using assms(2) unfolding noResponders_def CollectPartEvents_def Let_def collected(1,2) [OF assms(1)] by simp
  then show ?thesis by (simp add: ListPartEvents_def with_state_def from_result_def)
qed

section \<open>Credentials\<close>

lemma after_last_at_clean: "after_last_at s = Some t \<Longrightarrow> CHR ''@'' \<notin> set t"
proof (induction s arbitrary: t)
  case (Cons ch s)
  have none: "after_last_at s = None \<Longrightarrow> CHR ''@'' \<notin> set s" for s
    by (induction s) (auto split: option.splits if_splits)
  from Cons show ?case by (auto split: option.splits if_splits dest: none)
qed simp

lemma after_last_at_none: "after_last_at s = None \<longleftrightarrow> CHR ''@'' \<notin> set s"
  by (induction s) (auto split: option.splits)

text \<open>No credentials in the node listing: whatever address a node is configured with, everything up
  to its last \<open>@\<close> is dropped before the endpoint is parsed, so that an endpoint never carries a
  user or a password, and an address without one is parsed as it is.\<close>

theorem endpoint_hides_userinfo:
  "CHR ''@'' \<notin> set (strip_userinfo addr) \<and>
   strip_userinfo (user @ ''@'' @ host) = strip_userinfo host \<and>
   apiNodeEndpoint A (user @ ''@'' @ host) = apiNodeEndpoint A host"
proof -
  have app: "after_last_at (user @ CHR ''@'' # host) = Some (strip_userinfo host)"
    by (induction user) (simp_all add: strip_userinfo_def split: option.split)
  have "CHR ''@'' \<notin> set (strip_userinfo addr)"
    by (auto simp: strip_userinfo_def after_last_at_none dest: after_last_at_clean split: option.split)
  moreover have s: "strip_userinfo (user @ ''@'' @ host) = strip_userinfo host"
    unfolding strip_userinfo_def [of "user @ ''@'' @ host"] using app by simp
  ultimately show ?thesis by (simp add: apiNodeEndpoint_def s [simplified])
qed

section \<open>Witnesses\<close>

definition moving_db :: state_db where
  "moving_db = quiet_db\<lparr>d_moves := Inr ([(''db'', ''t'', None, Some ''2024'', Fin 0, ''cold'', ''p_1_1_0'', 100, 7)], EndOfRows)\<rparr>"

definition lone_node :: Collector where
  "lone_node = \<lparr>co_clients = [\<lparr>cl_Node = node_at ''n1'' ''s1'' ''r1'', cl_DB = moving_db\<rparr>],
     co_watches = [watch_of ''db'' ''t'']\<rparr>"

definition any_operation :: operation_params where
  "any_operation = \<lparr>oq_Kind = None, oq_NodeId = None, oq_Database = None, oq_Table = None, oq_PartitionId = None\<rparr>"

definition any_condition :: condition_params where
  "any_condition = \<lparr>nq_Severity = None, nq_Code = None, nq_NodeId = None, nq_Database = None, nq_Table = None,
     nq_PartitionId = None\<rparr>"

lemmas lone_db = lone_node_def watch_of_def moving_db_def quiet_db_def all_rows_def watchPredicate_def

lemma lone_listing:
  obtains body where "ListOperations reverse_env (Some lone_node) any_operation = RespOK body"
    and "length (ct_Items body) = 1"
proof -
  obtain body where body: "ListOperations reverse_env (Some lone_node) any_operation = RespOK body"
    and one: "length (ct_Items body) = 1"
    by (simp add: ListOperations_def with_state_def from_result_def Let_def noResponders_def CollectOperations_def
        collectPerNode_def collect_result_def gathered_def reverse_env_def
        operations_of_node_def collectMoveOperations_def collectMergeOperations_def collectMutations_def
        collectReplicationQueue_def lone_db isWatched_def respondedNodes_def move_operation_def
        operation_matches_def any_operation_def matchEnum_def matchOpt_def)
  with that show thesis by blast
qed

theorem operation_counts_total_witness:
  "\<exists>body. ListOperations reverse_env (Some lone_node) any_operation = RespOK body \<and>
     kind_total (oc_ByKind (ct_Counts body)) = 1"
proof -
  obtain body where body: "ListOperations reverse_env (Some lone_node) any_operation = RespOK body"
    and one: "length (ct_Items body) = 1" by (rule lone_listing)
  show ?thesis using operation_counts_total [OF reverse_fair body] body one by auto
qed

theorem served_enumerations_witness:
  "\<exists>body x. ListOperations reverse_env (Some lone_node) any_operation = RespOK body \<and>
     x \<in> set (ct_Items body) \<and> known_kind (ro_Kind x)"
proof -
  obtain body where body: "ListOperations reverse_env (Some lone_node) any_operation = RespOK body"
    and one: "length (ct_Items body) = 1" by (rule lone_listing)
  from one obtain x where x: "x \<in> set (ct_Items body)" by (metis length_0_conv list.set_intros(1) neq_Nil_conv zero_neq_one)
  show ?thesis using served_enumerations [OF reverse_fair, of _ _ body] body x by blast
qed

theorem condition_counts_total_witness:
  "\<exists>body. ListConditions reverse_env A (Some lone_node) any_condition = RespOK body \<and>
     severity_total (cnc_BySeverity (ct_Counts body)) = cnc_Total (ct_Counts body)"
proof -
  have quiet: "res_Warnings r = []" if "r \<in> set (condition_stages reverse_env lone_node)" for r
    using that
    by (auto simp: condition_stages_def TableConditions_def PartitionConditions_def collect_result_def
        CollectTables_def CollectActiveParts_def CollectDetachedParts_def CollectMutations_def CollectReplicationQueue_def
        collectPerNode_def gathered_def reverse_env_def collectTableStates_def collectTableIdentities_def
        collectTablePartAggregates_def collectReplicaStates_def collectPartsResult_def collectParts_def
        collectDetachedParts_def collectMutations_def collectReplicationQueue_def appendWarnings_def
        or_warning_def List.map_filter_simps lone_db Let_def)
  have empty: "fold (\<lambda>r ws. appendWarnings D ws (res_Warnings r)) stages [] = []"
    if "\<forall>r \<in> set stages. res_Warnings r = []" for stages :: "StateCondition Result list" and D
    using that by (induction stages) (auto simp: appendWarnings_def)
  have "\<not> noResponders (CollectConditions reverse_env lone_node)"
    using quiet by (simp add: CollectConditions_def Let_def noResponders_def collect_result_def empty
        gathered_set [OF reverse_fair] respondedNodes_def)
  then obtain body where "ListConditions reverse_env A (Some lone_node) any_condition = RespOK body"
    by (simp add: ListConditions_def with_state_def from_result_def Let_def)
  with condition_counts_total [OF reverse_fair this] show ?thesis by blast
qed

theorem part_log_missing_is_unavailable_witness:
  "ListPartEvents reverse_env (Some half_dead)
     \<lparr>vq_From = None, vq_To = None, vq_NodeId = None, vq_Database = None, vq_Table = None, vq_PartitionId = None,
      vq_PartName = None, vq_EventType = None\<rparr> = RespUnavailable noRespondersProblem"
proof (rule part_log_missing_is_unavailable [OF reverse_fair])
  fix cl p a x y
  assume "cl \<in> set (co_clients half_dead)"
  then show "\<exists>m. d_part_log (cl_DB cl) p a x y = Inl (ChException 60 m)"
    by (auto simp: half_dead_def dead_db_def quiet_db_def)
qed (simp_all add: half_dead_def)

end
