(* ===== verification/TieringApi.thy ===== *)
theory TieringApi
  imports Supervised Handlers
begin

text \<open>
  The tiering half of the API (\<open>internal/server/handler.go\<close>, \<open>mapping.go\<close>): the plan, the status and
  the history as they are served, pause and resume, and the supervised apply and retry with the
  problems their refusals become. The server holds the controller and its store, each absent when
  tiering is not configured; a handler that changes the controller returns it.
\<close>

section \<open>Response types and mappers\<close>

definition pause_text :: "PauseState \<Rightarrow> string" where
  "pause_text p = (case p of PauseRunning \<Rightarrow> ''running'' | PauseStopping \<Rightarrow> ''stopping'' | PauseStopped \<Rightarrow> ''stopped'')"

definition severity_text :: "ConditionSeverity \<Rightarrow> string" where
  "severity_text s = (case s of SeverityInfo \<Rightarrow> ''info'' | SeverityWarning \<Rightarrow> ''warning'' | SeverityCritical \<Rightarrow> ''critical'')"

record TieringHoldDetail =
  thd_Gate :: string
  thd_Window :: "gotext option"
  thd_LastInsertAt :: "gtime option"
  thd_LastChangeAt :: "gtime option"
  thd_ReleasesAt :: "gtime option"
  thd_RetryAt :: "gtime option"
  thd_Failures :: "int option"

definition apiTieringHold :: "HoldDetail option \<Rightarrow> TieringHoldDetail option" where
  "apiTieringHold detail =
     map_option (\<lambda>d. \<lparr>thd_Gate = hd_Gate d, thd_Window = optNonEmptyText (hd_Window d),
       thd_LastInsertAt = optTimePtr (hd_LastInsert d), thd_LastChangeAt = optTimePtr (hd_LastChange d),
       thd_ReleasesAt = optTimePtr (hd_ReleasesAt d), thd_RetryAt = optTimePtr (hd_RetryAt d),
       thd_Failures = (if hd_Failures d \<noteq> 0 then Some (hd_Failures d) else None)\<rparr>) detail"

record TieringPolicy =
  tpo_Mode :: string
  tpo_AgeBasis :: string
  tpo_OlderThan :: "gotext option"
  tpo_Field :: "string option"
  tpo_KeepLast :: "string option"
  tpo_QuietFor :: gotext
  tpo_TierFrozenAfter :: gotext
  tpo_TargetDisk :: string
  tpo_HotVolume :: "string option"
  tpo_OptimizeToParts :: string
  tpo_SkipOptimize :: bool
  tpo_OptimizeOn :: string
  tpo_OptimizeSkipAboveBytes :: string
  tpo_ResplitStrategy :: string
  tpo_ResplitQuietFor :: gotext
  tpo_FragmentAbovePartCount :: string

definition apiTieringPolicy :: "PolicySnapshot \<Rightarrow> TieringPolicy" where
  "apiTieringPolicy p =
     \<lparr>tpo_Mode = pol_Mode p, tpo_AgeBasis = pol_AgeBasis p, tpo_OlderThan = optNonEmptyText (pol_OlderThan p),
      tpo_Field = optNonEmpty (pol_Field p),
      tpo_KeepLast = (if pol_KeepLast p \<noteq> 0 then optU64 (pol_KeepLast p) else None),
      tpo_QuietFor = pol_QuietFor p, tpo_TierFrozenAfter = pol_TierFrozenAfter p,
      tpo_TargetDisk = pol_TargetDisk p, tpo_HotVolume = optNonEmpty (pol_HotVolume p),
      tpo_OptimizeToParts = api_u64 (pol_OptimizeToParts p), tpo_SkipOptimize = pol_SkipOptimize p,
      tpo_OptimizeOn = pol_OptimizeOn p, tpo_OptimizeSkipAboveBytes = pol_OptimizeSkipAboveBytes p,
      tpo_ResplitStrategy = pol_ResplitStrategy p, tpo_ResplitQuietFor = pol_ResplitQuietFor p,
      tpo_FragmentAbovePartCount = api_u64 (pol_FragmentAbovePartCount p)\<rparr>"

record TieringCondition =
  tcn_Severity :: string
  tcn_Code :: string
  tcn_Message :: gotext
  tcn_ObservedAt :: gtime
  tcn_NodeId :: "string option"
  tcn_Database :: "string option"
  tcn_Table :: "string option"
  tcn_Partition :: "string option"
  tcn_PartitionId :: "string option"

definition apiTieringConditions :: "Condition list \<Rightarrow> TieringCondition list" where
  "apiTieringConditions conditions =
     map (\<lambda>c. \<lparr>tcn_Severity = severity_text (cond_Severity c), tcn_Code = cond_Code c,
       tcn_Message = cond_Message c, tcn_ObservedAt = cond_ObservedAt c,
       tcn_NodeId = optNonEmpty (cond_NodeID c), tcn_Database = optNonEmpty (cond_Database c),
       tcn_Table = optNonEmpty (cond_Table c), tcn_Partition = optNonEmpty (cond_Partition c),
       tcn_PartitionId = optNonEmpty (cond_PartitionID c)\<rparr>) conditions"

record TieringPartition =
  tpn_NodeId :: string
  tpn_Shard :: string
  tpn_Replica :: string
  tpn_Database :: string
  tpn_Table :: string
  tpn_Partition :: string
  tpn_PartitionId :: string
  tpn_Status :: string
  tpn_Decision :: string
  tpn_Reason :: gotext
  tpn_Rows :: string
  tpn_BytesOnDisk :: string
  tpn_ActiveParts :: string
  tpn_Disks :: "(string \<times> string) list"
  tpn_TargetDisk :: string
  tpn_HotVolume :: "string option"
  tpn_Policy :: TieringPolicy
  tpn_Conditions :: "TieringCondition list"
  tpn_Hold :: "TieringHoldDetail option"
  tpn_StateToken :: string
  tpn_ReconciledAt :: gtime
  tpn_EffectiveMode :: string

definition apiTieringPartition :: "Verdict \<Rightarrow> TieringPartition" where
  "apiTieringPartition v =
     \<lparr>tpn_NodeId = v_NodeID v, tpn_Shard = v_Shard v, tpn_Replica = v_Replica v,
      tpn_Database = v_Database v, tpn_Table = v_Table v, tpn_Partition = v_Partition v,
      tpn_PartitionId = v_PartitionID v, tpn_Status = status_text (v_Status v),
      tpn_Decision = decision_text (v_Decision v), tpn_Reason = v_Reason v, tpn_Rows = api_u64 (v_Rows v),
      tpn_BytesOnDisk = api_u64 (v_BytesOnDisk v), tpn_ActiveParts = api_u64 (v_ActiveParts v),
      tpn_Disks = map (\<lambda>d. (DiskPart.dp_Disk d, api_u64 (dp_Parts d))) (v_Disks v),
      tpn_TargetDisk = v_TargetDisk v, tpn_HotVolume = optNonEmpty (v_HotVolume v),
      tpn_Policy = apiTieringPolicy (v_Policy v), tpn_Conditions = apiTieringConditions (v_Conditions v),
      tpn_Hold = apiTieringHold (v_Hold v), tpn_StateToken = v_Token v,
      tpn_ReconciledAt = v_ReconciledAt v, tpn_EffectiveMode = v_EffectiveMode v\<rparr>"

record TieringInFlightLeg =
  til_NodeId :: string
  til_Database :: string
  til_Table :: string
  til_Partition :: string
  til_PartitionId :: string
  til_Action :: string
  til_Bytes :: string
  til_StartedAt :: gtime
  til_Source :: string

record TieringStatus =
  tst_Mode :: string
  tst_PauseState :: string
  tst_PauseReason :: "string option"
  tst_InFlight :: "TieringInFlightLeg list"
  tst_MaxConcurrentPartitions :: int
  tst_MaxMovesPerCycle :: int
  tst_MaxBytesInFlight :: string
  tst_BytesInFlight :: string
  tst_MaxBytesPerDay :: string
  tst_BytesMovedToday :: string
  tst_UpdatedAt :: gtime

definition apiTieringStatus :: "StatusSnapshot \<Rightarrow> InFlightLeg list \<Rightarrow> TieringStatus" where
  "apiTieringStatus s legs =
     \<lparr>tst_Mode = sn_Mode s, tst_PauseState = pause_text (sn_PauseState s),
      tst_PauseReason = Some (reason_text (sn_PauseReason s)),
      tst_InFlight = map (\<lambda>l. \<lparr>til_NodeId = leg_NodeID l, til_Database = leg_Database l,
        til_Table = leg_Table l, til_Partition = leg_Partition l, til_PartitionId = leg_PartitionID l,
        til_Action = decision_text (leg_Action l), til_Bytes = api_u64 (leg_Bytes l),
        til_StartedAt = leg_StartedAt l, til_Source = leg_Source l\<rparr>) legs,
      tst_MaxConcurrentPartitions = sn_MaxConcurrentPartitions s, tst_MaxMovesPerCycle = sn_MaxMovesPerCycle s,
      tst_MaxBytesInFlight = api_u64 (sn_MaxBytesInFlight s), tst_BytesInFlight = api_u64 (sn_BytesInFlight s),
      tst_MaxBytesPerDay = api_u64 (sn_MaxBytesPerDay s), tst_BytesMovedToday = api_u64 (sn_BytesMovedToday s),
      tst_UpdatedAt = sn_UpdatedAt s\<rparr>"

record TieringHistoryEntry =
  the_Time :: gtime
  the_NodeId :: string
  the_Database :: string
  the_Table :: string
  the_Partition :: string
  the_PartitionId :: string
  the_Action :: string
  the_Outcome :: string
  the_DurationMs :: int
  the_Bytes :: string
  the_Error :: "gotext option"
  the_AttemptId :: "string option"

definition apiTieringHistory :: "HistoryEntry \<Rightarrow> TieringHistoryEntry" where
  "apiTieringHistory e =
     \<lparr>the_Time = he_Time e, the_NodeId = he_NodeID e, the_Database = he_Database e, the_Table = he_Table e,
      the_Partition = he_Partition e, the_PartitionId = he_PartitionID e,
      the_Action = decision_text (he_Action e), the_Outcome = he_Outcome e,
      the_DurationMs = millis (he_Duration e), the_Bytes = api_u64 (he_Bytes e),
      the_Error = optNonEmptyText (he_Error e), the_AttemptId = optNonEmpty (he_AttemptID e)\<rparr>"

record TieringTablePlan =
  ttp_NodeId :: string
  ttp_Database :: string
  ttp_Table :: string
  ttp_ReconciledAt :: gtime
  ttp_TickDurationMs :: int
  ttp_Generation :: string
  ttp_LastError :: "gotext option"
  ttp_Partitions :: int
  ttp_Actionable :: int
  ttp_Conditions :: "TieringCondition list"

definition apiTieringTablePlan :: "TablePlan \<Rightarrow> TieringTablePlan" where
  "apiTieringTablePlan t =
     \<lparr>ttp_NodeId = tp_NodeID t, ttp_Database = tp_Database t, ttp_Table = tp_Table t,
      ttp_ReconciledAt = tp_ReconciledAt t, ttp_TickDurationMs = millis (tp_TickDuration t),
      ttp_Generation = tp_Generation t, ttp_LastError = optNonEmptyText (tp_LastError t),
      ttp_Partitions = int (length (tp_Verdicts t)), ttp_Actionable = 0,
      ttp_Conditions = apiTieringConditions (tp_Conditions t)\<rparr>"

section \<open>Reads\<close>

record plan_params =
  yq_NodeId :: "string option"
  yq_Database :: "string option"
  yq_Table :: "string option"
  yq_Status :: "string option"
  yq_Decision :: "string option"

record TieringPlanResponse =
  tpr_Tables :: "TieringTablePlan list"
  tpr_Items :: "TieringPartition list"

definition plan_table_matches :: "plan_params \<Rightarrow> TablePlan \<Rightarrow> bool" where
  "plan_table_matches q t \<longleftrightarrow>
     matchOpt (yq_NodeId q) (tp_NodeID t) \<and> matchOpt (yq_Database q) (tp_Database t) \<and>
     matchOpt (yq_Table q) (tp_Table t)"

text \<open>The inner loop: one verdict adds an item, and counts when it dispatches a leg.\<close>

definition plan_verdict ::
  "plan_params \<Rightarrow> Verdict \<Rightarrow> TieringTablePlan \<times> TieringPartition list \<Rightarrow> TieringTablePlan \<times> TieringPartition list" where
  "plan_verdict q v acc =
     (case acc of (t, items) \<Rightarrow>
        if matchEnum (yq_Status q) (status_text (v_Status v)) \<and> matchEnum (yq_Decision q) (decision_text (v_Decision v)) then
          (if IsActionableDecision (v_Decision v) then t\<lparr>ttp_Actionable := ttp_Actionable t + 1\<rparr> else t,
           items @ [apiTieringPartition v])
        else acc)"

definition plan_table :: "plan_params \<Rightarrow> TablePlan \<Rightarrow> TieringPlanResponse \<Rightarrow> TieringPlanResponse" where
  "plan_table q t r =
     (if plan_table_matches q t then
        (case fold (plan_verdict q) (tp_Verdicts t) (apiTieringTablePlan t, tpr_Items r) of
           (plan, items) \<Rightarrow> \<lparr>tpr_Tables = tpr_Tables r @ [plan], tpr_Items = items\<rparr>)
      else r)"

definition GetTieringPlan :: "Store option \<Rightarrow> plan_params \<Rightarrow> TieringPlanResponse response" where
  "GetTieringPlan store q =
     (case store of
        None \<Rightarrow> RespUnavailable noTieringProblem
      | Some s \<Rightarrow> RespOK (fold (plan_table q) (Snapshot s) \<lparr>tpr_Tables = [], tpr_Items = []\<rparr>))"

definition GetTieringStatus :: "Store option \<Rightarrow> controller option \<Rightarrow> TieringStatus response" where
  "GetTieringStatus store tiering =
     (case store of
        None \<Rightarrow> RespUnavailable noTieringProblem
      | Some s \<Rightarrow> RespOK (apiTieringStatus (store_Status s) (case tiering of None \<Rightarrow> [] | Some c \<Rightarrow> InFlight c)))"

record history_params =
  zq_NodeId :: "string option"
  zq_Database :: "string option"
  zq_Table :: "string option"
  zq_PartitionId :: "string option"

definition history_matches :: "history_params \<Rightarrow> HistoryEntry \<Rightarrow> bool" where
  "history_matches q e \<longleftrightarrow>
     matchOpt (zq_NodeId q) (he_NodeID e) \<and> matchOpt (zq_Database q) (he_Database e) \<and>
     matchOpt (zq_Table q) (he_Table e) \<and> matchOpt (zq_PartitionId q) (he_PartitionID e)"

definition GetTieringHistory :: "Store option \<Rightarrow> history_params \<Rightarrow> TieringHistoryEntry list response" where
  "GetTieringHistory store q =
     (case store of
        None \<Rightarrow> RespUnavailable noTieringProblem
      | Some s \<Rightarrow> RespOK (map apiTieringHistory (filter (history_matches q) (History s))))"

section \<open>Control\<close>

definition PauseTiering :: "gtime \<Rightarrow> controller option \<Rightarrow> TieringStatus response \<times> controller option" where
  "PauseTiering now tiering =
     (case tiering of
        None \<Rightarrow> (RespUnavailable noTieringProblem, None)
      | Some c \<Rightarrow> (let c1 = ctl_Pause now PauseReasonOperator c
                   in (RespOK (apiTieringStatus (store_Status (c_store c1)) (InFlight c1)), Some c1)))"

definition ResumeTiering :: "gtime \<Rightarrow> controller option \<Rightarrow> TieringStatus response \<times> controller option" where
  "ResumeTiering now tiering =
     (case tiering of
        None \<Rightarrow> (RespUnavailable noTieringProblem, None)
      | Some c \<Rightarrow> (let c1 = ctl_Resume now c
                   in (RespOK (apiTieringStatus (store_Status (c_store c1)) (InFlight c1)), Some c1)))"

definition isTieringNotFound :: "gotext \<Rightarrow> bool" where
  "isTieringNotFound err \<longleftrightarrow>
     errors_is err ErrNodeNotConfigured \<or> errors_is err ErrWatchNotConfigured \<or> errors_is err ErrPartitionNotFound"

definition tieringActionProblem :: "gotext + HistoryEntry \<Rightarrow> problem option" where
  "tieringActionProblem result =
     (case result of
        Inl err \<Rightarrow> Some (api_problem (if isTieringNotFound err then 404 else 409) err)
      | Inr entry \<Rightarrow>
          if he_Outcome entry \<noteq> '''' \<and> he_Outcome entry \<noteq> ''success'' \<and> he_Outcome entry \<noteq> ''started'' then
            Some (api_problem 409 (if he_Error entry \<noteq> no_text
              then Fmt ''tiering action failed: %s'' [AText (he_Error entry)] else lit ''tiering action failed''))
          else None)"

definition action_response :: "gotext + HistoryEntry \<Rightarrow> TieringHistoryEntry response" where
  "action_response result =
     (case tieringActionProblem result of
        Some p \<Rightarrow> if pb_Status p = 404 then RespNotFound p else RespConflict p
      | None \<Rightarrow> (case result of Inr entry \<Rightarrow> RespOK (apiTieringHistory entry)
                 | Inl err \<Rightarrow> RespConflict (api_problem 409 err)))"

definition ApplyTieringPartition ::
  "go_env \<Rightarrow> server \<Rightarrow> gotext \<Rightarrow> controller option \<Rightarrow> string \<Rightarrow> string \<Rightarrow> string \<Rightarrow> string \<Rightarrow> string \<Rightarrow>
   TieringHistoryEntry response \<times> controller option" where
  "ApplyTieringPartition env S ctx_err tiering nodeID database table partitionID stateToken =
     (case tiering of
        None \<Rightarrow> (RespUnavailable noTieringProblem, None)
      | Some c \<Rightarrow> (case ctl_Apply env S ctx_err nodeID database table partitionID stateToken c of
          (result, c1) \<Rightarrow> (action_response (map_sum id fst result), Some c1)))"

definition RetryTieringPartition ::
  "go_env \<Rightarrow> server \<Rightarrow> gotext \<Rightarrow> controller option \<Rightarrow> string \<Rightarrow> string \<Rightarrow> string \<Rightarrow> string \<Rightarrow> string \<Rightarrow>
   TieringHistoryEntry response \<times> controller option" where
  "RetryTieringPartition env S ctx_err tiering nodeID database table partitionID stateToken =
     (case tiering of
        None \<Rightarrow> (RespUnavailable noTieringProblem, None)
      | Some c \<Rightarrow> (case ctl_Retry env S ctx_err nodeID database table partitionID stateToken c of
          (result, c1) \<Rightarrow> (action_response (map_sum id fst result), Some c1)))"

section \<open>The plan listing\<close>

definition verdict_matches :: "plan_params \<Rightarrow> Verdict \<Rightarrow> bool" where
  "verdict_matches q v \<longleftrightarrow>
     matchEnum (yq_Status q) (status_text (v_Status v)) \<and> matchEnum (yq_Decision q) (decision_text (v_Decision v))"

definition startable :: "plan_params \<Rightarrow> TablePlan \<Rightarrow> Verdict list" where
  "startable q t = filter (\<lambda>v. verdict_matches q v \<and> IsActionableDecision (v_Decision v)) (tp_Verdicts t)"

lemma plan_verdicts:
  "fold (plan_verdict q) vs (t, items) =
     (t\<lparr>ttp_Actionable := ttp_Actionable t +
         int (length (filter (\<lambda>v. verdict_matches q v \<and> IsActionableDecision (v_Decision v)) vs))\<rparr>,
      items @ map apiTieringPartition (filter (verdict_matches q) vs))"
  by (induction vs arbitrary: t items) (auto simp: plan_verdict_def verdict_matches_def)

lemma plan_tables:
  "fold (plan_table q) ts r =
     \<lparr>tpr_Tables = tpr_Tables r @ map (\<lambda>t. (apiTieringTablePlan t)\<lparr>ttp_Actionable := int (length (startable q t))\<rparr>)
        (filter (plan_table_matches q) ts),
      tpr_Items = tpr_Items r @ map apiTieringPartition
        (concat (map (\<lambda>t. filter (verdict_matches q) (tp_Verdicts t)) (filter (plan_table_matches q) ts)))\<rparr>"
proof (induction ts arbitrary: r)
  case (Cons t ts)
  then show ?case
    by (simp add: plan_table_def plan_verdicts startable_def) (simp add: apiTieringTablePlan_def)
qed simp

definition dispatches_leg :: "TieringPartition \<Rightarrow> bool" where
  "dispatches_leg i \<longleftrightarrow> tpn_Decision i \<in> {''consolidate'', ''optimize'', ''tier'', ''append''}"

lemma actionable_text:
  "dispatches_leg (apiTieringPartition v) \<longleftrightarrow>
   IsActionableDecision (v_Decision v)"
  by (cases "v_Decision v") (simp_all add: dispatches_leg_def apiTieringPartition_def decision_text_def IsActionableDecision_def)

lemma count_concat:
  "length (filter P (concat (map f xs))) = sum_list (map (\<lambda>x. length (filter P (f x))) xs)"
  by (induction xs) simp_all

text \<open>C38: The plan as the API serves it: the items are exactly the published verdicts that pass the
  filters, table by table in the order of the snapshot; and the numbers of actionable partitions shown
  on the tables add up to the items whose decision dispatches a leg.\<close>

theorem plan_listing_exact:
  "\<exists>r. GetTieringPlan (Some s) q = RespOK r \<and>
     tpr_Items r = map apiTieringPartition (concat (map (\<lambda>t. filter (verdict_matches q) (tp_Verdicts t))
       (filter (plan_table_matches q) (Snapshot s)))) \<and>
     map ttp_Actionable (tpr_Tables r) =
       map (\<lambda>t. int (length (startable q t))) (filter (plan_table_matches q) (Snapshot s)) \<and>
     sum_list (map ttp_Actionable (tpr_Tables r)) =
       int (length (filter (\<lambda>i. dispatches_leg i) (tpr_Items r)))"
proof -
  let ?ts = "filter (plan_table_matches q) (Snapshot s)"
  define tables where "tables = map (\<lambda>t. (apiTieringTablePlan t)\<lparr>ttp_Actionable := int (length (startable q t))\<rparr>) ?ts"
  define vs where "vs = concat (map (\<lambda>t. filter (verdict_matches q) (tp_Verdicts t)) ?ts)"
  have r: "GetTieringPlan (Some s) q = RespOK \<lparr>tpr_Tables = tables, tpr_Items = map apiTieringPartition vs\<rparr>"
    by (simp add: GetTieringPlan_def plan_tables tables_def vs_def)
  have sums: "sum_list (map (\<lambda>t. int (length (startable q t))) ts) =
      int (length (filter (\<lambda>v. IsActionableDecision (v_Decision v))
        (concat (map (\<lambda>t. filter (verdict_matches q) (tp_Verdicts t)) ts))))" for ts
    by (induction ts) (simp_all add: startable_def conj_commute)
  have items: "length (filter (\<lambda>i. dispatches_leg i)
      (map apiTieringPartition vs)) = length (filter (\<lambda>v. IsActionableDecision (v_Decision v)) vs)" for vs
    by (simp only: filter_map length_map comp_def actionable_text)
  have "map ttp_Actionable tables = map (\<lambda>t. int (length (startable q t))) ?ts"
    by (simp add: tables_def)
  with r sums [of ?ts] items [of vs] show ?thesis by (simp add: vs_def)
qed

section \<open>The answers of the control surface\<close>

text \<open>An acknowledged action is answered with 202 (\<open>api/rest/oas_response_encoders_gen.go\<close>), a problem with its
  own status.\<close>

definition response_status :: "'a response \<Rightarrow> int" where
  "response_status r =
     (case r of RespOK a \<Rightarrow> 202 | RespBadRequest p \<Rightarrow> pb_Status p | RespNotFound p \<Rightarrow> pb_Status p
      | RespConflict p \<Rightarrow> pb_Status p | RespInternalError p \<Rightarrow> pb_Status p | RespUnavailable p \<Rightarrow> pb_Status p)"

definition error_status :: "gotext \<Rightarrow> int" where
  "error_status err = (if isTieringNotFound err then 404 else 409)"

lemma action_error: "response_status (action_response (Inl err)) = error_status err"
  by (simp add: action_response_def tieringActionProblem_def api_problem_def response_status_def error_status_def)

lemma ok_status [simp]: "response_status (RespOK a) = 202"
  by (simp add: response_status_def)

lemma action_started: "action_response (Inr (startedEntry now v)) = RespOK (apiTieringHistory (startedEntry now v))"
  by (simp add: action_response_def tieringActionProblem_def startedEntry_def)

lemmas sentinels = ErrStateTokenRequired_def ErrStateTokenMismatch_def ErrNodeNotConfigured_def
  ErrWatchNotConfigured_def ErrPartitionNotFound_def ErrNotActionable_def ErrTieringPaused_def ErrLegInFlight_def

lemma error_statuses:
  "error_status (Fmt f [AWrap ErrTieringPaused, AStr a]) = 409"
  "error_status (Fmt f [AWrap ErrNodeNotConfigured, AStr a]) = 404"
  "error_status (Fmt f [AWrap ErrWatchNotConfigured, AStr a, AStr b]) = 404"
  "error_status (Fmt f [AWrap ErrPartitionNotFound, AStr a]) = 404"
  "error_status (Fmt f [AWrap ErrNotActionable, AStr a]) = 409"
  "error_status (Fmt f [AWrap ErrLegInFlight, AStr a]) = 409"
  "error_status ErrStateTokenRequired = 409" "error_status ErrStateTokenMismatch = 409"
  by (simp_all add: error_status_def isTieringNotFound_def sentinels)

lemma check_token_status: "CheckToken v tok = Some e \<Longrightarrow> error_status e = 409"
  by (auto simp: CheckToken_def error_statuses split: if_splits)

definition token_ok :: "string \<Rightarrow> Verdict \<Rightarrow> bool" where
  "token_ok tok v \<longleftrightarrow> tok \<noteq> '''' \<and> v_Token v = tok"

text \<open>What the answer should be: the first reason not to act decides.\<close>

definition apply_status ::
  "go_env \<Rightarrow> server \<Rightarrow> gotext \<Rightarrow> controller \<Rightarrow> string \<Rightarrow> string \<Rightarrow> string \<Rightarrow> string \<Rightarrow> string \<Rightarrow> int" where
  "apply_status env S e c n d t pid tok =
     (if sn_PauseState (store_Status (c_store c)) \<noteq> PauseRunning then 409
      else case (controller_client c n, controller_watch c d t, FindVerdict (c_store c) n d t pid) of
        (Some node, Some watch, Some planned) \<Rightarrow>
          if w_Settings watch = None then 404
          else if \<not> token_ok tok planned then 409
          else (case fst (observeTable env S e node watch c) of
              Inl err \<Rightarrow> error_status err
            | Inr obs \<Rightarrow>
                (case find (\<lambda>v. v_PartitionID v = pid) (DecideTable env obs (decisionTime env obs)) of
                   None \<Rightarrow> 404
                 | Some v \<Rightarrow> if token_ok tok v \<and> IsActionableDecision (v_Decision v) \<and>
                                amap_get (c_inFlight c) (flightKey v) = None then 202 else 409))
      | _ \<Rightarrow> 404)"

lemma check_token_ok: "CheckToken v tok = None \<longleftrightarrow> token_ok tok v"
  by (simp add: CheckToken_def token_ok_def)

lemma fresh_status:
  "response_status (action_response (map_sum id fst (case admit_fresh now pid tok fresh c of
      (Inl err, c2) \<Rightarrow> Inl err | (Inr v, c2) \<Rightarrow> Inr (startedEntry now' v, obs, v)))) =
   (case find (\<lambda>v. v_PartitionID v = pid) fresh of
      None \<Rightarrow> 404
    | Some v \<Rightarrow> if token_ok tok v \<and> IsActionableDecision (v_Decision v) \<and>
                   amap_get (c_inFlight c) (flightKey v) = None then 202 else 409)"
proof (cases "find (\<lambda>v. v_PartitionID v = pid) fresh")
  case (Some v)
  show ?thesis
  proof (cases "CheckToken v tok")
    case (Some e)
    then have "\<not> token_ok tok v" by (simp flip: check_token_ok)
    then show ?thesis using Some \<open>find _ _ = _\<close> check_token_status [OF Some]
      by (simp add: admit_fresh_def action_error)
  next
    case None
    then have "token_ok tok v" by (simp flip: check_token_ok)
    then show ?thesis using None \<open>find _ _ = _\<close>
      by (simp add: admit_fresh_def markSupervised_def action_error action_started error_statuses)
  qed
qed (simp add: admit_fresh_def action_error error_statuses)

lemma apply_result_status:
  "response_status (action_response (map_sum id fst (fst (ctl_Apply env S e n d t pid tok c)))) =
   apply_status env S e c n d t pid tok"
proof (cases "ensureNotPaused c")
  case (Some err)
  then have "sn_PauseState (store_Status (c_store c)) \<noteq> PauseRunning" and "error_status err = 409"
    by (auto simp: ensureNotPaused_def Let_def error_statuses split: if_splits)
  then show ?thesis using Some by (simp add: ctl_Apply_def apply_status_def action_error)
next
  case run: None
  then have running: "sn_PauseState (store_Status (c_store c)) = PauseRunning"
    by (simp add: ensureNotPaused_def Let_def split: if_splits)
  show ?thesis
  proof (cases "\<exists>node watch settings planned. controller_client c n = Some node \<and>
      controller_watch c d t = Some watch \<and> w_Settings watch = Some settings \<and>
      FindVerdict (c_store c) n d t pid = Some planned \<and> CheckToken planned tok = None")
    case False
    then show ?thesis using run running
      by (auto simp: ctl_Apply_def apply_status_def Let_def action_error error_statuses check_token_status
          simp flip: check_token_ok split: option.split)
  next
    case True
    then obtain node watch settings planned where s: "controller_client c n = Some node"
      "controller_watch c d t = Some watch" "w_Settings watch = Some settings"
      "FindVerdict (c_store c) n d t pid = Some planned" "CheckToken planned tok = None" by blast
    have tok: "token_ok tok planned" using s(5) by (simp add: check_token_ok)
    obtain o1 c1 where o': "observeTable env S e node watch c = (o1, c1)" by fastforce
    have keep: "c_inFlight c1 = c_inFlight c" using observeTable_keeps [of env S e node watch c] by (simp add: o')
    show ?thesis
    proof (cases o1)
      case (Inl err)
      then show ?thesis using run running s tok o' by (simp add: ctl_Apply_def apply_status_def action_error)
    next
      case (Inr obs)
      have "fst (ctl_Apply env S e n d t pid tok c) =
          (case admit_fresh (env_clock env) pid tok (DecideTable env obs (decisionTime env obs)) c1 of
             (Inl e, c2) \<Rightarrow> Inl e | (Inr v, c2) \<Rightarrow> Inr (startedEntry (env_clock env) v, obs, v))"
        using run s o' Inr by (simp add: ctl_Apply_def split: prod.split sum.split)
      then show ?thesis
        using running s(1-4) tok o' Inr
        by (simp add: fresh_status keep apply_status_def cong: option.case_cong)
    qed
  qed
qed

lemma retry_apply:
  "ctl_Retry env S e n d t pid tok c = ctl_Apply env S e n d t pid tok c \<or>
   (\<exists>err. ctl_Retry env S e n d t pid tok c = (Inl err, c) \<and> ensureNotPaused c = None \<and>
     (FindVerdict (c_store c) n d t pid = None \<and> error_status err = 404 \<or>
      (\<exists>planned. FindVerdict (c_store c) n d t pid = Some planned \<and> \<not> token_ok tok planned) \<and> error_status err = 409))"
  by (auto simp: ctl_Retry_def ctl_Apply_def check_token_status error_statuses
      simp flip: check_token_ok split: option.split)


section \<open>Pausing\<close>

lemma clean_guard_keeps_operator_pause:
  assumes "guardForeignMovers env S canceled node table c = (True, c')"
    and "sn_PauseState (store_Status (c_store c)) = PauseStopped"
    and "sn_PauseReason (store_Status (c_store c)) = PauseReasonOperator"
  shows "sn_PauseState (store_Status (c_store c')) = PauseStopped"
  using assms
  by (auto simp: guardForeignMovers_def Let_def guard_clean_def split: prod.splits sum.splits if_splits)

lemma paused_dispatch:
  assumes "sn_PauseState (store_Status (c_store c)) = PauseStopped"
    and "sn_PauseReason (store_Status (c_store c)) = PauseReasonOperator"
  shows "fst (dispatch env S canceled node table verdicts c) = []"
proof (cases "guardForeignMovers env S canceled node table c")
  case (Pair clean c1)
  then show ?thesis
    using clean_guard_keeps_operator_pause [OF _ assms, of env S canceled node table]
    by (cases clean) (simp_all add: dispatch_def)
qed

text \<open>C20: What a pause through the API does: the answer shows tiering stopped by the operator and the
  legs in flight unchanged; from there every supervised apply and retry is refused with 409, and the
  next dispatch starts nothing, whatever its foreign-mover scan finds.\<close>

theorem api_pause_stops:
  "\<exists>st c1. PauseTiering now (Some c) = (RespOK st, Some c1) \<and>
     tst_PauseState st = ''stopped'' \<and> tst_PauseReason st = Some ''operator'' \<and> InFlight c1 = InFlight c \<and>
     response_status (fst (ApplyTieringPartition env S e (Some c1) n d t pid tok)) = 409 \<and>
     response_status (fst (RetryTieringPartition env S e (Some c1) n d t pid tok)) = 409 \<and>
     fst (dispatch env S canceled node table verdicts c1) = []"
proof -
  define c1 where "c1 = ctl_Pause now PauseReasonOperator c"
  have s: "sn_PauseState (store_Status (c_store c1)) = PauseStopped"
    "sn_PauseReason (store_Status (c_store c1)) = PauseReasonOperator"
    by (simp_all add: c1_def ctl_Pause_def Pause_def)
  have f: "InFlight c1 = InFlight c" by (simp add: c1_def ctl_Pause_def InFlight_def)
  have a: "response_status (fst (ApplyTieringPartition env S e (Some c1) n d t pid tok)) = 409"
    by (simp add: ApplyTieringPartition_def split_beta apply_result_status apply_status_def s)
  obtain err where "ensureNotPaused c1 = Some err" and "error_status err = 409"
    by (simp add: ensureNotPaused_def s error_statuses)
  then have r: "response_status (fst (RetryTieringPartition env S e (Some c1) n d t pid tok)) = 409"
    by (simp add: RetryTieringPartition_def ctl_Retry_def action_error)
  show ?thesis
    using a r f paused_dispatch [OF s]
    by (intro exI [of _ "apiTieringStatus (store_Status (c_store c1)) (InFlight c1)"] exI [of _ c1])
      (simp add: PauseTiering_def c1_def [symmetric] Let_def apiTieringStatus_def s pause_text_def reason_text_def)
qed

lemma clean_guard_shape:
  assumes "guardForeignMovers env S canceled node table c = (True, c')"
  shows "\<exists>x. c' = guard_clean (env_clock env) (tableLogKey (nd_ID node) (obs_Database table) (obs_Table table)) x \<and>
    c_store x = c_store c \<and> c_foreignClean x = c_foreignClean c"
  using assms
  by (auto simp: guardForeignMovers_def Let_def markForeignGuardScanned_def clearRepeatedFailure_def
      split: prod.splits sum.splits if_splits)

lemma refused_guard_counts:
  assumes "guardForeignMovers env S canceled node table c = (False, c')"
  shows "c_foreignClean c' = c_foreignClean c"
  using assms
  by (auto simp: guardForeignMovers_def Let_def ctl_Pause_def markForeignGuardScanned_def warnRepeatedFailure_def
      updateFailureLog_def split: prod.splits sum.splits if_splits option.splits)



end
