(* ===== verification/App.thy ===== *)
theory App
  imports AppConfig TieringApi
begin

text \<open>
  The application root (\<open>movoor.go\<close>): wiring the configuration to the pool, the collector and the
  controller, startup with the validation of the watches, the order in which components start, and
  shutdown. What starting and stopping a component returns is a parameter; a run is its sequence of
  lifecycle events with its result.
\<close>

section \<open>Readiness\<close>

record ClickHouseWarning =
  chw_Kind :: string
  chw_Code :: string
  chw_Message :: gotext
  chw_NodeID :: string

record ClickHouseStatus =
  chs_Status :: string
  chs_UpdatedAt :: gtime
  chs_CheckDurationMs :: int
  chs_NodesExpected :: int
  chs_NodesResponded :: int
  chs_NodesFailed :: int
  chs_LastError :: gotext
  chs_Warnings :: "ClickHouseWarning list"

definition ReadinessUnknown :: string where "ReadinessUnknown = ''unknown''"
definition ReadinessOK :: string where "ReadinessOK = ''ok''"
definition ReadinessDegraded :: string where "ReadinessDegraded = ''degraded''"
definition ReadinessUnavailable :: string where "ReadinessUnavailable = ''unavailable''"

definition clickHouseValidationWarnings :: "Warning list \<Rightarrow> ClickHouseWarning list" where
  "clickHouseValidationWarnings warnings =
     map (\<lambda>w. \<lparr>chw_Kind = wa_Kind w, chw_Code = wa_Code w, chw_Message = wa_Message w, chw_NodeID = wa_NodeID w\<rparr>) warnings"

definition base_status :: "'a Result \<Rightarrow> ClickHouseStatus" where
  "base_status r =
     \<lparr>chs_Status = ReadinessOK, chs_UpdatedAt = res_CollectedAt r,
      chs_CheckDurationMs = millis (res_CollectionDuration r), chs_NodesExpected = res_NodesExpected r,
      chs_NodesResponded = res_NodesResponded r, chs_NodesFailed = res_NodesFailed r,
      chs_LastError = no_text, chs_Warnings = clickHouseValidationWarnings (res_Warnings r)\<rparr>"

definition clickHouseValidationStatus :: "'a Result \<Rightarrow> gotext option \<Rightarrow> ClickHouseStatus" where
  "clickHouseValidationStatus r err =
     (case err of
        Some e \<Rightarrow> (base_status r)\<lparr>chs_Status := ReadinessUnavailable, chs_LastError := e\<rparr>
      | None \<Rightarrow> if 0 < res_NodesFailed r \<or> res_Warnings r \<noteq> [] then (base_status r)\<lparr>chs_Status := ReadinessDegraded\<rparr>
                else base_status r)"

definition clickHouseCollectionStatus :: "'a Result \<Rightarrow> ClickHouseStatus" where
  "clickHouseCollectionStatus r =
     (if noResponders r then
        (base_status r)\<lparr>chs_Status := ReadinessUnavailable, chs_LastError := lit ''no configured ClickHouse node responded''\<rparr>
      else if 0 < res_NodesFailed r \<or> res_Warnings r \<noteq> [] then (base_status r)\<lparr>chs_Status := ReadinessDegraded\<rparr>
      else base_status r)"

text \<open>The ops server keeps the last status; an empty one reads as unknown.\<close>

definition SetClickHouseStatus :: "ClickHouseStatus \<Rightarrow> ClickHouseStatus" where
  "SetClickHouseStatus status =
     (if chs_Status status = '''' then status\<lparr>chs_Status := ReadinessUnknown\<rparr> else status)"

definition isReachabilityOnlyValidationFailure :: "'a Result \<Rightarrow> bool" where
  "isReachabilityOnlyValidationFailure r \<longleftrightarrow>
     \<not> (res_NodesExpected r = 0 \<or> res_NodesResponded r \<noteq> 0 \<or> res_Warnings r = []) \<and>
     list_all (\<lambda>w. wa_Kind w = ''reachability'' \<and> wa_Code w = ''node_unreachable'') (res_Warnings r)"

section \<open>Wiring\<close>

record 'y App =
  app_cfg :: "'y AppConfig"
  app_server :: bool
  app_ops :: bool
  app_pool :: "pool_client list option"
  app_state :: "Collector option"
  app_tiering :: "controller option"

datatype lifecycle =
    ValidateWatches
  | SetStatusEvent ClickHouseStatus
  | StartOps | StartServer | StartTiering | StartMonitor
  | AwaitDone
  | StopServer | StopTiering | StopOps | ClosePool

definition clickHouseClientConfig :: "ClickHouseConfig \<Rightarrow> PoolConfig" where
  "clickHouseClientConfig cfg =
     \<lparr>pc_DialTimeout = chc_DialTimeout cfg, pc_QueryTimeout = chc_QueryTimeout cfg, pc_Nodes = chc_Nodes cfg\<rparr>"

definition clusterStateWatches :: "'y WatchConfig list \<Rightarrow> Watch list" where
  "clusterStateWatches watches = map (\<lambda>w. watch_of (wc_Database w) (wc_Table w)) watches"

text \<open>What lies outside: the driver, the answers behind a handle, the ops server's construction, the
  embedded assets, the version and the process id, the clock.\<close>

record app_env =
  ape_Driver :: ch_driver
  ape_Connect :: "pool_client \<Rightarrow> state_db"
  ape_NewOps :: "gotext option"
  ape_WebFS :: "gotext option"
  ape_Version :: string
  ape_Pid :: nat
  ape_Now :: gtime

definition instance_id :: "app_env \<Rightarrow> string" where
  "instance_id E = ''movoor-'' @ ape_Version E @ ''-'' @ show_nat (ape_Pid E)"

definition new_collector :: "app_env \<Rightarrow> pool_client list \<Rightarrow> 'y AppConfig \<Rightarrow> Collector" where
  "new_collector E clients cfg =
     \<lparr>co_clients = map (\<lambda>c. \<lparr>cl_Node = plc_Node c, cl_DB = ape_Connect E c\<rparr>) clients,
      co_watches = clusterStateWatches (ap_Watches cfg)\<rparr>"

definition new_controller :: "app_env \<Rightarrow> pool_client list \<Rightarrow> 'y AppConfig \<Rightarrow> controller" where
  "new_controller E clients cfg =
     New (ape_Now E) (map plc_Node clients) (ap_Tiering cfg) (TieringWatches cfg) (instance_id E)"

text \<open>\<open>New\<close>, with what it tears down when it fails.\<close>

definition App_New :: "app_env \<Rightarrow> 'y AppConfig \<Rightarrow> (gotext + 'y App) \<times> lifecycle list" where
  "App_New E cfg0 =
     (let cfg = ResolveDefaults_app cfg0 in
      case ape_NewOps E of
        Some e \<Rightarrow> (Inl (Fmt ''create ops server: %w'' [AWrap e]), [])
      | None \<Rightarrow>
          (case (if chc_Nodes (ap_ClickHouse cfg) = [] then Inr None
                 else map_sum id Some (NewPool (ape_Driver E) (clickHouseClientConfig (ap_ClickHouse cfg)))) of
             Inl e \<Rightarrow> (Inl (Fmt ''create clickhouse clients: %w'' [AWrap e]), [StopOps])
           | Inr pool \<Rightarrow>
               (if IsEnabled (ap_Frontend cfg) \<and> ape_WebFS E \<noteq> None then
                  (Inl (Fmt ''load embedded web assets: %w'' (case ape_WebFS E of Some e \<Rightarrow> [AWrap e] | None \<Rightarrow> [])),
                   (if pool = None then [] else [ClosePool]) @ [StopOps])
                else
                  (Inr \<lparr>app_cfg = cfg, app_server = IsEnabled (ap_Frontend cfg), app_ops = True, app_pool = pool,
                        app_state = map_option (\<lambda>p. new_collector E p cfg) pool,
                        app_tiering = map_option (\<lambda>p. new_controller E p cfg) pool\<rparr>, []))))"

section \<open>Running\<close>

text \<open>What starting and stopping return, and whether the context is already over after validation.\<close>

record run_env =
  rue_Collect :: collect_env
  rue_StartOps :: "gotext option"
  rue_StartServer :: "gotext option"
  rue_StartTiering :: "gotext option"
  rue_StopServer :: "gotext option"
  rue_StopTiering :: "gotext option"
  rue_StopOps :: "gotext option"
  rue_ClosePool :: "gotext option"
  rue_Canceled :: bool

definition wrap_error :: "string \<Rightarrow> gotext option \<Rightarrow> gotext option" where
  "wrap_error f err = map_option (\<lambda>e. Fmt f [AWrap e]) err"

definition shutdown :: "run_env \<Rightarrow> 'y App \<Rightarrow> gotext option \<times> lifecycle list" where
  "shutdown R a =
     (let attempt = (\<lambda>present ev f err. if present then [(ev, wrap_error f err)] else []);
          attempts = attempt (app_server a) StopServer ''stop server: %w'' (rue_StopServer R) @
            attempt (app_tiering a \<noteq> None) StopTiering ''stop tiering controller: %w'' (rue_StopTiering R) @
            attempt (app_ops a) StopOps ''stop ops server: %w'' (rue_StopOps R) @
            attempt True ClosePool ''close clickhouse clients: %w'' (if app_pool a = None then None else rue_ClosePool R)
      in (errors_join (map snd attempts), map fst attempts))"

definition validate_watches_app :: "run_env \<Rightarrow> 'y App \<Rightarrow> gotext option \<times> lifecycle list" where
  "validate_watches_app R a =
     (case app_state a of
        None \<Rightarrow> (None, [ValidateWatches])
      | Some c \<Rightarrow>
          (case ValidateWatchesDetailed (rue_Collect R) c of
             (result, errs) \<Rightarrow>
               (let err = errors_join (map Some errs);
                    events = ValidateWatches # (if app_ops a
                      then [SetStatusEvent (clickHouseValidationStatus result err)] else [])
                in case err of
                     None \<Rightarrow> (None, events)
                   | Some e \<Rightarrow>
                       if isReachabilityOnlyValidationFailure result then (None, events)
                       else (Some (Fmt ''validate watches: %w'' [AWrap e]), events))))"

text \<open>The components in the order in which they start; the first failure shuts everything down.\<close>

definition start_order :: "run_env \<Rightarrow> 'y App \<Rightarrow> (lifecycle \<times> string \<times> gotext option) list" where
  "start_order R a =
     (if app_ops a then [(StartOps, ''start ops server: %w'', rue_StartOps R)] else []) @
     (if app_server a then [(StartServer, ''start server: %w'', rue_StartServer R)] else []) @
     (if app_tiering a \<noteq> None then [(StartTiering, ''start tiering controller: %w'', rue_StartTiering R)] else [])"

fun start_all ::
  "run_env \<Rightarrow> 'y App \<Rightarrow> (lifecycle \<times> string \<times> gotext option) list \<Rightarrow> gotext option \<times> lifecycle list" where
  "start_all R a [] =
     (case shutdown R a of (err, events) \<Rightarrow>
        (err, (if app_state a \<noteq> None \<and> app_ops a then [StartMonitor] else []) @ AwaitDone # events))"
| "start_all R a ((ev, f, outcome) # rest) =
     (case outcome of
        Some e \<Rightarrow> (case shutdown R a of (err, events) \<Rightarrow> (errors_join [wrap_error f (Some e), err], ev # events))
      | None \<Rightarrow> (case start_all R a rest of (err, events) \<Rightarrow> (err, ev # events)))"

definition Run :: "run_env \<Rightarrow> 'y App \<Rightarrow> gotext option \<times> lifecycle list" where
  "Run R a =
     (case validate_watches_app R a of
        (Some e, events) \<Rightarrow> (Some e, events)
      | (None, events) \<Rightarrow>
          if rue_Canceled R then (case shutdown R a of (err, stops) \<Rightarrow> (err, events @ stops))
          else (case start_all R a (start_order R a) of (err, rest) \<Rightarrow> (err, events @ rest)))"

text \<open>One turn of the health monitor: a fresh collection of the nodes becomes the status.\<close>

definition monitor_turn :: "run_env \<Rightarrow> 'y App \<Rightarrow> ClickHouseStatus \<Rightarrow> ClickHouseStatus" where
  "monitor_turn R a status =
     (case app_state a of
        Some c \<Rightarrow> if app_ops a then SetClickHouseStatus (clickHouseCollectionStatus (CollectNodes (rue_Collect R) c))
                  else status
      | None \<Rightarrow> status)"

section \<open>The lifecycle\<close>

definition stop_events :: "lifecycle set" where
  "stop_events = {StopServer, StopTiering, StopOps, ClosePool}"

lemma shutdown_events:
  "snd (shutdown R a) = (if app_server a then [StopServer] else []) @
     (if app_tiering a \<noteq> None then [StopTiering] else []) @ (if app_ops a then [StopOps] else []) @ [ClosePool]"
  by (simp add: shutdown_def Let_def)

lemma validate_events:
  "set (snd (validate_watches_app R a)) \<inter> (stop_events \<union> {StartOps, StartServer, StartTiering}) = {}"
  by (auto simp: validate_watches_app_def stop_events_def Let_def split_beta split: option.splits if_splits)

lemma start_all_trace:
  "\<exists>pre. snd (start_all R a xs) = pre @ snd (shutdown R a) \<and> set pre \<subseteq> fst ` set xs \<union> {StartMonitor, AwaitDone}"
proof (induction xs)
  case Nil
  show ?case
    by (rule exI [of _ "(if app_state a \<noteq> None \<and> app_ops a then [StartMonitor] else []) @ [AwaitDone]"])
      (auto simp: split_beta)
next
  case (Cons x xs)
  obtain ev f outcome where x: "x = (ev, f, outcome)" by (metis prod.exhaust)
  from Cons obtain pre where pre: "snd (start_all R a xs) = pre @ snd (shutdown R a)"
    "set pre \<subseteq> fst ` set xs \<union> {StartMonitor, AwaitDone}" by blast
  show ?case
  proof (cases outcome)
    case None
    then have "snd (start_all R a (x # xs)) = (ev # pre) @ snd (shutdown R a)" using pre(1) by (simp add: x split_beta)
    then show ?thesis using pre(2) by (intro exI [of _ "ev # pre"]) (auto simp: x)
  next
    case (Some e)
    then have "snd (start_all R a (x # xs)) = [ev] @ snd (shutdown R a)" by (simp add: x split_beta)
    then show ?thesis by (intro exI [of _ "[ev]"]) (auto simp: x)
  qed
qed

lemma tiering_started:
  "StartTiering \<in> set (snd (start_all R a (start_order R a))) \<longleftrightarrow>
     app_tiering a \<noteq> None \<and> (app_ops a \<longrightarrow> rue_StartOps R = None) \<and> (app_server a \<longrightarrow> rue_StartServer R = None)"
  by (auto simp: start_order_def shutdown_events split_beta split: option.split)


lemma run_starts_tiering:
  assumes "fst (validate_watches_app R a) = None" and "app_tiering a \<noteq> None" and "\<not> rue_Canceled R"
    and "rue_StartOps R = None" and "rue_StartServer R = None"
  shows "StartTiering \<in> set (snd (Run R a))"
proof -
  obtain events where v: "validate_watches_app R a = (None, events)" using assms(1) by (metis prod.collapse)
  have "StartTiering \<in> set (snd (start_all R a (start_order R a)))" using assms by (simp add: tiering_started)
  then show ?thesis using assms(3) by (simp add: Run_def v split_beta)
qed

lemma run_validated: "StartTiering \<in> set (snd (Run R a)) \<Longrightarrow> fst (validate_watches_app R a) = None"
  using validate_events [of R a] by (auto simp: Run_def split_beta split: option.splits prod.splits)

section \<open>Startup\<close>

lemma join_None: "errors_join (map Some errs) = None \<longleftrightarrow> errs = []"
  by (cases errs) (simp_all add: errors_join_def List.map_filter_simps)

lemma reachability_warning:
  "wa_Kind (queryWarning D n code e) = ''reachability'' \<longleftrightarrow> isReachabilityError D e"
  "isReachabilityError D e \<Longrightarrow> wa_Code (queryWarning D n code e) = ''node_unreachable''"
  by (simp_all add: queryWarning_def warningKindReachability_def warningKindQueryError_def)

definition unreachable :: "driver_facts \<Rightarrow> Collector \<Rightarrow> state_client \<Rightarrow> bool" where
  "unreachable D c cl \<longleftrightarrow> (\<exists>e. validation_rows c cl = Inl e \<and> isReachabilityError D e)"

lemma validation_warning:
  assumes "co_watches c \<noteq> []"
  shows "snd (or_warning D cl code (collectWatchValidationItems c cl)) =
    (case validation_rows c cl of Inl e \<Rightarrow> Some (queryWarning D (nd_ID (cl_Node cl)) code e) | Inr rows \<Rightarrow> None)"
  using assms by (simp add: or_warning_def validation_items_of_node split: sum.split)

lemma reachability_only:
  assumes "fair_order E" and "co_watches c \<noteq> []" and "co_clients c \<noteq> []"
  shows "isReachabilityOnlyValidationFailure (fst (ValidateWatchesDetailed E c)) \<longleftrightarrow>
    list_all (unreachable (ce_facts E) c) (co_clients c)"
proof -
  let ?fn = "\<lambda>cl. or_warning (ce_facts E) cl ''system_tables_watch_validation_failed'' (collectWatchValidationItems c cl)"
  let ?r = "collectPerNode E c [''validation''] ?fn"
  have summary: "isReachabilityOnlyValidationFailure (fst (ValidateWatchesDetailed E c)) \<longleftrightarrow>
      isReachabilityOnlyValidationFailure ?r"
    by (simp add: ValidateWatchesDetailed_def validation_items_def Let_def isReachabilityOnlyValidationFailure_def)
  have warning: "snd (?fn cl) = (case validation_rows c cl of
      Inl e \<Rightarrow> Some (queryWarning (ce_facts E) (nd_ID (cl_Node cl)) ''system_tables_watch_validation_failed'' e)
    | Inr rows \<Rightarrow> None)" for cl by (rule validation_warning [OF assms(2)])
  have expected: "res_NodesExpected ?r \<noteq> 0" unfolding collected(1) [OF assms(1)] using assms(3) by simp
  have responded: "res_NodesResponded ?r = 0 \<longleftrightarrow> (\<forall>cl \<in> set (co_clients c). \<exists>e. validation_rows c cl = Inl e)"
    unfolding collected(2) [OF assms(1)] warning by (auto simp: filter_empty_conv split: sum.splits) (meson sum.exhaust)
  have warnings: "(\<forall>w \<in> set (res_Warnings ?r). P w) \<longleftrightarrow> (\<forall>cl \<in> set (co_clients c). \<forall>w. snd (?fn cl) = Some w \<longrightarrow> P w)" for P
    unfolding collected(4) [OF assms(1)] by blast
  have some: "res_Warnings ?r \<noteq> []" if "\<forall>cl \<in> set (co_clients c). \<exists>e. validation_rows c cl = Inl e"
  proof -
    obtain cl where cl: "cl \<in> set (co_clients c)" using assms(3) by (meson all_not_in_conv set_empty)
    with that have "\<exists>e. validation_rows c cl = Inl e" by blast
    then have "\<exists>w. snd (?fn cl) = Some w" unfolding warning by auto
    then have "set (res_Warnings ?r) \<noteq> {}" unfolding collected(4) [OF assms(1)] using cl by blast
    then show ?thesis by auto
  qed
  have "isReachabilityOnlyValidationFailure ?r \<longleftrightarrow>
      (\<forall>cl \<in> set (co_clients c). \<exists>e. validation_rows c cl = Inl e) \<and>
      (\<forall>cl \<in> set (co_clients c). \<forall>w. snd (?fn cl) = Some w \<longrightarrow> wa_Kind w = ''reachability'' \<and> wa_Code w = ''node_unreachable'')"
    unfolding isReachabilityOnlyValidationFailure_def list_all_iff warnings responded [symmetric]
    using expected some responded by auto
  also have "\<dots> \<longleftrightarrow> list_all (unreachable (ce_facts E) c) (co_clients c)"
    unfolding warning list_all_iff unreachable_def
    by (auto simp: reachability_warning split: sum.splits)
  finally show ?thesis unfolding summary .
qed

definition watches_valid :: "Collector \<Rightarrow> bool" where
  "watches_valid c \<longleftrightarrow> (\<exists>cl \<in> set (co_clients c). \<exists>rows. validation_rows c cl = Inr rows) \<and>
    (\<forall>cl \<in> set (co_clients c). \<forall>rows. validation_rows c cl = Inr rows \<longrightarrow> list_all (watch_ok rows) (co_watches c))"

lemma startup_iff:
  assumes "fair_order (rue_Collect R)" and "app_state a = Some c" and "co_watches c \<noteq> []" and "co_clients c \<noteq> []"
  shows "fst (validate_watches_app R a) = None \<longleftrightarrow>
    watches_valid c \<or> list_all (unreachable (ce_facts (rue_Collect R)) c) (co_clients c)"
proof -
  obtain result errs where v: "ValidateWatchesDetailed (rue_Collect R) c = (result, errs)" by fastforce
  have ok: "errs = [] \<longleftrightarrow> watches_valid c" using watch_validation_exact [OF assms(1,3)] by (simp add: v watches_valid_def)
  have "fst (validate_watches_app R a) = None \<longleftrightarrow> errs = [] \<or> isReachabilityOnlyValidationFailure result"
    using join_None [of errs] by (auto simp: validate_watches_app_def assms(2) v Let_def split: option.split)
  with ok reachability_only [OF assms(1,3,4)] show ?thesis by (simp add: v)
qed

text \<open>C29: When startup goes on: with watches and nodes configured and any order of the nodes' answers,
  the validation lets the application start exactly when some node answered and every node that
  answered has every watched table with an engine of the MergeTree family, or when every single node
  was unreachable.\<close>

theorem startup_exact:
  assumes "fair_order (rue_Collect R)" and "app_state a = Some c" and "co_watches c \<noteq> []" and "co_clients c \<noteq> []"
  shows "fst (validate_watches_app R a) = None \<longleftrightarrow>
    watches_valid c \<or> list_all (unreachable (ce_facts (rue_Collect R)) c) (co_clients c)"
  by (rule startup_iff [OF assms])

definition dead_app :: "unit App" where
  "dead_app = \<lparr>app_cfg = small_config DefaultConfig_app, app_server = True, app_ops = True, app_pool = Some [],
     app_state = Some (half_dead\<lparr>co_clients := [\<lparr>cl_Node = node_at ''n2'' ''s1'' ''r2'', cl_DB = dead_db\<rparr>]\<rparr>),
     app_tiering = Some sample_controller\<rparr>"

definition quiet_run :: run_env where
  "quiet_run = \<lparr>rue_Collect = reverse_env, rue_StartOps = None, rue_StartServer = None, rue_StartTiering = None,
     rue_StopServer = None, rue_StopTiering = None, rue_StopOps = None, rue_ClosePool = None, rue_Canceled = False\<rparr>"

lemma dead_run:
  "fair_order (rue_Collect quiet_run)"
  "app_state dead_app = Some (half_dead\<lparr>co_clients := [\<lparr>cl_Node = node_at ''n2'' ''s1'' ''r2'', cl_DB = dead_db\<rparr>]\<rparr>)"
  by (simp_all add: quiet_run_def reverse_fair dead_app_def)

lemma dead_unreachable:
  "list_all (unreachable (ce_facts (rue_Collect quiet_run)) (half_dead\<lparr>co_clients := ds\<rparr>))
     [\<lparr>cl_Node = n, cl_DB = dead_db\<rparr>]"
  by (simp add: half_dead_def unreachable_def validation_rows_def watchPredicate_def dead_db_def quiet_db_def
      all_rows_def isReachabilityError_def quiet_run_def reverse_env_def)

theorem startup_exact_witness: "fst (validate_watches_app quiet_run dead_app) = None"
  using startup_exact [OF dead_run] dead_unreachable [of "co_clients (the (app_state dead_app))"]
  by (simp add: half_dead_def dead_app_def)


section \<open>What the parts of an application agree on\<close>

lemma resolve_app_keeps:
  "chc_Nodes (ap_ClickHouse (ResolveDefaults_app c)) = chc_Nodes (ap_ClickHouse c)"
  "ap_Watches (ResolveDefaults_app c) = ap_Watches c"
  by (simp_all add: ResolveDefaults_app_def)

lemma list_all2_client_names: "list_all2 (client_of q) ns cs \<Longrightarrow> map (\<lambda>c. nd_ID (plc_Node c)) cs = map nc_Name ns"
  by (induction rule: list_all2_induct) (simp_all add: client_of_def)

lemma find_key:
  "distinct (map f xs) \<Longrightarrow> x \<in> set xs \<Longrightarrow> find (\<lambda>y. f y = f x) xs = Some x"
  by (induction xs) (auto simp: image_iff)

lemma app_new_parts:
  assumes "App_New E cfg = (Inr a, ev)" and "chc_Nodes (ap_ClickHouse cfg) \<noteq> []"
  shows "\<exists>clients q. ev = [] \<and> app_pool a = Some clients \<and> list_all2 (client_of q) (chc_Nodes (ap_ClickHouse cfg)) clients \<and>
    app_state a = Some (new_collector E clients (ResolveDefaults_app cfg)) \<and>
    app_tiering a = Some (new_controller E clients (ResolveDefaults_app cfg))"
proof -
  from assms obtain clients where
    pool: "NewPool (ape_Driver E) (clickHouseClientConfig (ap_ClickHouse (ResolveDefaults_app cfg))) = Inr clients"
    by (auto simp: App_New_def Let_def resolve_app_keeps map_sum_def split: option.splits sum.splits if_splits)
  have "pc_Nodes (clickHouseClientConfig (ap_ClickHouse (ResolveDefaults_app cfg))) = chc_Nodes (ap_ClickHouse cfg)"
    by (simp add: clickHouseClientConfig_def resolve_app_keeps)
  with new_pool_clients [OF pool] assms pool show ?thesis
    by (auto simp: App_New_def Let_def resolve_app_keeps split: option.splits if_splits)
qed

text \<open>What the parts of an application agree on: built from a valid configuration, the collector and
  the tiering controller address the same nodes, in the order of the configuration; the controller finds
  each configured node under its name and with its shard and replica; a table is watched by the
  collector exactly when the controller knows it; and the controller starts running, with no leg in
  flight.\<close>

theorem app_parts_agree:
  assumes "App_New E cfg = (Inr a, ev)" and "config_wf X cfg"
  shows "\<exists>st ctl. app_state a = Some st \<and> app_tiering a = Some ctl \<and>
    map cl_Node (co_clients st) = c_clients ctl \<and>
    map nd_ID (c_clients ctl) = map nc_Name (chc_Nodes (ap_ClickHouse cfg)) \<and>
    list_all (\<lambda>n. \<exists>node. controller_client ctl (nc_Name n) = Some node \<and> nd_ID node = nc_Name n \<and>
      nd_Shard node = nc_ShardName n \<and> nd_Replica node = nc_ReplicaName n) (chc_Nodes (ap_ClickHouse cfg)) \<and>
    (controller_watch ctl d t = None \<longleftrightarrow> \<not> snd (find_watch (app_state a) d t)) \<and>
    sn_PauseState (store_Status (c_store ctl)) = PauseRunning \<and> InFlight ctl = []"
proof -
  let ?nodes = "chc_Nodes (ap_ClickHouse cfg)"
  have ne: "?nodes \<noteq> []" and dist: "distinct (map nc_Name ?nodes)" using assms(2) by (simp_all add: config_wf_def)
  from app_new_parts [OF assms(1) ne] obtain clients q where parts: "app_pool a = Some clients"
    "list_all2 (client_of q) ?nodes clients"
    "app_state a = Some (new_collector E clients (ResolveDefaults_app cfg))"
    "app_tiering a = Some (new_controller E clients (ResolveDefaults_app cfg))" by blast
  define st where "st = new_collector E clients (ResolveDefaults_app cfg)"
  define ctl where "ctl = new_controller E clients (ResolveDefaults_app cfg)"
  have same: "map cl_Node (co_clients st) = c_clients ctl"
    by (simp add: st_def ctl_def new_collector_def new_controller_def New_def)
  have names: "map nd_ID (c_clients ctl) = map nc_Name ?nodes"
    using list_all2_client_names [OF parts(2)] by (simp add: ctl_def new_controller_def New_def comp_def)
  have found: "\<exists>node. controller_client ctl (nc_Name n) = Some node \<and> nd_ID node = nc_Name n \<and>
      nd_Shard node = nc_ShardName n \<and> nd_Replica node = nc_ReplicaName n" if n: "n \<in> set ?nodes" for n
  proof -
    from parts(2) n obtain c where c: "c \<in> set clients" "client_of q n c"
      by (metis in_set_conv_nth list_all2_conv_all_nth)
    then have "plc_Node c \<in> set (c_clients ctl)" by (auto simp: ctl_def new_controller_def New_def)
    moreover have "distinct (map nd_ID (c_clients ctl))" by (simp add: names dist)
    ultimately have "controller_client ctl (nd_ID (plc_Node c)) = Some (plc_Node c)"
      unfolding controller_client_def by (intro find_key)
    then show ?thesis using c(2) by (simp add: client_of_def)
  qed
  have watched: "controller_watch ctl d t = None \<longleftrightarrow> \<not> snd (find_watch (app_state a) d t)"
    by (auto simp: controller_watch_def ctl_def new_controller_def New_def TieringWatches_def resolve_app_keeps
        find_None_iff find_watch_def Let_def parts(3) new_collector_def clusterStateWatches_def watch_of_def)
  have idle: "sn_PauseState (store_Status (c_store ctl)) = PauseRunning \<and> InFlight ctl = []"
    by (simp add: ctl_def new_controller_def New_def SetStatus_def initial_status_def InFlight_def sort_by_def)
  show ?thesis using parts(3,4) same names found watched idle
    by (intro exI [of _ st] exI [of _ ctl]) (simp add: st_def [symmetric] ctl_def [symmetric] list_all_iff)
qed

definition small_app_env :: app_env where
  "small_app_env = \<lparr>ape_Driver = plain_driver, ape_Connect = \<lambda>c. quiet_db, ape_NewOps = None, ape_WebFS = None,
     ape_Version = ''dev'', ape_Pid = 7, ape_Now = 0\<rparr>"

lemma small_config_wf: "config_wf small_env (small_config DefaultConfig_app)"
proof -
  have "go_lower sample_unicode ''info'' = ''info''" by code_simp
  then show ?thesis
    by (simp add: config_wf_def small_config_def default_app_tiering default_tiering_stable default_config_valid
        node_wf_def dsn_wf_def watch_wf_def IsEnabled_def)
      (simp add: ResolveDefaults_app_def DefaultConfig_app_def defaultLogging_def small_env_def
        ValidateTracing_def check_def str_contains_def has_prefix_def defaultFrontendAddr_def)
qed

theorem app_parts_agree_witness:
  "\<exists>a ctl. App_New small_app_env (small_config DefaultConfig_app) = (Inr a, []) \<and> app_tiering a = Some ctl \<and>
     map nd_ID (c_clients ctl) = [''n1''] \<and> controller_watch ctl ''db'' ''t'' \<noteq> None"
proof -
  obtain a where a: "App_New small_app_env (small_config DefaultConfig_app) = (Inr a, [])"
    by (simp add: App_New_def Let_def resolve_app_keeps small_app_env_def small_config_def NewPool_def
        clickHouseClientConfig_def openNode_def plain_driver_def)
  have node: "map nc_Name (chc_Nodes (ap_ClickHouse (small_config DefaultConfig_app))) = [''n1'']"
    by (simp add: small_config_def)
  have "snd (find_watch (app_state a) ''db'' ''t'')"
    using app_new_parts [OF a] node
    by (auto simp: find_watch_def Let_def new_collector_def clusterStateWatches_def resolve_app_keeps small_config_def
        watch_of_def)
  then show ?thesis using app_parts_agree [OF a small_config_wf, of "''db''" "''t''"] a node by auto
qed

end
