(* ===== verification/OpsServer.thy ===== *)
theory OpsServer
  imports App
begin

text \<open>
  The ops server (\<open>internal/opsserver\<close>): the tiering metrics as the measurements an instrument
  receives, the gauges computed from the plan store, the sampler of spans, the health endpoint, and the
  server's start and stop. Exporters, listeners and the HTTP stack are parameters.
\<close>

section \<open>Measurements\<close>

type_synonym attrs = "(string \<times> string) list"

datatype measurement =
    CounterAdd string int attrs
  | HistogramRecord string rat attrs
  | GaugeObserve string int attrs

definition tableAttrs :: "string \<Rightarrow> string \<Rightarrow> string \<Rightarrow> attrs \<Rightarrow> attrs" where
  "tableAttrs nodeID database table extra =
     [(''node'', nodeID), (''table'', database @ ''.'' @ table)] @ extra"

definition safeInt64 :: "u64 \<Rightarrow> int" where
  "safeInt64 value = (if 9223372036854775807 < value then max_i64 else int (unat value))"

definition direction :: "HistoryEntry \<Rightarrow> string" where
  "direction entry = (if he_Direction entry \<noteq> '''' then he_Direction entry else ''up'')"

definition RecordReconcile :: "string \<Rightarrow> string \<Rightarrow> string \<Rightarrow> string \<Rightarrow> gdur \<Rightarrow> measurement list" where
  "RecordReconcile nodeID database table result duration =
     [CounterAdd ''movoor.tiering.reconciles'' 1 (tableAttrs nodeID database table [(''result'', result)]),
      HistogramRecord ''movoor.tiering.reconcile.duration'' (seconds_f64 duration) (tableAttrs nodeID database table [])]"

definition RecordAction :: "HistoryEntry \<Rightarrow> measurement list" where
  "RecordAction e =
     (let action = (''action'', decision_text (he_Action e));
          attrs = tableAttrs (he_NodeID e) (he_Database e) (he_Table e) in
      [CounterAdd ''movoor.tiering.actions'' 1 (attrs [action, (''outcome'', he_Outcome e)]),
       HistogramRecord ''movoor.tiering.action.duration'' (seconds_f64 (he_Duration e)) (attrs [action])] @
      (if he_Outcome e = ''success'' \<and> 0 < he_Bytes e \<and> he_Action e \<noteq> DecisionOptimize then
         [CounterAdd ''movoor.tiering.moved.bytes'' (safeInt64 (he_Bytes e)) (attrs []),
          CounterAdd ''movoor.tiering.cold.bytes'' (safeInt64 (he_Bytes e)) (attrs [(''direction'', direction e)])]
       else []))"

definition RecordRetry :: "string \<Rightarrow> string \<Rightarrow> string \<Rightarrow> Decision \<Rightarrow> measurement list" where
  "RecordRetry nodeID database table action =
     [CounterAdd ''movoor.tiering.retries'' 1 (tableAttrs nodeID database table [(''action'', decision_text action)])]"

definition RecordProbeFailure :: "string \<Rightarrow> string \<Rightarrow> string \<Rightarrow> measurement list" where
  "RecordProbeFailure nodeID database table =
     [CounterAdd ''movoor.tiering.probe.failures'' 1 (tableAttrs nodeID database table [])]"

definition RecordSideMerge :: "string \<Rightarrow> string \<Rightarrow> string \<Rightarrow> u64 \<Rightarrow> measurement list" where
  "RecordSideMerge nodeID database table merges =
     [CounterAdd ''movoor.tiering.cold.side_merges'' (safeInt64 merges) (tableAttrs nodeID database table [])]"

section \<open>Gauges\<close>

text \<open>The counts of a Go map, by key; the order of the series is the map's and so left open.\<close>

definition count_up :: "'k \<Rightarrow> ('k, int) amap \<Rightarrow> ('k, int) amap" where
  "count_up k m = amap_put k ((case amap_get m k of Some n \<Rightarrow> n | None \<Rightarrow> 0) + 1) m"

definition count_keys :: "'k list \<Rightarrow> ('k, int) amap" where
  "count_keys ks = fold count_up ks []"

definition partition_series :: "TablePlan \<Rightarrow> Verdict \<Rightarrow> attrs" where
  "partition_series t v =
     [(''node'', tp_NodeID t), (''table'', tp_Database t @ ''.'' @ tp_Table t),
      (''status'', status_text (v_Status v)), (''decision'', decision_text (v_Decision v))]"

definition observePartitions :: "Store option \<Rightarrow> measurement list" where
  "observePartitions store =
     (case store of
        None \<Rightarrow> []
      | Some s \<Rightarrow> map (\<lambda>(k, n). GaugeObserve ''movoor.tiering.partitions'' n k)
          (count_keys (concat (map (\<lambda>t. map (partition_series t) (tp_Verdicts t)) (Snapshot s)))))"

definition observePaused :: "Store option \<Rightarrow> measurement list" where
  "observePaused store =
     (case store of
        None \<Rightarrow> []
      | Some s \<Rightarrow>
          (let status = store_Status s; reason = reason_text (sn_PauseReason status) in
           [GaugeObserve ''movoor.tiering.dispatch.paused'' (if sn_PauseState status \<noteq> PauseRunning then 1 else 0)
              [(''reason'', if reason = '''' then ''none'' else reason)]]))"

definition observeStuck :: "Store option \<Rightarrow> measurement list" where
  "observeStuck store =
     (case store of
        None \<Rightarrow> []
      | Some s \<Rightarrow> map (\<lambda>(k, n). GaugeObserve ''movoor.tiering.stuck'' n k)
          (count_keys (concat (map (\<lambda>t. map (\<lambda>v. [(''node'', tp_NodeID t), (''table'', tp_Database t @ ''.'' @ tp_Table t)])
             (filter (\<lambda>v. v_Status v = StatusStalled) (tp_Verdicts t))) (Snapshot s)))))"

section \<open>Sampling\<close>

text \<open>The samplers the program builds; \<open>TraceIDRatio\<close>, \<open>NeverSample\<close> and \<open>ParentBased\<close> (the root
  sampler, and the one for local parents that are not sampled) are the SDK's.\<close>

datatype sampler =
    TraceIDRatio f64
  | NeverSample
  | SpanNames "string list" sampler
  | ParentBased sampler "sampler option"

definition newSampler :: "f64 \<Rightarrow> string list \<Rightarrow> sampler" where
  "newSampler ratio alwaysSample =
     (let base = TraceIDRatio ratio in
      if f64_le ratio (Fin 0) \<or> alwaysSample = [] then ParentBased base None
      else ParentBased (SpanNames alwaysSample base) (Some (SpanNames alwaysSample NeverSample)))"

text \<open>Whether a span is sampled: the ratio decides by \<open>chance\<close>; a parent is absent, local and not
  sampled, or any other one whose decision is inherited.\<close>

datatype parent = NoParent | LocalUnsampled | OtherParent bool

fun ShouldSample :: "(f64 \<Rightarrow> bool) \<Rightarrow> string \<Rightarrow> parent \<Rightarrow> sampler \<Rightarrow> bool" where
  "ShouldSample chance name p (TraceIDRatio r) = chance r"
| "ShouldSample chance name p NeverSample = False"
| "ShouldSample chance name p (SpanNames names fallback) = (name \<in> set names \<or> ShouldSample chance name p fallback)"
| "ShouldSample chance name p (ParentBased base unsampled) =
     (case p of
        NoParent \<Rightarrow> ShouldSample chance name p base
      | LocalUnsampled \<Rightarrow> (case unsampled of None \<Rightarrow> False | Some s \<Rightarrow> ShouldSample chance name p s)
      | OtherParent sampled \<Rightarrow> sampled)"

section \<open>The server\<close>

record OpsConfig =
  opc_MetricsAddr :: string
  opc_HealthCheckAddr :: string
  opc_Version :: string

record OpsServer =
  ops_cfg :: OpsConfig
  ops_store :: "Store option"
  ops_chStatus :: ClickHouseStatus
  ops_metrics :: bool
  ops_health :: bool

definition ClickHouseStatus_of :: "OpsServer \<Rightarrow> ClickHouseStatus" where
  "ClickHouseStatus_of s = SetClickHouseStatus (ops_chStatus s)"

definition ops_SetClickHouseStatus :: "ClickHouseStatus \<Rightarrow> OpsServer \<Rightarrow> OpsServer" where
  "ops_SetClickHouseStatus status s = s\<lparr>ops_chStatus := SetClickHouseStatus status\<rparr>"

definition SetTieringStore :: "Store option \<Rightarrow> OpsServer \<Rightarrow> OpsServer" where
  "SetTieringStore store s = s\<lparr>ops_store := store\<rparr>"

text \<open>Listening on an address fails or not.\<close>

definition startHTTP :: "(string \<Rightarrow> gotext option) \<Rightarrow> string \<Rightarrow> gotext option" where
  "startHTTP listen addr = map_option (\<lambda>e. Fmt ''listen on %s: %w'' [AStr addr, AWrap e]) (listen addr)"

definition ops_Start :: "(string \<Rightarrow> gotext option) \<Rightarrow> OpsServer \<Rightarrow> gotext option \<times> OpsServer" where
  "ops_Start listen s =
     (let metricsAddr = opc_MetricsAddr (ops_cfg s); healthAddr = opc_HealthCheckAddr (ops_cfg s);
          start_health = (\<lambda>s. if healthAddr = '''' then (None, s)
            else case startHTTP listen healthAddr of Some e \<Rightarrow> (Some e, s) | None \<Rightarrow> (None, s\<lparr>ops_health := True\<rparr>))
      in if metricsAddr = '''' then start_health s
         else case startHTTP listen metricsAddr of
           Some e \<Rightarrow> (Some e, s) | None \<Rightarrow> start_health (s\<lparr>ops_metrics := True\<rparr>))"

text \<open>What the shutdowns return: the two HTTP servers, the meter provider, the tracer if there is one.\<close>

definition ops_Stop :: "gotext option \<Rightarrow> gotext option \<Rightarrow> gotext option \<Rightarrow> gotext option option \<Rightarrow> OpsServer \<Rightarrow> gotext option" where
  "ops_Stop metricsErr healthErr providerErr tracerErr s =
     errors_join ((if ops_metrics s then [metricsErr] else []) @ (if ops_health s then [healthErr] else []) @
       [providerErr] @ (case tracerErr of None \<Rightarrow> [] | Some e \<Rightarrow> [e]))"

record TieringHealth =
  th_Mode :: string
  th_PauseState :: string
  th_PauseReason :: string
  th_BytesInFlight :: u64
  th_BytesMovedToday :: u64
  th_UpdatedAt :: gtime

record HealthResponse =
  hr_Status :: string
  hr_Version :: string
  hr_Readiness :: string
  hr_ClickHouse :: ClickHouseStatus
  hr_Tiering :: "TieringHealth option"

definition handleHealth :: "OpsServer \<Rightarrow> HealthResponse" where
  "handleHealth s =
     (let ch = ClickHouseStatus_of s in
      \<lparr>hr_Status = ''ok'', hr_Version = opc_Version (ops_cfg s), hr_Readiness = chs_Status ch, hr_ClickHouse = ch,
       hr_Tiering = map_option (\<lambda>st. let status = store_Status st in
         \<lparr>th_Mode = sn_Mode status, th_PauseState = pause_text (sn_PauseState status),
          th_PauseReason = reason_text (sn_PauseReason status), th_BytesInFlight = sn_BytesInFlight status,
          th_BytesMovedToday = sn_BytesMovedToday status, th_UpdatedAt = sn_UpdatedAt status\<rparr>) (ops_store s)\<rparr>)"

section \<open>The gauge of partitions\<close>

lemma count_keys_step: "count_keys (ks @ [k]) = count_up k (count_keys ks)"
  by (simp add: count_keys_def)

lemma count_keys_get: "amap_get (count_keys ks) k = (if k \<in> set ks then Some (int (count_list ks k)) else None)"
proof (induction ks rule: rev_induct)
  case (snoc x ks)
  then show ?case by (auto simp: count_keys_step count_up_def update_conv' count_list_append count_notin)
qed (simp add: count_keys_def)

lemma count_keys_distinct: "amap_ok (count_keys ks)"
  by (induction ks rule: rev_induct) (simp_all add: count_keys_step count_up_def distinct_update, simp add: count_keys_def)

lemma count_keys_entries: "set (count_keys ks) = {(k, int (count_list ks k)) | k. k \<in> set ks}"
proof -
  have "(k, n) \<in> set (count_keys ks) \<longleftrightarrow> amap_get (count_keys ks) k = Some n" for k n
    using map_of_eq_Some_iff [OF count_keys_distinct, of ks k n] by (rule sym)
  then have "(k, n) \<in> set (count_keys ks) \<longleftrightarrow> k \<in> set ks \<and> n = int (count_list ks k)" for k n
    by (simp add: count_keys_get) (metis option.inject)
  then show ?thesis by auto
qed

lemma count_up_total: "amap_ok m \<Longrightarrow> sum_list (map snd (count_up k m)) = sum_list (map snd m) + 1"
proof (cases "amap_get m k")
  case None
  then show ?thesis by (simp add: count_up_def amap_put_fresh)
next
  case (Some n)
  assume ok: "amap_ok m"
  from Some ok have "sum_list (map snd (amap_put k (n + 1) m)) = sum_list (map snd m) + 1"
    by (induction m) (auto split: if_splits simp: map_of_eq_None_iff)
  then show ?thesis by (simp add: count_up_def Some)
qed

lemma count_keys_total: "sum_list (map snd (count_keys ks)) = int (length ks)"
proof (induction ks rule: rev_induct)
  case (snoc x ks)
  then show ?case using count_up_total [OF count_keys_distinct, of x ks] by (simp add: count_keys_step)
qed (simp add: count_keys_def)

fun measured :: "measurement \<Rightarrow> int" where
  "measured (CounterAdd i n a) = n"
| "measured (HistogramRecord i r a) = 0"
| "measured (GaugeObserve i n a) = n"

text \<open>The partition gauge loses and invents nothing: no two of its series have the same labels, their
  values add up to the number of published verdicts, and the value of a series is the number of
  verdicts with its labels.\<close>

theorem partition_gauge_exact:
  "let series = concat (map (\<lambda>t. map (partition_series t) (tp_Verdicts t)) (Snapshot s)) in
   (\<exists>counts. observePartitions (Some s) = map (\<lambda>(k, n). GaugeObserve ''movoor.tiering.partitions'' n k) counts \<and>
      distinct (map fst counts) \<and> set counts = {(k, int (count_list series k)) | k. k \<in> set series}) \<and>
   sum_list (map measured (observePartitions (Some s))) = sum_list (map (\<lambda>t. int (length (tp_Verdicts t))) (Snapshot s))"
proof -
  define series where "series = concat (map (\<lambda>t. map (partition_series t) (tp_Verdicts t)) (Snapshot s))"
  have obs: "observePartitions (Some s) =
      map (\<lambda>(k, n). GaugeObserve ''movoor.tiering.partitions'' n k) (count_keys series)"
    by (simp add: observePartitions_def series_def)
  have entries: "set (count_keys series) = {(k, int (count_list series k)) | k. k \<in> set series}"
    by (rule count_keys_entries)
  have "sum_list (map measured (observePartitions (Some s))) = sum_list (map snd (count_keys series))"
    by (simp add: obs comp_def split_beta)
  also have "\<dots> = int (length series)" by (rule count_keys_total)
  also have "\<dots> = sum_list (map (\<lambda>t. int (length (tp_Verdicts t))) (Snapshot s))"
    by (simp add: series_def length_concat comp_def flip: sum_list_of_nat)
  finally show ?thesis using obs entries count_keys_distinct [of series] unfolding Let_def series_def [symmetric] by blast
qed

end
