(* ===== verification/Router.thy ===== *)
theory Router
  imports GoText
begin

text \<open>
  Routing of the REST server (\<open>api/rest/oas_router_gen.go\<close>, \<open>oas_operations_gen.go\<close> and the not-found and
  not-allowed answers of \<open>oas_cfg_gen.go\<close>): the radix tree of \<open>ServeHTTP\<close>, one definition per node in the
  nesting of the code, the second tree that \<open>FindPath\<close> walks, and the paths of the OpenAPI document, which
  both are proved to implement. A node that breaks out of its switch is \<open>None\<close>: every such break ends in the
  not-found answer. The normalisation of an escaped path (\<open>uri.NormalizeEscapedPath\<close>) is a parameter.
\<close>

section \<open>Operations and answers\<close>

datatype OperationName =
    ApplyTieringPartitionOperation | GetHealthOperation | GetTableOperation | GetTieringHistoryOperation
  | GetTieringPlanOperation | GetTieringStatusOperation | ListConditionsOperation | ListDetachedPartsOperation
  | ListMutationsOperation | ListNodesOperation | ListOperationsOperation | ListPartEventsOperation
  | ListReplicationQueueOperation | ListStorageDisksOperation | ListTableColumnsOperation
  | ListTablePartitionsOperation | ListTablePartsOperation | ListTablesOperation | PauseTieringOperation
  | ResumeTieringOperation | RetryTieringPartitionOperation

record notAllowedParams =
  allowedMethods :: string
  allowedHeaders :: "(string \<times> string) list"
  acceptPost :: string
  acceptPatch :: string

definition rn7AllowedHeaders :: "(string \<times> string) list" where
  "rn7AllowedHeaders = [(''POST'', ''Content-Type'')]"

definition rn38AllowedHeaders :: "(string \<times> string) list" where
  "rn38AllowedHeaders = [(''POST'', ''Content-Type'')]"

text \<open>What the router does with a request: call a handler with the path's arguments and whether they are
  still escaped, answer that the method is not allowed, or that nothing is there.\<close>

datatype dispatch = Handle OperationName "string list" bool | NotAllowed notAllowedParams | NotFound

text \<open>\<open>len(elem) >= l && elem[0:l] == p\<close>, then \<open>elem = elem[l:]\<close>.\<close>

definition edge :: "string \<Rightarrow> string \<Rightarrow> (string \<Rightarrow> 'r option) \<Rightarrow> 'r option" where
  "edge p e k = (if length p \<le> length e \<and> take (length p) e = p then k (drop (length p) e) else None)"

text \<open>A parameter extends to the next slash; it may be empty.\<close>

definition param :: "string \<Rightarrow> (string \<Rightarrow> string \<Rightarrow> 'r option) \<Rightarrow> 'r option" where
  "param e k = k (takeWhile (\<lambda>c. c \<noteq> CHR ''/'') e) (dropWhile (\<lambda>c. c \<noteq> CHR ''/'') e)"

text \<open>The end of a node: what it does when the path ends here, else the switch on the next byte.\<close>

definition at_node :: "string \<Rightarrow> 'r option \<Rightarrow> (char \<times> (string \<Rightarrow> 'r option)) list \<Rightarrow> 'r option" where
  "at_node e final alts =
     (case e of [] \<Rightarrow> final | c # _ \<Rightarrow> (case map_of alts c of None \<Rightarrow> None | Some k \<Rightarrow> k e))"

text \<open>The switch on the method, whose other case answers that the method is not allowed.\<close>

definition on_get :: "string \<Rightarrow> OperationName \<Rightarrow> string list \<Rightarrow> bool \<Rightarrow> dispatch option" where
  "on_get m op args esc =
     Some (if m = ''GET'' then Handle op args esc
           else NotAllowed \<lparr>allowedMethods = ''GET'', allowedHeaders = [], acceptPost = '''', acceptPatch = ''''\<rparr>)"

definition on_post ::
  "string \<Rightarrow> (string \<times> string) list \<Rightarrow> string \<Rightarrow> OperationName \<Rightarrow> string list \<Rightarrow> bool \<Rightarrow> dispatch option" where
  "on_post m headers accept op args esc =
     Some (if m = ''POST'' then Handle op args esc
           else NotAllowed \<lparr>allowedMethods = ''POST'', allowedHeaders = headers, acceptPost = accept, acceptPatch = ''''\<rparr>)"

section \<open>The tree of \<open>ServeHTTP\<close>\<close>

definition serve_conditions :: "bool \<Rightarrow> string \<Rightarrow> string list \<Rightarrow> string \<Rightarrow> dispatch option" where
  "serve_conditions esc m args e = edge ''conditions'' e (\<lambda>e.
     at_node e (on_get m ListConditionsOperation args esc)
       [])"

definition serve_healthz :: "bool \<Rightarrow> string \<Rightarrow> string list \<Rightarrow> string \<Rightarrow> dispatch option" where
  "serve_healthz esc m args e = edge ''healthz'' e (\<lambda>e.
     at_node e (on_get m GetHealthOperation args esc)
       [])"

definition serve_nodes :: "bool \<Rightarrow> string \<Rightarrow> string list \<Rightarrow> string \<Rightarrow> dispatch option" where
  "serve_nodes esc m args e = edge ''nodes'' e (\<lambda>e.
     at_node e (on_get m ListNodesOperation args esc)
       [])"

definition serve_mutations :: "bool \<Rightarrow> string \<Rightarrow> string list \<Rightarrow> string \<Rightarrow> dispatch option" where
  "serve_mutations esc m args e = edge ''mutations'' e (\<lambda>e.
     at_node e (on_get m ListMutationsOperation args esc)
       [])"

definition serve_queue :: "bool \<Rightarrow> string \<Rightarrow> string list \<Rightarrow> string \<Rightarrow> dispatch option" where
  "serve_queue esc m args e = edge ''replication-queue'' e (\<lambda>e.
     at_node e (on_get m ListReplicationQueueOperation args esc)
       [])"

definition serve_operations_slash :: "bool \<Rightarrow> string \<Rightarrow> string list \<Rightarrow> string \<Rightarrow> dispatch option" where
  "serve_operations_slash esc m args e = edge ''/'' e (\<lambda>e.
     at_node e None
       [(CHR ''m'', serve_mutations esc m args), (CHR ''r'', serve_queue esc m args)])"

definition serve_operations :: "bool \<Rightarrow> string \<Rightarrow> string list \<Rightarrow> string \<Rightarrow> dispatch option" where
  "serve_operations esc m args e = edge ''operations'' e (\<lambda>e.
     at_node e (on_get m ListOperationsOperation args esc)
       [(CHR ''/'', serve_operations_slash esc m args)])"

definition serve_part_events :: "bool \<Rightarrow> string \<Rightarrow> string list \<Rightarrow> string \<Rightarrow> dispatch option" where
  "serve_part_events esc m args e = edge ''part-events'' e (\<lambda>e.
     at_node e (on_get m ListPartEventsOperation args esc)
       [])"

definition serve_disks :: "bool \<Rightarrow> string \<Rightarrow> string list \<Rightarrow> string \<Rightarrow> dispatch option" where
  "serve_disks esc m args e = edge ''storage/disks'' e (\<lambda>e.
     at_node e (on_get m ListStorageDisksOperation args esc)
       [])"

definition serve_columns :: "bool \<Rightarrow> string \<Rightarrow> string list \<Rightarrow> string \<Rightarrow> dispatch option" where
  "serve_columns esc m args e = edge ''columns'' e (\<lambda>e.
     at_node e (on_get m ListTableColumnsOperation args esc)
       [])"

definition serve_detached :: "bool \<Rightarrow> string \<Rightarrow> string list \<Rightarrow> string \<Rightarrow> dispatch option" where
  "serve_detached esc m args e = edge ''detached-parts'' e (\<lambda>e.
     at_node e (on_get m ListDetachedPartsOperation args esc)
       [])"

definition serve_partitions :: "bool \<Rightarrow> string \<Rightarrow> string list \<Rightarrow> string \<Rightarrow> dispatch option" where
  "serve_partitions esc m args e = edge ''itions'' e (\<lambda>e.
     at_node e (on_get m ListTablePartitionsOperation args esc)
       [])"

definition serve_parts :: "bool \<Rightarrow> string \<Rightarrow> string list \<Rightarrow> string \<Rightarrow> dispatch option" where
  "serve_parts esc m args e = edge ''s'' e (\<lambda>e.
     at_node e (on_get m ListTablePartsOperation args esc)
       [])"

definition serve_part :: "bool \<Rightarrow> string \<Rightarrow> string list \<Rightarrow> string \<Rightarrow> dispatch option" where
  "serve_part esc m args e = edge ''part'' e (\<lambda>e.
     at_node e None
       [(CHR ''i'', serve_partitions esc m args), (CHR ''s'', serve_parts esc m args)])"

definition serve_table_slash :: "bool \<Rightarrow> string \<Rightarrow> string list \<Rightarrow> string \<Rightarrow> dispatch option" where
  "serve_table_slash esc m args e = edge ''/'' e (\<lambda>e.
     at_node e None
       [(CHR ''c'', serve_columns esc m args), (CHR ''d'', serve_detached esc m args),
        (CHR ''p'', serve_part esc m args)])"

definition serve_table_name :: "bool \<Rightarrow> string \<Rightarrow> string list \<Rightarrow> string \<Rightarrow> dispatch option" where
  "serve_table_name esc m args e = edge ''/'' e (\<lambda>e.
     param e (\<lambda>a e. let args = args @ [a] in
       at_node e (on_get m GetTableOperation args esc)
       [(CHR ''/'', serve_table_slash esc m args)]))"

definition serve_table_database :: "bool \<Rightarrow> string \<Rightarrow> string list \<Rightarrow> string \<Rightarrow> dispatch option" where
  "serve_table_database esc m args e = edge ''/'' e (\<lambda>e.
     param e (\<lambda>a e. let args = args @ [a] in
       at_node e None
       [(CHR ''/'', serve_table_name esc m args)]))"

definition serve_tables :: "bool \<Rightarrow> string \<Rightarrow> string list \<Rightarrow> string \<Rightarrow> dispatch option" where
  "serve_tables esc m args e = edge ''ables'' e (\<lambda>e.
     at_node e (on_get m ListTablesOperation args esc)
       [(CHR ''/'', serve_table_database esc m args)])"

definition serve_history :: "bool \<Rightarrow> string \<Rightarrow> string list \<Rightarrow> string \<Rightarrow> dispatch option" where
  "serve_history esc m args e = edge ''history'' e (\<lambda>e.
     at_node e (on_get m GetTieringHistoryOperation args esc)
       [])"

definition serve_pause :: "bool \<Rightarrow> string \<Rightarrow> string list \<Rightarrow> string \<Rightarrow> dispatch option" where
  "serve_pause esc m args e = edge ''ause'' e (\<lambda>e.
     at_node e (on_post m [] '''' PauseTieringOperation args esc)
       [])"

definition serve_plan :: "bool \<Rightarrow> string \<Rightarrow> string list \<Rightarrow> string \<Rightarrow> dispatch option" where
  "serve_plan esc m args e = edge ''lan'' e (\<lambda>e.
     at_node e (on_get m GetTieringPlanOperation args esc)
       [])"

definition serve_p :: "bool \<Rightarrow> string \<Rightarrow> string list \<Rightarrow> string \<Rightarrow> dispatch option" where
  "serve_p esc m args e = edge ''p'' e (\<lambda>e.
     at_node e None
       [(CHR ''a'', serve_pause esc m args), (CHR ''l'', serve_plan esc m args)])"

definition serve_resume :: "bool \<Rightarrow> string \<Rightarrow> string list \<Rightarrow> string \<Rightarrow> dispatch option" where
  "serve_resume esc m args e = edge ''resume'' e (\<lambda>e.
     at_node e (on_post m [] '''' ResumeTieringOperation args esc)
       [])"

definition serve_status :: "bool \<Rightarrow> string \<Rightarrow> string list \<Rightarrow> string \<Rightarrow> dispatch option" where
  "serve_status esc m args e = edge ''status'' e (\<lambda>e.
     at_node e (on_get m GetTieringStatusOperation args esc)
       [])"

definition serve_apply :: "bool \<Rightarrow> string \<Rightarrow> string list \<Rightarrow> string \<Rightarrow> dispatch option" where
  "serve_apply esc m args e = edge ''apply'' e (\<lambda>e.
     at_node e (on_post m rn7AllowedHeaders ''application/json'' ApplyTieringPartitionOperation args esc)
       [])"

definition serve_retry :: "bool \<Rightarrow> string \<Rightarrow> string list \<Rightarrow> string \<Rightarrow> dispatch option" where
  "serve_retry esc m args e = edge ''retry'' e (\<lambda>e.
     at_node e (on_post m rn38AllowedHeaders ''application/json'' RetryTieringPartitionOperation args esc)
       [])"

definition serve_action_slash :: "bool \<Rightarrow> string \<Rightarrow> string list \<Rightarrow> string \<Rightarrow> dispatch option" where
  "serve_action_slash esc m args e = edge ''/'' e (\<lambda>e.
     at_node e None
       [(CHR ''a'', serve_apply esc m args), (CHR ''r'', serve_retry esc m args)])"

definition serve_action_partition :: "bool \<Rightarrow> string \<Rightarrow> string list \<Rightarrow> string \<Rightarrow> dispatch option" where
  "serve_action_partition esc m args e = edge ''/partitions/'' e (\<lambda>e.
     param e (\<lambda>a e. let args = args @ [a] in
       at_node e None
       [(CHR ''/'', serve_action_slash esc m args)]))"

definition serve_action_table :: "bool \<Rightarrow> string \<Rightarrow> string list \<Rightarrow> string \<Rightarrow> dispatch option" where
  "serve_action_table esc m args e = edge ''/'' e (\<lambda>e.
     param e (\<lambda>a e. let args = args @ [a] in
       at_node e None
       [(CHR ''/'', serve_action_partition esc m args)]))"

definition serve_action_database :: "bool \<Rightarrow> string \<Rightarrow> string list \<Rightarrow> string \<Rightarrow> dispatch option" where
  "serve_action_database esc m args e = edge ''tables/'' e (\<lambda>e.
     param e (\<lambda>a e. let args = args @ [a] in
       at_node e None
       [(CHR ''/'', serve_action_table esc m args)]))"

definition serve_tiering :: "bool \<Rightarrow> string \<Rightarrow> string list \<Rightarrow> string \<Rightarrow> dispatch option" where
  "serve_tiering esc m args e = edge ''iering/'' e (\<lambda>e.
     at_node e None
       [(CHR ''h'', serve_history esc m args), (CHR ''p'', serve_p esc m args),
        (CHR ''r'', serve_resume esc m args), (CHR ''s'', serve_status esc m args),
        (CHR ''t'', serve_action_database esc m args)])"

definition serve_t :: "bool \<Rightarrow> string \<Rightarrow> string list \<Rightarrow> string \<Rightarrow> dispatch option" where
  "serve_t esc m args e = edge ''t'' e (\<lambda>e.
     at_node e None
       [(CHR ''a'', serve_tables esc m args), (CHR ''i'', serve_tiering esc m args)])"

definition serve_slash :: "bool \<Rightarrow> string \<Rightarrow> string list \<Rightarrow> string \<Rightarrow> dispatch option" where
  "serve_slash esc m args e = edge ''/'' e (\<lambda>e.
     at_node e None
       [(CHR ''c'', serve_conditions esc m args), (CHR ''h'', serve_healthz esc m args),
        (CHR ''n'', serve_nodes esc m args), (CHR ''o'', serve_operations esc m args),
        (CHR ''p'', serve_part_events esc m args), (CHR ''s'', serve_disks esc m args),
        (CHR ''t'', serve_t esc m args)])"

text \<open>\<open>strings.HasPrefix\<close>, then \<open>strings.TrimPrefix\<close>.\<close>

definition cutPrefix :: "string \<Rightarrow> string \<Rightarrow> string option" where
  "cutPrefix prefix path =
     (if prefix = '''' then Some path
      else if \<not> has_prefix path prefix then None
      else Some (drop (length prefix) path))"

text \<open>The path that is routed and whether it is still escaped: the raw path when there is one and it
  normalises.\<close>

definition routed_path :: "(string \<Rightarrow> string option) \<Rightarrow> string \<Rightarrow> string \<Rightarrow> string \<times> bool" where
  "routed_path N path rawPath =
     (if rawPath = '''' then (path, False)
      else case N rawPath of None \<Rightarrow> (path, False) | Some n \<Rightarrow> (n, CHR ''%'' \<in> set n))"

definition ServeHTTP :: "(string \<Rightarrow> string option) \<Rightarrow> string \<Rightarrow> string \<Rightarrow> string \<Rightarrow> string \<Rightarrow> dispatch" where
  "ServeHTTP N prefix m path rawPath =
     (case routed_path N path rawPath of (elem, esc) \<Rightarrow>
        (case cutPrefix prefix elem of
           None \<Rightarrow> NotFound
         | Some e \<Rightarrow>
             if e = [] then NotFound
             else case at_node e None [(CHR ''/'', serve_slash esc m [])] of None \<Rightarrow> NotFound | Some d \<Rightarrow> d))"

section \<open>The tree of \<open>FindPath\<close>\<close>

record Route =
  rt_name :: OperationName
  rt_summary :: string
  rt_operationID :: string
  rt_operationGroup :: string
  rt_pathPattern :: string
  rt_count :: nat
  rt_args :: "string list"

definition find_conditions :: "string \<Rightarrow> string list \<Rightarrow> string \<Rightarrow> Route option" where
  "find_conditions m args e = edge ''conditions'' e (\<lambda>e.
     at_node e (if m = ''GET'' then Some \<lparr>rt_name = ListConditionsOperation, rt_summary = ''List conditions'', rt_operationID = ''listConditions'', rt_operationGroup = '''',
         rt_pathPattern = ''/conditions'', rt_count = 0, rt_args = args\<rparr> else None)
       [])"

definition find_healthz :: "string \<Rightarrow> string list \<Rightarrow> string \<Rightarrow> Route option" where
  "find_healthz m args e = edge ''healthz'' e (\<lambda>e.
     at_node e (if m = ''GET'' then Some \<lparr>rt_name = GetHealthOperation, rt_summary = ''Liveness probe'', rt_operationID = ''getHealth'', rt_operationGroup = '''',
         rt_pathPattern = ''/healthz'', rt_count = 0, rt_args = args\<rparr> else None)
       [])"

definition find_nodes :: "string \<Rightarrow> string list \<Rightarrow> string \<Rightarrow> Route option" where
  "find_nodes m args e = edge ''nodes'' e (\<lambda>e.
     at_node e (if m = ''GET'' then Some \<lparr>rt_name = ListNodesOperation, rt_summary = ''List configured nodes'', rt_operationID = ''listNodes'', rt_operationGroup = '''',
         rt_pathPattern = ''/nodes'', rt_count = 0, rt_args = args\<rparr> else None)
       [])"

definition find_mutations :: "string \<Rightarrow> string list \<Rightarrow> string \<Rightarrow> Route option" where
  "find_mutations m args e = edge ''mutations'' e (\<lambda>e.
     at_node e (if m = ''GET'' then Some \<lparr>rt_name = ListMutationsOperation, rt_summary = ''List mutations'', rt_operationID = ''listMutations'', rt_operationGroup = '''',
         rt_pathPattern = ''/operations/mutations'', rt_count = 0, rt_args = args\<rparr> else None)
       [])"

definition find_queue :: "string \<Rightarrow> string list \<Rightarrow> string \<Rightarrow> Route option" where
  "find_queue m args e = edge ''replication-queue'' e (\<lambda>e.
     at_node e (if m = ''GET'' then Some \<lparr>rt_name = ListReplicationQueueOperation, rt_summary = ''List replication queue items'', rt_operationID = ''listReplicationQueue'', rt_operationGroup = '''',
         rt_pathPattern = ''/operations/replication-queue'', rt_count = 0, rt_args = args\<rparr> else None)
       [])"

definition find_operations_slash :: "string \<Rightarrow> string list \<Rightarrow> string \<Rightarrow> Route option" where
  "find_operations_slash m args e = edge ''/'' e (\<lambda>e.
     at_node e None
       [(CHR ''m'', find_mutations m args), (CHR ''r'', find_queue m args)])"

definition find_operations :: "string \<Rightarrow> string list \<Rightarrow> string \<Rightarrow> Route option" where
  "find_operations m args e = edge ''operations'' e (\<lambda>e.
     at_node e (if m = ''GET'' then Some \<lparr>rt_name = ListOperationsOperation, rt_summary = ''List active operations'', rt_operationID = ''listOperations'', rt_operationGroup = '''',
         rt_pathPattern = ''/operations'', rt_count = 0, rt_args = args\<rparr> else None)
       [(CHR ''/'', find_operations_slash m args)])"

definition find_part_events :: "string \<Rightarrow> string list \<Rightarrow> string \<Rightarrow> Route option" where
  "find_part_events m args e = edge ''part-events'' e (\<lambda>e.
     at_node e (if m = ''GET'' then Some \<lparr>rt_name = ListPartEventsOperation, rt_summary = ''List recent part events'', rt_operationID = ''listPartEvents'', rt_operationGroup = '''',
         rt_pathPattern = ''/part-events'', rt_count = 0, rt_args = args\<rparr> else None)
       [])"

definition find_disks :: "string \<Rightarrow> string list \<Rightarrow> string \<Rightarrow> Route option" where
  "find_disks m args e = edge ''storage/disks'' e (\<lambda>e.
     at_node e (if m = ''GET'' then Some \<lparr>rt_name = ListStorageDisksOperation, rt_summary = ''List disks'', rt_operationID = ''listStorageDisks'', rt_operationGroup = '''',
         rt_pathPattern = ''/storage/disks'', rt_count = 0, rt_args = args\<rparr> else None)
       [])"

definition find_columns :: "string \<Rightarrow> string list \<Rightarrow> string \<Rightarrow> Route option" where
  "find_columns m args e = edge ''columns'' e (\<lambda>e.
     at_node e (if m = ''GET'' then Some \<lparr>rt_name = ListTableColumnsOperation, rt_summary = ''List table columns'', rt_operationID = ''listTableColumns'', rt_operationGroup = '''',
         rt_pathPattern = ''/tables/{database}/{table}/columns'', rt_count = 2, rt_args = args\<rparr> else None)
       [])"

definition find_detached :: "string \<Rightarrow> string list \<Rightarrow> string \<Rightarrow> Route option" where
  "find_detached m args e = edge ''detached-parts'' e (\<lambda>e.
     at_node e (if m = ''GET'' then Some \<lparr>rt_name = ListDetachedPartsOperation, rt_summary = ''List detached parts'', rt_operationID = ''listDetachedParts'', rt_operationGroup = '''',
         rt_pathPattern = ''/tables/{database}/{table}/detached-parts'', rt_count = 2, rt_args = args\<rparr> else None)
       [])"

definition find_partitions :: "string \<Rightarrow> string list \<Rightarrow> string \<Rightarrow> Route option" where
  "find_partitions m args e = edge ''itions'' e (\<lambda>e.
     at_node e (if m = ''GET'' then Some \<lparr>rt_name = ListTablePartitionsOperation, rt_summary = ''List table partitions'', rt_operationID = ''listTablePartitions'', rt_operationGroup = '''',
         rt_pathPattern = ''/tables/{database}/{table}/partitions'', rt_count = 2, rt_args = args\<rparr> else None)
       [])"

definition find_parts :: "string \<Rightarrow> string list \<Rightarrow> string \<Rightarrow> Route option" where
  "find_parts m args e = edge ''s'' e (\<lambda>e.
     at_node e (if m = ''GET'' then Some \<lparr>rt_name = ListTablePartsOperation, rt_summary = ''List active parts'', rt_operationID = ''listTableParts'', rt_operationGroup = '''',
         rt_pathPattern = ''/tables/{database}/{table}/parts'', rt_count = 2, rt_args = args\<rparr> else None)
       [])"

definition find_part :: "string \<Rightarrow> string list \<Rightarrow> string \<Rightarrow> Route option" where
  "find_part m args e = edge ''part'' e (\<lambda>e.
     at_node e None
       [(CHR ''i'', find_partitions m args), (CHR ''s'', find_parts m args)])"

definition find_table_slash :: "string \<Rightarrow> string list \<Rightarrow> string \<Rightarrow> Route option" where
  "find_table_slash m args e = edge ''/'' e (\<lambda>e.
     at_node e None
       [(CHR ''c'', find_columns m args), (CHR ''d'', find_detached m args),
        (CHR ''p'', find_part m args)])"

definition find_table_name :: "string \<Rightarrow> string list \<Rightarrow> string \<Rightarrow> Route option" where
  "find_table_name m args e = edge ''/'' e (\<lambda>e.
     param e (\<lambda>a e. let args = args @ [a] in
       at_node e (if m = ''GET'' then Some \<lparr>rt_name = GetTableOperation, rt_summary = ''Get table detail'', rt_operationID = ''getTable'', rt_operationGroup = '''',
         rt_pathPattern = ''/tables/{database}/{table}'', rt_count = 2, rt_args = args\<rparr> else None)
       [(CHR ''/'', find_table_slash m args)]))"

definition find_table_database :: "string \<Rightarrow> string list \<Rightarrow> string \<Rightarrow> Route option" where
  "find_table_database m args e = edge ''/'' e (\<lambda>e.
     param e (\<lambda>a e. let args = args @ [a] in
       at_node e None
       [(CHR ''/'', find_table_name m args)]))"

definition find_tables :: "string \<Rightarrow> string list \<Rightarrow> string \<Rightarrow> Route option" where
  "find_tables m args e = edge ''ables'' e (\<lambda>e.
     at_node e (if m = ''GET'' then Some \<lparr>rt_name = ListTablesOperation, rt_summary = ''List watched tables'', rt_operationID = ''listTables'', rt_operationGroup = '''',
         rt_pathPattern = ''/tables'', rt_count = 0, rt_args = args\<rparr> else None)
       [(CHR ''/'', find_table_database m args)])"

definition find_history :: "string \<Rightarrow> string list \<Rightarrow> string \<Rightarrow> Route option" where
  "find_history m args e = edge ''history'' e (\<lambda>e.
     at_node e (if m = ''GET'' then Some \<lparr>rt_name = GetTieringHistoryOperation, rt_summary = ''List tiering action history'', rt_operationID = ''getTieringHistory'', rt_operationGroup = '''',
         rt_pathPattern = ''/tiering/history'', rt_count = 0, rt_args = args\<rparr> else None)
       [])"

definition find_pause :: "string \<Rightarrow> string list \<Rightarrow> string \<Rightarrow> Route option" where
  "find_pause m args e = edge ''ause'' e (\<lambda>e.
     at_node e (if m = ''POST'' then Some \<lparr>rt_name = PauseTieringOperation, rt_summary = ''Pause tiering dispatch'', rt_operationID = ''pauseTiering'', rt_operationGroup = '''',
         rt_pathPattern = ''/tiering/pause'', rt_count = 0, rt_args = args\<rparr> else None)
       [])"

definition find_plan :: "string \<Rightarrow> string list \<Rightarrow> string \<Rightarrow> Route option" where
  "find_plan m args e = edge ''lan'' e (\<lambda>e.
     at_node e (if m = ''GET'' then Some \<lparr>rt_name = GetTieringPlanOperation, rt_summary = ''Get tiering plan'', rt_operationID = ''getTieringPlan'', rt_operationGroup = '''',
         rt_pathPattern = ''/tiering/plan'', rt_count = 0, rt_args = args\<rparr> else None)
       [])"

definition find_p :: "string \<Rightarrow> string list \<Rightarrow> string \<Rightarrow> Route option" where
  "find_p m args e = edge ''p'' e (\<lambda>e.
     at_node e None
       [(CHR ''a'', find_pause m args), (CHR ''l'', find_plan m args)])"

definition find_resume :: "string \<Rightarrow> string list \<Rightarrow> string \<Rightarrow> Route option" where
  "find_resume m args e = edge ''resume'' e (\<lambda>e.
     at_node e (if m = ''POST'' then Some \<lparr>rt_name = ResumeTieringOperation, rt_summary = ''Resume tiering dispatch'', rt_operationID = ''resumeTiering'', rt_operationGroup = '''',
         rt_pathPattern = ''/tiering/resume'', rt_count = 0, rt_args = args\<rparr> else None)
       [])"

definition find_status :: "string \<Rightarrow> string list \<Rightarrow> string \<Rightarrow> Route option" where
  "find_status m args e = edge ''status'' e (\<lambda>e.
     at_node e (if m = ''GET'' then Some \<lparr>rt_name = GetTieringStatusOperation, rt_summary = ''Get tiering controller status'', rt_operationID = ''getTieringStatus'', rt_operationGroup = '''',
         rt_pathPattern = ''/tiering/status'', rt_count = 0, rt_args = args\<rparr> else None)
       [])"

definition find_apply :: "string \<Rightarrow> string list \<Rightarrow> string \<Rightarrow> Route option" where
  "find_apply m args e = edge ''apply'' e (\<lambda>e.
     at_node e (if m = ''POST'' then Some \<lparr>rt_name = ApplyTieringPartitionOperation, rt_summary = ''Apply one tiering decision'', rt_operationID = ''applyTieringPartition'', rt_operationGroup = '''',
         rt_pathPattern = ''/tiering/tables/{database}/{table}/partitions/{partitionId}/apply'', rt_count = 3, rt_args = args\<rparr> else None)
       [])"

definition find_retry :: "string \<Rightarrow> string list \<Rightarrow> string \<Rightarrow> Route option" where
  "find_retry m args e = edge ''retry'' e (\<lambda>e.
     at_node e (if m = ''POST'' then Some \<lparr>rt_name = RetryTieringPartitionOperation, rt_summary = ''Retry one stalled tiering partition'', rt_operationID = ''retryTieringPartition'', rt_operationGroup = '''',
         rt_pathPattern = ''/tiering/tables/{database}/{table}/partitions/{partitionId}/retry'', rt_count = 3, rt_args = args\<rparr> else None)
       [])"

definition find_action_slash :: "string \<Rightarrow> string list \<Rightarrow> string \<Rightarrow> Route option" where
  "find_action_slash m args e = edge ''/'' e (\<lambda>e.
     at_node e None
       [(CHR ''a'', find_apply m args), (CHR ''r'', find_retry m args)])"

definition find_action_partition :: "string \<Rightarrow> string list \<Rightarrow> string \<Rightarrow> Route option" where
  "find_action_partition m args e = edge ''/partitions/'' e (\<lambda>e.
     param e (\<lambda>a e. let args = args @ [a] in
       at_node e None
       [(CHR ''/'', find_action_slash m args)]))"

definition find_action_table :: "string \<Rightarrow> string list \<Rightarrow> string \<Rightarrow> Route option" where
  "find_action_table m args e = edge ''/'' e (\<lambda>e.
     param e (\<lambda>a e. let args = args @ [a] in
       at_node e None
       [(CHR ''/'', find_action_partition m args)]))"

definition find_action_database :: "string \<Rightarrow> string list \<Rightarrow> string \<Rightarrow> Route option" where
  "find_action_database m args e = edge ''tables/'' e (\<lambda>e.
     param e (\<lambda>a e. let args = args @ [a] in
       at_node e None
       [(CHR ''/'', find_action_table m args)]))"

definition find_tiering :: "string \<Rightarrow> string list \<Rightarrow> string \<Rightarrow> Route option" where
  "find_tiering m args e = edge ''iering/'' e (\<lambda>e.
     at_node e None
       [(CHR ''h'', find_history m args), (CHR ''p'', find_p m args),
        (CHR ''r'', find_resume m args), (CHR ''s'', find_status m args),
        (CHR ''t'', find_action_database m args)])"

definition find_t :: "string \<Rightarrow> string list \<Rightarrow> string \<Rightarrow> Route option" where
  "find_t m args e = edge ''t'' e (\<lambda>e.
     at_node e None
       [(CHR ''a'', find_tables m args), (CHR ''i'', find_tiering m args)])"

definition find_slash :: "string \<Rightarrow> string list \<Rightarrow> string \<Rightarrow> Route option" where
  "find_slash m args e = edge ''/'' e (\<lambda>e.
     at_node e None
       [(CHR ''c'', find_conditions m args), (CHR ''h'', find_healthz m args),
        (CHR ''n'', find_nodes m args), (CHR ''o'', find_operations m args),
        (CHR ''p'', find_part_events m args), (CHR ''s'', find_disks m args),
        (CHR ''t'', find_t m args)])"

text \<open>\<open>url.PathUnescape\<close>: \<open>None\<close> when an escape is not two hexadecimal digits.\<close>

definition hex_val :: "char \<Rightarrow> nat option" where
  "hex_val c =
     (let b = byte c in
      if 48 \<le> b \<and> b \<le> 57 then Some (b - 48) else if 97 \<le> b \<and> b \<le> 102 then Some (b - 87)
      else if 65 \<le> b \<and> b \<le> 70 then Some (b - 55) else None)"

fun pathUnescape :: "string \<Rightarrow> string option" where
  "pathUnescape [] = Some []"
| "pathUnescape (c # s) =
     (if c \<noteq> CHR ''%'' then map_option ((#) c) (pathUnescape s)
      else case s of
        a # b # r \<Rightarrow>
          (case (hex_val a, hex_val b) of
             (Some x, Some y) \<Rightarrow> map_option ((#) (char_of (16 * x + y))) (pathUnescape r)
           | _ \<Rightarrow> None)
      | _ \<Rightarrow> None)"

definition unescape_arg :: "string \<Rightarrow> string" where
  "unescape_arg a = (case pathUnescape a of None \<Rightarrow> a | Some u \<Rightarrow> u)"

definition FindPath :: "(string \<Rightarrow> string option) \<Rightarrow> string \<Rightarrow> string \<Rightarrow> string \<Rightarrow> string \<Rightarrow> Route option" where
  "FindPath N prefix m path rawPath =
     (case cutPrefix prefix (fst (routed_path N path rawPath)) of
        None \<Rightarrow> None
      | Some e \<Rightarrow>
          (case at_node e None [(CHR ''/'', find_slash m [])] of
             None \<Rightarrow> None
           | Some r \<Rightarrow> Some (if rawPath = '''' then r
               else r\<lparr>rt_args := map unescape_arg (take (rt_count r) (rt_args r)) @ drop (rt_count r) (rt_args r)\<rparr>)))"

definition FindRoute :: "(string \<Rightarrow> string option) \<Rightarrow> string \<Rightarrow> string \<Rightarrow> string \<Rightarrow> Route option" where
  "FindRoute N prefix m path = FindPath N prefix m path ''''"

section \<open>The not-allowed answer\<close>

text \<open>The headers that are set and the status: with no \<open>MethodNotAllowed\<close> handler configured, as here.
  \<open>acrm\<close> is the request's \<open>Access-Control-Request-Method\<close>; \<open>upper\<close> is \<open>strings.ToUpper\<close>.\<close>

definition notAllowed :: "(string \<Rightarrow> string) \<Rightarrow> string \<Rightarrow> string \<Rightarrow> notAllowedParams \<Rightarrow> (string \<times> string) list \<times> int" where
  "notAllowed upper m acrm p =
     (if m = ''OPTIONS'' then
        ([(''Access-Control-Allow-Methods'', allowedMethods p)]
         @ (if acrm = '''' then [] else case map_of (allowedHeaders p) (upper acrm) of
              None \<Rightarrow> [] | Some h \<Rightarrow> [(''Access-Control-Allow-Headers'', h)])
         @ (if acceptPost p = '''' then [] else [(''Accept-Post'', acceptPost p)])
         @ (if acceptPatch p = '''' then [] else [(''Accept-Patch'', acceptPatch p)]), 204)
      else ([(''Allow'', allowedMethods p)], 405))"

section \<open>The paths of the OpenAPI document\<close>

text \<open>\<open>api/openapi.yaml\<close>: the method of each path, its operation, and whether it has a request body. A
  pattern is matched piece by piece between slashes; a piece in braces matches any piece.\<close>

definition openapi_paths :: "(string \<times> string \<times> bool \<times> OperationName) list" where
  "openapi_paths =
    [(''/healthz'', ''GET'', False, GetHealthOperation),
     (''/nodes'', ''GET'', False, ListNodesOperation),
     (''/storage/disks'', ''GET'', False, ListStorageDisksOperation),
     (''/tables'', ''GET'', False, ListTablesOperation),
     (''/tables/{database}/{table}'', ''GET'', False, GetTableOperation),
     (''/tables/{database}/{table}/columns'', ''GET'', False, ListTableColumnsOperation),
     (''/tables/{database}/{table}/partitions'', ''GET'', False, ListTablePartitionsOperation),
     (''/tables/{database}/{table}/parts'', ''GET'', False, ListTablePartsOperation),
     (''/tables/{database}/{table}/detached-parts'', ''GET'', False, ListDetachedPartsOperation),
     (''/operations'', ''GET'', False, ListOperationsOperation),
     (''/operations/mutations'', ''GET'', False, ListMutationsOperation),
     (''/operations/replication-queue'', ''GET'', False, ListReplicationQueueOperation),
     (''/part-events'', ''GET'', False, ListPartEventsOperation),
     (''/conditions'', ''GET'', False, ListConditionsOperation),
     (''/tiering/plan'', ''GET'', False, GetTieringPlanOperation),
     (''/tiering/status'', ''GET'', False, GetTieringStatusOperation),
     (''/tiering/history'', ''GET'', False, GetTieringHistoryOperation),
     (''/tiering/pause'', ''POST'', False, PauseTieringOperation),
     (''/tiering/resume'', ''POST'', False, ResumeTieringOperation),
     (''/tiering/tables/{database}/{table}/partitions/{partitionId}/apply'', ''POST'', True, ApplyTieringPartitionOperation),
     (''/tiering/tables/{database}/{table}/partitions/{partitionId}/retry'', ''POST'', True, RetryTieringPartitionOperation)]"

definition is_hole :: "string \<Rightarrow> bool" where
  "is_hole s \<longleftrightarrow> s \<noteq> [] \<and> hd s = CHR ''{''"

fun match_pieces :: "string list \<Rightarrow> string list \<Rightarrow> string list option" where
  "match_pieces [] [] = Some []"
| "match_pieces (p # ps) (x # xs) =
     (if is_hole p then map_option ((#) x) (match_pieces ps xs)
      else if p = x then match_pieces ps xs else None)"
| "match_pieces _ _ = None"

definition match_path :: "string \<Rightarrow> string \<Rightarrow> string list option" where
  "match_path pat path = match_pieces (split_on (CHR ''/'') pat) (split_on (CHR ''/'') path)"

fun openapi_lookup :: "(string \<times> string \<times> bool \<times> OperationName) list \<Rightarrow> bool \<Rightarrow> string \<Rightarrow> string \<Rightarrow> dispatch" where
  "openapi_lookup [] esc m path = NotFound"
| "openapi_lookup ((pat, meth, body, op) # rows) esc m path =
     (case match_path pat path of
        None \<Rightarrow> openapi_lookup rows esc m path
      | Some args \<Rightarrow>
          if m = meth then Handle op args esc
          else NotAllowed \<lparr>allowedMethods = meth,
            allowedHeaders = (if body then [(''POST'', ''Content-Type'')] else []),
            acceptPost = (if body then ''application/json'' else ''''), acceptPatch = ''''\<rparr>)"

section \<open>Lemmas of the combinators\<close>

lemma edge_Some: "edge p e k = Some d \<longleftrightarrow> (\<exists>r. e = p @ r \<and> k r = Some d)"
  unfolding edge_def by (auto simp: append_eq_conv_conj) (metis append_take_drop_id)

lemma edge_append [simp]: "edge p (p @ r) k = k r"
  by (simp add: edge_def)

lemma edge_same [simp]: "edge p p k = k []"
  by (simp add: edge_def)

lemma until_append:
  "s \<notin> set a \<Longrightarrow> takeWhile (\<lambda>c. c \<noteq> s) (a @ s # r) = a"
  "s \<notin> set a \<Longrightarrow> dropWhile (\<lambda>c. c \<noteq> s) (a @ s # r) = s # r"
  by (induction a) auto

lemma until_end:
  "s \<notin> set a \<Longrightarrow> takeWhile (\<lambda>c. c \<noteq> s) a = a"
  "s \<notin> set a \<Longrightarrow> dropWhile (\<lambda>c. c \<noteq> s) a = []"
  by (induction a) auto

lemma until_cases: "s \<notin> set e \<or> (\<exists>a r. e = a @ s # r \<and> s \<notin> set a)"
  by (meson split_list_first)

lemma param_slash [simp]: "CHR ''/'' \<notin> set a \<Longrightarrow> param (a @ CHR ''/'' # r) k = k a (CHR ''/'' # r)"
  by (simp only: param_def until_append not_False_eq_True)

lemma param_end [simp]: "CHR ''/'' \<notin> set a \<Longrightarrow> param a k = k a []"
  by (simp only: param_def until_end not_False_eq_True)

lemma param_Some:
  "param e k = Some d \<longleftrightarrow>
     (CHR ''/'' \<notin> set e \<and> k e [] = Some d \<or>
      (\<exists>a r. e = a @ CHR ''/'' # r \<and> CHR ''/'' \<notin> set a \<and> k a (CHR ''/'' # r) = Some d))"
  (is "?L = ?R")
proof -
  have "?L \<Longrightarrow> ?R" using until_cases [of "CHR ''/''" e] by (metis param_slash param_end)
  moreover have "?R \<Longrightarrow> ?L" by (metis param_slash param_end)
  ultimately show ?thesis by blast
qed

lemma at_node_simps [simp]:
  "at_node [] final alts = final"
  "at_node (c # r) final alts = (case map_of alts c of None \<Rightarrow> None | Some k \<Rightarrow> k (c # r))"
  by (simp_all add: at_node_def)

lemma at_node_leaf: "at_node e final [] = Some d \<longleftrightarrow> e = [] \<and> final = Some d"
  by (cases e) simp_all

lemma leaf_Some: "edge p e (\<lambda>e. at_node e final []) = Some d \<longleftrightarrow> e = p \<and> final = Some d"
  by (auto simp: edge_Some at_node_leaf)

lemma split_on_free: "c \<notin> set a \<Longrightarrow> split_on c a = [a]"
  by (induction a) auto

lemma split_on_append: "c \<notin> set a \<Longrightarrow> split_on c (a @ c # s) = a # split_on c s"
  by (induction a) auto

lemma split_on_pieces: "p \<in> set (split_on c s) \<Longrightarrow> c \<notin> set p"
  by (induction s arbitrary: p) (auto split: list.splits if_splits)

section \<open>What the nodes of \<open>ServeHTTP\<close> accept\<close>

lemma at_node_Cons:
  "at_node e final ((c, k) # alts) = Some d \<longleftrightarrow>
     e = [] \<and> final = Some d \<or> (\<exists>r. e = c # r \<and> k e = Some d) \<or>
     (\<exists>x r. e = x # r \<and> x \<noteq> c \<and> at_node e None alts = Some d)"
  by (cases e) auto

lemmas accept_rules = edge_Some param_Some at_node_Cons at_node_leaf Let_def

named_theorems accepts "which paths a node accepts, and what it answers"

lemma accepts_leaves [accepts]:
  "serve_conditions esc m args e = Some d \<longleftrightarrow> e = ''conditions'' \<and> on_get m ListConditionsOperation args esc = Some d"
  "serve_healthz esc m args e = Some d \<longleftrightarrow> e = ''healthz'' \<and> on_get m GetHealthOperation args esc = Some d"
  "serve_nodes esc m args e = Some d \<longleftrightarrow> e = ''nodes'' \<and> on_get m ListNodesOperation args esc = Some d"
  "serve_mutations esc m args e = Some d \<longleftrightarrow> e = ''mutations'' \<and> on_get m ListMutationsOperation args esc = Some d"
  "serve_queue esc m args e = Some d \<longleftrightarrow> e = ''replication-queue'' \<and> on_get m ListReplicationQueueOperation args esc = Some d"
  "serve_part_events esc m args e = Some d \<longleftrightarrow> e = ''part-events'' \<and> on_get m ListPartEventsOperation args esc = Some d"
  "serve_disks esc m args e = Some d \<longleftrightarrow> e = ''storage/disks'' \<and> on_get m ListStorageDisksOperation args esc = Some d"
  "serve_columns esc m args e = Some d \<longleftrightarrow> e = ''columns'' \<and> on_get m ListTableColumnsOperation args esc = Some d"
  "serve_detached esc m args e = Some d \<longleftrightarrow> e = ''detached-parts'' \<and> on_get m ListDetachedPartsOperation args esc = Some d"
  "serve_partitions esc m args e = Some d \<longleftrightarrow> e = ''itions'' \<and> on_get m ListTablePartitionsOperation args esc = Some d"
  "serve_parts esc m args e = Some d \<longleftrightarrow> e = ''s'' \<and> on_get m ListTablePartsOperation args esc = Some d"
  "serve_history esc m args e = Some d \<longleftrightarrow> e = ''history'' \<and> on_get m GetTieringHistoryOperation args esc = Some d"
  "serve_plan esc m args e = Some d \<longleftrightarrow> e = ''lan'' \<and> on_get m GetTieringPlanOperation args esc = Some d"
  "serve_pause esc m args e = Some d \<longleftrightarrow> e = ''ause'' \<and> on_post m [] '''' PauseTieringOperation args esc = Some d"
  "serve_resume esc m args e = Some d \<longleftrightarrow> e = ''resume'' \<and> on_post m [] '''' ResumeTieringOperation args esc = Some d"
  "serve_status esc m args e = Some d \<longleftrightarrow> e = ''status'' \<and> on_get m GetTieringStatusOperation args esc = Some d"
  "serve_apply esc m args e = Some d \<longleftrightarrow>
     e = ''apply'' \<and> on_post m rn7AllowedHeaders ''application/json'' ApplyTieringPartitionOperation args esc = Some d"
  "serve_retry esc m args e = Some d \<longleftrightarrow>
     e = ''retry'' \<and> on_post m rn38AllowedHeaders ''application/json'' RetryTieringPartitionOperation args esc = Some d"
  by (simp_all only: leaf_Some serve_conditions_def serve_healthz_def serve_nodes_def serve_mutations_def serve_queue_def
      serve_part_events_def serve_disks_def serve_columns_def serve_detached_def serve_partitions_def serve_parts_def
      serve_history_def serve_plan_def serve_pause_def serve_resume_def serve_status_def serve_apply_def serve_retry_def)

lemma serve_part_accepts [accepts]:
  "serve_part esc m args e = Some d \<longleftrightarrow>
     e = ''partitions'' \<and> on_get m ListTablePartitionsOperation args esc = Some d \<or>
     e = ''parts'' \<and> on_get m ListTablePartsOperation args esc = Some d"
  by (auto simp: serve_part_def accept_rules accepts simp del: at_node_simps)

lemma serve_table_slash_accepts [accepts]:
  "serve_table_slash esc m args e = Some d \<longleftrightarrow>
     e = ''/columns'' \<and> on_get m ListTableColumnsOperation args esc = Some d \<or>
     e = ''/detached-parts'' \<and> on_get m ListDetachedPartsOperation args esc = Some d \<or>
     e = ''/partitions'' \<and> on_get m ListTablePartitionsOperation args esc = Some d \<or>
     e = ''/parts'' \<and> on_get m ListTablePartsOperation args esc = Some d"
  by (auto simp: serve_table_slash_def accept_rules accepts simp del: at_node_simps)

lemma serve_table_name_accepts:
  "serve_table_name esc m args e = Some d \<longleftrightarrow>
     (\<exists>t. CHR ''/'' \<notin> set t \<and> e = CHR ''/'' # t \<and> on_get m GetTableOperation (args @ [t]) esc = Some d) \<or>
     (\<exists>t r. CHR ''/'' \<notin> set t \<and> e = CHR ''/'' # t @ CHR ''/'' # r \<and>
        serve_table_slash esc m (args @ [t]) (CHR ''/'' # r) = Some d)"
  by (auto simp: serve_table_name_def accept_rules simp del: at_node_simps)

lemma serve_table_database_accepts:
  "serve_table_database esc m args e = Some d \<longleftrightarrow>
     (\<exists>a r. CHR ''/'' \<notin> set a \<and> e = CHR ''/'' # a @ CHR ''/'' # r \<and>
        serve_table_name esc m (args @ [a]) (CHR ''/'' # r) = Some d)"
  by (auto simp: serve_table_database_def accept_rules simp del: at_node_simps)

lemma serve_tables_accepts:
  "serve_tables esc m args e = Some d \<longleftrightarrow>
     e = ''ables'' \<and> on_get m ListTablesOperation args esc = Some d \<or>
     (\<exists>r. e = ''ables/'' @ r \<and> serve_table_database esc m args (CHR ''/'' # r) = Some d)"
  by (auto simp: serve_tables_def accept_rules simp del: at_node_simps)

lemma serve_action_slash_accepts [accepts]:
  "serve_action_slash esc m args e = Some d \<longleftrightarrow>
     e = ''/apply'' \<and> on_post m rn7AllowedHeaders ''application/json'' ApplyTieringPartitionOperation args esc = Some d \<or>
     e = ''/retry'' \<and> on_post m rn38AllowedHeaders ''application/json'' RetryTieringPartitionOperation args esc = Some d"
  by (auto simp: serve_action_slash_def accept_rules accepts simp del: at_node_simps)

lemma serve_action_partition_accepts:
  "serve_action_partition esc m args e = Some d \<longleftrightarrow>
     (\<exists>p r. CHR ''/'' \<notin> set p \<and> e = ''/partitions/'' @ p @ CHR ''/'' # r \<and>
        serve_action_slash esc m (args @ [p]) (CHR ''/'' # r) = Some d)"
  by (auto simp: serve_action_partition_def accept_rules simp del: at_node_simps)

lemma serve_action_table_accepts:
  "serve_action_table esc m args e = Some d \<longleftrightarrow>
     (\<exists>t r. CHR ''/'' \<notin> set t \<and> e = CHR ''/'' # t @ CHR ''/'' # r \<and>
        serve_action_partition esc m (args @ [t]) (CHR ''/'' # r) = Some d)"
  by (auto simp: serve_action_table_def accept_rules simp del: at_node_simps)

lemma serve_action_database_accepts:
  "serve_action_database esc m args e = Some d \<longleftrightarrow>
     (\<exists>a r. CHR ''/'' \<notin> set a \<and> e = ''tables/'' @ a @ CHR ''/'' # r \<and>
        serve_action_table esc m (args @ [a]) (CHR ''/'' # r) = Some d)"
  by (auto simp: serve_action_database_def accept_rules simp del: at_node_simps)

lemma serve_p_accepts [accepts]:
  "serve_p esc m args e = Some d \<longleftrightarrow>
     e = ''pause'' \<and> on_post m [] '''' PauseTieringOperation args esc = Some d \<or>
     e = ''plan'' \<and> on_get m GetTieringPlanOperation args esc = Some d"
  by (auto simp: serve_p_def accept_rules accepts simp del: at_node_simps)

lemma serve_tiering_accepts:
  assumes "serve_tiering esc m args e = Some d"
  shows "e = ''iering/history'' \<and> on_get m GetTieringHistoryOperation args esc = Some d \<or>
     e = ''iering/pause'' \<and> on_post m [] '''' PauseTieringOperation args esc = Some d \<or>
     e = ''iering/plan'' \<and> on_get m GetTieringPlanOperation args esc = Some d \<or>
     e = ''iering/resume'' \<and> on_post m [] '''' ResumeTieringOperation args esc = Some d \<or>
     e = ''iering/status'' \<and> on_get m GetTieringStatusOperation args esc = Some d \<or>
     (\<exists>r. e = ''iering/t'' @ r \<and> serve_action_database esc m args (CHR ''t'' # r) = Some d)"
proof -
  obtain r where e: "e = ''iering/'' @ r" and at: "at_node r None
     [(CHR ''h'', serve_history esc m args), (CHR ''p'', serve_p esc m args), (CHR ''r'', serve_resume esc m args),
      (CHR ''s'', serve_status esc m args), (CHR ''t'', serve_action_database esc m args)] = Some d"
    using assms unfolding serve_tiering_def edge_Some by blast
  from at have "serve_history esc m args r = Some d \<or> serve_p esc m args r = Some d \<or> serve_resume esc m args r = Some d \<or>
      serve_status esc m args r = Some d \<or> (\<exists>r'. r = CHR ''t'' # r' \<and> serve_action_database esc m args (CHR ''t'' # r') = Some d)"
    by (cases r) (simp_all split: if_split_asm)
  then show ?thesis unfolding e accepts by auto
qed

lemma serve_t_accepts:
  "serve_t esc m args e = Some d \<longleftrightarrow>
     (\<exists>r. e = ''ta'' @ r \<and> serve_tables esc m args (CHR ''a'' # r) = Some d) \<or>
     (\<exists>r. e = ''ti'' @ r \<and> serve_tiering esc m args (CHR ''i'' # r) = Some d)"
  by (auto simp: serve_t_def accept_rules simp del: at_node_simps)

lemma serve_operations_accepts [accepts]:
  "serve_operations esc m args e = Some d \<longleftrightarrow>
     e = ''operations'' \<and> on_get m ListOperationsOperation args esc = Some d \<or>
     e = ''operations/mutations'' \<and> on_get m ListMutationsOperation args esc = Some d \<or>
     e = ''operations/replication-queue'' \<and> on_get m ListReplicationQueueOperation args esc = Some d"
  by (auto simp: serve_operations_def serve_operations_slash_def accept_rules accepts simp del: at_node_simps)

lemma serve_slash_accepts:
  assumes "serve_slash esc m args e = Some d"
  shows "e = ''/conditions'' \<and> on_get m ListConditionsOperation args esc = Some d \<or>
     e = ''/healthz'' \<and> on_get m GetHealthOperation args esc = Some d \<or>
     e = ''/nodes'' \<and> on_get m ListNodesOperation args esc = Some d \<or>
     e = ''/operations'' \<and> on_get m ListOperationsOperation args esc = Some d \<or>
     e = ''/operations/mutations'' \<and> on_get m ListMutationsOperation args esc = Some d \<or>
     e = ''/operations/replication-queue'' \<and> on_get m ListReplicationQueueOperation args esc = Some d \<or>
     e = ''/part-events'' \<and> on_get m ListPartEventsOperation args esc = Some d \<or>
     e = ''/storage/disks'' \<and> on_get m ListStorageDisksOperation args esc = Some d \<or>
     (\<exists>r. e = ''/t'' @ r \<and> serve_t esc m args (CHR ''t'' # r) = Some d)"
proof -
  obtain r where e: "e = ''/'' @ r" and at: "at_node r None
     [(CHR ''c'', serve_conditions esc m args), (CHR ''h'', serve_healthz esc m args), (CHR ''n'', serve_nodes esc m args),
      (CHR ''o'', serve_operations esc m args), (CHR ''p'', serve_part_events esc m args), (CHR ''s'', serve_disks esc m args),
      (CHR ''t'', serve_t esc m args)] = Some d"
    using assms unfolding serve_slash_def edge_Some by blast
  from at have "serve_conditions esc m args r = Some d \<or> serve_healthz esc m args r = Some d \<or>
      serve_nodes esc m args r = Some d \<or> serve_operations esc m args r = Some d \<or> serve_part_events esc m args r = Some d \<or>
      serve_disks esc m args r = Some d \<or> (\<exists>r'. r = CHR ''t'' # r' \<and> serve_t esc m args (CHR ''t'' # r') = Some d)"
    by (cases r) (simp_all split: if_split_asm)
  then show ?thesis unfolding e accepts by auto
qed

section \<open>The tree against the document\<close>

text \<open>The document with its patterns cut into pieces.\<close>

fun pieces_lookup :: "(string list \<times> string \<times> bool \<times> OperationName) list \<Rightarrow> bool \<Rightarrow> string \<Rightarrow> string list \<Rightarrow> dispatch" where
  "pieces_lookup [] esc m xs = NotFound"
| "pieces_lookup ((ps, meth, body, op) # rows) esc m xs =
     (case match_pieces ps xs of
        None \<Rightarrow> pieces_lookup rows esc m xs
      | Some args \<Rightarrow>
          if m = meth then Handle op args esc
          else NotAllowed \<lparr>allowedMethods = meth,
            allowedHeaders = (if body then [(''POST'', ''Content-Type'')] else []),
            acceptPost = (if body then ''application/json'' else ''''), acceptPatch = ''''\<rparr>)"

lemma openapi_lookup_pieces:
  "openapi_lookup rows esc m path =
     pieces_lookup (map (\<lambda>(pat, r). (split_on (CHR ''/'') pat, r)) rows) esc m (split_on (CHR ''/'') path)"
  by (induction rows esc m path rule: openapi_lookup.induct) (auto simp: match_path_def split: option.split)

lemmas openapi_pieces = openapi_paths_def [THEN arg_cong, of "map (\<lambda>(pat, r). (split_on (CHR ''/'') pat, r))", simplified]

lemmas piece_rules = openapi_lookup_pieces openapi_pieces is_hole_def split_on_free split_on_append

named_theorems document "what the document says of a path"

lemma document_get [document]:
  "openapi_lookup openapi_paths esc m ''/conditions'' = the (on_get m ListConditionsOperation [] esc)"
  "openapi_lookup openapi_paths esc m ''/healthz'' = the (on_get m GetHealthOperation [] esc)"
  "openapi_lookup openapi_paths esc m ''/nodes'' = the (on_get m ListNodesOperation [] esc)"
  "openapi_lookup openapi_paths esc m ''/operations'' = the (on_get m ListOperationsOperation [] esc)"
  "openapi_lookup openapi_paths esc m ''/operations/mutations'' = the (on_get m ListMutationsOperation [] esc)"
  "openapi_lookup openapi_paths esc m ''/operations/replication-queue'' = the (on_get m ListReplicationQueueOperation [] esc)"
  "openapi_lookup openapi_paths esc m ''/part-events'' = the (on_get m ListPartEventsOperation [] esc)"
  "openapi_lookup openapi_paths esc m ''/storage/disks'' = the (on_get m ListStorageDisksOperation [] esc)"
  "openapi_lookup openapi_paths esc m ''/tables'' = the (on_get m ListTablesOperation [] esc)"
  "openapi_lookup openapi_paths esc m ''/tiering/history'' = the (on_get m GetTieringHistoryOperation [] esc)"
  "openapi_lookup openapi_paths esc m ''/tiering/plan'' = the (on_get m GetTieringPlanOperation [] esc)"
  "openapi_lookup openapi_paths esc m ''/tiering/status'' = the (on_get m GetTieringStatusOperation [] esc)"
  by (simp_all add: piece_rules on_get_def)

lemma document_post [document]:
  "openapi_lookup openapi_paths esc m ''/tiering/pause'' = the (on_post m [] '''' PauseTieringOperation [] esc)"
  "openapi_lookup openapi_paths esc m ''/tiering/resume'' = the (on_post m [] '''' ResumeTieringOperation [] esc)"
  by (simp_all add: piece_rules on_post_def)

lemma document_table [document]:
  assumes "CHR ''/'' \<notin> set a" and "CHR ''/'' \<notin> set t"
  shows "openapi_lookup openapi_paths esc m (''/tables/'' @ a @ CHR ''/'' # t) = the (on_get m GetTableOperation [a, t] esc)"
    and "openapi_lookup openapi_paths esc m (''/tables/'' @ a @ CHR ''/'' # t @ ''/columns'') =
           the (on_get m ListTableColumnsOperation [a, t] esc)"
    and "openapi_lookup openapi_paths esc m (''/tables/'' @ a @ CHR ''/'' # t @ ''/detached-parts'') =
           the (on_get m ListDetachedPartsOperation [a, t] esc)"
    and "openapi_lookup openapi_paths esc m (''/tables/'' @ a @ CHR ''/'' # t @ ''/partitions'') =
           the (on_get m ListTablePartitionsOperation [a, t] esc)"
    and "openapi_lookup openapi_paths esc m (''/tables/'' @ a @ CHR ''/'' # t @ ''/parts'') =
           the (on_get m ListTablePartsOperation [a, t] esc)"
  using assms by (simp_all add: piece_rules on_get_def)

lemma document_action [document]:
  assumes "CHR ''/'' \<notin> set a" and "CHR ''/'' \<notin> set t" and "CHR ''/'' \<notin> set p"
  shows "openapi_lookup openapi_paths esc m (''/tiering/tables/'' @ a @ CHR ''/'' # t @ ''/partitions/'' @ p @ ''/apply'') =
           the (on_post m rn7AllowedHeaders ''application/json'' ApplyTieringPartitionOperation [a, t, p] esc)"
    and "openapi_lookup openapi_paths esc m (''/tiering/tables/'' @ a @ CHR ''/'' # t @ ''/partitions/'' @ p @ ''/retry'') =
           the (on_post m rn38AllowedHeaders ''application/json'' RetryTieringPartitionOperation [a, t, p] esc)"
  using assms by (simp_all add: piece_rules on_post_def rn7AllowedHeaders_def rn38AllowedHeaders_def)

lemma served_table:
  assumes "serve_tables esc m [] (CHR ''a'' # r) = Some d"
  shows "openapi_lookup openapi_paths esc m (''/ta'' @ r) = d"
  using assms
  unfolding serve_tables_accepts serve_table_database_accepts serve_table_name_accepts accepts
  by (auto simp: document [simplified])

lemma served_tiering:
  assumes "serve_tiering esc m [] (CHR ''i'' # r) = Some d"
  shows "openapi_lookup openapi_paths esc m (''/ti'' @ r) = d"
  using serve_tiering_accepts [OF assms]
  unfolding serve_action_database_accepts serve_action_table_accepts serve_action_partition_accepts accepts
  by (auto simp: document [simplified])

lemma serve_sound:
  assumes "serve_slash esc m [] e = Some d"
  shows "openapi_lookup openapi_paths esc m e = d"
  using serve_slash_accepts [OF assms] served_table served_tiering
  by (auto simp: document serve_t_accepts)

text \<open>The other way: a path the document has is one of these shapes.\<close>

lemma pieces_lookup_found:
  "pieces_lookup rows esc m xs \<noteq> NotFound \<Longrightarrow> \<exists>ps r. (ps, r) \<in> set rows \<and> match_pieces ps xs \<noteq> None"
  by (induction rows esc m xs rule: pieces_lookup.induct) (auto split: option.splits)

lemma match_pieces_Cons:
  "match_pieces (p # ps) xs \<noteq> None \<longleftrightarrow>
     (\<exists>x ys. xs = x # ys \<and> (is_hole p \<or> p = x) \<and> match_pieces ps ys \<noteq> None)"
  by (cases xs) auto

lemma match_pieces_Nil: "match_pieces [] xs \<noteq> None \<longleftrightarrow> xs = []"
  by (cases xs) auto

lemma split_on_eq: "split_on c s = xs \<Longrightarrow> s = join [c] xs \<and> (\<forall>x\<in>set xs. c \<notin> set x)"
  using join_split_on split_on_pieces by metis

lemmas serve_defs = serve_slash_def serve_conditions_def serve_healthz_def serve_nodes_def serve_operations_def
  serve_operations_slash_def serve_mutations_def serve_queue_def serve_part_events_def serve_disks_def serve_t_def
  serve_tables_def serve_table_database_def serve_table_name_def serve_table_slash_def serve_columns_def
  serve_detached_def serve_part_def serve_partitions_def serve_parts_def serve_tiering_def serve_history_def serve_p_def
  serve_pause_def serve_plan_def serve_resume_def serve_status_def serve_action_database_def serve_action_table_def
  serve_action_partition_def serve_action_slash_def serve_apply_def serve_retry_def

lemma edge_eval [simp]:
  "edge [] e k = k e"
  "edge (c # p) (c # e) k = edge p e k"
  by (simp_all add: edge_def)

lemma serve_complete:
  assumes "openapi_lookup openapi_paths esc m e \<noteq> NotFound"
  shows "serve_slash esc m [] e \<noteq> None"
proof -
  obtain ps r where row: "(ps, r) \<in> set (map (\<lambda>(pat, r). (split_on (CHR ''/'') pat, r)) openapi_paths)"
    and match: "match_pieces ps (split_on (CHR ''/'') e) \<noteq> None"
    using pieces_lookup_found assms unfolding openapi_lookup_pieces by blast
  define xs where "xs = split_on (CHR ''/'') e"
  have e: "e = join [CHR ''/''] xs" and free: "\<forall>x\<in>set xs. CHR ''/'' \<notin> set x"
    using split_on_eq [of "CHR ''/''" e xs] by (simp_all add: xs_def)
  have match': "match_pieces ps xs \<noteq> None" using match by (simp add: xs_def)
  from row match' free show ?thesis
    unfolding openapi_pieces e
    apply (simp only: list.set insert_iff empty_iff prod.inject simp_thms)
    apply (elim disjE conjE; simp only: match_pieces_Cons match_pieces_Nil; clarsimp simp: is_hole_def)
    apply (simp_all add: serve_defs on_get_def on_post_def)
    done
qed

lemma at_root: "at_node e None [(CHR ''/'', serve_slash esc m [])] = serve_slash esc m [] e"
  by (cases e) (auto simp: serve_slash_def edge_def)

lemma serve_tree:
  "(case serve_slash esc m [] e of None \<Rightarrow> NotFound | Some d \<Rightarrow> d) = openapi_lookup openapi_paths esc m e"
  proof (cases "serve_slash esc m [] e")
  case None
  with serve_complete [of esc m e] show ?thesis by (auto simp: eq_commute)
next
  case (Some d)
  with serve_sound [OF Some] show ?thesis by simp
qed

lemma no_route_empty: "openapi_lookup openapi_paths esc m [] = NotFound"
  by (simp add: piece_rules)

lemma ServeHTTP_routed:
  "routed_path N path rawPath = (elem, esc) \<Longrightarrow> cutPrefix prefix elem = Some e \<Longrightarrow>
   ServeHTTP N prefix m path rawPath = openapi_lookup openapi_paths esc m e"
  by (simp add: ServeHTTP_def at_root serve_tree no_route_empty)

lemma openapi_handle:
  "openapi_lookup rows esc m e = Handle op args esc' \<Longrightarrow>
   esc' = esc \<and> (\<exists>pat body. (pat, m, body, op) \<in> set rows \<and> match_path pat e = Some args)"
  by (induction rows esc m e rule: openapi_lookup.induct) (auto split: option.splits if_splits)

text \<open>C12: Routing is the OpenAPI document: after the mount prefix, a request reaches the handler of the one
  path of the document that its path matches, with the path's arguments in order; another method is answered
  with the method the document allows; every other path is not found. The radix tree of the code, which shares
  prefixes such as \<open>part\<close> and cuts arguments byte by byte, agrees with the piecewise match on every input.\<close>

theorem ServeHTTP_document:
  "ServeHTTP N prefix m path rawPath =
     (case routed_path N path rawPath of (elem, esc) \<Rightarrow>
        (case cutPrefix prefix elem of None \<Rightarrow> NotFound | Some e \<Rightarrow> openapi_lookup openapi_paths esc m e))"
proof (cases "routed_path N path rawPath")
  case (Pair elem esc)
  then show ?thesis
    by (cases "cutPrefix prefix elem") (simp_all add: ServeHTTP_routed, simp add: ServeHTTP_def)
qed

section \<open>\<open>FindPath\<close> against \<open>ServeHTTP\<close>\<close>

text \<open>The route of a call of a handler.\<close>

definition route_of :: "OperationName \<Rightarrow> string list \<Rightarrow> Route" where
  "route_of op args =
     (let r = (\<lambda>summary opid pat n. \<lparr>rt_name = op, rt_summary = summary, rt_operationID = opid, rt_operationGroup = '''',
        rt_pathPattern = pat, rt_count = n, rt_args = args\<rparr>) in
      case op of
        ListConditionsOperation \<Rightarrow> r ''List conditions'' ''listConditions'' ''/conditions'' 0
      | GetHealthOperation \<Rightarrow> r ''Liveness probe'' ''getHealth'' ''/healthz'' 0
      | ListNodesOperation \<Rightarrow> r ''List configured nodes'' ''listNodes'' ''/nodes'' 0
      | ListMutationsOperation \<Rightarrow> r ''List mutations'' ''listMutations'' ''/operations/mutations'' 0
      | ListReplicationQueueOperation \<Rightarrow> r ''List replication queue items'' ''listReplicationQueue'' ''/operations/replication-queue'' 0
      | ListOperationsOperation \<Rightarrow> r ''List active operations'' ''listOperations'' ''/operations'' 0
      | ListPartEventsOperation \<Rightarrow> r ''List recent part events'' ''listPartEvents'' ''/part-events'' 0
      | ListStorageDisksOperation \<Rightarrow> r ''List disks'' ''listStorageDisks'' ''/storage/disks'' 0
      | ListTableColumnsOperation \<Rightarrow> r ''List table columns'' ''listTableColumns'' ''/tables/{database}/{table}/columns'' 2
      | ListDetachedPartsOperation \<Rightarrow> r ''List detached parts'' ''listDetachedParts'' ''/tables/{database}/{table}/detached-parts'' 2
      | ListTablePartitionsOperation \<Rightarrow> r ''List table partitions'' ''listTablePartitions'' ''/tables/{database}/{table}/partitions'' 2
      | ListTablePartsOperation \<Rightarrow> r ''List active parts'' ''listTableParts'' ''/tables/{database}/{table}/parts'' 2
      | GetTableOperation \<Rightarrow> r ''Get table detail'' ''getTable'' ''/tables/{database}/{table}'' 2
      | ListTablesOperation \<Rightarrow> r ''List watched tables'' ''listTables'' ''/tables'' 0
      | GetTieringHistoryOperation \<Rightarrow> r ''List tiering action history'' ''getTieringHistory'' ''/tiering/history'' 0
      | PauseTieringOperation \<Rightarrow> r ''Pause tiering dispatch'' ''pauseTiering'' ''/tiering/pause'' 0
      | GetTieringPlanOperation \<Rightarrow> r ''Get tiering plan'' ''getTieringPlan'' ''/tiering/plan'' 0
      | ResumeTieringOperation \<Rightarrow> r ''Resume tiering dispatch'' ''resumeTiering'' ''/tiering/resume'' 0
      | GetTieringStatusOperation \<Rightarrow> r ''Get tiering controller status'' ''getTieringStatus'' ''/tiering/status'' 0
      | ApplyTieringPartitionOperation \<Rightarrow> r ''Apply one tiering decision'' ''applyTieringPartition'' ''/tiering/tables/{database}/{table}/partitions/{partitionId}/apply'' 3
      | RetryTieringPartitionOperation \<Rightarrow> r ''Retry one stalled tiering partition'' ''retryTieringPartition'' ''/tiering/tables/{database}/{table}/partitions/{partitionId}/retry'' 3)"

definition to_route :: "dispatch option \<Rightarrow> Route option" where
  "to_route d = (case d of Some (Handle op args esc) \<Rightarrow> Some (route_of op args) | _ \<Rightarrow> None)"

lemma to_route_simps [simp]:
  "to_route None = None"
  "to_route (on_get m op args esc) = (if m = ''GET'' then Some (route_of op args) else None)"
  "to_route (on_post m headers accept op args esc) = (if m = ''POST'' then Some (route_of op args) else None)"
  by (simp_all add: to_route_def on_get_def on_post_def)

lemma to_route_edge: "to_route (edge p e k) = edge p e (\<lambda>e. to_route (k e))"
  by (simp add: edge_def)

lemma to_route_param: "to_route (param e k) = param e (\<lambda>a e. to_route (k a e))"
  by (simp add: param_def)

lemma to_route_node: "to_route (at_node e final alts) = at_node e (to_route final) (map (\<lambda>(c, k). (c, \<lambda>e. to_route (k e))) alts)"
proof (cases e)
  case (Cons c r)
  have "to_route (case map_of alts c of None \<Rightarrow> None | Some k \<Rightarrow> k e) =
      (case map_of (map (\<lambda>(c, k). (c, \<lambda>e. to_route (k e))) alts) c of None \<Rightarrow> None | Some k \<Rightarrow> k e)"
    by (induction alts) auto
  then show ?thesis unfolding Cons by simp
qed simp

lemmas route_rules = to_route_edge to_route_param to_route_node Let_def route_of_def

named_theorems routes "the two trees agree at a node"

lemma find_leaves [routes]:
  "to_route (serve_conditions esc m args e) = find_conditions m args e"
  "to_route (serve_healthz esc m args e) = find_healthz m args e"
  "to_route (serve_nodes esc m args e) = find_nodes m args e"
  "to_route (serve_mutations esc m args e) = find_mutations m args e"
  "to_route (serve_queue esc m args e) = find_queue m args e"
  "to_route (serve_part_events esc m args e) = find_part_events m args e"
  "to_route (serve_disks esc m args e) = find_disks m args e"
  "to_route (serve_columns esc m args e) = find_columns m args e"
  "to_route (serve_detached esc m args e) = find_detached m args e"
  "to_route (serve_partitions esc m args e) = find_partitions m args e"
  "to_route (serve_parts esc m args e) = find_parts m args e"
  "to_route (serve_history esc m args e) = find_history m args e"
  "to_route (serve_pause esc m args e) = find_pause m args e"
  "to_route (serve_plan esc m args e) = find_plan m args e"
  "to_route (serve_resume esc m args e) = find_resume m args e"
  "to_route (serve_status esc m args e) = find_status m args e"
  "to_route (serve_apply esc m args e) = find_apply m args e"
  "to_route (serve_retry esc m args e) = find_retry m args e"
  by (simp_all add: route_rules find_conditions_def serve_conditions_def
    find_healthz_def serve_healthz_def
    find_nodes_def serve_nodes_def
    find_mutations_def serve_mutations_def
    find_queue_def serve_queue_def
    find_part_events_def serve_part_events_def
    find_disks_def serve_disks_def
    find_columns_def serve_columns_def
    find_detached_def serve_detached_def
    find_partitions_def serve_partitions_def
    find_parts_def serve_parts_def
    find_history_def serve_history_def
    find_pause_def serve_pause_def
    find_plan_def serve_plan_def
    find_resume_def serve_resume_def
    find_status_def serve_status_def
    find_apply_def serve_apply_def
    find_retry_def serve_retry_def cong: if_cong)

lemma find_operations_slash_node [routes]: "to_route (serve_operations_slash esc m args e) = find_operations_slash m args e"
  by (simp add: find_operations_slash_def serve_operations_slash_def route_rules routes cong: if_cong)

lemma find_operations_node [routes]: "to_route (serve_operations esc m args e) = find_operations m args e"
  by (simp add: find_operations_def serve_operations_def route_rules routes cong: if_cong)

lemma find_part_node [routes]: "to_route (serve_part esc m args e) = find_part m args e"
  by (simp add: find_part_def serve_part_def route_rules routes cong: if_cong)

lemma find_table_slash_node [routes]: "to_route (serve_table_slash esc m args e) = find_table_slash m args e"
  by (simp add: find_table_slash_def serve_table_slash_def route_rules routes cong: if_cong)

lemma find_table_name_node [routes]: "to_route (serve_table_name esc m args e) = find_table_name m args e"
  by (simp add: find_table_name_def serve_table_name_def route_rules routes cong: if_cong)

lemma find_table_database_node [routes]: "to_route (serve_table_database esc m args e) = find_table_database m args e"
  by (simp add: find_table_database_def serve_table_database_def route_rules routes cong: if_cong)

lemma find_tables_node [routes]: "to_route (serve_tables esc m args e) = find_tables m args e"
  by (simp add: find_tables_def serve_tables_def route_rules routes cong: if_cong)

lemma find_p_node [routes]: "to_route (serve_p esc m args e) = find_p m args e"
  by (simp add: find_p_def serve_p_def route_rules routes cong: if_cong)

lemma find_action_slash_node [routes]: "to_route (serve_action_slash esc m args e) = find_action_slash m args e"
  by (simp add: find_action_slash_def serve_action_slash_def route_rules routes cong: if_cong)

lemma find_action_partition_node [routes]: "to_route (serve_action_partition esc m args e) = find_action_partition m args e"
  by (simp add: find_action_partition_def serve_action_partition_def route_rules routes cong: if_cong)

lemma find_action_table_node [routes]: "to_route (serve_action_table esc m args e) = find_action_table m args e"
  by (simp add: find_action_table_def serve_action_table_def route_rules routes cong: if_cong)

lemma find_action_database_node [routes]: "to_route (serve_action_database esc m args e) = find_action_database m args e"
  by (simp add: find_action_database_def serve_action_database_def route_rules routes cong: if_cong)

lemma find_tiering_node [routes]: "to_route (serve_tiering esc m args e) = find_tiering m args e"
  by (simp add: find_tiering_def serve_tiering_def route_rules routes cong: if_cong)

lemma find_t_node [routes]: "to_route (serve_t esc m args e) = find_t m args e"
  by (simp add: find_t_def serve_t_def route_rules routes cong: if_cong)

lemma find_slash_node [routes]: "to_route (serve_slash esc m args e) = find_slash m args e"
  by (simp add: find_slash_def serve_slash_def route_rules routes cong: if_cong)

lemma pieces_lookup_Handle:
  "pieces_lookup rows esc m xs = Handle op args x \<Longrightarrow>
     \<exists>ps body. (ps, m, body, op) \<in> set rows \<and> match_pieces ps xs = Some args"
  by (induction rows esc m xs rule: pieces_lookup.induct) (auto split: option.splits if_splits)

lemma match_pieces_length:
  "match_pieces ps xs = Some args \<Longrightarrow> length args = length (filter is_hole ps)"
  by (induction ps xs arbitrary: args rule: match_pieces.induct) (auto split: if_splits)

lemma route_of_fields:
  assumes "openapi_lookup openapi_paths esc m e = Handle op args x"
  shows "rt_count (route_of op args) = length args \<and> rt_args (route_of op args) = args \<and> rt_name (route_of op args) = op \<and>
    (\<exists>body. (rt_pathPattern (route_of op args), m, body, op) \<in> set openapi_paths)"
proof -
  obtain ps body where row: "(ps, m, body, op) \<in> set (map (\<lambda>(pat, r). (split_on (CHR ''/'') pat, r)) openapi_paths)"
    and ps: "match_pieces ps (split_on (CHR ''/'') e) = Some args"
    using pieces_lookup_Handle assms unfolding openapi_lookup_pieces by blast
  from match_pieces_length [OF ps] row show ?thesis
    unfolding openapi_pieces
    by (simp only: list.set insert_iff empty_iff prod.inject simp_thms)
      (elim disjE conjE; force simp: route_of_def Let_def is_hole_def openapi_paths_def)
qed

text \<open>\<open>FindPath\<close>, the second copy of the tree, finds a route exactly when \<open>ServeHTTP\<close> would call a
  handler, and then names the same operation with the same arguments (unescaped when the request had a raw
  path) and the pattern the OpenAPI document gives that operation for this method.\<close>

theorem FindPath_ServeHTTP:
  "case ServeHTTP N prefix m path rawPath of
     Handle op args esc \<Rightarrow>
       (\<exists>r body. FindPath N prefix m path rawPath = Some r \<and> rt_name r = op \<and>
          rt_args r = (if rawPath = '''' then args else map unescape_arg args) \<and>
          rt_count r = length args \<and> (rt_pathPattern r, m, body, op) \<in> set openapi_paths)
   | _ \<Rightarrow> FindPath N prefix m path rawPath = None"
proof (cases "cutPrefix prefix (fst (routed_path N path rawPath))")
  case None
  then show ?thesis by (cases "routed_path N path rawPath") (simp add: ServeHTTP_def FindPath_def)
next
  case (Some e)
  define esc where "esc = snd (routed_path N path rawPath)"
  have find: "at_node e None [(CHR ''/'', find_slash m [])] = to_route (serve_slash esc m [] e)"
    by (simp only: routes at_root [symmetric] to_route_node) (simp add: routes)
  have serve: "ServeHTTP N prefix m path rawPath = openapi_lookup openapi_paths esc m e"
    using Some by (cases "routed_path N path rawPath") (simp add: ServeHTTP_routed esc_def)
  show ?thesis
    using Some route_of_fields [of esc m e] serve_tree [of esc m e]
    unfolding serve FindPath_def
    by (cases "serve_slash esc m [] e") (auto simp: find to_route_def split: dispatch.split)
qed

end
