(* ===== verification/RestValidate.thy ===== *)
theory RestValidate
  imports Handlers
begin

text \<open>
  The \<open>Validate\<close> methods of the response and parameter types (\<open>api/rest/oas_validators_gen.go\<close>): the failures of the
  fields in order, \<open>None\<close> when there is none. The generated client validates what it decodes, the generated server
  its parameters. The checks that a required array is not nil never fail here: an array is a list. Of the validator
  library, a bound on a number and a pattern of digits are modelled.
\<close>

section \<open>Failures\<close>

datatype verr =
    VEnum string
  | VInt int
  | VFloat f64
  | VPattern string
  | VNil
  | VFields "(string \<times> verr) list"

definition fields_of :: "(string \<times> verr option) list \<Rightarrow> verr option" where
  "fields_of cs =
     (case List.map_filter (\<lambda>(n, e). map_option (Pair n) e) cs of [] \<Rightarrow> None | failures \<Rightarrow> Some (VFields failures))"

text \<open>A check of an optional value is made when the value is set (and not null).\<close>

definition if_set :: "('a \<Rightarrow> verr option) \<Rightarrow> 'a option \<Rightarrow> verr option" where
  "if_set f x = (case x of None \<Rightarrow> None | Some v \<Rightarrow> f v)"

definition if_val :: "('a \<Rightarrow> verr option) \<Rightarrow> 'a optnil \<Rightarrow> verr option" where
  "if_val f x = (case x of OptVal v \<Rightarrow> f v | _ \<Rightarrow> None)"

text \<open>The failures of an array name its positions.\<close>

definition each :: "('a \<Rightarrow> verr option) \<Rightarrow> 'a list \<Rightarrow> verr option" where
  "each f xs = fields_of (map (\<lambda>(i, x). (''['' @ show_nat i @ '']'', f x)) (List.enumerate 0 xs))"

definition not_nil :: "'a list \<Rightarrow> verr option" where "not_nil xs = None"

definition int_between :: "int \<Rightarrow> int option \<Rightarrow> int \<Rightarrow> verr option" where
  "int_between lo hi i = (if i < lo \<or> (case hi of None \<Rightarrow> False | Some h \<Rightarrow> h < i) then Some (VInt i) else None)"

definition float_between :: "rat \<Rightarrow> rat option \<Rightarrow> f64 \<Rightarrow> verr option" where
  "float_between lo hi x =
     (if f64_less x (Fin lo) \<or> (case hi of None \<Rightarrow> False | Some h \<Rightarrow> f64_less (Fin h) x) then Some (VFloat x) else None)"

definition all_digits :: "string \<Rightarrow> bool" where
  "all_digits s \<longleftrightarrow> s \<noteq> [] \<and> list_all is_digit s"

named_theorems valid "when a value of a type validates"

lemma fields_of_None [simp]: "fields_of cs = None \<longleftrightarrow> (\<forall>(n, e) \<in> set cs. e = None)"
proof -
  have "List.map_filter (\<lambda>(n, e). map_option (Pair n) e) cs = [] \<longleftrightarrow> (\<forall>(n, e) \<in> set cs. e = None)"
    by (induction cs) (auto simp: map_filter_simps split: option.splits)
  then show ?thesis
    by (cases "List.map_filter (\<lambda>(n, e). map_option (Pair n) e) cs") (simp_all add: fields_of_def)
qed

lemma if_set_None [simp]: "if_set f x = None \<longleftrightarrow> (\<forall>v. x = Some v \<longrightarrow> f v = None)"
  by (simp add: if_set_def split: option.split)

lemma if_val_None [simp]: "if_val f x = None \<longleftrightarrow> (\<forall>v. x = OptVal v \<longrightarrow> f v = None)"
  by (simp add: if_val_def split: optnil.split)

lemma each_None [simp]: "each f xs = None \<longleftrightarrow> (\<forall>x \<in> set xs. f x = None)"
  by (force simp: each_def in_set_conv_nth in_set_enumerate_eq nth_enumerate_eq)

lemma not_nil_None [simp]: "not_nil xs = None"
  by (simp add: not_nil_def)

lemma int_between_None [simp]: "int_between lo hi i = None \<longleftrightarrow> lo \<le> i \<and> (\<forall>h. hi = Some h \<longrightarrow> i \<le> h)"
  by (auto simp: int_between_def split: option.split)

section \<open>Scalars\<close>

definition UInt64String_Validate :: "string \<Rightarrow> verr option" where
  "UInt64String_Validate s = (if all_digits s then None else Some (VPattern s))"

definition Int64String_Validate :: "string \<Rightarrow> verr option" where
  "Int64String_Validate s =
     (if all_digits (if s \<noteq> [] \<and> hd s = CHR ''-'' then tl s else s) then None else Some (VPattern s))"

definition OpenCountMap_Validate :: "(string, int) amap \<Rightarrow> verr option" where
  "OpenCountMap_Validate m = fields_of (map (\<lambda>(k, n). (k, int_between 0 None n)) m)"

definition OperationKind_Validate :: "string \<Rightarrow> verr option" where
  "OperationKind_Validate s = (if s \<in> {''move'', ''merge'', ''mutation'', ''fetch'', ''replication_queue''} then None else Some (VEnum s))"

definition Placement_Validate :: "string \<Rightarrow> verr option" where
  "Placement_Validate s = (if s \<in> {''on_target'', ''off_target'', ''split'', ''replica_divergent'', ''missing_replica'', ''unknown''} then None else Some (VEnum s))"

definition Severity_Validate :: "string \<Rightarrow> verr option" where
  "Severity_Validate s = (if s \<in> {''critical'', ''warning'', ''info''} then None else Some (VEnum s))"

definition WarningKind_Validate :: "string \<Rightarrow> verr option" where
  "WarningKind_Validate s = (if s \<in> {''reachability'', ''capability'', ''partial_data'', ''query_error''} then None else Some (VEnum s))"

section \<open>Responses\<close>

definition CollectionWarning_Validate :: "CollectionWarning \<Rightarrow> verr option" where
  "CollectionWarning_Validate s = fields_of
     [(''kind'', WarningKind_Validate (cwn_Kind s))]"

lemma CollectionWarning_valid [valid]: "CollectionWarning_Validate s = None \<longleftrightarrow>
   WarningKind_Validate (cwn_Kind s) = None"
  by (simp add: CollectionWarning_Validate_def)

definition CollectionMeta_Validate :: "CollectionMeta \<Rightarrow> verr option" where
  "CollectionMeta_Validate s = fields_of
     [(''collectionDurationMs'', int_between 0 None (cm_CollectionDurationMs s)),
      (''nodesExpected'', int_between 0 None (cm_NodesExpected s)),
      (''nodesResponded'', int_between 0 None (cm_NodesResponded s)),
      (''nodesFailed'', int_between 0 None (cm_NodesFailed s)),
      (''warnings'', each CollectionWarning_Validate (cm_Warnings s))]"

lemma CollectionMeta_valid [valid]: "CollectionMeta_Validate s = None \<longleftrightarrow>
   int_between 0 None (cm_CollectionDurationMs s) = None \<and> int_between 0 None (cm_NodesExpected s) = None \<and>
   int_between 0 None (cm_NodesResponded s) = None \<and> int_between 0 None (cm_NodesFailed s) = None \<and>
   each CollectionWarning_Validate (cm_Warnings s) = None"
  by (simp add: CollectionMeta_Validate_def)

definition EmbeddedCondition_Validate :: "EmbeddedCondition \<Rightarrow> verr option" where
  "EmbeddedCondition_Validate s = fields_of
     [(''severity'', Severity_Validate (ec_Severity s)),
      (''count'', if_set (int_between 0 None) (ec_Count s))]"

lemma EmbeddedCondition_valid [valid]: "EmbeddedCondition_Validate s = None \<longleftrightarrow>
   Severity_Validate (ec_Severity s) = None \<and> if_set (int_between 0 None) (ec_Count s) = None"
  by (simp add: EmbeddedCondition_Validate_def)

definition Condition_Validate :: "RestCondition \<Rightarrow> verr option" where
  "Condition_Validate s = fields_of
     [(''severity'', Severity_Validate (rc_Severity s))]"

lemma Condition_valid [valid]: "Condition_Validate s = None \<longleftrightarrow>
   Severity_Validate (rc_Severity s) = None"
  by (simp add: Condition_Validate_def)

definition SeverityCounts_Validate :: "SeverityCounts \<Rightarrow> verr option" where
  "SeverityCounts_Validate s = fields_of
     [(''critical'', int_between 0 None (svc_Critical s)),
      (''warning'', int_between 0 None (svc_Warning s)),
      (''info'', int_between 0 None (svc_Info s))]"

lemma SeverityCounts_valid [valid]: "SeverityCounts_Validate s = None \<longleftrightarrow>
   int_between 0 None (svc_Critical s) = None \<and> int_between 0 None (svc_Warning s) = None \<and>
   int_between 0 None (svc_Info s) = None"
  by (simp add: SeverityCounts_Validate_def)

definition ConditionCounts_Validate :: "ConditionCounts \<Rightarrow> verr option" where
  "ConditionCounts_Validate s = fields_of
     [(''total'', int_between 0 None (cnc_Total s)),
      (''bySeverity'', SeverityCounts_Validate (cnc_BySeverity s))]"

lemma ConditionCounts_valid [valid]: "ConditionCounts_Validate s = None \<longleftrightarrow>
   int_between 0 None (cnc_Total s) = None \<and> SeverityCounts_Validate (cnc_BySeverity s) = None"
  by (simp add: ConditionCounts_Validate_def)

definition ConditionsResponse_Validate :: "((RestCondition, ConditionCounts) counted) \<Rightarrow> verr option" where
  "ConditionsResponse_Validate s = fields_of
     [(''collection'', CollectionMeta_Validate (ct_Collection s)),
      (''items'', each Condition_Validate (ct_Items s)),
      (''counts'', ConditionCounts_Validate (ct_Counts s))]"

lemma ConditionsResponse_valid [valid]: "ConditionsResponse_Validate s = None \<longleftrightarrow>
   CollectionMeta_Validate (ct_Collection s) = None \<and> each Condition_Validate (ct_Items s) = None \<and>
   ConditionCounts_Validate (ct_Counts s) = None"
  by (simp add: ConditionsResponse_Validate_def)

definition BackgroundPools_Validate :: "BackgroundPools \<Rightarrow> verr option" where
  "BackgroundPools_Validate s = fields_of
     [(''mergesAndMutations'', if_set UInt64String_Validate (bpo_MergesAndMutations s)),
      (''moves'', if_set UInt64String_Validate (bpo_Moves s)),
      (''fetches'', if_set UInt64String_Validate (bpo_Fetches s))]"

lemma BackgroundPools_valid [valid]: "BackgroundPools_Validate s = None \<longleftrightarrow>
   if_set UInt64String_Validate (bpo_MergesAndMutations s) = None \<and>
   if_set UInt64String_Validate (bpo_Moves s) = None \<and> if_set UInt64String_Validate (bpo_Fetches s) = None"
  by (simp add: BackgroundPools_Validate_def)

definition ReplicationSummary_Validate :: "ReplicationSummary \<Rightarrow> verr option" where
  "ReplicationSummary_Validate s = fields_of
     [(''queueSize'', if_set UInt64String_Validate (rsu_QueueSize s)),
      (''absoluteDelaySeconds'', if_set UInt64String_Validate (rsu_AbsoluteDelaySeconds s)),
      (''futureParts'', if_set UInt64String_Validate (rsu_FutureParts s)),
      (''totalReplicas'', if_set UInt64String_Validate (rsu_TotalReplicas s)),
      (''activeReplicas'', if_set UInt64String_Validate (rsu_ActiveReplicas s))]"

lemma ReplicationSummary_valid [valid]: "ReplicationSummary_Validate s = None \<longleftrightarrow>
   if_set UInt64String_Validate (rsu_QueueSize s) = None \<and>
   if_set UInt64String_Validate (rsu_AbsoluteDelaySeconds s) = None \<and>
   if_set UInt64String_Validate (rsu_FutureParts s) = None \<and>
   if_set UInt64String_Validate (rsu_TotalReplicas s) = None \<and>
   if_set UInt64String_Validate (rsu_ActiveReplicas s) = None"
  by (simp add: ReplicationSummary_Validate_def)

definition Node_Validate :: "RestNode \<Rightarrow> verr option" where
  "Node_Validate s = fields_of
     [(''uptimeSeconds'', if_set UInt64String_Validate (rn_UptimeSeconds s)),
      (''replication'', if_set ReplicationSummary_Validate (rn_Replication s)),
      (''backgroundPools'', if_set BackgroundPools_Validate (rn_BackgroundPools s))]"

lemma Node_valid [valid]: "Node_Validate s = None \<longleftrightarrow>
   if_set UInt64String_Validate (rn_UptimeSeconds s) = None \<and>
   if_set ReplicationSummary_Validate (rn_Replication s) = None \<and>
   if_set BackgroundPools_Validate (rn_BackgroundPools s) = None"
  by (simp add: Node_Validate_def)

definition NodesResponse_Validate :: "(RestNode listing) \<Rightarrow> verr option" where
  "NodesResponse_Validate s = fields_of
     [(''collection'', CollectionMeta_Validate (ls_Collection s)),
      (''items'', each Node_Validate (ls_Items s))]"

lemma NodesResponse_valid [valid]: "NodesResponse_Validate s = None \<longleftrightarrow>
   CollectionMeta_Validate (ls_Collection s) = None \<and> each Node_Validate (ls_Items s) = None"
  by (simp add: NodesResponse_Validate_def)

definition StorageDisk_Validate :: "RestStorageDisk \<Rightarrow> verr option" where
  "StorageDisk_Validate s = fields_of
     [(''freeSpaceBytes'', if_set UInt64String_Validate (rd_FreeSpaceBytes s)),
      (''totalSpaceBytes'', if_set UInt64String_Validate (rd_TotalSpaceBytes s)),
      (''unreservedSpaceBytes'', if_set UInt64String_Validate (rd_UnreservedSpaceBytes s)),
      (''usedByActivePartsBytes'', UInt64String_Validate (rd_UsedByActivePartsBytes s))]"

lemma StorageDisk_valid [valid]: "StorageDisk_Validate s = None \<longleftrightarrow>
   if_set UInt64String_Validate (rd_FreeSpaceBytes s) = None \<and>
   if_set UInt64String_Validate (rd_TotalSpaceBytes s) = None \<and>
   if_set UInt64String_Validate (rd_UnreservedSpaceBytes s) = None \<and>
   UInt64String_Validate (rd_UsedByActivePartsBytes s) = None"
  by (simp add: StorageDisk_Validate_def)

definition StorageDisksResponse_Validate :: "(RestStorageDisk listing) \<Rightarrow> verr option" where
  "StorageDisksResponse_Validate s = fields_of
     [(''collection'', CollectionMeta_Validate (ls_Collection s)),
      (''items'', each StorageDisk_Validate (ls_Items s))]"

lemma StorageDisksResponse_valid [valid]: "StorageDisksResponse_Validate s = None \<longleftrightarrow>
   CollectionMeta_Validate (ls_Collection s) = None \<and> each StorageDisk_Validate (ls_Items s) = None"
  by (simp add: StorageDisksResponse_Validate_def)

definition PlacementCounts_Validate :: "PlacementCounts \<Rightarrow> verr option" where
  "PlacementCounts_Validate s = fields_of
     [(''on_target'', int_between 0 None (pc_OnTarget s)),
      (''off_target'', int_between 0 None (pc_OffTarget s)),
      (''split'', int_between 0 None (pc_Split s)),
      (''replica_divergent'', int_between 0 None (pc_ReplicaDivergent s)),
      (''missing_replica'', int_between 0 None (pc_MissingReplica s)),
      (''unknown'', int_between 0 None (pc_Unknown s))]"

lemma PlacementCounts_valid [valid]: "PlacementCounts_Validate s = None \<longleftrightarrow>
   int_between 0 None (pc_OnTarget s) = None \<and> int_between 0 None (pc_OffTarget s) = None \<and>
   int_between 0 None (pc_Split s) = None \<and> int_between 0 None (pc_ReplicaDivergent s) = None \<and>
   int_between 0 None (pc_MissingReplica s) = None \<and> int_between 0 None (pc_Unknown s) = None"
  by (simp add: PlacementCounts_Validate_def)

definition PartitionOperationCounts_Validate :: "PartitionOperationCounts \<Rightarrow> verr option" where
  "PartitionOperationCounts_Validate s = fields_of
     [(''moving'', int_between 0 None (poc_Moving s)),
      (''merging'', int_between 0 None (poc_Merging s)),
      (''mutating'', int_between 0 None (poc_Mutating s)),
      (''fetching'', int_between 0 None (poc_Fetching s))]"

lemma PartitionOperationCounts_valid [valid]: "PartitionOperationCounts_Validate s = None \<longleftrightarrow>
   int_between 0 None (poc_Moving s) = None \<and> int_between 0 None (poc_Merging s) = None \<and>
   int_between 0 None (poc_Mutating s) = None \<and> int_between 0 None (poc_Fetching s) = None"
  by (simp add: PartitionOperationCounts_Validate_def)

definition TableListItem_checks1 :: "TableListItem \<Rightarrow> (string \<times> verr option) list" where
  "TableListItem_checks1 s =
     [(''nodesObserved'', int_between 0 None (tli_NodesObserved s)),
      (''shardsObserved'', int_between 0 None (tli_ShardsObserved s)),
      (''replicasPerShard'', int_between 0 None (tli_ReplicasPerShard s)),
      (''activePartitions'', int_between 0 None (tli_ActivePartitions s)),
      (''activeParts'', UInt64String_Validate (tli_ActiveParts s)),
      (''rows'', UInt64String_Validate (tli_Rows s)),
      (''bytesOnDisk'', UInt64String_Validate (tli_BytesOnDisk s)),
      (''partitionPlacements'', PlacementCounts_Validate (tli_PartitionPlacements s)),
      (''partitionOperations'', PartitionOperationCounts_Validate (tli_PartitionOperations s))]"

definition TableListItem_checks2 :: "TableListItem \<Rightarrow> (string \<times> verr option) list" where
  "TableListItem_checks2 s =
     [(''activeOperations'', int_between 0 None (tli_ActiveOperations s)),
      (''conditions'', each EmbeddedCondition_Validate (tli_Conditions s))]"

definition TableListItem_Validate :: "TableListItem \<Rightarrow> verr option" where
  "TableListItem_Validate s = fields_of (TableListItem_checks1 s @ TableListItem_checks2 s)"

lemma TableListItem_valid [valid]: "TableListItem_Validate s = None \<longleftrightarrow>
   int_between 0 None (tli_NodesObserved s) = None \<and> int_between 0 None (tli_ShardsObserved s) = None \<and>
   int_between 0 None (tli_ReplicasPerShard s) = None \<and> int_between 0 None (tli_ActivePartitions s) = None \<and>
   UInt64String_Validate (tli_ActiveParts s) = None \<and> UInt64String_Validate (tli_Rows s) = None \<and>
   UInt64String_Validate (tli_BytesOnDisk s) = None \<and>
   PlacementCounts_Validate (tli_PartitionPlacements s) = None \<and>
   PartitionOperationCounts_Validate (tli_PartitionOperations s) = None \<and>
   int_between 0 None (tli_ActiveOperations s) = None \<and>
   each EmbeddedCondition_Validate (tli_Conditions s) = None"
  by (simp add: TableListItem_Validate_def TableListItem_checks1_def TableListItem_checks2_def)

definition TablesResponse_Validate :: "(TableListItem listing) \<Rightarrow> verr option" where
  "TablesResponse_Validate s = fields_of
     [(''collection'', CollectionMeta_Validate (ls_Collection s)),
      (''items'', each TableListItem_Validate (ls_Items s))]"

lemma TablesResponse_valid [valid]: "TablesResponse_Validate s = None \<longleftrightarrow>
   CollectionMeta_Validate (ls_Collection s) = None \<and> each TableListItem_Validate (ls_Items s) = None"
  by (simp add: TablesResponse_Validate_def)

definition ReplicaState_Validate :: "RestReplicaState \<Rightarrow> verr option" where
  "ReplicaState_Validate s = fields_of
     [(''queueSize'', if_set UInt64String_Validate (rr_QueueSize s)),
      (''absoluteDelaySeconds'', if_set UInt64String_Validate (rr_AbsoluteDelaySeconds s)),
      (''totalReplicas'', if_set UInt64String_Validate (rr_TotalReplicas s)),
      (''activeReplicas'', if_set UInt64String_Validate (rr_ActiveReplicas s))]"

lemma ReplicaState_valid [valid]: "ReplicaState_Validate s = None \<longleftrightarrow>
   if_set UInt64String_Validate (rr_QueueSize s) = None \<and>
   if_set UInt64String_Validate (rr_AbsoluteDelaySeconds s) = None \<and>
   if_set UInt64String_Validate (rr_TotalReplicas s) = None \<and>
   if_set UInt64String_Validate (rr_ActiveReplicas s) = None"
  by (simp add: ReplicaState_Validate_def)

definition NodeTableState_Validate :: "NodeTableState \<Rightarrow> verr option" where
  "NodeTableState_Validate s = fields_of
     [(''activeParts'', UInt64String_Validate (nts_ActiveParts s)),
      (''rows'', UInt64String_Validate (nts_Rows s)),
      (''bytesOnDisk'', UInt64String_Validate (nts_BytesOnDisk s)),
      (''replica'', if_set ReplicaState_Validate (nts_Replica s))]"

lemma NodeTableState_valid [valid]: "NodeTableState_Validate s = None \<longleftrightarrow>
   UInt64String_Validate (nts_ActiveParts s) = None \<and> UInt64String_Validate (nts_Rows s) = None \<and>
   UInt64String_Validate (nts_BytesOnDisk s) = None \<and> if_set ReplicaState_Validate (nts_Replica s) = None"
  by (simp add: NodeTableState_Validate_def)

definition TableDetail_checks1 :: "TableDetail \<Rightarrow> (string \<times> verr option) list" where
  "TableDetail_checks1 s =
     [(''nodesObserved'', int_between 0 None (td_NodesObserved s)),
      (''activePartitions'', int_between 0 None (td_ActivePartitions s)),
      (''activeParts'', UInt64String_Validate (td_ActiveParts s)),
      (''rows'', UInt64String_Validate (td_Rows s)),
      (''bytesOnDisk'', UInt64String_Validate (td_BytesOnDisk s)),
      (''partitionPlacements'', PlacementCounts_Validate (td_PartitionPlacements s)),
      (''partitionOperations'', PartitionOperationCounts_Validate (td_PartitionOperations s)),
      (''nodes'', each NodeTableState_Validate (td_Nodes s))]"

definition TableDetail_checks2 :: "TableDetail \<Rightarrow> (string \<times> verr option) list" where
  "TableDetail_checks2 s =
     [(''conditions'', each EmbeddedCondition_Validate (td_Conditions s))]"

definition TableDetail_Validate :: "TableDetail \<Rightarrow> verr option" where
  "TableDetail_Validate s = fields_of (TableDetail_checks1 s @ TableDetail_checks2 s)"

lemma TableDetail_valid [valid]: "TableDetail_Validate s = None \<longleftrightarrow>
   int_between 0 None (td_NodesObserved s) = None \<and> int_between 0 None (td_ActivePartitions s) = None \<and>
   UInt64String_Validate (td_ActiveParts s) = None \<and> UInt64String_Validate (td_Rows s) = None \<and>
   UInt64String_Validate (td_BytesOnDisk s) = None \<and>
   PlacementCounts_Validate (td_PartitionPlacements s) = None \<and>
   PartitionOperationCounts_Validate (td_PartitionOperations s) = None \<and>
   each NodeTableState_Validate (td_Nodes s) = None \<and> each EmbeddedCondition_Validate (td_Conditions s) = None"
  by (simp add: TableDetail_Validate_def TableDetail_checks1_def TableDetail_checks2_def)

definition TableResponse_Validate :: "(CollectionMeta \<times> TableDetail) \<Rightarrow> verr option" where
  "TableResponse_Validate s = fields_of
     [(''collection'', CollectionMeta_Validate (fst s)),
      (''item'', TableDetail_Validate (snd s))]"

lemma TableResponse_valid [valid]: "TableResponse_Validate s = None \<longleftrightarrow>
   CollectionMeta_Validate (fst s) = None \<and> TableDetail_Validate (snd s) = None"
  by (simp add: TableResponse_Validate_def)

definition TableColumn_Validate :: "TableColumn \<Rightarrow> verr option" where
  "TableColumn_Validate s = fields_of
     [(''position'', int_between 1 None (tc_Position s))]"

lemma TableColumn_valid [valid]: "TableColumn_Validate s = None \<longleftrightarrow>
   int_between 1 None (tc_Position s) = None"
  by (simp add: TableColumn_Validate_def)

definition NodeColumns_Validate :: "RestNodeColumns \<Rightarrow> verr option" where
  "NodeColumns_Validate s = fields_of
     [(''columns'', each TableColumn_Validate (rnc_Columns s)),
      (''conditions'', each EmbeddedCondition_Validate (rnc_Conditions s))]"

lemma NodeColumns_valid [valid]: "NodeColumns_Validate s = None \<longleftrightarrow>
   each TableColumn_Validate (rnc_Columns s) = None \<and>
   each EmbeddedCondition_Validate (rnc_Conditions s) = None"
  by (simp add: NodeColumns_Validate_def)

definition TableColumnsResponse_Validate :: "(RestNodeColumns columns_listing) \<Rightarrow> verr option" where
  "TableColumnsResponse_Validate s = fields_of
     [(''collection'', CollectionMeta_Validate (ls_Collection s)),
      (''items'', each NodeColumns_Validate (ls_Items s)),
      (''conditions'', each EmbeddedCondition_Validate (ls_Conditions s))]"

lemma TableColumnsResponse_valid [valid]: "TableColumnsResponse_Validate s = None \<longleftrightarrow>
   CollectionMeta_Validate (ls_Collection s) = None \<and> each NodeColumns_Validate (ls_Items s) = None \<and>
   each EmbeddedCondition_Validate (ls_Conditions s) = None"
  by (simp add: TableColumnsResponse_Validate_def)

definition ProblemDetails_Validate :: "problem \<Rightarrow> verr option" where
  "ProblemDetails_Validate s = fields_of
     [(''status'', int_between 400 (Some 599) (pb_Status s))]"

lemma ProblemDetails_valid [valid]: "ProblemDetails_Validate s = None \<longleftrightarrow>
   int_between 400 (Some 599) (pb_Status s) = None"
  by (simp add: ProblemDetails_Validate_def)

definition PartitionPlacement_Validate :: "PartitionPlacement \<Rightarrow> verr option" where
  "PartitionPlacement_Validate s = fields_of
     [(''activeParts'', UInt64String_Validate (pp_ActiveParts s)),
      (''rows'', UInt64String_Validate (pp_Rows s)),
      (''bytesOnDisk'', UInt64String_Validate (pp_BytesOnDisk s))]"

lemma PartitionPlacement_valid [valid]: "PartitionPlacement_Validate s = None \<longleftrightarrow>
   UInt64String_Validate (pp_ActiveParts s) = None \<and> UInt64String_Validate (pp_Rows s) = None \<and>
   UInt64String_Validate (pp_BytesOnDisk s) = None"
  by (simp add: PartitionPlacement_Validate_def)

definition Partition_Validate :: "RestPartition \<Rightarrow> verr option" where
  "Partition_Validate s = fields_of
     [(''placement'', Placement_Validate (rp_Placement s)),
      (''operations'', not_nil (rp_Operations s)),
      (''disks'', not_nil (rp_Disks s)),
      (''activeParts'', UInt64String_Validate (rp_ActiveParts s)),
      (''rows'', UInt64String_Validate (rp_Rows s)),
      (''bytesOnDisk'', UInt64String_Validate (rp_BytesOnDisk s)),
      (''placements'', each PartitionPlacement_Validate (rp_Placements s)),
      (''conditions'', each EmbeddedCondition_Validate (rp_Conditions s))]"

lemma Partition_valid [valid]: "Partition_Validate s = None \<longleftrightarrow>
   Placement_Validate (rp_Placement s) = None \<and> UInt64String_Validate (rp_ActiveParts s) = None \<and>
   UInt64String_Validate (rp_Rows s) = None \<and> UInt64String_Validate (rp_BytesOnDisk s) = None \<and>
   each PartitionPlacement_Validate (rp_Placements s) = None \<and>
   each EmbeddedCondition_Validate (rp_Conditions s) = None"
  by (simp add: Partition_Validate_def)

definition TablePartitionsResponse_Validate :: "(RestPartition listing) \<Rightarrow> verr option" where
  "TablePartitionsResponse_Validate s = fields_of
     [(''collection'', CollectionMeta_Validate (ls_Collection s)),
      (''items'', each Partition_Validate (ls_Items s))]"

lemma TablePartitionsResponse_valid [valid]: "TablePartitionsResponse_Validate s = None \<longleftrightarrow>
   CollectionMeta_Validate (ls_Collection s) = None \<and> each Partition_Validate (ls_Items s) = None"
  by (simp add: TablePartitionsResponse_Validate_def)

definition TablePart_checks1 :: "TablePart \<Rightarrow> (string \<times> verr option) list" where
  "TablePart_checks1 s =
     [(''rows'', UInt64String_Validate (tpt_Rows s)),
      (''marks'', if_set UInt64String_Validate (tpt_Marks s)),
      (''bytesOnDisk'', UInt64String_Validate (tpt_BytesOnDisk s)),
      (''dataCompressedBytes'', if_set UInt64String_Validate (tpt_DataCompressedBytes s)),
      (''dataUncompressedBytes'', if_set UInt64String_Validate (tpt_DataUncompressedBytes s)),
      (''marksBytes'', if_set UInt64String_Validate (tpt_MarksBytes s)),
      (''primaryKeyBytesInMemory'', if_set UInt64String_Validate (tpt_PrimaryKeyBytesInMemory s)),
      (''primaryKeyBytesInMemoryAllocated'', if_set UInt64String_Validate (tpt_PrimaryKeyBytesInMemoryAllocated s))]"

definition TablePart_checks2 :: "TablePart \<Rightarrow> (string \<times> verr option) list" where
  "TablePart_checks2 s =
     [(''secondaryIndicesCompressedBytes'', if_set UInt64String_Validate (tpt_SecondaryIndicesCompressedBytes s)),
      (''secondaryIndicesUncompressedBytes'', if_set UInt64String_Validate (tpt_SecondaryIndicesUncompressedBytes s)),
      (''secondaryIndicesMarksBytes'', if_set UInt64String_Validate (tpt_SecondaryIndicesMarksBytes s)),
      (''refcount'', if_set UInt64String_Validate (tpt_Refcount s)),
      (''minBlockNumber'', if_set Int64String_Validate (tpt_MinBlockNumber s)),
      (''maxBlockNumber'', if_set Int64String_Validate (tpt_MaxBlockNumber s)),
      (''level'', if_set UInt64String_Validate (tpt_Level s)),
      (''dataVersion'', if_set UInt64String_Validate (tpt_DataVersion s))]"

definition TablePart_checks3 :: "TablePart \<Rightarrow> (string \<times> verr option) list" where
  "TablePart_checks3 s =
     [(''conditions'', each EmbeddedCondition_Validate (tpt_Conditions s))]"

definition TablePart_Validate :: "TablePart \<Rightarrow> verr option" where
  "TablePart_Validate s = fields_of (TablePart_checks1 s @ TablePart_checks2 s @ TablePart_checks3 s)"

lemma TablePart_valid [valid]: "TablePart_Validate s = None \<longleftrightarrow>
   UInt64String_Validate (tpt_Rows s) = None \<and> if_set UInt64String_Validate (tpt_Marks s) = None \<and>
   UInt64String_Validate (tpt_BytesOnDisk s) = None \<and>
   if_set UInt64String_Validate (tpt_DataCompressedBytes s) = None \<and>
   if_set UInt64String_Validate (tpt_DataUncompressedBytes s) = None \<and>
   if_set UInt64String_Validate (tpt_MarksBytes s) = None \<and>
   if_set UInt64String_Validate (tpt_PrimaryKeyBytesInMemory s) = None \<and>
   if_set UInt64String_Validate (tpt_PrimaryKeyBytesInMemoryAllocated s) = None \<and>
   if_set UInt64String_Validate (tpt_SecondaryIndicesCompressedBytes s) = None \<and>
   if_set UInt64String_Validate (tpt_SecondaryIndicesUncompressedBytes s) = None \<and>
   if_set UInt64String_Validate (tpt_SecondaryIndicesMarksBytes s) = None \<and>
   if_set UInt64String_Validate (tpt_Refcount s) = None \<and>
   if_set Int64String_Validate (tpt_MinBlockNumber s) = None \<and>
   if_set Int64String_Validate (tpt_MaxBlockNumber s) = None \<and>
   if_set UInt64String_Validate (tpt_Level s) = None \<and> if_set UInt64String_Validate (tpt_DataVersion s) = None \<and>
   each EmbeddedCondition_Validate (tpt_Conditions s) = None"
  by (simp add: TablePart_Validate_def TablePart_checks1_def TablePart_checks2_def TablePart_checks3_def)

definition TablePartsResponse_Validate :: "(TablePart table_listing) \<Rightarrow> verr option" where
  "TablePartsResponse_Validate s = fields_of
     [(''collection'', CollectionMeta_Validate (ls_Collection s)),
      (''items'', each TablePart_Validate (ls_Items s))]"

lemma TablePartsResponse_valid [valid]: "TablePartsResponse_Validate s = None \<longleftrightarrow>
   CollectionMeta_Validate (ls_Collection s) = None \<and> each TablePart_Validate (ls_Items s) = None"
  by (simp add: TablePartsResponse_Validate_def)

definition DetachedPart_Validate :: "RestDetachedPart \<Rightarrow> verr option" where
  "DetachedPart_Validate s = fields_of
     [(''bytesOnDisk'', UInt64String_Validate (rdp_BytesOnDisk s)),
      (''rows'', UInt64String_Validate (rdp_Rows s)),
      (''minBlockNumber'', if_set Int64String_Validate (rdp_MinBlockNumber s)),
      (''maxBlockNumber'', if_set Int64String_Validate (rdp_MaxBlockNumber s)),
      (''level'', if_set UInt64String_Validate (rdp_Level s)),
      (''conditions'', each EmbeddedCondition_Validate (rdp_Conditions s))]"

lemma DetachedPart_valid [valid]: "DetachedPart_Validate s = None \<longleftrightarrow>
   UInt64String_Validate (rdp_BytesOnDisk s) = None \<and> UInt64String_Validate (rdp_Rows s) = None \<and>
   if_set Int64String_Validate (rdp_MinBlockNumber s) = None \<and>
   if_set Int64String_Validate (rdp_MaxBlockNumber s) = None \<and>
   if_set UInt64String_Validate (rdp_Level s) = None \<and>
   each EmbeddedCondition_Validate (rdp_Conditions s) = None"
  by (simp add: DetachedPart_Validate_def)

definition DetachedPartCounts_Validate :: "DetachedPartCounts \<Rightarrow> verr option" where
  "DetachedPartCounts_Validate s = fields_of
     [(''total'', int_between 0 None (dpc_Total s)),
      (''byReason'', OpenCountMap_Validate (dpc_ByReason s))]"

lemma DetachedPartCounts_valid [valid]: "DetachedPartCounts_Validate s = None \<longleftrightarrow>
   int_between 0 None (dpc_Total s) = None \<and> OpenCountMap_Validate (dpc_ByReason s) = None"
  by (simp add: DetachedPartCounts_Validate_def)

definition DetachedPartsResponse_Validate ::
  "((RestDetachedPart, DetachedPartCounts) table_counted) \<Rightarrow> verr option" where
  "DetachedPartsResponse_Validate s = fields_of
     [(''collection'', CollectionMeta_Validate (ct_Collection s)),
      (''items'', each DetachedPart_Validate (ct_Items s)),
      (''counts'', DetachedPartCounts_Validate (ct_Counts s))]"

lemma DetachedPartsResponse_valid [valid]: "DetachedPartsResponse_Validate s = None \<longleftrightarrow>
   CollectionMeta_Validate (ct_Collection s) = None \<and> each DetachedPart_Validate (ct_Items s) = None \<and>
   DetachedPartCounts_Validate (ct_Counts s) = None"
  by (simp add: DetachedPartsResponse_Validate_def)

definition Operation_Validate :: "RestOperation \<Rightarrow> verr option" where
  "Operation_Validate s = fields_of
     [(''kind'', OperationKind_Validate (ro_Kind s)),
      (''elapsedSeconds'', if_set (float_between 0 None) (ro_ElapsedSeconds s)),
      (''progress'', if_set (float_between 0 (Some 1)) (ro_Progress s)),
      (''bytesTotal'', if_val UInt64String_Validate (ro_BytesTotal s)),
      (''bytesProcessed'', if_val UInt64String_Validate (ro_BytesProcessed s))]"

lemma Operation_valid [valid]: "Operation_Validate s = None \<longleftrightarrow>
   OperationKind_Validate (ro_Kind s) = None \<and> if_set (float_between 0 None) (ro_ElapsedSeconds s) = None \<and>
   if_set (float_between 0 (Some 1)) (ro_Progress s) = None \<and>
   if_val UInt64String_Validate (ro_BytesTotal s) = None \<and>
   if_val UInt64String_Validate (ro_BytesProcessed s) = None"
  by (simp add: Operation_Validate_def)

definition OperationKindCounts_Validate :: "OperationKindCounts \<Rightarrow> verr option" where
  "OperationKindCounts_Validate s = fields_of
     [(''move'', int_between 0 None (okc_Move s)),
      (''merge'', int_between 0 None (okc_Merge s)),
      (''mutation'', int_between 0 None (okc_Mutation s)),
      (''fetch'', int_between 0 None (okc_Fetch s)),
      (''replication_queue'', int_between 0 None (okc_ReplicationQueue s))]"

lemma OperationKindCounts_valid [valid]: "OperationKindCounts_Validate s = None \<longleftrightarrow>
   int_between 0 None (okc_Move s) = None \<and> int_between 0 None (okc_Merge s) = None \<and>
   int_between 0 None (okc_Mutation s) = None \<and> int_between 0 None (okc_Fetch s) = None \<and>
   int_between 0 None (okc_ReplicationQueue s) = None"
  by (simp add: OperationKindCounts_Validate_def)

definition OperationCounts_Validate :: "OperationCounts \<Rightarrow> verr option" where
  "OperationCounts_Validate s = fields_of
     [(''total'', int_between 0 None (oc_Total s)),
      (''byKind'', OperationKindCounts_Validate (oc_ByKind s))]"

lemma OperationCounts_valid [valid]: "OperationCounts_Validate s = None \<longleftrightarrow>
   int_between 0 None (oc_Total s) = None \<and> OperationKindCounts_Validate (oc_ByKind s) = None"
  by (simp add: OperationCounts_Validate_def)

definition OperationsResponse_Validate :: "((RestOperation, OperationCounts) counted) \<Rightarrow> verr option" where
  "OperationsResponse_Validate s = fields_of
     [(''collection'', CollectionMeta_Validate (ct_Collection s)),
      (''items'', each Operation_Validate (ct_Items s)),
      (''counts'', OperationCounts_Validate (ct_Counts s))]"

lemma OperationsResponse_valid [valid]: "OperationsResponse_Validate s = None \<longleftrightarrow>
   CollectionMeta_Validate (ct_Collection s) = None \<and> each Operation_Validate (ct_Items s) = None \<and>
   OperationCounts_Validate (ct_Counts s) = None"
  by (simp add: OperationsResponse_Validate_def)

definition MutationBlockNumber_Validate :: "(string \<times> string) \<Rightarrow> verr option" where
  "MutationBlockNumber_Validate s = fields_of
     [(''number'', UInt64String_Validate (snd s))]"

lemma MutationBlockNumber_valid [valid]: "MutationBlockNumber_Validate s = None \<longleftrightarrow>
   UInt64String_Validate (snd s) = None"
  by (simp add: MutationBlockNumber_Validate_def)

definition MutationOperation_Validate :: "RestMutation \<Rightarrow> verr option" where
  "MutationOperation_Validate s = fields_of
     [(''partsToDo'', UInt64String_Validate (rm_PartsToDo s)),
      (''partsToDoNames'', not_nil (rm_PartsToDoNames s)),
      (''blockNumbers'', each MutationBlockNumber_Validate (rm_BlockNumbers s)),
      (''conditions'', each EmbeddedCondition_Validate (rm_Conditions s))]"

lemma MutationOperation_valid [valid]: "MutationOperation_Validate s = None \<longleftrightarrow>
   UInt64String_Validate (rm_PartsToDo s) = None \<and>
   each MutationBlockNumber_Validate (rm_BlockNumbers s) = None \<and>
   each EmbeddedCondition_Validate (rm_Conditions s) = None"
  by (simp add: MutationOperation_Validate_def)

definition MutationCounts_Validate :: "MutationCounts \<Rightarrow> verr option" where
  "MutationCounts_Validate s = fields_of
     [(''total'', int_between 0 None (mc_Total s)),
      (''unfinished'', int_between 0 None (mc_Unfinished s)),
      (''failed'', int_between 0 None (mc_Failed s))]"

lemma MutationCounts_valid [valid]: "MutationCounts_Validate s = None \<longleftrightarrow>
   int_between 0 None (mc_Total s) = None \<and> int_between 0 None (mc_Unfinished s) = None \<and>
   int_between 0 None (mc_Failed s) = None"
  by (simp add: MutationCounts_Validate_def)

definition MutationsResponse_Validate :: "((RestMutation, MutationCounts) counted) \<Rightarrow> verr option" where
  "MutationsResponse_Validate s = fields_of
     [(''collection'', CollectionMeta_Validate (ct_Collection s)),
      (''items'', each MutationOperation_Validate (ct_Items s)),
      (''counts'', MutationCounts_Validate (ct_Counts s))]"

lemma MutationsResponse_valid [valid]: "MutationsResponse_Validate s = None \<longleftrightarrow>
   CollectionMeta_Validate (ct_Collection s) = None \<and> each MutationOperation_Validate (ct_Items s) = None \<and>
   MutationCounts_Validate (ct_Counts s) = None"
  by (simp add: MutationsResponse_Validate_def)

definition ReplicationQueueOperation_Validate :: "RestQueueItem \<Rightarrow> verr option" where
  "ReplicationQueueOperation_Validate s = fields_of
     [(''position'', UInt64String_Validate (rqi_Position s)),
      (''requiredQuorum'', if_set UInt64String_Validate (rqi_RequiredQuorum s)),
      (''numTries'', UInt64String_Validate (rqi_NumTries s)),
      (''numPostponed'', if_set UInt64String_Validate (rqi_NumPostponed s)),
      (''conditions'', each EmbeddedCondition_Validate (rqi_Conditions s))]"

lemma ReplicationQueueOperation_valid [valid]: "ReplicationQueueOperation_Validate s = None \<longleftrightarrow>
   UInt64String_Validate (rqi_Position s) = None \<and> if_set UInt64String_Validate (rqi_RequiredQuorum s) = None \<and>
   UInt64String_Validate (rqi_NumTries s) = None \<and> if_set UInt64String_Validate (rqi_NumPostponed s) = None \<and>
   each EmbeddedCondition_Validate (rqi_Conditions s) = None"
  by (simp add: ReplicationQueueOperation_Validate_def)

definition ReplicationQueueCounts_Validate :: "ReplicationQueueCounts \<Rightarrow> verr option" where
  "ReplicationQueueCounts_Validate s = fields_of
     [(''total'', int_between 0 None (rqc_Total s)),
      (''currentlyExecuting'', int_between 0 None (rqc_CurrentlyExecuting s)),
      (''withException'', int_between 0 None (rqc_WithException s)),
      (''byType'', OpenCountMap_Validate (rqc_ByType s))]"

lemma ReplicationQueueCounts_valid [valid]: "ReplicationQueueCounts_Validate s = None \<longleftrightarrow>
   int_between 0 None (rqc_Total s) = None \<and> int_between 0 None (rqc_CurrentlyExecuting s) = None \<and>
   int_between 0 None (rqc_WithException s) = None \<and> OpenCountMap_Validate (rqc_ByType s) = None"
  by (simp add: ReplicationQueueCounts_Validate_def)

definition ReplicationQueueResponse_Validate ::
  "((RestQueueItem, ReplicationQueueCounts) counted) \<Rightarrow> verr option" where
  "ReplicationQueueResponse_Validate s = fields_of
     [(''collection'', CollectionMeta_Validate (ct_Collection s)),
      (''items'', each ReplicationQueueOperation_Validate (ct_Items s)),
      (''counts'', ReplicationQueueCounts_Validate (ct_Counts s))]"

lemma ReplicationQueueResponse_valid [valid]: "ReplicationQueueResponse_Validate s = None \<longleftrightarrow>
   CollectionMeta_Validate (ct_Collection s) = None \<and>
   each ReplicationQueueOperation_Validate (ct_Items s) = None \<and>
   ReplicationQueueCounts_Validate (ct_Counts s) = None"
  by (simp add: ReplicationQueueResponse_Validate_def)

definition PartEvent_Validate :: "RestPartEvent \<Rightarrow> verr option" where
  "PartEvent_Validate s = fields_of
     [(''durationMs'', UInt64String_Validate (rpe_DurationMs s)),
      (''rows'', UInt64String_Validate (rpe_Rows s)),
      (''bytesCompressed'', UInt64String_Validate (rpe_BytesCompressed s)),
      (''bytesUncompressed'', UInt64String_Validate (rpe_BytesUncompressed s)),
      (''readRows'', if_set UInt64String_Validate (rpe_ReadRows s)),
      (''readBytes'', if_set UInt64String_Validate (rpe_ReadBytes s)),
      (''error'', Int64String_Validate (rpe_Error s))]"

lemma PartEvent_valid [valid]: "PartEvent_Validate s = None \<longleftrightarrow>
   UInt64String_Validate (rpe_DurationMs s) = None \<and> UInt64String_Validate (rpe_Rows s) = None \<and>
   UInt64String_Validate (rpe_BytesCompressed s) = None \<and>
   UInt64String_Validate (rpe_BytesUncompressed s) = None \<and>
   if_set UInt64String_Validate (rpe_ReadRows s) = None \<and>
   if_set UInt64String_Validate (rpe_ReadBytes s) = None \<and> Int64String_Validate (rpe_Error s) = None"
  by (simp add: PartEvent_Validate_def)

definition PartEventCounts_Validate :: "PartEventCounts \<Rightarrow> verr option" where
  "PartEventCounts_Validate s = fields_of
     [(''total'', int_between 0 None (pec_Total s)),
      (''byEventType'', OpenCountMap_Validate (pec_ByEventType s)),
      (''withErrors'', int_between 0 None (pec_WithErrors s))]"

lemma PartEventCounts_valid [valid]: "PartEventCounts_Validate s = None \<longleftrightarrow>
   int_between 0 None (pec_Total s) = None \<and> OpenCountMap_Validate (pec_ByEventType s) = None \<and>
   int_between 0 None (pec_WithErrors s) = None"
  by (simp add: PartEventCounts_Validate_def)

definition PartEventsResponse_Validate :: "((RestPartEvent, PartEventCounts) counted) \<Rightarrow> verr option" where
  "PartEventsResponse_Validate s = fields_of
     [(''collection'', CollectionMeta_Validate (ct_Collection s)),
      (''items'', each PartEvent_Validate (ct_Items s)),
      (''counts'', PartEventCounts_Validate (ct_Counts s))]"

lemma PartEventsResponse_valid [valid]: "PartEventsResponse_Validate s = None \<longleftrightarrow>
   CollectionMeta_Validate (ct_Collection s) = None \<and> each PartEvent_Validate (ct_Items s) = None \<and>
   PartEventCounts_Validate (ct_Counts s) = None"
  by (simp add: PartEventsResponse_Validate_def)

end
