(* ===== verification/TieringValidate.thy ===== *)
theory TieringValidate
  imports RestValidate TieringApi
begin

text \<open>
  The \<open>Validate\<close> methods of the tiering types (\<open>api/rest/oas_validators_gen.go\<close>), built as in \<open>RestValidate\<close>.
\<close>

section \<open>Enumerations\<close>

definition TieringAgeBasis_Validate :: "string \<Rightarrow> verr option" where
  "TieringAgeBasis_Validate s = (if s \<in> {''partitionTime'', ''frontier''} then None else Some (VEnum s))"

definition TieringDecision_Validate :: "string \<Rightarrow> verr option" where
  "TieringDecision_Validate s = (if s \<in> {''none'', ''keep'', ''hold'', ''consolidate'', ''optimize'', ''tier'', ''append''} then None else Some (VEnum s))"

definition TieringInFlightLegSource_Validate :: "string \<Rightarrow> verr option" where
  "TieringInFlightLegSource_Validate s = (if s \<in> {''dispatch'', ''supervised''} then None else Some (VEnum s))"

definition TieringMode_Validate :: "string \<Rightarrow> verr option" where
  "TieringMode_Validate s = (if s \<in> {''off'', ''plan'', ''enforce''} then None else Some (VEnum s))"

definition TieringOptimizeSide_Validate :: "string \<Rightarrow> verr option" where
  "TieringOptimizeSide_Validate s = (if s \<in> {''hot'', ''cold''} then None else Some (VEnum s))"

definition TieringPartitionStatus_Validate :: "string \<Rightarrow> verr option" where
  "TieringPartitionStatus_Validate s = (if s \<in> {''hot'', ''ready'', ''tiered'', ''split'', ''stalled'', ''misconfigured''} then None else Some (VEnum s))"

definition TieringPauseState_Validate :: "string \<Rightarrow> verr option" where
  "TieringPauseState_Validate s = (if s \<in> {''running'', ''stopping'', ''stopped''} then None else Some (VEnum s))"

definition TieringResplitStrategy_Validate :: "string \<Rightarrow> verr option" where
  "TieringResplitStrategy_Validate s = (if s \<in> {''auto'', ''remerge'', ''append'', ''hold''} then None else Some (VEnum s))"

section \<open>Responses\<close>

definition TieringPolicy_Validate :: "TieringPolicy \<Rightarrow> verr option" where
  "TieringPolicy_Validate s = fields_of
     [(''mode'', TieringMode_Validate (tpo_Mode s)),
      (''ageBasis'', TieringAgeBasis_Validate (tpo_AgeBasis s)),
      (''keepLast'', if_set UInt64String_Validate (tpo_KeepLast s)),
      (''optimizeToParts'', UInt64String_Validate (tpo_OptimizeToParts s)),
      (''optimizeOn'', TieringOptimizeSide_Validate (tpo_OptimizeOn s)),
      (''optimizeSkipAboveBytes'', UInt64String_Validate (tpo_OptimizeSkipAboveBytes s)),
      (''resplitStrategy'', TieringResplitStrategy_Validate (tpo_ResplitStrategy s)),
      (''fragmentAbovePartCount'', UInt64String_Validate (tpo_FragmentAbovePartCount s))]"

lemma TieringPolicy_valid [valid]: "TieringPolicy_Validate s = None \<longleftrightarrow>
   TieringMode_Validate (tpo_Mode s) = None \<and> TieringAgeBasis_Validate (tpo_AgeBasis s) = None \<and>
   if_set UInt64String_Validate (tpo_KeepLast s) = None \<and> UInt64String_Validate (tpo_OptimizeToParts s) = None \<and>
   TieringOptimizeSide_Validate (tpo_OptimizeOn s) = None \<and>
   UInt64String_Validate (tpo_OptimizeSkipAboveBytes s) = None \<and>
   TieringResplitStrategy_Validate (tpo_ResplitStrategy s) = None \<and>
   UInt64String_Validate (tpo_FragmentAbovePartCount s) = None"
  by (simp add: TieringPolicy_Validate_def)

definition TieringCondition_Validate :: "TieringCondition \<Rightarrow> verr option" where
  "TieringCondition_Validate s = fields_of
     [(''severity'', Severity_Validate (tcn_Severity s))]"

lemma TieringCondition_valid [valid]: "TieringCondition_Validate s = None \<longleftrightarrow>
   Severity_Validate (tcn_Severity s) = None"
  by (simp add: TieringCondition_Validate_def)

definition TieringDiskPart_Validate :: "(string \<times> string) \<Rightarrow> verr option" where
  "TieringDiskPart_Validate s = fields_of
     [(''parts'', UInt64String_Validate (snd s))]"

lemma TieringDiskPart_valid [valid]: "TieringDiskPart_Validate s = None \<longleftrightarrow>
   UInt64String_Validate (snd s) = None"
  by (simp add: TieringDiskPart_Validate_def)

definition TieringPartition_Validate :: "TieringPartition \<Rightarrow> verr option" where
  "TieringPartition_Validate s = fields_of
     [(''status'', TieringPartitionStatus_Validate (tpn_Status s)),
      (''decision'', TieringDecision_Validate (tpn_Decision s)),
      (''rows'', UInt64String_Validate (tpn_Rows s)),
      (''bytesOnDisk'', UInt64String_Validate (tpn_BytesOnDisk s)),
      (''activeParts'', UInt64String_Validate (tpn_ActiveParts s)),
      (''disks'', each TieringDiskPart_Validate (tpn_Disks s)),
      (''policy'', TieringPolicy_Validate (tpn_Policy s)),
      (''conditions'', each TieringCondition_Validate (tpn_Conditions s)),
      (''effectiveMode'', TieringMode_Validate (tpn_EffectiveMode s))]"

lemma TieringPartition_valid [valid]: "TieringPartition_Validate s = None \<longleftrightarrow>
   TieringPartitionStatus_Validate (tpn_Status s) = None \<and> TieringDecision_Validate (tpn_Decision s) = None \<and>
   UInt64String_Validate (tpn_Rows s) = None \<and> UInt64String_Validate (tpn_BytesOnDisk s) = None \<and>
   UInt64String_Validate (tpn_ActiveParts s) = None \<and> each TieringDiskPart_Validate (tpn_Disks s) = None \<and>
   TieringPolicy_Validate (tpn_Policy s) = None \<and> each TieringCondition_Validate (tpn_Conditions s) = None \<and>
   TieringMode_Validate (tpn_EffectiveMode s) = None"
  by (simp add: TieringPartition_Validate_def)

definition TieringTablePlan_Validate :: "TieringTablePlan \<Rightarrow> verr option" where
  "TieringTablePlan_Validate s = fields_of
     [(''tickDurationMs'', int_between 0 None (ttp_TickDurationMs s)),
      (''partitions'', int_between 0 None (ttp_Partitions s)),
      (''actionable'', int_between 0 None (ttp_Actionable s)),
      (''conditions'', each TieringCondition_Validate (ttp_Conditions s))]"

lemma TieringTablePlan_valid [valid]: "TieringTablePlan_Validate s = None \<longleftrightarrow>
   int_between 0 None (ttp_TickDurationMs s) = None \<and> int_between 0 None (ttp_Partitions s) = None \<and>
   int_between 0 None (ttp_Actionable s) = None \<and> each TieringCondition_Validate (ttp_Conditions s) = None"
  by (simp add: TieringTablePlan_Validate_def)

definition TieringPlanResponse_Validate :: "TieringPlanResponse \<Rightarrow> verr option" where
  "TieringPlanResponse_Validate s = fields_of
     [(''tables'', each TieringTablePlan_Validate (tpr_Tables s)),
      (''items'', each TieringPartition_Validate (tpr_Items s))]"

lemma TieringPlanResponse_valid [valid]: "TieringPlanResponse_Validate s = None \<longleftrightarrow>
   each TieringTablePlan_Validate (tpr_Tables s) = None \<and> each TieringPartition_Validate (tpr_Items s) = None"
  by (simp add: TieringPlanResponse_Validate_def)

definition TieringInFlightLeg_Validate :: "TieringInFlightLeg \<Rightarrow> verr option" where
  "TieringInFlightLeg_Validate s = fields_of
     [(''action'', TieringDecision_Validate (til_Action s)),
      (''bytes'', UInt64String_Validate (til_Bytes s)),
      (''source'', TieringInFlightLegSource_Validate (til_Source s))]"

lemma TieringInFlightLeg_valid [valid]: "TieringInFlightLeg_Validate s = None \<longleftrightarrow>
   TieringDecision_Validate (til_Action s) = None \<and> UInt64String_Validate (til_Bytes s) = None \<and>
   TieringInFlightLegSource_Validate (til_Source s) = None"
  by (simp add: TieringInFlightLeg_Validate_def)

definition TieringStatus_Validate :: "TieringStatus \<Rightarrow> verr option" where
  "TieringStatus_Validate s = fields_of
     [(''mode'', TieringMode_Validate (tst_Mode s)),
      (''pauseState'', TieringPauseState_Validate (tst_PauseState s)),
      (''inFlight'', each TieringInFlightLeg_Validate (tst_InFlight s)),
      (''maxConcurrentPartitions'', int_between 0 None (tst_MaxConcurrentPartitions s)),
      (''maxMovesPerCycle'', int_between 0 None (tst_MaxMovesPerCycle s)),
      (''maxBytesInFlight'', UInt64String_Validate (tst_MaxBytesInFlight s)),
      (''bytesInFlight'', UInt64String_Validate (tst_BytesInFlight s)),
      (''maxBytesPerDay'', UInt64String_Validate (tst_MaxBytesPerDay s)),
      (''bytesMovedToday'', UInt64String_Validate (tst_BytesMovedToday s))]"

lemma TieringStatus_valid [valid]: "TieringStatus_Validate s = None \<longleftrightarrow>
   TieringMode_Validate (tst_Mode s) = None \<and> TieringPauseState_Validate (tst_PauseState s) = None \<and>
   each TieringInFlightLeg_Validate (tst_InFlight s) = None \<and>
   int_between 0 None (tst_MaxConcurrentPartitions s) = None \<and>
   int_between 0 None (tst_MaxMovesPerCycle s) = None \<and> UInt64String_Validate (tst_MaxBytesInFlight s) = None \<and>
   UInt64String_Validate (tst_BytesInFlight s) = None \<and> UInt64String_Validate (tst_MaxBytesPerDay s) = None \<and>
   UInt64String_Validate (tst_BytesMovedToday s) = None"
  by (simp add: TieringStatus_Validate_def)

definition TieringHistoryEntry_Validate :: "TieringHistoryEntry \<Rightarrow> verr option" where
  "TieringHistoryEntry_Validate s = fields_of
     [(''action'', TieringDecision_Validate (the_Action s)),
      (''durationMs'', int_between 0 None (the_DurationMs s)),
      (''bytes'', UInt64String_Validate (the_Bytes s))]"

lemma TieringHistoryEntry_valid [valid]: "TieringHistoryEntry_Validate s = None \<longleftrightarrow>
   TieringDecision_Validate (the_Action s) = None \<and> int_between 0 None (the_DurationMs s) = None \<and>
   UInt64String_Validate (the_Bytes s) = None"
  by (simp add: TieringHistoryEntry_Validate_def)

definition TieringHistoryResponse_Validate :: "(TieringHistoryEntry list) \<Rightarrow> verr option" where
  "TieringHistoryResponse_Validate s = fields_of
     [(''items'', each TieringHistoryEntry_Validate s)]"

lemma TieringHistoryResponse_valid [valid]: "TieringHistoryResponse_Validate s = None \<longleftrightarrow>
   each TieringHistoryEntry_Validate s = None"
  by (simp add: TieringHistoryResponse_Validate_def)

definition TieringApplyResponse_Validate :: "TieringHistoryEntry \<Rightarrow> verr option" where
  "TieringApplyResponse_Validate s = fields_of
     [(''item'', TieringHistoryEntry_Validate s)]"

lemma TieringApplyResponse_valid [valid]: "TieringApplyResponse_Validate s = None \<longleftrightarrow>
   TieringHistoryEntry_Validate s = None"
  by (simp add: TieringApplyResponse_Validate_def)

end
