(* ===== verification/Jx.thy ===== *)
theory Jx
  imports RestMapping
begin

text \<open>
  JSON documents as the generated API writes and reads them (\<open>api/rest/oas_json_gen.go\<close>): the values of a
  document, the reads and writes of the encoder library that the generated code calls, the walk over an object's
  fields with its set of required fields, and the codecs of the scalar, optional and map types. The text of a
  document is not modelled: an encoder yields a document, a decoder reads one. How a time, a URL or a symbolic
  text is rendered and read back is a parameter (\<open>jx_env\<close>).
\<close>

section \<open>Documents\<close>

text \<open>\<open>JText\<close> is a string whose content is a symbolic text, \<open>JRaw\<close> a value known by its text only; \<open>JNum\<close> is
  the number a numeric token denotes.\<close>

datatype jx =
    JNull
  | JBool bool
  | JNum rat
  | JStr string
  | JText gotext
  | JRaw string
  | JArr "jx list"
  | JObj "(string \<times> jx) list"

datatype jerr =
    JWrongType
  | JMissing "string list"
  | JField string jerr
  | JUnexpectedField string
  | JDecode string jerr
  | JAlias jerr

record jx_env =
  jx_time :: "gtime \<Rightarrow> string"
  jx_read_time :: "string \<Rightarrow> gtime option"
  jx_url :: "go_url \<Rightarrow> string"
  jx_read_url :: "string \<Rightarrow> go_url option"
  jx_render :: "gotext \<Rightarrow> string"
  jx_raw :: "jx \<Rightarrow> string"

section \<open>The calls of the encoder library\<close>

text \<open>An infinite or undefined float is written as null.\<close>

definition write_int :: "int \<Rightarrow> jx" where "write_int i = JNum (of_int i)"

definition write_f64 :: "f64 \<Rightarrow> jx" where
  "write_f64 x = (case x of Fin q \<Rightarrow> JNum q | _ \<Rightarrow> JNull)"

definition write_time :: "jx_env \<Rightarrow> gtime \<Rightarrow> jx" where "write_time J t = JStr (jx_time J t)"

definition write_url :: "jx_env \<Rightarrow> go_url \<Rightarrow> jx" where "write_url J u = JStr (jx_url J u)"

definition write_arr :: "('a \<Rightarrow> jx) \<Rightarrow> 'a list \<Rightarrow> jx" where "write_arr f xs = JArr (map f xs)"

definition read_str :: "jx_env \<Rightarrow> jx \<Rightarrow> jerr + string" where
  "read_str J v = (case v of JStr s \<Rightarrow> Inr s | JText t \<Rightarrow> Inr (jx_render J t) | _ \<Rightarrow> Inl JWrongType)"

definition read_text :: "jx_env \<Rightarrow> jx \<Rightarrow> jerr + gotext" where
  "read_text J v = (case v of JStr s \<Rightarrow> Inr (lit s) | JText t \<Rightarrow> Inr t | _ \<Rightarrow> Inl JWrongType)"

definition read_bool :: "jx_env \<Rightarrow> jx \<Rightarrow> jerr + bool" where
  "read_bool J v = (case v of JBool b \<Rightarrow> Inr b | _ \<Rightarrow> Inl JWrongType)"

definition read_int :: "jx_env \<Rightarrow> jx \<Rightarrow> jerr + int" where
  "read_int J v =
     (case v of JNum q \<Rightarrow> (if q = of_int \<lfloor>q\<rfloor> \<and> in_i64 \<lfloor>q\<rfloor> then Inr \<lfloor>q\<rfloor> else Inl JWrongType) | _ \<Rightarrow> Inl JWrongType)"

definition in_i32 :: "int \<Rightarrow> bool" where "in_i32 i \<longleftrightarrow> -2147483648 \<le> i \<and> i \<le> 2147483647"

definition read_int32 :: "jx_env \<Rightarrow> jx \<Rightarrow> jerr + int" where
  "read_int32 J v =
     (case v of JNum q \<Rightarrow> (if q = of_int \<lfloor>q\<rfloor> \<and> in_i32 \<lfloor>q\<rfloor> then Inr \<lfloor>q\<rfloor> else Inl JWrongType) | _ \<Rightarrow> Inl JWrongType)"

definition read_f64 :: "jx_env \<Rightarrow> jx \<Rightarrow> jerr + f64" where
  "read_f64 J v = (case v of JNum q \<Rightarrow> Inr (Fin (f64_round q)) | _ \<Rightarrow> Inl JWrongType)"

definition read_time :: "jx_env \<Rightarrow> jx \<Rightarrow> jerr + gtime" where
  "read_time J v =
     (case read_str J v of
        Inl e \<Rightarrow> Inl e
      | Inr s \<Rightarrow> (case jx_read_time J s of None \<Rightarrow> Inl JWrongType | Some t \<Rightarrow> Inr t))"

definition read_url :: "jx_env \<Rightarrow> jx \<Rightarrow> jerr + go_url" where
  "read_url J v =
     (case read_str J v of
        Inl e \<Rightarrow> Inl e
      | Inr s \<Rightarrow> (case jx_read_url J s of None \<Rightarrow> Inl JWrongType | Some u \<Rightarrow> Inr u))"

definition read_raw :: "jx_env \<Rightarrow> jx \<Rightarrow> jerr + string" where
  "read_raw J v = (case v of JRaw t \<Rightarrow> Inr t | _ \<Rightarrow> Inr (jx_raw J v))"

fun read_list :: "(jx \<Rightarrow> jerr + 'a) \<Rightarrow> jx list \<Rightarrow> jerr + 'a list" where
  "read_list f [] = Inr []"
| "read_list f (v # vs) =
     (case f v of
        Inl e \<Rightarrow> Inl e
      | Inr x \<Rightarrow> (case read_list f vs of Inl e \<Rightarrow> Inl e | Inr xs \<Rightarrow> Inr (x # xs)))"

definition read_arr :: "(jx \<Rightarrow> jerr + 'a) \<Rightarrow> jx \<Rightarrow> jerr + 'a list" where
  "read_arr f v = (case v of JArr vs \<Rightarrow> read_list f vs | _ \<Rightarrow> Inl JWrongType)"

section \<open>Objects\<close>

text \<open>A field that is always written, and one that is written when it is set. The encoder of an optional type
  writes nothing when the value is not set.\<close>

definition field :: "string \<Rightarrow> jx \<Rightarrow> (string \<times> jx) list" where "field k v = [(k, v)]"

definition field_set :: "string \<Rightarrow> jx option \<Rightarrow> (string \<times> jx) list" where
  "field_set k v = (case v of None \<Rightarrow> [] | Some x \<Rightarrow> [(k, x)])"

text \<open>The walk of \<open>ObjBytes\<close>: the first field that fails stops it.\<close>

fun obj_fold :: "(string \<Rightarrow> jx \<Rightarrow> 's \<Rightarrow> jerr + 's) \<Rightarrow> (string \<times> jx) list \<Rightarrow> 's \<Rightarrow> jerr + 's" where
  "obj_fold step [] st = Inr st"
| "obj_fold step ((k, v) # fs) st = (case step k v st of Inl e \<Rightarrow> Inl e | Inr st' \<Rightarrow> obj_fold step fs st')"

definition put_field :: "string \<Rightarrow> ('v \<Rightarrow> 's) \<Rightarrow> jerr + 'v \<Rightarrow> jerr + 's" where
  "put_field k upd r = (case r of Inl e \<Rightarrow> Inl (JField k e) | Inr v \<Rightarrow> Inr (upd v))"

text \<open>The decoder of a struct: the walk over its fields, which also notes the required ones it saw in a bit set
  (the numbers of the bits that are set), then the check that no required field is missing.\<close>

definition dec_obj ::
  "string \<Rightarrow> (string \<Rightarrow> jx \<Rightarrow> 's \<times> nat set \<Rightarrow> jerr + 's \<times> nat set) \<Rightarrow> (nat \<times> string) list \<Rightarrow> 's \<Rightarrow> jx \<Rightarrow> jerr + 's" where
  "dec_obj name step required zero v =
     (case v of
        JObj fs \<Rightarrow>
          (case obj_fold step fs (zero, {}) of
             Inl e \<Rightarrow> Inl (JDecode name e)
           | Inr (s, seen) \<Rightarrow>
               (case filter (\<lambda>(i, n). i \<notin> seen) required of
                  [] \<Rightarrow> Inr s
                | missing \<Rightarrow> Inl (JMissing (map snd missing))))
      | _ \<Rightarrow> Inl (JDecode name JWrongType))"

text \<open>A map type: every field is an entry, and a repeated key overwrites.\<close>

definition dec_map :: "string \<Rightarrow> (jx \<Rightarrow> jerr + 'v) \<Rightarrow> jx \<Rightarrow> jerr + (string, 'v) amap" where
  "dec_map name f v =
     (case v of
        JObj fs \<Rightarrow>
          (case obj_fold (\<lambda>k v m. put_field k (\<lambda>x. amap_put k x m) (f v)) fs [] of
             Inl e \<Rightarrow> Inl (JDecode name e)
           | Inr m \<Rightarrow> Inr m)
      | _ \<Rightarrow> Inl (JDecode name JWrongType))"

definition enc_map :: "('v \<Rightarrow> jx) \<Rightarrow> (string, 'v) amap \<Rightarrow> jx" where
  "enc_map f m = JObj (map (\<lambda>(k, v). (k, f v)) m)"

section \<open>Lemmas\<close>

lemma obj_fold_append [simp]:
  "obj_fold step (fs @ gs) st = (case obj_fold step fs st of Inl e \<Rightarrow> Inl e | Inr st' \<Rightarrow> obj_fold step gs st')"
  by (induction step fs st rule: obj_fold.induct) (auto split: sum.split)

lemma obj_fold_field: "obj_fold step (field k v) st = step k v st"
  by (simp add: field_def split: sum.split)

lemma obj_fold_set:
  "obj_fold step (field_set k v) st = (case v of None \<Rightarrow> Inr st | Some x \<Rightarrow> step k x st)"
  by (simp add: field_set_def split: option.split sum.split)

lemma put_field_Inr [simp]: "put_field k upd (Inr v) = Inr (upd v)"
  by (simp add: put_field_def)

lemma read_list_map:
  "list_all (\<lambda>x. f (g x) = Inr x) xs \<Longrightarrow> read_list f (map g xs) = Inr xs"
  by (induction xs) auto

lemma read_arr_write: "list_all (\<lambda>x. f (g x) = Inr x) xs \<Longrightarrow> read_arr f (write_arr g xs) = Inr xs"
  by (simp add: read_arr_def write_arr_def read_list_map)

named_theorems codec "what a decoder makes of what its encoder wrote"

lemma read_scalars [codec, simp]:
  "read_str J (JStr s) = Inr s"
  "read_text J (JText t) = Inr t"
  "read_bool J (JBool b) = Inr b"
  "in_i64 i \<Longrightarrow> read_int J (write_int i) = Inr i"
  "in_i32 i \<Longrightarrow> read_int32 J (write_int i) = Inr i"
  "read_raw J (JRaw r) = Inr r"
  by (simp_all add: read_str_def read_text_def read_bool_def read_int_def read_int32_def write_int_def read_raw_def)

definition time_ok :: "jx_env \<Rightarrow> gtime \<Rightarrow> bool" where
  "time_ok J t \<longleftrightarrow> jx_read_time J (jx_time J t) = Some t"

definition url_ok :: "jx_env \<Rightarrow> go_url \<Rightarrow> bool" where
  "url_ok J u \<longleftrightarrow> jx_read_url J (jx_url J u) = Some u"

definition f64_ok :: "f64 \<Rightarrow> bool" where
  "f64_ok x \<longleftrightarrow> (case x of Fin q \<Rightarrow> f64_round q = q | _ \<Rightarrow> False)"

lemma read_params [codec, simp]:
  "time_ok J t \<Longrightarrow> read_time J (write_time J t) = Inr t"
  "url_ok J u \<Longrightarrow> read_url J (write_url J u) = Inr u"
  "f64_ok x \<Longrightarrow> read_f64 J (write_f64 x) = Inr x"
  by (simp_all add: read_time_def write_time_def time_ok_def read_url_def write_url_def url_ok_def
      read_f64_def write_f64_def f64_ok_def split: f64.splits)

lemma obj_fold_map:
  assumes "\<forall>(k, v) \<in> set m. f (g v) = Inr v" and "distinct (map fst m)" and "\<forall>k \<in> fst ` set m. map_of acc k = None"
  shows "obj_fold (\<lambda>k v m. put_field k (\<lambda>x. amap_put k x m) (f v)) (map (\<lambda>(k, v). (k, g v)) m) acc = Inr (acc @ m)"
  using assms
proof (induction m arbitrary: acc)
  case (Cons p m)
  obtain k v where p: "p = (k, v)" by (cases p)
  from Cons.prems p have "f (g v) = Inr v" and fresh: "amap_put k v acc = acc @ [(k, v)]"
    by (auto simp: amap_put_fresh)
  moreover have "\<forall>j \<in> fst ` set m. map_of (acc @ [(k, v)]) j = None"
    using Cons.prems p by (auto simp: map_of_eq_None_iff)
  ultimately show ?case using Cons p by auto
qed simp

lemma dec_enc_map:
  assumes "\<forall>(k, v) \<in> set m. f (g v) = Inr v" and "distinct (map fst m)"
  shows "dec_map name f (enc_map g m) = Inr m"
  using obj_fold_map [of m f g "[]"] assms by (simp add: dec_map_def enc_map_def)

end
