(* ===== verification/RestScalars.thy ===== *)
theory RestScalars
  imports Jx
begin

text \<open>
  The codecs of the scalar types of the generated API (\<open>api/rest/oas_json_gen.go\<close>): string types and enumerations
  (whose decoders accept any string; it is \<open>Validate\<close> that refuses an unknown one), optional and nullable types,
  and maps. The encoder of an optional type yields nothing when the value is not set.
\<close>

section \<open>Strings and enumerations\<close>

definition UInt64String_Encode :: "string \<Rightarrow> jx" where
  "UInt64String_Encode s = JStr s"

definition UInt64String_Decode :: "jx_env \<Rightarrow> jx \<Rightarrow> jerr + string" where
  "UInt64String_Decode J v = (case read_str J v of Inl e \<Rightarrow> Inl (JAlias e) | Inr s \<Rightarrow> Inr s)"

definition Int64String_Encode :: "string \<Rightarrow> jx" where
  "Int64String_Encode s = JStr s"

definition Int64String_Decode :: "jx_env \<Rightarrow> jx \<Rightarrow> jerr + string" where
  "Int64String_Decode J v = (case read_str J v of Inl e \<Rightarrow> Inl (JAlias e) | Inr s \<Rightarrow> Inr s)"

definition OperationKind_Encode :: "string \<Rightarrow> jx" where
  "OperationKind_Encode s = JStr s"

definition OperationKind_Decode :: "jx_env \<Rightarrow> jx \<Rightarrow> jerr + string" where
  "OperationKind_Decode J v = read_str J v"

definition Placement_Encode :: "string \<Rightarrow> jx" where
  "Placement_Encode s = JStr s"

definition Placement_Decode :: "jx_env \<Rightarrow> jx \<Rightarrow> jerr + string" where
  "Placement_Decode J v = read_str J v"

definition Severity_Encode :: "string \<Rightarrow> jx" where
  "Severity_Encode s = JStr s"

definition Severity_Decode :: "jx_env \<Rightarrow> jx \<Rightarrow> jerr + string" where
  "Severity_Decode J v = read_str J v"

definition TieringAgeBasis_Encode :: "string \<Rightarrow> jx" where
  "TieringAgeBasis_Encode s = JStr s"

definition TieringAgeBasis_Decode :: "jx_env \<Rightarrow> jx \<Rightarrow> jerr + string" where
  "TieringAgeBasis_Decode J v = read_str J v"

definition TieringDecision_Encode :: "string \<Rightarrow> jx" where
  "TieringDecision_Encode s = JStr s"

definition TieringDecision_Decode :: "jx_env \<Rightarrow> jx \<Rightarrow> jerr + string" where
  "TieringDecision_Decode J v = read_str J v"

definition TieringInFlightLegSource_Encode :: "string \<Rightarrow> jx" where
  "TieringInFlightLegSource_Encode s = JStr s"

definition TieringInFlightLegSource_Decode :: "jx_env \<Rightarrow> jx \<Rightarrow> jerr + string" where
  "TieringInFlightLegSource_Decode J v = read_str J v"

definition TieringMode_Encode :: "string \<Rightarrow> jx" where
  "TieringMode_Encode s = JStr s"

definition TieringMode_Decode :: "jx_env \<Rightarrow> jx \<Rightarrow> jerr + string" where
  "TieringMode_Decode J v = read_str J v"

definition TieringOptimizeSide_Encode :: "string \<Rightarrow> jx" where
  "TieringOptimizeSide_Encode s = JStr s"

definition TieringOptimizeSide_Decode :: "jx_env \<Rightarrow> jx \<Rightarrow> jerr + string" where
  "TieringOptimizeSide_Decode J v = read_str J v"

definition TieringPartitionStatus_Encode :: "string \<Rightarrow> jx" where
  "TieringPartitionStatus_Encode s = JStr s"

definition TieringPartitionStatus_Decode :: "jx_env \<Rightarrow> jx \<Rightarrow> jerr + string" where
  "TieringPartitionStatus_Decode J v = read_str J v"

definition TieringPauseState_Encode :: "string \<Rightarrow> jx" where
  "TieringPauseState_Encode s = JStr s"

definition TieringPauseState_Decode :: "jx_env \<Rightarrow> jx \<Rightarrow> jerr + string" where
  "TieringPauseState_Decode J v = read_str J v"

definition TieringResplitStrategy_Encode :: "string \<Rightarrow> jx" where
  "TieringResplitStrategy_Encode s = JStr s"

definition TieringResplitStrategy_Decode :: "jx_env \<Rightarrow> jx \<Rightarrow> jerr + string" where
  "TieringResplitStrategy_Decode J v = read_str J v"

definition WarningKind_Encode :: "string \<Rightarrow> jx" where
  "WarningKind_Encode s = JStr s"

definition WarningKind_Decode :: "jx_env \<Rightarrow> jx \<Rightarrow> jerr + string" where
  "WarningKind_Decode J v = read_str J v"

lemma string_codecs [codec, simp]:
  "UInt64String_Decode J (UInt64String_Encode s) = Inr s"
  "Int64String_Decode J (Int64String_Encode s) = Inr s"
  "OperationKind_Decode J (OperationKind_Encode s) = Inr s"
  "Placement_Decode J (Placement_Encode s) = Inr s"
  "Severity_Decode J (Severity_Encode s) = Inr s"
  "TieringAgeBasis_Decode J (TieringAgeBasis_Encode s) = Inr s"
  "TieringDecision_Decode J (TieringDecision_Encode s) = Inr s"
  "TieringInFlightLegSource_Decode J (TieringInFlightLegSource_Encode s) = Inr s"
  "TieringMode_Decode J (TieringMode_Encode s) = Inr s"
  "TieringOptimizeSide_Decode J (TieringOptimizeSide_Encode s) = Inr s"
  "TieringPartitionStatus_Decode J (TieringPartitionStatus_Encode s) = Inr s"
  "TieringPauseState_Decode J (TieringPauseState_Encode s) = Inr s"
  "TieringResplitStrategy_Decode J (TieringResplitStrategy_Encode s) = Inr s"
  "WarningKind_Decode J (WarningKind_Encode s) = Inr s"
  by (simp_all add: UInt64String_Encode_def UInt64String_Decode_def Int64String_Encode_def Int64String_Decode_def
    OperationKind_Encode_def OperationKind_Decode_def Placement_Encode_def Placement_Decode_def Severity_Encode_def
    Severity_Decode_def TieringAgeBasis_Encode_def TieringAgeBasis_Decode_def TieringDecision_Encode_def
    TieringDecision_Decode_def TieringInFlightLegSource_Encode_def TieringInFlightLegSource_Decode_def
    TieringMode_Encode_def TieringMode_Decode_def TieringOptimizeSide_Encode_def TieringOptimizeSide_Decode_def
    TieringPartitionStatus_Encode_def TieringPartitionStatus_Decode_def TieringPauseState_Encode_def
    TieringPauseState_Decode_def TieringResplitStrategy_Encode_def TieringResplitStrategy_Decode_def
    WarningKind_Encode_def WarningKind_Decode_def)

section \<open>Optional values\<close>

text \<open>\<open>Reset\<close> and then \<open>Decode\<close>, which sets the value. The optional strings come with the encoder and decoder
  of what they hold: a string or a symbolic text.\<close>

definition OptString_Encode :: "('a \<Rightarrow> jx) \<Rightarrow> 'a option \<Rightarrow> jx option" where
  "OptString_Encode w o' = (case o' of None \<Rightarrow> None | Some x \<Rightarrow> Some (w x))"

definition OptString_Decode :: "(jx \<Rightarrow> jerr + 'a) \<Rightarrow> jx \<Rightarrow> jerr + 'a option" where
  "OptString_Decode r v = (case r v of Inl e \<Rightarrow> Inl e | Inr x \<Rightarrow> Inr (Some x))"

definition OptBool_Encode :: "bool option \<Rightarrow> jx option" where
  "OptBool_Encode o' = (case o' of None \<Rightarrow> None | Some x \<Rightarrow> Some (JBool x))"

definition OptBool_Decode :: "jx_env \<Rightarrow> jx \<Rightarrow> jerr + bool option" where
  "OptBool_Decode J v = (case read_bool J v of Inl e \<Rightarrow> Inl e | Inr x \<Rightarrow> Inr (Some x))"

definition OptInt_Encode :: "int option \<Rightarrow> jx option" where
  "OptInt_Encode o' = (case o' of None \<Rightarrow> None | Some x \<Rightarrow> Some (write_int x))"

definition OptInt_Decode :: "jx_env \<Rightarrow> jx \<Rightarrow> jerr + int option" where
  "OptInt_Decode J v = (case read_int J v of Inl e \<Rightarrow> Inl e | Inr x \<Rightarrow> Inr (Some x))"

definition OptFloat64_Encode :: "f64 option \<Rightarrow> jx option" where
  "OptFloat64_Encode o' = (case o' of None \<Rightarrow> None | Some x \<Rightarrow> Some (write_f64 x))"

definition OptFloat64_Decode :: "jx_env \<Rightarrow> jx \<Rightarrow> jerr + f64 option" where
  "OptFloat64_Decode J v = (case read_f64 J v of Inl e \<Rightarrow> Inl e | Inr x \<Rightarrow> Inr (Some x))"

definition OptDateTime_Encode :: "jx_env \<Rightarrow> gtime option \<Rightarrow> jx option" where
  "OptDateTime_Encode J o' = (case o' of None \<Rightarrow> None | Some x \<Rightarrow> Some (write_time J x))"

definition OptDateTime_Decode :: "jx_env \<Rightarrow> jx \<Rightarrow> jerr + gtime option" where
  "OptDateTime_Decode J v = (case read_time J v of Inl e \<Rightarrow> Inl e | Inr x \<Rightarrow> Inr (Some x))"

definition OptInt64String_Encode :: "string option \<Rightarrow> jx option" where
  "OptInt64String_Encode o' = (case o' of None \<Rightarrow> None | Some x \<Rightarrow> Some (Int64String_Encode x))"

definition OptInt64String_Decode :: "jx_env \<Rightarrow> jx \<Rightarrow> jerr + string option" where
  "OptInt64String_Decode J v = (case Int64String_Decode J v of Inl e \<Rightarrow> Inl e | Inr x \<Rightarrow> Inr (Some x))"

definition OptTieringDecision_Encode :: "string option \<Rightarrow> jx option" where
  "OptTieringDecision_Encode o' = (case o' of None \<Rightarrow> None | Some x \<Rightarrow> Some (TieringDecision_Encode x))"

definition OptTieringDecision_Decode :: "jx_env \<Rightarrow> jx \<Rightarrow> jerr + string option" where
  "OptTieringDecision_Decode J v = (case TieringDecision_Decode J v of Inl e \<Rightarrow> Inl e | Inr x \<Rightarrow> Inr (Some x))"

definition OptUInt64String_Encode :: "string option \<Rightarrow> jx option" where
  "OptUInt64String_Encode o' = (case o' of None \<Rightarrow> None | Some x \<Rightarrow> Some (UInt64String_Encode x))"

definition OptUInt64String_Decode :: "jx_env \<Rightarrow> jx \<Rightarrow> jerr + string option" where
  "OptUInt64String_Decode J v = (case UInt64String_Decode J v of Inl e \<Rightarrow> Inl e | Inr x \<Rightarrow> Inr (Some x))"

section \<open>Nullable values\<close>

definition NilString_Encode :: "('a \<Rightarrow> jx) \<Rightarrow> 'a option \<Rightarrow> jx" where
  "NilString_Encode w o' = (case o' of None \<Rightarrow> JNull | Some x \<Rightarrow> w x)"

definition NilString_Decode :: "(jx \<Rightarrow> jerr + 'a) \<Rightarrow> jx \<Rightarrow> jerr + 'a option" where
  "NilString_Decode r v =
     (if v = JNull then Inr None else case r v of Inl e \<Rightarrow> Inl e | Inr x \<Rightarrow> Inr (Some x))"

definition NilUInt64String_Encode :: "string option \<Rightarrow> jx" where
  "NilUInt64String_Encode o' = (case o' of None \<Rightarrow> JNull | Some x \<Rightarrow> UInt64String_Encode x)"

definition NilUInt64String_Decode :: "jx_env \<Rightarrow> jx \<Rightarrow> jerr + string option" where
  "NilUInt64String_Decode J v =
     (if v = JNull then Inr None else case UInt64String_Decode J v of Inl e \<Rightarrow> Inl e | Inr x \<Rightarrow> Inr (Some x))"

definition OptNilString_Encode :: "string optnil \<Rightarrow> jx option" where
  "OptNilString_Encode o' = (case o' of OptAbsent \<Rightarrow> None | OptNull \<Rightarrow> Some JNull | OptVal x \<Rightarrow> Some (JStr x))"

definition OptNilString_Decode :: "jx_env \<Rightarrow> jx \<Rightarrow> jerr + string optnil" where
  "OptNilString_Decode J v =
     (if v = JNull then Inr OptNull else case read_str J v of Inl e \<Rightarrow> Inl e | Inr x \<Rightarrow> Inr (OptVal x))"

definition OptNilUInt64String_Encode :: "string optnil \<Rightarrow> jx option" where
  "OptNilUInt64String_Encode o' = (case o' of OptAbsent \<Rightarrow> None | OptNull \<Rightarrow> Some JNull | OptVal x \<Rightarrow> Some (UInt64String_Encode x))"

definition OptNilUInt64String_Decode :: "jx_env \<Rightarrow> jx \<Rightarrow> jerr + string optnil" where
  "OptNilUInt64String_Decode J v =
     (if v = JNull then Inr OptNull else case UInt64String_Decode J v of Inl e \<Rightarrow> Inl e | Inr x \<Rightarrow> Inr (OptVal x))"

definition OptNilDateTime_Encode :: "jx_env \<Rightarrow> gtime optnil \<Rightarrow> jx option" where
  "OptNilDateTime_Encode J o' = (case o' of OptAbsent \<Rightarrow> None | OptNull \<Rightarrow> Some JNull | OptVal x \<Rightarrow> Some (write_time J x))"

definition OptNilDateTime_Decode :: "jx_env \<Rightarrow> jx \<Rightarrow> jerr + gtime optnil" where
  "OptNilDateTime_Decode J v =
     (if v = JNull then Inr OptNull else case read_time J v of Inl e \<Rightarrow> Inl e | Inr x \<Rightarrow> Inr (OptVal x))"

named_theorems set_codec "definitions of the optional codecs"

lemmas [set_codec] = OptString_Encode_def OptString_Decode_def OptBool_Encode_def OptBool_Decode_def OptInt_Encode_def
  OptInt_Decode_def OptFloat64_Encode_def OptFloat64_Decode_def OptDateTime_Encode_def OptDateTime_Decode_def
  OptInt64String_Encode_def OptInt64String_Decode_def OptTieringDecision_Encode_def OptTieringDecision_Decode_def
  OptUInt64String_Encode_def OptUInt64String_Decode_def OptNilString_Encode_def OptNilString_Decode_def
  OptNilUInt64String_Encode_def OptNilUInt64String_Decode_def OptNilDateTime_Encode_def OptNilDateTime_Decode_def

lemma nil_codecs [codec, simp]:
  "NilString_Decode (read_str J) (NilString_Encode JStr a) = Inr a"
  "NilString_Decode (read_text J) (NilString_Encode JText t) = Inr t"
  "NilUInt64String_Decode J (NilUInt64String_Encode a) = Inr a"
  by (cases a; cases t; simp add: NilString_Encode_def NilString_Decode_def NilUInt64String_Encode_def
      NilUInt64String_Decode_def UInt64String_Encode_def UInt64String_Decode_def)+

lemma write_not_null [simp]: "write_time J t \<noteq> JNull" "UInt64String_Encode s \<noteq> JNull"
  by (simp_all add: write_time_def UInt64String_Encode_def)

section \<open>Maps\<close>

text \<open>A map is written in the order it is iterated in, which is the order of its list here.\<close>

definition Evidence_Encode :: "(string \<times> string) list \<Rightarrow> jx" where
  "Evidence_Encode m = enc_map JRaw m"

definition Evidence_Decode :: "jx_env \<Rightarrow> jx \<Rightarrow> jerr + (string \<times> string) list" where
  "Evidence_Decode J v = dec_map ''Evidence'' (read_raw J) v"

definition LinkMap_Encode :: "(string \<times> string) list \<Rightarrow> jx" where
  "LinkMap_Encode m = enc_map JStr m"

definition LinkMap_Decode :: "jx_env \<Rightarrow> jx \<Rightarrow> jerr + (string \<times> string) list" where
  "LinkMap_Decode J v = dec_map ''LinkMap'' (read_str J) v"

definition OpenCountMap_Encode :: "(string, int) amap \<Rightarrow> jx" where
  "OpenCountMap_Encode m = enc_map write_int m"

definition OpenCountMap_Decode :: "jx_env \<Rightarrow> jx \<Rightarrow> jerr + (string, int) amap" where
  "OpenCountMap_Decode J v = dec_map ''OpenCountMap'' (read_int J) v"

definition TtlInfo_Encode :: "(string \<times> string) list \<Rightarrow> jx" where
  "TtlInfo_Encode m = enc_map JRaw m"

definition TtlInfo_Decode :: "jx_env \<Rightarrow> jx \<Rightarrow> jerr + (string \<times> string) list" where
  "TtlInfo_Decode J v = dec_map ''TtlInfo'' (read_raw J) v"

definition OpenCountMap_ok :: "(string, int) amap \<Rightarrow> bool" where
  "OpenCountMap_ok m \<longleftrightarrow> amap_ok m \<and> list_all (\<lambda>(k, n). in_i64 n) m"

lemma map_codecs [codec, simp]:
  "amap_ok m \<Longrightarrow> Evidence_Decode J (Evidence_Encode m) = Inr m"
  "amap_ok m \<Longrightarrow> LinkMap_Decode J (LinkMap_Encode m) = Inr m"
  "amap_ok m \<Longrightarrow> TtlInfo_Decode J (TtlInfo_Encode m) = Inr m"
  "OpenCountMap_ok c \<Longrightarrow> OpenCountMap_Decode J (OpenCountMap_Encode c) = Inr c"
  unfolding Evidence_Decode_def Evidence_Encode_def LinkMap_Decode_def LinkMap_Encode_def TtlInfo_Decode_def
    TtlInfo_Encode_def OpenCountMap_Decode_def OpenCountMap_Encode_def OpenCountMap_ok_def
  by (rule dec_enc_map; force simp: list_all_iff)+

lemma list_codecs [codec, simp]:
  "read_arr (read_str J) (write_arr JStr xs) = Inr xs"
  "list_all amap_ok ms \<Longrightarrow> read_arr (TtlInfo_Decode J) (write_arr TtlInfo_Encode ms) = Inr ms"
  by (rule read_arr_write; auto simp: list_all_iff)+

definition OptEvidence_Encode :: "((string \<times> string) list) option \<Rightarrow> jx option" where
  "OptEvidence_Encode o' = (case o' of None \<Rightarrow> None | Some x \<Rightarrow> Some (Evidence_Encode x))"

definition OptEvidence_Decode :: "jx_env \<Rightarrow> jx \<Rightarrow> jerr + ((string \<times> string) list) option" where
  "OptEvidence_Decode J v = (case Evidence_Decode J v of Inl e \<Rightarrow> Inl e | Inr x \<Rightarrow> Inr (Some x))"

definition OptLinkMap_Encode :: "((string \<times> string) list) option \<Rightarrow> jx option" where
  "OptLinkMap_Encode o' = (case o' of None \<Rightarrow> None | Some x \<Rightarrow> Some (LinkMap_Encode x))"

definition OptLinkMap_Decode :: "jx_env \<Rightarrow> jx \<Rightarrow> jerr + ((string \<times> string) list) option" where
  "OptLinkMap_Decode J v = (case LinkMap_Decode J v of Inl e \<Rightarrow> Inl e | Inr x \<Rightarrow> Inr (Some x))"

lemmas [set_codec] = OptEvidence_Encode_def OptEvidence_Decode_def OptLinkMap_Encode_def OptLinkMap_Decode_def

end
