(* ===== verification/TieringCodec.thy ===== *)
theory TieringCodec
  imports RestScalars TieringApi
begin

text \<open>
  Codecs of the tiering types (\<open>api/rest/oas_json_gen.go\<close>), built as in \<open>RestCodec\<close>.
\<close>

section \<open>Plan\<close>

definition TieringHoldDetail_zero :: "TieringHoldDetail" where
  "TieringHoldDetail_zero = \<lparr>thd_Gate = '''', thd_Window = None, thd_LastInsertAt = None, thd_LastChangeAt = None,
     thd_ReleasesAt = None, thd_RetryAt = None, thd_Failures = None\<rparr>"

definition TieringHoldDetail_encodeFields ::
  "jx_env \<Rightarrow> TieringHoldDetail \<Rightarrow> (string \<times> jx) list" where
  "TieringHoldDetail_encodeFields J s =
     field ''gate'' (JStr (thd_Gate s))
     @ field_set ''window'' (OptString_Encode JText (thd_Window s))
     @ field_set ''lastInsertAt'' (OptDateTime_Encode J (thd_LastInsertAt s))
     @ field_set ''lastChangeAt'' (OptDateTime_Encode J (thd_LastChangeAt s))
     @ field_set ''releasesAt'' (OptDateTime_Encode J (thd_ReleasesAt s))
     @ field_set ''retryAt'' (OptDateTime_Encode J (thd_RetryAt s))
     @ field_set ''failures'' (OptInt_Encode (thd_Failures s))"

definition TieringHoldDetail_Encode :: "jx_env \<Rightarrow> TieringHoldDetail \<Rightarrow> jx" where
  "TieringHoldDetail_Encode J s = JObj (TieringHoldDetail_encodeFields J s)"

definition TieringHoldDetail_decodeField ::
  "jx_env \<Rightarrow> string \<Rightarrow> jx \<Rightarrow> TieringHoldDetail \<times> nat set \<Rightarrow> jerr + TieringHoldDetail \<times> nat set" where
  "TieringHoldDetail_decodeField J k v st = (case st of (s, b) \<Rightarrow>
     if k = ''gate'' then put_field k (\<lambda>x. (s\<lparr>thd_Gate := x\<rparr>, insert 0 b)) (read_str J v)
     else if k = ''window'' then put_field k (\<lambda>x. (s\<lparr>thd_Window := x\<rparr>, b)) (OptString_Decode (read_text J) v)
     else if k = ''lastInsertAt'' then put_field k (\<lambda>x. (s\<lparr>thd_LastInsertAt := x\<rparr>, b)) (OptDateTime_Decode J v)
     else if k = ''lastChangeAt'' then put_field k (\<lambda>x. (s\<lparr>thd_LastChangeAt := x\<rparr>, b)) (OptDateTime_Decode J v)
     else if k = ''releasesAt'' then put_field k (\<lambda>x. (s\<lparr>thd_ReleasesAt := x\<rparr>, b)) (OptDateTime_Decode J v)
     else if k = ''retryAt'' then put_field k (\<lambda>x. (s\<lparr>thd_RetryAt := x\<rparr>, b)) (OptDateTime_Decode J v)
     else if k = ''failures'' then put_field k (\<lambda>x. (s\<lparr>thd_Failures := x\<rparr>, b)) (OptInt_Decode J v)
     else Inl (JUnexpectedField k))"

definition TieringHoldDetail_required :: "(nat \<times> string) list" where
  "TieringHoldDetail_required = [(0, ''gate'')]"

definition TieringHoldDetail_Decode :: "jx_env \<Rightarrow> jx \<Rightarrow> jerr + TieringHoldDetail" where
  "TieringHoldDetail_Decode J =
     dec_obj ''TieringHoldDetail'' (TieringHoldDetail_decodeField J) TieringHoldDetail_required TieringHoldDetail_zero"

definition TieringHoldDetail_ok :: "jx_env \<Rightarrow> TieringHoldDetail \<Rightarrow> bool" where
  "TieringHoldDetail_ok J s \<longleftrightarrow> pred_option (time_ok J) (thd_LastInsertAt s) \<and> pred_option (time_ok J) (thd_LastChangeAt s) \<and>
     pred_option (time_ok J) (thd_ReleasesAt s) \<and> pred_option (time_ok J) (thd_RetryAt s) \<and>
     pred_option in_i64 (thd_Failures s)"

lemma TieringHoldDetail_steps:
  "obj_fold (TieringHoldDetail_decodeField J) (field ''gate'' (JStr a0)) (s, b)
     = Inr (s\<lparr>thd_Gate := a0\<rparr>, insert 0 b)"
  by (simp_all add: obj_fold_field TieringHoldDetail_decodeField_def)

lemma TieringHoldDetail_set_steps:
  "thd_Window s = None \<Longrightarrow>
   obj_fold (TieringHoldDetail_decodeField J) (field_set ''window'' (OptString_Encode JText a1)) (s, b)
     = Inr (s\<lparr>thd_Window := a1\<rparr>, b)"
  "thd_LastInsertAt s = None \<Longrightarrow> pred_option (time_ok J) a2 \<Longrightarrow>
   obj_fold (TieringHoldDetail_decodeField J) (field_set ''lastInsertAt'' (OptDateTime_Encode J a2)) (s, b)
     = Inr (s\<lparr>thd_LastInsertAt := a2\<rparr>, b)"
  "thd_LastChangeAt s = None \<Longrightarrow> pred_option (time_ok J) a3 \<Longrightarrow>
   obj_fold (TieringHoldDetail_decodeField J) (field_set ''lastChangeAt'' (OptDateTime_Encode J a3)) (s, b)
     = Inr (s\<lparr>thd_LastChangeAt := a3\<rparr>, b)"
  "thd_ReleasesAt s = None \<Longrightarrow> pred_option (time_ok J) a4 \<Longrightarrow>
   obj_fold (TieringHoldDetail_decodeField J) (field_set ''releasesAt'' (OptDateTime_Encode J a4)) (s, b)
     = Inr (s\<lparr>thd_ReleasesAt := a4\<rparr>, b)"
  "thd_RetryAt s = None \<Longrightarrow> pred_option (time_ok J) a5 \<Longrightarrow>
   obj_fold (TieringHoldDetail_decodeField J) (field_set ''retryAt'' (OptDateTime_Encode J a5)) (s, b)
     = Inr (s\<lparr>thd_RetryAt := a5\<rparr>, b)"
  "thd_Failures s = None \<Longrightarrow> pred_option in_i64 a6 \<Longrightarrow>
   obj_fold (TieringHoldDetail_decodeField J) (field_set ''failures'' (OptInt_Encode a6)) (s, b)
     = Inr (s\<lparr>thd_Failures := a6\<rparr>, b)"
  by (auto simp: obj_fold_set TieringHoldDetail_decodeField_def set_codec split: option.split optnil.split)

lemma TieringHoldDetail_roundtrip [codec]:
  "TieringHoldDetail_ok J x \<Longrightarrow> TieringHoldDetail_Decode J (TieringHoldDetail_Encode J x) = Inr x"
by (cases x) (simp add: TieringHoldDetail_Encode_def TieringHoldDetail_encodeFields_def
    TieringHoldDetail_Decode_def dec_obj_def TieringHoldDetail_steps TieringHoldDetail_set_steps
    TieringHoldDetail_required_def TieringHoldDetail_zero_def TieringHoldDetail_ok_def)

lemma TieringHoldDetail_list [codec]:
  "list_all (TieringHoldDetail_ok J) xs \<Longrightarrow> read_arr (TieringHoldDetail_Decode J) (write_arr (TieringHoldDetail_Encode J) xs) = Inr xs"
  by (rule read_arr_write) (auto simp: codec elim!: list.pred_mono_strong)

definition OptTieringHoldDetail_Encode ::
  "jx_env \<Rightarrow> TieringHoldDetail option \<Rightarrow> jx option" where
  "OptTieringHoldDetail_Encode J o' = (case o' of None \<Rightarrow> None | Some x \<Rightarrow> Some (TieringHoldDetail_Encode J x))"

definition OptTieringHoldDetail_Decode ::
  "jx_env \<Rightarrow> jx \<Rightarrow> jerr + TieringHoldDetail option" where
  "OptTieringHoldDetail_Decode J v = (case TieringHoldDetail_Decode J v of Inl e \<Rightarrow> Inl e | Inr x \<Rightarrow> Inr (Some x))"

lemmas [set_codec] = OptTieringHoldDetail_Encode_def OptTieringHoldDetail_Decode_def

definition TieringPolicy_zero :: "TieringPolicy" where
  "TieringPolicy_zero = \<lparr>tpo_Mode = '''', tpo_AgeBasis = '''', tpo_OlderThan = None, tpo_Field = None, tpo_KeepLast = None,
     tpo_QuietFor = no_text, tpo_TierFrozenAfter = no_text, tpo_TargetDisk = '''', tpo_HotVolume = None,
     tpo_OptimizeToParts = '''', tpo_SkipOptimize = False, tpo_OptimizeOn = '''', tpo_OptimizeSkipAboveBytes = '''',
     tpo_ResplitStrategy = '''', tpo_ResplitQuietFor = no_text, tpo_FragmentAbovePartCount = ''''\<rparr>"

definition TieringPolicy_encodeFields ::
  "jx_env \<Rightarrow> TieringPolicy \<Rightarrow> (string \<times> jx) list" where
  "TieringPolicy_encodeFields J s =
     field ''mode'' (TieringMode_Encode (tpo_Mode s))
     @ field ''ageBasis'' (TieringAgeBasis_Encode (tpo_AgeBasis s))
     @ field_set ''olderThan'' (OptString_Encode JText (tpo_OlderThan s))
     @ field_set ''field'' (OptString_Encode JStr (tpo_Field s))
     @ field_set ''keepLast'' (OptUInt64String_Encode (tpo_KeepLast s))
     @ field ''quietFor'' (JText (tpo_QuietFor s))
     @ field ''tierFrozenAfter'' (JText (tpo_TierFrozenAfter s))
     @ field ''targetDisk'' (JStr (tpo_TargetDisk s))
     @ field_set ''hotVolume'' (OptString_Encode JStr (tpo_HotVolume s))
     @ field ''optimizeToParts'' (UInt64String_Encode (tpo_OptimizeToParts s))
     @ field ''skipOptimize'' (JBool (tpo_SkipOptimize s))
     @ field ''optimizeOn'' (TieringOptimizeSide_Encode (tpo_OptimizeOn s))
     @ field ''optimizeSkipAboveBytes'' (UInt64String_Encode (tpo_OptimizeSkipAboveBytes s))
     @ field ''resplitStrategy'' (TieringResplitStrategy_Encode (tpo_ResplitStrategy s))
     @ field ''resplitQuietFor'' (JText (tpo_ResplitQuietFor s))
     @ field ''fragmentAbovePartCount'' (UInt64String_Encode (tpo_FragmentAbovePartCount s))"

definition TieringPolicy_Encode :: "jx_env \<Rightarrow> TieringPolicy \<Rightarrow> jx" where
  "TieringPolicy_Encode J s = JObj (TieringPolicy_encodeFields J s)"

definition TieringPolicy_decodeField2 ::
  "jx_env \<Rightarrow> string \<Rightarrow> jx \<Rightarrow> TieringPolicy \<times> nat set \<Rightarrow> jerr + TieringPolicy \<times> nat set" where
  "TieringPolicy_decodeField2 J k v st = (case st of (s, b) \<Rightarrow>
     if k = ''resplitStrategy'' then put_field k (\<lambda>x. (s\<lparr>tpo_ResplitStrategy := x\<rparr>, insert 13 b)) (TieringResplitStrategy_Decode J v)
     else if k = ''resplitQuietFor'' then put_field k (\<lambda>x. (s\<lparr>tpo_ResplitQuietFor := x\<rparr>, insert 14 b)) (read_text J v)
     else if k = ''fragmentAbovePartCount'' then put_field k (\<lambda>x. (s\<lparr>tpo_FragmentAbovePartCount := x\<rparr>, insert 15 b)) (UInt64String_Decode J v)
     else Inl (JUnexpectedField k))"

definition TieringPolicy_decodeField ::
  "jx_env \<Rightarrow> string \<Rightarrow> jx \<Rightarrow> TieringPolicy \<times> nat set \<Rightarrow> jerr + TieringPolicy \<times> nat set" where
  "TieringPolicy_decodeField J k v st = (case st of (s, b) \<Rightarrow>
     if k = ''mode'' then put_field k (\<lambda>x. (s\<lparr>tpo_Mode := x\<rparr>, insert 0 b)) (TieringMode_Decode J v)
     else if k = ''ageBasis'' then put_field k (\<lambda>x. (s\<lparr>tpo_AgeBasis := x\<rparr>, insert 1 b)) (TieringAgeBasis_Decode J v)
     else if k = ''olderThan'' then put_field k (\<lambda>x. (s\<lparr>tpo_OlderThan := x\<rparr>, b)) (OptString_Decode (read_text J) v)
     else if k = ''field'' then put_field k (\<lambda>x. (s\<lparr>tpo_Field := x\<rparr>, b)) (OptString_Decode (read_str J) v)
     else if k = ''keepLast'' then put_field k (\<lambda>x. (s\<lparr>tpo_KeepLast := x\<rparr>, b)) (OptUInt64String_Decode J v)
     else if k = ''quietFor'' then put_field k (\<lambda>x. (s\<lparr>tpo_QuietFor := x\<rparr>, insert 5 b)) (read_text J v)
     else if k = ''tierFrozenAfter'' then put_field k (\<lambda>x. (s\<lparr>tpo_TierFrozenAfter := x\<rparr>, insert 6 b)) (read_text J v)
     else if k = ''targetDisk'' then put_field k (\<lambda>x. (s\<lparr>tpo_TargetDisk := x\<rparr>, insert 7 b)) (read_str J v)
     else if k = ''hotVolume'' then put_field k (\<lambda>x. (s\<lparr>tpo_HotVolume := x\<rparr>, b)) (OptString_Decode (read_str J) v)
     else if k = ''optimizeToParts'' then put_field k (\<lambda>x. (s\<lparr>tpo_OptimizeToParts := x\<rparr>, insert 9 b)) (UInt64String_Decode J v)
     else if k = ''skipOptimize'' then put_field k (\<lambda>x. (s\<lparr>tpo_SkipOptimize := x\<rparr>, insert 10 b)) (read_bool J v)
     else if k = ''optimizeOn'' then put_field k (\<lambda>x. (s\<lparr>tpo_OptimizeOn := x\<rparr>, insert 11 b)) (TieringOptimizeSide_Decode J v)
     else if k = ''optimizeSkipAboveBytes'' then put_field k (\<lambda>x. (s\<lparr>tpo_OptimizeSkipAboveBytes := x\<rparr>, insert 12 b)) (UInt64String_Decode J v)
     else TieringPolicy_decodeField2 J k v (s, b))"

definition TieringPolicy_required :: "(nat \<times> string) list" where
  "TieringPolicy_required = [(0, ''mode''), (1, ''ageBasis''), (5, ''quietFor''), (6, ''tierFrozenAfter''), (7, ''targetDisk''), (9,
    ''optimizeToParts''), (10, ''skipOptimize''), (11, ''optimizeOn''), (12, ''optimizeSkipAboveBytes''), (13,
    ''resplitStrategy''), (14, ''resplitQuietFor''), (15, ''fragmentAbovePartCount'')]"

definition TieringPolicy_Decode :: "jx_env \<Rightarrow> jx \<Rightarrow> jerr + TieringPolicy" where
  "TieringPolicy_Decode J =
     dec_obj ''TieringPolicy'' (TieringPolicy_decodeField J) TieringPolicy_required TieringPolicy_zero"

lemma TieringPolicy_steps:
  "obj_fold (TieringPolicy_decodeField J) (field ''mode'' (TieringMode_Encode a0)) (s, b)
     = Inr (s\<lparr>tpo_Mode := a0\<rparr>, insert 0 b)"
  "obj_fold (TieringPolicy_decodeField J) (field ''ageBasis'' (TieringAgeBasis_Encode a1)) (s, b)
     = Inr (s\<lparr>tpo_AgeBasis := a1\<rparr>, insert 1 b)"
  "obj_fold (TieringPolicy_decodeField J) (field ''quietFor'' (JText a5)) (s, b)
     = Inr (s\<lparr>tpo_QuietFor := a5\<rparr>, insert 5 b)"
  "obj_fold (TieringPolicy_decodeField J) (field ''tierFrozenAfter'' (JText a6)) (s, b)
     = Inr (s\<lparr>tpo_TierFrozenAfter := a6\<rparr>, insert 6 b)"
  "obj_fold (TieringPolicy_decodeField J) (field ''targetDisk'' (JStr a7)) (s, b)
     = Inr (s\<lparr>tpo_TargetDisk := a7\<rparr>, insert 7 b)"
  "obj_fold (TieringPolicy_decodeField J) (field ''optimizeToParts'' (UInt64String_Encode a9)) (s, b)
     = Inr (s\<lparr>tpo_OptimizeToParts := a9\<rparr>, insert 9 b)"
  "obj_fold (TieringPolicy_decodeField J) (field ''skipOptimize'' (JBool a10)) (s, b)
     = Inr (s\<lparr>tpo_SkipOptimize := a10\<rparr>, insert 10 b)"
  "obj_fold (TieringPolicy_decodeField J) (field ''optimizeOn'' (TieringOptimizeSide_Encode a11)) (s, b)
     = Inr (s\<lparr>tpo_OptimizeOn := a11\<rparr>, insert 11 b)"
  "obj_fold (TieringPolicy_decodeField J) (field ''optimizeSkipAboveBytes'' (UInt64String_Encode a12)) (s, b)
     = Inr (s\<lparr>tpo_OptimizeSkipAboveBytes := a12\<rparr>, insert 12 b)"
  "obj_fold (TieringPolicy_decodeField J) (field ''resplitStrategy'' (TieringResplitStrategy_Encode a13)) (s, b)
     = Inr (s\<lparr>tpo_ResplitStrategy := a13\<rparr>, insert 13 b)"
  "obj_fold (TieringPolicy_decodeField J) (field ''resplitQuietFor'' (JText a14)) (s, b)
     = Inr (s\<lparr>tpo_ResplitQuietFor := a14\<rparr>, insert 14 b)"
  "obj_fold (TieringPolicy_decodeField J) (field ''fragmentAbovePartCount'' (UInt64String_Encode a15)) (s, b)
     = Inr (s\<lparr>tpo_FragmentAbovePartCount := a15\<rparr>, insert 15 b)"
  by (simp_all add: obj_fold_field TieringPolicy_decodeField_def TieringPolicy_decodeField2_def)

lemma TieringPolicy_set_steps:
  "tpo_OlderThan s = None \<Longrightarrow>
   obj_fold (TieringPolicy_decodeField J) (field_set ''olderThan'' (OptString_Encode JText a2)) (s, b)
     = Inr (s\<lparr>tpo_OlderThan := a2\<rparr>, b)"
  "tpo_Field s = None \<Longrightarrow>
   obj_fold (TieringPolicy_decodeField J) (field_set ''field'' (OptString_Encode JStr a3)) (s, b)
     = Inr (s\<lparr>tpo_Field := a3\<rparr>, b)"
  "tpo_KeepLast s = None \<Longrightarrow>
   obj_fold (TieringPolicy_decodeField J) (field_set ''keepLast'' (OptUInt64String_Encode a4)) (s, b)
     = Inr (s\<lparr>tpo_KeepLast := a4\<rparr>, b)"
  "tpo_HotVolume s = None \<Longrightarrow>
   obj_fold (TieringPolicy_decodeField J) (field_set ''hotVolume'' (OptString_Encode JStr a8)) (s, b)
     = Inr (s\<lparr>tpo_HotVolume := a8\<rparr>, b)"
by (auto simp: obj_fold_set TieringPolicy_decodeField_def TieringPolicy_decodeField2_def set_codec split:
    option.split optnil.split)

lemma TieringPolicy_roundtrip [codec]: "TieringPolicy_Decode J (TieringPolicy_Encode J x) = Inr x"
by (cases x) (simp add: TieringPolicy_Encode_def TieringPolicy_encodeFields_def TieringPolicy_Decode_def
    dec_obj_def TieringPolicy_steps TieringPolicy_set_steps TieringPolicy_required_def TieringPolicy_zero_def)

lemma TieringPolicy_list [codec]: "read_arr (TieringPolicy_Decode J) (write_arr (TieringPolicy_Encode J) xs) = Inr xs"
  by (rule read_arr_write) (simp add: codec list.pred_True)

definition TieringCondition_zero :: "TieringCondition" where
  "TieringCondition_zero = \<lparr>tcn_Severity = '''', tcn_Code = '''', tcn_Message = no_text, tcn_ObservedAt = zero_time,
     tcn_NodeId = None, tcn_Database = None, tcn_Table = None, tcn_Partition = None, tcn_PartitionId = None\<rparr>"

definition TieringCondition_encodeFields ::
  "jx_env \<Rightarrow> TieringCondition \<Rightarrow> (string \<times> jx) list" where
  "TieringCondition_encodeFields J s =
     field ''severity'' (Severity_Encode (tcn_Severity s))
     @ field ''code'' (JStr (tcn_Code s))
     @ field ''message'' (JText (tcn_Message s))
     @ field ''observedAt'' (write_time J (tcn_ObservedAt s))
     @ field_set ''nodeId'' (OptString_Encode JStr (tcn_NodeId s))
     @ field_set ''database'' (OptString_Encode JStr (tcn_Database s))
     @ field_set ''table'' (OptString_Encode JStr (tcn_Table s))
     @ field_set ''partition'' (OptString_Encode JStr (tcn_Partition s))
     @ field_set ''partitionId'' (OptString_Encode JStr (tcn_PartitionId s))"

definition TieringCondition_Encode :: "jx_env \<Rightarrow> TieringCondition \<Rightarrow> jx" where
  "TieringCondition_Encode J s = JObj (TieringCondition_encodeFields J s)"

definition TieringCondition_decodeField ::
  "jx_env \<Rightarrow> string \<Rightarrow> jx \<Rightarrow> TieringCondition \<times> nat set \<Rightarrow> jerr + TieringCondition \<times> nat set" where
  "TieringCondition_decodeField J k v st = (case st of (s, b) \<Rightarrow>
     if k = ''severity'' then put_field k (\<lambda>x. (s\<lparr>tcn_Severity := x\<rparr>, insert 0 b)) (Severity_Decode J v)
     else if k = ''code'' then put_field k (\<lambda>x. (s\<lparr>tcn_Code := x\<rparr>, insert 1 b)) (read_str J v)
     else if k = ''message'' then put_field k (\<lambda>x. (s\<lparr>tcn_Message := x\<rparr>, insert 2 b)) (read_text J v)
     else if k = ''observedAt'' then put_field k (\<lambda>x. (s\<lparr>tcn_ObservedAt := x\<rparr>, insert 3 b)) (read_time J v)
     else if k = ''nodeId'' then put_field k (\<lambda>x. (s\<lparr>tcn_NodeId := x\<rparr>, b)) (OptString_Decode (read_str J) v)
     else if k = ''database'' then put_field k (\<lambda>x. (s\<lparr>tcn_Database := x\<rparr>, b)) (OptString_Decode (read_str J) v)
     else if k = ''table'' then put_field k (\<lambda>x. (s\<lparr>tcn_Table := x\<rparr>, b)) (OptString_Decode (read_str J) v)
     else if k = ''partition'' then put_field k (\<lambda>x. (s\<lparr>tcn_Partition := x\<rparr>, b)) (OptString_Decode (read_str J) v)
     else if k = ''partitionId'' then put_field k (\<lambda>x. (s\<lparr>tcn_PartitionId := x\<rparr>, b)) (OptString_Decode (read_str J) v)
     else Inl (JUnexpectedField k))"

definition TieringCondition_required :: "(nat \<times> string) list" where
  "TieringCondition_required = [(0, ''severity''), (1, ''code''), (2, ''message''), (3, ''observedAt'')]"

definition TieringCondition_Decode :: "jx_env \<Rightarrow> jx \<Rightarrow> jerr + TieringCondition" where
  "TieringCondition_Decode J =
     dec_obj ''TieringCondition'' (TieringCondition_decodeField J) TieringCondition_required TieringCondition_zero"

definition TieringCondition_ok :: "jx_env \<Rightarrow> TieringCondition \<Rightarrow> bool" where
  "TieringCondition_ok J s \<longleftrightarrow> time_ok J (tcn_ObservedAt s)"

lemma TieringCondition_steps:
  "obj_fold (TieringCondition_decodeField J) (field ''severity'' (Severity_Encode a0)) (s, b)
     = Inr (s\<lparr>tcn_Severity := a0\<rparr>, insert 0 b)"
  "obj_fold (TieringCondition_decodeField J) (field ''code'' (JStr a1)) (s, b)
     = Inr (s\<lparr>tcn_Code := a1\<rparr>, insert 1 b)"
  "obj_fold (TieringCondition_decodeField J) (field ''message'' (JText a2)) (s, b)
     = Inr (s\<lparr>tcn_Message := a2\<rparr>, insert 2 b)"
  "time_ok J a3 \<Longrightarrow>
   obj_fold (TieringCondition_decodeField J) (field ''observedAt'' (write_time J a3)) (s, b)
     = Inr (s\<lparr>tcn_ObservedAt := a3\<rparr>, insert 3 b)"
  by (simp_all add: obj_fold_field TieringCondition_decodeField_def)

lemma TieringCondition_set_steps:
  "tcn_NodeId s = None \<Longrightarrow>
   obj_fold (TieringCondition_decodeField J) (field_set ''nodeId'' (OptString_Encode JStr a4)) (s, b)
     = Inr (s\<lparr>tcn_NodeId := a4\<rparr>, b)"
  "tcn_Database s = None \<Longrightarrow>
   obj_fold (TieringCondition_decodeField J) (field_set ''database'' (OptString_Encode JStr a5)) (s, b)
     = Inr (s\<lparr>tcn_Database := a5\<rparr>, b)"
  "tcn_Table s = None \<Longrightarrow>
   obj_fold (TieringCondition_decodeField J) (field_set ''table'' (OptString_Encode JStr a6)) (s, b)
     = Inr (s\<lparr>tcn_Table := a6\<rparr>, b)"
  "tcn_Partition s = None \<Longrightarrow>
   obj_fold (TieringCondition_decodeField J) (field_set ''partition'' (OptString_Encode JStr a7)) (s, b)
     = Inr (s\<lparr>tcn_Partition := a7\<rparr>, b)"
  "tcn_PartitionId s = None \<Longrightarrow>
   obj_fold (TieringCondition_decodeField J) (field_set ''partitionId'' (OptString_Encode JStr a8)) (s, b)
     = Inr (s\<lparr>tcn_PartitionId := a8\<rparr>, b)"
  by (auto simp: obj_fold_set TieringCondition_decodeField_def set_codec split: option.split optnil.split)

lemma TieringCondition_roundtrip [codec]:
  "TieringCondition_ok J x \<Longrightarrow> TieringCondition_Decode J (TieringCondition_Encode J x) = Inr x"
by (cases x) (simp add: TieringCondition_Encode_def TieringCondition_encodeFields_def
    TieringCondition_Decode_def dec_obj_def TieringCondition_steps TieringCondition_set_steps
    TieringCondition_required_def TieringCondition_zero_def TieringCondition_ok_def)

lemma TieringCondition_list [codec]:
  "list_all (TieringCondition_ok J) xs \<Longrightarrow> read_arr (TieringCondition_Decode J) (write_arr (TieringCondition_Encode J) xs) = Inr xs"
  by (rule read_arr_write) (auto simp: codec elim!: list.pred_mono_strong)

definition TieringDiskPart_zero :: "string \<times> string" where
  "TieringDiskPart_zero = ('''', '''')"

definition TieringDiskPart_encodeFields ::
  "jx_env \<Rightarrow> (string \<times> string) \<Rightarrow> (string \<times> jx) list" where
  "TieringDiskPart_encodeFields J s =
     field ''disk'' (JStr (fst s))
     @ field ''parts'' (UInt64String_Encode (snd s))"

definition TieringDiskPart_Encode :: "jx_env \<Rightarrow> (string \<times> string) \<Rightarrow> jx" where
  "TieringDiskPart_Encode J s = JObj (TieringDiskPart_encodeFields J s)"

definition TieringDiskPart_decodeField ::
  "jx_env \<Rightarrow> string \<Rightarrow> jx \<Rightarrow> (string \<times> string) \<times> nat set \<Rightarrow> jerr + (string \<times> string) \<times> nat set" where
  "TieringDiskPart_decodeField J k v st = (case st of (s, b) \<Rightarrow>
     if k = ''disk'' then put_field k (\<lambda>x. ((x, snd s), insert 0 b)) (read_str J v)
     else if k = ''parts'' then put_field k (\<lambda>x. ((fst s, x), insert 1 b)) (UInt64String_Decode J v)
     else Inl (JUnexpectedField k))"

definition TieringDiskPart_required :: "(nat \<times> string) list" where
  "TieringDiskPart_required = [(0, ''disk''), (1, ''parts'')]"

definition TieringDiskPart_Decode :: "jx_env \<Rightarrow> jx \<Rightarrow> jerr + (string \<times> string)" where
  "TieringDiskPart_Decode J =
     dec_obj ''TieringDiskPart'' (TieringDiskPart_decodeField J) TieringDiskPart_required TieringDiskPart_zero"

lemma TieringDiskPart_steps:
  "obj_fold (TieringDiskPart_decodeField J) (field ''disk'' (JStr a0)) (s, b) = Inr ((a0, snd s), insert 0 b)"
  "obj_fold (TieringDiskPart_decodeField J) (field ''parts'' (UInt64String_Encode a1)) (s, b)
     = Inr ((fst s, a1), insert 1 b)"
  by (simp_all add: obj_fold_field TieringDiskPart_decodeField_def)

lemma TieringDiskPart_roundtrip [codec]: "TieringDiskPart_Decode J (TieringDiskPart_Encode J x) = Inr x"
by (cases x) (simp add: TieringDiskPart_Encode_def TieringDiskPart_encodeFields_def TieringDiskPart_Decode_def
    dec_obj_def TieringDiskPart_steps TieringDiskPart_required_def TieringDiskPart_zero_def)

lemma TieringDiskPart_list [codec]:
  "read_arr (TieringDiskPart_Decode J) (write_arr (TieringDiskPart_Encode J) xs) = Inr xs"
  by (rule read_arr_write) (simp add: codec list.pred_True)

definition TieringPartition_zero :: "TieringPartition" where
  "TieringPartition_zero = \<lparr>tpn_NodeId = '''', tpn_Shard = '''', tpn_Replica = '''', tpn_Database = '''', tpn_Table = '''',
     tpn_Partition = '''', tpn_PartitionId = '''', tpn_Status = '''', tpn_Decision = '''', tpn_Reason = no_text,
     tpn_Rows = '''', tpn_BytesOnDisk = '''', tpn_ActiveParts = '''', tpn_Disks = [], tpn_TargetDisk = '''',
     tpn_HotVolume = None, tpn_Policy = TieringPolicy_zero, tpn_Conditions = [], tpn_Hold = None,
     tpn_StateToken = '''', tpn_ReconciledAt = zero_time, tpn_EffectiveMode = ''''\<rparr>"

definition TieringPartition_encodeFields ::
  "jx_env \<Rightarrow> TieringPartition \<Rightarrow> (string \<times> jx) list" where
  "TieringPartition_encodeFields J s =
     field ''nodeId'' (JStr (tpn_NodeId s))
     @ field ''shard'' (JStr (tpn_Shard s))
     @ field ''replica'' (JStr (tpn_Replica s))
     @ field ''database'' (JStr (tpn_Database s))
     @ field ''table'' (JStr (tpn_Table s))
     @ field ''partition'' (JStr (tpn_Partition s))
     @ field ''partitionId'' (JStr (tpn_PartitionId s))
     @ field ''status'' (TieringPartitionStatus_Encode (tpn_Status s))
     @ field ''decision'' (TieringDecision_Encode (tpn_Decision s))
     @ field ''reason'' (JText (tpn_Reason s))
     @ field ''rows'' (UInt64String_Encode (tpn_Rows s))
     @ field ''bytesOnDisk'' (UInt64String_Encode (tpn_BytesOnDisk s))
     @ field ''activeParts'' (UInt64String_Encode (tpn_ActiveParts s))
     @ field ''disks'' (write_arr (TieringDiskPart_Encode J) (tpn_Disks s))
     @ field ''targetDisk'' (JStr (tpn_TargetDisk s))
     @ field_set ''hotVolume'' (OptString_Encode JStr (tpn_HotVolume s))
     @ field ''policy'' (TieringPolicy_Encode J (tpn_Policy s))
     @ field ''conditions'' (write_arr (TieringCondition_Encode J) (tpn_Conditions s))
     @ field_set ''hold'' (OptTieringHoldDetail_Encode J (tpn_Hold s))
     @ field ''stateToken'' (JStr (tpn_StateToken s))
     @ field ''reconciledAt'' (write_time J (tpn_ReconciledAt s))
     @ field ''effectiveMode'' (TieringMode_Encode (tpn_EffectiveMode s))"

definition TieringPartition_Encode :: "jx_env \<Rightarrow> TieringPartition \<Rightarrow> jx" where
  "TieringPartition_Encode J s = JObj (TieringPartition_encodeFields J s)"

definition TieringPartition_decodeField2 ::
  "jx_env \<Rightarrow> string \<Rightarrow> jx \<Rightarrow> TieringPartition \<times> nat set \<Rightarrow> jerr + TieringPartition \<times> nat set" where
  "TieringPartition_decodeField2 J k v st = (case st of (s, b) \<Rightarrow>
     if k = ''disks'' then put_field k (\<lambda>x. (s\<lparr>tpn_Disks := x\<rparr>, insert 13 b)) (read_arr (TieringDiskPart_Decode J) v)
     else if k = ''targetDisk'' then put_field k (\<lambda>x. (s\<lparr>tpn_TargetDisk := x\<rparr>, insert 14 b)) (read_str J v)
     else if k = ''hotVolume'' then put_field k (\<lambda>x. (s\<lparr>tpn_HotVolume := x\<rparr>, b)) (OptString_Decode (read_str J) v)
     else if k = ''policy'' then put_field k (\<lambda>x. (s\<lparr>tpn_Policy := x\<rparr>, insert 16 b)) (TieringPolicy_Decode J v)
     else if k = ''conditions'' then put_field k (\<lambda>x. (s\<lparr>tpn_Conditions := x\<rparr>, insert 17 b)) (read_arr (TieringCondition_Decode J) v)
     else if k = ''hold'' then put_field k (\<lambda>x. (s\<lparr>tpn_Hold := x\<rparr>, b)) (OptTieringHoldDetail_Decode J v)
     else if k = ''stateToken'' then put_field k (\<lambda>x. (s\<lparr>tpn_StateToken := x\<rparr>, insert 19 b)) (read_str J v)
     else if k = ''reconciledAt'' then put_field k (\<lambda>x. (s\<lparr>tpn_ReconciledAt := x\<rparr>, insert 20 b)) (read_time J v)
     else if k = ''effectiveMode'' then put_field k (\<lambda>x. (s\<lparr>tpn_EffectiveMode := x\<rparr>, insert 21 b)) (TieringMode_Decode J v)
     else Inl (JUnexpectedField k))"

definition TieringPartition_decodeField ::
  "jx_env \<Rightarrow> string \<Rightarrow> jx \<Rightarrow> TieringPartition \<times> nat set \<Rightarrow> jerr + TieringPartition \<times> nat set" where
  "TieringPartition_decodeField J k v st = (case st of (s, b) \<Rightarrow>
     if k = ''nodeId'' then put_field k (\<lambda>x. (s\<lparr>tpn_NodeId := x\<rparr>, insert 0 b)) (read_str J v)
     else if k = ''shard'' then put_field k (\<lambda>x. (s\<lparr>tpn_Shard := x\<rparr>, insert 1 b)) (read_str J v)
     else if k = ''replica'' then put_field k (\<lambda>x. (s\<lparr>tpn_Replica := x\<rparr>, insert 2 b)) (read_str J v)
     else if k = ''database'' then put_field k (\<lambda>x. (s\<lparr>tpn_Database := x\<rparr>, insert 3 b)) (read_str J v)
     else if k = ''table'' then put_field k (\<lambda>x. (s\<lparr>tpn_Table := x\<rparr>, insert 4 b)) (read_str J v)
     else if k = ''partition'' then put_field k (\<lambda>x. (s\<lparr>tpn_Partition := x\<rparr>, insert 5 b)) (read_str J v)
     else if k = ''partitionId'' then put_field k (\<lambda>x. (s\<lparr>tpn_PartitionId := x\<rparr>, insert 6 b)) (read_str J v)
     else if k = ''status'' then put_field k (\<lambda>x. (s\<lparr>tpn_Status := x\<rparr>, insert 7 b)) (TieringPartitionStatus_Decode J v)
     else if k = ''decision'' then put_field k (\<lambda>x. (s\<lparr>tpn_Decision := x\<rparr>, insert 8 b)) (TieringDecision_Decode J v)
     else if k = ''reason'' then put_field k (\<lambda>x. (s\<lparr>tpn_Reason := x\<rparr>, insert 9 b)) (read_text J v)
     else if k = ''rows'' then put_field k (\<lambda>x. (s\<lparr>tpn_Rows := x\<rparr>, insert 10 b)) (UInt64String_Decode J v)
     else if k = ''bytesOnDisk'' then put_field k (\<lambda>x. (s\<lparr>tpn_BytesOnDisk := x\<rparr>, insert 11 b)) (UInt64String_Decode J v)
     else if k = ''activeParts'' then put_field k (\<lambda>x. (s\<lparr>tpn_ActiveParts := x\<rparr>, insert 12 b)) (UInt64String_Decode J v)
     else TieringPartition_decodeField2 J k v (s, b))"

definition TieringPartition_required :: "(nat \<times> string) list" where
  "TieringPartition_required = [(0, ''nodeId''), (1, ''shard''), (2, ''replica''), (3, ''database''), (4, ''table''), (5, ''partition''), (6,
    ''partitionId''), (7, ''status''), (8, ''decision''), (9, ''reason''), (10, ''rows''), (11, ''bytesOnDisk''),
    (12, ''activeParts''), (13, ''disks''), (14, ''targetDisk''), (16, ''policy''), (17, ''conditions''), (19,
    ''stateToken''), (20, ''reconciledAt''), (21, ''effectiveMode'')]"

definition TieringPartition_Decode :: "jx_env \<Rightarrow> jx \<Rightarrow> jerr + TieringPartition" where
  "TieringPartition_Decode J =
     dec_obj ''TieringPartition'' (TieringPartition_decodeField J) TieringPartition_required TieringPartition_zero"

definition TieringPartition_ok :: "jx_env \<Rightarrow> TieringPartition \<Rightarrow> bool" where
  "TieringPartition_ok J s \<longleftrightarrow> list_all (TieringCondition_ok J) (tpn_Conditions s) \<and> pred_option (TieringHoldDetail_ok J) (tpn_Hold s) \<and>
     time_ok J (tpn_ReconciledAt s)"

lemma TieringPartition_steps:
  "obj_fold (TieringPartition_decodeField J) (field ''nodeId'' (JStr a0)) (s, b)
     = Inr (s\<lparr>tpn_NodeId := a0\<rparr>, insert 0 b)"
  "obj_fold (TieringPartition_decodeField J) (field ''shard'' (JStr a1)) (s, b)
     = Inr (s\<lparr>tpn_Shard := a1\<rparr>, insert 1 b)"
  "obj_fold (TieringPartition_decodeField J) (field ''replica'' (JStr a2)) (s, b)
     = Inr (s\<lparr>tpn_Replica := a2\<rparr>, insert 2 b)"
  "obj_fold (TieringPartition_decodeField J) (field ''database'' (JStr a3)) (s, b)
     = Inr (s\<lparr>tpn_Database := a3\<rparr>, insert 3 b)"
  "obj_fold (TieringPartition_decodeField J) (field ''table'' (JStr a4)) (s, b)
     = Inr (s\<lparr>tpn_Table := a4\<rparr>, insert 4 b)"
  "obj_fold (TieringPartition_decodeField J) (field ''partition'' (JStr a5)) (s, b)
     = Inr (s\<lparr>tpn_Partition := a5\<rparr>, insert 5 b)"
  "obj_fold (TieringPartition_decodeField J) (field ''partitionId'' (JStr a6)) (s, b)
     = Inr (s\<lparr>tpn_PartitionId := a6\<rparr>, insert 6 b)"
  "obj_fold (TieringPartition_decodeField J) (field ''status'' (TieringPartitionStatus_Encode a7)) (s, b)
     = Inr (s\<lparr>tpn_Status := a7\<rparr>, insert 7 b)"
  "obj_fold (TieringPartition_decodeField J) (field ''decision'' (TieringDecision_Encode a8)) (s, b)
     = Inr (s\<lparr>tpn_Decision := a8\<rparr>, insert 8 b)"
  "obj_fold (TieringPartition_decodeField J) (field ''reason'' (JText a9)) (s, b)
     = Inr (s\<lparr>tpn_Reason := a9\<rparr>, insert 9 b)"
  "obj_fold (TieringPartition_decodeField J) (field ''rows'' (UInt64String_Encode a10)) (s, b)
     = Inr (s\<lparr>tpn_Rows := a10\<rparr>, insert 10 b)"
  "obj_fold (TieringPartition_decodeField J) (field ''bytesOnDisk'' (UInt64String_Encode a11)) (s, b)
     = Inr (s\<lparr>tpn_BytesOnDisk := a11\<rparr>, insert 11 b)"
  "obj_fold (TieringPartition_decodeField J) (field ''activeParts'' (UInt64String_Encode a12)) (s, b)
     = Inr (s\<lparr>tpn_ActiveParts := a12\<rparr>, insert 12 b)"
  "obj_fold (TieringPartition_decodeField J) (field ''disks'' (write_arr (TieringDiskPart_Encode J) a13)) (s, b)
     = Inr (s\<lparr>tpn_Disks := a13\<rparr>, insert 13 b)"
  "obj_fold (TieringPartition_decodeField J) (field ''targetDisk'' (JStr a14)) (s, b)
     = Inr (s\<lparr>tpn_TargetDisk := a14\<rparr>, insert 14 b)"
  "obj_fold (TieringPartition_decodeField J) (field ''policy'' (TieringPolicy_Encode J a16)) (s, b)
     = Inr (s\<lparr>tpn_Policy := a16\<rparr>, insert 16 b)"
  "list_all (TieringCondition_ok J) a17 \<Longrightarrow>
   obj_fold (TieringPartition_decodeField J) (field ''conditions'' (write_arr (TieringCondition_Encode J) a17)) (s, b)
     = Inr (s\<lparr>tpn_Conditions := a17\<rparr>, insert 17 b)"
  "obj_fold (TieringPartition_decodeField J) (field ''stateToken'' (JStr a19)) (s, b)
     = Inr (s\<lparr>tpn_StateToken := a19\<rparr>, insert 19 b)"
  "time_ok J a20 \<Longrightarrow>
   obj_fold (TieringPartition_decodeField J) (field ''reconciledAt'' (write_time J a20)) (s, b)
     = Inr (s\<lparr>tpn_ReconciledAt := a20\<rparr>, insert 20 b)"
  "obj_fold (TieringPartition_decodeField J) (field ''effectiveMode'' (TieringMode_Encode a21)) (s, b)
     = Inr (s\<lparr>tpn_EffectiveMode := a21\<rparr>, insert 21 b)"
by (simp_all add: obj_fold_field TieringPartition_decodeField_def TieringPartition_decodeField2_def
    TieringDiskPart_list TieringPolicy_roundtrip TieringCondition_list TieringHoldDetail_roundtrip)

lemma TieringPartition_set_steps:
  "tpn_HotVolume s = None \<Longrightarrow>
   obj_fold (TieringPartition_decodeField J) (field_set ''hotVolume'' (OptString_Encode JStr a15)) (s, b)
     = Inr (s\<lparr>tpn_HotVolume := a15\<rparr>, b)"
  "tpn_Hold s = None \<Longrightarrow> pred_option (TieringHoldDetail_ok J) a18 \<Longrightarrow>
   obj_fold (TieringPartition_decodeField J) (field_set ''hold'' (OptTieringHoldDetail_Encode J a18)) (s, b)
     = Inr (s\<lparr>tpn_Hold := a18\<rparr>, b)"
by (auto simp: obj_fold_set TieringPartition_decodeField_def TieringPartition_decodeField2_def set_codec
    TieringDiskPart_list TieringPolicy_roundtrip TieringCondition_list TieringHoldDetail_roundtrip split:
    option.split optnil.split)

lemma TieringPartition_roundtrip [codec]:
  "TieringPartition_ok J x \<Longrightarrow> TieringPartition_Decode J (TieringPartition_Encode J x) = Inr x"
by (cases x) (simp add: TieringPartition_Encode_def TieringPartition_encodeFields_def
    TieringPartition_Decode_def dec_obj_def TieringPartition_steps TieringPartition_set_steps
    TieringPartition_required_def TieringPartition_zero_def TieringPartition_ok_def)

lemma TieringPartition_list [codec]:
  "list_all (TieringPartition_ok J) xs \<Longrightarrow> read_arr (TieringPartition_Decode J) (write_arr (TieringPartition_Encode J) xs) = Inr xs"
  by (rule read_arr_write) (auto simp: codec elim!: list.pred_mono_strong)

definition TieringTablePlan_zero :: "TieringTablePlan" where
  "TieringTablePlan_zero = \<lparr>ttp_NodeId = '''', ttp_Database = '''', ttp_Table = '''', ttp_ReconciledAt = zero_time,
     ttp_TickDurationMs = 0, ttp_Generation = '''', ttp_LastError = None, ttp_Partitions = 0, ttp_Actionable = 0,
     ttp_Conditions = []\<rparr>"

definition TieringTablePlan_encodeFields ::
  "jx_env \<Rightarrow> TieringTablePlan \<Rightarrow> (string \<times> jx) list" where
  "TieringTablePlan_encodeFields J s =
     field ''nodeId'' (JStr (ttp_NodeId s))
     @ field ''database'' (JStr (ttp_Database s))
     @ field ''table'' (JStr (ttp_Table s))
     @ field ''reconciledAt'' (write_time J (ttp_ReconciledAt s))
     @ field ''tickDurationMs'' (write_int (ttp_TickDurationMs s))
     @ field ''generation'' (JStr (ttp_Generation s))
     @ field ''lastError'' (NilString_Encode JText (ttp_LastError s))
     @ field ''partitions'' (write_int (ttp_Partitions s))
     @ field ''actionable'' (write_int (ttp_Actionable s))
     @ field ''conditions'' (write_arr (TieringCondition_Encode J) (ttp_Conditions s))"

definition TieringTablePlan_Encode :: "jx_env \<Rightarrow> TieringTablePlan \<Rightarrow> jx" where
  "TieringTablePlan_Encode J s = JObj (TieringTablePlan_encodeFields J s)"

definition TieringTablePlan_decodeField ::
  "jx_env \<Rightarrow> string \<Rightarrow> jx \<Rightarrow> TieringTablePlan \<times> nat set \<Rightarrow> jerr + TieringTablePlan \<times> nat set" where
  "TieringTablePlan_decodeField J k v st = (case st of (s, b) \<Rightarrow>
     if k = ''nodeId'' then put_field k (\<lambda>x. (s\<lparr>ttp_NodeId := x\<rparr>, insert 0 b)) (read_str J v)
     else if k = ''database'' then put_field k (\<lambda>x. (s\<lparr>ttp_Database := x\<rparr>, insert 1 b)) (read_str J v)
     else if k = ''table'' then put_field k (\<lambda>x. (s\<lparr>ttp_Table := x\<rparr>, insert 2 b)) (read_str J v)
     else if k = ''reconciledAt'' then put_field k (\<lambda>x. (s\<lparr>ttp_ReconciledAt := x\<rparr>, insert 3 b)) (read_time J v)
     else if k = ''tickDurationMs'' then put_field k (\<lambda>x. (s\<lparr>ttp_TickDurationMs := x\<rparr>, insert 4 b)) (read_int J v)
     else if k = ''generation'' then put_field k (\<lambda>x. (s\<lparr>ttp_Generation := x\<rparr>, insert 5 b)) (read_str J v)
     else if k = ''lastError'' then put_field k (\<lambda>x. (s\<lparr>ttp_LastError := x\<rparr>, insert 6 b)) (NilString_Decode (read_text J) v)
     else if k = ''partitions'' then put_field k (\<lambda>x. (s\<lparr>ttp_Partitions := x\<rparr>, insert 7 b)) (read_int J v)
     else if k = ''actionable'' then put_field k (\<lambda>x. (s\<lparr>ttp_Actionable := x\<rparr>, insert 8 b)) (read_int J v)
     else if k = ''conditions'' then put_field k (\<lambda>x. (s\<lparr>ttp_Conditions := x\<rparr>, insert 9 b)) (read_arr (TieringCondition_Decode J) v)
     else Inl (JUnexpectedField k))"

definition TieringTablePlan_required :: "(nat \<times> string) list" where
  "TieringTablePlan_required = [(0, ''nodeId''), (1, ''database''), (2, ''table''), (3, ''reconciledAt''), (4, ''tickDurationMs''), (5,
    ''generation''), (6, ''lastError''), (7, ''partitions''), (8, ''actionable''), (9, ''conditions'')]"

definition TieringTablePlan_Decode :: "jx_env \<Rightarrow> jx \<Rightarrow> jerr + TieringTablePlan" where
  "TieringTablePlan_Decode J =
     dec_obj ''TieringTablePlan'' (TieringTablePlan_decodeField J) TieringTablePlan_required TieringTablePlan_zero"

definition TieringTablePlan_ok :: "jx_env \<Rightarrow> TieringTablePlan \<Rightarrow> bool" where
  "TieringTablePlan_ok J s \<longleftrightarrow> time_ok J (ttp_ReconciledAt s) \<and> in_i64 (ttp_TickDurationMs s) \<and> in_i64 (ttp_Partitions s) \<and>
     in_i64 (ttp_Actionable s) \<and> list_all (TieringCondition_ok J) (ttp_Conditions s)"

lemma TieringTablePlan_steps:
  "obj_fold (TieringTablePlan_decodeField J) (field ''nodeId'' (JStr a0)) (s, b)
     = Inr (s\<lparr>ttp_NodeId := a0\<rparr>, insert 0 b)"
  "obj_fold (TieringTablePlan_decodeField J) (field ''database'' (JStr a1)) (s, b)
     = Inr (s\<lparr>ttp_Database := a1\<rparr>, insert 1 b)"
  "obj_fold (TieringTablePlan_decodeField J) (field ''table'' (JStr a2)) (s, b)
     = Inr (s\<lparr>ttp_Table := a2\<rparr>, insert 2 b)"
  "time_ok J a3 \<Longrightarrow>
   obj_fold (TieringTablePlan_decodeField J) (field ''reconciledAt'' (write_time J a3)) (s, b)
     = Inr (s\<lparr>ttp_ReconciledAt := a3\<rparr>, insert 3 b)"
  "in_i64 a4 \<Longrightarrow>
   obj_fold (TieringTablePlan_decodeField J) (field ''tickDurationMs'' (write_int a4)) (s, b)
     = Inr (s\<lparr>ttp_TickDurationMs := a4\<rparr>, insert 4 b)"
  "obj_fold (TieringTablePlan_decodeField J) (field ''generation'' (JStr a5)) (s, b)
     = Inr (s\<lparr>ttp_Generation := a5\<rparr>, insert 5 b)"
  "obj_fold (TieringTablePlan_decodeField J) (field ''lastError'' (NilString_Encode JText a6)) (s, b)
     = Inr (s\<lparr>ttp_LastError := a6\<rparr>, insert 6 b)"
  "in_i64 a7 \<Longrightarrow>
   obj_fold (TieringTablePlan_decodeField J) (field ''partitions'' (write_int a7)) (s, b)
     = Inr (s\<lparr>ttp_Partitions := a7\<rparr>, insert 7 b)"
  "in_i64 a8 \<Longrightarrow>
   obj_fold (TieringTablePlan_decodeField J) (field ''actionable'' (write_int a8)) (s, b)
     = Inr (s\<lparr>ttp_Actionable := a8\<rparr>, insert 8 b)"
  "list_all (TieringCondition_ok J) a9 \<Longrightarrow>
   obj_fold (TieringTablePlan_decodeField J) (field ''conditions'' (write_arr (TieringCondition_Encode J) a9)) (s, b)
     = Inr (s\<lparr>ttp_Conditions := a9\<rparr>, insert 9 b)"
  by (simp_all add: obj_fold_field TieringTablePlan_decodeField_def TieringCondition_list)

lemma TieringTablePlan_roundtrip [codec]:
  "TieringTablePlan_ok J x \<Longrightarrow> TieringTablePlan_Decode J (TieringTablePlan_Encode J x) = Inr x"
by (cases x) (simp add: TieringTablePlan_Encode_def TieringTablePlan_encodeFields_def
    TieringTablePlan_Decode_def dec_obj_def TieringTablePlan_steps TieringTablePlan_required_def
    TieringTablePlan_zero_def TieringTablePlan_ok_def)

lemma TieringTablePlan_list [codec]:
  "list_all (TieringTablePlan_ok J) xs \<Longrightarrow> read_arr (TieringTablePlan_Decode J) (write_arr (TieringTablePlan_Encode J) xs) = Inr xs"
  by (rule read_arr_write) (auto simp: codec elim!: list.pred_mono_strong)

definition TieringPlanResponse_zero :: "TieringPlanResponse" where
  "TieringPlanResponse_zero = \<lparr>tpr_Tables = [], tpr_Items = []\<rparr>"

definition TieringPlanResponse_encodeFields ::
  "jx_env \<Rightarrow> TieringPlanResponse \<Rightarrow> (string \<times> jx) list" where
  "TieringPlanResponse_encodeFields J s =
     field ''tables'' (write_arr (TieringTablePlan_Encode J) (tpr_Tables s))
     @ field ''items'' (write_arr (TieringPartition_Encode J) (tpr_Items s))"

definition TieringPlanResponse_Encode :: "jx_env \<Rightarrow> TieringPlanResponse \<Rightarrow> jx" where
  "TieringPlanResponse_Encode J s = JObj (TieringPlanResponse_encodeFields J s)"

definition TieringPlanResponse_decodeField ::
  "jx_env \<Rightarrow> string \<Rightarrow> jx \<Rightarrow> TieringPlanResponse \<times> nat set \<Rightarrow> jerr + TieringPlanResponse \<times> nat set" where
  "TieringPlanResponse_decodeField J k v st = (case st of (s, b) \<Rightarrow>
     if k = ''tables'' then put_field k (\<lambda>x. (s\<lparr>tpr_Tables := x\<rparr>, insert 0 b)) (read_arr (TieringTablePlan_Decode J) v)
     else if k = ''items'' then put_field k (\<lambda>x. (s\<lparr>tpr_Items := x\<rparr>, insert 1 b)) (read_arr (TieringPartition_Decode J) v)
     else Inl (JUnexpectedField k))"

definition TieringPlanResponse_required :: "(nat \<times> string) list" where
  "TieringPlanResponse_required = [(0, ''tables''), (1, ''items'')]"

definition TieringPlanResponse_Decode :: "jx_env \<Rightarrow> jx \<Rightarrow> jerr + TieringPlanResponse" where
  "TieringPlanResponse_Decode J =
     dec_obj ''TieringPlanResponse'' (TieringPlanResponse_decodeField J) TieringPlanResponse_required TieringPlanResponse_zero"

definition TieringPlanResponse_ok :: "jx_env \<Rightarrow> TieringPlanResponse \<Rightarrow> bool" where
  "TieringPlanResponse_ok J s \<longleftrightarrow> list_all (TieringTablePlan_ok J) (tpr_Tables s) \<and> list_all (TieringPartition_ok J) (tpr_Items s)"

lemma TieringPlanResponse_steps:
  "list_all (TieringTablePlan_ok J) a0 \<Longrightarrow>
   obj_fold (TieringPlanResponse_decodeField J) (field ''tables'' (write_arr (TieringTablePlan_Encode J) a0)) (s, b)
     = Inr (s\<lparr>tpr_Tables := a0\<rparr>, insert 0 b)"
  "list_all (TieringPartition_ok J) a1 \<Longrightarrow>
   obj_fold (TieringPlanResponse_decodeField J) (field ''items'' (write_arr (TieringPartition_Encode J) a1)) (s, b)
     = Inr (s\<lparr>tpr_Items := a1\<rparr>, insert 1 b)"
  by (simp_all add: obj_fold_field TieringPlanResponse_decodeField_def TieringTablePlan_list TieringPartition_list)

lemma TieringPlanResponse_roundtrip [codec]:
  "TieringPlanResponse_ok J x \<Longrightarrow> TieringPlanResponse_Decode J (TieringPlanResponse_Encode J x) = Inr x"
by (cases x) (simp add: TieringPlanResponse_Encode_def TieringPlanResponse_encodeFields_def
    TieringPlanResponse_Decode_def dec_obj_def TieringPlanResponse_steps TieringPlanResponse_required_def
    TieringPlanResponse_zero_def TieringPlanResponse_ok_def)

lemma TieringPlanResponse_list [codec]:
  "list_all (TieringPlanResponse_ok J) xs \<Longrightarrow> read_arr (TieringPlanResponse_Decode J) (write_arr (TieringPlanResponse_Encode J) xs) = Inr xs"
  by (rule read_arr_write) (auto simp: codec elim!: list.pred_mono_strong)

section \<open>Status, history and control\<close>

definition TieringInFlightLeg_zero :: "TieringInFlightLeg" where
  "TieringInFlightLeg_zero = \<lparr>til_NodeId = '''', til_Database = '''', til_Table = '''', til_Partition = '''', til_PartitionId = '''',
     til_Action = '''', til_Bytes = '''', til_StartedAt = zero_time, til_Source = ''''\<rparr>"

definition TieringInFlightLeg_encodeFields ::
  "jx_env \<Rightarrow> TieringInFlightLeg \<Rightarrow> (string \<times> jx) list" where
  "TieringInFlightLeg_encodeFields J s =
     field ''nodeId'' (JStr (til_NodeId s))
     @ field ''database'' (JStr (til_Database s))
     @ field ''table'' (JStr (til_Table s))
     @ field ''partition'' (JStr (til_Partition s))
     @ field ''partitionId'' (JStr (til_PartitionId s))
     @ field ''action'' (TieringDecision_Encode (til_Action s))
     @ field ''bytes'' (UInt64String_Encode (til_Bytes s))
     @ field ''startedAt'' (write_time J (til_StartedAt s))
     @ field ''source'' (TieringInFlightLegSource_Encode (til_Source s))"

definition TieringInFlightLeg_Encode :: "jx_env \<Rightarrow> TieringInFlightLeg \<Rightarrow> jx" where
  "TieringInFlightLeg_Encode J s = JObj (TieringInFlightLeg_encodeFields J s)"

definition TieringInFlightLeg_decodeField ::
  "jx_env \<Rightarrow> string \<Rightarrow> jx \<Rightarrow> TieringInFlightLeg \<times> nat set \<Rightarrow> jerr + TieringInFlightLeg \<times> nat set" where
  "TieringInFlightLeg_decodeField J k v st = (case st of (s, b) \<Rightarrow>
     if k = ''nodeId'' then put_field k (\<lambda>x. (s\<lparr>til_NodeId := x\<rparr>, insert 0 b)) (read_str J v)
     else if k = ''database'' then put_field k (\<lambda>x. (s\<lparr>til_Database := x\<rparr>, insert 1 b)) (read_str J v)
     else if k = ''table'' then put_field k (\<lambda>x. (s\<lparr>til_Table := x\<rparr>, insert 2 b)) (read_str J v)
     else if k = ''partition'' then put_field k (\<lambda>x. (s\<lparr>til_Partition := x\<rparr>, insert 3 b)) (read_str J v)
     else if k = ''partitionId'' then put_field k (\<lambda>x. (s\<lparr>til_PartitionId := x\<rparr>, insert 4 b)) (read_str J v)
     else if k = ''action'' then put_field k (\<lambda>x. (s\<lparr>til_Action := x\<rparr>, insert 5 b)) (TieringDecision_Decode J v)
     else if k = ''bytes'' then put_field k (\<lambda>x. (s\<lparr>til_Bytes := x\<rparr>, insert 6 b)) (UInt64String_Decode J v)
     else if k = ''startedAt'' then put_field k (\<lambda>x. (s\<lparr>til_StartedAt := x\<rparr>, insert 7 b)) (read_time J v)
     else if k = ''source'' then put_field k (\<lambda>x. (s\<lparr>til_Source := x\<rparr>, insert 8 b)) (TieringInFlightLegSource_Decode J v)
     else Inl (JUnexpectedField k))"

definition TieringInFlightLeg_required :: "(nat \<times> string) list" where
  "TieringInFlightLeg_required = [(0, ''nodeId''), (1, ''database''), (2, ''table''), (3, ''partition''), (4, ''partitionId''), (5, ''action''),
    (6, ''bytes''), (7, ''startedAt''), (8, ''source'')]"

definition TieringInFlightLeg_Decode :: "jx_env \<Rightarrow> jx \<Rightarrow> jerr + TieringInFlightLeg" where
  "TieringInFlightLeg_Decode J =
     dec_obj ''TieringInFlightLeg'' (TieringInFlightLeg_decodeField J) TieringInFlightLeg_required TieringInFlightLeg_zero"

definition TieringInFlightLeg_ok :: "jx_env \<Rightarrow> TieringInFlightLeg \<Rightarrow> bool" where
  "TieringInFlightLeg_ok J s \<longleftrightarrow> time_ok J (til_StartedAt s)"

lemma TieringInFlightLeg_steps:
  "obj_fold (TieringInFlightLeg_decodeField J) (field ''nodeId'' (JStr a0)) (s, b)
     = Inr (s\<lparr>til_NodeId := a0\<rparr>, insert 0 b)"
  "obj_fold (TieringInFlightLeg_decodeField J) (field ''database'' (JStr a1)) (s, b)
     = Inr (s\<lparr>til_Database := a1\<rparr>, insert 1 b)"
  "obj_fold (TieringInFlightLeg_decodeField J) (field ''table'' (JStr a2)) (s, b)
     = Inr (s\<lparr>til_Table := a2\<rparr>, insert 2 b)"
  "obj_fold (TieringInFlightLeg_decodeField J) (field ''partition'' (JStr a3)) (s, b)
     = Inr (s\<lparr>til_Partition := a3\<rparr>, insert 3 b)"
  "obj_fold (TieringInFlightLeg_decodeField J) (field ''partitionId'' (JStr a4)) (s, b)
     = Inr (s\<lparr>til_PartitionId := a4\<rparr>, insert 4 b)"
  "obj_fold (TieringInFlightLeg_decodeField J) (field ''action'' (TieringDecision_Encode a5)) (s, b)
     = Inr (s\<lparr>til_Action := a5\<rparr>, insert 5 b)"
  "obj_fold (TieringInFlightLeg_decodeField J) (field ''bytes'' (UInt64String_Encode a6)) (s, b)
     = Inr (s\<lparr>til_Bytes := a6\<rparr>, insert 6 b)"
  "time_ok J a7 \<Longrightarrow>
   obj_fold (TieringInFlightLeg_decodeField J) (field ''startedAt'' (write_time J a7)) (s, b)
     = Inr (s\<lparr>til_StartedAt := a7\<rparr>, insert 7 b)"
  "obj_fold (TieringInFlightLeg_decodeField J) (field ''source'' (TieringInFlightLegSource_Encode a8)) (s, b)
     = Inr (s\<lparr>til_Source := a8\<rparr>, insert 8 b)"
  by (simp_all add: obj_fold_field TieringInFlightLeg_decodeField_def)

lemma TieringInFlightLeg_roundtrip [codec]:
  "TieringInFlightLeg_ok J x \<Longrightarrow> TieringInFlightLeg_Decode J (TieringInFlightLeg_Encode J x) = Inr x"
by (cases x) (simp add: TieringInFlightLeg_Encode_def TieringInFlightLeg_encodeFields_def
    TieringInFlightLeg_Decode_def dec_obj_def TieringInFlightLeg_steps TieringInFlightLeg_required_def
    TieringInFlightLeg_zero_def TieringInFlightLeg_ok_def)

lemma TieringInFlightLeg_list [codec]:
  "list_all (TieringInFlightLeg_ok J) xs \<Longrightarrow> read_arr (TieringInFlightLeg_Decode J) (write_arr (TieringInFlightLeg_Encode J) xs) = Inr xs"
  by (rule read_arr_write) (auto simp: codec elim!: list.pred_mono_strong)

definition TieringStatus_zero :: "TieringStatus" where
  "TieringStatus_zero = \<lparr>tst_Mode = '''', tst_PauseState = '''', tst_PauseReason = None, tst_InFlight = [],
     tst_MaxConcurrentPartitions = 0, tst_MaxMovesPerCycle = 0, tst_MaxBytesInFlight = '''', tst_BytesInFlight = '''',
     tst_MaxBytesPerDay = '''', tst_BytesMovedToday = '''', tst_UpdatedAt = zero_time\<rparr>"

definition TieringStatus_encodeFields ::
  "jx_env \<Rightarrow> TieringStatus \<Rightarrow> (string \<times> jx) list" where
  "TieringStatus_encodeFields J s =
     field ''mode'' (TieringMode_Encode (tst_Mode s))
     @ field ''pauseState'' (TieringPauseState_Encode (tst_PauseState s))
     @ field_set ''pauseReason'' (OptString_Encode JStr (tst_PauseReason s))
     @ field ''inFlight'' (write_arr (TieringInFlightLeg_Encode J) (tst_InFlight s))
     @ field ''maxConcurrentPartitions'' (write_int (tst_MaxConcurrentPartitions s))
     @ field ''maxMovesPerCycle'' (write_int (tst_MaxMovesPerCycle s))
     @ field ''maxBytesInFlight'' (UInt64String_Encode (tst_MaxBytesInFlight s))
     @ field ''bytesInFlight'' (UInt64String_Encode (tst_BytesInFlight s))
     @ field ''maxBytesPerDay'' (UInt64String_Encode (tst_MaxBytesPerDay s))
     @ field ''bytesMovedToday'' (UInt64String_Encode (tst_BytesMovedToday s))
     @ field ''updatedAt'' (write_time J (tst_UpdatedAt s))"

definition TieringStatus_Encode :: "jx_env \<Rightarrow> TieringStatus \<Rightarrow> jx" where
  "TieringStatus_Encode J s = JObj (TieringStatus_encodeFields J s)"

definition TieringStatus_decodeField ::
  "jx_env \<Rightarrow> string \<Rightarrow> jx \<Rightarrow> TieringStatus \<times> nat set \<Rightarrow> jerr + TieringStatus \<times> nat set" where
  "TieringStatus_decodeField J k v st = (case st of (s, b) \<Rightarrow>
     if k = ''mode'' then put_field k (\<lambda>x. (s\<lparr>tst_Mode := x\<rparr>, insert 0 b)) (TieringMode_Decode J v)
     else if k = ''pauseState'' then put_field k (\<lambda>x. (s\<lparr>tst_PauseState := x\<rparr>, insert 1 b)) (TieringPauseState_Decode J v)
     else if k = ''pauseReason'' then put_field k (\<lambda>x. (s\<lparr>tst_PauseReason := x\<rparr>, b)) (OptString_Decode (read_str J) v)
     else if k = ''inFlight'' then put_field k (\<lambda>x. (s\<lparr>tst_InFlight := x\<rparr>, insert 3 b)) (read_arr (TieringInFlightLeg_Decode J) v)
     else if k = ''maxConcurrentPartitions'' then put_field k (\<lambda>x. (s\<lparr>tst_MaxConcurrentPartitions := x\<rparr>, insert 4 b)) (read_int J v)
     else if k = ''maxMovesPerCycle'' then put_field k (\<lambda>x. (s\<lparr>tst_MaxMovesPerCycle := x\<rparr>, insert 5 b)) (read_int J v)
     else if k = ''maxBytesInFlight'' then put_field k (\<lambda>x. (s\<lparr>tst_MaxBytesInFlight := x\<rparr>, insert 6 b)) (UInt64String_Decode J v)
     else if k = ''bytesInFlight'' then put_field k (\<lambda>x. (s\<lparr>tst_BytesInFlight := x\<rparr>, insert 7 b)) (UInt64String_Decode J v)
     else if k = ''maxBytesPerDay'' then put_field k (\<lambda>x. (s\<lparr>tst_MaxBytesPerDay := x\<rparr>, insert 8 b)) (UInt64String_Decode J v)
     else if k = ''bytesMovedToday'' then put_field k (\<lambda>x. (s\<lparr>tst_BytesMovedToday := x\<rparr>, insert 9 b)) (UInt64String_Decode J v)
     else if k = ''updatedAt'' then put_field k (\<lambda>x. (s\<lparr>tst_UpdatedAt := x\<rparr>, insert 10 b)) (read_time J v)
     else Inl (JUnexpectedField k))"

definition TieringStatus_required :: "(nat \<times> string) list" where
  "TieringStatus_required = [(0, ''mode''), (1, ''pauseState''), (3, ''inFlight''), (4, ''maxConcurrentPartitions''), (5,
    ''maxMovesPerCycle''), (6, ''maxBytesInFlight''), (7, ''bytesInFlight''), (8, ''maxBytesPerDay''), (9,
    ''bytesMovedToday''), (10, ''updatedAt'')]"

definition TieringStatus_Decode :: "jx_env \<Rightarrow> jx \<Rightarrow> jerr + TieringStatus" where
  "TieringStatus_Decode J =
     dec_obj ''TieringStatus'' (TieringStatus_decodeField J) TieringStatus_required TieringStatus_zero"

definition TieringStatus_ok :: "jx_env \<Rightarrow> TieringStatus \<Rightarrow> bool" where
  "TieringStatus_ok J s \<longleftrightarrow> list_all (TieringInFlightLeg_ok J) (tst_InFlight s) \<and> in_i64 (tst_MaxConcurrentPartitions s) \<and>
     in_i64 (tst_MaxMovesPerCycle s) \<and> time_ok J (tst_UpdatedAt s)"

lemma TieringStatus_steps:
  "obj_fold (TieringStatus_decodeField J) (field ''mode'' (TieringMode_Encode a0)) (s, b)
     = Inr (s\<lparr>tst_Mode := a0\<rparr>, insert 0 b)"
  "obj_fold (TieringStatus_decodeField J) (field ''pauseState'' (TieringPauseState_Encode a1)) (s, b)
     = Inr (s\<lparr>tst_PauseState := a1\<rparr>, insert 1 b)"
  "list_all (TieringInFlightLeg_ok J) a3 \<Longrightarrow>
   obj_fold (TieringStatus_decodeField J) (field ''inFlight'' (write_arr (TieringInFlightLeg_Encode J) a3)) (s, b)
     = Inr (s\<lparr>tst_InFlight := a3\<rparr>, insert 3 b)"
  "in_i64 a4 \<Longrightarrow>
   obj_fold (TieringStatus_decodeField J) (field ''maxConcurrentPartitions'' (write_int a4)) (s, b)
     = Inr (s\<lparr>tst_MaxConcurrentPartitions := a4\<rparr>, insert 4 b)"
  "in_i64 a5 \<Longrightarrow>
   obj_fold (TieringStatus_decodeField J) (field ''maxMovesPerCycle'' (write_int a5)) (s, b)
     = Inr (s\<lparr>tst_MaxMovesPerCycle := a5\<rparr>, insert 5 b)"
  "obj_fold (TieringStatus_decodeField J) (field ''maxBytesInFlight'' (UInt64String_Encode a6)) (s, b)
     = Inr (s\<lparr>tst_MaxBytesInFlight := a6\<rparr>, insert 6 b)"
  "obj_fold (TieringStatus_decodeField J) (field ''bytesInFlight'' (UInt64String_Encode a7)) (s, b)
     = Inr (s\<lparr>tst_BytesInFlight := a7\<rparr>, insert 7 b)"
  "obj_fold (TieringStatus_decodeField J) (field ''maxBytesPerDay'' (UInt64String_Encode a8)) (s, b)
     = Inr (s\<lparr>tst_MaxBytesPerDay := a8\<rparr>, insert 8 b)"
  "obj_fold (TieringStatus_decodeField J) (field ''bytesMovedToday'' (UInt64String_Encode a9)) (s, b)
     = Inr (s\<lparr>tst_BytesMovedToday := a9\<rparr>, insert 9 b)"
  "time_ok J a10 \<Longrightarrow>
   obj_fold (TieringStatus_decodeField J) (field ''updatedAt'' (write_time J a10)) (s, b)
     = Inr (s\<lparr>tst_UpdatedAt := a10\<rparr>, insert 10 b)"
  by (simp_all add: obj_fold_field TieringStatus_decodeField_def TieringInFlightLeg_list)

lemma TieringStatus_set_steps:
  "tst_PauseReason s = None \<Longrightarrow>
   obj_fold (TieringStatus_decodeField J) (field_set ''pauseReason'' (OptString_Encode JStr a2)) (s, b)
     = Inr (s\<lparr>tst_PauseReason := a2\<rparr>, b)"
by (auto simp: obj_fold_set TieringStatus_decodeField_def set_codec TieringInFlightLeg_list split: option.split
    optnil.split)

lemma TieringStatus_roundtrip [codec]:
  "TieringStatus_ok J x \<Longrightarrow> TieringStatus_Decode J (TieringStatus_Encode J x) = Inr x"
by (cases x) (simp add: TieringStatus_Encode_def TieringStatus_encodeFields_def TieringStatus_Decode_def
    dec_obj_def TieringStatus_steps TieringStatus_set_steps TieringStatus_required_def TieringStatus_zero_def
    TieringStatus_ok_def)

lemma TieringStatus_list [codec]:
  "list_all (TieringStatus_ok J) xs \<Longrightarrow> read_arr (TieringStatus_Decode J) (write_arr (TieringStatus_Encode J) xs) = Inr xs"
  by (rule read_arr_write) (auto simp: codec elim!: list.pred_mono_strong)

definition TieringHistoryEntry_zero :: "TieringHistoryEntry" where
  "TieringHistoryEntry_zero = \<lparr>the_Time = zero_time, the_NodeId = '''', the_Database = '''', the_Table = '''', the_Partition = '''',
     the_PartitionId = '''', the_Action = '''', the_Outcome = '''', the_DurationMs = 0, the_Bytes = '''',
     the_Error = None, the_AttemptId = None\<rparr>"

definition TieringHistoryEntry_encodeFields ::
  "jx_env \<Rightarrow> TieringHistoryEntry \<Rightarrow> (string \<times> jx) list" where
  "TieringHistoryEntry_encodeFields J s =
     field ''time'' (write_time J (the_Time s))
     @ field ''nodeId'' (JStr (the_NodeId s))
     @ field ''database'' (JStr (the_Database s))
     @ field ''table'' (JStr (the_Table s))
     @ field ''partition'' (JStr (the_Partition s))
     @ field ''partitionId'' (JStr (the_PartitionId s))
     @ field ''action'' (TieringDecision_Encode (the_Action s))
     @ field ''outcome'' (JStr (the_Outcome s))
     @ field ''durationMs'' (write_int (the_DurationMs s))
     @ field ''bytes'' (UInt64String_Encode (the_Bytes s))
     @ field_set ''error'' (OptString_Encode JText (the_Error s))
     @ field_set ''attemptId'' (OptString_Encode JStr (the_AttemptId s))"

definition TieringHistoryEntry_Encode :: "jx_env \<Rightarrow> TieringHistoryEntry \<Rightarrow> jx" where
  "TieringHistoryEntry_Encode J s = JObj (TieringHistoryEntry_encodeFields J s)"

definition TieringHistoryEntry_decodeField ::
  "jx_env \<Rightarrow> string \<Rightarrow> jx \<Rightarrow> TieringHistoryEntry \<times> nat set \<Rightarrow> jerr + TieringHistoryEntry \<times> nat set" where
  "TieringHistoryEntry_decodeField J k v st = (case st of (s, b) \<Rightarrow>
     if k = ''time'' then put_field k (\<lambda>x. (s\<lparr>the_Time := x\<rparr>, insert 0 b)) (read_time J v)
     else if k = ''nodeId'' then put_field k (\<lambda>x. (s\<lparr>the_NodeId := x\<rparr>, insert 1 b)) (read_str J v)
     else if k = ''database'' then put_field k (\<lambda>x. (s\<lparr>the_Database := x\<rparr>, insert 2 b)) (read_str J v)
     else if k = ''table'' then put_field k (\<lambda>x. (s\<lparr>the_Table := x\<rparr>, insert 3 b)) (read_str J v)
     else if k = ''partition'' then put_field k (\<lambda>x. (s\<lparr>the_Partition := x\<rparr>, insert 4 b)) (read_str J v)
     else if k = ''partitionId'' then put_field k (\<lambda>x. (s\<lparr>the_PartitionId := x\<rparr>, insert 5 b)) (read_str J v)
     else if k = ''action'' then put_field k (\<lambda>x. (s\<lparr>the_Action := x\<rparr>, insert 6 b)) (TieringDecision_Decode J v)
     else if k = ''outcome'' then put_field k (\<lambda>x. (s\<lparr>the_Outcome := x\<rparr>, insert 7 b)) (read_str J v)
     else if k = ''durationMs'' then put_field k (\<lambda>x. (s\<lparr>the_DurationMs := x\<rparr>, insert 8 b)) (read_int J v)
     else if k = ''bytes'' then put_field k (\<lambda>x. (s\<lparr>the_Bytes := x\<rparr>, insert 9 b)) (UInt64String_Decode J v)
     else if k = ''error'' then put_field k (\<lambda>x. (s\<lparr>the_Error := x\<rparr>, b)) (OptString_Decode (read_text J) v)
     else if k = ''attemptId'' then put_field k (\<lambda>x. (s\<lparr>the_AttemptId := x\<rparr>, b)) (OptString_Decode (read_str J) v)
     else Inl (JUnexpectedField k))"

definition TieringHistoryEntry_required :: "(nat \<times> string) list" where
  "TieringHistoryEntry_required = [(0, ''time''), (1, ''nodeId''), (2, ''database''), (3, ''table''), (4, ''partition''), (5, ''partitionId''), (6,
    ''action''), (7, ''outcome''), (8, ''durationMs''), (9, ''bytes'')]"

definition TieringHistoryEntry_Decode :: "jx_env \<Rightarrow> jx \<Rightarrow> jerr + TieringHistoryEntry" where
  "TieringHistoryEntry_Decode J =
     dec_obj ''TieringHistoryEntry'' (TieringHistoryEntry_decodeField J) TieringHistoryEntry_required TieringHistoryEntry_zero"

definition TieringHistoryEntry_ok :: "jx_env \<Rightarrow> TieringHistoryEntry \<Rightarrow> bool" where
  "TieringHistoryEntry_ok J s \<longleftrightarrow> time_ok J (the_Time s) \<and> in_i64 (the_DurationMs s)"

lemma TieringHistoryEntry_steps:
  "time_ok J a0 \<Longrightarrow>
   obj_fold (TieringHistoryEntry_decodeField J) (field ''time'' (write_time J a0)) (s, b)
     = Inr (s\<lparr>the_Time := a0\<rparr>, insert 0 b)"
  "obj_fold (TieringHistoryEntry_decodeField J) (field ''nodeId'' (JStr a1)) (s, b)
     = Inr (s\<lparr>the_NodeId := a1\<rparr>, insert 1 b)"
  "obj_fold (TieringHistoryEntry_decodeField J) (field ''database'' (JStr a2)) (s, b)
     = Inr (s\<lparr>the_Database := a2\<rparr>, insert 2 b)"
  "obj_fold (TieringHistoryEntry_decodeField J) (field ''table'' (JStr a3)) (s, b)
     = Inr (s\<lparr>the_Table := a3\<rparr>, insert 3 b)"
  "obj_fold (TieringHistoryEntry_decodeField J) (field ''partition'' (JStr a4)) (s, b)
     = Inr (s\<lparr>the_Partition := a4\<rparr>, insert 4 b)"
  "obj_fold (TieringHistoryEntry_decodeField J) (field ''partitionId'' (JStr a5)) (s, b)
     = Inr (s\<lparr>the_PartitionId := a5\<rparr>, insert 5 b)"
  "obj_fold (TieringHistoryEntry_decodeField J) (field ''action'' (TieringDecision_Encode a6)) (s, b)
     = Inr (s\<lparr>the_Action := a6\<rparr>, insert 6 b)"
  "obj_fold (TieringHistoryEntry_decodeField J) (field ''outcome'' (JStr a7)) (s, b)
     = Inr (s\<lparr>the_Outcome := a7\<rparr>, insert 7 b)"
  "in_i64 a8 \<Longrightarrow>
   obj_fold (TieringHistoryEntry_decodeField J) (field ''durationMs'' (write_int a8)) (s, b)
     = Inr (s\<lparr>the_DurationMs := a8\<rparr>, insert 8 b)"
  "obj_fold (TieringHistoryEntry_decodeField J) (field ''bytes'' (UInt64String_Encode a9)) (s, b)
     = Inr (s\<lparr>the_Bytes := a9\<rparr>, insert 9 b)"
  by (simp_all add: obj_fold_field TieringHistoryEntry_decodeField_def)

lemma TieringHistoryEntry_set_steps:
  "the_Error s = None \<Longrightarrow>
   obj_fold (TieringHistoryEntry_decodeField J) (field_set ''error'' (OptString_Encode JText a10)) (s, b)
     = Inr (s\<lparr>the_Error := a10\<rparr>, b)"
  "the_AttemptId s = None \<Longrightarrow>
   obj_fold (TieringHistoryEntry_decodeField J) (field_set ''attemptId'' (OptString_Encode JStr a11)) (s, b)
     = Inr (s\<lparr>the_AttemptId := a11\<rparr>, b)"
  by (auto simp: obj_fold_set TieringHistoryEntry_decodeField_def set_codec split: option.split optnil.split)

lemma TieringHistoryEntry_roundtrip [codec]:
  "TieringHistoryEntry_ok J x \<Longrightarrow> TieringHistoryEntry_Decode J (TieringHistoryEntry_Encode J x) = Inr x"
by (cases x) (simp add: TieringHistoryEntry_Encode_def TieringHistoryEntry_encodeFields_def
    TieringHistoryEntry_Decode_def dec_obj_def TieringHistoryEntry_steps TieringHistoryEntry_set_steps
    TieringHistoryEntry_required_def TieringHistoryEntry_zero_def TieringHistoryEntry_ok_def)

lemma TieringHistoryEntry_list [codec]:
  "list_all (TieringHistoryEntry_ok J) xs \<Longrightarrow> read_arr (TieringHistoryEntry_Decode J) (write_arr (TieringHistoryEntry_Encode J) xs) = Inr xs"
  by (rule read_arr_write) (auto simp: codec elim!: list.pred_mono_strong)

definition TieringHistoryResponse_zero :: "TieringHistoryEntry list" where
  "TieringHistoryResponse_zero = []"

definition TieringHistoryResponse_encodeFields ::
  "jx_env \<Rightarrow> (TieringHistoryEntry list) \<Rightarrow> (string \<times> jx) list" where
  "TieringHistoryResponse_encodeFields J s =
     field ''items'' (write_arr (TieringHistoryEntry_Encode J) s)"

definition TieringHistoryResponse_Encode :: "jx_env \<Rightarrow> (TieringHistoryEntry list) \<Rightarrow> jx" where
  "TieringHistoryResponse_Encode J s = JObj (TieringHistoryResponse_encodeFields J s)"

definition TieringHistoryResponse_decodeField ::
  "jx_env \<Rightarrow> string \<Rightarrow> jx \<Rightarrow> (TieringHistoryEntry list) \<times> nat set \<Rightarrow> jerr + (TieringHistoryEntry list) \<times> nat set" where
  "TieringHistoryResponse_decodeField J k v st = (case st of (s, b) \<Rightarrow>
     if k = ''items'' then put_field k (\<lambda>x. (x, insert 0 b)) (read_arr (TieringHistoryEntry_Decode J) v)
     else Inl (JUnexpectedField k))"

definition TieringHistoryResponse_required :: "(nat \<times> string) list" where
  "TieringHistoryResponse_required = [(0, ''items'')]"

definition TieringHistoryResponse_Decode ::
  "jx_env \<Rightarrow> jx \<Rightarrow> jerr + (TieringHistoryEntry list)" where
  "TieringHistoryResponse_Decode J =
     dec_obj ''TieringHistoryResponse'' (TieringHistoryResponse_decodeField J) TieringHistoryResponse_required TieringHistoryResponse_zero"

definition TieringHistoryResponse_ok :: "jx_env \<Rightarrow> (TieringHistoryEntry list) \<Rightarrow> bool" where
  "TieringHistoryResponse_ok J s \<longleftrightarrow> list_all (TieringHistoryEntry_ok J) s"

lemma TieringHistoryResponse_steps:
  "list_all (TieringHistoryEntry_ok J) a0 \<Longrightarrow>
   obj_fold (TieringHistoryResponse_decodeField J) (field ''items'' (write_arr (TieringHistoryEntry_Encode J) a0)) (s, b)
     = Inr (a0, insert 0 b)"
  by (simp_all add: obj_fold_field TieringHistoryResponse_decodeField_def TieringHistoryEntry_list)

lemma TieringHistoryResponse_roundtrip [codec]:
  "TieringHistoryResponse_ok J x \<Longrightarrow> TieringHistoryResponse_Decode J (TieringHistoryResponse_Encode J x) = Inr x"
by (simp add: TieringHistoryResponse_Encode_def TieringHistoryResponse_encodeFields_def
    TieringHistoryResponse_Decode_def dec_obj_def TieringHistoryResponse_steps
    TieringHistoryResponse_required_def TieringHistoryResponse_zero_def TieringHistoryResponse_ok_def)

lemma TieringHistoryResponse_list [codec]:
  "list_all (TieringHistoryResponse_ok J) xs \<Longrightarrow> read_arr (TieringHistoryResponse_Decode J) (write_arr (TieringHistoryResponse_Encode J) xs) = Inr xs"
  by (rule read_arr_write) (auto simp: codec elim!: list.pred_mono_strong)

definition TieringApplyRequest_zero :: "string" where
  "TieringApplyRequest_zero = ''''"

definition TieringApplyRequest_encodeFields ::
  "jx_env \<Rightarrow> string \<Rightarrow> (string \<times> jx) list" where
  "TieringApplyRequest_encodeFields J s =
     field ''stateToken'' (JStr s)"

definition TieringApplyRequest_Encode :: "jx_env \<Rightarrow> string \<Rightarrow> jx" where
  "TieringApplyRequest_Encode J s = JObj (TieringApplyRequest_encodeFields J s)"

definition TieringApplyRequest_decodeField ::
  "jx_env \<Rightarrow> string \<Rightarrow> jx \<Rightarrow> string \<times> nat set \<Rightarrow> jerr + string \<times> nat set" where
  "TieringApplyRequest_decodeField J k v st = (case st of (s, b) \<Rightarrow>
     if k = ''stateToken'' then put_field k (\<lambda>x. (x, insert 0 b)) (read_str J v)
     else Inl (JUnexpectedField k))"

definition TieringApplyRequest_required :: "(nat \<times> string) list" where
  "TieringApplyRequest_required = [(0, ''stateToken'')]"

definition TieringApplyRequest_Decode :: "jx_env \<Rightarrow> jx \<Rightarrow> jerr + string" where
  "TieringApplyRequest_Decode J =
     dec_obj ''TieringApplyRequest'' (TieringApplyRequest_decodeField J) TieringApplyRequest_required TieringApplyRequest_zero"

lemma TieringApplyRequest_steps:
  "obj_fold (TieringApplyRequest_decodeField J) (field ''stateToken'' (JStr a0)) (s, b) = Inr (a0, insert 0 b)"
  by (simp_all add: obj_fold_field TieringApplyRequest_decodeField_def)

lemma TieringApplyRequest_roundtrip [codec]: "TieringApplyRequest_Decode J (TieringApplyRequest_Encode J x) = Inr x"
by (simp add: TieringApplyRequest_Encode_def TieringApplyRequest_encodeFields_def TieringApplyRequest_Decode_def
    dec_obj_def TieringApplyRequest_steps TieringApplyRequest_required_def TieringApplyRequest_zero_def)

lemma TieringApplyRequest_list [codec]:
  "read_arr (TieringApplyRequest_Decode J) (write_arr (TieringApplyRequest_Encode J) xs) = Inr xs"
  by (rule read_arr_write) (simp add: codec list.pred_True)

definition TieringApplyResponse_zero :: "TieringHistoryEntry" where
  "TieringApplyResponse_zero = TieringHistoryEntry_zero"

definition TieringApplyResponse_encodeFields ::
  "jx_env \<Rightarrow> TieringHistoryEntry \<Rightarrow> (string \<times> jx) list" where
  "TieringApplyResponse_encodeFields J s =
     field ''item'' (TieringHistoryEntry_Encode J s)"

definition TieringApplyResponse_Encode :: "jx_env \<Rightarrow> TieringHistoryEntry \<Rightarrow> jx" where
  "TieringApplyResponse_Encode J s = JObj (TieringApplyResponse_encodeFields J s)"

definition TieringApplyResponse_decodeField ::
  "jx_env \<Rightarrow> string \<Rightarrow> jx \<Rightarrow> TieringHistoryEntry \<times> nat set \<Rightarrow> jerr + TieringHistoryEntry \<times> nat set" where
  "TieringApplyResponse_decodeField J k v st = (case st of (s, b) \<Rightarrow>
     if k = ''item'' then put_field k (\<lambda>x. (x, insert 0 b)) (TieringHistoryEntry_Decode J v)
     else Inl (JUnexpectedField k))"

definition TieringApplyResponse_required :: "(nat \<times> string) list" where
  "TieringApplyResponse_required = [(0, ''item'')]"

definition TieringApplyResponse_Decode :: "jx_env \<Rightarrow> jx \<Rightarrow> jerr + TieringHistoryEntry" where
  "TieringApplyResponse_Decode J =
     dec_obj ''TieringApplyResponse'' (TieringApplyResponse_decodeField J) TieringApplyResponse_required TieringApplyResponse_zero"

definition TieringApplyResponse_ok :: "jx_env \<Rightarrow> TieringHistoryEntry \<Rightarrow> bool" where
  "TieringApplyResponse_ok J s \<longleftrightarrow> TieringHistoryEntry_ok J s"

lemma TieringApplyResponse_steps:
  "TieringHistoryEntry_ok J a0 \<Longrightarrow>
   obj_fold (TieringApplyResponse_decodeField J) (field ''item'' (TieringHistoryEntry_Encode J a0)) (s, b)
     = Inr (a0, insert 0 b)"
  by (simp_all add: obj_fold_field TieringApplyResponse_decodeField_def TieringHistoryEntry_roundtrip)

lemma TieringApplyResponse_roundtrip [codec]:
  "TieringApplyResponse_ok J x \<Longrightarrow> TieringApplyResponse_Decode J (TieringApplyResponse_Encode J x) = Inr x"
by (simp add: TieringApplyResponse_Encode_def TieringApplyResponse_encodeFields_def
    TieringApplyResponse_Decode_def dec_obj_def TieringApplyResponse_steps TieringApplyResponse_required_def
    TieringApplyResponse_zero_def TieringApplyResponse_ok_def)

lemma TieringApplyResponse_list [codec]:
  "list_all (TieringApplyResponse_ok J) xs \<Longrightarrow> read_arr (TieringApplyResponse_Decode J) (write_arr (TieringApplyResponse_Encode J) xs) = Inr xs"
  by (rule read_arr_write) (auto simp: codec elim!: list.pred_mono_strong)

end
