(* ===== verification/RestParams.thy ===== *)
theory RestParams
  imports Router TieringValidate TieringCodec
begin

text \<open>
  Decoding the parameters of a request (\<open>api/rest/oas_parameters_gen.go\<close>) and the body of the two actions
  (\<open>oas_request_decoders_gen.go\<close>): one definition per parameter, in the order the code decodes them; the first
  failure ends the decoding and names its parameter. The URI library is a parameter of the model (\<open>uri_env\<close>): whether
  a query has a parameter and what its value is, the value of a path segment, and the conversions to a boolean and
  to a time. The conversion to a string is the identity.
\<close>

section \<open>The URI library\<close>

record uri_env =
  ue_query :: "string \<Rightarrow> string \<Rightarrow> (gotext + string) option"
  ue_path :: "string \<Rightarrow> string \<Rightarrow> gotext + string"
  ue_bool :: "string \<Rightarrow> gotext + bool"
  ue_time :: "string \<Rightarrow> gotext + gtime"

datatype param_cause = PUnescape | PRequired | PUri gotext | PInvalid verr

datatype param_error = DecodeParamError string string param_cause

definition to_string :: "uri_env \<Rightarrow> string \<Rightarrow> gotext + string" where "to_string U s = Inr s"
definition to_bool :: "uri_env \<Rightarrow> string \<Rightarrow> gotext + bool" where "to_bool U s = ue_bool U s"
definition to_time :: "uri_env \<Rightarrow> string \<Rightarrow> gotext + gtime" where "to_time U s = ue_time U s"

definition and_then :: "'e + 'a \<Rightarrow> ('a \<Rightarrow> 'e + 'b) \<Rightarrow> 'e + 'b" where
  "and_then r k = (case r of Inl e \<Rightarrow> Inl e | Inr x \<Rightarrow> k x)"

text \<open>An optional query parameter: absent when the query does not have it, else decoded, converted and checked.\<close>

definition query_checked ::
  "uri_env \<Rightarrow> string \<Rightarrow> string \<Rightarrow> (string \<Rightarrow> gotext + 'a) \<Rightarrow> ('a \<Rightarrow> verr option) \<Rightarrow> param_error + 'a option" where
  "query_checked U q name conv chk =
     (case ue_query U q name of
        None \<Rightarrow> Inr None
      | Some (Inl e) \<Rightarrow> Inl (DecodeParamError name ''query'' (PUri e))
      | Some (Inr s) \<Rightarrow>
          (case conv s of
             Inl e \<Rightarrow> Inl (DecodeParamError name ''query'' (PUri e))
           | Inr v \<Rightarrow> (case chk v of
               Some e \<Rightarrow> Inl (DecodeParamError name ''query'' (PInvalid e))
             | None \<Rightarrow> Inr (Some v))))"

definition query_optional ::
  "uri_env \<Rightarrow> string \<Rightarrow> string \<Rightarrow> (string \<Rightarrow> gotext + 'a) \<Rightarrow> param_error + 'a option" where
  "query_optional U q name conv = query_checked U q name conv (\<lambda>v. None)"

definition query_required ::
  "uri_env \<Rightarrow> string \<Rightarrow> string \<Rightarrow> (string \<Rightarrow> gotext + 'a) \<Rightarrow> param_error + 'a" where
  "query_required U q name conv =
     (case query_optional U q name conv of
        Inl e \<Rightarrow> Inl e
      | Inr None \<Rightarrow> Inl (DecodeParamError name ''query'' PRequired)
      | Inr (Some v) \<Rightarrow> Inr v)"

text \<open>A path parameter: unescaped when the routed path was escaped, and not empty.\<close>

definition path_required ::
  "uri_env \<Rightarrow> bool \<Rightarrow> string \<Rightarrow> string \<Rightarrow> param_error + string" where
  "path_required U argsEscaped arg name =
     (case (if argsEscaped then pathUnescape arg else Some arg) of
        None \<Rightarrow> Inl (DecodeParamError name ''path'' PUnescape)
      | Some p \<Rightarrow>
          if p = '''' then Inl (DecodeParamError name ''path'' PRequired)
          else (case ue_path U name p of
            Inl e \<Rightarrow> Inl (DecodeParamError name ''path'' (PUri e))
          | Inr v \<Rightarrow> Inr v))"

section \<open>The parameters of the operations\<close>

definition ApplyTieringPartition_database ::
  "uri_env \<Rightarrow> bool \<Rightarrow> string list \<Rightarrow> param_error + string" where
  "ApplyTieringPartition_database U argsEscaped args = path_required U argsEscaped (args ! 0) ''database''"

definition ApplyTieringPartition_table ::
  "uri_env \<Rightarrow> bool \<Rightarrow> string list \<Rightarrow> param_error + string" where
  "ApplyTieringPartition_table U argsEscaped args = path_required U argsEscaped (args ! 1) ''table''"

definition ApplyTieringPartition_partitionId ::
  "uri_env \<Rightarrow> bool \<Rightarrow> string list \<Rightarrow> param_error + string" where
  "ApplyTieringPartition_partitionId U argsEscaped args = path_required U argsEscaped (args ! 2) ''partitionId''"

definition ApplyTieringPartition_nodeId :: "uri_env \<Rightarrow> string \<Rightarrow> param_error + string" where
  "ApplyTieringPartition_nodeId U q = query_required U q ''nodeId'' (to_string U)"

definition decodeApplyTieringPartitionParams ::
  "uri_env \<Rightarrow> bool \<Rightarrow> string list \<Rightarrow> string \<Rightarrow> param_error + (string \<times> string \<times> string \<times> string)" where
  "decodeApplyTieringPartitionParams U argsEscaped args q =
     and_then (ApplyTieringPartition_database U argsEscaped args) (\<lambda>x_database.
     and_then (ApplyTieringPartition_table U argsEscaped args) (\<lambda>x_table.
     and_then (ApplyTieringPartition_partitionId U argsEscaped args) (\<lambda>x_partitionId.
     and_then (ApplyTieringPartition_nodeId U q) (\<lambda>x_nodeId.
     Inr (x_database, x_table, x_partitionId, x_nodeId)))))"

definition GetTable_database ::
  "uri_env \<Rightarrow> bool \<Rightarrow> string list \<Rightarrow> param_error + string" where
  "GetTable_database U argsEscaped args = path_required U argsEscaped (args ! 0) ''database''"

definition GetTable_table ::
  "uri_env \<Rightarrow> bool \<Rightarrow> string list \<Rightarrow> param_error + string" where
  "GetTable_table U argsEscaped args = path_required U argsEscaped (args ! 1) ''table''"

definition decodeGetTableParams ::
  "uri_env \<Rightarrow> bool \<Rightarrow> string list \<Rightarrow> string \<Rightarrow> param_error + (string \<times> string)" where
  "decodeGetTableParams U argsEscaped args q =
     and_then (GetTable_database U argsEscaped args) (\<lambda>x_database.
     and_then (GetTable_table U argsEscaped args) (\<lambda>x_table.
     Inr (x_database, x_table)))"

definition GetTieringHistory_nodeId :: "uri_env \<Rightarrow> string \<Rightarrow> param_error + string option" where
  "GetTieringHistory_nodeId U q = query_optional U q ''nodeId'' (to_string U)"

definition GetTieringHistory_database ::
  "uri_env \<Rightarrow> string \<Rightarrow> param_error + string option" where
  "GetTieringHistory_database U q = query_optional U q ''database'' (to_string U)"

definition GetTieringHistory_table :: "uri_env \<Rightarrow> string \<Rightarrow> param_error + string option" where
  "GetTieringHistory_table U q = query_optional U q ''table'' (to_string U)"

definition GetTieringHistory_partitionId ::
  "uri_env \<Rightarrow> string \<Rightarrow> param_error + string option" where
  "GetTieringHistory_partitionId U q = query_optional U q ''partitionId'' (to_string U)"

definition decodeGetTieringHistoryParams ::
  "uri_env \<Rightarrow> string \<Rightarrow> param_error + history_params" where
  "decodeGetTieringHistoryParams U q =
     and_then (GetTieringHistory_nodeId U q) (\<lambda>x_nodeId.
     and_then (GetTieringHistory_database U q) (\<lambda>x_database.
     and_then (GetTieringHistory_table U q) (\<lambda>x_table.
     and_then (GetTieringHistory_partitionId U q) (\<lambda>x_partitionId.
     Inr \<lparr>zq_NodeId = x_nodeId, zq_Database = x_database, zq_Table = x_table,
       zq_PartitionId = x_partitionId\<rparr>))))"

definition GetTieringPlan_nodeId :: "uri_env \<Rightarrow> string \<Rightarrow> param_error + string option" where
  "GetTieringPlan_nodeId U q = query_optional U q ''nodeId'' (to_string U)"

definition GetTieringPlan_database :: "uri_env \<Rightarrow> string \<Rightarrow> param_error + string option" where
  "GetTieringPlan_database U q = query_optional U q ''database'' (to_string U)"

definition GetTieringPlan_table :: "uri_env \<Rightarrow> string \<Rightarrow> param_error + string option" where
  "GetTieringPlan_table U q = query_optional U q ''table'' (to_string U)"

definition GetTieringPlan_status :: "uri_env \<Rightarrow> string \<Rightarrow> param_error + string option" where
  "GetTieringPlan_status U q = query_checked U q ''status'' (to_string U) TieringPartitionStatus_Validate"

definition GetTieringPlan_decision :: "uri_env \<Rightarrow> string \<Rightarrow> param_error + string option" where
  "GetTieringPlan_decision U q = query_checked U q ''decision'' (to_string U) TieringDecision_Validate"

definition decodeGetTieringPlanParams ::
  "uri_env \<Rightarrow> string \<Rightarrow> param_error + plan_params" where
  "decodeGetTieringPlanParams U q =
     and_then (GetTieringPlan_nodeId U q) (\<lambda>x_nodeId.
     and_then (GetTieringPlan_database U q) (\<lambda>x_database.
     and_then (GetTieringPlan_table U q) (\<lambda>x_table.
     and_then (GetTieringPlan_status U q) (\<lambda>x_status.
     and_then (GetTieringPlan_decision U q) (\<lambda>x_decision.
     Inr \<lparr>yq_NodeId = x_nodeId, yq_Database = x_database, yq_Table = x_table, yq_Status = x_status,
       yq_Decision = x_decision\<rparr>)))))"

definition ListConditions_severity :: "uri_env \<Rightarrow> string \<Rightarrow> param_error + string option" where
  "ListConditions_severity U q = query_checked U q ''severity'' (to_string U) Severity_Validate"

definition ListConditions_code :: "uri_env \<Rightarrow> string \<Rightarrow> param_error + string option" where
  "ListConditions_code U q = query_optional U q ''code'' (to_string U)"

definition ListConditions_nodeId :: "uri_env \<Rightarrow> string \<Rightarrow> param_error + string option" where
  "ListConditions_nodeId U q = query_optional U q ''nodeId'' (to_string U)"

definition ListConditions_database :: "uri_env \<Rightarrow> string \<Rightarrow> param_error + string option" where
  "ListConditions_database U q = query_optional U q ''database'' (to_string U)"

definition ListConditions_table :: "uri_env \<Rightarrow> string \<Rightarrow> param_error + string option" where
  "ListConditions_table U q = query_optional U q ''table'' (to_string U)"

definition ListConditions_partitionId ::
  "uri_env \<Rightarrow> string \<Rightarrow> param_error + string option" where
  "ListConditions_partitionId U q = query_optional U q ''partitionId'' (to_string U)"

definition decodeListConditionsParams ::
  "uri_env \<Rightarrow> string \<Rightarrow> param_error + condition_params" where
  "decodeListConditionsParams U q =
     and_then (ListConditions_severity U q) (\<lambda>x_severity.
     and_then (ListConditions_code U q) (\<lambda>x_code.
     and_then (ListConditions_nodeId U q) (\<lambda>x_nodeId.
     and_then (ListConditions_database U q) (\<lambda>x_database.
     and_then (ListConditions_table U q) (\<lambda>x_table.
     and_then (ListConditions_partitionId U q) (\<lambda>x_partitionId.
     Inr \<lparr>nq_Severity = x_severity, nq_Code = x_code, nq_NodeId = x_nodeId, nq_Database = x_database,
       nq_Table = x_table, nq_PartitionId = x_partitionId\<rparr>))))))"

definition ListDetachedParts_database ::
  "uri_env \<Rightarrow> bool \<Rightarrow> string list \<Rightarrow> param_error + string" where
  "ListDetachedParts_database U argsEscaped args = path_required U argsEscaped (args ! 0) ''database''"

definition ListDetachedParts_table ::
  "uri_env \<Rightarrow> bool \<Rightarrow> string list \<Rightarrow> param_error + string" where
  "ListDetachedParts_table U argsEscaped args = path_required U argsEscaped (args ! 1) ''table''"

definition ListDetachedParts_nodeId :: "uri_env \<Rightarrow> string \<Rightarrow> param_error + string option" where
  "ListDetachedParts_nodeId U q = query_optional U q ''nodeId'' (to_string U)"

definition ListDetachedParts_shard :: "uri_env \<Rightarrow> string \<Rightarrow> param_error + string option" where
  "ListDetachedParts_shard U q = query_optional U q ''shard'' (to_string U)"

definition ListDetachedParts_replica :: "uri_env \<Rightarrow> string \<Rightarrow> param_error + string option" where
  "ListDetachedParts_replica U q = query_optional U q ''replica'' (to_string U)"

definition ListDetachedParts_partitionId ::
  "uri_env \<Rightarrow> string \<Rightarrow> param_error + string option" where
  "ListDetachedParts_partitionId U q = query_optional U q ''partitionId'' (to_string U)"

definition ListDetachedParts_partName ::
  "uri_env \<Rightarrow> string \<Rightarrow> param_error + string option" where
  "ListDetachedParts_partName U q = query_optional U q ''partName'' (to_string U)"

definition ListDetachedParts_disk :: "uri_env \<Rightarrow> string \<Rightarrow> param_error + string option" where
  "ListDetachedParts_disk U q = query_optional U q ''disk'' (to_string U)"

definition ListDetachedParts_reason :: "uri_env \<Rightarrow> string \<Rightarrow> param_error + string option" where
  "ListDetachedParts_reason U q = query_optional U q ''reason'' (to_string U)"

definition decodeListDetachedPartsParams ::
  "uri_env \<Rightarrow> bool \<Rightarrow> string list \<Rightarrow> string \<Rightarrow> param_error + (string \<times> string \<times> detached_params)" where
  "decodeListDetachedPartsParams U argsEscaped args q =
     and_then (ListDetachedParts_database U argsEscaped args) (\<lambda>x_database.
     and_then (ListDetachedParts_table U argsEscaped args) (\<lambda>x_table.
     and_then (ListDetachedParts_nodeId U q) (\<lambda>x_nodeId.
     and_then (ListDetachedParts_shard U q) (\<lambda>x_shard.
     and_then (ListDetachedParts_replica U q) (\<lambda>x_replica.
     and_then (ListDetachedParts_partitionId U q) (\<lambda>x_partitionId.
     and_then (ListDetachedParts_partName U q) (\<lambda>x_partName.
     and_then (ListDetachedParts_disk U q) (\<lambda>x_disk.
     and_then (ListDetachedParts_reason U q) (\<lambda>x_reason.
     Inr (x_database, x_table, \<lparr>eq_NodeId = x_nodeId, eq_Shard = x_shard, eq_Replica = x_replica,
       eq_PartitionId = x_partitionId, eq_PartName = x_partName, eq_Disk = x_disk, eq_Reason = x_reason\<rparr>))))))))))"

definition ListMutations_nodeId :: "uri_env \<Rightarrow> string \<Rightarrow> param_error + string option" where
  "ListMutations_nodeId U q = query_optional U q ''nodeId'' (to_string U)"

definition ListMutations_database :: "uri_env \<Rightarrow> string \<Rightarrow> param_error + string option" where
  "ListMutations_database U q = query_optional U q ''database'' (to_string U)"

definition ListMutations_table :: "uri_env \<Rightarrow> string \<Rightarrow> param_error + string option" where
  "ListMutations_table U q = query_optional U q ''table'' (to_string U)"

definition ListMutations_mutationId :: "uri_env \<Rightarrow> string \<Rightarrow> param_error + string option" where
  "ListMutations_mutationId U q = query_optional U q ''mutationId'' (to_string U)"

definition ListMutations_done :: "uri_env \<Rightarrow> string \<Rightarrow> param_error + bool option" where
  "ListMutations_done U q = query_optional U q ''done'' (to_bool U)"

definition ListMutations_failed :: "uri_env \<Rightarrow> string \<Rightarrow> param_error + bool option" where
  "ListMutations_failed U q = query_optional U q ''failed'' (to_bool U)"

definition decodeListMutationsParams ::
  "uri_env \<Rightarrow> string \<Rightarrow> param_error + mutation_params" where
  "decodeListMutationsParams U q =
     and_then (ListMutations_nodeId U q) (\<lambda>x_nodeId.
     and_then (ListMutations_database U q) (\<lambda>x_database.
     and_then (ListMutations_table U q) (\<lambda>x_table.
     and_then (ListMutations_mutationId U q) (\<lambda>x_mutationId.
     and_then (ListMutations_done U q) (\<lambda>x_done.
     and_then (ListMutations_failed U q) (\<lambda>x_failed.
     Inr \<lparr>mq_NodeId = x_nodeId, mq_Database = x_database, mq_Table = x_table, mq_MutationId = x_mutationId,
       mq_Done = x_done, mq_Failed = x_failed\<rparr>))))))"

definition ListNodes_nodeId :: "uri_env \<Rightarrow> string \<Rightarrow> param_error + string option" where
  "ListNodes_nodeId U q = query_optional U q ''nodeId'' (to_string U)"

definition decodeListNodesParams ::
  "uri_env \<Rightarrow> string \<Rightarrow> param_error + string option" where
  "decodeListNodesParams U q =
     and_then (ListNodes_nodeId U q) (\<lambda>x_nodeId.
     Inr x_nodeId)"

definition ListOperations_kind :: "uri_env \<Rightarrow> string \<Rightarrow> param_error + string option" where
  "ListOperations_kind U q = query_checked U q ''kind'' (to_string U) OperationKind_Validate"

definition ListOperations_nodeId :: "uri_env \<Rightarrow> string \<Rightarrow> param_error + string option" where
  "ListOperations_nodeId U q = query_optional U q ''nodeId'' (to_string U)"

definition ListOperations_database :: "uri_env \<Rightarrow> string \<Rightarrow> param_error + string option" where
  "ListOperations_database U q = query_optional U q ''database'' (to_string U)"

definition ListOperations_table :: "uri_env \<Rightarrow> string \<Rightarrow> param_error + string option" where
  "ListOperations_table U q = query_optional U q ''table'' (to_string U)"

definition ListOperations_partitionId ::
  "uri_env \<Rightarrow> string \<Rightarrow> param_error + string option" where
  "ListOperations_partitionId U q = query_optional U q ''partitionId'' (to_string U)"

definition decodeListOperationsParams ::
  "uri_env \<Rightarrow> string \<Rightarrow> param_error + operation_params" where
  "decodeListOperationsParams U q =
     and_then (ListOperations_kind U q) (\<lambda>x_kind.
     and_then (ListOperations_nodeId U q) (\<lambda>x_nodeId.
     and_then (ListOperations_database U q) (\<lambda>x_database.
     and_then (ListOperations_table U q) (\<lambda>x_table.
     and_then (ListOperations_partitionId U q) (\<lambda>x_partitionId.
     Inr \<lparr>oq_Kind = x_kind, oq_NodeId = x_nodeId, oq_Database = x_database, oq_Table = x_table,
       oq_PartitionId = x_partitionId\<rparr>)))))"

definition ListPartEvents_nodeId :: "uri_env \<Rightarrow> string \<Rightarrow> param_error + string option" where
  "ListPartEvents_nodeId U q = query_optional U q ''nodeId'' (to_string U)"

definition ListPartEvents_database :: "uri_env \<Rightarrow> string \<Rightarrow> param_error + string option" where
  "ListPartEvents_database U q = query_optional U q ''database'' (to_string U)"

definition ListPartEvents_table :: "uri_env \<Rightarrow> string \<Rightarrow> param_error + string option" where
  "ListPartEvents_table U q = query_optional U q ''table'' (to_string U)"

definition ListPartEvents_partitionId ::
  "uri_env \<Rightarrow> string \<Rightarrow> param_error + string option" where
  "ListPartEvents_partitionId U q = query_optional U q ''partitionId'' (to_string U)"

definition ListPartEvents_partName :: "uri_env \<Rightarrow> string \<Rightarrow> param_error + string option" where
  "ListPartEvents_partName U q = query_optional U q ''partName'' (to_string U)"

definition ListPartEvents_eventType :: "uri_env \<Rightarrow> string \<Rightarrow> param_error + string option" where
  "ListPartEvents_eventType U q = query_optional U q ''eventType'' (to_string U)"

definition ListPartEvents_from :: "uri_env \<Rightarrow> string \<Rightarrow> param_error + gtime option" where
  "ListPartEvents_from U q = query_optional U q ''from'' (to_time U)"

definition ListPartEvents_to :: "uri_env \<Rightarrow> string \<Rightarrow> param_error + gtime option" where
  "ListPartEvents_to U q = query_optional U q ''to'' (to_time U)"

definition decodeListPartEventsParams ::
  "uri_env \<Rightarrow> string \<Rightarrow> param_error + event_params" where
  "decodeListPartEventsParams U q =
     and_then (ListPartEvents_nodeId U q) (\<lambda>x_nodeId.
     and_then (ListPartEvents_database U q) (\<lambda>x_database.
     and_then (ListPartEvents_table U q) (\<lambda>x_table.
     and_then (ListPartEvents_partitionId U q) (\<lambda>x_partitionId.
     and_then (ListPartEvents_partName U q) (\<lambda>x_partName.
     and_then (ListPartEvents_eventType U q) (\<lambda>x_eventType.
     and_then (ListPartEvents_from U q) (\<lambda>x_from.
     and_then (ListPartEvents_to U q) (\<lambda>x_to.
     Inr \<lparr>vq_From = x_from, vq_To = x_to, vq_NodeId = x_nodeId, vq_Database = x_database, vq_Table = x_table,
       vq_PartitionId = x_partitionId, vq_PartName = x_partName, vq_EventType = x_eventType\<rparr>))))))))"

definition ListReplicationQueue_nodeId ::
  "uri_env \<Rightarrow> string \<Rightarrow> param_error + string option" where
  "ListReplicationQueue_nodeId U q = query_optional U q ''nodeId'' (to_string U)"

definition ListReplicationQueue_database ::
  "uri_env \<Rightarrow> string \<Rightarrow> param_error + string option" where
  "ListReplicationQueue_database U q = query_optional U q ''database'' (to_string U)"

definition ListReplicationQueue_table ::
  "uri_env \<Rightarrow> string \<Rightarrow> param_error + string option" where
  "ListReplicationQueue_table U q = query_optional U q ''table'' (to_string U)"

definition ListReplicationQueue_type :: "uri_env \<Rightarrow> string \<Rightarrow> param_error + string option" where
  "ListReplicationQueue_type U q = query_optional U q ''type'' (to_string U)"

definition ListReplicationQueue_currentlyExecuting ::
  "uri_env \<Rightarrow> string \<Rightarrow> param_error + bool option" where
  "ListReplicationQueue_currentlyExecuting U q = query_optional U q ''currentlyExecuting'' (to_bool U)"

definition ListReplicationQueue_hasException ::
  "uri_env \<Rightarrow> string \<Rightarrow> param_error + bool option" where
  "ListReplicationQueue_hasException U q = query_optional U q ''hasException'' (to_bool U)"

definition decodeListReplicationQueueParams ::
  "uri_env \<Rightarrow> string \<Rightarrow> param_error + queue_params" where
  "decodeListReplicationQueueParams U q =
     and_then (ListReplicationQueue_nodeId U q) (\<lambda>x_nodeId.
     and_then (ListReplicationQueue_database U q) (\<lambda>x_database.
     and_then (ListReplicationQueue_table U q) (\<lambda>x_table.
     and_then (ListReplicationQueue_type U q) (\<lambda>x_type.
     and_then (ListReplicationQueue_currentlyExecuting U q) (\<lambda>x_currentlyExecuting.
     and_then (ListReplicationQueue_hasException U q) (\<lambda>x_hasException.
     Inr \<lparr>uq_NodeId = x_nodeId, uq_Database = x_database, uq_Table = x_table, uq_Type = x_type,
       uq_CurrentlyExecuting = x_currentlyExecuting, uq_HasException = x_hasException\<rparr>))))))"

definition ListStorageDisks_nodeId :: "uri_env \<Rightarrow> string \<Rightarrow> param_error + string option" where
  "ListStorageDisks_nodeId U q = query_optional U q ''nodeId'' (to_string U)"

definition ListStorageDisks_disk :: "uri_env \<Rightarrow> string \<Rightarrow> param_error + string option" where
  "ListStorageDisks_disk U q = query_optional U q ''disk'' (to_string U)"

definition ListStorageDisks_type :: "uri_env \<Rightarrow> string \<Rightarrow> param_error + string option" where
  "ListStorageDisks_type U q = query_optional U q ''type'' (to_string U)"

definition ListStorageDisks_broken :: "uri_env \<Rightarrow> string \<Rightarrow> param_error + bool option" where
  "ListStorageDisks_broken U q = query_optional U q ''broken'' (to_bool U)"

definition decodeListStorageDisksParams ::
  "uri_env \<Rightarrow> string \<Rightarrow> param_error + disk_params" where
  "decodeListStorageDisksParams U q =
     and_then (ListStorageDisks_nodeId U q) (\<lambda>x_nodeId.
     and_then (ListStorageDisks_disk U q) (\<lambda>x_disk.
     and_then (ListStorageDisks_type U q) (\<lambda>x_type.
     and_then (ListStorageDisks_broken U q) (\<lambda>x_broken.
     Inr \<lparr>dq_NodeId = x_nodeId, dq_Disk = x_disk, dq_Type = x_type, dq_Broken = x_broken\<rparr>))))"

definition ListTableColumns_database ::
  "uri_env \<Rightarrow> bool \<Rightarrow> string list \<Rightarrow> param_error + string" where
  "ListTableColumns_database U argsEscaped args = path_required U argsEscaped (args ! 0) ''database''"

definition ListTableColumns_table ::
  "uri_env \<Rightarrow> bool \<Rightarrow> string list \<Rightarrow> param_error + string" where
  "ListTableColumns_table U argsEscaped args = path_required U argsEscaped (args ! 1) ''table''"

definition ListTableColumns_nodeId :: "uri_env \<Rightarrow> string \<Rightarrow> param_error + string option" where
  "ListTableColumns_nodeId U q = query_optional U q ''nodeId'' (to_string U)"

definition ListTableColumns_kind :: "uri_env \<Rightarrow> string \<Rightarrow> param_error + string option" where
  "ListTableColumns_kind U q = query_optional U q ''kind'' (to_string U)"

definition ListTableColumns_name :: "uri_env \<Rightarrow> string \<Rightarrow> param_error + string option" where
  "ListTableColumns_name U q = query_optional U q ''name'' (to_string U)"

definition decodeListTableColumnsParams ::
  "uri_env \<Rightarrow> bool \<Rightarrow> string list \<Rightarrow> string \<Rightarrow> param_error + (string \<times> string \<times> string option \<times> string option \<times> string option)" where
  "decodeListTableColumnsParams U argsEscaped args q =
     and_then (ListTableColumns_database U argsEscaped args) (\<lambda>x_database.
     and_then (ListTableColumns_table U argsEscaped args) (\<lambda>x_table.
     and_then (ListTableColumns_nodeId U q) (\<lambda>x_nodeId.
     and_then (ListTableColumns_kind U q) (\<lambda>x_kind.
     and_then (ListTableColumns_name U q) (\<lambda>x_name.
     Inr (x_database, x_table, x_nodeId, x_kind, x_name))))))"

definition ListTablePartitions_database ::
  "uri_env \<Rightarrow> bool \<Rightarrow> string list \<Rightarrow> param_error + string" where
  "ListTablePartitions_database U argsEscaped args = path_required U argsEscaped (args ! 0) ''database''"

definition ListTablePartitions_table ::
  "uri_env \<Rightarrow> bool \<Rightarrow> string list \<Rightarrow> param_error + string" where
  "ListTablePartitions_table U argsEscaped args = path_required U argsEscaped (args ! 1) ''table''"

definition ListTablePartitions_placement ::
  "uri_env \<Rightarrow> string \<Rightarrow> param_error + string option" where
  "ListTablePartitions_placement U q = query_checked U q ''placement'' (to_string U) Placement_Validate"

definition ListTablePartitions_operation ::
  "uri_env \<Rightarrow> string \<Rightarrow> param_error + string option" where
  "ListTablePartitions_operation U q = query_optional U q ''operation'' (to_string U)"

definition ListTablePartitions_disk :: "uri_env \<Rightarrow> string \<Rightarrow> param_error + string option" where
  "ListTablePartitions_disk U q = query_optional U q ''disk'' (to_string U)"

definition ListTablePartitions_nodeId ::
  "uri_env \<Rightarrow> string \<Rightarrow> param_error + string option" where
  "ListTablePartitions_nodeId U q = query_optional U q ''nodeId'' (to_string U)"

definition ListTablePartitions_shard :: "uri_env \<Rightarrow> string \<Rightarrow> param_error + string option" where
  "ListTablePartitions_shard U q = query_optional U q ''shard'' (to_string U)"

definition ListTablePartitions_replica ::
  "uri_env \<Rightarrow> string \<Rightarrow> param_error + string option" where
  "ListTablePartitions_replica U q = query_optional U q ''replica'' (to_string U)"

definition ListTablePartitions_partitionId ::
  "uri_env \<Rightarrow> string \<Rightarrow> param_error + string option" where
  "ListTablePartitions_partitionId U q = query_optional U q ''partitionId'' (to_string U)"

definition ListTablePartitions_hasConditions ::
  "uri_env \<Rightarrow> string \<Rightarrow> param_error + bool option" where
  "ListTablePartitions_hasConditions U q = query_optional U q ''hasConditions'' (to_bool U)"

definition decodeListTablePartitionsParams ::
  "uri_env \<Rightarrow> bool \<Rightarrow> string list \<Rightarrow> string \<Rightarrow> param_error + (string \<times> string \<times> partition_params)" where
  "decodeListTablePartitionsParams U argsEscaped args q =
     and_then (ListTablePartitions_database U argsEscaped args) (\<lambda>x_database.
     and_then (ListTablePartitions_table U argsEscaped args) (\<lambda>x_table.
     and_then (ListTablePartitions_placement U q) (\<lambda>x_placement.
     and_then (ListTablePartitions_operation U q) (\<lambda>x_operation.
     and_then (ListTablePartitions_disk U q) (\<lambda>x_disk.
     and_then (ListTablePartitions_nodeId U q) (\<lambda>x_nodeId.
     and_then (ListTablePartitions_shard U q) (\<lambda>x_shard.
     and_then (ListTablePartitions_replica U q) (\<lambda>x_replica.
     and_then (ListTablePartitions_partitionId U q) (\<lambda>x_partitionId.
     and_then (ListTablePartitions_hasConditions U q) (\<lambda>x_hasConditions.
     Inr (x_database, x_table, \<lparr>pq_PartitionId = x_partitionId, pq_Placement = x_placement, pq_Disk = x_disk,
       pq_Operation = x_operation, pq_NodeId = x_nodeId, pq_Shard = x_shard, pq_Replica = x_replica,
       pq_HasConditions = x_hasConditions\<rparr>)))))))))))"

definition ListTableParts_database ::
  "uri_env \<Rightarrow> bool \<Rightarrow> string list \<Rightarrow> param_error + string" where
  "ListTableParts_database U argsEscaped args = path_required U argsEscaped (args ! 0) ''database''"

definition ListTableParts_table ::
  "uri_env \<Rightarrow> bool \<Rightarrow> string list \<Rightarrow> param_error + string" where
  "ListTableParts_table U argsEscaped args = path_required U argsEscaped (args ! 1) ''table''"

definition ListTableParts_nodeId :: "uri_env \<Rightarrow> string \<Rightarrow> param_error + string option" where
  "ListTableParts_nodeId U q = query_optional U q ''nodeId'' (to_string U)"

definition ListTableParts_shard :: "uri_env \<Rightarrow> string \<Rightarrow> param_error + string option" where
  "ListTableParts_shard U q = query_optional U q ''shard'' (to_string U)"

definition ListTableParts_replica :: "uri_env \<Rightarrow> string \<Rightarrow> param_error + string option" where
  "ListTableParts_replica U q = query_optional U q ''replica'' (to_string U)"

definition ListTableParts_partitionId ::
  "uri_env \<Rightarrow> string \<Rightarrow> param_error + string option" where
  "ListTableParts_partitionId U q = query_optional U q ''partitionId'' (to_string U)"

definition ListTableParts_partName :: "uri_env \<Rightarrow> string \<Rightarrow> param_error + string option" where
  "ListTableParts_partName U q = query_optional U q ''partName'' (to_string U)"

definition ListTableParts_disk :: "uri_env \<Rightarrow> string \<Rightarrow> param_error + string option" where
  "ListTableParts_disk U q = query_optional U q ''disk'' (to_string U)"

definition ListTableParts_active :: "uri_env \<Rightarrow> string \<Rightarrow> param_error + bool option" where
  "ListTableParts_active U q = query_optional U q ''active'' (to_bool U)"

definition ListTableParts_minBytesOnDisk ::
  "uri_env \<Rightarrow> string \<Rightarrow> param_error + string option" where
  "ListTableParts_minBytesOnDisk U q = query_checked U q ''minBytesOnDisk'' (to_string U) UInt64String_Validate"

definition ListTableParts_maxBytesOnDisk ::
  "uri_env \<Rightarrow> string \<Rightarrow> param_error + string option" where
  "ListTableParts_maxBytesOnDisk U q = query_checked U q ''maxBytesOnDisk'' (to_string U) UInt64String_Validate"

definition decodeListTablePartsParams ::
  "uri_env \<Rightarrow> bool \<Rightarrow> string list \<Rightarrow> string \<Rightarrow> param_error + (string \<times> string \<times> part_params)" where
  "decodeListTablePartsParams U argsEscaped args q =
     and_then (ListTableParts_database U argsEscaped args) (\<lambda>x_database.
     and_then (ListTableParts_table U argsEscaped args) (\<lambda>x_table.
     and_then (ListTableParts_nodeId U q) (\<lambda>x_nodeId.
     and_then (ListTableParts_shard U q) (\<lambda>x_shard.
     and_then (ListTableParts_replica U q) (\<lambda>x_replica.
     and_then (ListTableParts_partitionId U q) (\<lambda>x_partitionId.
     and_then (ListTableParts_partName U q) (\<lambda>x_partName.
     and_then (ListTableParts_disk U q) (\<lambda>x_disk.
     and_then (ListTableParts_active U q) (\<lambda>x_active.
     and_then (ListTableParts_minBytesOnDisk U q) (\<lambda>x_minBytesOnDisk.
     and_then (ListTableParts_maxBytesOnDisk U q) (\<lambda>x_maxBytesOnDisk.
     Inr (x_database, x_table, \<lparr>aq_NodeId = x_nodeId, aq_Shard = x_shard, aq_Replica = x_replica,
       aq_PartitionId = x_partitionId, aq_PartName = x_partName, aq_Disk = x_disk, aq_Active = x_active,
       aq_MinBytesOnDisk = x_minBytesOnDisk, aq_MaxBytesOnDisk = x_maxBytesOnDisk\<rparr>))))))))))))"

definition ListTables_database :: "uri_env \<Rightarrow> string \<Rightarrow> param_error + string option" where
  "ListTables_database U q = query_optional U q ''database'' (to_string U)"

definition ListTables_table :: "uri_env \<Rightarrow> string \<Rightarrow> param_error + string option" where
  "ListTables_table U q = query_optional U q ''table'' (to_string U)"

definition ListTables_engine :: "uri_env \<Rightarrow> string \<Rightarrow> param_error + string option" where
  "ListTables_engine U q = query_optional U q ''engine'' (to_string U)"

definition ListTables_storagePolicy :: "uri_env \<Rightarrow> string \<Rightarrow> param_error + string option" where
  "ListTables_storagePolicy U q = query_optional U q ''storagePolicy'' (to_string U)"

definition ListTables_hasPartitions :: "uri_env \<Rightarrow> string \<Rightarrow> param_error + bool option" where
  "ListTables_hasPartitions U q = query_optional U q ''hasPartitions'' (to_bool U)"

definition ListTables_hasConditions :: "uri_env \<Rightarrow> string \<Rightarrow> param_error + bool option" where
  "ListTables_hasConditions U q = query_optional U q ''hasConditions'' (to_bool U)"

definition decodeListTablesParams ::
  "uri_env \<Rightarrow> string \<Rightarrow> param_error + table_params" where
  "decodeListTablesParams U q =
     and_then (ListTables_database U q) (\<lambda>x_database.
     and_then (ListTables_table U q) (\<lambda>x_table.
     and_then (ListTables_engine U q) (\<lambda>x_engine.
     and_then (ListTables_storagePolicy U q) (\<lambda>x_storagePolicy.
     and_then (ListTables_hasPartitions U q) (\<lambda>x_hasPartitions.
     and_then (ListTables_hasConditions U q) (\<lambda>x_hasConditions.
     Inr \<lparr>tq_Database = x_database, tq_Table = x_table, tq_Engine = x_engine,
       tq_StoragePolicy = x_storagePolicy, tq_HasPartitions = x_hasPartitions,
       tq_HasConditions = x_hasConditions\<rparr>))))))"

definition RetryTieringPartition_database ::
  "uri_env \<Rightarrow> bool \<Rightarrow> string list \<Rightarrow> param_error + string" where
  "RetryTieringPartition_database U argsEscaped args = path_required U argsEscaped (args ! 0) ''database''"

definition RetryTieringPartition_table ::
  "uri_env \<Rightarrow> bool \<Rightarrow> string list \<Rightarrow> param_error + string" where
  "RetryTieringPartition_table U argsEscaped args = path_required U argsEscaped (args ! 1) ''table''"

definition RetryTieringPartition_partitionId ::
  "uri_env \<Rightarrow> bool \<Rightarrow> string list \<Rightarrow> param_error + string" where
  "RetryTieringPartition_partitionId U argsEscaped args = path_required U argsEscaped (args ! 2) ''partitionId''"

definition RetryTieringPartition_nodeId :: "uri_env \<Rightarrow> string \<Rightarrow> param_error + string" where
  "RetryTieringPartition_nodeId U q = query_required U q ''nodeId'' (to_string U)"

definition decodeRetryTieringPartitionParams ::
  "uri_env \<Rightarrow> bool \<Rightarrow> string list \<Rightarrow> string \<Rightarrow> param_error + (string \<times> string \<times> string \<times> string)" where
  "decodeRetryTieringPartitionParams U argsEscaped args q =
     and_then (RetryTieringPartition_database U argsEscaped args) (\<lambda>x_database.
     and_then (RetryTieringPartition_table U argsEscaped args) (\<lambda>x_table.
     and_then (RetryTieringPartition_partitionId U argsEscaped args) (\<lambda>x_partitionId.
     and_then (RetryTieringPartition_nodeId U q) (\<lambda>x_nodeId.
     Inr (x_database, x_table, x_partitionId, x_nodeId)))))"

section \<open>The request body of an action\<close>

text \<open>
  What the decoder sees of a request: its content type (\<open>None\<close> when it does not parse), its declared length, the
  body as it reads (\<open>None\<close> when reading fails) and the document in it (\<open>None\<close> when the bytes are not one document).
  Closing the body is not part of the model.
\<close>

datatype request_error = BadMediaType | BodyRequired | BodyUnreadable | DecodeBodyError "jerr option" | InvalidContentType string

record request_body =
  rb_ContentType :: "string option"
  rb_ContentLength :: int
  rb_Read :: "string option"
  rb_Document :: "jx option"

definition decodeApplyTieringPartitionRequest ::
  "jx_env \<Rightarrow> request_body \<Rightarrow> request_error + string" where
  "decodeApplyTieringPartitionRequest J b =
     (case rb_ContentType b of
        None \<Rightarrow> Inl BadMediaType
      | Some ct \<Rightarrow>
          if ct = ''application/json'' then
            if rb_ContentLength b = 0 then Inl BodyRequired
            else (case rb_Read b of
              None \<Rightarrow> Inl BodyUnreadable
            | Some buf \<Rightarrow>
                if length buf = 0 then Inl BodyRequired
                else (case rb_Document b of
                  None \<Rightarrow> Inl (DecodeBodyError None)
                | Some v \<Rightarrow> (case TieringApplyRequest_Decode J v of
                    Inl e \<Rightarrow> Inl (DecodeBodyError (Some e))
                  | Inr request \<Rightarrow> Inr request)))
          else Inl (InvalidContentType ct))"

definition decodeRetryTieringPartitionRequest ::
  "jx_env \<Rightarrow> request_body \<Rightarrow> request_error + string" where
  "decodeRetryTieringPartitionRequest J b =
     (case rb_ContentType b of
        None \<Rightarrow> Inl BadMediaType
      | Some ct \<Rightarrow>
          if ct = ''application/json'' then
            if rb_ContentLength b = 0 then Inl BodyRequired
            else (case rb_Read b of
              None \<Rightarrow> Inl BodyUnreadable
            | Some buf \<Rightarrow>
                if length buf = 0 then Inl BodyRequired
                else (case rb_Document b of
                  None \<Rightarrow> Inl (DecodeBodyError None)
                | Some v \<Rightarrow> (case TieringApplyRequest_Decode J v of
                    Inl e \<Rightarrow> Inl (DecodeBodyError (Some e))
                  | Inr request \<Rightarrow> Inr request)))
          else Inl (InvalidContentType ct))"

end
