(* ===== verification/RestCodec.thy ===== *)
theory RestCodec
  imports RestScalars Handlers
begin

text \<open>
  Codecs of the envelope, conditions, nodes, disks and tables (\<open>api/rest/oas_json_gen.go\<close>): for each struct the
  fields its encoder writes in order, the branch its decoder takes for each field name, the fields it requires, and
  the decoder. \<open>T_ok\<close> says what a value must satisfy for its document to carry it: times and URLs that survive
  their text, numbers in range, maps without repeated keys. The round trip of each type is \<open>T_roundtrip\<close>.
\<close>

definition url_zero :: go_url where
  "url_zero = \<lparr>url_Scheme = '''', url_Opaque = '''', url_Host = '''', url_Rest = ''''\<rparr>"

section \<open>Envelope and conditions\<close>

definition CollectionWarning_zero :: "CollectionWarning" where
  "CollectionWarning_zero = \<lparr>cwn_Kind = '''', cwn_Code = '''', cwn_Message = no_text, cwn_NodeId = None\<rparr>"

definition CollectionWarning_encodeFields ::
  "jx_env \<Rightarrow> CollectionWarning \<Rightarrow> (string \<times> jx) list" where
  "CollectionWarning_encodeFields J s =
     field ''kind'' (WarningKind_Encode (cwn_Kind s))
     @ field ''code'' (JStr (cwn_Code s))
     @ field ''message'' (JText (cwn_Message s))
     @ field_set ''nodeId'' (OptString_Encode JStr (cwn_NodeId s))"

definition CollectionWarning_Encode :: "jx_env \<Rightarrow> CollectionWarning \<Rightarrow> jx" where
  "CollectionWarning_Encode J s = JObj (CollectionWarning_encodeFields J s)"

definition CollectionWarning_decodeField ::
  "jx_env \<Rightarrow> string \<Rightarrow> jx \<Rightarrow> CollectionWarning \<times> nat set \<Rightarrow> jerr + CollectionWarning \<times> nat set" where
  "CollectionWarning_decodeField J k v st = (case st of (s, b) \<Rightarrow>
     if k = ''kind'' then put_field k (\<lambda>x. (s\<lparr>cwn_Kind := x\<rparr>, insert 0 b)) (WarningKind_Decode J v)
     else if k = ''code'' then put_field k (\<lambda>x. (s\<lparr>cwn_Code := x\<rparr>, insert 1 b)) (read_str J v)
     else if k = ''message'' then put_field k (\<lambda>x. (s\<lparr>cwn_Message := x\<rparr>, insert 2 b)) (read_text J v)
     else if k = ''nodeId'' then put_field k (\<lambda>x. (s\<lparr>cwn_NodeId := x\<rparr>, b)) (OptString_Decode (read_str J) v)
     else Inl (JUnexpectedField k))"

definition CollectionWarning_required :: "(nat \<times> string) list" where
  "CollectionWarning_required = [(0, ''kind''), (1, ''code''), (2, ''message'')]"

definition CollectionWarning_Decode :: "jx_env \<Rightarrow> jx \<Rightarrow> jerr + CollectionWarning" where
  "CollectionWarning_Decode J =
     dec_obj ''CollectionWarning'' (CollectionWarning_decodeField J) CollectionWarning_required CollectionWarning_zero"

lemma CollectionWarning_steps:
  "obj_fold (CollectionWarning_decodeField J) (field ''kind'' (WarningKind_Encode a0)) (s, b)
     = Inr (s\<lparr>cwn_Kind := a0\<rparr>, insert 0 b)"
  "obj_fold (CollectionWarning_decodeField J) (field ''code'' (JStr a1)) (s, b)
     = Inr (s\<lparr>cwn_Code := a1\<rparr>, insert 1 b)"
  "obj_fold (CollectionWarning_decodeField J) (field ''message'' (JText a2)) (s, b)
     = Inr (s\<lparr>cwn_Message := a2\<rparr>, insert 2 b)"
  by (simp_all add: obj_fold_field CollectionWarning_decodeField_def)

lemma CollectionWarning_set_steps:
  "cwn_NodeId s = None \<Longrightarrow>
   obj_fold (CollectionWarning_decodeField J) (field_set ''nodeId'' (OptString_Encode JStr a3)) (s, b)
     = Inr (s\<lparr>cwn_NodeId := a3\<rparr>, b)"
  by (auto simp: obj_fold_set CollectionWarning_decodeField_def set_codec split: option.split optnil.split)

lemma CollectionWarning_roundtrip [codec]: "CollectionWarning_Decode J (CollectionWarning_Encode J x) = Inr x"
by (cases x) (simp add: CollectionWarning_Encode_def CollectionWarning_encodeFields_def
    CollectionWarning_Decode_def dec_obj_def CollectionWarning_steps CollectionWarning_set_steps
    CollectionWarning_required_def CollectionWarning_zero_def)

lemma CollectionWarning_list [codec]:
  "read_arr (CollectionWarning_Decode J) (write_arr (CollectionWarning_Encode J) xs) = Inr xs"
  by (rule read_arr_write) (simp add: codec list.pred_True)

definition CollectionMeta_zero :: "CollectionMeta" where
  "CollectionMeta_zero = \<lparr>cm_CollectedAt = zero_time, cm_Partial = False, cm_CollectionDurationMs = 0, cm_NodesExpected = 0,
     cm_NodesResponded = 0, cm_NodesFailed = 0, cm_Warnings = []\<rparr>"

definition CollectionMeta_encodeFields ::
  "jx_env \<Rightarrow> CollectionMeta \<Rightarrow> (string \<times> jx) list" where
  "CollectionMeta_encodeFields J s =
     field ''collectedAt'' (write_time J (cm_CollectedAt s))
     @ field ''partial'' (JBool (cm_Partial s))
     @ field ''collectionDurationMs'' (write_int (cm_CollectionDurationMs s))
     @ field ''nodesExpected'' (write_int (cm_NodesExpected s))
     @ field ''nodesResponded'' (write_int (cm_NodesResponded s))
     @ field ''nodesFailed'' (write_int (cm_NodesFailed s))
     @ field ''warnings'' (write_arr (CollectionWarning_Encode J) (cm_Warnings s))"

definition CollectionMeta_Encode :: "jx_env \<Rightarrow> CollectionMeta \<Rightarrow> jx" where
  "CollectionMeta_Encode J s = JObj (CollectionMeta_encodeFields J s)"

definition CollectionMeta_decodeField ::
  "jx_env \<Rightarrow> string \<Rightarrow> jx \<Rightarrow> CollectionMeta \<times> nat set \<Rightarrow> jerr + CollectionMeta \<times> nat set" where
  "CollectionMeta_decodeField J k v st = (case st of (s, b) \<Rightarrow>
     if k = ''collectedAt'' then put_field k (\<lambda>x. (s\<lparr>cm_CollectedAt := x\<rparr>, insert 0 b)) (read_time J v)
     else if k = ''partial'' then put_field k (\<lambda>x. (s\<lparr>cm_Partial := x\<rparr>, insert 1 b)) (read_bool J v)
     else if k = ''collectionDurationMs'' then put_field k (\<lambda>x. (s\<lparr>cm_CollectionDurationMs := x\<rparr>, insert 2 b)) (read_int J v)
     else if k = ''nodesExpected'' then put_field k (\<lambda>x. (s\<lparr>cm_NodesExpected := x\<rparr>, insert 3 b)) (read_int J v)
     else if k = ''nodesResponded'' then put_field k (\<lambda>x. (s\<lparr>cm_NodesResponded := x\<rparr>, insert 4 b)) (read_int J v)
     else if k = ''nodesFailed'' then put_field k (\<lambda>x. (s\<lparr>cm_NodesFailed := x\<rparr>, insert 5 b)) (read_int J v)
     else if k = ''warnings'' then put_field k (\<lambda>x. (s\<lparr>cm_Warnings := x\<rparr>, insert 6 b)) (read_arr (CollectionWarning_Decode J) v)
     else Inl (JUnexpectedField k))"

definition CollectionMeta_required :: "(nat \<times> string) list" where
  "CollectionMeta_required = [(0, ''collectedAt''), (1, ''partial''), (2, ''collectionDurationMs''), (3, ''nodesExpected''), (4,
    ''nodesResponded''), (5, ''nodesFailed''), (6, ''warnings'')]"

definition CollectionMeta_Decode :: "jx_env \<Rightarrow> jx \<Rightarrow> jerr + CollectionMeta" where
  "CollectionMeta_Decode J =
     dec_obj ''CollectionMeta'' (CollectionMeta_decodeField J) CollectionMeta_required CollectionMeta_zero"

definition CollectionMeta_ok :: "jx_env \<Rightarrow> CollectionMeta \<Rightarrow> bool" where
  "CollectionMeta_ok J s \<longleftrightarrow> time_ok J (cm_CollectedAt s) \<and> in_i64 (cm_CollectionDurationMs s) \<and> in_i64 (cm_NodesExpected s) \<and>
     in_i64 (cm_NodesResponded s) \<and> in_i64 (cm_NodesFailed s)"

lemma CollectionMeta_steps:
  "time_ok J a0 \<Longrightarrow>
   obj_fold (CollectionMeta_decodeField J) (field ''collectedAt'' (write_time J a0)) (s, b)
     = Inr (s\<lparr>cm_CollectedAt := a0\<rparr>, insert 0 b)"
  "obj_fold (CollectionMeta_decodeField J) (field ''partial'' (JBool a1)) (s, b)
     = Inr (s\<lparr>cm_Partial := a1\<rparr>, insert 1 b)"
  "in_i64 a2 \<Longrightarrow>
   obj_fold (CollectionMeta_decodeField J) (field ''collectionDurationMs'' (write_int a2)) (s, b)
     = Inr (s\<lparr>cm_CollectionDurationMs := a2\<rparr>, insert 2 b)"
  "in_i64 a3 \<Longrightarrow>
   obj_fold (CollectionMeta_decodeField J) (field ''nodesExpected'' (write_int a3)) (s, b)
     = Inr (s\<lparr>cm_NodesExpected := a3\<rparr>, insert 3 b)"
  "in_i64 a4 \<Longrightarrow>
   obj_fold (CollectionMeta_decodeField J) (field ''nodesResponded'' (write_int a4)) (s, b)
     = Inr (s\<lparr>cm_NodesResponded := a4\<rparr>, insert 4 b)"
  "in_i64 a5 \<Longrightarrow>
   obj_fold (CollectionMeta_decodeField J) (field ''nodesFailed'' (write_int a5)) (s, b)
     = Inr (s\<lparr>cm_NodesFailed := a5\<rparr>, insert 5 b)"
  "obj_fold (CollectionMeta_decodeField J) (field ''warnings'' (write_arr (CollectionWarning_Encode J) a6)) (s, b)
     = Inr (s\<lparr>cm_Warnings := a6\<rparr>, insert 6 b)"
  by (simp_all add: obj_fold_field CollectionMeta_decodeField_def CollectionWarning_list)

lemma CollectionMeta_roundtrip [codec]:
  "CollectionMeta_ok J x \<Longrightarrow> CollectionMeta_Decode J (CollectionMeta_Encode J x) = Inr x"
by (cases x) (simp add: CollectionMeta_Encode_def CollectionMeta_encodeFields_def CollectionMeta_Decode_def
    dec_obj_def CollectionMeta_steps CollectionMeta_required_def CollectionMeta_zero_def CollectionMeta_ok_def)

lemma CollectionMeta_list [codec]:
  "list_all (CollectionMeta_ok J) xs \<Longrightarrow> read_arr (CollectionMeta_Decode J) (write_arr (CollectionMeta_Encode J) xs) = Inr xs"
  by (rule read_arr_write) (auto simp: codec elim!: list.pred_mono_strong)

definition EmbeddedCondition_zero :: "EmbeddedCondition" where
  "EmbeddedCondition_zero = \<lparr>ec_Code = '''', ec_Severity = '''', ec_Message = None, ec_Count = None, ec_Evidence = None\<rparr>"

definition EmbeddedCondition_encodeFields ::
  "jx_env \<Rightarrow> EmbeddedCondition \<Rightarrow> (string \<times> jx) list" where
  "EmbeddedCondition_encodeFields J s =
     field ''code'' (JStr (ec_Code s))
     @ field ''severity'' (Severity_Encode (ec_Severity s))
     @ field_set ''message'' (OptString_Encode JText (ec_Message s))
     @ field_set ''count'' (OptInt_Encode (ec_Count s))
     @ field_set ''evidence'' (OptEvidence_Encode (ec_Evidence s))"

definition EmbeddedCondition_Encode :: "jx_env \<Rightarrow> EmbeddedCondition \<Rightarrow> jx" where
  "EmbeddedCondition_Encode J s = JObj (EmbeddedCondition_encodeFields J s)"

definition EmbeddedCondition_decodeField ::
  "jx_env \<Rightarrow> string \<Rightarrow> jx \<Rightarrow> EmbeddedCondition \<times> nat set \<Rightarrow> jerr + EmbeddedCondition \<times> nat set" where
  "EmbeddedCondition_decodeField J k v st = (case st of (s, b) \<Rightarrow>
     if k = ''code'' then put_field k (\<lambda>x. (s\<lparr>ec_Code := x\<rparr>, insert 0 b)) (read_str J v)
     else if k = ''severity'' then put_field k (\<lambda>x. (s\<lparr>ec_Severity := x\<rparr>, insert 1 b)) (Severity_Decode J v)
     else if k = ''message'' then put_field k (\<lambda>x. (s\<lparr>ec_Message := x\<rparr>, b)) (OptString_Decode (read_text J) v)
     else if k = ''count'' then put_field k (\<lambda>x. (s\<lparr>ec_Count := x\<rparr>, b)) (OptInt_Decode J v)
     else if k = ''evidence'' then put_field k (\<lambda>x. (s\<lparr>ec_Evidence := x\<rparr>, b)) (OptEvidence_Decode J v)
     else Inl (JUnexpectedField k))"

definition EmbeddedCondition_required :: "(nat \<times> string) list" where
  "EmbeddedCondition_required = [(0, ''code''), (1, ''severity'')]"

definition EmbeddedCondition_Decode :: "jx_env \<Rightarrow> jx \<Rightarrow> jerr + EmbeddedCondition" where
  "EmbeddedCondition_Decode J =
     dec_obj ''EmbeddedCondition'' (EmbeddedCondition_decodeField J) EmbeddedCondition_required EmbeddedCondition_zero"

definition EmbeddedCondition_ok :: "jx_env \<Rightarrow> EmbeddedCondition \<Rightarrow> bool" where
  "EmbeddedCondition_ok J s \<longleftrightarrow> pred_option in_i64 (ec_Count s) \<and> pred_option amap_ok (ec_Evidence s)"

lemma EmbeddedCondition_steps:
  "obj_fold (EmbeddedCondition_decodeField J) (field ''code'' (JStr a0)) (s, b)
     = Inr (s\<lparr>ec_Code := a0\<rparr>, insert 0 b)"
  "obj_fold (EmbeddedCondition_decodeField J) (field ''severity'' (Severity_Encode a1)) (s, b)
     = Inr (s\<lparr>ec_Severity := a1\<rparr>, insert 1 b)"
  by (simp_all add: obj_fold_field EmbeddedCondition_decodeField_def)

lemma EmbeddedCondition_set_steps:
  "ec_Message s = None \<Longrightarrow>
   obj_fold (EmbeddedCondition_decodeField J) (field_set ''message'' (OptString_Encode JText a2)) (s, b)
     = Inr (s\<lparr>ec_Message := a2\<rparr>, b)"
  "ec_Count s = None \<Longrightarrow> pred_option in_i64 a3 \<Longrightarrow>
   obj_fold (EmbeddedCondition_decodeField J) (field_set ''count'' (OptInt_Encode a3)) (s, b)
     = Inr (s\<lparr>ec_Count := a3\<rparr>, b)"
  "ec_Evidence s = None \<Longrightarrow> pred_option amap_ok a4 \<Longrightarrow>
   obj_fold (EmbeddedCondition_decodeField J) (field_set ''evidence'' (OptEvidence_Encode a4)) (s, b)
     = Inr (s\<lparr>ec_Evidence := a4\<rparr>, b)"
  by (auto simp: obj_fold_set EmbeddedCondition_decodeField_def set_codec split: option.split optnil.split)

lemma EmbeddedCondition_roundtrip [codec]:
  "EmbeddedCondition_ok J x \<Longrightarrow> EmbeddedCondition_Decode J (EmbeddedCondition_Encode J x) = Inr x"
by (cases x) (simp add: EmbeddedCondition_Encode_def EmbeddedCondition_encodeFields_def
    EmbeddedCondition_Decode_def dec_obj_def EmbeddedCondition_steps EmbeddedCondition_set_steps
    EmbeddedCondition_required_def EmbeddedCondition_zero_def EmbeddedCondition_ok_def)

lemma EmbeddedCondition_list [codec]:
  "list_all (EmbeddedCondition_ok J) xs \<Longrightarrow> read_arr (EmbeddedCondition_Decode J) (write_arr (EmbeddedCondition_Encode J) xs) = Inr xs"
  by (rule read_arr_write) (auto simp: codec elim!: list.pred_mono_strong)

definition Condition_zero :: "RestCondition" where
  "Condition_zero = \<lparr>rc_ConditionId = '''', rc_Severity = '''', rc_Code = '''', rc_Message = no_text, rc_Database = OptAbsent,
     rc_Table = OptAbsent, rc_Partition = OptAbsent, rc_PartitionId = OptAbsent, rc_NodeId = OptAbsent,
     rc_ObservedAt = zero_time, rc_Evidence = None, rc_Links = None\<rparr>"

definition Condition_encodeFields ::
  "jx_env \<Rightarrow> RestCondition \<Rightarrow> (string \<times> jx) list" where
  "Condition_encodeFields J s =
     field ''conditionId'' (JStr (rc_ConditionId s))
     @ field ''severity'' (Severity_Encode (rc_Severity s))
     @ field ''code'' (JStr (rc_Code s))
     @ field ''message'' (JText (rc_Message s))
     @ field_set ''database'' (OptNilString_Encode (rc_Database s))
     @ field_set ''table'' (OptNilString_Encode (rc_Table s))
     @ field_set ''partition'' (OptNilString_Encode (rc_Partition s))
     @ field_set ''partitionId'' (OptNilString_Encode (rc_PartitionId s))
     @ field_set ''nodeId'' (OptNilString_Encode (rc_NodeId s))
     @ field ''observedAt'' (write_time J (rc_ObservedAt s))
     @ field_set ''evidence'' (OptEvidence_Encode (rc_Evidence s))
     @ field_set ''links'' (OptLinkMap_Encode (rc_Links s))"

definition Condition_Encode :: "jx_env \<Rightarrow> RestCondition \<Rightarrow> jx" where
  "Condition_Encode J s = JObj (Condition_encodeFields J s)"

definition Condition_decodeField ::
  "jx_env \<Rightarrow> string \<Rightarrow> jx \<Rightarrow> RestCondition \<times> nat set \<Rightarrow> jerr + RestCondition \<times> nat set" where
  "Condition_decodeField J k v st = (case st of (s, b) \<Rightarrow>
     if k = ''conditionId'' then put_field k (\<lambda>x. (s\<lparr>rc_ConditionId := x\<rparr>, insert 0 b)) (read_str J v)
     else if k = ''severity'' then put_field k (\<lambda>x. (s\<lparr>rc_Severity := x\<rparr>, insert 1 b)) (Severity_Decode J v)
     else if k = ''code'' then put_field k (\<lambda>x. (s\<lparr>rc_Code := x\<rparr>, insert 2 b)) (read_str J v)
     else if k = ''message'' then put_field k (\<lambda>x. (s\<lparr>rc_Message := x\<rparr>, insert 3 b)) (read_text J v)
     else if k = ''database'' then put_field k (\<lambda>x. (s\<lparr>rc_Database := x\<rparr>, b)) (OptNilString_Decode J v)
     else if k = ''table'' then put_field k (\<lambda>x. (s\<lparr>rc_Table := x\<rparr>, b)) (OptNilString_Decode J v)
     else if k = ''partition'' then put_field k (\<lambda>x. (s\<lparr>rc_Partition := x\<rparr>, b)) (OptNilString_Decode J v)
     else if k = ''partitionId'' then put_field k (\<lambda>x. (s\<lparr>rc_PartitionId := x\<rparr>, b)) (OptNilString_Decode J v)
     else if k = ''nodeId'' then put_field k (\<lambda>x. (s\<lparr>rc_NodeId := x\<rparr>, b)) (OptNilString_Decode J v)
     else if k = ''observedAt'' then put_field k (\<lambda>x. (s\<lparr>rc_ObservedAt := x\<rparr>, insert 9 b)) (read_time J v)
     else if k = ''evidence'' then put_field k (\<lambda>x. (s\<lparr>rc_Evidence := x\<rparr>, b)) (OptEvidence_Decode J v)
     else if k = ''links'' then put_field k (\<lambda>x. (s\<lparr>rc_Links := x\<rparr>, b)) (OptLinkMap_Decode J v)
     else Inl (JUnexpectedField k))"

definition Condition_required :: "(nat \<times> string) list" where
  "Condition_required = [(0, ''conditionId''), (1, ''severity''), (2, ''code''), (3, ''message''), (9, ''observedAt'')]"

definition Condition_Decode :: "jx_env \<Rightarrow> jx \<Rightarrow> jerr + RestCondition" where
  "Condition_Decode J = dec_obj ''Condition'' (Condition_decodeField J) Condition_required Condition_zero"

definition Condition_ok :: "jx_env \<Rightarrow> RestCondition \<Rightarrow> bool" where
  "Condition_ok J s \<longleftrightarrow> time_ok J (rc_ObservedAt s) \<and> pred_option amap_ok (rc_Evidence s) \<and> pred_option amap_ok (rc_Links s)"

lemma Condition_steps:
  "obj_fold (Condition_decodeField J) (field ''conditionId'' (JStr a0)) (s, b)
     = Inr (s\<lparr>rc_ConditionId := a0\<rparr>, insert 0 b)"
  "obj_fold (Condition_decodeField J) (field ''severity'' (Severity_Encode a1)) (s, b)
     = Inr (s\<lparr>rc_Severity := a1\<rparr>, insert 1 b)"
  "obj_fold (Condition_decodeField J) (field ''code'' (JStr a2)) (s, b) = Inr (s\<lparr>rc_Code := a2\<rparr>, insert 2 b)"
  "obj_fold (Condition_decodeField J) (field ''message'' (JText a3)) (s, b)
     = Inr (s\<lparr>rc_Message := a3\<rparr>, insert 3 b)"
  "time_ok J a9 \<Longrightarrow>
   obj_fold (Condition_decodeField J) (field ''observedAt'' (write_time J a9)) (s, b)
     = Inr (s\<lparr>rc_ObservedAt := a9\<rparr>, insert 9 b)"
  by (simp_all add: obj_fold_field Condition_decodeField_def)

lemma Condition_set_steps:
  "rc_Database s = OptAbsent \<Longrightarrow>
   obj_fold (Condition_decodeField J) (field_set ''database'' (OptNilString_Encode a4)) (s, b)
     = Inr (s\<lparr>rc_Database := a4\<rparr>, b)"
  "rc_Table s = OptAbsent \<Longrightarrow>
   obj_fold (Condition_decodeField J) (field_set ''table'' (OptNilString_Encode a5)) (s, b)
     = Inr (s\<lparr>rc_Table := a5\<rparr>, b)"
  "rc_Partition s = OptAbsent \<Longrightarrow>
   obj_fold (Condition_decodeField J) (field_set ''partition'' (OptNilString_Encode a6)) (s, b)
     = Inr (s\<lparr>rc_Partition := a6\<rparr>, b)"
  "rc_PartitionId s = OptAbsent \<Longrightarrow>
   obj_fold (Condition_decodeField J) (field_set ''partitionId'' (OptNilString_Encode a7)) (s, b)
     = Inr (s\<lparr>rc_PartitionId := a7\<rparr>, b)"
  "rc_NodeId s = OptAbsent \<Longrightarrow>
   obj_fold (Condition_decodeField J) (field_set ''nodeId'' (OptNilString_Encode a8)) (s, b)
     = Inr (s\<lparr>rc_NodeId := a8\<rparr>, b)"
  "rc_Evidence s = None \<Longrightarrow> pred_option amap_ok a10 \<Longrightarrow>
   obj_fold (Condition_decodeField J) (field_set ''evidence'' (OptEvidence_Encode a10)) (s, b)
     = Inr (s\<lparr>rc_Evidence := a10\<rparr>, b)"
  "rc_Links s = None \<Longrightarrow> pred_option amap_ok a11 \<Longrightarrow>
   obj_fold (Condition_decodeField J) (field_set ''links'' (OptLinkMap_Encode a11)) (s, b)
     = Inr (s\<lparr>rc_Links := a11\<rparr>, b)"
  by (auto simp: obj_fold_set Condition_decodeField_def set_codec split: option.split optnil.split)

lemma Condition_roundtrip [codec]:
  "Condition_ok J x \<Longrightarrow> Condition_Decode J (Condition_Encode J x) = Inr x"
by (cases x) (simp add: Condition_Encode_def Condition_encodeFields_def Condition_Decode_def dec_obj_def
    Condition_steps Condition_set_steps Condition_required_def Condition_zero_def Condition_ok_def)

lemma Condition_list [codec]:
  "list_all (Condition_ok J) xs \<Longrightarrow> read_arr (Condition_Decode J) (write_arr (Condition_Encode J) xs) = Inr xs"
  by (rule read_arr_write) (auto simp: codec elim!: list.pred_mono_strong)

definition SeverityCounts_zero :: "SeverityCounts" where
  "SeverityCounts_zero = \<lparr>svc_Critical = 0, svc_Warning = 0, svc_Info = 0\<rparr>"

definition SeverityCounts_encodeFields ::
  "jx_env \<Rightarrow> SeverityCounts \<Rightarrow> (string \<times> jx) list" where
  "SeverityCounts_encodeFields J s =
     field ''critical'' (write_int (svc_Critical s))
     @ field ''warning'' (write_int (svc_Warning s))
     @ field ''info'' (write_int (svc_Info s))"

definition SeverityCounts_Encode :: "jx_env \<Rightarrow> SeverityCounts \<Rightarrow> jx" where
  "SeverityCounts_Encode J s = JObj (SeverityCounts_encodeFields J s)"

definition SeverityCounts_decodeField ::
  "jx_env \<Rightarrow> string \<Rightarrow> jx \<Rightarrow> SeverityCounts \<times> nat set \<Rightarrow> jerr + SeverityCounts \<times> nat set" where
  "SeverityCounts_decodeField J k v st = (case st of (s, b) \<Rightarrow>
     if k = ''critical'' then put_field k (\<lambda>x. (s\<lparr>svc_Critical := x\<rparr>, insert 0 b)) (read_int J v)
     else if k = ''warning'' then put_field k (\<lambda>x. (s\<lparr>svc_Warning := x\<rparr>, insert 1 b)) (read_int J v)
     else if k = ''info'' then put_field k (\<lambda>x. (s\<lparr>svc_Info := x\<rparr>, insert 2 b)) (read_int J v)
     else Inl (JUnexpectedField k))"

definition SeverityCounts_required :: "(nat \<times> string) list" where
  "SeverityCounts_required = [(0, ''critical''), (1, ''warning''), (2, ''info'')]"

definition SeverityCounts_Decode :: "jx_env \<Rightarrow> jx \<Rightarrow> jerr + SeverityCounts" where
  "SeverityCounts_Decode J =
     dec_obj ''SeverityCounts'' (SeverityCounts_decodeField J) SeverityCounts_required SeverityCounts_zero"

definition SeverityCounts_ok :: "jx_env \<Rightarrow> SeverityCounts \<Rightarrow> bool" where
  "SeverityCounts_ok J s \<longleftrightarrow> in_i64 (svc_Critical s) \<and> in_i64 (svc_Warning s) \<and> in_i64 (svc_Info s)"

lemma SeverityCounts_steps:
  "in_i64 a0 \<Longrightarrow>
   obj_fold (SeverityCounts_decodeField J) (field ''critical'' (write_int a0)) (s, b)
     = Inr (s\<lparr>svc_Critical := a0\<rparr>, insert 0 b)"
  "in_i64 a1 \<Longrightarrow>
   obj_fold (SeverityCounts_decodeField J) (field ''warning'' (write_int a1)) (s, b)
     = Inr (s\<lparr>svc_Warning := a1\<rparr>, insert 1 b)"
  "in_i64 a2 \<Longrightarrow>
   obj_fold (SeverityCounts_decodeField J) (field ''info'' (write_int a2)) (s, b)
     = Inr (s\<lparr>svc_Info := a2\<rparr>, insert 2 b)"
  by (simp_all add: obj_fold_field SeverityCounts_decodeField_def)

lemma SeverityCounts_roundtrip [codec]:
  "SeverityCounts_ok J x \<Longrightarrow> SeverityCounts_Decode J (SeverityCounts_Encode J x) = Inr x"
by (cases x) (simp add: SeverityCounts_Encode_def SeverityCounts_encodeFields_def SeverityCounts_Decode_def
    dec_obj_def SeverityCounts_steps SeverityCounts_required_def SeverityCounts_zero_def SeverityCounts_ok_def)

lemma SeverityCounts_list [codec]:
  "list_all (SeverityCounts_ok J) xs \<Longrightarrow> read_arr (SeverityCounts_Decode J) (write_arr (SeverityCounts_Encode J) xs) = Inr xs"
  by (rule read_arr_write) (auto simp: codec elim!: list.pred_mono_strong)

definition ConditionCounts_zero :: "ConditionCounts" where
  "ConditionCounts_zero = \<lparr>cnc_Total = 0, cnc_BySeverity = SeverityCounts_zero\<rparr>"

definition ConditionCounts_encodeFields ::
  "jx_env \<Rightarrow> ConditionCounts \<Rightarrow> (string \<times> jx) list" where
  "ConditionCounts_encodeFields J s =
     field ''total'' (write_int (cnc_Total s))
     @ field ''bySeverity'' (SeverityCounts_Encode J (cnc_BySeverity s))"

definition ConditionCounts_Encode :: "jx_env \<Rightarrow> ConditionCounts \<Rightarrow> jx" where
  "ConditionCounts_Encode J s = JObj (ConditionCounts_encodeFields J s)"

definition ConditionCounts_decodeField ::
  "jx_env \<Rightarrow> string \<Rightarrow> jx \<Rightarrow> ConditionCounts \<times> nat set \<Rightarrow> jerr + ConditionCounts \<times> nat set" where
  "ConditionCounts_decodeField J k v st = (case st of (s, b) \<Rightarrow>
     if k = ''total'' then put_field k (\<lambda>x. (s\<lparr>cnc_Total := x\<rparr>, insert 0 b)) (read_int J v)
     else if k = ''bySeverity'' then put_field k (\<lambda>x. (s\<lparr>cnc_BySeverity := x\<rparr>, insert 1 b)) (SeverityCounts_Decode J v)
     else Inl (JUnexpectedField k))"

definition ConditionCounts_required :: "(nat \<times> string) list" where
  "ConditionCounts_required = [(0, ''total''), (1, ''bySeverity'')]"

definition ConditionCounts_Decode :: "jx_env \<Rightarrow> jx \<Rightarrow> jerr + ConditionCounts" where
  "ConditionCounts_Decode J =
     dec_obj ''ConditionCounts'' (ConditionCounts_decodeField J) ConditionCounts_required ConditionCounts_zero"

definition ConditionCounts_ok :: "jx_env \<Rightarrow> ConditionCounts \<Rightarrow> bool" where
  "ConditionCounts_ok J s \<longleftrightarrow> in_i64 (cnc_Total s) \<and> SeverityCounts_ok J (cnc_BySeverity s)"

lemma ConditionCounts_steps:
  "in_i64 a0 \<Longrightarrow>
   obj_fold (ConditionCounts_decodeField J) (field ''total'' (write_int a0)) (s, b)
     = Inr (s\<lparr>cnc_Total := a0\<rparr>, insert 0 b)"
  "SeverityCounts_ok J a1 \<Longrightarrow>
   obj_fold (ConditionCounts_decodeField J) (field ''bySeverity'' (SeverityCounts_Encode J a1)) (s, b)
     = Inr (s\<lparr>cnc_BySeverity := a1\<rparr>, insert 1 b)"
  by (simp_all add: obj_fold_field ConditionCounts_decodeField_def SeverityCounts_roundtrip)

lemma ConditionCounts_roundtrip [codec]:
  "ConditionCounts_ok J x \<Longrightarrow> ConditionCounts_Decode J (ConditionCounts_Encode J x) = Inr x"
by (cases x) (simp add: ConditionCounts_Encode_def ConditionCounts_encodeFields_def ConditionCounts_Decode_def
    dec_obj_def ConditionCounts_steps ConditionCounts_required_def ConditionCounts_zero_def
    ConditionCounts_ok_def)

lemma ConditionCounts_list [codec]:
  "list_all (ConditionCounts_ok J) xs \<Longrightarrow> read_arr (ConditionCounts_Decode J) (write_arr (ConditionCounts_Encode J) xs) = Inr xs"
  by (rule read_arr_write) (auto simp: codec elim!: list.pred_mono_strong)

definition ConditionsResponse_zero :: "(RestCondition, ConditionCounts) counted" where
  "ConditionsResponse_zero = \<lparr>ct_Collection = CollectionMeta_zero, ct_Items = [], ct_Counts = ConditionCounts_zero\<rparr>"

definition ConditionsResponse_encodeFields ::
  "jx_env \<Rightarrow> ((RestCondition, ConditionCounts) counted) \<Rightarrow> (string \<times> jx) list" where
  "ConditionsResponse_encodeFields J s =
     field ''collection'' (CollectionMeta_Encode J (ct_Collection s))
     @ field ''items'' (write_arr (Condition_Encode J) (ct_Items s))
     @ field ''counts'' (ConditionCounts_Encode J (ct_Counts s))"

definition ConditionsResponse_Encode ::
  "jx_env \<Rightarrow> ((RestCondition, ConditionCounts) counted) \<Rightarrow> jx" where
  "ConditionsResponse_Encode J s = JObj (ConditionsResponse_encodeFields J s)"

definition ConditionsResponse_decodeField ::
  "jx_env \<Rightarrow> string \<Rightarrow> jx \<Rightarrow> ((RestCondition, ConditionCounts) counted) \<times> nat set \<Rightarrow> jerr + ((RestCondition, ConditionCounts) counted) \<times> nat set" where
  "ConditionsResponse_decodeField J k v st = (case st of (s, b) \<Rightarrow>
     if k = ''collection'' then put_field k (\<lambda>x. (s\<lparr>ct_Collection := x\<rparr>, insert 0 b)) (CollectionMeta_Decode J v)
     else if k = ''items'' then put_field k (\<lambda>x. (s\<lparr>ct_Items := x\<rparr>, insert 1 b)) (read_arr (Condition_Decode J) v)
     else if k = ''counts'' then put_field k (\<lambda>x. (s\<lparr>ct_Counts := x\<rparr>, insert 2 b)) (ConditionCounts_Decode J v)
     else Inl (JUnexpectedField k))"

definition ConditionsResponse_required :: "(nat \<times> string) list" where
  "ConditionsResponse_required = [(0, ''collection''), (1, ''items''), (2, ''counts'')]"

definition ConditionsResponse_Decode ::
  "jx_env \<Rightarrow> jx \<Rightarrow> jerr + ((RestCondition, ConditionCounts) counted)" where
  "ConditionsResponse_Decode J =
     dec_obj ''ConditionsResponse'' (ConditionsResponse_decodeField J) ConditionsResponse_required ConditionsResponse_zero"

definition ConditionsResponse_ok ::
  "jx_env \<Rightarrow> ((RestCondition, ConditionCounts) counted) \<Rightarrow> bool" where
  "ConditionsResponse_ok J s \<longleftrightarrow> CollectionMeta_ok J (ct_Collection s) \<and> list_all (Condition_ok J) (ct_Items s) \<and>
     ConditionCounts_ok J (ct_Counts s)"

lemma ConditionsResponse_steps:
  "CollectionMeta_ok J a0 \<Longrightarrow>
   obj_fold (ConditionsResponse_decodeField J) (field ''collection'' (CollectionMeta_Encode J a0)) (s, b)
     = Inr (s\<lparr>ct_Collection := a0\<rparr>, insert 0 b)"
  "list_all (Condition_ok J) a1 \<Longrightarrow>
   obj_fold (ConditionsResponse_decodeField J) (field ''items'' (write_arr (Condition_Encode J) a1)) (s, b)
     = Inr (s\<lparr>ct_Items := a1\<rparr>, insert 1 b)"
  "ConditionCounts_ok J a2 \<Longrightarrow>
   obj_fold (ConditionsResponse_decodeField J) (field ''counts'' (ConditionCounts_Encode J a2)) (s, b)
     = Inr (s\<lparr>ct_Counts := a2\<rparr>, insert 2 b)"
by (simp_all add: obj_fold_field ConditionsResponse_decodeField_def CollectionMeta_roundtrip Condition_list
    ConditionCounts_roundtrip)

lemma ConditionsResponse_roundtrip [codec]:
  "ConditionsResponse_ok J x \<Longrightarrow> ConditionsResponse_Decode J (ConditionsResponse_Encode J x) = Inr x"
by (cases x) (simp add: ConditionsResponse_Encode_def ConditionsResponse_encodeFields_def
    ConditionsResponse_Decode_def dec_obj_def ConditionsResponse_steps ConditionsResponse_required_def
    ConditionsResponse_zero_def ConditionsResponse_ok_def)

lemma ConditionsResponse_list [codec]:
  "list_all (ConditionsResponse_ok J) xs \<Longrightarrow> read_arr (ConditionsResponse_Decode J) (write_arr (ConditionsResponse_Encode J) xs) = Inr xs"
  by (rule read_arr_write) (auto simp: codec elim!: list.pred_mono_strong)

section \<open>Nodes and disks\<close>

definition BackgroundPools_zero :: "BackgroundPools" where
  "BackgroundPools_zero = \<lparr>bpo_MergesAndMutations = None, bpo_Moves = None, bpo_Fetches = None\<rparr>"

definition BackgroundPools_encodeFields ::
  "jx_env \<Rightarrow> BackgroundPools \<Rightarrow> (string \<times> jx) list" where
  "BackgroundPools_encodeFields J s =
     field_set ''mergesAndMutations'' (OptUInt64String_Encode (bpo_MergesAndMutations s))
     @ field_set ''moves'' (OptUInt64String_Encode (bpo_Moves s))
     @ field_set ''fetches'' (OptUInt64String_Encode (bpo_Fetches s))"

definition BackgroundPools_Encode :: "jx_env \<Rightarrow> BackgroundPools \<Rightarrow> jx" where
  "BackgroundPools_Encode J s = JObj (BackgroundPools_encodeFields J s)"

definition BackgroundPools_decodeField ::
  "jx_env \<Rightarrow> string \<Rightarrow> jx \<Rightarrow> BackgroundPools \<times> nat set \<Rightarrow> jerr + BackgroundPools \<times> nat set" where
  "BackgroundPools_decodeField J k v st = (case st of (s, b) \<Rightarrow>
     if k = ''mergesAndMutations'' then put_field k (\<lambda>x. (s\<lparr>bpo_MergesAndMutations := x\<rparr>, b)) (OptUInt64String_Decode J v)
     else if k = ''moves'' then put_field k (\<lambda>x. (s\<lparr>bpo_Moves := x\<rparr>, b)) (OptUInt64String_Decode J v)
     else if k = ''fetches'' then put_field k (\<lambda>x. (s\<lparr>bpo_Fetches := x\<rparr>, b)) (OptUInt64String_Decode J v)
     else Inl (JUnexpectedField k))"

definition BackgroundPools_required :: "(nat \<times> string) list" where
  "BackgroundPools_required = []"

definition BackgroundPools_Decode :: "jx_env \<Rightarrow> jx \<Rightarrow> jerr + BackgroundPools" where
  "BackgroundPools_Decode J =
     dec_obj ''BackgroundPools'' (BackgroundPools_decodeField J) BackgroundPools_required BackgroundPools_zero"

lemma BackgroundPools_set_steps:
  "bpo_MergesAndMutations s = None \<Longrightarrow>
   obj_fold (BackgroundPools_decodeField J) (field_set ''mergesAndMutations'' (OptUInt64String_Encode a0)) (s, b)
     = Inr (s\<lparr>bpo_MergesAndMutations := a0\<rparr>, b)"
  "bpo_Moves s = None \<Longrightarrow>
   obj_fold (BackgroundPools_decodeField J) (field_set ''moves'' (OptUInt64String_Encode a1)) (s, b)
     = Inr (s\<lparr>bpo_Moves := a1\<rparr>, b)"
  "bpo_Fetches s = None \<Longrightarrow>
   obj_fold (BackgroundPools_decodeField J) (field_set ''fetches'' (OptUInt64String_Encode a2)) (s, b)
     = Inr (s\<lparr>bpo_Fetches := a2\<rparr>, b)"
  by (auto simp: obj_fold_set BackgroundPools_decodeField_def set_codec split: option.split optnil.split)

lemma BackgroundPools_roundtrip [codec]: "BackgroundPools_Decode J (BackgroundPools_Encode J x) = Inr x"
by (cases x) (simp add: BackgroundPools_Encode_def BackgroundPools_encodeFields_def BackgroundPools_Decode_def
    dec_obj_def BackgroundPools_set_steps BackgroundPools_required_def BackgroundPools_zero_def)

lemma BackgroundPools_list [codec]:
  "read_arr (BackgroundPools_Decode J) (write_arr (BackgroundPools_Encode J) xs) = Inr xs"
  by (rule read_arr_write) (simp add: codec list.pred_True)

definition OptBackgroundPools_Encode :: "jx_env \<Rightarrow> BackgroundPools option \<Rightarrow> jx option" where
  "OptBackgroundPools_Encode J o' = (case o' of None \<Rightarrow> None | Some x \<Rightarrow> Some (BackgroundPools_Encode J x))"

definition OptBackgroundPools_Decode :: "jx_env \<Rightarrow> jx \<Rightarrow> jerr + BackgroundPools option" where
  "OptBackgroundPools_Decode J v = (case BackgroundPools_Decode J v of Inl e \<Rightarrow> Inl e | Inr x \<Rightarrow> Inr (Some x))"

lemmas [set_codec] = OptBackgroundPools_Encode_def OptBackgroundPools_Decode_def

definition ReplicationSummary_zero :: "ReplicationSummary" where
  "ReplicationSummary_zero = \<lparr>rsu_QueueSize = None, rsu_AbsoluteDelaySeconds = None, rsu_FutureParts = None, rsu_TotalReplicas = None,
     rsu_ActiveReplicas = None\<rparr>"

definition ReplicationSummary_encodeFields ::
  "jx_env \<Rightarrow> ReplicationSummary \<Rightarrow> (string \<times> jx) list" where
  "ReplicationSummary_encodeFields J s =
     field_set ''queueSize'' (OptUInt64String_Encode (rsu_QueueSize s))
     @ field_set ''absoluteDelaySeconds'' (OptUInt64String_Encode (rsu_AbsoluteDelaySeconds s))
     @ field_set ''futureParts'' (OptUInt64String_Encode (rsu_FutureParts s))
     @ field_set ''totalReplicas'' (OptUInt64String_Encode (rsu_TotalReplicas s))
     @ field_set ''activeReplicas'' (OptUInt64String_Encode (rsu_ActiveReplicas s))"

definition ReplicationSummary_Encode :: "jx_env \<Rightarrow> ReplicationSummary \<Rightarrow> jx" where
  "ReplicationSummary_Encode J s = JObj (ReplicationSummary_encodeFields J s)"

definition ReplicationSummary_decodeField ::
  "jx_env \<Rightarrow> string \<Rightarrow> jx \<Rightarrow> ReplicationSummary \<times> nat set \<Rightarrow> jerr + ReplicationSummary \<times> nat set" where
  "ReplicationSummary_decodeField J k v st = (case st of (s, b) \<Rightarrow>
     if k = ''queueSize'' then put_field k (\<lambda>x. (s\<lparr>rsu_QueueSize := x\<rparr>, b)) (OptUInt64String_Decode J v)
     else if k = ''absoluteDelaySeconds'' then put_field k (\<lambda>x. (s\<lparr>rsu_AbsoluteDelaySeconds := x\<rparr>, b)) (OptUInt64String_Decode J v)
     else if k = ''futureParts'' then put_field k (\<lambda>x. (s\<lparr>rsu_FutureParts := x\<rparr>, b)) (OptUInt64String_Decode J v)
     else if k = ''totalReplicas'' then put_field k (\<lambda>x. (s\<lparr>rsu_TotalReplicas := x\<rparr>, b)) (OptUInt64String_Decode J v)
     else if k = ''activeReplicas'' then put_field k (\<lambda>x. (s\<lparr>rsu_ActiveReplicas := x\<rparr>, b)) (OptUInt64String_Decode J v)
     else Inl (JUnexpectedField k))"

definition ReplicationSummary_required :: "(nat \<times> string) list" where
  "ReplicationSummary_required = []"

definition ReplicationSummary_Decode :: "jx_env \<Rightarrow> jx \<Rightarrow> jerr + ReplicationSummary" where
  "ReplicationSummary_Decode J =
     dec_obj ''ReplicationSummary'' (ReplicationSummary_decodeField J) ReplicationSummary_required ReplicationSummary_zero"

lemma ReplicationSummary_set_steps:
  "rsu_QueueSize s = None \<Longrightarrow>
   obj_fold (ReplicationSummary_decodeField J) (field_set ''queueSize'' (OptUInt64String_Encode a0)) (s, b)
     = Inr (s\<lparr>rsu_QueueSize := a0\<rparr>, b)"
  "rsu_AbsoluteDelaySeconds s = None \<Longrightarrow>
   obj_fold (ReplicationSummary_decodeField J) (field_set ''absoluteDelaySeconds'' (OptUInt64String_Encode a1)) (s, b)
     = Inr (s\<lparr>rsu_AbsoluteDelaySeconds := a1\<rparr>, b)"
  "rsu_FutureParts s = None \<Longrightarrow>
   obj_fold (ReplicationSummary_decodeField J) (field_set ''futureParts'' (OptUInt64String_Encode a2)) (s, b)
     = Inr (s\<lparr>rsu_FutureParts := a2\<rparr>, b)"
  "rsu_TotalReplicas s = None \<Longrightarrow>
   obj_fold (ReplicationSummary_decodeField J) (field_set ''totalReplicas'' (OptUInt64String_Encode a3)) (s, b)
     = Inr (s\<lparr>rsu_TotalReplicas := a3\<rparr>, b)"
  "rsu_ActiveReplicas s = None \<Longrightarrow>
   obj_fold (ReplicationSummary_decodeField J) (field_set ''activeReplicas'' (OptUInt64String_Encode a4)) (s, b)
     = Inr (s\<lparr>rsu_ActiveReplicas := a4\<rparr>, b)"
  by (auto simp: obj_fold_set ReplicationSummary_decodeField_def set_codec split: option.split optnil.split)

lemma ReplicationSummary_roundtrip [codec]: "ReplicationSummary_Decode J (ReplicationSummary_Encode J x) = Inr x"
by (cases x) (simp add: ReplicationSummary_Encode_def ReplicationSummary_encodeFields_def
    ReplicationSummary_Decode_def dec_obj_def ReplicationSummary_set_steps ReplicationSummary_required_def
    ReplicationSummary_zero_def)

lemma ReplicationSummary_list [codec]:
  "read_arr (ReplicationSummary_Decode J) (write_arr (ReplicationSummary_Encode J) xs) = Inr xs"
  by (rule read_arr_write) (simp add: codec list.pred_True)

definition OptReplicationSummary_Encode ::
  "jx_env \<Rightarrow> ReplicationSummary option \<Rightarrow> jx option" where
  "OptReplicationSummary_Encode J o' = (case o' of None \<Rightarrow> None | Some x \<Rightarrow> Some (ReplicationSummary_Encode J x))"

definition OptReplicationSummary_Decode ::
  "jx_env \<Rightarrow> jx \<Rightarrow> jerr + ReplicationSummary option" where
  "OptReplicationSummary_Decode J v = (case ReplicationSummary_Decode J v of Inl e \<Rightarrow> Inl e | Inr x \<Rightarrow> Inr (Some x))"

lemmas [set_codec] = OptReplicationSummary_Encode_def OptReplicationSummary_Decode_def

definition Node_zero :: "RestNode" where
  "Node_zero = \<lparr>rn_NodeId = '''', rn_Shard = '''', rn_Replica = '''', rn_Endpoint = url_zero, rn_Reachable = False,
     rn_ObservedAt = zero_time, rn_Version = None, rn_Timezone = None, rn_UptimeSeconds = None, rn_Readonly = None,
     rn_SessionExpired = None, rn_Replication = None, rn_BackgroundPools = None, rn_LastError = None\<rparr>"

definition Node_encodeFields :: "jx_env \<Rightarrow> RestNode \<Rightarrow> (string \<times> jx) list" where
  "Node_encodeFields J s =
     field ''nodeId'' (JStr (rn_NodeId s))
     @ field ''shard'' (JStr (rn_Shard s))
     @ field ''replica'' (JStr (rn_Replica s))
     @ field ''endpoint'' (write_url J (rn_Endpoint s))
     @ field ''reachable'' (JBool (rn_Reachable s))
     @ field ''observedAt'' (write_time J (rn_ObservedAt s))
     @ field_set ''version'' (OptString_Encode JStr (rn_Version s))
     @ field_set ''timezone'' (OptString_Encode JStr (rn_Timezone s))
     @ field_set ''uptimeSeconds'' (OptUInt64String_Encode (rn_UptimeSeconds s))
     @ field_set ''readonly'' (OptBool_Encode (rn_Readonly s))
     @ field_set ''sessionExpired'' (OptBool_Encode (rn_SessionExpired s))
     @ field_set ''replication'' (OptReplicationSummary_Encode J (rn_Replication s))
     @ field_set ''backgroundPools'' (OptBackgroundPools_Encode J (rn_BackgroundPools s))
     @ field ''lastError'' (NilString_Encode JText (rn_LastError s))"

definition Node_Encode :: "jx_env \<Rightarrow> RestNode \<Rightarrow> jx" where
  "Node_Encode J s = JObj (Node_encodeFields J s)"

definition Node_decodeField2 ::
  "jx_env \<Rightarrow> string \<Rightarrow> jx \<Rightarrow> RestNode \<times> nat set \<Rightarrow> jerr + RestNode \<times> nat set" where
  "Node_decodeField2 J k v st = (case st of (s, b) \<Rightarrow>
     if k = ''lastError'' then put_field k (\<lambda>x. (s\<lparr>rn_LastError := x\<rparr>, insert 13 b)) (NilString_Decode (read_text J) v)
     else Inl (JUnexpectedField k))"

definition Node_decodeField ::
  "jx_env \<Rightarrow> string \<Rightarrow> jx \<Rightarrow> RestNode \<times> nat set \<Rightarrow> jerr + RestNode \<times> nat set" where
  "Node_decodeField J k v st = (case st of (s, b) \<Rightarrow>
     if k = ''nodeId'' then put_field k (\<lambda>x. (s\<lparr>rn_NodeId := x\<rparr>, insert 0 b)) (read_str J v)
     else if k = ''shard'' then put_field k (\<lambda>x. (s\<lparr>rn_Shard := x\<rparr>, insert 1 b)) (read_str J v)
     else if k = ''replica'' then put_field k (\<lambda>x. (s\<lparr>rn_Replica := x\<rparr>, insert 2 b)) (read_str J v)
     else if k = ''endpoint'' then put_field k (\<lambda>x. (s\<lparr>rn_Endpoint := x\<rparr>, insert 3 b)) (read_url J v)
     else if k = ''reachable'' then put_field k (\<lambda>x. (s\<lparr>rn_Reachable := x\<rparr>, insert 4 b)) (read_bool J v)
     else if k = ''observedAt'' then put_field k (\<lambda>x. (s\<lparr>rn_ObservedAt := x\<rparr>, insert 5 b)) (read_time J v)
     else if k = ''version'' then put_field k (\<lambda>x. (s\<lparr>rn_Version := x\<rparr>, b)) (OptString_Decode (read_str J) v)
     else if k = ''timezone'' then put_field k (\<lambda>x. (s\<lparr>rn_Timezone := x\<rparr>, b)) (OptString_Decode (read_str J) v)
     else if k = ''uptimeSeconds'' then put_field k (\<lambda>x. (s\<lparr>rn_UptimeSeconds := x\<rparr>, b)) (OptUInt64String_Decode J v)
     else if k = ''readonly'' then put_field k (\<lambda>x. (s\<lparr>rn_Readonly := x\<rparr>, b)) (OptBool_Decode J v)
     else if k = ''sessionExpired'' then put_field k (\<lambda>x. (s\<lparr>rn_SessionExpired := x\<rparr>, b)) (OptBool_Decode J v)
     else if k = ''replication'' then put_field k (\<lambda>x. (s\<lparr>rn_Replication := x\<rparr>, b)) (OptReplicationSummary_Decode J v)
     else if k = ''backgroundPools'' then put_field k (\<lambda>x. (s\<lparr>rn_BackgroundPools := x\<rparr>, b)) (OptBackgroundPools_Decode J v)
     else Node_decodeField2 J k v (s, b))"

definition Node_required :: "(nat \<times> string) list" where
  "Node_required = [(0, ''nodeId''), (1, ''shard''), (2, ''replica''), (3, ''endpoint''), (4, ''reachable''), (5, ''observedAt''),
    (13, ''lastError'')]"

definition Node_Decode :: "jx_env \<Rightarrow> jx \<Rightarrow> jerr + RestNode" where
  "Node_Decode J = dec_obj ''Node'' (Node_decodeField J) Node_required Node_zero"

definition Node_ok :: "jx_env \<Rightarrow> RestNode \<Rightarrow> bool" where
  "Node_ok J s \<longleftrightarrow> url_ok J (rn_Endpoint s) \<and> time_ok J (rn_ObservedAt s)"

lemma Node_steps:
  "obj_fold (Node_decodeField J) (field ''nodeId'' (JStr a0)) (s, b) = Inr (s\<lparr>rn_NodeId := a0\<rparr>, insert 0 b)"
  "obj_fold (Node_decodeField J) (field ''shard'' (JStr a1)) (s, b) = Inr (s\<lparr>rn_Shard := a1\<rparr>, insert 1 b)"
  "obj_fold (Node_decodeField J) (field ''replica'' (JStr a2)) (s, b) = Inr (s\<lparr>rn_Replica := a2\<rparr>, insert 2 b)"
  "url_ok J a3 \<Longrightarrow>
   obj_fold (Node_decodeField J) (field ''endpoint'' (write_url J a3)) (s, b)
     = Inr (s\<lparr>rn_Endpoint := a3\<rparr>, insert 3 b)"
  "obj_fold (Node_decodeField J) (field ''reachable'' (JBool a4)) (s, b)
     = Inr (s\<lparr>rn_Reachable := a4\<rparr>, insert 4 b)"
  "time_ok J a5 \<Longrightarrow>
   obj_fold (Node_decodeField J) (field ''observedAt'' (write_time J a5)) (s, b)
     = Inr (s\<lparr>rn_ObservedAt := a5\<rparr>, insert 5 b)"
  "obj_fold (Node_decodeField J) (field ''lastError'' (NilString_Encode JText a13)) (s, b)
     = Inr (s\<lparr>rn_LastError := a13\<rparr>, insert 13 b)"
by (simp_all add: obj_fold_field Node_decodeField_def Node_decodeField2_def ReplicationSummary_roundtrip
    BackgroundPools_roundtrip)

lemma Node_set_steps:
  "rn_Version s = None \<Longrightarrow>
   obj_fold (Node_decodeField J) (field_set ''version'' (OptString_Encode JStr a6)) (s, b)
     = Inr (s\<lparr>rn_Version := a6\<rparr>, b)"
  "rn_Timezone s = None \<Longrightarrow>
   obj_fold (Node_decodeField J) (field_set ''timezone'' (OptString_Encode JStr a7)) (s, b)
     = Inr (s\<lparr>rn_Timezone := a7\<rparr>, b)"
  "rn_UptimeSeconds s = None \<Longrightarrow>
   obj_fold (Node_decodeField J) (field_set ''uptimeSeconds'' (OptUInt64String_Encode a8)) (s, b)
     = Inr (s\<lparr>rn_UptimeSeconds := a8\<rparr>, b)"
  "rn_Readonly s = None \<Longrightarrow>
   obj_fold (Node_decodeField J) (field_set ''readonly'' (OptBool_Encode a9)) (s, b)
     = Inr (s\<lparr>rn_Readonly := a9\<rparr>, b)"
  "rn_SessionExpired s = None \<Longrightarrow>
   obj_fold (Node_decodeField J) (field_set ''sessionExpired'' (OptBool_Encode a10)) (s, b)
     = Inr (s\<lparr>rn_SessionExpired := a10\<rparr>, b)"
  "rn_Replication s = None \<Longrightarrow>
   obj_fold (Node_decodeField J) (field_set ''replication'' (OptReplicationSummary_Encode J a11)) (s, b)
     = Inr (s\<lparr>rn_Replication := a11\<rparr>, b)"
  "rn_BackgroundPools s = None \<Longrightarrow>
   obj_fold (Node_decodeField J) (field_set ''backgroundPools'' (OptBackgroundPools_Encode J a12)) (s, b)
     = Inr (s\<lparr>rn_BackgroundPools := a12\<rparr>, b)"
by (auto simp: obj_fold_set Node_decodeField_def Node_decodeField2_def set_codec ReplicationSummary_roundtrip
    BackgroundPools_roundtrip split: option.split optnil.split)

lemma Node_roundtrip [codec]: "Node_ok J x \<Longrightarrow> Node_Decode J (Node_Encode J x) = Inr x"
by (cases x) (simp add: Node_Encode_def Node_encodeFields_def Node_Decode_def dec_obj_def Node_steps
    Node_set_steps Node_required_def Node_zero_def Node_ok_def)

lemma Node_list [codec]:
  "list_all (Node_ok J) xs \<Longrightarrow> read_arr (Node_Decode J) (write_arr (Node_Encode J) xs) = Inr xs"
  by (rule read_arr_write) (auto simp: codec elim!: list.pred_mono_strong)

definition NodesResponse_zero :: "RestNode listing" where
  "NodesResponse_zero = \<lparr>ls_Collection = CollectionMeta_zero, ls_Items = []\<rparr>"

definition NodesResponse_encodeFields ::
  "jx_env \<Rightarrow> (RestNode listing) \<Rightarrow> (string \<times> jx) list" where
  "NodesResponse_encodeFields J s =
     field ''collection'' (CollectionMeta_Encode J (ls_Collection s))
     @ field ''items'' (write_arr (Node_Encode J) (ls_Items s))"

definition NodesResponse_Encode :: "jx_env \<Rightarrow> (RestNode listing) \<Rightarrow> jx" where
  "NodesResponse_Encode J s = JObj (NodesResponse_encodeFields J s)"

definition NodesResponse_decodeField ::
  "jx_env \<Rightarrow> string \<Rightarrow> jx \<Rightarrow> (RestNode listing) \<times> nat set \<Rightarrow> jerr + (RestNode listing) \<times> nat set" where
  "NodesResponse_decodeField J k v st = (case st of (s, b) \<Rightarrow>
     if k = ''collection'' then put_field k (\<lambda>x. (s\<lparr>ls_Collection := x\<rparr>, insert 0 b)) (CollectionMeta_Decode J v)
     else if k = ''items'' then put_field k (\<lambda>x. (s\<lparr>ls_Items := x\<rparr>, insert 1 b)) (read_arr (Node_Decode J) v)
     else Inl (JUnexpectedField k))"

definition NodesResponse_required :: "(nat \<times> string) list" where
  "NodesResponse_required = [(0, ''collection''), (1, ''items'')]"

definition NodesResponse_Decode :: "jx_env \<Rightarrow> jx \<Rightarrow> jerr + (RestNode listing)" where
  "NodesResponse_Decode J =
     dec_obj ''NodesResponse'' (NodesResponse_decodeField J) NodesResponse_required NodesResponse_zero"

definition NodesResponse_ok :: "jx_env \<Rightarrow> (RestNode listing) \<Rightarrow> bool" where
  "NodesResponse_ok J s \<longleftrightarrow> CollectionMeta_ok J (ls_Collection s) \<and> list_all (Node_ok J) (ls_Items s)"

lemma NodesResponse_steps:
  "CollectionMeta_ok J a0 \<Longrightarrow>
   obj_fold (NodesResponse_decodeField J) (field ''collection'' (CollectionMeta_Encode J a0)) (s, b)
     = Inr (s\<lparr>ls_Collection := a0\<rparr>, insert 0 b)"
  "list_all (Node_ok J) a1 \<Longrightarrow>
   obj_fold (NodesResponse_decodeField J) (field ''items'' (write_arr (Node_Encode J) a1)) (s, b)
     = Inr (s\<lparr>ls_Items := a1\<rparr>, insert 1 b)"
  by (simp_all add: obj_fold_field NodesResponse_decodeField_def CollectionMeta_roundtrip Node_list)

lemma NodesResponse_roundtrip [codec]:
  "NodesResponse_ok J x \<Longrightarrow> NodesResponse_Decode J (NodesResponse_Encode J x) = Inr x"
by (cases x) (simp add: NodesResponse_Encode_def NodesResponse_encodeFields_def NodesResponse_Decode_def
    dec_obj_def NodesResponse_steps NodesResponse_required_def NodesResponse_zero_def NodesResponse_ok_def)

lemma NodesResponse_list [codec]:
  "list_all (NodesResponse_ok J) xs \<Longrightarrow> read_arr (NodesResponse_Decode J) (write_arr (NodesResponse_Encode J) xs) = Inr xs"
  by (rule read_arr_write) (auto simp: codec elim!: list.pred_mono_strong)

definition StorageDisk_zero :: "RestStorageDisk" where
  "StorageDisk_zero = \<lparr>rd_NodeId = '''', rd_Shard = '''', rd_Replica = '''', rd_Disk = '''', rd_Type = '''',
     rd_ObjectStorageType = '''', rd_IsRemote = False, rd_IsBroken = False, rd_Path = OptAbsent,
     rd_CachePath = OptAbsent, rd_CapacityKnown = False, rd_FreeSpaceBytes = None, rd_TotalSpaceBytes = None,
     rd_UnreservedSpaceBytes = None, rd_UsedByActivePartsBytes = ''''\<rparr>"

definition StorageDisk_encodeFields ::
  "jx_env \<Rightarrow> RestStorageDisk \<Rightarrow> (string \<times> jx) list" where
  "StorageDisk_encodeFields J s =
     field ''nodeId'' (JStr (rd_NodeId s))
     @ field ''shard'' (JStr (rd_Shard s))
     @ field ''replica'' (JStr (rd_Replica s))
     @ field ''disk'' (JStr (rd_Disk s))
     @ field ''type'' (JStr (rd_Type s))
     @ field ''objectStorageType'' (JStr (rd_ObjectStorageType s))
     @ field ''isRemote'' (JBool (rd_IsRemote s))
     @ field ''isBroken'' (JBool (rd_IsBroken s))
     @ field_set ''path'' (OptNilString_Encode (rd_Path s))
     @ field_set ''cachePath'' (OptNilString_Encode (rd_CachePath s))
     @ field ''capacityKnown'' (JBool (rd_CapacityKnown s))
     @ field ''freeSpaceBytes'' (NilUInt64String_Encode (rd_FreeSpaceBytes s))
     @ field ''totalSpaceBytes'' (NilUInt64String_Encode (rd_TotalSpaceBytes s))
     @ field ''unreservedSpaceBytes'' (NilUInt64String_Encode (rd_UnreservedSpaceBytes s))
     @ field ''usedByActivePartsBytes'' (UInt64String_Encode (rd_UsedByActivePartsBytes s))"

definition StorageDisk_Encode :: "jx_env \<Rightarrow> RestStorageDisk \<Rightarrow> jx" where
  "StorageDisk_Encode J s = JObj (StorageDisk_encodeFields J s)"

definition StorageDisk_decodeField2 ::
  "jx_env \<Rightarrow> string \<Rightarrow> jx \<Rightarrow> RestStorageDisk \<times> nat set \<Rightarrow> jerr + RestStorageDisk \<times> nat set" where
  "StorageDisk_decodeField2 J k v st = (case st of (s, b) \<Rightarrow>
     if k = ''totalSpaceBytes'' then put_field k (\<lambda>x. (s\<lparr>rd_TotalSpaceBytes := x\<rparr>, insert 12 b)) (NilUInt64String_Decode J v)
     else if k = ''unreservedSpaceBytes'' then put_field k (\<lambda>x. (s\<lparr>rd_UnreservedSpaceBytes := x\<rparr>, insert 13 b)) (NilUInt64String_Decode J v)
     else if k = ''usedByActivePartsBytes'' then put_field k (\<lambda>x. (s\<lparr>rd_UsedByActivePartsBytes := x\<rparr>, insert 14 b)) (UInt64String_Decode J v)
     else Inl (JUnexpectedField k))"

definition StorageDisk_decodeField ::
  "jx_env \<Rightarrow> string \<Rightarrow> jx \<Rightarrow> RestStorageDisk \<times> nat set \<Rightarrow> jerr + RestStorageDisk \<times> nat set" where
  "StorageDisk_decodeField J k v st = (case st of (s, b) \<Rightarrow>
     if k = ''nodeId'' then put_field k (\<lambda>x. (s\<lparr>rd_NodeId := x\<rparr>, insert 0 b)) (read_str J v)
     else if k = ''shard'' then put_field k (\<lambda>x. (s\<lparr>rd_Shard := x\<rparr>, insert 1 b)) (read_str J v)
     else if k = ''replica'' then put_field k (\<lambda>x. (s\<lparr>rd_Replica := x\<rparr>, insert 2 b)) (read_str J v)
     else if k = ''disk'' then put_field k (\<lambda>x. (s\<lparr>rd_Disk := x\<rparr>, insert 3 b)) (read_str J v)
     else if k = ''type'' then put_field k (\<lambda>x. (s\<lparr>rd_Type := x\<rparr>, insert 4 b)) (read_str J v)
     else if k = ''objectStorageType'' then put_field k (\<lambda>x. (s\<lparr>rd_ObjectStorageType := x\<rparr>, insert 5 b)) (read_str J v)
     else if k = ''isRemote'' then put_field k (\<lambda>x. (s\<lparr>rd_IsRemote := x\<rparr>, insert 6 b)) (read_bool J v)
     else if k = ''isBroken'' then put_field k (\<lambda>x. (s\<lparr>rd_IsBroken := x\<rparr>, insert 7 b)) (read_bool J v)
     else if k = ''path'' then put_field k (\<lambda>x. (s\<lparr>rd_Path := x\<rparr>, b)) (OptNilString_Decode J v)
     else if k = ''cachePath'' then put_field k (\<lambda>x. (s\<lparr>rd_CachePath := x\<rparr>, b)) (OptNilString_Decode J v)
     else if k = ''capacityKnown'' then put_field k (\<lambda>x. (s\<lparr>rd_CapacityKnown := x\<rparr>, insert 10 b)) (read_bool J v)
     else if k = ''freeSpaceBytes'' then put_field k (\<lambda>x. (s\<lparr>rd_FreeSpaceBytes := x\<rparr>, insert 11 b)) (NilUInt64String_Decode J v)
     else StorageDisk_decodeField2 J k v (s, b))"

definition StorageDisk_required :: "(nat \<times> string) list" where
  "StorageDisk_required = [(0, ''nodeId''), (1, ''shard''), (2, ''replica''), (3, ''disk''), (4, ''type''), (5, ''objectStorageType''), (6,
    ''isRemote''), (7, ''isBroken''), (10, ''capacityKnown''), (11, ''freeSpaceBytes''), (12, ''totalSpaceBytes''),
    (13, ''unreservedSpaceBytes''), (14, ''usedByActivePartsBytes'')]"

definition StorageDisk_Decode :: "jx_env \<Rightarrow> jx \<Rightarrow> jerr + RestStorageDisk" where
  "StorageDisk_Decode J = dec_obj ''StorageDisk'' (StorageDisk_decodeField J) StorageDisk_required StorageDisk_zero"

lemma StorageDisk_steps:
  "obj_fold (StorageDisk_decodeField J) (field ''nodeId'' (JStr a0)) (s, b)
     = Inr (s\<lparr>rd_NodeId := a0\<rparr>, insert 0 b)"
  "obj_fold (StorageDisk_decodeField J) (field ''shard'' (JStr a1)) (s, b)
     = Inr (s\<lparr>rd_Shard := a1\<rparr>, insert 1 b)"
  "obj_fold (StorageDisk_decodeField J) (field ''replica'' (JStr a2)) (s, b)
     = Inr (s\<lparr>rd_Replica := a2\<rparr>, insert 2 b)"
  "obj_fold (StorageDisk_decodeField J) (field ''disk'' (JStr a3)) (s, b) = Inr (s\<lparr>rd_Disk := a3\<rparr>, insert 3 b)"
  "obj_fold (StorageDisk_decodeField J) (field ''type'' (JStr a4)) (s, b) = Inr (s\<lparr>rd_Type := a4\<rparr>, insert 4 b)"
  "obj_fold (StorageDisk_decodeField J) (field ''objectStorageType'' (JStr a5)) (s, b)
     = Inr (s\<lparr>rd_ObjectStorageType := a5\<rparr>, insert 5 b)"
  "obj_fold (StorageDisk_decodeField J) (field ''isRemote'' (JBool a6)) (s, b)
     = Inr (s\<lparr>rd_IsRemote := a6\<rparr>, insert 6 b)"
  "obj_fold (StorageDisk_decodeField J) (field ''isBroken'' (JBool a7)) (s, b)
     = Inr (s\<lparr>rd_IsBroken := a7\<rparr>, insert 7 b)"
  "obj_fold (StorageDisk_decodeField J) (field ''capacityKnown'' (JBool a10)) (s, b)
     = Inr (s\<lparr>rd_CapacityKnown := a10\<rparr>, insert 10 b)"
  "obj_fold (StorageDisk_decodeField J) (field ''freeSpaceBytes'' (NilUInt64String_Encode a11)) (s, b)
     = Inr (s\<lparr>rd_FreeSpaceBytes := a11\<rparr>, insert 11 b)"
  "obj_fold (StorageDisk_decodeField J) (field ''totalSpaceBytes'' (NilUInt64String_Encode a12)) (s, b)
     = Inr (s\<lparr>rd_TotalSpaceBytes := a12\<rparr>, insert 12 b)"
  "obj_fold (StorageDisk_decodeField J) (field ''unreservedSpaceBytes'' (NilUInt64String_Encode a13)) (s, b)
     = Inr (s\<lparr>rd_UnreservedSpaceBytes := a13\<rparr>, insert 13 b)"
  "obj_fold (StorageDisk_decodeField J) (field ''usedByActivePartsBytes'' (UInt64String_Encode a14)) (s, b)
     = Inr (s\<lparr>rd_UsedByActivePartsBytes := a14\<rparr>, insert 14 b)"
  by (simp_all add: obj_fold_field StorageDisk_decodeField_def StorageDisk_decodeField2_def)

lemma StorageDisk_set_steps:
  "rd_Path s = OptAbsent \<Longrightarrow>
   obj_fold (StorageDisk_decodeField J) (field_set ''path'' (OptNilString_Encode a8)) (s, b)
     = Inr (s\<lparr>rd_Path := a8\<rparr>, b)"
  "rd_CachePath s = OptAbsent \<Longrightarrow>
   obj_fold (StorageDisk_decodeField J) (field_set ''cachePath'' (OptNilString_Encode a9)) (s, b)
     = Inr (s\<lparr>rd_CachePath := a9\<rparr>, b)"
by (auto simp: obj_fold_set StorageDisk_decodeField_def StorageDisk_decodeField2_def set_codec split:
    option.split optnil.split)

lemma StorageDisk_roundtrip [codec]: "StorageDisk_Decode J (StorageDisk_Encode J x) = Inr x"
by (cases x) (simp add: StorageDisk_Encode_def StorageDisk_encodeFields_def StorageDisk_Decode_def dec_obj_def
    StorageDisk_steps StorageDisk_set_steps StorageDisk_required_def StorageDisk_zero_def)

lemma StorageDisk_list [codec]: "read_arr (StorageDisk_Decode J) (write_arr (StorageDisk_Encode J) xs) = Inr xs"
  by (rule read_arr_write) (simp add: codec list.pred_True)

definition StorageDisksResponse_zero :: "RestStorageDisk listing" where
  "StorageDisksResponse_zero = \<lparr>ls_Collection = CollectionMeta_zero, ls_Items = []\<rparr>"

definition StorageDisksResponse_encodeFields ::
  "jx_env \<Rightarrow> (RestStorageDisk listing) \<Rightarrow> (string \<times> jx) list" where
  "StorageDisksResponse_encodeFields J s =
     field ''collection'' (CollectionMeta_Encode J (ls_Collection s))
     @ field ''items'' (write_arr (StorageDisk_Encode J) (ls_Items s))"

definition StorageDisksResponse_Encode :: "jx_env \<Rightarrow> (RestStorageDisk listing) \<Rightarrow> jx" where
  "StorageDisksResponse_Encode J s = JObj (StorageDisksResponse_encodeFields J s)"

definition StorageDisksResponse_decodeField ::
  "jx_env \<Rightarrow> string \<Rightarrow> jx \<Rightarrow> (RestStorageDisk listing) \<times> nat set \<Rightarrow> jerr + (RestStorageDisk listing) \<times> nat set" where
  "StorageDisksResponse_decodeField J k v st = (case st of (s, b) \<Rightarrow>
     if k = ''collection'' then put_field k (\<lambda>x. (s\<lparr>ls_Collection := x\<rparr>, insert 0 b)) (CollectionMeta_Decode J v)
     else if k = ''items'' then put_field k (\<lambda>x. (s\<lparr>ls_Items := x\<rparr>, insert 1 b)) (read_arr (StorageDisk_Decode J) v)
     else Inl (JUnexpectedField k))"

definition StorageDisksResponse_required :: "(nat \<times> string) list" where
  "StorageDisksResponse_required = [(0, ''collection''), (1, ''items'')]"

definition StorageDisksResponse_Decode ::
  "jx_env \<Rightarrow> jx \<Rightarrow> jerr + (RestStorageDisk listing)" where
  "StorageDisksResponse_Decode J =
     dec_obj ''StorageDisksResponse'' (StorageDisksResponse_decodeField J) StorageDisksResponse_required StorageDisksResponse_zero"

definition StorageDisksResponse_ok :: "jx_env \<Rightarrow> (RestStorageDisk listing) \<Rightarrow> bool" where
  "StorageDisksResponse_ok J s \<longleftrightarrow> CollectionMeta_ok J (ls_Collection s)"

lemma StorageDisksResponse_steps:
  "CollectionMeta_ok J a0 \<Longrightarrow>
   obj_fold (StorageDisksResponse_decodeField J) (field ''collection'' (CollectionMeta_Encode J a0)) (s, b)
     = Inr (s\<lparr>ls_Collection := a0\<rparr>, insert 0 b)"
  "obj_fold (StorageDisksResponse_decodeField J) (field ''items'' (write_arr (StorageDisk_Encode J) a1)) (s, b)
     = Inr (s\<lparr>ls_Items := a1\<rparr>, insert 1 b)"
  by (simp_all add: obj_fold_field StorageDisksResponse_decodeField_def CollectionMeta_roundtrip StorageDisk_list)

lemma StorageDisksResponse_roundtrip [codec]:
  "StorageDisksResponse_ok J x \<Longrightarrow> StorageDisksResponse_Decode J (StorageDisksResponse_Encode J x) = Inr x"
by (cases x) (simp add: StorageDisksResponse_Encode_def StorageDisksResponse_encodeFields_def
    StorageDisksResponse_Decode_def dec_obj_def StorageDisksResponse_steps StorageDisksResponse_required_def
    StorageDisksResponse_zero_def StorageDisksResponse_ok_def)

lemma StorageDisksResponse_list [codec]:
  "list_all (StorageDisksResponse_ok J) xs \<Longrightarrow> read_arr (StorageDisksResponse_Decode J) (write_arr (StorageDisksResponse_Encode J) xs) = Inr xs"
  by (rule read_arr_write) (auto simp: codec elim!: list.pred_mono_strong)

section \<open>Tables\<close>

definition PlacementCounts_zero :: "PlacementCounts" where
  "PlacementCounts_zero = \<lparr>pc_OnTarget = 0, pc_OffTarget = 0, pc_Split = 0, pc_ReplicaDivergent = 0, pc_MissingReplica = 0,
     pc_Unknown = 0\<rparr>"

definition PlacementCounts_encodeFields ::
  "jx_env \<Rightarrow> PlacementCounts \<Rightarrow> (string \<times> jx) list" where
  "PlacementCounts_encodeFields J s =
     field ''on_target'' (write_int (pc_OnTarget s))
     @ field ''off_target'' (write_int (pc_OffTarget s))
     @ field ''split'' (write_int (pc_Split s))
     @ field ''replica_divergent'' (write_int (pc_ReplicaDivergent s))
     @ field ''missing_replica'' (write_int (pc_MissingReplica s))
     @ field ''unknown'' (write_int (pc_Unknown s))"

definition PlacementCounts_Encode :: "jx_env \<Rightarrow> PlacementCounts \<Rightarrow> jx" where
  "PlacementCounts_Encode J s = JObj (PlacementCounts_encodeFields J s)"

definition PlacementCounts_decodeField ::
  "jx_env \<Rightarrow> string \<Rightarrow> jx \<Rightarrow> PlacementCounts \<times> nat set \<Rightarrow> jerr + PlacementCounts \<times> nat set" where
  "PlacementCounts_decodeField J k v st = (case st of (s, b) \<Rightarrow>
     if k = ''on_target'' then put_field k (\<lambda>x. (s\<lparr>pc_OnTarget := x\<rparr>, insert 0 b)) (read_int J v)
     else if k = ''off_target'' then put_field k (\<lambda>x. (s\<lparr>pc_OffTarget := x\<rparr>, insert 1 b)) (read_int J v)
     else if k = ''split'' then put_field k (\<lambda>x. (s\<lparr>pc_Split := x\<rparr>, insert 2 b)) (read_int J v)
     else if k = ''replica_divergent'' then put_field k (\<lambda>x. (s\<lparr>pc_ReplicaDivergent := x\<rparr>, insert 3 b)) (read_int J v)
     else if k = ''missing_replica'' then put_field k (\<lambda>x. (s\<lparr>pc_MissingReplica := x\<rparr>, insert 4 b)) (read_int J v)
     else if k = ''unknown'' then put_field k (\<lambda>x. (s\<lparr>pc_Unknown := x\<rparr>, insert 5 b)) (read_int J v)
     else Inl (JUnexpectedField k))"

definition PlacementCounts_required :: "(nat \<times> string) list" where
  "PlacementCounts_required = [(0, ''on_target''), (1, ''off_target''), (2, ''split''), (3, ''replica_divergent''), (4, ''missing_replica''),
    (5, ''unknown'')]"

definition PlacementCounts_Decode :: "jx_env \<Rightarrow> jx \<Rightarrow> jerr + PlacementCounts" where
  "PlacementCounts_Decode J =
     dec_obj ''PlacementCounts'' (PlacementCounts_decodeField J) PlacementCounts_required PlacementCounts_zero"

definition PlacementCounts_ok :: "jx_env \<Rightarrow> PlacementCounts \<Rightarrow> bool" where
  "PlacementCounts_ok J s \<longleftrightarrow> in_i64 (pc_OnTarget s) \<and> in_i64 (pc_OffTarget s) \<and> in_i64 (pc_Split s) \<and>
     in_i64 (pc_ReplicaDivergent s) \<and> in_i64 (pc_MissingReplica s) \<and> in_i64 (pc_Unknown s)"

lemma PlacementCounts_steps:
  "in_i64 a0 \<Longrightarrow>
   obj_fold (PlacementCounts_decodeField J) (field ''on_target'' (write_int a0)) (s, b)
     = Inr (s\<lparr>pc_OnTarget := a0\<rparr>, insert 0 b)"
  "in_i64 a1 \<Longrightarrow>
   obj_fold (PlacementCounts_decodeField J) (field ''off_target'' (write_int a1)) (s, b)
     = Inr (s\<lparr>pc_OffTarget := a1\<rparr>, insert 1 b)"
  "in_i64 a2 \<Longrightarrow>
   obj_fold (PlacementCounts_decodeField J) (field ''split'' (write_int a2)) (s, b)
     = Inr (s\<lparr>pc_Split := a2\<rparr>, insert 2 b)"
  "in_i64 a3 \<Longrightarrow>
   obj_fold (PlacementCounts_decodeField J) (field ''replica_divergent'' (write_int a3)) (s, b)
     = Inr (s\<lparr>pc_ReplicaDivergent := a3\<rparr>, insert 3 b)"
  "in_i64 a4 \<Longrightarrow>
   obj_fold (PlacementCounts_decodeField J) (field ''missing_replica'' (write_int a4)) (s, b)
     = Inr (s\<lparr>pc_MissingReplica := a4\<rparr>, insert 4 b)"
  "in_i64 a5 \<Longrightarrow>
   obj_fold (PlacementCounts_decodeField J) (field ''unknown'' (write_int a5)) (s, b)
     = Inr (s\<lparr>pc_Unknown := a5\<rparr>, insert 5 b)"
  by (simp_all add: obj_fold_field PlacementCounts_decodeField_def)

lemma PlacementCounts_roundtrip [codec]:
  "PlacementCounts_ok J x \<Longrightarrow> PlacementCounts_Decode J (PlacementCounts_Encode J x) = Inr x"
by (cases x) (simp add: PlacementCounts_Encode_def PlacementCounts_encodeFields_def PlacementCounts_Decode_def
    dec_obj_def PlacementCounts_steps PlacementCounts_required_def PlacementCounts_zero_def
    PlacementCounts_ok_def)

lemma PlacementCounts_list [codec]:
  "list_all (PlacementCounts_ok J) xs \<Longrightarrow> read_arr (PlacementCounts_Decode J) (write_arr (PlacementCounts_Encode J) xs) = Inr xs"
  by (rule read_arr_write) (auto simp: codec elim!: list.pred_mono_strong)

definition PartitionOperationCounts_zero :: "PartitionOperationCounts" where
  "PartitionOperationCounts_zero = \<lparr>poc_Moving = 0, poc_Merging = 0, poc_Mutating = 0, poc_Fetching = 0\<rparr>"

definition PartitionOperationCounts_encodeFields ::
  "jx_env \<Rightarrow> PartitionOperationCounts \<Rightarrow> (string \<times> jx) list" where
  "PartitionOperationCounts_encodeFields J s =
     field ''moving'' (write_int (poc_Moving s))
     @ field ''merging'' (write_int (poc_Merging s))
     @ field ''mutating'' (write_int (poc_Mutating s))
     @ field ''fetching'' (write_int (poc_Fetching s))"

definition PartitionOperationCounts_Encode :: "jx_env \<Rightarrow> PartitionOperationCounts \<Rightarrow> jx" where
  "PartitionOperationCounts_Encode J s = JObj (PartitionOperationCounts_encodeFields J s)"

definition PartitionOperationCounts_decodeField ::
  "jx_env \<Rightarrow> string \<Rightarrow> jx \<Rightarrow> PartitionOperationCounts \<times> nat set \<Rightarrow> jerr + PartitionOperationCounts \<times> nat set" where
  "PartitionOperationCounts_decodeField J k v st = (case st of (s, b) \<Rightarrow>
     if k = ''moving'' then put_field k (\<lambda>x. (s\<lparr>poc_Moving := x\<rparr>, insert 0 b)) (read_int J v)
     else if k = ''merging'' then put_field k (\<lambda>x. (s\<lparr>poc_Merging := x\<rparr>, insert 1 b)) (read_int J v)
     else if k = ''mutating'' then put_field k (\<lambda>x. (s\<lparr>poc_Mutating := x\<rparr>, insert 2 b)) (read_int J v)
     else if k = ''fetching'' then put_field k (\<lambda>x. (s\<lparr>poc_Fetching := x\<rparr>, insert 3 b)) (read_int J v)
     else Inl (JUnexpectedField k))"

definition PartitionOperationCounts_required :: "(nat \<times> string) list" where
  "PartitionOperationCounts_required = [(0, ''moving''), (1, ''merging''), (2, ''mutating''), (3, ''fetching'')]"

definition PartitionOperationCounts_Decode ::
  "jx_env \<Rightarrow> jx \<Rightarrow> jerr + PartitionOperationCounts" where
  "PartitionOperationCounts_Decode J =
     dec_obj ''PartitionOperationCounts'' (PartitionOperationCounts_decodeField J) PartitionOperationCounts_required PartitionOperationCounts_zero"

definition PartitionOperationCounts_ok :: "jx_env \<Rightarrow> PartitionOperationCounts \<Rightarrow> bool" where
  "PartitionOperationCounts_ok J s \<longleftrightarrow> in_i64 (poc_Moving s) \<and> in_i64 (poc_Merging s) \<and> in_i64 (poc_Mutating s) \<and>
     in_i64 (poc_Fetching s)"

lemma PartitionOperationCounts_steps:
  "in_i64 a0 \<Longrightarrow>
   obj_fold (PartitionOperationCounts_decodeField J) (field ''moving'' (write_int a0)) (s, b)
     = Inr (s\<lparr>poc_Moving := a0\<rparr>, insert 0 b)"
  "in_i64 a1 \<Longrightarrow>
   obj_fold (PartitionOperationCounts_decodeField J) (field ''merging'' (write_int a1)) (s, b)
     = Inr (s\<lparr>poc_Merging := a1\<rparr>, insert 1 b)"
  "in_i64 a2 \<Longrightarrow>
   obj_fold (PartitionOperationCounts_decodeField J) (field ''mutating'' (write_int a2)) (s, b)
     = Inr (s\<lparr>poc_Mutating := a2\<rparr>, insert 2 b)"
  "in_i64 a3 \<Longrightarrow>
   obj_fold (PartitionOperationCounts_decodeField J) (field ''fetching'' (write_int a3)) (s, b)
     = Inr (s\<lparr>poc_Fetching := a3\<rparr>, insert 3 b)"
  by (simp_all add: obj_fold_field PartitionOperationCounts_decodeField_def)

lemma PartitionOperationCounts_roundtrip [codec]:
  "PartitionOperationCounts_ok J x \<Longrightarrow> PartitionOperationCounts_Decode J (PartitionOperationCounts_Encode J x) = Inr x"
by (cases x) (simp add: PartitionOperationCounts_Encode_def PartitionOperationCounts_encodeFields_def
    PartitionOperationCounts_Decode_def dec_obj_def PartitionOperationCounts_steps
    PartitionOperationCounts_required_def PartitionOperationCounts_zero_def PartitionOperationCounts_ok_def)

lemma PartitionOperationCounts_list [codec]:
  "list_all (PartitionOperationCounts_ok J) xs \<Longrightarrow> read_arr (PartitionOperationCounts_Decode J) (write_arr (PartitionOperationCounts_Encode J) xs) = Inr xs"
  by (rule read_arr_write) (auto simp: codec elim!: list.pred_mono_strong)

definition TableListItem_zero :: "TableListItem" where
  "TableListItem_zero = \<lparr>tli_Database = '''', tli_Table = '''', tli_Engine = '''', tli_StoragePolicy = '''',
     tli_TargetDisk = '''', tli_PartitionKey = '''', tli_SortingKey = '''', tli_PrimaryKey = '''',
     tli_VersionColumn = OptAbsent, tli_NodesObserved = 0, tli_ShardsObserved = 0, tli_ReplicasPerShard = 0,
     tli_ActivePartitions = 0, tli_ActiveParts = '''', tli_Rows = '''', tli_BytesOnDisk = '''',
     tli_PartitionPlacements = PlacementCounts_zero, tli_PartitionOperations = PartitionOperationCounts_zero,
     tli_ActiveOperations = 0, tli_Conditions = [], tli_Links = []\<rparr>"

definition TableListItem_encodeFields ::
  "jx_env \<Rightarrow> TableListItem \<Rightarrow> (string \<times> jx) list" where
  "TableListItem_encodeFields J s =
     field ''database'' (JStr (tli_Database s))
     @ field ''table'' (JStr (tli_Table s))
     @ field ''engine'' (JStr (tli_Engine s))
     @ field ''storagePolicy'' (JStr (tli_StoragePolicy s))
     @ field ''targetDisk'' (JStr (tli_TargetDisk s))
     @ field ''partitionKey'' (JStr (tli_PartitionKey s))
     @ field ''sortingKey'' (JStr (tli_SortingKey s))
     @ field ''primaryKey'' (JStr (tli_PrimaryKey s))
     @ field_set ''versionColumn'' (OptNilString_Encode (tli_VersionColumn s))
     @ field ''nodesObserved'' (write_int (tli_NodesObserved s))
     @ field ''shardsObserved'' (write_int (tli_ShardsObserved s))
     @ field ''replicasPerShard'' (write_int (tli_ReplicasPerShard s))
     @ field ''activePartitions'' (write_int (tli_ActivePartitions s))
     @ field ''activeParts'' (UInt64String_Encode (tli_ActiveParts s))
     @ field ''rows'' (UInt64String_Encode (tli_Rows s))
     @ field ''bytesOnDisk'' (UInt64String_Encode (tli_BytesOnDisk s))
     @ field ''partitionPlacements'' (PlacementCounts_Encode J (tli_PartitionPlacements s))
     @ field ''partitionOperations'' (PartitionOperationCounts_Encode J (tli_PartitionOperations s))
     @ field ''activeOperations'' (write_int (tli_ActiveOperations s))
     @ field ''conditions'' (write_arr (EmbeddedCondition_Encode J) (tli_Conditions s))
     @ field ''links'' (LinkMap_Encode (tli_Links s))"

definition TableListItem_Encode :: "jx_env \<Rightarrow> TableListItem \<Rightarrow> jx" where
  "TableListItem_Encode J s = JObj (TableListItem_encodeFields J s)"

definition TableListItem_decodeField2 ::
  "jx_env \<Rightarrow> string \<Rightarrow> jx \<Rightarrow> TableListItem \<times> nat set \<Rightarrow> jerr + TableListItem \<times> nat set" where
  "TableListItem_decodeField2 J k v st = (case st of (s, b) \<Rightarrow>
     if k = ''activePartitions'' then put_field k (\<lambda>x. (s\<lparr>tli_ActivePartitions := x\<rparr>, insert 12 b)) (read_int J v)
     else if k = ''activeParts'' then put_field k (\<lambda>x. (s\<lparr>tli_ActiveParts := x\<rparr>, insert 13 b)) (UInt64String_Decode J v)
     else if k = ''rows'' then put_field k (\<lambda>x. (s\<lparr>tli_Rows := x\<rparr>, insert 14 b)) (UInt64String_Decode J v)
     else if k = ''bytesOnDisk'' then put_field k (\<lambda>x. (s\<lparr>tli_BytesOnDisk := x\<rparr>, insert 15 b)) (UInt64String_Decode J v)
     else if k = ''partitionPlacements'' then put_field k (\<lambda>x. (s\<lparr>tli_PartitionPlacements := x\<rparr>, insert 16 b)) (PlacementCounts_Decode J v)
     else if k = ''partitionOperations'' then put_field k (\<lambda>x. (s\<lparr>tli_PartitionOperations := x\<rparr>, insert 17 b)) (PartitionOperationCounts_Decode J v)
     else if k = ''activeOperations'' then put_field k (\<lambda>x. (s\<lparr>tli_ActiveOperations := x\<rparr>, insert 18 b)) (read_int J v)
     else if k = ''conditions'' then put_field k (\<lambda>x. (s\<lparr>tli_Conditions := x\<rparr>, insert 19 b)) (read_arr (EmbeddedCondition_Decode J) v)
     else if k = ''links'' then put_field k (\<lambda>x. (s\<lparr>tli_Links := x\<rparr>, insert 20 b)) (LinkMap_Decode J v)
     else Inl (JUnexpectedField k))"

definition TableListItem_decodeField ::
  "jx_env \<Rightarrow> string \<Rightarrow> jx \<Rightarrow> TableListItem \<times> nat set \<Rightarrow> jerr + TableListItem \<times> nat set" where
  "TableListItem_decodeField J k v st = (case st of (s, b) \<Rightarrow>
     if k = ''database'' then put_field k (\<lambda>x. (s\<lparr>tli_Database := x\<rparr>, insert 0 b)) (read_str J v)
     else if k = ''table'' then put_field k (\<lambda>x. (s\<lparr>tli_Table := x\<rparr>, insert 1 b)) (read_str J v)
     else if k = ''engine'' then put_field k (\<lambda>x. (s\<lparr>tli_Engine := x\<rparr>, insert 2 b)) (read_str J v)
     else if k = ''storagePolicy'' then put_field k (\<lambda>x. (s\<lparr>tli_StoragePolicy := x\<rparr>, insert 3 b)) (read_str J v)
     else if k = ''targetDisk'' then put_field k (\<lambda>x. (s\<lparr>tli_TargetDisk := x\<rparr>, insert 4 b)) (read_str J v)
     else if k = ''partitionKey'' then put_field k (\<lambda>x. (s\<lparr>tli_PartitionKey := x\<rparr>, insert 5 b)) (read_str J v)
     else if k = ''sortingKey'' then put_field k (\<lambda>x. (s\<lparr>tli_SortingKey := x\<rparr>, insert 6 b)) (read_str J v)
     else if k = ''primaryKey'' then put_field k (\<lambda>x. (s\<lparr>tli_PrimaryKey := x\<rparr>, insert 7 b)) (read_str J v)
     else if k = ''versionColumn'' then put_field k (\<lambda>x. (s\<lparr>tli_VersionColumn := x\<rparr>, b)) (OptNilString_Decode J v)
     else if k = ''nodesObserved'' then put_field k (\<lambda>x. (s\<lparr>tli_NodesObserved := x\<rparr>, insert 9 b)) (read_int J v)
     else if k = ''shardsObserved'' then put_field k (\<lambda>x. (s\<lparr>tli_ShardsObserved := x\<rparr>, insert 10 b)) (read_int J v)
     else if k = ''replicasPerShard'' then put_field k (\<lambda>x. (s\<lparr>tli_ReplicasPerShard := x\<rparr>, insert 11 b)) (read_int J v)
     else TableListItem_decodeField2 J k v (s, b))"

definition TableListItem_required :: "(nat \<times> string) list" where
  "TableListItem_required = [(0, ''database''), (1, ''table''), (2, ''engine''), (3, ''storagePolicy''), (4, ''targetDisk''), (5,
    ''partitionKey''), (6, ''sortingKey''), (7, ''primaryKey''), (9, ''nodesObserved''), (10, ''shardsObserved''),
    (11, ''replicasPerShard''), (12, ''activePartitions''), (13, ''activeParts''), (14, ''rows''), (15,
    ''bytesOnDisk''), (16, ''partitionPlacements''), (17, ''partitionOperations''), (18, ''activeOperations''), (19,
    ''conditions''), (20, ''links'')]"

definition TableListItem_Decode :: "jx_env \<Rightarrow> jx \<Rightarrow> jerr + TableListItem" where
  "TableListItem_Decode J =
     dec_obj ''TableListItem'' (TableListItem_decodeField J) TableListItem_required TableListItem_zero"

definition TableListItem_ok :: "jx_env \<Rightarrow> TableListItem \<Rightarrow> bool" where
  "TableListItem_ok J s \<longleftrightarrow> in_i64 (tli_NodesObserved s) \<and> in_i64 (tli_ShardsObserved s) \<and> in_i64 (tli_ReplicasPerShard s) \<and>
     in_i64 (tli_ActivePartitions s) \<and> PlacementCounts_ok J (tli_PartitionPlacements s) \<and>
     PartitionOperationCounts_ok J (tli_PartitionOperations s) \<and> in_i64 (tli_ActiveOperations s) \<and>
     list_all (EmbeddedCondition_ok J) (tli_Conditions s) \<and> amap_ok (tli_Links s)"

lemma TableListItem_steps:
  "obj_fold (TableListItem_decodeField J) (field ''database'' (JStr a0)) (s, b)
     = Inr (s\<lparr>tli_Database := a0\<rparr>, insert 0 b)"
  "obj_fold (TableListItem_decodeField J) (field ''table'' (JStr a1)) (s, b)
     = Inr (s\<lparr>tli_Table := a1\<rparr>, insert 1 b)"
  "obj_fold (TableListItem_decodeField J) (field ''engine'' (JStr a2)) (s, b)
     = Inr (s\<lparr>tli_Engine := a2\<rparr>, insert 2 b)"
  "obj_fold (TableListItem_decodeField J) (field ''storagePolicy'' (JStr a3)) (s, b)
     = Inr (s\<lparr>tli_StoragePolicy := a3\<rparr>, insert 3 b)"
  "obj_fold (TableListItem_decodeField J) (field ''targetDisk'' (JStr a4)) (s, b)
     = Inr (s\<lparr>tli_TargetDisk := a4\<rparr>, insert 4 b)"
  "obj_fold (TableListItem_decodeField J) (field ''partitionKey'' (JStr a5)) (s, b)
     = Inr (s\<lparr>tli_PartitionKey := a5\<rparr>, insert 5 b)"
  "obj_fold (TableListItem_decodeField J) (field ''sortingKey'' (JStr a6)) (s, b)
     = Inr (s\<lparr>tli_SortingKey := a6\<rparr>, insert 6 b)"
  "obj_fold (TableListItem_decodeField J) (field ''primaryKey'' (JStr a7)) (s, b)
     = Inr (s\<lparr>tli_PrimaryKey := a7\<rparr>, insert 7 b)"
  "in_i64 a9 \<Longrightarrow>
   obj_fold (TableListItem_decodeField J) (field ''nodesObserved'' (write_int a9)) (s, b)
     = Inr (s\<lparr>tli_NodesObserved := a9\<rparr>, insert 9 b)"
  "in_i64 a10 \<Longrightarrow>
   obj_fold (TableListItem_decodeField J) (field ''shardsObserved'' (write_int a10)) (s, b)
     = Inr (s\<lparr>tli_ShardsObserved := a10\<rparr>, insert 10 b)"
  "in_i64 a11 \<Longrightarrow>
   obj_fold (TableListItem_decodeField J) (field ''replicasPerShard'' (write_int a11)) (s, b)
     = Inr (s\<lparr>tli_ReplicasPerShard := a11\<rparr>, insert 11 b)"
  "in_i64 a12 \<Longrightarrow>
   obj_fold (TableListItem_decodeField J) (field ''activePartitions'' (write_int a12)) (s, b)
     = Inr (s\<lparr>tli_ActivePartitions := a12\<rparr>, insert 12 b)"
  "obj_fold (TableListItem_decodeField J) (field ''activeParts'' (UInt64String_Encode a13)) (s, b)
     = Inr (s\<lparr>tli_ActiveParts := a13\<rparr>, insert 13 b)"
  "obj_fold (TableListItem_decodeField J) (field ''rows'' (UInt64String_Encode a14)) (s, b)
     = Inr (s\<lparr>tli_Rows := a14\<rparr>, insert 14 b)"
  "obj_fold (TableListItem_decodeField J) (field ''bytesOnDisk'' (UInt64String_Encode a15)) (s, b)
     = Inr (s\<lparr>tli_BytesOnDisk := a15\<rparr>, insert 15 b)"
  "PlacementCounts_ok J a16 \<Longrightarrow>
   obj_fold (TableListItem_decodeField J) (field ''partitionPlacements'' (PlacementCounts_Encode J a16)) (s, b)
     = Inr (s\<lparr>tli_PartitionPlacements := a16\<rparr>, insert 16 b)"
  "PartitionOperationCounts_ok J a17 \<Longrightarrow>
   obj_fold (TableListItem_decodeField J) (field ''partitionOperations'' (PartitionOperationCounts_Encode J a17)) (s, b)
     = Inr (s\<lparr>tli_PartitionOperations := a17\<rparr>, insert 17 b)"
  "in_i64 a18 \<Longrightarrow>
   obj_fold (TableListItem_decodeField J) (field ''activeOperations'' (write_int a18)) (s, b)
     = Inr (s\<lparr>tli_ActiveOperations := a18\<rparr>, insert 18 b)"
  "list_all (EmbeddedCondition_ok J) a19 \<Longrightarrow>
   obj_fold (TableListItem_decodeField J) (field ''conditions'' (write_arr (EmbeddedCondition_Encode J) a19)) (s, b)
     = Inr (s\<lparr>tli_Conditions := a19\<rparr>, insert 19 b)"
  "amap_ok a20 \<Longrightarrow>
   obj_fold (TableListItem_decodeField J) (field ''links'' (LinkMap_Encode a20)) (s, b)
     = Inr (s\<lparr>tli_Links := a20\<rparr>, insert 20 b)"
by (simp_all add: obj_fold_field TableListItem_decodeField_def TableListItem_decodeField2_def
    PlacementCounts_roundtrip PartitionOperationCounts_roundtrip EmbeddedCondition_list)

lemma TableListItem_set_steps:
  "tli_VersionColumn s = OptAbsent \<Longrightarrow>
   obj_fold (TableListItem_decodeField J) (field_set ''versionColumn'' (OptNilString_Encode a8)) (s, b)
     = Inr (s\<lparr>tli_VersionColumn := a8\<rparr>, b)"
by (auto simp: obj_fold_set TableListItem_decodeField_def TableListItem_decodeField2_def set_codec
    PlacementCounts_roundtrip PartitionOperationCounts_roundtrip EmbeddedCondition_list split: option.split
    optnil.split)

lemma TableListItem_roundtrip [codec]:
  "TableListItem_ok J x \<Longrightarrow> TableListItem_Decode J (TableListItem_Encode J x) = Inr x"
by (cases x) (simp add: TableListItem_Encode_def TableListItem_encodeFields_def TableListItem_Decode_def
    dec_obj_def TableListItem_steps TableListItem_set_steps TableListItem_required_def TableListItem_zero_def
    TableListItem_ok_def)

lemma TableListItem_list [codec]:
  "list_all (TableListItem_ok J) xs \<Longrightarrow> read_arr (TableListItem_Decode J) (write_arr (TableListItem_Encode J) xs) = Inr xs"
  by (rule read_arr_write) (auto simp: codec elim!: list.pred_mono_strong)

definition TablesResponse_zero :: "TableListItem listing" where
  "TablesResponse_zero = \<lparr>ls_Collection = CollectionMeta_zero, ls_Items = []\<rparr>"

definition TablesResponse_encodeFields ::
  "jx_env \<Rightarrow> (TableListItem listing) \<Rightarrow> (string \<times> jx) list" where
  "TablesResponse_encodeFields J s =
     field ''collection'' (CollectionMeta_Encode J (ls_Collection s))
     @ field ''items'' (write_arr (TableListItem_Encode J) (ls_Items s))"

definition TablesResponse_Encode :: "jx_env \<Rightarrow> (TableListItem listing) \<Rightarrow> jx" where
  "TablesResponse_Encode J s = JObj (TablesResponse_encodeFields J s)"

definition TablesResponse_decodeField ::
  "jx_env \<Rightarrow> string \<Rightarrow> jx \<Rightarrow> (TableListItem listing) \<times> nat set \<Rightarrow> jerr + (TableListItem listing) \<times> nat set" where
  "TablesResponse_decodeField J k v st = (case st of (s, b) \<Rightarrow>
     if k = ''collection'' then put_field k (\<lambda>x. (s\<lparr>ls_Collection := x\<rparr>, insert 0 b)) (CollectionMeta_Decode J v)
     else if k = ''items'' then put_field k (\<lambda>x. (s\<lparr>ls_Items := x\<rparr>, insert 1 b)) (read_arr (TableListItem_Decode J) v)
     else Inl (JUnexpectedField k))"

definition TablesResponse_required :: "(nat \<times> string) list" where
  "TablesResponse_required = [(0, ''collection''), (1, ''items'')]"

definition TablesResponse_Decode :: "jx_env \<Rightarrow> jx \<Rightarrow> jerr + (TableListItem listing)" where
  "TablesResponse_Decode J =
     dec_obj ''TablesResponse'' (TablesResponse_decodeField J) TablesResponse_required TablesResponse_zero"

definition TablesResponse_ok :: "jx_env \<Rightarrow> (TableListItem listing) \<Rightarrow> bool" where
  "TablesResponse_ok J s \<longleftrightarrow> CollectionMeta_ok J (ls_Collection s) \<and> list_all (TableListItem_ok J) (ls_Items s)"

lemma TablesResponse_steps:
  "CollectionMeta_ok J a0 \<Longrightarrow>
   obj_fold (TablesResponse_decodeField J) (field ''collection'' (CollectionMeta_Encode J a0)) (s, b)
     = Inr (s\<lparr>ls_Collection := a0\<rparr>, insert 0 b)"
  "list_all (TableListItem_ok J) a1 \<Longrightarrow>
   obj_fold (TablesResponse_decodeField J) (field ''items'' (write_arr (TableListItem_Encode J) a1)) (s, b)
     = Inr (s\<lparr>ls_Items := a1\<rparr>, insert 1 b)"
  by (simp_all add: obj_fold_field TablesResponse_decodeField_def CollectionMeta_roundtrip TableListItem_list)

lemma TablesResponse_roundtrip [codec]:
  "TablesResponse_ok J x \<Longrightarrow> TablesResponse_Decode J (TablesResponse_Encode J x) = Inr x"
by (cases x) (simp add: TablesResponse_Encode_def TablesResponse_encodeFields_def TablesResponse_Decode_def
    dec_obj_def TablesResponse_steps TablesResponse_required_def TablesResponse_zero_def TablesResponse_ok_def)

lemma TablesResponse_list [codec]:
  "list_all (TablesResponse_ok J) xs \<Longrightarrow> read_arr (TablesResponse_Decode J) (write_arr (TablesResponse_Encode J) xs) = Inr xs"
  by (rule read_arr_write) (auto simp: codec elim!: list.pred_mono_strong)

definition ReplicaState_zero :: "RestReplicaState" where
  "ReplicaState_zero = \<lparr>rr_Readonly = None, rr_SessionExpired = None, rr_QueueSize = None, rr_AbsoluteDelaySeconds = None,
     rr_TotalReplicas = None, rr_ActiveReplicas = None\<rparr>"

definition ReplicaState_encodeFields ::
  "jx_env \<Rightarrow> RestReplicaState \<Rightarrow> (string \<times> jx) list" where
  "ReplicaState_encodeFields J s =
     field_set ''readonly'' (OptBool_Encode (rr_Readonly s))
     @ field_set ''sessionExpired'' (OptBool_Encode (rr_SessionExpired s))
     @ field_set ''queueSize'' (OptUInt64String_Encode (rr_QueueSize s))
     @ field_set ''absoluteDelaySeconds'' (OptUInt64String_Encode (rr_AbsoluteDelaySeconds s))
     @ field_set ''totalReplicas'' (OptUInt64String_Encode (rr_TotalReplicas s))
     @ field_set ''activeReplicas'' (OptUInt64String_Encode (rr_ActiveReplicas s))"

definition ReplicaState_Encode :: "jx_env \<Rightarrow> RestReplicaState \<Rightarrow> jx" where
  "ReplicaState_Encode J s = JObj (ReplicaState_encodeFields J s)"

definition ReplicaState_decodeField ::
  "jx_env \<Rightarrow> string \<Rightarrow> jx \<Rightarrow> RestReplicaState \<times> nat set \<Rightarrow> jerr + RestReplicaState \<times> nat set" where
  "ReplicaState_decodeField J k v st = (case st of (s, b) \<Rightarrow>
     if k = ''readonly'' then put_field k (\<lambda>x. (s\<lparr>rr_Readonly := x\<rparr>, b)) (OptBool_Decode J v)
     else if k = ''sessionExpired'' then put_field k (\<lambda>x. (s\<lparr>rr_SessionExpired := x\<rparr>, b)) (OptBool_Decode J v)
     else if k = ''queueSize'' then put_field k (\<lambda>x. (s\<lparr>rr_QueueSize := x\<rparr>, b)) (OptUInt64String_Decode J v)
     else if k = ''absoluteDelaySeconds'' then put_field k (\<lambda>x. (s\<lparr>rr_AbsoluteDelaySeconds := x\<rparr>, b)) (OptUInt64String_Decode J v)
     else if k = ''totalReplicas'' then put_field k (\<lambda>x. (s\<lparr>rr_TotalReplicas := x\<rparr>, b)) (OptUInt64String_Decode J v)
     else if k = ''activeReplicas'' then put_field k (\<lambda>x. (s\<lparr>rr_ActiveReplicas := x\<rparr>, b)) (OptUInt64String_Decode J v)
     else Inl (JUnexpectedField k))"

definition ReplicaState_required :: "(nat \<times> string) list" where
  "ReplicaState_required = []"

definition ReplicaState_Decode :: "jx_env \<Rightarrow> jx \<Rightarrow> jerr + RestReplicaState" where
  "ReplicaState_Decode J =
     dec_obj ''ReplicaState'' (ReplicaState_decodeField J) ReplicaState_required ReplicaState_zero"

lemma ReplicaState_set_steps:
  "rr_Readonly s = None \<Longrightarrow>
   obj_fold (ReplicaState_decodeField J) (field_set ''readonly'' (OptBool_Encode a0)) (s, b)
     = Inr (s\<lparr>rr_Readonly := a0\<rparr>, b)"
  "rr_SessionExpired s = None \<Longrightarrow>
   obj_fold (ReplicaState_decodeField J) (field_set ''sessionExpired'' (OptBool_Encode a1)) (s, b)
     = Inr (s\<lparr>rr_SessionExpired := a1\<rparr>, b)"
  "rr_QueueSize s = None \<Longrightarrow>
   obj_fold (ReplicaState_decodeField J) (field_set ''queueSize'' (OptUInt64String_Encode a2)) (s, b)
     = Inr (s\<lparr>rr_QueueSize := a2\<rparr>, b)"
  "rr_AbsoluteDelaySeconds s = None \<Longrightarrow>
   obj_fold (ReplicaState_decodeField J) (field_set ''absoluteDelaySeconds'' (OptUInt64String_Encode a3)) (s, b)
     = Inr (s\<lparr>rr_AbsoluteDelaySeconds := a3\<rparr>, b)"
  "rr_TotalReplicas s = None \<Longrightarrow>
   obj_fold (ReplicaState_decodeField J) (field_set ''totalReplicas'' (OptUInt64String_Encode a4)) (s, b)
     = Inr (s\<lparr>rr_TotalReplicas := a4\<rparr>, b)"
  "rr_ActiveReplicas s = None \<Longrightarrow>
   obj_fold (ReplicaState_decodeField J) (field_set ''activeReplicas'' (OptUInt64String_Encode a5)) (s, b)
     = Inr (s\<lparr>rr_ActiveReplicas := a5\<rparr>, b)"
  by (auto simp: obj_fold_set ReplicaState_decodeField_def set_codec split: option.split optnil.split)

lemma ReplicaState_roundtrip [codec]: "ReplicaState_Decode J (ReplicaState_Encode J x) = Inr x"
by (cases x) (simp add: ReplicaState_Encode_def ReplicaState_encodeFields_def ReplicaState_Decode_def
    dec_obj_def ReplicaState_set_steps ReplicaState_required_def ReplicaState_zero_def)

lemma ReplicaState_list [codec]: "read_arr (ReplicaState_Decode J) (write_arr (ReplicaState_Encode J) xs) = Inr xs"
  by (rule read_arr_write) (simp add: codec list.pred_True)

definition OptReplicaState_Encode :: "jx_env \<Rightarrow> RestReplicaState option \<Rightarrow> jx option" where
  "OptReplicaState_Encode J o' = (case o' of None \<Rightarrow> None | Some x \<Rightarrow> Some (ReplicaState_Encode J x))"

definition OptReplicaState_Decode :: "jx_env \<Rightarrow> jx \<Rightarrow> jerr + RestReplicaState option" where
  "OptReplicaState_Decode J v = (case ReplicaState_Decode J v of Inl e \<Rightarrow> Inl e | Inr x \<Rightarrow> Inr (Some x))"

lemmas [set_codec] = OptReplicaState_Encode_def OptReplicaState_Decode_def

definition NodeTableState_zero :: "NodeTableState" where
  "NodeTableState_zero = \<lparr>nts_NodeId = '''', nts_Engine = '''', nts_ActiveParts = '''', nts_Rows = '''', nts_BytesOnDisk = '''',
     nts_Replica = None\<rparr>"

definition NodeTableState_encodeFields ::
  "jx_env \<Rightarrow> NodeTableState \<Rightarrow> (string \<times> jx) list" where
  "NodeTableState_encodeFields J s =
     field ''nodeId'' (JStr (nts_NodeId s))
     @ field ''engine'' (JStr (nts_Engine s))
     @ field ''activeParts'' (UInt64String_Encode (nts_ActiveParts s))
     @ field ''rows'' (UInt64String_Encode (nts_Rows s))
     @ field ''bytesOnDisk'' (UInt64String_Encode (nts_BytesOnDisk s))
     @ field_set ''replica'' (OptReplicaState_Encode J (nts_Replica s))"

definition NodeTableState_Encode :: "jx_env \<Rightarrow> NodeTableState \<Rightarrow> jx" where
  "NodeTableState_Encode J s = JObj (NodeTableState_encodeFields J s)"

definition NodeTableState_decodeField ::
  "jx_env \<Rightarrow> string \<Rightarrow> jx \<Rightarrow> NodeTableState \<times> nat set \<Rightarrow> jerr + NodeTableState \<times> nat set" where
  "NodeTableState_decodeField J k v st = (case st of (s, b) \<Rightarrow>
     if k = ''nodeId'' then put_field k (\<lambda>x. (s\<lparr>nts_NodeId := x\<rparr>, insert 0 b)) (read_str J v)
     else if k = ''engine'' then put_field k (\<lambda>x. (s\<lparr>nts_Engine := x\<rparr>, insert 1 b)) (read_str J v)
     else if k = ''activeParts'' then put_field k (\<lambda>x. (s\<lparr>nts_ActiveParts := x\<rparr>, insert 2 b)) (UInt64String_Decode J v)
     else if k = ''rows'' then put_field k (\<lambda>x. (s\<lparr>nts_Rows := x\<rparr>, insert 3 b)) (UInt64String_Decode J v)
     else if k = ''bytesOnDisk'' then put_field k (\<lambda>x. (s\<lparr>nts_BytesOnDisk := x\<rparr>, insert 4 b)) (UInt64String_Decode J v)
     else if k = ''replica'' then put_field k (\<lambda>x. (s\<lparr>nts_Replica := x\<rparr>, b)) (OptReplicaState_Decode J v)
     else Inl (JUnexpectedField k))"

definition NodeTableState_required :: "(nat \<times> string) list" where
  "NodeTableState_required = [(0, ''nodeId''), (1, ''engine''), (2, ''activeParts''), (3, ''rows''), (4, ''bytesOnDisk'')]"

definition NodeTableState_Decode :: "jx_env \<Rightarrow> jx \<Rightarrow> jerr + NodeTableState" where
  "NodeTableState_Decode J =
     dec_obj ''NodeTableState'' (NodeTableState_decodeField J) NodeTableState_required NodeTableState_zero"

lemma NodeTableState_steps:
  "obj_fold (NodeTableState_decodeField J) (field ''nodeId'' (JStr a0)) (s, b)
     = Inr (s\<lparr>nts_NodeId := a0\<rparr>, insert 0 b)"
  "obj_fold (NodeTableState_decodeField J) (field ''engine'' (JStr a1)) (s, b)
     = Inr (s\<lparr>nts_Engine := a1\<rparr>, insert 1 b)"
  "obj_fold (NodeTableState_decodeField J) (field ''activeParts'' (UInt64String_Encode a2)) (s, b)
     = Inr (s\<lparr>nts_ActiveParts := a2\<rparr>, insert 2 b)"
  "obj_fold (NodeTableState_decodeField J) (field ''rows'' (UInt64String_Encode a3)) (s, b)
     = Inr (s\<lparr>nts_Rows := a3\<rparr>, insert 3 b)"
  "obj_fold (NodeTableState_decodeField J) (field ''bytesOnDisk'' (UInt64String_Encode a4)) (s, b)
     = Inr (s\<lparr>nts_BytesOnDisk := a4\<rparr>, insert 4 b)"
  by (simp_all add: obj_fold_field NodeTableState_decodeField_def ReplicaState_roundtrip)

lemma NodeTableState_set_steps:
  "nts_Replica s = None \<Longrightarrow>
   obj_fold (NodeTableState_decodeField J) (field_set ''replica'' (OptReplicaState_Encode J a5)) (s, b)
     = Inr (s\<lparr>nts_Replica := a5\<rparr>, b)"
by (auto simp: obj_fold_set NodeTableState_decodeField_def set_codec ReplicaState_roundtrip split: option.split
    optnil.split)

lemma NodeTableState_roundtrip [codec]: "NodeTableState_Decode J (NodeTableState_Encode J x) = Inr x"
by (cases x) (simp add: NodeTableState_Encode_def NodeTableState_encodeFields_def NodeTableState_Decode_def
    dec_obj_def NodeTableState_steps NodeTableState_set_steps NodeTableState_required_def
    NodeTableState_zero_def)

lemma NodeTableState_list [codec]:
  "read_arr (NodeTableState_Decode J) (write_arr (NodeTableState_Encode J) xs) = Inr xs"
  by (rule read_arr_write) (simp add: codec list.pred_True)

definition TableDetail_zero :: "TableDetail" where
  "TableDetail_zero = \<lparr>td_Database = '''', td_Table = '''', td_Engine = '''', td_StoragePolicy = '''', td_TargetDisk = '''',
     td_PartitionKey = '''', td_SortingKey = '''', td_PrimaryKey = '''', td_VersionColumn = OptAbsent, td_UUID = '''',
     td_SamplingKey = '''', td_IsReplicated = False, td_NodesObserved = 0, td_ActivePartitions = 0,
     td_ActiveParts = '''', td_Rows = '''', td_BytesOnDisk = '''', td_MinPartition = OptAbsent,
     td_MaxPartition = OptAbsent, td_LastModificationTime = OptAbsent, td_PartitionPlacements = PlacementCounts_zero,
     td_PartitionOperations = PartitionOperationCounts_zero, td_Nodes = [], td_Conditions = []\<rparr>"

definition TableDetail_encodeFields ::
  "jx_env \<Rightarrow> TableDetail \<Rightarrow> (string \<times> jx) list" where
  "TableDetail_encodeFields J s =
     field ''database'' (JStr (td_Database s))
     @ field ''table'' (JStr (td_Table s))
     @ field ''engine'' (JStr (td_Engine s))
     @ field ''storagePolicy'' (JStr (td_StoragePolicy s))
     @ field ''targetDisk'' (JStr (td_TargetDisk s))
     @ field ''partitionKey'' (JStr (td_PartitionKey s))
     @ field ''sortingKey'' (JStr (td_SortingKey s))
     @ field ''primaryKey'' (JStr (td_PrimaryKey s))
     @ field_set ''versionColumn'' (OptNilString_Encode (td_VersionColumn s))
     @ field ''uuid'' (JStr (td_UUID s))
     @ field ''samplingKey'' (JStr (td_SamplingKey s))
     @ field ''isReplicated'' (JBool (td_IsReplicated s))
     @ field ''nodesObserved'' (write_int (td_NodesObserved s))
     @ field ''activePartitions'' (write_int (td_ActivePartitions s))
     @ field ''activeParts'' (UInt64String_Encode (td_ActiveParts s))
     @ field ''rows'' (UInt64String_Encode (td_Rows s))
     @ field ''bytesOnDisk'' (UInt64String_Encode (td_BytesOnDisk s))
     @ field_set ''minPartition'' (OptNilString_Encode (td_MinPartition s))
     @ field_set ''maxPartition'' (OptNilString_Encode (td_MaxPartition s))
     @ field_set ''lastModificationTime'' (OptNilDateTime_Encode J (td_LastModificationTime s))
     @ field ''partitionPlacements'' (PlacementCounts_Encode J (td_PartitionPlacements s))
     @ field ''partitionOperations'' (PartitionOperationCounts_Encode J (td_PartitionOperations s))
     @ field ''nodes'' (write_arr (NodeTableState_Encode J) (td_Nodes s))
     @ field ''conditions'' (write_arr (EmbeddedCondition_Encode J) (td_Conditions s))"

definition TableDetail_Encode :: "jx_env \<Rightarrow> TableDetail \<Rightarrow> jx" where
  "TableDetail_Encode J s = JObj (TableDetail_encodeFields J s)"

definition TableDetail_decodeField2 ::
  "jx_env \<Rightarrow> string \<Rightarrow> jx \<Rightarrow> TableDetail \<times> nat set \<Rightarrow> jerr + TableDetail \<times> nat set" where
  "TableDetail_decodeField2 J k v st = (case st of (s, b) \<Rightarrow>
     if k = ''nodesObserved'' then put_field k (\<lambda>x. (s\<lparr>td_NodesObserved := x\<rparr>, insert 12 b)) (read_int J v)
     else if k = ''activePartitions'' then put_field k (\<lambda>x. (s\<lparr>td_ActivePartitions := x\<rparr>, insert 13 b)) (read_int J v)
     else if k = ''activeParts'' then put_field k (\<lambda>x. (s\<lparr>td_ActiveParts := x\<rparr>, insert 14 b)) (UInt64String_Decode J v)
     else if k = ''rows'' then put_field k (\<lambda>x. (s\<lparr>td_Rows := x\<rparr>, insert 15 b)) (UInt64String_Decode J v)
     else if k = ''bytesOnDisk'' then put_field k (\<lambda>x. (s\<lparr>td_BytesOnDisk := x\<rparr>, insert 16 b)) (UInt64String_Decode J v)
     else if k = ''minPartition'' then put_field k (\<lambda>x. (s\<lparr>td_MinPartition := x\<rparr>, b)) (OptNilString_Decode J v)
     else if k = ''maxPartition'' then put_field k (\<lambda>x. (s\<lparr>td_MaxPartition := x\<rparr>, b)) (OptNilString_Decode J v)
     else if k = ''lastModificationTime'' then put_field k (\<lambda>x. (s\<lparr>td_LastModificationTime := x\<rparr>, b)) (OptNilDateTime_Decode J v)
     else if k = ''partitionPlacements'' then put_field k (\<lambda>x. (s\<lparr>td_PartitionPlacements := x\<rparr>, insert 20 b)) (PlacementCounts_Decode J v)
     else if k = ''partitionOperations'' then put_field k (\<lambda>x. (s\<lparr>td_PartitionOperations := x\<rparr>, insert 21 b)) (PartitionOperationCounts_Decode J v)
     else if k = ''nodes'' then put_field k (\<lambda>x. (s\<lparr>td_Nodes := x\<rparr>, insert 22 b)) (read_arr (NodeTableState_Decode J) v)
     else if k = ''conditions'' then put_field k (\<lambda>x. (s\<lparr>td_Conditions := x\<rparr>, insert 23 b)) (read_arr (EmbeddedCondition_Decode J) v)
     else Inl (JUnexpectedField k))"

definition TableDetail_decodeField ::
  "jx_env \<Rightarrow> string \<Rightarrow> jx \<Rightarrow> TableDetail \<times> nat set \<Rightarrow> jerr + TableDetail \<times> nat set" where
  "TableDetail_decodeField J k v st = (case st of (s, b) \<Rightarrow>
     if k = ''database'' then put_field k (\<lambda>x. (s\<lparr>td_Database := x\<rparr>, insert 0 b)) (read_str J v)
     else if k = ''table'' then put_field k (\<lambda>x. (s\<lparr>td_Table := x\<rparr>, insert 1 b)) (read_str J v)
     else if k = ''engine'' then put_field k (\<lambda>x. (s\<lparr>td_Engine := x\<rparr>, insert 2 b)) (read_str J v)
     else if k = ''storagePolicy'' then put_field k (\<lambda>x. (s\<lparr>td_StoragePolicy := x\<rparr>, insert 3 b)) (read_str J v)
     else if k = ''targetDisk'' then put_field k (\<lambda>x. (s\<lparr>td_TargetDisk := x\<rparr>, insert 4 b)) (read_str J v)
     else if k = ''partitionKey'' then put_field k (\<lambda>x. (s\<lparr>td_PartitionKey := x\<rparr>, insert 5 b)) (read_str J v)
     else if k = ''sortingKey'' then put_field k (\<lambda>x. (s\<lparr>td_SortingKey := x\<rparr>, insert 6 b)) (read_str J v)
     else if k = ''primaryKey'' then put_field k (\<lambda>x. (s\<lparr>td_PrimaryKey := x\<rparr>, insert 7 b)) (read_str J v)
     else if k = ''versionColumn'' then put_field k (\<lambda>x. (s\<lparr>td_VersionColumn := x\<rparr>, b)) (OptNilString_Decode J v)
     else if k = ''uuid'' then put_field k (\<lambda>x. (s\<lparr>td_UUID := x\<rparr>, insert 9 b)) (read_str J v)
     else if k = ''samplingKey'' then put_field k (\<lambda>x. (s\<lparr>td_SamplingKey := x\<rparr>, insert 10 b)) (read_str J v)
     else if k = ''isReplicated'' then put_field k (\<lambda>x. (s\<lparr>td_IsReplicated := x\<rparr>, insert 11 b)) (read_bool J v)
     else TableDetail_decodeField2 J k v (s, b))"

definition TableDetail_required :: "(nat \<times> string) list" where
  "TableDetail_required = [(0, ''database''), (1, ''table''), (2, ''engine''), (3, ''storagePolicy''), (4, ''targetDisk''), (5,
    ''partitionKey''), (6, ''sortingKey''), (7, ''primaryKey''), (9, ''uuid''), (10, ''samplingKey''), (11,
    ''isReplicated''), (12, ''nodesObserved''), (13, ''activePartitions''), (14, ''activeParts''), (15, ''rows''),
    (16, ''bytesOnDisk''), (20, ''partitionPlacements''), (21, ''partitionOperations''), (22, ''nodes''), (23,
    ''conditions'')]"

definition TableDetail_Decode :: "jx_env \<Rightarrow> jx \<Rightarrow> jerr + TableDetail" where
  "TableDetail_Decode J = dec_obj ''TableDetail'' (TableDetail_decodeField J) TableDetail_required TableDetail_zero"

definition TableDetail_ok :: "jx_env \<Rightarrow> TableDetail \<Rightarrow> bool" where
  "TableDetail_ok J s \<longleftrightarrow> in_i64 (td_NodesObserved s) \<and> in_i64 (td_ActivePartitions s) \<and>
     pred_optnil (time_ok J) (td_LastModificationTime s) \<and> PlacementCounts_ok J (td_PartitionPlacements s) \<and>
     PartitionOperationCounts_ok J (td_PartitionOperations s) \<and>
     list_all (EmbeddedCondition_ok J) (td_Conditions s)"

lemma TableDetail_steps:
  "obj_fold (TableDetail_decodeField J) (field ''database'' (JStr a0)) (s, b)
     = Inr (s\<lparr>td_Database := a0\<rparr>, insert 0 b)"
  "obj_fold (TableDetail_decodeField J) (field ''table'' (JStr a1)) (s, b)
     = Inr (s\<lparr>td_Table := a1\<rparr>, insert 1 b)"
  "obj_fold (TableDetail_decodeField J) (field ''engine'' (JStr a2)) (s, b)
     = Inr (s\<lparr>td_Engine := a2\<rparr>, insert 2 b)"
  "obj_fold (TableDetail_decodeField J) (field ''storagePolicy'' (JStr a3)) (s, b)
     = Inr (s\<lparr>td_StoragePolicy := a3\<rparr>, insert 3 b)"
  "obj_fold (TableDetail_decodeField J) (field ''targetDisk'' (JStr a4)) (s, b)
     = Inr (s\<lparr>td_TargetDisk := a4\<rparr>, insert 4 b)"
  "obj_fold (TableDetail_decodeField J) (field ''partitionKey'' (JStr a5)) (s, b)
     = Inr (s\<lparr>td_PartitionKey := a5\<rparr>, insert 5 b)"
  "obj_fold (TableDetail_decodeField J) (field ''sortingKey'' (JStr a6)) (s, b)
     = Inr (s\<lparr>td_SortingKey := a6\<rparr>, insert 6 b)"
  "obj_fold (TableDetail_decodeField J) (field ''primaryKey'' (JStr a7)) (s, b)
     = Inr (s\<lparr>td_PrimaryKey := a7\<rparr>, insert 7 b)"
  "obj_fold (TableDetail_decodeField J) (field ''uuid'' (JStr a9)) (s, b) = Inr (s\<lparr>td_UUID := a9\<rparr>, insert 9 b)"
  "obj_fold (TableDetail_decodeField J) (field ''samplingKey'' (JStr a10)) (s, b)
     = Inr (s\<lparr>td_SamplingKey := a10\<rparr>, insert 10 b)"
  "obj_fold (TableDetail_decodeField J) (field ''isReplicated'' (JBool a11)) (s, b)
     = Inr (s\<lparr>td_IsReplicated := a11\<rparr>, insert 11 b)"
  "in_i64 a12 \<Longrightarrow>
   obj_fold (TableDetail_decodeField J) (field ''nodesObserved'' (write_int a12)) (s, b)
     = Inr (s\<lparr>td_NodesObserved := a12\<rparr>, insert 12 b)"
  "in_i64 a13 \<Longrightarrow>
   obj_fold (TableDetail_decodeField J) (field ''activePartitions'' (write_int a13)) (s, b)
     = Inr (s\<lparr>td_ActivePartitions := a13\<rparr>, insert 13 b)"
  "obj_fold (TableDetail_decodeField J) (field ''activeParts'' (UInt64String_Encode a14)) (s, b)
     = Inr (s\<lparr>td_ActiveParts := a14\<rparr>, insert 14 b)"
  "obj_fold (TableDetail_decodeField J) (field ''rows'' (UInt64String_Encode a15)) (s, b)
     = Inr (s\<lparr>td_Rows := a15\<rparr>, insert 15 b)"
  "obj_fold (TableDetail_decodeField J) (field ''bytesOnDisk'' (UInt64String_Encode a16)) (s, b)
     = Inr (s\<lparr>td_BytesOnDisk := a16\<rparr>, insert 16 b)"
  "PlacementCounts_ok J a20 \<Longrightarrow>
   obj_fold (TableDetail_decodeField J) (field ''partitionPlacements'' (PlacementCounts_Encode J a20)) (s, b)
     = Inr (s\<lparr>td_PartitionPlacements := a20\<rparr>, insert 20 b)"
  "PartitionOperationCounts_ok J a21 \<Longrightarrow>
   obj_fold (TableDetail_decodeField J) (field ''partitionOperations'' (PartitionOperationCounts_Encode J a21)) (s, b)
     = Inr (s\<lparr>td_PartitionOperations := a21\<rparr>, insert 21 b)"
  "obj_fold (TableDetail_decodeField J) (field ''nodes'' (write_arr (NodeTableState_Encode J) a22)) (s, b)
     = Inr (s\<lparr>td_Nodes := a22\<rparr>, insert 22 b)"
  "list_all (EmbeddedCondition_ok J) a23 \<Longrightarrow>
   obj_fold (TableDetail_decodeField J) (field ''conditions'' (write_arr (EmbeddedCondition_Encode J) a23)) (s, b)
     = Inr (s\<lparr>td_Conditions := a23\<rparr>, insert 23 b)"
by (simp_all add: obj_fold_field TableDetail_decodeField_def TableDetail_decodeField2_def
    PlacementCounts_roundtrip PartitionOperationCounts_roundtrip NodeTableState_list EmbeddedCondition_list)

lemma TableDetail_set_steps:
  "td_VersionColumn s = OptAbsent \<Longrightarrow>
   obj_fold (TableDetail_decodeField J) (field_set ''versionColumn'' (OptNilString_Encode a8)) (s, b)
     = Inr (s\<lparr>td_VersionColumn := a8\<rparr>, b)"
  "td_MinPartition s = OptAbsent \<Longrightarrow>
   obj_fold (TableDetail_decodeField J) (field_set ''minPartition'' (OptNilString_Encode a17)) (s, b)
     = Inr (s\<lparr>td_MinPartition := a17\<rparr>, b)"
  "td_MaxPartition s = OptAbsent \<Longrightarrow>
   obj_fold (TableDetail_decodeField J) (field_set ''maxPartition'' (OptNilString_Encode a18)) (s, b)
     = Inr (s\<lparr>td_MaxPartition := a18\<rparr>, b)"
  "td_LastModificationTime s = OptAbsent \<Longrightarrow> pred_optnil (time_ok J) a19 \<Longrightarrow>
   obj_fold (TableDetail_decodeField J) (field_set ''lastModificationTime'' (OptNilDateTime_Encode J a19)) (s, b)
     = Inr (s\<lparr>td_LastModificationTime := a19\<rparr>, b)"
by (auto simp: obj_fold_set TableDetail_decodeField_def TableDetail_decodeField2_def set_codec
    PlacementCounts_roundtrip PartitionOperationCounts_roundtrip NodeTableState_list EmbeddedCondition_list
    split: option.split optnil.split)

lemma TableDetail_roundtrip [codec]:
  "TableDetail_ok J x \<Longrightarrow> TableDetail_Decode J (TableDetail_Encode J x) = Inr x"
by (cases x) (simp add: TableDetail_Encode_def TableDetail_encodeFields_def TableDetail_Decode_def dec_obj_def
    TableDetail_steps TableDetail_set_steps TableDetail_required_def TableDetail_zero_def TableDetail_ok_def)

lemma TableDetail_list [codec]:
  "list_all (TableDetail_ok J) xs \<Longrightarrow> read_arr (TableDetail_Decode J) (write_arr (TableDetail_Encode J) xs) = Inr xs"
  by (rule read_arr_write) (auto simp: codec elim!: list.pred_mono_strong)

definition TableResponse_zero :: "CollectionMeta \<times> TableDetail" where
  "TableResponse_zero = (CollectionMeta_zero, TableDetail_zero)"

definition TableResponse_encodeFields ::
  "jx_env \<Rightarrow> (CollectionMeta \<times> TableDetail) \<Rightarrow> (string \<times> jx) list" where
  "TableResponse_encodeFields J s =
     field ''collection'' (CollectionMeta_Encode J (fst s))
     @ field ''item'' (TableDetail_Encode J (snd s))"

definition TableResponse_Encode :: "jx_env \<Rightarrow> (CollectionMeta \<times> TableDetail) \<Rightarrow> jx" where
  "TableResponse_Encode J s = JObj (TableResponse_encodeFields J s)"

definition TableResponse_decodeField ::
  "jx_env \<Rightarrow> string \<Rightarrow> jx \<Rightarrow> (CollectionMeta \<times> TableDetail) \<times> nat set \<Rightarrow> jerr + (CollectionMeta \<times> TableDetail) \<times> nat set" where
  "TableResponse_decodeField J k v st = (case st of (s, b) \<Rightarrow>
     if k = ''collection'' then put_field k (\<lambda>x. ((x, snd s), insert 0 b)) (CollectionMeta_Decode J v)
     else if k = ''item'' then put_field k (\<lambda>x. ((fst s, x), insert 1 b)) (TableDetail_Decode J v)
     else Inl (JUnexpectedField k))"

definition TableResponse_required :: "(nat \<times> string) list" where
  "TableResponse_required = [(0, ''collection''), (1, ''item'')]"

definition TableResponse_Decode ::
  "jx_env \<Rightarrow> jx \<Rightarrow> jerr + (CollectionMeta \<times> TableDetail)" where
  "TableResponse_Decode J =
     dec_obj ''TableResponse'' (TableResponse_decodeField J) TableResponse_required TableResponse_zero"

definition TableResponse_ok :: "jx_env \<Rightarrow> (CollectionMeta \<times> TableDetail) \<Rightarrow> bool" where
  "TableResponse_ok J s \<longleftrightarrow> CollectionMeta_ok J (fst s) \<and> TableDetail_ok J (snd s)"

lemma TableResponse_steps:
  "CollectionMeta_ok J a0 \<Longrightarrow>
   obj_fold (TableResponse_decodeField J) (field ''collection'' (CollectionMeta_Encode J a0)) (s, b)
     = Inr ((a0, snd s), insert 0 b)"
  "TableDetail_ok J a1 \<Longrightarrow>
   obj_fold (TableResponse_decodeField J) (field ''item'' (TableDetail_Encode J a1)) (s, b)
     = Inr ((fst s, a1), insert 1 b)"
  by (simp_all add: obj_fold_field TableResponse_decodeField_def CollectionMeta_roundtrip TableDetail_roundtrip)

lemma TableResponse_roundtrip [codec]:
  "TableResponse_ok J x \<Longrightarrow> TableResponse_Decode J (TableResponse_Encode J x) = Inr x"
by (cases x) (simp add: TableResponse_Encode_def TableResponse_encodeFields_def TableResponse_Decode_def
    dec_obj_def TableResponse_steps TableResponse_required_def TableResponse_zero_def TableResponse_ok_def)

lemma TableResponse_list [codec]:
  "list_all (TableResponse_ok J) xs \<Longrightarrow> read_arr (TableResponse_Decode J) (write_arr (TableResponse_Encode J) xs) = Inr xs"
  by (rule read_arr_write) (auto simp: codec elim!: list.pred_mono_strong)

definition TableColumn_zero :: "TableColumn" where
  "TableColumn_zero = \<lparr>tc_Name = '''', tc_Position = 0, tc_Type = '''', tc_Kind = '''', tc_DefaultKind = None,
     tc_DefaultExpression = None, tc_CodecExpression = None, tc_TtlExpression = None, tc_Comment = '''',
     tc_IsInPartitionKey = False, tc_IsInSortingKey = False, tc_IsInPrimaryKey = False,
     tc_IsInSamplingKey = False\<rparr>"

definition TableColumn_encodeFields ::
  "jx_env \<Rightarrow> TableColumn \<Rightarrow> (string \<times> jx) list" where
  "TableColumn_encodeFields J s =
     field ''name'' (JStr (tc_Name s))
     @ field ''position'' (write_int (tc_Position s))
     @ field ''type'' (JStr (tc_Type s))
     @ field ''kind'' (JStr (tc_Kind s))
     @ field ''defaultKind'' (NilString_Encode JStr (tc_DefaultKind s))
     @ field ''defaultExpression'' (NilString_Encode JStr (tc_DefaultExpression s))
     @ field ''codecExpression'' (NilString_Encode JStr (tc_CodecExpression s))
     @ field ''ttlExpression'' (NilString_Encode JStr (tc_TtlExpression s))
     @ field ''comment'' (JStr (tc_Comment s))
     @ field ''isInPartitionKey'' (JBool (tc_IsInPartitionKey s))
     @ field ''isInSortingKey'' (JBool (tc_IsInSortingKey s))
     @ field ''isInPrimaryKey'' (JBool (tc_IsInPrimaryKey s))
     @ field ''isInSamplingKey'' (JBool (tc_IsInSamplingKey s))"

definition TableColumn_Encode :: "jx_env \<Rightarrow> TableColumn \<Rightarrow> jx" where
  "TableColumn_Encode J s = JObj (TableColumn_encodeFields J s)"

definition TableColumn_decodeField2 ::
  "jx_env \<Rightarrow> string \<Rightarrow> jx \<Rightarrow> TableColumn \<times> nat set \<Rightarrow> jerr + TableColumn \<times> nat set" where
  "TableColumn_decodeField2 J k v st = (case st of (s, b) \<Rightarrow>
     if k = ''isInSamplingKey'' then put_field k (\<lambda>x. (s\<lparr>tc_IsInSamplingKey := x\<rparr>, insert 12 b)) (read_bool J v)
     else Inl (JUnexpectedField k))"

definition TableColumn_decodeField ::
  "jx_env \<Rightarrow> string \<Rightarrow> jx \<Rightarrow> TableColumn \<times> nat set \<Rightarrow> jerr + TableColumn \<times> nat set" where
  "TableColumn_decodeField J k v st = (case st of (s, b) \<Rightarrow>
     if k = ''name'' then put_field k (\<lambda>x. (s\<lparr>tc_Name := x\<rparr>, insert 0 b)) (read_str J v)
     else if k = ''position'' then put_field k (\<lambda>x. (s\<lparr>tc_Position := x\<rparr>, insert 1 b)) (read_int J v)
     else if k = ''type'' then put_field k (\<lambda>x. (s\<lparr>tc_Type := x\<rparr>, insert 2 b)) (read_str J v)
     else if k = ''kind'' then put_field k (\<lambda>x. (s\<lparr>tc_Kind := x\<rparr>, insert 3 b)) (read_str J v)
     else if k = ''defaultKind'' then put_field k (\<lambda>x. (s\<lparr>tc_DefaultKind := x\<rparr>, insert 4 b)) (NilString_Decode (read_str J) v)
     else if k = ''defaultExpression'' then put_field k (\<lambda>x. (s\<lparr>tc_DefaultExpression := x\<rparr>, insert 5 b)) (NilString_Decode (read_str J) v)
     else if k = ''codecExpression'' then put_field k (\<lambda>x. (s\<lparr>tc_CodecExpression := x\<rparr>, insert 6 b)) (NilString_Decode (read_str J) v)
     else if k = ''ttlExpression'' then put_field k (\<lambda>x. (s\<lparr>tc_TtlExpression := x\<rparr>, insert 7 b)) (NilString_Decode (read_str J) v)
     else if k = ''comment'' then put_field k (\<lambda>x. (s\<lparr>tc_Comment := x\<rparr>, insert 8 b)) (read_str J v)
     else if k = ''isInPartitionKey'' then put_field k (\<lambda>x. (s\<lparr>tc_IsInPartitionKey := x\<rparr>, insert 9 b)) (read_bool J v)
     else if k = ''isInSortingKey'' then put_field k (\<lambda>x. (s\<lparr>tc_IsInSortingKey := x\<rparr>, insert 10 b)) (read_bool J v)
     else if k = ''isInPrimaryKey'' then put_field k (\<lambda>x. (s\<lparr>tc_IsInPrimaryKey := x\<rparr>, insert 11 b)) (read_bool J v)
     else TableColumn_decodeField2 J k v (s, b))"

definition TableColumn_required :: "(nat \<times> string) list" where
  "TableColumn_required = [(0, ''name''), (1, ''position''), (2, ''type''), (3, ''kind''), (4, ''defaultKind''), (5, ''defaultExpression''),
    (6, ''codecExpression''), (7, ''ttlExpression''), (8, ''comment''), (9, ''isInPartitionKey''), (10,
    ''isInSortingKey''), (11, ''isInPrimaryKey''), (12, ''isInSamplingKey'')]"

definition TableColumn_Decode :: "jx_env \<Rightarrow> jx \<Rightarrow> jerr + TableColumn" where
  "TableColumn_Decode J = dec_obj ''TableColumn'' (TableColumn_decodeField J) TableColumn_required TableColumn_zero"

definition TableColumn_ok :: "jx_env \<Rightarrow> TableColumn \<Rightarrow> bool" where
  "TableColumn_ok J s \<longleftrightarrow> in_i64 (tc_Position s)"

lemma TableColumn_steps:
  "obj_fold (TableColumn_decodeField J) (field ''name'' (JStr a0)) (s, b) = Inr (s\<lparr>tc_Name := a0\<rparr>, insert 0 b)"
  "in_i64 a1 \<Longrightarrow>
   obj_fold (TableColumn_decodeField J) (field ''position'' (write_int a1)) (s, b)
     = Inr (s\<lparr>tc_Position := a1\<rparr>, insert 1 b)"
  "obj_fold (TableColumn_decodeField J) (field ''type'' (JStr a2)) (s, b) = Inr (s\<lparr>tc_Type := a2\<rparr>, insert 2 b)"
  "obj_fold (TableColumn_decodeField J) (field ''kind'' (JStr a3)) (s, b) = Inr (s\<lparr>tc_Kind := a3\<rparr>, insert 3 b)"
  "obj_fold (TableColumn_decodeField J) (field ''defaultKind'' (NilString_Encode JStr a4)) (s, b)
     = Inr (s\<lparr>tc_DefaultKind := a4\<rparr>, insert 4 b)"
  "obj_fold (TableColumn_decodeField J) (field ''defaultExpression'' (NilString_Encode JStr a5)) (s, b)
     = Inr (s\<lparr>tc_DefaultExpression := a5\<rparr>, insert 5 b)"
  "obj_fold (TableColumn_decodeField J) (field ''codecExpression'' (NilString_Encode JStr a6)) (s, b)
     = Inr (s\<lparr>tc_CodecExpression := a6\<rparr>, insert 6 b)"
  "obj_fold (TableColumn_decodeField J) (field ''ttlExpression'' (NilString_Encode JStr a7)) (s, b)
     = Inr (s\<lparr>tc_TtlExpression := a7\<rparr>, insert 7 b)"
  "obj_fold (TableColumn_decodeField J) (field ''comment'' (JStr a8)) (s, b)
     = Inr (s\<lparr>tc_Comment := a8\<rparr>, insert 8 b)"
  "obj_fold (TableColumn_decodeField J) (field ''isInPartitionKey'' (JBool a9)) (s, b)
     = Inr (s\<lparr>tc_IsInPartitionKey := a9\<rparr>, insert 9 b)"
  "obj_fold (TableColumn_decodeField J) (field ''isInSortingKey'' (JBool a10)) (s, b)
     = Inr (s\<lparr>tc_IsInSortingKey := a10\<rparr>, insert 10 b)"
  "obj_fold (TableColumn_decodeField J) (field ''isInPrimaryKey'' (JBool a11)) (s, b)
     = Inr (s\<lparr>tc_IsInPrimaryKey := a11\<rparr>, insert 11 b)"
  "obj_fold (TableColumn_decodeField J) (field ''isInSamplingKey'' (JBool a12)) (s, b)
     = Inr (s\<lparr>tc_IsInSamplingKey := a12\<rparr>, insert 12 b)"
  by (simp_all add: obj_fold_field TableColumn_decodeField_def TableColumn_decodeField2_def)

lemma TableColumn_roundtrip [codec]:
  "TableColumn_ok J x \<Longrightarrow> TableColumn_Decode J (TableColumn_Encode J x) = Inr x"
by (cases x) (simp add: TableColumn_Encode_def TableColumn_encodeFields_def TableColumn_Decode_def dec_obj_def
    TableColumn_steps TableColumn_required_def TableColumn_zero_def TableColumn_ok_def)

lemma TableColumn_list [codec]:
  "list_all (TableColumn_ok J) xs \<Longrightarrow> read_arr (TableColumn_Decode J) (write_arr (TableColumn_Encode J) xs) = Inr xs"
  by (rule read_arr_write) (auto simp: codec elim!: list.pred_mono_strong)

definition NodeColumns_zero :: "RestNodeColumns" where
  "NodeColumns_zero = \<lparr>rnc_NodeId = '''', rnc_Shard = '''', rnc_Replica = '''', rnc_Columns = [], rnc_Conditions = []\<rparr>"

definition NodeColumns_encodeFields ::
  "jx_env \<Rightarrow> RestNodeColumns \<Rightarrow> (string \<times> jx) list" where
  "NodeColumns_encodeFields J s =
     field ''nodeId'' (JStr (rnc_NodeId s))
     @ field ''shard'' (JStr (rnc_Shard s))
     @ field ''replica'' (JStr (rnc_Replica s))
     @ field ''columns'' (write_arr (TableColumn_Encode J) (rnc_Columns s))
     @ field ''conditions'' (write_arr (EmbeddedCondition_Encode J) (rnc_Conditions s))"

definition NodeColumns_Encode :: "jx_env \<Rightarrow> RestNodeColumns \<Rightarrow> jx" where
  "NodeColumns_Encode J s = JObj (NodeColumns_encodeFields J s)"

definition NodeColumns_decodeField ::
  "jx_env \<Rightarrow> string \<Rightarrow> jx \<Rightarrow> RestNodeColumns \<times> nat set \<Rightarrow> jerr + RestNodeColumns \<times> nat set" where
  "NodeColumns_decodeField J k v st = (case st of (s, b) \<Rightarrow>
     if k = ''nodeId'' then put_field k (\<lambda>x. (s\<lparr>rnc_NodeId := x\<rparr>, insert 0 b)) (read_str J v)
     else if k = ''shard'' then put_field k (\<lambda>x. (s\<lparr>rnc_Shard := x\<rparr>, insert 1 b)) (read_str J v)
     else if k = ''replica'' then put_field k (\<lambda>x. (s\<lparr>rnc_Replica := x\<rparr>, insert 2 b)) (read_str J v)
     else if k = ''columns'' then put_field k (\<lambda>x. (s\<lparr>rnc_Columns := x\<rparr>, insert 3 b)) (read_arr (TableColumn_Decode J) v)
     else if k = ''conditions'' then put_field k (\<lambda>x. (s\<lparr>rnc_Conditions := x\<rparr>, insert 4 b)) (read_arr (EmbeddedCondition_Decode J) v)
     else Inl (JUnexpectedField k))"

definition NodeColumns_required :: "(nat \<times> string) list" where
  "NodeColumns_required = [(0, ''nodeId''), (1, ''shard''), (2, ''replica''), (3, ''columns''), (4, ''conditions'')]"

definition NodeColumns_Decode :: "jx_env \<Rightarrow> jx \<Rightarrow> jerr + RestNodeColumns" where
  "NodeColumns_Decode J = dec_obj ''NodeColumns'' (NodeColumns_decodeField J) NodeColumns_required NodeColumns_zero"

definition NodeColumns_ok :: "jx_env \<Rightarrow> RestNodeColumns \<Rightarrow> bool" where
  "NodeColumns_ok J s \<longleftrightarrow> list_all (TableColumn_ok J) (rnc_Columns s) \<and> list_all (EmbeddedCondition_ok J) (rnc_Conditions s)"

lemma NodeColumns_steps:
  "obj_fold (NodeColumns_decodeField J) (field ''nodeId'' (JStr a0)) (s, b)
     = Inr (s\<lparr>rnc_NodeId := a0\<rparr>, insert 0 b)"
  "obj_fold (NodeColumns_decodeField J) (field ''shard'' (JStr a1)) (s, b)
     = Inr (s\<lparr>rnc_Shard := a1\<rparr>, insert 1 b)"
  "obj_fold (NodeColumns_decodeField J) (field ''replica'' (JStr a2)) (s, b)
     = Inr (s\<lparr>rnc_Replica := a2\<rparr>, insert 2 b)"
  "list_all (TableColumn_ok J) a3 \<Longrightarrow>
   obj_fold (NodeColumns_decodeField J) (field ''columns'' (write_arr (TableColumn_Encode J) a3)) (s, b)
     = Inr (s\<lparr>rnc_Columns := a3\<rparr>, insert 3 b)"
  "list_all (EmbeddedCondition_ok J) a4 \<Longrightarrow>
   obj_fold (NodeColumns_decodeField J) (field ''conditions'' (write_arr (EmbeddedCondition_Encode J) a4)) (s, b)
     = Inr (s\<lparr>rnc_Conditions := a4\<rparr>, insert 4 b)"
  by (simp_all add: obj_fold_field NodeColumns_decodeField_def TableColumn_list EmbeddedCondition_list)

lemma NodeColumns_roundtrip [codec]:
  "NodeColumns_ok J x \<Longrightarrow> NodeColumns_Decode J (NodeColumns_Encode J x) = Inr x"
by (cases x) (simp add: NodeColumns_Encode_def NodeColumns_encodeFields_def NodeColumns_Decode_def dec_obj_def
    NodeColumns_steps NodeColumns_required_def NodeColumns_zero_def NodeColumns_ok_def)

lemma NodeColumns_list [codec]:
  "list_all (NodeColumns_ok J) xs \<Longrightarrow> read_arr (NodeColumns_Decode J) (write_arr (NodeColumns_Encode J) xs) = Inr xs"
  by (rule read_arr_write) (auto simp: codec elim!: list.pred_mono_strong)

definition TableColumnsResponse_zero :: "RestNodeColumns columns_listing" where
  "TableColumnsResponse_zero = \<lparr>ls_Collection = CollectionMeta_zero, ls_Items = [], ls_Database = '''', ls_Table = '''',
     ls_Conditions = []\<rparr>"

definition TableColumnsResponse_encodeFields ::
  "jx_env \<Rightarrow> (RestNodeColumns columns_listing) \<Rightarrow> (string \<times> jx) list" where
  "TableColumnsResponse_encodeFields J s =
     field ''collection'' (CollectionMeta_Encode J (ls_Collection s))
     @ field ''database'' (JStr (ls_Database s))
     @ field ''table'' (JStr (ls_Table s))
     @ field ''items'' (write_arr (NodeColumns_Encode J) (ls_Items s))
     @ field ''conditions'' (write_arr (EmbeddedCondition_Encode J) (ls_Conditions s))"

definition TableColumnsResponse_Encode ::
  "jx_env \<Rightarrow> (RestNodeColumns columns_listing) \<Rightarrow> jx" where
  "TableColumnsResponse_Encode J s = JObj (TableColumnsResponse_encodeFields J s)"

definition TableColumnsResponse_decodeField ::
  "jx_env \<Rightarrow> string \<Rightarrow> jx \<Rightarrow> (RestNodeColumns columns_listing) \<times> nat set \<Rightarrow> jerr + (RestNodeColumns columns_listing) \<times> nat set" where
  "TableColumnsResponse_decodeField J k v st = (case st of (s, b) \<Rightarrow>
     if k = ''collection'' then put_field k (\<lambda>x. (s\<lparr>ls_Collection := x\<rparr>, insert 0 b)) (CollectionMeta_Decode J v)
     else if k = ''database'' then put_field k (\<lambda>x. (s\<lparr>ls_Database := x\<rparr>, insert 1 b)) (read_str J v)
     else if k = ''table'' then put_field k (\<lambda>x. (s\<lparr>ls_Table := x\<rparr>, insert 2 b)) (read_str J v)
     else if k = ''items'' then put_field k (\<lambda>x. (s\<lparr>ls_Items := x\<rparr>, insert 3 b)) (read_arr (NodeColumns_Decode J) v)
     else if k = ''conditions'' then put_field k (\<lambda>x. (s\<lparr>ls_Conditions := x\<rparr>, insert 4 b)) (read_arr (EmbeddedCondition_Decode J) v)
     else Inl (JUnexpectedField k))"

definition TableColumnsResponse_required :: "(nat \<times> string) list" where
  "TableColumnsResponse_required = [(0, ''collection''), (1, ''database''), (2, ''table''), (3, ''items''), (4, ''conditions'')]"

definition TableColumnsResponse_Decode ::
  "jx_env \<Rightarrow> jx \<Rightarrow> jerr + (RestNodeColumns columns_listing)" where
  "TableColumnsResponse_Decode J =
     dec_obj ''TableColumnsResponse'' (TableColumnsResponse_decodeField J) TableColumnsResponse_required TableColumnsResponse_zero"

definition TableColumnsResponse_ok ::
  "jx_env \<Rightarrow> (RestNodeColumns columns_listing) \<Rightarrow> bool" where
  "TableColumnsResponse_ok J s \<longleftrightarrow> CollectionMeta_ok J (ls_Collection s) \<and> list_all (NodeColumns_ok J) (ls_Items s) \<and>
     list_all (EmbeddedCondition_ok J) (ls_Conditions s)"

lemma TableColumnsResponse_steps:
  "CollectionMeta_ok J a0 \<Longrightarrow>
   obj_fold (TableColumnsResponse_decodeField J) (field ''collection'' (CollectionMeta_Encode J a0)) (s, b)
     = Inr (s\<lparr>ls_Collection := a0\<rparr>, insert 0 b)"
  "obj_fold (TableColumnsResponse_decodeField J) (field ''database'' (JStr a1)) (s, b)
     = Inr (s\<lparr>ls_Database := a1\<rparr>, insert 1 b)"
  "obj_fold (TableColumnsResponse_decodeField J) (field ''table'' (JStr a2)) (s, b)
     = Inr (s\<lparr>ls_Table := a2\<rparr>, insert 2 b)"
  "list_all (NodeColumns_ok J) a3 \<Longrightarrow>
   obj_fold (TableColumnsResponse_decodeField J) (field ''items'' (write_arr (NodeColumns_Encode J) a3)) (s, b)
     = Inr (s\<lparr>ls_Items := a3\<rparr>, insert 3 b)"
  "list_all (EmbeddedCondition_ok J) a4 \<Longrightarrow>
   obj_fold (TableColumnsResponse_decodeField J) (field ''conditions'' (write_arr (EmbeddedCondition_Encode J) a4)) (s, b)
     = Inr (s\<lparr>ls_Conditions := a4\<rparr>, insert 4 b)"
by (simp_all add: obj_fold_field TableColumnsResponse_decodeField_def CollectionMeta_roundtrip NodeColumns_list
    EmbeddedCondition_list)

lemma TableColumnsResponse_roundtrip [codec]:
  "TableColumnsResponse_ok J x \<Longrightarrow> TableColumnsResponse_Decode J (TableColumnsResponse_Encode J x) = Inr x"
by (cases x) (simp add: TableColumnsResponse_Encode_def TableColumnsResponse_encodeFields_def
    TableColumnsResponse_Decode_def dec_obj_def TableColumnsResponse_steps TableColumnsResponse_required_def
    TableColumnsResponse_zero_def TableColumnsResponse_ok_def)

lemma TableColumnsResponse_list [codec]:
  "list_all (TableColumnsResponse_ok J) xs \<Longrightarrow> read_arr (TableColumnsResponse_Decode J) (write_arr (TableColumnsResponse_Encode J) xs) = Inr xs"
  by (rule read_arr_write) (auto simp: codec elim!: list.pred_mono_strong)

section \<open>Problems and health\<close>

definition ProblemError_zero :: "ProblemError" where
  "ProblemError_zero = \<lparr>per_Parameter = None, per_Detail = no_text\<rparr>"

definition ProblemError_encodeFields ::
  "jx_env \<Rightarrow> ProblemError \<Rightarrow> (string \<times> jx) list" where
  "ProblemError_encodeFields J s =
     field_set ''parameter'' (OptString_Encode JStr (per_Parameter s))
     @ field ''detail'' (JText (per_Detail s))"

definition ProblemError_Encode :: "jx_env \<Rightarrow> ProblemError \<Rightarrow> jx" where
  "ProblemError_Encode J s = JObj (ProblemError_encodeFields J s)"

definition ProblemError_decodeField ::
  "jx_env \<Rightarrow> string \<Rightarrow> jx \<Rightarrow> ProblemError \<times> nat set \<Rightarrow> jerr + ProblemError \<times> nat set" where
  "ProblemError_decodeField J k v st = (case st of (s, b) \<Rightarrow>
     if k = ''parameter'' then put_field k (\<lambda>x. (s\<lparr>per_Parameter := x\<rparr>, b)) (OptString_Decode (read_str J) v)
     else if k = ''detail'' then put_field k (\<lambda>x. (s\<lparr>per_Detail := x\<rparr>, insert 1 b)) (read_text J v)
     else Inl (JUnexpectedField k))"

definition ProblemError_required :: "(nat \<times> string) list" where
  "ProblemError_required = [(1, ''detail'')]"

definition ProblemError_Decode :: "jx_env \<Rightarrow> jx \<Rightarrow> jerr + ProblemError" where
  "ProblemError_Decode J =
     dec_obj ''ProblemError'' (ProblemError_decodeField J) ProblemError_required ProblemError_zero"

lemma ProblemError_steps:
  "obj_fold (ProblemError_decodeField J) (field ''detail'' (JText a1)) (s, b)
     = Inr (s\<lparr>per_Detail := a1\<rparr>, insert 1 b)"
  by (simp_all add: obj_fold_field ProblemError_decodeField_def)

lemma ProblemError_set_steps:
  "per_Parameter s = None \<Longrightarrow>
   obj_fold (ProblemError_decodeField J) (field_set ''parameter'' (OptString_Encode JStr a0)) (s, b)
     = Inr (s\<lparr>per_Parameter := a0\<rparr>, b)"
  by (auto simp: obj_fold_set ProblemError_decodeField_def set_codec split: option.split optnil.split)

lemma ProblemError_roundtrip [codec]: "ProblemError_Decode J (ProblemError_Encode J x) = Inr x"
by (cases x) (simp add: ProblemError_Encode_def ProblemError_encodeFields_def ProblemError_Decode_def
    dec_obj_def ProblemError_steps ProblemError_set_steps ProblemError_required_def ProblemError_zero_def)

lemma ProblemError_list [codec]: "read_arr (ProblemError_Decode J) (write_arr (ProblemError_Encode J) xs) = Inr xs"
  by (rule read_arr_write) (simp add: codec list.pred_True)

definition ProblemDetails_zero :: "problem" where
  "ProblemDetails_zero = \<lparr>pb_Type = url_zero, pb_Title = '''', pb_Status = 0, pb_Detail = no_text, pb_Instance = None,
     pb_Errors = None, pb_AdditionalProps = []\<rparr>"

definition ProblemDetails_encodeFields :: "jx_env \<Rightarrow> problem \<Rightarrow> (string \<times> jx) list" where
  "ProblemDetails_encodeFields J s =
     field ''type'' (write_url J (pb_Type s))
     @ field ''title'' (JStr (pb_Title s))
     @ field ''status'' (write_int (pb_Status s))
     @ field ''detail'' (JText (pb_Detail s))
     @ field_set ''instance'' (OptString_Encode JStr (pb_Instance s))
     @ field_set ''errors'' (map_option (write_arr (ProblemError_Encode J)) (pb_Errors s))
     @ map (\<lambda>(k, v). (k, JRaw v)) (pb_AdditionalProps s)"

definition ProblemDetails_Encode :: "jx_env \<Rightarrow> problem \<Rightarrow> jx" where
  "ProblemDetails_Encode J s = JObj (ProblemDetails_encodeFields J s)"

definition ProblemDetails_decodeField ::
  "jx_env \<Rightarrow> string \<Rightarrow> jx \<Rightarrow> problem \<times> nat set \<Rightarrow> jerr + problem \<times> nat set" where
  "ProblemDetails_decodeField J k v st = (case st of (s, b) \<Rightarrow>
     if k = ''type'' then put_field k (\<lambda>x. (s\<lparr>pb_Type := x\<rparr>, insert 0 b)) (read_url J v)
     else if k = ''title'' then put_field k (\<lambda>x. (s\<lparr>pb_Title := x\<rparr>, insert 1 b)) (read_str J v)
     else if k = ''status'' then put_field k (\<lambda>x. (s\<lparr>pb_Status := x\<rparr>, insert 2 b)) (read_int32 J v)
     else if k = ''detail'' then put_field k (\<lambda>x. (s\<lparr>pb_Detail := x\<rparr>, insert 3 b)) (read_text J v)
     else if k = ''instance'' then put_field k (\<lambda>x. (s\<lparr>pb_Instance := x\<rparr>, b)) (OptString_Decode (read_str J) v)
     else if k = ''errors'' then put_field k (\<lambda>x. (s\<lparr>pb_Errors := Some x\<rparr>, b)) (read_arr (ProblemError_Decode J) v)
     else put_field k (\<lambda>x. (s\<lparr>pb_AdditionalProps := amap_put k x (pb_AdditionalProps s)\<rparr>, b)) (read_raw J v))"

definition ProblemDetails_required :: "(nat \<times> string) list" where
  "ProblemDetails_required = [(0, ''type''), (1, ''title''), (2, ''status''), (3, ''detail'')]"

definition ProblemDetails_Decode :: "jx_env \<Rightarrow> jx \<Rightarrow> jerr + problem" where
  "ProblemDetails_Decode J =
     dec_obj ''ProblemDetails'' (ProblemDetails_decodeField J) ProblemDetails_required ProblemDetails_zero"

definition ProblemDetails_ok :: "jx_env \<Rightarrow> problem \<Rightarrow> bool" where
  "ProblemDetails_ok J s \<longleftrightarrow> url_ok J (pb_Type s) \<and> in_i32 (pb_Status s) \<and> amap_ok (pb_AdditionalProps s) \<and>
     fst ` set (pb_AdditionalProps s) \<inter> {''type'', ''title'', ''status'', ''detail'', ''instance'', ''errors''} = {}"

lemma ProblemDetails_steps:
  "url_ok J a0 \<Longrightarrow>
   obj_fold (ProblemDetails_decodeField J) (field ''type'' (write_url J a0)) (s, b)
     = Inr (s\<lparr>pb_Type := a0\<rparr>, insert 0 b)"
  "obj_fold (ProblemDetails_decodeField J) (field ''title'' (JStr a1)) (s, b)
     = Inr (s\<lparr>pb_Title := a1\<rparr>, insert 1 b)"
  "in_i32 a2 \<Longrightarrow>
   obj_fold (ProblemDetails_decodeField J) (field ''status'' (write_int a2)) (s, b)
     = Inr (s\<lparr>pb_Status := a2\<rparr>, insert 2 b)"
  "obj_fold (ProblemDetails_decodeField J) (field ''detail'' (JText a3)) (s, b)
     = Inr (s\<lparr>pb_Detail := a3\<rparr>, insert 3 b)"
  by (simp_all add: obj_fold_field ProblemDetails_decodeField_def ProblemError_list)

lemma ProblemDetails_set_steps:
  "pb_Instance s = None \<Longrightarrow>
   obj_fold (ProblemDetails_decodeField J) (field_set ''instance'' (OptString_Encode JStr a4)) (s, b)
     = Inr (s\<lparr>pb_Instance := a4\<rparr>, b)"
  "pb_Errors s = None \<Longrightarrow>
   obj_fold (ProblemDetails_decodeField J) (field_set ''errors'' (map_option (write_arr (ProblemError_Encode J)) a5)) (s, b)
     = Inr (s\<lparr>pb_Errors := a5\<rparr>, b)"
  by (auto simp: obj_fold_set ProblemDetails_decodeField_def set_codec ProblemError_list split: option.split optnil.split)

lemma ProblemDetails_props:
  assumes "amap_ok m" and "fst ` set m \<inter> {''type'', ''title'', ''status'', ''detail'', ''instance'', ''errors''} = {}"
    and "\<forall>k \<in> fst ` set m. map_of (pb_AdditionalProps s) k = None"
  shows "obj_fold (ProblemDetails_decodeField J) (map (\<lambda>(k, v). (k, JRaw v)) m) (s, b) =
    Inr (s\<lparr>pb_AdditionalProps := pb_AdditionalProps s @ m\<rparr>, b)"
  using assms
proof (induction m arbitrary: s)
  case (Cons p m)
  obtain k v where p: "p = (k, v)" by (cases p)
  from Cons.prems p have "ProblemDetails_decodeField J k (JRaw v) (s, b) =
      Inr (s\<lparr>pb_AdditionalProps := pb_AdditionalProps s @ [(k, v)]\<rparr>, b)"
    by (auto simp: ProblemDetails_decodeField_def amap_put_fresh)
  moreover have "\<forall>j \<in> fst ` set m. map_of (pb_AdditionalProps s @ [(k, v)]) j = None"
    using Cons.prems p by (auto simp: map_of_eq_None_iff)
  ultimately show ?case using Cons.IH [of "s\<lparr>pb_AdditionalProps := pb_AdditionalProps s @ [(k, v)]\<rparr>"] Cons.prems p
    by simp
qed simp

lemma ProblemDetails_roundtrip [codec]:
  "ProblemDetails_ok J x \<Longrightarrow> ProblemDetails_Decode J (ProblemDetails_Encode J x) = Inr x"
by (cases x) (simp add: ProblemDetails_Encode_def ProblemDetails_encodeFields_def ProblemDetails_Decode_def
    dec_obj_def ProblemDetails_steps ProblemDetails_set_steps ProblemDetails_props ProblemDetails_required_def
    ProblemDetails_zero_def ProblemDetails_ok_def)

lemma ProblemDetails_list [codec]:
  "list_all (ProblemDetails_ok J) xs \<Longrightarrow> read_arr (ProblemDetails_Decode J) (write_arr (ProblemDetails_Encode J) xs) = Inr xs"
  by (rule read_arr_write) (auto simp: codec elim!: list.pred_mono_strong)

definition Health_zero :: "Health" where
  "Health_zero = \<lparr>hl_Status = ''''\<rparr>"

definition Health_encodeFields :: "jx_env \<Rightarrow> Health \<Rightarrow> (string \<times> jx) list" where
  "Health_encodeFields J s =
     field ''status'' (JStr (hl_Status s))"

definition Health_Encode :: "jx_env \<Rightarrow> Health \<Rightarrow> jx" where
  "Health_Encode J s = JObj (Health_encodeFields J s)"

definition Health_decodeField ::
  "jx_env \<Rightarrow> string \<Rightarrow> jx \<Rightarrow> Health \<times> nat set \<Rightarrow> jerr + Health \<times> nat set" where
  "Health_decodeField J k v st = (case st of (s, b) \<Rightarrow>
     if k = ''status'' then put_field k (\<lambda>x. (s\<lparr>hl_Status := x\<rparr>, insert 0 b)) (read_str J v)
     else Inl (JUnexpectedField k))"

definition Health_required :: "(nat \<times> string) list" where
  "Health_required = [(0, ''status'')]"

definition Health_Decode :: "jx_env \<Rightarrow> jx \<Rightarrow> jerr + Health" where
  "Health_Decode J = dec_obj ''Health'' (Health_decodeField J) Health_required Health_zero"

lemma Health_steps:
  "obj_fold (Health_decodeField J) (field ''status'' (JStr a0)) (s, b) = Inr (s\<lparr>hl_Status := a0\<rparr>, insert 0 b)"
  by (simp_all add: obj_fold_field Health_decodeField_def)

lemma Health_roundtrip [codec]: "Health_Decode J (Health_Encode J x) = Inr x"
by (cases x) (simp add: Health_Encode_def Health_encodeFields_def Health_Decode_def dec_obj_def Health_steps
    Health_required_def Health_zero_def)

lemma Health_list [codec]: "read_arr (Health_Decode J) (write_arr (Health_Encode J) xs) = Inr xs"
  by (rule read_arr_write) (simp add: codec list.pred_True)

end
