(* ===== verification/RestPartsCodec.thy ===== *)
theory RestPartsCodec
  imports RestCodec
begin

text \<open>
  Codecs of partitions, parts and operations (\<open>api/rest/oas_json_gen.go\<close>), built as in \<open>RestCodec\<close>.
\<close>

section \<open>Partitions and parts\<close>

definition PartitionPlacement_zero :: "PartitionPlacement" where
  "PartitionPlacement_zero = \<lparr>pp_NodeId = '''', pp_Shard = '''', pp_Replica = '''', pp_Disk = '''', pp_ActiveParts = '''',
     pp_Rows = '''', pp_BytesOnDisk = '''', pp_LastModificationTime = OptAbsent\<rparr>"

definition PartitionPlacement_encodeFields ::
  "jx_env \<Rightarrow> PartitionPlacement \<Rightarrow> (string \<times> jx) list" where
  "PartitionPlacement_encodeFields J s =
     field ''nodeId'' (JStr (pp_NodeId s))
     @ field ''shard'' (JStr (pp_Shard s))
     @ field ''replica'' (JStr (pp_Replica s))
     @ field ''disk'' (JStr (pp_Disk s))
     @ field ''activeParts'' (UInt64String_Encode (pp_ActiveParts s))
     @ field ''rows'' (UInt64String_Encode (pp_Rows s))
     @ field ''bytesOnDisk'' (UInt64String_Encode (pp_BytesOnDisk s))
     @ field_set ''lastModificationTime'' (OptNilDateTime_Encode J (pp_LastModificationTime s))"

definition PartitionPlacement_Encode :: "jx_env \<Rightarrow> PartitionPlacement \<Rightarrow> jx" where
  "PartitionPlacement_Encode J s = JObj (PartitionPlacement_encodeFields J s)"

definition PartitionPlacement_decodeField ::
  "jx_env \<Rightarrow> string \<Rightarrow> jx \<Rightarrow> PartitionPlacement \<times> nat set \<Rightarrow> jerr + PartitionPlacement \<times> nat set" where
  "PartitionPlacement_decodeField J k v st = (case st of (s, b) \<Rightarrow>
     if k = ''nodeId'' then put_field k (\<lambda>x. (s\<lparr>pp_NodeId := x\<rparr>, insert 0 b)) (read_str J v)
     else if k = ''shard'' then put_field k (\<lambda>x. (s\<lparr>pp_Shard := x\<rparr>, insert 1 b)) (read_str J v)
     else if k = ''replica'' then put_field k (\<lambda>x. (s\<lparr>pp_Replica := x\<rparr>, insert 2 b)) (read_str J v)
     else if k = ''disk'' then put_field k (\<lambda>x. (s\<lparr>pp_Disk := x\<rparr>, insert 3 b)) (read_str J v)
     else if k = ''activeParts'' then put_field k (\<lambda>x. (s\<lparr>pp_ActiveParts := x\<rparr>, insert 4 b)) (UInt64String_Decode J v)
     else if k = ''rows'' then put_field k (\<lambda>x. (s\<lparr>pp_Rows := x\<rparr>, insert 5 b)) (UInt64String_Decode J v)
     else if k = ''bytesOnDisk'' then put_field k (\<lambda>x. (s\<lparr>pp_BytesOnDisk := x\<rparr>, insert 6 b)) (UInt64String_Decode J v)
     else if k = ''lastModificationTime'' then put_field k (\<lambda>x. (s\<lparr>pp_LastModificationTime := x\<rparr>, b)) (OptNilDateTime_Decode J v)
     else Inl (JUnexpectedField k))"

definition PartitionPlacement_required :: "(nat \<times> string) list" where
  "PartitionPlacement_required = [(0, ''nodeId''), (1, ''shard''), (2, ''replica''), (3, ''disk''), (4, ''activeParts''), (5, ''rows''), (6,
    ''bytesOnDisk'')]"

definition PartitionPlacement_Decode :: "jx_env \<Rightarrow> jx \<Rightarrow> jerr + PartitionPlacement" where
  "PartitionPlacement_Decode J =
     dec_obj ''PartitionPlacement'' (PartitionPlacement_decodeField J) PartitionPlacement_required PartitionPlacement_zero"

definition PartitionPlacement_ok :: "jx_env \<Rightarrow> PartitionPlacement \<Rightarrow> bool" where
  "PartitionPlacement_ok J s \<longleftrightarrow> pred_optnil (time_ok J) (pp_LastModificationTime s)"

lemma PartitionPlacement_steps:
  "obj_fold (PartitionPlacement_decodeField J) (field ''nodeId'' (JStr a0)) (s, b)
     = Inr (s\<lparr>pp_NodeId := a0\<rparr>, insert 0 b)"
  "obj_fold (PartitionPlacement_decodeField J) (field ''shard'' (JStr a1)) (s, b)
     = Inr (s\<lparr>pp_Shard := a1\<rparr>, insert 1 b)"
  "obj_fold (PartitionPlacement_decodeField J) (field ''replica'' (JStr a2)) (s, b)
     = Inr (s\<lparr>pp_Replica := a2\<rparr>, insert 2 b)"
  "obj_fold (PartitionPlacement_decodeField J) (field ''disk'' (JStr a3)) (s, b)
     = Inr (s\<lparr>pp_Disk := a3\<rparr>, insert 3 b)"
  "obj_fold (PartitionPlacement_decodeField J) (field ''activeParts'' (UInt64String_Encode a4)) (s, b)
     = Inr (s\<lparr>pp_ActiveParts := a4\<rparr>, insert 4 b)"
  "obj_fold (PartitionPlacement_decodeField J) (field ''rows'' (UInt64String_Encode a5)) (s, b)
     = Inr (s\<lparr>pp_Rows := a5\<rparr>, insert 5 b)"
  "obj_fold (PartitionPlacement_decodeField J) (field ''bytesOnDisk'' (UInt64String_Encode a6)) (s, b)
     = Inr (s\<lparr>pp_BytesOnDisk := a6\<rparr>, insert 6 b)"
  by (simp_all add: obj_fold_field PartitionPlacement_decodeField_def)

lemma PartitionPlacement_set_steps:
  "pp_LastModificationTime s = OptAbsent \<Longrightarrow> pred_optnil (time_ok J) a7 \<Longrightarrow>
   obj_fold (PartitionPlacement_decodeField J) (field_set ''lastModificationTime'' (OptNilDateTime_Encode J a7)) (s, b)
     = Inr (s\<lparr>pp_LastModificationTime := a7\<rparr>, b)"
  by (auto simp: obj_fold_set PartitionPlacement_decodeField_def set_codec split: option.split optnil.split)

lemma PartitionPlacement_roundtrip [codec]:
  "PartitionPlacement_ok J x \<Longrightarrow> PartitionPlacement_Decode J (PartitionPlacement_Encode J x) = Inr x"
by (cases x) (simp add: PartitionPlacement_Encode_def PartitionPlacement_encodeFields_def
    PartitionPlacement_Decode_def dec_obj_def PartitionPlacement_steps PartitionPlacement_set_steps
    PartitionPlacement_required_def PartitionPlacement_zero_def PartitionPlacement_ok_def)

lemma PartitionPlacement_list [codec]:
  "list_all (PartitionPlacement_ok J) xs \<Longrightarrow> read_arr (PartitionPlacement_Decode J) (write_arr (PartitionPlacement_Encode J) xs) = Inr xs"
  by (rule read_arr_write) (auto simp: codec elim!: list.pred_mono_strong)

definition Partition_zero :: "RestPartition" where
  "Partition_zero = \<lparr>rp_Database = '''', rp_Table = '''', rp_Partition = '''', rp_PartitionId = '''', rp_TargetDisk = '''',
     rp_Placement = '''', rp_Operations = [], rp_Disks = [], rp_ActiveParts = '''', rp_Rows = '''',
     rp_BytesOnDisk = '''', rp_LastModificationTime = OptAbsent, rp_Placements = [], rp_Conditions = []\<rparr>"

definition Partition_encodeFields ::
  "jx_env \<Rightarrow> RestPartition \<Rightarrow> (string \<times> jx) list" where
  "Partition_encodeFields J s =
     field ''database'' (JStr (rp_Database s))
     @ field ''table'' (JStr (rp_Table s))
     @ field ''partition'' (JStr (rp_Partition s))
     @ field ''partitionId'' (JStr (rp_PartitionId s))
     @ field ''targetDisk'' (JStr (rp_TargetDisk s))
     @ field ''placement'' (Placement_Encode (rp_Placement s))
     @ field ''operations'' (write_arr JStr (rp_Operations s))
     @ field ''disks'' (write_arr JStr (rp_Disks s))
     @ field ''activeParts'' (UInt64String_Encode (rp_ActiveParts s))
     @ field ''rows'' (UInt64String_Encode (rp_Rows s))
     @ field ''bytesOnDisk'' (UInt64String_Encode (rp_BytesOnDisk s))
     @ field_set ''lastModificationTime'' (OptNilDateTime_Encode J (rp_LastModificationTime s))
     @ field ''placements'' (write_arr (PartitionPlacement_Encode J) (rp_Placements s))
     @ field ''conditions'' (write_arr (EmbeddedCondition_Encode J) (rp_Conditions s))"

definition Partition_Encode :: "jx_env \<Rightarrow> RestPartition \<Rightarrow> jx" where
  "Partition_Encode J s = JObj (Partition_encodeFields J s)"

definition Partition_decodeField2 ::
  "jx_env \<Rightarrow> string \<Rightarrow> jx \<Rightarrow> RestPartition \<times> nat set \<Rightarrow> jerr + RestPartition \<times> nat set" where
  "Partition_decodeField2 J k v st = (case st of (s, b) \<Rightarrow>
     if k = ''lastModificationTime'' then put_field k (\<lambda>x. (s\<lparr>rp_LastModificationTime := x\<rparr>, b)) (OptNilDateTime_Decode J v)
     else if k = ''placements'' then put_field k (\<lambda>x. (s\<lparr>rp_Placements := x\<rparr>, insert 12 b)) (read_arr (PartitionPlacement_Decode J) v)
     else if k = ''conditions'' then put_field k (\<lambda>x. (s\<lparr>rp_Conditions := x\<rparr>, insert 13 b)) (read_arr (EmbeddedCondition_Decode J) v)
     else Inl (JUnexpectedField k))"

definition Partition_decodeField ::
  "jx_env \<Rightarrow> string \<Rightarrow> jx \<Rightarrow> RestPartition \<times> nat set \<Rightarrow> jerr + RestPartition \<times> nat set" where
  "Partition_decodeField J k v st = (case st of (s, b) \<Rightarrow>
     if k = ''database'' then put_field k (\<lambda>x. (s\<lparr>rp_Database := x\<rparr>, insert 0 b)) (read_str J v)
     else if k = ''table'' then put_field k (\<lambda>x. (s\<lparr>rp_Table := x\<rparr>, insert 1 b)) (read_str J v)
     else if k = ''partition'' then put_field k (\<lambda>x. (s\<lparr>rp_Partition := x\<rparr>, insert 2 b)) (read_str J v)
     else if k = ''partitionId'' then put_field k (\<lambda>x. (s\<lparr>rp_PartitionId := x\<rparr>, insert 3 b)) (read_str J v)
     else if k = ''targetDisk'' then put_field k (\<lambda>x. (s\<lparr>rp_TargetDisk := x\<rparr>, insert 4 b)) (read_str J v)
     else if k = ''placement'' then put_field k (\<lambda>x. (s\<lparr>rp_Placement := x\<rparr>, insert 5 b)) (Placement_Decode J v)
     else if k = ''operations'' then put_field k (\<lambda>x. (s\<lparr>rp_Operations := x\<rparr>, insert 6 b)) (read_arr (read_str J) v)
     else if k = ''disks'' then put_field k (\<lambda>x. (s\<lparr>rp_Disks := x\<rparr>, insert 7 b)) (read_arr (read_str J) v)
     else if k = ''activeParts'' then put_field k (\<lambda>x. (s\<lparr>rp_ActiveParts := x\<rparr>, insert 8 b)) (UInt64String_Decode J v)
     else if k = ''rows'' then put_field k (\<lambda>x. (s\<lparr>rp_Rows := x\<rparr>, insert 9 b)) (UInt64String_Decode J v)
     else if k = ''bytesOnDisk'' then put_field k (\<lambda>x. (s\<lparr>rp_BytesOnDisk := x\<rparr>, insert 10 b)) (UInt64String_Decode J v)
     else Partition_decodeField2 J k v (s, b))"

definition Partition_required :: "(nat \<times> string) list" where
  "Partition_required = [(0, ''database''), (1, ''table''), (2, ''partition''), (3, ''partitionId''), (4, ''targetDisk''), (5,
    ''placement''), (6, ''operations''), (7, ''disks''), (8, ''activeParts''), (9, ''rows''), (10, ''bytesOnDisk''),
    (12, ''placements''), (13, ''conditions'')]"

definition Partition_Decode :: "jx_env \<Rightarrow> jx \<Rightarrow> jerr + RestPartition" where
  "Partition_Decode J = dec_obj ''Partition'' (Partition_decodeField J) Partition_required Partition_zero"

definition Partition_ok :: "jx_env \<Rightarrow> RestPartition \<Rightarrow> bool" where
  "Partition_ok J s \<longleftrightarrow> pred_optnil (time_ok J) (rp_LastModificationTime s) \<and> list_all (PartitionPlacement_ok J) (rp_Placements s) \<and>
     list_all (EmbeddedCondition_ok J) (rp_Conditions s)"

lemma Partition_steps:
  "obj_fold (Partition_decodeField J) (field ''database'' (JStr a0)) (s, b)
     = Inr (s\<lparr>rp_Database := a0\<rparr>, insert 0 b)"
  "obj_fold (Partition_decodeField J) (field ''table'' (JStr a1)) (s, b) = Inr (s\<lparr>rp_Table := a1\<rparr>, insert 1 b)"
  "obj_fold (Partition_decodeField J) (field ''partition'' (JStr a2)) (s, b)
     = Inr (s\<lparr>rp_Partition := a2\<rparr>, insert 2 b)"
  "obj_fold (Partition_decodeField J) (field ''partitionId'' (JStr a3)) (s, b)
     = Inr (s\<lparr>rp_PartitionId := a3\<rparr>, insert 3 b)"
  "obj_fold (Partition_decodeField J) (field ''targetDisk'' (JStr a4)) (s, b)
     = Inr (s\<lparr>rp_TargetDisk := a4\<rparr>, insert 4 b)"
  "obj_fold (Partition_decodeField J) (field ''placement'' (Placement_Encode a5)) (s, b)
     = Inr (s\<lparr>rp_Placement := a5\<rparr>, insert 5 b)"
  "obj_fold (Partition_decodeField J) (field ''operations'' (write_arr JStr a6)) (s, b)
     = Inr (s\<lparr>rp_Operations := a6\<rparr>, insert 6 b)"
  "obj_fold (Partition_decodeField J) (field ''disks'' (write_arr JStr a7)) (s, b)
     = Inr (s\<lparr>rp_Disks := a7\<rparr>, insert 7 b)"
  "obj_fold (Partition_decodeField J) (field ''activeParts'' (UInt64String_Encode a8)) (s, b)
     = Inr (s\<lparr>rp_ActiveParts := a8\<rparr>, insert 8 b)"
  "obj_fold (Partition_decodeField J) (field ''rows'' (UInt64String_Encode a9)) (s, b)
     = Inr (s\<lparr>rp_Rows := a9\<rparr>, insert 9 b)"
  "obj_fold (Partition_decodeField J) (field ''bytesOnDisk'' (UInt64String_Encode a10)) (s, b)
     = Inr (s\<lparr>rp_BytesOnDisk := a10\<rparr>, insert 10 b)"
  "list_all (PartitionPlacement_ok J) a12 \<Longrightarrow>
   obj_fold (Partition_decodeField J) (field ''placements'' (write_arr (PartitionPlacement_Encode J) a12)) (s, b)
     = Inr (s\<lparr>rp_Placements := a12\<rparr>, insert 12 b)"
  "list_all (EmbeddedCondition_ok J) a13 \<Longrightarrow>
   obj_fold (Partition_decodeField J) (field ''conditions'' (write_arr (EmbeddedCondition_Encode J) a13)) (s, b)
     = Inr (s\<lparr>rp_Conditions := a13\<rparr>, insert 13 b)"
by (simp_all add: obj_fold_field Partition_decodeField_def Partition_decodeField2_def PartitionPlacement_list
    EmbeddedCondition_list)

lemma Partition_set_steps:
  "rp_LastModificationTime s = OptAbsent \<Longrightarrow> pred_optnil (time_ok J) a11 \<Longrightarrow>
   obj_fold (Partition_decodeField J) (field_set ''lastModificationTime'' (OptNilDateTime_Encode J a11)) (s, b)
     = Inr (s\<lparr>rp_LastModificationTime := a11\<rparr>, b)"
by (auto simp: obj_fold_set Partition_decodeField_def Partition_decodeField2_def set_codec
    PartitionPlacement_list EmbeddedCondition_list split: option.split optnil.split)

lemma Partition_roundtrip [codec]:
  "Partition_ok J x \<Longrightarrow> Partition_Decode J (Partition_Encode J x) = Inr x"
by (cases x) (simp add: Partition_Encode_def Partition_encodeFields_def Partition_Decode_def dec_obj_def
    Partition_steps Partition_set_steps Partition_required_def Partition_zero_def Partition_ok_def)

lemma Partition_list [codec]:
  "list_all (Partition_ok J) xs \<Longrightarrow> read_arr (Partition_Decode J) (write_arr (Partition_Encode J) xs) = Inr xs"
  by (rule read_arr_write) (auto simp: codec elim!: list.pred_mono_strong)

definition TablePartitionsResponse_zero :: "RestPartition listing" where
  "TablePartitionsResponse_zero = \<lparr>ls_Collection = CollectionMeta_zero, ls_Items = []\<rparr>"

definition TablePartitionsResponse_encodeFields ::
  "jx_env \<Rightarrow> (RestPartition listing) \<Rightarrow> (string \<times> jx) list" where
  "TablePartitionsResponse_encodeFields J s =
     field ''collection'' (CollectionMeta_Encode J (ls_Collection s))
     @ field ''items'' (write_arr (Partition_Encode J) (ls_Items s))"

definition TablePartitionsResponse_Encode :: "jx_env \<Rightarrow> (RestPartition listing) \<Rightarrow> jx" where
  "TablePartitionsResponse_Encode J s = JObj (TablePartitionsResponse_encodeFields J s)"

definition TablePartitionsResponse_decodeField ::
  "jx_env \<Rightarrow> string \<Rightarrow> jx \<Rightarrow> (RestPartition listing) \<times> nat set \<Rightarrow> jerr + (RestPartition listing) \<times> nat set" where
  "TablePartitionsResponse_decodeField J k v st = (case st of (s, b) \<Rightarrow>
     if k = ''collection'' then put_field k (\<lambda>x. (s\<lparr>ls_Collection := x\<rparr>, insert 0 b)) (CollectionMeta_Decode J v)
     else if k = ''items'' then put_field k (\<lambda>x. (s\<lparr>ls_Items := x\<rparr>, insert 1 b)) (read_arr (Partition_Decode J) v)
     else Inl (JUnexpectedField k))"

definition TablePartitionsResponse_required :: "(nat \<times> string) list" where
  "TablePartitionsResponse_required = [(0, ''collection''), (1, ''items'')]"

definition TablePartitionsResponse_Decode ::
  "jx_env \<Rightarrow> jx \<Rightarrow> jerr + (RestPartition listing)" where
  "TablePartitionsResponse_Decode J =
     dec_obj ''TablePartitionsResponse'' (TablePartitionsResponse_decodeField J) TablePartitionsResponse_required TablePartitionsResponse_zero"

definition TablePartitionsResponse_ok :: "jx_env \<Rightarrow> (RestPartition listing) \<Rightarrow> bool" where
  "TablePartitionsResponse_ok J s \<longleftrightarrow> CollectionMeta_ok J (ls_Collection s) \<and> list_all (Partition_ok J) (ls_Items s)"

lemma TablePartitionsResponse_steps:
  "CollectionMeta_ok J a0 \<Longrightarrow>
   obj_fold (TablePartitionsResponse_decodeField J) (field ''collection'' (CollectionMeta_Encode J a0)) (s, b)
     = Inr (s\<lparr>ls_Collection := a0\<rparr>, insert 0 b)"
  "list_all (Partition_ok J) a1 \<Longrightarrow>
   obj_fold (TablePartitionsResponse_decodeField J) (field ''items'' (write_arr (Partition_Encode J) a1)) (s, b)
     = Inr (s\<lparr>ls_Items := a1\<rparr>, insert 1 b)"
  by (simp_all add: obj_fold_field TablePartitionsResponse_decodeField_def CollectionMeta_roundtrip Partition_list)

lemma TablePartitionsResponse_roundtrip [codec]:
  "TablePartitionsResponse_ok J x \<Longrightarrow> TablePartitionsResponse_Decode J (TablePartitionsResponse_Encode J x) = Inr x"
by (cases x) (simp add: TablePartitionsResponse_Encode_def TablePartitionsResponse_encodeFields_def
    TablePartitionsResponse_Decode_def dec_obj_def TablePartitionsResponse_steps
    TablePartitionsResponse_required_def TablePartitionsResponse_zero_def TablePartitionsResponse_ok_def)

lemma TablePartitionsResponse_list [codec]:
  "list_all (TablePartitionsResponse_ok J) xs \<Longrightarrow> read_arr (TablePartitionsResponse_Decode J) (write_arr (TablePartitionsResponse_Encode J) xs) = Inr xs"
  by (rule read_arr_write) (auto simp: codec elim!: list.pred_mono_strong)

definition TablePart_zero :: "TablePart" where
  "TablePart_zero = \<lparr>tpt_NodeId = '''', tpt_Shard = '''', tpt_Replica = '''', tpt_Database = '''', tpt_Table = '''',
     tpt_Partition = '''', tpt_PartitionId = '''', tpt_PartName = '''', tpt_UUID = None, tpt_Active = False,
     tpt_Disk = '''', tpt_Path = '''', tpt_PartType = '''', tpt_Rows = '''', tpt_Marks = None, tpt_BytesOnDisk = '''',
     tpt_DataCompressedBytes = None, tpt_DataUncompressedBytes = None, tpt_MarksBytes = None,
     tpt_PrimaryKeyBytesInMemory = None, tpt_PrimaryKeyBytesInMemoryAllocated = None,
     tpt_SecondaryIndicesCompressedBytes = None, tpt_SecondaryIndicesUncompressedBytes = None,
     tpt_SecondaryIndicesMarksBytes = None, tpt_ModificationTime = zero_time, tpt_RemoveTime = OptAbsent,
     tpt_Refcount = None, tpt_MinBlockNumber = None, tpt_MaxBlockNumber = None, tpt_Level = None,
     tpt_DataVersion = None, tpt_DeleteTtlInfoMin = OptAbsent, tpt_DeleteTtlInfoMax = OptAbsent,
     tpt_MoveTtlInfo = None, tpt_RecompressionTtlInfo = None, tpt_DefaultCompressionCodec = None,
     tpt_Conditions = []\<rparr>"

definition TablePart_encodeFields2 :: "jx_env \<Rightarrow> TablePart \<Rightarrow> (string \<times> jx) list" where
  "TablePart_encodeFields2 J s =
     field_set ''level'' (OptUInt64String_Encode (tpt_Level s))
     @ field_set ''dataVersion'' (OptUInt64String_Encode (tpt_DataVersion s))
     @ field_set ''deleteTtlInfoMin'' (OptNilDateTime_Encode J (tpt_DeleteTtlInfoMin s))
     @ field_set ''deleteTtlInfoMax'' (OptNilDateTime_Encode J (tpt_DeleteTtlInfoMax s))
     @ field_set ''moveTtlInfo'' (map_option (write_arr (TtlInfo_Encode)) (tpt_MoveTtlInfo s))
     @ field_set ''recompressionTtlInfo'' (map_option (write_arr (TtlInfo_Encode)) (tpt_RecompressionTtlInfo s))
     @ field_set ''defaultCompressionCodec'' (OptString_Encode JStr (tpt_DefaultCompressionCodec s))
     @ field ''conditions'' (write_arr (EmbeddedCondition_Encode J) (tpt_Conditions s))"

definition TablePart_encodeFields :: "jx_env \<Rightarrow> TablePart \<Rightarrow> (string \<times> jx) list" where
  "TablePart_encodeFields J s =
     field ''nodeId'' (JStr (tpt_NodeId s))
     @ field ''shard'' (JStr (tpt_Shard s))
     @ field ''replica'' (JStr (tpt_Replica s))
     @ field ''database'' (JStr (tpt_Database s))
     @ field ''table'' (JStr (tpt_Table s))
     @ field ''partition'' (JStr (tpt_Partition s))
     @ field ''partitionId'' (JStr (tpt_PartitionId s))
     @ field ''partName'' (JStr (tpt_PartName s))
     @ field_set ''uuid'' (OptString_Encode JStr (tpt_UUID s))
     @ field ''active'' (JBool (tpt_Active s))
     @ field ''disk'' (JStr (tpt_Disk s))
     @ field ''path'' (JStr (tpt_Path s))
     @ field ''partType'' (JStr (tpt_PartType s))
     @ field ''rows'' (UInt64String_Encode (tpt_Rows s))
     @ field_set ''marks'' (OptUInt64String_Encode (tpt_Marks s))
     @ field ''bytesOnDisk'' (UInt64String_Encode (tpt_BytesOnDisk s))
     @ field_set ''dataCompressedBytes'' (OptUInt64String_Encode (tpt_DataCompressedBytes s))
     @ field_set ''dataUncompressedBytes'' (OptUInt64String_Encode (tpt_DataUncompressedBytes s))
     @ field_set ''marksBytes'' (OptUInt64String_Encode (tpt_MarksBytes s))
     @ field_set ''primaryKeyBytesInMemory'' (OptUInt64String_Encode (tpt_PrimaryKeyBytesInMemory s))
     @ field_set ''primaryKeyBytesInMemoryAllocated'' (OptUInt64String_Encode (tpt_PrimaryKeyBytesInMemoryAllocated s))
     @ field_set ''secondaryIndicesCompressedBytes'' (OptUInt64String_Encode (tpt_SecondaryIndicesCompressedBytes s))
     @ field_set ''secondaryIndicesUncompressedBytes'' (OptUInt64String_Encode (tpt_SecondaryIndicesUncompressedBytes s))
     @ field_set ''secondaryIndicesMarksBytes'' (OptUInt64String_Encode (tpt_SecondaryIndicesMarksBytes s))
     @ field ''modificationTime'' (write_time J (tpt_ModificationTime s))
     @ field_set ''removeTime'' (OptNilDateTime_Encode J (tpt_RemoveTime s))
     @ field_set ''refcount'' (OptUInt64String_Encode (tpt_Refcount s))
     @ field_set ''minBlockNumber'' (OptInt64String_Encode (tpt_MinBlockNumber s))
     @ field_set ''maxBlockNumber'' (OptInt64String_Encode (tpt_MaxBlockNumber s))
     @ TablePart_encodeFields2 J s"

definition TablePart_Encode :: "jx_env \<Rightarrow> TablePart \<Rightarrow> jx" where
  "TablePart_Encode J s = JObj (TablePart_encodeFields J s)"

definition TablePart_decodeField3 ::
  "jx_env \<Rightarrow> string \<Rightarrow> jx \<Rightarrow> TablePart \<times> nat set \<Rightarrow> jerr + TablePart \<times> nat set" where
  "TablePart_decodeField3 J k v st = (case st of (s, b) \<Rightarrow>
     if k = ''refcount'' then put_field k (\<lambda>x. (s\<lparr>tpt_Refcount := x\<rparr>, b)) (OptUInt64String_Decode J v)
     else if k = ''minBlockNumber'' then put_field k (\<lambda>x. (s\<lparr>tpt_MinBlockNumber := x\<rparr>, b)) (OptInt64String_Decode J v)
     else if k = ''maxBlockNumber'' then put_field k (\<lambda>x. (s\<lparr>tpt_MaxBlockNumber := x\<rparr>, b)) (OptInt64String_Decode J v)
     else if k = ''level'' then put_field k (\<lambda>x. (s\<lparr>tpt_Level := x\<rparr>, b)) (OptUInt64String_Decode J v)
     else if k = ''dataVersion'' then put_field k (\<lambda>x. (s\<lparr>tpt_DataVersion := x\<rparr>, b)) (OptUInt64String_Decode J v)
     else if k = ''deleteTtlInfoMin'' then put_field k (\<lambda>x. (s\<lparr>tpt_DeleteTtlInfoMin := x\<rparr>, b)) (OptNilDateTime_Decode J v)
     else if k = ''deleteTtlInfoMax'' then put_field k (\<lambda>x. (s\<lparr>tpt_DeleteTtlInfoMax := x\<rparr>, b)) (OptNilDateTime_Decode J v)
     else if k = ''moveTtlInfo'' then put_field k (\<lambda>x. (s\<lparr>tpt_MoveTtlInfo := Some x\<rparr>, b)) (read_arr (TtlInfo_Decode J) v)
     else if k = ''recompressionTtlInfo'' then put_field k (\<lambda>x. (s\<lparr>tpt_RecompressionTtlInfo := Some x\<rparr>, b)) (read_arr (TtlInfo_Decode J) v)
     else if k = ''defaultCompressionCodec'' then put_field k (\<lambda>x. (s\<lparr>tpt_DefaultCompressionCodec := x\<rparr>, b)) (OptString_Decode (read_str J) v)
     else if k = ''conditions'' then put_field k (\<lambda>x. (s\<lparr>tpt_Conditions := x\<rparr>, insert 36 b)) (read_arr (EmbeddedCondition_Decode J) v)
     else Inl (JUnexpectedField k))"

definition TablePart_decodeField2 ::
  "jx_env \<Rightarrow> string \<Rightarrow> jx \<Rightarrow> TablePart \<times> nat set \<Rightarrow> jerr + TablePart \<times> nat set" where
  "TablePart_decodeField2 J k v st = (case st of (s, b) \<Rightarrow>
     if k = ''partType'' then put_field k (\<lambda>x. (s\<lparr>tpt_PartType := x\<rparr>, insert 12 b)) (read_str J v)
     else if k = ''rows'' then put_field k (\<lambda>x. (s\<lparr>tpt_Rows := x\<rparr>, insert 13 b)) (UInt64String_Decode J v)
     else if k = ''marks'' then put_field k (\<lambda>x. (s\<lparr>tpt_Marks := x\<rparr>, b)) (OptUInt64String_Decode J v)
     else if k = ''bytesOnDisk'' then put_field k (\<lambda>x. (s\<lparr>tpt_BytesOnDisk := x\<rparr>, insert 15 b)) (UInt64String_Decode J v)
     else if k = ''dataCompressedBytes'' then put_field k (\<lambda>x. (s\<lparr>tpt_DataCompressedBytes := x\<rparr>, b)) (OptUInt64String_Decode J v)
     else if k = ''dataUncompressedBytes'' then put_field k (\<lambda>x. (s\<lparr>tpt_DataUncompressedBytes := x\<rparr>, b)) (OptUInt64String_Decode J v)
     else if k = ''marksBytes'' then put_field k (\<lambda>x. (s\<lparr>tpt_MarksBytes := x\<rparr>, b)) (OptUInt64String_Decode J v)
     else if k = ''primaryKeyBytesInMemory'' then put_field k (\<lambda>x. (s\<lparr>tpt_PrimaryKeyBytesInMemory := x\<rparr>, b)) (OptUInt64String_Decode J v)
     else if k = ''primaryKeyBytesInMemoryAllocated'' then put_field k (\<lambda>x. (s\<lparr>tpt_PrimaryKeyBytesInMemoryAllocated := x\<rparr>, b)) (OptUInt64String_Decode J v)
     else if k = ''secondaryIndicesCompressedBytes'' then put_field k (\<lambda>x. (s\<lparr>tpt_SecondaryIndicesCompressedBytes := x\<rparr>, b)) (OptUInt64String_Decode J v)
     else if k = ''secondaryIndicesUncompressedBytes'' then put_field k (\<lambda>x. (s\<lparr>tpt_SecondaryIndicesUncompressedBytes := x\<rparr>, b)) (OptUInt64String_Decode J v)
     else if k = ''secondaryIndicesMarksBytes'' then put_field k (\<lambda>x. (s\<lparr>tpt_SecondaryIndicesMarksBytes := x\<rparr>, b)) (OptUInt64String_Decode J v)
     else if k = ''modificationTime'' then put_field k (\<lambda>x. (s\<lparr>tpt_ModificationTime := x\<rparr>, insert 24 b)) (read_time J v)
     else if k = ''removeTime'' then put_field k (\<lambda>x. (s\<lparr>tpt_RemoveTime := x\<rparr>, b)) (OptNilDateTime_Decode J v)
     else TablePart_decodeField3 J k v (s, b))"

definition TablePart_decodeField ::
  "jx_env \<Rightarrow> string \<Rightarrow> jx \<Rightarrow> TablePart \<times> nat set \<Rightarrow> jerr + TablePart \<times> nat set" where
  "TablePart_decodeField J k v st = (case st of (s, b) \<Rightarrow>
     if k = ''nodeId'' then put_field k (\<lambda>x. (s\<lparr>tpt_NodeId := x\<rparr>, insert 0 b)) (read_str J v)
     else if k = ''shard'' then put_field k (\<lambda>x. (s\<lparr>tpt_Shard := x\<rparr>, insert 1 b)) (read_str J v)
     else if k = ''replica'' then put_field k (\<lambda>x. (s\<lparr>tpt_Replica := x\<rparr>, insert 2 b)) (read_str J v)
     else if k = ''database'' then put_field k (\<lambda>x. (s\<lparr>tpt_Database := x\<rparr>, insert 3 b)) (read_str J v)
     else if k = ''table'' then put_field k (\<lambda>x. (s\<lparr>tpt_Table := x\<rparr>, insert 4 b)) (read_str J v)
     else if k = ''partition'' then put_field k (\<lambda>x. (s\<lparr>tpt_Partition := x\<rparr>, insert 5 b)) (read_str J v)
     else if k = ''partitionId'' then put_field k (\<lambda>x. (s\<lparr>tpt_PartitionId := x\<rparr>, insert 6 b)) (read_str J v)
     else if k = ''partName'' then put_field k (\<lambda>x. (s\<lparr>tpt_PartName := x\<rparr>, insert 7 b)) (read_str J v)
     else if k = ''uuid'' then put_field k (\<lambda>x. (s\<lparr>tpt_UUID := x\<rparr>, b)) (OptString_Decode (read_str J) v)
     else if k = ''active'' then put_field k (\<lambda>x. (s\<lparr>tpt_Active := x\<rparr>, insert 9 b)) (read_bool J v)
     else if k = ''disk'' then put_field k (\<lambda>x. (s\<lparr>tpt_Disk := x\<rparr>, insert 10 b)) (read_str J v)
     else if k = ''path'' then put_field k (\<lambda>x. (s\<lparr>tpt_Path := x\<rparr>, insert 11 b)) (read_str J v)
     else TablePart_decodeField2 J k v (s, b))"

definition TablePart_required :: "(nat \<times> string) list" where
  "TablePart_required = [(0, ''nodeId''), (1, ''shard''), (2, ''replica''), (3, ''database''), (4, ''table''), (5, ''partition''), (6,
    ''partitionId''), (7, ''partName''), (9, ''active''), (10, ''disk''), (11, ''path''), (12, ''partType''), (13,
    ''rows''), (15, ''bytesOnDisk''), (24, ''modificationTime''), (36, ''conditions'')]"

definition TablePart_Decode :: "jx_env \<Rightarrow> jx \<Rightarrow> jerr + TablePart" where
  "TablePart_Decode J = dec_obj ''TablePart'' (TablePart_decodeField J) TablePart_required TablePart_zero"

definition TablePart_ok :: "jx_env \<Rightarrow> TablePart \<Rightarrow> bool" where
  "TablePart_ok J s \<longleftrightarrow> time_ok J (tpt_ModificationTime s) \<and> pred_optnil (time_ok J) (tpt_RemoveTime s) \<and>
     pred_optnil (time_ok J) (tpt_DeleteTtlInfoMin s) \<and> pred_optnil (time_ok J) (tpt_DeleteTtlInfoMax s) \<and>
     pred_option (list_all amap_ok) (tpt_MoveTtlInfo s) \<and>
     pred_option (list_all amap_ok) (tpt_RecompressionTtlInfo s) \<and>
     list_all (EmbeddedCondition_ok J) (tpt_Conditions s)"

lemma TablePart_steps:
  "obj_fold (TablePart_decodeField J) (field ''nodeId'' (JStr a0)) (s, b)
     = Inr (s\<lparr>tpt_NodeId := a0\<rparr>, insert 0 b)"
  "obj_fold (TablePart_decodeField J) (field ''shard'' (JStr a1)) (s, b)
     = Inr (s\<lparr>tpt_Shard := a1\<rparr>, insert 1 b)"
  "obj_fold (TablePart_decodeField J) (field ''replica'' (JStr a2)) (s, b)
     = Inr (s\<lparr>tpt_Replica := a2\<rparr>, insert 2 b)"
  "obj_fold (TablePart_decodeField J) (field ''database'' (JStr a3)) (s, b)
     = Inr (s\<lparr>tpt_Database := a3\<rparr>, insert 3 b)"
  "obj_fold (TablePart_decodeField J) (field ''table'' (JStr a4)) (s, b)
     = Inr (s\<lparr>tpt_Table := a4\<rparr>, insert 4 b)"
  "obj_fold (TablePart_decodeField J) (field ''partition'' (JStr a5)) (s, b)
     = Inr (s\<lparr>tpt_Partition := a5\<rparr>, insert 5 b)"
  "obj_fold (TablePart_decodeField J) (field ''partitionId'' (JStr a6)) (s, b)
     = Inr (s\<lparr>tpt_PartitionId := a6\<rparr>, insert 6 b)"
  "obj_fold (TablePart_decodeField J) (field ''partName'' (JStr a7)) (s, b)
     = Inr (s\<lparr>tpt_PartName := a7\<rparr>, insert 7 b)"
  "obj_fold (TablePart_decodeField J) (field ''active'' (JBool a9)) (s, b)
     = Inr (s\<lparr>tpt_Active := a9\<rparr>, insert 9 b)"
  "obj_fold (TablePart_decodeField J) (field ''disk'' (JStr a10)) (s, b)
     = Inr (s\<lparr>tpt_Disk := a10\<rparr>, insert 10 b)"
  "obj_fold (TablePart_decodeField J) (field ''path'' (JStr a11)) (s, b)
     = Inr (s\<lparr>tpt_Path := a11\<rparr>, insert 11 b)"
  "obj_fold (TablePart_decodeField J) (field ''partType'' (JStr a12)) (s, b)
     = Inr (s\<lparr>tpt_PartType := a12\<rparr>, insert 12 b)"
  "obj_fold (TablePart_decodeField J) (field ''rows'' (UInt64String_Encode a13)) (s, b)
     = Inr (s\<lparr>tpt_Rows := a13\<rparr>, insert 13 b)"
  "obj_fold (TablePart_decodeField J) (field ''bytesOnDisk'' (UInt64String_Encode a15)) (s, b)
     = Inr (s\<lparr>tpt_BytesOnDisk := a15\<rparr>, insert 15 b)"
  "time_ok J a24 \<Longrightarrow>
   obj_fold (TablePart_decodeField J) (field ''modificationTime'' (write_time J a24)) (s, b)
     = Inr (s\<lparr>tpt_ModificationTime := a24\<rparr>, insert 24 b)"
  "list_all (EmbeddedCondition_ok J) a36 \<Longrightarrow>
   obj_fold (TablePart_decodeField J) (field ''conditions'' (write_arr (EmbeddedCondition_Encode J) a36)) (s, b)
     = Inr (s\<lparr>tpt_Conditions := a36\<rparr>, insert 36 b)"
by (simp_all add: obj_fold_field TablePart_decodeField_def TablePart_decodeField2_def TablePart_decodeField3_def
    EmbeddedCondition_list)

lemma TablePart_set_steps:
  "tpt_UUID s = None \<Longrightarrow>
   obj_fold (TablePart_decodeField J) (field_set ''uuid'' (OptString_Encode JStr a8)) (s, b)
     = Inr (s\<lparr>tpt_UUID := a8\<rparr>, b)"
  "tpt_Marks s = None \<Longrightarrow>
   obj_fold (TablePart_decodeField J) (field_set ''marks'' (OptUInt64String_Encode a14)) (s, b)
     = Inr (s\<lparr>tpt_Marks := a14\<rparr>, b)"
  "tpt_DataCompressedBytes s = None \<Longrightarrow>
   obj_fold (TablePart_decodeField J) (field_set ''dataCompressedBytes'' (OptUInt64String_Encode a16)) (s, b)
     = Inr (s\<lparr>tpt_DataCompressedBytes := a16\<rparr>, b)"
  "tpt_DataUncompressedBytes s = None \<Longrightarrow>
   obj_fold (TablePart_decodeField J) (field_set ''dataUncompressedBytes'' (OptUInt64String_Encode a17)) (s, b)
     = Inr (s\<lparr>tpt_DataUncompressedBytes := a17\<rparr>, b)"
  "tpt_MarksBytes s = None \<Longrightarrow>
   obj_fold (TablePart_decodeField J) (field_set ''marksBytes'' (OptUInt64String_Encode a18)) (s, b)
     = Inr (s\<lparr>tpt_MarksBytes := a18\<rparr>, b)"
  "tpt_PrimaryKeyBytesInMemory s = None \<Longrightarrow>
   obj_fold (TablePart_decodeField J) (field_set ''primaryKeyBytesInMemory'' (OptUInt64String_Encode a19)) (s, b)
     = Inr (s\<lparr>tpt_PrimaryKeyBytesInMemory := a19\<rparr>, b)"
  "tpt_PrimaryKeyBytesInMemoryAllocated s = None \<Longrightarrow>
   obj_fold (TablePart_decodeField J) (field_set ''primaryKeyBytesInMemoryAllocated'' (OptUInt64String_Encode a20)) (s, b)
     = Inr (s\<lparr>tpt_PrimaryKeyBytesInMemoryAllocated := a20\<rparr>, b)"
  "tpt_SecondaryIndicesCompressedBytes s = None \<Longrightarrow>
   obj_fold (TablePart_decodeField J) (field_set ''secondaryIndicesCompressedBytes'' (OptUInt64String_Encode a21)) (s, b)
     = Inr (s\<lparr>tpt_SecondaryIndicesCompressedBytes := a21\<rparr>, b)"
  "tpt_SecondaryIndicesUncompressedBytes s = None \<Longrightarrow>
   obj_fold (TablePart_decodeField J) (field_set ''secondaryIndicesUncompressedBytes'' (OptUInt64String_Encode a22)) (s, b)
     = Inr (s\<lparr>tpt_SecondaryIndicesUncompressedBytes := a22\<rparr>, b)"
  "tpt_SecondaryIndicesMarksBytes s = None \<Longrightarrow>
   obj_fold (TablePart_decodeField J) (field_set ''secondaryIndicesMarksBytes'' (OptUInt64String_Encode a23)) (s, b)
     = Inr (s\<lparr>tpt_SecondaryIndicesMarksBytes := a23\<rparr>, b)"
  "tpt_RemoveTime s = OptAbsent \<Longrightarrow> pred_optnil (time_ok J) a25 \<Longrightarrow>
   obj_fold (TablePart_decodeField J) (field_set ''removeTime'' (OptNilDateTime_Encode J a25)) (s, b)
     = Inr (s\<lparr>tpt_RemoveTime := a25\<rparr>, b)"
  "tpt_Refcount s = None \<Longrightarrow>
   obj_fold (TablePart_decodeField J) (field_set ''refcount'' (OptUInt64String_Encode a26)) (s, b)
     = Inr (s\<lparr>tpt_Refcount := a26\<rparr>, b)"
  "tpt_MinBlockNumber s = None \<Longrightarrow>
   obj_fold (TablePart_decodeField J) (field_set ''minBlockNumber'' (OptInt64String_Encode a27)) (s, b)
     = Inr (s\<lparr>tpt_MinBlockNumber := a27\<rparr>, b)"
  "tpt_MaxBlockNumber s = None \<Longrightarrow>
   obj_fold (TablePart_decodeField J) (field_set ''maxBlockNumber'' (OptInt64String_Encode a28)) (s, b)
     = Inr (s\<lparr>tpt_MaxBlockNumber := a28\<rparr>, b)"
  "tpt_Level s = None \<Longrightarrow>
   obj_fold (TablePart_decodeField J) (field_set ''level'' (OptUInt64String_Encode a29)) (s, b)
     = Inr (s\<lparr>tpt_Level := a29\<rparr>, b)"
  "tpt_DataVersion s = None \<Longrightarrow>
   obj_fold (TablePart_decodeField J) (field_set ''dataVersion'' (OptUInt64String_Encode a30)) (s, b)
     = Inr (s\<lparr>tpt_DataVersion := a30\<rparr>, b)"
  "tpt_DeleteTtlInfoMin s = OptAbsent \<Longrightarrow> pred_optnil (time_ok J) a31 \<Longrightarrow>
   obj_fold (TablePart_decodeField J) (field_set ''deleteTtlInfoMin'' (OptNilDateTime_Encode J a31)) (s, b)
     = Inr (s\<lparr>tpt_DeleteTtlInfoMin := a31\<rparr>, b)"
  "tpt_DeleteTtlInfoMax s = OptAbsent \<Longrightarrow> pred_optnil (time_ok J) a32 \<Longrightarrow>
   obj_fold (TablePart_decodeField J) (field_set ''deleteTtlInfoMax'' (OptNilDateTime_Encode J a32)) (s, b)
     = Inr (s\<lparr>tpt_DeleteTtlInfoMax := a32\<rparr>, b)"
  "tpt_MoveTtlInfo s = None \<Longrightarrow> pred_option (list_all amap_ok) a33 \<Longrightarrow>
   obj_fold (TablePart_decodeField J) (field_set ''moveTtlInfo'' (map_option (write_arr (TtlInfo_Encode)) a33)) (s, b)
     = Inr (s\<lparr>tpt_MoveTtlInfo := a33\<rparr>, b)"
  "tpt_RecompressionTtlInfo s = None \<Longrightarrow> pred_option (list_all amap_ok) a34 \<Longrightarrow>
   obj_fold (TablePart_decodeField J) (field_set ''recompressionTtlInfo'' (map_option (write_arr (TtlInfo_Encode)) a34)) (s, b)
     = Inr (s\<lparr>tpt_RecompressionTtlInfo := a34\<rparr>, b)"
  "tpt_DefaultCompressionCodec s = None \<Longrightarrow>
   obj_fold (TablePart_decodeField J) (field_set ''defaultCompressionCodec'' (OptString_Encode JStr a35)) (s, b)
     = Inr (s\<lparr>tpt_DefaultCompressionCodec := a35\<rparr>, b)"
by (auto simp: obj_fold_set TablePart_decodeField_def TablePart_decodeField2_def TablePart_decodeField3_def
    set_codec EmbeddedCondition_list split: option.split optnil.split)

lemma TablePart_roundtrip [codec]:
  "TablePart_ok J x \<Longrightarrow> TablePart_Decode J (TablePart_Encode J x) = Inr x"
by (cases x) (simp add: TablePart_Encode_def TablePart_encodeFields2_def TablePart_encodeFields_def
    TablePart_Decode_def dec_obj_def TablePart_steps TablePart_set_steps TablePart_required_def
    TablePart_zero_def TablePart_ok_def)

lemma TablePart_list [codec]:
  "list_all (TablePart_ok J) xs \<Longrightarrow> read_arr (TablePart_Decode J) (write_arr (TablePart_Encode J) xs) = Inr xs"
  by (rule read_arr_write) (auto simp: codec elim!: list.pred_mono_strong)

definition TablePartsResponse_zero :: "TablePart table_listing" where
  "TablePartsResponse_zero = \<lparr>ls_Collection = CollectionMeta_zero, ls_Items = [], ls_Database = '''', ls_Table = ''''\<rparr>"

definition TablePartsResponse_encodeFields ::
  "jx_env \<Rightarrow> (TablePart table_listing) \<Rightarrow> (string \<times> jx) list" where
  "TablePartsResponse_encodeFields J s =
     field ''collection'' (CollectionMeta_Encode J (ls_Collection s))
     @ field ''database'' (JStr (ls_Database s))
     @ field ''table'' (JStr (ls_Table s))
     @ field ''items'' (write_arr (TablePart_Encode J) (ls_Items s))"

definition TablePartsResponse_Encode :: "jx_env \<Rightarrow> (TablePart table_listing) \<Rightarrow> jx" where
  "TablePartsResponse_Encode J s = JObj (TablePartsResponse_encodeFields J s)"

definition TablePartsResponse_decodeField ::
  "jx_env \<Rightarrow> string \<Rightarrow> jx \<Rightarrow> (TablePart table_listing) \<times> nat set \<Rightarrow> jerr + (TablePart table_listing) \<times> nat set" where
  "TablePartsResponse_decodeField J k v st = (case st of (s, b) \<Rightarrow>
     if k = ''collection'' then put_field k (\<lambda>x. (s\<lparr>ls_Collection := x\<rparr>, insert 0 b)) (CollectionMeta_Decode J v)
     else if k = ''database'' then put_field k (\<lambda>x. (s\<lparr>ls_Database := x\<rparr>, insert 1 b)) (read_str J v)
     else if k = ''table'' then put_field k (\<lambda>x. (s\<lparr>ls_Table := x\<rparr>, insert 2 b)) (read_str J v)
     else if k = ''items'' then put_field k (\<lambda>x. (s\<lparr>ls_Items := x\<rparr>, insert 3 b)) (read_arr (TablePart_Decode J) v)
     else Inl (JUnexpectedField k))"

definition TablePartsResponse_required :: "(nat \<times> string) list" where
  "TablePartsResponse_required = [(0, ''collection''), (1, ''database''), (2, ''table''), (3, ''items'')]"

definition TablePartsResponse_Decode :: "jx_env \<Rightarrow> jx \<Rightarrow> jerr + (TablePart table_listing)" where
  "TablePartsResponse_Decode J =
     dec_obj ''TablePartsResponse'' (TablePartsResponse_decodeField J) TablePartsResponse_required TablePartsResponse_zero"

definition TablePartsResponse_ok :: "jx_env \<Rightarrow> (TablePart table_listing) \<Rightarrow> bool" where
  "TablePartsResponse_ok J s \<longleftrightarrow> CollectionMeta_ok J (ls_Collection s) \<and> list_all (TablePart_ok J) (ls_Items s)"

lemma TablePartsResponse_steps:
  "CollectionMeta_ok J a0 \<Longrightarrow>
   obj_fold (TablePartsResponse_decodeField J) (field ''collection'' (CollectionMeta_Encode J a0)) (s, b)
     = Inr (s\<lparr>ls_Collection := a0\<rparr>, insert 0 b)"
  "obj_fold (TablePartsResponse_decodeField J) (field ''database'' (JStr a1)) (s, b)
     = Inr (s\<lparr>ls_Database := a1\<rparr>, insert 1 b)"
  "obj_fold (TablePartsResponse_decodeField J) (field ''table'' (JStr a2)) (s, b)
     = Inr (s\<lparr>ls_Table := a2\<rparr>, insert 2 b)"
  "list_all (TablePart_ok J) a3 \<Longrightarrow>
   obj_fold (TablePartsResponse_decodeField J) (field ''items'' (write_arr (TablePart_Encode J) a3)) (s, b)
     = Inr (s\<lparr>ls_Items := a3\<rparr>, insert 3 b)"
  by (simp_all add: obj_fold_field TablePartsResponse_decodeField_def CollectionMeta_roundtrip TablePart_list)

lemma TablePartsResponse_roundtrip [codec]:
  "TablePartsResponse_ok J x \<Longrightarrow> TablePartsResponse_Decode J (TablePartsResponse_Encode J x) = Inr x"
by (cases x) (simp add: TablePartsResponse_Encode_def TablePartsResponse_encodeFields_def
    TablePartsResponse_Decode_def dec_obj_def TablePartsResponse_steps TablePartsResponse_required_def
    TablePartsResponse_zero_def TablePartsResponse_ok_def)

lemma TablePartsResponse_list [codec]:
  "list_all (TablePartsResponse_ok J) xs \<Longrightarrow> read_arr (TablePartsResponse_Decode J) (write_arr (TablePartsResponse_Encode J) xs) = Inr xs"
  by (rule read_arr_write) (auto simp: codec elim!: list.pred_mono_strong)

definition DetachedPart_zero :: "RestDetachedPart" where
  "DetachedPart_zero = \<lparr>rdp_NodeId = '''', rdp_Shard = '''', rdp_Replica = '''', rdp_Database = '''', rdp_Table = '''',
     rdp_PartitionId = '''', rdp_PartName = '''', rdp_Disk = '''', rdp_Reason = '''', rdp_Path = '''',
     rdp_BytesOnDisk = '''', rdp_Rows = '''', rdp_MinBlockNumber = None, rdp_MaxBlockNumber = None, rdp_Level = None,
     rdp_ModificationTime = None, rdp_Conditions = []\<rparr>"

definition DetachedPart_encodeFields ::
  "jx_env \<Rightarrow> RestDetachedPart \<Rightarrow> (string \<times> jx) list" where
  "DetachedPart_encodeFields J s =
     field ''nodeId'' (JStr (rdp_NodeId s))
     @ field ''shard'' (JStr (rdp_Shard s))
     @ field ''replica'' (JStr (rdp_Replica s))
     @ field ''database'' (JStr (rdp_Database s))
     @ field ''table'' (JStr (rdp_Table s))
     @ field ''partitionId'' (JStr (rdp_PartitionId s))
     @ field ''partName'' (JStr (rdp_PartName s))
     @ field ''disk'' (JStr (rdp_Disk s))
     @ field ''reason'' (JStr (rdp_Reason s))
     @ field ''path'' (JStr (rdp_Path s))
     @ field ''bytesOnDisk'' (UInt64String_Encode (rdp_BytesOnDisk s))
     @ field ''rows'' (UInt64String_Encode (rdp_Rows s))
     @ field_set ''minBlockNumber'' (OptInt64String_Encode (rdp_MinBlockNumber s))
     @ field_set ''maxBlockNumber'' (OptInt64String_Encode (rdp_MaxBlockNumber s))
     @ field_set ''level'' (OptUInt64String_Encode (rdp_Level s))
     @ field_set ''modificationTime'' (OptDateTime_Encode J (rdp_ModificationTime s))
     @ field ''conditions'' (write_arr (EmbeddedCondition_Encode J) (rdp_Conditions s))"

definition DetachedPart_Encode :: "jx_env \<Rightarrow> RestDetachedPart \<Rightarrow> jx" where
  "DetachedPart_Encode J s = JObj (DetachedPart_encodeFields J s)"

definition DetachedPart_decodeField2 ::
  "jx_env \<Rightarrow> string \<Rightarrow> jx \<Rightarrow> RestDetachedPart \<times> nat set \<Rightarrow> jerr + RestDetachedPart \<times> nat set" where
  "DetachedPart_decodeField2 J k v st = (case st of (s, b) \<Rightarrow>
     if k = ''minBlockNumber'' then put_field k (\<lambda>x. (s\<lparr>rdp_MinBlockNumber := x\<rparr>, b)) (OptInt64String_Decode J v)
     else if k = ''maxBlockNumber'' then put_field k (\<lambda>x. (s\<lparr>rdp_MaxBlockNumber := x\<rparr>, b)) (OptInt64String_Decode J v)
     else if k = ''level'' then put_field k (\<lambda>x. (s\<lparr>rdp_Level := x\<rparr>, b)) (OptUInt64String_Decode J v)
     else if k = ''modificationTime'' then put_field k (\<lambda>x. (s\<lparr>rdp_ModificationTime := x\<rparr>, b)) (OptDateTime_Decode J v)
     else if k = ''conditions'' then put_field k (\<lambda>x. (s\<lparr>rdp_Conditions := x\<rparr>, insert 16 b)) (read_arr (EmbeddedCondition_Decode J) v)
     else Inl (JUnexpectedField k))"

definition DetachedPart_decodeField ::
  "jx_env \<Rightarrow> string \<Rightarrow> jx \<Rightarrow> RestDetachedPart \<times> nat set \<Rightarrow> jerr + RestDetachedPart \<times> nat set" where
  "DetachedPart_decodeField J k v st = (case st of (s, b) \<Rightarrow>
     if k = ''nodeId'' then put_field k (\<lambda>x. (s\<lparr>rdp_NodeId := x\<rparr>, insert 0 b)) (read_str J v)
     else if k = ''shard'' then put_field k (\<lambda>x. (s\<lparr>rdp_Shard := x\<rparr>, insert 1 b)) (read_str J v)
     else if k = ''replica'' then put_field k (\<lambda>x. (s\<lparr>rdp_Replica := x\<rparr>, insert 2 b)) (read_str J v)
     else if k = ''database'' then put_field k (\<lambda>x. (s\<lparr>rdp_Database := x\<rparr>, insert 3 b)) (read_str J v)
     else if k = ''table'' then put_field k (\<lambda>x. (s\<lparr>rdp_Table := x\<rparr>, insert 4 b)) (read_str J v)
     else if k = ''partitionId'' then put_field k (\<lambda>x. (s\<lparr>rdp_PartitionId := x\<rparr>, insert 5 b)) (read_str J v)
     else if k = ''partName'' then put_field k (\<lambda>x. (s\<lparr>rdp_PartName := x\<rparr>, insert 6 b)) (read_str J v)
     else if k = ''disk'' then put_field k (\<lambda>x. (s\<lparr>rdp_Disk := x\<rparr>, insert 7 b)) (read_str J v)
     else if k = ''reason'' then put_field k (\<lambda>x. (s\<lparr>rdp_Reason := x\<rparr>, insert 8 b)) (read_str J v)
     else if k = ''path'' then put_field k (\<lambda>x. (s\<lparr>rdp_Path := x\<rparr>, insert 9 b)) (read_str J v)
     else if k = ''bytesOnDisk'' then put_field k (\<lambda>x. (s\<lparr>rdp_BytesOnDisk := x\<rparr>, insert 10 b)) (UInt64String_Decode J v)
     else if k = ''rows'' then put_field k (\<lambda>x. (s\<lparr>rdp_Rows := x\<rparr>, insert 11 b)) (UInt64String_Decode J v)
     else DetachedPart_decodeField2 J k v (s, b))"

definition DetachedPart_required :: "(nat \<times> string) list" where
  "DetachedPart_required = [(0, ''nodeId''), (1, ''shard''), (2, ''replica''), (3, ''database''), (4, ''table''), (5, ''partitionId''), (6,
    ''partName''), (7, ''disk''), (8, ''reason''), (9, ''path''), (10, ''bytesOnDisk''), (11, ''rows''), (16,
    ''conditions'')]"

definition DetachedPart_Decode :: "jx_env \<Rightarrow> jx \<Rightarrow> jerr + RestDetachedPart" where
  "DetachedPart_Decode J =
     dec_obj ''DetachedPart'' (DetachedPart_decodeField J) DetachedPart_required DetachedPart_zero"

definition DetachedPart_ok :: "jx_env \<Rightarrow> RestDetachedPart \<Rightarrow> bool" where
  "DetachedPart_ok J s \<longleftrightarrow> pred_option (time_ok J) (rdp_ModificationTime s) \<and> list_all (EmbeddedCondition_ok J) (rdp_Conditions s)"

lemma DetachedPart_steps:
  "obj_fold (DetachedPart_decodeField J) (field ''nodeId'' (JStr a0)) (s, b)
     = Inr (s\<lparr>rdp_NodeId := a0\<rparr>, insert 0 b)"
  "obj_fold (DetachedPart_decodeField J) (field ''shard'' (JStr a1)) (s, b)
     = Inr (s\<lparr>rdp_Shard := a1\<rparr>, insert 1 b)"
  "obj_fold (DetachedPart_decodeField J) (field ''replica'' (JStr a2)) (s, b)
     = Inr (s\<lparr>rdp_Replica := a2\<rparr>, insert 2 b)"
  "obj_fold (DetachedPart_decodeField J) (field ''database'' (JStr a3)) (s, b)
     = Inr (s\<lparr>rdp_Database := a3\<rparr>, insert 3 b)"
  "obj_fold (DetachedPart_decodeField J) (field ''table'' (JStr a4)) (s, b)
     = Inr (s\<lparr>rdp_Table := a4\<rparr>, insert 4 b)"
  "obj_fold (DetachedPart_decodeField J) (field ''partitionId'' (JStr a5)) (s, b)
     = Inr (s\<lparr>rdp_PartitionId := a5\<rparr>, insert 5 b)"
  "obj_fold (DetachedPart_decodeField J) (field ''partName'' (JStr a6)) (s, b)
     = Inr (s\<lparr>rdp_PartName := a6\<rparr>, insert 6 b)"
  "obj_fold (DetachedPart_decodeField J) (field ''disk'' (JStr a7)) (s, b)
     = Inr (s\<lparr>rdp_Disk := a7\<rparr>, insert 7 b)"
  "obj_fold (DetachedPart_decodeField J) (field ''reason'' (JStr a8)) (s, b)
     = Inr (s\<lparr>rdp_Reason := a8\<rparr>, insert 8 b)"
  "obj_fold (DetachedPart_decodeField J) (field ''path'' (JStr a9)) (s, b)
     = Inr (s\<lparr>rdp_Path := a9\<rparr>, insert 9 b)"
  "obj_fold (DetachedPart_decodeField J) (field ''bytesOnDisk'' (UInt64String_Encode a10)) (s, b)
     = Inr (s\<lparr>rdp_BytesOnDisk := a10\<rparr>, insert 10 b)"
  "obj_fold (DetachedPart_decodeField J) (field ''rows'' (UInt64String_Encode a11)) (s, b)
     = Inr (s\<lparr>rdp_Rows := a11\<rparr>, insert 11 b)"
  "list_all (EmbeddedCondition_ok J) a16 \<Longrightarrow>
   obj_fold (DetachedPart_decodeField J) (field ''conditions'' (write_arr (EmbeddedCondition_Encode J) a16)) (s, b)
     = Inr (s\<lparr>rdp_Conditions := a16\<rparr>, insert 16 b)"
  by (simp_all add: obj_fold_field DetachedPart_decodeField_def DetachedPart_decodeField2_def EmbeddedCondition_list)

lemma DetachedPart_set_steps:
  "rdp_MinBlockNumber s = None \<Longrightarrow>
   obj_fold (DetachedPart_decodeField J) (field_set ''minBlockNumber'' (OptInt64String_Encode a12)) (s, b)
     = Inr (s\<lparr>rdp_MinBlockNumber := a12\<rparr>, b)"
  "rdp_MaxBlockNumber s = None \<Longrightarrow>
   obj_fold (DetachedPart_decodeField J) (field_set ''maxBlockNumber'' (OptInt64String_Encode a13)) (s, b)
     = Inr (s\<lparr>rdp_MaxBlockNumber := a13\<rparr>, b)"
  "rdp_Level s = None \<Longrightarrow>
   obj_fold (DetachedPart_decodeField J) (field_set ''level'' (OptUInt64String_Encode a14)) (s, b)
     = Inr (s\<lparr>rdp_Level := a14\<rparr>, b)"
  "rdp_ModificationTime s = None \<Longrightarrow> pred_option (time_ok J) a15 \<Longrightarrow>
   obj_fold (DetachedPart_decodeField J) (field_set ''modificationTime'' (OptDateTime_Encode J a15)) (s, b)
     = Inr (s\<lparr>rdp_ModificationTime := a15\<rparr>, b)"
by (auto simp: obj_fold_set DetachedPart_decodeField_def DetachedPart_decodeField2_def set_codec
    EmbeddedCondition_list split: option.split optnil.split)

lemma DetachedPart_roundtrip [codec]:
  "DetachedPart_ok J x \<Longrightarrow> DetachedPart_Decode J (DetachedPart_Encode J x) = Inr x"
by (cases x) (simp add: DetachedPart_Encode_def DetachedPart_encodeFields_def DetachedPart_Decode_def
    dec_obj_def DetachedPart_steps DetachedPart_set_steps DetachedPart_required_def DetachedPart_zero_def
    DetachedPart_ok_def)

lemma DetachedPart_list [codec]:
  "list_all (DetachedPart_ok J) xs \<Longrightarrow> read_arr (DetachedPart_Decode J) (write_arr (DetachedPart_Encode J) xs) = Inr xs"
  by (rule read_arr_write) (auto simp: codec elim!: list.pred_mono_strong)

definition DetachedPartCounts_zero :: "DetachedPartCounts" where
  "DetachedPartCounts_zero = \<lparr>dpc_Total = 0, dpc_ByReason = []\<rparr>"

definition DetachedPartCounts_encodeFields ::
  "jx_env \<Rightarrow> DetachedPartCounts \<Rightarrow> (string \<times> jx) list" where
  "DetachedPartCounts_encodeFields J s =
     field ''total'' (write_int (dpc_Total s))
     @ field ''byReason'' (OpenCountMap_Encode (dpc_ByReason s))"

definition DetachedPartCounts_Encode :: "jx_env \<Rightarrow> DetachedPartCounts \<Rightarrow> jx" where
  "DetachedPartCounts_Encode J s = JObj (DetachedPartCounts_encodeFields J s)"

definition DetachedPartCounts_decodeField ::
  "jx_env \<Rightarrow> string \<Rightarrow> jx \<Rightarrow> DetachedPartCounts \<times> nat set \<Rightarrow> jerr + DetachedPartCounts \<times> nat set" where
  "DetachedPartCounts_decodeField J k v st = (case st of (s, b) \<Rightarrow>
     if k = ''total'' then put_field k (\<lambda>x. (s\<lparr>dpc_Total := x\<rparr>, insert 0 b)) (read_int J v)
     else if k = ''byReason'' then put_field k (\<lambda>x. (s\<lparr>dpc_ByReason := x\<rparr>, insert 1 b)) (OpenCountMap_Decode J v)
     else Inl (JUnexpectedField k))"

definition DetachedPartCounts_required :: "(nat \<times> string) list" where
  "DetachedPartCounts_required = [(0, ''total''), (1, ''byReason'')]"

definition DetachedPartCounts_Decode :: "jx_env \<Rightarrow> jx \<Rightarrow> jerr + DetachedPartCounts" where
  "DetachedPartCounts_Decode J =
     dec_obj ''DetachedPartCounts'' (DetachedPartCounts_decodeField J) DetachedPartCounts_required DetachedPartCounts_zero"

definition DetachedPartCounts_ok :: "jx_env \<Rightarrow> DetachedPartCounts \<Rightarrow> bool" where
  "DetachedPartCounts_ok J s \<longleftrightarrow> in_i64 (dpc_Total s) \<and> OpenCountMap_ok (dpc_ByReason s)"

lemma DetachedPartCounts_steps:
  "in_i64 a0 \<Longrightarrow>
   obj_fold (DetachedPartCounts_decodeField J) (field ''total'' (write_int a0)) (s, b)
     = Inr (s\<lparr>dpc_Total := a0\<rparr>, insert 0 b)"
  "OpenCountMap_ok a1 \<Longrightarrow>
   obj_fold (DetachedPartCounts_decodeField J) (field ''byReason'' (OpenCountMap_Encode a1)) (s, b)
     = Inr (s\<lparr>dpc_ByReason := a1\<rparr>, insert 1 b)"
  by (simp_all add: obj_fold_field DetachedPartCounts_decodeField_def)

lemma DetachedPartCounts_roundtrip [codec]:
  "DetachedPartCounts_ok J x \<Longrightarrow> DetachedPartCounts_Decode J (DetachedPartCounts_Encode J x) = Inr x"
by (cases x) (simp add: DetachedPartCounts_Encode_def DetachedPartCounts_encodeFields_def
    DetachedPartCounts_Decode_def dec_obj_def DetachedPartCounts_steps DetachedPartCounts_required_def
    DetachedPartCounts_zero_def DetachedPartCounts_ok_def)

lemma DetachedPartCounts_list [codec]:
  "list_all (DetachedPartCounts_ok J) xs \<Longrightarrow> read_arr (DetachedPartCounts_Decode J) (write_arr (DetachedPartCounts_Encode J) xs) = Inr xs"
  by (rule read_arr_write) (auto simp: codec elim!: list.pred_mono_strong)

definition DetachedPartsResponse_zero :: "(RestDetachedPart, DetachedPartCounts) table_counted" where
  "DetachedPartsResponse_zero = \<lparr>ct_Collection = CollectionMeta_zero, ct_Items = [], ct_Counts = DetachedPartCounts_zero,
     ct_Database = '''', ct_Table = ''''\<rparr>"

definition DetachedPartsResponse_encodeFields ::
  "jx_env \<Rightarrow> ((RestDetachedPart, DetachedPartCounts) table_counted) \<Rightarrow> (string \<times> jx) list" where
  "DetachedPartsResponse_encodeFields J s =
     field ''collection'' (CollectionMeta_Encode J (ct_Collection s))
     @ field ''database'' (JStr (ct_Database s))
     @ field ''table'' (JStr (ct_Table s))
     @ field ''items'' (write_arr (DetachedPart_Encode J) (ct_Items s))
     @ field ''counts'' (DetachedPartCounts_Encode J (ct_Counts s))"

definition DetachedPartsResponse_Encode ::
  "jx_env \<Rightarrow> ((RestDetachedPart, DetachedPartCounts) table_counted) \<Rightarrow> jx" where
  "DetachedPartsResponse_Encode J s = JObj (DetachedPartsResponse_encodeFields J s)"

definition DetachedPartsResponse_decodeField ::
  "jx_env \<Rightarrow> string \<Rightarrow> jx \<Rightarrow> ((RestDetachedPart, DetachedPartCounts) table_counted) \<times> nat set \<Rightarrow> jerr + ((RestDetachedPart, DetachedPartCounts) table_counted) \<times> nat set" where
  "DetachedPartsResponse_decodeField J k v st = (case st of (s, b) \<Rightarrow>
     if k = ''collection'' then put_field k (\<lambda>x. (s\<lparr>ct_Collection := x\<rparr>, insert 0 b)) (CollectionMeta_Decode J v)
     else if k = ''database'' then put_field k (\<lambda>x. (s\<lparr>ct_Database := x\<rparr>, insert 1 b)) (read_str J v)
     else if k = ''table'' then put_field k (\<lambda>x. (s\<lparr>ct_Table := x\<rparr>, insert 2 b)) (read_str J v)
     else if k = ''items'' then put_field k (\<lambda>x. (s\<lparr>ct_Items := x\<rparr>, insert 3 b)) (read_arr (DetachedPart_Decode J) v)
     else if k = ''counts'' then put_field k (\<lambda>x. (s\<lparr>ct_Counts := x\<rparr>, insert 4 b)) (DetachedPartCounts_Decode J v)
     else Inl (JUnexpectedField k))"

definition DetachedPartsResponse_required :: "(nat \<times> string) list" where
  "DetachedPartsResponse_required = [(0, ''collection''), (1, ''database''), (2, ''table''), (3, ''items''), (4, ''counts'')]"

definition DetachedPartsResponse_Decode ::
  "jx_env \<Rightarrow> jx \<Rightarrow> jerr + ((RestDetachedPart, DetachedPartCounts) table_counted)" where
  "DetachedPartsResponse_Decode J =
     dec_obj ''DetachedPartsResponse'' (DetachedPartsResponse_decodeField J) DetachedPartsResponse_required DetachedPartsResponse_zero"

definition DetachedPartsResponse_ok ::
  "jx_env \<Rightarrow> ((RestDetachedPart, DetachedPartCounts) table_counted) \<Rightarrow> bool" where
  "DetachedPartsResponse_ok J s \<longleftrightarrow> CollectionMeta_ok J (ct_Collection s) \<and> list_all (DetachedPart_ok J) (ct_Items s) \<and>
     DetachedPartCounts_ok J (ct_Counts s)"

lemma DetachedPartsResponse_steps:
  "CollectionMeta_ok J a0 \<Longrightarrow>
   obj_fold (DetachedPartsResponse_decodeField J) (field ''collection'' (CollectionMeta_Encode J a0)) (s, b)
     = Inr (s\<lparr>ct_Collection := a0\<rparr>, insert 0 b)"
  "obj_fold (DetachedPartsResponse_decodeField J) (field ''database'' (JStr a1)) (s, b)
     = Inr (s\<lparr>ct_Database := a1\<rparr>, insert 1 b)"
  "obj_fold (DetachedPartsResponse_decodeField J) (field ''table'' (JStr a2)) (s, b)
     = Inr (s\<lparr>ct_Table := a2\<rparr>, insert 2 b)"
  "list_all (DetachedPart_ok J) a3 \<Longrightarrow>
   obj_fold (DetachedPartsResponse_decodeField J) (field ''items'' (write_arr (DetachedPart_Encode J) a3)) (s, b)
     = Inr (s\<lparr>ct_Items := a3\<rparr>, insert 3 b)"
  "DetachedPartCounts_ok J a4 \<Longrightarrow>
   obj_fold (DetachedPartsResponse_decodeField J) (field ''counts'' (DetachedPartCounts_Encode J a4)) (s, b)
     = Inr (s\<lparr>ct_Counts := a4\<rparr>, insert 4 b)"
by (simp_all add: obj_fold_field DetachedPartsResponse_decodeField_def CollectionMeta_roundtrip
    DetachedPart_list DetachedPartCounts_roundtrip)

lemma DetachedPartsResponse_roundtrip [codec]:
  "DetachedPartsResponse_ok J x \<Longrightarrow> DetachedPartsResponse_Decode J (DetachedPartsResponse_Encode J x) = Inr x"
by (cases x) (simp add: DetachedPartsResponse_Encode_def DetachedPartsResponse_encodeFields_def
    DetachedPartsResponse_Decode_def dec_obj_def DetachedPartsResponse_steps DetachedPartsResponse_required_def
    DetachedPartsResponse_zero_def DetachedPartsResponse_ok_def)

lemma DetachedPartsResponse_list [codec]:
  "list_all (DetachedPartsResponse_ok J) xs \<Longrightarrow> read_arr (DetachedPartsResponse_Decode J) (write_arr (DetachedPartsResponse_Encode J) xs) = Inr xs"
  by (rule read_arr_write) (auto simp: codec elim!: list.pred_mono_strong)

section \<open>Operations\<close>

definition Operation_zero :: "RestOperation" where
  "Operation_zero = \<lparr>ro_OperationId = '''', ro_Kind = '''', ro_NodeId = '''', ro_Database = '''', ro_Table = '''',
     ro_Partition = OptAbsent, ro_PartitionId = OptAbsent, ro_AttemptId = '''', ro_State = '''',
     ro_ElapsedSeconds = None, ro_Progress = None, ro_SourceDisk = OptAbsent, ro_TargetDisk = OptAbsent,
     ro_BytesTotal = OptAbsent, ro_BytesProcessed = OptAbsent, ro_LatestMessage = OptAbsent,
     ro_StartedAt = OptAbsent\<rparr>"

definition Operation_encodeFields ::
  "jx_env \<Rightarrow> RestOperation \<Rightarrow> (string \<times> jx) list" where
  "Operation_encodeFields J s =
     field ''operationId'' (JStr (ro_OperationId s))
     @ field ''kind'' (OperationKind_Encode (ro_Kind s))
     @ field ''nodeId'' (JStr (ro_NodeId s))
     @ field ''database'' (JStr (ro_Database s))
     @ field ''table'' (JStr (ro_Table s))
     @ field_set ''partition'' (OptNilString_Encode (ro_Partition s))
     @ field_set ''partitionId'' (OptNilString_Encode (ro_PartitionId s))
     @ field ''attemptId'' (JStr (ro_AttemptId s))
     @ field ''state'' (JStr (ro_State s))
     @ field_set ''elapsedSeconds'' (OptFloat64_Encode (ro_ElapsedSeconds s))
     @ field_set ''progress'' (OptFloat64_Encode (ro_Progress s))
     @ field_set ''sourceDisk'' (OptNilString_Encode (ro_SourceDisk s))
     @ field_set ''targetDisk'' (OptNilString_Encode (ro_TargetDisk s))
     @ field_set ''bytesTotal'' (OptNilUInt64String_Encode (ro_BytesTotal s))
     @ field_set ''bytesProcessed'' (OptNilUInt64String_Encode (ro_BytesProcessed s))
     @ field_set ''latestMessage'' (OptNilString_Encode (ro_LatestMessage s))
     @ field_set ''startedAt'' (OptNilDateTime_Encode J (ro_StartedAt s))"

definition Operation_Encode :: "jx_env \<Rightarrow> RestOperation \<Rightarrow> jx" where
  "Operation_Encode J s = JObj (Operation_encodeFields J s)"

definition Operation_decodeField2 ::
  "jx_env \<Rightarrow> string \<Rightarrow> jx \<Rightarrow> RestOperation \<times> nat set \<Rightarrow> jerr + RestOperation \<times> nat set" where
  "Operation_decodeField2 J k v st = (case st of (s, b) \<Rightarrow>
     if k = ''bytesTotal'' then put_field k (\<lambda>x. (s\<lparr>ro_BytesTotal := x\<rparr>, b)) (OptNilUInt64String_Decode J v)
     else if k = ''bytesProcessed'' then put_field k (\<lambda>x. (s\<lparr>ro_BytesProcessed := x\<rparr>, b)) (OptNilUInt64String_Decode J v)
     else if k = ''latestMessage'' then put_field k (\<lambda>x. (s\<lparr>ro_LatestMessage := x\<rparr>, b)) (OptNilString_Decode J v)
     else if k = ''startedAt'' then put_field k (\<lambda>x. (s\<lparr>ro_StartedAt := x\<rparr>, b)) (OptNilDateTime_Decode J v)
     else Inl (JUnexpectedField k))"

definition Operation_decodeField ::
  "jx_env \<Rightarrow> string \<Rightarrow> jx \<Rightarrow> RestOperation \<times> nat set \<Rightarrow> jerr + RestOperation \<times> nat set" where
  "Operation_decodeField J k v st = (case st of (s, b) \<Rightarrow>
     if k = ''operationId'' then put_field k (\<lambda>x. (s\<lparr>ro_OperationId := x\<rparr>, insert 0 b)) (read_str J v)
     else if k = ''kind'' then put_field k (\<lambda>x. (s\<lparr>ro_Kind := x\<rparr>, insert 1 b)) (OperationKind_Decode J v)
     else if k = ''nodeId'' then put_field k (\<lambda>x. (s\<lparr>ro_NodeId := x\<rparr>, insert 2 b)) (read_str J v)
     else if k = ''database'' then put_field k (\<lambda>x. (s\<lparr>ro_Database := x\<rparr>, insert 3 b)) (read_str J v)
     else if k = ''table'' then put_field k (\<lambda>x. (s\<lparr>ro_Table := x\<rparr>, insert 4 b)) (read_str J v)
     else if k = ''partition'' then put_field k (\<lambda>x. (s\<lparr>ro_Partition := x\<rparr>, b)) (OptNilString_Decode J v)
     else if k = ''partitionId'' then put_field k (\<lambda>x. (s\<lparr>ro_PartitionId := x\<rparr>, b)) (OptNilString_Decode J v)
     else if k = ''attemptId'' then put_field k (\<lambda>x. (s\<lparr>ro_AttemptId := x\<rparr>, insert 7 b)) (read_str J v)
     else if k = ''state'' then put_field k (\<lambda>x. (s\<lparr>ro_State := x\<rparr>, insert 8 b)) (read_str J v)
     else if k = ''elapsedSeconds'' then put_field k (\<lambda>x. (s\<lparr>ro_ElapsedSeconds := x\<rparr>, b)) (OptFloat64_Decode J v)
     else if k = ''progress'' then put_field k (\<lambda>x. (s\<lparr>ro_Progress := x\<rparr>, b)) (OptFloat64_Decode J v)
     else if k = ''sourceDisk'' then put_field k (\<lambda>x. (s\<lparr>ro_SourceDisk := x\<rparr>, b)) (OptNilString_Decode J v)
     else if k = ''targetDisk'' then put_field k (\<lambda>x. (s\<lparr>ro_TargetDisk := x\<rparr>, b)) (OptNilString_Decode J v)
     else Operation_decodeField2 J k v (s, b))"

definition Operation_required :: "(nat \<times> string) list" where
  "Operation_required = [(0, ''operationId''), (1, ''kind''), (2, ''nodeId''), (3, ''database''), (4, ''table''), (7, ''attemptId''), (8,
    ''state'')]"

definition Operation_Decode :: "jx_env \<Rightarrow> jx \<Rightarrow> jerr + RestOperation" where
  "Operation_Decode J = dec_obj ''Operation'' (Operation_decodeField J) Operation_required Operation_zero"

definition Operation_ok :: "jx_env \<Rightarrow> RestOperation \<Rightarrow> bool" where
  "Operation_ok J s \<longleftrightarrow> pred_option f64_ok (ro_ElapsedSeconds s) \<and> pred_option f64_ok (ro_Progress s) \<and>
     pred_optnil (time_ok J) (ro_StartedAt s)"

lemma Operation_steps:
  "obj_fold (Operation_decodeField J) (field ''operationId'' (JStr a0)) (s, b)
     = Inr (s\<lparr>ro_OperationId := a0\<rparr>, insert 0 b)"
  "obj_fold (Operation_decodeField J) (field ''kind'' (OperationKind_Encode a1)) (s, b)
     = Inr (s\<lparr>ro_Kind := a1\<rparr>, insert 1 b)"
  "obj_fold (Operation_decodeField J) (field ''nodeId'' (JStr a2)) (s, b)
     = Inr (s\<lparr>ro_NodeId := a2\<rparr>, insert 2 b)"
  "obj_fold (Operation_decodeField J) (field ''database'' (JStr a3)) (s, b)
     = Inr (s\<lparr>ro_Database := a3\<rparr>, insert 3 b)"
  "obj_fold (Operation_decodeField J) (field ''table'' (JStr a4)) (s, b) = Inr (s\<lparr>ro_Table := a4\<rparr>, insert 4 b)"
  "obj_fold (Operation_decodeField J) (field ''attemptId'' (JStr a7)) (s, b)
     = Inr (s\<lparr>ro_AttemptId := a7\<rparr>, insert 7 b)"
  "obj_fold (Operation_decodeField J) (field ''state'' (JStr a8)) (s, b) = Inr (s\<lparr>ro_State := a8\<rparr>, insert 8 b)"
  by (simp_all add: obj_fold_field Operation_decodeField_def Operation_decodeField2_def)

lemma Operation_set_steps:
  "ro_Partition s = OptAbsent \<Longrightarrow>
   obj_fold (Operation_decodeField J) (field_set ''partition'' (OptNilString_Encode a5)) (s, b)
     = Inr (s\<lparr>ro_Partition := a5\<rparr>, b)"
  "ro_PartitionId s = OptAbsent \<Longrightarrow>
   obj_fold (Operation_decodeField J) (field_set ''partitionId'' (OptNilString_Encode a6)) (s, b)
     = Inr (s\<lparr>ro_PartitionId := a6\<rparr>, b)"
  "ro_ElapsedSeconds s = None \<Longrightarrow> pred_option f64_ok a9 \<Longrightarrow>
   obj_fold (Operation_decodeField J) (field_set ''elapsedSeconds'' (OptFloat64_Encode a9)) (s, b)
     = Inr (s\<lparr>ro_ElapsedSeconds := a9\<rparr>, b)"
  "ro_Progress s = None \<Longrightarrow> pred_option f64_ok a10 \<Longrightarrow>
   obj_fold (Operation_decodeField J) (field_set ''progress'' (OptFloat64_Encode a10)) (s, b)
     = Inr (s\<lparr>ro_Progress := a10\<rparr>, b)"
  "ro_SourceDisk s = OptAbsent \<Longrightarrow>
   obj_fold (Operation_decodeField J) (field_set ''sourceDisk'' (OptNilString_Encode a11)) (s, b)
     = Inr (s\<lparr>ro_SourceDisk := a11\<rparr>, b)"
  "ro_TargetDisk s = OptAbsent \<Longrightarrow>
   obj_fold (Operation_decodeField J) (field_set ''targetDisk'' (OptNilString_Encode a12)) (s, b)
     = Inr (s\<lparr>ro_TargetDisk := a12\<rparr>, b)"
  "ro_BytesTotal s = OptAbsent \<Longrightarrow>
   obj_fold (Operation_decodeField J) (field_set ''bytesTotal'' (OptNilUInt64String_Encode a13)) (s, b)
     = Inr (s\<lparr>ro_BytesTotal := a13\<rparr>, b)"
  "ro_BytesProcessed s = OptAbsent \<Longrightarrow>
   obj_fold (Operation_decodeField J) (field_set ''bytesProcessed'' (OptNilUInt64String_Encode a14)) (s, b)
     = Inr (s\<lparr>ro_BytesProcessed := a14\<rparr>, b)"
  "ro_LatestMessage s = OptAbsent \<Longrightarrow>
   obj_fold (Operation_decodeField J) (field_set ''latestMessage'' (OptNilString_Encode a15)) (s, b)
     = Inr (s\<lparr>ro_LatestMessage := a15\<rparr>, b)"
  "ro_StartedAt s = OptAbsent \<Longrightarrow> pred_optnil (time_ok J) a16 \<Longrightarrow>
   obj_fold (Operation_decodeField J) (field_set ''startedAt'' (OptNilDateTime_Encode J a16)) (s, b)
     = Inr (s\<lparr>ro_StartedAt := a16\<rparr>, b)"
by (auto simp: obj_fold_set Operation_decodeField_def Operation_decodeField2_def set_codec split: option.split
    optnil.split)

lemma Operation_roundtrip [codec]:
  "Operation_ok J x \<Longrightarrow> Operation_Decode J (Operation_Encode J x) = Inr x"
by (cases x) (simp add: Operation_Encode_def Operation_encodeFields_def Operation_Decode_def dec_obj_def
    Operation_steps Operation_set_steps Operation_required_def Operation_zero_def Operation_ok_def)

lemma Operation_list [codec]:
  "list_all (Operation_ok J) xs \<Longrightarrow> read_arr (Operation_Decode J) (write_arr (Operation_Encode J) xs) = Inr xs"
  by (rule read_arr_write) (auto simp: codec elim!: list.pred_mono_strong)

definition OperationKindCounts_zero :: "OperationKindCounts" where
  "OperationKindCounts_zero = \<lparr>okc_Move = 0, okc_Merge = 0, okc_Mutation = 0, okc_Fetch = 0, okc_ReplicationQueue = 0\<rparr>"

definition OperationKindCounts_encodeFields ::
  "jx_env \<Rightarrow> OperationKindCounts \<Rightarrow> (string \<times> jx) list" where
  "OperationKindCounts_encodeFields J s =
     field ''move'' (write_int (okc_Move s))
     @ field ''merge'' (write_int (okc_Merge s))
     @ field ''mutation'' (write_int (okc_Mutation s))
     @ field ''fetch'' (write_int (okc_Fetch s))
     @ field ''replication_queue'' (write_int (okc_ReplicationQueue s))"

definition OperationKindCounts_Encode :: "jx_env \<Rightarrow> OperationKindCounts \<Rightarrow> jx" where
  "OperationKindCounts_Encode J s = JObj (OperationKindCounts_encodeFields J s)"

definition OperationKindCounts_decodeField ::
  "jx_env \<Rightarrow> string \<Rightarrow> jx \<Rightarrow> OperationKindCounts \<times> nat set \<Rightarrow> jerr + OperationKindCounts \<times> nat set" where
  "OperationKindCounts_decodeField J k v st = (case st of (s, b) \<Rightarrow>
     if k = ''move'' then put_field k (\<lambda>x. (s\<lparr>okc_Move := x\<rparr>, insert 0 b)) (read_int J v)
     else if k = ''merge'' then put_field k (\<lambda>x. (s\<lparr>okc_Merge := x\<rparr>, insert 1 b)) (read_int J v)
     else if k = ''mutation'' then put_field k (\<lambda>x. (s\<lparr>okc_Mutation := x\<rparr>, insert 2 b)) (read_int J v)
     else if k = ''fetch'' then put_field k (\<lambda>x. (s\<lparr>okc_Fetch := x\<rparr>, insert 3 b)) (read_int J v)
     else if k = ''replication_queue'' then put_field k (\<lambda>x. (s\<lparr>okc_ReplicationQueue := x\<rparr>, insert 4 b)) (read_int J v)
     else Inl (JUnexpectedField k))"

definition OperationKindCounts_required :: "(nat \<times> string) list" where
  "OperationKindCounts_required = [(0, ''move''), (1, ''merge''), (2, ''mutation''), (3, ''fetch''), (4, ''replication_queue'')]"

definition OperationKindCounts_Decode :: "jx_env \<Rightarrow> jx \<Rightarrow> jerr + OperationKindCounts" where
  "OperationKindCounts_Decode J =
     dec_obj ''OperationKindCounts'' (OperationKindCounts_decodeField J) OperationKindCounts_required OperationKindCounts_zero"

definition OperationKindCounts_ok :: "jx_env \<Rightarrow> OperationKindCounts \<Rightarrow> bool" where
  "OperationKindCounts_ok J s \<longleftrightarrow> in_i64 (okc_Move s) \<and> in_i64 (okc_Merge s) \<and> in_i64 (okc_Mutation s) \<and> in_i64 (okc_Fetch s) \<and>
     in_i64 (okc_ReplicationQueue s)"

lemma OperationKindCounts_steps:
  "in_i64 a0 \<Longrightarrow>
   obj_fold (OperationKindCounts_decodeField J) (field ''move'' (write_int a0)) (s, b)
     = Inr (s\<lparr>okc_Move := a0\<rparr>, insert 0 b)"
  "in_i64 a1 \<Longrightarrow>
   obj_fold (OperationKindCounts_decodeField J) (field ''merge'' (write_int a1)) (s, b)
     = Inr (s\<lparr>okc_Merge := a1\<rparr>, insert 1 b)"
  "in_i64 a2 \<Longrightarrow>
   obj_fold (OperationKindCounts_decodeField J) (field ''mutation'' (write_int a2)) (s, b)
     = Inr (s\<lparr>okc_Mutation := a2\<rparr>, insert 2 b)"
  "in_i64 a3 \<Longrightarrow>
   obj_fold (OperationKindCounts_decodeField J) (field ''fetch'' (write_int a3)) (s, b)
     = Inr (s\<lparr>okc_Fetch := a3\<rparr>, insert 3 b)"
  "in_i64 a4 \<Longrightarrow>
   obj_fold (OperationKindCounts_decodeField J) (field ''replication_queue'' (write_int a4)) (s, b)
     = Inr (s\<lparr>okc_ReplicationQueue := a4\<rparr>, insert 4 b)"
  by (simp_all add: obj_fold_field OperationKindCounts_decodeField_def)

lemma OperationKindCounts_roundtrip [codec]:
  "OperationKindCounts_ok J x \<Longrightarrow> OperationKindCounts_Decode J (OperationKindCounts_Encode J x) = Inr x"
by (cases x) (simp add: OperationKindCounts_Encode_def OperationKindCounts_encodeFields_def
    OperationKindCounts_Decode_def dec_obj_def OperationKindCounts_steps OperationKindCounts_required_def
    OperationKindCounts_zero_def OperationKindCounts_ok_def)

lemma OperationKindCounts_list [codec]:
  "list_all (OperationKindCounts_ok J) xs \<Longrightarrow> read_arr (OperationKindCounts_Decode J) (write_arr (OperationKindCounts_Encode J) xs) = Inr xs"
  by (rule read_arr_write) (auto simp: codec elim!: list.pred_mono_strong)

definition OperationCounts_zero :: "OperationCounts" where
  "OperationCounts_zero = \<lparr>oc_Total = 0, oc_ByKind = OperationKindCounts_zero\<rparr>"

definition OperationCounts_encodeFields ::
  "jx_env \<Rightarrow> OperationCounts \<Rightarrow> (string \<times> jx) list" where
  "OperationCounts_encodeFields J s =
     field ''total'' (write_int (oc_Total s))
     @ field ''byKind'' (OperationKindCounts_Encode J (oc_ByKind s))"

definition OperationCounts_Encode :: "jx_env \<Rightarrow> OperationCounts \<Rightarrow> jx" where
  "OperationCounts_Encode J s = JObj (OperationCounts_encodeFields J s)"

definition OperationCounts_decodeField ::
  "jx_env \<Rightarrow> string \<Rightarrow> jx \<Rightarrow> OperationCounts \<times> nat set \<Rightarrow> jerr + OperationCounts \<times> nat set" where
  "OperationCounts_decodeField J k v st = (case st of (s, b) \<Rightarrow>
     if k = ''total'' then put_field k (\<lambda>x. (s\<lparr>oc_Total := x\<rparr>, insert 0 b)) (read_int J v)
     else if k = ''byKind'' then put_field k (\<lambda>x. (s\<lparr>oc_ByKind := x\<rparr>, insert 1 b)) (OperationKindCounts_Decode J v)
     else Inl (JUnexpectedField k))"

definition OperationCounts_required :: "(nat \<times> string) list" where
  "OperationCounts_required = [(0, ''total''), (1, ''byKind'')]"

definition OperationCounts_Decode :: "jx_env \<Rightarrow> jx \<Rightarrow> jerr + OperationCounts" where
  "OperationCounts_Decode J =
     dec_obj ''OperationCounts'' (OperationCounts_decodeField J) OperationCounts_required OperationCounts_zero"

definition OperationCounts_ok :: "jx_env \<Rightarrow> OperationCounts \<Rightarrow> bool" where
  "OperationCounts_ok J s \<longleftrightarrow> in_i64 (oc_Total s) \<and> OperationKindCounts_ok J (oc_ByKind s)"

lemma OperationCounts_steps:
  "in_i64 a0 \<Longrightarrow>
   obj_fold (OperationCounts_decodeField J) (field ''total'' (write_int a0)) (s, b)
     = Inr (s\<lparr>oc_Total := a0\<rparr>, insert 0 b)"
  "OperationKindCounts_ok J a1 \<Longrightarrow>
   obj_fold (OperationCounts_decodeField J) (field ''byKind'' (OperationKindCounts_Encode J a1)) (s, b)
     = Inr (s\<lparr>oc_ByKind := a1\<rparr>, insert 1 b)"
  by (simp_all add: obj_fold_field OperationCounts_decodeField_def OperationKindCounts_roundtrip)

lemma OperationCounts_roundtrip [codec]:
  "OperationCounts_ok J x \<Longrightarrow> OperationCounts_Decode J (OperationCounts_Encode J x) = Inr x"
by (cases x) (simp add: OperationCounts_Encode_def OperationCounts_encodeFields_def OperationCounts_Decode_def
    dec_obj_def OperationCounts_steps OperationCounts_required_def OperationCounts_zero_def
    OperationCounts_ok_def)

lemma OperationCounts_list [codec]:
  "list_all (OperationCounts_ok J) xs \<Longrightarrow> read_arr (OperationCounts_Decode J) (write_arr (OperationCounts_Encode J) xs) = Inr xs"
  by (rule read_arr_write) (auto simp: codec elim!: list.pred_mono_strong)

definition OperationsResponse_zero :: "(RestOperation, OperationCounts) counted" where
  "OperationsResponse_zero = \<lparr>ct_Collection = CollectionMeta_zero, ct_Items = [], ct_Counts = OperationCounts_zero\<rparr>"

definition OperationsResponse_encodeFields ::
  "jx_env \<Rightarrow> ((RestOperation, OperationCounts) counted) \<Rightarrow> (string \<times> jx) list" where
  "OperationsResponse_encodeFields J s =
     field ''collection'' (CollectionMeta_Encode J (ct_Collection s))
     @ field ''items'' (write_arr (Operation_Encode J) (ct_Items s))
     @ field ''counts'' (OperationCounts_Encode J (ct_Counts s))"

definition OperationsResponse_Encode ::
  "jx_env \<Rightarrow> ((RestOperation, OperationCounts) counted) \<Rightarrow> jx" where
  "OperationsResponse_Encode J s = JObj (OperationsResponse_encodeFields J s)"

definition OperationsResponse_decodeField ::
  "jx_env \<Rightarrow> string \<Rightarrow> jx \<Rightarrow> ((RestOperation, OperationCounts) counted) \<times> nat set \<Rightarrow> jerr + ((RestOperation, OperationCounts) counted) \<times> nat set" where
  "OperationsResponse_decodeField J k v st = (case st of (s, b) \<Rightarrow>
     if k = ''collection'' then put_field k (\<lambda>x. (s\<lparr>ct_Collection := x\<rparr>, insert 0 b)) (CollectionMeta_Decode J v)
     else if k = ''items'' then put_field k (\<lambda>x. (s\<lparr>ct_Items := x\<rparr>, insert 1 b)) (read_arr (Operation_Decode J) v)
     else if k = ''counts'' then put_field k (\<lambda>x. (s\<lparr>ct_Counts := x\<rparr>, insert 2 b)) (OperationCounts_Decode J v)
     else Inl (JUnexpectedField k))"

definition OperationsResponse_required :: "(nat \<times> string) list" where
  "OperationsResponse_required = [(0, ''collection''), (1, ''items''), (2, ''counts'')]"

definition OperationsResponse_Decode ::
  "jx_env \<Rightarrow> jx \<Rightarrow> jerr + ((RestOperation, OperationCounts) counted)" where
  "OperationsResponse_Decode J =
     dec_obj ''OperationsResponse'' (OperationsResponse_decodeField J) OperationsResponse_required OperationsResponse_zero"

definition OperationsResponse_ok ::
  "jx_env \<Rightarrow> ((RestOperation, OperationCounts) counted) \<Rightarrow> bool" where
  "OperationsResponse_ok J s \<longleftrightarrow> CollectionMeta_ok J (ct_Collection s) \<and> list_all (Operation_ok J) (ct_Items s) \<and>
     OperationCounts_ok J (ct_Counts s)"

lemma OperationsResponse_steps:
  "CollectionMeta_ok J a0 \<Longrightarrow>
   obj_fold (OperationsResponse_decodeField J) (field ''collection'' (CollectionMeta_Encode J a0)) (s, b)
     = Inr (s\<lparr>ct_Collection := a0\<rparr>, insert 0 b)"
  "list_all (Operation_ok J) a1 \<Longrightarrow>
   obj_fold (OperationsResponse_decodeField J) (field ''items'' (write_arr (Operation_Encode J) a1)) (s, b)
     = Inr (s\<lparr>ct_Items := a1\<rparr>, insert 1 b)"
  "OperationCounts_ok J a2 \<Longrightarrow>
   obj_fold (OperationsResponse_decodeField J) (field ''counts'' (OperationCounts_Encode J a2)) (s, b)
     = Inr (s\<lparr>ct_Counts := a2\<rparr>, insert 2 b)"
by (simp_all add: obj_fold_field OperationsResponse_decodeField_def CollectionMeta_roundtrip Operation_list
    OperationCounts_roundtrip)

lemma OperationsResponse_roundtrip [codec]:
  "OperationsResponse_ok J x \<Longrightarrow> OperationsResponse_Decode J (OperationsResponse_Encode J x) = Inr x"
by (cases x) (simp add: OperationsResponse_Encode_def OperationsResponse_encodeFields_def
    OperationsResponse_Decode_def dec_obj_def OperationsResponse_steps OperationsResponse_required_def
    OperationsResponse_zero_def OperationsResponse_ok_def)

lemma OperationsResponse_list [codec]:
  "list_all (OperationsResponse_ok J) xs \<Longrightarrow> read_arr (OperationsResponse_Decode J) (write_arr (OperationsResponse_Encode J) xs) = Inr xs"
  by (rule read_arr_write) (auto simp: codec elim!: list.pred_mono_strong)

definition MutationBlockNumber_zero :: "string \<times> string" where
  "MutationBlockNumber_zero = ('''', '''')"

definition MutationBlockNumber_encodeFields ::
  "jx_env \<Rightarrow> (string \<times> string) \<Rightarrow> (string \<times> jx) list" where
  "MutationBlockNumber_encodeFields J s =
     field ''partitionId'' (JStr (fst s))
     @ field ''number'' (UInt64String_Encode (snd s))"

definition MutationBlockNumber_Encode :: "jx_env \<Rightarrow> (string \<times> string) \<Rightarrow> jx" where
  "MutationBlockNumber_Encode J s = JObj (MutationBlockNumber_encodeFields J s)"

definition MutationBlockNumber_decodeField ::
  "jx_env \<Rightarrow> string \<Rightarrow> jx \<Rightarrow> (string \<times> string) \<times> nat set \<Rightarrow> jerr + (string \<times> string) \<times> nat set" where
  "MutationBlockNumber_decodeField J k v st = (case st of (s, b) \<Rightarrow>
     if k = ''partitionId'' then put_field k (\<lambda>x. ((x, snd s), insert 0 b)) (read_str J v)
     else if k = ''number'' then put_field k (\<lambda>x. ((fst s, x), insert 1 b)) (UInt64String_Decode J v)
     else Inl (JUnexpectedField k))"

definition MutationBlockNumber_required :: "(nat \<times> string) list" where
  "MutationBlockNumber_required = [(0, ''partitionId''), (1, ''number'')]"

definition MutationBlockNumber_Decode :: "jx_env \<Rightarrow> jx \<Rightarrow> jerr + (string \<times> string)" where
  "MutationBlockNumber_Decode J =
     dec_obj ''MutationBlockNumber'' (MutationBlockNumber_decodeField J) MutationBlockNumber_required MutationBlockNumber_zero"

lemma MutationBlockNumber_steps:
  "obj_fold (MutationBlockNumber_decodeField J) (field ''partitionId'' (JStr a0)) (s, b) = Inr ((a0, snd s), insert 0 b)"
  "obj_fold (MutationBlockNumber_decodeField J) (field ''number'' (UInt64String_Encode a1)) (s, b)
     = Inr ((fst s, a1), insert 1 b)"
  by (simp_all add: obj_fold_field MutationBlockNumber_decodeField_def)

lemma MutationBlockNumber_roundtrip [codec]: "MutationBlockNumber_Decode J (MutationBlockNumber_Encode J x) = Inr x"
by (cases x) (simp add: MutationBlockNumber_Encode_def MutationBlockNumber_encodeFields_def
    MutationBlockNumber_Decode_def dec_obj_def MutationBlockNumber_steps MutationBlockNumber_required_def
    MutationBlockNumber_zero_def)

lemma MutationBlockNumber_list [codec]:
  "read_arr (MutationBlockNumber_Decode J) (write_arr (MutationBlockNumber_Encode J) xs) = Inr xs"
  by (rule read_arr_write) (simp add: codec list.pred_True)

definition MutationOperation_zero :: "RestMutation" where
  "MutationOperation_zero = \<lparr>rm_NodeId = '''', rm_Shard = '''', rm_Replica = '''', rm_OperationId = '''', rm_Kind = '''',
     rm_Database = '''', rm_Table = '''', rm_MutationId = '''', rm_AttemptId = '''', rm_Command = '''',
     rm_CreateTime = zero_time, rm_IsDone = False, rm_IsKilled = False, rm_PartsToDo = '''', rm_PartsToDoNames = [],
     rm_BlockNumbers = [], rm_LatestFailedPart = OptAbsent, rm_LatestFailTime = OptAbsent,
     rm_LatestFailReason = OptAbsent, rm_Conditions = []\<rparr>"

definition MutationOperation_encodeFields ::
  "jx_env \<Rightarrow> RestMutation \<Rightarrow> (string \<times> jx) list" where
  "MutationOperation_encodeFields J s =
     field ''nodeId'' (JStr (rm_NodeId s))
     @ field ''shard'' (JStr (rm_Shard s))
     @ field ''replica'' (JStr (rm_Replica s))
     @ field ''operationId'' (JStr (rm_OperationId s))
     @ field ''kind'' (JStr ''mutation'')
     @ field ''database'' (JStr (rm_Database s))
     @ field ''table'' (JStr (rm_Table s))
     @ field ''mutationId'' (JStr (rm_MutationId s))
     @ field ''attemptId'' (JStr (rm_AttemptId s))
     @ field ''command'' (JStr (rm_Command s))
     @ field ''createTime'' (write_time J (rm_CreateTime s))
     @ field ''isDone'' (JBool (rm_IsDone s))
     @ field ''isKilled'' (JBool (rm_IsKilled s))
     @ field ''partsToDo'' (UInt64String_Encode (rm_PartsToDo s))
     @ field ''partsToDoNames'' (write_arr JStr (rm_PartsToDoNames s))
     @ field ''blockNumbers'' (write_arr (MutationBlockNumber_Encode J) (rm_BlockNumbers s))
     @ field_set ''latestFailedPart'' (OptNilString_Encode (rm_LatestFailedPart s))
     @ field_set ''latestFailTime'' (OptNilDateTime_Encode J (rm_LatestFailTime s))
     @ field_set ''latestFailReason'' (OptNilString_Encode (rm_LatestFailReason s))
     @ field ''conditions'' (write_arr (EmbeddedCondition_Encode J) (rm_Conditions s))"

definition MutationOperation_Encode :: "jx_env \<Rightarrow> RestMutation \<Rightarrow> jx" where
  "MutationOperation_Encode J s = JObj (MutationOperation_encodeFields J s)"

definition MutationOperation_decodeField2 ::
  "jx_env \<Rightarrow> string \<Rightarrow> jx \<Rightarrow> RestMutation \<times> nat set \<Rightarrow> jerr + RestMutation \<times> nat set" where
  "MutationOperation_decodeField2 J k v st = (case st of (s, b) \<Rightarrow>
     if k = ''isKilled'' then put_field k (\<lambda>x. (s\<lparr>rm_IsKilled := x\<rparr>, insert 12 b)) (read_bool J v)
     else if k = ''partsToDo'' then put_field k (\<lambda>x. (s\<lparr>rm_PartsToDo := x\<rparr>, insert 13 b)) (UInt64String_Decode J v)
     else if k = ''partsToDoNames'' then put_field k (\<lambda>x. (s\<lparr>rm_PartsToDoNames := x\<rparr>, insert 14 b)) (read_arr (read_str J) v)
     else if k = ''blockNumbers'' then put_field k (\<lambda>x. (s\<lparr>rm_BlockNumbers := x\<rparr>, insert 15 b)) (read_arr (MutationBlockNumber_Decode J) v)
     else if k = ''latestFailedPart'' then put_field k (\<lambda>x. (s\<lparr>rm_LatestFailedPart := x\<rparr>, b)) (OptNilString_Decode J v)
     else if k = ''latestFailTime'' then put_field k (\<lambda>x. (s\<lparr>rm_LatestFailTime := x\<rparr>, b)) (OptNilDateTime_Decode J v)
     else if k = ''latestFailReason'' then put_field k (\<lambda>x. (s\<lparr>rm_LatestFailReason := x\<rparr>, b)) (OptNilString_Decode J v)
     else if k = ''conditions'' then put_field k (\<lambda>x. (s\<lparr>rm_Conditions := x\<rparr>, insert 19 b)) (read_arr (EmbeddedCondition_Decode J) v)
     else Inl (JUnexpectedField k))"

definition MutationOperation_decodeField ::
  "jx_env \<Rightarrow> string \<Rightarrow> jx \<Rightarrow> RestMutation \<times> nat set \<Rightarrow> jerr + RestMutation \<times> nat set" where
  "MutationOperation_decodeField J k v st = (case st of (s, b) \<Rightarrow>
     if k = ''nodeId'' then put_field k (\<lambda>x. (s\<lparr>rm_NodeId := x\<rparr>, insert 0 b)) (read_str J v)
     else if k = ''shard'' then put_field k (\<lambda>x. (s\<lparr>rm_Shard := x\<rparr>, insert 1 b)) (read_str J v)
     else if k = ''replica'' then put_field k (\<lambda>x. (s\<lparr>rm_Replica := x\<rparr>, insert 2 b)) (read_str J v)
     else if k = ''operationId'' then put_field k (\<lambda>x. (s\<lparr>rm_OperationId := x\<rparr>, insert 3 b)) (read_str J v)
     else if k = ''kind'' then put_field k (\<lambda>x. (s\<lparr>rm_Kind := x\<rparr>, insert 4 b)) (read_str J v)
     else if k = ''database'' then put_field k (\<lambda>x. (s\<lparr>rm_Database := x\<rparr>, insert 5 b)) (read_str J v)
     else if k = ''table'' then put_field k (\<lambda>x. (s\<lparr>rm_Table := x\<rparr>, insert 6 b)) (read_str J v)
     else if k = ''mutationId'' then put_field k (\<lambda>x. (s\<lparr>rm_MutationId := x\<rparr>, insert 7 b)) (read_str J v)
     else if k = ''attemptId'' then put_field k (\<lambda>x. (s\<lparr>rm_AttemptId := x\<rparr>, insert 8 b)) (read_str J v)
     else if k = ''command'' then put_field k (\<lambda>x. (s\<lparr>rm_Command := x\<rparr>, insert 9 b)) (read_str J v)
     else if k = ''createTime'' then put_field k (\<lambda>x. (s\<lparr>rm_CreateTime := x\<rparr>, insert 10 b)) (read_time J v)
     else if k = ''isDone'' then put_field k (\<lambda>x. (s\<lparr>rm_IsDone := x\<rparr>, insert 11 b)) (read_bool J v)
     else MutationOperation_decodeField2 J k v (s, b))"

definition MutationOperation_required :: "(nat \<times> string) list" where
  "MutationOperation_required = [(0, ''nodeId''), (1, ''shard''), (2, ''replica''), (3, ''operationId''), (4, ''kind''), (5, ''database''), (6,
    ''table''), (7, ''mutationId''), (8, ''attemptId''), (9, ''command''), (10, ''createTime''), (11, ''isDone''),
    (12, ''isKilled''), (13, ''partsToDo''), (14, ''partsToDoNames''), (15, ''blockNumbers''), (19, ''conditions'')]"

definition MutationOperation_Decode :: "jx_env \<Rightarrow> jx \<Rightarrow> jerr + RestMutation" where
  "MutationOperation_Decode J =
     dec_obj ''MutationOperation'' (MutationOperation_decodeField J) MutationOperation_required MutationOperation_zero"

definition MutationOperation_ok :: "jx_env \<Rightarrow> RestMutation \<Rightarrow> bool" where
  "MutationOperation_ok J s \<longleftrightarrow> rm_Kind s = ''mutation'' \<and> time_ok J (rm_CreateTime s) \<and> pred_optnil (time_ok J) (rm_LatestFailTime s) \<and>
     list_all (EmbeddedCondition_ok J) (rm_Conditions s)"

lemma MutationOperation_steps:
  "obj_fold (MutationOperation_decodeField J) (field ''nodeId'' (JStr a0)) (s, b)
     = Inr (s\<lparr>rm_NodeId := a0\<rparr>, insert 0 b)"
  "obj_fold (MutationOperation_decodeField J) (field ''shard'' (JStr a1)) (s, b)
     = Inr (s\<lparr>rm_Shard := a1\<rparr>, insert 1 b)"
  "obj_fold (MutationOperation_decodeField J) (field ''replica'' (JStr a2)) (s, b)
     = Inr (s\<lparr>rm_Replica := a2\<rparr>, insert 2 b)"
  "obj_fold (MutationOperation_decodeField J) (field ''operationId'' (JStr a3)) (s, b)
     = Inr (s\<lparr>rm_OperationId := a3\<rparr>, insert 3 b)"
  "obj_fold (MutationOperation_decodeField J) (field ''kind'' (JStr ''mutation'')) (s, b)
     = Inr (s\<lparr>rm_Kind := ''mutation''\<rparr>, insert 4 b)"
  "obj_fold (MutationOperation_decodeField J) (field ''database'' (JStr a5)) (s, b)
     = Inr (s\<lparr>rm_Database := a5\<rparr>, insert 5 b)"
  "obj_fold (MutationOperation_decodeField J) (field ''table'' (JStr a6)) (s, b)
     = Inr (s\<lparr>rm_Table := a6\<rparr>, insert 6 b)"
  "obj_fold (MutationOperation_decodeField J) (field ''mutationId'' (JStr a7)) (s, b)
     = Inr (s\<lparr>rm_MutationId := a7\<rparr>, insert 7 b)"
  "obj_fold (MutationOperation_decodeField J) (field ''attemptId'' (JStr a8)) (s, b)
     = Inr (s\<lparr>rm_AttemptId := a8\<rparr>, insert 8 b)"
  "obj_fold (MutationOperation_decodeField J) (field ''command'' (JStr a9)) (s, b)
     = Inr (s\<lparr>rm_Command := a9\<rparr>, insert 9 b)"
  "time_ok J a10 \<Longrightarrow>
   obj_fold (MutationOperation_decodeField J) (field ''createTime'' (write_time J a10)) (s, b)
     = Inr (s\<lparr>rm_CreateTime := a10\<rparr>, insert 10 b)"
  "obj_fold (MutationOperation_decodeField J) (field ''isDone'' (JBool a11)) (s, b)
     = Inr (s\<lparr>rm_IsDone := a11\<rparr>, insert 11 b)"
  "obj_fold (MutationOperation_decodeField J) (field ''isKilled'' (JBool a12)) (s, b)
     = Inr (s\<lparr>rm_IsKilled := a12\<rparr>, insert 12 b)"
  "obj_fold (MutationOperation_decodeField J) (field ''partsToDo'' (UInt64String_Encode a13)) (s, b)
     = Inr (s\<lparr>rm_PartsToDo := a13\<rparr>, insert 13 b)"
  "obj_fold (MutationOperation_decodeField J) (field ''partsToDoNames'' (write_arr JStr a14)) (s, b)
     = Inr (s\<lparr>rm_PartsToDoNames := a14\<rparr>, insert 14 b)"
  "obj_fold (MutationOperation_decodeField J) (field ''blockNumbers'' (write_arr (MutationBlockNumber_Encode J) a15)) (s, b)
     = Inr (s\<lparr>rm_BlockNumbers := a15\<rparr>, insert 15 b)"
  "list_all (EmbeddedCondition_ok J) a19 \<Longrightarrow>
   obj_fold (MutationOperation_decodeField J) (field ''conditions'' (write_arr (EmbeddedCondition_Encode J) a19)) (s, b)
     = Inr (s\<lparr>rm_Conditions := a19\<rparr>, insert 19 b)"
by (simp_all add: obj_fold_field MutationOperation_decodeField_def MutationOperation_decodeField2_def
    MutationBlockNumber_list EmbeddedCondition_list)

lemma MutationOperation_set_steps:
  "rm_LatestFailedPart s = OptAbsent \<Longrightarrow>
   obj_fold (MutationOperation_decodeField J) (field_set ''latestFailedPart'' (OptNilString_Encode a16)) (s, b)
     = Inr (s\<lparr>rm_LatestFailedPart := a16\<rparr>, b)"
  "rm_LatestFailTime s = OptAbsent \<Longrightarrow> pred_optnil (time_ok J) a17 \<Longrightarrow>
   obj_fold (MutationOperation_decodeField J) (field_set ''latestFailTime'' (OptNilDateTime_Encode J a17)) (s, b)
     = Inr (s\<lparr>rm_LatestFailTime := a17\<rparr>, b)"
  "rm_LatestFailReason s = OptAbsent \<Longrightarrow>
   obj_fold (MutationOperation_decodeField J) (field_set ''latestFailReason'' (OptNilString_Encode a18)) (s, b)
     = Inr (s\<lparr>rm_LatestFailReason := a18\<rparr>, b)"
by (auto simp: obj_fold_set MutationOperation_decodeField_def MutationOperation_decodeField2_def set_codec
    MutationBlockNumber_list EmbeddedCondition_list split: option.split optnil.split)

lemma MutationOperation_roundtrip [codec]:
  "MutationOperation_ok J x \<Longrightarrow> MutationOperation_Decode J (MutationOperation_Encode J x) = Inr x"
by (cases x) (simp add: MutationOperation_Encode_def MutationOperation_encodeFields_def
    MutationOperation_Decode_def dec_obj_def MutationOperation_steps MutationOperation_set_steps
    MutationOperation_required_def MutationOperation_zero_def MutationOperation_ok_def)

lemma MutationOperation_list [codec]:
  "list_all (MutationOperation_ok J) xs \<Longrightarrow> read_arr (MutationOperation_Decode J) (write_arr (MutationOperation_Encode J) xs) = Inr xs"
  by (rule read_arr_write) (auto simp: codec elim!: list.pred_mono_strong)

definition MutationCounts_zero :: "MutationCounts" where
  "MutationCounts_zero = \<lparr>mc_Total = 0, mc_Unfinished = 0, mc_Failed = 0\<rparr>"

definition MutationCounts_encodeFields ::
  "jx_env \<Rightarrow> MutationCounts \<Rightarrow> (string \<times> jx) list" where
  "MutationCounts_encodeFields J s =
     field ''total'' (write_int (mc_Total s))
     @ field ''unfinished'' (write_int (mc_Unfinished s))
     @ field ''failed'' (write_int (mc_Failed s))"

definition MutationCounts_Encode :: "jx_env \<Rightarrow> MutationCounts \<Rightarrow> jx" where
  "MutationCounts_Encode J s = JObj (MutationCounts_encodeFields J s)"

definition MutationCounts_decodeField ::
  "jx_env \<Rightarrow> string \<Rightarrow> jx \<Rightarrow> MutationCounts \<times> nat set \<Rightarrow> jerr + MutationCounts \<times> nat set" where
  "MutationCounts_decodeField J k v st = (case st of (s, b) \<Rightarrow>
     if k = ''total'' then put_field k (\<lambda>x. (s\<lparr>mc_Total := x\<rparr>, insert 0 b)) (read_int J v)
     else if k = ''unfinished'' then put_field k (\<lambda>x. (s\<lparr>mc_Unfinished := x\<rparr>, insert 1 b)) (read_int J v)
     else if k = ''failed'' then put_field k (\<lambda>x. (s\<lparr>mc_Failed := x\<rparr>, insert 2 b)) (read_int J v)
     else Inl (JUnexpectedField k))"

definition MutationCounts_required :: "(nat \<times> string) list" where
  "MutationCounts_required = [(0, ''total''), (1, ''unfinished''), (2, ''failed'')]"

definition MutationCounts_Decode :: "jx_env \<Rightarrow> jx \<Rightarrow> jerr + MutationCounts" where
  "MutationCounts_Decode J =
     dec_obj ''MutationCounts'' (MutationCounts_decodeField J) MutationCounts_required MutationCounts_zero"

definition MutationCounts_ok :: "jx_env \<Rightarrow> MutationCounts \<Rightarrow> bool" where
  "MutationCounts_ok J s \<longleftrightarrow> in_i64 (mc_Total s) \<and> in_i64 (mc_Unfinished s) \<and> in_i64 (mc_Failed s)"

lemma MutationCounts_steps:
  "in_i64 a0 \<Longrightarrow>
   obj_fold (MutationCounts_decodeField J) (field ''total'' (write_int a0)) (s, b)
     = Inr (s\<lparr>mc_Total := a0\<rparr>, insert 0 b)"
  "in_i64 a1 \<Longrightarrow>
   obj_fold (MutationCounts_decodeField J) (field ''unfinished'' (write_int a1)) (s, b)
     = Inr (s\<lparr>mc_Unfinished := a1\<rparr>, insert 1 b)"
  "in_i64 a2 \<Longrightarrow>
   obj_fold (MutationCounts_decodeField J) (field ''failed'' (write_int a2)) (s, b)
     = Inr (s\<lparr>mc_Failed := a2\<rparr>, insert 2 b)"
  by (simp_all add: obj_fold_field MutationCounts_decodeField_def)

lemma MutationCounts_roundtrip [codec]:
  "MutationCounts_ok J x \<Longrightarrow> MutationCounts_Decode J (MutationCounts_Encode J x) = Inr x"
by (cases x) (simp add: MutationCounts_Encode_def MutationCounts_encodeFields_def MutationCounts_Decode_def
    dec_obj_def MutationCounts_steps MutationCounts_required_def MutationCounts_zero_def MutationCounts_ok_def)

lemma MutationCounts_list [codec]:
  "list_all (MutationCounts_ok J) xs \<Longrightarrow> read_arr (MutationCounts_Decode J) (write_arr (MutationCounts_Encode J) xs) = Inr xs"
  by (rule read_arr_write) (auto simp: codec elim!: list.pred_mono_strong)

definition MutationsResponse_zero :: "(RestMutation, MutationCounts) counted" where
  "MutationsResponse_zero = \<lparr>ct_Collection = CollectionMeta_zero, ct_Items = [], ct_Counts = MutationCounts_zero\<rparr>"

definition MutationsResponse_encodeFields ::
  "jx_env \<Rightarrow> ((RestMutation, MutationCounts) counted) \<Rightarrow> (string \<times> jx) list" where
  "MutationsResponse_encodeFields J s =
     field ''collection'' (CollectionMeta_Encode J (ct_Collection s))
     @ field ''items'' (write_arr (MutationOperation_Encode J) (ct_Items s))
     @ field ''counts'' (MutationCounts_Encode J (ct_Counts s))"

definition MutationsResponse_Encode ::
  "jx_env \<Rightarrow> ((RestMutation, MutationCounts) counted) \<Rightarrow> jx" where
  "MutationsResponse_Encode J s = JObj (MutationsResponse_encodeFields J s)"

definition MutationsResponse_decodeField ::
  "jx_env \<Rightarrow> string \<Rightarrow> jx \<Rightarrow> ((RestMutation, MutationCounts) counted) \<times> nat set \<Rightarrow> jerr + ((RestMutation, MutationCounts) counted) \<times> nat set" where
  "MutationsResponse_decodeField J k v st = (case st of (s, b) \<Rightarrow>
     if k = ''collection'' then put_field k (\<lambda>x. (s\<lparr>ct_Collection := x\<rparr>, insert 0 b)) (CollectionMeta_Decode J v)
     else if k = ''items'' then put_field k (\<lambda>x. (s\<lparr>ct_Items := x\<rparr>, insert 1 b)) (read_arr (MutationOperation_Decode J) v)
     else if k = ''counts'' then put_field k (\<lambda>x. (s\<lparr>ct_Counts := x\<rparr>, insert 2 b)) (MutationCounts_Decode J v)
     else Inl (JUnexpectedField k))"

definition MutationsResponse_required :: "(nat \<times> string) list" where
  "MutationsResponse_required = [(0, ''collection''), (1, ''items''), (2, ''counts'')]"

definition MutationsResponse_Decode ::
  "jx_env \<Rightarrow> jx \<Rightarrow> jerr + ((RestMutation, MutationCounts) counted)" where
  "MutationsResponse_Decode J =
     dec_obj ''MutationsResponse'' (MutationsResponse_decodeField J) MutationsResponse_required MutationsResponse_zero"

definition MutationsResponse_ok ::
  "jx_env \<Rightarrow> ((RestMutation, MutationCounts) counted) \<Rightarrow> bool" where
  "MutationsResponse_ok J s \<longleftrightarrow> CollectionMeta_ok J (ct_Collection s) \<and> list_all (MutationOperation_ok J) (ct_Items s) \<and>
     MutationCounts_ok J (ct_Counts s)"

lemma MutationsResponse_steps:
  "CollectionMeta_ok J a0 \<Longrightarrow>
   obj_fold (MutationsResponse_decodeField J) (field ''collection'' (CollectionMeta_Encode J a0)) (s, b)
     = Inr (s\<lparr>ct_Collection := a0\<rparr>, insert 0 b)"
  "list_all (MutationOperation_ok J) a1 \<Longrightarrow>
   obj_fold (MutationsResponse_decodeField J) (field ''items'' (write_arr (MutationOperation_Encode J) a1)) (s, b)
     = Inr (s\<lparr>ct_Items := a1\<rparr>, insert 1 b)"
  "MutationCounts_ok J a2 \<Longrightarrow>
   obj_fold (MutationsResponse_decodeField J) (field ''counts'' (MutationCounts_Encode J a2)) (s, b)
     = Inr (s\<lparr>ct_Counts := a2\<rparr>, insert 2 b)"
by (simp_all add: obj_fold_field MutationsResponse_decodeField_def CollectionMeta_roundtrip
    MutationOperation_list MutationCounts_roundtrip)

lemma MutationsResponse_roundtrip [codec]:
  "MutationsResponse_ok J x \<Longrightarrow> MutationsResponse_Decode J (MutationsResponse_Encode J x) = Inr x"
by (cases x) (simp add: MutationsResponse_Encode_def MutationsResponse_encodeFields_def
    MutationsResponse_Decode_def dec_obj_def MutationsResponse_steps MutationsResponse_required_def
    MutationsResponse_zero_def MutationsResponse_ok_def)

lemma MutationsResponse_list [codec]:
  "list_all (MutationsResponse_ok J) xs \<Longrightarrow> read_arr (MutationsResponse_Decode J) (write_arr (MutationsResponse_Encode J) xs) = Inr xs"
  by (rule read_arr_write) (auto simp: codec elim!: list.pred_mono_strong)

definition ReplicationQueueOperation_zero :: "RestQueueItem" where
  "ReplicationQueueOperation_zero = \<lparr>rqi_NodeId = '''', rqi_Shard = '''', rqi_Replica = '''', rqi_OperationId = '''', rqi_Kind = '''',
     rqi_Database = '''', rqi_Table = '''', rqi_ReplicaName = '''', rqi_Position = '''', rqi_NodeName = '''',
     rqi_AttemptId = '''', rqi_Type = '''', rqi_CreateTime = zero_time, rqi_RequiredQuorum = None,
     rqi_SourceReplica = OptAbsent, rqi_NewPartName = OptAbsent, rqi_PartsToMerge = None, rqi_IsDetach = None,
     rqi_IsCurrentlyExecuting = False, rqi_NumTries = '''', rqi_LastAttemptTime = OptAbsent,
     rqi_LastPostponeTime = OptAbsent, rqi_NumPostponed = None, rqi_PostponeReason = OptAbsent,
     rqi_LastException = OptAbsent, rqi_Conditions = []\<rparr>"

definition ReplicationQueueOperation_encodeFields ::
  "jx_env \<Rightarrow> RestQueueItem \<Rightarrow> (string \<times> jx) list" where
  "ReplicationQueueOperation_encodeFields J s =
     field ''nodeId'' (JStr (rqi_NodeId s))
     @ field ''shard'' (JStr (rqi_Shard s))
     @ field ''replica'' (JStr (rqi_Replica s))
     @ field ''operationId'' (JStr (rqi_OperationId s))
     @ field ''kind'' (JStr ''replication_queue'')
     @ field ''database'' (JStr (rqi_Database s))
     @ field ''table'' (JStr (rqi_Table s))
     @ field ''replicaName'' (JStr (rqi_ReplicaName s))
     @ field ''position'' (UInt64String_Encode (rqi_Position s))
     @ field ''nodeName'' (JStr (rqi_NodeName s))
     @ field ''attemptId'' (JStr (rqi_AttemptId s))
     @ field ''type'' (JStr (rqi_Type s))
     @ field ''createTime'' (write_time J (rqi_CreateTime s))
     @ field_set ''requiredQuorum'' (OptUInt64String_Encode (rqi_RequiredQuorum s))
     @ field_set ''sourceReplica'' (OptNilString_Encode (rqi_SourceReplica s))
     @ field_set ''newPartName'' (OptNilString_Encode (rqi_NewPartName s))
     @ field_set ''partsToMerge'' (map_option (write_arr JStr) (rqi_PartsToMerge s))
     @ field_set ''isDetach'' (OptBool_Encode (rqi_IsDetach s))
     @ field ''isCurrentlyExecuting'' (JBool (rqi_IsCurrentlyExecuting s))
     @ field ''numTries'' (UInt64String_Encode (rqi_NumTries s))
     @ field_set ''lastAttemptTime'' (OptNilDateTime_Encode J (rqi_LastAttemptTime s))
     @ field_set ''lastPostponeTime'' (OptNilDateTime_Encode J (rqi_LastPostponeTime s))
     @ field_set ''numPostponed'' (OptUInt64String_Encode (rqi_NumPostponed s))
     @ field_set ''postponeReason'' (OptNilString_Encode (rqi_PostponeReason s))
     @ field_set ''lastException'' (OptNilString_Encode (rqi_LastException s))
     @ field ''conditions'' (write_arr (EmbeddedCondition_Encode J) (rqi_Conditions s))"

definition ReplicationQueueOperation_Encode :: "jx_env \<Rightarrow> RestQueueItem \<Rightarrow> jx" where
  "ReplicationQueueOperation_Encode J s = JObj (ReplicationQueueOperation_encodeFields J s)"

definition ReplicationQueueOperation_decodeField3 ::
  "jx_env \<Rightarrow> string \<Rightarrow> jx \<Rightarrow> RestQueueItem \<times> nat set \<Rightarrow> jerr + RestQueueItem \<times> nat set" where
  "ReplicationQueueOperation_decodeField3 J k v st = (case st of (s, b) \<Rightarrow>
     if k = ''conditions'' then put_field k (\<lambda>x. (s\<lparr>rqi_Conditions := x\<rparr>, insert 25 b)) (read_arr (EmbeddedCondition_Decode J) v)
     else Inl (JUnexpectedField k))"

definition ReplicationQueueOperation_decodeField2 ::
  "jx_env \<Rightarrow> string \<Rightarrow> jx \<Rightarrow> RestQueueItem \<times> nat set \<Rightarrow> jerr + RestQueueItem \<times> nat set" where
  "ReplicationQueueOperation_decodeField2 J k v st = (case st of (s, b) \<Rightarrow>
     if k = ''createTime'' then put_field k (\<lambda>x. (s\<lparr>rqi_CreateTime := x\<rparr>, insert 12 b)) (read_time J v)
     else if k = ''requiredQuorum'' then put_field k (\<lambda>x. (s\<lparr>rqi_RequiredQuorum := x\<rparr>, b)) (OptUInt64String_Decode J v)
     else if k = ''sourceReplica'' then put_field k (\<lambda>x. (s\<lparr>rqi_SourceReplica := x\<rparr>, b)) (OptNilString_Decode J v)
     else if k = ''newPartName'' then put_field k (\<lambda>x. (s\<lparr>rqi_NewPartName := x\<rparr>, b)) (OptNilString_Decode J v)
     else if k = ''partsToMerge'' then put_field k (\<lambda>x. (s\<lparr>rqi_PartsToMerge := Some x\<rparr>, b)) (read_arr (read_str J) v)
     else if k = ''isDetach'' then put_field k (\<lambda>x. (s\<lparr>rqi_IsDetach := x\<rparr>, b)) (OptBool_Decode J v)
     else if k = ''isCurrentlyExecuting'' then put_field k (\<lambda>x. (s\<lparr>rqi_IsCurrentlyExecuting := x\<rparr>, insert 18 b)) (read_bool J v)
     else if k = ''numTries'' then put_field k (\<lambda>x. (s\<lparr>rqi_NumTries := x\<rparr>, insert 19 b)) (UInt64String_Decode J v)
     else if k = ''lastAttemptTime'' then put_field k (\<lambda>x. (s\<lparr>rqi_LastAttemptTime := x\<rparr>, b)) (OptNilDateTime_Decode J v)
     else if k = ''lastPostponeTime'' then put_field k (\<lambda>x. (s\<lparr>rqi_LastPostponeTime := x\<rparr>, b)) (OptNilDateTime_Decode J v)
     else if k = ''numPostponed'' then put_field k (\<lambda>x. (s\<lparr>rqi_NumPostponed := x\<rparr>, b)) (OptUInt64String_Decode J v)
     else if k = ''postponeReason'' then put_field k (\<lambda>x. (s\<lparr>rqi_PostponeReason := x\<rparr>, b)) (OptNilString_Decode J v)
     else if k = ''lastException'' then put_field k (\<lambda>x. (s\<lparr>rqi_LastException := x\<rparr>, b)) (OptNilString_Decode J v)
     else ReplicationQueueOperation_decodeField3 J k v (s, b))"

definition ReplicationQueueOperation_decodeField ::
  "jx_env \<Rightarrow> string \<Rightarrow> jx \<Rightarrow> RestQueueItem \<times> nat set \<Rightarrow> jerr + RestQueueItem \<times> nat set" where
  "ReplicationQueueOperation_decodeField J k v st = (case st of (s, b) \<Rightarrow>
     if k = ''nodeId'' then put_field k (\<lambda>x. (s\<lparr>rqi_NodeId := x\<rparr>, insert 0 b)) (read_str J v)
     else if k = ''shard'' then put_field k (\<lambda>x. (s\<lparr>rqi_Shard := x\<rparr>, insert 1 b)) (read_str J v)
     else if k = ''replica'' then put_field k (\<lambda>x. (s\<lparr>rqi_Replica := x\<rparr>, insert 2 b)) (read_str J v)
     else if k = ''operationId'' then put_field k (\<lambda>x. (s\<lparr>rqi_OperationId := x\<rparr>, insert 3 b)) (read_str J v)
     else if k = ''kind'' then put_field k (\<lambda>x. (s\<lparr>rqi_Kind := x\<rparr>, insert 4 b)) (read_str J v)
     else if k = ''database'' then put_field k (\<lambda>x. (s\<lparr>rqi_Database := x\<rparr>, insert 5 b)) (read_str J v)
     else if k = ''table'' then put_field k (\<lambda>x. (s\<lparr>rqi_Table := x\<rparr>, insert 6 b)) (read_str J v)
     else if k = ''replicaName'' then put_field k (\<lambda>x. (s\<lparr>rqi_ReplicaName := x\<rparr>, insert 7 b)) (read_str J v)
     else if k = ''position'' then put_field k (\<lambda>x. (s\<lparr>rqi_Position := x\<rparr>, insert 8 b)) (UInt64String_Decode J v)
     else if k = ''nodeName'' then put_field k (\<lambda>x. (s\<lparr>rqi_NodeName := x\<rparr>, insert 9 b)) (read_str J v)
     else if k = ''attemptId'' then put_field k (\<lambda>x. (s\<lparr>rqi_AttemptId := x\<rparr>, insert 10 b)) (read_str J v)
     else if k = ''type'' then put_field k (\<lambda>x. (s\<lparr>rqi_Type := x\<rparr>, insert 11 b)) (read_str J v)
     else ReplicationQueueOperation_decodeField2 J k v (s, b))"

definition ReplicationQueueOperation_required :: "(nat \<times> string) list" where
  "ReplicationQueueOperation_required = [(0, ''nodeId''), (1, ''shard''), (2, ''replica''), (3, ''operationId''), (4, ''kind''), (5, ''database''), (6,
    ''table''), (7, ''replicaName''), (8, ''position''), (9, ''nodeName''), (10, ''attemptId''), (11, ''type''), (12,
    ''createTime''), (18, ''isCurrentlyExecuting''), (19, ''numTries''), (25, ''conditions'')]"

definition ReplicationQueueOperation_Decode :: "jx_env \<Rightarrow> jx \<Rightarrow> jerr + RestQueueItem" where
  "ReplicationQueueOperation_Decode J =
     dec_obj ''ReplicationQueueOperation'' (ReplicationQueueOperation_decodeField J) ReplicationQueueOperation_required ReplicationQueueOperation_zero"

definition ReplicationQueueOperation_ok :: "jx_env \<Rightarrow> RestQueueItem \<Rightarrow> bool" where
  "ReplicationQueueOperation_ok J s \<longleftrightarrow> rqi_Kind s = ''replication_queue'' \<and> time_ok J (rqi_CreateTime s) \<and>
     pred_optnil (time_ok J) (rqi_LastAttemptTime s) \<and> pred_optnil (time_ok J) (rqi_LastPostponeTime s) \<and>
     list_all (EmbeddedCondition_ok J) (rqi_Conditions s)"

lemma ReplicationQueueOperation_steps:
  "obj_fold (ReplicationQueueOperation_decodeField J) (field ''nodeId'' (JStr a0)) (s, b)
     = Inr (s\<lparr>rqi_NodeId := a0\<rparr>, insert 0 b)"
  "obj_fold (ReplicationQueueOperation_decodeField J) (field ''shard'' (JStr a1)) (s, b)
     = Inr (s\<lparr>rqi_Shard := a1\<rparr>, insert 1 b)"
  "obj_fold (ReplicationQueueOperation_decodeField J) (field ''replica'' (JStr a2)) (s, b)
     = Inr (s\<lparr>rqi_Replica := a2\<rparr>, insert 2 b)"
  "obj_fold (ReplicationQueueOperation_decodeField J) (field ''operationId'' (JStr a3)) (s, b)
     = Inr (s\<lparr>rqi_OperationId := a3\<rparr>, insert 3 b)"
  "obj_fold (ReplicationQueueOperation_decodeField J) (field ''kind'' (JStr ''replication_queue'')) (s, b)
     = Inr (s\<lparr>rqi_Kind := ''replication_queue''\<rparr>, insert 4 b)"
  "obj_fold (ReplicationQueueOperation_decodeField J) (field ''database'' (JStr a5)) (s, b)
     = Inr (s\<lparr>rqi_Database := a5\<rparr>, insert 5 b)"
  "obj_fold (ReplicationQueueOperation_decodeField J) (field ''table'' (JStr a6)) (s, b)
     = Inr (s\<lparr>rqi_Table := a6\<rparr>, insert 6 b)"
  "obj_fold (ReplicationQueueOperation_decodeField J) (field ''replicaName'' (JStr a7)) (s, b)
     = Inr (s\<lparr>rqi_ReplicaName := a7\<rparr>, insert 7 b)"
  "obj_fold (ReplicationQueueOperation_decodeField J) (field ''position'' (UInt64String_Encode a8)) (s, b)
     = Inr (s\<lparr>rqi_Position := a8\<rparr>, insert 8 b)"
  "obj_fold (ReplicationQueueOperation_decodeField J) (field ''nodeName'' (JStr a9)) (s, b)
     = Inr (s\<lparr>rqi_NodeName := a9\<rparr>, insert 9 b)"
  "obj_fold (ReplicationQueueOperation_decodeField J) (field ''attemptId'' (JStr a10)) (s, b)
     = Inr (s\<lparr>rqi_AttemptId := a10\<rparr>, insert 10 b)"
  "obj_fold (ReplicationQueueOperation_decodeField J) (field ''type'' (JStr a11)) (s, b)
     = Inr (s\<lparr>rqi_Type := a11\<rparr>, insert 11 b)"
  "time_ok J a12 \<Longrightarrow>
   obj_fold (ReplicationQueueOperation_decodeField J) (field ''createTime'' (write_time J a12)) (s, b)
     = Inr (s\<lparr>rqi_CreateTime := a12\<rparr>, insert 12 b)"
  "obj_fold (ReplicationQueueOperation_decodeField J) (field ''isCurrentlyExecuting'' (JBool a18)) (s, b)
     = Inr (s\<lparr>rqi_IsCurrentlyExecuting := a18\<rparr>, insert 18 b)"
  "obj_fold (ReplicationQueueOperation_decodeField J) (field ''numTries'' (UInt64String_Encode a19)) (s, b)
     = Inr (s\<lparr>rqi_NumTries := a19\<rparr>, insert 19 b)"
  "list_all (EmbeddedCondition_ok J) a25 \<Longrightarrow>
   obj_fold (ReplicationQueueOperation_decodeField J) (field ''conditions'' (write_arr (EmbeddedCondition_Encode J) a25)) (s, b)
     = Inr (s\<lparr>rqi_Conditions := a25\<rparr>, insert 25 b)"
by (simp_all add: obj_fold_field ReplicationQueueOperation_decodeField_def
    ReplicationQueueOperation_decodeField2_def ReplicationQueueOperation_decodeField3_def
    EmbeddedCondition_list)

lemma ReplicationQueueOperation_set_steps:
  "rqi_RequiredQuorum s = None \<Longrightarrow>
   obj_fold (ReplicationQueueOperation_decodeField J) (field_set ''requiredQuorum'' (OptUInt64String_Encode a13)) (s, b)
     = Inr (s\<lparr>rqi_RequiredQuorum := a13\<rparr>, b)"
  "rqi_SourceReplica s = OptAbsent \<Longrightarrow>
   obj_fold (ReplicationQueueOperation_decodeField J) (field_set ''sourceReplica'' (OptNilString_Encode a14)) (s, b)
     = Inr (s\<lparr>rqi_SourceReplica := a14\<rparr>, b)"
  "rqi_NewPartName s = OptAbsent \<Longrightarrow>
   obj_fold (ReplicationQueueOperation_decodeField J) (field_set ''newPartName'' (OptNilString_Encode a15)) (s, b)
     = Inr (s\<lparr>rqi_NewPartName := a15\<rparr>, b)"
  "rqi_PartsToMerge s = None \<Longrightarrow>
   obj_fold (ReplicationQueueOperation_decodeField J) (field_set ''partsToMerge'' (map_option (write_arr JStr) a16)) (s, b)
     = Inr (s\<lparr>rqi_PartsToMerge := a16\<rparr>, b)"
  "rqi_IsDetach s = None \<Longrightarrow>
   obj_fold (ReplicationQueueOperation_decodeField J) (field_set ''isDetach'' (OptBool_Encode a17)) (s, b)
     = Inr (s\<lparr>rqi_IsDetach := a17\<rparr>, b)"
  "rqi_LastAttemptTime s = OptAbsent \<Longrightarrow> pred_optnil (time_ok J) a20 \<Longrightarrow>
   obj_fold (ReplicationQueueOperation_decodeField J) (field_set ''lastAttemptTime'' (OptNilDateTime_Encode J a20)) (s, b)
     = Inr (s\<lparr>rqi_LastAttemptTime := a20\<rparr>, b)"
  "rqi_LastPostponeTime s = OptAbsent \<Longrightarrow> pred_optnil (time_ok J) a21 \<Longrightarrow>
   obj_fold (ReplicationQueueOperation_decodeField J) (field_set ''lastPostponeTime'' (OptNilDateTime_Encode J a21)) (s, b)
     = Inr (s\<lparr>rqi_LastPostponeTime := a21\<rparr>, b)"
  "rqi_NumPostponed s = None \<Longrightarrow>
   obj_fold (ReplicationQueueOperation_decodeField J) (field_set ''numPostponed'' (OptUInt64String_Encode a22)) (s, b)
     = Inr (s\<lparr>rqi_NumPostponed := a22\<rparr>, b)"
  "rqi_PostponeReason s = OptAbsent \<Longrightarrow>
   obj_fold (ReplicationQueueOperation_decodeField J) (field_set ''postponeReason'' (OptNilString_Encode a23)) (s, b)
     = Inr (s\<lparr>rqi_PostponeReason := a23\<rparr>, b)"
  "rqi_LastException s = OptAbsent \<Longrightarrow>
   obj_fold (ReplicationQueueOperation_decodeField J) (field_set ''lastException'' (OptNilString_Encode a24)) (s, b)
     = Inr (s\<lparr>rqi_LastException := a24\<rparr>, b)"
by (auto simp: obj_fold_set ReplicationQueueOperation_decodeField_def ReplicationQueueOperation_decodeField2_def
    ReplicationQueueOperation_decodeField3_def set_codec EmbeddedCondition_list split: option.split
    optnil.split)

lemma ReplicationQueueOperation_roundtrip [codec]:
  "ReplicationQueueOperation_ok J x \<Longrightarrow> ReplicationQueueOperation_Decode J (ReplicationQueueOperation_Encode J x) = Inr x"
by (cases x) (simp add: ReplicationQueueOperation_Encode_def ReplicationQueueOperation_encodeFields_def
    ReplicationQueueOperation_Decode_def dec_obj_def ReplicationQueueOperation_steps
    ReplicationQueueOperation_set_steps ReplicationQueueOperation_required_def
    ReplicationQueueOperation_zero_def ReplicationQueueOperation_ok_def)

lemma ReplicationQueueOperation_list [codec]:
  "list_all (ReplicationQueueOperation_ok J) xs \<Longrightarrow> read_arr (ReplicationQueueOperation_Decode J) (write_arr (ReplicationQueueOperation_Encode J) xs) = Inr xs"
  by (rule read_arr_write) (auto simp: codec elim!: list.pred_mono_strong)

definition ReplicationQueueCounts_zero :: "ReplicationQueueCounts" where
  "ReplicationQueueCounts_zero = \<lparr>rqc_Total = 0, rqc_CurrentlyExecuting = 0, rqc_WithException = 0, rqc_ByType = []\<rparr>"

definition ReplicationQueueCounts_encodeFields ::
  "jx_env \<Rightarrow> ReplicationQueueCounts \<Rightarrow> (string \<times> jx) list" where
  "ReplicationQueueCounts_encodeFields J s =
     field ''total'' (write_int (rqc_Total s))
     @ field ''currentlyExecuting'' (write_int (rqc_CurrentlyExecuting s))
     @ field ''withException'' (write_int (rqc_WithException s))
     @ field ''byType'' (OpenCountMap_Encode (rqc_ByType s))"

definition ReplicationQueueCounts_Encode :: "jx_env \<Rightarrow> ReplicationQueueCounts \<Rightarrow> jx" where
  "ReplicationQueueCounts_Encode J s = JObj (ReplicationQueueCounts_encodeFields J s)"

definition ReplicationQueueCounts_decodeField ::
  "jx_env \<Rightarrow> string \<Rightarrow> jx \<Rightarrow> ReplicationQueueCounts \<times> nat set \<Rightarrow> jerr + ReplicationQueueCounts \<times> nat set" where
  "ReplicationQueueCounts_decodeField J k v st = (case st of (s, b) \<Rightarrow>
     if k = ''total'' then put_field k (\<lambda>x. (s\<lparr>rqc_Total := x\<rparr>, insert 0 b)) (read_int J v)
     else if k = ''currentlyExecuting'' then put_field k (\<lambda>x. (s\<lparr>rqc_CurrentlyExecuting := x\<rparr>, insert 1 b)) (read_int J v)
     else if k = ''withException'' then put_field k (\<lambda>x. (s\<lparr>rqc_WithException := x\<rparr>, insert 2 b)) (read_int J v)
     else if k = ''byType'' then put_field k (\<lambda>x. (s\<lparr>rqc_ByType := x\<rparr>, insert 3 b)) (OpenCountMap_Decode J v)
     else Inl (JUnexpectedField k))"

definition ReplicationQueueCounts_required :: "(nat \<times> string) list" where
  "ReplicationQueueCounts_required = [(0, ''total''), (1, ''currentlyExecuting''), (2, ''withException''), (3, ''byType'')]"

definition ReplicationQueueCounts_Decode ::
  "jx_env \<Rightarrow> jx \<Rightarrow> jerr + ReplicationQueueCounts" where
  "ReplicationQueueCounts_Decode J =
     dec_obj ''ReplicationQueueCounts'' (ReplicationQueueCounts_decodeField J) ReplicationQueueCounts_required ReplicationQueueCounts_zero"

definition ReplicationQueueCounts_ok :: "jx_env \<Rightarrow> ReplicationQueueCounts \<Rightarrow> bool" where
  "ReplicationQueueCounts_ok J s \<longleftrightarrow> in_i64 (rqc_Total s) \<and> in_i64 (rqc_CurrentlyExecuting s) \<and> in_i64 (rqc_WithException s) \<and>
     OpenCountMap_ok (rqc_ByType s)"

lemma ReplicationQueueCounts_steps:
  "in_i64 a0 \<Longrightarrow>
   obj_fold (ReplicationQueueCounts_decodeField J) (field ''total'' (write_int a0)) (s, b)
     = Inr (s\<lparr>rqc_Total := a0\<rparr>, insert 0 b)"
  "in_i64 a1 \<Longrightarrow>
   obj_fold (ReplicationQueueCounts_decodeField J) (field ''currentlyExecuting'' (write_int a1)) (s, b)
     = Inr (s\<lparr>rqc_CurrentlyExecuting := a1\<rparr>, insert 1 b)"
  "in_i64 a2 \<Longrightarrow>
   obj_fold (ReplicationQueueCounts_decodeField J) (field ''withException'' (write_int a2)) (s, b)
     = Inr (s\<lparr>rqc_WithException := a2\<rparr>, insert 2 b)"
  "OpenCountMap_ok a3 \<Longrightarrow>
   obj_fold (ReplicationQueueCounts_decodeField J) (field ''byType'' (OpenCountMap_Encode a3)) (s, b)
     = Inr (s\<lparr>rqc_ByType := a3\<rparr>, insert 3 b)"
  by (simp_all add: obj_fold_field ReplicationQueueCounts_decodeField_def)

lemma ReplicationQueueCounts_roundtrip [codec]:
  "ReplicationQueueCounts_ok J x \<Longrightarrow> ReplicationQueueCounts_Decode J (ReplicationQueueCounts_Encode J x) = Inr x"
by (cases x) (simp add: ReplicationQueueCounts_Encode_def ReplicationQueueCounts_encodeFields_def
    ReplicationQueueCounts_Decode_def dec_obj_def ReplicationQueueCounts_steps
    ReplicationQueueCounts_required_def ReplicationQueueCounts_zero_def ReplicationQueueCounts_ok_def)

lemma ReplicationQueueCounts_list [codec]:
  "list_all (ReplicationQueueCounts_ok J) xs \<Longrightarrow> read_arr (ReplicationQueueCounts_Decode J) (write_arr (ReplicationQueueCounts_Encode J) xs) = Inr xs"
  by (rule read_arr_write) (auto simp: codec elim!: list.pred_mono_strong)

definition ReplicationQueueResponse_zero :: "(RestQueueItem, ReplicationQueueCounts) counted" where
  "ReplicationQueueResponse_zero = \<lparr>ct_Collection = CollectionMeta_zero, ct_Items = [], ct_Counts = ReplicationQueueCounts_zero\<rparr>"

definition ReplicationQueueResponse_encodeFields ::
  "jx_env \<Rightarrow> ((RestQueueItem, ReplicationQueueCounts) counted) \<Rightarrow> (string \<times> jx) list" where
  "ReplicationQueueResponse_encodeFields J s =
     field ''collection'' (CollectionMeta_Encode J (ct_Collection s))
     @ field ''items'' (write_arr (ReplicationQueueOperation_Encode J) (ct_Items s))
     @ field ''counts'' (ReplicationQueueCounts_Encode J (ct_Counts s))"

definition ReplicationQueueResponse_Encode ::
  "jx_env \<Rightarrow> ((RestQueueItem, ReplicationQueueCounts) counted) \<Rightarrow> jx" where
  "ReplicationQueueResponse_Encode J s = JObj (ReplicationQueueResponse_encodeFields J s)"

definition ReplicationQueueResponse_decodeField ::
  "jx_env \<Rightarrow> string \<Rightarrow> jx \<Rightarrow> ((RestQueueItem, ReplicationQueueCounts) counted) \<times> nat set \<Rightarrow> jerr + ((RestQueueItem, ReplicationQueueCounts) counted) \<times> nat set" where
  "ReplicationQueueResponse_decodeField J k v st = (case st of (s, b) \<Rightarrow>
     if k = ''collection'' then put_field k (\<lambda>x. (s\<lparr>ct_Collection := x\<rparr>, insert 0 b)) (CollectionMeta_Decode J v)
     else if k = ''items'' then put_field k (\<lambda>x. (s\<lparr>ct_Items := x\<rparr>, insert 1 b)) (read_arr (ReplicationQueueOperation_Decode J) v)
     else if k = ''counts'' then put_field k (\<lambda>x. (s\<lparr>ct_Counts := x\<rparr>, insert 2 b)) (ReplicationQueueCounts_Decode J v)
     else Inl (JUnexpectedField k))"

definition ReplicationQueueResponse_required :: "(nat \<times> string) list" where
  "ReplicationQueueResponse_required = [(0, ''collection''), (1, ''items''), (2, ''counts'')]"

definition ReplicationQueueResponse_Decode ::
  "jx_env \<Rightarrow> jx \<Rightarrow> jerr + ((RestQueueItem, ReplicationQueueCounts) counted)" where
  "ReplicationQueueResponse_Decode J =
     dec_obj ''ReplicationQueueResponse'' (ReplicationQueueResponse_decodeField J) ReplicationQueueResponse_required ReplicationQueueResponse_zero"

definition ReplicationQueueResponse_ok ::
  "jx_env \<Rightarrow> ((RestQueueItem, ReplicationQueueCounts) counted) \<Rightarrow> bool" where
  "ReplicationQueueResponse_ok J s \<longleftrightarrow> CollectionMeta_ok J (ct_Collection s) \<and> list_all (ReplicationQueueOperation_ok J) (ct_Items s) \<and>
     ReplicationQueueCounts_ok J (ct_Counts s)"

lemma ReplicationQueueResponse_steps:
  "CollectionMeta_ok J a0 \<Longrightarrow>
   obj_fold (ReplicationQueueResponse_decodeField J) (field ''collection'' (CollectionMeta_Encode J a0)) (s, b)
     = Inr (s\<lparr>ct_Collection := a0\<rparr>, insert 0 b)"
  "list_all (ReplicationQueueOperation_ok J) a1 \<Longrightarrow>
   obj_fold (ReplicationQueueResponse_decodeField J) (field ''items'' (write_arr (ReplicationQueueOperation_Encode J) a1)) (s, b)
     = Inr (s\<lparr>ct_Items := a1\<rparr>, insert 1 b)"
  "ReplicationQueueCounts_ok J a2 \<Longrightarrow>
   obj_fold (ReplicationQueueResponse_decodeField J) (field ''counts'' (ReplicationQueueCounts_Encode J a2)) (s, b)
     = Inr (s\<lparr>ct_Counts := a2\<rparr>, insert 2 b)"
by (simp_all add: obj_fold_field ReplicationQueueResponse_decodeField_def CollectionMeta_roundtrip
    ReplicationQueueOperation_list ReplicationQueueCounts_roundtrip)

lemma ReplicationQueueResponse_roundtrip [codec]:
  "ReplicationQueueResponse_ok J x \<Longrightarrow> ReplicationQueueResponse_Decode J (ReplicationQueueResponse_Encode J x) = Inr x"
by (cases x) (simp add: ReplicationQueueResponse_Encode_def ReplicationQueueResponse_encodeFields_def
    ReplicationQueueResponse_Decode_def dec_obj_def ReplicationQueueResponse_steps
    ReplicationQueueResponse_required_def ReplicationQueueResponse_zero_def ReplicationQueueResponse_ok_def)

lemma ReplicationQueueResponse_list [codec]:
  "list_all (ReplicationQueueResponse_ok J) xs \<Longrightarrow> read_arr (ReplicationQueueResponse_Decode J) (write_arr (ReplicationQueueResponse_Encode J) xs) = Inr xs"
  by (rule read_arr_write) (auto simp: codec elim!: list.pred_mono_strong)

definition PartEvent_zero :: "RestPartEvent" where
  "PartEvent_zero = \<lparr>rpe_NodeId = '''', rpe_Shard = '''', rpe_Replica = '''', rpe_EventId = '''', rpe_Database = '''',
     rpe_Table = '''', rpe_PartitionId = '''', rpe_PartName = '''', rpe_EventType = '''', rpe_EventTime = zero_time,
     rpe_DurationMs = '''', rpe_Rows = '''', rpe_BytesCompressed = '''', rpe_BytesUncompressed = '''',
     rpe_ReadRows = None, rpe_ReadBytes = None, rpe_MergedFrom = None, rpe_SourceDisk = OptAbsent,
     rpe_TargetDisk = OptAbsent, rpe_Error = '''', rpe_Exception = OptAbsent\<rparr>"

definition PartEvent_encodeFields ::
  "jx_env \<Rightarrow> RestPartEvent \<Rightarrow> (string \<times> jx) list" where
  "PartEvent_encodeFields J s =
     field ''nodeId'' (JStr (rpe_NodeId s))
     @ field ''shard'' (JStr (rpe_Shard s))
     @ field ''replica'' (JStr (rpe_Replica s))
     @ field ''eventId'' (JStr (rpe_EventId s))
     @ field ''database'' (JStr (rpe_Database s))
     @ field ''table'' (JStr (rpe_Table s))
     @ field ''partitionId'' (JStr (rpe_PartitionId s))
     @ field ''partName'' (JStr (rpe_PartName s))
     @ field ''eventType'' (JStr (rpe_EventType s))
     @ field ''eventTime'' (write_time J (rpe_EventTime s))
     @ field ''durationMs'' (UInt64String_Encode (rpe_DurationMs s))
     @ field ''rows'' (UInt64String_Encode (rpe_Rows s))
     @ field ''bytesCompressed'' (UInt64String_Encode (rpe_BytesCompressed s))
     @ field ''bytesUncompressed'' (UInt64String_Encode (rpe_BytesUncompressed s))
     @ field_set ''readRows'' (OptUInt64String_Encode (rpe_ReadRows s))
     @ field_set ''readBytes'' (OptUInt64String_Encode (rpe_ReadBytes s))
     @ field_set ''mergedFrom'' (map_option (write_arr JStr) (rpe_MergedFrom s))
     @ field_set ''sourceDisk'' (OptNilString_Encode (rpe_SourceDisk s))
     @ field_set ''targetDisk'' (OptNilString_Encode (rpe_TargetDisk s))
     @ field ''error'' (Int64String_Encode (rpe_Error s))
     @ field_set ''exception'' (OptNilString_Encode (rpe_Exception s))"

definition PartEvent_Encode :: "jx_env \<Rightarrow> RestPartEvent \<Rightarrow> jx" where
  "PartEvent_Encode J s = JObj (PartEvent_encodeFields J s)"

definition PartEvent_decodeField2 ::
  "jx_env \<Rightarrow> string \<Rightarrow> jx \<Rightarrow> RestPartEvent \<times> nat set \<Rightarrow> jerr + RestPartEvent \<times> nat set" where
  "PartEvent_decodeField2 J k v st = (case st of (s, b) \<Rightarrow>
     if k = ''bytesCompressed'' then put_field k (\<lambda>x. (s\<lparr>rpe_BytesCompressed := x\<rparr>, insert 12 b)) (UInt64String_Decode J v)
     else if k = ''bytesUncompressed'' then put_field k (\<lambda>x. (s\<lparr>rpe_BytesUncompressed := x\<rparr>, insert 13 b)) (UInt64String_Decode J v)
     else if k = ''readRows'' then put_field k (\<lambda>x. (s\<lparr>rpe_ReadRows := x\<rparr>, b)) (OptUInt64String_Decode J v)
     else if k = ''readBytes'' then put_field k (\<lambda>x. (s\<lparr>rpe_ReadBytes := x\<rparr>, b)) (OptUInt64String_Decode J v)
     else if k = ''mergedFrom'' then put_field k (\<lambda>x. (s\<lparr>rpe_MergedFrom := Some x\<rparr>, b)) (read_arr (read_str J) v)
     else if k = ''sourceDisk'' then put_field k (\<lambda>x. (s\<lparr>rpe_SourceDisk := x\<rparr>, b)) (OptNilString_Decode J v)
     else if k = ''targetDisk'' then put_field k (\<lambda>x. (s\<lparr>rpe_TargetDisk := x\<rparr>, b)) (OptNilString_Decode J v)
     else if k = ''error'' then put_field k (\<lambda>x. (s\<lparr>rpe_Error := x\<rparr>, insert 19 b)) (Int64String_Decode J v)
     else if k = ''exception'' then put_field k (\<lambda>x. (s\<lparr>rpe_Exception := x\<rparr>, b)) (OptNilString_Decode J v)
     else Inl (JUnexpectedField k))"

definition PartEvent_decodeField ::
  "jx_env \<Rightarrow> string \<Rightarrow> jx \<Rightarrow> RestPartEvent \<times> nat set \<Rightarrow> jerr + RestPartEvent \<times> nat set" where
  "PartEvent_decodeField J k v st = (case st of (s, b) \<Rightarrow>
     if k = ''nodeId'' then put_field k (\<lambda>x. (s\<lparr>rpe_NodeId := x\<rparr>, insert 0 b)) (read_str J v)
     else if k = ''shard'' then put_field k (\<lambda>x. (s\<lparr>rpe_Shard := x\<rparr>, insert 1 b)) (read_str J v)
     else if k = ''replica'' then put_field k (\<lambda>x. (s\<lparr>rpe_Replica := x\<rparr>, insert 2 b)) (read_str J v)
     else if k = ''eventId'' then put_field k (\<lambda>x. (s\<lparr>rpe_EventId := x\<rparr>, insert 3 b)) (read_str J v)
     else if k = ''database'' then put_field k (\<lambda>x. (s\<lparr>rpe_Database := x\<rparr>, insert 4 b)) (read_str J v)
     else if k = ''table'' then put_field k (\<lambda>x. (s\<lparr>rpe_Table := x\<rparr>, insert 5 b)) (read_str J v)
     else if k = ''partitionId'' then put_field k (\<lambda>x. (s\<lparr>rpe_PartitionId := x\<rparr>, insert 6 b)) (read_str J v)
     else if k = ''partName'' then put_field k (\<lambda>x. (s\<lparr>rpe_PartName := x\<rparr>, insert 7 b)) (read_str J v)
     else if k = ''eventType'' then put_field k (\<lambda>x. (s\<lparr>rpe_EventType := x\<rparr>, insert 8 b)) (read_str J v)
     else if k = ''eventTime'' then put_field k (\<lambda>x. (s\<lparr>rpe_EventTime := x\<rparr>, insert 9 b)) (read_time J v)
     else if k = ''durationMs'' then put_field k (\<lambda>x. (s\<lparr>rpe_DurationMs := x\<rparr>, insert 10 b)) (UInt64String_Decode J v)
     else if k = ''rows'' then put_field k (\<lambda>x. (s\<lparr>rpe_Rows := x\<rparr>, insert 11 b)) (UInt64String_Decode J v)
     else PartEvent_decodeField2 J k v (s, b))"

definition PartEvent_required :: "(nat \<times> string) list" where
  "PartEvent_required = [(0, ''nodeId''), (1, ''shard''), (2, ''replica''), (3, ''eventId''), (4, ''database''), (5, ''table''), (6,
    ''partitionId''), (7, ''partName''), (8, ''eventType''), (9, ''eventTime''), (10, ''durationMs''), (11,
    ''rows''), (12, ''bytesCompressed''), (13, ''bytesUncompressed''), (19, ''error'')]"

definition PartEvent_Decode :: "jx_env \<Rightarrow> jx \<Rightarrow> jerr + RestPartEvent" where
  "PartEvent_Decode J = dec_obj ''PartEvent'' (PartEvent_decodeField J) PartEvent_required PartEvent_zero"

definition PartEvent_ok :: "jx_env \<Rightarrow> RestPartEvent \<Rightarrow> bool" where
  "PartEvent_ok J s \<longleftrightarrow> time_ok J (rpe_EventTime s)"

lemma PartEvent_steps:
  "obj_fold (PartEvent_decodeField J) (field ''nodeId'' (JStr a0)) (s, b)
     = Inr (s\<lparr>rpe_NodeId := a0\<rparr>, insert 0 b)"
  "obj_fold (PartEvent_decodeField J) (field ''shard'' (JStr a1)) (s, b)
     = Inr (s\<lparr>rpe_Shard := a1\<rparr>, insert 1 b)"
  "obj_fold (PartEvent_decodeField J) (field ''replica'' (JStr a2)) (s, b)
     = Inr (s\<lparr>rpe_Replica := a2\<rparr>, insert 2 b)"
  "obj_fold (PartEvent_decodeField J) (field ''eventId'' (JStr a3)) (s, b)
     = Inr (s\<lparr>rpe_EventId := a3\<rparr>, insert 3 b)"
  "obj_fold (PartEvent_decodeField J) (field ''database'' (JStr a4)) (s, b)
     = Inr (s\<lparr>rpe_Database := a4\<rparr>, insert 4 b)"
  "obj_fold (PartEvent_decodeField J) (field ''table'' (JStr a5)) (s, b)
     = Inr (s\<lparr>rpe_Table := a5\<rparr>, insert 5 b)"
  "obj_fold (PartEvent_decodeField J) (field ''partitionId'' (JStr a6)) (s, b)
     = Inr (s\<lparr>rpe_PartitionId := a6\<rparr>, insert 6 b)"
  "obj_fold (PartEvent_decodeField J) (field ''partName'' (JStr a7)) (s, b)
     = Inr (s\<lparr>rpe_PartName := a7\<rparr>, insert 7 b)"
  "obj_fold (PartEvent_decodeField J) (field ''eventType'' (JStr a8)) (s, b)
     = Inr (s\<lparr>rpe_EventType := a8\<rparr>, insert 8 b)"
  "time_ok J a9 \<Longrightarrow>
   obj_fold (PartEvent_decodeField J) (field ''eventTime'' (write_time J a9)) (s, b)
     = Inr (s\<lparr>rpe_EventTime := a9\<rparr>, insert 9 b)"
  "obj_fold (PartEvent_decodeField J) (field ''durationMs'' (UInt64String_Encode a10)) (s, b)
     = Inr (s\<lparr>rpe_DurationMs := a10\<rparr>, insert 10 b)"
  "obj_fold (PartEvent_decodeField J) (field ''rows'' (UInt64String_Encode a11)) (s, b)
     = Inr (s\<lparr>rpe_Rows := a11\<rparr>, insert 11 b)"
  "obj_fold (PartEvent_decodeField J) (field ''bytesCompressed'' (UInt64String_Encode a12)) (s, b)
     = Inr (s\<lparr>rpe_BytesCompressed := a12\<rparr>, insert 12 b)"
  "obj_fold (PartEvent_decodeField J) (field ''bytesUncompressed'' (UInt64String_Encode a13)) (s, b)
     = Inr (s\<lparr>rpe_BytesUncompressed := a13\<rparr>, insert 13 b)"
  "obj_fold (PartEvent_decodeField J) (field ''error'' (Int64String_Encode a19)) (s, b)
     = Inr (s\<lparr>rpe_Error := a19\<rparr>, insert 19 b)"
  by (simp_all add: obj_fold_field PartEvent_decodeField_def PartEvent_decodeField2_def)

lemma PartEvent_set_steps:
  "rpe_ReadRows s = None \<Longrightarrow>
   obj_fold (PartEvent_decodeField J) (field_set ''readRows'' (OptUInt64String_Encode a14)) (s, b)
     = Inr (s\<lparr>rpe_ReadRows := a14\<rparr>, b)"
  "rpe_ReadBytes s = None \<Longrightarrow>
   obj_fold (PartEvent_decodeField J) (field_set ''readBytes'' (OptUInt64String_Encode a15)) (s, b)
     = Inr (s\<lparr>rpe_ReadBytes := a15\<rparr>, b)"
  "rpe_MergedFrom s = None \<Longrightarrow>
   obj_fold (PartEvent_decodeField J) (field_set ''mergedFrom'' (map_option (write_arr JStr) a16)) (s, b)
     = Inr (s\<lparr>rpe_MergedFrom := a16\<rparr>, b)"
  "rpe_SourceDisk s = OptAbsent \<Longrightarrow>
   obj_fold (PartEvent_decodeField J) (field_set ''sourceDisk'' (OptNilString_Encode a17)) (s, b)
     = Inr (s\<lparr>rpe_SourceDisk := a17\<rparr>, b)"
  "rpe_TargetDisk s = OptAbsent \<Longrightarrow>
   obj_fold (PartEvent_decodeField J) (field_set ''targetDisk'' (OptNilString_Encode a18)) (s, b)
     = Inr (s\<lparr>rpe_TargetDisk := a18\<rparr>, b)"
  "rpe_Exception s = OptAbsent \<Longrightarrow>
   obj_fold (PartEvent_decodeField J) (field_set ''exception'' (OptNilString_Encode a20)) (s, b)
     = Inr (s\<lparr>rpe_Exception := a20\<rparr>, b)"
by (auto simp: obj_fold_set PartEvent_decodeField_def PartEvent_decodeField2_def set_codec split: option.split
    optnil.split)

lemma PartEvent_roundtrip [codec]:
  "PartEvent_ok J x \<Longrightarrow> PartEvent_Decode J (PartEvent_Encode J x) = Inr x"
by (cases x) (simp add: PartEvent_Encode_def PartEvent_encodeFields_def PartEvent_Decode_def dec_obj_def
    PartEvent_steps PartEvent_set_steps PartEvent_required_def PartEvent_zero_def PartEvent_ok_def)

lemma PartEvent_list [codec]:
  "list_all (PartEvent_ok J) xs \<Longrightarrow> read_arr (PartEvent_Decode J) (write_arr (PartEvent_Encode J) xs) = Inr xs"
  by (rule read_arr_write) (auto simp: codec elim!: list.pred_mono_strong)

definition PartEventCounts_zero :: "PartEventCounts" where
  "PartEventCounts_zero = \<lparr>pec_Total = 0, pec_ByEventType = [], pec_WithErrors = 0\<rparr>"

definition PartEventCounts_encodeFields ::
  "jx_env \<Rightarrow> PartEventCounts \<Rightarrow> (string \<times> jx) list" where
  "PartEventCounts_encodeFields J s =
     field ''total'' (write_int (pec_Total s))
     @ field ''byEventType'' (OpenCountMap_Encode (pec_ByEventType s))
     @ field ''withErrors'' (write_int (pec_WithErrors s))"

definition PartEventCounts_Encode :: "jx_env \<Rightarrow> PartEventCounts \<Rightarrow> jx" where
  "PartEventCounts_Encode J s = JObj (PartEventCounts_encodeFields J s)"

definition PartEventCounts_decodeField ::
  "jx_env \<Rightarrow> string \<Rightarrow> jx \<Rightarrow> PartEventCounts \<times> nat set \<Rightarrow> jerr + PartEventCounts \<times> nat set" where
  "PartEventCounts_decodeField J k v st = (case st of (s, b) \<Rightarrow>
     if k = ''total'' then put_field k (\<lambda>x. (s\<lparr>pec_Total := x\<rparr>, insert 0 b)) (read_int J v)
     else if k = ''byEventType'' then put_field k (\<lambda>x. (s\<lparr>pec_ByEventType := x\<rparr>, insert 1 b)) (OpenCountMap_Decode J v)
     else if k = ''withErrors'' then put_field k (\<lambda>x. (s\<lparr>pec_WithErrors := x\<rparr>, insert 2 b)) (read_int J v)
     else Inl (JUnexpectedField k))"

definition PartEventCounts_required :: "(nat \<times> string) list" where
  "PartEventCounts_required = [(0, ''total''), (1, ''byEventType''), (2, ''withErrors'')]"

definition PartEventCounts_Decode :: "jx_env \<Rightarrow> jx \<Rightarrow> jerr + PartEventCounts" where
  "PartEventCounts_Decode J =
     dec_obj ''PartEventCounts'' (PartEventCounts_decodeField J) PartEventCounts_required PartEventCounts_zero"

definition PartEventCounts_ok :: "jx_env \<Rightarrow> PartEventCounts \<Rightarrow> bool" where
  "PartEventCounts_ok J s \<longleftrightarrow> in_i64 (pec_Total s) \<and> OpenCountMap_ok (pec_ByEventType s) \<and> in_i64 (pec_WithErrors s)"

lemma PartEventCounts_steps:
  "in_i64 a0 \<Longrightarrow>
   obj_fold (PartEventCounts_decodeField J) (field ''total'' (write_int a0)) (s, b)
     = Inr (s\<lparr>pec_Total := a0\<rparr>, insert 0 b)"
  "OpenCountMap_ok a1 \<Longrightarrow>
   obj_fold (PartEventCounts_decodeField J) (field ''byEventType'' (OpenCountMap_Encode a1)) (s, b)
     = Inr (s\<lparr>pec_ByEventType := a1\<rparr>, insert 1 b)"
  "in_i64 a2 \<Longrightarrow>
   obj_fold (PartEventCounts_decodeField J) (field ''withErrors'' (write_int a2)) (s, b)
     = Inr (s\<lparr>pec_WithErrors := a2\<rparr>, insert 2 b)"
  by (simp_all add: obj_fold_field PartEventCounts_decodeField_def)

lemma PartEventCounts_roundtrip [codec]:
  "PartEventCounts_ok J x \<Longrightarrow> PartEventCounts_Decode J (PartEventCounts_Encode J x) = Inr x"
by (cases x) (simp add: PartEventCounts_Encode_def PartEventCounts_encodeFields_def PartEventCounts_Decode_def
    dec_obj_def PartEventCounts_steps PartEventCounts_required_def PartEventCounts_zero_def
    PartEventCounts_ok_def)

lemma PartEventCounts_list [codec]:
  "list_all (PartEventCounts_ok J) xs \<Longrightarrow> read_arr (PartEventCounts_Decode J) (write_arr (PartEventCounts_Encode J) xs) = Inr xs"
  by (rule read_arr_write) (auto simp: codec elim!: list.pred_mono_strong)

definition PartEventsResponse_zero :: "(RestPartEvent, PartEventCounts) counted" where
  "PartEventsResponse_zero = \<lparr>ct_Collection = CollectionMeta_zero, ct_Items = [], ct_Counts = PartEventCounts_zero\<rparr>"

definition PartEventsResponse_encodeFields ::
  "jx_env \<Rightarrow> ((RestPartEvent, PartEventCounts) counted) \<Rightarrow> (string \<times> jx) list" where
  "PartEventsResponse_encodeFields J s =
     field ''collection'' (CollectionMeta_Encode J (ct_Collection s))
     @ field ''items'' (write_arr (PartEvent_Encode J) (ct_Items s))
     @ field ''counts'' (PartEventCounts_Encode J (ct_Counts s))"

definition PartEventsResponse_Encode ::
  "jx_env \<Rightarrow> ((RestPartEvent, PartEventCounts) counted) \<Rightarrow> jx" where
  "PartEventsResponse_Encode J s = JObj (PartEventsResponse_encodeFields J s)"

definition PartEventsResponse_decodeField ::
  "jx_env \<Rightarrow> string \<Rightarrow> jx \<Rightarrow> ((RestPartEvent, PartEventCounts) counted) \<times> nat set \<Rightarrow> jerr + ((RestPartEvent, PartEventCounts) counted) \<times> nat set" where
  "PartEventsResponse_decodeField J k v st = (case st of (s, b) \<Rightarrow>
     if k = ''collection'' then put_field k (\<lambda>x. (s\<lparr>ct_Collection := x\<rparr>, insert 0 b)) (CollectionMeta_Decode J v)
     else if k = ''items'' then put_field k (\<lambda>x. (s\<lparr>ct_Items := x\<rparr>, insert 1 b)) (read_arr (PartEvent_Decode J) v)
     else if k = ''counts'' then put_field k (\<lambda>x. (s\<lparr>ct_Counts := x\<rparr>, insert 2 b)) (PartEventCounts_Decode J v)
     else Inl (JUnexpectedField k))"

definition PartEventsResponse_required :: "(nat \<times> string) list" where
  "PartEventsResponse_required = [(0, ''collection''), (1, ''items''), (2, ''counts'')]"

definition PartEventsResponse_Decode ::
  "jx_env \<Rightarrow> jx \<Rightarrow> jerr + ((RestPartEvent, PartEventCounts) counted)" where
  "PartEventsResponse_Decode J =
     dec_obj ''PartEventsResponse'' (PartEventsResponse_decodeField J) PartEventsResponse_required PartEventsResponse_zero"

definition PartEventsResponse_ok ::
  "jx_env \<Rightarrow> ((RestPartEvent, PartEventCounts) counted) \<Rightarrow> bool" where
  "PartEventsResponse_ok J s \<longleftrightarrow> CollectionMeta_ok J (ct_Collection s) \<and> list_all (PartEvent_ok J) (ct_Items s) \<and>
     PartEventCounts_ok J (ct_Counts s)"

lemma PartEventsResponse_steps:
  "CollectionMeta_ok J a0 \<Longrightarrow>
   obj_fold (PartEventsResponse_decodeField J) (field ''collection'' (CollectionMeta_Encode J a0)) (s, b)
     = Inr (s\<lparr>ct_Collection := a0\<rparr>, insert 0 b)"
  "list_all (PartEvent_ok J) a1 \<Longrightarrow>
   obj_fold (PartEventsResponse_decodeField J) (field ''items'' (write_arr (PartEvent_Encode J) a1)) (s, b)
     = Inr (s\<lparr>ct_Items := a1\<rparr>, insert 1 b)"
  "PartEventCounts_ok J a2 \<Longrightarrow>
   obj_fold (PartEventsResponse_decodeField J) (field ''counts'' (PartEventCounts_Encode J a2)) (s, b)
     = Inr (s\<lparr>ct_Counts := a2\<rparr>, insert 2 b)"
by (simp_all add: obj_fold_field PartEventsResponse_decodeField_def CollectionMeta_roundtrip PartEvent_list
    PartEventCounts_roundtrip)

lemma PartEventsResponse_roundtrip [codec]:
  "PartEventsResponse_ok J x \<Longrightarrow> PartEventsResponse_Decode J (PartEventsResponse_Encode J x) = Inr x"
by (cases x) (simp add: PartEventsResponse_Encode_def PartEventsResponse_encodeFields_def
    PartEventsResponse_Decode_def dec_obj_def PartEventsResponse_steps PartEventsResponse_required_def
    PartEventsResponse_zero_def PartEventsResponse_ok_def)

lemma PartEventsResponse_list [codec]:
  "list_all (PartEventsResponse_ok J) xs \<Longrightarrow> read_arr (PartEventsResponse_Decode J) (write_arr (PartEventsResponse_Encode J) xs) = Inr xs"
  by (rule read_arr_write) (auto simp: codec elim!: list.pred_mono_strong)

end
