(* ===== verification/RestServer.thy ===== *)
theory RestServer
  imports RestParams RestPartsCodec
begin

text \<open>
  The generated REST server: the encoders of its responses (\<open>api/rest/oas_response_encoders_gen.go\<close>), the handler
  of each operation (\<open>oas_handlers_gen.go\<close>: decode the parameters, decode the body, call the handler interface,
  encode its response, each failure to the error handler) and the server that routes to them. The handler
  interface (\<open>oas_server_gen.go\<close>) is a record of operations on a state. The middleware is the one the application
  configures: none. Spans and request metrics are not part of the model, and a response is written without failure.
\<close>

section \<open>Requests and responses\<close>

record http_request =
  req_Method :: string
  req_Path :: string
  req_RawPath :: string
  req_EscapedPath :: string
  req_Query :: string
  req_URI :: string
  req_CORSMethod :: string
  req_Body :: request_body

text \<open>The body of a response: none, a document, or plain text.\<close>

datatype http_body = NoBody | JsonBody jx | PlainBody string

record http_response =
  rsp_Status :: int
  rsp_Header :: "(string \<times> string) list"
  rsp_Body :: http_body

datatype server_error =
    DecodeParamsError OperationName param_error
  | DecodeRequestError OperationName request_error
  | HandlerError gotext
  | UnexpectedResponse OperationName

section \<open>Encoders\<close>

definition json_type :: string where "json_type = ''application/json; charset=utf-8''"
definition problem_type :: string where "problem_type = ''application/problem+json''"

definition write_json :: "int \<Rightarrow> jx \<Rightarrow> http_response" where
  "write_json code doc = \<lparr>rsp_Status = code, rsp_Header = [(''Content-Type'', json_type)], rsp_Body = JsonBody doc\<rparr>"

text \<open>A problem type is an alias of the problem document.\<close>

definition Problem_Encode :: "jx_env \<Rightarrow> problem \<Rightarrow> jx" where
  "Problem_Encode J s = ProblemDetails_Encode J s"

definition write_problem :: "jx_env \<Rightarrow> int \<Rightarrow> problem \<Rightarrow> http_response" where
  "write_problem J code p =
     \<lparr>rsp_Status = code, rsp_Header = [(''Content-Type'', problem_type)], rsp_Body = JsonBody (Problem_Encode J p)\<rparr>"

definition encodeApplyTieringPartitionResponse ::
  "jx_env \<Rightarrow> TieringHistoryEntry response \<Rightarrow> server_error + http_response" where
  "encodeApplyTieringPartitionResponse J response =
     (case response of
        RespOK x \<Rightarrow> Inr (write_json 202 (TieringApplyResponse_Encode J x))
      | RespBadRequest p \<Rightarrow> Inr (write_problem J 400 p)
      | RespNotFound p \<Rightarrow> Inr (write_problem J 404 p)
      | RespConflict p \<Rightarrow> Inr (write_problem J 409 p)
      | RespInternalError p \<Rightarrow> Inr (write_problem J 500 p)
      | RespUnavailable p \<Rightarrow> Inr (write_problem J 503 p))"

definition encodeGetHealthResponse ::
  "jx_env \<Rightarrow> Health response \<Rightarrow> server_error + http_response" where
  "encodeGetHealthResponse J response =
     (case response of
        RespOK x \<Rightarrow> Inr (write_json 200 (Health_Encode J x))
      | RespBadRequest p \<Rightarrow> Inr (write_problem J 400 p)
      | RespInternalError p \<Rightarrow> Inr (write_problem J 500 p)
      | _ \<Rightarrow> Inl (UnexpectedResponse GetHealthOperation))"

definition encodeGetTableResponse ::
  "jx_env \<Rightarrow> (CollectionMeta \<times> TableDetail) response \<Rightarrow> server_error + http_response" where
  "encodeGetTableResponse J response =
     (case response of
        RespOK x \<Rightarrow> Inr (write_json 200 (TableResponse_Encode J x))
      | RespBadRequest p \<Rightarrow> Inr (write_problem J 400 p)
      | RespNotFound p \<Rightarrow> Inr (write_problem J 404 p)
      | RespInternalError p \<Rightarrow> Inr (write_problem J 500 p)
      | RespUnavailable p \<Rightarrow> Inr (write_problem J 503 p)
      | _ \<Rightarrow> Inl (UnexpectedResponse GetTableOperation))"

definition encodeGetTieringHistoryResponse ::
  "jx_env \<Rightarrow> (TieringHistoryEntry list) response \<Rightarrow> server_error + http_response" where
  "encodeGetTieringHistoryResponse J response =
     (case response of
        RespOK x \<Rightarrow> Inr (write_json 200 (TieringHistoryResponse_Encode J x))
      | RespBadRequest p \<Rightarrow> Inr (write_problem J 400 p)
      | RespInternalError p \<Rightarrow> Inr (write_problem J 500 p)
      | RespUnavailable p \<Rightarrow> Inr (write_problem J 503 p)
      | _ \<Rightarrow> Inl (UnexpectedResponse GetTieringHistoryOperation))"

definition encodeGetTieringPlanResponse ::
  "jx_env \<Rightarrow> TieringPlanResponse response \<Rightarrow> server_error + http_response" where
  "encodeGetTieringPlanResponse J response =
     (case response of
        RespOK x \<Rightarrow> Inr (write_json 200 (TieringPlanResponse_Encode J x))
      | RespBadRequest p \<Rightarrow> Inr (write_problem J 400 p)
      | RespInternalError p \<Rightarrow> Inr (write_problem J 500 p)
      | RespUnavailable p \<Rightarrow> Inr (write_problem J 503 p)
      | _ \<Rightarrow> Inl (UnexpectedResponse GetTieringPlanOperation))"

definition encodeGetTieringStatusResponse ::
  "jx_env \<Rightarrow> TieringStatus response \<Rightarrow> server_error + http_response" where
  "encodeGetTieringStatusResponse J response =
     (case response of
        RespOK x \<Rightarrow> Inr (write_json 200 (TieringStatus_Encode J x))
      | RespBadRequest p \<Rightarrow> Inr (write_problem J 400 p)
      | RespInternalError p \<Rightarrow> Inr (write_problem J 500 p)
      | RespUnavailable p \<Rightarrow> Inr (write_problem J 503 p)
      | _ \<Rightarrow> Inl (UnexpectedResponse GetTieringStatusOperation))"

definition encodeListConditionsResponse ::
  "jx_env \<Rightarrow> ((RestCondition, ConditionCounts) counted) response \<Rightarrow> server_error + http_response" where
  "encodeListConditionsResponse J response =
     (case response of
        RespOK x \<Rightarrow> Inr (write_json 200 (ConditionsResponse_Encode J x))
      | RespBadRequest p \<Rightarrow> Inr (write_problem J 400 p)
      | RespInternalError p \<Rightarrow> Inr (write_problem J 500 p)
      | RespUnavailable p \<Rightarrow> Inr (write_problem J 503 p)
      | _ \<Rightarrow> Inl (UnexpectedResponse ListConditionsOperation))"

definition encodeListDetachedPartsResponse ::
  "jx_env \<Rightarrow> ((RestDetachedPart, DetachedPartCounts) table_counted) response \<Rightarrow> server_error + http_response" where
  "encodeListDetachedPartsResponse J response =
     (case response of
        RespOK x \<Rightarrow> Inr (write_json 200 (DetachedPartsResponse_Encode J x))
      | RespBadRequest p \<Rightarrow> Inr (write_problem J 400 p)
      | RespNotFound p \<Rightarrow> Inr (write_problem J 404 p)
      | RespInternalError p \<Rightarrow> Inr (write_problem J 500 p)
      | RespUnavailable p \<Rightarrow> Inr (write_problem J 503 p)
      | _ \<Rightarrow> Inl (UnexpectedResponse ListDetachedPartsOperation))"

definition encodeListMutationsResponse ::
  "jx_env \<Rightarrow> ((RestMutation, MutationCounts) counted) response \<Rightarrow> server_error + http_response" where
  "encodeListMutationsResponse J response =
     (case response of
        RespOK x \<Rightarrow> Inr (write_json 200 (MutationsResponse_Encode J x))
      | RespBadRequest p \<Rightarrow> Inr (write_problem J 400 p)
      | RespInternalError p \<Rightarrow> Inr (write_problem J 500 p)
      | RespUnavailable p \<Rightarrow> Inr (write_problem J 503 p)
      | _ \<Rightarrow> Inl (UnexpectedResponse ListMutationsOperation))"

definition encodeListNodesResponse ::
  "jx_env \<Rightarrow> (RestNode listing) response \<Rightarrow> server_error + http_response" where
  "encodeListNodesResponse J response =
     (case response of
        RespOK x \<Rightarrow> Inr (write_json 200 (NodesResponse_Encode J x))
      | RespBadRequest p \<Rightarrow> Inr (write_problem J 400 p)
      | RespInternalError p \<Rightarrow> Inr (write_problem J 500 p)
      | RespUnavailable p \<Rightarrow> Inr (write_problem J 503 p)
      | _ \<Rightarrow> Inl (UnexpectedResponse ListNodesOperation))"

definition encodeListOperationsResponse ::
  "jx_env \<Rightarrow> ((RestOperation, OperationCounts) counted) response \<Rightarrow> server_error + http_response" where
  "encodeListOperationsResponse J response =
     (case response of
        RespOK x \<Rightarrow> Inr (write_json 200 (OperationsResponse_Encode J x))
      | RespBadRequest p \<Rightarrow> Inr (write_problem J 400 p)
      | RespInternalError p \<Rightarrow> Inr (write_problem J 500 p)
      | RespUnavailable p \<Rightarrow> Inr (write_problem J 503 p)
      | _ \<Rightarrow> Inl (UnexpectedResponse ListOperationsOperation))"

definition encodeListPartEventsResponse ::
  "jx_env \<Rightarrow> ((RestPartEvent, PartEventCounts) counted) response \<Rightarrow> server_error + http_response" where
  "encodeListPartEventsResponse J response =
     (case response of
        RespOK x \<Rightarrow> Inr (write_json 200 (PartEventsResponse_Encode J x))
      | RespBadRequest p \<Rightarrow> Inr (write_problem J 400 p)
      | RespInternalError p \<Rightarrow> Inr (write_problem J 500 p)
      | RespUnavailable p \<Rightarrow> Inr (write_problem J 503 p)
      | _ \<Rightarrow> Inl (UnexpectedResponse ListPartEventsOperation))"

definition encodeListReplicationQueueResponse ::
  "jx_env \<Rightarrow> ((RestQueueItem, ReplicationQueueCounts) counted) response \<Rightarrow> server_error + http_response" where
  "encodeListReplicationQueueResponse J response =
     (case response of
        RespOK x \<Rightarrow> Inr (write_json 200 (ReplicationQueueResponse_Encode J x))
      | RespBadRequest p \<Rightarrow> Inr (write_problem J 400 p)
      | RespInternalError p \<Rightarrow> Inr (write_problem J 500 p)
      | RespUnavailable p \<Rightarrow> Inr (write_problem J 503 p)
      | _ \<Rightarrow> Inl (UnexpectedResponse ListReplicationQueueOperation))"

definition encodeListStorageDisksResponse ::
  "jx_env \<Rightarrow> (RestStorageDisk listing) response \<Rightarrow> server_error + http_response" where
  "encodeListStorageDisksResponse J response =
     (case response of
        RespOK x \<Rightarrow> Inr (write_json 200 (StorageDisksResponse_Encode J x))
      | RespBadRequest p \<Rightarrow> Inr (write_problem J 400 p)
      | RespInternalError p \<Rightarrow> Inr (write_problem J 500 p)
      | RespUnavailable p \<Rightarrow> Inr (write_problem J 503 p)
      | _ \<Rightarrow> Inl (UnexpectedResponse ListStorageDisksOperation))"

definition encodeListTableColumnsResponse ::
  "jx_env \<Rightarrow> (RestNodeColumns columns_listing) response \<Rightarrow> server_error + http_response" where
  "encodeListTableColumnsResponse J response =
     (case response of
        RespOK x \<Rightarrow> Inr (write_json 200 (TableColumnsResponse_Encode J x))
      | RespBadRequest p \<Rightarrow> Inr (write_problem J 400 p)
      | RespNotFound p \<Rightarrow> Inr (write_problem J 404 p)
      | RespInternalError p \<Rightarrow> Inr (write_problem J 500 p)
      | RespUnavailable p \<Rightarrow> Inr (write_problem J 503 p)
      | _ \<Rightarrow> Inl (UnexpectedResponse ListTableColumnsOperation))"

definition encodeListTablePartitionsResponse ::
  "jx_env \<Rightarrow> (RestPartition listing) response \<Rightarrow> server_error + http_response" where
  "encodeListTablePartitionsResponse J response =
     (case response of
        RespOK x \<Rightarrow> Inr (write_json 200 (TablePartitionsResponse_Encode J x))
      | RespBadRequest p \<Rightarrow> Inr (write_problem J 400 p)
      | RespNotFound p \<Rightarrow> Inr (write_problem J 404 p)
      | RespInternalError p \<Rightarrow> Inr (write_problem J 500 p)
      | RespUnavailable p \<Rightarrow> Inr (write_problem J 503 p)
      | _ \<Rightarrow> Inl (UnexpectedResponse ListTablePartitionsOperation))"

definition encodeListTablePartsResponse ::
  "jx_env \<Rightarrow> (TablePart table_listing) response \<Rightarrow> server_error + http_response" where
  "encodeListTablePartsResponse J response =
     (case response of
        RespOK x \<Rightarrow> Inr (write_json 200 (TablePartsResponse_Encode J x))
      | RespBadRequest p \<Rightarrow> Inr (write_problem J 400 p)
      | RespNotFound p \<Rightarrow> Inr (write_problem J 404 p)
      | RespInternalError p \<Rightarrow> Inr (write_problem J 500 p)
      | RespUnavailable p \<Rightarrow> Inr (write_problem J 503 p)
      | _ \<Rightarrow> Inl (UnexpectedResponse ListTablePartsOperation))"

definition encodeListTablesResponse ::
  "jx_env \<Rightarrow> (TableListItem listing) response \<Rightarrow> server_error + http_response" where
  "encodeListTablesResponse J response =
     (case response of
        RespOK x \<Rightarrow> Inr (write_json 200 (TablesResponse_Encode J x))
      | RespBadRequest p \<Rightarrow> Inr (write_problem J 400 p)
      | RespInternalError p \<Rightarrow> Inr (write_problem J 500 p)
      | RespUnavailable p \<Rightarrow> Inr (write_problem J 503 p)
      | _ \<Rightarrow> Inl (UnexpectedResponse ListTablesOperation))"

definition encodePauseTieringResponse ::
  "jx_env \<Rightarrow> TieringStatus response \<Rightarrow> server_error + http_response" where
  "encodePauseTieringResponse J response =
     (case response of
        RespOK x \<Rightarrow> Inr (write_json 202 (TieringStatus_Encode J x))
      | RespBadRequest p \<Rightarrow> Inr (write_problem J 400 p)
      | RespInternalError p \<Rightarrow> Inr (write_problem J 500 p)
      | RespUnavailable p \<Rightarrow> Inr (write_problem J 503 p)
      | _ \<Rightarrow> Inl (UnexpectedResponse PauseTieringOperation))"

definition encodeResumeTieringResponse ::
  "jx_env \<Rightarrow> TieringStatus response \<Rightarrow> server_error + http_response" where
  "encodeResumeTieringResponse J response =
     (case response of
        RespOK x \<Rightarrow> Inr (write_json 202 (TieringStatus_Encode J x))
      | RespBadRequest p \<Rightarrow> Inr (write_problem J 400 p)
      | RespInternalError p \<Rightarrow> Inr (write_problem J 500 p)
      | RespUnavailable p \<Rightarrow> Inr (write_problem J 503 p)
      | _ \<Rightarrow> Inl (UnexpectedResponse ResumeTieringOperation))"

definition encodeRetryTieringPartitionResponse ::
  "jx_env \<Rightarrow> TieringHistoryEntry response \<Rightarrow> server_error + http_response" where
  "encodeRetryTieringPartitionResponse J response =
     (case response of
        RespOK x \<Rightarrow> Inr (write_json 202 (TieringApplyResponse_Encode J x))
      | RespBadRequest p \<Rightarrow> Inr (write_problem J 400 p)
      | RespNotFound p \<Rightarrow> Inr (write_problem J 404 p)
      | RespConflict p \<Rightarrow> Inr (write_problem J 409 p)
      | RespInternalError p \<Rightarrow> Inr (write_problem J 500 p)
      | RespUnavailable p \<Rightarrow> Inr (write_problem J 503 p))"

section \<open>The handler interface and the server\<close>

text \<open>\<open>Handler\<close>: an operation gets the decoded parameters (and body), and may change the state.\<close>

record 's rest_handler =
  h_ApplyTieringPartition :: "string \<Rightarrow> (string \<times> string \<times> string \<times> string) \<Rightarrow> 's \<Rightarrow> (gotext + TieringHistoryEntry response) \<times> 's"
  h_GetHealth :: "'s \<Rightarrow> (gotext + Health response) \<times> 's"
  h_GetTable :: "(string \<times> string) \<Rightarrow> 's \<Rightarrow> (gotext + (CollectionMeta \<times> TableDetail) response) \<times> 's"
  h_GetTieringHistory :: "history_params \<Rightarrow> 's \<Rightarrow> (gotext + (TieringHistoryEntry list) response) \<times> 's"
  h_GetTieringPlan :: "plan_params \<Rightarrow> 's \<Rightarrow> (gotext + TieringPlanResponse response) \<times> 's"
  h_GetTieringStatus :: "'s \<Rightarrow> (gotext + TieringStatus response) \<times> 's"
  h_ListConditions :: "condition_params \<Rightarrow> 's \<Rightarrow> (gotext + ((RestCondition, ConditionCounts) counted) response) \<times> 's"
  h_ListDetachedParts :: "(string \<times> string \<times> detached_params) \<Rightarrow> 's \<Rightarrow> (gotext + ((RestDetachedPart, DetachedPartCounts) table_counted) response) \<times> 's"
  h_ListMutations :: "mutation_params \<Rightarrow> 's \<Rightarrow> (gotext + ((RestMutation, MutationCounts) counted) response) \<times> 's"
  h_ListNodes :: "string option \<Rightarrow> 's \<Rightarrow> (gotext + (RestNode listing) response) \<times> 's"
  h_ListOperations :: "operation_params \<Rightarrow> 's \<Rightarrow> (gotext + ((RestOperation, OperationCounts) counted) response) \<times> 's"
  h_ListPartEvents :: "event_params \<Rightarrow> 's \<Rightarrow> (gotext + ((RestPartEvent, PartEventCounts) counted) response) \<times> 's"
  h_ListReplicationQueue :: "queue_params \<Rightarrow> 's \<Rightarrow> (gotext + ((RestQueueItem, ReplicationQueueCounts) counted) response) \<times> 's"
  h_ListStorageDisks :: "disk_params \<Rightarrow> 's \<Rightarrow> (gotext + (RestStorageDisk listing) response) \<times> 's"
  h_ListTableColumns :: "(string \<times> string \<times> string option \<times> string option \<times> string option) \<Rightarrow> 's \<Rightarrow> (gotext + (RestNodeColumns columns_listing) response) \<times> 's"
  h_ListTablePartitions :: "(string \<times> string \<times> partition_params) \<Rightarrow> 's \<Rightarrow> (gotext + (RestPartition listing) response) \<times> 's"
  h_ListTableParts :: "(string \<times> string \<times> part_params) \<Rightarrow> 's \<Rightarrow> (gotext + (TablePart table_listing) response) \<times> 's"
  h_ListTables :: "table_params \<Rightarrow> 's \<Rightarrow> (gotext + (TableListItem listing) response) \<times> 's"
  h_PauseTiering :: "'s \<Rightarrow> (gotext + TieringStatus response) \<times> 's"
  h_ResumeTiering :: "'s \<Rightarrow> (gotext + TieringStatus response) \<times> 's"
  h_RetryTieringPartition :: "string \<Rightarrow> (string \<times> string \<times> string \<times> string) \<Rightarrow> 's \<Rightarrow> (gotext + TieringHistoryEntry response) \<times> 's"

record 's rest_server =
  sv_Handler :: "'s rest_handler"
  sv_Prefix :: string
  sv_NotFound :: "http_request \<Rightarrow> http_response"
  sv_ErrorHandler :: "http_request \<Rightarrow> server_error \<Rightarrow> http_response"
  sv_Uri :: uri_env
  sv_Jx :: jx_env
  sv_Normalize :: "string \<Rightarrow> string option"
  sv_Upper :: "string \<Rightarrow> string"

text \<open>The end of every handler: an error of the operation, or of the encoder, goes to the error handler.\<close>

definition respond ::
  "'s rest_server \<Rightarrow> http_request \<Rightarrow> (jx_env \<Rightarrow> 'r \<Rightarrow> server_error + http_response) \<Rightarrow> (gotext + 'r) \<times> 's \<Rightarrow>
   http_response \<times> 's" where
  "respond S r enc result =
     (case result of
        (Inl err, st) \<Rightarrow> (sv_ErrorHandler S r (HandlerError err), st)
      | (Inr response, st) \<Rightarrow>
          (case enc (sv_Jx S) response of
             Inl e \<Rightarrow> (sv_ErrorHandler S r e, st)
           | Inr w \<Rightarrow> (w, st)))"

section \<open>The handlers of the operations\<close>

definition handleApplyTieringPartitionRequest ::
  "'s rest_server \<Rightarrow> string list \<Rightarrow> bool \<Rightarrow> http_request \<Rightarrow> 's \<Rightarrow> http_response \<times> 's" where
  "handleApplyTieringPartitionRequest S args argsEscaped r st =
     (case decodeApplyTieringPartitionParams (sv_Uri S) argsEscaped args (req_Query r) of
        Inl e \<Rightarrow> (sv_ErrorHandler S r (DecodeParamsError ApplyTieringPartitionOperation e), st)
      | Inr params \<Rightarrow>
          (case decodeApplyTieringPartitionRequest (sv_Jx S) (req_Body r) of
             Inl e \<Rightarrow> (sv_ErrorHandler S r (DecodeRequestError ApplyTieringPartitionOperation e), st)
           | Inr request \<Rightarrow> respond S r encodeApplyTieringPartitionResponse (h_ApplyTieringPartition (sv_Handler S) request params st)))"

definition handleGetHealthRequest ::
  "'s rest_server \<Rightarrow> string list \<Rightarrow> bool \<Rightarrow> http_request \<Rightarrow> 's \<Rightarrow> http_response \<times> 's" where
  "handleGetHealthRequest S args argsEscaped r st =
     respond S r encodeGetHealthResponse (h_GetHealth (sv_Handler S) st)"

definition handleGetTableRequest ::
  "'s rest_server \<Rightarrow> string list \<Rightarrow> bool \<Rightarrow> http_request \<Rightarrow> 's \<Rightarrow> http_response \<times> 's" where
  "handleGetTableRequest S args argsEscaped r st =
     (case decodeGetTableParams (sv_Uri S) argsEscaped args (req_Query r) of
        Inl e \<Rightarrow> (sv_ErrorHandler S r (DecodeParamsError GetTableOperation e), st)
      | Inr params \<Rightarrow>
          respond S r encodeGetTableResponse (h_GetTable (sv_Handler S) params st))"

definition handleGetTieringHistoryRequest ::
  "'s rest_server \<Rightarrow> string list \<Rightarrow> bool \<Rightarrow> http_request \<Rightarrow> 's \<Rightarrow> http_response \<times> 's" where
  "handleGetTieringHistoryRequest S args argsEscaped r st =
     (case decodeGetTieringHistoryParams (sv_Uri S) (req_Query r) of
        Inl e \<Rightarrow> (sv_ErrorHandler S r (DecodeParamsError GetTieringHistoryOperation e), st)
      | Inr params \<Rightarrow>
          respond S r encodeGetTieringHistoryResponse (h_GetTieringHistory (sv_Handler S) params st))"

definition handleGetTieringPlanRequest ::
  "'s rest_server \<Rightarrow> string list \<Rightarrow> bool \<Rightarrow> http_request \<Rightarrow> 's \<Rightarrow> http_response \<times> 's" where
  "handleGetTieringPlanRequest S args argsEscaped r st =
     (case decodeGetTieringPlanParams (sv_Uri S) (req_Query r) of
        Inl e \<Rightarrow> (sv_ErrorHandler S r (DecodeParamsError GetTieringPlanOperation e), st)
      | Inr params \<Rightarrow>
          respond S r encodeGetTieringPlanResponse (h_GetTieringPlan (sv_Handler S) params st))"

definition handleGetTieringStatusRequest ::
  "'s rest_server \<Rightarrow> string list \<Rightarrow> bool \<Rightarrow> http_request \<Rightarrow> 's \<Rightarrow> http_response \<times> 's" where
  "handleGetTieringStatusRequest S args argsEscaped r st =
     respond S r encodeGetTieringStatusResponse (h_GetTieringStatus (sv_Handler S) st)"

definition handleListConditionsRequest ::
  "'s rest_server \<Rightarrow> string list \<Rightarrow> bool \<Rightarrow> http_request \<Rightarrow> 's \<Rightarrow> http_response \<times> 's" where
  "handleListConditionsRequest S args argsEscaped r st =
     (case decodeListConditionsParams (sv_Uri S) (req_Query r) of
        Inl e \<Rightarrow> (sv_ErrorHandler S r (DecodeParamsError ListConditionsOperation e), st)
      | Inr params \<Rightarrow>
          respond S r encodeListConditionsResponse (h_ListConditions (sv_Handler S) params st))"

definition handleListDetachedPartsRequest ::
  "'s rest_server \<Rightarrow> string list \<Rightarrow> bool \<Rightarrow> http_request \<Rightarrow> 's \<Rightarrow> http_response \<times> 's" where
  "handleListDetachedPartsRequest S args argsEscaped r st =
     (case decodeListDetachedPartsParams (sv_Uri S) argsEscaped args (req_Query r) of
        Inl e \<Rightarrow> (sv_ErrorHandler S r (DecodeParamsError ListDetachedPartsOperation e), st)
      | Inr params \<Rightarrow>
          respond S r encodeListDetachedPartsResponse (h_ListDetachedParts (sv_Handler S) params st))"

definition handleListMutationsRequest ::
  "'s rest_server \<Rightarrow> string list \<Rightarrow> bool \<Rightarrow> http_request \<Rightarrow> 's \<Rightarrow> http_response \<times> 's" where
  "handleListMutationsRequest S args argsEscaped r st =
     (case decodeListMutationsParams (sv_Uri S) (req_Query r) of
        Inl e \<Rightarrow> (sv_ErrorHandler S r (DecodeParamsError ListMutationsOperation e), st)
      | Inr params \<Rightarrow>
          respond S r encodeListMutationsResponse (h_ListMutations (sv_Handler S) params st))"

definition handleListNodesRequest ::
  "'s rest_server \<Rightarrow> string list \<Rightarrow> bool \<Rightarrow> http_request \<Rightarrow> 's \<Rightarrow> http_response \<times> 's" where
  "handleListNodesRequest S args argsEscaped r st =
     (case decodeListNodesParams (sv_Uri S) (req_Query r) of
        Inl e \<Rightarrow> (sv_ErrorHandler S r (DecodeParamsError ListNodesOperation e), st)
      | Inr params \<Rightarrow>
          respond S r encodeListNodesResponse (h_ListNodes (sv_Handler S) params st))"

definition handleListOperationsRequest ::
  "'s rest_server \<Rightarrow> string list \<Rightarrow> bool \<Rightarrow> http_request \<Rightarrow> 's \<Rightarrow> http_response \<times> 's" where
  "handleListOperationsRequest S args argsEscaped r st =
     (case decodeListOperationsParams (sv_Uri S) (req_Query r) of
        Inl e \<Rightarrow> (sv_ErrorHandler S r (DecodeParamsError ListOperationsOperation e), st)
      | Inr params \<Rightarrow>
          respond S r encodeListOperationsResponse (h_ListOperations (sv_Handler S) params st))"

definition handleListPartEventsRequest ::
  "'s rest_server \<Rightarrow> string list \<Rightarrow> bool \<Rightarrow> http_request \<Rightarrow> 's \<Rightarrow> http_response \<times> 's" where
  "handleListPartEventsRequest S args argsEscaped r st =
     (case decodeListPartEventsParams (sv_Uri S) (req_Query r) of
        Inl e \<Rightarrow> (sv_ErrorHandler S r (DecodeParamsError ListPartEventsOperation e), st)
      | Inr params \<Rightarrow>
          respond S r encodeListPartEventsResponse (h_ListPartEvents (sv_Handler S) params st))"

definition handleListReplicationQueueRequest ::
  "'s rest_server \<Rightarrow> string list \<Rightarrow> bool \<Rightarrow> http_request \<Rightarrow> 's \<Rightarrow> http_response \<times> 's" where
  "handleListReplicationQueueRequest S args argsEscaped r st =
     (case decodeListReplicationQueueParams (sv_Uri S) (req_Query r) of
        Inl e \<Rightarrow> (sv_ErrorHandler S r (DecodeParamsError ListReplicationQueueOperation e), st)
      | Inr params \<Rightarrow>
          respond S r encodeListReplicationQueueResponse (h_ListReplicationQueue (sv_Handler S) params st))"

definition handleListStorageDisksRequest ::
  "'s rest_server \<Rightarrow> string list \<Rightarrow> bool \<Rightarrow> http_request \<Rightarrow> 's \<Rightarrow> http_response \<times> 's" where
  "handleListStorageDisksRequest S args argsEscaped r st =
     (case decodeListStorageDisksParams (sv_Uri S) (req_Query r) of
        Inl e \<Rightarrow> (sv_ErrorHandler S r (DecodeParamsError ListStorageDisksOperation e), st)
      | Inr params \<Rightarrow>
          respond S r encodeListStorageDisksResponse (h_ListStorageDisks (sv_Handler S) params st))"

definition handleListTableColumnsRequest ::
  "'s rest_server \<Rightarrow> string list \<Rightarrow> bool \<Rightarrow> http_request \<Rightarrow> 's \<Rightarrow> http_response \<times> 's" where
  "handleListTableColumnsRequest S args argsEscaped r st =
     (case decodeListTableColumnsParams (sv_Uri S) argsEscaped args (req_Query r) of
        Inl e \<Rightarrow> (sv_ErrorHandler S r (DecodeParamsError ListTableColumnsOperation e), st)
      | Inr params \<Rightarrow>
          respond S r encodeListTableColumnsResponse (h_ListTableColumns (sv_Handler S) params st))"

definition handleListTablePartitionsRequest ::
  "'s rest_server \<Rightarrow> string list \<Rightarrow> bool \<Rightarrow> http_request \<Rightarrow> 's \<Rightarrow> http_response \<times> 's" where
  "handleListTablePartitionsRequest S args argsEscaped r st =
     (case decodeListTablePartitionsParams (sv_Uri S) argsEscaped args (req_Query r) of
        Inl e \<Rightarrow> (sv_ErrorHandler S r (DecodeParamsError ListTablePartitionsOperation e), st)
      | Inr params \<Rightarrow>
          respond S r encodeListTablePartitionsResponse (h_ListTablePartitions (sv_Handler S) params st))"

definition handleListTablePartsRequest ::
  "'s rest_server \<Rightarrow> string list \<Rightarrow> bool \<Rightarrow> http_request \<Rightarrow> 's \<Rightarrow> http_response \<times> 's" where
  "handleListTablePartsRequest S args argsEscaped r st =
     (case decodeListTablePartsParams (sv_Uri S) argsEscaped args (req_Query r) of
        Inl e \<Rightarrow> (sv_ErrorHandler S r (DecodeParamsError ListTablePartsOperation e), st)
      | Inr params \<Rightarrow>
          respond S r encodeListTablePartsResponse (h_ListTableParts (sv_Handler S) params st))"

definition handleListTablesRequest ::
  "'s rest_server \<Rightarrow> string list \<Rightarrow> bool \<Rightarrow> http_request \<Rightarrow> 's \<Rightarrow> http_response \<times> 's" where
  "handleListTablesRequest S args argsEscaped r st =
     (case decodeListTablesParams (sv_Uri S) (req_Query r) of
        Inl e \<Rightarrow> (sv_ErrorHandler S r (DecodeParamsError ListTablesOperation e), st)
      | Inr params \<Rightarrow>
          respond S r encodeListTablesResponse (h_ListTables (sv_Handler S) params st))"

definition handlePauseTieringRequest ::
  "'s rest_server \<Rightarrow> string list \<Rightarrow> bool \<Rightarrow> http_request \<Rightarrow> 's \<Rightarrow> http_response \<times> 's" where
  "handlePauseTieringRequest S args argsEscaped r st =
     respond S r encodePauseTieringResponse (h_PauseTiering (sv_Handler S) st)"

definition handleResumeTieringRequest ::
  "'s rest_server \<Rightarrow> string list \<Rightarrow> bool \<Rightarrow> http_request \<Rightarrow> 's \<Rightarrow> http_response \<times> 's" where
  "handleResumeTieringRequest S args argsEscaped r st =
     respond S r encodeResumeTieringResponse (h_ResumeTiering (sv_Handler S) st)"

definition handleRetryTieringPartitionRequest ::
  "'s rest_server \<Rightarrow> string list \<Rightarrow> bool \<Rightarrow> http_request \<Rightarrow> 's \<Rightarrow> http_response \<times> 's" where
  "handleRetryTieringPartitionRequest S args argsEscaped r st =
     (case decodeRetryTieringPartitionParams (sv_Uri S) argsEscaped args (req_Query r) of
        Inl e \<Rightarrow> (sv_ErrorHandler S r (DecodeParamsError RetryTieringPartitionOperation e), st)
      | Inr params \<Rightarrow>
          (case decodeRetryTieringPartitionRequest (sv_Jx S) (req_Body r) of
             Inl e \<Rightarrow> (sv_ErrorHandler S r (DecodeRequestError RetryTieringPartitionOperation e), st)
           | Inr request \<Rightarrow> respond S r encodeRetryTieringPartitionResponse (h_RetryTieringPartition (sv_Handler S) request params st)))"

section \<open>Routing\<close>

definition call_handler ::
  "'s rest_server \<Rightarrow> OperationName \<Rightarrow> string list \<Rightarrow> bool \<Rightarrow> http_request \<Rightarrow> 's \<Rightarrow> http_response \<times> 's" where
  "call_handler S op =
     (case op of
        ApplyTieringPartitionOperation \<Rightarrow> handleApplyTieringPartitionRequest S
      | GetHealthOperation \<Rightarrow> handleGetHealthRequest S
      | GetTableOperation \<Rightarrow> handleGetTableRequest S
      | GetTieringHistoryOperation \<Rightarrow> handleGetTieringHistoryRequest S
      | GetTieringPlanOperation \<Rightarrow> handleGetTieringPlanRequest S
      | GetTieringStatusOperation \<Rightarrow> handleGetTieringStatusRequest S
      | ListConditionsOperation \<Rightarrow> handleListConditionsRequest S
      | ListDetachedPartsOperation \<Rightarrow> handleListDetachedPartsRequest S
      | ListMutationsOperation \<Rightarrow> handleListMutationsRequest S
      | ListNodesOperation \<Rightarrow> handleListNodesRequest S
      | ListOperationsOperation \<Rightarrow> handleListOperationsRequest S
      | ListPartEventsOperation \<Rightarrow> handleListPartEventsRequest S
      | ListReplicationQueueOperation \<Rightarrow> handleListReplicationQueueRequest S
      | ListStorageDisksOperation \<Rightarrow> handleListStorageDisksRequest S
      | ListTableColumnsOperation \<Rightarrow> handleListTableColumnsRequest S
      | ListTablePartitionsOperation \<Rightarrow> handleListTablePartitionsRequest S
      | ListTablePartsOperation \<Rightarrow> handleListTablePartsRequest S
      | ListTablesOperation \<Rightarrow> handleListTablesRequest S
      | PauseTieringOperation \<Rightarrow> handlePauseTieringRequest S
      | ResumeTieringOperation \<Rightarrow> handleResumeTieringRequest S
      | RetryTieringPartitionOperation \<Rightarrow> handleRetryTieringPartitionRequest S)"

definition not_allowed_answer ::
  "'s rest_server \<Rightarrow> http_request \<Rightarrow> notAllowedParams \<Rightarrow> http_response" where
  "not_allowed_answer S r p =
     (case notAllowed (sv_Upper S) (req_Method r) (req_CORSMethod r) p of (headers, status) \<Rightarrow>
        \<lparr>rsp_Status = status, rsp_Header = headers, rsp_Body = NoBody\<rparr>)"

definition serve_rest ::
  "'s rest_server \<Rightarrow> http_request \<Rightarrow> 's \<Rightarrow> http_response \<times> 's" where
  "serve_rest S r st =
     (case ServeHTTP (sv_Normalize S) (sv_Prefix S) (req_Method r) (req_Path r) (req_RawPath r) of
        Handle op args esc \<Rightarrow> call_handler S op args esc r st
      | NotAllowed p \<Rightarrow> (not_allowed_answer S r p, st)
      | NotFound \<Rightarrow> (sv_NotFound S r, st))"

section \<open>What every encoder promises\<close>

text \<open>The problem a response carries, with the status its constructor stands for.\<close>

definition problem_of :: "'r response \<Rightarrow> (int \<times> problem) option" where
  "problem_of r =
     (case r of
        RespOK x \<Rightarrow> None
      | RespBadRequest p \<Rightarrow> Some (400, p)
      | RespNotFound p \<Rightarrow> Some (404, p)
      | RespConflict p \<Rightarrow> Some (409, p)
      | RespInternalError p \<Rightarrow> Some (500, p)
      | RespUnavailable p \<Rightarrow> Some (503, p))"

text \<open>A response an operation may give: a body, or a problem that names the status of its kind, of a kind the
  operation declares.\<close>

definition fits :: "int set \<Rightarrow> 'r response \<Rightarrow> bool" where
  "fits codes r \<longleftrightarrow> (case problem_of r of None \<Rightarrow> True | Some (code, p) \<Rightarrow> pb_Status p = code \<and> code \<in> codes)"

text \<open>An answer of the API: a body with a success status, or a problem document that names its own status.\<close>

definition problem_answer :: "http_response \<Rightarrow> bool" where
  "problem_answer w \<longleftrightarrow>
     rsp_Header w = [(''Content-Type'', problem_type)] \<and>
     (case rsp_Body w of
        JsonBody (JObj fs) \<Rightarrow> map_of fs ''status'' = Some (write_int (rsp_Status w)) \<and> map_of fs ''detail'' \<noteq> None
      | _ \<Rightarrow> False)"

definition success_answer :: "http_response \<Rightarrow> bool" where
  "success_answer w \<longleftrightarrow>
     rsp_Status w \<in> {200, 202} \<and> rsp_Header w = [(''Content-Type'', json_type)] \<and> (\<exists>doc. rsp_Body w = JsonBody doc)"

definition api_answer :: "http_response \<Rightarrow> bool" where
  "api_answer w \<longleftrightarrow> success_answer w \<or> problem_answer w"

text \<open>An operation that always gives a response of the kinds it declares, and one that leaves the state alone.\<close>

definition honours ::
  "int set \<Rightarrow> ('s \<Rightarrow> (gotext + 'r response) \<times> 's) \<Rightarrow> bool" where
  "honours codes f \<longleftrightarrow> (\<forall>st. case f st of (x, st') \<Rightarrow> \<exists>response. x = Inr response \<and> fits codes response)"

definition keeps :: "('s \<Rightarrow> (gotext + 'r) \<times> 's) \<Rightarrow> bool" where
  "keeps f \<longleftrightarrow> (\<forall>st. snd (f st) = st)"

lemma write_problem_answer: "pb_Status p = code \<Longrightarrow> problem_answer (write_problem J code p)"
  by (simp add: problem_answer_def write_problem_def Problem_Encode_def ProblemDetails_Encode_def
      ProblemDetails_encodeFields_def field_def)

locale encoder =
  fixes J :: jx_env and codes :: "int set" and ok :: int
    and body :: "'r \<Rightarrow> jx" and enc :: "jx_env \<Rightarrow> 'r response \<Rightarrow> server_error + http_response"
  assumes encodes_body: "enc J (RespOK x) = Inr (write_json ok (body x))"
    and encodes_problem: "problem_of r = Some (code, p) \<Longrightarrow> code \<in> codes \<Longrightarrow> enc J r = Inr (write_problem J code p)"
    and success: "ok \<in> {200, 202}"
begin

lemma answers:
  assumes "fits codes r"
  obtains w where "enc J r = Inr w" and "api_answer w"
proof (cases "problem_of r")
  case None
  then obtain x where "r = RespOK x" by (cases r) (auto simp: problem_of_def)
  with that success show thesis by (auto simp: encodes_body api_answer_def success_answer_def write_json_def)
next
  case (Some q)
  with assms obtain code p where "problem_of r = Some (code, p)" "pb_Status p = code" "code \<in> codes"
    by (cases q) (auto simp: fits_def)
  with that show thesis using encodes_problem write_problem_answer unfolding api_answer_def by blast
qed

lemma responds:
  assumes "honours codes f" and "sv_Jx S = J"
  shows "api_answer (fst (respond S r enc (f st)))"
proof -
  obtain response st' where result: "f st = (Inr response, st')" and fit: "fits codes response"
    using assms(1) by (cases "f st") (auto simp: honours_def dest!: spec [of _ st])
  obtain w where "enc J response = Inr w" "api_answer w" by (rule answers [OF fit])
  then show ?thesis by (simp add: respond_def result assms)
qed

end

interpretation apply_tiering_partition: encoder J "{400, 404, 409, 500, 503}" 202 "TieringApplyResponse_Encode J" "encodeApplyTieringPartitionResponse" for J
  by unfold_locales (auto simp: encodeApplyTieringPartitionResponse_def problem_of_def split: response.splits)

interpretation health: encoder J "{400, 500}" 200 "Health_Encode J" "encodeGetHealthResponse" for J
  by unfold_locales (auto simp: encodeGetHealthResponse_def problem_of_def split: response.splits)

interpretation table: encoder J "{400, 404, 500, 503}" 200 "TableResponse_Encode J" "encodeGetTableResponse" for J
  by unfold_locales (auto simp: encodeGetTableResponse_def problem_of_def split: response.splits)

interpretation tiering_history: encoder J "{400, 500, 503}" 200 "TieringHistoryResponse_Encode J" "encodeGetTieringHistoryResponse" for J
  by unfold_locales (auto simp: encodeGetTieringHistoryResponse_def problem_of_def split: response.splits)

interpretation tiering_plan: encoder J "{400, 500, 503}" 200 "TieringPlanResponse_Encode J" "encodeGetTieringPlanResponse" for J
  by unfold_locales (auto simp: encodeGetTieringPlanResponse_def problem_of_def split: response.splits)

interpretation tiering_status: encoder J "{400, 500, 503}" 200 "TieringStatus_Encode J" "encodeGetTieringStatusResponse" for J
  by unfold_locales (auto simp: encodeGetTieringStatusResponse_def problem_of_def split: response.splits)

interpretation conditions: encoder J "{400, 500, 503}" 200 "ConditionsResponse_Encode J" "encodeListConditionsResponse" for J
  by unfold_locales (auto simp: encodeListConditionsResponse_def problem_of_def split: response.splits)

interpretation detached_parts: encoder J "{400, 404, 500, 503}" 200 "DetachedPartsResponse_Encode J" "encodeListDetachedPartsResponse" for J
  by unfold_locales (auto simp: encodeListDetachedPartsResponse_def problem_of_def split: response.splits)

interpretation mutations: encoder J "{400, 500, 503}" 200 "MutationsResponse_Encode J" "encodeListMutationsResponse" for J
  by unfold_locales (auto simp: encodeListMutationsResponse_def problem_of_def split: response.splits)

interpretation nodes: encoder J "{400, 500, 503}" 200 "NodesResponse_Encode J" "encodeListNodesResponse" for J
  by unfold_locales (auto simp: encodeListNodesResponse_def problem_of_def split: response.splits)

interpretation operations: encoder J "{400, 500, 503}" 200 "OperationsResponse_Encode J" "encodeListOperationsResponse" for J
  by unfold_locales (auto simp: encodeListOperationsResponse_def problem_of_def split: response.splits)

interpretation part_events: encoder J "{400, 500, 503}" 200 "PartEventsResponse_Encode J" "encodeListPartEventsResponse" for J
  by unfold_locales (auto simp: encodeListPartEventsResponse_def problem_of_def split: response.splits)

interpretation replication_queue: encoder J "{400, 500, 503}" 200 "ReplicationQueueResponse_Encode J" "encodeListReplicationQueueResponse" for J
  by unfold_locales (auto simp: encodeListReplicationQueueResponse_def problem_of_def split: response.splits)

interpretation storage_disks: encoder J "{400, 500, 503}" 200 "StorageDisksResponse_Encode J" "encodeListStorageDisksResponse" for J
  by unfold_locales (auto simp: encodeListStorageDisksResponse_def problem_of_def split: response.splits)

interpretation table_columns: encoder J "{400, 404, 500, 503}" 200 "TableColumnsResponse_Encode J" "encodeListTableColumnsResponse" for J
  by unfold_locales (auto simp: encodeListTableColumnsResponse_def problem_of_def split: response.splits)

interpretation table_partitions: encoder J "{400, 404, 500, 503}" 200 "TablePartitionsResponse_Encode J" "encodeListTablePartitionsResponse" for J
  by unfold_locales (auto simp: encodeListTablePartitionsResponse_def problem_of_def split: response.splits)

interpretation table_parts: encoder J "{400, 404, 500, 503}" 200 "TablePartsResponse_Encode J" "encodeListTablePartsResponse" for J
  by unfold_locales (auto simp: encodeListTablePartsResponse_def problem_of_def split: response.splits)

interpretation tables: encoder J "{400, 500, 503}" 200 "TablesResponse_Encode J" "encodeListTablesResponse" for J
  by unfold_locales (auto simp: encodeListTablesResponse_def problem_of_def split: response.splits)

interpretation pause_tiering: encoder J "{400, 500, 503}" 202 "TieringStatus_Encode J" "encodePauseTieringResponse" for J
  by unfold_locales (auto simp: encodePauseTieringResponse_def problem_of_def split: response.splits)

interpretation resume_tiering: encoder J "{400, 500, 503}" 202 "TieringStatus_Encode J" "encodeResumeTieringResponse" for J
  by unfold_locales (auto simp: encodeResumeTieringResponse_def problem_of_def split: response.splits)

interpretation retry_tiering_partition: encoder J "{400, 404, 409, 500, 503}" 202 "TieringApplyResponse_Encode J" "encodeRetryTieringPartitionResponse" for J
  by unfold_locales (auto simp: encodeRetryTieringPartitionResponse_def problem_of_def split: response.splits)

lemmas handle_defs =
  handleApplyTieringPartitionRequest_def handleGetHealthRequest_def handleGetTableRequest_def handleGetTieringHistoryRequest_def handleGetTieringPlanRequest_def handleGetTieringStatusRequest_def handleListConditionsRequest_def handleListDetachedPartsRequest_def handleListMutationsRequest_def handleListNodesRequest_def handleListOperationsRequest_def handleListPartEventsRequest_def handleListReplicationQueueRequest_def handleListStorageDisksRequest_def handleListTableColumnsRequest_def handleListTablePartitionsRequest_def handleListTablePartsRequest_def handleListTablesRequest_def handlePauseTieringRequest_def handleResumeTieringRequest_def handleRetryTieringPartitionRequest_def

lemma respond_state: "snd (respond S r enc result) = snd result"
  by (cases result) (auto simp: respond_def split: sum.split)

lemmas responded =
  apply_tiering_partition.responds [OF _ refl] health.responds [OF _ refl] table.responds [OF _ refl] tiering_history.responds [OF _ refl] tiering_plan.responds [OF _ refl] tiering_status.responds [OF _ refl] conditions.responds [OF _ refl] detached_parts.responds [OF _ refl] mutations.responds [OF _ refl] nodes.responds [OF _ refl] operations.responds [OF _ refl] part_events.responds [OF _ refl] replication_queue.responds [OF _ refl] storage_disks.responds [OF _ refl] table_columns.responds [OF _ refl] table_partitions.responds [OF _ refl] table_parts.responds [OF _ refl] tables.responds [OF _ refl] pause_tiering.responds [OF _ refl] resume_tiering.responds [OF _ refl] retry_tiering_partition.responds [OF _ refl]

section \<open>What the server promises when its handlers keep the contract\<close>

text \<open>The contract of the handler interface: every operation answers, with a response of a kind its path declares,
  every operation but the four actions leaves the state alone, and the two fallback answers are problems.\<close>

locale rest_contract =
  fixes S :: "'s rest_server"
  assumes not_found_answer: "api_answer (sv_NotFound S r)"
    and error_answer: "api_answer (sv_ErrorHandler S r e)"
    and "honours {400, 404, 409, 500, 503} (h_ApplyTieringPartition (sv_Handler S) token p0)"
    and "honours {400, 500} (h_GetHealth (sv_Handler S))"
    and "honours {400, 404, 500, 503} (h_GetTable (sv_Handler S) p2)"
    and "honours {400, 500, 503} (h_GetTieringHistory (sv_Handler S) p3)"
    and "honours {400, 500, 503} (h_GetTieringPlan (sv_Handler S) p4)"
    and "honours {400, 500, 503} (h_GetTieringStatus (sv_Handler S))"
    and "honours {400, 500, 503} (h_ListConditions (sv_Handler S) p6)"
    and "honours {400, 404, 500, 503} (h_ListDetachedParts (sv_Handler S) p7)"
    and "honours {400, 500, 503} (h_ListMutations (sv_Handler S) p8)"
    and "honours {400, 500, 503} (h_ListNodes (sv_Handler S) p9)"
    and "honours {400, 500, 503} (h_ListOperations (sv_Handler S) p10)"
    and "honours {400, 500, 503} (h_ListPartEvents (sv_Handler S) p11)"
    and "honours {400, 500, 503} (h_ListReplicationQueue (sv_Handler S) p12)"
    and "honours {400, 500, 503} (h_ListStorageDisks (sv_Handler S) p13)"
    and "honours {400, 404, 500, 503} (h_ListTableColumns (sv_Handler S) p14)"
    and "honours {400, 404, 500, 503} (h_ListTablePartitions (sv_Handler S) p15)"
    and "honours {400, 404, 500, 503} (h_ListTableParts (sv_Handler S) p16)"
    and "honours {400, 500, 503} (h_ListTables (sv_Handler S) p17)"
    and "honours {400, 500, 503} (h_PauseTiering (sv_Handler S))"
    and "honours {400, 500, 503} (h_ResumeTiering (sv_Handler S))"
    and "honours {400, 404, 409, 500, 503} (h_RetryTieringPartition (sv_Handler S) token p20)"
    and "keeps (h_GetHealth (sv_Handler S))"
    and "keeps (h_GetTable (sv_Handler S) p2)"
    and "keeps (h_GetTieringHistory (sv_Handler S) p3)"
    and "keeps (h_GetTieringPlan (sv_Handler S) p4)"
    and "keeps (h_GetTieringStatus (sv_Handler S))"
    and "keeps (h_ListConditions (sv_Handler S) p6)"
    and "keeps (h_ListDetachedParts (sv_Handler S) p7)"
    and "keeps (h_ListMutations (sv_Handler S) p8)"
    and "keeps (h_ListNodes (sv_Handler S) p9)"
    and "keeps (h_ListOperations (sv_Handler S) p10)"
    and "keeps (h_ListPartEvents (sv_Handler S) p11)"
    and "keeps (h_ListReplicationQueue (sv_Handler S) p12)"
    and "keeps (h_ListStorageDisks (sv_Handler S) p13)"
    and "keeps (h_ListTableColumns (sv_Handler S) p14)"
    and "keeps (h_ListTablePartitions (sv_Handler S) p15)"
    and "keeps (h_ListTableParts (sv_Handler S) p16)"
    and "keeps (h_ListTables (sv_Handler S) p17)"
begin

lemma handler_answers: "api_answer (fst (call_handler S op args esc r st))"
  using rest_contract_axioms unfolding rest_contract_def
  by (cases op) (auto simp: call_handler_def handle_defs error_answer intro!: responded split: sum.split)

lemma handler_keeps:
  "op \<notin> {ApplyTieringPartitionOperation, RetryTieringPartitionOperation, PauseTieringOperation, ResumeTieringOperation} \<Longrightarrow>
   snd (call_handler S op args esc r st) = st"
  using rest_contract_axioms unfolding rest_contract_def keeps_def
  by (cases op) (auto simp: call_handler_def handle_defs respond_state split: sum.split)

end

end
