(* ===== verification/Command.thy ===== *)
theory Command
  imports App
begin

text \<open>
  The command (\<open>cmd/clickhouse-movoor/main.go\<close>): finding and loading the configuration, the log level,
  building and running the application, and the exit status. Flags and signals are given: the command
  is called with the values of its flags, and an ended context is part of the run's environment.
\<close>

section \<open>The file\<close>

text \<open>\<open>filepath.Clean\<close> over the elements of a path: the kept ones are in reverse order.\<close>

fun clean_elements :: "bool \<Rightarrow> string list \<Rightarrow> string list \<Rightarrow> string list" where
  "clean_elements rooted out [] = rev out"
| "clean_elements rooted out (e # es) =
     (if e = '''' \<or> e = ''.'' then clean_elements rooted out es
      else if e = ''..'' then
        (case out of
           [] \<Rightarrow> clean_elements rooted (if rooted then [] else [e]) es
         | k # ks \<Rightarrow> if k = ''..'' then clean_elements rooted (e # out) es else clean_elements rooted ks es)
      else clean_elements rooted (e # out) es)"

definition clean_path :: "string \<Rightarrow> string" where
  "clean_path p =
     (let rooted = has_prefix p ''/''; cleaned = (if rooted then ''/'' else '''') @ join ''/'' (clean_elements rooted [] (split_on (CHR ''/'') p))
      in if cleaned = '''' then ''.'' else cleaned)"

definition join_path :: "string list \<Rightarrow> string" where
  "join_path es = (case dropWhile (\<lambda>e. e = '''') es of [] \<Rightarrow> '''' | es' \<Rightarrow> clean_path (join ''/'' es'))"

text \<open>What lies outside: the home directory if there is one, what can be found, and the environments of
  loading, building and running.\<close>

record 'y cmd_env =
  cme_UserHomeDir :: "gotext + string"
  cme_Stat :: "string \<Rightarrow> gotext option"
  cme_Config :: "'y config_env"
  cme_App :: app_env
  cme_Run :: run_env

definition discoverConfigPath :: "'y cmd_env \<Rightarrow> string" where
  "discoverConfigPath E =
     (case cme_UserHomeDir E of
        Inl e \<Rightarrow> ''''
      | Inr home \<Rightarrow>
          (let candidate = join_path [home, ''.clickhouse-movoor'', ''config.yaml'']
           in if cme_Stat E candidate \<noteq> None then '''' else candidate))"

definition cmd_loadConfig :: "'y cmd_env \<Rightarrow> string \<Rightarrow> gotext + 'y AppConfig" where
  "cmd_loadConfig E path0 =
     (let path = (if path0 = '''' then discoverConfigPath E else path0) in
      if path = '''' then
        Inl (lit ''config file is required; pass --config or create ~/.clickhouse-movoor/config.yaml'')
      else case LoadConfig (cme_Config E) path of
        Inl e \<Rightarrow> Inl (Fmt ''load config: %w'' [AWrap e])
      | Inr c \<Rightarrow> Inr c)"

section \<open>The run\<close>

datatype log_level = LevelDebug | LevelInfo | LevelWarn | LevelError

definition setLogLevel :: "unicode \<Rightarrow> string \<Rightarrow> gotext + log_level" where
  "setLogLevel U configured =
     (let l = go_lower U configured in
      if l = ''debug'' then Inr LevelDebug
      else if l = ''info'' then Inr LevelInfo
      else if l = ''warn'' \<or> l = ''warning'' then Inr LevelWarn
      else if l = ''error'' then Inr LevelError
      else Inl (Fmt ''invalid logging level %q'' [AStr configured]))"

text \<open>The root command: its error, the log level once it is set, and the lifecycle events.\<close>

definition command :: "'y cmd_env \<Rightarrow> string \<Rightarrow> bool \<Rightarrow> gotext option \<times> log_level option \<times> lifecycle list" where
  "command E configFile verbose =
     (case cmd_loadConfig E configFile of
        Inl e \<Rightarrow> (Some e, None, [])
      | Inr loaded \<Rightarrow>
          (let cfg = ResolveDefaults_app loaded in
           case setLogLevel (cfe_Unicode (cme_Config E)) (ap_Logging cfg) of
             Inl e \<Rightarrow> (Some e, None, [])
           | Inr configured \<Rightarrow>
               (let level = Some (if verbose then LevelDebug else configured) in
                case App_New (cme_App E) cfg of
                  (Inl e, events) \<Rightarrow> (Some (Fmt ''init clickhouse-movoor: %w'' [AWrap e]), level, events)
                | (Inr app, events) \<Rightarrow>
                    (case Run (cme_Run E) app of (err, run) \<Rightarrow> (err, level, events @ run)))))"

text \<open>The exit status and what is printed.\<close>

definition mainWith :: "gotext option \<Rightarrow> nat \<times> gotext option" where
  "mainWith err =
     (case err of
        None \<Rightarrow> (0, None)
      | Some e \<Rightarrow> if errors_is e ErrCanceled then (0, Some (lit ''Cancelled.''))
                  else (1, Some (Fmt ''Error: %v'' [AText e])))"

section \<open>From the configuration to the first write\<close>

lemma cmd_loaded: "cmd_loadConfig E f = Inr c \<Longrightarrow> config_wf (cme_Config E) c \<and> list_all tier_block_ok (ap_Watches c)"
  by (auto simp: cmd_loadConfig_def Let_def split: if_splits sum.splits dest: loaded_ok)

lemma logging_level: "config_wf E c \<Longrightarrow> \<exists>l. setLogLevel (cfe_Unicode E) (ap_Logging c) = Inr l"
  by (auto simp: config_wf_def setLogLevel_def Let_def)

lemma logging_kept: "config_wf E c \<Longrightarrow> ap_Logging c \<noteq> '''' \<Longrightarrow> ap_Logging (ResolveDefaults_app c) = ap_Logging c"
  by (simp add: ResolveDefaults_app_def)

text \<open>A configuration that loads never fails the log level.\<close>

lemma loaded_level:
  assumes "cmd_loadConfig E f = Inr c"
  shows "\<exists>l. setLogLevel (cfe_Unicode (cme_Config E)) (ap_Logging (ResolveDefaults_app c)) = Inr l"
proof -
  have wf: "config_wf (cme_Config E) c" using cmd_loaded [OF assms] by simp
  have "go_lower (cfe_Unicode (cme_Config E)) '''' = ''''" by (simp add: go_lower_def)
  then have "ap_Logging c \<noteq> ''''" using wf by (auto simp: config_wf_def)
  then show ?thesis using logging_level [OF wf] by (simp add: logging_kept [OF wf])
qed

lemma build_events: "App_New E cfg = (r, ev) \<Longrightarrow> StartTiering \<notin> set ev"
  by (auto simp: App_New_def Let_def split: option.splits sum.splits if_splits)

lemma built_collector:
  assumes "App_New A (ResolveDefaults_app cfg) = (Inr a, ev)" and "config_wf X cfg"
  obtains st where "ev = []" and "app_state a = Some st"
    and "map (\<lambda>cl. nd_ID (cl_Node cl)) (co_clients st) = map nc_Name (chc_Nodes (ap_ClickHouse cfg))"
    and "co_watches st = clusterStateWatches (ap_Watches cfg)"
proof -
  have "chc_Nodes (ap_ClickHouse (ResolveDefaults_app cfg)) \<noteq> []"
    using assms(2) by (simp add: resolve_app_keeps config_wf_def)
  from app_new_parts [OF assms(1) this] obtain clients q where parts: "ev = []"
    "list_all2 (client_of q) (chc_Nodes (ap_ClickHouse cfg)) clients"
    "app_state a = Some (new_collector A clients (ResolveDefaults_app (ResolveDefaults_app cfg)))"
    by (auto simp: resolve_app_keeps)
  show thesis
    by (rule that [OF parts(1,3)])
      (simp_all add: new_collector_def resolve_app_keeps comp_def list_all2_client_names [OF parts(2)])
qed

text \<open>C8: What precedes the first write of a process: when the command starts the tiering controller,
  the configuration it was given loaded and is well-formed, its log level was accepted, the collector
  addresses exactly the configured nodes and watches, and either every node that answered has every
  watched table with a MergeTree engine and some node answered, or no node could be reached.\<close>

theorem first_write_is_checked:
  assumes "fair_order (rue_Collect (cme_Run E))" and "command E f verbose = (err, level, events)"
    and "StartTiering \<in> set events"
  shows "\<exists>cfg st. cmd_loadConfig E f = Inr cfg \<and> config_wf (cme_Config E) cfg \<and>
    list_all tier_block_ok (ap_Watches cfg) \<and> level \<noteq> None \<and>
    map (\<lambda>cl. nd_ID (cl_Node cl)) (co_clients st) = map nc_Name (chc_Nodes (ap_ClickHouse cfg)) \<and>
    co_watches st = clusterStateWatches (ap_Watches cfg) \<and>
    (watches_valid st \<or> list_all (unreachable (ce_facts (rue_Collect (cme_Run E))) st) (co_clients st))"
proof -
  obtain cfg where cfg: "cmd_loadConfig E f = Inr cfg"
    using assms(2,3) by (cases "cmd_loadConfig E f") (auto simp: command_def)
  note wf = cmd_loaded [OF cfg]
  obtain l where l: "setLogLevel (cfe_Unicode (cme_Config E)) (ap_Logging (ResolveDefaults_app cfg)) = Inr l"
    using loaded_level [OF cfg] by blast
  obtain r ev where new: "App_New (cme_App E) (ResolveDefaults_app cfg) = (r, ev)" by fastforce
  have cmd: "command E f verbose = (case r of
      Inl e \<Rightarrow> (Some (Fmt ''init clickhouse-movoor: %w'' [AWrap e]), Some (if verbose then LevelDebug else l), ev)
    | Inr app \<Rightarrow> (case Run (cme_Run E) app of (err, run) \<Rightarrow> (err, Some (if verbose then LevelDebug else l), ev @ run)))"
    by (simp add: command_def cfg l new Let_def split: sum.split)
  obtain a where a: "r = Inr a" using assms(2,3) build_events [OF new] by (cases r) (auto simp: cmd)
  obtain st where st: "ev = []" "app_state a = Some st"
    "map (\<lambda>cl. nd_ID (cl_Node cl)) (co_clients st) = map nc_Name (chc_Nodes (ap_ClickHouse cfg))"
    "co_watches st = clusterStateWatches (ap_Watches cfg)"
    using built_collector [OF new [unfolded a] conjunct1 [OF wf]] by blast
  have run: "StartTiering \<in> set (snd (Run (cme_Run E) a))" and level: "level \<noteq> None"
    using assms(2,3) by (auto simp: cmd a st(1) split: prod.splits)
  have "co_watches st \<noteq> []" "co_clients st \<noteq> []"
    using wf st(3,4) by (auto simp: config_wf_def clusterStateWatches_def)
  with startup_iff [OF assms(1) st(2)] run_validated [OF run]
  have "watches_valid st \<or> list_all (unreachable (ce_facts (rue_Collect (cme_Run E))) st) (co_clients st)" by simp
  with cfg wf level st(3,4) show ?thesis by blast
qed

section \<open>Witness\<close>

definition dead_cmd :: "unit cmd_env" where
  "dead_cmd = \<lparr>cme_UserHomeDir = Inr ''/root'', cme_Stat = \<lambda>p. None, cme_Config = small_env,
     cme_App = small_app_env\<lparr>ape_Connect := \<lambda>c. dead_db\<rparr>, cme_Run = quiet_run\<rparr>"

lemma dead_command:
  obtains err level events where "command dead_cmd ''c.yaml'' False = (err, level, events)"
    and "StartTiering \<in> set events"
proof -
  obtain c where load: "LoadConfig small_env ''c.yaml'' = Inr c" and nodes: "chc_Nodes (ap_ClickHouse c) =
      [\<lparr>nc_Name = ''n1'', nc_ShardName = ''s1'', nc_ReplicaName = ''r1'', nc_DSN = ''clickhouse://u:secret@h:9000''\<rparr>]"
    by (rule small_loads)
  have cfg: "cmd_loadConfig dead_cmd ''c.yaml'' = Inr c" by (simp add: cmd_loadConfig_def dead_cmd_def load)
  have env: "cme_Config dead_cmd = small_env" "cme_Run dead_cmd = quiet_run" by (simp_all add: dead_cmd_def)
  have wf: "config_wf small_env c" using loaded_ok [OF load] by simp
  obtain l where l: "setLogLevel (cfe_Unicode small_env) (ap_Logging (ResolveDefaults_app c)) = Inr l"
    using loaded_level [OF cfg] by (auto simp: dead_cmd_def)
  obtain a where a: "App_New (cme_App dead_cmd) (ResolveDefaults_app c) = (Inr a, [])"
    by (simp add: App_New_def Let_def resolve_app_keeps dead_cmd_def small_app_env_def NewPool_def nodes
        clickHouseClientConfig_def openNode_def plain_driver_def)
  have "chc_Nodes (ap_ClickHouse (ResolveDefaults_app c)) \<noteq> []" by (simp add: resolve_app_keeps nodes)
  from app_new_parts [OF a this] obtain clients where parts:
    "app_state a = Some (new_collector (cme_App dead_cmd) clients (ResolveDefaults_app (ResolveDefaults_app c)))"
    "app_tiering a \<noteq> None" "clients \<noteq> []" by (auto simp: resolve_app_keeps nodes)
  let ?st = "new_collector (cme_App dead_cmd) clients (ResolveDefaults_app (ResolveDefaults_app c))"
  have "list_all (unreachable (ce_facts (rue_Collect quiet_run)) ?st) (co_clients ?st)"
    by (simp add: list_all_iff new_collector_def dead_cmd_def unreachable_def validation_rows_def watchPredicate_def
        dead_db_def all_rows_def isReachabilityError_def quiet_run_def reverse_env_def)
  moreover have "co_watches ?st \<noteq> []" "co_clients ?st \<noteq> []"
    using wf parts(3) by (simp_all add: new_collector_def clusterStateWatches_def resolve_app_keeps config_wf_def)
  ultimately have "fst (validate_watches_app quiet_run a) = None" using startup_iff [OF dead_run(1) parts(1)] by blast
  from run_starts_tiering [OF this parts(2)] have "StartTiering \<in> set (snd (Run quiet_run a))"
    by (simp add: quiet_run_def)
  moreover have "command dead_cmd ''c.yaml'' False =
      (fst (Run quiet_run a), Some l, snd (Run quiet_run a))"
    using a l env by (simp add: command_def cfg Let_def split_beta)
  ultimately show thesis by (intro that)
qed

theorem first_write_is_checked_witness:
  "\<exists>cfg. cmd_loadConfig dead_cmd ''c.yaml'' = Inr cfg \<and> config_wf small_env cfg"
proof -
  obtain err level events where c: "command dead_cmd ''c.yaml'' False = (err, level, events)" "StartTiering \<in> set events"
    by (rule dead_command)
  have "fair_order (rue_Collect (cme_Run dead_cmd))" by (simp add: dead_cmd_def dead_run(1))
  from first_write_is_checked [OF this c] show ?thesis by (auto simp: dead_cmd_def)
qed

end
