(* ===== verification/WebServer.thy ===== *)
theory WebServer
  imports RestServer Command
begin

text \<open>
  The web server (\<open>internal/server/http.go\<close>, \<open>spa.go\<close> and the handlers of \<open>handler.go\<close> as the implementation of the
  generated handler interface): the problem documents it writes itself, the REST server mounted under \<open>/api/v1\<close>
  with its not-found and error answers, the request multiplexer, and the single-page application. The status and the
  text of a generated error come from the error library (\<open>web_env\<close>). What the file server writes is not part of the
  model, nor is HTTP/1.0.
\<close>

section \<open>Problem documents\<close>

text \<open>\<open>http.StatusText\<close>.\<close>

definition status_texts :: "(int \<times> string) list" where
  "status_texts =
     [(100, ''Continue''), (101, ''Switching Protocols''), (102, ''Processing''), (103, ''Early Hints''),
      (200, ''OK''), (201, ''Created''), (202, ''Accepted''), (203, ''Non-Authoritative Information''),
      (204, ''No Content''), (205, ''Reset Content''), (206, ''Partial Content''), (207, ''Multi-Status''),
      (208, ''Already Reported''), (226, ''IM Used''), (300, ''Multiple Choices''), (301, ''Moved Permanently''),
      (302, ''Found''), (303, ''See Other''), (304, ''Not Modified''), (305, ''Use Proxy''),
      (307, ''Temporary Redirect''), (308, ''Permanent Redirect''), (400, ''Bad Request''), (401, ''Unauthorized''),
      (402, ''Payment Required''), (403, ''Forbidden''), (404, ''Not Found''), (405, ''Method Not Allowed''),
      (406, ''Not Acceptable''), (407, ''Proxy Authentication Required''), (408, ''Request Timeout''),
      (409, ''Conflict''), (410, ''Gone''), (411, ''Length Required''), (412, ''Precondition Failed''),
      (413, ''Request Entity Too Large''), (414, ''Request URI Too Long''), (415, ''Unsupported Media Type''),
      (416, ''Requested Range Not Satisfiable''), (417, ''Expectation Failed''), (418, ''I'' @ [CHR 0x27] @ ''m a teapot''),
      (421, ''Misdirected Request''), (422, ''Unprocessable Entity''), (423, ''Locked''), (424, ''Failed Dependency''),
      (425, ''Too Early''), (426, ''Upgrade Required''), (428, ''Precondition Required''), (429, ''Too Many Requests''),
      (431, ''Request Header Fields Too Large''), (451, ''Unavailable For Legal Reasons''),
      (500, ''Internal Server Error''), (501, ''Not Implemented''), (502, ''Bad Gateway''),
      (503, ''Service Unavailable''), (504, ''Gateway Timeout''), (505, ''HTTP Version Not Supported''),
      (506, ''Variant Also Negotiates''), (507, ''Insufficient Storage''), (508, ''Loop Detected''),
      (510, ''Not Extended''), (511, ''Network Authentication Required'')]"

definition StatusText :: "int \<Rightarrow> string" where
  "StatusText code = (case map_of status_texts code of None \<Rightarrow> '''' | Some t \<Rightarrow> t)"

text \<open>The encoder of the standard library writes a map with its keys in order.\<close>

definition writeProblemJSON :: "http_request \<Rightarrow> int \<Rightarrow> gotext \<Rightarrow> http_response" where
  "writeProblemJSON r status detail =
     \<lparr>rsp_Status = status, rsp_Header = [(''Content-Type'', problem_type)],
      rsp_Body = JsonBody (JObj
        [(''detail'', JText detail),
         (''instance'', JStr (req_URI r)),
         (''status'', write_int status),
         (''title'', JStr (StatusText status)),
         (''type'', JStr ''about:blank'')])\<rparr>"

definition handleAPINotFound :: "http_request \<Rightarrow> http_response" where
  "handleAPINotFound r = writeProblemJSON r 404 (lit ''API route is not implemented'')"

text \<open>The libraries of the server: the status and the text of an error, the URI library, the encoder library.\<close>

record web_env =
  we_ErrorCode :: "server_error \<Rightarrow> int"
  we_ErrorText :: "server_error \<Rightarrow> gotext"
  we_Uri :: uri_env
  we_Jx :: jx_env
  we_Normalize :: "string \<Rightarrow> string option"
  we_Upper :: "string \<Rightarrow> string"

definition handleAPIError :: "web_env \<Rightarrow> http_request \<Rightarrow> server_error \<Rightarrow> http_response" where
  "handleAPIError W r err = writeProblemJSON r (we_ErrorCode W err) (we_ErrorText W err)"

section \<open>The handlers behind the interface\<close>

text \<open>What the handlers see while a request is served: the collector and the nodes it asks, and for the tiering
  operations the time, the nodes and the request's context. The state is the controller, whose store the tiering
  listings read: the application hands the server both or neither.\<close>

record api_inputs =
  ai_Collect :: collect_env
  ai_Api :: api_env
  ai_State :: "Collector option"
  ai_Go :: go_env
  ai_Nodes :: server
  ai_CtxErr :: gotext
  ai_Now :: gtime

definition tieringStore :: "controller option \<Rightarrow> Store option" where
  "tieringStore st = map_option c_store st"

definition reads :: "('s \<Rightarrow> 'r) \<Rightarrow> 's \<Rightarrow> (gotext + 'r) \<times> 's" where
  "reads f st = (Inr (f st), st)"

definition acts :: "('s \<Rightarrow> 'r \<times> 's) \<Rightarrow> 's \<Rightarrow> (gotext + 'r) \<times> 's" where
  "acts f st = (case f st of (r, st') \<Rightarrow> (Inr r, st'))"

definition apiHandler :: "api_inputs \<Rightarrow> controller option rest_handler" where
  "apiHandler I =
     (let E = ai_Collect I; A = ai_Api I; state = ai_State I in
      \<lparr>h_ApplyTieringPartition = (\<lambda>token (database, table, partitionID, nodeID).
         acts (\<lambda>st. ApplyTieringPartition (ai_Go I) (ai_Nodes I) (ai_CtxErr I) st nodeID database table partitionID token)),
       h_GetHealth = reads (\<lambda>st. GetHealth),
       h_GetTable = (\<lambda>(database, table). reads (\<lambda>st. GetTable E A state database table)),
       h_GetTieringHistory = (\<lambda>q. reads (\<lambda>st. GetTieringHistory (tieringStore st) q)),
       h_GetTieringPlan = (\<lambda>q. reads (\<lambda>st. GetTieringPlan (tieringStore st) q)),
       h_GetTieringStatus = reads (\<lambda>st. GetTieringStatus (tieringStore st) st),
       h_ListConditions = (\<lambda>q. reads (\<lambda>st. ListConditions E A state q)),
       h_ListDetachedParts = (\<lambda>(database, table, q). reads (\<lambda>st. ListDetachedParts E A state database table q)),
       h_ListMutations = (\<lambda>q. reads (\<lambda>st. ListMutations E A state q)),
       h_ListNodes = (\<lambda>nodeId. reads (\<lambda>st. ListNodes E A state nodeId)),
       h_ListOperations = (\<lambda>q. reads (\<lambda>st. ListOperations E state q)),
       h_ListPartEvents = (\<lambda>q. reads (\<lambda>st. ListPartEvents E state q)),
       h_ListReplicationQueue = (\<lambda>q. reads (\<lambda>st. ListReplicationQueue E A state q)),
       h_ListStorageDisks = (\<lambda>q. reads (\<lambda>st. ListStorageDisks E state q)),
       h_ListTableColumns = (\<lambda>(database, table, nodeId, kind, name).
         reads (\<lambda>st. ListTableColumns E A state database table nodeId name kind)),
       h_ListTablePartitions = (\<lambda>(database, table, q). reads (\<lambda>st. ListTablePartitions E A state database table q)),
       h_ListTableParts = (\<lambda>(database, table, q). reads (\<lambda>st. ListTableParts E A state database table q)),
       h_ListTables = (\<lambda>q. reads (\<lambda>st. ListTables E A state q)),
       h_PauseTiering = acts (PauseTiering (ai_Now I)),
       h_ResumeTiering = acts (ResumeTiering (ai_Now I)),
       h_RetryTieringPartition = (\<lambda>token (database, table, partitionID, nodeID).
         acts (\<lambda>st. RetryTieringPartition (ai_Go I) (ai_Nodes I) (ai_CtxErr I) st nodeID database table partitionID token))\<rparr>)"

definition restServer :: "web_env \<Rightarrow> api_inputs \<Rightarrow> controller option rest_server" where
  "restServer W I =
     \<lparr>sv_Handler = apiHandler I, sv_Prefix = ''/api/v1'', sv_NotFound = handleAPINotFound,
      sv_ErrorHandler = handleAPIError W, sv_Uri = we_Uri W, sv_Jx = we_Jx W,
      sv_Normalize = we_Normalize W, sv_Upper = we_Upper W\<rparr>"

section \<open>The single-page application\<close>

text \<open>The embedded file system: whether a name opens, and whether the entry point has a status and can be sought.\<close>

record web_fs =
  fs_Open :: "string \<Rightarrow> bool"
  fs_IndexStat :: bool
  fs_IndexSeeker :: bool

text \<open>\<open>ServedFile\<close> and \<open>ServedIndex\<close> are the file server and \<open>http.ServeContent\<close> at work.\<close>

datatype web_answer =
    Answered http_response
  | ServedFile string
  | ServedIndex
  | Redirected string

definition http_Error :: "string \<Rightarrow> int \<Rightarrow> web_answer" where
  "http_Error msg code = Answered
     \<lparr>rsp_Status = code,
      rsp_Header = [(''Content-Type'', ''text/plain; charset=utf-8''), (''X-Content-Type-Options'', ''nosniff'')],
      rsp_Body = PlainBody (msg @ [CHR 0x0A])\<rparr>"

definition serveIndex :: "web_fs \<Rightarrow> web_answer" where
  "serveIndex F =
     (if \<not> fs_Open F ''index.html'' then http_Error ''web UI not built'' 404
      else if \<not> fs_IndexStat F then http_Error ''web UI unavailable'' 500
      else if \<not> fs_IndexSeeker F then http_Error ''web UI unavailable'' 500
      else ServedIndex)"

definition trim_slash :: "string \<Rightarrow> string" where
  "trim_slash p = (if has_prefix p ''/'' then drop 1 p else p)"

definition spaHandler :: "web_fs \<Rightarrow> http_request \<Rightarrow> web_answer" where
  "spaHandler F r =
     (if req_Path r \<noteq> ''/'' then
        (let name = trim_slash (clean_path (req_Path r))
         in if fs_Open F name then ServedFile name else serveIndex F)
      else serveIndex F)"

section \<open>The multiplexer\<close>

text \<open>\<open>http.ServeMux\<close> with the two patterns \<open>/api/\<close> and \<open>/\<close>: a path that is not clean is redirected to the clean
  one, \<open>/api\<close> to its subtree, unless the method is CONNECT for the former.\<close>

definition cleanPath :: "string \<Rightarrow> string" where
  "cleanPath p =
     (if p = '''' then ''/''
      else let q = (if has_prefix p ''/'' then p else ''/'' @ p); np = clean_path q
           in if last q = CHR ''/'' \<and> np \<noteq> ''/'' then np @ ''/'' else np)"

definition mux_ServeHTTP ::
  "web_env \<Rightarrow> api_inputs \<Rightarrow> web_fs \<Rightarrow> http_request \<Rightarrow> controller option \<Rightarrow> web_answer \<times> controller option" where
  "mux_ServeHTTP W I F r st =
     (let path = (if req_Method r = ''CONNECT'' then req_EscapedPath r else cleanPath (req_EscapedPath r)) in
      if req_URI r = ''*'' then
        (Answered \<lparr>rsp_Status = 400, rsp_Header = [(''Connection'', ''close'')], rsp_Body = NoBody\<rparr>, st)
      else if path = ''/api'' then (Redirected (cleanPath (req_Path r) @ ''/''), st)
      else if req_Method r \<noteq> ''CONNECT'' \<and> path \<noteq> req_EscapedPath r then (Redirected path, st)
      else if has_prefix path ''/api/'' then
        (case serve_rest (restServer W I) r st of (w, st') \<Rightarrow> (Answered w, st'))
      else if has_prefix path ''/'' then (spaHandler F r, st)
      else (http_Error ''404 page not found'' 404, st))"

section \<open>Starting and stopping\<close>

text \<open>What listening, building the routes and shutting down return is given; serving in the background changes no
  state.\<close>

record web_server =
  ws_ListenAddress :: string
  ws_addr :: string
  ws_http :: bool

definition web_New :: "string \<Rightarrow> web_server" where
  "web_New listenAddress = \<lparr>ws_ListenAddress = listenAddress, ws_addr = '''', ws_http = False\<rparr>"

definition web_Start :: "gotext + string \<Rightarrow> gotext option \<Rightarrow> web_server \<Rightarrow> gotext option \<times> web_server" where
  "web_Start listen newRESTServer s =
     (case listen of
        Inl e \<Rightarrow> (Some (Fmt ''listen on %s: %w'' [AStr (ws_ListenAddress s), AWrap e]), s)
      | Inr addr \<Rightarrow>
          (case newRESTServer of
             Some e \<Rightarrow> (Some (Fmt ''create api server: %w'' [AWrap e]), s)
           | None \<Rightarrow> (None, s\<lparr>ws_addr := addr, ws_http := True\<rparr>)))"

definition web_Stop :: "gotext option \<Rightarrow> web_server \<Rightarrow> gotext option" where
  "web_Stop stopped s =
     (if \<not> ws_http s then None
      else case stopped of None \<Rightarrow> None | Some e \<Rightarrow> Some (Fmt ''shutdown http server: %w'' [AWrap e]))"

definition web_Addr :: "web_server \<Rightarrow> string" where
  "web_Addr s = ws_addr s"

section \<open>The handlers keep the contract\<close>

named_theorems served \<open>responses that an operation declares\<close>

lemma fits_kinds [served, simp]:
  "fits codes (RespOK x)"
  "fits codes (RespBadRequest p) \<longleftrightarrow> pb_Status p = 400 \<and> 400 \<in> codes"
  "fits codes (RespNotFound p) \<longleftrightarrow> pb_Status p = 404 \<and> 404 \<in> codes"
  "fits codes (RespConflict p) \<longleftrightarrow> pb_Status p = 409 \<and> 409 \<in> codes"
  "fits codes (RespUnavailable p) \<longleftrightarrow> pb_Status p = 503 \<and> 503 \<in> codes"
  by (simp_all add: fits_def problem_of_def)

lemma problem_statuses [served, simp]:
  "pb_Status (api_problem code d) = code"
  "pb_Status noStateProblem = 503" "pb_Status noRespondersProblem = 503"
  "pb_Status watchNotFoundProblem = 404" "pb_Status noTieringProblem = 503"
  by (simp_all add: api_problem_def noStateProblem_def noRespondersProblem_def watchNotFoundProblem_def
      noTieringProblem_def)

lemma fits_frames:
  "(\<And>c. fits codes (k c)) \<Longrightarrow> 503 \<in> codes \<Longrightarrow> fits codes (with_state state k)"
  "503 \<in> codes \<Longrightarrow> fits codes (from_result r body)"
  "(\<And>c w. fits codes (k' c w)) \<Longrightarrow> 503 \<in> codes \<Longrightarrow> 404 \<in> codes \<Longrightarrow> fits codes (with_watch state db t k')"
  by (auto simp: with_state_def from_result_def with_watch_def find_watch_def Let_def split: option.split)

lemma fits_action: "409 \<in> codes \<Longrightarrow> 404 \<in> codes \<Longrightarrow> fits codes (action_response result)"
  by (auto simp: action_response_def tieringActionProblem_def split: sum.splits option.splits if_splits)

lemma honours_reads: "honours codes (reads f) \<longleftrightarrow> (\<forall>st. fits codes (f st))"
  by (simp add: honours_def reads_def)

lemma honours_acts: "honours codes (acts f) \<longleftrightarrow> (\<forall>st. fits codes (fst (f st)))"
  by (simp add: honours_def acts_def split_beta)

lemma keeps_reads: "keeps (reads f)"
  by (simp add: keeps_def reads_def)

lemma own_problem: "api_answer (writeProblemJSON r status detail)"
  by (simp add: api_answer_def problem_answer_def writeProblemJSON_def)

lemma restServer_simps [simp]:
  "sv_Handler (restServer W I) = apiHandler I" "sv_Prefix (restServer W I) = ''/api/v1''"
  "sv_NotFound (restServer W I) = handleAPINotFound" "sv_ErrorHandler (restServer W I) = handleAPIError W"
  "sv_Uri (restServer W I) = we_Uri W" "sv_Jx (restServer W I) = we_Jx W"
  "sv_Normalize (restServer W I) = we_Normalize W" "sv_Upper (restServer W I) = we_Upper W"
  by (simp_all add: restServer_def)

interpretation movoor: rest_contract "restServer W I" for W I
  by unfold_locales
    (auto simp: apiHandler_def Let_def honours_reads honours_acts keeps_reads handleAPINotFound_def handleAPIError_def
      own_problem fits_frames fits_action ListNodes_def ListStorageDisks_def ListTables_def GetTable_def
      ListTableColumns_def ListTablePartitions_def ListTableParts_def ListDetachedParts_def ListOperations_def
      ListMutations_def ListReplicationQueue_def ListPartEvents_def ListConditions_def GetHealth_def
      GetTieringPlan_def GetTieringStatus_def GetTieringHistory_def PauseTiering_def ResumeTiering_def
      ApplyTieringPartition_def RetryTieringPartition_def split: prod.split option.split bool.split
      intro!: fits_frames)

section \<open>Every answer of the API\<close>

text \<open>C18: Every answer under \<open>/api/v1\<close> is what the document promises, whatever the nodes, the controller and the
  request are. A routed request is answered with a JSON body and 200 or 202, or with a problem document whose
  \<open>status\<close> is the status of the answer: no handler gives a response that its encoder refuses, none puts a problem
  under another status, and decoding failures are problems too. A path outside the document is a problem with 404.
  Only a method the path does not have is answered without a body: 405 with the method it has, or 204 for OPTIONS.
  None of the last two changes anything.\<close>

theorem api_answers:
  "case serve_rest (restServer W I) r st of (w, st') \<Rightarrow>
     (case ServeHTTP (we_Normalize W) ''/api/v1'' (req_Method r) (req_Path r) (req_RawPath r) of
        Handle op args esc \<Rightarrow> success_answer w \<or> problem_answer w
      | NotAllowed p \<Rightarrow> rsp_Body w = NoBody \<and> st' = st \<and>
          (if req_Method r = ''OPTIONS'' then rsp_Status w = 204
           else rsp_Status w = 405 \<and> rsp_Header w = [(''Allow'', allowedMethods p)])
      | NotFound \<Rightarrow> problem_answer w \<and> rsp_Status w = 404 \<and> st' = st)"
proof (cases "ServeHTTP (we_Normalize W) ''/api/v1'' (req_Method r) (req_Path r) (req_RawPath r)")
  case (Handle op args esc)
  then show ?thesis
    using movoor.handler_answers [of W I op args esc r st]
    by (cases "call_handler (restServer W I) op args esc r st") (simp add: serve_rest_def api_answer_def)
next
  case (NotAllowed p)
  then show ?thesis by (auto simp: serve_rest_def not_allowed_answer_def notAllowed_def split: prod.split)
next
  case NotFound
  then show ?thesis by (simp add: serve_rest_def handleAPINotFound_def writeProblemJSON_def problem_answer_def)
qed

section \<open>What a request can change\<close>

lemma mux_state:
  assumes "snd (mux_ServeHTTP W I F r st) \<noteq> st"
  obtains op args esc
    where "ServeHTTP (we_Normalize W) ''/api/v1'' (req_Method r) (req_Path r) (req_RawPath r) = Handle op args esc"
    and "snd (mux_ServeHTTP W I F r st) = snd (call_handler (restServer W I) op args esc r st)"
    and "op \<in> {ApplyTieringPartitionOperation, RetryTieringPartitionOperation, PauseTieringOperation, ResumeTieringOperation}"
proof -
  from assms have served: "snd (mux_ServeHTTP W I F r st) = snd (serve_rest (restServer W I) r st)"
    by (auto simp: mux_ServeHTTP_def Let_def split: prod.splits if_splits)
  with assms obtain op args esc
    where op: "ServeHTTP (we_Normalize W) ''/api/v1'' (req_Method r) (req_Path r) (req_RawPath r) = Handle op args esc"
      "snd (mux_ServeHTTP W I F r st) = snd (call_handler (restServer W I) op args esc r st)"
    by (auto simp: serve_rest_def split: dispatch.splits)
  with movoor.handler_keeps assms have "op \<in> {ApplyTieringPartitionOperation, RetryTieringPartitionOperation,
      PauseTieringOperation, ResumeTieringOperation}" by metis
  with op show thesis by (rule that)
qed

lemma acts_state: "snd (acts f st) = snd (f st)"
  by (simp add: acts_def split_beta)

text \<open>The piecewise match of the four paths.\<close>

lemma match_some:
  "match_pieces [] xs = Some args \<longleftrightarrow> xs = [] \<and> args = []"
  "match_pieces (p # ps) xs = Some args \<longleftrightarrow>
     (\<exists>x ys as. xs = x # ys \<and> match_pieces ps ys = Some as \<and> (if is_hole p then args = x # as else p = x \<and> args = as))"
  by (cases xs; auto)+

lemma action_paths:
  assumes "ServeHTTP N ''/api/v1'' m path raw = Handle op args esc"
    and "op \<in> {ApplyTieringPartitionOperation, RetryTieringPartitionOperation, PauseTieringOperation, ResumeTieringOperation}"
  obtains e where "routed_path N path raw = (''/api/v1'' @ e, esc)" and "m = ''POST''"
    and "op = PauseTieringOperation \<and> e = ''/tiering/pause'' \<or> op = ResumeTieringOperation \<and> e = ''/tiering/resume'' \<or>
      (\<exists>d t p. args = [d, t, p] \<and>
        (op = ApplyTieringPartitionOperation \<and> e = ''/tiering/tables/'' @ d @ ''/'' @ t @ ''/partitions/'' @ p @ ''/apply'' \<or>
         op = RetryTieringPartitionOperation \<and> e = ''/tiering/tables/'' @ d @ ''/'' @ t @ ''/partitions/'' @ p @ ''/retry''))"
proof -
  obtain elem esc' where routed: "routed_path N path raw = (elem, esc')" by fastforce
  from assms(1) obtain e where e: "cutPrefix ''/api/v1'' elem = Some e"
    by (cases "cutPrefix ''/api/v1'' elem") (simp_all add: ServeHTTP_def routed)
  then have elem: "elem = ''/api/v1'' @ e" by (auto simp: cutPrefix_def has_prefix_iff split: if_splits)
  from openapi_handle [of openapi_paths esc' m e op args esc] assms(1) obtain pat body
    where esc: "esc = esc'" and row: "(pat, m, body, op) \<in> set openapi_paths" and match: "match_path pat e = Some args"
    by (auto simp: ServeHTTP_routed [OF routed e])
  obtain xs where join: "e = join [CHR ''/''] xs" and pieces: "match_pieces (split_on (CHR ''/'') pat) xs = Some args"
    using split_on_eq [of "CHR ''/''" e, OF refl] match unfolding match_path_def by blast
  from row assms(2) have "m = ''POST''" by (auto simp: openapi_paths_def)
  moreover have
    "op = PauseTieringOperation \<and> e = ''/tiering/pause'' \<or> op = ResumeTieringOperation \<and> e = ''/tiering/resume'' \<or>
      (\<exists>d t p. args = [d, t, p] \<and>
        (op = ApplyTieringPartitionOperation \<and> e = ''/tiering/tables/'' @ d @ ''/'' @ t @ ''/partitions/'' @ p @ ''/apply'' \<or>
         op = RetryTieringPartitionOperation \<and> e = ''/tiering/tables/'' @ d @ ''/'' @ t @ ''/partitions/'' @ p @ ''/retry''))"
  proof (cases "op \<in> {PauseTieringOperation, ResumeTieringOperation}")
    case True
    with row have "op = PauseTieringOperation \<and> pat = ''/tiering/pause'' \<or> op = ResumeTieringOperation \<and> pat = ''/tiering/resume''"
      by (auto simp: openapi_paths_def)
    then show ?thesis using pieces join by (auto simp: match_some is_hole_def)
  next
    case False
    with row assms(2) have "op = ApplyTieringPartitionOperation \<and>
        pat = ''/tiering/tables/{database}/{table}/partitions/{partitionId}/apply'' \<or>
      op = RetryTieringPartitionOperation \<and> pat = ''/tiering/tables/{database}/{table}/partitions/{partitionId}/retry''"
      by (auto simp: openapi_paths_def)
    then show ?thesis using pieces join by (auto simp: match_some is_hole_def)
  qed
  ultimately show thesis using routed elem esc that by simp
qed

lemma apply_state:
  assumes "snd (call_handler (restServer W I) ApplyTieringPartitionOperation args esc r st) \<noteq> st"
  obtains database table pid node token
    where "decodeApplyTieringPartitionParams (we_Uri W) esc args (req_Query r) = Inr (database, table, pid, node)"
    and "decodeApplyTieringPartitionRequest (we_Jx W) (req_Body r) = Inr token"
    and "snd (call_handler (restServer W I) ApplyTieringPartitionOperation args esc r st) =
      snd (ApplyTieringPartition (ai_Go I) (ai_Nodes I) (ai_CtxErr I) st node database table pid token)"
  using assms
  by (auto simp: call_handler_def handleApplyTieringPartitionRequest_def respond_state acts_state apiHandler_def Let_def
      split: sum.splits)

lemma retry_state:
  assumes "snd (call_handler (restServer W I) RetryTieringPartitionOperation args esc r st) \<noteq> st"
  obtains database table pid node token
    where "decodeRetryTieringPartitionParams (we_Uri W) esc args (req_Query r) = Inr (database, table, pid, node)"
    and "decodeRetryTieringPartitionRequest (we_Jx W) (req_Body r) = Inr token"
    and "snd (call_handler (restServer W I) RetryTieringPartitionOperation args esc r st) =
      snd (RetryTieringPartition (ai_Go I) (ai_Nodes I) (ai_CtxErr I) st node database table pid token)"
  using assms
  by (auto simp: call_handler_def handleRetryTieringPartitionRequest_def respond_state acts_state apiHandler_def Let_def
      split: sum.splits)

lemma pause_state:
  "snd (call_handler (restServer W I) PauseTieringOperation args esc r st) = snd (PauseTiering (ai_Now I) st)"
  "snd (call_handler (restServer W I) ResumeTieringOperation args esc r st) = snd (ResumeTiering (ai_Now I) st)"
  by (simp_all add: call_handler_def handlePauseTieringRequest_def handleResumeTieringRequest_def respond_state
      acts_state apiHandler_def Let_def)

text \<open>C9: Only the four actions change anything: whatever reaches the web server, static files and unknown paths
  included, the controller is as before unless the request is a POST to exactly one of the action paths. A pause and
  a resume then do what the controller does; an apply and a retry also need a node in the query and a body that
  decodes to a token, and then do exactly the controller's call for the partition the path names.\<close>

theorem only_actions_change:
  assumes "snd (mux_ServeHTTP W I F r st) \<noteq> st"
  shows "req_Method r = ''POST'' \<and>
    (\<exists>e esc. routed_path (we_Normalize W) (req_Path r) (req_RawPath r) = (''/api/v1'' @ e, esc) \<and>
      (e = ''/tiering/pause'' \<and> snd (mux_ServeHTTP W I F r st) = snd (PauseTiering (ai_Now I) st) \<or>
       e = ''/tiering/resume'' \<and> snd (mux_ServeHTTP W I F r st) = snd (ResumeTiering (ai_Now I) st) \<or>
       (\<exists>d t p database table pid node token.
          e = ''/tiering/tables/'' @ d @ ''/'' @ t @ ''/partitions/'' @ p @ ''/apply'' \<and>
          decodeApplyTieringPartitionParams (we_Uri W) esc [d, t, p] (req_Query r) = Inr (database, table, pid, node) \<and>
          decodeApplyTieringPartitionRequest (we_Jx W) (req_Body r) = Inr token \<and>
          snd (mux_ServeHTTP W I F r st) =
            snd (ApplyTieringPartition (ai_Go I) (ai_Nodes I) (ai_CtxErr I) st node database table pid token)) \<or>
       (\<exists>d t p database table pid node token.
          e = ''/tiering/tables/'' @ d @ ''/'' @ t @ ''/partitions/'' @ p @ ''/retry'' \<and>
          decodeRetryTieringPartitionParams (we_Uri W) esc [d, t, p] (req_Query r) = Inr (database, table, pid, node) \<and>
          decodeRetryTieringPartitionRequest (we_Jx W) (req_Body r) = Inr token \<and>
          snd (mux_ServeHTTP W I F r st) =
            snd (RetryTieringPartition (ai_Go I) (ai_Nodes I) (ai_CtxErr I) st node database table pid token))))"
proof -
  obtain op args esc
    where h: "ServeHTTP (we_Normalize W) ''/api/v1'' (req_Method r) (req_Path r) (req_RawPath r) = Handle op args esc"
    and new: "snd (mux_ServeHTTP W I F r st) = snd (call_handler (restServer W I) op args esc r st)"
    and op: "op \<in> {ApplyTieringPartitionOperation, RetryTieringPartitionOperation, PauseTieringOperation, ResumeTieringOperation}"
    by (rule mux_state [OF assms])
  have changed: "snd (call_handler (restServer W I) op args esc r st) \<noteq> st" using assms new by simp
  obtain e where e: "routed_path (we_Normalize W) (req_Path r) (req_RawPath r) = (''/api/v1'' @ e, esc)" "req_Method r = ''POST''"
    and cases: "op = PauseTieringOperation \<and> e = ''/tiering/pause'' \<or> op = ResumeTieringOperation \<and> e = ''/tiering/resume'' \<or>
      (\<exists>d t p. args = [d, t, p] \<and>
        (op = ApplyTieringPartitionOperation \<and> e = ''/tiering/tables/'' @ d @ ''/'' @ t @ ''/partitions/'' @ p @ ''/apply'' \<or>
         op = RetryTieringPartitionOperation \<and> e = ''/tiering/tables/'' @ d @ ''/'' @ t @ ''/partitions/'' @ p @ ''/retry''))"
    by (rule action_paths [OF h op])
  from cases consider (pause) "op = PauseTieringOperation" "e = ''/tiering/pause''"
    | (resume) "op = ResumeTieringOperation" "e = ''/tiering/resume''"
    | (run) d t p where "op = ApplyTieringPartitionOperation" "args = [d, t, p]"
        "e = ''/tiering/tables/'' @ d @ ''/'' @ t @ ''/partitions/'' @ p @ ''/apply''"
    | (again) d t p where "op = RetryTieringPartitionOperation" "args = [d, t, p]"
        "e = ''/tiering/tables/'' @ d @ ''/'' @ t @ ''/partitions/'' @ p @ ''/retry''" by blast
  then show ?thesis
  proof cases
    case run
    then show ?thesis using e changed new by (metis apply_state)
  next
    case again
    then show ?thesis using e changed new by (metis retry_state)
  qed (use e new in \<open>simp_all add: pause_state\<close>)
qed

definition quiet_web :: web_env where
  "quiet_web = \<lparr>we_ErrorCode = (\<lambda>e. 400), we_ErrorText = (\<lambda>e. lit ''bad request''),
     we_Uri = \<lparr>ue_query = (\<lambda>q n. None), ue_path = (\<lambda>n s. Inr s), ue_bool = (\<lambda>s. Inr (s = ''true'')), ue_time = (\<lambda>s. Inr 0)\<rparr>,
     we_Jx = \<lparr>jx_time = (\<lambda>t. ''''), jx_read_time = (\<lambda>s. Some 0), jx_url = (\<lambda>u. ''''), jx_read_url = (\<lambda>s. None),
       jx_render = (\<lambda>t. ''''), jx_raw = (\<lambda>v. '''')\<rparr>,
     we_Normalize = (\<lambda>p. None), we_Upper = id\<rparr>"

definition post_to :: "string \<Rightarrow> http_request" where
  "post_to path =
     \<lparr>req_Method = ''POST'', req_Path = path, req_RawPath = '''', req_EscapedPath = path, req_Query = '''', req_URI = path,
      req_CORSMethod = '''', req_Body = \<lparr>rb_ContentType = None, rb_ContentLength = 0, rb_Read = None, rb_Document = None\<rparr>\<rparr>"

lemma pause_request:
  "snd (mux_ServeHTTP quiet_web I F (post_to ''/api/v1/tiering/pause'') st) = snd (PauseTiering (ai_Now I) st)"
proof -
  have "ServeHTTP (\<lambda>p. None) ''/api/v1'' ''POST'' ''/api/v1/tiering/pause'' '''' = Handle PauseTieringOperation [] False"
    by (simp add: ServeHTTP_routed [of _ _ _ _ False _ "''/tiering/pause''"] routed_path_def cutPrefix_def has_prefix_def
        document on_post_def)
  then show ?thesis
    by (simp add: mux_ServeHTTP_def post_to_def quiet_web_def cleanPath_def clean_path_def has_prefix_def Let_def
        serve_rest_def call_handler_def handlePauseTieringRequest_def respond_state apiHandler_def acts_state split_beta)
qed

theorem only_actions_change_witness:
  "\<exists>I F. snd (mux_ServeHTTP quiet_web I F (post_to ''/api/v1/tiering/pause'') (Some sample_controller)) =
     Some (ctl_Pause 7 PauseReasonOperator sample_controller) \<and>
     req_Method (post_to ''/api/v1/tiering/pause'') = ''POST''"
proof -
  define I where "I = \<lparr>ai_Collect = reverse_env, ai_Api = \<lparr>ae_parse_url = (\<lambda>s. Inl no_text), ae_json = (\<lambda>e. Inl no_text)\<rparr>,
    ai_State = None, ai_Go = sample_env, ai_Nodes = sample_server, ai_CtxErr = no_text, ai_Now = 7\<rparr>"
  define F where "F = \<lparr>fs_Open = (\<lambda>n. False), fs_IndexStat = False, fs_IndexSeeker = False\<rparr>"
  have paused: "snd (mux_ServeHTTP quiet_web I F (post_to ''/api/v1/tiering/pause'') (Some sample_controller)) =
     Some (ctl_Pause 7 PauseReasonOperator sample_controller)"
    by (simp add: pause_request PauseTiering_def I_def Let_def)
  then have "snd (mux_ServeHTTP quiet_web I F (post_to ''/api/v1/tiering/pause'') (Some sample_controller)) \<noteq> Some sample_controller"
    by (auto simp: sample_controller_def New_def ctl_Pause_def Pause_def NewStore_def SetStatus_def initial_status_def
        dest: arg_cong [of _ _ "\<lambda>c. sn_PauseState (store_Status (c_store c))"])
  from only_actions_change [OF this] paused show ?thesis by blast
qed

end
