(* ===== verification/RestClient.thy ===== *)
theory RestClient
  imports RestServer
begin

text \<open>
  The generated REST client: the decoders of its responses (\<open>api/rest/oas_response_decoders_gen.go\<close>), which validate
  what they decode, and the calls (\<open>oas_client_gen.go\<close>, \<open>oas_request_encoders_gen.go\<close>). The path encoder, the
  conversions to text, the parse of a media type and the transport are parameters (\<open>rest_client\<close>); a query is the
  list of its names and values in the order they are encoded. Spans and metrics are not part of the model.
\<close>

section \<open>Responses\<close>

datatype client_error =
    MediaType
  | InvalidMedia string
  | NotADocument
  | DecodeBody jerr
  | ValidateResponse verr
  | UnexpectedStatusCode int
  | EncodePath gotext
  | DoRequest gotext

text \<open>What the client sees of a response: the media type of its \<open>Content-Type\<close> when that parses, and the document
  of its body.\<close>

record http_reply =
  rp_Status :: int
  rp_Media :: "string option"
  rp_Document :: "jx option"

definition read_body ::
  "http_reply \<Rightarrow> string \<Rightarrow> (jx \<Rightarrow> jerr + 'a) \<Rightarrow> ('a \<Rightarrow> verr option) \<Rightarrow> ('a \<Rightarrow> 'r) \<Rightarrow> client_error + 'r" where
  "read_body w media dec chk con =
     (case rp_Media w of
        None \<Rightarrow> Inl MediaType
      | Some ct \<Rightarrow>
          if ct = media then
            (case rp_Document w of
               None \<Rightarrow> Inl NotADocument
             | Some v \<Rightarrow> (case dec v of
                 Inl e \<Rightarrow> Inl (DecodeBody e)
               | Inr x \<Rightarrow> (case chk x of Some e \<Rightarrow> Inl (ValidateResponse e) | None \<Rightarrow> Inr (con x))))
          else Inl (InvalidMedia ct))"

definition Problem_Decode :: "jx_env \<Rightarrow> jx \<Rightarrow> jerr + problem" where
  "Problem_Decode J v = (case ProblemDetails_Decode J v of Inl e \<Rightarrow> Inl (JAlias e) | Inr p \<Rightarrow> Inr p)"

definition Problem_Validate :: "problem \<Rightarrow> verr option" where
  "Problem_Validate s = ProblemDetails_Validate s"

definition read_problem ::
  "jx_env \<Rightarrow> http_reply \<Rightarrow> (problem \<Rightarrow> 'r) \<Rightarrow> client_error + 'r" where
  "read_problem J w con = read_body w ''application/problem+json'' (Problem_Decode J) Problem_Validate con"

definition decodeApplyTieringPartitionResponse ::
  "jx_env \<Rightarrow> http_reply \<Rightarrow> client_error + TieringHistoryEntry response" where
  "decodeApplyTieringPartitionResponse J w =
     (if rp_Status w = 202 then read_body w ''application/json'' (TieringApplyResponse_Decode J) TieringApplyResponse_Validate RespOK
      else if rp_Status w = 400 then read_problem J w RespBadRequest
      else if rp_Status w = 404 then read_problem J w RespNotFound
      else if rp_Status w = 409 then read_problem J w RespConflict
      else if rp_Status w = 500 then read_problem J w RespInternalError
      else if rp_Status w = 503 then read_problem J w RespUnavailable
      else Inl (UnexpectedStatusCode (rp_Status w)))"

definition decodeGetHealthResponse ::
  "jx_env \<Rightarrow> http_reply \<Rightarrow> client_error + Health response" where
  "decodeGetHealthResponse J w =
     (if rp_Status w = 200 then read_body w ''application/json'' (Health_Decode J) (\<lambda>x. None) RespOK
      else if rp_Status w = 400 then read_problem J w RespBadRequest
      else if rp_Status w = 500 then read_problem J w RespInternalError
      else Inl (UnexpectedStatusCode (rp_Status w)))"

definition decodeGetTableResponse ::
  "jx_env \<Rightarrow> http_reply \<Rightarrow> client_error + (CollectionMeta \<times> TableDetail) response" where
  "decodeGetTableResponse J w =
     (if rp_Status w = 200 then read_body w ''application/json'' (TableResponse_Decode J) TableResponse_Validate RespOK
      else if rp_Status w = 400 then read_problem J w RespBadRequest
      else if rp_Status w = 404 then read_problem J w RespNotFound
      else if rp_Status w = 500 then read_problem J w RespInternalError
      else if rp_Status w = 503 then read_problem J w RespUnavailable
      else Inl (UnexpectedStatusCode (rp_Status w)))"

definition decodeGetTieringHistoryResponse ::
  "jx_env \<Rightarrow> http_reply \<Rightarrow> client_error + (TieringHistoryEntry list) response" where
  "decodeGetTieringHistoryResponse J w =
     (if rp_Status w = 200 then read_body w ''application/json'' (TieringHistoryResponse_Decode J) TieringHistoryResponse_Validate RespOK
      else if rp_Status w = 400 then read_problem J w RespBadRequest
      else if rp_Status w = 500 then read_problem J w RespInternalError
      else if rp_Status w = 503 then read_problem J w RespUnavailable
      else Inl (UnexpectedStatusCode (rp_Status w)))"

definition decodeGetTieringPlanResponse ::
  "jx_env \<Rightarrow> http_reply \<Rightarrow> client_error + TieringPlanResponse response" where
  "decodeGetTieringPlanResponse J w =
     (if rp_Status w = 200 then read_body w ''application/json'' (TieringPlanResponse_Decode J) TieringPlanResponse_Validate RespOK
      else if rp_Status w = 400 then read_problem J w RespBadRequest
      else if rp_Status w = 500 then read_problem J w RespInternalError
      else if rp_Status w = 503 then read_problem J w RespUnavailable
      else Inl (UnexpectedStatusCode (rp_Status w)))"

definition decodeGetTieringStatusResponse ::
  "jx_env \<Rightarrow> http_reply \<Rightarrow> client_error + TieringStatus response" where
  "decodeGetTieringStatusResponse J w =
     (if rp_Status w = 200 then read_body w ''application/json'' (TieringStatus_Decode J) TieringStatus_Validate RespOK
      else if rp_Status w = 400 then read_problem J w RespBadRequest
      else if rp_Status w = 500 then read_problem J w RespInternalError
      else if rp_Status w = 503 then read_problem J w RespUnavailable
      else Inl (UnexpectedStatusCode (rp_Status w)))"

definition decodeListConditionsResponse ::
  "jx_env \<Rightarrow> http_reply \<Rightarrow> client_error + ((RestCondition, ConditionCounts) counted) response" where
  "decodeListConditionsResponse J w =
     (if rp_Status w = 200 then read_body w ''application/json'' (ConditionsResponse_Decode J) ConditionsResponse_Validate RespOK
      else if rp_Status w = 400 then read_problem J w RespBadRequest
      else if rp_Status w = 500 then read_problem J w RespInternalError
      else if rp_Status w = 503 then read_problem J w RespUnavailable
      else Inl (UnexpectedStatusCode (rp_Status w)))"

definition decodeListDetachedPartsResponse ::
  "jx_env \<Rightarrow> http_reply \<Rightarrow> client_error + ((RestDetachedPart, DetachedPartCounts) table_counted) response" where
  "decodeListDetachedPartsResponse J w =
     (if rp_Status w = 200 then read_body w ''application/json'' (DetachedPartsResponse_Decode J) DetachedPartsResponse_Validate RespOK
      else if rp_Status w = 400 then read_problem J w RespBadRequest
      else if rp_Status w = 404 then read_problem J w RespNotFound
      else if rp_Status w = 500 then read_problem J w RespInternalError
      else if rp_Status w = 503 then read_problem J w RespUnavailable
      else Inl (UnexpectedStatusCode (rp_Status w)))"

definition decodeListMutationsResponse ::
  "jx_env \<Rightarrow> http_reply \<Rightarrow> client_error + ((RestMutation, MutationCounts) counted) response" where
  "decodeListMutationsResponse J w =
     (if rp_Status w = 200 then read_body w ''application/json'' (MutationsResponse_Decode J) MutationsResponse_Validate RespOK
      else if rp_Status w = 400 then read_problem J w RespBadRequest
      else if rp_Status w = 500 then read_problem J w RespInternalError
      else if rp_Status w = 503 then read_problem J w RespUnavailable
      else Inl (UnexpectedStatusCode (rp_Status w)))"

definition decodeListNodesResponse ::
  "jx_env \<Rightarrow> http_reply \<Rightarrow> client_error + (RestNode listing) response" where
  "decodeListNodesResponse J w =
     (if rp_Status w = 200 then read_body w ''application/json'' (NodesResponse_Decode J) NodesResponse_Validate RespOK
      else if rp_Status w = 400 then read_problem J w RespBadRequest
      else if rp_Status w = 500 then read_problem J w RespInternalError
      else if rp_Status w = 503 then read_problem J w RespUnavailable
      else Inl (UnexpectedStatusCode (rp_Status w)))"

definition decodeListOperationsResponse ::
  "jx_env \<Rightarrow> http_reply \<Rightarrow> client_error + ((RestOperation, OperationCounts) counted) response" where
  "decodeListOperationsResponse J w =
     (if rp_Status w = 200 then read_body w ''application/json'' (OperationsResponse_Decode J) OperationsResponse_Validate RespOK
      else if rp_Status w = 400 then read_problem J w RespBadRequest
      else if rp_Status w = 500 then read_problem J w RespInternalError
      else if rp_Status w = 503 then read_problem J w RespUnavailable
      else Inl (UnexpectedStatusCode (rp_Status w)))"

definition decodeListPartEventsResponse ::
  "jx_env \<Rightarrow> http_reply \<Rightarrow> client_error + ((RestPartEvent, PartEventCounts) counted) response" where
  "decodeListPartEventsResponse J w =
     (if rp_Status w = 200 then read_body w ''application/json'' (PartEventsResponse_Decode J) PartEventsResponse_Validate RespOK
      else if rp_Status w = 400 then read_problem J w RespBadRequest
      else if rp_Status w = 500 then read_problem J w RespInternalError
      else if rp_Status w = 503 then read_problem J w RespUnavailable
      else Inl (UnexpectedStatusCode (rp_Status w)))"

definition decodeListReplicationQueueResponse ::
  "jx_env \<Rightarrow> http_reply \<Rightarrow> client_error + ((RestQueueItem, ReplicationQueueCounts) counted) response" where
  "decodeListReplicationQueueResponse J w =
     (if rp_Status w = 200 then read_body w ''application/json'' (ReplicationQueueResponse_Decode J) ReplicationQueueResponse_Validate RespOK
      else if rp_Status w = 400 then read_problem J w RespBadRequest
      else if rp_Status w = 500 then read_problem J w RespInternalError
      else if rp_Status w = 503 then read_problem J w RespUnavailable
      else Inl (UnexpectedStatusCode (rp_Status w)))"

definition decodeListStorageDisksResponse ::
  "jx_env \<Rightarrow> http_reply \<Rightarrow> client_error + (RestStorageDisk listing) response" where
  "decodeListStorageDisksResponse J w =
     (if rp_Status w = 200 then read_body w ''application/json'' (StorageDisksResponse_Decode J) StorageDisksResponse_Validate RespOK
      else if rp_Status w = 400 then read_problem J w RespBadRequest
      else if rp_Status w = 500 then read_problem J w RespInternalError
      else if rp_Status w = 503 then read_problem J w RespUnavailable
      else Inl (UnexpectedStatusCode (rp_Status w)))"

definition decodeListTableColumnsResponse ::
  "jx_env \<Rightarrow> http_reply \<Rightarrow> client_error + (RestNodeColumns columns_listing) response" where
  "decodeListTableColumnsResponse J w =
     (if rp_Status w = 200 then read_body w ''application/json'' (TableColumnsResponse_Decode J) TableColumnsResponse_Validate RespOK
      else if rp_Status w = 400 then read_problem J w RespBadRequest
      else if rp_Status w = 404 then read_problem J w RespNotFound
      else if rp_Status w = 500 then read_problem J w RespInternalError
      else if rp_Status w = 503 then read_problem J w RespUnavailable
      else Inl (UnexpectedStatusCode (rp_Status w)))"

definition decodeListTablePartitionsResponse ::
  "jx_env \<Rightarrow> http_reply \<Rightarrow> client_error + (RestPartition listing) response" where
  "decodeListTablePartitionsResponse J w =
     (if rp_Status w = 200 then read_body w ''application/json'' (TablePartitionsResponse_Decode J) TablePartitionsResponse_Validate RespOK
      else if rp_Status w = 400 then read_problem J w RespBadRequest
      else if rp_Status w = 404 then read_problem J w RespNotFound
      else if rp_Status w = 500 then read_problem J w RespInternalError
      else if rp_Status w = 503 then read_problem J w RespUnavailable
      else Inl (UnexpectedStatusCode (rp_Status w)))"

definition decodeListTablePartsResponse ::
  "jx_env \<Rightarrow> http_reply \<Rightarrow> client_error + (TablePart table_listing) response" where
  "decodeListTablePartsResponse J w =
     (if rp_Status w = 200 then read_body w ''application/json'' (TablePartsResponse_Decode J) TablePartsResponse_Validate RespOK
      else if rp_Status w = 400 then read_problem J w RespBadRequest
      else if rp_Status w = 404 then read_problem J w RespNotFound
      else if rp_Status w = 500 then read_problem J w RespInternalError
      else if rp_Status w = 503 then read_problem J w RespUnavailable
      else Inl (UnexpectedStatusCode (rp_Status w)))"

definition decodeListTablesResponse ::
  "jx_env \<Rightarrow> http_reply \<Rightarrow> client_error + (TableListItem listing) response" where
  "decodeListTablesResponse J w =
     (if rp_Status w = 200 then read_body w ''application/json'' (TablesResponse_Decode J) TablesResponse_Validate RespOK
      else if rp_Status w = 400 then read_problem J w RespBadRequest
      else if rp_Status w = 500 then read_problem J w RespInternalError
      else if rp_Status w = 503 then read_problem J w RespUnavailable
      else Inl (UnexpectedStatusCode (rp_Status w)))"

definition decodePauseTieringResponse ::
  "jx_env \<Rightarrow> http_reply \<Rightarrow> client_error + TieringStatus response" where
  "decodePauseTieringResponse J w =
     (if rp_Status w = 202 then read_body w ''application/json'' (TieringStatus_Decode J) TieringStatus_Validate RespOK
      else if rp_Status w = 400 then read_problem J w RespBadRequest
      else if rp_Status w = 500 then read_problem J w RespInternalError
      else if rp_Status w = 503 then read_problem J w RespUnavailable
      else Inl (UnexpectedStatusCode (rp_Status w)))"

definition decodeResumeTieringResponse ::
  "jx_env \<Rightarrow> http_reply \<Rightarrow> client_error + TieringStatus response" where
  "decodeResumeTieringResponse J w =
     (if rp_Status w = 202 then read_body w ''application/json'' (TieringStatus_Decode J) TieringStatus_Validate RespOK
      else if rp_Status w = 400 then read_problem J w RespBadRequest
      else if rp_Status w = 500 then read_problem J w RespInternalError
      else if rp_Status w = 503 then read_problem J w RespUnavailable
      else Inl (UnexpectedStatusCode (rp_Status w)))"

definition decodeRetryTieringPartitionResponse ::
  "jx_env \<Rightarrow> http_reply \<Rightarrow> client_error + TieringHistoryEntry response" where
  "decodeRetryTieringPartitionResponse J w =
     (if rp_Status w = 202 then read_body w ''application/json'' (TieringApplyResponse_Decode J) TieringApplyResponse_Validate RespOK
      else if rp_Status w = 400 then read_problem J w RespBadRequest
      else if rp_Status w = 404 then read_problem J w RespNotFound
      else if rp_Status w = 409 then read_problem J w RespConflict
      else if rp_Status w = 500 then read_problem J w RespInternalError
      else if rp_Status w = 503 then read_problem J w RespUnavailable
      else Inl (UnexpectedStatusCode (rp_Status w)))"

section \<open>Calls\<close>

record client_request =
  cr_Method :: string
  cr_Path :: string
  cr_Query :: "(string \<times> string) list"
  cr_Body :: "jx option"

record rest_client =
  cl_Path :: "string \<Rightarrow> gotext + string"
  cl_Bool :: "bool \<Rightarrow> string"
  cl_Time :: "gtime \<Rightarrow> string"
  cl_Do :: "client_request \<Rightarrow> gotext + http_reply"
  cl_Jx :: jx_env

definition encode_part :: "rest_client \<Rightarrow> string \<Rightarrow> client_error + string" where
  "encode_part C s = (case cl_Path C s of Inl e \<Rightarrow> Inl (EncodePath e) | Inr p \<Rightarrow> Inr p)"

definition query_param :: "string \<Rightarrow> string option \<Rightarrow> (string \<times> string) list" where
  "query_param name v = (case v of None \<Rightarrow> [] | Some s \<Rightarrow> [(name, s)])"

text \<open>The request goes to the transport and its response is decoded.\<close>

definition do_request ::
  "rest_client \<Rightarrow> client_request \<Rightarrow> (jx_env \<Rightarrow> http_reply \<Rightarrow> client_error + 'r) \<Rightarrow> client_error + 'r" where
  "do_request C r dec =
     (case cl_Do C r of Inl e \<Rightarrow> Inl (DoRequest e) | Inr w \<Rightarrow> dec (cl_Jx C) w)"

definition encodeApplyTieringPartitionRequest :: "rest_client \<Rightarrow> string \<Rightarrow> jx option" where
  "encodeApplyTieringPartitionRequest C req = Some (TieringApplyRequest_Encode (cl_Jx C) req)"

definition encodeRetryTieringPartitionRequest :: "rest_client \<Rightarrow> string \<Rightarrow> jx option" where
  "encodeRetryTieringPartitionRequest C req = Some (TieringApplyRequest_Encode (cl_Jx C) req)"

definition sendApplyTieringPartition ::
  "rest_client \<Rightarrow> string \<Rightarrow> (string \<times> string \<times> string \<times> string) \<Rightarrow> client_error + TieringHistoryEntry response" where
  "sendApplyTieringPartition C request params =
     (case params of (x_database, x_table, x_partitionId, x_nodeId) \<Rightarrow>
     and_then (encode_part C x_database) (\<lambda>p_database.
     and_then (encode_part C x_table) (\<lambda>p_table.
     and_then (encode_part C x_partitionId) (\<lambda>p_partitionId.
     do_request C
      \<lparr>cr_Method = ''POST'', cr_Path = ''/tiering/tables/'' @ p_database @ ''/'' @ p_table @ ''/partitions/'' @ p_partitionId @ ''/apply'',
       cr_Query = query_param ''nodeId'' (Some x_nodeId),
       cr_Body = encodeApplyTieringPartitionRequest C request\<rparr>
      decodeApplyTieringPartitionResponse))))"

definition sendGetHealth ::
  "rest_client \<Rightarrow> client_error + Health response" where
  "sendGetHealth C =
     do_request C
      \<lparr>cr_Method = ''GET'', cr_Path = ''/healthz'',
       cr_Query = [],
       cr_Body = None\<rparr>
      decodeGetHealthResponse"

definition sendGetTable ::
  "rest_client \<Rightarrow> (string \<times> string) \<Rightarrow> client_error + (CollectionMeta \<times> TableDetail) response" where
  "sendGetTable C params =
     (case params of (x_database, x_table) \<Rightarrow>
     and_then (encode_part C x_database) (\<lambda>p_database.
     and_then (encode_part C x_table) (\<lambda>p_table.
     do_request C
      \<lparr>cr_Method = ''GET'', cr_Path = ''/tables/'' @ p_database @ ''/'' @ p_table,
       cr_Query = [],
       cr_Body = None\<rparr>
      decodeGetTableResponse)))"

definition sendGetTieringHistory ::
  "rest_client \<Rightarrow> history_params \<Rightarrow> client_error + (TieringHistoryEntry list) response" where
  "sendGetTieringHistory C params =
     (let q = params in
     do_request C
      \<lparr>cr_Method = ''GET'', cr_Path = ''/tiering/history'',
       cr_Query = query_param ''nodeId'' (zq_NodeId q)
         @ query_param ''database'' (zq_Database q)
         @ query_param ''table'' (zq_Table q)
         @ query_param ''partitionId'' (zq_PartitionId q),
       cr_Body = None\<rparr>
      decodeGetTieringHistoryResponse)"

definition sendGetTieringPlan ::
  "rest_client \<Rightarrow> plan_params \<Rightarrow> client_error + TieringPlanResponse response" where
  "sendGetTieringPlan C params =
     (let q = params in
     do_request C
      \<lparr>cr_Method = ''GET'', cr_Path = ''/tiering/plan'',
       cr_Query = query_param ''nodeId'' (yq_NodeId q)
         @ query_param ''database'' (yq_Database q)
         @ query_param ''table'' (yq_Table q)
         @ query_param ''status'' (yq_Status q)
         @ query_param ''decision'' (yq_Decision q),
       cr_Body = None\<rparr>
      decodeGetTieringPlanResponse)"

definition sendGetTieringStatus ::
  "rest_client \<Rightarrow> client_error + TieringStatus response" where
  "sendGetTieringStatus C =
     do_request C
      \<lparr>cr_Method = ''GET'', cr_Path = ''/tiering/status'',
       cr_Query = [],
       cr_Body = None\<rparr>
      decodeGetTieringStatusResponse"

definition sendListConditions ::
  "rest_client \<Rightarrow> condition_params \<Rightarrow> client_error + ((RestCondition, ConditionCounts) counted) response" where
  "sendListConditions C params =
     (let q = params in
     do_request C
      \<lparr>cr_Method = ''GET'', cr_Path = ''/conditions'',
       cr_Query = query_param ''severity'' (nq_Severity q)
         @ query_param ''code'' (nq_Code q)
         @ query_param ''nodeId'' (nq_NodeId q)
         @ query_param ''database'' (nq_Database q)
         @ query_param ''table'' (nq_Table q)
         @ query_param ''partitionId'' (nq_PartitionId q),
       cr_Body = None\<rparr>
      decodeListConditionsResponse)"

definition sendListDetachedParts ::
  "rest_client \<Rightarrow> (string \<times> string \<times> detached_params) \<Rightarrow> client_error + ((RestDetachedPart, DetachedPartCounts) table_counted) response" where
  "sendListDetachedParts C params =
     (case params of (x_database, x_table, q) \<Rightarrow>
     and_then (encode_part C x_database) (\<lambda>p_database.
     and_then (encode_part C x_table) (\<lambda>p_table.
     do_request C
      \<lparr>cr_Method = ''GET'', cr_Path = ''/tables/'' @ p_database @ ''/'' @ p_table @ ''/detached-parts'',
       cr_Query = query_param ''nodeId'' (eq_NodeId q)
         @ query_param ''shard'' (eq_Shard q)
         @ query_param ''replica'' (eq_Replica q)
         @ query_param ''partitionId'' (eq_PartitionId q)
         @ query_param ''partName'' (eq_PartName q)
         @ query_param ''disk'' (eq_Disk q)
         @ query_param ''reason'' (eq_Reason q),
       cr_Body = None\<rparr>
      decodeListDetachedPartsResponse)))"

definition sendListMutations ::
  "rest_client \<Rightarrow> mutation_params \<Rightarrow> client_error + ((RestMutation, MutationCounts) counted) response" where
  "sendListMutations C params =
     (let q = params in
     do_request C
      \<lparr>cr_Method = ''GET'', cr_Path = ''/operations/mutations'',
       cr_Query = query_param ''nodeId'' (mq_NodeId q)
         @ query_param ''database'' (mq_Database q)
         @ query_param ''table'' (mq_Table q)
         @ query_param ''mutationId'' (mq_MutationId q)
         @ query_param ''done'' (map_option (cl_Bool C) (mq_Done q))
         @ query_param ''failed'' (map_option (cl_Bool C) (mq_Failed q)),
       cr_Body = None\<rparr>
      decodeListMutationsResponse)"

definition sendListNodes ::
  "rest_client \<Rightarrow> string option \<Rightarrow> client_error + (RestNode listing) response" where
  "sendListNodes C params =
     (let x_nodeId = params in
     do_request C
      \<lparr>cr_Method = ''GET'', cr_Path = ''/nodes'',
       cr_Query = query_param ''nodeId'' x_nodeId,
       cr_Body = None\<rparr>
      decodeListNodesResponse)"

definition sendListOperations ::
  "rest_client \<Rightarrow> operation_params \<Rightarrow> client_error + ((RestOperation, OperationCounts) counted) response" where
  "sendListOperations C params =
     (let q = params in
     do_request C
      \<lparr>cr_Method = ''GET'', cr_Path = ''/operations'',
       cr_Query = query_param ''kind'' (oq_Kind q)
         @ query_param ''nodeId'' (oq_NodeId q)
         @ query_param ''database'' (oq_Database q)
         @ query_param ''table'' (oq_Table q)
         @ query_param ''partitionId'' (oq_PartitionId q),
       cr_Body = None\<rparr>
      decodeListOperationsResponse)"

definition sendListPartEvents ::
  "rest_client \<Rightarrow> event_params \<Rightarrow> client_error + ((RestPartEvent, PartEventCounts) counted) response" where
  "sendListPartEvents C params =
     (let q = params in
     do_request C
      \<lparr>cr_Method = ''GET'', cr_Path = ''/part-events'',
       cr_Query = query_param ''nodeId'' (vq_NodeId q)
         @ query_param ''database'' (vq_Database q)
         @ query_param ''table'' (vq_Table q)
         @ query_param ''partitionId'' (vq_PartitionId q)
         @ query_param ''partName'' (vq_PartName q)
         @ query_param ''eventType'' (vq_EventType q)
         @ query_param ''from'' (map_option (cl_Time C) (vq_From q))
         @ query_param ''to'' (map_option (cl_Time C) (vq_To q)),
       cr_Body = None\<rparr>
      decodeListPartEventsResponse)"

definition sendListReplicationQueue ::
  "rest_client \<Rightarrow> queue_params \<Rightarrow> client_error + ((RestQueueItem, ReplicationQueueCounts) counted) response" where
  "sendListReplicationQueue C params =
     (let q = params in
     do_request C
      \<lparr>cr_Method = ''GET'', cr_Path = ''/operations/replication-queue'',
       cr_Query = query_param ''nodeId'' (uq_NodeId q)
         @ query_param ''database'' (uq_Database q)
         @ query_param ''table'' (uq_Table q)
         @ query_param ''type'' (uq_Type q)
         @ query_param ''currentlyExecuting'' (map_option (cl_Bool C) (uq_CurrentlyExecuting q))
         @ query_param ''hasException'' (map_option (cl_Bool C) (uq_HasException q)),
       cr_Body = None\<rparr>
      decodeListReplicationQueueResponse)"

definition sendListStorageDisks ::
  "rest_client \<Rightarrow> disk_params \<Rightarrow> client_error + (RestStorageDisk listing) response" where
  "sendListStorageDisks C params =
     (let q = params in
     do_request C
      \<lparr>cr_Method = ''GET'', cr_Path = ''/storage/disks'',
       cr_Query = query_param ''nodeId'' (dq_NodeId q)
         @ query_param ''disk'' (dq_Disk q)
         @ query_param ''type'' (dq_Type q)
         @ query_param ''broken'' (map_option (cl_Bool C) (dq_Broken q)),
       cr_Body = None\<rparr>
      decodeListStorageDisksResponse)"

definition sendListTableColumns ::
  "rest_client \<Rightarrow> (string \<times> string \<times> string option \<times> string option \<times> string option) \<Rightarrow> client_error + (RestNodeColumns columns_listing) response" where
  "sendListTableColumns C params =
     (case params of (x_database, x_table, x_nodeId, x_kind, x_name) \<Rightarrow>
     and_then (encode_part C x_database) (\<lambda>p_database.
     and_then (encode_part C x_table) (\<lambda>p_table.
     do_request C
      \<lparr>cr_Method = ''GET'', cr_Path = ''/tables/'' @ p_database @ ''/'' @ p_table @ ''/columns'',
       cr_Query = query_param ''nodeId'' x_nodeId
         @ query_param ''kind'' x_kind
         @ query_param ''name'' x_name,
       cr_Body = None\<rparr>
      decodeListTableColumnsResponse)))"

definition sendListTablePartitions ::
  "rest_client \<Rightarrow> (string \<times> string \<times> partition_params) \<Rightarrow> client_error + (RestPartition listing) response" where
  "sendListTablePartitions C params =
     (case params of (x_database, x_table, q) \<Rightarrow>
     and_then (encode_part C x_database) (\<lambda>p_database.
     and_then (encode_part C x_table) (\<lambda>p_table.
     do_request C
      \<lparr>cr_Method = ''GET'', cr_Path = ''/tables/'' @ p_database @ ''/'' @ p_table @ ''/partitions'',
       cr_Query = query_param ''placement'' (pq_Placement q)
         @ query_param ''operation'' (pq_Operation q)
         @ query_param ''disk'' (pq_Disk q)
         @ query_param ''nodeId'' (pq_NodeId q)
         @ query_param ''shard'' (pq_Shard q)
         @ query_param ''replica'' (pq_Replica q)
         @ query_param ''partitionId'' (pq_PartitionId q)
         @ query_param ''hasConditions'' (map_option (cl_Bool C) (pq_HasConditions q)),
       cr_Body = None\<rparr>
      decodeListTablePartitionsResponse)))"

definition sendListTableParts ::
  "rest_client \<Rightarrow> (string \<times> string \<times> part_params) \<Rightarrow> client_error + (TablePart table_listing) response" where
  "sendListTableParts C params =
     (case params of (x_database, x_table, q) \<Rightarrow>
     and_then (encode_part C x_database) (\<lambda>p_database.
     and_then (encode_part C x_table) (\<lambda>p_table.
     do_request C
      \<lparr>cr_Method = ''GET'', cr_Path = ''/tables/'' @ p_database @ ''/'' @ p_table @ ''/parts'',
       cr_Query = query_param ''nodeId'' (aq_NodeId q)
         @ query_param ''shard'' (aq_Shard q)
         @ query_param ''replica'' (aq_Replica q)
         @ query_param ''partitionId'' (aq_PartitionId q)
         @ query_param ''partName'' (aq_PartName q)
         @ query_param ''disk'' (aq_Disk q)
         @ query_param ''active'' (map_option (cl_Bool C) (aq_Active q))
         @ query_param ''minBytesOnDisk'' (aq_MinBytesOnDisk q)
         @ query_param ''maxBytesOnDisk'' (aq_MaxBytesOnDisk q),
       cr_Body = None\<rparr>
      decodeListTablePartsResponse)))"

definition sendListTables ::
  "rest_client \<Rightarrow> table_params \<Rightarrow> client_error + (TableListItem listing) response" where
  "sendListTables C params =
     (let q = params in
     do_request C
      \<lparr>cr_Method = ''GET'', cr_Path = ''/tables'',
       cr_Query = query_param ''database'' (tq_Database q)
         @ query_param ''table'' (tq_Table q)
         @ query_param ''engine'' (tq_Engine q)
         @ query_param ''storagePolicy'' (tq_StoragePolicy q)
         @ query_param ''hasPartitions'' (map_option (cl_Bool C) (tq_HasPartitions q))
         @ query_param ''hasConditions'' (map_option (cl_Bool C) (tq_HasConditions q)),
       cr_Body = None\<rparr>
      decodeListTablesResponse)"

definition sendPauseTiering ::
  "rest_client \<Rightarrow> client_error + TieringStatus response" where
  "sendPauseTiering C =
     do_request C
      \<lparr>cr_Method = ''POST'', cr_Path = ''/tiering/pause'',
       cr_Query = [],
       cr_Body = None\<rparr>
      decodePauseTieringResponse"

definition sendResumeTiering ::
  "rest_client \<Rightarrow> client_error + TieringStatus response" where
  "sendResumeTiering C =
     do_request C
      \<lparr>cr_Method = ''POST'', cr_Path = ''/tiering/resume'',
       cr_Query = [],
       cr_Body = None\<rparr>
      decodeResumeTieringResponse"

definition sendRetryTieringPartition ::
  "rest_client \<Rightarrow> string \<Rightarrow> (string \<times> string \<times> string \<times> string) \<Rightarrow> client_error + TieringHistoryEntry response" where
  "sendRetryTieringPartition C request params =
     (case params of (x_database, x_table, x_partitionId, x_nodeId) \<Rightarrow>
     and_then (encode_part C x_database) (\<lambda>p_database.
     and_then (encode_part C x_table) (\<lambda>p_table.
     and_then (encode_part C x_partitionId) (\<lambda>p_partitionId.
     do_request C
      \<lparr>cr_Method = ''POST'', cr_Path = ''/tiering/tables/'' @ p_database @ ''/'' @ p_table @ ''/partitions/'' @ p_partitionId @ ''/retry'',
       cr_Query = query_param ''nodeId'' (Some x_nodeId),
       cr_Body = encodeRetryTieringPartitionRequest C request\<rparr>
      decodeRetryTieringPartitionResponse))))"

section \<open>What gets through\<close>

text \<open>What the client sees of an answer, with \<open>M\<close> the parse of a media type.\<close>

definition received ::
  "(string \<Rightarrow> string option) \<Rightarrow> http_response \<Rightarrow> http_reply" where
  "received M w =
     \<lparr>rp_Status = rsp_Status w,
      rp_Media = (case map_of (rsp_Header w) ''Content-Type'' of None \<Rightarrow> None | Some t \<Rightarrow> M t),
      rp_Document = (case rsp_Body w of JsonBody doc \<Rightarrow> Some doc | _ \<Rightarrow> None)\<rparr>"

definition media_types :: "(string \<Rightarrow> string option) \<Rightarrow> bool" where
  "media_types M \<longleftrightarrow> M json_type = Some ''application/json'' \<and> M problem_type = Some ''application/problem+json''"

text \<open>A response that a document can carry and that validates.\<close>

definition carried ::
  "jx_env \<Rightarrow> int set \<Rightarrow> ('r \<Rightarrow> bool) \<Rightarrow> ('r \<Rightarrow> verr option) \<Rightarrow> 'r response \<Rightarrow> bool" where
  "carried J codes body_ok chk r \<longleftrightarrow> fits codes r \<and>
     (case problem_of r of
        Some (code, p) \<Rightarrow> ProblemDetails_ok J p \<and> ProblemDetails_Validate p = None
      | None \<Rightarrow> (case r of RespOK x \<Rightarrow> body_ok x \<and> chk x = None | _ \<Rightarrow> False))"

definition delivers ::
  "(string \<Rightarrow> string option) \<Rightarrow> jx_env \<Rightarrow> (jx_env \<Rightarrow> 'r response \<Rightarrow> server_error + http_response) \<Rightarrow>
   (jx_env \<Rightarrow> http_reply \<Rightarrow> client_error + 'r response) \<Rightarrow> ('r response \<Rightarrow> bool) \<Rightarrow> bool" where
  "delivers M J enc dec good \<longleftrightarrow>
     (\<forall>r. good r \<longrightarrow> (\<exists>w. enc J r = Inr w \<and> dec J (received M w) = Inr r))"

lemma alias_roundtrip:
  "ProblemDetails_ok J p \<Longrightarrow> Problem_Decode J (Problem_Encode J p) = Inr p"
  by (simp add: Problem_Decode_def Problem_Encode_def ProblemDetails_roundtrip)

text \<open>A decoder that reads what an encoder writes.\<close>

locale exchange = encoder J codes ok body enc
  for J :: jx_env and codes :: "int set" and ok :: int and body :: "'r \<Rightarrow> jx"
    and enc :: "jx_env \<Rightarrow> 'r response \<Rightarrow> server_error + http_response" +
  fixes dec :: "jx_env \<Rightarrow> http_reply \<Rightarrow> client_error + 'r response"
    and body_ok :: "'r \<Rightarrow> bool" and chk :: "'r \<Rightarrow> verr option"
  assumes decodes_body: "body_ok x \<Longrightarrow> chk x = None \<Longrightarrow>
      dec J \<lparr>rp_Status = ok, rp_Media = Some ''application/json'', rp_Document = Some (body x)\<rparr> = Inr (RespOK x)"
    and decodes_problem: "problem_of r = Some (code, p) \<Longrightarrow> code \<in> codes \<Longrightarrow>
      ProblemDetails_ok J p \<Longrightarrow> ProblemDetails_Validate p = None \<Longrightarrow>
      dec J \<lparr>rp_Status = code, rp_Media = Some ''application/problem+json'', rp_Document = Some (Problem_Encode J p)\<rparr> = Inr r"
begin

lemma gets_through:
  assumes "media_types M"
  shows "delivers M J enc dec (carried J codes body_ok chk)"
  unfolding delivers_def
proof (intro allI impI)
  fix r assume r: "carried J codes body_ok chk r"
  show "\<exists>w. enc J r = Inr w \<and> dec J (received M w) = Inr r"
  proof (cases "problem_of r")
    case None
    with r obtain x where "r = RespOK x" "body_ok x" "chk x = None"
      by (cases r) (auto simp: carried_def problem_of_def)
    then show ?thesis
      using assms by (auto simp: encodes_body received_def write_json_def media_types_def decodes_body)
  next
    case (Some q)
    with r obtain code p where "problem_of r = Some (code, p)" "code \<in> codes" "ProblemDetails_ok J p"
      "ProblemDetails_Validate p = None" by (cases q) (auto simp: carried_def fits_def)
    then show ?thesis
      using assms by (auto simp: encodes_problem received_def write_problem_def media_types_def decodes_problem)
  qed
qed

end

lemmas read_defs = read_body_def read_problem_def Problem_Validate_def alias_roundtrip

interpretation apply_tiering_partition_exchange: exchange J "{400, 404, 409, 500, 503}" 202 "TieringApplyResponse_Encode J" "encodeApplyTieringPartitionResponse" "decodeApplyTieringPartitionResponse" "TieringApplyResponse_ok J" "TieringApplyResponse_Validate" for J
  by unfold_locales
    (auto simp: decodeApplyTieringPartitionResponse_def read_defs TieringApplyResponse_roundtrip problem_of_def split: response.splits)

interpretation health_exchange: exchange J "{400, 500}" 200 "Health_Encode J" "encodeGetHealthResponse" "decodeGetHealthResponse" "\<lambda>x. True" "\<lambda>x. None" for J
  by unfold_locales
    (auto simp: decodeGetHealthResponse_def read_defs Health_roundtrip problem_of_def split: response.splits)

interpretation table_exchange: exchange J "{400, 404, 500, 503}" 200 "TableResponse_Encode J" "encodeGetTableResponse" "decodeGetTableResponse" "TableResponse_ok J" "TableResponse_Validate" for J
  by unfold_locales
    (auto simp: decodeGetTableResponse_def read_defs TableResponse_roundtrip problem_of_def split: response.splits)

interpretation tiering_history_exchange: exchange J "{400, 500, 503}" 200 "TieringHistoryResponse_Encode J" "encodeGetTieringHistoryResponse" "decodeGetTieringHistoryResponse" "TieringHistoryResponse_ok J" "TieringHistoryResponse_Validate" for J
  by unfold_locales
    (auto simp: decodeGetTieringHistoryResponse_def read_defs TieringHistoryResponse_roundtrip problem_of_def split: response.splits)

interpretation tiering_plan_exchange: exchange J "{400, 500, 503}" 200 "TieringPlanResponse_Encode J" "encodeGetTieringPlanResponse" "decodeGetTieringPlanResponse" "TieringPlanResponse_ok J" "TieringPlanResponse_Validate" for J
  by unfold_locales
    (auto simp: decodeGetTieringPlanResponse_def read_defs TieringPlanResponse_roundtrip problem_of_def split: response.splits)

interpretation tiering_status_exchange: exchange J "{400, 500, 503}" 200 "TieringStatus_Encode J" "encodeGetTieringStatusResponse" "decodeGetTieringStatusResponse" "TieringStatus_ok J" "TieringStatus_Validate" for J
  by unfold_locales
    (auto simp: decodeGetTieringStatusResponse_def read_defs TieringStatus_roundtrip problem_of_def split: response.splits)

interpretation conditions_exchange: exchange J "{400, 500, 503}" 200 "ConditionsResponse_Encode J" "encodeListConditionsResponse" "decodeListConditionsResponse" "ConditionsResponse_ok J" "ConditionsResponse_Validate" for J
  by unfold_locales
    (auto simp: decodeListConditionsResponse_def read_defs ConditionsResponse_roundtrip problem_of_def split: response.splits)

interpretation detached_parts_exchange: exchange J "{400, 404, 500, 503}" 200 "DetachedPartsResponse_Encode J" "encodeListDetachedPartsResponse" "decodeListDetachedPartsResponse" "DetachedPartsResponse_ok J" "DetachedPartsResponse_Validate" for J
  by unfold_locales
    (auto simp: decodeListDetachedPartsResponse_def read_defs DetachedPartsResponse_roundtrip problem_of_def split: response.splits)

interpretation mutations_exchange: exchange J "{400, 500, 503}" 200 "MutationsResponse_Encode J" "encodeListMutationsResponse" "decodeListMutationsResponse" "MutationsResponse_ok J" "MutationsResponse_Validate" for J
  by unfold_locales
    (auto simp: decodeListMutationsResponse_def read_defs MutationsResponse_roundtrip problem_of_def split: response.splits)

interpretation nodes_exchange: exchange J "{400, 500, 503}" 200 "NodesResponse_Encode J" "encodeListNodesResponse" "decodeListNodesResponse" "NodesResponse_ok J" "NodesResponse_Validate" for J
  by unfold_locales
    (auto simp: decodeListNodesResponse_def read_defs NodesResponse_roundtrip problem_of_def split: response.splits)

interpretation operations_exchange: exchange J "{400, 500, 503}" 200 "OperationsResponse_Encode J" "encodeListOperationsResponse" "decodeListOperationsResponse" "OperationsResponse_ok J" "OperationsResponse_Validate" for J
  by unfold_locales
    (auto simp: decodeListOperationsResponse_def read_defs OperationsResponse_roundtrip problem_of_def split: response.splits)

interpretation part_events_exchange: exchange J "{400, 500, 503}" 200 "PartEventsResponse_Encode J" "encodeListPartEventsResponse" "decodeListPartEventsResponse" "PartEventsResponse_ok J" "PartEventsResponse_Validate" for J
  by unfold_locales
    (auto simp: decodeListPartEventsResponse_def read_defs PartEventsResponse_roundtrip problem_of_def split: response.splits)

interpretation replication_queue_exchange: exchange J "{400, 500, 503}" 200 "ReplicationQueueResponse_Encode J" "encodeListReplicationQueueResponse" "decodeListReplicationQueueResponse" "ReplicationQueueResponse_ok J" "ReplicationQueueResponse_Validate" for J
  by unfold_locales
    (auto simp: decodeListReplicationQueueResponse_def read_defs ReplicationQueueResponse_roundtrip problem_of_def split: response.splits)

interpretation storage_disks_exchange: exchange J "{400, 500, 503}" 200 "StorageDisksResponse_Encode J" "encodeListStorageDisksResponse" "decodeListStorageDisksResponse" "StorageDisksResponse_ok J" "StorageDisksResponse_Validate" for J
  by unfold_locales
    (auto simp: decodeListStorageDisksResponse_def read_defs StorageDisksResponse_roundtrip problem_of_def split: response.splits)

interpretation table_columns_exchange: exchange J "{400, 404, 500, 503}" 200 "TableColumnsResponse_Encode J" "encodeListTableColumnsResponse" "decodeListTableColumnsResponse" "TableColumnsResponse_ok J" "TableColumnsResponse_Validate" for J
  by unfold_locales
    (auto simp: decodeListTableColumnsResponse_def read_defs TableColumnsResponse_roundtrip problem_of_def split: response.splits)

interpretation table_partitions_exchange: exchange J "{400, 404, 500, 503}" 200 "TablePartitionsResponse_Encode J" "encodeListTablePartitionsResponse" "decodeListTablePartitionsResponse" "TablePartitionsResponse_ok J" "TablePartitionsResponse_Validate" for J
  by unfold_locales
    (auto simp: decodeListTablePartitionsResponse_def read_defs TablePartitionsResponse_roundtrip problem_of_def split: response.splits)

interpretation table_parts_exchange: exchange J "{400, 404, 500, 503}" 200 "TablePartsResponse_Encode J" "encodeListTablePartsResponse" "decodeListTablePartsResponse" "TablePartsResponse_ok J" "TablePartsResponse_Validate" for J
  by unfold_locales
    (auto simp: decodeListTablePartsResponse_def read_defs TablePartsResponse_roundtrip problem_of_def split: response.splits)

interpretation tables_exchange: exchange J "{400, 500, 503}" 200 "TablesResponse_Encode J" "encodeListTablesResponse" "decodeListTablesResponse" "TablesResponse_ok J" "TablesResponse_Validate" for J
  by unfold_locales
    (auto simp: decodeListTablesResponse_def read_defs TablesResponse_roundtrip problem_of_def split: response.splits)

interpretation pause_tiering_exchange: exchange J "{400, 500, 503}" 202 "TieringStatus_Encode J" "encodePauseTieringResponse" "decodePauseTieringResponse" "TieringStatus_ok J" "TieringStatus_Validate" for J
  by unfold_locales
    (auto simp: decodePauseTieringResponse_def read_defs TieringStatus_roundtrip problem_of_def split: response.splits)

interpretation resume_tiering_exchange: exchange J "{400, 500, 503}" 202 "TieringStatus_Encode J" "encodeResumeTieringResponse" "decodeResumeTieringResponse" "TieringStatus_ok J" "TieringStatus_Validate" for J
  by unfold_locales
    (auto simp: decodeResumeTieringResponse_def read_defs TieringStatus_roundtrip problem_of_def split: response.splits)

interpretation retry_tiering_partition_exchange: exchange J "{400, 404, 409, 500, 503}" 202 "TieringApplyResponse_Encode J" "encodeRetryTieringPartitionResponse" "decodeRetryTieringPartitionResponse" "TieringApplyResponse_ok J" "TieringApplyResponse_Validate" for J
  by unfold_locales
    (auto simp: decodeRetryTieringPartitionResponse_def read_defs TieringApplyResponse_roundtrip problem_of_def split: response.splits)

end
