(* ===== verification/ApiService.thy ===== *)
theory ApiService
  imports WebServer RestClient
begin

text \<open>
  Properties that compose the parts of the API: what the client makes of the server's answers
  (\<open>oas_response_encoders_gen.go\<close> against \<open>oas_response_decoders_gen.go\<close>), and that what the planner decides under a
  checked configuration passes the client's validation (\<open>oas_validators_gen.go\<close>).
\<close>

section \<open>Responses\<close>

lemmas gets_through =
  apply_tiering_partition_exchange.gets_through
  health_exchange.gets_through
  table_exchange.gets_through
  tiering_history_exchange.gets_through
  tiering_plan_exchange.gets_through
  tiering_status_exchange.gets_through
  conditions_exchange.gets_through
  detached_parts_exchange.gets_through
  mutations_exchange.gets_through
  nodes_exchange.gets_through
  operations_exchange.gets_through
  part_events_exchange.gets_through
  replication_queue_exchange.gets_through
  storage_disks_exchange.gets_through
  table_columns_exchange.gets_through
  table_partitions_exchange.gets_through
  table_parts_exchange.gets_through
  tables_exchange.gets_through
  pause_tiering_exchange.gets_through
  resume_tiering_exchange.gets_through
  retry_tiering_partition_exchange.gets_through

text \<open>C15: What the server encodes, the client decodes: for each of the twenty-one operations, every response that
  documents can carry (times and addresses that survive their text, numbers in range, and content the client's
  validation accepts) goes through encoder and decoder unchanged, success and each declared problem alike, with the
  status and media type that the decoder dispatches on.\<close>

theorem responses_get_through:
  assumes "media_types M"
  shows "delivers M J encodeApplyTieringPartitionResponse decodeApplyTieringPartitionResponse
       (carried J {400, 404, 409, 500, 503} (TieringApplyResponse_ok J) TieringApplyResponse_Validate) \<and>
     delivers M J encodeGetHealthResponse decodeGetHealthResponse
       (carried J {400, 500} (\<lambda>x. True) (\<lambda>x. None)) \<and>
     delivers M J encodeGetTableResponse decodeGetTableResponse
       (carried J {400, 404, 500, 503} (TableResponse_ok J) TableResponse_Validate) \<and>
     delivers M J encodeGetTieringHistoryResponse decodeGetTieringHistoryResponse
       (carried J {400, 500, 503} (TieringHistoryResponse_ok J) TieringHistoryResponse_Validate) \<and>
     delivers M J encodeGetTieringPlanResponse decodeGetTieringPlanResponse
       (carried J {400, 500, 503} (TieringPlanResponse_ok J) TieringPlanResponse_Validate) \<and>
     delivers M J encodeGetTieringStatusResponse decodeGetTieringStatusResponse
       (carried J {400, 500, 503} (TieringStatus_ok J) TieringStatus_Validate) \<and>
     delivers M J encodeListConditionsResponse decodeListConditionsResponse
       (carried J {400, 500, 503} (ConditionsResponse_ok J) ConditionsResponse_Validate) \<and>
     delivers M J encodeListDetachedPartsResponse decodeListDetachedPartsResponse
       (carried J {400, 404, 500, 503} (DetachedPartsResponse_ok J) DetachedPartsResponse_Validate) \<and>
     delivers M J encodeListMutationsResponse decodeListMutationsResponse
       (carried J {400, 500, 503} (MutationsResponse_ok J) MutationsResponse_Validate) \<and>
     delivers M J encodeListNodesResponse decodeListNodesResponse
       (carried J {400, 500, 503} (NodesResponse_ok J) NodesResponse_Validate) \<and>
     delivers M J encodeListOperationsResponse decodeListOperationsResponse
       (carried J {400, 500, 503} (OperationsResponse_ok J) OperationsResponse_Validate) \<and>
     delivers M J encodeListPartEventsResponse decodeListPartEventsResponse
       (carried J {400, 500, 503} (PartEventsResponse_ok J) PartEventsResponse_Validate) \<and>
     delivers M J encodeListReplicationQueueResponse decodeListReplicationQueueResponse
       (carried J {400, 500, 503} (ReplicationQueueResponse_ok J) ReplicationQueueResponse_Validate) \<and>
     delivers M J encodeListStorageDisksResponse decodeListStorageDisksResponse
       (carried J {400, 500, 503} (StorageDisksResponse_ok J) StorageDisksResponse_Validate) \<and>
     delivers M J encodeListTableColumnsResponse decodeListTableColumnsResponse
       (carried J {400, 404, 500, 503} (TableColumnsResponse_ok J) TableColumnsResponse_Validate) \<and>
     delivers M J encodeListTablePartitionsResponse decodeListTablePartitionsResponse
       (carried J {400, 404, 500, 503} (TablePartitionsResponse_ok J) TablePartitionsResponse_Validate) \<and>
     delivers M J encodeListTablePartsResponse decodeListTablePartsResponse
       (carried J {400, 404, 500, 503} (TablePartsResponse_ok J) TablePartsResponse_Validate) \<and>
     delivers M J encodeListTablesResponse decodeListTablesResponse
       (carried J {400, 500, 503} (TablesResponse_ok J) TablesResponse_Validate) \<and>
     delivers M J encodePauseTieringResponse decodePauseTieringResponse
       (carried J {400, 500, 503} (TieringStatus_ok J) TieringStatus_Validate) \<and>
     delivers M J encodeResumeTieringResponse decodeResumeTieringResponse
       (carried J {400, 500, 503} (TieringStatus_ok J) TieringStatus_Validate) \<and>
     delivers M J encodeRetryTieringPartitionResponse decodeRetryTieringPartitionResponse
       (carried J {400, 404, 409, 500, 503} (TieringApplyResponse_ok J) TieringApplyResponse_Validate)"
  by (intro conjI gets_through [OF assms])

section \<open>Plans\<close>

lemma digits_show: "all_digits (show_u64 w)"
  by (simp add: all_digits_def show_u64_def show_nat_nonempty show_nat_digits)

lemma api_u64_valid [simp]: "UInt64String_Validate (api_u64 w) = None"
  by (simp add: UInt64String_Validate_def api_u64_def digits_show)

lemma texts_valid [simp]:
  "TieringPartitionStatus_Validate (status_text s) = None"
  "d \<noteq> DecisionUnset \<Longrightarrow> TieringDecision_Validate (decision_text d) = None"
  "Severity_Validate (severity_text v) = None"
  by (auto simp: TieringPartitionStatus_Validate_def status_text_def TieringDecision_Validate_def decision_text_def
      Severity_Validate_def severity_text_def split: Status.split Decision.split ConditionSeverity.split)

definition decided_under :: "TableObservation \<Rightarrow> Verdict \<Rightarrow> bool" where
  "decided_under obs v \<longleftrightarrow>
     v_Policy v = snapshotPolicy (obs_Settings obs) (obs_EffectiveMode obs) (obs_HotVolume obs) \<and>
     v_EffectiveMode v = obs_EffectiveMode obs \<and> v_Decision v \<noteq> DecisionUnset"

lemma base_decided [simp]: "decided_under obs (baseVerdict env obs p st d r cs) \<longleftrightarrow> d \<noteq> DecisionUnset"
  by (simp add: decided_under_def baseVerdict_def Let_def)

lemma held_decided [simp]:
  "decided_under obs (v\<lparr>v_Hold := h\<rparr>) \<longleftrightarrow> decided_under obs v"
  by (simp add: decided_under_def)

lemma partition_decided [simp]:
  "decided_under obs (decideTiered env obs p now)"
  "decided_under obs (decideSplit env obs p now)"
  "decided_under obs (decideHot env obs p now)"
  by (simp_all add: decideTiered_def decideSplit_def decideHot_def Let_def split: prod.split if_split)

lemma table_decided: "v \<in> set (DecideTable env obs now) \<Longrightarrow> decided_under obs v"
  by (auto simp: DecideTable_def DecidePartition_def Let_def split: if_splits)

text \<open>C27: A checked configuration is served as the document says: when a table is observed under settings that passed
  \<open>Validate\<close> (with an age, as a watch must have), every partition the planner decides is served as an item that the
  client's validation accepts, in whatever mode the version gate leaves it and whatever the decision is.\<close>

theorem decided_items_validate:
  assumes "ObserveTable env S node watch = Inr obs" and "w_Settings watch = Some settings"
    and "Validate_Tier settings path True = None" and "v \<in> set (DecideTable env obs now)"
  shows "TieringPartition_Validate (apiTieringPartition v) = None"
proof -
  obtain obs0 where m: "collectTableMetadata S (starts_table node watch settings (env_clock env)) = Inr obs0"
    and e: "obs_EffectiveMode obs = obs_EffectiveMode (applyVersionGate env obs0)" and s0: "obs_Settings obs = obs_Settings obs0"
    using observe_table_gate [OF assms(1)] assms(2) by (metis option.sel)
  have s: "obs_Settings obs = Clone settings" and e0: "obs_EffectiveMode obs0 = (if ts_Mode settings = '''' then ModePlan else ts_Mode settings)"
    using m s0 by (auto simp: collectTableMetadata_def starts_table_def split: sum.splits)
  have c: "ts_Mode settings = '''' \<or> Validate_Mode (ts_Mode settings) (path @ ''.mode'') = None"
    "Validate_OptimizeSide (ts_OptimizeOn settings) (path @ ''.optimizeOn'') = None"
    "Validate_ResplitStrategy (rs_Strategy (ts_Resplit settings)) (path @ ''.resplit.strategy'') = None"
    "Validate_AgeBasis (age_Basis (ts_Age settings)) (path @ ''.age.basis'') = None"
    using assms(3) by (auto simp: Validate_Tier_def Validate_Resplit_def Validate_Age_def check_def split: if_splits)
  have mode: "TieringMode_Validate (obs_EffectiveMode obs) = None"
    using c(1) e e0 by (auto simp: TieringMode_Validate_def applyVersionGate_def Validate_Mode_def validate_enum_def check_def
        enum_simps split: option.splits prod.splits if_splits)
  have "TieringAgeBasis_Validate (age_Basis (ts_Age settings)) = None"
    "TieringOptimizeSide_Validate (ts_OptimizeOn settings) = None"
    "TieringResplitStrategy_Validate (rs_Strategy (ts_Resplit settings)) = None"
    using c(2-4) by (auto simp: TieringAgeBasis_Validate_def TieringOptimizeSide_Validate_def TieringResplitStrategy_Validate_def
        Validate_OptimizeSide_def Validate_ResplitStrategy_def Validate_AgeBasis_def validate_enum_def check_def
        enum_simps split: if_splits)
  with mode table_decided [OF assms(4)] show ?thesis
    by (auto simp: TieringPartition_valid TieringPolicy_valid TieringDiskPart_valid TieringCondition_valid decided_under_def
        apiTieringPartition_def apiTieringPolicy_def apiTieringConditions_def snapshotPolicy_def s Clone_def optU64_def
        api_u64_def [symmetric] split: if_splits)
qed

section \<open>Witnesses\<close>

definition plain_media :: "string \<Rightarrow> string option" where
  "plain_media t = (if t = json_type then Some ''application/json'' else Some t)"

lemma plain_media_types: "media_types plain_media"
  by (simp add: media_types_def plain_media_def json_type_def problem_type_def)

theorem responses_get_through_witness:
  "\<exists>w. encodeGetHealthResponse (we_Jx quiet_web) GetHealth = Inr w \<and>
     decodeGetHealthResponse (we_Jx quiet_web) (received plain_media w) = Inr GetHealth"
proof -
  have "delivers plain_media J encodeGetHealthResponse decodeGetHealthResponse
      (carried J {400, 500} (\<lambda>x. True) (\<lambda>x. None))" for J
    using responses_get_through [OF plain_media_types, of J] by blast
  moreover have "carried J {400, 500} (\<lambda>x. True) (\<lambda>x. None) GetHealth" for J
    by (simp add: carried_def GetHealth_def problem_of_def)
  ultimately show ?thesis unfolding delivers_def by blast
qed

theorem decided_items_validate_witness:
  "\<exists>obs v. ObserveTable sample_env sample_server sample_node sample_watch = Inr obs \<and>
     v \<in> set (DecideTable sample_env obs 0) \<and> TieringPartition_Validate (apiTieringPartition v) = None"
proof -
  have "ParseLayout U d t '''' s = Inl (lit ''empty or tuple() partition key is not tierable'')" for U d t s
    by (simp add: ParseLayout_def Let_def trim_space_def trim_left.simps trim_right.simps)
  then have "observe_layout sample_env sample_server obs =
      Inl (lit ''empty or tuple() partition key is not tierable'')" if "obs_PartitionKey obs = ''''" for obs
    using that by (simp add: observe_layout_def)
  then obtain obs where o: "ObserveTable sample_env sample_server sample_node sample_watch = Inr obs"
    "criticalConditions (obs_Conditions obs) \<noteq> []"
    by (simp add: ObserveTable_def sample_watch_def collectTableMetadata_def sample_tables
        sample_row_def starts_table_def applyVersionGate_def sample_major_minor Let_def
        sample_engine sample_mode add_condition_def criticalConditions_def NewCondition_def)
  then have "DecideTable sample_env obs 0 \<noteq> []" by (simp add: DecideTable_def Let_def)
  then obtain v where v: "v \<in> set (DecideTable sample_env obs 0)" using last_in_set by blast
  have "Validate_Tier sample_settings '''' True = None"
    by code_simp
  from decided_items_validate [OF o(1) _ this v] v o(1) show ?thesis
    by (auto simp: sample_watch_def)
qed

end
