(* ===== verification/Wire.thy ===== *)
theory Wire
  imports ApiService
begin

text \<open>
  The generated client against the generated server (\<open>api/rest\<close>): a call becomes a request on the wire, the server
  routes, decodes and answers it, and the client decodes the answer. The wire is the URL's path as \<open>net/url\<close> parses
  it, an encoding of the query, the text of a body, and the parse of a media type. What is assumed of the libraries at
  the two ends is \<open>wired\<close>.
\<close>

section \<open>Paths\<close>

text \<open>\<open>net/url\<close>: the default encoding of a path, and the path and raw path of the text of a path.\<close>

definition path_plain :: "char \<Rightarrow> bool" where
  "path_plain c \<longleftrightarrow>
     is_digit c \<or> (97 \<le> byte c \<and> byte c \<le> 122) \<or> (65 \<le> byte c \<and> byte c \<le> 90) \<or> c \<in> set ''-_.~$&+,/:;=@''"

definition upper_hex :: "nat \<Rightarrow> char" where
  "upper_hex n = char_of (if n < 10 then 48 + n else 55 + n)"

fun path_escape :: "string \<Rightarrow> string" where
  "path_escape [] = []"
| "path_escape (c # s) =
     (if path_plain c then [c] else [CHR ''%'', upper_hex (byte c div 16), upper_hex (byte c mod 16)]) @ path_escape s"

definition set_path :: "string \<Rightarrow> (string \<times> string) option" where
  "set_path p = (case pathUnescape p of None \<Rightarrow> None | Some u \<Rightarrow> Some (u, if path_escape u = p then '''' else p))"

text \<open>A path in normal form: its escapes are in upper case and of bytes that need one.\<close>

definition unreserved :: "nat \<Rightarrow> bool" where
  "unreserved b \<longleftrightarrow>
     48 \<le> b \<and> b \<le> 57 \<or> 97 \<le> b \<and> b \<le> 122 \<or> 65 \<le> b \<and> b \<le> 90 \<or> b \<in> {45, 46, 95, 126}"

fun normal_path :: "string \<Rightarrow> bool" where
  "normal_path [] = True"
| "normal_path (c # s) =
     (if c \<noteq> CHR ''%'' then normal_path s
      else case s of
        a # b # r \<Rightarrow>
          (case (hex_val a, hex_val b) of
             (Some x, Some y) \<Rightarrow> a = upper_hex x \<and> b = upper_hex y \<and> \<not> unreserved (16 * x + y) \<and> normal_path r
           | _ \<Rightarrow> False)
      | _ \<Rightarrow> False)"

lemma unescape_plain: "CHR ''%'' \<notin> set f \<Longrightarrow> pathUnescape f = Some f"
  by (induction f) auto

lemma unescape_append: "pathUnescape a = Some x \<Longrightarrow> pathUnescape (a @ b) = map_option ((@) x) (pathUnescape b)"
proof (induction a arbitrary: x rule: pathUnescape.induct)
  case (2 c s)
  then show ?case
    by (cases "pathUnescape b") (auto split: if_splits list.splits option.splits)
qed (cases "pathUnescape b", auto)

lemma normal_append: "normal_path a \<Longrightarrow> normal_path (a @ b) = normal_path b"
  by (induction a rule: normal_path.induct) (auto split: if_splits list.splits option.splits)

lemma normal_plain: "CHR ''%'' \<notin> set f \<Longrightarrow> normal_path f"
  by (induction f) auto

lemma upper_hex_slash: "n < 16 \<Longrightarrow> upper_hex n \<noteq> CHR ''/''"
  by (auto simp: upper_hex_def char_of_eq_iff take_bit_eq_mod split: if_splits)

lemma escape_slashes: "count_list (path_escape s) (CHR ''/'') = count_list s (CHR ''/'')"
proof (induction s)
  case (Cons c s)
  have "upper_hex (byte c div 16) \<noteq> CHR ''/''" "upper_hex (byte c mod 16) \<noteq> CHR ''/''"
    using nat_of_char_less_256 [of c] by (simp_all add: upper_hex_slash less_mult_imp_div_less)
  moreover have "path_plain (CHR ''/'')" by (simp add: path_plain_def)
  ultimately show ?case using Cons by auto
qed simp

text \<open>A path made of fixed pieces and arguments.\<close>

fun weave :: "string list \<Rightarrow> string list \<Rightarrow> string" where
  "weave (f # fs) (a # as) = f @ a @ weave fs as"
| "weave fs as = concat fs"

lemma weave_unescape:
  "length fs = Suc (length ss) \<Longrightarrow> \<forall>f \<in> set fs. CHR ''%'' \<notin> set f \<Longrightarrow> \<forall>s \<in> set ss. pathUnescape (enc s) = Some s \<Longrightarrow>
   pathUnescape (weave fs (map enc ss)) = Some (weave fs ss)"
proof (induction ss arbitrary: fs)
  case Nil
  then show ?case by (cases fs) (auto simp: unescape_plain)
next
  case (Cons s ss)
  then obtain f fs' where f: "fs = f # fs'" by (cases fs) auto
  with Cons have "pathUnescape (weave fs' (map enc ss)) = Some (weave fs' ss)" by auto
  then have "pathUnescape (enc s @ weave fs' (map enc ss)) = Some (s @ weave fs' ss)"
    using Cons.prems by (simp add: unescape_append)
  moreover have "pathUnescape f = Some f" using Cons.prems f by (simp add: unescape_plain)
  ultimately show ?case by (simp add: f unescape_append)
qed

lemma weave_normal:
  "length fs = Suc (length as) \<Longrightarrow> \<forall>f \<in> set fs. CHR ''%'' \<notin> set f \<Longrightarrow> \<forall>a \<in> set as. normal_path a \<Longrightarrow> normal_path (weave fs as)"
proof (induction as arbitrary: fs)
  case Nil
  then show ?case by (cases fs) (auto simp: normal_plain)
next
  case (Cons a as)
  then obtain f fs' where "fs = f # fs'" by (cases fs) auto
  with Cons show ?case by (auto simp: normal_append normal_plain)
qed

lemma weave_slashes:
  "length fs = Suc (length as) \<Longrightarrow>
   count_list (weave fs as) c = sum_list (map (\<lambda>f. count_list f c) fs) + sum_list (map (\<lambda>a. count_list a c) as)"
proof (induction as arbitrary: fs)
  case Nil
  then show ?case by (cases fs) auto
next
  case (Cons a as)
  then obtain f fs' where "fs = f # fs'" by (cases fs) auto
  with Cons show ?case by auto
qed

lemma no_slash_count: "sum_list (map (\<lambda>a. count_list a c) as) = 0 \<longleftrightarrow> (\<forall>a \<in> set as. c \<notin> set a)"
  by (auto simp: count_list_0_iff)

text \<open>The path the server routes, and its arguments: they hold no slash, and each decodes to what was sent.\<close>

lemma woven_path:
  assumes len: "length fs = Suc (length ss)" and fs: "\<forall>f \<in> set fs. CHR ''%'' \<notin> set f"
    and enc: "\<And>s. CHR ''/'' \<notin> set (enc s) \<and> pathUnescape (enc s) = Some s \<and> normal_path (enc s)"
    and N: "\<And>p. normal_path p \<Longrightarrow> N p = Some p"
    and sp: "set_path (weave fs (map enc ss)) = Some (path, raw)"
  obtains as esc where "routed_path N path raw = (weave fs as, esc)" and "length as = length ss"
    and "\<forall>a \<in> set as. CHR ''/'' \<notin> set a" and "map (\<lambda>a. if esc then pathUnescape a else Some a) as = map Some ss"
proof -
  let ?p = "weave fs (map enc ss)"
  have u: "pathUnescape ?p = Some (weave fs ss)" by (rule weave_unescape [OF len fs]) (simp add: enc)
  show thesis
  proof (cases "path_escape (weave fs ss) = ?p")
    case True
    have "count_list (weave fs ss) (CHR ''/'') = count_list ?p (CHR ''/'')"
      using escape_slashes [of "weave fs ss"] True by simp
    then have "sum_list (map (\<lambda>a. count_list a (CHR ''/'')) ss) = sum_list (map (\<lambda>a. count_list a (CHR ''/'')) (map enc ss))"
      using len by (simp add: weave_slashes)
    moreover have "sum_list (map (\<lambda>a. count_list a (CHR ''/'')) (map enc ss)) = 0"
      unfolding no_slash_count using enc by auto
    ultimately have "sum_list (map (\<lambda>a. count_list a (CHR ''/'')) ss) = 0" by (rule trans)
    then have free: "\<forall>a \<in> set ss. CHR ''/'' \<notin> set a" unfolding no_slash_count .
    show thesis
      by (rule that [of ss False]) (use sp u True free in \<open>auto simp: set_path_def routed_path_def\<close>)
  next
    case False
    have n: "normal_path ?p" by (rule weave_normal) (use len fs enc in auto)
    have "?p \<noteq> ''''" using False u by (metis option.inject path_escape.simps(1) pathUnescape.simps(1))
    then have r: "routed_path N path raw = (?p, CHR ''%'' \<in> set ?p)"
      using sp u False N [OF n] by (auto simp: set_path_def routed_path_def)
    have part: "CHR ''%'' \<notin> set (enc s)" if "CHR ''%'' \<notin> set ?p" "s \<in> set ss" for s
      using that len
    proof (induction ss arbitrary: fs)
      case (Cons t ts)
      then obtain f fs' where "fs = f # fs'" by (cases fs) auto
      with Cons show ?case by auto
    qed simp
    then have plain: "CHR ''%'' \<notin> set ?p \<Longrightarrow> s \<in> set ss \<Longrightarrow> enc s = s" for s
      using unescape_plain [of "enc s"] enc by fastforce
    show thesis
      by (rule that [of "map enc ss" "CHR ''%'' \<in> set ?p"]) (use r enc plain in \<open>auto simp: r\<close>)
  qed
qed

section \<open>The wire\<close>

text \<open>The encoding of a query, the text of a document, and the parse of a media type.\<close>

record wire =
  wr_Query :: "(string \<times> string) list \<Rightarrow> string"
  wr_Text :: "jx \<Rightarrow> string"
  wr_Media :: "string \<Rightarrow> string option"

definition body_of :: "wire \<Rightarrow> jx option \<Rightarrow> request_body" where
  "body_of X doc =
     (case doc of
        None \<Rightarrow> \<lparr>rb_ContentType = None, rb_ContentLength = 0, rb_Read = Some '''', rb_Document = None\<rparr>
      | Some d \<Rightarrow> \<lparr>rb_ContentType = Some ''application/json'', rb_ContentLength = int (length (wr_Text X d)),
          rb_Read = Some (wr_Text X d), rb_Document = Some d\<rparr>)"

definition request_of :: "wire \<Rightarrow> string \<Rightarrow> client_request \<Rightarrow> http_request option" where
  "request_of X mount cr =
     (let p = mount @ cr_Path cr; query = wr_Query X (cr_Query cr) in
      case set_path p of
        None \<Rightarrow> None
      | Some (path, raw) \<Rightarrow> Some
          \<lparr>req_Method = cr_Method cr, req_Path = path, req_RawPath = raw, req_EscapedPath = p, req_Query = query,
           req_URI = (if query = '''' then p else p @ ''?'' @ query), req_CORSMethod = '''',
           req_Body = body_of X (cr_Body cr)\<rparr>)"

definition over_wire :: "wire \<Rightarrow> 's rest_server \<Rightarrow> 's \<Rightarrow> client_request \<Rightarrow> gotext + http_reply" where
  "over_wire X S st cr =
     (case request_of X (sv_Prefix S) cr of
        None \<Rightarrow> Inl (ExtErr ''parse url'')
      | Some r \<Rightarrow> Inr (received (wr_Media X) (fst (serve_rest S r st))))"

text \<open>A client whose transport is a server in a given state.\<close>

definition connect :: "wire \<Rightarrow> 's rest_server \<Rightarrow> 's \<Rightarrow> rest_client \<Rightarrow> rest_client" where
  "connect X S st C = C\<lparr>cl_Do := over_wire X S st\<rparr>"

definition path_part :: "rest_client \<Rightarrow> string \<Rightarrow> string" where
  "path_part C s = (case cl_Path C s of Inl e \<Rightarrow> '''' | Inr p \<Rightarrow> p)"

text \<open>What is assumed of the libraries: a path segment is encoded without slashes, in normal form, and unescapes to
  what it was; a path in normal form normalises to itself; the server finds in a query what the client put there; a
  boolean survives its text.\<close>

definition wired :: "wire \<Rightarrow> 's rest_server \<Rightarrow> rest_client \<Rightarrow> bool" where
  "wired X S C \<longleftrightarrow>
     sv_Prefix S = ''/api/v1'' \<and> cl_Jx C = sv_Jx S \<and> media_types (wr_Media X) \<and>
     (\<forall>s. \<exists>p. cl_Path C s = Inr p \<and> CHR ''/'' \<notin> set p \<and> pathUnescape p = Some s \<and> normal_path p) \<and>
     (\<forall>p. normal_path p \<longrightarrow> sv_Normalize S p = Some p) \<and>
     (\<forall>ps n. ue_query (sv_Uri S) (wr_Query X ps) n = map_option Inr (map_of ps n)) \<and>
     (\<forall>n s. ue_path (sv_Uri S) n s = Inr s) \<and> (\<forall>b. ue_bool (sv_Uri S) (cl_Bool C b) = Inr b) \<and>
     (\<forall>d. wr_Text X d \<noteq> '''')"

lemma connect_simps [simp]:
  "cl_Path (connect X S st C) = cl_Path C" "cl_Bool (connect X S st C) = cl_Bool C"
  "cl_Time (connect X S st C) = cl_Time C" "cl_Jx (connect X S st C) = cl_Jx C"
  "cl_Do (connect X S st C) = over_wire X S st"
  by (simp_all add: connect_def)

lemma wired_part:
  assumes "wired X S C"
  shows "encode_part (connect X S st C) s = Inr (path_part C s)"
    and "CHR ''/'' \<notin> set (path_part C s) \<and> pathUnescape (path_part C s) = Some s \<and> normal_path (path_part C s)"
proof -
  obtain p where "cl_Path C s = Inr p" "CHR ''/'' \<notin> set p \<and> pathUnescape p = Some s \<and> normal_path p"
    using assms unfolding wired_def by metis
  then show "encode_part (connect X S st C) s = Inr (path_part C s)"
    and "CHR ''/'' \<notin> set (path_part C s) \<and> pathUnescape (path_part C s) = Some s \<and> normal_path (path_part C s)"
    by (simp_all add: encode_part_def path_part_def)
qed

lemma respond_received:
  "delivers M (sv_Jx S) enc dec good \<Longrightarrow> good response \<Longrightarrow>
   dec (sv_Jx S) (received M (fst (respond S r enc (Inr response, st)))) = Inr response"
  by (fastforce simp: delivers_def respond_def)

text \<open>The frame of every call: the request arrives at the handler of its path, and the answer comes back.\<close>

lemma sent:
  assumes w: "wired X S C"
    and path: "cr_Path cr = weave fs (map (path_part C) ss)" "length fs = Suc (length ss)" "\<forall>f \<in> set fs. CHR ''%'' \<notin> set f"
    and doc: "\<And>as esc. length as = length ss \<Longrightarrow> \<forall>a \<in> set as. CHR ''/'' \<notin> set a \<Longrightarrow>
      openapi_lookup openapi_paths esc (cr_Method cr) (weave fs as) = Handle op as esc"
    and call: "\<And>as esc r. map (\<lambda>a. if esc then pathUnescape a else Some a) as = map Some ss \<Longrightarrow>
      req_Query r = wr_Query X (cr_Query cr) \<Longrightarrow> req_Body r = body_of X (cr_Body cr) \<Longrightarrow>
      call_handler S op as esc r st = respond S r enc (Inr response, st')"
    and answer: "delivers (wr_Media X) (sv_Jx S) enc dec good" "good response"
  shows "do_request (connect X S st C) cr dec = Inr response"
proof -
  obtain f fs' where f: "fs = f # fs'" using path(2) by (cases fs) auto
  let ?fs = "(''/api/v1'' @ f) # fs'"
  have pre: "''/api/v1'' @ weave fs as = weave ?fs as" for as by (cases as) (simp_all add: f)
  have N: "\<And>p. normal_path p \<Longrightarrow> sv_Normalize S p = Some p" and prefix: "sv_Prefix S = ''/api/v1''"
    and J: "cl_Jx C = sv_Jx S" using w by (simp_all add: wired_def)
  have fs: "length ?fs = Suc (length ss)" "\<forall>f \<in> set ?fs. CHR ''%'' \<notin> set f" using path f by auto
  have "pathUnescape (weave ?fs (map (path_part C) ss)) = Some (weave ?fs ss)"
    using weave_unescape [OF fs] wired_part(2) [OF w] by blast
  then obtain p raw where sp: "set_path (weave ?fs (map (path_part C) ss)) = Some (p, raw)"
    by (simp add: set_path_def)
  obtain as esc where r: "routed_path (sv_Normalize S) p raw = (weave ?fs as, esc)" and as: "length as = length ss"
      "\<forall>a \<in> set as. CHR ''/'' \<notin> set a" "map (\<lambda>a. if esc then pathUnescape a else Some a) as = map Some ss"
    by (rule woven_path [OF fs wired_part(2) [OF w] N sp]) auto
  have "cutPrefix ''/api/v1'' (weave ?fs as) = Some (weave fs as)"
    unfolding pre [symmetric] by (simp add: cutPrefix_def has_prefix_def)
  then have serve: "ServeHTTP (sv_Normalize S) ''/api/v1'' (cr_Method cr) p raw = Handle op as esc"
    using ServeHTTP_routed [OF r] doc [OF as(1,2)] by simp
  have "set_path (sv_Prefix S @ cr_Path cr) = Some (p, raw)" using sp pre [of "map (path_part C) ss"] by (simp add: prefix path(1))
  then obtain rq where rq: "request_of X (sv_Prefix S) cr = Some rq" "req_Method rq = cr_Method cr" "req_Path rq = p"
      "req_RawPath rq = raw" "req_Query rq = wr_Query X (cr_Query cr)" "req_Body rq = body_of X (cr_Body cr)"
    by (simp add: request_of_def Let_def)
  have "fst (serve_rest S rq st) = fst (respond S rq enc (Inr response, st'))"
    using serve call [OF as(3) rq(5,6)] by (simp add: serve_rest_def rq prefix)
  then show ?thesis
    using respond_received [OF answer] by (simp add: do_request_def over_wire_def rq(1) J)
qed

section \<open>What the server reads of a call\<close>

definition taken ::
  "string \<Rightarrow> (string \<Rightarrow> gotext + 'a) \<Rightarrow> ('a \<Rightarrow> verr option) \<Rightarrow> string option \<Rightarrow> param_error + 'a option" where
  "taken n conv chk v =
     (case v of
        None \<Rightarrow> Inr None
      | Some s \<Rightarrow> (case conv s of
          Inl e \<Rightarrow> Inl (DecodeParamError n ''query'' (PUri e))
        | Inr x \<Rightarrow> (case chk x of Some e \<Rightarrow> Inl (DecodeParamError n ''query'' (PInvalid e)) | None \<Rightarrow> Inr (Some x))))"

text \<open>A time that survives its text.\<close>

definition time_sent :: "'s rest_server \<Rightarrow> rest_client \<Rightarrow> gtime option \<Rightarrow> bool" where
  "time_sent S C v \<longleftrightarrow> (\<forall>t. v = Some t \<longrightarrow> ue_time (sv_Uri S) (cl_Time C t) = Inr t)"

definition first_of :: "'a option \<Rightarrow> 'a option \<Rightarrow> 'a option" where
  "first_of v w = (case v of None \<Rightarrow> w | Some x \<Rightarrow> Some x)"

lemma first_of_None [simp]: "first_of v None = v"
  by (simp add: first_of_def split: option.split)

lemma query_param_of [simp]:
  "map_of (query_param n v @ ps) m = (if m = n then first_of v (map_of ps m) else map_of ps m)"
  "map_of (query_param n v) m = (if m = n then v else None)"
  by (simp_all add: query_param_def first_of_def split: option.split)

lemma wired_query:
  assumes "wired X S C"
  shows "query_checked (sv_Uri S) (wr_Query X ps) n conv chk = taken n conv chk (map_of ps n)"
    and "query_optional (sv_Uri S) (wr_Query X ps) n conv = taken n conv (\<lambda>x. None) (map_of ps n)"
  using assms
  by (auto simp: query_optional_def query_checked_def taken_def wired_def split: option.split sum.split)

lemma taken_text [simp]:
  "if_set chk v = None \<Longrightarrow> taken n (to_string U) chk v = Inr v"
  "taken n (to_string U) (\<lambda>x. None) v = Inr v"
  by (auto simp: taken_def to_string_def split: option.split)

lemma taken_bool: "wired X S C \<Longrightarrow> taken n (to_bool (sv_Uri S)) (\<lambda>x. None) (map_option (cl_Bool C) v) = Inr v"
  by (cases v) (simp_all add: taken_def to_bool_def wired_def)

lemma taken_time: "time_sent S C v \<Longrightarrow> taken n (to_time (sv_Uri S)) (\<lambda>x. None) (map_option (cl_Time C) v) = Inr v"
  by (cases v) (simp_all add: taken_def to_time_def time_sent_def)

lemma path_taken:
  "wired X S C \<Longrightarrow> s \<noteq> '''' \<Longrightarrow> (if esc then pathUnescape a else Some a) = Some s \<Longrightarrow>
   path_required (sv_Uri S) esc a n = Inr s"
  by (simp add: path_required_def wired_def)

lemma two_args: "map f as = map Some [x, y] \<Longrightarrow> f (as ! 0) = Some x \<and> f (as ! Suc 0) = Some y"
  by (auto simp: map_eq_Cons_conv)

lemma three_args: "map f as = map Some [x, y, z] \<Longrightarrow> f (as ! 0) = Some x \<and> f (as ! Suc 0) = Some y \<and> f (as ! 2) = Some z"
  by (auto simp: map_eq_Cons_conv numeral_2_eq_2)

lemma length_two: "length as = Suc (Suc 0) \<longleftrightarrow> (\<exists>a b. as = [a, b])"
  by (auto simp: length_Suc_conv)

lemma length_three: "length as = Suc (Suc (Suc 0)) \<longleftrightarrow> (\<exists>a b c. as = [a, b, c])"
  by (auto simp: length_Suc_conv)

lemma params_eta [simp]:
  "\<lparr>nq_Severity = nq_Severity q0, nq_Code = nq_Code q0, nq_NodeId = nq_NodeId q0,
     nq_Database = nq_Database q0, nq_Table = nq_Table q0, nq_PartitionId = nq_PartitionId q0\<rparr> = q0"
  "\<lparr>eq_NodeId = eq_NodeId q1, eq_Shard = eq_Shard q1, eq_Replica = eq_Replica q1,
     eq_PartitionId = eq_PartitionId q1, eq_PartName = eq_PartName q1, eq_Disk = eq_Disk q1,
     eq_Reason = eq_Reason q1\<rparr> = q1"
  "\<lparr>dq_NodeId = dq_NodeId q2, dq_Disk = dq_Disk q2, dq_Type = dq_Type q2,
     dq_Broken = dq_Broken q2\<rparr> = q2"
  "\<lparr>vq_From = vq_From q3, vq_To = vq_To q3, vq_NodeId = vq_NodeId q3, vq_Database = vq_Database q3,
     vq_Table = vq_Table q3, vq_PartitionId = vq_PartitionId q3, vq_PartName = vq_PartName q3,
     vq_EventType = vq_EventType q3\<rparr> = q3"
  "\<lparr>zq_NodeId = zq_NodeId q4, zq_Database = zq_Database q4, zq_Table = zq_Table q4,
     zq_PartitionId = zq_PartitionId q4\<rparr> = q4"
  "\<lparr>mq_NodeId = mq_NodeId q5, mq_Database = mq_Database q5, mq_Table = mq_Table q5,
     mq_MutationId = mq_MutationId q5, mq_Done = mq_Done q5, mq_Failed = mq_Failed q5\<rparr> = q5"
  "\<lparr>oq_Kind = oq_Kind q6, oq_NodeId = oq_NodeId q6, oq_Database = oq_Database q6, oq_Table = oq_Table q6,
     oq_PartitionId = oq_PartitionId q6\<rparr> = q6"
  "\<lparr>aq_NodeId = aq_NodeId q7, aq_Shard = aq_Shard q7, aq_Replica = aq_Replica q7,
     aq_PartitionId = aq_PartitionId q7, aq_PartName = aq_PartName q7, aq_Disk = aq_Disk q7,
     aq_Active = aq_Active q7, aq_MinBytesOnDisk = aq_MinBytesOnDisk q7,
     aq_MaxBytesOnDisk = aq_MaxBytesOnDisk q7\<rparr> = q7"
  "\<lparr>pq_PartitionId = pq_PartitionId q8, pq_Placement = pq_Placement q8, pq_Disk = pq_Disk q8,
     pq_Operation = pq_Operation q8, pq_NodeId = pq_NodeId q8, pq_Shard = pq_Shard q8, pq_Replica = pq_Replica q8,
     pq_HasConditions = pq_HasConditions q8\<rparr> = q8"
  "\<lparr>yq_NodeId = yq_NodeId q9, yq_Database = yq_Database q9, yq_Table = yq_Table q9,
     yq_Status = yq_Status q9, yq_Decision = yq_Decision q9\<rparr> = q9"
  "\<lparr>uq_NodeId = uq_NodeId q10, uq_Database = uq_Database q10, uq_Table = uq_Table q10,
     uq_Type = uq_Type q10, uq_CurrentlyExecuting = uq_CurrentlyExecuting q10,
     uq_HasException = uq_HasException q10\<rparr> = q10"
  "\<lparr>tq_Database = tq_Database q11, tq_Table = tq_Table q11, tq_Engine = tq_Engine q11,
     tq_StoragePolicy = tq_StoragePolicy q11, tq_HasPartitions = tq_HasPartitions q11,
     tq_HasConditions = tq_HasConditions q11\<rparr> = q11"
  by simp_all

lemma reach_ApplyTieringPartition:
  assumes w: "wired X S C"
    and h: "h_ApplyTieringPartition (sv_Handler S) token (x_database, x_table, x_partitionId, x_nodeId) st =
      (Inr response, st')"
    and good: "x_database \<noteq> ''''"
      "x_table \<noteq> ''''"
      "x_partitionId \<noteq> ''''"
    and c: "carried (sv_Jx S) {400, 404, 409, 500, 503} (TieringApplyResponse_ok (sv_Jx S)) TieringApplyResponse_Validate response"
  shows "sendApplyTieringPartition (connect X S st C) token (x_database, x_table, x_partitionId, x_nodeId) = Inr response"
  unfolding sendApplyTieringPartition_def Let_def and_then_def prod.case wired_part(1) [OF w] sum.case
proof (rule sent [OF w, where fs = "[''/tiering/tables/'', ''/'', ''/partitions/'', ''/apply'']"
      and ss = "[x_database, x_table, x_partitionId]"
      and op = ApplyTieringPartitionOperation and st' = st',
      OF _ _ _ _ _ apply_tiering_partition_exchange.gets_through c], goal_cases)
  case (4 as esc)
  then show ?case by (auto simp: length_three document [simplified] on_post_def)
next
  case (5 as esc r)
  then show ?case
    using three_args [OF 5(1)] path_taken [OF w] good 5(2,3) w [unfolded wired_def]
    by (simp add: call_handler_def handleApplyTieringPartitionRequest_def decodeApplyTieringPartitionParams_def
        and_then_def ApplyTieringPartition_database_def ApplyTieringPartition_table_def
        ApplyTieringPartition_partitionId_def ApplyTieringPartition_nodeId_def wired_query [OF w]
        taken_bool [OF w] taken_time query_required_def decodeApplyTieringPartitionRequest_def body_of_def
        encodeApplyTieringPartitionRequest_def TieringApplyRequest_roundtrip h del: map_of_append)
qed (use w in \<open>simp_all add: wired_def\<close>)

lemma reach_GetHealth:
  assumes w: "wired X S C"
    and h: "h_GetHealth (sv_Handler S) st = (Inr response, st')"
    and c: "carried (sv_Jx S) {400, 500} (\<lambda>x. True) (\<lambda>x. None) response"
  shows "sendGetHealth (connect X S st C) = Inr response"
  unfolding sendGetHealth_def Let_def and_then_def prod.case wired_part(1) [OF w] sum.case
proof (rule sent [OF w, where fs = "[''/healthz'']" and ss = "[]" and op = GetHealthOperation and st' = st',
      OF _ _ _ _ _ health_exchange.gets_through c], goal_cases)
  case (4 as esc)
  then show ?case by (auto simp: document [simplified] on_get_def)
next
  case (5 as esc r)
  then show ?case
    using 5(2,3)
    by (simp add: call_handler_def handleGetHealthRequest_def h del: map_of_append)
qed (use w in \<open>simp_all add: wired_def\<close>)

lemma reach_GetTable:
  assumes w: "wired X S C"
    and h: "h_GetTable (sv_Handler S) (x_database, x_table) st = (Inr response, st')"
    and good: "x_database \<noteq> ''''"
      "x_table \<noteq> ''''"
    and c: "carried (sv_Jx S) {400, 404, 500, 503} (TableResponse_ok (sv_Jx S)) TableResponse_Validate response"
  shows "sendGetTable (connect X S st C) (x_database, x_table) = Inr response"
  unfolding sendGetTable_def Let_def and_then_def prod.case wired_part(1) [OF w] sum.case
proof (rule sent [OF w, where fs = "[''/tables/'', ''/'', '''']" and ss = "[x_database, x_table]"
      and op = GetTableOperation and st' = st',
      OF _ _ _ _ _ table_exchange.gets_through c], goal_cases)
  case (4 as esc)
  then show ?case by (auto simp: length_two document [simplified] on_get_def)
next
  case (5 as esc r)
  then show ?case
    using two_args [OF 5(1)] path_taken [OF w] good 5(2,3)
    by (simp add: call_handler_def handleGetTableRequest_def decodeGetTableParams_def and_then_def
        GetTable_database_def GetTable_table_def wired_query [OF w] taken_bool [OF w] taken_time
        query_required_def h del: map_of_append)
qed (use w in \<open>simp_all add: wired_def\<close>)

lemma reach_GetTieringHistory:
  assumes w: "wired X S C"
    and h: "h_GetTieringHistory (sv_Handler S) q st = (Inr response, st')"
    and c: "carried (sv_Jx S) {400, 500, 503} (TieringHistoryResponse_ok (sv_Jx S)) TieringHistoryResponse_Validate response"
  shows "sendGetTieringHistory (connect X S st C) q = Inr response"
  unfolding sendGetTieringHistory_def Let_def and_then_def prod.case wired_part(1) [OF w] sum.case
proof (rule sent [OF w, where fs = "[''/tiering/history'']" and ss = "[]"
      and op = GetTieringHistoryOperation and st' = st',
      OF _ _ _ _ _ tiering_history_exchange.gets_through c], goal_cases)
  case (4 as esc)
  then show ?case by (auto simp: document [simplified] on_get_def)
next
  case (5 as esc r)
  then show ?case
    using 5(2,3)
    by (simp add: call_handler_def handleGetTieringHistoryRequest_def decodeGetTieringHistoryParams_def
        and_then_def GetTieringHistory_nodeId_def GetTieringHistory_database_def GetTieringHistory_table_def
        GetTieringHistory_partitionId_def wired_query [OF w] taken_bool [OF w] taken_time query_required_def h del: map_of_append)
qed (use w in \<open>simp_all add: wired_def\<close>)

lemma reach_GetTieringPlan:
  assumes w: "wired X S C"
    and h: "h_GetTieringPlan (sv_Handler S) q st = (Inr response, st')"
    and good: "if_set TieringPartitionStatus_Validate (yq_Status q) = None"
      "if_set TieringDecision_Validate (yq_Decision q) = None"
    and c: "carried (sv_Jx S) {400, 500, 503} (TieringPlanResponse_ok (sv_Jx S)) TieringPlanResponse_Validate response"
  shows "sendGetTieringPlan (connect X S st C) q = Inr response"
  unfolding sendGetTieringPlan_def Let_def and_then_def prod.case wired_part(1) [OF w] sum.case
proof (rule sent [OF w, where fs = "[''/tiering/plan'']" and ss = "[]" and op = GetTieringPlanOperation and st' = st',
      OF _ _ _ _ _ tiering_plan_exchange.gets_through c], goal_cases)
  case (4 as esc)
  then show ?case by (auto simp: document [simplified] on_get_def)
next
  case (5 as esc r)
  then show ?case
    using good 5(2,3)
    by (simp add: call_handler_def handleGetTieringPlanRequest_def decodeGetTieringPlanParams_def and_then_def
        GetTieringPlan_nodeId_def GetTieringPlan_database_def GetTieringPlan_table_def
        GetTieringPlan_status_def GetTieringPlan_decision_def wired_query [OF w] taken_bool [OF w] taken_time
        query_required_def h del: map_of_append)
qed (use w in \<open>simp_all add: wired_def\<close>)

lemma reach_GetTieringStatus:
  assumes w: "wired X S C"
    and h: "h_GetTieringStatus (sv_Handler S) st = (Inr response, st')"
    and c: "carried (sv_Jx S) {400, 500, 503} (TieringStatus_ok (sv_Jx S)) TieringStatus_Validate response"
  shows "sendGetTieringStatus (connect X S st C) = Inr response"
  unfolding sendGetTieringStatus_def Let_def and_then_def prod.case wired_part(1) [OF w] sum.case
proof (rule sent [OF w, where fs = "[''/tiering/status'']" and ss = "[]"
      and op = GetTieringStatusOperation and st' = st',
      OF _ _ _ _ _ tiering_status_exchange.gets_through c], goal_cases)
  case (4 as esc)
  then show ?case by (auto simp: document [simplified] on_get_def)
next
  case (5 as esc r)
  then show ?case
    using 5(2,3)
    by (simp add: call_handler_def handleGetTieringStatusRequest_def h del: map_of_append)
qed (use w in \<open>simp_all add: wired_def\<close>)

lemma reach_ListConditions:
  assumes w: "wired X S C"
    and h: "h_ListConditions (sv_Handler S) q st = (Inr response, st')"
    and good: "if_set Severity_Validate (nq_Severity q) = None"
    and c: "carried (sv_Jx S) {400, 500, 503} (ConditionsResponse_ok (sv_Jx S)) ConditionsResponse_Validate response"
  shows "sendListConditions (connect X S st C) q = Inr response"
  unfolding sendListConditions_def Let_def and_then_def prod.case wired_part(1) [OF w] sum.case
proof (rule sent [OF w, where fs = "[''/conditions'']" and ss = "[]" and op = ListConditionsOperation and st' = st',
      OF _ _ _ _ _ conditions_exchange.gets_through c], goal_cases)
  case (4 as esc)
  then show ?case by (auto simp: document [simplified] on_get_def)
next
  case (5 as esc r)
  then show ?case
    using good 5(2,3)
    by (simp add: call_handler_def handleListConditionsRequest_def decodeListConditionsParams_def and_then_def
        ListConditions_severity_def ListConditions_code_def ListConditions_nodeId_def
        ListConditions_database_def ListConditions_table_def ListConditions_partitionId_def wired_query [OF w]
        taken_bool [OF w] taken_time query_required_def h del: map_of_append)
qed (use w in \<open>simp_all add: wired_def\<close>)

lemma reach_ListDetachedParts:
  assumes w: "wired X S C"
    and h: "h_ListDetachedParts (sv_Handler S) (x_database, x_table, q) st = (Inr response, st')"
    and good: "x_database \<noteq> ''''"
      "x_table \<noteq> ''''"
    and c: "carried (sv_Jx S) {400, 404, 500, 503} (DetachedPartsResponse_ok (sv_Jx S)) DetachedPartsResponse_Validate response"
  shows "sendListDetachedParts (connect X S st C) (x_database, x_table, q) = Inr response"
  unfolding sendListDetachedParts_def Let_def and_then_def prod.case wired_part(1) [OF w] sum.case
proof (rule sent [OF w, where fs = "[''/tables/'', ''/'', ''/detached-parts'']" and ss = "[x_database, x_table]"
      and op = ListDetachedPartsOperation and st' = st',
      OF _ _ _ _ _ detached_parts_exchange.gets_through c], goal_cases)
  case (4 as esc)
  then show ?case by (auto simp: length_two document [simplified] on_get_def)
next
  case (5 as esc r)
  then show ?case
    using two_args [OF 5(1)] path_taken [OF w] good 5(2,3)
    by (simp add: call_handler_def handleListDetachedPartsRequest_def decodeListDetachedPartsParams_def
        and_then_def ListDetachedParts_database_def ListDetachedParts_table_def ListDetachedParts_nodeId_def
        ListDetachedParts_shard_def ListDetachedParts_replica_def ListDetachedParts_partitionId_def
        ListDetachedParts_partName_def ListDetachedParts_disk_def ListDetachedParts_reason_def
        wired_query [OF w] taken_bool [OF w] taken_time query_required_def h del: map_of_append)
qed (use w in \<open>simp_all add: wired_def\<close>)

lemma reach_ListMutations:
  assumes w: "wired X S C"
    and h: "h_ListMutations (sv_Handler S) q st = (Inr response, st')"
    and c: "carried (sv_Jx S) {400, 500, 503} (MutationsResponse_ok (sv_Jx S)) MutationsResponse_Validate response"
  shows "sendListMutations (connect X S st C) q = Inr response"
  unfolding sendListMutations_def Let_def and_then_def prod.case wired_part(1) [OF w] sum.case
proof (rule sent [OF w, where fs = "[''/operations/mutations'']" and ss = "[]"
      and op = ListMutationsOperation and st' = st',
      OF _ _ _ _ _ mutations_exchange.gets_through c], goal_cases)
  case (4 as esc)
  then show ?case by (auto simp: document [simplified] on_get_def)
next
  case (5 as esc r)
  then show ?case
    using 5(2,3)
    by (simp add: call_handler_def handleListMutationsRequest_def decodeListMutationsParams_def and_then_def
        ListMutations_nodeId_def ListMutations_database_def ListMutations_table_def
        ListMutations_mutationId_def ListMutations_done_def ListMutations_failed_def wired_query [OF w]
        taken_bool [OF w] taken_time query_required_def h del: map_of_append)
qed (use w in \<open>simp_all add: wired_def\<close>)

lemma reach_ListNodes:
  assumes w: "wired X S C"
    and h: "h_ListNodes (sv_Handler S) x_nodeId st = (Inr response, st')"
    and c: "carried (sv_Jx S) {400, 500, 503} (NodesResponse_ok (sv_Jx S)) NodesResponse_Validate response"
  shows "sendListNodes (connect X S st C) x_nodeId = Inr response"
  unfolding sendListNodes_def Let_def and_then_def prod.case wired_part(1) [OF w] sum.case
proof (rule sent [OF w, where fs = "[''/nodes'']" and ss = "[]" and op = ListNodesOperation and st' = st',
      OF _ _ _ _ _ nodes_exchange.gets_through c], goal_cases)
  case (4 as esc)
  then show ?case by (auto simp: document [simplified] on_get_def)
next
  case (5 as esc r)
  then show ?case
    using 5(2,3)
    by (simp add: call_handler_def handleListNodesRequest_def decodeListNodesParams_def and_then_def
        ListNodes_nodeId_def wired_query [OF w] taken_bool [OF w] taken_time query_required_def h del: map_of_append)
qed (use w in \<open>simp_all add: wired_def\<close>)

lemma reach_ListOperations:
  assumes w: "wired X S C"
    and h: "h_ListOperations (sv_Handler S) q st = (Inr response, st')"
    and good: "if_set OperationKind_Validate (oq_Kind q) = None"
    and c: "carried (sv_Jx S) {400, 500, 503} (OperationsResponse_ok (sv_Jx S)) OperationsResponse_Validate response"
  shows "sendListOperations (connect X S st C) q = Inr response"
  unfolding sendListOperations_def Let_def and_then_def prod.case wired_part(1) [OF w] sum.case
proof (rule sent [OF w, where fs = "[''/operations'']" and ss = "[]" and op = ListOperationsOperation and st' = st',
      OF _ _ _ _ _ operations_exchange.gets_through c], goal_cases)
  case (4 as esc)
  then show ?case by (auto simp: document [simplified] on_get_def)
next
  case (5 as esc r)
  then show ?case
    using good 5(2,3)
    by (simp add: call_handler_def handleListOperationsRequest_def decodeListOperationsParams_def and_then_def
        ListOperations_kind_def ListOperations_nodeId_def ListOperations_database_def ListOperations_table_def
        ListOperations_partitionId_def wired_query [OF w] taken_bool [OF w] taken_time query_required_def h del: map_of_append)
qed (use w in \<open>simp_all add: wired_def\<close>)

lemma reach_ListPartEvents:
  assumes w: "wired X S C"
    and h: "h_ListPartEvents (sv_Handler S) q st = (Inr response, st')"
    and good: "time_sent S C (vq_From q)"
      "time_sent S C (vq_To q)"
    and c: "carried (sv_Jx S) {400, 500, 503} (PartEventsResponse_ok (sv_Jx S)) PartEventsResponse_Validate response"
  shows "sendListPartEvents (connect X S st C) q = Inr response"
  unfolding sendListPartEvents_def Let_def and_then_def prod.case wired_part(1) [OF w] sum.case
proof (rule sent [OF w, where fs = "[''/part-events'']" and ss = "[]" and op = ListPartEventsOperation and st' = st',
      OF _ _ _ _ _ part_events_exchange.gets_through c], goal_cases)
  case (4 as esc)
  then show ?case by (auto simp: document [simplified] on_get_def)
next
  case (5 as esc r)
  then show ?case
    using good 5(2,3)
    by (simp add: call_handler_def handleListPartEventsRequest_def decodeListPartEventsParams_def and_then_def
        ListPartEvents_nodeId_def ListPartEvents_database_def ListPartEvents_table_def
        ListPartEvents_partitionId_def ListPartEvents_partName_def ListPartEvents_eventType_def
        ListPartEvents_from_def ListPartEvents_to_def wired_query [OF w] taken_bool [OF w] taken_time
        query_required_def h del: map_of_append)
qed (use w in \<open>simp_all add: wired_def\<close>)

lemma reach_ListReplicationQueue:
  assumes w: "wired X S C"
    and h: "h_ListReplicationQueue (sv_Handler S) q st = (Inr response, st')"
    and c: "carried (sv_Jx S) {400, 500, 503} (ReplicationQueueResponse_ok (sv_Jx S)) ReplicationQueueResponse_Validate response"
  shows "sendListReplicationQueue (connect X S st C) q = Inr response"
  unfolding sendListReplicationQueue_def Let_def and_then_def prod.case wired_part(1) [OF w] sum.case
proof (rule sent [OF w, where fs = "[''/operations/replication-queue'']" and ss = "[]"
      and op = ListReplicationQueueOperation and st' = st',
      OF _ _ _ _ _ replication_queue_exchange.gets_through c], goal_cases)
  case (4 as esc)
  then show ?case by (auto simp: document [simplified] on_get_def)
next
  case (5 as esc r)
  then show ?case
    using 5(2,3)
    by (simp add: call_handler_def handleListReplicationQueueRequest_def decodeListReplicationQueueParams_def
        and_then_def ListReplicationQueue_nodeId_def ListReplicationQueue_database_def
        ListReplicationQueue_table_def ListReplicationQueue_type_def
        ListReplicationQueue_currentlyExecuting_def ListReplicationQueue_hasException_def wired_query [OF w]
        taken_bool [OF w] taken_time query_required_def h del: map_of_append)
qed (use w in \<open>simp_all add: wired_def\<close>)

lemma reach_ListStorageDisks:
  assumes w: "wired X S C"
    and h: "h_ListStorageDisks (sv_Handler S) q st = (Inr response, st')"
    and c: "carried (sv_Jx S) {400, 500, 503} (StorageDisksResponse_ok (sv_Jx S)) StorageDisksResponse_Validate response"
  shows "sendListStorageDisks (connect X S st C) q = Inr response"
  unfolding sendListStorageDisks_def Let_def and_then_def prod.case wired_part(1) [OF w] sum.case
proof (rule sent [OF w, where fs = "[''/storage/disks'']" and ss = "[]"
      and op = ListStorageDisksOperation and st' = st',
      OF _ _ _ _ _ storage_disks_exchange.gets_through c], goal_cases)
  case (4 as esc)
  then show ?case by (auto simp: document [simplified] on_get_def)
next
  case (5 as esc r)
  then show ?case
    using 5(2,3)
    by (simp add: call_handler_def handleListStorageDisksRequest_def decodeListStorageDisksParams_def
        and_then_def ListStorageDisks_nodeId_def ListStorageDisks_disk_def ListStorageDisks_type_def
        ListStorageDisks_broken_def wired_query [OF w] taken_bool [OF w] taken_time query_required_def h del: map_of_append)
qed (use w in \<open>simp_all add: wired_def\<close>)

lemma reach_ListTableColumns:
  assumes w: "wired X S C"
    and h: "h_ListTableColumns (sv_Handler S) (x_database, x_table, x_nodeId, x_kind, x_name) st = (Inr response, st')"
    and good: "x_database \<noteq> ''''"
      "x_table \<noteq> ''''"
    and c: "carried (sv_Jx S) {400, 404, 500, 503} (TableColumnsResponse_ok (sv_Jx S)) TableColumnsResponse_Validate response"
  shows "sendListTableColumns (connect X S st C) (x_database, x_table, x_nodeId, x_kind, x_name) = Inr response"
  unfolding sendListTableColumns_def Let_def and_then_def prod.case wired_part(1) [OF w] sum.case
proof (rule sent [OF w, where fs = "[''/tables/'', ''/'', ''/columns'']" and ss = "[x_database, x_table]"
      and op = ListTableColumnsOperation and st' = st',
      OF _ _ _ _ _ table_columns_exchange.gets_through c], goal_cases)
  case (4 as esc)
  then show ?case by (auto simp: length_two document [simplified] on_get_def)
next
  case (5 as esc r)
  then show ?case
    using two_args [OF 5(1)] path_taken [OF w] good 5(2,3)
    by (simp add: call_handler_def handleListTableColumnsRequest_def decodeListTableColumnsParams_def
        and_then_def ListTableColumns_database_def ListTableColumns_table_def ListTableColumns_nodeId_def
        ListTableColumns_kind_def ListTableColumns_name_def wired_query [OF w] taken_bool [OF w] taken_time
        query_required_def h del: map_of_append)
qed (use w in \<open>simp_all add: wired_def\<close>)

lemma reach_ListTablePartitions:
  assumes w: "wired X S C"
    and h: "h_ListTablePartitions (sv_Handler S) (x_database, x_table, q) st = (Inr response, st')"
    and good: "x_database \<noteq> ''''"
      "x_table \<noteq> ''''"
      "if_set Placement_Validate (pq_Placement q) = None"
    and c: "carried (sv_Jx S) {400, 404, 500, 503} (TablePartitionsResponse_ok (sv_Jx S)) TablePartitionsResponse_Validate response"
  shows "sendListTablePartitions (connect X S st C) (x_database, x_table, q) = Inr response"
  unfolding sendListTablePartitions_def Let_def and_then_def prod.case wired_part(1) [OF w] sum.case
proof (rule sent [OF w, where fs = "[''/tables/'', ''/'', ''/partitions'']" and ss = "[x_database, x_table]"
      and op = ListTablePartitionsOperation and st' = st',
      OF _ _ _ _ _ table_partitions_exchange.gets_through c], goal_cases)
  case (4 as esc)
  then show ?case by (auto simp: length_two document [simplified] on_get_def)
next
  case (5 as esc r)
  then show ?case
    using two_args [OF 5(1)] path_taken [OF w] good 5(2,3)
    by (simp add: call_handler_def handleListTablePartitionsRequest_def decodeListTablePartitionsParams_def
        and_then_def ListTablePartitions_database_def ListTablePartitions_table_def
        ListTablePartitions_placement_def ListTablePartitions_operation_def ListTablePartitions_disk_def
        ListTablePartitions_nodeId_def ListTablePartitions_shard_def ListTablePartitions_replica_def
        ListTablePartitions_partitionId_def ListTablePartitions_hasConditions_def wired_query [OF w]
        taken_bool [OF w] taken_time query_required_def h del: map_of_append)
qed (use w in \<open>simp_all add: wired_def\<close>)

lemma reach_ListTableParts:
  assumes w: "wired X S C"
    and h: "h_ListTableParts (sv_Handler S) (x_database, x_table, q) st = (Inr response, st')"
    and good: "x_database \<noteq> ''''"
      "x_table \<noteq> ''''"
      "if_set UInt64String_Validate (aq_MinBytesOnDisk q) = None"
      "if_set UInt64String_Validate (aq_MaxBytesOnDisk q) = None"
    and c: "carried (sv_Jx S) {400, 404, 500, 503} (TablePartsResponse_ok (sv_Jx S)) TablePartsResponse_Validate response"
  shows "sendListTableParts (connect X S st C) (x_database, x_table, q) = Inr response"
  unfolding sendListTableParts_def Let_def and_then_def prod.case wired_part(1) [OF w] sum.case
proof (rule sent [OF w, where fs = "[''/tables/'', ''/'', ''/parts'']" and ss = "[x_database, x_table]"
      and op = ListTablePartsOperation and st' = st',
      OF _ _ _ _ _ table_parts_exchange.gets_through c], goal_cases)
  case (4 as esc)
  then show ?case by (auto simp: length_two document [simplified] on_get_def)
next
  case (5 as esc r)
  then show ?case
    using two_args [OF 5(1)] path_taken [OF w] good 5(2,3)
    by (simp add: call_handler_def handleListTablePartsRequest_def decodeListTablePartsParams_def and_then_def
        ListTableParts_database_def ListTableParts_table_def ListTableParts_nodeId_def ListTableParts_shard_def
        ListTableParts_replica_def ListTableParts_partitionId_def ListTableParts_partName_def
        ListTableParts_disk_def ListTableParts_active_def ListTableParts_minBytesOnDisk_def
        ListTableParts_maxBytesOnDisk_def wired_query [OF w] taken_bool [OF w] taken_time query_required_def h del: map_of_append)
qed (use w in \<open>simp_all add: wired_def\<close>)

lemma reach_ListTables:
  assumes w: "wired X S C"
    and h: "h_ListTables (sv_Handler S) q st = (Inr response, st')"
    and c: "carried (sv_Jx S) {400, 500, 503} (TablesResponse_ok (sv_Jx S)) TablesResponse_Validate response"
  shows "sendListTables (connect X S st C) q = Inr response"
  unfolding sendListTables_def Let_def and_then_def prod.case wired_part(1) [OF w] sum.case
proof (rule sent [OF w, where fs = "[''/tables'']" and ss = "[]" and op = ListTablesOperation and st' = st',
      OF _ _ _ _ _ tables_exchange.gets_through c], goal_cases)
  case (4 as esc)
  then show ?case by (auto simp: document [simplified] on_get_def)
next
  case (5 as esc r)
  then show ?case
    using 5(2,3)
    by (simp add: call_handler_def handleListTablesRequest_def decodeListTablesParams_def and_then_def
        ListTables_database_def ListTables_table_def ListTables_engine_def ListTables_storagePolicy_def
        ListTables_hasPartitions_def ListTables_hasConditions_def wired_query [OF w] taken_bool [OF w]
        taken_time query_required_def h del: map_of_append)
qed (use w in \<open>simp_all add: wired_def\<close>)

lemma reach_PauseTiering:
  assumes w: "wired X S C"
    and h: "h_PauseTiering (sv_Handler S) st = (Inr response, st')"
    and c: "carried (sv_Jx S) {400, 500, 503} (TieringStatus_ok (sv_Jx S)) TieringStatus_Validate response"
  shows "sendPauseTiering (connect X S st C) = Inr response"
  unfolding sendPauseTiering_def Let_def and_then_def prod.case wired_part(1) [OF w] sum.case
proof (rule sent [OF w, where fs = "[''/tiering/pause'']" and ss = "[]" and op = PauseTieringOperation and st' = st',
      OF _ _ _ _ _ pause_tiering_exchange.gets_through c], goal_cases)
  case (4 as esc)
  then show ?case by (auto simp: document [simplified] on_post_def)
next
  case (5 as esc r)
  then show ?case
    using 5(2,3)
    by (simp add: call_handler_def handlePauseTieringRequest_def h del: map_of_append)
qed (use w in \<open>simp_all add: wired_def\<close>)

lemma reach_ResumeTiering:
  assumes w: "wired X S C"
    and h: "h_ResumeTiering (sv_Handler S) st = (Inr response, st')"
    and c: "carried (sv_Jx S) {400, 500, 503} (TieringStatus_ok (sv_Jx S)) TieringStatus_Validate response"
  shows "sendResumeTiering (connect X S st C) = Inr response"
  unfolding sendResumeTiering_def Let_def and_then_def prod.case wired_part(1) [OF w] sum.case
proof (rule sent [OF w, where fs = "[''/tiering/resume'']" and ss = "[]"
      and op = ResumeTieringOperation and st' = st',
      OF _ _ _ _ _ resume_tiering_exchange.gets_through c], goal_cases)
  case (4 as esc)
  then show ?case by (auto simp: document [simplified] on_post_def)
next
  case (5 as esc r)
  then show ?case
    using 5(2,3)
    by (simp add: call_handler_def handleResumeTieringRequest_def h del: map_of_append)
qed (use w in \<open>simp_all add: wired_def\<close>)

lemma reach_RetryTieringPartition:
  assumes w: "wired X S C"
    and h: "h_RetryTieringPartition (sv_Handler S) token (x_database, x_table, x_partitionId, x_nodeId) st =
      (Inr response, st')"
    and good: "x_database \<noteq> ''''"
      "x_table \<noteq> ''''"
      "x_partitionId \<noteq> ''''"
    and c: "carried (sv_Jx S) {400, 404, 409, 500, 503} (TieringApplyResponse_ok (sv_Jx S)) TieringApplyResponse_Validate response"
  shows "sendRetryTieringPartition (connect X S st C) token (x_database, x_table, x_partitionId, x_nodeId) = Inr response"
  unfolding sendRetryTieringPartition_def Let_def and_then_def prod.case wired_part(1) [OF w] sum.case
proof (rule sent [OF w, where fs = "[''/tiering/tables/'', ''/'', ''/partitions/'', ''/retry'']"
      and ss = "[x_database, x_table, x_partitionId]"
      and op = RetryTieringPartitionOperation and st' = st',
      OF _ _ _ _ _ retry_tiering_partition_exchange.gets_through c], goal_cases)
  case (4 as esc)
  then show ?case by (auto simp: length_three document [simplified] on_post_def)
next
  case (5 as esc r)
  then show ?case
    using three_args [OF 5(1)] path_taken [OF w] good 5(2,3) w [unfolded wired_def]
    by (simp add: call_handler_def handleRetryTieringPartitionRequest_def decodeRetryTieringPartitionParams_def
        and_then_def RetryTieringPartition_database_def RetryTieringPartition_table_def
        RetryTieringPartition_partitionId_def RetryTieringPartition_nodeId_def wired_query [OF w]
        taken_bool [OF w] taken_time query_required_def decodeRetryTieringPartitionRequest_def body_of_def
        encodeRetryTieringPartitionRequest_def TieringApplyRequest_roundtrip h del: map_of_append)
qed (use w in \<open>simp_all add: wired_def\<close>)

section \<open>Every call\<close>

definition comes_back ::
  "wire \<Rightarrow> 's rest_server \<Rightarrow> rest_client \<Rightarrow> ('s \<Rightarrow> (gotext + 'r response) \<times> 's) \<Rightarrow> ('r response \<Rightarrow> bool) \<Rightarrow>
   (rest_client \<Rightarrow> client_error + 'r response) \<Rightarrow> bool" where
  "comes_back X S C handled good send \<longleftrightarrow>
     (\<forall>st response. fst (handled st) = Inr response \<longrightarrow> good response \<longrightarrow> send (connect X S st C) = Inr response)"

lemma comes_backI:
  "(\<And>st response st'. handled st = (Inr response, st') \<Longrightarrow> good response \<Longrightarrow> send (connect X S st C) = Inr response) \<Longrightarrow>
   comes_back X S C handled good send"
  unfolding comes_back_def by (metis prod.collapse)

text \<open>C10: The generated client and the generated server agree on all twenty-one operations: under \<open>wired\<close>, a call with
  parameters that validate and path arguments that are not empty reaches exactly its own handler with exactly those
  parameters (and, for the two actions, its token), in any state of the server, and what the handler answers is what
  the call returns, whenever a document can carry the answer and it validates.\<close>

theorem calls_reach_handlers:
  assumes "wired X S C"
    and "database \<noteq> ''''"
    and "table \<noteq> ''''"
    and "pid \<noteq> ''''"
    and "if_set TieringPartitionStatus_Validate (yq_Status yq) = None"
    and "if_set TieringDecision_Validate (yq_Decision yq) = None"
    and "if_set Severity_Validate (nq_Severity nq) = None"
    and "if_set OperationKind_Validate (oq_Kind oq) = None"
    and "time_sent S C (vq_From vq)"
    and "time_sent S C (vq_To vq)"
    and "if_set Placement_Validate (pq_Placement pq) = None"
    and "if_set UInt64String_Validate (aq_MinBytesOnDisk aq) = None"
    and "if_set UInt64String_Validate (aq_MaxBytesOnDisk aq) = None"
  shows "comes_back X S C (h_ApplyTieringPartition (sv_Handler S) token (database, table, pid, node))
       (carried (sv_Jx S) {400, 404, 409, 500, 503} (TieringApplyResponse_ok (sv_Jx S)) TieringApplyResponse_Validate)
       (\<lambda>K. sendApplyTieringPartition K token (database, table, pid, node)) \<and>
     comes_back X S C (h_GetHealth (sv_Handler S)) (carried (sv_Jx S) {400, 500} (\<lambda>x. True) (\<lambda>x. None)) sendGetHealth \<and>
     comes_back X S C (h_GetTable (sv_Handler S) (database, table))
       (carried (sv_Jx S) {400, 404, 500, 503} (TableResponse_ok (sv_Jx S)) TableResponse_Validate)
       (\<lambda>K. sendGetTable K (database, table)) \<and>
     comes_back X S C (h_GetTieringHistory (sv_Handler S) hq)
       (carried (sv_Jx S) {400, 500, 503} (TieringHistoryResponse_ok (sv_Jx S)) TieringHistoryResponse_Validate)
       (\<lambda>K. sendGetTieringHistory K hq) \<and>
     comes_back X S C (h_GetTieringPlan (sv_Handler S) yq)
       (carried (sv_Jx S) {400, 500, 503} (TieringPlanResponse_ok (sv_Jx S)) TieringPlanResponse_Validate)
       (\<lambda>K. sendGetTieringPlan K yq) \<and>
     comes_back X S C (h_GetTieringStatus (sv_Handler S)) (carried (sv_Jx S) {400, 500, 503} (TieringStatus_ok (sv_Jx S)) TieringStatus_Validate) sendGetTieringStatus \<and>
     comes_back X S C (h_ListConditions (sv_Handler S) nq)
       (carried (sv_Jx S) {400, 500, 503} (ConditionsResponse_ok (sv_Jx S)) ConditionsResponse_Validate)
       (\<lambda>K. sendListConditions K nq) \<and>
     comes_back X S C (h_ListDetachedParts (sv_Handler S) (database, table, eq))
       (carried (sv_Jx S) {400, 404, 500, 503} (DetachedPartsResponse_ok (sv_Jx S)) DetachedPartsResponse_Validate)
       (\<lambda>K. sendListDetachedParts K (database, table, eq)) \<and>
     comes_back X S C (h_ListMutations (sv_Handler S) mq)
       (carried (sv_Jx S) {400, 500, 503} (MutationsResponse_ok (sv_Jx S)) MutationsResponse_Validate)
       (\<lambda>K. sendListMutations K mq) \<and>
     comes_back X S C (h_ListNodes (sv_Handler S) nodeId)
       (carried (sv_Jx S) {400, 500, 503} (NodesResponse_ok (sv_Jx S)) NodesResponse_Validate)
       (\<lambda>K. sendListNodes K nodeId) \<and>
     comes_back X S C (h_ListOperations (sv_Handler S) oq)
       (carried (sv_Jx S) {400, 500, 503} (OperationsResponse_ok (sv_Jx S)) OperationsResponse_Validate)
       (\<lambda>K. sendListOperations K oq) \<and>
     comes_back X S C (h_ListPartEvents (sv_Handler S) vq)
       (carried (sv_Jx S) {400, 500, 503} (PartEventsResponse_ok (sv_Jx S)) PartEventsResponse_Validate)
       (\<lambda>K. sendListPartEvents K vq) \<and>
     comes_back X S C (h_ListReplicationQueue (sv_Handler S) uq)
       (carried (sv_Jx S) {400, 500, 503} (ReplicationQueueResponse_ok (sv_Jx S)) ReplicationQueueResponse_Validate)
       (\<lambda>K. sendListReplicationQueue K uq) \<and>
     comes_back X S C (h_ListStorageDisks (sv_Handler S) dq)
       (carried (sv_Jx S) {400, 500, 503} (StorageDisksResponse_ok (sv_Jx S)) StorageDisksResponse_Validate)
       (\<lambda>K. sendListStorageDisks K dq) \<and>
     comes_back X S C (h_ListTableColumns (sv_Handler S) (database, table, nodeId, kind, name))
       (carried (sv_Jx S) {400, 404, 500, 503} (TableColumnsResponse_ok (sv_Jx S)) TableColumnsResponse_Validate)
       (\<lambda>K. sendListTableColumns K (database, table, nodeId, kind, name)) \<and>
     comes_back X S C (h_ListTablePartitions (sv_Handler S) (database, table, pq))
       (carried (sv_Jx S) {400, 404, 500, 503} (TablePartitionsResponse_ok (sv_Jx S)) TablePartitionsResponse_Validate)
       (\<lambda>K. sendListTablePartitions K (database, table, pq)) \<and>
     comes_back X S C (h_ListTableParts (sv_Handler S) (database, table, aq))
       (carried (sv_Jx S) {400, 404, 500, 503} (TablePartsResponse_ok (sv_Jx S)) TablePartsResponse_Validate)
       (\<lambda>K. sendListTableParts K (database, table, aq)) \<and>
     comes_back X S C (h_ListTables (sv_Handler S) tq)
       (carried (sv_Jx S) {400, 500, 503} (TablesResponse_ok (sv_Jx S)) TablesResponse_Validate)
       (\<lambda>K. sendListTables K tq) \<and>
     comes_back X S C (h_PauseTiering (sv_Handler S)) (carried (sv_Jx S) {400, 500, 503} (TieringStatus_ok (sv_Jx S)) TieringStatus_Validate) sendPauseTiering \<and>
     comes_back X S C (h_ResumeTiering (sv_Handler S)) (carried (sv_Jx S) {400, 500, 503} (TieringStatus_ok (sv_Jx S)) TieringStatus_Validate) sendResumeTiering \<and>
     comes_back X S C (h_RetryTieringPartition (sv_Handler S) token (database, table, pid, node))
       (carried (sv_Jx S) {400, 404, 409, 500, 503} (TieringApplyResponse_ok (sv_Jx S)) TieringApplyResponse_Validate)
       (\<lambda>K. sendRetryTieringPartition K token (database, table, pid, node))"
  using assms by (intro conjI comes_backI)
    (simp_all add: reach_ApplyTieringPartition reach_GetHealth reach_GetTable reach_GetTieringHistory
      reach_GetTieringPlan reach_GetTieringStatus reach_ListConditions reach_ListDetachedParts
      reach_ListMutations reach_ListNodes reach_ListOperations reach_ListPartEvents
      reach_ListReplicationQueue reach_ListStorageDisks reach_ListTableColumns reach_ListTablePartitions
      reach_ListTableParts reach_ListTables reach_PauseTiering reach_ResumeTiering
      reach_RetryTieringPartition)


section \<open>A wire\<close>

text \<open>Texts with every byte escaped that is not unreserved, and a query of such names and values.\<close>

fun escape_part :: "string \<Rightarrow> string" where
  "escape_part [] = []"
| "escape_part (c # s) =
     (if unreserved (byte c) then [c] else [CHR ''%'', upper_hex (byte c div 16), upper_hex (byte c mod 16)]) @ escape_part s"

definition unescape_part :: "string \<Rightarrow> string" where
  "unescape_part s = (case pathUnescape s of None \<Rightarrow> s | Some u \<Rightarrow> u)"

definition query_text :: "(string \<times> string) list \<Rightarrow> string" where
  "query_text ps = concat (map (\<lambda>(n, v). escape_part n @ ''='' @ escape_part v @ ''&'') ps)"

definition query_pairs :: "string \<Rightarrow> (string \<times> string) list" where
  "query_pairs q =
     map (\<lambda>p. (unescape_part (takeWhile (\<lambda>c. c \<noteq> CHR ''='') p), unescape_part (tl (dropWhile (\<lambda>c. c \<noteq> CHR ''='') p))))
       (filter (\<lambda>p. p \<noteq> '''') (split_on (CHR ''&'') q))"

lemma upper_hex_range: "n < 16 \<Longrightarrow> n \<in> set [0 :: nat, 1, 2, 3, 4, 5, 6, 7, 8, 9, 10, 11, 12, 13, 14, 15]"
  by (simp add: numeral_eq_Suc less_Suc_eq)

lemma upper_hex_val: "n < 16 \<Longrightarrow> hex_val (upper_hex n) = Some n"
  using upper_hex_range [of n] by (auto simp: upper_hex_def hex_val_def)

lemma upper_hex_unreserved: "n < 16 \<Longrightarrow> unreserved (byte (upper_hex n))"
  using upper_hex_range [of n] by (auto simp: upper_hex_def unreserved_def)

lemma byte_digits: "byte c div 16 < 16" "byte c mod 16 < 16" "16 * (byte c div 16) + byte c mod 16 = byte c"
  using nat_of_char_less_256 [of c] by (simp_all add: less_mult_imp_div_less)

lemma escape_part_back [simp]: "pathUnescape (escape_part s) = Some s"
proof (induction s)
  case (Cons c s)
  have "unreserved (byte c) \<Longrightarrow> c \<noteq> CHR ''%''" by (auto simp: unreserved_def)
  with Cons show ?case by (auto simp: upper_hex_val byte_digits)
qed simp

lemma escape_part_normal: "normal_path (escape_part s)"
proof (induction s)
  case (Cons c s)
  have "unreserved (byte c) \<Longrightarrow> c \<noteq> CHR ''%''" by (auto simp: unreserved_def)
  with Cons show ?case by (auto simp: upper_hex_val byte_digits)
qed simp

lemma escape_part_chars: "c \<in> set (escape_part s) \<Longrightarrow> c = CHR ''%'' \<or> unreserved (byte c)"
  by (induction s) (auto simp: upper_hex_unreserved byte_digits split: if_splits)

lemma escape_part_free [simp]:
  "CHR ''/'' \<notin> set (escape_part s)" "CHR ''='' \<notin> set (escape_part s)" "CHR ''&'' \<notin> set (escape_part s)"
  using escape_part_chars [of _ s] by (fastforce simp: unreserved_def)+

lemma unescape_part_back [simp]: "unescape_part (escape_part s) = s"
  by (simp add: unescape_part_def)

lemma query_pairs_text: "query_pairs (query_text ps) = ps"
proof (induction ps)
  case (Cons p ps)
  obtain n v where p: "p = (n, v)" by fastforce
  have "split_on (CHR ''&'') (query_text (p # ps)) = (escape_part n @ ''='' @ escape_part v) # split_on (CHR ''&'') (query_text ps)"
    using split_on_append [of "CHR ''&''" "escape_part n @ ''='' @ escape_part v" "query_text ps"]
    by (simp add: query_text_def p)
  moreover have "\<forall>c \<in> set (escape_part n). c \<noteq> CHR ''=''" using escape_part_free(2) by blast
  then have "takeWhile (\<lambda>c. c \<noteq> CHR ''='') (escape_part n @ ''='' @ escape_part v) = escape_part n"
    "dropWhile (\<lambda>c. c \<noteq> CHR ''='') (escape_part n @ ''='' @ escape_part v) = ''='' @ escape_part v"
    by (simp_all add: takeWhile_append2 dropWhile_append2)
  ultimately show ?case using Cons by (simp add: query_pairs_def p)
qed (simp add: query_pairs_def query_text_def)

definition sample_wire :: wire where
  "sample_wire = \<lparr>wr_Query = query_text, wr_Text = (\<lambda>d. ''{}''), wr_Media = plain_media\<rparr>"

definition wired_web :: web_env where
  "wired_web = quiet_web
     \<lparr>we_Uri := (we_Uri quiet_web)\<lparr>ue_query := (\<lambda>q n. map_option Inr (map_of (query_pairs q) n))\<rparr>,
      we_Jx := (we_Jx quiet_web)\<lparr>jx_read_url := (\<lambda>s. Some aboutBlank)\<rparr>,
      we_Normalize := (\<lambda>p. if normal_path p then Some p else None)\<rparr>"

definition sample_caller :: rest_client where
  "sample_caller =
     \<lparr>cl_Path = (\<lambda>s. Inr (escape_part s)), cl_Bool = (\<lambda>b. if b then ''true'' else ''false''), cl_Time = (\<lambda>t. ''''),
      cl_Do = (\<lambda>r. Inl no_text), cl_Jx = we_Jx wired_web\<rparr>"

lemma sample_wired: "wired sample_wire (restServer wired_web I) sample_caller"
  by (simp add: wired_def sample_wire_def sample_caller_def wired_web_def quiet_web_def restServer_def plain_media_types
      escape_part_normal query_pairs_text)

text \<open>Parameters that ask for nothing, but the partitions that are split and the active parts of at least a hundred bytes.\<close>

definition bare_plan :: plan_params where
  "bare_plan = \<lparr>yq_NodeId = None, yq_Database = None, yq_Table = None, yq_Status = None, yq_Decision = None\<rparr>"

definition bare_conditions :: condition_params where
  "bare_conditions = \<lparr>nq_Severity = None, nq_Code = None, nq_NodeId = None, nq_Database = None, nq_Table = None,
     nq_PartitionId = None\<rparr>"

definition bare_operations :: operation_params where
  "bare_operations = \<lparr>oq_Kind = None, oq_NodeId = None, oq_Database = None, oq_Table = None, oq_PartitionId = None\<rparr>"

definition bare_events :: event_params where
  "bare_events = \<lparr>vq_From = None, vq_To = None, vq_NodeId = None, vq_Database = None, vq_Table = None,
     vq_PartitionId = None, vq_PartName = None, vq_EventType = None\<rparr>"

definition split_partitions :: partition_params where
  "split_partitions = \<lparr>pq_PartitionId = None, pq_Placement = Some ''split'', pq_Disk = None, pq_Operation = None,
     pq_NodeId = None, pq_Shard = None, pq_Replica = None, pq_HasConditions = None\<rparr>"

definition large_parts :: part_params where
  "large_parts = \<lparr>aq_NodeId = None, aq_Shard = None, aq_Replica = None, aq_PartitionId = None, aq_PartName = None,
     aq_Disk = None, aq_Active = Some True, aq_MinBytesOnDisk = Some ''100'', aq_MaxBytesOnDisk = None\<rparr>"

lemmas bare_defs = bare_plan_def bare_conditions_def bare_operations_def bare_events_def split_partitions_def large_parts_def

theorem calls_reach_handlers_witness:
  "\<exists>I. sendApplyTieringPartition (connect sample_wire (restServer wired_web I) None sample_caller) ''token''
     (''a/b'', ''100%'', ''p'', ''n'') = Inr (RespUnavailable noTieringProblem)"
proof -
  define I where "I = \<lparr>ai_Collect = reverse_env, ai_Api = \<lparr>ae_parse_url = (\<lambda>s. Inl no_text), ae_json = (\<lambda>e. Inl no_text)\<rparr>,
    ai_State = None, ai_Go = sample_env, ai_Nodes = sample_server, ai_CtxErr = no_text, ai_Now = 7\<rparr>"
  let ?S = "restServer wired_web I"
  have "comes_back sample_wire ?S sample_caller
      (h_ApplyTieringPartition (sv_Handler ?S) ''token'' (''a/b'', ''100%'', ''p'', ''n''))
      (carried (sv_Jx ?S) {400, 404, 409, 500, 503} (TieringApplyResponse_ok (sv_Jx ?S)) TieringApplyResponse_Validate)
      (\<lambda>K. sendApplyTieringPartition K ''token'' (''a/b'', ''100%'', ''p'', ''n''))"
    by (rule calls_reach_handlers [where database = "''a/b''" and table = "''100%''" and pid = "''p''" and
        yq = bare_plan and nq = bare_conditions and oq = bare_operations and vq = bare_events and pq = split_partitions and
        aq = large_parts, OF sample_wired [of I], THEN conjunct1])
      (simp_all add: bare_defs time_sent_def Placement_Validate_def UInt64String_Validate_def all_digits_def is_digit_def)
  moreover have "fst (h_ApplyTieringPartition (sv_Handler ?S) ''token'' (''a/b'', ''100%'', ''p'', ''n'') None) =
      Inr (RespUnavailable noTieringProblem)"
    by (simp add: restServer_def apiHandler_def acts_def ApplyTieringPartition_def Let_def)
  moreover have "carried (sv_Jx ?S) {400, 404, 409, 500, 503} (TieringApplyResponse_ok (sv_Jx ?S))
      TieringApplyResponse_Validate (RespUnavailable noTieringProblem)"
    by (simp add: carried_def fits_def problem_of_def noTieringProblem_def api_problem_def ProblemDetails_ok_def
        ProblemDetails_valid url_ok_def restServer_def wired_web_def in_i32_def int_between_def)
  ultimately show ?thesis unfolding comes_back_def by blast
qed

end
